(* ===== verification/MRA_Prelude.thy ===== *)
theory MRA_Prelude
  imports Main "HOL-Library.Word" "HOL-Library.Product_Lexorder"
begin

text \<open>
  Vocabulary shared by every component: Python exceptions as values, the
  exception monad, row tables with a key column, identifiers and instants, and
  the character classes of the identifier patterns.

  A function that may raise returns \<open>py_error + 'a\<close>: \<open>Inl\<close> is the raised
  exception, \<open>Inr\<close> the returned value. A database operation takes the database
  and returns \<open>py_error + 'a \<times> db\<close>; what a raised exception does to the database
  (the transaction is rolled back) is said by the unit of work.
\<close>

section \<open>Exceptions\<close>

text \<open>
  \<open>DbError\<close> is an error the database raises itself (a CHECK, key or foreign-key
  constraint, or a trigger). The constructors from \<open>IdempotencyKeyReusedError\<close> on
  are the typed failures of \<open>runtime/errors.py\<close>. Message texts are kept where
  they are constant; interpolated values are dropped.
\<close>

datatype py_error =
    ValueError string
  | TypeError string
  | PyRuntimeError string
  | KeyError
  | AssertionError
  | InvalidOperation
  | ZeroDivisionError
  | OverflowError
  | DbError string
  | InvalidRuntimeTransition string
  | IdempotencyKeyReusedError
  | CommandInProgressError
  | CommandPreviouslyFailedError string
  | StaleFenceError
  | RuntimeNotFoundError
  | RuntimeStateConflictError string
  | ConcurrentCommandSucceeded bool
  | DecisionAuthorityIntegrityError string
  | InferenceAuthorityIntegrityError string

type_synonym 'a result = "py_error + 'a"

section \<open>The exception monad\<close>

definition bindE :: "'e + 'a \<Rightarrow> ('a \<Rightarrow> 'e + 'b) \<Rightarrow> 'e + 'b" where
  "bindE m f = (case m of Inl e \<Rightarrow> Inl e | Inr x \<Rightarrow> f x)"

definition guardE :: "bool \<Rightarrow> 'e \<Rightarrow> 'e + unit" where
  "guardE ok e = (if ok then Inr () else Inl e)"

definition thenE :: "'e + unit \<Rightarrow> 'e + 'b \<Rightarrow> 'e + 'b" where
  "thenE m n = bindE m (\<lambda>_. n)"

definition mapR :: "('a \<Rightarrow> 'b) \<Rightarrow> 'e + 'a \<Rightarrow> 'e + 'b" where
  "mapR f m = bindE m (\<lambda>x. Inr (f x))"

definition optE :: "'a option \<Rightarrow> 'e \<Rightarrow> 'e + 'a" where
  "optE m e = (case m of None \<Rightarrow> Inl e | Some x \<Rightarrow> Inr x)"

definition errorE :: "'e option \<Rightarrow> 'e + unit" where
  "errorE m = (case m of None \<Rightarrow> Inr () | Some e \<Rightarrow> Inl e)"

fun mapE :: "('a \<Rightarrow> 'e + 'b) \<Rightarrow> 'a list \<Rightarrow> 'e + 'b list" where
  "mapE f [] = Inr []"
| "mapE f (x # xs) = bindE (f x) (\<lambda>y. bindE (mapE f xs) (\<lambda>ys. Inr (y # ys)))"

fun foldE :: "('a \<Rightarrow> 's \<Rightarrow> 'e + 's) \<Rightarrow> 'a list \<Rightarrow> 's \<Rightarrow> 'e + 's" where
  "foldE f [] s = Inr s"
| "foldE f (x # xs) s = bindE (f x s) (foldE f xs)"

text \<open>\<open>any(...)\<close>, which stops at the first true element.\<close>

fun anyE :: "('a \<Rightarrow> 'e + bool) \<Rightarrow> 'a list \<Rightarrow> 'e + bool" where
  "anyE f [] = Inr False"
| "anyE f (x # xs) = bindE (f x) (\<lambda>b. if b then Inr True else anyE f xs)"

lemma bindE_simps [simp]:
  "bindE (Inl e) f = Inl e"
  "bindE (Inr x) f = f x"
  by (simp_all add: bindE_def)

lemma guardE_simps [simp]:
  "guardE True e = Inr ()"
  "guardE False e = Inl e"
  by (simp_all add: guardE_def)

lemma thenE_simps [simp]:
  "thenE (Inl e) n = Inl e"
  "thenE (Inr u) n = n"
  by (simp_all add: thenE_def)

lemma bindE_Inr_iff: "bindE m f = Inr y \<longleftrightarrow> (\<exists>x. m = Inr x \<and> f x = Inr y)"
  by (cases m) simp_all

lemma bindE_Inl_iff:
  "bindE m f = Inl e \<longleftrightarrow> m = Inl e \<or> (\<exists>x. m = Inr x \<and> f x = Inl e)"
  by (cases m) simp_all

lemma guardE_Inr_iff [simp]: "guardE ok e = Inr u \<longleftrightarrow> ok"
  by (cases ok) simp_all

lemma guardE_Inl_iff [simp]: "guardE ok e = Inl e' \<longleftrightarrow> \<not> ok \<and> e' = e"
  by (cases ok) auto

lemma thenE_Inr_iff: "thenE m n = Inr y \<longleftrightarrow> m = Inr () \<and> n = Inr y"
  by (cases m) simp_all

lemma thenE_Inl_iff: "thenE m n = Inl e \<longleftrightarrow> m = Inl e \<or> (m = Inr () \<and> n = Inl e)"
  by (cases m) simp_all

lemma thenE_guardE [simp]: "thenE (guardE ok e) n = (if ok then n else Inl e)"
  by (cases ok) simp_all

lemma mapR_Inr_iff: "mapR f m = Inr y \<longleftrightarrow> (\<exists>x. m = Inr x \<and> y = f x)"
  by (cases m) (auto simp: mapR_def)

lemma optE_Inr_iff [simp]: "optE m e = Inr x \<longleftrightarrow> m = Some x"
  by (simp add: optE_def split: option.split)

lemma optE_simps [simp]:
  "optE None e = Inl e"
  "optE (Some x) e = Inr x"
  by (simp_all add: optE_def)

lemma optE_Inl_iff: "optE m e = Inl e' \<longleftrightarrow> m = None \<and> e' = e"
  by (cases m) auto

lemma errorE_simps [simp]:
  "errorE None = Inr ()"
  "errorE (Some e) = Inl e"
  by (simp_all add: errorE_def)

lemma errorE_Inr_iff [simp]: "errorE m = Inr u \<longleftrightarrow> m = None"
  by (cases m) simp_all

lemma errorE_Inl_iff [simp]: "errorE m = Inl e \<longleftrightarrow> m = Some e"
  by (cases m) simp_all

lemma bindE_cong [fundef_cong]:
  "m = m' \<Longrightarrow> (\<And>x. m' = Inr x \<Longrightarrow> f x = g x) \<Longrightarrow> bindE m f = bindE m' g"
  by (cases m') simp_all

lemma mapE_cong [fundef_cong]:
  "xs = ys \<Longrightarrow> (\<And>x. x \<in> set ys \<Longrightarrow> f x = g x) \<Longrightarrow> mapE f xs = mapE g ys"
  by (induction ys arbitrary: xs) auto

lemma mapE_Inr_length: "mapE f xs = Inr ys \<Longrightarrow> length ys = length xs"
  by (induction xs arbitrary: ys) (auto simp: bindE_Inr_iff)

lemma mapE_Inr_nth:
  "mapE f xs = Inr ys \<Longrightarrow> i < length xs \<Longrightarrow> f (xs ! i) = Inr (ys ! i)"
proof (induction xs arbitrary: ys i)
  case (Cons x xs)
  then obtain y zs where "f x = Inr y" "mapE f xs = Inr zs" "ys = y # zs"
    by (auto simp: bindE_Inr_iff)
  with Cons show ?case by (cases i) auto
qed simp

lemma mapE_Inr_member:
  "mapE f xs = Inr ys \<Longrightarrow> y \<in> set ys \<Longrightarrow> \<exists>x\<in>set xs. f x = Inr y"
  by (induction xs arbitrary: ys) (auto simp: bindE_Inr_iff)

lemma mapE_all_Inr:
  "(\<And>x. x \<in> set xs \<Longrightarrow> f x = Inr (g x)) \<Longrightarrow> mapE f xs = Inr (map g xs)"
  by (induction xs) simp_all

lemma anyE_Inr_False: "anyE f xs = Inr False \<longleftrightarrow> (\<forall>x \<in> set xs. f x = Inr False)"
  by (induction xs) (auto simp: bindE_Inr_iff)

lemma foldE_Inl: "foldE f xs s = Inl e \<Longrightarrow> \<exists>x \<in> set xs. \<exists>u. f x u = Inl e"
proof (induction xs arbitrary: s)
  case (Cons x xs)
  show ?case
  proof (cases "f x s")
    case (Inl e')
    with Cons.prems have "f x s = Inl e" by simp
    then show ?thesis by (intro bexI [of _ x] exI [of _ s]) simp_all
  next
    case (Inr u)
    with Cons.prems have "foldE f xs u = Inl e" by simp
    from Cons.IH [OF this] show ?thesis by (blast intro: list.set_intros)
  qed
qed simp

text \<open>
  A loop that collects: the invariant holds at the end, nothing collected is lost,
  and every element was collected.
\<close>

lemma foldE_collects:
  assumes "foldE f xs s = Inr t" and "I s"
    and "\<And>x u v. x \<in> set xs \<Longrightarrow> I u \<Longrightarrow> f x u = Inr v \<Longrightarrow> I v \<and> set u \<subseteq> set v \<and> x \<in> set v"
  shows "I t \<and> set s \<subseteq> set t \<and> set xs \<subseteq> set t"
  using assms
proof (induction xs arbitrary: s)
  case (Cons x xs)
  from Cons.prems(1) obtain v where v: "f x s = Inr v" "foldE f xs v = Inr t"
    by (auto simp: bindE_Inr_iff)
  have step: "I v \<and> set s \<subseteq> set v \<and> x \<in> set v"
    by (rule Cons.prems(3) [OF _ Cons.prems(2) v(1)]) simp
  have "I t \<and> set v \<subseteq> set t \<and> set xs \<subseteq> set t"
  proof (rule Cons.IH [OF v(2)])
    show "I v" using step by simp
  qed (rule Cons.prems(3), simp_all)
  with step show ?case by auto
qed simp

lemma foldE_keeps:
  assumes "foldE f xs s = Inr t" and "I s"
    and "\<And>x u v. x \<in> set xs \<Longrightarrow> I u \<Longrightarrow> f x u = Inr v \<Longrightarrow> I v"
  shows "I t"
  using assms
proof (induction xs arbitrary: s)
  case (Cons x xs)
  from Cons.prems(1) obtain v where v: "f x s = Inr v" "foldE f xs v = Inr t"
    by (auto simp: bindE_Inr_iff)
  have "I v" by (rule Cons.prems(3) [OF _ Cons.prems(2) v(1)]) simp
  then show ?case
    by (rule Cons.IH [OF v(2)]) (rule Cons.prems(3), simp_all)
qed simp

section \<open>Identifiers and instants\<close>

text \<open>
  A UUID is its 128-bit value. Its canonical text is thirty-two lowercase
  hexadecimal digits in groups of 8, 4, 4, 4 and 12, so text order and numeric
  order agree. An instant is a number of microseconds since the Unix epoch, the
  resolution of Python datetimes and of PostgreSQL timestamps.
\<close>

type_synonym uuid = "128 word"
type_synonym instant = int

definition hex_digit :: "nat \<Rightarrow> char" where
  "hex_digit n = (''0123456789abcdef'' ! (n mod 16))"

fun hex_digits :: "nat \<Rightarrow> nat \<Rightarrow> string" where
  "hex_digits 0 n = []"
| "hex_digits (Suc k) n = hex_digits k (n div 16) @ [hex_digit n]"

definition uuid_str :: "uuid \<Rightarrow> string" where
  "uuid_str u =
     (let h = hex_digits 32 (unat u)
      in take 8 h @ ''-'' @ take 4 (drop 8 h) @ ''-'' @ take 4 (drop 12 h) @ ''-''
         @ take 4 (drop 16 h) @ ''-'' @ drop 20 h)"

lemma length_hex_digits [simp]: "length (hex_digits k n) = k"
  by (induction k arbitrary: n) simp_all

section \<open>Character classes\<close>

definition is_upper :: "char \<Rightarrow> bool" where
  "is_upper c \<longleftrightarrow> (let n = of_char c :: nat in 65 \<le> n \<and> n \<le> 90)"

definition is_lower :: "char \<Rightarrow> bool" where
  "is_lower c \<longleftrightarrow> (let n = of_char c :: nat in 97 \<le> n \<and> n \<le> 122)"

definition is_digit :: "char \<Rightarrow> bool" where
  "is_digit c \<longleftrightarrow> (let n = of_char c :: nat in 48 \<le> n \<and> n \<le> 57)"

definition is_lower_hex :: "char \<Rightarrow> bool" where
  "is_lower_hex c \<longleftrightarrow> is_digit c \<or> (let n = of_char c :: nat in 97 \<le> n \<and> n \<le> 102)"

text \<open>
  \<open>fullmatch\<close> of a pattern with one leading class and at most \<open>n\<close> further
  characters of a second class.
\<close>

definition head_tail_match :: "(char \<Rightarrow> bool) \<Rightarrow> (char \<Rightarrow> bool) \<Rightarrow> nat \<Rightarrow> string \<Rightarrow> bool" where
  "head_tail_match hd_ok tl_ok n s =
     (case s of [] \<Rightarrow> False
      | c # cs \<Rightarrow> hd_ok c \<and> length cs \<le> n \<and> list_all tl_ok cs)"

section \<open>Tables with a key column\<close>

definition row_at :: "('r \<Rightarrow> 'k) \<Rightarrow> 'r list \<Rightarrow> 'k \<Rightarrow> 'r option" where
  "row_at key rows k = find (\<lambda>r. key r = k) rows"

text \<open>
  \<open>UPDATE ... WHERE p SET f\<close>: every selected row passes the row trigger and the
  row constraints (\<open>chk old new\<close> is the error they raise, if any), or the
  statement fails.
\<close>

definition sql_update ::
  "('r \<Rightarrow> 'r \<Rightarrow> py_error option) \<Rightarrow> ('r \<Rightarrow> bool) \<Rightarrow> ('r \<Rightarrow> 'r) \<Rightarrow> 'r list \<Rightarrow> 'r list result" where
  "sql_update chk p f rows =
     mapE (\<lambda>r. if p r then thenE (errorE (chk r (f r))) (Inr (f r)) else Inr r) rows"

lemma sql_update_Inr_iff:
  "sql_update chk p f rows = Inr rows' \<longleftrightarrow>
     rows' = map (\<lambda>r. if p r then f r else r) rows \<and>
     (\<forall>r \<in> set rows. p r \<longrightarrow> chk r (f r) = None)"
proof (induction rows arbitrary: rows')
  case (Cons r rows)
  then show ?case
    by (auto simp: sql_update_def bindE_Inr_iff thenE_Inr_iff)
qed (auto simp: sql_update_def)

lemma sql_update_Inl:
  "sql_update chk p f rows = Inl e \<Longrightarrow> \<exists>r \<in> set rows. p r \<and> chk r (f r) = Some e"
  by (induction rows)
    (auto simp: sql_update_def bindE_Inl_iff thenE_Inl_iff split: if_splits)

lemma sql_update_ok:
  "(\<And>r. r \<in> set rows \<Longrightarrow> p r \<Longrightarrow> chk r (f r) = None) \<Longrightarrow>
   sql_update chk p f rows = Inr (map (\<lambda>r. if p r then f r else r) rows)"
  by (simp add: sql_update_Inr_iff)

text \<open>
  What a component relies on when it reads and writes a table by its key: the
  update function leaves the key alone.
\<close>

locale keyed_table =
  fixes key :: "'r \<Rightarrow> 'k"
begin

lemma row_at_None_iff: "row_at key rows k = None \<longleftrightarrow> k \<notin> key ` set rows"
  by (auto simp: row_at_def find_None_iff)

lemma row_at_Some_key: "row_at key rows k = Some r \<Longrightarrow> key r = k"
  by (auto simp: row_at_def find_Some_iff)

lemma row_at_Some_in: "row_at key rows k = Some r \<Longrightarrow> r \<in> set rows"
  by (auto simp: row_at_def find_Some_iff)

lemma row_at_Cons: "row_at key (r # rows) k = (if key r = k then Some r else row_at key rows k)"
  by (simp add: row_at_def)

lemma row_at_in_set:
  "distinct (map key rows) \<Longrightarrow> r \<in> set rows \<Longrightarrow> row_at key rows (key r) = Some r"
  by (induction rows) (auto simp: row_at_Cons)

lemma row_at_iff_in_set:
  "distinct (map key rows) \<Longrightarrow> row_at key rows k = Some r \<longleftrightarrow> r \<in> set rows \<and> key r = k"
  using row_at_in_set row_at_Some_key row_at_Some_in by metis

lemma row_at_append_fresh:
  "row_at key (rows @ [r]) k =
     (case row_at key rows k of Some q \<Rightarrow> Some q | None \<Rightarrow> if key r = k then Some r else None)"
  by (induction rows) (auto simp: row_at_Cons row_at_def)

lemma row_at_append:
  "row_at key (rows @ rows') k =
     (case row_at key rows k of Some q \<Rightarrow> Some q | None \<Rightarrow> row_at key rows' k)"
  by (induction rows) (auto simp: row_at_Cons row_at_def)

lemma row_at_map:
  assumes "\<And>r. key (g r) = key r"
  shows "row_at key (map g rows) k = map_option g (row_at key rows k)"
  using assms by (induction rows) (auto simp: row_at_Cons row_at_def)

lemma row_at_update:
  assumes "\<And>r. key (f r) = key r"
  shows "row_at key (map (\<lambda>r. if p r then f r else r) rows) k =
    map_option (\<lambda>r. if p r then f r else r) (row_at key rows k)"
  by (rule row_at_map) (simp add: assms)

lemma keys_update:
  assumes "\<And>r. key (f r) = key r"
  shows "map key (map (\<lambda>r. if p r then f r else r) rows) = map key rows"
  by (simp add: assms)

end

lemma find_head_sort_key_min:
  "sort_key f xs = y # ys \<Longrightarrow> y \<in> set xs \<and> (\<forall>x \<in> set xs. f y \<le> f x)"
proof -
  assume eq: "sort_key f xs = y # ys"
  have s: "sorted (map f (y # ys))" using sorted_sort_key [of f xs] eq by simp
  have st: "set (y # ys) = set xs" using set_sort [of f xs] eq by simp
  show ?thesis
  proof (intro conjI ballI)
    show "y \<in> set xs" using st by auto
    fix x assume "x \<in> set xs"
    then have "x \<in> set (y # ys)" using st by simp
    with s show "f y \<le> f x" by (auto simp: less_eq_prod_def)
  qed
qed

definition first_by :: "('a \<Rightarrow> 'k::linorder) \<Rightarrow> 'a list \<Rightarrow> 'a option" where
  "first_by key xs = (case sort_key key xs of [] \<Rightarrow> None | x # _ \<Rightarrow> Some x)"

lemma first_by_Some:
  "first_by key xs = Some x \<Longrightarrow> x \<in> set xs \<and> (\<forall>y \<in> set xs. key x \<le> key y)"
  by (auto simp: first_by_def split: list.splits dest: find_head_sort_key_min)

lemma first_by_None: "first_by key xs = None \<longleftrightarrow> xs = []"
proof -
  have "length (sort_key key xs) = length xs" by simp
  then show ?thesis by (cases "sort_key key xs") (auto simp: first_by_def)
qed

end
