(* ===== verification/Shared_Values.thy ===== *)
theory Shared_Values
  imports MRA_Prelude
begin

text \<open>
  The value objects at the context boundaries: \<open>shared/identity.py\<close>,
  \<open>shared/time.py\<close> and the error codes of \<open>shared/errors.py\<close>,
  \<open>runtime/errors.py\<close> and \<open>decision_support/errors.py\<close>. A frozen dataclass whose \<open>__post_init__\<close> validates or
  normalises its fields is a function that returns the value or the exception.
  Python's \<open>isinstance(x, bool)\<close> guards have no counterpart: the types here
  already separate booleans from integers.
\<close>

section \<open>Datetimes\<close>

text \<open>
  \<open>Aware t off\<close> is the instant \<open>t\<close> shown with the UTC offset \<open>off\<close> (both in
  microseconds); \<open>Naive t\<close> has no time zone. \<open>astimezone(utc)\<close> keeps the instant.
\<close>

datatype py_datetime = Naive int | Aware instant int

fun require_utc :: "string \<Rightarrow> py_datetime \<Rightarrow> py_datetime result" where
  "require_utc field (Naive t) = Inl (ValueError (field @ '' must be timezone-aware''))"
| "require_utc field (Aware t off) = Inr (Aware t 0)"

fun instant_of :: "py_datetime \<Rightarrow> instant" where
  "instant_of (Naive t) = t"
| "instant_of (Aware t off) = t"

definition is_utc :: "py_datetime \<Rightarrow> bool" where
  "is_utc d \<longleftrightarrow> (\<exists>t. d = Aware t 0)"

lemma require_utc_Inr: "require_utc field d = Inr d' \<Longrightarrow> is_utc d' \<and> instant_of d' = instant_of d"
  by (cases d) (auto simp: is_utc_def)

lemma require_utc_idem: "require_utc field d = Inr d' \<Longrightarrow> require_utc field' d' = Inr d'"
  by (cases d) auto

text \<open>The two ordered time wrappers; both normalise to UTC and compare by instant.\<close>

datatype known_time = KnownTime instant

datatype decision_time = DecisionTime instant

definition known_time :: "py_datetime \<Rightarrow> known_time result" where
  "known_time d = mapR (\<lambda>u. KnownTime (instant_of u)) (require_utc ''known_time'' d)"

definition decision_time :: "py_datetime \<Rightarrow> decision_time result" where
  "decision_time d = mapR (\<lambda>u. DecisionTime (instant_of u)) (require_utc ''decision_time'' d)"

instantiation known_time :: linorder
begin

definition less_eq_known_time :: "known_time \<Rightarrow> known_time \<Rightarrow> bool" where
  "less_eq_known_time a b = (case (a, b) of (KnownTime s, KnownTime t) \<Rightarrow> s \<le> t)"

definition less_known_time :: "known_time \<Rightarrow> known_time \<Rightarrow> bool" where
  "less_known_time a b = (case (a, b) of (KnownTime s, KnownTime t) \<Rightarrow> s < t)"

instance
  by standard (auto simp: less_eq_known_time_def less_known_time_def split: known_time.splits)

end

instantiation decision_time :: linorder
begin

definition less_eq_decision_time :: "decision_time \<Rightarrow> decision_time \<Rightarrow> bool" where
  "less_eq_decision_time a b = (case (a, b) of (DecisionTime s, DecisionTime t) \<Rightarrow> s \<le> t)"

definition less_decision_time :: "decision_time \<Rightarrow> decision_time \<Rightarrow> bool" where
  "less_decision_time a b = (case (a, b) of (DecisionTime s, DecisionTime t) \<Rightarrow> s < t)"

instance
  by standard
    (auto simp: less_eq_decision_time_def less_decision_time_def split: decision_time.splits)

end

section \<open>Identities\<close>

definition content_hash_ok :: "string \<Rightarrow> bool" where
  "content_hash_ok s \<longleftrightarrow> length s = 64 \<and> list_all is_lower_hex s"

definition content_hash :: "string \<Rightarrow> string result" where
  "content_hash s =
     thenE (guardE (content_hash_ok s)
       (ValueError ''content hash must be 64 lowercase hexadecimal characters'')) (Inr s)"

definition is_alnum :: "char \<Rightarrow> bool" where
  "is_alnum c \<longleftrightarrow> is_upper c \<or> is_lower c \<or> is_digit c"

definition idempotency_key_ok :: "string \<Rightarrow> bool" where
  "idempotency_key_ok =
     head_tail_match is_alnum (\<lambda>c. is_alnum c \<or> c \<in> set ''._:/-'') 199"

definition idempotency_key :: "string \<Rightarrow> string result" where
  "idempotency_key s =
     thenE (guardE (idempotency_key_ok s) (ValueError ''idempotency key has an invalid format''))
       (Inr s)"

datatype fence_token = FenceToken int

definition fence_token :: "int \<Rightarrow> fence_token result" where
  "fence_token v =
     thenE (guardE (1 \<le> v) (ValueError ''fence token must be a positive integer''))
       (Inr (FenceToken v))"

instantiation fence_token :: linorder
begin

definition less_eq_fence_token :: "fence_token \<Rightarrow> fence_token \<Rightarrow> bool" where
  "less_eq_fence_token a b = (case (a, b) of (FenceToken s, FenceToken t) \<Rightarrow> s \<le> t)"

definition less_fence_token :: "fence_token \<Rightarrow> fence_token \<Rightarrow> bool" where
  "less_fence_token a b = (case (a, b) of (FenceToken s, FenceToken t) \<Rightarrow> s < t)"

instance
  by standard (auto simp: less_eq_fence_token_def less_fence_token_def split: fence_token.splits)

end

text \<open>\<open>_CODE\<close>, the closed code format: \<open>[A-Z][A-Z0-9_]{0,99}\<close>.\<close>

definition code_ok :: "string \<Rightarrow> bool" where
  "code_ok = head_tail_match is_upper (\<lambda>c. is_upper c \<or> is_digit c \<or> c = CHR ''_'') 99"

lemma content_hash_Inr_iff [simp]: "content_hash s = Inr t \<longleftrightarrow> content_hash_ok s \<and> t = s"
  by (auto simp: content_hash_def)

lemma content_hash_Inl_iff:
  "content_hash s = Inl e \<longleftrightarrow> \<not> content_hash_ok s \<and>
     e = ValueError ''content hash must be 64 lowercase hexadecimal characters''"
  by (auto simp: content_hash_def)

lemma idempotency_key_Inr_iff [simp]:
  "idempotency_key s = Inr t \<longleftrightarrow> idempotency_key_ok s \<and> t = s"
  by (auto simp: idempotency_key_def)

section \<open>Error codes\<close>

text \<open>The stable machine-readable code each typed failure carries.\<close>

fun mra_error_code :: "py_error \<Rightarrow> string option" where
  "mra_error_code IdempotencyKeyReusedError = Some ''IDEMPOTENCY_KEY_REUSED''"
| "mra_error_code CommandInProgressError = Some ''COMMAND_IN_PROGRESS''"
| "mra_error_code (CommandPreviouslyFailedError c) = Some ''COMMAND_PREVIOUSLY_FAILED''"
| "mra_error_code StaleFenceError = Some ''STALE_FENCE''"
| "mra_error_code RuntimeNotFoundError = Some ''RUNTIME_NOT_FOUND''"
| "mra_error_code (RuntimeStateConflictError m) = Some ''RUNTIME_STATE_CONFLICT''"
| "mra_error_code (DecisionAuthorityIntegrityError m) = Some ''DECISION_AUTHORITY_INTEGRITY_FAILED''"
| "mra_error_code (InferenceAuthorityIntegrityError m) = Some ''INFERENCE_AUTHORITY_INTEGRITY_FAILED''"
| "mra_error_code _ = None"

end
