(* ===== verification/Runtime_Domain.thy ===== *)
theory Runtime_Domain
  imports Shared_Values
begin

text \<open>
  \<open>runtime/domain/model.py\<close>: the Run, Step and Attempt life cycles, the retry
  policy, the specifications a Run is scheduled from, and \<open>validate_step_dag\<close>
  with its depth-first cycle check, its mandatory decision chain and its formal
  profiles. A timedelta is its number of microseconds.
\<close>

section \<open>Life cycles\<close>

datatype run_state =
    Run_QUEUED | Run_RUNNING | Run_WAITING | Run_SUCCEEDED | Run_BLOCKED | Run_FAILED
  | Run_CANCELLED

datatype step_state =
    Step_PENDING | Step_READY | Step_CLAIMED | Step_RUNNING | Step_WAITING | Step_SUCCEEDED
  | Step_BLOCKED | Step_FAILED | Step_CANCELLED | Step_SKIPPED

datatype attempt_state =
    Attempt_CLAIMED | Attempt_RUNNING | Attempt_SUCCEEDED | Attempt_FAILED_RETRYABLE
  | Attempt_FAILED_TERMINAL | Attempt_ABANDONED | Attempt_RECONCILIATION_REQUIRED

datatype runtime_mode = OPERATIONAL | HISTORICAL | REPLAY | SHADOW | PROSPECTIVE

datatype external_effect_class =
    Effect_NONE | PURE_READ | CONTENT_PUT | IDEMPOTENT_REMOTE_COMMAND
  | NON_IDEMPOTENT_REMOTE_COMMAND | OBSERVATION_ONLY

fun run_state_value :: "run_state \<Rightarrow> string" where
  "run_state_value Run_QUEUED = ''QUEUED''"
| "run_state_value Run_RUNNING = ''RUNNING''"
| "run_state_value Run_WAITING = ''WAITING''"
| "run_state_value Run_SUCCEEDED = ''SUCCEEDED''"
| "run_state_value Run_BLOCKED = ''BLOCKED''"
| "run_state_value Run_FAILED = ''FAILED''"
| "run_state_value Run_CANCELLED = ''CANCELLED''"

fun step_state_value :: "step_state \<Rightarrow> string" where
  "step_state_value Step_PENDING = ''PENDING''"
| "step_state_value Step_READY = ''READY''"
| "step_state_value Step_CLAIMED = ''CLAIMED''"
| "step_state_value Step_RUNNING = ''RUNNING''"
| "step_state_value Step_WAITING = ''WAITING''"
| "step_state_value Step_SUCCEEDED = ''SUCCEEDED''"
| "step_state_value Step_BLOCKED = ''BLOCKED''"
| "step_state_value Step_FAILED = ''FAILED''"
| "step_state_value Step_CANCELLED = ''CANCELLED''"
| "step_state_value Step_SKIPPED = ''SKIPPED''"

fun attempt_state_value :: "attempt_state \<Rightarrow> string" where
  "attempt_state_value Attempt_CLAIMED = ''CLAIMED''"
| "attempt_state_value Attempt_RUNNING = ''RUNNING''"
| "attempt_state_value Attempt_SUCCEEDED = ''SUCCEEDED''"
| "attempt_state_value Attempt_FAILED_RETRYABLE = ''FAILED_RETRYABLE''"
| "attempt_state_value Attempt_FAILED_TERMINAL = ''FAILED_TERMINAL''"
| "attempt_state_value Attempt_ABANDONED = ''ABANDONED''"
| "attempt_state_value Attempt_RECONCILIATION_REQUIRED = ''RECONCILIATION_REQUIRED''"

fun runtime_mode_value :: "runtime_mode \<Rightarrow> string" where
  "runtime_mode_value OPERATIONAL = ''OPERATIONAL''"
| "runtime_mode_value HISTORICAL = ''HISTORICAL''"
| "runtime_mode_value REPLAY = ''REPLAY''"
| "runtime_mode_value SHADOW = ''SHADOW''"
| "runtime_mode_value PROSPECTIVE = ''PROSPECTIVE''"

fun external_effect_value :: "external_effect_class \<Rightarrow> string" where
  "external_effect_value Effect_NONE = ''NONE''"
| "external_effect_value PURE_READ = ''PURE_READ''"
| "external_effect_value CONTENT_PUT = ''CONTENT_PUT''"
| "external_effect_value IDEMPOTENT_REMOTE_COMMAND = ''IDEMPOTENT_REMOTE_COMMAND''"
| "external_effect_value NON_IDEMPOTENT_REMOTE_COMMAND = ''NON_IDEMPOTENT_REMOTE_COMMAND''"
| "external_effect_value OBSERVATION_ONLY = ''OBSERVATION_ONLY''"

definition RUN_EDGES :: "(run_state \<times> run_state) list" where
  "RUN_EDGES =
    [(Run_QUEUED, Run_RUNNING),
     (Run_QUEUED, Run_CANCELLED),
     (Run_RUNNING, Run_WAITING),
     (Run_RUNNING, Run_SUCCEEDED),
     (Run_RUNNING, Run_BLOCKED),
     (Run_RUNNING, Run_FAILED),
     (Run_RUNNING, Run_CANCELLED),
     (Run_WAITING, Run_RUNNING),
     (Run_WAITING, Run_BLOCKED),
     (Run_WAITING, Run_FAILED),
     (Run_WAITING, Run_CANCELLED)]"

definition STEP_EDGES :: "(step_state \<times> step_state) list" where
  "STEP_EDGES =
    [(Step_PENDING, Step_READY),
     (Step_PENDING, Step_SKIPPED),
     (Step_READY, Step_CLAIMED),
     (Step_CLAIMED, Step_RUNNING),
     (Step_CLAIMED, Step_READY),
     (Step_RUNNING, Step_READY),
     (Step_RUNNING, Step_WAITING),
     (Step_RUNNING, Step_SUCCEEDED),
     (Step_RUNNING, Step_BLOCKED),
     (Step_RUNNING, Step_FAILED),
     (Step_WAITING, Step_READY)]
    @ map (\<lambda>state. (state, Step_CANCELLED))
        [Step_PENDING, Step_READY, Step_CLAIMED, Step_RUNNING, Step_WAITING]"

definition ATTEMPT_EDGES :: "(attempt_state \<times> attempt_state) list" where
  "ATTEMPT_EDGES =
    [(Attempt_CLAIMED, Attempt_RUNNING),
     (Attempt_CLAIMED, Attempt_ABANDONED),
     (Attempt_RUNNING, Attempt_SUCCEEDED),
     (Attempt_RUNNING, Attempt_FAILED_RETRYABLE),
     (Attempt_RUNNING, Attempt_FAILED_TERMINAL),
     (Attempt_RUNNING, Attempt_ABANDONED),
     (Attempt_RUNNING, Attempt_RECONCILIATION_REQUIRED)]"

definition ensure_transition ::
  "string \<Rightarrow> ('s \<Rightarrow> string) \<Rightarrow> 's \<Rightarrow> 's \<Rightarrow> ('s \<times> 's) list \<Rightarrow> unit result" where
  "ensure_transition kind value_of source target edges =
     guardE ((source, target) \<in> set edges)
       (InvalidRuntimeTransition
         (kind @ '' transition '' @ value_of source @ '' -> '' @ value_of target
          @ '' is not allowed''))"

definition ensure_run_transition :: "run_state \<Rightarrow> run_state \<Rightarrow> unit result" where
  "ensure_run_transition source target =
     ensure_transition ''Run'' run_state_value source target RUN_EDGES"

definition ensure_step_transition :: "step_state \<Rightarrow> step_state \<Rightarrow> unit result" where
  "ensure_step_transition source target =
     ensure_transition ''Step'' step_state_value source target STEP_EDGES"

definition ensure_attempt_transition :: "attempt_state \<Rightarrow> attempt_state \<Rightarrow> unit result" where
  "ensure_attempt_transition source target =
     ensure_transition ''Attempt'' attempt_state_value source target ATTEMPT_EDGES"

section \<open>Specifications\<close>

record retry_policy =
  max_attempts :: int
  backoff :: "int list"
  retryable_codes :: "string list"
  retry_deadline :: "py_datetime option"

definition one_day_us :: int where
  "one_day_us = 86400000000"

definition option_utc :: "string \<Rightarrow> py_datetime option \<Rightarrow> py_datetime option result" where
  "option_utc field d =
     (case d of None \<Rightarrow> Inr None | Some t \<Rightarrow> mapR Some (require_utc field t))"

definition retry_policy_init :: "retry_policy \<Rightarrow> retry_policy result" where
  "retry_policy_init p =
     thenE (guardE (1 \<le> max_attempts p \<and> max_attempts p \<le> 64)
       (ValueError ''max_attempts must be between 1 and 64''))
     (thenE (guardE (int (length (backoff p)) \<le> max_attempts p - 1)
       (ValueError ''backoff cannot contain more entries than retries''))
     (thenE (guardE (\<not> (\<exists>delay \<in> set (backoff p). delay < 0 \<or> delay > one_day_us))
       (ValueError ''backoff delays must be between zero and one day''))
     (thenE (guardE (\<not> (\<exists>code \<in> set (retryable_codes p). \<not> code_ok code))
       (ValueError ''retryable codes must use the closed code format''))
     (bindE (option_utc ''deadline'' (retry_deadline p)) (\<lambda>d.
       Inr (p\<lparr>retry_deadline := d\<rparr>))))))"

definition delay_after :: "retry_policy \<Rightarrow> int \<Rightarrow> int result" where
  "delay_after p attempt_no =
     thenE (guardE (0 < attempt_no) (ValueError ''attempt_no must be positive''))
     (let retry_index = attempt_no - 1
      in if retry_index \<ge> int (length (backoff p)) then Inr 0
         else Inr (backoff p ! nat retry_index))"

definition step_key_ok :: "string \<Rightarrow> bool" where
  "step_key_ok =
     head_tail_match is_lower (\<lambda>c. is_lower c \<or> is_digit c \<or> c \<in> set ''_-'') 99"

record step_spec =
  step_key :: string
  step_kind :: string
  implementation :: string
  implementation_version :: string
  ordinal :: int
  required :: bool
  request_hash :: string
  input_evidence_hash :: "string option"
  step_retry :: retry_policy
  effect_class :: external_effect_class

definition option_hash :: "string option \<Rightarrow> unit result" where
  "option_hash h = (case h of None \<Rightarrow> Inr () | Some s \<Rightarrow> mapR (\<lambda>_. ()) (content_hash s))"

definition step_spec_init :: "step_spec \<Rightarrow> step_spec result" where
  "step_spec_init s =
     thenE (guardE (step_key_ok (step_key s)) (ValueError ''step_key has an invalid format''))
     (thenE (guardE (code_ok (step_kind s)) (ValueError ''step_kind has an invalid format''))
     (thenE (guardE (implementation s \<noteq> [] \<and> implementation_version s \<noteq> [])
       (ValueError ''implementation identity is required''))
     (thenE (guardE (0 \<le> ordinal s) (ValueError ''ordinal must be non-negative''))
     (bindE (content_hash (request_hash s)) (\<lambda>_.
     thenE (option_hash (input_evidence_hash s)) (Inr s))))))"

record step_dependency =
  predecessor_key :: string
  successor_key :: string
  dependency_kind :: string

definition step_dependency_init :: "step_dependency \<Rightarrow> step_dependency result" where
  "step_dependency_init d =
     thenE (guardE (predecessor_key d \<noteq> successor_key d)
       (ValueError ''a Step cannot depend on itself''))
     (thenE (guardE (dependency_kind d \<in> {''REQUIRED_SUCCESS'', ''TERMINAL''})
       (ValueError ''unknown dependency kind'')) (Inr d))"

record schedule_spec =
  schedule_id :: uuid
  schedule_code :: string
  schedule_revision :: int
  schedule_mode :: runtime_mode
  schedule_expression :: "string option"
  timezone_name :: string
  step_catalog_hash :: string
  schedule_enabled :: bool
  supersedes_schedule_id :: "uuid option"

definition schedule_spec_init :: "schedule_spec \<Rightarrow> schedule_spec result" where
  "schedule_spec_init s =
     thenE (guardE (step_key_ok (schedule_code s))
       (ValueError ''schedule_code has an invalid format''))
     (thenE (guardE (0 < schedule_revision s) (ValueError ''schedule revision must be positive''))
     (thenE (guardE (timezone_name s \<noteq> []) (ValueError ''timezone_name is required''))
     (bindE (content_hash (step_catalog_hash s)) (\<lambda>_.
     thenE (guardE (supersedes_schedule_id s \<noteq> Some (schedule_id s))
       (ValueError ''a schedule revision cannot supersede itself'')) (Inr s)))))"

record run_spec =
  run_id :: uuid
  run_schedule_id :: uuid
  fire_key :: string
  run_mode :: runtime_mode
  requested_at :: py_datetime
  run_decision_time :: "py_datetime option"
  code_sha :: string
  config_artifact_id :: uuid
  config_hash :: string
  parent_run_id :: "uuid option"
  original_run_id :: "uuid option"

definition code_sha_ok :: "string \<Rightarrow> bool" where
  "code_sha_ok s \<longleftrightarrow> (length s = 40 \<or> length s = 64) \<and> list_all is_lower_hex s"

definition run_spec_init :: "run_spec \<Rightarrow> run_spec result" where
  "run_spec_init r =
     thenE (guardE (fire_key r \<noteq> []) (ValueError ''fire_key is required''))
     (bindE (require_utc ''requested_at'' (requested_at r)) (\<lambda>at.
     bindE (option_utc ''decision_time'' (run_decision_time r)) (\<lambda>dt.
     thenE (guardE (code_sha_ok (code_sha r))
       (ValueError ''code_sha must be a lowercase SHA-1 or SHA-256''))
     (bindE (content_hash (config_hash r)) (\<lambda>_.
     thenE (guardE (parent_run_id r \<noteq> Some (run_id r) \<and> original_run_id r \<noteq> Some (run_id r))
       (ValueError ''a Run cannot reference itself''))
     (Inr (r\<lparr>requested_at := at, run_decision_time := dt\<rparr>)))))))"

section \<open>The step graph\<close>

text \<open>
  \<open>graph\<close> maps every step key to the keys of its successors. Python iterates a set
  of successors in an unspecified order; whether the search raises does not depend
  on it, and the model takes the order of the dependencies.
\<close>

type_synonym step_graph = "(string \<times> string list) list"

definition step_graph_of :: "step_spec list \<Rightarrow> step_dependency list \<Rightarrow> step_graph" where
  "step_graph_of steps dependencies =
     map (\<lambda>s. (step_key s,
            map successor_key (filter (\<lambda>d. predecessor_key d = step_key s) dependencies)))
       steps"

lemma foldE_cong [fundef_cong]:
  "xs = ys \<Longrightarrow> s = t \<Longrightarrow> (\<And>x u. x \<in> set ys \<Longrightarrow> f x u = g x u) \<Longrightarrow> foldE f xs s = foldE g ys t"
proof (induction ys arbitrary: xs s t)
  case (Cons y ys)
  then show ?case by (cases "g y t") (auto simp: bindE_def)
qed simp

text \<open>
  \<open>visit\<close>: \<open>visiting\<close> holds the keys on the current path (Python adds the key on
  entry and removes it on exit, so it is an argument here) and \<open>visited\<close> the
  finished ones. A key that the graph lacks would be a KeyError; the caller has
  checked that there is none.
\<close>

function visit :: "step_graph \<Rightarrow> string list \<Rightarrow> string \<Rightarrow> string list \<Rightarrow> string list result" where
  "visit graph visiting key visited =
     (if key \<in> set visiting then Inl (ValueError ''Step dependency graph contains a cycle'')
      else if key \<in> set visited then Inr visited
      else case map_of graph key of
        None \<Rightarrow> Inl KeyError
      | Some successors \<Rightarrow>
          bindE (foldE (\<lambda>successor seen. visit graph (key # visiting) successor seen)
                   successors visited)
            (\<lambda>seen. Inr (key # seen)))"
  by pat_completeness auto
termination
proof (relation "measure (\<lambda>(graph, visiting, key, visited).
          card (set (map fst graph) - set visiting))")
  fix graph visiting key visited successors successor seen
  assume fresh: "key \<notin> set visiting" and known: "map_of graph key = Some successors"
  have "key \<in> set (map fst graph)"
    using known by (force dest: map_of_SomeD)
  then have "set (map fst graph) - set (key # visiting) \<subset> set (map fst graph) - set visiting"
    using fresh by auto
  then show "((graph, key # visiting, successor, seen), graph, visiting, key, visited)
      \<in> measure (\<lambda>(graph, visiting, key, visited).
          card (set (map fst graph) - set visiting))"
    by (auto intro!: psubset_card_mono)
qed simp

declare visit.simps [simp del]

definition check_acyclic :: "step_graph \<Rightarrow> string list \<Rightarrow> unit result" where
  "check_acyclic graph keys =
     mapR (\<lambda>_. ()) (foldE (\<lambda>key visited. visit graph [] key visited) keys [])"

definition chain_kinds :: "string list" where
  "chain_kinds = [''BUILD_CANDIDATE_SET'', ''OPEN_DECISION_RUN'', ''ASSESS_CONTEXT'']"

definition has_edge :: "step_dependency list \<Rightarrow> string \<Rightarrow> string \<Rightarrow> string \<Rightarrow> bool" where
  "has_edge dependencies p s k \<longleftrightarrow>
     (\<exists>d \<in> set dependencies. predecessor_key d = p \<and> successor_key d = s \<and> dependency_kind d = k)"

definition validate_mandatory_decision_chain ::
  "step_spec list \<Rightarrow> step_dependency list \<Rightarrow> unit result" where
  "validate_mandatory_decision_chain steps dependencies =
     (let matching = filter (\<lambda>s. step_kind s \<in> set chain_kinds) steps;
          by_kind = (\<lambda>kind. filter (\<lambda>s. step_kind s = kind) matching)
      in if matching = [] then Inr ()
         else if \<exists>kind \<in> set chain_kinds. length (by_kind kind) \<noteq> 1
         then Inl (ValueError ''BUILD_CANDIDATE_SET, OPEN_DECISION_RUN, and ASSESS_CONTEXT must each occur exactly once'')
         else (let build = hd (by_kind ''BUILD_CANDIDATE_SET'');
                   opened = hd (by_kind ''OPEN_DECISION_RUN'');
                   context = hd (by_kind ''ASSESS_CONTEXT'')
           in if \<not> (required build \<and> required opened \<and> required context)
              then Inl (ValueError ''the Candidate-to-Context decision chain is mandatory'')
              else if \<not> (ordinal build < ordinal opened \<and> ordinal opened < ordinal context)
              then Inl (ValueError ''Decision chain ordinals must be BUILD_CANDIDATE_SET before OPEN_DECISION_RUN before ASSESS_CONTEXT'')
              else if \<not> has_edge dependencies (step_key build) (step_key opened) ''REQUIRED_SUCCESS''
                   \<or> \<not> has_edge dependencies (step_key opened) (step_key context) ''REQUIRED_SUCCESS''
              then Inl (ValueError ''the mandatory Decision chain requires direct REQUIRED_SUCCESS edges'')
              else if \<exists>d \<in> set dependencies.
                     predecessor_key d = step_key build \<and> successor_key d = step_key context
              then Inl (ValueError ''BUILD_CANDIDATE_SET cannot bypass OPEN_DECISION_RUN'')
              else Inr ()))"

definition formal_profiles :: "(string \<times> string list) list" where
  "formal_profiles =
    [(''formal-decision-'',
      [''CAPTURE'', ''NORMALIZE_PIT'', ''FREEZE_UNIVERSE'', ''ASSESS_ELIGIBILITY'',
       ''REGISTER_DATASET'', ''BUILD_CANDIDATE_SET'', ''OPEN_DECISION_RUN'', ''ASSESS_CONTEXT'',
       ''SIGNAL_AND_FORECAST'', ''DECIDE_AND_RISK'']),
     (''formal-due-'',
      [''SETTLE_OUTCOME'', ''ACQUIRE_OUTCOME_INPUTS'', ''EVALUATE'', ''RECORD_EVIDENCE'',
       ''ASSESS_RESEARCH'', ''QUALIFY''])]"

definition starts_with :: "string \<Rightarrow> string \<Rightarrow> bool" where
  "starts_with s prefix_str \<longleftrightarrow> take (length prefix_str) s = prefix_str"

text \<open>\<open>{step.step_key: index for index, step in enumerate(ordered)}[key]\<close> on unique keys.\<close>

definition position_of :: "step_spec list \<Rightarrow> string \<Rightarrow> int result" where
  "position_of ordered key =
     optE (map_of (zip (map step_key ordered) (map int [0..<length ordered])) key) KeyError"

definition validate_formal_profile ::
  "step_spec list \<Rightarrow> step_dependency list \<Rightarrow> unit result" where
  "validate_formal_profile steps dependencies =
     (let matching_profiles =
            filter (\<lambda>(profile_prefix, _). \<exists>s \<in> set steps. starts_with (step_key s) profile_prefix)
              formal_profiles
      in if matching_profiles = [] then Inr ()
         else if length matching_profiles \<noteq> 1
         then Inl (ValueError ''a Runtime Run cannot mix formal proof profiles'')
         else (let expected_kinds = snd (hd matching_profiles);
                   ordered = sort_key ordinal steps
           in if length steps \<noteq> length expected_kinds
              then Inl (ValueError ''formal Runtime profile has an incomplete step roster'')
              else if \<not> list_all required ordered
              then Inl (ValueError ''formal Runtime profile steps are mandatory'')
              else if map ordinal ordered \<noteq> map int [1..<length ordered + 1]
              then Inl (ValueError ''formal Runtime profile ordinals must be contiguous'')
              else if map step_kind ordered \<noteq> expected_kinds
              then Inl (ValueError ''formal Runtime profile has an incomplete step roster'')
              else if \<not> list_all (\<lambda>(left, right).
                     has_edge dependencies (step_key left) (step_key right) ''REQUIRED_SUCCESS'')
                     (zip ordered (tl ordered))
              then Inl (ValueError ''formal Runtime profile requires every direct REQUIRED_SUCCESS edge'')
              else bindE (anyE (\<lambda>d.
                     bindE (position_of ordered (successor_key d)) (\<lambda>s.
                     bindE (position_of ordered (predecessor_key d)) (\<lambda>p. Inr (s - p > 1))))
                     dependencies)
                   (\<lambda>bypass. guardE (\<not> bypass)
                     (ValueError ''formal Runtime profile cannot contain a bypass edge''))))"

definition validate_step_dag :: "step_spec list \<Rightarrow> step_dependency list \<Rightarrow> unit result" where
  "validate_step_dag steps dependencies =
     (let keys = map step_key steps; ordinals = map ordinal steps
      in thenE (guardE (steps \<noteq> []) (ValueError ''a Run requires at least one Step''))
     (thenE (guardE (\<not> (\<exists>s \<in> set steps. effect_class s = NON_IDEMPOTENT_REMOTE_COMMAND))
       (ValueError ''NON_IDEMPOTENT_REMOTE_COMMAND is forbidden from unattended Runtime''))
     (thenE (guardE (distinct keys) (ValueError ''Step keys must be unique''))
     (thenE (guardE (distinct ordinals) (ValueError ''Step ordinals must be unique''))
     (thenE (guardE (\<forall>d \<in> set dependencies.
              predecessor_key d \<in> set keys \<and> successor_key d \<in> set keys)
       (ValueError ''Step dependency references an unknown Step''))
     (thenE (validate_mandatory_decision_chain steps dependencies)
     (thenE (validate_formal_profile steps dependencies)
     (check_acyclic (step_graph_of steps dependencies) keys))))))))"


section \<open>The depth-first search decides acyclicity\<close>

definition graph_edges :: "step_graph \<Rightarrow> (string \<times> string) set" where
  "graph_edges graph = {(x, y). \<exists>ss. map_of graph x = Some ss \<and> y \<in> set ss}"

text \<open>A finished set: closed under successors and without a cycle inside.\<close>

definition settled :: "step_graph \<Rightarrow> string set \<Rightarrow> bool" where
  "settled graph D \<longleftrightarrow>
     graph_edges graph `` D \<subseteq> D \<and> acyclic (graph_edges graph \<inter> D \<times> D)"

lemma settled_insert:
  assumes D: "settled graph D" and new: "k \<notin> D" and succs: "graph_edges graph `` {k} \<subseteq> D"
  shows "settled graph (insert k D)"
proof -
  let ?E = "graph_edges graph"
  let ?R = "?E \<inter> D \<times> D" and ?R' = "?E \<inter> insert k D \<times> insert k D"
  have closed: "?E `` D \<subseteq> D" and acyc: "acyclic ?R" using D by (auto simp: settled_def)
  have into: "b \<in> D" if "(a, b) \<in> ?R'" for a b
    using that closed succs by auto
  have inside: "b \<in> D \<and> (a, b) \<in> ?R\<^sup>+" if "(a, b) \<in> ?R'\<^sup>+" "a \<in> D" for a b
    using that
  proof (induction rule: trancl_induct)
    case (base y)
    then have "y \<in> D" and "(a, y) \<in> ?R" using into [OF base(1)] by auto
    then show ?case by (auto intro: r_into_trancl)
  next
    case (step y z)
    then have "y \<in> D" "(a, y) \<in> ?R\<^sup>+" by auto
    moreover from this have "z \<in> D" "(y, z) \<in> ?R" using into [OF step(2)] step(2) by auto
    ultimately show ?case by (blast intro: trancl_into_trancl)
  qed
  have "(x, x) \<notin> ?R'\<^sup>+" for x
  proof
    assume c: "(x, x) \<in> ?R'\<^sup>+"
    then obtain y where "(y, x) \<in> ?R'" by (auto elim: tranclE)
    then have "x \<in> D" by (rule into)
    with c inside acyc show False by (auto simp: acyclic_def)
  qed
  then show ?thesis using closed succs by (auto simp: settled_def acyclic_def)
qed

lemma visit_settles:
  assumes "visit graph visiting key visited = Inr result"
    and "settled graph (set visited)" and "set visited \<inter> set visiting = {}"
  shows "settled graph (set result) \<and> set result \<inter> set visiting = {}
    \<and> set visited \<subseteq> set result \<and> key \<in> set result"
  using assms
proof (induction graph visiting key visited arbitrary: result rule: visit.induct)
  case (1 graph visiting key visited)
  show ?case
  proof (cases "key \<in> set visited")
    case True
    then show ?thesis using "1.prems" by (auto simp: visit.simps [of graph visiting key] split: if_splits)
  next
    case False
    with "1.prems"(1) obtain successors seen where fresh: "key \<notin> set visiting"
      and known: "map_of graph key = Some successors"
      and loop: "foldE (\<lambda>successor seen. visit graph (key # visiting) successor seen)
                   successors visited = Inr seen"
      and result: "result = key # seen"
      by (auto simp: visit.simps [of graph visiting key] bindE_Inr_iff split: if_splits option.splits)
    let ?I = "\<lambda>D. settled graph (set D) \<and> set D \<inter> set (key # visiting) = {}"
    have start: "?I visited" using "1.prems" False by auto
    have body: "?I v \<and> set u \<subseteq> set v \<and> x \<in> set v"
      if x: "x \<in> set successors" and u: "?I u"
        and v: "visit graph (key # visiting) x u = Inr v" for x u v
      using "1.IH" [OF fresh False known x v] u by simp
    have done1: "?I seen \<and> set visited \<subseteq> set seen \<and> set successors \<subseteq> set seen"
      using foldE_collects [where I = ?I, OF loop start body] .
    moreover have "graph_edges graph `` {key} \<subseteq> set seen"
      using done1 known by (auto simp: graph_edges_def)
    ultimately have "settled graph (insert key (set seen))"
      by (intro settled_insert) auto
    then show ?thesis using done1 result fresh by auto
  qed
qed

lemma visit_error:
  assumes "visit graph visiting key visited = Inl e"
    and "\<And>p. p \<in> set visiting \<Longrightarrow> (p, key) \<in> (graph_edges graph)\<^sup>+"
    and "snd ` graph_edges graph \<subseteq> fst ` set graph" and "key \<in> fst ` set graph"
  shows "\<not> acyclic (graph_edges graph)"
  using assms
proof (induction graph visiting key visited arbitrary: e rule: visit.induct)
  case (1 graph visiting key visited)
  show ?case
  proof (cases "key \<in> set visiting")
    case True
    then show ?thesis using "1.prems"(2) by (auto simp: acyclic_def)
  next
    case False
    have "map_of graph key \<noteq> None" using "1.prems"(4) by (simp add: map_of_eq_None_iff)
    then obtain successors where known: "map_of graph key = Some successors" by auto
    have new: "key \<notin> set visited"
      using "1.prems"(1) False by (auto simp: visit.simps [of graph visiting key])
    then have "foldE (\<lambda>successor seen. visit graph (key # visiting) successor seen)
        successors visited = Inl e"
      using "1.prems"(1) False known
      by (auto simp: visit.simps [of graph visiting key] bindE_Inl_iff)
    then obtain x u where x: "x \<in> set successors"
      and err: "visit graph (key # visiting) x u = Inl e"
      by (blast dest: foldE_Inl)
    have edge: "(key, x) \<in> graph_edges graph" using x known by (auto simp: graph_edges_def)
    show ?thesis
    proof (rule "1.IH" [OF False new known x err])
      fix p assume "p \<in> set (key # visiting)"
      then show "(p, x) \<in> (graph_edges graph)\<^sup>+"
        using edge "1.prems"(2) by (auto intro: trancl_into_trancl)
    next
      show "snd ` graph_edges graph \<subseteq> fst ` set graph" by (rule "1.prems"(3))
      then show "x \<in> fst ` set graph" using edge by force
    qed
  qed
qed

lemma check_acyclic_iff:
  assumes closed: "snd ` graph_edges graph \<subseteq> fst ` set graph"
    and keys: "set keys = fst ` set graph"
  shows "check_acyclic graph keys = Inr () \<longleftrightarrow> acyclic (graph_edges graph)"
proof
  assume "check_acyclic graph keys = Inr ()"
  then obtain seen where loop: "foldE (\<lambda>key visited. visit graph [] key visited) keys [] = Inr seen"
    by (auto simp: check_acyclic_def mapR_Inr_iff)
  have start: "settled graph (set [])" by (simp add: settled_def acyclic_def)
  have body: "settled graph (set v) \<and> set u \<subseteq> set v \<and> x \<in> set v"
    if "settled graph (set u)" "visit graph [] x u = Inr v" for x u v
    using visit_settles [OF that(2,1)] by simp
  have "settled graph (set seen) \<and> set keys \<subseteq> set seen"
    using foldE_collects [where I = "\<lambda>D. settled graph (set D)", OF loop start body] by simp
  moreover have "graph_edges graph \<subseteq> set keys \<times> set keys"
  proof
    fix e assume e: "e \<in> graph_edges graph"
    then have "map_of graph (fst e) \<noteq> None" by (auto simp: graph_edges_def)
    then have "fst e \<in> set keys" using keys by (simp add: map_of_eq_None_iff)
    moreover have "snd e \<in> set keys" using e closed keys by blast
    ultimately show "e \<in> set keys \<times> set keys" by (simp add: mem_Times_iff)
  qed
  ultimately have "graph_edges graph \<inter> set seen \<times> set seen = graph_edges graph" by auto
  with \<open>settled graph (set seen) \<and> _\<close> show "acyclic (graph_edges graph)"
    by (simp add: settled_def)
next
  assume acyc: "acyclic (graph_edges graph)"
  show "check_acyclic graph keys = Inr ()"
  proof (cases "foldE (\<lambda>key visited. visit graph [] key visited) keys []")
    case (Inl e)
    then obtain x u where "x \<in> set keys" "visit graph [] x u = Inl e"
      by (blast dest: foldE_Inl)
    then have "\<not> acyclic (graph_edges graph)"
      using visit_error [of graph "[]" x u e] closed keys by auto
    with acyc show ?thesis by simp
  qed (simp add: check_acyclic_def mapR_def)
qed

definition dependency_relation :: "step_dependency list \<Rightarrow> (string \<times> string) set" where
  "dependency_relation dependencies =
     {(predecessor_key d, successor_key d) | d. d \<in> set dependencies}"

lemma map_of_step_graph:
  "map_of (step_graph_of steps dependencies) k =
     (if k \<in> step_key ` set steps
      then Some (map successor_key (filter (\<lambda>d. predecessor_key d = k) dependencies)) else None)"
  by (induction steps) (auto simp: step_graph_of_def)

lemma graph_edges_step_graph:
  assumes "\<forall>d \<in> set dependencies. predecessor_key d \<in> step_key ` set steps"
  shows "graph_edges (step_graph_of steps dependencies) = dependency_relation dependencies"
proof (rule set_eqI)
  fix e :: "string \<times> string"
  obtain x y where e: "e = (x, y)" by (cases e)
  show "e \<in> graph_edges (step_graph_of steps dependencies) \<longleftrightarrow> e \<in> dependency_relation dependencies"
    using assms
    by (auto simp: e graph_edges_def map_of_step_graph dependency_relation_def) metis
qed

lemma check_acyclic_step_graph:
  assumes "\<forall>d \<in> set dependencies.
    predecessor_key d \<in> step_key ` set steps \<and> successor_key d \<in> step_key ` set steps"
  shows "check_acyclic (step_graph_of steps dependencies) (map step_key steps) = Inr ()
    \<longleftrightarrow> acyclic (dependency_relation dependencies)"
proof -
  have edges: "graph_edges (step_graph_of steps dependencies) = dependency_relation dependencies"
    using assms by (intro graph_edges_step_graph) auto
  have nodes: "fst ` set (step_graph_of steps dependencies) = step_key ` set steps"
    by (force simp: step_graph_of_def)
  show ?thesis
    using assms by (subst check_acyclic_iff) (auto simp: edges nodes dependency_relation_def)
qed

text \<open>
  C1. \<open>validate_step_dag\<close> accepts a roster exactly when it is nonempty, has no
  non-idempotent remote step, its keys and ordinals are unique, its dependencies
  name known steps and form no cycle, and the mandatory decision chain and the
  formal profile are respected.
\<close>

theorem validate_step_dag_iff:
  "validate_step_dag steps dependencies = Inr () \<longleftrightarrow>
     steps \<noteq> [] \<and>
     NON_IDEMPOTENT_REMOTE_COMMAND \<notin> effect_class ` set steps \<and>
     distinct (map step_key steps) \<and> distinct (map ordinal steps) \<and>
     dependency_relation dependencies \<subseteq> step_key ` set steps \<times> step_key ` set steps \<and>
     validate_mandatory_decision_chain steps dependencies = Inr () \<and>
     validate_formal_profile steps dependencies = Inr () \<and>
     acyclic (dependency_relation dependencies)"
proof (cases "\<forall>d \<in> set dependencies.
    predecessor_key d \<in> step_key ` set steps \<and> successor_key d \<in> step_key ` set steps")
  case True
  then have "dependency_relation dependencies \<subseteq> step_key ` set steps \<times> step_key ` set steps"
    by (auto simp: dependency_relation_def)
  with True check_acyclic_step_graph [OF True] show ?thesis
    by (simp add: validate_step_dag_def Let_def thenE_Inr_iff image_iff) metis
next
  case False
  then have "\<not> dependency_relation dependencies \<subseteq> step_key ` set steps \<times> step_key ` set steps"
    by (auto simp: dependency_relation_def)
  with False show ?thesis
    by (auto simp: validate_step_dag_def Let_def thenE_Inr_iff)
qed

end
