(* ===== verification/MRA_Numeric.thy ===== *)
theory MRA_Numeric
  imports Complex_Main MRA_Prelude
begin

text \<open>
  Rounded arithmetic over exact rationals: rounding to an integer with ties to
  even, rounding to a number of significant digits of a base, and the two
  instances the program uses, IEEE double precision (base 2, 53 digits) for
  \<open>timedelta.total_seconds()\<close> and decimal contexts (base 10). Exponent limits are
  left out: every value the program computes is far from them.
\<close>

section \<open>Rounding to an integer\<close>

definition round_half_even :: "rat \<Rightarrow> int" where
  "round_half_even x =
     (let f = \<lfloor>x\<rfloor>; r = x - of_int f
      in if r < 1 / 2 then f
         else if r > 1 / 2 then f + 1
         else if even f then f else f + 1)"

definition trunc_rat :: "rat \<Rightarrow> int" where
  "trunc_rat x = (if x < 0 then - \<lfloor>- x\<rfloor> else \<lfloor>x\<rfloor>)"

lemma round_half_even_of_int [simp]: "round_half_even (of_int n) = n"
  by (simp add: round_half_even_def Let_def)

lemma round_half_even_bounds: "\<lfloor>x\<rfloor> \<le> round_half_even x \<and> round_half_even x \<le> \<lfloor>x\<rfloor> + 1"
  by (simp add: round_half_even_def Let_def)

lemma round_half_even_mono: "x \<le> y \<Longrightarrow> round_half_even x \<le> round_half_even y"
proof -
  assume le: "x \<le> y"
  show ?thesis
  proof (cases "\<lfloor>x\<rfloor> = \<lfloor>y\<rfloor>")
    case True
    with le show ?thesis by (auto simp: round_half_even_def Let_def)
  next
    case False
    then have "\<lfloor>x\<rfloor> + 1 \<le> \<lfloor>y\<rfloor>" using floor_mono [OF le] by linarith
    then show ?thesis using round_half_even_bounds [of x] round_half_even_bounds [of y] by linarith
  qed
qed

lemma round_half_even_error: "\<bar>of_int (round_half_even x) - x\<bar> \<le> 1 / 2"
proof -
  have "of_int \<lfloor>x\<rfloor> \<le> x" "x < of_int \<lfloor>x\<rfloor> + 1" by linarith+
  then show ?thesis
    by (auto simp: round_half_even_def Let_def abs_le_iff)
qed

lemma round_half_even_le: "x \<le> of_int n \<Longrightarrow> round_half_even x \<le> n"
  using round_half_even_mono [of x "of_int n"] by simp

lemma round_half_even_ge: "of_int n \<le> x \<Longrightarrow> n \<le> round_half_even x"
  using round_half_even_mono [of "of_int n" x] by simp

lemma round_half_even_nearest:
  assumes "\<bar>x - of_int n\<bar> < 1 / 2"
  shows "round_half_even x = n"
proof -
  have "\<bar>of_int (round_half_even x) - of_int n :: rat\<bar> < 1"
    using round_half_even_error [of x] assms by linarith
  then show ?thesis by linarith
qed

section \<open>The leading exponent\<close>

fun digit_count :: "nat \<Rightarrow> nat \<Rightarrow> nat" where
  "digit_count b n = (if b < 2 \<or> n = 0 then 0 else Suc (digit_count b (n div b)))"

declare digit_count.simps [simp del]

lemma digit_count_bounds:
  "2 \<le> b \<Longrightarrow> 0 < n \<Longrightarrow> b ^ (digit_count b n - 1) \<le> n \<and> n < b ^ digit_count b n \<and> 0 < digit_count b n"
proof (induction b n rule: digit_count.induct)
  case (1 b n)
  have unfold: "digit_count b n = Suc (digit_count b (n div b))"
    using "1.prems" by (subst digit_count.simps) auto
  show ?case
  proof (cases "n div b = 0")
    case True
    then have "digit_count b (n div b) = 0" by (simp add: digit_count.simps)
    moreover have "n < b" using True "1.prems" by (simp add: div_eq_0_iff)
    ultimately show ?thesis using "1.prems" by (simp add: unfold)
  next
    case False
    let ?k = "digit_count b (n div b)"
    have ih: "b ^ (?k - 1) \<le> n div b" "n div b < b ^ ?k" "0 < ?k"
      using "1.IH" "1.prems" False by auto
    have "b ^ ?k = b * b ^ (?k - 1)" using ih(3) by (metis power_eq_if not_less0 mult.commute)
    also have "\<dots> \<le> b * (n div b)" using ih(1) by simp
    also have "\<dots> \<le> n" by simp
    finally have "b ^ ?k \<le> n" .
    moreover have "n < b ^ Suc ?k"
      using ih(2) "1.prems" by (simp add: div_less_iff_less_mult mult.commute)
    ultimately show ?thesis by (simp add: unfold)
  qed
qed

text \<open>\<open>lead b x\<close> is the exponent of the leading digit of a positive \<open>x\<close>.\<close>

definition lead :: "nat \<Rightarrow> rat \<Rightarrow> int" where
  "lead b x =
     (let (n, d) = quotient_of x;
          k = int (digit_count b (nat n)) - int (digit_count b (nat d))
      in if power_int (of_nat b) k \<le> x then k else k - 1)"

lemma lead_bounds:
  assumes b: "2 \<le> b" and x: "0 < x"
  shows "power_int (of_nat b) (lead b x) \<le> x \<and> x < power_int (of_nat b) (lead b x + 1)"
proof -
  obtain n d where nd: "quotient_of x = (n, d)" by (cases "quotient_of x")
  have d: "0 < d" and xeq: "x = of_int n / of_int d"
    using quotient_of_denom_pos [OF nd] quotient_of_div [OF nd] by auto
  have n: "0 < n" using x xeq d by (simp add: zero_less_divide_iff)
  let ?N = "digit_count b (nat n)" and ?D = "digit_count b (nat d)" and ?B = "of_nat b :: rat"
  have N: "b ^ (?N - 1) \<le> nat n" "nat n < b ^ ?N" "0 < ?N"
    using digit_count_bounds [of b "nat n"] b n by auto
  have D: "b ^ (?D - 1) \<le> nat d" "nat d < b ^ ?D" "0 < ?D"
    using digit_count_bounds [of b "nat d"] b d by auto
  have rat: "of_nat (nat n) = (of_int n :: rat)" "of_nat (nat d) = (of_int d :: rat)"
    using n d by auto
  have B: "0 < ?B" "1 \<le> ?B" using b by auto
  have n1: "?B ^ (?N - 1) \<le> of_int n" using N(1) rat by (metis of_nat_le_iff of_nat_power)
  have n2: "of_int n < ?B ^ ?N" using N(2) rat by (metis of_nat_less_iff of_nat_power)
  have d1: "?B ^ (?D - 1) \<le> of_int d" using D(1) rat by (metis of_nat_le_iff of_nat_power)
  have d2: "of_int d < ?B ^ ?D" using D(2) rat by (metis of_nat_less_iff of_nat_power)
  let ?k = "int ?N - int ?D"
  have "of_int n / of_int d < ?B ^ ?N / ?B ^ (?D - 1)"
    using n1 n2 d1 d B n by (intro frac_less) auto
  also have "\<dots> = power_int ?B (?k + 1)"
  proof -
    have "power_int ?B (int ?N - int (?D - 1)) = ?B ^ ?N / ?B ^ (?D - 1)"
      using B by (simp add: power_int_diff)
    moreover have "int ?N - int (?D - 1) = ?k + 1" using D(3) by simp
    ultimately show ?thesis by metis
  qed
  finally have hi: "x < power_int ?B (?k + 1)" by (simp add: xeq)
  have "?B ^ (?N - 1) / ?B ^ ?D \<le> of_int n / of_int d"
    using n1 d2 d B n by (intro frac_le) auto
  moreover have "?B ^ (?N - 1) / ?B ^ ?D = power_int ?B (?k - 1)"
  proof -
    have "power_int ?B (int (?N - 1) - int ?D) = ?B ^ (?N - 1) / ?B ^ ?D"
      using B by (simp add: power_int_diff)
    moreover have "int (?N - 1) - int ?D = ?k - 1" using N(3) by simp
    ultimately show ?thesis by metis
  qed
  ultimately have lo: "power_int ?B (?k - 1) \<le> x" by (simp add: xeq)
  show ?thesis using hi lo by (auto simp: lead_def nd Let_def)
qed

lemma lead_le:
  assumes b: "2 \<le> b" and x: "0 < x" and lt: "x < power_int (of_nat b) k"
  shows "lead b x < k"
proof (rule ccontr)
  assume "\<not> lead b x < k"
  then have "power_int (of_nat b :: rat) k \<le> power_int (of_nat b) (lead b x)"
    using b by (intro power_int_increasing) auto
  then show False using lead_bounds [OF b x] lt by linarith
qed

section \<open>Rounding to significant digits\<close>

definition round_sig :: "nat \<Rightarrow> nat \<Rightarrow> rat \<Rightarrow> rat" where
  "round_sig b p x =
     (if x = 0 then 0
      else (let e = lead b \<bar>x\<bar> - (int p - 1); u = power_int (of_nat b) e
            in sgn x * (of_int (round_half_even (\<bar>x\<bar> / u)) * u)))"

definition representable :: "nat \<Rightarrow> nat \<Rightarrow> rat \<Rightarrow> bool" where
  "representable b p x \<longleftrightarrow> (\<exists>m e. x = of_int m * power_int (of_nat b) e \<and> \<bar>m\<bar> < int b ^ p)"

lemma round_sig_zero [simp]: "round_sig b p 0 = 0"
  by (simp add: round_sig_def)

lemma round_sig_minus: "round_sig b p (- x) = - round_sig b p x"
  by (simp add: round_sig_def Let_def sgn_minus)

lemma round_sig_pos_bounds:
  assumes b: "2 \<le> b" and p: "0 < p" and x: "0 < x"
  shows "power_int (of_nat b) (lead b x) \<le> round_sig b p x
    \<and> round_sig b p x \<le> power_int (of_nat b) (lead b x + 1)"
proof -
  let ?B = "of_nat b :: rat" and ?L = "lead b x"
  let ?e = "?L - (int p - 1)"
  let ?u = "power_int ?B ?e"
  have u: "0 < ?u" using b by simp
  have lb: "power_int ?B ?L \<le> x" "x < power_int ?B (?L + 1)" using lead_bounds [OF b x] by auto
  have split: "power_int ?B ?L = of_int (int b ^ (p - 1)) * ?u"
  proof -
    have "?L = int (p - 1) + ?e" using p by simp
    then have "power_int ?B ?L = power_int ?B (int (p - 1)) * ?u"
      using b by (metis power_int_add of_nat_0_eq_iff not_numeral_le_zero)
    then show ?thesis by simp
  qed
  have split2: "power_int ?B (?L + 1) = of_int (int b ^ p) * ?u"
  proof -
    have "?L + 1 = int p + ?e" using p by simp
    then have "power_int ?B (?L + 1) = power_int ?B (int p) * ?u"
      using b by (metis power_int_add of_nat_0_eq_iff not_numeral_le_zero)
    then show ?thesis by simp
  qed
  have "int b ^ (p - 1) \<le> round_half_even (x / ?u)"
    using lb(1) u unfolding split by (intro round_half_even_ge) (simp add: pos_le_divide_eq)
  moreover have "round_half_even (x / ?u) \<le> int b ^ p"
  proof (rule round_half_even_le)
    have "x \<le> of_int (int b ^ p) * ?u" using lb(2) unfolding split2 by (rule less_imp_le)
    then show "x / ?u \<le> of_int (int b ^ p)" using u by (simp only: pos_divide_le_eq)
  qed
  moreover have "round_sig b p x = of_int (round_half_even (x / ?u)) * ?u"
    using x by (simp add: round_sig_def Let_def)
  ultimately show ?thesis using u unfolding split split2
    by (simp only: mult_le_cancel_right of_int_le_iff) auto
qed

lemma round_sig_mono_pos:
  assumes b: "2 \<le> b" and p: "0 < p" and x: "0 < x" and le: "x \<le> y"
  shows "round_sig b p x \<le> round_sig b p y"
proof -
  have y: "0 < y" using x le by linarith
  have "x < power_int (of_nat b) (lead b y + 1)" using lead_bounds [OF b y] le by linarith
  then have ll: "lead b x \<le> lead b y" using lead_le [OF b x] by fastforce
  show ?thesis
  proof (cases "lead b x = lead b y")
    case True
    let ?u = "power_int (of_nat b :: rat) (lead b y - (int p - 1))"
    have u: "0 < ?u" using b by simp
    have "x / ?u \<le> y / ?u" using le u by (simp add: divide_right_mono)
    then have "of_int (round_half_even (x / ?u)) * ?u \<le> of_int (round_half_even (y / ?u)) * ?u"
      using u round_half_even_mono by simp
    then show ?thesis using x y True by (simp add: round_sig_def Let_def)
  next
    case False
    have "round_sig b p x \<le> power_int (of_nat b) (lead b x + 1)"
      using round_sig_pos_bounds [OF b p x] by simp
    also have "\<dots> \<le> power_int (of_nat b) (lead b y)"
      using False ll b by (intro power_int_increasing) auto
    also have "\<dots> \<le> round_sig b p y" using round_sig_pos_bounds [OF b p y] by simp
    finally show ?thesis .
  qed
qed

lemma round_sig_nonneg:
  assumes "2 \<le> b" "0 < p" "0 \<le> x" shows "0 \<le> round_sig b p x"
proof (cases "x = 0")
  case False
  then have x: "0 < x" using assms(3) by simp
  have "0 < power_int (of_nat b :: rat) (lead b x)" using assms(1) by simp
  then show ?thesis using round_sig_pos_bounds [OF assms(1,2) x] by linarith
qed simp

lemma round_sig_mono:
  assumes b: "2 \<le> b" and p: "0 < p" and le: "x \<le> y"
  shows "round_sig b p x \<le> round_sig b p y"
proof -
  consider "0 < x" | "x \<le> 0" "0 \<le> y" | "y < 0" using le by linarith
  then show ?thesis
  proof cases
    case 1 then show ?thesis using round_sig_mono_pos [OF b p _ le] by simp
  next
    case 2
    then have "0 \<le> round_sig b p (- x)" "0 \<le> round_sig b p y"
      using round_sig_nonneg [OF b p] by simp_all
    then show ?thesis by (simp add: round_sig_minus)
  next
    case 3
    then have "round_sig b p (- y) \<le> round_sig b p (- x)"
      using round_sig_mono_pos [OF b p, of "- y" "- x"] le by simp
    then show ?thesis by (simp add: round_sig_minus)
  qed
qed

lemma round_sig_exact_pos:
  assumes b: "2 \<le> b" and p: "0 < p" and x: "0 < x" and rep: "representable b p x"
  shows "round_sig b p x = x"
proof -
  let ?B = "of_nat b :: rat"
  from rep obtain m e where xeq: "x = of_int m * power_int ?B e" and m: "\<bar>m\<bar> < int b ^ p"
    by (auto simp: representable_def)
  have pe: "0 < power_int ?B e" using b by simp
  have "m < int b ^ p" using m by simp
  then have "(of_int m :: rat) < of_int (int b ^ p)" by (simp only: of_int_less_iff)
  then have "x < of_int (int b ^ p) * power_int ?B e" using pe by (simp only: xeq mult_less_cancel_right) auto
  also have "\<dots> = power_int ?B (int p + e)" using b by (simp add: power_int_add)
  finally have "lead b x < int p + e" by (rule lead_le [OF b x])
  then obtain k where k: "e = (lead b x - (int p - 1)) + int k"
    by (metis add.commute diff_add_cancel zle_iff_zadd add_le_cancel_left zless_imp_add1_zle
        diff_diff_eq2 diff_le_eq add.assoc)
  let ?u = "power_int ?B (lead b x - (int p - 1))"
  have u: "0 < ?u" using b by simp
  have "power_int ?B e = ?B ^ k * ?u" using b by (subst k) (simp add: power_int_add)
  then have "x = of_int m * (?B ^ k * ?u)" using xeq by metis
  then have "x = of_int (m * int b ^ k) * ?u" by simp
  then have "x / ?u = of_int (m * int b ^ k)" using u by (metis less_irrefl nonzero_eq_divide_eq)
  then have "round_half_even (x / ?u) = m * int b ^ k" by (simp only: round_half_even_of_int)
  then have "of_int (round_half_even (x / ?u)) * ?u = x"
    using \<open>x = of_int (m * int b ^ k) * ?u\<close> by simp
  then show ?thesis using x by (simp add: round_sig_def Let_def)
qed

lemma representable_minus: "representable b p (- x) = representable b p x"
proof -
  have "representable b p (- y)" if "representable b p y" for y
  proof -
    from that obtain m e where "y = of_int m * power_int (of_nat b) e" "\<bar>m\<bar> < int b ^ p"
      by (auto simp: representable_def)
    then have "- y = of_int (- m) * power_int (of_nat b) e \<and> \<bar>- m\<bar> < int b ^ p" by simp
    then show ?thesis unfolding representable_def by blast
  qed
  from this [of x] this [of "- x"] show ?thesis by auto
qed

lemma round_sig_exact:
  assumes b: "2 \<le> b" and p: "0 < p" and rep: "representable b p x"
  shows "round_sig b p x = x"
proof -
  consider "0 < x" | "x = 0" | "0 < - x" by linarith
  then show ?thesis
  proof cases
    case 3
    then have "round_sig b p (- x) = - x"
      using round_sig_exact_pos [OF b p] rep by (simp add: representable_minus)
    then show ?thesis by (simp add: round_sig_minus)
  qed (simp_all add: round_sig_exact_pos [OF b p _ rep])
qed

lemma representable_of_int: "\<bar>m\<bar> < int b ^ p \<Longrightarrow> representable b p (of_int m)"
  unfolding representable_def by (rule exI [of _ m], rule exI [of _ 0]) simp

text \<open>The leading exponent is fixed by its bounds, so a rounding can be computed.\<close>

text \<open>A rounded value is representable: rounding it again changes nothing.\<close>

lemma round_sig_representable:
  assumes b: "2 \<le> b" and p: "0 < p"
  shows "representable b p (round_sig b p x)"
proof -
  have pos: "representable b p (round_sig b p y)" if y: "0 < y" for y
  proof -
    let ?u = "power_int (of_nat b :: rat) (lead b y - (int p - 1))"
    let ?m = "round_half_even (y / ?u)"
    have u: "0 < ?u" using b by simp
    have eq: "round_sig b p y = of_int ?m * ?u" using y by (simp add: round_sig_def Let_def)
    have top: "power_int (of_nat b :: rat) (lead b y + 1) = of_int (int b ^ p) * ?u"
      using b power_int_add [of "of_nat b :: rat" "int p" "lead b y - (int p - 1)"] by simp
    have "of_int ?m * ?u \<le> of_int (int b ^ p) * ?u"
      using round_sig_pos_bounds [OF b p y] unfolding eq top by simp
    then have "?m \<le> int b ^ p" using u by (simp only: mult_le_cancel_right of_int_le_iff)
    moreover have "0 \<le> ?m" by (rule round_half_even_ge) (use y u in simp)
    ultimately consider "\<bar>?m\<bar> < int b ^ p" | "?m = int b ^ p" by linarith
    then show ?thesis
    proof cases
      case 1 then show ?thesis unfolding eq representable_def by blast
    next
      case 2
      have "(1::int) < int b ^ p" using b p by (intro one_less_power) auto
      then show ?thesis
        using eq top 2 unfolding representable_def
        by (intro exI [of _ 1] exI [of _ "lead b y + 1"]) simp
    qed
  qed
  consider "0 < x" | "x = 0" | "0 < - x" by linarith
  then show ?thesis
  proof cases
    case 2
    have "representable b p (of_int 0)" by (rule representable_of_int) (use b in simp)
    then show ?thesis using 2 by simp
  next
    case 3
    then show ?thesis using pos [of "- x"] by (simp add: round_sig_minus representable_minus)
  qed (rule pos)
qed

lemma round_sig_idem: "2 \<le> b \<Longrightarrow> 0 < p \<Longrightarrow> round_sig b p (round_sig b p x) = round_sig b p x"
  by (intro round_sig_exact round_sig_representable)

lemma lead_eqI:
  assumes "2 \<le> b" "power_int (of_nat b) k \<le> x" "x < power_int (of_nat b) (k + 1)"
  shows "lead b x = k"
proof -
  have pos: "0 < (of_nat b :: rat)" using assms(1) by simp
  have x: "0 < x" using assms(2) zero_less_power_int [OF pos, of k] by linarith
  have one: "1 < (of_nat b :: rat)" using assms(1) by simp
  note l = lead_bounds [OF assms(1) x]
  have "power_int (of_nat b) k < power_int (of_nat b :: rat) (lead b x + 1)"
    "power_int (of_nat b) (lead b x) < power_int (of_nat b :: rat) (k + 1)"
    using l assms(2,3) by linarith+
  then have "\<not> lead b x + 1 \<le> k" "\<not> k + 1 \<le> lead b x"
    using power_int_increasing [of _ _ "of_nat b :: rat"] one by (meson less_imp_le not_less)+
  then show ?thesis by linarith
qed

lemma round_sig_at:
  assumes "2 \<le> b" "0 < x" "power_int (of_nat b) k \<le> x" "x < power_int (of_nat b) (k + 1)"
  shows "round_sig b p x = of_int (round_half_even (x * power_int (of_nat b) (int p - 1 - k)))
    * power_int (of_nat b) (k - (int p - 1))"
proof -
  have "lead b x = k" using lead_eqI assms by blast
  moreover have "x / power_int (of_nat b) (k - (int p - 1)) = x * power_int (of_nat b :: rat) (int p - 1 - k)"
    using assms(1) by (simp add: power_int_diff field_simps)
  ultimately show ?thesis using assms(2) by (simp add: round_sig_def Let_def)
qed

section \<open>The contract of a rounding\<close>

text \<open>
  What the callers rely on: rounding is monotone and leaves representable values
  alone, so bounds by representable values survive it.
\<close>

locale rounding =
  fixes rnd :: "rat \<Rightarrow> rat" and rep :: "rat \<Rightarrow> bool"
  assumes rnd_mono: "x \<le> y \<Longrightarrow> rnd x \<le> rnd y"
    and rnd_exact: "rep x \<Longrightarrow> rnd x = x"
begin

lemma upper: "rep y \<Longrightarrow> x \<le> y \<Longrightarrow> rnd x \<le> y"
  using rnd_mono [of x y] rnd_exact [of y] by simp

lemma lower: "rep y \<Longrightarrow> y \<le> x \<Longrightarrow> y \<le> rnd x"
  using rnd_mono [of y x] rnd_exact [of y] by simp

end

text \<open>Python's float: a true division or a product rounded once to 53 bits.\<close>

definition float_round :: "rat \<Rightarrow> rat" where
  "float_round = round_sig 2 53"

definition float_exact :: "rat \<Rightarrow> bool" where
  "float_exact = representable 2 53"

interpretation double: rounding float_round float_exact
  by unfold_locales
    (simp_all add: float_round_def float_exact_def round_sig_mono round_sig_exact)

end
