(* ===== verification/Py_Decimal.thy ===== *)
theory Py_Decimal
  imports MRA_Numeric
begin

text \<open>
  Python's \<open>decimal.Decimal\<close> and \<open>fractions.Fraction\<close> as far as the program uses
  them. A finite decimal is a sign, a coefficient and an exponent, so two decimals
  of one value may differ in spelling (\<open>1.0\<close> and \<open>1\<close>), as in Python; \<open>dval\<close> is its
  value. A Fraction is a rational number.
\<close>

section \<open>Digits\<close>

fun dec_digits :: "nat \<Rightarrow> string" where
  "dec_digits n =
     (if n < 10 then [char_of (48 + n)]
      else dec_digits (n div 10) @ [char_of (48 + n mod 10)])"

declare dec_digits.simps [simp del]

definition int_str :: "int \<Rightarrow> string" where
  "int_str i = (if i < 0 then ''-'' @ dec_digits (nat (- i)) else dec_digits (nat i))"

definition zeros :: "nat \<Rightarrow> string" where
  "zeros n = replicate n (CHR ''0'')"

text \<open>Zero-padded to at least \<open>w\<close> digits.\<close>

definition padded :: "nat \<Rightarrow> int \<Rightarrow> string" where
  "padded w i = (let s = int_str i in zeros (w - length s) @ s)"

lemma dec_digits_nonempty [simp]: "dec_digits n \<noteq> []"
  by (subst dec_digits.simps) simp

lemma is_digit_char_of: "n < 10 \<Longrightarrow> is_digit (char_of (48 + n :: nat))"
  by (simp add: is_digit_def Let_def)

lemma dec_digits_are_digits: "list_all is_digit (dec_digits n)"
proof (induction n rule: dec_digits.induct)
  case (1 n)
  show ?case
  proof (cases "n < 10")
    case True then show ?thesis by (subst dec_digits.simps) (simp add: is_digit_char_of)
  next
    case False
    with 1 show ?thesis by (subst dec_digits.simps) (simp add: is_digit_char_of)
  qed
qed

lemma dec_digits_below: "n < 10 \<Longrightarrow> dec_digits n = [char_of (48 + n)]"
  by (subst dec_digits.simps) simp

lemma dec_digits_above: "\<not> n < 10 \<Longrightarrow> dec_digits n = dec_digits (n div 10) @ [char_of (48 + n mod 10)]"
  by (subst dec_digits.simps) simp

lemma length_dec_digits: "0 < k \<Longrightarrow> length (dec_digits n) \<le> k \<longleftrightarrow> n < 10 ^ k"
proof (induction n arbitrary: k rule: dec_digits.induct)
  case (1 n)
  then obtain j where k: "k = Suc j" by (cases k) auto
  show ?case
  proof (cases "n < 10")
    case True
    then show ?thesis using k by (subst dec_digits.simps) (simp add: order_less_le_trans [of n 10])
  next
    case False
    have step: "length (dec_digits n) = Suc (length (dec_digits (n div 10)))"
      using False by (subst dec_digits.simps) simp
    show ?thesis
    proof (cases j)
      case 0
      have "dec_digits (n div 10) \<noteq> []" by simp
      then show ?thesis using step 0 k False by (simp del: dec_digits_nonempty)
    next
      case (Suc i)
      then have "length (dec_digits (n div 10)) \<le> j \<longleftrightarrow> n div 10 < 10 ^ j" using 1 False by simp
      then show ?thesis using step k by (simp add: div_less_iff_less_mult mult.commute)
    qed
  qed
qed

section \<open>Decimals\<close>

datatype decimal = Fin (negative: bool) (coefficient: nat) (exponent: int) | Infinite bool | NaN

fun is_finite :: "decimal \<Rightarrow> bool" where
  "is_finite (Fin s c e) = True"
| "is_finite _ = False"

fun dval :: "decimal \<Rightarrow> rat" where
  "dval (Fin s c e) = (if s then - 1 else 1) * of_nat c * power_int 10 e"
| "dval _ = 0"

definition decimal_of_int :: "int \<Rightarrow> decimal" where
  "decimal_of_int i = Fin (i < 0) (nat \<bar>i\<bar>) 0"

lemma dval_decimal_of_int [simp]: "dval (decimal_of_int i) = of_int i"
  by (simp add: decimal_of_int_def)

text \<open>\<open>format(value, "f")\<close>: positional notation, never an exponent.\<close>

fun format_f :: "decimal \<Rightarrow> string" where
  "format_f (Fin s c e) =
     (if s then ''-'' else '''') @
     (let ds = dec_digits c in
      if 0 \<le> e then (if c = 0 then ''0'' else ds @ zeros (nat e))
      else let k = nat (- e) in
        if length ds \<le> k then ''0.'' @ zeros (k - length ds) @ ds
        else take (length ds - k) ds @ ''.'' @ drop (length ds - k) ds)"
| "format_f (Infinite s) = (if s then ''-Infinity'' else ''Infinity'')"
| "format_f NaN = ''NaN''"

section \<open>Contexts\<close>

text \<open>
  The result of rounding an exact rational in a context of \<open>prec\<close> digits, half to
  even, with ideal exponent 0: an exact quotient that fits keeps the shortest
  spelling with an exponent of at most 0; every other result has \<open>prec\<close> digits.
\<close>

fun strip_zeros :: "nat \<Rightarrow> nat \<Rightarrow> nat \<times> nat" where
  "strip_zeros c 0 = (c, 0)"
| "strip_zeros c (Suc k) = (if c mod 10 = 0 then strip_zeros (c div 10) k else (c, Suc k))"

definition rounded_digits :: "nat \<Rightarrow> rat \<Rightarrow> nat \<times> int" where
  "rounded_digits prec a =
     (let e = lead 10 a - (int prec - 1);
          c = nat (round_half_even (a / power_int 10 e))
      in if c = 10 ^ prec then (c div 10, e + 1) else (c, e))"

definition ideal_exponent :: "rat \<Rightarrow> nat \<times> int \<Rightarrow> nat \<times> int" where
  "ideal_exponent a ce =
     (case ce of (c, e) \<Rightarrow>
        if e < 0 \<and> of_nat c * power_int 10 e = a
        then (case strip_zeros c (nat (- e)) of (c', k) \<Rightarrow> (c', - int k))
        else (c, e))"

definition decimal_quotient :: "nat \<Rightarrow> rat \<Rightarrow> decimal" where
  "decimal_quotient prec q =
     (if q = 0 then Fin False 0 0
      else case ideal_exponent \<bar>q\<bar> (rounded_digits prec \<bar>q\<bar>) of (c, e) \<Rightarrow> Fin (q < 0) c e)"

lemma strip_zeros_value:
  "strip_zeros c k = (c', k') \<Longrightarrow> c * 10 ^ k' = c' * 10 ^ k \<and> k' \<le> k"
proof (induction c k arbitrary: c' k' rule: strip_zeros.induct)
  case (2 c k)
  show ?case
  proof (cases "c mod 10 = 0")
    case True
    then have "c div 10 * 10 ^ k' = c' * 10 ^ k \<and> k' \<le> k" using 2 by simp
    moreover have "c = c div 10 * 10" using True by auto
    ultimately show ?thesis by (metis le_SucI mult.assoc mult.commute power_Suc)
  next
    case False with 2 show ?thesis by auto
  qed
qed auto

lemma power_int_neg_exponent: "e < 0 \<Longrightarrow> power_int (10::rat) e = 1 / 10 ^ nat (- e)"
  by (simp add: power_int_def inverse_eq_divide power_one_over)

lemma rounded_digits_value:
  assumes prec: "0 < prec" and a: "0 < a" and ce: "rounded_digits prec a = (c, e)"
  shows "of_nat c * power_int 10 e = round_sig 10 prec a"
proof -
  let ?e = "lead 10 a - (int prec - 1)"
  let ?m = "round_half_even (a / power_int 10 ?e)"
  have m: "0 \<le> ?m" by (rule round_half_even_ge) (use a in simp)
  have sig: "round_sig 10 prec a = of_int ?m * power_int 10 ?e"
    using a by (simp add: round_sig_def Let_def)
  show ?thesis
  proof (cases "nat ?m = 10 ^ prec")
    case True
    obtain p where p: "prec = Suc p" using prec by (cases prec) auto
    have m10: "?m = 10 ^ prec" using True m by (metis nat_eq_iff of_nat_numeral of_nat_power)
    have "c = 10 ^ p" "e = ?e + 1"
      using True ce by (simp_all add: rounded_digits_def Let_def p)
    then have "of_nat c * power_int 10 e = (10 ^ prec * power_int 10 ?e :: rat)"
      by (simp add: power_int_add p)
    then show ?thesis using m10 sig by simp
  next
    case False
    then show ?thesis using ce m sig by (auto simp: rounded_digits_def Let_def)
  qed
qed

lemma ideal_exponent_value:
  assumes "ideal_exponent a (c, e) = (c', e')"
  shows "(of_nat c' :: rat) * power_int 10 e' = of_nat c * power_int 10 e"
proof (cases "e < 0 \<and> of_nat c * power_int 10 e = a")
  case True
  then have e: "e < 0" by blast
  obtain d k where s: "strip_zeros c (nat (- e)) = (d, k)" by fastforce
  have c': "c' = d" "e' = - int k" using assms True s by (auto simp: ideal_exponent_def)
  have "c * 10 ^ k = d * 10 ^ nat (- e)" using strip_zeros_value [OF s] by simp
  then have "(of_nat c :: rat) * 10 ^ k = of_nat d * 10 ^ nat (- e)"
    by (metis of_nat_mult of_nat_numeral of_nat_power)
  then have "(of_nat d :: rat) / 10 ^ k = of_nat c / 10 ^ nat (- e)"
    by (simp add: frac_eq_eq)
  moreover have "power_int (10::rat) e = 1 / 10 ^ nat (- e)"
    by (rule power_int_neg_exponent [OF e])
  moreover have "power_int (10::rat) (- int k) = 1 / 10 ^ k"
    using power_int_neg_exponent [of "- int k"] by (cases "k = 0") auto
  ultimately show ?thesis unfolding c' by (metis times_divide_eq_right mult.right_neutral)
next
  case False
  then show ?thesis using assms by (auto simp: ideal_exponent_def)
qed

lemma decimal_quotient_value:
  assumes prec: "0 < prec"
  shows "dval (decimal_quotient prec q) = round_sig 10 prec q"
proof (cases "q = 0")
  case False
  obtain c e where ce: "rounded_digits prec \<bar>q\<bar> = (c, e)" by fastforce
  obtain c' e' where ce': "ideal_exponent \<bar>q\<bar> (c, e) = (c', e')" by fastforce
  have "(of_nat c' :: rat) * power_int 10 e' = round_sig 10 prec \<bar>q\<bar>"
    using rounded_digits_value [OF prec _ ce] ideal_exponent_value [OF ce'] False by simp
  moreover have "decimal_quotient prec q = Fin (q < 0) c' e'"
    using False by (simp add: decimal_quotient_def ce ce')
  ultimately show ?thesis
    using round_sig_minus [of 10 prec q] by (cases "q < 0") simp_all
qed (simp add: decimal_quotient_def)

end
