(* ===== verification/Canonical_Hashing.thy ===== *)
theory Canonical_Hashing
  imports Py_Decimal Shared_Values "HOL-Library.Char_ord" "HOL-Library.List_Lexorder"
    "HOL-Library.Multiset"
begin

text \<open>
  \<open>shared/hashing.py\<close> and the standard library it uses: SHA-256, the JSON encoder
  with sorted keys, \<open>isoformat\<close>, and the normalisation of a request value.
  \<open>uuid5\<close> and its SHA-1, which the ranking identities use, are here too.

  A Python \<open>str\<close> is the list of the bytes of its UTF-8 encoding, so \<open>encode("utf-8")\<close>
  is the identity and the order of strings is the order of code points.
\<close>

unbundle bit_operations_syntax

section \<open>SHA-256 and SHA-1\<close>

type_synonym w32 = "32 word"

definition byte_nat :: "char \<Rightarrow> nat" where
  "byte_nat c = of_char c"

fun words_of_bytes :: "nat list \<Rightarrow> w32 list" where
  "words_of_bytes (a # b # c # d # rest) =
     of_nat (((a * 256 + b) * 256 + c) * 256 + d) # words_of_bytes rest"
| "words_of_bytes _ = []"

fun be_bytes :: "nat \<Rightarrow> nat \<Rightarrow> nat list" where
  "be_bytes 0 n = []"
| "be_bytes (Suc k) n = be_bytes k (n div 256) @ [n mod 256]"

definition sha_pad :: "nat list \<Rightarrow> nat list" where
  "sha_pad bs =
     bs @ [128] @ replicate ((119 - length bs mod 64) mod 64) 0 @ be_bytes 8 (8 * length bs)"

fun blocks_of :: "nat \<Rightarrow> w32 list \<Rightarrow> w32 list list" where
  "blocks_of 0 ws = []"
| "blocks_of (Suc k) ws = take 16 ws # blocks_of k (drop 16 ws)"

definition message_blocks :: "nat list \<Rightarrow> w32 list list" where
  "message_blocks bs = (let ws = words_of_bytes (sha_pad bs) in blocks_of (length ws div 16) ws)"

text \<open>
  The constants are the first 32 bits of the fractional parts of the cube roots of the
  first sixty-four primes. \<open>root_bits k i n acc\<close> is the largest \<open>k\<close>-th root below \<open>n\<close>,
  found bit by bit.
\<close>

fun root_bits :: "nat \<Rightarrow> nat \<Rightarrow> nat \<Rightarrow> nat \<Rightarrow> nat" where
  "root_bits k 0 n acc = acc"
| "root_bits k (Suc i) n acc = root_bits k i n (if (acc + 2 ^ i) ^ k \<le> n then acc + 2 ^ i else acc)"

definition small_primes :: "nat list" where
  "small_primes = filter (\<lambda>n. list_all (\<lambda>d. n mod d \<noteq> 0) [2..<n]) [2..<312]"

definition sha256_K :: "w32 list" where
  "sha256_K = map (\<lambda>p. of_nat (root_bits 3 36 (p * 2 ^ 96) 0)) small_primes"

definition rotr :: "nat \<Rightarrow> w32 \<Rightarrow> w32" where
  "rotr n x = drop_bit n x OR push_bit (32 - n) x"

fun sha256_schedule :: "nat \<Rightarrow> w32 list \<Rightarrow> w32 list" where
  "sha256_schedule 0 w = w"
| "sha256_schedule (Suc k) w =
     (let n = length w; x = w ! (n - 15); y = w ! (n - 2);
          s0 = rotr 7 x XOR rotr 18 x XOR drop_bit 3 x;
          s1 = rotr 17 y XOR rotr 19 y XOR drop_bit 10 y
      in sha256_schedule k (w @ [w ! (n - 16) + s0 + w ! (n - 7) + s1]))"

fun sha256_round :: "w32 list \<Rightarrow> w32 \<times> w32 \<Rightarrow> w32 list" where
  "sha256_round [a, b, c, d, e, f, g, h] (k, w) =
     (let s1 = rotr 6 e XOR rotr 11 e XOR rotr 25 e;
          ch = (e AND f) XOR (NOT e AND g);
          t1 = h + s1 + ch + k + w;
          s0 = rotr 2 a XOR rotr 13 a XOR rotr 22 a;
          mj = (a AND b) XOR (a AND c) XOR (b AND c)
      in [t1 + (s0 + mj), a, b, c, d + t1, e, f, g])"
| "sha256_round s _ = s"

definition sha256_block :: "w32 list \<Rightarrow> w32 list \<Rightarrow> w32 list" where
  "sha256_block st blk =
     map2 (+) st (foldl sha256_round st (zip sha256_K (sha256_schedule 48 blk)))"

definition sha256_init :: "w32 list" where
  "sha256_init = [0x6a09e667, 0xbb67ae85, 0x3c6ef372, 0xa54ff53a,
                  0x510e527f, 0x9b05688c, 0x1f83d9ab, 0x5be0cd19]"

definition sha256_bytes :: "string \<Rightarrow> string" where
  "sha256_bytes s =
     concat (map (\<lambda>w. hex_digits 8 (unat w))
       (foldl sha256_block sha256_init (message_blocks (map byte_nat s))))"

definition rotl :: "nat \<Rightarrow> w32 \<Rightarrow> w32" where
  "rotl n x = push_bit n x OR drop_bit (32 - n) x"

fun sha1_schedule :: "nat \<Rightarrow> w32 list \<Rightarrow> w32 list" where
  "sha1_schedule 0 w = w"
| "sha1_schedule (Suc k) w =
     (let n = length w
      in sha1_schedule k
           (w @ [rotl 1 (w ! (n - 3) XOR w ! (n - 8) XOR w ! (n - 14) XOR w ! (n - 16))]))"

fun sha1_round :: "w32 list \<Rightarrow> nat \<times> w32 \<Rightarrow> w32 list" where
  "sha1_round [a, b, c, d, e] (i, w) =
     (let (f, k) = (if i < 20 then ((b AND c) OR (NOT b AND d), 0x5a827999)
                    else if i < 40 then (b XOR c XOR d, 0x6ed9eba1)
                    else if i < 60 then ((b AND c) OR (b AND d) OR (c AND d), 0x8f1bbcdc)
                    else (b XOR c XOR d, 0xca62c1d6))
      in [rotl 5 a + f + e + k + w, a, rotl 30 b, c, d])"
| "sha1_round s _ = s"

definition sha1_block :: "w32 list \<Rightarrow> w32 list \<Rightarrow> w32 list" where
  "sha1_block st blk =
     map2 (+) st (foldl sha1_round st (zip [0..<80] (sha1_schedule 64 blk)))"

definition sha1_digest :: "nat list \<Rightarrow> w32 list" where
  "sha1_digest bs =
     foldl sha1_block [0x67452301, 0xefcdab89, 0x98badcfe, 0x10325476, 0xc3d2e1f0]
       (message_blocks bs)"

text \<open>\<open>uuid5(namespace, name)\<close>: version 5 and the RFC variant over 128 digest bits.\<close>

definition uuid5 :: "uuid \<Rightarrow> string \<Rightarrow> uuid" where
  "uuid5 ns name =
     (let d = sha1_digest (be_bytes 16 (unat ns) @ map byte_nat name);
          v = foldl (\<lambda>acc w. acc * 2 ^ 32 + (of_nat (unat w) :: uuid)) 0 (take 4 d);
          v = (v AND NOT (push_bit 48 0xc000)) OR push_bit 48 0x8000
      in (v AND NOT (push_bit 64 0xf000)) OR push_bit 76 5)"

definition NAMESPACE_URL :: uuid where
  "NAMESPACE_URL = 0x6ba7b8119dad11d180b400c04fd430c8"

section \<open>JSON\<close>

datatype json =
    JNull | JBool bool | JInt int | JStr string | JArr "json list" | JObj "(string \<times> json) list"

text \<open>Decoding UTF-8, for the escapes of the ASCII encoder.\<close>

fun utf8_decode :: "nat list \<Rightarrow> nat list" where
  "utf8_decode [] = []"
| "utf8_decode (a # bs) =
     (if a < 128 then a # utf8_decode bs
      else if a < 224 then
        (case bs of b # rest \<Rightarrow> ((a - 192) * 64 + (b - 128)) # utf8_decode rest | _ \<Rightarrow> [])
      else if a < 240 then
        (case bs of b # c # rest \<Rightarrow>
           (((a - 224) * 64 + (b - 128)) * 64 + (c - 128)) # utf8_decode rest | _ \<Rightarrow> [])
      else
        (case bs of b # c # d # rest \<Rightarrow>
           ((((a - 240) * 64 + (b - 128)) * 64 + (c - 128)) * 64 + (d - 128)) # utf8_decode rest
         | _ \<Rightarrow> []))"

definition unicode_escape :: "nat \<Rightarrow> string" where
  "unicode_escape n = [char_of (92 :: nat), CHR ''u''] @ hex_digits 4 n"

text \<open>The escapes both encoders share; \<open>None\<close> where they differ.\<close>

definition common_escape :: "nat \<Rightarrow> string option" where
  "common_escape n =
     (if n = 34 then Some [char_of (92 :: nat), char_of (34 :: nat)]
      else if n = 92 then Some [char_of (92 :: nat), char_of (92 :: nat)]
      else if n = 10 then Some [char_of (92 :: nat), CHR ''n'']
      else if n = 13 then Some [char_of (92 :: nat), CHR ''r'']
      else if n = 9 then Some [char_of (92 :: nat), CHR ''t'']
      else if n = 12 then Some [char_of (92 :: nat), CHR ''f'']
      else if n = 8 then Some [char_of (92 :: nat), CHR ''b'']
      else if n < 32 then Some (unicode_escape n)
      else None)"

definition quoted :: "string \<Rightarrow> string" where
  "quoted s = [char_of (34 :: nat)] @ s @ [char_of (34 :: nat)]"

definition json_str_utf8 :: "string \<Rightarrow> string" where
  "json_str_utf8 s =
     quoted (concat (map (\<lambda>c. case common_escape (byte_nat c) of Some e \<Rightarrow> e | None \<Rightarrow> [c]) s))"

definition ascii_escape :: "nat \<Rightarrow> string" where
  "ascii_escape n =
     (case common_escape n of Some e \<Rightarrow> e
      | None \<Rightarrow>
          if n < 127 then [char_of n]
          else if n < 65536 then unicode_escape n
          else unicode_escape (55296 + (n - 65536) div 1024)
               @ unicode_escape (56320 + (n - 65536) mod 1024))"

definition json_str_ascii :: "string \<Rightarrow> string" where
  "json_str_ascii s = quoted (concat (map ascii_escape (utf8_decode (map byte_nat s))))"

fun join_str :: "string \<Rightarrow> string list \<Rightarrow> string" where
  "join_str sep [] = []"
| "join_str sep [x] = x"
| "join_str sep (x # y # ys) = x @ sep @ join_str sep (y # ys)"

text \<open>\<open>json.dumps(..., sort_keys=True)\<close> with a string encoder and two separators.\<close>

fun json_dumps :: "(string \<Rightarrow> string) \<Rightarrow> string \<Rightarrow> string \<Rightarrow> json \<Rightarrow> string" where
  "json_dumps enc comma colon JNull = ''null''"
| "json_dumps enc comma colon (JBool b) = (if b then ''true'' else ''false'')"
| "json_dumps enc comma colon (JInt i) = int_str i"
| "json_dumps enc comma colon (JStr s) = enc s"
| "json_dumps enc comma colon (JArr xs) =
     ''['' @ join_str comma (map (json_dumps enc comma colon) xs) @ '']''"
| "json_dumps enc comma colon (JObj kvs) =
     ''{'' @ join_str comma
       (map snd (sort_key fst (map (\<lambda>(k, v). (k, enc k @ colon @ json_dumps enc comma colon v)) kvs)))
     @ ''}''"

definition dumps_canonical :: "json \<Rightarrow> string" where
  "dumps_canonical = json_dumps json_str_utf8 '','' '':''"

definition dumps_default :: "json \<Rightarrow> string" where
  "dumps_default = json_dumps json_str_ascii '', '' '': ''"

section \<open>Calendar text\<close>

text \<open>The civil date of a day number since 1970-01-01, as year, month and day.\<close>

definition civil_of_days :: "int \<Rightarrow> int \<times> int \<times> int" where
  "civil_of_days days =
     (let z = days + 719468;
          era = z div 146097;
          doe = z mod 146097;
          yoe = (doe - doe div 1460 + doe div 36524 - doe div 146096) div 365;
          doy = doe - (365 * yoe + yoe div 4 - yoe div 100);
          mp = (5 * doy + 2) div 153;
          d = doy - (153 * mp + 2) div 5 + 1;
          m = (if mp < 10 then mp + 3 else mp - 9);
          y = yoe + era * 400 + (if m \<le> 2 then 1 else 0)
      in (y, m, d))"

definition date_iso :: "int \<Rightarrow> string" where
  "date_iso days =
     (let (y, m, d) = civil_of_days days
      in padded 4 y @ ''-'' @ padded 2 m @ ''-'' @ padded 2 d)"

definition fraction_iso :: "int \<Rightarrow> string" where
  "fraction_iso us = (if us = 0 then '''' else ''.'' @ padded 6 us)"

definition time_iso :: "int \<Rightarrow> string" where
  "time_iso us =
     (let s = us div 1000000
      in padded 2 (s div 3600) @ '':'' @ padded 2 (s div 60 mod 60) @ '':'' @ padded 2 (s mod 60)
         @ fraction_iso (us mod 1000000))"

definition offset_iso :: "int \<Rightarrow> string" where
  "offset_iso off =
     (let a = \<bar>off\<bar>; s = a div 1000000
      in (if off < 0 then ''-'' else ''+'') @ padded 2 (s div 3600) @ '':'' @ padded 2 (s div 60 mod 60)
         @ (if s mod 60 = 0 \<and> a mod 1000000 = 0 then ''''
            else '':'' @ padded 2 (s mod 60) @ fraction_iso (a mod 1000000)))"

definition datetime_iso :: "instant \<Rightarrow> int \<Rightarrow> string" where
  "datetime_iso t off =
     (let l = t + off
      in date_iso (l div 86400000000) @ ''T'' @ time_iso (l mod 86400000000) @ offset_iso off)"


section \<open>Canonical requests\<close>

text \<open>
  The values a request is built from. A mapping has string keys (every mapping the
  modelled code hashes does); a date is its day number, a time the microseconds of
  its day, a timedelta its microseconds. \<open>POther\<close> is a value of any other type.
\<close>

datatype pyval =
    PNone | PBool bool | PInt int | PStr string | PFloat | PDecimal decimal | PUuid uuid
  | PEnum pyval | PDatetime py_datetime | PDate int | PTime int | PTimedelta int
  | PMapping "(string \<times> pyval) list" | PSet "pyval list" | PSequence "pyval list"
  | PDataclass "(string \<times> pyval) list" | POther

fun normalize_value :: "pyval \<Rightarrow> json result" where
  "normalize_value PNone = Inr JNull"
| "normalize_value (PBool b) = Inr (JBool b)"
| "normalize_value (PInt i) = Inr (JInt i)"
| "normalize_value (PStr s) = Inr (JStr s)"
| "normalize_value PFloat = Inl (TypeError ''floats are not canonical request values'')"
| "normalize_value (PDecimal d) = Inr (JStr (format_f d))"
| "normalize_value (PUuid u) = Inr (JStr (uuid_str u))"
| "normalize_value (PEnum v) = normalize_value v"
| "normalize_value (PDatetime (Naive t)) =
     Inl (ValueError ''canonical datetimes must be timezone-aware'')"
| "normalize_value (PDatetime (Aware t off)) = Inr (JStr (datetime_iso t off))"
| "normalize_value (PDate d) = Inr (JStr (date_iso d))"
| "normalize_value (PTime us) = Inr (JStr (time_iso us))"
| "normalize_value (PTimedelta us) = Inr (JInt us)"
| "normalize_value (PMapping kvs) =
     mapR JObj (mapE (\<lambda>kv. mapR (Pair (fst kv)) (normalize_value (snd kv))) kvs)"
| "normalize_value (PSet xs) =
     mapR (\<lambda>ys. JArr (sort_key dumps_default ys)) (mapE normalize_value xs)"
| "normalize_value (PSequence xs) = mapR JArr (mapE normalize_value xs)"
| "normalize_value (PDataclass kvs) =
     mapR JObj (mapE (\<lambda>kv. mapR (Pair (fst kv)) (normalize_value (snd kv))) kvs)"
| "normalize_value POther = Inl (TypeError ''unsupported canonical request value'')"

definition canonical_json_sha256 :: "pyval \<Rightarrow> string result" where
  "canonical_json_sha256 v = mapR (\<lambda>j. sha256_bytes (dumps_canonical j)) (normalize_value v)"

section \<open>What a canonical hash guarantees\<close>

lemma length_sha256_round [simp]: "length (sha256_round s kw) = length s"
  by (cases "(s, kw)" rule: sha256_round.cases) (auto simp: Let_def)

lemma length_foldl_sha256_round [simp]: "length (foldl sha256_round s kws) = length s"
  by (induction kws arbitrary: s) simp_all

lemma length_foldl_sha256_block [simp]: "length (foldl sha256_block s bs) = length s"
  by (induction bs arbitrary: s) (simp_all add: sha256_block_def)

lemma is_lower_hex_hex_digit [simp]: "is_lower_hex (hex_digit n)"
proof -
  have all: "\<forall>m \<in> set [0..<16]. is_lower_hex (''0123456789abcdef'' ! m)"
    by code_simp
  have "n mod 16 \<in> set [0..<16]" by simp
  with all show ?thesis by (auto simp only: hex_digit_def)
qed

lemma hex_digits_lower_hex: "list_all is_lower_hex (hex_digits k n)"
  by (induction k arbitrary: n) simp_all

text \<open>The text of an identity determines it.\<close>

definition hex_value :: "char \<Rightarrow> nat" where
  "hex_value c = (let n = of_char c in if is_digit c then n - 48 else n - 87)"

lemma hex_value_digit: "hex_value (hex_digit n) = n mod 16"
proof -
  have "\<forall>m \<in> set [0..<16]. hex_value (''0123456789abcdef'' ! m) = m"
    by (simp add: upt_rec hex_value_def is_digit_def)
  moreover have "n mod 16 \<in> set [0..<16]" by simp
  ultimately show ?thesis by (metis hex_digit_def)
qed

lemma hex_digits_value: "foldl (\<lambda>v c. v * 16 + hex_value c) 0 (hex_digits k n) = n mod 16 ^ k"
proof (induction k arbitrary: n)
  case (Suc k)
  have "n mod 16 ^ Suc k = 16 * (n div 16 mod 16 ^ k) + n mod 16"
    using mod_mult2_eq [of n 16 "16 ^ k"] by (simp add: mult.commute)
  then show ?case using Suc by (simp add: hex_value_digit)
qed simp

lemma hex_digits_no_dash: "c \<in> set (hex_digits k n) \<Longrightarrow> c \<noteq> CHR ''-''"
  using hex_digits_lower_hex [of k n] by (auto simp: list_all_iff is_lower_hex_def is_digit_def)

lemma filter_uuid_str: "filter (\<lambda>c. c \<noteq> CHR ''-'') (uuid_str u) = hex_digits 32 (unat u)"
proof -
  let ?h = "hex_digits 32 (unat u)" and ?p = "\<lambda>c. c \<noteq> CHR ''-''"
  have keep: "filter ?p (take n (drop m ?h)) = take n (drop m ?h)" "filter ?p (take n ?h) = take n ?h"
    "filter ?p (drop m ?h) = drop m ?h" for n m
    using hex_digits_no_dash by (auto simp: filter_id_conv dest!: in_set_takeD in_set_dropD)
  have cut: "take k (drop n xs) @ drop (n + k) xs = drop n xs" for k n and xs :: string
    by (metis add.commute append_take_drop_id drop_drop)
  have "take 8 ?h @ take 4 (drop 8 ?h) @ take 4 (drop 12 ?h) @ take 4 (drop 16 ?h) @ drop 20 ?h = ?h"
    using cut [of 4 16 ?h] cut [of 4 12 ?h] cut [of 4 8 ?h] append_take_drop_id [of 8 ?h]
    by (simp del: append_take_drop_id)
  then show ?thesis by (simp add: uuid_str_def Let_def keep del: append_take_drop_id)
qed

lemma uuid_str_inj [simp]: "uuid_str u = uuid_str v \<longleftrightarrow> u = v"
proof
  assume "uuid_str u = uuid_str v"
  then have "hex_digits 32 (unat u) = hex_digits 32 (unat v)" by (metis filter_uuid_str)
  then have "unat u mod 16 ^ 32 = unat v mod 16 ^ 32" by (metis hex_digits_value)
  moreover have "unat w mod 16 ^ 32 = unat w" for w :: uuid
    using unsigned_less [of w, where 'a = nat] by simp
  ultimately have "unat u = unat v" by metis
  then show "u = v" by (simp add: unsigned_word_eqI)
qed simp

lemma sha256_bytes_ok [simp]: "content_hash_ok (sha256_bytes s)"
proof -
  have "length (concat (map (\<lambda>w. hex_digits 8 (unat w)) ws)) = 8 * length ws" for ws :: "w32 list"
    by (induction ws) simp_all
  moreover have "list_all is_lower_hex (concat (map (\<lambda>w. hex_digits 8 (unat w)) ws))"
    for ws :: "w32 list"
    by (induction ws) (simp_all add: hex_digits_lower_hex)
  ultimately show ?thesis
    by (simp add: content_hash_ok_def sha256_bytes_def sha256_init_def)
qed

lemma canonical_hash_ok: "canonical_json_sha256 v = Inr h \<Longrightarrow> content_hash_ok h"
  by (auto simp: canonical_json_sha256_def mapR_Inr_iff)

text \<open>The values that have a canonical form.\<close>

fun canonical :: "pyval \<Rightarrow> bool" where
  "canonical PFloat = False"
| "canonical POther = False"
| "canonical (PDatetime d) = (\<exists>t off. d = Aware t off)"
| "canonical (PEnum v) = canonical v"
| "canonical (PMapping kvs) = (\<forall>kv \<in> set kvs. canonical (snd kv))"
| "canonical (PDataclass kvs) = (\<forall>kv \<in> set kvs. canonical (snd kv))"
| "canonical (PSet xs) = (\<forall>x \<in> set xs. canonical x)"
| "canonical (PSequence xs) = (\<forall>x \<in> set xs. canonical x)"
| "canonical _ = True"

lemma mapE_is_Inr: "(\<exists>ys. mapE f xs = Inr ys) \<longleftrightarrow> (\<forall>x \<in> set xs. \<exists>y. f x = Inr y)"
  by (induction xs) (auto simp: bindE_Inr_iff)

lemma mapR_is_Inr: "(\<exists>y. mapR f m = Inr y) \<longleftrightarrow> (\<exists>x. m = Inr x)"
  by (cases m) (auto simp: mapR_def)

lemma normalize_value_total: "(\<exists>j. normalize_value v = Inr j) \<longleftrightarrow> canonical v"
proof (induction v rule: normalize_value.induct)
  case (14 kvs)
  then have "\<And>kv. kv \<in> set kvs \<Longrightarrow>
      (\<exists>j. mapR (Pair (fst kv)) (normalize_value (snd kv)) = Inr j) \<longleftrightarrow> canonical (snd kv)"
    by (simp only: mapR_is_Inr)
  then show ?case by (simp only: normalize_value.simps mapR_is_Inr mapE_is_Inr canonical.simps) blast
next
  case (15 xs)
  then show ?case by (auto simp: mapR_is_Inr mapE_is_Inr)
next
  case (16 xs)
  then show ?case by (auto simp: mapR_is_Inr mapE_is_Inr)
next
  case (17 kvs)
  then have "\<And>kv. kv \<in> set kvs \<Longrightarrow>
      (\<exists>j. mapR (Pair (fst kv)) (normalize_value (snd kv)) = Inr j) \<longleftrightarrow> canonical (snd kv)"
    by (simp only: mapR_is_Inr)
  then show ?case by (simp only: normalize_value.simps mapR_is_Inr mapE_is_Inr canonical.simps) blast
qed auto

lemma canonical_json_sha256_total: "canonical v \<Longrightarrow> \<exists>h. canonical_json_sha256 v = Inr h"
  using normalize_value_total [of v] by (auto simp: canonical_json_sha256_def mapR_def)

text \<open>The key order of a mapping does not reach the hash.\<close>

lemma mapE_mset:
  assumes "mapE f xs = Inr ys" "mset xs = mset xs'"
  shows "\<exists>ys'. mapE f xs' = Inr ys' \<and> mset ys' = mset ys"
proof -
  have "\<forall>x \<in> set xs'. \<exists>y. f x = Inr y"
    using assms mapE_is_Inr [of f xs] mset_eq_setD [OF assms(2)] by auto
  then obtain g where g: "\<And>x. x \<in> set xs' \<Longrightarrow> f x = Inr (g x)" by metis
  then have "mapE f xs' = Inr (map g xs')" by (rule mapE_all_Inr)
  moreover have "mapE f xs = Inr (map g xs)"
    by (rule mapE_all_Inr) (use g mset_eq_setD [OF assms(2)] in auto)
  ultimately show ?thesis using assms by (metis Inr_inject mset_map)
qed

lemma sort_key_distinct_mset:
  assumes "mset xs = mset ys" "distinct (map f xs)"
  shows "sort_key f xs = sort_key f ys"
proof (rule properties_for_sort_key)
  show "mset (sort_key f ys) = mset xs" using assms by simp
  show "filter (\<lambda>x. f k = f x) (sort_key f ys) = filter (\<lambda>x. f k = f x) xs"
    if "k \<in> set (sort_key f ys)" for k
  proof -
    have one: "filter (\<lambda>x. f k = f x) zs = [k]" if "k \<in> set zs" "distinct (map f zs)" for zs
      using that by (induction zs) (force simp: filter_empty_conv image_iff)+
    have k: "k \<in> set ys" using that by simp
    moreover have "distinct (map f ys)" using assms by (metis distinct_map mset_eq_imp_distinct_iff mset_eq_setD)
    moreover have "k \<in> set xs" using k mset_eq_setD [OF assms(1)] by simp
    ultimately show ?thesis using one assms(2) by (simp add: filter_sort)
  qed
qed simp

lemma dumps_mapping_order:
  assumes "mset kvs = mset kvs'" "distinct (map fst kvs)"
  shows "json_dumps enc comma colon (JObj kvs) = json_dumps enc comma colon (JObj kvs')"
proof -
  let ?g = "\<lambda>(k, v). (k, enc k @ colon @ json_dumps enc comma colon v)"
  have "map fst (map ?g kvs) = map fst kvs" by (auto simp: case_prod_beta)
  then have "distinct (map fst (map ?g kvs))" using assms by metis
  then have "sort_key fst (map ?g kvs) = sort_key fst (map ?g kvs')"
    using assms by (intro sort_key_distinct_mset) simp_all
  then show ?thesis by simp
qed

lemma mapping_hash_order:
  assumes perm: "mset kvs = mset kvs'" and keys: "distinct (map fst kvs)"
  shows "canonical_json_sha256 (PMapping kvs) = canonical_json_sha256 (PMapping kvs')
    \<or> (\<not> canonical (PMapping kvs) \<and> \<not> canonical (PMapping kvs'))"
proof (cases "canonical (PMapping kvs)")
  case True
  let ?f = "\<lambda>kv. mapR (Pair (fst kv)) (normalize_value (snd kv))"
  obtain js where js: "mapE ?f kvs = Inr js"
    using True normalize_value_total [of "PMapping kvs"] by (auto simp: mapR_Inr_iff)
  obtain js' where js': "mapE ?f kvs' = Inr js'" "mset js' = mset js"
    using mapE_mset [OF js perm] by blast
  have "map fst js = map fst kvs"
  proof (rule nth_equalityI)
    show "length (map fst js) = length (map fst kvs)" using mapE_Inr_length [OF js] by simp
    fix i assume "i < length (map fst js)"
    then show "map fst js ! i = map fst kvs ! i"
      using mapE_Inr_length [OF js] mapE_Inr_nth [OF js, of i] by (auto simp: mapR_Inr_iff)
  qed
  then have "dumps_canonical (JObj js) = dumps_canonical (JObj js')"
    unfolding dumps_canonical_def using js'(2) keys by (intro dumps_mapping_order) auto
  then show ?thesis using js js' by (simp add: canonical_json_sha256_def mapR_def)
next
  case False
  then show ?thesis using mset_eq_setD [OF perm] by auto
qed

end
