(* ===== verification/Runtime_Store.thy ===== *)
theory Runtime_Store
  imports Runtime_Domain Canonical_Hashing
begin

text \<open>
  The target tables the Runtime owns (\<open>mra.runtime_schedule\<close>, \<open>runtime_run\<close>,
  \<open>runtime_step\<close>, \<open>runtime_step_dependency\<close>, \<open>runtime_attempt\<close>, \<open>command_receipt\<close>,
  \<open>audit_event\<close>, and of \<open>artifact\<close> the columns it reads), with the constraints and
  row triggers of \<open>migrations/001_baseline.sql\<close>. A table is the list of its rows.
  A \<open>timestamptz\<close> is an instant; the step row keeps the specification it was
  inserted from and the two columns that are stored in another form.
\<close>

section \<open>Rows\<close>

datatype integrity_state = AVAILABLE | MISSING | CORRUPT | QUARANTINED | DELETED

record artifact_row =
  artifact_id :: uuid
  content_sha256 :: string
  integrity_state :: integrity_state

record run_row =
  run_envelope :: run_spec
  run_created_at :: instant
  run_state :: run_state
  run_reason :: "string option"
  run_started_at :: "instant option"
  run_finished_at :: "instant option"
  run_version :: int

record step_row =
  step_id :: uuid
  step_run :: uuid
  step_plan :: step_spec
  retry_backoff_ms :: "int list"
  retryable_error_codes :: "string list"
  step_created_at :: instant
  step_state :: step_state
  current_fence :: int
  current_attempt_id :: "uuid option"
  ready_at :: "instant option"
  step_reason :: "string option"
  branch_rule_code :: "string option"
  step_started_at :: "instant option"
  step_finished_at :: "instant option"
  step_version :: int

record dependency_row =
  dep_run :: uuid
  predecessor_step_id :: uuid
  successor_step_id :: uuid
  dep_kind :: string

record attempt_row =
  attempt_id :: uuid
  attempt_step :: uuid
  attempt_no :: int
  attempt_fence :: int
  lease_owner :: string
  lease_acquired_at :: instant
  lease_until :: instant
  last_heartbeat_at :: instant
  attempt_state :: attempt_state
  attempt_effect :: external_effect_class
  error_class :: "string option"
  error_code :: "string option"
  result_receipt_id :: "uuid option"
  attempt_result_hash :: "string option"
  attempt_created_at :: instant
  attempt_started_at :: "instant option"
  attempt_finished_at :: "instant option"

datatype receipt_status = PENDING | SUCCEEDED | BLOCKED | FAILED

record receipt_row =
  receipt_id :: uuid
  command_kind :: string
  scope_id :: string
  receipt_key :: string
  receipt_request_hash :: string
  receipt_status :: receipt_status
  runtime_step_id :: "uuid option"
  runtime_attempt_id :: "uuid option"
  receipt_fence :: "int option"
  result_aggregate_kind :: "string option"
  result_aggregate_id :: "string option"
  result_aggregate_version :: "int option"
  receipt_result_hash :: "string option"
  receipt_error_code :: "string option"
  receipt_created_at :: instant
  completed_at :: "instant option"

record audit_row =
  audit_event_id :: uuid
  audit_receipt_id :: "uuid option"
  audit_step_id :: "uuid option"
  audit_fence :: "int option"
  actor_type :: string
  actor_id :: string
  aggregate_kind :: string
  aggregate_id :: string
  action :: string
  reason_code :: string
  event_at :: instant
  before_version :: "int option"
  after_version :: "int option"

record db =
  schedules :: "schedule_spec list"
  artifacts :: "artifact_row list"
  runs :: "run_row list"
  steps :: "step_row list"
  dependencies :: "dependency_row list"
  attempts :: "attempt_row list"
  receipts :: "receipt_row list"
  audits :: "audit_row list"

abbreviation run_key :: "run_row \<Rightarrow> uuid" where
  "run_key r \<equiv> run_id (run_envelope r)"

abbreviation find_run :: "db \<Rightarrow> uuid \<Rightarrow> run_row option" where
  "find_run d \<equiv> row_at run_key (runs d)"

abbreviation find_step :: "db \<Rightarrow> uuid \<Rightarrow> step_row option" where
  "find_step d \<equiv> row_at step_id (steps d)"

abbreviation find_attempt :: "db \<Rightarrow> uuid \<Rightarrow> attempt_row option" where
  "find_attempt d \<equiv> row_at attempt_id (attempts d)"

interpretation run_table: keyed_table run_key .
interpretation step_table: keyed_table step_id .
interpretation attempt_table: keyed_table attempt_id .
interpretation receipt_table: keyed_table receipt_id .

section \<open>Constraints\<close>

text \<open>The first constraint that does not hold is the error the statement raises.\<close>

fun first_violation :: "(string \<times> bool) list \<Rightarrow> py_error option" where
  "first_violation [] = None"
| "first_violation ((name, ok) # cs) = (if ok then first_violation cs else Some (DbError name))"

lemma first_violation_None: "first_violation cs = None \<longleftrightarrow> (\<forall>c \<in> set cs. snd c)"
  by (induction cs rule: first_violation.induct) auto

lemma first_violation_append:
  "first_violation (cs @ ds) = None \<longleftrightarrow> first_violation cs = None \<and> first_violation ds = None"
  by (induction cs rule: first_violation.induct) auto

lemma first_violation_DbError: "first_violation cs = Some e \<Longrightarrow> \<exists>name. e = DbError name"
  by (induction cs rule: first_violation.induct) (auto split: if_splits)

definition is_bigint :: "int \<Rightarrow> bool" where
  "is_bigint i \<longleftrightarrow> - (2 ^ 63) \<le> i \<and> i < 2 ^ 63"

definition is_integer :: "int \<Rightarrow> bool" where
  "is_integer i \<longleftrightarrow> - (2 ^ 31) \<le> i \<and> i < 2 ^ 31"

definition opt_ok :: "('a \<Rightarrow> bool) \<Rightarrow> 'a option \<Rightarrow> bool" where
  "opt_ok p m \<longleftrightarrow> (case m of None \<Rightarrow> True | Some x \<Rightarrow> p x)"

definition opt_has :: "('a \<Rightarrow> bool) \<Rightarrow> 'a option \<Rightarrow> bool" where
  "opt_has p m \<longleftrightarrow> (case m of None \<Rightarrow> False | Some x \<Rightarrow> p x)"

lemma opt_has_iff [simp]: "opt_has p m \<longleftrightarrow> (\<exists>x. m = Some x \<and> p x)"
  by (simp add: opt_has_def split: option.split)

lemma opt_ok_simps [simp]: "opt_ok p None" "opt_ok p (Some x) = p x"
  by (simp_all add: opt_ok_def)

fun run_ended :: "run_state \<Rightarrow> bool" where
  "run_ended Run_QUEUED = False"
| "run_ended Run_RUNNING = False"
| "run_ended Run_WAITING = False"
| "run_ended _ = True"

fun step_ended :: "step_state \<Rightarrow> bool" where
  "step_ended Step_SUCCEEDED = True"
| "step_ended Step_BLOCKED = True"
| "step_ended Step_FAILED = True"
| "step_ended Step_CANCELLED = True"
| "step_ended Step_SKIPPED = True"
| "step_ended _ = False"

definition step_passed :: "step_state \<Rightarrow> bool" where
  "step_passed s \<longleftrightarrow> s = Step_SUCCEEDED \<or> s = Step_SKIPPED"

definition step_live :: "step_state \<Rightarrow> bool" where
  "step_live s \<longleftrightarrow> s = Step_CLAIMED \<or> s = Step_RUNNING"

definition attempt_live :: "attempt_state \<Rightarrow> bool" where
  "attempt_live s \<longleftrightarrow> s = Attempt_CLAIMED \<or> s = Attempt_RUNNING"

definition schedule_checks :: "schedule_spec \<Rightarrow> (string \<times> bool) list" where
  "schedule_checks s =
    [(''integer out of range'', is_integer (schedule_revision s)),
     (''runtime_schedule_code_ck'', step_key_ok (schedule_code s)),
     (''runtime_schedule_revision_ck'', schedule_revision s > 0),
     (''runtime_schedule_timezone_ck'', timezone_name s \<noteq> []),
     (''runtime_schedule_catalog_hash_ck'', content_hash_ok (step_catalog_hash s))]"

definition run_checks :: "run_row \<Rightarrow> (string \<times> bool) list" where
  "run_checks r =
    [(''runtime_run_fire_key_ck'', fire_key (run_envelope r) \<noteq> []),
     (''runtime_run_code_sha_ck'', code_sha_ok (code_sha (run_envelope r))),
     (''runtime_run_config_hash_ck'', content_hash_ok (config_hash (run_envelope r))),
     (''runtime_run_reason_ck'', opt_ok code_ok (run_reason r)),
     (''runtime_run_terminal_reason_ck'',
        run_state r \<in> {Run_BLOCKED, Run_FAILED, Run_CANCELLED} \<longrightarrow> run_reason r \<noteq> None),
     (''runtime_run_self_parent_ck'', parent_run_id (run_envelope r) \<noteq> Some (run_key r)),
     (''runtime_run_self_original_ck'', original_run_id (run_envelope r) \<noteq> Some (run_key r)),
     (''runtime_run_timestamps_ck'',
        (run_state r = Run_QUEUED \<and> run_started_at r = None \<and> run_finished_at r = None) \<or>
        (run_state r \<in> {Run_RUNNING, Run_WAITING} \<and> run_started_at r \<noteq> None
           \<and> run_finished_at r = None) \<or>
        (run_ended (run_state r) \<and> run_finished_at r \<noteq> None)),
     (''runtime_run_version_ck'', run_version r > 0)]"

definition step_kinds :: "string list" where
  "step_kinds =
    [''CAPTURE'', ''NORMALIZE_PIT'', ''FREEZE_UNIVERSE'', ''ASSESS_ELIGIBILITY'',
     ''REGISTER_DATASET'', ''BUILD_CANDIDATE_SET'', ''OPEN_DECISION_RUN'', ''ASSESS_CONTEXT'',
     ''SIGNAL_AND_FORECAST'', ''DECIDE_AND_RISK'', ''PERSIST_DECISION'', ''SETTLE_OUTCOME'',
     ''FREEZE_PARTITION'', ''REGISTER_EXPERIMENT'', ''OPEN_EXPERIMENT_RUN'', ''OPEN_EVALUATION'',
     ''ACQUIRE_OUTCOME_INPUTS'', ''EVALUATE'', ''OPEN_MODEL_TRAINING_RUN'',
     ''REGISTER_MODEL_VERSION'', ''RECORD_EVIDENCE'', ''ATTRIBUTE'', ''ASSESS_RESEARCH'',
     ''QUALIFY'']"

definition step_checks :: "step_row \<Rightarrow> (string \<times> bool) list" where
  "step_checks s =
    [(''integer out of range'', is_integer (ordinal (step_plan s))),
     (''runtime_step_key_ck'', step_key_ok (step_key (step_plan s))),
     (''runtime_step_kind_ck'', step_kind (step_plan s) \<in> set step_kinds),
     (''runtime_step_implementation_ck'',
        implementation (step_plan s) \<noteq> [] \<and> implementation_version (step_plan s) \<noteq> []),
     (''runtime_step_ordinal_ck'', ordinal (step_plan s) \<ge> 0),
     (''runtime_step_request_hash_ck'', content_hash_ok (request_hash (step_plan s))),
     (''runtime_step_input_hash_ck'', opt_ok content_hash_ok (input_evidence_hash (step_plan s))),
     (''runtime_step_attempt_budget_ck'',
        1 \<le> max_attempts (step_retry (step_plan s)) \<and> max_attempts (step_retry (step_plan s)) \<le> 64
        \<and> int (length (retry_backoff_ms s)) \<le> max_attempts (step_retry (step_plan s)) - 1),
     (''runtime_step_backoff_ck'', list_all (\<lambda>ms. 0 \<le> ms) (retry_backoff_ms s)),
     (''runtime_step_fence_ck'', current_fence s \<ge> 0),
     (''runtime_step_current_attempt_ck'', step_live (step_state s) = (current_attempt_id s \<noteq> None)),
     (''runtime_step_reason_ck'', opt_ok code_ok (step_reason s)),
     (''runtime_step_terminal_reason_ck'',
        step_state s \<in> {Step_BLOCKED, Step_FAILED, Step_CANCELLED} \<longrightarrow> step_reason s \<noteq> None),
     (''runtime_step_skip_rule_ck'', step_state s \<noteq> Step_SKIPPED \<or> branch_rule_code s \<noteq> None),
     (''runtime_step_timestamps_ck'',
        (step_state s \<in> {Step_PENDING, Step_READY, Step_CLAIMED} \<and> step_finished_at s = None) \<or>
        (step_state s \<in> {Step_RUNNING, Step_WAITING} \<and> step_started_at s \<noteq> None
           \<and> step_finished_at s = None) \<or>
        (step_ended (step_state s) \<and> step_finished_at s \<noteq> None)),
     (''runtime_step_version_ck'', step_version s > 0)]"

definition attempt_checks :: "attempt_row \<Rightarrow> (string \<times> bool) list" where
  "attempt_checks a =
    [(''runtime_attempt_no_ck'', attempt_no a > 0),
     (''runtime_attempt_fence_ck'', attempt_fence a > 0),
     (''runtime_attempt_owner_ck'', lease_owner a \<noteq> []),
     (''runtime_attempt_lease_ck'',
        lease_until a > lease_acquired_at a \<and> last_heartbeat_at a \<ge> lease_acquired_at a),
     (''runtime_attempt_error_class_ck'', opt_ok code_ok (error_class a)),
     (''runtime_attempt_error_code_ck'', opt_ok code_ok (error_code a)),
     (''runtime_attempt_result_hash_ck'', opt_ok content_hash_ok (attempt_result_hash a)),
     (''runtime_attempt_result_ck'',
        (attempt_live (attempt_state a) \<and> result_receipt_id a = None \<and> attempt_result_hash a = None
           \<and> error_class a = None \<and> error_code a = None) \<or>
        (attempt_state a = Attempt_SUCCEEDED \<and> result_receipt_id a \<noteq> None
           \<and> attempt_result_hash a \<noteq> None \<and> error_class a = None \<and> error_code a = None) \<or>
        (\<not> attempt_live (attempt_state a) \<and> attempt_state a \<noteq> Attempt_SUCCEEDED
           \<and> result_receipt_id a \<noteq> None \<and> error_class a \<noteq> None \<and> error_code a \<noteq> None)),
     (''runtime_attempt_timestamps_ck'',
        (attempt_state a = Attempt_CLAIMED \<and> attempt_started_at a = None
           \<and> attempt_finished_at a = None) \<or>
        (attempt_state a = Attempt_RUNNING \<and> attempt_started_at a \<noteq> None
           \<and> attempt_finished_at a = None) \<or>
        (\<not> attempt_live (attempt_state a) \<and> attempt_finished_at a \<noteq> None))]"

definition receipt_checks :: "receipt_row \<Rightarrow> (string \<times> bool) list" where
  "receipt_checks c =
    [(''command_receipt_kind_ck'', code_ok (command_kind c)),
     (''command_receipt_scope_ck'', scope_id c \<noteq> []),
     (''command_receipt_key_ck'', idempotency_key_ok (receipt_key c)),
     (''command_receipt_request_hash_ck'', content_hash_ok (receipt_request_hash c)),
     (''command_receipt_fence_ck'',
        (runtime_step_id c = None \<and> runtime_attempt_id c = None \<and> receipt_fence c = None) \<or>
        (runtime_step_id c \<noteq> None \<and> runtime_attempt_id c \<noteq> None
           \<and> opt_has (\<lambda>f. f > 0) (receipt_fence c))),
     (''command_receipt_result_hash_ck'', opt_ok content_hash_ok (receipt_result_hash c)),
     (''command_receipt_error_ck'', opt_ok code_ok (receipt_error_code c)),
     (''command_receipt_terminal_ck'', (receipt_status c = PENDING) = (completed_at c = None)),
     (''command_receipt_result_ck'',
        (receipt_status c = PENDING \<and> result_aggregate_kind c = None
           \<and> result_aggregate_id c = None \<and> result_aggregate_version c = None
           \<and> receipt_result_hash c = None \<and> receipt_error_code c = None) \<or>
        (receipt_status c = SUCCEEDED \<and> result_aggregate_kind c \<noteq> None
           \<and> result_aggregate_id c \<noteq> None \<and> result_aggregate_version c \<noteq> None
           \<and> receipt_result_hash c \<noteq> None \<and> receipt_error_code c = None) \<or>
        (receipt_status c \<in> {BLOCKED, FAILED} \<and> result_aggregate_kind c = None
           \<and> result_aggregate_id c = None \<and> result_aggregate_version c = None
           \<and> receipt_result_hash c = None \<and> receipt_error_code c \<noteq> None))]"

definition audit_checks :: "audit_row \<Rightarrow> (string \<times> bool) list" where
  "audit_checks a =
    [(''audit_event_runtime_fence_ck'',
        (audit_step_id a = None \<and> audit_fence a = None) \<or>
        (audit_step_id a \<noteq> None \<and> opt_has (\<lambda>f. f > 0) (audit_fence a))),
     (''audit_event_actor_type_ck'', actor_type a \<in> {''SYSTEM'', ''OPERATOR'', ''WORKER''}),
     (''audit_event_actor_id_ck'', actor_id a \<noteq> []),
     (''audit_event_aggregate_kind_ck'', code_ok (aggregate_kind a)),
     (''audit_event_aggregate_id_ck'', aggregate_id a \<noteq> []),
     (''audit_event_action_ck'', code_ok (action a)),
     (''audit_event_reason_ck'', code_ok (reason_code a)),
     (''audit_event_versions_ck'',
        opt_ok (\<lambda>v. v \<ge> 0) (before_version a) \<and> opt_ok (\<lambda>v. v \<ge> 0) (after_version a))]"

section \<open>Update triggers\<close>

definition sql_run_edges :: "(run_state \<times> run_state) list" where
  "sql_run_edges =
    [(Run_QUEUED, Run_RUNNING), (Run_QUEUED, Run_CANCELLED),
     (Run_RUNNING, Run_WAITING), (Run_RUNNING, Run_SUCCEEDED),
     (Run_RUNNING, Run_BLOCKED), (Run_RUNNING, Run_FAILED),
     (Run_RUNNING, Run_CANCELLED), (Run_WAITING, Run_RUNNING),
     (Run_WAITING, Run_BLOCKED), (Run_WAITING, Run_FAILED),
     (Run_WAITING, Run_CANCELLED)]"

definition guard_runtime_run_update :: "run_row \<Rightarrow> run_row \<Rightarrow> (string \<times> bool) list" where
  "guard_runtime_run_update old new =
    [(''runtime_run immutable envelope changed'',
        run_envelope new = run_envelope old \<and> run_created_at new = run_created_at old),
     (''invalid runtime_run transition'', (run_state old, run_state new) \<in> set sql_run_edges),
     (''runtime_run version must increment once'', run_version new = run_version old + 1)]"

definition sql_step_edges :: "(step_state \<times> step_state) list" where
  "sql_step_edges =
    [(Step_PENDING, Step_READY), (Step_PENDING, Step_SKIPPED),
     (Step_PENDING, Step_CANCELLED), (Step_READY, Step_CLAIMED),
     (Step_READY, Step_CANCELLED), (Step_CLAIMED, Step_RUNNING),
     (Step_CLAIMED, Step_READY), (Step_CLAIMED, Step_CANCELLED),
     (Step_RUNNING, Step_READY), (Step_RUNNING, Step_WAITING),
     (Step_RUNNING, Step_SUCCEEDED), (Step_RUNNING, Step_BLOCKED),
     (Step_RUNNING, Step_FAILED), (Step_RUNNING, Step_CANCELLED),
     (Step_WAITING, Step_READY), (Step_WAITING, Step_CANCELLED)]"

definition guard_runtime_step_update :: "step_row \<Rightarrow> step_row \<Rightarrow> (string \<times> bool) list" where
  "guard_runtime_step_update old new =
    [(''runtime_step immutable plan changed'',
        step_id new = step_id old \<and> step_run new = step_run old \<and> step_plan new = step_plan old
        \<and> retry_backoff_ms new = retry_backoff_ms old
        \<and> retryable_error_codes new = retryable_error_codes old
        \<and> step_created_at new = step_created_at old),
     (''invalid runtime_step transition'', (step_state old, step_state new) \<in> set sql_step_edges),
     (''runtime_step version must increment once'', step_version new = step_version old + 1),
     (''claim must increment fence and bind current Attempt'',
        step_state old = Step_READY \<and> step_state new = Step_CLAIMED \<longrightarrow>
          current_fence new = current_fence old + 1 \<and> current_attempt_id new \<noteq> None),
     (''Step fence changes only during claim'',
        \<not> (step_state old = Step_READY \<and> step_state new = Step_CLAIMED) \<longrightarrow>
          current_fence new = current_fence old)]"

definition sql_attempt_edges :: "(attempt_state \<times> attempt_state) list" where
  "sql_attempt_edges =
    [(Attempt_CLAIMED, Attempt_RUNNING), (Attempt_CLAIMED, Attempt_ABANDONED),
     (Attempt_RUNNING, Attempt_SUCCEEDED), (Attempt_RUNNING, Attempt_FAILED_RETRYABLE),
     (Attempt_RUNNING, Attempt_FAILED_TERMINAL), (Attempt_RUNNING, Attempt_ABANDONED),
     (Attempt_RUNNING, Attempt_RECONCILIATION_REQUIRED)]"

definition guard_runtime_attempt_update ::
  "attempt_row \<Rightarrow> attempt_row \<Rightarrow> (string \<times> bool) list" where
  "guard_runtime_attempt_update old new =
    (''runtime_attempt immutable claim changed'',
        attempt_id new = attempt_id old \<and> attempt_step new = attempt_step old
        \<and> attempt_no new = attempt_no old \<and> attempt_fence new = attempt_fence old
        \<and> lease_owner new = lease_owner old \<and> lease_acquired_at new = lease_acquired_at old
        \<and> attempt_effect new = attempt_effect old
        \<and> attempt_created_at new = attempt_created_at old) #
    (if attempt_state old = attempt_state new then
       [(''terminal runtime_attempt is immutable'', attempt_live (attempt_state old)),
        (''heartbeat must extend a live lease'',
           lease_until new > lease_until old \<and> last_heartbeat_at new > last_heartbeat_at old),
        (''heartbeat may change only lease timestamps'',
           error_class new = error_class old \<and> error_code new = error_code old
           \<and> result_receipt_id new = result_receipt_id old
           \<and> attempt_result_hash new = attempt_result_hash old
           \<and> attempt_started_at new = attempt_started_at old
           \<and> attempt_finished_at new = attempt_finished_at old)]
     else
       [(''invalid runtime_attempt transition'',
           (attempt_state old, attempt_state new) \<in> set sql_attempt_edges)])"

definition guard_command_receipt_update ::
  "receipt_row \<Rightarrow> receipt_row \<Rightarrow> (string \<times> bool) list" where
  "guard_command_receipt_update old new =
    [(''command_receipt identity changed'',
        receipt_id new = receipt_id old \<and> command_kind new = command_kind old
        \<and> scope_id new = scope_id old \<and> receipt_key new = receipt_key old
        \<and> receipt_request_hash new = receipt_request_hash old
        \<and> receipt_created_at new = receipt_created_at old),
     (''invalid command_receipt transition'',
        receipt_status old = PENDING \<and> receipt_status new \<in> {SUCCEEDED, BLOCKED, FAILED})]"

section \<open>Statements\<close>

text \<open>
  \<open>UPDATE ... RETURNING\<close> on one table: the trigger, the row constraints and the
  foreign keys are checked on every selected row. The result is the first updated
  row, as \<open>fetchone()\<close> returns it, and the table.
\<close>

definition update_returning ::
  "('r \<Rightarrow> 'r \<Rightarrow> py_error option) \<Rightarrow> ('r \<Rightarrow> bool) \<Rightarrow> ('r \<Rightarrow> 'r) \<Rightarrow> 'r list
   \<Rightarrow> ('r option \<times> 'r list) result" where
  "update_returning chk p f rows =
     mapR (Pair (map_option f (find p rows))) (sql_update chk p f rows)"

definition run_update_check :: "run_row \<Rightarrow> run_row \<Rightarrow> py_error option" where
  "run_update_check old new = first_violation (guard_runtime_run_update old new @ run_checks new)"

text \<open>The composite key from \<open>(current_attempt_id, step_id, current_fence)\<close> to the attempt.\<close>

definition current_attempt_fk :: "attempt_row list \<Rightarrow> step_row \<Rightarrow> bool" where
  "current_attempt_fk rows s \<longleftrightarrow>
     (case current_attempt_id s of
        None \<Rightarrow> True
      | Some k \<Rightarrow> \<exists>a \<in> set rows.
          attempt_id a = k \<and> attempt_step a = step_id s \<and> attempt_fence a = current_fence s)"

definition step_update_check :: "attempt_row list \<Rightarrow> step_row \<Rightarrow> step_row \<Rightarrow> py_error option" where
  "step_update_check rows old new =
     first_violation (guard_runtime_step_update old new @ step_checks new
       @ [(''runtime_step_current_attempt_fk'', current_attempt_fk rows new)])"

definition attempt_result_fk :: "receipt_row list \<Rightarrow> attempt_row \<Rightarrow> bool" where
  "attempt_result_fk rows a \<longleftrightarrow>
     (case result_receipt_id a of None \<Rightarrow> True | Some k \<Rightarrow> k \<in> receipt_id ` set rows)"

definition attempt_update_check ::
  "receipt_row list \<Rightarrow> attempt_row \<Rightarrow> attempt_row \<Rightarrow> py_error option" where
  "attempt_update_check rows old new =
     first_violation (guard_runtime_attempt_update old new @ attempt_checks new
       @ [(''runtime_attempt_result_receipt_id_fkey'', attempt_result_fk rows new)])"

definition receipt_claim_fk :: "attempt_row list \<Rightarrow> receipt_row \<Rightarrow> bool" where
  "receipt_claim_fk rows c \<longleftrightarrow>
     (case (runtime_attempt_id c, runtime_step_id c, receipt_fence c) of
        (Some k, Some s, Some f) \<Rightarrow> \<exists>a \<in> set rows.
          attempt_id a = k \<and> attempt_step a = s \<and> attempt_fence a = f
      | _ \<Rightarrow> True)"

definition receipt_update_check ::
  "attempt_row list \<Rightarrow> receipt_row \<Rightarrow> receipt_row \<Rightarrow> py_error option" where
  "receipt_update_check rows old new =
     first_violation (guard_command_receipt_update old new @ receipt_checks new
       @ [(''command_receipt_runtime_claim_fk'', receipt_claim_fk rows new)])"

definition update_runs ::
  "(run_row \<Rightarrow> bool) \<Rightarrow> (run_row \<Rightarrow> run_row) \<Rightarrow> db \<Rightarrow> (run_row option \<times> db) result" where
  "update_runs p f d =
     mapR (\<lambda>(row, rows). (row, d\<lparr>runs := rows\<rparr>)) (update_returning run_update_check p f (runs d))"

definition update_steps ::
  "(step_row \<Rightarrow> bool) \<Rightarrow> (step_row \<Rightarrow> step_row) \<Rightarrow> db \<Rightarrow> (step_row option \<times> db) result" where
  "update_steps p f d =
     mapR (\<lambda>(row, rows). (row, d\<lparr>steps := rows\<rparr>))
       (update_returning (step_update_check (attempts d)) p f (steps d))"

definition update_attempts ::
  "(attempt_row \<Rightarrow> bool) \<Rightarrow> (attempt_row \<Rightarrow> attempt_row) \<Rightarrow> db
   \<Rightarrow> (attempt_row option \<times> db) result" where
  "update_attempts p f d =
     mapR (\<lambda>(row, rows). (row, d\<lparr>attempts := rows\<rparr>))
       (update_returning (attempt_update_check (receipts d)) p f (attempts d))"

definition update_receipts ::
  "(receipt_row \<Rightarrow> bool) \<Rightarrow> (receipt_row \<Rightarrow> receipt_row) \<Rightarrow> db
   \<Rightarrow> (receipt_row option \<times> db) result" where
  "update_receipts p f d =
     mapR (\<lambda>(row, rows). (row, d\<lparr>receipts := rows\<rparr>))
       (update_returning (receipt_update_check (attempts d)) p f (receipts d))"

text \<open>\<open>INSERT\<close>: keys, row constraints and foreign keys, then the row is appended.\<close>

definition insert_schedule_row :: "schedule_spec \<Rightarrow> db \<Rightarrow> db result" where
  "insert_schedule_row s d =
     thenE (errorE (first_violation (schedule_checks s @
       [(''runtime_schedule_pkey'', schedule_id s \<notin> schedule_id ` set (schedules d)),
        (''runtime_schedule_identity_uk'',
           (schedule_code s, schedule_revision s)
             \<notin> (\<lambda>x. (schedule_code x, schedule_revision x)) ` set (schedules d)),
        (''runtime_schedule_one_enabled_idx'',
           schedule_enabled s \<longrightarrow>
             schedule_code s \<notin> schedule_code ` set (filter schedule_enabled (schedules d))),
        (''runtime_schedule_supersedes_schedule_id_fkey'',
           opt_ok (\<lambda>k. k = schedule_id s \<or> k \<in> schedule_id ` set (schedules d))
             (supersedes_schedule_id s))])))
     (Inr (d\<lparr>schedules := schedules d @ [s]\<rparr>))"

definition insert_run_row :: "run_row \<Rightarrow> db \<Rightarrow> db result" where
  "insert_run_row r d =
     thenE (errorE (first_violation (
       [(''runtime Run config Artifact does not exist'',
           config_artifact_id (run_envelope r) \<in> artifact_id ` set (artifacts d)),
        (''runtime Run config Artifact is not exact and AVAILABLE'',
           \<exists>a \<in> set (artifacts d). artifact_id a = config_artifact_id (run_envelope r)
             \<and> content_sha256 a = config_hash (run_envelope r) \<and> integrity_state a = AVAILABLE)]
       @ run_checks r @
       [(''runtime_run_pkey'', run_key r \<notin> run_key ` set (runs d)),
        (''runtime_run_fire_uk'',
           (run_schedule_id (run_envelope r), fire_key (run_envelope r))
             \<notin> (\<lambda>x. (run_schedule_id (run_envelope x), fire_key (run_envelope x))) ` set (runs d)),
        (''runtime_run_schedule_id_fkey'',
           run_schedule_id (run_envelope r) \<in> schedule_id ` set (schedules d)),
        (''runtime_run_parent_run_id_fkey'',
           opt_ok (\<lambda>k. k \<in> run_key ` set (runs d)) (parent_run_id (run_envelope r))),
        (''runtime_run_original_run_id_fkey'',
           opt_ok (\<lambda>k. k \<in> run_key ` set (runs d)) (original_run_id (run_envelope r)))])))
     (Inr (d\<lparr>runs := runs d @ [r]\<rparr>))"

definition insert_step_row :: "step_row \<Rightarrow> db \<Rightarrow> db result" where
  "insert_step_row s d =
     thenE (errorE (first_violation (step_checks s @
       [(''runtime_step_pkey'', step_id s \<notin> step_id ` set (steps d)),
        (''runtime_step_run_key_uk'',
           (step_run s, step_key (step_plan s))
             \<notin> (\<lambda>x. (step_run x, step_key (step_plan x))) ` set (steps d)),
        (''runtime_step_run_ordinal_uk'',
           (step_run s, ordinal (step_plan s))
             \<notin> (\<lambda>x. (step_run x, ordinal (step_plan x))) ` set (steps d)),
        (''runtime_step_run_id_fkey'', step_run s \<in> run_key ` set (runs d)),
        (''runtime_step_current_attempt_fk'', current_attempt_fk (attempts d) s)])))
     (Inr (d\<lparr>steps := steps d @ [s]\<rparr>))"

definition insert_dependency_row :: "dependency_row \<Rightarrow> db \<Rightarrow> db result" where
  "insert_dependency_row x d =
     thenE (errorE (first_violation
       [(''runtime_step_dependency_no_self_ck'', predecessor_step_id x \<noteq> successor_step_id x),
        (''runtime_step_dependency_kind_ck'', dep_kind x \<in> {''REQUIRED_SUCCESS'', ''TERMINAL''}),
        (''runtime_step_dependency_pkey'', x \<notin> set (dependencies d)),
        (''runtime_step_dependency_predecessor_fk'',
           \<exists>s \<in> set (steps d). step_run s = dep_run x \<and> step_id s = predecessor_step_id x),
        (''runtime_step_dependency_successor_fk'',
           \<exists>s \<in> set (steps d). step_run s = dep_run x \<and> step_id s = successor_step_id x)]))
     (Inr (d\<lparr>dependencies := dependencies d @ [x]\<rparr>))"

definition insert_attempt_row :: "attempt_row \<Rightarrow> db \<Rightarrow> db result" where
  "insert_attempt_row a d =
     thenE (errorE (first_violation (attempt_checks a @
       [(''runtime_attempt_pkey'', attempt_id a \<notin> attempt_id ` set (attempts d)),
        (''runtime_attempt_number_uk'',
           (attempt_step a, attempt_no a) \<notin> (\<lambda>x. (attempt_step x, attempt_no x)) ` set (attempts d)),
        (''runtime_attempt_fence_uk'',
           (attempt_step a, attempt_fence a)
             \<notin> (\<lambda>x. (attempt_step x, attempt_fence x)) ` set (attempts d)),
        (''runtime_attempt_one_live_idx'',
           attempt_live (attempt_state a) \<longrightarrow>
             attempt_step a \<notin> attempt_step ` set (filter (attempt_live \<circ> attempt_state) (attempts d))),
        (''runtime_attempt_step_id_fkey'', attempt_step a \<in> step_id ` set (steps d)),
        (''runtime_attempt_result_receipt_id_fkey'', attempt_result_fk (receipts d) a)])))
     (Inr (d\<lparr>attempts := attempts d @ [a]\<rparr>))"

definition insert_audit_row :: "audit_row \<Rightarrow> db \<Rightarrow> db result" where
  "insert_audit_row a d =
     thenE (errorE (first_violation (audit_checks a @
       [(''audit_event_pkey'', audit_event_id a \<notin> audit_event_id ` set (audits d)),
        (''audit_event_command_receipt_id_fkey'',
           opt_ok (\<lambda>k. k \<in> receipt_id ` set (receipts d)) (audit_receipt_id a)),
        (''audit_event_runtime_step_id_fkey'',
           opt_ok (\<lambda>k. k \<in> step_id ` set (steps d)) (audit_step_id a))])))
     (Inr (d\<lparr>audits := audits d @ [a]\<rparr>))"

end
