(* ===== verification/Runtime_Machine.thy ===== *)
theory Runtime_Machine
  imports Runtime_Store
begin

text \<open>
  The abstract specification of the Runtime tables: what Runs, Steps and Attempts
  promise, without versions, timestamps, codes and statements. One transition is one
  committed repository operation. The repository refines it
  (\<open>Runtime_Refinement\<close>), and the invariant of this machine is the safety contract of
  leases and fences.
\<close>

section \<open>State\<close>

record m_step =
  m_run :: uuid
  m_state :: step_state
  m_fence :: int
  m_holder :: "uuid option"
  m_budget :: int

record m_attempt =
  m_of :: uuid
  m_no :: int
  m_token :: int
  m_status :: attempt_state
  m_lease :: instant

record machine =
  m_runs :: "uuid \<Rightarrow> run_state option"
  m_steps :: "uuid \<Rightarrow> m_step option"
  m_attempts :: "uuid \<Rightarrow> m_attempt option"
  m_deps :: "(uuid \<times> uuid \<times> uuid \<times> string) set"

definition m_unmet :: "string \<Rightarrow> step_state \<Rightarrow> bool" where
  "m_unmet kind st \<longleftrightarrow>
     (kind = ''REQUIRED_SUCCESS'' \<and> \<not> step_passed st) \<or> (kind = ''TERMINAL'' \<and> \<not> step_ended st)"

definition m_blocked :: "machine \<Rightarrow> uuid \<Rightarrow> uuid \<Rightarrow> bool" where
  "m_blocked m rid sid \<longleftrightarrow>
     (\<exists>p k s. (rid, p, sid, k) \<in> m_deps m \<and> m_steps m p = Some s \<and> m_unmet k (m_state s))"

definition m_depends :: "machine \<Rightarrow> uuid \<Rightarrow> uuid \<Rightarrow> bool" where
  "m_depends m rid sid \<longleftrightarrow> (\<exists>p k. (rid, p, sid, k) \<in> m_deps m)"

definition m_busy :: "machine \<Rightarrow> uuid \<Rightarrow> bool" where
  "m_busy m rid \<longleftrightarrow> (\<exists>sid s. m_steps m sid = Some s \<and> m_run s = rid \<and> step_live (m_state s))"

section \<open>Transitions\<close>

definition ready_where :: "(uuid \<Rightarrow> m_step \<Rightarrow> bool) \<Rightarrow> (uuid \<Rightarrow> m_step option) \<Rightarrow> uuid \<Rightarrow> m_step option" where
  "ready_where p ss sid =
     map_option (\<lambda>s. if m_state s = Step_PENDING \<and> p sid s then s\<lparr>m_state := Step_READY\<rparr> else s) (ss sid)"

definition schedulable ::
  "machine \<Rightarrow> uuid \<Rightarrow> (uuid \<Rightarrow> m_step option) \<Rightarrow> (uuid \<times> uuid \<times> uuid \<times> string) set \<Rightarrow> bool" where
  "schedulable m rid news new_deps \<longleftrightarrow>
     m_runs m rid = None \<and> dom news \<inter> dom (m_steps m) = {} \<and>
     (\<forall>sid s. news sid = Some s \<longrightarrow>
        m_run s = rid \<and> m_state s = Step_PENDING \<and> m_fence s = 0 \<and> m_holder s = None
        \<and> 0 \<le> m_budget s) \<and>
     (\<forall>r p s k. (r, p, s, k) \<in> new_deps \<longrightarrow> r = rid \<and> p \<in> dom news \<and> s \<in> dom news)"

definition add_run ::
  "machine \<Rightarrow> uuid \<Rightarrow> (uuid \<Rightarrow> m_step option) \<Rightarrow> (uuid \<times> uuid \<times> uuid \<times> string) set \<Rightarrow> machine" where
  "add_run m rid news new_deps =
     m\<lparr>m_runs := (m_runs m)(rid \<mapsto> Run_QUEUED), m_steps := m_steps m ++ news,
       m_deps := m_deps m \<union> new_deps\<rparr>"

inductive m_trans :: "machine \<Rightarrow> machine \<Rightarrow> bool" where
  schedule:
    "schedulable m rid news new_deps \<Longrightarrow> m_trans m (add_run m rid news new_deps)"
| start_run:
    "m_runs m rid = Some Run_QUEUED \<Longrightarrow>
     m_trans m (m\<lparr>m_runs := (m_runs m)(rid \<mapsto> Run_RUNNING),
                  m_steps := ready_where (\<lambda>sid s. m_run s = rid \<and> \<not> m_depends m rid sid) (m_steps m)\<rparr>)"
| claim:
    "m_steps m sid = Some s \<Longrightarrow> m_state s = Step_READY \<Longrightarrow>
     m_runs m (m_run s) = Some Run_RUNNING \<Longrightarrow> \<not> m_busy m (m_run s) \<Longrightarrow>
     \<not> m_blocked m (m_run s) sid \<Longrightarrow> m_fence s < m_budget s \<Longrightarrow> m_attempts m aid = None \<Longrightarrow>
     m_trans m (m\<lparr>m_steps := (m_steps m)(sid \<mapsto>
                     s\<lparr>m_state := Step_CLAIMED, m_fence := m_fence s + 1, m_holder := Some aid\<rparr>),
                  m_attempts := (m_attempts m)(aid \<mapsto>
                     \<lparr>m_of = sid, m_no = m_fence s + 1, m_token = m_fence s + 1,
                      m_status = Attempt_CLAIMED, m_lease = until\<rparr>)\<rparr>)"
| start_attempt:
    "m_steps m sid = Some s \<Longrightarrow> m_holder s = Some aid \<Longrightarrow> m_state s = Step_CLAIMED \<Longrightarrow>
     m_runs m (m_run s) = Some Run_RUNNING \<Longrightarrow>
     m_attempts m aid = Some a \<Longrightarrow> m_of a = sid \<Longrightarrow> m_status a = Attempt_CLAIMED \<Longrightarrow>
     m_trans m (m\<lparr>m_steps := (m_steps m)(sid \<mapsto> s\<lparr>m_state := Step_RUNNING\<rparr>),
                  m_attempts := (m_attempts m)(aid \<mapsto> a\<lparr>m_status := Attempt_RUNNING\<rparr>)\<rparr>)"
| heartbeat:
    "m_attempts m aid = Some a \<Longrightarrow> attempt_live (m_status a) \<Longrightarrow> m_lease a < until \<Longrightarrow>
     m_trans m (m\<lparr>m_attempts := (m_attempts m)(aid \<mapsto> a\<lparr>m_lease := until\<rparr>)\<rparr>)"
| succeed:
    "m_steps m sid = Some s \<Longrightarrow> m_holder s = Some aid \<Longrightarrow> m_state s = Step_RUNNING \<Longrightarrow>
     m_runs m (m_run s) = Some Run_RUNNING \<Longrightarrow>
     m_attempts m aid = Some a \<Longrightarrow> m_of a = sid \<Longrightarrow> m_status a = Attempt_RUNNING \<Longrightarrow>
     closed_m = m\<lparr>m_steps := (m_steps m)(sid \<mapsto> s\<lparr>m_state := Step_SUCCEEDED, m_holder := None\<rparr>),
            m_attempts := (m_attempts m)(aid \<mapsto> a\<lparr>m_status := Attempt_SUCCEEDED\<rparr>)\<rparr> \<Longrightarrow>
     next_m = closed_m\<lparr>m_steps := ready_where (\<lambda>x y. m_run y = m_run s \<and> m_depends closed_m (m_run s) x
                 \<and> \<not> m_blocked closed_m (m_run s) x) (m_steps closed_m)\<rparr> \<Longrightarrow>
     r' = Run_RUNNING \<or> (r' = Run_SUCCEEDED \<and>
        (\<forall>x y. m_steps next_m x = Some y \<and> m_run y = m_run s \<longrightarrow> step_ended (m_state y))) \<Longrightarrow>
     m_trans m (next_m\<lparr>m_runs := (m_runs next_m)(m_run s \<mapsto> r')\<rparr>)"
| retry:
    "m_steps m sid = Some s \<Longrightarrow> m_holder s = Some aid \<Longrightarrow> step_live (m_state s) \<Longrightarrow>
     m_runs m (m_run s) = Some Run_RUNNING \<Longrightarrow>
     m_attempts m aid = Some a \<Longrightarrow> m_of a = sid \<Longrightarrow> m_no a < m_budget s \<Longrightarrow>
     (m_status a, st) \<in> {(Attempt_RUNNING, Attempt_FAILED_RETRYABLE),
        (Attempt_RUNNING, Attempt_ABANDONED), (Attempt_CLAIMED, Attempt_ABANDONED)} \<Longrightarrow>
     m_trans m (m\<lparr>m_steps := (m_steps m)(sid \<mapsto> s\<lparr>m_state := Step_READY, m_holder := None\<rparr>),
                  m_attempts := (m_attempts m)(aid \<mapsto> a\<lparr>m_status := st\<rparr>)\<rparr>)"
| fail:
    "m_steps m sid = Some s \<Longrightarrow> m_holder s = Some aid \<Longrightarrow> m_state s = Step_RUNNING \<Longrightarrow>
     m_runs m (m_run s) = Some Run_RUNNING \<Longrightarrow>
     m_attempts m aid = Some a \<Longrightarrow> m_of a = sid \<Longrightarrow> m_status a = Attempt_RUNNING \<Longrightarrow>
     st \<in> {Attempt_FAILED_TERMINAL, Attempt_ABANDONED} \<Longrightarrow>
     m_trans m (m\<lparr>m_runs := (m_runs m)(m_run s \<mapsto> Run_FAILED),
                  m_steps := (m_steps m)(sid \<mapsto> s\<lparr>m_state := Step_FAILED, m_holder := None\<rparr>),
                  m_attempts := (m_attempts m)(aid \<mapsto> a\<lparr>m_status := st\<rparr>)\<rparr>)"
| wait_effect:
    "m_steps m sid = Some s \<Longrightarrow> m_holder s = Some aid \<Longrightarrow> m_state s = Step_RUNNING \<Longrightarrow>
     m_runs m (m_run s) = Some Run_RUNNING \<Longrightarrow>
     m_attempts m aid = Some a \<Longrightarrow> m_of a = sid \<Longrightarrow> m_status a = Attempt_RUNNING \<Longrightarrow>
     m_trans m (m\<lparr>m_runs := (m_runs m)(m_run s \<mapsto> Run_WAITING),
                  m_steps := (m_steps m)(sid \<mapsto> s\<lparr>m_state := Step_WAITING, m_holder := None\<rparr>),
                  m_attempts := (m_attempts m)(aid \<mapsto>
                    a\<lparr>m_status := Attempt_RECONCILIATION_REQUIRED\<rparr>)\<rparr>)"
| resume:
    "m_steps m sid = Some s \<Longrightarrow> m_state s = Step_WAITING \<Longrightarrow>
     m_runs m (m_run s) = Some Run_WAITING \<Longrightarrow>
     m_trans m (m\<lparr>m_runs := (m_runs m)(m_run s \<mapsto> Run_RUNNING),
                  m_steps := (m_steps m)(sid \<mapsto> s\<lparr>m_state := Step_READY\<rparr>)\<rparr>)"
| expire:
    "m_steps m sid = Some s \<Longrightarrow> m_state s \<in> {Step_PENDING, Step_READY} \<Longrightarrow>
     m_runs m (m_run s) = Some Run_RUNNING \<Longrightarrow> \<not> m_busy m (m_run s) \<Longrightarrow>
     m_fence s < m_budget s \<Longrightarrow> m_attempts m aid = None \<Longrightarrow>
     m_trans m (m\<lparr>m_runs := (m_runs m)(m_run s \<mapsto> Run_FAILED),
                  m_steps := (m_steps m)(sid \<mapsto> s\<lparr>m_state := Step_FAILED, m_fence := m_fence s + 1\<rparr>),
                  m_attempts := (m_attempts m)(aid \<mapsto>
                     \<lparr>m_of = sid, m_no = m_fence s + 1, m_token = m_fence s + 1,
                      m_status = Attempt_FAILED_TERMINAL, m_lease = until\<rparr>)\<rparr>)"

section \<open>The invariant\<close>

text \<open>A Step is claimed or running exactly while its current Attempt is live.\<close>

definition holder_inv :: "machine \<Rightarrow> bool" where
  "holder_inv m \<longleftrightarrow>
     (\<forall>sid s. m_steps m sid = Some s \<longrightarrow>
        (m_holder s = None \<longrightarrow> \<not> step_live (m_state s)) \<and>
        (\<forall>aid. m_holder s = Some aid \<longrightarrow> (\<exists>a. m_attempts m aid = Some a \<and> m_of a = sid
           \<and> m_token a = m_fence s
           \<and> ((m_state s = Step_CLAIMED \<and> m_status a = Attempt_CLAIMED) \<or>
              (m_state s = Step_RUNNING \<and> m_status a = Attempt_RUNNING))))) \<and>
     (\<forall>aid a. m_attempts m aid = Some a \<and> attempt_live (m_status a) \<longrightarrow>
        (\<exists>s. m_steps m (m_of a) = Some s \<and> m_holder s = Some aid))"

text \<open>The fence counts the Attempts of a Step and stays within its budget.\<close>

definition token_inv :: "machine \<Rightarrow> bool" where
  "token_inv m \<longleftrightarrow>
     (\<forall>sid s. m_steps m sid = Some s \<longrightarrow> 0 \<le> m_fence s \<and> m_fence s \<le> m_budget s
        \<and> (\<forall>k. 1 \<le> k \<and> k \<le> m_fence s \<longrightarrow>
             (\<exists>aid a. m_attempts m aid = Some a \<and> m_of a = sid \<and> m_token a = k))) \<and>
     (\<forall>aid a. m_attempts m aid = Some a \<longrightarrow> m_no a = m_token a \<and> 1 \<le> m_token a
        \<and> (\<exists>s. m_steps m (m_of a) = Some s \<and> m_token a \<le> m_fence s)) \<and>
     (\<forall>x y a b. m_attempts m x = Some a \<and> m_attempts m y = Some b \<and> m_of a = m_of b
        \<and> m_token a = m_token b \<longrightarrow> x = y)"

text \<open>A Run serialises its Steps and follows them.\<close>

definition fits :: "run_state \<Rightarrow> step_state \<Rightarrow> bool" where
  "fits r st \<longleftrightarrow>
     (step_live st \<longrightarrow> r = Run_RUNNING) \<and> (st = Step_WAITING \<longrightarrow> r = Run_WAITING) \<and>
     (r = Run_QUEUED \<longrightarrow> st = Step_PENDING) \<and> (r = Run_SUCCEEDED \<longrightarrow> step_ended st)"

definition active :: "step_state \<Rightarrow> bool" where
  "active st \<longleftrightarrow> step_live st \<or> st = Step_WAITING"

definition run_inv :: "machine \<Rightarrow> bool" where
  "run_inv m \<longleftrightarrow>
     (\<forall>sid s. m_steps m sid = Some s \<longrightarrow>
        (\<exists>r. m_runs m (m_run s) = Some r \<and> fits r (m_state s))) \<and>
     (\<forall>x y s t. m_steps m x = Some s \<and> m_steps m y = Some t \<and> m_run s = m_run t
        \<and> active (m_state s) \<and> active (m_state t) \<longrightarrow> x = y) \<and>
     (\<forall>rid. m_runs m rid = Some Run_WAITING \<longrightarrow>
        (\<exists>sid s. m_steps m sid = Some s \<and> m_run s = rid \<and> m_state s = Step_WAITING))"

text \<open>No Step gets past PENDING before its predecessors have done their part.\<close>

definition started :: "step_state \<Rightarrow> bool" where
  "started st \<longleftrightarrow>
     st \<in> {Step_READY, Step_CLAIMED, Step_RUNNING, Step_WAITING, Step_SUCCEEDED}"

definition dep_inv :: "machine \<Rightarrow> bool" where
  "dep_inv m \<longleftrightarrow>
     (\<forall>r p s k. (r, p, s, k) \<in> m_deps m \<longrightarrow>
        (\<exists>y. m_steps m p = Some y \<and> m_run y = r) \<and> (\<exists>y. m_steps m s = Some y \<and> m_run y = r)) \<and>
     (\<forall>sid s. m_steps m sid = Some s \<and> started (m_state s) \<longrightarrow> \<not> m_blocked m (m_run s) sid)"

definition m_inv :: "machine \<Rightarrow> bool" where
  "m_inv m \<longleftrightarrow> holder_inv m \<and> token_inv m \<and> run_inv m \<and> dep_inv m"

definition m_init :: machine where
  "m_init = \<lparr>m_runs = Map.empty, m_steps = Map.empty, m_attempts = Map.empty, m_deps = {}\<rparr>"

lemma m_inv_init: "m_inv m_init"
  by (simp add: m_inv_def m_init_def holder_inv_def token_inv_def run_inv_def dep_inv_def)

section \<open>Preservation\<close>

named_theorems live_simps

lemma step_live_simps [simp, live_simps]:
  "step_live Step_CLAIMED" "step_live Step_RUNNING" "\<not> step_live Step_PENDING"
  "\<not> step_live Step_READY" "\<not> step_live Step_WAITING" "\<not> step_live Step_SUCCEEDED"
  "\<not> step_live Step_FAILED" "\<not> step_live Step_BLOCKED" "\<not> step_live Step_CANCELLED"
  "\<not> step_live Step_SKIPPED"
  by (simp_all add: step_live_def)

lemma attempt_live_simps [simp, live_simps]:
  "attempt_live Attempt_CLAIMED" "attempt_live Attempt_RUNNING"
  "\<not> attempt_live Attempt_SUCCEEDED" "\<not> attempt_live Attempt_FAILED_RETRYABLE"
  "\<not> attempt_live Attempt_FAILED_TERMINAL" "\<not> attempt_live Attempt_ABANDONED"
  "\<not> attempt_live Attempt_RECONCILIATION_REQUIRED"
  by (simp_all add: attempt_live_def)

lemma ready_where_None [simp]: "ready_where p ss sid = None \<longleftrightarrow> ss sid = None"
  by (simp add: ready_where_def)

lemma ready_where_elim:
  assumes "ready_where p ss sid = Some t"
  obtains s where "ss sid = Some s" "t = s \<or> (m_state s = Step_PENDING \<and> p sid s \<and> t = s\<lparr>m_state := Step_READY\<rparr>)"
  using assms by (auto simp: ready_where_def split: if_splits)

lemma ready_where_intro:
  assumes "ss sid = Some s"
  obtains t where "ready_where p ss sid = Some t"
    "t = s \<or> (m_state s = Step_PENDING \<and> p sid s \<and> t = s\<lparr>m_state := Step_READY\<rparr>)"
  using assms by (auto simp: ready_where_def split: if_splits)

lemma holder_invI:
  assumes "\<And>sid s. m_steps m sid = Some s \<Longrightarrow> m_holder s = None \<Longrightarrow> \<not> step_live (m_state s)"
    and "\<And>sid s aid. m_steps m sid = Some s \<Longrightarrow> m_holder s = Some aid \<Longrightarrow>
      \<exists>a. m_attempts m aid = Some a \<and> m_of a = sid \<and> m_token a = m_fence s
        \<and> ((m_state s = Step_CLAIMED \<and> m_status a = Attempt_CLAIMED) \<or>
           (m_state s = Step_RUNNING \<and> m_status a = Attempt_RUNNING))"
    and "\<And>aid a. m_attempts m aid = Some a \<Longrightarrow> attempt_live (m_status a) \<Longrightarrow>
      \<exists>s. m_steps m (m_of a) = Some s \<and> m_holder s = Some aid"
  shows "holder_inv m"
  using assms unfolding holder_inv_def by blast

lemma holder_invD:
  assumes "holder_inv m"
  shows "m_steps m sid = Some s \<Longrightarrow> m_holder s = None \<Longrightarrow> \<not> step_live (m_state s)"
    and "m_steps m sid = Some s \<Longrightarrow> m_holder s = Some aid \<Longrightarrow>
      \<exists>a. m_attempts m aid = Some a \<and> m_of a = sid \<and> m_token a = m_fence s
        \<and> ((m_state s = Step_CLAIMED \<and> m_status a = Attempt_CLAIMED) \<or>
           (m_state s = Step_RUNNING \<and> m_status a = Attempt_RUNNING))"
    and "m_attempts m aid = Some a \<Longrightarrow> attempt_live (m_status a) \<Longrightarrow>
      \<exists>s. m_steps m (m_of a) = Some s \<and> m_holder s = Some aid"
  using assms unfolding holder_inv_def by blast+

lemma holder_inv_ready_where:
  assumes inv: "holder_inv m"
  shows "holder_inv (m\<lparr>m_steps := ready_where p (m_steps m)\<rparr>)"
proof (rule holder_invI)
  fix sid t assume t: "m_steps (m\<lparr>m_steps := ready_where p (m_steps m)\<rparr>) sid = Some t"
  then have "ready_where p (m_steps m) sid = Some t" by simp
  then obtain s where s: "m_steps m sid = Some s"
    and ts: "t = s \<or> (m_state s = Step_PENDING \<and> p sid s \<and> t = s\<lparr>m_state := Step_READY\<rparr>)"
    by (rule ready_where_elim)
  { assume "m_holder t = None"
    then show "\<not> step_live (m_state t)" using ts holder_invD(1) [OF inv s] by auto }
  { fix aid assume "m_holder t = Some aid"
    then have "m_holder s = Some aid" using ts by auto
    from holder_invD(2) [OF inv s this]
    show "\<exists>a. m_attempts (m\<lparr>m_steps := ready_where p (m_steps m)\<rparr>) aid = Some a \<and> m_of a = sid
        \<and> m_token a = m_fence t
        \<and> ((m_state t = Step_CLAIMED \<and> m_status a = Attempt_CLAIMED) \<or>
           (m_state t = Step_RUNNING \<and> m_status a = Attempt_RUNNING))"
      using ts by auto }
next
  fix aid a
  assume "m_attempts (m\<lparr>m_steps := ready_where p (m_steps m)\<rparr>) aid = Some a" "attempt_live (m_status a)"
  then obtain s where s: "m_steps m (m_of a) = Some s" "m_holder s = Some aid"
    using holder_invD(3) [OF inv, of aid a] by auto
  obtain t where "ready_where p (m_steps m) (m_of a) = Some t" "m_holder t = m_holder s"
    by (rule ready_where_intro [of "m_steps m" "m_of a" s p, OF s(1)]) auto
  then show "\<exists>s. m_steps (m\<lparr>m_steps := ready_where p (m_steps m)\<rparr>) (m_of a) = Some s \<and> m_holder s = Some aid"
    using s(2) by simp
qed

lemma token_invI:
  assumes "\<And>sid s. m_steps m sid = Some s \<Longrightarrow> 0 \<le> m_fence s \<and> m_fence s \<le> m_budget s"
    and "\<And>sid s k. m_steps m sid = Some s \<Longrightarrow> 1 \<le> k \<Longrightarrow> k \<le> m_fence s \<Longrightarrow>
      \<exists>aid a. m_attempts m aid = Some a \<and> m_of a = sid \<and> m_token a = k"
    and "\<And>aid a. m_attempts m aid = Some a \<Longrightarrow> m_no a = m_token a \<and> 1 \<le> m_token a
      \<and> (\<exists>s. m_steps m (m_of a) = Some s \<and> m_token a \<le> m_fence s)"
    and "\<And>x y a b. m_attempts m x = Some a \<Longrightarrow> m_attempts m y = Some b \<Longrightarrow> m_of a = m_of b \<Longrightarrow>
      m_token a = m_token b \<Longrightarrow> x = y"
  shows "token_inv m"
  using assms unfolding token_inv_def by blast

lemma token_invD:
  assumes "token_inv m"
  shows "m_steps m sid = Some s \<Longrightarrow> 0 \<le> m_fence s \<and> m_fence s \<le> m_budget s"
    and "m_steps m sid = Some s \<Longrightarrow> 1 \<le> k \<Longrightarrow> k \<le> m_fence s \<Longrightarrow>
      \<exists>aid a. m_attempts m aid = Some a \<and> m_of a = sid \<and> m_token a = k"
    and "m_attempts m aid = Some a \<Longrightarrow> m_no a = m_token a \<and> 1 \<le> m_token a
      \<and> (\<exists>s. m_steps m (m_of a) = Some s \<and> m_token a \<le> m_fence s)"
    and "m_attempts m x = Some a \<Longrightarrow> m_attempts m y = Some b \<Longrightarrow> m_of a = m_of b \<Longrightarrow>
      m_token a = m_token b \<Longrightarrow> x = y"
  using assms unfolding token_inv_def by blast+

lemma token_inv_ready_where:
  assumes inv: "token_inv m"
  shows "token_inv (m\<lparr>m_steps := ready_where p (m_steps m)\<rparr>)"
proof (rule token_invI)
  fix sid t assume "m_steps (m\<lparr>m_steps := ready_where p (m_steps m)\<rparr>) sid = Some t"
  then have "ready_where p (m_steps m) sid = Some t" by simp
  then obtain s where s: "m_steps m sid = Some s"
    and ts: "m_fence t = m_fence s" "m_budget t = m_budget s"
    by (rule ready_where_elim) auto
  show "0 \<le> m_fence t \<and> m_fence t \<le> m_budget t" using token_invD(1) [OF inv s] ts by simp
  fix k assume "1 \<le> k" "k \<le> m_fence t"
  then show "\<exists>aid a. m_attempts (m\<lparr>m_steps := ready_where p (m_steps m)\<rparr>) aid = Some a \<and> m_of a = sid
      \<and> m_token a = k"
    using token_invD(2) [OF inv s, of k] ts by simp
next
  fix aid a assume "m_attempts (m\<lparr>m_steps := ready_where p (m_steps m)\<rparr>) aid = Some a"
  then have a: "m_attempts m aid = Some a" by simp
  from token_invD(3) [OF inv a] obtain s where
    s: "m_no a = m_token a" "1 \<le> m_token a" "m_steps m (m_of a) = Some s" "m_token a \<le> m_fence s"
    by blast
  obtain t where "ready_where p (m_steps m) (m_of a) = Some t" "m_fence t = m_fence s"
    by (rule ready_where_intro [of "m_steps m" "m_of a" s p, OF s(3)]) auto
  then show "m_no a = m_token a \<and> 1 \<le> m_token a \<and>
      (\<exists>s. m_steps (m\<lparr>m_steps := ready_where p (m_steps m)\<rparr>) (m_of a) = Some s \<and> m_token a \<le> m_fence s)"
    using s by simp
next
  fix x y a b
  assume "m_attempts (m\<lparr>m_steps := ready_where p (m_steps m)\<rparr>) x = Some a"
    "m_attempts (m\<lparr>m_steps := ready_where p (m_steps m)\<rparr>) y = Some b" "m_of a = m_of b"
    "m_token a = m_token b"
  then show "x = y" using token_invD(4) [OF inv, of x a y b] by simp
qed

lemma holder_inv_runs [simp]: "holder_inv (m\<lparr>m_runs := f\<rparr>) = holder_inv m"
  by (simp add: holder_inv_def)

lemma token_inv_runs [simp]: "token_inv (m\<lparr>m_runs := f\<rparr>) = token_inv m"
  by (simp add: token_inv_def)

text \<open>
  Every transition but the scheduling ones changes one Step and one Attempt of it.
\<close>

definition touch :: "machine \<Rightarrow> uuid \<Rightarrow> m_step \<Rightarrow> uuid \<Rightarrow> m_attempt \<Rightarrow> machine" where
  "touch m sid s aid a =
     m\<lparr>m_steps := (m_steps m)(sid \<mapsto> s), m_attempts := (m_attempts m)(aid \<mapsto> a)\<rparr>"

lemma touch_simps [simp]:
  "m_steps (touch m sid s aid a) = (m_steps m)(sid \<mapsto> s)"
  "m_attempts (touch m sid s aid a) = (m_attempts m)(aid \<mapsto> a)"
  "m_runs (touch m sid s aid a) = m_runs m"
  "m_deps (touch m sid s aid a) = m_deps m"
  by (simp_all add: touch_def)

lemma holder_inv_touch:
  assumes inv: "holder_inv m" and s: "m_steps m sid = Some s"
    and held: "m_holder s = None \<or> m_holder s = Some aid"
    and mine: "\<And>a. m_attempts m aid = Some a \<Longrightarrow> m_of a = sid" and "m_of a' = sid"
    and l1: "m_holder s' = None \<Longrightarrow> \<not> step_live (m_state s') \<and> \<not> attempt_live (m_status a')"
    and l2: "m_holder s' \<noteq> None \<Longrightarrow> m_holder s' = Some aid \<and> m_token a' = m_fence s'
        \<and> ((m_state s' = Step_CLAIMED \<and> m_status a' = Attempt_CLAIMED) \<or>
           (m_state s' = Step_RUNNING \<and> m_status a' = Attempt_RUNNING))"
  shows "holder_inv (touch m sid s' aid a')"
proof (rule holder_invI)
  fix x t assume t: "m_steps (touch m sid s' aid a') x = Some t"
  { assume "m_holder t = None"
    then show "\<not> step_live (m_state t)"
      using t l1 holder_invD(1) [OF inv, of x t] by (auto split: if_splits) }
  { fix y assume y: "m_holder t = Some y"
    show "\<exists>a. m_attempts (touch m sid s' aid a') y = Some a \<and> m_of a = x \<and> m_token a = m_fence t
        \<and> ((m_state t = Step_CLAIMED \<and> m_status a = Attempt_CLAIMED) \<or>
           (m_state t = Step_RUNNING \<and> m_status a = Attempt_RUNNING))"
    proof (cases "x = sid")
      case True
      then have "t = s'" using t by simp
      then show ?thesis using l2 y \<open>m_of a' = sid\<close> True by auto
    next
      case False
      then have "m_steps m x = Some t" using t by simp
      from holder_invD(2) [OF inv this y] obtain a where a: "m_attempts m y = Some a" "m_of a = x"
        "m_token a = m_fence t" "((m_state t = Step_CLAIMED \<and> m_status a = Attempt_CLAIMED) \<or>
           (m_state t = Step_RUNNING \<and> m_status a = Attempt_RUNNING))" by blast
      then have "y \<noteq> aid" using mine False by auto
      then show ?thesis using a by auto
    qed }
next
  fix y b assume b: "m_attempts (touch m sid s' aid a') y = Some b" "attempt_live (m_status b)"
  show "\<exists>s. m_steps (touch m sid s' aid a') (m_of b) = Some s \<and> m_holder s = Some y"
  proof (cases "y = aid")
    case True
    then show ?thesis using b l1 l2 \<open>m_of a' = sid\<close> by auto
  next
    case False
    then have "m_attempts m y = Some b" using b by simp
    from holder_invD(3) [OF inv this b(2)] obtain t where "m_steps m (m_of b) = Some t" "m_holder t = Some y"
      by blast
    then show ?thesis using False held s by (cases "m_of b = sid") auto
  qed
qed

lemma token_inv_touch_same:
  assumes inv: "token_inv m" and s: "m_steps m sid = Some s"
    and a: "m_attempts m aid = Some a" "m_of a = sid"
    and same: "m_of a' = m_of a" "m_no a' = m_no a" "m_token a' = m_token a"
      "m_fence s' = m_fence s" "m_budget s' = m_budget s"
  shows "token_inv (touch m sid s' aid a')"
proof (rule token_invI)
  fix x t assume t: "m_steps (touch m sid s' aid a') x = Some t"
  obtain t0 where t0: "m_steps m x = Some t0" "m_fence t = m_fence t0" "m_budget t = m_budget t0"
    using t s same by (cases "x = sid") auto
  show "0 \<le> m_fence t \<and> m_fence t \<le> m_budget t" using token_invD(1) [OF inv t0(1)] t0 by simp
  fix k assume "1 \<le> k" "k \<le> m_fence t"
  then obtain y b where "m_attempts m y = Some b" "m_of b = x" "m_token b = k"
    using token_invD(2) [OF inv t0(1), of k] t0 by auto
  then show "\<exists>y b. m_attempts (touch m sid s' aid a') y = Some b \<and> m_of b = x \<and> m_token b = k"
    using a same by (cases "y = aid") (auto intro: exI [of _ y])
next
  fix y b assume b: "m_attempts (touch m sid s' aid a') y = Some b"
  obtain b0 where b0: "m_attempts m y = Some b0" "m_no b = m_no b0" "m_token b = m_token b0"
    "m_of b = m_of b0"
    using b a same by (cases "y = aid") auto
  from token_invD(3) [OF inv b0(1)] s same
  show "m_no b = m_token b \<and> 1 \<le> m_token b \<and>
      (\<exists>s. m_steps (touch m sid s' aid a') (m_of b) = Some s \<and> m_token b \<le> m_fence s)"
    by (cases "m_of b = sid") (auto simp: b0)
next
  fix x y b c
  assume bc: "m_attempts (touch m sid s' aid a') x = Some b" "m_attempts (touch m sid s' aid a') y = Some c"
    "m_of b = m_of c" "m_token b = m_token c"
  have orig: "\<exists>d0. m_attempts m z = Some d0 \<and> m_of d0 = m_of d \<and> m_token d0 = m_token d"
    if "m_attempts (touch m sid s' aid a') z = Some d" for z d
    using that a same by (cases "z = aid") auto
  obtain b0 c0 where b0: "m_attempts m x = Some b0" "m_of b0 = m_of b" "m_token b0 = m_token b"
    and c0: "m_attempts m y = Some c0" "m_of c0 = m_of c" "m_token c0 = m_token c"
    using orig [OF bc(1)] orig [OF bc(2)] by blast
  show "x = y" using token_invD(4) [OF inv b0(1) c0(1)] b0 c0 bc by simp
qed

lemma token_inv_touch_new:
  assumes inv: "token_inv m" and s: "m_steps m sid = Some s" and fresh: "m_attempts m aid = None"
    and room: "m_fence s < m_budget s"
    and new: "m_of a' = sid" "m_no a' = m_fence s + 1" "m_token a' = m_fence s + 1"
      "m_fence s' = m_fence s + 1" "m_budget s' = m_budget s"
  shows "token_inv (touch m sid s' aid a')"
proof (rule token_invI)
  fix x t assume t: "m_steps (touch m sid s' aid a') x = Some t"
  show "0 \<le> m_fence t \<and> m_fence t \<le> m_budget t"
    using t token_invD(1) [OF inv s] token_invD(1) [OF inv, of x t] new room
    by (cases "x = sid") auto
  fix k assume k: "1 \<le> k" "k \<le> m_fence t"
  show "\<exists>y b. m_attempts (touch m sid s' aid a') y = Some b \<and> m_of b = x \<and> m_token b = k"
  proof (cases "x = sid \<and> k = m_fence s + 1")
    case True then show ?thesis using new by (intro exI [of _ aid]) simp
  next
    case False
    obtain t0 where t0: "m_steps m x = Some t0" "k \<le> m_fence t0"
      using t k False s new by (cases "x = sid") auto
    from token_invD(2) [OF inv t0(1) k(1) t0(2)] obtain y b
      where y: "m_attempts m y = Some b" "m_of b = x" "m_token b = k" by blast
    then have "y \<noteq> aid" using fresh by auto
    then show ?thesis using y by (intro exI [of _ y]) simp
  qed
next
  fix y b assume b: "m_attempts (touch m sid s' aid a') y = Some b"
  show "m_no b = m_token b \<and> 1 \<le> m_token b \<and>
      (\<exists>s. m_steps (touch m sid s' aid a') (m_of b) = Some s \<and> m_token b \<le> m_fence s)"
  proof (cases "y = aid")
    case True
    then show ?thesis using b new token_invD(1) [OF inv s] by auto
  next
    case False
    then show ?thesis using b token_invD(3) [OF inv, of y b] s new by (cases "m_of b = sid") auto
  qed
next
  have old: "m_token b \<le> m_fence s" if "m_attempts m x = Some b" "m_of b = sid" for x b
    using token_invD(3) [OF inv that(1)] that(2) s by auto
  have clash: False if "m_attempts m x = Some b" "m_of b = m_of a'" "m_token b = m_token a'" for x b
    using old [OF that(1)] that new by simp
  fix x y b c
  assume bc: "m_attempts (touch m sid s' aid a') x = Some b"
    "m_attempts (touch m sid s' aid a') y = Some c" "m_of b = m_of c" "m_token b = m_token c"
  show "x = y"
  proof (cases "x = aid")
    case True
    then show ?thesis using bc clash [of y c] by (cases "y = aid") simp_all
  next
    case False
    then have b: "m_attempts m x = Some b" using bc by simp
    show ?thesis
    proof (cases "y = aid")
      case True
      then show ?thesis using bc clash [OF b] by simp
    next
      case False
      then show ?thesis using bc token_invD(4) [OF inv b, of y c] by simp
    qed
  qed
qed

lemma run_invI:
  assumes "\<And>sid s. m_steps m sid = Some s \<Longrightarrow> \<exists>r. m_runs m (m_run s) = Some r \<and> fits r (m_state s)"
    and "\<And>x y s t. m_steps m x = Some s \<Longrightarrow> m_steps m y = Some t \<Longrightarrow> m_run s = m_run t \<Longrightarrow>
      active (m_state s) \<Longrightarrow> active (m_state t) \<Longrightarrow> x = y"
    and "\<And>rid. m_runs m rid = Some Run_WAITING \<Longrightarrow>
      \<exists>sid s. m_steps m sid = Some s \<and> m_run s = rid \<and> m_state s = Step_WAITING"
  shows "run_inv m"
  using assms unfolding run_inv_def by blast

lemma run_invD:
  assumes "run_inv m"
  shows "m_steps m sid = Some s \<Longrightarrow> \<exists>r. m_runs m (m_run s) = Some r \<and> fits r (m_state s)"
    and "m_steps m x = Some s \<Longrightarrow> m_steps m y = Some t \<Longrightarrow> m_run s = m_run t \<Longrightarrow>
      active (m_state s) \<Longrightarrow> active (m_state t) \<Longrightarrow> x = y"
    and "m_runs m rid = Some Run_WAITING \<Longrightarrow>
      \<exists>sid s. m_steps m sid = Some s \<and> m_run s = rid \<and> m_state s = Step_WAITING"
  using assms unfolding run_inv_def by blast+

text \<open>Every other Step of the Run of \<open>sid\<close> is idle.\<close>

definition alone :: "machine \<Rightarrow> uuid \<Rightarrow> uuid \<Rightarrow> bool" where
  "alone m rid sid \<longleftrightarrow>
     (\<forall>x t. m_steps m x = Some t \<and> m_run t = rid \<and> x \<noteq> sid \<longrightarrow> \<not> active (m_state t))"

lemma alone_active:
  assumes "run_inv m" "m_steps m sid = Some s" "active (m_state s)"
  shows "alone m (m_run s) sid"
  using assms run_invD(2) [OF assms(1)] unfolding alone_def by blast

lemma alone_free:
  assumes inv: "run_inv m" and r: "m_runs m rid = Some Run_RUNNING" and free: "\<not> m_busy m rid"
  shows "alone m rid sid"
  unfolding alone_def
proof (intro allI impI, elim conjE)
  fix x t assume t: "m_steps m x = Some t" "m_run t = rid"
  then have "\<not> step_live (m_state t)" using free by (auto simp: m_busy_def)
  moreover have "m_state t \<noteq> Step_WAITING" using run_invD(1) [OF inv t(1)] t(2) r by (auto simp: fits_def)
  ultimately show "\<not> active (m_state t)" by (simp add: active_def)
qed

lemma run_inv_settle:
  assumes inv: "run_inv m" and s: "m_steps m sid = Some s" and quiet: "alone m (m_run s) sid"
    and s': "m_run s' = m_run s" and fit: "fits r' (m_state s')"
    and r': "r' \<noteq> Run_QUEUED" "r' \<noteq> Run_SUCCEEDED" "r' = Run_WAITING \<Longrightarrow> m_state s' = Step_WAITING"
  shows "run_inv ((touch m sid s' aid a')\<lparr>m_runs := (m_runs m)(m_run s \<mapsto> r')\<rparr>)" (is "run_inv ?m")
proof (rule run_invI)
  fix x t assume t: "m_steps ?m x = Some t"
  show "\<exists>r. m_runs ?m (m_run t) = Some r \<and> fits r (m_state t)"
  proof (cases "x = sid")
    case True then show ?thesis using t s' fit by auto
  next
    case False
    then have "m_steps m x = Some t" using t by simp
    then show ?thesis
      using False quiet r' run_invD(1) [OF inv, of x t]
      by (cases "m_run t = m_run s") (auto simp: alone_def active_def fits_def)
  qed
next
  fix x y t u
  assume t: "m_steps ?m x = Some t" and u: "m_steps ?m y = Some u" and tu: "m_run t = m_run u"
    and act: "active (m_state t)" "active (m_state u)"
  show "x = y"
  proof (rule ccontr)
    assume ne: "x \<noteq> y"
    show False
    proof (cases "x = sid")
      case True
      then have "m_steps m y = Some u" "m_run u = m_run s" using ne t u tu s' by auto
      then show False using quiet ne True act by (auto simp: alone_def)
    next
      case x: False
      show False
      proof (cases "y = sid")
        case True
        then have "m_steps m x = Some t" "m_run t = m_run s" using x t u tu s' by auto
        then show False using quiet x act by (auto simp: alone_def)
      next
        case False
        then have "m_steps m x = Some t" "m_steps m y = Some u" using x t u by auto
        then show False using run_invD(2) [OF inv] tu act ne by blast
      qed
    qed
  qed
next
  fix rid assume w: "m_runs ?m rid = Some Run_WAITING"
  show "\<exists>x t. m_steps ?m x = Some t \<and> m_run t = rid \<and> m_state t = Step_WAITING"
  proof (cases "rid = m_run s")
    case True
    then show ?thesis using w r' s' by (intro exI [of _ sid] exI [of _ s']) auto
  next
    case False
    then have "m_runs m rid = Some Run_WAITING" using w by simp
    from run_invD(3) [OF inv this] obtain x t
      where "m_steps m x = Some t" "m_run t = rid" "m_state t = Step_WAITING" by blast
    then show ?thesis using False s by (intro exI [of _ x] exI [of _ t]) auto
  qed
qed

lemma run_inv_ready_where:
  assumes inv: "run_inv m"
    and p: "\<And>x s. p x s \<Longrightarrow> m_runs m (m_run s) = Some Run_RUNNING"
  shows "run_inv (m\<lparr>m_steps := ready_where p (m_steps m)\<rparr>)" (is "run_inv ?m")
proof (rule run_invI)
  fix x t assume "m_steps ?m x = Some t"
  then have "ready_where p (m_steps m) x = Some t" by simp
  then obtain s where s: "m_steps m x = Some s"
    and ts: "t = s \<or> (m_state s = Step_PENDING \<and> p x s \<and> t = s\<lparr>m_state := Step_READY\<rparr>)"
    by (rule ready_where_elim)
  show "\<exists>r. m_runs ?m (m_run t) = Some r \<and> fits r (m_state t)"
    using run_invD(1) [OF inv s] ts p by (auto simp: fits_def)
next
  fix x y t u
  assume tu: "m_steps ?m x = Some t" "m_steps ?m y = Some u" "m_run t = m_run u"
    "active (m_state t)" "active (m_state u)"
  have orig: "\<exists>s. m_steps m z = Some s \<and> m_run s = m_run v \<and> active (m_state s)"
    if "m_steps ?m z = Some v" "active (m_state v)" for z v
  proof -
    have "ready_where p (m_steps m) z = Some v" using that by simp
    then show ?thesis by (rule ready_where_elim) (use that(2) in \<open>auto simp: active_def\<close>)
  qed
  show "x = y" using orig [OF tu(1,4)] orig [OF tu(2,5)] tu(3) run_invD(2) [OF inv] by metis
next
  fix rid assume "m_runs ?m rid = Some Run_WAITING"
  then obtain x s where s: "m_steps m x = Some s" "m_run s = rid" "m_state s = Step_WAITING"
    using run_invD(3) [OF inv, of rid] by auto
  have "m_steps ?m x = Some s" using s by (simp add: ready_where_def)
  then show "\<exists>x t. m_steps ?m x = Some t \<and> m_run t = rid \<and> m_state t = Step_WAITING" using s by blast
qed

lemma run_inv_run:
  assumes inv: "run_inv m" and r: "r' \<noteq> Run_WAITING"
    and fit: "\<And>x t. m_steps m x = Some t \<Longrightarrow> m_run t = rid \<Longrightarrow> fits r' (m_state t)"
  shows "run_inv (m\<lparr>m_runs := (m_runs m)(rid \<mapsto> r')\<rparr>)" (is "run_inv ?m")
proof (rule run_invI)
  fix x t assume "m_steps ?m x = Some t"
  then show "\<exists>r. m_runs ?m (m_run t) = Some r \<and> fits r (m_state t)"
    using run_invD(1) [OF inv, of x t] fit [of x t] by (cases "m_run t = rid") auto
next
  fix x y t u
  assume "m_steps ?m x = Some t" "m_steps ?m y = Some u" "m_run t = m_run u"
    "active (m_state t)" "active (m_state u)"
  then show "x = y" using run_invD(2) [OF inv, of x t y u] by simp
next
  fix k assume "m_runs ?m k = Some Run_WAITING"
  then have "m_runs m k = Some Run_WAITING" using r by (auto split: if_splits)
  from run_invD(3) [OF inv this]
  show "\<exists>x t. m_steps ?m x = Some t \<and> m_run t = k \<and> m_state t = Step_WAITING" by simp
qed

lemma dep_invI:
  assumes "\<And>r p s k. (r, p, s, k) \<in> m_deps m \<Longrightarrow>
      (\<exists>y. m_steps m p = Some y \<and> m_run y = r) \<and> (\<exists>y. m_steps m s = Some y \<and> m_run y = r)"
    and "\<And>sid s. m_steps m sid = Some s \<Longrightarrow> started (m_state s) \<Longrightarrow> \<not> m_blocked m (m_run s) sid"
  shows "dep_inv m"
  using assms unfolding dep_inv_def by blast

lemma dep_invD:
  assumes "dep_inv m"
  shows "(r, p, s, k) \<in> m_deps m \<Longrightarrow>
      (\<exists>y. m_steps m p = Some y \<and> m_run y = r) \<and> (\<exists>y. m_steps m s = Some y \<and> m_run y = r)"
    and "m_steps m sid = Some t \<Longrightarrow> started (m_state t) \<Longrightarrow> \<not> m_blocked m (m_run t) sid"
  using assms unfolding dep_inv_def by blast+

lemma step_passed_ended: "step_passed st \<Longrightarrow> step_ended st"
  by (auto simp: step_passed_def)

lemma m_unmet_open: "\<not> step_ended st \<Longrightarrow> m_unmet k st' \<Longrightarrow> m_unmet k st"
  using step_passed_ended by (auto simp: m_unmet_def)

lemma m_blocked_touch:
  assumes "m_blocked (touch m sid s' aid a') r x" "m_steps m sid = Some s" "\<not> step_ended (m_state s)"
  shows "m_blocked m r x"
proof -
  obtain p k t where d: "(r, p, x, k) \<in> m_deps m" and
    t: "((m_steps m)(sid \<mapsto> s')) p = Some t" "m_unmet k (m_state t)"
    using assms(1) by (auto simp: m_blocked_def)
  show ?thesis
  proof (cases "p = sid")
    case True
    then show ?thesis using d t assms m_unmet_open unfolding m_blocked_def by fastforce
  next
    case False then show ?thesis using d t unfolding m_blocked_def by auto
  qed
qed

lemma dep_inv_touch:
  assumes inv: "dep_inv m" and s: "m_steps m sid = Some s" and s': "m_run s' = m_run s"
    and "open": "\<not> step_ended (m_state s)"
    and go: "started (m_state s') \<Longrightarrow> started (m_state s) \<or> \<not> m_blocked m (m_run s) sid"
  shows "dep_inv (touch m sid s' aid a')" (is "dep_inv ?m")
proof (rule dep_invI)
  fix r p x k assume "(r, p, x, k) \<in> m_deps ?m"
  then have "(r, p, x, k) \<in> m_deps m" by simp
  from dep_invD(1) [OF inv this] s s'
  show "(\<exists>y. m_steps ?m p = Some y \<and> m_run y = r) \<and> (\<exists>y. m_steps ?m x = Some y \<and> m_run y = r)"
    by (cases "p = sid"; cases "x = sid") auto
next
  fix x t assume t: "m_steps ?m x = Some t" "started (m_state t)"
  have "\<not> m_blocked m (m_run t) x"
  proof (cases "x = sid")
    case True
    then have "t = s'" using t by simp
    then show ?thesis using go t(2) dep_invD(2) [OF inv s] s' True by auto
  next
    case False
    then have "m_steps m x = Some t" using t by simp
    then show ?thesis using dep_invD(2) [OF inv _ t(2)] by blast
  qed
  then show "\<not> m_blocked ?m (m_run t) x" using m_blocked_touch [OF _ s "open"] by blast
qed

lemma m_blocked_ready_where:
  "m_blocked (m\<lparr>m_steps := ready_where p (m_steps m)\<rparr>) r x \<longleftrightarrow> m_blocked m r x"
proof -
  have same: "(\<exists>t. ready_where p ss q = Some t \<and> m_unmet k (m_state t)) \<longleftrightarrow>
      (\<exists>t. ss q = Some t \<and> m_unmet k (m_state t))" for q k and ss :: "uuid \<Rightarrow> m_step option"
    by (cases "ss q") (auto simp: ready_where_def m_unmet_def step_passed_def)
  show ?thesis unfolding m_blocked_def using same [of "m_steps m"] by simp
qed

lemma dep_inv_ready_where:
  assumes inv: "dep_inv m" and p: "\<And>x s. p x s \<Longrightarrow> \<not> m_blocked m (m_run s) x"
  shows "dep_inv (m\<lparr>m_steps := ready_where p (m_steps m)\<rparr>)" (is "dep_inv ?m")
proof (rule dep_invI)
  have keep: "\<exists>z. m_steps ?m x = Some z \<and> m_run z = r" if "\<exists>y. m_steps m x = Some y \<and> m_run y = r" for x r
  proof -
    from that obtain y where y: "m_steps m x = Some y" "m_run y = r" by blast
    show ?thesis
      by (rule ready_where_intro [of "m_steps m" x y p, OF y(1)]) (use y(2) in auto)
  qed
  fix r q x k assume "(r, q, x, k) \<in> m_deps ?m"
  then have "(r, q, x, k) \<in> m_deps m" by simp
  from dep_invD(1) [OF inv this]
  show "(\<exists>y. m_steps ?m q = Some y \<and> m_run y = r) \<and> (\<exists>y. m_steps ?m x = Some y \<and> m_run y = r)"
    using keep by blast
next
  fix x t assume t: "m_steps ?m x = Some t" "started (m_state t)"
  then have "ready_where p (m_steps m) x = Some t" by simp
  then obtain s where s: "m_steps m x = Some s"
    and ts: "t = s \<or> (m_state s = Step_PENDING \<and> p x s \<and> t = s\<lparr>m_state := Step_READY\<rparr>)"
    by (rule ready_where_elim)
  have "\<not> m_blocked m (m_run t) x"
    using ts p [of x s] dep_invD(2) [OF inv s] t(2) by auto
  then show "\<not> m_blocked ?m (m_run t) x" by (simp add: m_blocked_ready_where)
qed

lemma dep_inv_runs [simp]: "dep_inv (m\<lparr>m_runs := f\<rparr>) = dep_inv m"
  by (simp add: dep_inv_def m_blocked_def)

lemma add_run_simps [simp]:
  "m_runs (add_run m rid news deps) = (m_runs m)(rid \<mapsto> Run_QUEUED)"
  "m_steps (add_run m rid news deps) = m_steps m ++ news"
  "m_attempts (add_run m rid news deps) = m_attempts m"
  "m_deps (add_run m rid news deps) = m_deps m \<union> deps"
  by (simp_all add: add_run_def)

lemma schedulableD:
  assumes "schedulable m rid news deps"
  shows "m_runs m rid = None"
    and "news sid = Some s \<Longrightarrow> m_steps m sid = None \<and> m_run s = rid \<and> m_state s = Step_PENDING
      \<and> m_fence s = 0 \<and> m_holder s = None \<and> 0 \<le> m_budget s"
    and "(r, p, t, k) \<in> deps \<Longrightarrow> r = rid \<and> p \<in> dom news \<and> t \<in> dom news"
  using assms unfolding schedulable_def by blast+

lemma add_run_split:
  assumes sch: "schedulable m rid news deps" and t: "(m_steps m ++ news) x = Some t"
  shows "(m_steps m x = Some t \<and> news x = None) \<or> news x = Some t"
  using t by (auto simp: map_add_Some_iff)

lemma add_run_keep:
  assumes sch: "schedulable m rid news deps" and t: "m_steps m x = Some t"
  shows "(m_steps m ++ news) x = Some t"
  using t schedulableD(2) [OF sch, of x] by (cases "news x") (auto simp: map_add_def)

lemma holder_inv_add_run:
  assumes h: "holder_inv m" and sch: "schedulable m rid news deps"
  shows "holder_inv (add_run m rid news deps)" (is "holder_inv ?m")
proof (rule holder_invI)
  fix x t assume t: "m_steps ?m x = Some t"
  have cases: "m_steps m x = Some t \<or> news x = Some t" using add_run_split [OF sch, of x t] t by auto
  { assume "m_holder t = None"
    then show "\<not> step_live (m_state t)"
      using cases holder_invD(1) [OF h, of x t] schedulableD(2) [OF sch, of x t] by auto }
  { fix aid assume a: "m_holder t = Some aid"
    then have "m_steps m x = Some t" using cases schedulableD(2) [OF sch, of x t] by auto
    then show "\<exists>a. m_attempts ?m aid = Some a \<and> m_of a = x \<and> m_token a = m_fence t
        \<and> ((m_state t = Step_CLAIMED \<and> m_status a = Attempt_CLAIMED) \<or>
           (m_state t = Step_RUNNING \<and> m_status a = Attempt_RUNNING))"
      using holder_invD(2) [OF h _ a] by simp }
next
  fix aid a assume "m_attempts ?m aid = Some a" "attempt_live (m_status a)"
  then obtain t where "m_steps m (m_of a) = Some t" "m_holder t = Some aid"
    using holder_invD(3) [OF h, of aid a] by auto
  then show "\<exists>t. m_steps ?m (m_of a) = Some t \<and> m_holder t = Some aid"
    using add_run_keep [OF sch] by auto
qed

lemma token_inv_add_run:
  assumes tk: "token_inv m" and sch: "schedulable m rid news deps"
  shows "token_inv (add_run m rid news deps)" (is "token_inv ?m")
proof (rule token_invI)
  fix x t assume t: "m_steps ?m x = Some t"
  have cases: "m_steps m x = Some t \<or> news x = Some t" using add_run_split [OF sch, of x t] t by auto
  show "0 \<le> m_fence t \<and> m_fence t \<le> m_budget t"
    using cases token_invD(1) [OF tk, of x t] schedulableD(2) [OF sch, of x t] by auto
  fix k assume k: "1 \<le> k" "k \<le> m_fence t"
  then have "m_steps m x = Some t" using cases schedulableD(2) [OF sch, of x t] by auto
  then show "\<exists>aid a. m_attempts ?m aid = Some a \<and> m_of a = x \<and> m_token a = k"
    using token_invD(2) [OF tk _ k] by simp
next
  fix aid a assume "m_attempts ?m aid = Some a"
  then have "m_attempts m aid = Some a" by simp
  from token_invD(3) [OF tk this]
  show "m_no a = m_token a \<and> 1 \<le> m_token a \<and>
      (\<exists>s. m_steps ?m (m_of a) = Some s \<and> m_token a \<le> m_fence s)"
    using add_run_keep [OF sch] by auto
next
  fix x y a b
  assume "m_attempts ?m x = Some a" "m_attempts ?m y = Some b" "m_of a = m_of b" "m_token a = m_token b"
  then show "x = y" using token_invD(4) [OF tk, of x a y b] by simp
qed

lemma add_run_old_run:
  assumes "run_inv m" "schedulable m rid news deps" "m_steps m x = Some t"
  shows "m_run t \<noteq> rid"
  using run_invD(1) [OF assms(1,3)] schedulableD(1) [OF assms(2)] by auto

lemma run_inv_add_run:
  assumes r: "run_inv m" and sch: "schedulable m rid news deps"
  shows "run_inv (add_run m rid news deps)" (is "run_inv ?m")
proof (rule run_invI)
  fix x t assume "m_steps ?m x = Some t"
  with add_run_split [OF sch, of x t] consider "m_steps m x = Some t" | "news x = Some t" by auto
  then show "\<exists>q. m_runs ?m (m_run t) = Some q \<and> fits q (m_state t)"
  proof cases
    case 1 then show ?thesis using run_invD(1) [OF r 1] add_run_old_run [OF r sch 1] by auto
  next
    case 2 then show ?thesis using schedulableD(2) [OF sch 2] by (simp add: fits_def)
  qed
next
  have old: "m_steps m x = Some t" if "m_steps ?m x = Some t" "active (m_state t)" for x t
    using that add_run_split [OF sch, of x t] schedulableD(2) [OF sch, of x t]
    by (auto simp: active_def)
  fix x y t u
  assume t: "m_steps ?m x = Some t" and u: "m_steps ?m y = Some u" and tu: "m_run t = m_run u"
    and act: "active (m_state t)" "active (m_state u)"
  show "x = y" using run_invD(2) [OF r old [OF t act(1)] old [OF u act(2)] tu act] .
next
  fix k assume "m_runs ?m k = Some Run_WAITING"
  then have "m_runs m k = Some Run_WAITING" by (auto split: if_splits)
  then obtain x t where "m_steps m x = Some t" "m_run t = k" "m_state t = Step_WAITING"
    using run_invD(3) [OF r] by blast
  then show "\<exists>x t. m_steps ?m x = Some t \<and> m_run t = k \<and> m_state t = Step_WAITING"
    using add_run_keep [OF sch] by auto
qed

lemma m_blockedE:
  assumes "m_blocked m r x"
  obtains p k u where "(r, p, x, k) \<in> m_deps m" "m_steps m p = Some u" "m_unmet k (m_state u)"
  using assms unfolding m_blocked_def by blast

lemma dep_inv_add_run:
  assumes dp: "dep_inv m" and r: "run_inv m" and sch: "schedulable m rid news deps"
  shows "dep_inv (add_run m rid news deps)" (is "dep_inv ?m")
proof (rule dep_invI)
  have here: "\<exists>y. m_steps ?m x = Some y \<and> m_run y = rid" if "x \<in> dom news" for x
    using that schedulableD(2) [OF sch, of x] by (auto simp: map_add_def)
  have there: "\<exists>y. m_steps ?m x = Some y \<and> m_run y = q" if "\<exists>y. m_steps m x = Some y \<and> m_run y = q" for x q
    using that add_run_keep [OF sch] by auto
  fix q p x k assume "(q, p, x, k) \<in> m_deps ?m"
  then consider "(q, p, x, k) \<in> m_deps m" | "(q, p, x, k) \<in> deps" by auto
  then show "(\<exists>y. m_steps ?m p = Some y \<and> m_run y = q) \<and> (\<exists>y. m_steps ?m x = Some y \<and> m_run y = q)"
  proof cases
    case 1 then show ?thesis using dep_invD(1) [OF dp 1] there by blast
  next
    case 2 then show ?thesis using schedulableD(3) [OF sch 2] here by blast
  qed
next
  fix x t assume t: "m_steps ?m x = Some t" "started (m_state t)"
  then have old: "m_steps m x = Some t"
    using add_run_split [OF sch, of x t] schedulableD(2) [OF sch, of x t] by (auto simp: started_def)
  show "\<not> m_blocked ?m (m_run t) x"
  proof
    assume "m_blocked ?m (m_run t) x"
    then obtain p k u where d: "(m_run t, p, x, k) \<in> m_deps ?m"
      and u: "m_steps ?m p = Some u" "m_unmet k (m_state u)" by (rule m_blockedE)
    have dm: "(m_run t, p, x, k) \<in> m_deps m"
      using d schedulableD(3) [OF sch] add_run_old_run [OF r sch old] by auto
    then obtain v where v: "m_steps m p = Some v" using dep_invD(1) [OF dp] by blast
    then have "v = u" using u(1) add_run_keep [OF sch v] by simp
    then have "m_blocked m (m_run t) x" using dm u(2) v unfolding m_blocked_def by blast
    then show False using dep_invD(2) [OF dp old t(2)] by blast
  qed
qed

lemma touch_fold:
  "m\<lparr>m_steps := (m_steps m)(sid \<mapsto> s), m_attempts := (m_attempts m)(aid \<mapsto> a)\<rparr> = touch m sid s aid a"
  "m\<lparr>m_runs := f, m_steps := (m_steps m)(sid \<mapsto> s), m_attempts := (m_attempts m)(aid \<mapsto> a)\<rparr>
     = (touch m sid s aid a)\<lparr>m_runs := f\<rparr>"
  by (simp_all add: touch_def)

text \<open>One Step of a running Run moves; what the move must respect.\<close>

lemma m_inv_move:
  assumes inv: "m_inv m" and s: "m_steps m sid = Some s" and quiet: "alone m (m_run s) sid"
    and "open": "\<not> step_ended (m_state s)" and s': "m_run s' = m_run s"
    and fit: "fits r' (m_state s')" and r': "r' \<noteq> Run_QUEUED" "r' \<noteq> Run_SUCCEEDED"
      "r' = Run_WAITING \<Longrightarrow> m_state s' = Step_WAITING"
    and go: "started (m_state s') \<Longrightarrow> started (m_state s) \<or> \<not> m_blocked m (m_run s) sid"
    and h: "holder_inv (touch m sid s' aid a')" and tk: "token_inv (touch m sid s' aid a')"
  shows "m_inv ((touch m sid s' aid a')\<lparr>m_runs := (m_runs m)(m_run s \<mapsto> r')\<rparr>)"
  using assms run_inv_settle [of m sid s s' r' aid a'] dep_inv_touch [of m sid s s' aid a']
  by (simp add: m_inv_def)

lemma close_holder_token:
  assumes inv: "m_inv m" and s: "m_steps m sid = Some s" "m_holder s = Some aid"
    and a: "m_attempts m aid = Some a" "m_of a = sid" and st: "\<not> attempt_live st" "\<not> step_live tst"
  shows "holder_inv (touch m sid (s\<lparr>m_state := tst, m_holder := None\<rparr>) aid (a\<lparr>m_status := st\<rparr>))"
    and "token_inv (touch m sid (s\<lparr>m_state := tst, m_holder := None\<rparr>) aid (a\<lparr>m_status := st\<rparr>))"
proof -
  have "holder_inv m" "token_inv m" using inv by (simp_all add: m_inv_def)
  then show "holder_inv (touch m sid (s\<lparr>m_state := tst, m_holder := None\<rparr>) aid (a\<lparr>m_status := st\<rparr>))"
    and "token_inv (touch m sid (s\<lparr>m_state := tst, m_holder := None\<rparr>) aid (a\<lparr>m_status := st\<rparr>))"
    using s a st by (auto intro!: holder_inv_touch token_inv_touch_same)
qed

lemma fun_upd_self: "f x = Some y \<Longrightarrow> f(x \<mapsto> y) = f"
  by auto

lemma live_alone:
  assumes "m_inv m" "m_steps m sid = Some s" "active (m_state s)"
  shows "alone m (m_run s) sid"
  using assms alone_active by (auto simp: m_inv_def)

lemma m_inv_close:
  assumes inv: "m_inv m" and s: "m_steps m sid = Some s" "m_holder s = Some aid" "step_live (m_state s)"
    and a: "m_attempts m aid = Some a" "m_of a = sid"
    and st: "\<not> attempt_live st" "\<not> step_live tst"
    and fit: "fits r' tst" and r': "r' \<noteq> Run_QUEUED" "r' \<noteq> Run_SUCCEEDED" "r' = Run_WAITING \<Longrightarrow> tst = Step_WAITING"
  shows "m_inv ((touch m sid (s\<lparr>m_state := tst, m_holder := None\<rparr>) aid (a\<lparr>m_status := st\<rparr>))
    \<lparr>m_runs := (m_runs m)(m_run s \<mapsto> r')\<rparr>)"
proof (rule m_inv_move [OF inv s(1)])
  show "alone m (m_run s) sid" using live_alone [OF inv s(1)] s(3) by (simp add: active_def)
  show "\<not> step_ended (m_state s)" "started (m_state s) \<or> \<not> m_blocked m (m_run s) sid"
    using s(3) by (auto simp: step_live_def started_def)
qed (use assms close_holder_token [OF inv s(1,2) a st] in auto)

lemma m_inv_succeed:
  assumes inv: "m_inv m" and s: "m_steps m sid = Some s" "m_holder s = Some aid" "m_state s = Step_RUNNING"
    and run: "m_runs m (m_run s) = Some Run_RUNNING"
    and a: "m_attempts m aid = Some a" "m_of a = sid"
    and m1: "m1 = touch m sid (s\<lparr>m_state := Step_SUCCEEDED, m_holder := None\<rparr>) aid
      (a\<lparr>m_status := Attempt_SUCCEEDED\<rparr>)"
    and m2: "m2 = m1\<lparr>m_steps := ready_where (\<lambda>x y. m_run y = m_run s \<and> m_depends m1 (m_run s) x
                 \<and> \<not> m_blocked m1 (m_run s) x) (m_steps m1)\<rparr>"
    and r': "r' = Run_RUNNING \<or> (r' = Run_SUCCEEDED \<and>
        (\<forall>x y. m_steps m2 x = Some y \<and> m_run y = m_run s \<longrightarrow> step_ended (m_state y)))"
  shows "m_inv (m2\<lparr>m_runs := (m_runs m2)(m_run s \<mapsto> r')\<rparr>)"
proof -
  have "m_inv (m1\<lparr>m_runs := (m_runs m)(m_run s \<mapsto> Run_RUNNING)\<rparr>)"
    unfolding m1 by (rule m_inv_close [OF inv s(1,2) _ a]) (auto simp: s fits_def)
  then have i1: "m_inv m1" using run by (simp add: m1 fun_upd_self touch_def)
  have p: "m_runs m1 (m_run y) = Some Run_RUNNING \<and> \<not> m_blocked m1 (m_run y) x"
    if "m_run y = m_run s \<and> m_depends m1 (m_run s) x \<and> \<not> m_blocked m1 (m_run s) x" for x y
    using that run by (simp add: m1)
  have i2: "m_inv m2"
    using i1 p unfolding m_inv_def m2
    by (auto intro!: holder_inv_ready_where token_inv_ready_where run_inv_ready_where dep_inv_ready_where)
  have runs2: "m_runs m2 (m_run s) = Some Run_RUNNING" using run by (simp add: m1 m2)
  from r' show ?thesis
  proof
    assume "r' = Run_RUNNING"
    then show ?thesis using i2 runs2 by (simp add: fun_upd_self)
  next
    assume fin: "r' = Run_SUCCEEDED \<and> (\<forall>x y. m_steps m2 x = Some y \<and> m_run y = m_run s \<longrightarrow> step_ended (m_state y))"
    have "fits Run_SUCCEEDED st" if "step_ended st" for st
      using that by (cases st) (auto simp: fits_def)
    then show ?thesis
      using i2 fin run_inv_run [of m2 Run_SUCCEEDED "m_run s"] by (auto simp: m_inv_def)
  qed
qed

lemma m_inv_start_run:
  assumes inv: "m_inv m" and q: "m_runs m rid = Some Run_QUEUED"
  shows "m_inv (m\<lparr>m_runs := (m_runs m)(rid \<mapsto> Run_RUNNING),
            m_steps := ready_where (\<lambda>sid s. m_run s = rid \<and> \<not> m_depends m rid sid) (m_steps m)\<rparr>)"
proof -
  let ?m1 = "m\<lparr>m_runs := (m_runs m)(rid \<mapsto> Run_RUNNING)\<rparr>"
  let ?p = "\<lambda>sid s. m_run s = rid \<and> \<not> m_depends m rid sid"
  have r: "run_inv m" using inv by (simp add: m_inv_def)
  have "fits Run_RUNNING (m_state t)" if "m_steps m x = Some t" "m_run t = rid" for x t
    using run_invD(1) [OF r that(1)] that(2) q by (auto simp: fits_def)
  then have i1: "m_inv ?m1" using inv run_inv_run [OF r, of Run_RUNNING rid] by (simp add: m_inv_def)
  have p: "m_runs ?m1 (m_run y) = Some Run_RUNNING \<and> \<not> m_blocked ?m1 (m_run y) x" if "?p x y" for x y
    using that by (auto simp: m_blocked_def m_depends_def)
  have "m_inv (?m1\<lparr>m_steps := ready_where ?p (m_steps ?m1)\<rparr>)"
    using i1 p unfolding m_inv_def
    by (blast intro!: holder_inv_ready_where token_inv_ready_where run_inv_ready_where dep_inv_ready_where)
  then show ?thesis by simp
qed

lemma no_holder:
  assumes "m_inv m" "m_steps m sid = Some s" "\<not> step_live (m_state s)"
  shows "m_holder s = None"
proof (cases "m_holder s")
  case (Some aid)
  then show ?thesis using assms holder_invD(2) [of m sid s aid] by (auto simp: m_inv_def)
qed

lemma inv_attempts [simp]:
  "run_inv (m\<lparr>m_attempts := f\<rparr>) = run_inv m" "dep_inv (m\<lparr>m_attempts := f\<rparr>) = dep_inv m"
  by (simp_all add: run_inv_def dep_inv_def m_blocked_def)

lemma holder_inv_step_only:
  assumes inv: "holder_inv m" and s: "m_steps m sid = Some s" "m_holder s = None"
    and s': "m_holder s' = None" "\<not> step_live (m_state s')"
  shows "holder_inv (m\<lparr>m_steps := (m_steps m)(sid \<mapsto> s')\<rparr>)" (is "holder_inv ?m")
proof (rule holder_invI)
  fix x t assume t: "m_steps ?m x = Some t"
  { assume "m_holder t = None"
    then show "\<not> step_live (m_state t)"
      using t s' holder_invD(1) [OF inv, of x t] by (cases "x = sid") auto }
  { fix aid assume a: "m_holder t = Some aid"
    then have "m_steps m x = Some t" using t s' by (cases "x = sid") auto
    then show "\<exists>a. m_attempts ?m aid = Some a \<and> m_of a = x \<and> m_token a = m_fence t
        \<and> ((m_state t = Step_CLAIMED \<and> m_status a = Attempt_CLAIMED) \<or>
           (m_state t = Step_RUNNING \<and> m_status a = Attempt_RUNNING))"
      using holder_invD(2) [OF inv _ a] by simp }
next
  fix aid a assume "m_attempts ?m aid = Some a" "attempt_live (m_status a)"
  then obtain t where "m_steps m (m_of a) = Some t" "m_holder t = Some aid"
    using holder_invD(3) [OF inv, of aid a] by auto
  then show "\<exists>t. m_steps ?m (m_of a) = Some t \<and> m_holder t = Some aid"
    using s by (intro exI [of _ t]) auto
qed

lemma token_inv_step_only:
  assumes inv: "token_inv m" and s: "m_steps m sid = Some s"
    and s': "m_fence s' = m_fence s" "m_budget s' = m_budget s"
  shows "token_inv (m\<lparr>m_steps := (m_steps m)(sid \<mapsto> s')\<rparr>)" (is "token_inv ?m")
proof (rule token_invI)
  fix x t assume t: "m_steps ?m x = Some t"
  obtain t0 where t0: "m_steps m x = Some t0" "m_fence t = m_fence t0" "m_budget t = m_budget t0"
    using t s s' by (cases "x = sid") auto
  show "0 \<le> m_fence t \<and> m_fence t \<le> m_budget t" using token_invD(1) [OF inv t0(1)] t0 by simp
  fix k assume "1 \<le> k" "k \<le> m_fence t"
  then show "\<exists>aid a. m_attempts ?m aid = Some a \<and> m_of a = x \<and> m_token a = k"
    using token_invD(2) [OF inv t0(1), of k] t0 by simp
next
  fix aid a assume "m_attempts ?m aid = Some a"
  then have "m_attempts m aid = Some a" by simp
  from token_invD(3) [OF inv this] s s'
  show "m_no a = m_token a \<and> 1 \<le> m_token a \<and> (\<exists>s. m_steps ?m (m_of a) = Some s \<and> m_token a \<le> m_fence s)"
    by (cases "m_of a = sid") auto
next
  fix x y a b
  assume "m_attempts ?m x = Some a" "m_attempts ?m y = Some b" "m_of a = m_of b" "m_token a = m_token b"
  then show "x = y" using token_invD(4) [OF inv, of x a y b] by simp
qed

lemma m_inv_resume:
  assumes inv: "m_inv m" and s: "m_steps m sid = Some s" "m_state s = Step_WAITING"
  shows "m_inv (m\<lparr>m_runs := (m_runs m)(m_run s \<mapsto> Run_RUNNING),
                  m_steps := (m_steps m)(sid \<mapsto> s\<lparr>m_state := Step_READY\<rparr>)\<rparr>)" (is "m_inv ?m")
proof -
  let ?s = "s\<lparr>m_state := Step_READY\<rparr>"
  let ?t = "touch m sid ?s undefined undefined"
  have eq: "?m = (?t\<lparr>m_runs := (m_runs m)(m_run s \<mapsto> Run_RUNNING)\<rparr>)\<lparr>m_attempts := m_attempts m\<rparr>"
    by (simp add: touch_def)
  have al: "alone m (m_run s) sid" using live_alone [OF inv s(1)] s(2) by (simp add: active_def)
  have "m_holder s = None" using no_holder [OF inv s(1)] s(2) by simp
  then have "holder_inv (m\<lparr>m_steps := (m_steps m)(sid \<mapsto> ?s)\<rparr>)" "token_inv (m\<lparr>m_steps := (m_steps m)(sid \<mapsto> ?s)\<rparr>)"
    using inv s by (auto simp: m_inv_def intro!: holder_inv_step_only token_inv_step_only)
  then have "holder_inv ?m" "token_inv ?m" by (simp_all add: holder_inv_def token_inv_def)
  moreover have "run_inv ?m" unfolding eq inv_attempts
    using inv s al by (intro run_inv_settle) (auto simp: m_inv_def fits_def)
  moreover have "dep_inv ?m" unfolding eq inv_attempts dep_inv_runs
    using inv s by (intro dep_inv_touch) (auto simp: m_inv_def started_def)
  ultimately show ?thesis by (simp add: m_inv_def)
qed

lemma m_trans_preserves: "m_trans m m' \<Longrightarrow> m_inv m \<Longrightarrow> m_inv m'"
proof (induction rule: m_trans.induct)
  case (schedule m rid news deps)
  then show ?case
    by (simp add: m_inv_def holder_inv_add_run token_inv_add_run run_inv_add_run dep_inv_add_run)
next
  case (start_run m rid)
  then show ?case by (intro m_inv_start_run)
next
  case (claim m sid s aid until)
  have al: "alone m (m_run s) sid" using claim alone_free by (auto simp: m_inv_def)
  have "m_inv ((touch m sid (s\<lparr>m_state := Step_CLAIMED, m_fence := m_fence s + 1, m_holder := Some aid\<rparr>)
      aid \<lparr>m_of = sid, m_no = m_fence s + 1, m_token = m_fence s + 1, m_status = Attempt_CLAIMED,
           m_lease = until\<rparr>)\<lparr>m_runs := (m_runs m)(m_run s \<mapsto> Run_RUNNING)\<rparr>)"
    using claim no_holder [OF claim.prems claim.hyps(1)]
    by (intro m_inv_move [OF claim.prems claim.hyps(1) al] holder_inv_touch token_inv_touch_new)
      (auto simp: fits_def m_inv_def)
  then show ?case using claim by (simp add: fun_upd_self touch_def)
next
  case (start_attempt m sid s aid a)
  have al: "alone m (m_run s) sid" using live_alone start_attempt by (auto simp: active_def)
  have "m_inv ((touch m sid (s\<lparr>m_state := Step_RUNNING\<rparr>) aid (a\<lparr>m_status := Attempt_RUNNING\<rparr>))
      \<lparr>m_runs := (m_runs m)(m_run s \<mapsto> Run_RUNNING)\<rparr>)"
    using start_attempt holder_invD(2) [of m sid s]
    by (intro m_inv_move [OF start_attempt.prems start_attempt.hyps(1) al] holder_inv_touch
        token_inv_touch_same) (auto simp: fits_def m_inv_def started_def)
  then show ?case using start_attempt by (simp add: fun_upd_self touch_def)
next
  case (heartbeat m aid a until)
  then obtain s where s: "m_steps m (m_of a) = Some s" "m_holder s = Some aid"
    using holder_invD(3) [of m aid a] by (auto simp: m_inv_def)
  obtain r where r: "m_runs m (m_run s) = Some r" "fits r (m_state s)"
    using heartbeat run_invD(1) [of m "m_of a" s] s by (auto simp: m_inv_def)
  have h: "holder_inv m" using heartbeat by (simp add: m_inv_def)
  from holder_invD(2) [OF h s] heartbeat.hyps(1) have live: "step_live (m_state s)"
    by (auto simp: step_live_def)
  have rr: "r = Run_RUNNING" using live r by (simp add: fits_def)
  have al: "alone m (m_run s) (m_of a)" using live_alone heartbeat s live by (auto simp: active_def)
  have "m_inv ((touch m (m_of a) s aid (a\<lparr>m_lease := until\<rparr>))
      \<lparr>m_runs := (m_runs m)(m_run s \<mapsto> Run_RUNNING)\<rparr>)"
    using heartbeat s live r rr holder_invD(2) [of m "m_of a" s aid]
    by (intro m_inv_move [OF heartbeat.prems s(1) al] holder_inv_touch token_inv_touch_same)
      (auto simp: fits_def m_inv_def step_live_def)
  then show ?case using s r rr by (simp add: touch_def fun_upd_self)
next
  case (succeed m sid s aid a m1 m2 r')
  then show ?case by (intro m_inv_succeed [of m sid s aid a m1 m2 r']) (auto simp: touch_fold)
next
  case (retry m sid s aid a st)
  have "m_inv ((touch m sid (s\<lparr>m_state := Step_READY, m_holder := None\<rparr>) aid (a\<lparr>m_status := st\<rparr>))
      \<lparr>m_runs := (m_runs m)(m_run s \<mapsto> Run_RUNNING)\<rparr>)"
    using retry by (intro m_inv_close) (auto simp: fits_def)
  then show ?case using retry by (simp add: touch_def fun_upd_self)
next
  case (fail m sid s aid a st)
  have "m_inv ((touch m sid (s\<lparr>m_state := Step_FAILED, m_holder := None\<rparr>) aid (a\<lparr>m_status := st\<rparr>))
      \<lparr>m_runs := (m_runs m)(m_run s \<mapsto> Run_FAILED)\<rparr>)"
    using fail by (intro m_inv_close) (auto simp: fits_def)
  then show ?case by (simp only: touch_fold)
next
  case (wait_effect m sid s aid a)
  have "m_inv ((touch m sid (s\<lparr>m_state := Step_WAITING, m_holder := None\<rparr>) aid
      (a\<lparr>m_status := Attempt_RECONCILIATION_REQUIRED\<rparr>))\<lparr>m_runs := (m_runs m)(m_run s \<mapsto> Run_WAITING)\<rparr>)"
    using wait_effect by (intro m_inv_close) (auto simp: fits_def)
  then show ?case by (simp only: touch_fold)
next
  case (resume m sid s)
  then show ?case by (intro m_inv_resume)
next
  case (expire m sid s aid until)
  have al: "alone m (m_run s) sid" using expire alone_free by (auto simp: m_inv_def)
  have "m_inv ((touch m sid (s\<lparr>m_state := Step_FAILED, m_fence := m_fence s + 1\<rparr>)
      aid \<lparr>m_of = sid, m_no = m_fence s + 1, m_token = m_fence s + 1,
           m_status = Attempt_FAILED_TERMINAL, m_lease = until\<rparr>)
      \<lparr>m_runs := (m_runs m)(m_run s \<mapsto> Run_FAILED)\<rparr>)"
    using expire no_holder [OF expire.prems expire.hyps(1)]
    by (intro m_inv_move [OF expire.prems expire.hyps(1) al] holder_inv_touch token_inv_touch_new)
      (auto simp: fits_def m_inv_def started_def)
  then show ?case by (simp only: touch_fold)
qed

section \<open>Histories\<close>

inductive reachable_m :: "machine \<Rightarrow> bool" where
  start: "reachable_m m_init"
| step: "reachable_m m \<Longrightarrow> m_trans m m' \<Longrightarrow> reachable_m m'"

lemma reachable_m_inv: "reachable_m m \<Longrightarrow> m_inv m"
  by (induction rule: reachable_m.induct) (simp_all add: m_inv_init m_trans_preserves)

text \<open>Fences never go back, and a finished Attempt is never touched again.\<close>

definition m_later :: "machine \<Rightarrow> machine \<Rightarrow> bool" where
  "m_later m m' \<longleftrightarrow>
     (\<forall>sid s. m_steps m sid = Some s \<longrightarrow> (\<exists>s'. m_steps m' sid = Some s' \<and> m_run s' = m_run s
        \<and> m_fence s \<le> m_fence s' \<and> (step_ended (m_state s) \<longrightarrow> m_state s' = m_state s))) \<and>
     (\<forall>aid a. m_attempts m aid = Some a \<longrightarrow> (\<exists>a'. m_attempts m' aid = Some a' \<and> m_of a' = m_of a
        \<and> m_token a' = m_token a \<and> m_no a' = m_no a
        \<and> (\<not> attempt_live (m_status a) \<longrightarrow> a' = a)))"

lemma m_later_touch:
  assumes "m_steps m sid = Some s" "m_run s' = m_run s" "m_fence s \<le> m_fence s'" "\<not> step_ended (m_state s)"
    and "\<And>a. m_attempts m aid = Some a \<Longrightarrow> attempt_live (m_status a) \<and> m_of a' = m_of a
      \<and> m_token a' = m_token a \<and> m_no a' = m_no a"
  shows "m_later m (touch m sid s' aid a')"
  using assms unfolding m_later_def by auto

lemma m_laterD:
  assumes "m_later m m'"
  shows "m_steps m sid = Some s \<Longrightarrow> \<exists>s'. m_steps m' sid = Some s' \<and> m_run s' = m_run s
      \<and> m_fence s \<le> m_fence s' \<and> (step_ended (m_state s) \<longrightarrow> m_state s' = m_state s)"
    and "m_attempts m aid = Some a \<Longrightarrow> \<exists>a'. m_attempts m' aid = Some a' \<and> m_of a' = m_of a
      \<and> m_token a' = m_token a \<and> m_no a' = m_no a \<and> (\<not> attempt_live (m_status a) \<longrightarrow> a' = a)"
  using assms unfolding m_later_def by blast+

lemma m_laterI:
  assumes "\<And>sid s. m_steps m sid = Some s \<Longrightarrow> \<exists>s'. m_steps m' sid = Some s' \<and> m_run s' = m_run s
      \<and> m_fence s \<le> m_fence s' \<and> (step_ended (m_state s) \<longrightarrow> m_state s' = m_state s)"
    and "\<And>aid a. m_attempts m aid = Some a \<Longrightarrow> \<exists>a'. m_attempts m' aid = Some a' \<and> m_of a' = m_of a
      \<and> m_token a' = m_token a \<and> m_no a' = m_no a \<and> (\<not> attempt_live (m_status a) \<longrightarrow> a' = a)"
  shows "m_later m m'"
  using assms unfolding m_later_def by blast

lemma m_later_refl: "m_later m m"
  by (simp add: m_later_def)

lemma m_later_trans: "m_later a b \<Longrightarrow> m_later b c \<Longrightarrow> m_later a c"
proof (rule m_laterI)
  assume ab: "m_later a b" and bc: "m_later b c"
  { fix sid s assume "m_steps a sid = Some s"
    from m_laterD(1) [OF ab this] obtain t where t: "m_steps b sid = Some t" "m_run t = m_run s"
      "m_fence s \<le> m_fence t" "step_ended (m_state s) \<longrightarrow> m_state t = m_state s" by blast
    from m_laterD(1) [OF bc t(1)] t(2-4)
    show "\<exists>s'. m_steps c sid = Some s' \<and> m_run s' = m_run s
      \<and> m_fence s \<le> m_fence s' \<and> (step_ended (m_state s) \<longrightarrow> m_state s' = m_state s)" by fastforce }
  { fix aid x assume "m_attempts a aid = Some x"
    from m_laterD(2) [OF ab this] obtain y where y: "m_attempts b aid = Some y" "m_of y = m_of x"
      "m_token y = m_token x" "m_no y = m_no x" "\<not> attempt_live (m_status x) \<longrightarrow> y = x" by blast
    from m_laterD(2) [OF bc y(1)] y(2-5)
    show "\<exists>z. m_attempts c aid = Some z \<and> m_of z = m_of x \<and> m_token z = m_token x
      \<and> m_no z = m_no x \<and> (\<not> attempt_live (m_status x) \<longrightarrow> z = x)" by auto }
qed

lemma m_later_runs [simp]: "m_later m (m'\<lparr>m_runs := f\<rparr>) = m_later m m'"
  by (simp add: m_later_def)

lemma m_later_ready_where: "m_later m (m\<lparr>m_steps := ready_where p (m_steps m)\<rparr>)"
  by (rule m_laterI) (auto simp: ready_where_def)

lemma m_trans_later: "m_trans m m' \<Longrightarrow> m_inv m \<Longrightarrow> m_later m m'"
proof (induction rule: m_trans.induct)
  case (schedule m rid news deps)
  show ?case
    by (rule m_laterI) (use add_run_keep [OF schedule.hyps] in auto)
next
  case (start_run m rid)
  show ?case by (rule m_laterI) (auto simp: ready_where_def)
next
  case (claim m sid s aid until)
  then show ?case by (auto simp: touch_fold intro!: m_later_touch)
next
  case (start_attempt m sid s aid a)
  then show ?case by (auto simp: touch_fold intro!: m_later_touch)
next
  case (heartbeat m aid a until)
  then show ?case by (auto intro!: m_laterI)
next
  case (succeed m sid s aid a m1 m2 r')
  have "m_later m (touch m sid (s\<lparr>m_state := Step_SUCCEEDED, m_holder := None\<rparr>) aid
      (a\<lparr>m_status := Attempt_SUCCEEDED\<rparr>))"
    using succeed.hyps(1-7) by (intro m_later_touch) auto
  then have "m_later m m1" using succeed.hyps(8) by (simp add: touch_fold)
  moreover have "m_later m1 m2" unfolding succeed.hyps(9) by (rule m_later_ready_where)
  ultimately show ?case by (simp only: m_later_runs m_later_trans)
next
  case (retry m sid s aid a st)
  then show ?case by (auto simp: touch_fold step_live_def intro!: m_later_touch)
next
  case (fail m sid s aid a st)
  then show ?case by (auto simp: touch_fold intro!: m_later_touch)
next
  case (wait_effect m sid s aid a)
  then show ?case by (auto simp: touch_fold intro!: m_later_touch)
next
  case (resume m sid s)
  then show ?case by (auto intro!: m_laterI)
next
  case (expire m sid s aid until)
  then show ?case by (auto simp: touch_fold intro!: m_later_touch)
qed

end
