(* ===== verification/Runtime_Repository.thy ===== *)
theory Runtime_Repository
  imports Runtime_Store
begin

text \<open>
  \<open>PostgresRuntimeRepository\<close> of
  \<open>infrastructure/postgres/repositories/runtime.py\<close>, statement by statement. Every
  operation takes the database and returns its result with the new database, or the
  exception.

  \<open>clk i\<close> is the \<open>i\<close>-th reading of \<open>clock_timestamp()\<close> of the operation. A
  transaction runs alone: the operations lock the Run row, and those that create or
  recover an Attempt first take one transaction-scoped advisory lock in
  \<open>admit_runtime_attempt\<close>. That call belongs to the process supervisor; the model
  takes its answer as the argument \<open>admit\<close>. \<open>SKIP LOCKED\<close> leaves out the rows for
  which the argument \<open>locked\<close> holds.
\<close>

type_synonym clock = "nat \<Rightarrow> instant"
type_synonym admission = "db \<Rightarrow> uuid option \<Rightarrow> uuid option \<Rightarrow> unit result"
type_synonym locked_rows = "uuid \<Rightarrow> uuid \<Rightarrow> bool"

definition later :: "nat \<Rightarrow> clock \<Rightarrow> clock" where
  "later k clk = (\<lambda>i. clk (k + i))"

record attempt_claim =
  claim_attempt_id :: uuid
  claim_run_id :: uuid
  claim_step_id :: uuid
  claim_step_key :: string
  claim_attempt_no :: int
  claim_fence :: int
  claim_owner :: string
  claim_lease_until :: instant

record recovery_decision =
  decision_attempt_id :: uuid
  decision_run_id :: uuid
  decision_step_id :: uuid
  decision_fence :: int
  decision_outcome :: string
  decision_attempt_version :: int
  decision_step_version :: int
  decision_run_version :: int

record step_trace =
  trace_step_id :: uuid
  trace_step_key :: string
  trace_step_kind :: string
  trace_implementation :: string
  trace_implementation_version :: string
  trace_request_hash :: string
  trace_input_hash :: "string option"
  trace_deadline :: "py_datetime option"
  trace_state :: step_state
  trace_fence :: int
  trace_attempt_id :: "uuid option"
  trace_attempt_states :: "attempt_state list"
  trace_latest_error :: "string option"

record run_trace =
  trace_run_id :: uuid
  trace_schedule_id :: uuid
  trace_fire_key :: string
  trace_mode :: runtime_mode
  trace_code_sha :: string
  trace_config_artifact :: uuid
  trace_config_hash :: string
  trace_run_state :: run_state
  trace_version :: int
  trace_steps :: "step_trace list"

section \<open>Durations\<close>

text \<open>
  \<open>int(duration.total_seconds() * 1_000)\<close>: the division by a million and the product
  are floats, each rounded once.
\<close>

definition total_seconds :: "int \<Rightarrow> rat" where
  "total_seconds us = float_round (of_int us / 1000000)"

definition duration_ms :: "int \<Rightarrow> int" where
  "duration_ms us = trunc_rat (float_round (total_seconds us * 1000))"

definition lease_milliseconds :: "int \<Rightarrow> int result" where
  "lease_milliseconds us =
     (let milliseconds = duration_ms us
      in thenE (guardE (\<not> (us \<le> 0 \<or> milliseconds \<le> 0))
           (ValueError ''lease_duration must be at least one millisecond''))
        (thenE (guardE (\<not> us > one_day_us) (ValueError ''lease_duration cannot exceed one day''))
        (Inr milliseconds)))"

definition ms_us :: "int \<Rightarrow> int" where
  "ms_us ms = ms * 1000"

section \<open>Effects\<close>

definition REMOTE_EFFECTS :: "external_effect_class list" where
  "REMOTE_EFFECTS = [IDEMPOTENT_REMOTE_COMMAND, NON_IDEMPOTENT_REMOTE_COMMAND]"

section \<open>Schedules and Runs\<close>

definition insert_schedule :: "schedule_spec \<Rightarrow> db \<Rightarrow> db result" where
  "insert_schedule schedule d = insert_schedule_row schedule d"

definition new_step_row :: "instant \<Rightarrow> uuid \<Rightarrow> uuid \<times> step_spec \<Rightarrow> step_row" where
  "new_step_row now rid planned =
     (case planned of (sid, step) \<Rightarrow>
       \<lparr>step_id = sid, step_run = rid, step_plan = step,
        retry_backoff_ms = map duration_ms (backoff (step_retry step)),
        retryable_error_codes = sort (remdups (retryable_codes (step_retry step))),
        step_created_at = now, step_state = Step_PENDING, current_fence = 0,
        current_attempt_id = None, ready_at = None, step_reason = None, branch_rule_code = None,
        step_started_at = None, step_finished_at = None, step_version = 1\<rparr>)"

definition new_run_row :: "instant \<Rightarrow> run_spec \<Rightarrow> run_row" where
  "new_run_row now run =
     \<lparr>run_envelope = run, run_created_at = now, run_state = Run_QUEUED, run_reason = None,
      run_started_at = None, run_finished_at = None, run_version = 1\<rparr>"

definition dependency_row_of ::
  "uuid \<Rightarrow> (string \<times> uuid) list \<Rightarrow> step_dependency \<Rightarrow> dependency_row result" where
  "dependency_row_of rid ids_by_key dep =
     bindE (optE (map_of ids_by_key (predecessor_key dep)) KeyError) (\<lambda>p.
     bindE (optE (map_of ids_by_key (successor_key dep)) KeyError) (\<lambda>s.
       Inr \<lparr>dep_run = rid, predecessor_step_id = p, successor_step_id = s,
            dep_kind = dependency_kind dep\<rparr>))"

definition insert_run ::
  "clock \<Rightarrow> run_spec \<Rightarrow> (uuid \<times> step_spec) list \<Rightarrow> step_dependency list \<Rightarrow> db \<Rightarrow> db result" where
  "insert_run clk run planned deps d =
     bindE (optE (row_at schedule_id (schedules d) (run_schedule_id run)) RuntimeNotFoundError) (\<lambda>schedule.
     thenE (guardE (schedule_enabled schedule \<and> schedule_mode schedule = run_mode run)
       (RuntimeStateConflictError ''Run requires an enabled Schedule with the same Runtime mode''))
     (bindE (optE (row_at artifact_id (artifacts d) (config_artifact_id run)) RuntimeNotFoundError) (\<lambda>art.
     thenE (guardE (content_sha256 art = config_hash run \<and> integrity_state art = AVAILABLE)
       (RuntimeStateConflictError ''Run config Artifact hash or integrity state does not match''))
     (bindE (insert_run_row (new_run_row (clk 0) run) d) (\<lambda>d.
     let ids_by_key = rev (map (\<lambda>(sid, step). (step_key step, sid)) planned)
     in bindE (foldE (\<lambda>p d. insert_step_row (new_step_row (clk 1) (run_id run) p) d) planned d) (\<lambda>d.
        foldE (\<lambda>dep d. bindE (dependency_row_of (run_id run) ids_by_key dep) (\<lambda>row.
            insert_dependency_row row d)) deps d))))))"

definition has_dependency :: "db \<Rightarrow> step_row \<Rightarrow> bool" where
  "has_dependency d s \<longleftrightarrow>
     (\<exists>x \<in> set (dependencies d). dep_run x = step_run s \<and> successor_step_id x = step_id s)"

text \<open>The predicate the ready queries share: some predecessor is not far enough.\<close>

definition dependency_unmet :: "dependency_row \<Rightarrow> step_row \<Rightarrow> bool" where
  "dependency_unmet x predecessor \<longleftrightarrow>
     (dep_kind x = ''REQUIRED_SUCCESS'' \<and> \<not> step_passed (step_state predecessor)) \<or>
     (dep_kind x = ''TERMINAL'' \<and> \<not> step_ended (step_state predecessor))"

definition blocked_by_dependency :: "db \<Rightarrow> step_row \<Rightarrow> bool" where
  "blocked_by_dependency d s \<longleftrightarrow>
     (\<exists>x \<in> set (dependencies d). \<exists>p \<in> set (steps d).
        step_id p = predecessor_step_id x \<and> dep_run x = step_run s
        \<and> successor_step_id x = step_id s \<and> dependency_unmet x p)"

definition make_ready :: "instant \<Rightarrow> step_row \<Rightarrow> step_row" where
  "make_ready now s =
     s\<lparr>step_state := Step_READY, ready_at := Some now, step_version := step_version s + 1\<rparr>"

definition start_run :: "clock \<Rightarrow> uuid \<Rightarrow> db \<Rightarrow> (int \<times> db) result" where
  "start_run clk rid d =
     bindE (optE (find_run d rid) RuntimeNotFoundError) (\<lambda>row.
     thenE (guardE (run_state row = Run_QUEUED) (RuntimeStateConflictError ''Run must be QUEUED''))
     (bindE (update_runs (\<lambda>r. run_key r = rid \<and> run_state r = Run_QUEUED)
        (\<lambda>r. r\<lparr>run_state := Run_RUNNING, run_started_at := Some (clk 0),
                run_version := run_version r + 1\<rparr>) d) (\<lambda>(updated, d).
     bindE (optE updated (RuntimeStateConflictError ''Run start lost a state race'')) (\<lambda>run.
     bindE (update_steps
        (\<lambda>s. step_run s = rid \<and> step_state s = Step_PENDING \<and> \<not> has_dependency d s)
        (make_ready (clk 1)) d) (\<lambda>(_, d).
     Inr (run_version run, d))))))"

section \<open>Claims\<close>

definition prior_attempts :: "db \<Rightarrow> uuid \<Rightarrow> int" where
  "prior_attempts d sid =
     foldr max (map attempt_no (filter (\<lambda>a. attempt_step a = sid) (attempts d))) 0"

definition has_live_step :: "db \<Rightarrow> uuid \<Rightarrow> bool" where
  "has_live_step d rid \<longleftrightarrow> (\<exists>s \<in> set (steps d). step_run s = rid \<and> step_live (step_state s))"

definition step_deadline :: "step_row \<Rightarrow> instant option" where
  "step_deadline s = map_option instant_of (retry_deadline (step_retry (step_plan s)))"

definition claimable ::
  "clock \<Rightarrow> uuid option \<Rightarrow> uuid option \<Rightarrow> db \<Rightarrow> step_row \<Rightarrow> run_row \<Rightarrow> bool" where
  "claimable clk rid sid d s r \<longleftrightarrow>
     run_state r = Run_RUNNING \<and> opt_ok (\<lambda>k. run_key r = k) rid \<and> opt_ok (\<lambda>k. step_id s = k) sid
     \<and> step_state s = Step_READY \<and> opt_has (\<lambda>t. t \<le> clk 0) (ready_at s)
     \<and> opt_ok (\<lambda>t. t > clk 1) (step_deadline s)
     \<and> \<not> has_live_step d (run_key r) \<and> \<not> blocked_by_dependency d s"

definition joined_steps :: "db \<Rightarrow> (run_row \<times> step_row) list" where
  "joined_steps d =
     concat (map (\<lambda>s. map (\<lambda>r. (r, s)) (filter (\<lambda>r. run_key r = step_run s) (runs d))) (steps d))"

definition claim_order :: "run_row \<times> step_row \<Rightarrow> instant \<times> int \<times> uuid" where
  "claim_order rs = (run_created_at (fst rs), ordinal (step_plan (snd rs)), step_id (snd rs))"

definition new_attempt ::
  "clock \<Rightarrow> uuid \<Rightarrow> step_row \<Rightarrow> int \<Rightarrow> string \<Rightarrow> int \<Rightarrow> attempt_row" where
  "new_attempt clk aid s no owner lease_us =
     \<lparr>attempt_id = aid, attempt_step = step_id s, attempt_no = no,
      attempt_fence = current_fence s + 1, lease_owner = owner,
      lease_acquired_at = clk 0, lease_until = clk 1 + lease_us, last_heartbeat_at = clk 2,
      attempt_state = Attempt_CLAIMED, attempt_effect = effect_class (step_plan s),
      error_class = None, error_code = None, result_receipt_id = None, attempt_result_hash = None,
      attempt_created_at = clk 3, attempt_started_at = None, attempt_finished_at = None\<rparr>"

definition claim_step :: "uuid \<Rightarrow> int \<Rightarrow> step_row \<Rightarrow> step_row" where
  "claim_step aid fence s =
     s\<lparr>step_state := Step_CLAIMED, current_fence := fence, current_attempt_id := Some aid,
       step_version := step_version s + 1\<rparr>"

definition claim_next ::
  "clock \<Rightarrow> admission \<Rightarrow> locked_rows \<Rightarrow> uuid \<Rightarrow> uuid option \<Rightarrow> string \<Rightarrow> int \<Rightarrow> uuid option
   \<Rightarrow> db \<Rightarrow> (attempt_claim option \<times> db) result" where
  "claim_next clk admit locked aid rid worker lease_duration sid d =
     bindE (lease_milliseconds lease_duration) (\<lambda>lease_ms.
     thenE (admit d rid sid)
     (case first_by claim_order
         (filter (\<lambda>(r, s). claimable clk rid sid d s r \<and> \<not> locked (run_key r) (step_id s))
           (joined_steps d)) of
        None \<Rightarrow> Inr (None, d)
      | Some (r, s) \<Rightarrow>
          let fence = current_fence s + 1;
              no = prior_attempts d (step_id s) + 1
          in thenE (guardE (no \<le> max_attempts (step_retry (step_plan s)))
               (RuntimeStateConflictError ''Step is READY after exhausting its retry budget''))
             (let a = new_attempt (later 2 clk) aid s no worker (ms_us lease_ms)
              in bindE (insert_attempt_row a d) (\<lambda>d.
                 bindE (update_steps (\<lambda>x. step_id x = step_id s \<and> step_state x = Step_READY)
                   (claim_step aid fence) d) (\<lambda>(updated, d).
                 thenE (guardE (updated \<noteq> None)
                   (RuntimeStateConflictError ''Step claim lost a state race''))
                 (Inr (Some \<lparr>claim_attempt_id = aid, claim_run_id = run_key r,
                    claim_step_id = step_id s, claim_step_key = step_key (step_plan s),
                    claim_attempt_no = no, claim_fence = fence, claim_owner = worker,
                    claim_lease_until = lease_until a\<rparr>, d)))))))"

text \<open>The row a claim is checked against, joined from the attempt outwards.\<close>

definition claim_row :: "db \<Rightarrow> uuid \<Rightarrow> (run_row \<times> step_row \<times> attempt_row) option" where
  "claim_row d aid =
     (case find_attempt d aid of None \<Rightarrow> None
      | Some a \<Rightarrow>
          (case find_step d (attempt_step a) of None \<Rightarrow> None
           | Some s \<Rightarrow>
               (case find_run d (step_run s) of None \<Rightarrow> None | Some r \<Rightarrow> Some (r, s, a))))"

definition expected_attempt_states :: "attempt_state option \<Rightarrow> attempt_state list" where
  "expected_attempt_states expected =
     (case expected of Some st \<Rightarrow> [st] | None \<Rightarrow> [Attempt_CLAIMED, Attempt_RUNNING])"

definition claim_matches ::
  "attempt_claim \<Rightarrow> attempt_state option \<Rightarrow> string option \<Rightarrow> run_row \<Rightarrow> step_row \<Rightarrow> attempt_row
   \<Rightarrow> bool" where
  "claim_matches claim expected kind r s a \<longleftrightarrow>
     run_key r = claim_run_id claim \<and> run_state r = Run_RUNNING \<and> step_id s = claim_step_id claim
     \<and> attempt_id a = claim_attempt_id claim
     \<and> attempt_state a \<in> set (expected_attempt_states expected)
     \<and> attempt_fence a = claim_fence claim \<and> lease_owner a = claim_owner claim
     \<and> current_attempt_id s = Some (claim_attempt_id claim)
     \<and> current_fence s = claim_fence claim \<and> step_key (step_plan s) = claim_step_key claim
     \<and> opt_ok (\<lambda>k. step_kind (step_plan s) = k) kind"

definition lock_live_claim_rows ::
  "clock \<Rightarrow> attempt_claim \<Rightarrow> attempt_state option \<Rightarrow> string option \<Rightarrow> db
   \<Rightarrow> (run_row \<times> step_row \<times> attempt_row) result" where
  "lock_live_claim_rows clk claim expected kind d =
     (case claim_row d (claim_attempt_id claim) of
        None \<Rightarrow> Inl StaleFenceError
      | Some (r, s, a) \<Rightarrow>
          thenE (guardE (claim_matches claim expected kind r s a) StaleFenceError)
          (thenE (guardE (lease_until a > clk 0) StaleFenceError) (Inr (r, s, a))))"

definition lock_live_claim ::
  "clock \<Rightarrow> attempt_claim \<Rightarrow> string option \<Rightarrow> db \<Rightarrow> unit result" where
  "lock_live_claim clk claim kind d =
     mapR (\<lambda>_. ()) (lock_live_claim_rows clk claim (Some Attempt_RUNNING) kind d)"

definition start_attempt :: "clock \<Rightarrow> attempt_claim \<Rightarrow> db \<Rightarrow> (int \<times> db) result" where
  "start_attempt clk claim d =
     bindE (lock_live_claim_rows clk claim (Some Attempt_CLAIMED) None d) (\<lambda>_.
     bindE (update_attempts
        (\<lambda>a. attempt_id a = claim_attempt_id claim \<and> attempt_state a = Attempt_CLAIMED
              \<and> lease_until a > clk 2)
        (\<lambda>a. a\<lparr>attempt_state := Attempt_RUNNING, attempt_started_at := Some (clk 1)\<rparr>) d)
        (\<lambda>(attempt, d).
     bindE (update_steps
        (\<lambda>s. step_id s = claim_step_id claim \<and> step_state s = Step_CLAIMED
              \<and> current_attempt_id s = Some (claim_attempt_id claim)
              \<and> current_fence s = claim_fence claim)
        (\<lambda>s. s\<lparr>step_state := Step_RUNNING, step_started_at := Some (clk 3),
                step_version := step_version s + 1\<rparr>) d) (\<lambda>(step, d).
     case (attempt, step) of
       (Some _, Some s) \<Rightarrow> Inr (step_version s, d)
     | _ \<Rightarrow> Inl StaleFenceError)))"

definition load_claim :: "uuid \<Rightarrow> db \<Rightarrow> attempt_claim result" where
  "load_claim aid d =
     (case find_attempt d aid of None \<Rightarrow> Inl RuntimeNotFoundError
      | Some a \<Rightarrow>
          (case find_step d (attempt_step a) of None \<Rightarrow> Inl RuntimeNotFoundError
           | Some s \<Rightarrow>
               Inr \<lparr>claim_attempt_id = attempt_id a, claim_run_id = step_run s,
                    claim_step_id = step_id s, claim_step_key = step_key (step_plan s),
                    claim_attempt_no = attempt_no a, claim_fence = attempt_fence a,
                    claim_owner = lease_owner a, claim_lease_until = lease_until a\<rparr>))"

definition heartbeat_attempt ::
  "clock \<Rightarrow> attempt_claim \<Rightarrow> int \<Rightarrow> db \<Rightarrow> (instant \<times> db) result" where
  "heartbeat_attempt clk claim lease_duration d =
     bindE (lease_milliseconds lease_duration) (\<lambda>lease_ms.
     bindE (lock_live_claim_rows clk claim None None d) (\<lambda>_.
     bindE (update_attempts
        (\<lambda>a. attempt_id a = claim_attempt_id claim \<and> attempt_live (attempt_state a)
              \<and> lease_until a > clk 3)
        (\<lambda>a. a\<lparr>last_heartbeat_at := clk 1,
                lease_until := max (lease_until a + 1) (clk 2 + ms_us lease_ms)\<rparr>) d) (\<lambda>(row, d).
     case row of None \<Rightarrow> Inl StaleFenceError | Some a \<Rightarrow> Inr (lease_until a, d))))"

section \<open>Finalisation\<close>

definition release_ready_successors :: "clock \<Rightarrow> uuid \<Rightarrow> db \<Rightarrow> db result" where
  "release_ready_successors clk rid d =
     mapR snd (update_steps
       (\<lambda>s. step_run s = rid \<and> step_state s = Step_PENDING \<and> has_dependency d s
             \<and> \<not> blocked_by_dependency d s)
       (make_ready (clk 0)) d)"

definition all_steps_terminal :: "db \<Rightarrow> uuid \<Rightarrow> bool" where
  "all_steps_terminal d rid \<longleftrightarrow>
     \<not> (\<exists>s \<in> set (steps d). step_run s = rid \<and> \<not> step_ended (step_state s))"

definition required_steps_succeeded :: "db \<Rightarrow> uuid \<Rightarrow> bool" where
  "required_steps_succeeded d rid \<longleftrightarrow>
     \<not> (\<exists>s \<in> set (steps d). step_run s = rid \<and> required (step_plan s)
          \<and> \<not> step_passed (step_state s))"

definition finish_run_if_complete :: "clock \<Rightarrow> uuid \<Rightarrow> db \<Rightarrow> (int \<times> db) result" where
  "finish_run_if_complete clk rid d =
     bindE (optE (find_run d rid) RuntimeNotFoundError) (\<lambda>row.
     if all_steps_terminal d rid \<and> required_steps_succeeded d rid then
       bindE (update_runs (\<lambda>r. run_key r = rid \<and> run_state r = Run_RUNNING)
         (\<lambda>r. r\<lparr>run_state := Run_SUCCEEDED, run_finished_at := Some (clk 0),
                 run_version := run_version r + 1\<rparr>) d) (\<lambda>(finished, d).
       case finished of
         None \<Rightarrow> Inl (RuntimeStateConflictError ''Run could not finalize'')
       | Some r \<Rightarrow> Inr (run_version r, d))
     else Inr (run_version row, d))"

definition succeed_attempt ::
  "clock \<Rightarrow> attempt_claim \<Rightarrow> uuid \<Rightarrow> string \<Rightarrow> db \<Rightarrow> ((int \<times> int) \<times> db) result" where
  "succeed_attempt clk claim receipt result d =
     bindE (lock_live_claim_rows clk claim (Some Attempt_RUNNING) None d) (\<lambda>_.
     bindE (update_attempts
        (\<lambda>a. attempt_id a = claim_attempt_id claim \<and> attempt_state a = Attempt_RUNNING
              \<and> lease_until a > clk 2)
        (\<lambda>a. a\<lparr>attempt_state := Attempt_SUCCEEDED, result_receipt_id := Some receipt,
                attempt_result_hash := Some result, attempt_finished_at := Some (clk 1)\<rparr>) d)
        (\<lambda>(attempt, d).
     bindE (update_steps
        (\<lambda>s. step_id s = claim_step_id claim \<and> step_state s = Step_RUNNING
              \<and> current_attempt_id s = Some (claim_attempt_id claim)
              \<and> current_fence s = claim_fence claim)
        (\<lambda>s. s\<lparr>step_state := Step_SUCCEEDED, current_attempt_id := None,
                step_finished_at := Some (clk 3), step_version := step_version s + 1\<rparr>) d)
        (\<lambda>(step, d).
     case (attempt, step) of
       (Some _, Some s) \<Rightarrow>
         bindE (release_ready_successors (later 4 clk) (claim_run_id claim) d) (\<lambda>d.
         bindE (finish_run_if_complete (later 5 clk) (claim_run_id claim) d) (\<lambda>(run_version, d).
         Inr ((step_version s, run_version), d)))
     | _ \<Rightarrow> Inl StaleFenceError)))"

definition fail_decision ::
  "step_row \<Rightarrow> attempt_row \<Rightarrow> string \<Rightarrow> attempt_state \<times> step_state \<times> string" where
  "fail_decision s a code =
     (if attempt_effect a \<in> set REMOTE_EFFECTS
      then (Attempt_RECONCILIATION_REQUIRED, Step_WAITING, ''RECONCILIATION_REQUIRED'')
      else if code \<in> set (retryable_error_codes s)
              \<and> attempt_no a < max_attempts (step_retry (step_plan s))
      then (Attempt_FAILED_RETRYABLE, Step_READY, ''RETRY_READY'')
      else (Attempt_FAILED_TERMINAL, Step_FAILED, ''FAILED''))"

definition retry_delay_ms :: "step_row \<Rightarrow> attempt_row \<Rightarrow> int" where
  "retry_delay_ms s a =
     (if attempt_no a - 1 < int (length (retry_backoff_ms s))
      then retry_backoff_ms s ! nat (attempt_no a - 1) else 0)"

text \<open>What a failed or expired Attempt leaves behind on its Run.\<close>

definition settle_run ::
  "instant \<Rightarrow> uuid \<Rightarrow> step_state \<Rightarrow> string \<Rightarrow> db \<Rightarrow> (run_row option \<times> db) result" where
  "settle_run now rid target reason d =
     (if target = Step_WAITING then
        update_runs (\<lambda>r. run_key r = rid \<and> run_state r = Run_RUNNING)
          (\<lambda>r. r\<lparr>run_state := Run_WAITING, run_reason := Some ''EXTERNAL_EFFECT_UNKNOWN'',
                  run_version := run_version r + 1\<rparr>) d
      else if target = Step_FAILED then
        update_runs (\<lambda>r. run_key r = rid \<and> run_state r = Run_RUNNING)
          (\<lambda>r. r\<lparr>run_state := Run_FAILED, run_reason := Some reason,
                  run_finished_at := Some now, run_version := run_version r + 1\<rparr>) d
      else Inr (find_run d rid, d))"

definition fail_attempt ::
  "clock \<Rightarrow> attempt_claim \<Rightarrow> uuid \<Rightarrow> string \<Rightarrow> string \<Rightarrow> db
   \<Rightarrow> ((string \<times> int \<times> int) \<times> db) result" where
  "fail_attempt clk claim receipt eclass code d =
     bindE (lock_live_claim_rows clk claim (Some Attempt_RUNNING) None d) (\<lambda>(_, srow, arow).
     let (attempt_target, step_target, outcome) = fail_decision srow arow code
     in bindE (update_attempts (\<lambda>a. attempt_id a = claim_attempt_id claim)
          (\<lambda>a. a\<lparr>attempt_state := attempt_target, error_class := Some eclass,
                  error_code := Some code, result_receipt_id := Some receipt,
                  attempt_finished_at := Some (clk 1)\<rparr>) d) (\<lambda>(_, d).
        bindE (update_steps
          (\<lambda>s. step_id s = claim_step_id claim
                \<and> current_attempt_id s = Some (claim_attempt_id claim)
                \<and> current_fence s = claim_fence claim)
          (if step_target = Step_READY then
             (\<lambda>s. s\<lparr>step_state := Step_READY, current_attempt_id := None,
                     ready_at := Some (clk 2 + ms_us (retry_delay_ms srow arow)),
                     step_version := step_version s + 1\<rparr>)
           else
             (\<lambda>s. s\<lparr>step_state := step_target, current_attempt_id := None,
                     step_reason := Some (if step_target = Step_WAITING
                       then ''EXTERNAL_EFFECT_UNKNOWN'' else code),
                     step_finished_at := (if step_target = Step_FAILED then Some (clk 2) else None),
                     step_version := step_version s + 1\<rparr>)) d) (\<lambda>(step, d).
        bindE (optE step StaleFenceError) (\<lambda>step.
        bindE (settle_run (clk 3) (claim_run_id claim) step_target code d) (\<lambda>(run, d).
        bindE (optE run (RuntimeStateConflictError ''Run could not accept failure'')) (\<lambda>run.
        Inr ((outcome, step_version step, run_version run), d)))))))"

section \<open>Recovery\<close>

definition lease_order :: "attempt_row \<Rightarrow> instant \<times> uuid" where
  "lease_order a = (lease_until a, attempt_id a)"

definition expired_attempt_ids :: "clock \<Rightarrow> uuid option \<Rightarrow> db \<Rightarrow> uuid list" where
  "expired_attempt_ids clk rid d =
     map attempt_id (sort_key lease_order
       (filter (\<lambda>a. attempt_live (attempt_state a) \<and> lease_until a \<le> clk 0
            \<and> (case claim_row d (attempt_id a) of None \<Rightarrow> False
               | Some (r, s, _) \<Rightarrow> current_attempt_id s = Some (attempt_id a)
                   \<and> current_fence s = attempt_fence a \<and> run_state r = Run_RUNNING
                   \<and> opt_ok (\<lambda>k. run_key r = k) rid))
          (attempts d)))"

definition deadline_order :: "step_row \<Rightarrow> instant \<times> uuid" where
  "deadline_order s = (case step_deadline s of Some t \<Rightarrow> t | None \<Rightarrow> 0, step_id s)"

definition deadline_expired ::
  "clock \<Rightarrow> db \<Rightarrow> step_row \<Rightarrow> run_row \<Rightarrow> bool" where
  "deadline_expired clk d s r \<longleftrightarrow>
     run_state r = Run_RUNNING \<and> step_state s \<in> {Step_PENDING, Step_READY}
     \<and> opt_has (\<lambda>t. t \<le> clk 0) (step_deadline s) \<and> \<not> has_live_step d (run_key r)"

definition deadline_expired_step_ids :: "clock \<Rightarrow> uuid option \<Rightarrow> db \<Rightarrow> uuid list" where
  "deadline_expired_step_ids clk rid d =
     map step_id (sort_key deadline_order
       (filter (\<lambda>s. case find_run d (step_run s) of None \<Rightarrow> False
          | Some r \<Rightarrow> deadline_expired clk d s r \<and> opt_ok (\<lambda>k. run_key r = k) rid) (steps d)))"

definition recovery_decision_of ::
  "step_row \<Rightarrow> attempt_row \<Rightarrow> attempt_state \<times> step_state \<times> string" where
  "recovery_decision_of s a =
     (if attempt_state a = Attempt_RUNNING \<and> attempt_effect a \<in> set REMOTE_EFFECTS
      then (Attempt_RECONCILIATION_REQUIRED, Step_WAITING, ''RECONCILIATION_REQUIRED'')
      else if attempt_no a < max_attempts (step_retry (step_plan s))
      then (Attempt_ABANDONED, Step_READY, ''RETRY_READY'')
      else (Attempt_ABANDONED, Step_FAILED, ''FAILED''))"

definition recover_expired_attempt ::
  "clock \<Rightarrow> admission \<Rightarrow> uuid \<Rightarrow> uuid \<Rightarrow> db \<Rightarrow> (recovery_decision option \<times> db) result" where
  "recover_expired_attempt clk admit aid receipt d =
     (case find_attempt d aid of
        None \<Rightarrow> Inr (None, d)
      | Some a0 \<Rightarrow>
     (case find_step d (attempt_step a0) of
        None \<Rightarrow> Inr (None, d)
      | Some s0 \<Rightarrow>
     thenE (admit d (Some (step_run s0)) None)
     (case claim_row d aid of
        None \<Rightarrow> Inr (None, d)
      | Some (r, s, a) \<Rightarrow>
        if run_state r \<noteq> Run_RUNNING \<or> \<not> attempt_live (attempt_state a)
           \<or> current_attempt_id s \<noteq> Some aid \<or> current_fence s \<noteq> attempt_fence a
        then Inr (None, d)
        else if \<not> lease_until a \<le> clk 0 then Inr (None, d)
        else
          let (attempt_target, step_target, outcome) = recovery_decision_of s a
          in bindE (update_attempts (\<lambda>x. attempt_id x = aid)
               (\<lambda>x. x\<lparr>attempt_state := attempt_target, error_class := Some ''LEASE'',
                       error_code := Some ''LEASE_EXPIRED'', result_receipt_id := Some receipt,
                       attempt_finished_at := Some (clk 1)\<rparr>) d) (\<lambda>(_, d).
             bindE (update_steps (\<lambda>x. step_id x = step_id s)
               (if step_target = Step_READY then
                  (\<lambda>x. x\<lparr>step_state := Step_READY, current_attempt_id := None,
                          ready_at := Some (clk 2), step_version := step_version x + 1\<rparr>)
                else if step_target = Step_WAITING then
                  (\<lambda>x. x\<lparr>step_state := Step_WAITING, current_attempt_id := None,
                          step_reason := Some ''EXTERNAL_EFFECT_UNKNOWN'',
                          step_version := step_version x + 1\<rparr>)
                else
                  (\<lambda>x. x\<lparr>step_state := Step_FAILED, current_attempt_id := None,
                          step_reason := Some ''RETRY_BUDGET_EXHAUSTED'',
                          step_finished_at := Some (clk 2),
                          step_version := step_version x + 1\<rparr>)) d) (\<lambda>(step, d).
             bindE (settle_run (clk 3) (run_key r) step_target ''RETRY_BUDGET_EXHAUSTED'' d)
               (\<lambda>(run, d).
             let lost = RuntimeStateConflictError ''recovery lost the locked Runtime state''
             in bindE (optE step lost) (\<lambda>s'. bindE (optE run lost) (\<lambda>r'.
                 Inr (Some \<lparr>decision_attempt_id = aid, decision_run_id = run_key r,
                        decision_step_id = step_id s, decision_fence = attempt_fence a,
                        decision_outcome = outcome, decision_attempt_version = attempt_no a,
                        decision_step_version = step_version s',
                        decision_run_version = run_version r'\<rparr>, d)))))))))"

text \<open>Deadline recovery first readies a Step that is still pending.\<close>

definition ready_pending_step :: "instant \<Rightarrow> step_row \<Rightarrow> db \<Rightarrow> db result" where
  "ready_pending_step now s d =
     (if step_state s = Step_PENDING then
        bindE (update_steps (\<lambda>x. step_id x = step_id s \<and> step_state x = Step_PENDING)
          (make_ready now) d) (\<lambda>(made_ready, d).
        thenE (guardE (made_ready \<noteq> None)
          (RuntimeStateConflictError ''deadline recovery could not ready Step''))
        (Inr d))
      else Inr d)"

definition expire_step_deadline ::
  "clock \<Rightarrow> admission \<Rightarrow> uuid \<Rightarrow> uuid \<Rightarrow> uuid \<Rightarrow> string \<Rightarrow> db
   \<Rightarrow> (recovery_decision option \<times> db) result" where
  "expire_step_deadline clk admit sid aid receipt owner d =
     thenE (admit d None (Some sid))
     (case find_step d sid of
        None \<Rightarrow> Inr (None, d)
      | Some s \<Rightarrow>
     (case find_run d (step_run s) of
        None \<Rightarrow> Inr (None, d)
      | Some r \<Rightarrow>
        if \<not> deadline_expired clk d s r then Inr (None, d)
        else
          let fence = current_fence s + 1;
              no = prior_attempts d sid + 1
          in thenE (guardE (no \<le> max_attempts (step_retry (step_plan s)))
               (RuntimeStateConflictError ''Step exhausted attempts before deadline recovery''))
             (bindE (ready_pending_step (clk 1) s d) (\<lambda>d.
             bindE (insert_attempt_row (new_attempt (later 2 clk) aid s no owner 1000000) d) (\<lambda>d.
             bindE (update_steps (\<lambda>x. step_id x = sid \<and> step_state x = Step_READY)
               (claim_step aid fence) d) (\<lambda>(claimed, d).
             thenE (guardE (claimed \<noteq> None)
               (RuntimeStateConflictError ''deadline recovery could not claim Step''))
             (bindE (update_attempts
               (\<lambda>a. attempt_id a = aid \<and> attempt_state a = Attempt_CLAIMED)
               (\<lambda>a. a\<lparr>attempt_state := Attempt_RUNNING, attempt_started_at := Some (clk 6)\<rparr>) d)
               (\<lambda>(_, d).
             bindE (update_steps
               (\<lambda>x. step_id x = sid \<and> step_state x = Step_CLAIMED
                     \<and> current_attempt_id x = Some aid \<and> current_fence x = fence)
               (\<lambda>x. x\<lparr>step_state := Step_RUNNING, step_started_at := Some (clk 7),
                       step_version := step_version x + 1\<rparr>) d) (\<lambda>(_, d).
             bindE (update_attempts
               (\<lambda>a. attempt_id a = aid \<and> attempt_state a = Attempt_RUNNING)
               (\<lambda>a. a\<lparr>attempt_state := Attempt_FAILED_TERMINAL, error_class := Some ''RUNTIME'',
                       error_code := Some ''DEADLINE_EXHAUSTED'',
                       result_receipt_id := Some receipt,
                       attempt_finished_at := Some (clk 8)\<rparr>) d) (\<lambda>(_, d).
             bindE (update_steps
               (\<lambda>x. step_id x = sid \<and> step_state x = Step_RUNNING
                     \<and> current_attempt_id x = Some aid \<and> current_fence x = fence)
               (\<lambda>x. x\<lparr>step_state := Step_FAILED, current_attempt_id := None,
                       step_reason := Some ''DEADLINE_EXHAUSTED'',
                       step_finished_at := Some (clk 9),
                       step_version := step_version x + 1\<rparr>) d) (\<lambda>(step, d).
             bindE (update_runs (\<lambda>x. run_key x = step_run s \<and> run_state x = Run_RUNNING)
               (\<lambda>x. x\<lparr>run_state := Run_FAILED, run_reason := Some ''DEADLINE_EXHAUSTED'',
                       run_finished_at := Some (clk 10), run_version := run_version x + 1\<rparr>) d)
               (\<lambda>(run, d).
             let lost = RuntimeStateConflictError ''deadline recovery lost locked Runtime state''
             in bindE (optE step lost) (\<lambda>s'. bindE (optE run lost) (\<lambda>r'.
                 Inr (Some \<lparr>decision_attempt_id = aid, decision_run_id = step_run s,
                        decision_step_id = sid, decision_fence = fence,
                        decision_outcome = ''FAILED'', decision_attempt_version = no,
                        decision_step_version = step_version s',
                        decision_run_version = run_version r'\<rparr>, d)))))))))))))))"

definition resume_waiting_step ::
  "clock \<Rightarrow> uuid \<Rightarrow> uuid \<Rightarrow> db \<Rightarrow> ((int \<times> int) \<times> db) result" where
  "resume_waiting_step clk rid sid d =
     (case (find_run d rid, find_step d sid) of
        (Some r, Some s) \<Rightarrow>
          if step_run s \<noteq> rid then Inl RuntimeNotFoundError
          else thenE (guardE (run_state r = Run_WAITING \<and> step_state s = Step_WAITING)
            (RuntimeStateConflictError ''resume requires WAITING Run/Step''))
          (bindE (update_steps (\<lambda>x. step_id x = sid)
             (\<lambda>x. x\<lparr>step_state := Step_READY, ready_at := Some (clk 0), step_reason := None,
                     step_version := step_version x + 1\<rparr>) d) (\<lambda>(step, d).
          bindE (update_runs (\<lambda>x. run_key x = rid)
             (\<lambda>x. x\<lparr>run_state := Run_RUNNING, run_reason := None,
                     run_version := run_version x + 1\<rparr>) d) (\<lambda>(run, d).
          let lost = RuntimeStateConflictError ''resolution could not resume locked Runtime state''
          in bindE (optE step lost) (\<lambda>s'. bindE (optE run lost) (\<lambda>r'.
             Inr ((step_version s', run_version r'), d))))))
      | _ \<Rightarrow> Inl RuntimeNotFoundError)"

section \<open>Inspection\<close>

definition step_attempts :: "db \<Rightarrow> uuid \<Rightarrow> attempt_row list" where
  "step_attempts d sid =
     sort_key attempt_no (filter (\<lambda>a. attempt_step a = sid) (attempts d))"

definition trace_of_step :: "db \<Rightarrow> step_row \<Rightarrow> step_trace" where
  "trace_of_step d s =
     (let p = step_plan s; history = step_attempts d (step_id s)
      in \<lparr>trace_step_id = step_id s, trace_step_key = step_key p, trace_step_kind = step_kind p,
          trace_implementation = implementation p,
          trace_implementation_version = implementation_version p,
          trace_request_hash = request_hash p, trace_input_hash = input_evidence_hash p,
          trace_deadline = retry_deadline (step_retry p), trace_state = step_state s,
          trace_fence = current_fence s, trace_attempt_id = current_attempt_id s,
          trace_attempt_states = map attempt_state history,
          trace_latest_error = (if history = [] then None else error_code (last history))\<rparr>)"

definition inspect_run :: "uuid \<Rightarrow> db \<Rightarrow> run_trace result" where
  "inspect_run rid d =
     (case find_run d rid of
        None \<Rightarrow> Inl RuntimeNotFoundError
      | Some r \<Rightarrow>
          let e = run_envelope r
          in Inr \<lparr>trace_run_id = rid, trace_schedule_id = run_schedule_id e,
                 trace_fire_key = fire_key e, trace_mode = run_mode e,
                 trace_code_sha = code_sha e, trace_config_artifact = config_artifact_id e,
                 trace_config_hash = config_hash e, trace_run_state = run_state r,
                 trace_version = run_version r,
                 trace_steps = map (trace_of_step d)
                   (sort_key (\<lambda>s. ordinal (step_plan s))
                     (filter (\<lambda>s. step_run s = rid) (steps d)))\<rparr>)"

end
