(* ===== verification/Runtime_Refinement.thy ===== *)
theory Runtime_Refinement
  imports Runtime_Machine Runtime_Repository
begin

text \<open>
  The repository operations refine the abstract Runtime machine: a database that
  satisfies its own constraints and the machine's invariant still does after every
  operation that returns, and the operation is one transition of the machine or
  leaves it alone. The statements are first brought into a normal form that
  replaces one row.
\<close>

section \<open>Abstraction\<close>

definition abs_step :: "step_row \<Rightarrow> m_step" where
  "abs_step s =
     \<lparr>m_run = step_run s, m_state = step_state s, m_fence = current_fence s,
      m_holder = current_attempt_id s, m_budget = max_attempts (step_retry (step_plan s))\<rparr>"

definition abs_attempt :: "attempt_row \<Rightarrow> m_attempt" where
  "abs_attempt a =
     \<lparr>m_of = attempt_step a, m_no = attempt_no a, m_token = attempt_fence a,
      m_status = attempt_state a, m_lease = lease_until a\<rparr>"

definition abs_dep :: "dependency_row \<Rightarrow> uuid \<times> uuid \<times> uuid \<times> string" where
  "abs_dep x = (dep_run x, predecessor_step_id x, successor_step_id x, dep_kind x)"

definition abs_db :: "db \<Rightarrow> machine" where
  "abs_db d =
     \<lparr>m_runs = (\<lambda>k. map_option run_state (find_run d k)),
      m_steps = (\<lambda>k. map_option abs_step (find_step d k)),
      m_attempts = (\<lambda>k. map_option abs_attempt (find_attempt d k)),
      m_deps = abs_dep ` set (dependencies d)\<rparr>"

lemma abs_step_simps [simp]:
  "m_run (abs_step s) = step_run s" "m_state (abs_step s) = step_state s"
  "m_fence (abs_step s) = current_fence s" "m_holder (abs_step s) = current_attempt_id s"
  "m_budget (abs_step s) = max_attempts (step_retry (step_plan s))"
  by (simp_all add: abs_step_def)

lemma abs_attempt_simps [simp]:
  "m_of (abs_attempt a) = attempt_step a" "m_no (abs_attempt a) = attempt_no a"
  "m_token (abs_attempt a) = attempt_fence a" "m_status (abs_attempt a) = attempt_state a"
  "m_lease (abs_attempt a) = lease_until a"
  by (simp_all add: abs_attempt_def)

lemma abs_db_simps [simp]:
  "m_runs (abs_db d) k = map_option run_state (find_run d k)"
  "m_steps (abs_db d) k = map_option abs_step (find_step d k)"
  "m_attempts (abs_db d) k = map_option abs_attempt (find_attempt d k)"
  "m_deps (abs_db d) = abs_dep ` set (dependencies d)"
  by (simp_all add: abs_db_def)

section \<open>Well-formed databases\<close>

definition run_ok :: "run_row \<Rightarrow> bool" where
  "run_ok r \<longleftrightarrow> first_violation (run_checks r) = None"

definition step_ok :: "step_row \<Rightarrow> bool" where
  "step_ok s \<longleftrightarrow> first_violation (step_checks s) = None"

definition attempt_ok :: "attempt_row \<Rightarrow> bool" where
  "attempt_ok a \<longleftrightarrow> first_violation (attempt_checks a) = None"

definition store_ok :: "db \<Rightarrow> bool" where
  "store_ok d \<longleftrightarrow>
     distinct (map run_key (runs d)) \<and> distinct (map step_id (steps d)) \<and>
     distinct (map attempt_id (attempts d)) \<and>
     list_all run_ok (runs d) \<and> list_all step_ok (steps d) \<and> list_all attempt_ok (attempts d)"

definition runtime_ok :: "db \<Rightarrow> bool" where
  "runtime_ok d \<longleftrightarrow> store_ok d \<and> m_inv (abs_db d)"

lemma step_ok_budget:
  assumes "step_ok s"
  shows "1 \<le> max_attempts (step_retry (step_plan s))" "max_attempts (step_retry (step_plan s)) \<le> 64"
    "0 \<le> current_fence s"
  using assms unfolding step_ok_def first_violation_None step_checks_def by simp_all

lemma store_okD:
  assumes "store_ok d"
  shows "find_run d k = Some r \<Longrightarrow> run_ok r \<and> run_key r = k"
    and "find_step d k = Some s \<Longrightarrow> step_ok s \<and> step_id s = k"
    and "find_attempt d k = Some a \<Longrightarrow> attempt_ok a \<and> attempt_id a = k"
  using assms run_table.row_at_Some_in run_table.row_at_Some_key step_table.row_at_Some_in
    step_table.row_at_Some_key attempt_table.row_at_Some_in attempt_table.row_at_Some_key
  unfolding store_ok_def list_all_iff by metis+

lemma store_ok_in:
  assumes "store_ok d"
  shows "r \<in> set (runs d) \<longleftrightarrow> find_run d (run_key r) = Some r"
    and "s \<in> set (steps d) \<longleftrightarrow> find_step d (step_id s) = Some s"
    and "a \<in> set (attempts d) \<longleftrightarrow> find_attempt d (attempt_id a) = Some a"
  using assms run_table.row_at_iff_in_set step_table.row_at_iff_in_set attempt_table.row_at_iff_in_set
  unfolding store_ok_def by metis+

section \<open>One-row updates\<close>

definition put_row :: "('r \<Rightarrow> 'k) \<Rightarrow> 'r \<Rightarrow> 'r list \<Rightarrow> 'r list" where
  "put_row key r rows = map (\<lambda>x. if key x = key r then r else x) rows"

context keyed_table
begin

lemma keys_put_row [simp]: "map key (put_row key r rows) = map key rows"
  by (simp add: put_row_def)

lemma row_at_put_row:
  "row_at key (put_row key r rows) k =
     (if k = key r \<and> key r \<in> key ` set rows then Some r else row_at key rows k)"
  by (induction rows) (auto simp: put_row_def row_at_def)

lemma row_at_put:
  "row_at key rows (key r) \<noteq> None \<Longrightarrow>
   row_at key (put_row key r rows) = (row_at key rows)(key r \<mapsto> r)"
  using row_at_None_iff by (auto simp: fun_eq_iff row_at_put_row)

lemma put_row_set: "set (put_row key r rows) \<subseteq> insert r (set rows)"
  by (auto simp: put_row_def)

lemma update_one:
  assumes dist: "distinct (map key rows)" and r: "row_at key rows k = Some r"
    and p: "\<And>x. p x \<Longrightarrow> key x = k" and f: "key (f r) = k"
  shows "update_returning chk p f rows =
    (if p r then
       (case chk r (f r) of Some e \<Rightarrow> Inl e | None \<Rightarrow> Inr (Some (f r), put_row key (f r) rows))
     else Inr (None, rows))"
proof -
  have rin: "r \<in> set rows" and rk: "key r = k" using r row_at_Some_in row_at_Some_key by auto
  have only: "x = r" if "x \<in> set rows" "key x = k" for x
    using row_at_in_set [OF dist that(1)] that(2) r by simp
  show ?thesis
  proof (cases "p r")
    case True
    have "find p rows = Some r"
    proof (cases "find p rows")
      case None then show ?thesis using True rin by (auto simp: find_None_iff)
    next
      case (Some x)
      then have "x \<in> set rows" "p x" by (auto simp: find_Some_iff)
      then show ?thesis using Some only p by blast
    qed
    moreover have "sql_update chk p f rows =
        (case chk r (f r) of Some e \<Rightarrow> Inl e | None \<Rightarrow> Inr (put_row key (f r) rows))"
    proof (cases "chk r (f r)")
      case None
      have "map (\<lambda>x. if p x then f x else x) rows = put_row key (f r) rows"
        unfolding put_row_def using only p True f rk by (auto intro!: map_cong)
      moreover have "\<forall>x \<in> set rows. p x \<longrightarrow> chk x (f x) = None" using only p None by blast
      ultimately show ?thesis using None by (auto simp: sql_update_Inr_iff)
    next
      case (Some e)
      have "sql_update chk p f rows \<noteq> Inr y" for y using Some True rin by (auto simp: sql_update_Inr_iff)
      then obtain e' where e': "sql_update chk p f rows = Inl e'" by (cases "sql_update chk p f rows") auto
      from sql_update_Inl [OF this] only p Some have "e' = e" by auto
      then show ?thesis using Some e' by simp
    qed
    ultimately show ?thesis using True by (simp add: update_returning_def mapR_def split: option.splits)
  next
    case False
    then have no: "\<not> p x" if "x \<in> set rows" for x using that only p by blast
    then have "find p rows = None" by (auto simp: find_None_iff)
    moreover have "sql_update chk p f rows = Inr rows"
      using no by (auto simp: sql_update_Inr_iff intro!: map_idI [symmetric])
    ultimately show ?thesis using False by (simp add: update_returning_def mapR_def)
  qed
qed

end

definition put_run :: "run_row \<Rightarrow> db \<Rightarrow> db" where
  "put_run r d = d\<lparr>runs := put_row run_key r (runs d)\<rparr>"

definition put_step :: "step_row \<Rightarrow> db \<Rightarrow> db" where
  "put_step s d = d\<lparr>steps := put_row step_id s (steps d)\<rparr>"

definition put_attempt :: "attempt_row \<Rightarrow> db \<Rightarrow> db" where
  "put_attempt a d = d\<lparr>attempts := put_row attempt_id a (attempts d)\<rparr>"

lemma put_frame [simp]:
  "runs (put_step s d) = runs d" "attempts (put_step s d) = attempts d"
  "runs (put_attempt a d) = runs d" "steps (put_attempt a d) = steps d"
  "steps (put_run r d) = steps d" "attempts (put_run r d) = attempts d"
  "dependencies (put_step s d) = dependencies d" "dependencies (put_attempt a d) = dependencies d"
  "dependencies (put_run r d) = dependencies d"
  "receipts (put_step s d) = receipts d" "receipts (put_attempt a d) = receipts d"
  "receipts (put_run r d) = receipts d"
  "audits (put_step s d) = audits d" "audits (put_attempt a d) = audits d"
  "audits (put_run r d) = audits d"
  by (simp_all add: put_run_def put_step_def put_attempt_def)

lemma find_put:
  "find_run d (run_key r) \<noteq> None \<Longrightarrow> row_at run_key (runs (put_run r d)) = (find_run d)(run_key r \<mapsto> r)"
  "find_step d (step_id s) \<noteq> None \<Longrightarrow> row_at step_id (steps (put_step s d)) = (find_step d)(step_id s \<mapsto> s)"
  "find_attempt d (attempt_id a) \<noteq> None \<Longrightarrow>
     row_at attempt_id (attempts (put_attempt a d)) = (find_attempt d)(attempt_id a \<mapsto> a)"
  by (simp_all add: put_run_def put_step_def put_attempt_def run_table.row_at_put
      step_table.row_at_put attempt_table.row_at_put)

lemma store_ok_put:
  "store_ok d \<Longrightarrow> run_ok r \<Longrightarrow> store_ok (put_run r d)"
  "store_ok d \<Longrightarrow> step_ok s \<Longrightarrow> store_ok (put_step s d)"
  "store_ok d \<Longrightarrow> attempt_ok a \<Longrightarrow> store_ok (put_attempt a d)"
  using run_table.put_row_set [of r "runs d"] step_table.put_row_set [of s "steps d"]
    attempt_table.put_row_set [of a "attempts d"]
  by (auto simp: store_ok_def put_run_def put_step_def put_attempt_def list_all_iff)

lemma update_runs_one:
  assumes "store_ok d" "find_run d k = Some r" "\<And>x. p x \<Longrightarrow> run_key x = k" "run_key (f r) = k"
  shows "update_runs p f d =
    (if p r then (case run_update_check r (f r) of Some e \<Rightarrow> Inl e | None \<Rightarrow> Inr (Some (f r), put_run (f r) d))
     else Inr (None, d))"
  using assms run_table.update_one [of "runs d" k r p f run_update_check]
  by (simp add: update_runs_def store_ok_def mapR_def put_run_def split: option.split)

lemma update_steps_one:
  assumes "store_ok d" "find_step d k = Some s" "\<And>x. p x \<Longrightarrow> step_id x = k" "step_id (f s) = k"
  shows "update_steps p f d =
    (if p s then (case step_update_check (attempts d) s (f s) of Some e \<Rightarrow> Inl e
       | None \<Rightarrow> Inr (Some (f s), put_step (f s) d))
     else Inr (None, d))"
  using assms step_table.update_one [of "steps d" k s p f "step_update_check (attempts d)"]
  by (simp add: update_steps_def store_ok_def mapR_def put_step_def split: option.split)

lemma update_attempts_one:
  assumes "store_ok d" "find_attempt d k = Some a" "\<And>x. p x \<Longrightarrow> attempt_id x = k" "attempt_id (f a) = k"
  shows "update_attempts p f d =
    (if p a then (case attempt_update_check (receipts d) a (f a) of Some e \<Rightarrow> Inl e
       | None \<Rightarrow> Inr (Some (f a), put_attempt (f a) d))
     else Inr (None, d))"
  using assms attempt_table.update_one [of "attempts d" k a p f "attempt_update_check (receipts d)"]
  by (simp add: update_attempts_def store_ok_def mapR_def put_attempt_def split: option.split)

text \<open>The same statements read backwards, from a statement that returned.\<close>

lemma update_runs_back:
  assumes "update_runs p f d = Inr (row, d')" "store_ok d" "find_run d k = Some r"
    "\<And>x. p x \<Longrightarrow> run_key x = k" "run_key (f r) = k"
  shows "(p r \<and> run_update_check r (f r) = None \<and> row = Some (f r) \<and> d' = put_run (f r) d)
    \<or> (\<not> p r \<and> row = None \<and> d' = d)"
  using assms update_runs_one [of d k r p f, OF assms(2-5)] by (auto split: if_splits option.splits)

lemma update_steps_back:
  assumes "update_steps p f d = Inr (row, d')" "store_ok d" "find_step d k = Some s"
    "\<And>x. p x \<Longrightarrow> step_id x = k" "step_id (f s) = k"
  shows "(p s \<and> step_update_check (attempts d) s (f s) = None \<and> row = Some (f s) \<and> d' = put_step (f s) d)
    \<or> (\<not> p s \<and> row = None \<and> d' = d)"
  using assms update_steps_one [of d k s p f, OF assms(2-5)] by (auto split: if_splits option.splits)

lemma update_attempts_back:
  assumes "update_attempts p f d = Inr (row, d')" "store_ok d" "find_attempt d k = Some a"
    "\<And>x. p x \<Longrightarrow> attempt_id x = k" "attempt_id (f a) = k"
  shows "(p a \<and> attempt_update_check (receipts d) a (f a) = None \<and> row = Some (f a)
      \<and> d' = put_attempt (f a) d)
    \<or> (\<not> p a \<and> row = None \<and> d' = d)"
  using assms update_attempts_one [of d k a p f, OF assms(2-5)] by (auto split: if_splits option.splits)

lemma check_ok:
  "run_update_check r r' = None \<Longrightarrow> run_ok r' \<and> run_key r' = run_key r"
  "step_update_check as s s' = None \<Longrightarrow> step_ok s'"
  "attempt_update_check cs a a' = None \<Longrightarrow> attempt_ok a'"
  by (auto simp: run_update_check_def step_update_check_def attempt_update_check_def
      first_violation_append run_ok_def step_ok_def attempt_ok_def guard_runtime_run_update_def split: if_splits)

lemma abs_put:
  "find_run d (run_key r) \<noteq> None \<Longrightarrow>
     abs_db (put_run r d) = (abs_db d)\<lparr>m_runs := (m_runs (abs_db d))(run_key r \<mapsto> run_state r)\<rparr>"
  "find_step d (step_id s) \<noteq> None \<Longrightarrow>
     abs_db (put_step s d) = (abs_db d)\<lparr>m_steps := (m_steps (abs_db d))(step_id s \<mapsto> abs_step s)\<rparr>"
  "find_attempt d (attempt_id a) \<noteq> None \<Longrightarrow>
     abs_db (put_attempt a d) =
       (abs_db d)\<lparr>m_attempts := (m_attempts (abs_db d))(attempt_id a \<mapsto> abs_attempt a)\<rparr>"
  by (simp_all add: abs_db_def find_put fun_eq_iff)

lemma abs_touch:
  assumes "find_step d (step_id s) \<noteq> None" "find_attempt d (attempt_id a) \<noteq> None"
  shows "abs_db (put_step s (put_attempt a d)) =
    touch (abs_db d) (step_id s) (abs_step s) (attempt_id a) (abs_attempt a)"
  using assms by (simp add: abs_put touch_def)

section \<open>Claims\<close>

lemma claim_row_Some:
  "claim_row d aid = Some (r, s, a) \<longleftrightarrow>
     find_attempt d aid = Some a \<and> find_step d (attempt_step a) = Some s
     \<and> find_run d (step_run s) = Some r"
  by (auto simp: claim_row_def split: option.splits)

text \<open>What a claim that passes the live-claim check owns.\<close>

definition owned :: "db \<Rightarrow> attempt_claim \<Rightarrow> run_row \<Rightarrow> step_row \<Rightarrow> attempt_row \<Rightarrow> bool" where
  "owned d claim r s a \<longleftrightarrow>
     find_run d (claim_run_id claim) = Some r \<and> find_step d (claim_step_id claim) = Some s
     \<and> find_attempt d (claim_attempt_id claim) = Some a
     \<and> run_key r = claim_run_id claim \<and> step_id s = claim_step_id claim
     \<and> attempt_id a = claim_attempt_id claim \<and> step_run s = claim_run_id claim
     \<and> attempt_step a = claim_step_id claim \<and> run_state r = Run_RUNNING
     \<and> attempt_fence a = claim_fence claim \<and> current_fence s = claim_fence claim
     \<and> current_attempt_id s = Some (claim_attempt_id claim)"

lemma lock_owned:
  assumes ok: "store_ok d" and lock: "lock_live_claim_rows clk claim expected kind d = Inr (r, s, a)"
  shows "owned d claim r s a" "attempt_state a \<in> set (expected_attempt_states expected)"
    "lease_until a > clk 0" "lease_owner a = claim_owner claim"
proof -
  from lock have row: "claim_row d (claim_attempt_id claim) = Some (r, s, a)"
    and m: "claim_matches claim expected kind r s a" and l: "lease_until a > clk 0"
    by (auto simp: lock_live_claim_rows_def split: option.splits if_splits)
  from row have f: "find_attempt d (claim_attempt_id claim) = Some a"
    "find_step d (attempt_step a) = Some s" "find_run d (step_run s) = Some r"
    by (simp_all add: claim_row_Some)
  with m store_okD [OF ok] show "owned d claim r s a"
    unfolding owned_def claim_matches_def by metis
  show "attempt_state a \<in> set (expected_attempt_states expected)" "lease_until a > clk 0"
    "lease_owner a = claim_owner claim"
    using m l by (simp_all add: claim_matches_def)
qed

lemma owned_live:
  assumes "runtime_ok d" "owned d claim r s a"
  shows "(step_state s = Step_CLAIMED \<and> attempt_state a = Attempt_CLAIMED) \<or>
    (step_state s = Step_RUNNING \<and> attempt_state a = Attempt_RUNNING)"
proof -
  have "holder_inv (abs_db d)" using assms(1) by (simp add: runtime_ok_def m_inv_def)
  from holder_invD(2) [OF this, of "claim_step_id claim" "abs_step s" "claim_attempt_id claim"] assms(2)
  show ?thesis by (auto simp: owned_def)
qed

text \<open>Closing or starting: the attempt row and the step row of a claim are replaced.\<close>

lemma put_both:
  assumes ok: "store_ok d" and own: "owned d claim r s a"
    and keys: "attempt_id a' = claim_attempt_id claim" "step_id s' = claim_step_id claim"
    and rows: "attempt_ok a'" "step_ok s'"
  shows "store_ok (put_step s' (put_attempt a' d))"
    and "abs_db (put_step s' (put_attempt a' d)) =
      touch (abs_db d) (claim_step_id claim) (abs_step s') (claim_attempt_id claim) (abs_attempt a')"
    and "row_at step_id (steps (put_step s' (put_attempt a' d))) =
      (find_step d)(claim_step_id claim \<mapsto> s')"
  using assms abs_touch [of d s' a'] find_put(2) [of "put_attempt a' d" s']
  by (auto simp: owned_def store_ok_put)

lemma abs_step_update:
  "abs_step s' = (abs_step s)\<lparr>m_state := step_state s', m_holder := current_attempt_id s'\<rparr>"
  if "step_run s' = step_run s" "current_fence s' = current_fence s" "step_plan s' = step_plan s"
  using that by (simp add: abs_step_def)

lemma abs_attempt_update:
  "abs_attempt a' = (abs_attempt a)\<lparr>m_status := attempt_state a'\<rparr>"
  if "attempt_step a' = attempt_step a" "attempt_no a' = attempt_no a"
    "attempt_fence a' = attempt_fence a" "lease_until a' = lease_until a"
  using that by (simp add: abs_attempt_def)

lemma start_attempt_refines:
  assumes ok: "runtime_ok d" and run: "start_attempt clk claim d = Inr (v, d')"
  shows "store_ok d' \<and> m_trans (abs_db d) (abs_db d')"
proof -
  have st: "store_ok d" using ok by (simp add: runtime_ok_def)
  from run obtain r s a where lock:
    "lock_live_claim_rows clk claim (Some Attempt_CLAIMED) None d = Inr (r, s, a)"
    by (auto simp: start_attempt_def bindE_Inr_iff)
  note own = lock_owned(1) [OF st lock]
  have a_st: "attempt_state a = Attempt_CLAIMED"
    using lock_owned(2) [OF st lock] by (simp add: expected_attempt_states_def)
  have s_st: "step_state s = Step_CLAIMED" using owned_live [OF ok own] a_st by simp
  let ?a = "a\<lparr>attempt_state := Attempt_RUNNING, attempt_started_at := Some (clk 1)\<rparr>"
  let ?s = "s\<lparr>step_state := Step_RUNNING, step_started_at := Some (clk 3),
    step_version := step_version s + 1\<rparr>"
  have f: "find_attempt d (claim_attempt_id claim) = Some a" "find_step d (claim_step_id claim) = Some s"
    "attempt_id a = claim_attempt_id claim" "step_id s = claim_step_id claim"
    using own by (simp_all add: owned_def)
  from run lock obtain row d1 row' where
    e1: "update_attempts
        (\<lambda>a. attempt_id a = claim_attempt_id claim \<and> attempt_state a = Attempt_CLAIMED
              \<and> lease_until a > clk 2)
        (\<lambda>a. a\<lparr>attempt_state := Attempt_RUNNING, attempt_started_at := Some (clk 1)\<rparr>) d = Inr (Some row, d1)"
    and e2: "update_steps
        (\<lambda>s. step_id s = claim_step_id claim \<and> step_state s = Step_CLAIMED
              \<and> current_attempt_id s = Some (claim_attempt_id claim)
              \<and> current_fence s = claim_fence claim)
        (\<lambda>s. s\<lparr>step_state := Step_RUNNING, step_started_at := Some (clk 3),
                step_version := step_version s + 1\<rparr>) d1 = Inr (Some row', d')"
    by (auto simp: start_attempt_def bindE_Inr_iff split: option.splits)
  from update_attempts_back [OF e1 st f(1)] f
  have d1: "d1 = put_attempt ?a d" and c1: "attempt_ok ?a" by (auto dest: check_ok)
  have st1: "store_ok d1" unfolding d1 using st c1 by (rule store_ok_put)
  from update_steps_back [OF e2 st1, of "claim_step_id claim" s] f
  have d': "d' = put_step ?s d1" and c2: "step_ok ?s" by (auto simp: d1 dest: check_ok)
  have pb: "store_ok d'" "abs_db d' = touch (abs_db d) (claim_step_id claim) (abs_step ?s)
      (claim_attempt_id claim) (abs_attempt ?a)"
    using put_both [OF st own, of ?a ?s] c1 c2 f by (simp_all add: d' d1)
  moreover have "m_trans (abs_db d) (touch (abs_db d) (claim_step_id claim)
      ((abs_step s)\<lparr>m_state := Step_RUNNING\<rparr>) (claim_attempt_id claim)
      ((abs_attempt a)\<lparr>m_status := Attempt_RUNNING\<rparr>))"
    unfolding touch_def using own a_st s_st
    by (intro m_trans.start_attempt) (auto simp: owned_def)
  ultimately show ?thesis by (simp add: abs_step_def abs_attempt_def)
qed

section \<open>Heartbeats\<close>

lemma heartbeat_attempt_refines:
  assumes ok: "runtime_ok d" and run: "heartbeat_attempt clk claim lease d = Inr (v, d')"
  shows "store_ok d' \<and> m_trans (abs_db d) (abs_db d')"
proof -
  have st: "store_ok d" using ok by (simp add: runtime_ok_def)
  from run obtain ms r s a row where lock:
    "lock_live_claim_rows clk claim None None d = Inr (r, s, a)"
    and e: "update_attempts
        (\<lambda>a. attempt_id a = claim_attempt_id claim \<and> attempt_live (attempt_state a)
              \<and> lease_until a > clk 3)
        (\<lambda>a. a\<lparr>last_heartbeat_at := clk 1,
                lease_until := max (lease_until a + 1) (clk 2 + ms_us ms)\<rparr>) d = Inr (Some row, d')"
    by (auto simp: heartbeat_attempt_def bindE_Inr_iff split: option.splits)
  note own = lock_owned(1) [OF st lock]
  let ?a = "a\<lparr>last_heartbeat_at := clk 1, lease_until := max (lease_until a + 1) (clk 2 + ms_us ms)\<rparr>"
  have f: "find_attempt d (claim_attempt_id claim) = Some a" "attempt_id a = claim_attempt_id claim"
    using own by (simp_all add: owned_def)
  from update_attempts_back [OF e st f(1)] f
  have d': "d' = put_attempt ?a d" and c: "attempt_ok ?a" and live: "attempt_live (attempt_state a)"
    by (auto dest: check_ok)
  have "abs_db d' = (abs_db d)\<lparr>m_attempts := (m_attempts (abs_db d))(claim_attempt_id claim \<mapsto>
      (abs_attempt a)\<lparr>m_lease := lease_until ?a\<rparr>)\<rparr>"
    using f abs_put(3) [of d ?a] by (simp add: d' abs_attempt_def)
  moreover have "m_trans (abs_db d) \<dots>"
    using f live by (intro m_trans.heartbeat) auto
  ultimately show ?thesis using store_ok_put(3) [OF st c] by (simp add: d')
qed

section \<open>Releasing successors and finishing a Run\<close>

lemma has_dependency_abs:
  "has_dependency d s \<longleftrightarrow> m_depends (abs_db d) (step_run s) (step_id s)"
  by (force simp: has_dependency_def m_depends_def abs_dep_def)

lemma dependency_unmet_abs: "dependency_unmet x p \<longleftrightarrow> m_unmet (dep_kind x) (step_state p)"
  by (simp add: dependency_unmet_def m_unmet_def)

lemma blocked_abs:
  assumes "store_ok d"
  shows "blocked_by_dependency d s \<longleftrightarrow> m_blocked (abs_db d) (step_run s) (step_id s)" (is "?l \<longleftrightarrow> ?r")
proof
  assume ?l
  then obtain x p where x: "x \<in> set (dependencies d)" "p \<in> set (steps d)"
    "step_id p = predecessor_step_id x" "dep_run x = step_run s" "successor_step_id x = step_id s"
    "m_unmet (dep_kind x) (step_state p)"
    by (auto simp: blocked_by_dependency_def dependency_unmet_abs)
  then have "find_step d (predecessor_step_id x) = Some p" using store_ok_in(2) [OF assms] by metis
  then show ?r using x by (force simp: m_blocked_def abs_dep_def)
next
  assume ?r
  then obtain p k u where "(step_run s, p, step_id s, k) \<in> m_deps (abs_db d)"
    and u: "m_steps (abs_db d) p = Some u" "m_unmet k (m_state u)" by (rule m_blockedE)
  then obtain x t where x: "x \<in> set (dependencies d)" "dep_run x = step_run s"
    "predecessor_step_id x = p" "successor_step_id x = step_id s" "dep_kind x = k"
    and t: "find_step d p = Some t" "m_unmet k (step_state t)"
    by (auto simp: abs_dep_def)
  have "t \<in> set (steps d)" "step_id t = p"
    using t(1) store_okD(2) [OF assms] store_ok_in(2) [OF assms] by metis+
  then show ?l using x t(2) unfolding blocked_by_dependency_def dependency_unmet_abs by metis
qed

lemma ready_update:
  assumes st: "store_ok d"
    and upd: "update_steps (\<lambda>s. step_run s = rid \<and> step_state s = Step_PENDING \<and> q s)
        (make_ready now) d = Inr (row, d')"
    and q: "\<And>s. step_run s = rid \<Longrightarrow> q s \<longleftrightarrow> p (step_id s)"
  shows "store_ok d' \<and> runs d' = runs d \<and>
    abs_db d' = (abs_db d)\<lparr>m_steps := ready_where (\<lambda>x y. m_run y = rid \<and> p x) (m_steps (abs_db d))\<rparr>"
proof -
  let ?p = "\<lambda>s. step_run s = rid \<and> step_state s = Step_PENDING \<and> q s"
  let ?g = "\<lambda>s. if ?p s then make_ready now s else s"
  from upd have d': "d' = d\<lparr>steps := map ?g (steps d)\<rparr>"
    and chk: "\<forall>s \<in> set (steps d). ?p s \<longrightarrow> step_update_check (attempts d) s (make_ready now s) = None"
    by (auto simp: update_steps_def update_returning_def mapR_Inr_iff sql_update_Inr_iff)
  have key: "step_id (?g s) = step_id s" for s by (simp add: make_ready_def)
  have "list_all step_ok (map ?g (steps d))"
    using st chk check_ok(2) by (auto simp: store_ok_def list_all_iff)
  moreover have "map step_id (map ?g (steps d)) = map step_id (steps d)"
    by (rule step_table.keys_update) (simp add: make_ready_def)
  ultimately have "store_ok d'"
    using st by (simp add: store_ok_def d' del: map_map)
  moreover have "map_option abs_step (find_step d' k) =
      ready_where (\<lambda>x y. m_run y = rid \<and> p x) (m_steps (abs_db d)) k" for k
  proof -
    have "find_step d' k = map_option ?g (find_step d k)"
      unfolding d' using step_table.row_at_map [of ?g "steps d" k, OF key] by simp
    then show ?thesis
      using q store_okD(2) [OF st, of k]
      by (cases "find_step d k") (auto simp: ready_where_def abs_step_def make_ready_def)
  qed
  ultimately show ?thesis by (simp add: d' abs_db_def fun_eq_iff)
qed

lemma release_refines:
  assumes st: "store_ok d" and rel: "release_ready_successors clk rid d = Inr d'"
  shows "store_ok d' \<and> runs d' = runs d \<and>
    abs_db d' = (abs_db d)\<lparr>m_steps := ready_where (\<lambda>x y. m_run y = rid \<and>
      m_depends (abs_db d) rid x \<and> \<not> m_blocked (abs_db d) rid x) (m_steps (abs_db d))\<rparr>"
proof -
  from rel obtain row where
    "update_steps (\<lambda>s. step_run s = rid \<and> step_state s = Step_PENDING \<and>
        (has_dependency d s \<and> \<not> blocked_by_dependency d s)) (make_ready (clk 0)) d = Inr (row, d')"
    by (auto simp: release_ready_successors_def mapR_Inr_iff)
  then show ?thesis
    by (rule ready_update [OF st]) (auto simp: has_dependency_abs blocked_abs [OF st])
qed

lemma all_steps_terminal_abs:
  assumes "store_ok d" "all_steps_terminal d rid" "m_steps (abs_db d) x = Some y" "m_run y = rid"
  shows "step_ended (m_state y)"
proof -
  from assms(3) obtain s where s: "find_step d x = Some s" "y = abs_step s" by auto
  then have "s \<in> set (steps d)" using store_okD(2) [OF assms(1)] store_ok_in(2) [OF assms(1)] by metis
  then show ?thesis using assms(2,4) s(2) by (auto simp: all_steps_terminal_def)
qed

lemma finish_refines:
  assumes st: "store_ok d" and r: "find_run d rid = Some r" "run_state r = Run_RUNNING"
    and fin: "finish_run_if_complete clk rid d = Inr (v, d')"
  shows "store_ok d' \<and> (\<exists>r'. abs_db d' = (abs_db d)\<lparr>m_runs := (m_runs (abs_db d))(rid \<mapsto> r')\<rparr> \<and>
    (r' = Run_RUNNING \<or> (r' = Run_SUCCEEDED \<and>
       (\<forall>x y. m_steps (abs_db d) x = Some y \<and> m_run y = rid \<longrightarrow> step_ended (m_state y)))))"
proof (cases "all_steps_terminal d rid \<and> required_steps_succeeded d rid")
  case True
  let ?r = "r\<lparr>run_state := Run_SUCCEEDED, run_finished_at := Some (clk 0), run_version := run_version r + 1\<rparr>"
  have key: "run_key r = rid" using store_okD(1) [OF st r(1)] by simp
  from fin True r obtain row where
    "update_runs (\<lambda>r. run_key r = rid \<and> run_state r = Run_RUNNING)
         (\<lambda>r. r\<lparr>run_state := Run_SUCCEEDED, run_finished_at := Some (clk 0),
                 run_version := run_version r + 1\<rparr>) d = Inr (Some row, d')"
    by (auto simp: finish_run_if_complete_def bindE_Inr_iff split: option.splits)
  from update_runs_back [OF this st r(1)] key r
  have d': "d' = put_run ?r d" and c: "run_ok ?r" by (auto dest: check_ok)
  have "abs_db d' = (abs_db d)\<lparr>m_runs := (m_runs (abs_db d))(rid \<mapsto> Run_SUCCEEDED)\<rparr>"
    using abs_put(1) [of d ?r] r key by (simp add: d')
  moreover have "\<forall>x y. m_steps (abs_db d) x = Some y \<and> m_run y = rid \<longrightarrow> step_ended (m_state y)"
    using all_steps_terminal_abs [OF st] True by blast
  ultimately show ?thesis using store_ok_put(1) [OF st c] d' by blast
next
  case False
  then have "d' = d" using fin r by (auto simp: finish_run_if_complete_def)
  then show ?thesis using st r by (auto simp: abs_db_def fun_eq_iff intro!: exI [of _ Run_RUNNING])
qed

lemma succeed_attempt_refines:
  assumes ok: "runtime_ok d" and run: "succeed_attempt clk claim receipt result d = Inr (v, d')"
  shows "store_ok d' \<and> m_trans (abs_db d) (abs_db d')"
proof -
  have st: "store_ok d" using ok by (simp add: runtime_ok_def)
  from run obtain r s a where lock:
    "lock_live_claim_rows clk claim (Some Attempt_RUNNING) None d = Inr (r, s, a)"
    by (auto simp: succeed_attempt_def bindE_Inr_iff)
  note own = lock_owned(1) [OF st lock]
  have a_st: "attempt_state a = Attempt_RUNNING"
    using lock_owned(2) [OF st lock] by (simp add: expected_attempt_states_def)
  have s_st: "step_state s = Step_RUNNING" using owned_live [OF ok own] a_st by simp
  let ?a = "a\<lparr>attempt_state := Attempt_SUCCEEDED, result_receipt_id := Some receipt,
                attempt_result_hash := Some result, attempt_finished_at := Some (clk 1)\<rparr>"
  let ?s = "s\<lparr>step_state := Step_SUCCEEDED, current_attempt_id := None,
                step_finished_at := Some (clk 3), step_version := step_version s + 1\<rparr>"
  have f: "find_attempt d (claim_attempt_id claim) = Some a" "find_step d (claim_step_id claim) = Some s"
    "attempt_id a = claim_attempt_id claim" "step_id s = claim_step_id claim"
    using own by (simp_all add: owned_def)
  from run lock obtain row d1 row' d2 d3 w where
    e1: "update_attempts
        (\<lambda>a. attempt_id a = claim_attempt_id claim \<and> attempt_state a = Attempt_RUNNING
              \<and> lease_until a > clk 2)
        (\<lambda>a. a\<lparr>attempt_state := Attempt_SUCCEEDED, result_receipt_id := Some receipt,
                attempt_result_hash := Some result, attempt_finished_at := Some (clk 1)\<rparr>) d
        = Inr (Some row, d1)"
    and e2: "update_steps
        (\<lambda>s. step_id s = claim_step_id claim \<and> step_state s = Step_RUNNING
              \<and> current_attempt_id s = Some (claim_attempt_id claim)
              \<and> current_fence s = claim_fence claim)
        (\<lambda>s. s\<lparr>step_state := Step_SUCCEEDED, current_attempt_id := None,
                step_finished_at := Some (clk 3), step_version := step_version s + 1\<rparr>) d1
        = Inr (Some row', d2)"
    and e3: "release_ready_successors (later 4 clk) (claim_run_id claim) d2 = Inr d3"
    and e4: "finish_run_if_complete (later 5 clk) (claim_run_id claim) d3 = Inr (w, d')"
    by (auto simp: succeed_attempt_def bindE_Inr_iff split: option.splits)
  from update_attempts_back [OF e1 st f(1)] f
  have d1: "d1 = put_attempt ?a d" and c1: "attempt_ok ?a" by (auto dest: check_ok)
  have st1: "store_ok d1" unfolding d1 using st c1 by (rule store_ok_put)
  from update_steps_back [OF e2 st1, of "claim_step_id claim" s] f
  have d2: "d2 = put_step ?s d1" and c2: "step_ok ?s" by (auto simp: d1 dest: check_ok)
  have pb: "store_ok d2" "abs_db d2 = touch (abs_db d) (claim_step_id claim) (abs_step ?s)
      (claim_attempt_id claim) (abs_attempt ?a)"
    using put_both [OF st own, of ?a ?s] c1 c2 f by (simp_all add: d2 d1)
  note rel = release_refines [OF pb(1) e3]
  have r3: "find_run d3 (claim_run_id claim) = Some r" "run_state r = Run_RUNNING"
    using own rel by (simp_all add: owned_def d2 d1)
  from finish_refines [OF conjunct1 [OF rel] r3 e4] obtain r' where
    fin: "store_ok d'" "abs_db d' = (abs_db d3)\<lparr>m_runs := (m_runs (abs_db d3))(claim_run_id claim \<mapsto> r')\<rparr>"
    "r' = Run_RUNNING \<or> (r' = Run_SUCCEEDED \<and> (\<forall>x y. m_steps (abs_db d3) x = Some y
        \<and> m_run y = claim_run_id claim \<longrightarrow> step_ended (m_state y)))" by blast
  have own_abs: "m_run (abs_step s) = claim_run_id claim" using own by (simp add: owned_def)
  have "m_trans (abs_db d) ((abs_db d3)\<lparr>m_runs := (m_runs (abs_db d3))(m_run (abs_step s) \<mapsto> r')\<rparr>)"
  proof (rule m_trans.succeed [where sid = "claim_step_id claim" and aid = "claim_attempt_id claim"
        and a = "abs_attempt a" and closed_m = "abs_db d2"])
    show "abs_db d2 = abs_db d\<lparr>m_steps := (m_steps (abs_db d))(claim_step_id claim \<mapsto>
        (abs_step s)\<lparr>m_state := Step_SUCCEEDED, m_holder := None\<rparr>),
        m_attempts := (m_attempts (abs_db d))(claim_attempt_id claim \<mapsto>
        (abs_attempt a)\<lparr>m_status := Attempt_SUCCEEDED\<rparr>)\<rparr>"
      using pb(2) by (simp add: touch_def abs_step_def abs_attempt_def)
    show "abs_db d3 = (abs_db d2)\<lparr>m_steps := ready_where (\<lambda>x y. m_run y = m_run (abs_step s) \<and>
        m_depends (abs_db d2) (m_run (abs_step s)) x \<and> \<not> m_blocked (abs_db d2) (m_run (abs_step s)) x)
        (m_steps (abs_db d2))\<rparr>"
      using rel own_abs by simp
  qed (use own a_st s_st fin(3) in \<open>auto simp: owned_def\<close>)
  then show ?thesis using fin own_abs by simp
qed

section \<open>Failure and recovery\<close>

definition settled_run_state :: "step_state \<Rightarrow> run_state" where
  "settled_run_state target =
     (if target = Step_WAITING then Run_WAITING
      else if target = Step_FAILED then Run_FAILED else Run_RUNNING)"

lemma settle_refines:
  assumes st: "store_ok d" and r: "find_run d rid = Some r" "run_state r = Run_RUNNING"
    and run: "settle_run now rid target reason d = Inr (Some row, d')"
  shows "store_ok d' \<and> abs_db d' =
    (abs_db d)\<lparr>m_runs := (m_runs (abs_db d))(rid \<mapsto> settled_run_state target)\<rparr>"
proof -
  have key: "run_key r = rid" using store_okD(1) [OF st r(1)] by simp
  have put: "store_ok (put_run r' d) \<and> abs_db (put_run r' d) =
      (abs_db d)\<lparr>m_runs := (m_runs (abs_db d))(rid \<mapsto> run_state r')\<rparr>"
    if "run_update_check r r' = None" "run_key r' = rid" for r'
    using that abs_put(1) [of d r'] r store_ok_put(1) [OF st] check_ok(1) by simp
  consider "target = Step_WAITING" | "target = Step_FAILED" | "target \<noteq> Step_WAITING" "target \<noteq> Step_FAILED"
    by blast
  then show ?thesis
  proof cases
    case 1
    then have e: "update_runs (\<lambda>r. run_key r = rid \<and> run_state r = Run_RUNNING)
          (\<lambda>r. r\<lparr>run_state := Run_WAITING, run_reason := Some ''EXTERNAL_EFFECT_UNKNOWN'',
                  run_version := run_version r + 1\<rparr>) d = Inr (Some row, d')"
      using run by (simp add: settle_run_def)
    from update_runs_back [OF e st r(1)] put key 1 show ?thesis by (auto simp: settled_run_state_def)
  next
    case 2
    then have e: "update_runs (\<lambda>r. run_key r = rid \<and> run_state r = Run_RUNNING)
          (\<lambda>r. r\<lparr>run_state := Run_FAILED, run_reason := Some reason,
                  run_finished_at := Some now, run_version := run_version r + 1\<rparr>) d = Inr (Some row, d')"
      using run by (simp add: settle_run_def)
    from update_runs_back [OF e st r(1)] put key 2 show ?thesis by (auto simp: settled_run_state_def)
  next
    case 3
    then have "d' = d" using run by (simp add: settle_run_def)
    then show ?thesis using st r 3 by (simp add: settled_run_state_def abs_db_def fun_eq_iff)
  qed
qed

text \<open>Closing a claim: the attempt ends, the step is released, the Run settles.\<close>

lemma close_refines:
  assumes ok: "runtime_ok d" and own: "owned d claim r s a"
    and e1: "update_attempts pa fa d = Inr (row, d1)" "\<And>x. pa x \<longleftrightarrow> attempt_id x = claim_attempt_id claim"
      "attempt_id (fa a) = attempt_id a"
      "abs_attempt (fa a) = (abs_attempt a)\<lparr>m_status := ast\<rparr>"
    and e2: "update_steps ps fs d1 = Inr (Some row', d2)" "\<And>x. ps x \<Longrightarrow> step_id x = claim_step_id claim"
      "step_id (fs s) = step_id s"
      "abs_step (fs s) = (abs_step s)\<lparr>m_state := target, m_holder := None\<rparr>"
    and e3: "settle_run now (claim_run_id claim) target reason d2 = Inr (Some row'', d')"
  shows "store_ok d' \<and> abs_db d' =
    (touch (abs_db d) (claim_step_id claim) ((abs_step s)\<lparr>m_state := target, m_holder := None\<rparr>)
      (claim_attempt_id claim) ((abs_attempt a)\<lparr>m_status := ast\<rparr>))
    \<lparr>m_runs := (m_runs (abs_db d))(m_run (abs_step s) \<mapsto> settled_run_state target)\<rparr>"
proof -
  have st: "store_ok d" using ok by (simp add: runtime_ok_def)
  have f: "find_attempt d (claim_attempt_id claim) = Some a" "find_step d (claim_step_id claim) = Some s"
    "attempt_id a = claim_attempt_id claim" "step_id s = claim_step_id claim"
    using own by (simp_all add: owned_def)
  from update_attempts_back [OF e1(1) st f(1)] e1(2,3) f
  have d1: "d1 = put_attempt (fa a) d" and c1: "attempt_ok (fa a)" by (auto dest: check_ok)
  have st1: "store_ok d1" unfolding d1 using st c1 by (rule store_ok_put)
  from update_steps_back [OF e2(1) st1, of "claim_step_id claim" s] e2(2,3) f
  have d2: "d2 = put_step (fs s) d1" and c2: "step_ok (fs s)" by (auto simp: d1 dest: check_ok)
  have pb: "store_ok d2" "abs_db d2 = touch (abs_db d) (claim_step_id claim) (abs_step (fs s))
      (claim_attempt_id claim) (abs_attempt (fa a))"
    using put_both [OF st own, of "fa a" "fs s"] c1 c2 f e1(3) e2(3) by (simp_all add: d2 d1)
  have r2: "find_run d2 (claim_run_id claim) = Some r" "run_state r = Run_RUNNING"
    using own by (simp_all add: owned_def d2 d1)
  have "m_runs (abs_db d2) = m_runs (abs_db d)" by (simp add: pb(2))
  then show ?thesis
    using settle_refines [OF pb(1) r2 e3] e1(4) e2(4) own by (simp add: pb(2) owned_def)
qed

lemma close_trans:
  assumes ok: "runtime_ok d" and own: "owned d claim r s a"
    and pick: "(ast, target) = (Attempt_RECONCILIATION_REQUIRED, Step_WAITING) \<and> attempt_state a = Attempt_RUNNING
      \<or> (ast, target) = (Attempt_FAILED_RETRYABLE, Step_READY) \<and> attempt_state a = Attempt_RUNNING
          \<and> attempt_no a < max_attempts (step_retry (step_plan s))
      \<or> (ast, target) = (Attempt_ABANDONED, Step_READY) \<and> attempt_no a < max_attempts (step_retry (step_plan s))
      \<or> ast \<in> {Attempt_FAILED_TERMINAL, Attempt_ABANDONED} \<and> target = Step_FAILED
          \<and> attempt_state a = Attempt_RUNNING"
  shows "m_trans (abs_db d)
    ((touch (abs_db d) (claim_step_id claim) ((abs_step s)\<lparr>m_state := target, m_holder := None\<rparr>)
      (claim_attempt_id claim) ((abs_attempt a)\<lparr>m_status := ast\<rparr>))
    \<lparr>m_runs := (m_runs (abs_db d))(m_run (abs_step s) \<mapsto> settled_run_state target)\<rparr>)"
proof -
  have f: "m_steps (abs_db d) (claim_step_id claim) = Some (abs_step s)"
    "m_holder (abs_step s) = Some (claim_attempt_id claim)"
    "m_runs (abs_db d) (m_run (abs_step s)) = Some Run_RUNNING"
    "m_attempts (abs_db d) (claim_attempt_id claim) = Some (abs_attempt a)"
    "m_of (abs_attempt a) = claim_step_id claim"
    using own by (auto simp: owned_def)
  have live: "(m_state (abs_step s) = Step_CLAIMED \<and> attempt_state a = Attempt_CLAIMED) \<or>
      (m_state (abs_step s) = Step_RUNNING \<and> attempt_state a = Attempt_RUNNING)"
    using owned_live [OF ok own] by simp
  consider (wait) "ast = Attempt_RECONCILIATION_REQUIRED" "target = Step_WAITING" "attempt_state a = Attempt_RUNNING"
    | (retry) "target = Step_READY" "attempt_no a < max_attempts (step_retry (step_plan s))"
        "(attempt_state a, ast) \<in> {(Attempt_RUNNING, Attempt_FAILED_RETRYABLE),
        (Attempt_RUNNING, Attempt_ABANDONED), (Attempt_CLAIMED, Attempt_ABANDONED)}"
    | (fail) "ast \<in> {Attempt_FAILED_TERMINAL, Attempt_ABANDONED}" "target = Step_FAILED"
        "attempt_state a = Attempt_RUNNING"
    using pick live by auto
  then show ?thesis
  proof cases
    case wait
    then show ?thesis using m_trans.wait_effect [OF f(1,2) _ f(3,4,5)] live
      by (simp add: settled_run_state_def touch_fold)
  next
    case retry
    have "m_trans (abs_db d) (touch (abs_db d) (claim_step_id claim)
        ((abs_step s)\<lparr>m_state := Step_READY, m_holder := None\<rparr>) (claim_attempt_id claim)
        ((abs_attempt a)\<lparr>m_status := ast\<rparr>))"
      unfolding touch_def
      by (rule m_trans.retry [OF f(1,2) _ f(3,4,5)]) (use retry live in auto)
    moreover have "(m_runs (abs_db d))(m_run (abs_step s) \<mapsto> Run_RUNNING) = m_runs (abs_db d)"
      using f(3) by (rule fun_upd_self)
    ultimately show ?thesis using retry(1) by (simp add: settled_run_state_def touch_def)
  next
    case fail
    then show ?thesis using m_trans.fail [OF f(1,2) _ f(3,4,5), of ast] live
      by (simp add: settled_run_state_def touch_fold)
  qed
qed

lemma fail_decision_cases:
  "fail_decision s a code = (ast, target, outcome) \<Longrightarrow>
    (ast, target) = (Attempt_RECONCILIATION_REQUIRED, Step_WAITING) \<or>
    (ast, target) = (Attempt_FAILED_RETRYABLE, Step_READY) \<and> attempt_no a < max_attempts (step_retry (step_plan s)) \<or>
    (ast, target) = (Attempt_FAILED_TERMINAL, Step_FAILED)"
  by (auto simp: fail_decision_def split: if_splits)

lemma fail_attempt_refines:
  assumes ok: "runtime_ok d" and run: "fail_attempt clk claim receipt eclass code d = Inr (v, d')"
  shows "store_ok d' \<and> m_trans (abs_db d) (abs_db d')"
proof -
  have st: "store_ok d" using ok by (simp add: runtime_ok_def)
  from run obtain r s a where lock:
    "lock_live_claim_rows clk claim (Some Attempt_RUNNING) None d = Inr (r, s, a)"
    by (auto simp: fail_attempt_def bindE_Inr_iff)
  note own = lock_owned(1) [OF st lock]
  have a_st: "attempt_state a = Attempt_RUNNING"
    using lock_owned(2) [OF st lock] by (simp add: expected_attempt_states_def)
  obtain ast target outcome where dec: "fail_decision s a code = (ast, target, outcome)"
    by (cases "fail_decision s a code") auto
  from run lock dec obtain row d1 row' d2 row'' where
    e1: "update_attempts (\<lambda>a. attempt_id a = claim_attempt_id claim)
          (\<lambda>a. a\<lparr>attempt_state := ast, error_class := Some eclass,
                  error_code := Some code, result_receipt_id := Some receipt,
                  attempt_finished_at := Some (clk 1)\<rparr>) d = Inr (row, d1)"
    and e2: "update_steps (\<lambda>s. step_id s = claim_step_id claim
                \<and> current_attempt_id s = Some (claim_attempt_id claim)
                \<and> current_fence s = claim_fence claim)
          (if target = Step_READY then
             (\<lambda>s'. s'\<lparr>step_state := Step_READY, current_attempt_id := None,
                     ready_at := Some (clk 2 + ms_us (retry_delay_ms s a)),
                     step_version := step_version s' + 1\<rparr>)
           else
             (\<lambda>s. s\<lparr>step_state := target, current_attempt_id := None,
                     step_reason := Some (if target = Step_WAITING
                       then ''EXTERNAL_EFFECT_UNKNOWN'' else code),
                     step_finished_at := (if target = Step_FAILED then Some (clk 2) else None),
                     step_version := step_version s + 1\<rparr>)) d1 = Inr (Some row', d2)"
    and e3: "settle_run (clk 3) (claim_run_id claim) target code d2 = Inr (Some row'', d')"
    by (auto simp: fail_attempt_def bindE_Inr_iff Let_def)
  have "store_ok d' \<and> abs_db d' =
    (touch (abs_db d) (claim_step_id claim) ((abs_step s)\<lparr>m_state := target, m_holder := None\<rparr>)
      (claim_attempt_id claim) ((abs_attempt a)\<lparr>m_status := ast\<rparr>))
    \<lparr>m_runs := (m_runs (abs_db d))(m_run (abs_step s) \<mapsto> settled_run_state target)\<rparr>"
    by (rule close_refines [OF ok own e1 _ _ _ e2 _ _ _ e3]) (auto simp: abs_attempt_def abs_step_def)
  then show ?thesis
    using close_trans [OF ok own, of ast target] fail_decision_cases [OF dec] a_st by auto
qed

lemma recovery_decision_cases:
  "recovery_decision_of s a = (ast, target, outcome) \<Longrightarrow>
    (ast, target) = (Attempt_RECONCILIATION_REQUIRED, Step_WAITING) \<and> attempt_state a = Attempt_RUNNING \<or>
    (ast, target) = (Attempt_ABANDONED, Step_READY) \<and> attempt_no a < max_attempts (step_retry (step_plan s)) \<or>
    (ast, target) = (Attempt_ABANDONED, Step_FAILED) \<and> attempt_no a \<ge> max_attempts (step_retry (step_plan s))"
  by (auto simp: recovery_decision_of_def split: if_splits)

text \<open>The claim an attempt row stands for.\<close>

definition claim_of :: "run_row \<Rightarrow> step_row \<Rightarrow> attempt_row \<Rightarrow> attempt_claim" where
  "claim_of r s a =
     \<lparr>claim_attempt_id = attempt_id a, claim_run_id = run_key r, claim_step_id = step_id s,
      claim_step_key = step_key (step_plan s), claim_attempt_no = attempt_no a,
      claim_fence = attempt_fence a, claim_owner = lease_owner a, claim_lease_until = lease_until a\<rparr>"

lemma owned_claim_of:
  assumes "store_ok d" "claim_row d aid = Some (r, s, a)" "run_state r = Run_RUNNING"
    "current_attempt_id s = Some aid" "current_fence s = attempt_fence a"
  shows "owned d (claim_of r s a) r s a" "attempt_id a = aid"
  using assms store_okD [OF assms(1)] by (auto simp: owned_def claim_of_def claim_row_Some)

lemma step_update_edge:
  "step_update_check as s s' = None \<Longrightarrow> (step_state s, step_state s') \<in> set sql_step_edges"
  by (simp add: step_update_check_def guard_runtime_step_update_def split: if_splits)

lemma recover_expired_attempt_refines:
  assumes ok: "runtime_ok d"
    and run: "recover_expired_attempt clk admit aid receipt d = Inr (v, d')"
  shows "store_ok d' \<and> (if v = None then d' = d else m_trans (abs_db d) (abs_db d'))"
proof (cases v)
  case None
  then show ?thesis using run ok
    by (auto simp: recover_expired_attempt_def runtime_ok_def bindE_Inr_iff Let_def thenE_Inr_iff
        split: option.splits if_splits prod.splits)
next
  case (Some dec)
  have st: "store_ok d" using ok by (simp add: runtime_ok_def)
  from run Some obtain r s a where row: "claim_row d aid = Some (r, s, a)"
    and live: "run_state r = Run_RUNNING" "attempt_live (attempt_state a)"
      "current_attempt_id s = Some aid" "current_fence s = attempt_fence a"
    and body: "\<not> lease_until a > clk 0"
    by (auto simp: recover_expired_attempt_def thenE_Inr_iff split: option.splits if_splits prod.splits)
  note own = owned_claim_of [OF st row live(1,3,4)]
  let ?c = "claim_of r s a"
  obtain ast target outcome where dec: "recovery_decision_of s a = (ast, target, outcome)"
    by (cases "recovery_decision_of s a") auto
  from run Some row live body dec obtain row1 d1 row' d2 row'' where
    e1: "update_attempts (\<lambda>x. attempt_id x = aid)
               (\<lambda>x. x\<lparr>attempt_state := ast, error_class := Some ''LEASE'',
                       error_code := Some ''LEASE_EXPIRED'', result_receipt_id := Some receipt,
                       attempt_finished_at := Some (clk 1)\<rparr>) d = Inr (row1, d1)"
    and e2: "update_steps (\<lambda>x. step_id x = step_id s)
               (if target = Step_READY then
                  (\<lambda>x. x\<lparr>step_state := Step_READY, current_attempt_id := None,
                          ready_at := Some (clk 2), step_version := step_version x + 1\<rparr>)
                else if target = Step_WAITING then
                  (\<lambda>x. x\<lparr>step_state := Step_WAITING, current_attempt_id := None,
                          step_reason := Some ''EXTERNAL_EFFECT_UNKNOWN'',
                          step_version := step_version x + 1\<rparr>)
                else
                  (\<lambda>x. x\<lparr>step_state := Step_FAILED, current_attempt_id := None,
                          step_reason := Some ''RETRY_BUDGET_EXHAUSTED'',
                          step_finished_at := Some (clk 2),
                          step_version := step_version x + 1\<rparr>)) d1 = Inr (Some row', d2)"
    and e3: "settle_run (clk 3) (run_key r) target ''RETRY_BUDGET_EXHAUSTED'' d2 = Inr (Some row'', d')"
    by (auto simp: recover_expired_attempt_def bindE_Inr_iff Let_def thenE_Inr_iff claim_row_Some
        split: option.splits)
  have c: "claim_attempt_id ?c = aid" "claim_step_id ?c = step_id s" "claim_run_id ?c = run_key r"
    using own(2) by (simp_all add: claim_of_def)
  have target: "target = Step_READY \<or> target = Step_WAITING \<or> target = Step_FAILED"
    using recovery_decision_cases [OF dec] by auto
  have res: "store_ok d' \<and> abs_db d' =
    (touch (abs_db d) (claim_step_id ?c) ((abs_step s)\<lparr>m_state := target, m_holder := None\<rparr>)
      (claim_attempt_id ?c) ((abs_attempt a)\<lparr>m_status := ast\<rparr>))
    \<lparr>m_runs := (m_runs (abs_db d))(m_run (abs_step s) \<mapsto> settled_run_state target)\<rparr>"
    by (rule close_refines [OF ok own(1) e1 _ _ _ e2 _ _ _ e3 [folded c(3)]])
      (use target in \<open>auto simp: c abs_attempt_def abs_step_def\<close>)
  have "attempt_state a = Attempt_RUNNING" if t: "target = Step_FAILED"
  proof -
    have f: "find_attempt d aid = Some a" "find_step d (step_id s) = Some s"
      using own(1) c by (simp_all add: owned_def)
    from update_attempts_back [OF e1 st f(1)] own(2)
    have d1: "store_ok d1" "steps d1 = steps d" by (auto simp: store_ok_put [OF st] check_ok)
    from update_steps_back [OF e2 d1(1), of "step_id s" s] f d1 t
    have "(step_state s, Step_FAILED) \<in> set sql_step_edges" by (auto dest: step_update_edge)
    then show ?thesis using owned_live [OF ok own(1)] by (auto simp: sql_step_edges_def)
  qed
  then show ?thesis
    using res close_trans [OF ok own(1), of ast target] recovery_decision_cases [OF dec] Some by auto
qed

section \<open>Resuming and starting\<close>

lemma resume_waiting_step_refines:
  assumes ok: "runtime_ok d" and run: "resume_waiting_step clk rid sid d = Inr (v, d')"
  shows "store_ok d' \<and> m_trans (abs_db d) (abs_db d')"
proof -
  have st: "store_ok d" using ok by (simp add: runtime_ok_def)
  from run obtain r s where r: "find_run d rid = Some r" and s: "find_step d sid = Some s"
    and w: "step_run s = rid" "run_state r = Run_WAITING" "step_state s = Step_WAITING"
    by (auto simp: resume_waiting_step_def split: option.splits if_splits)
  let ?s = "s\<lparr>step_state := Step_READY, ready_at := Some (clk 0), step_reason := None,
                     step_version := step_version s + 1\<rparr>"
  let ?r = "r\<lparr>run_state := Run_RUNNING, run_reason := None, run_version := run_version r + 1\<rparr>"
  from run r s w obtain row d1 row' where
    e1: "update_steps (\<lambda>x. step_id x = sid)
             (\<lambda>x. x\<lparr>step_state := Step_READY, ready_at := Some (clk 0), step_reason := None,
                     step_version := step_version x + 1\<rparr>) d = Inr (Some row, d1)"
    and e2: "update_runs (\<lambda>x. run_key x = rid)
             (\<lambda>x. x\<lparr>run_state := Run_RUNNING, run_reason := None,
                     run_version := run_version x + 1\<rparr>) d1 = Inr (Some row', d')"
    by (auto simp: resume_waiting_step_def bindE_Inr_iff Let_def split: option.splits)
  have k: "step_id s = sid" "run_key r = rid" using store_okD [OF st] r s by blast+
  from update_steps_back [OF e1 st s] k
  have d1: "d1 = put_step ?s d" and c1: "step_ok ?s" by (auto dest: check_ok)
  have st1: "store_ok d1" unfolding d1 using st c1 by (rule store_ok_put)
  from update_runs_back [OF e2 st1, of rid r] r k
  have d': "d' = put_run ?r d1" and c2: "run_ok ?r" by (auto simp: d1 dest: check_ok)
  have "abs_db d' = (abs_db d)\<lparr>m_runs := (m_runs (abs_db d))(m_run (abs_step s) \<mapsto> Run_RUNNING),
      m_steps := (m_steps (abs_db d))(sid \<mapsto> (abs_step s)\<lparr>m_state := Step_READY\<rparr>)\<rparr>"
    using abs_put(1) [of d1 ?r] abs_put(2) [of d ?s] r s k w
    by (simp add: d' d1 abs_step_def)
  moreover have "m_trans (abs_db d) \<dots>"
    using r s w by (intro m_trans.resume) auto
  ultimately show ?thesis using store_ok_put(1) [OF st1 c2] by (simp add: d')
qed

lemma start_run_refines:
  assumes ok: "runtime_ok d" and run: "start_run clk rid d = Inr (v, d')"
  shows "store_ok d' \<and> m_trans (abs_db d) (abs_db d')"
proof -
  have st: "store_ok d" using ok by (simp add: runtime_ok_def)
  from run obtain r where r: "find_run d rid = Some r" "run_state r = Run_QUEUED"
    by (auto simp: start_run_def bindE_Inr_iff split: if_splits)
  let ?r = "r\<lparr>run_state := Run_RUNNING, run_started_at := Some (clk 0), run_version := run_version r + 1\<rparr>"
  from run r obtain row d1 row' where
    e1: "update_runs (\<lambda>r. run_key r = rid \<and> run_state r = Run_QUEUED)
        (\<lambda>r. r\<lparr>run_state := Run_RUNNING, run_started_at := Some (clk 0),
                run_version := run_version r + 1\<rparr>) d = Inr (Some row, d1)"
    and e2: "update_steps
        (\<lambda>s. step_run s = rid \<and> step_state s = Step_PENDING \<and> \<not> has_dependency d1 s)
        (make_ready (clk 1)) d1 = Inr (row', d')"
    by (auto simp: start_run_def bindE_Inr_iff)
  have k: "run_key r = rid" using store_okD [OF st] r by blast
  from update_runs_back [OF e1 st r(1)] k
  have d1: "d1 = put_run ?r d" and c1: "run_ok ?r" by (auto dest: check_ok)
  have st1: "store_ok d1" unfolding d1 using st c1 by (rule store_ok_put)
  have q: "step_run s = rid \<Longrightarrow> (\<not> has_dependency d1 s) \<longleftrightarrow> \<not> m_depends (abs_db d) rid (step_id s)" for s
    by (simp add: has_dependency_abs m_depends_def d1)
  have abs1: "abs_db d1 = (abs_db d)\<lparr>m_runs := (m_runs (abs_db d))(rid \<mapsto> Run_RUNNING)\<rparr>"
    using abs_put(1) [of d ?r] r k by (simp add: d1)
  from ready_update [OF st1 e2 q]
  have "store_ok d'" "abs_db d' = (abs_db d)\<lparr>m_runs := (m_runs (abs_db d))(rid \<mapsto> Run_RUNNING),
      m_steps := ready_where (\<lambda>x y. m_run y = rid \<and> \<not> m_depends (abs_db d) rid x) (m_steps (abs_db d))\<rparr>"
    by (simp_all add: abs1)
  then show ?thesis using r m_trans.start_run [of "abs_db d" rid] by simp
qed

section \<open>Claiming\<close>

lemma foldr_max_eq:
  fixes n :: int
  assumes "\<And>x. x \<in> set xs \<Longrightarrow> x \<le> n" "0 \<le> n" "n = 0 \<or> n \<in> set xs"
  shows "foldr max xs 0 = n"
proof -
  have le: "foldr max xs 0 \<le> n" using assms(1,2) by (induction xs) auto
  have "x \<le> foldr max xs 0" if "x \<in> set xs" for x using that by (induction xs) auto
  moreover have "0 \<le> foldr max xs (0::int)" by (induction xs) auto
  ultimately show ?thesis using le assms(3) by force
qed

text \<open>Attempt numbers and fences advance together, so the fence counts the attempts.\<close>

lemma prior_attempts_fence:
  assumes ok: "runtime_ok d" and s: "find_step d sid = Some s"
  shows "prior_attempts d sid = current_fence s"
  unfolding prior_attempts_def
proof (rule foldr_max_eq)
  have tk: "token_inv (abs_db d)" and st: "store_ok d" using ok by (auto simp: runtime_ok_def m_inv_def)
  have ss: "m_steps (abs_db d) sid = Some (abs_step s)" using s by simp
  show nn: "0 \<le> current_fence s" using token_invD(1) [OF tk ss] by simp
  show "x \<le> current_fence s"
    if "x \<in> set (map attempt_no (filter (\<lambda>a. attempt_step a = sid) (attempts d)))" for x
  proof -
    from that obtain a where "a \<in> set (attempts d)" "attempt_step a = sid" "x = attempt_no a" by auto
    then have "m_attempts (abs_db d) (attempt_id a) = Some (abs_attempt a)"
      using store_ok_in(3) [OF st] by simp
    from token_invD(3) [OF tk this] \<open>attempt_step a = sid\<close> \<open>x = attempt_no a\<close> s
    show ?thesis by auto
  qed
  show "current_fence s = 0 \<or>
      current_fence s \<in> set (map attempt_no (filter (\<lambda>a. attempt_step a = sid) (attempts d)))"
  proof (cases "current_fence s = 0")
    case False
    then have "1 \<le> current_fence s" using nn by simp
    with token_invD(2) [OF tk ss, of "current_fence s"] obtain aid b
      where b: "m_attempts (abs_db d) aid = Some b" "m_of b = sid" "m_token b = current_fence s" by auto
    then obtain a where a: "find_attempt d aid = Some a" "b = abs_attempt a" by auto
    have "attempt_no a = current_fence s" using token_invD(3) [OF tk b(1)] b(3) a(2) by simp
    moreover have "a \<in> set (attempts d)" using a(1) attempt_table.row_at_Some_in by metis
    ultimately show ?thesis using a(2) b(2) by (auto intro!: image_eqI [of _ _ a])
  qed simp
qed

lemma m_busy_abs:
  assumes "store_ok d"
  shows "m_busy (abs_db d) rid \<longleftrightarrow> has_live_step d rid"
proof
  assume "m_busy (abs_db d) rid"
  then obtain sid s where "find_step d sid = Some s" "step_run s = rid" "step_live (step_state s)"
    by (auto simp: m_busy_def)
  then show "has_live_step d rid"
    unfolding has_live_step_def using step_table.row_at_Some_in by metis
next
  assume "has_live_step d rid"
  then obtain s where "s \<in> set (steps d)" "step_run s = rid" "step_live (step_state s)"
    by (auto simp: has_live_step_def)
  then show "m_busy (abs_db d) rid" unfolding m_busy_def
    using store_ok_in(2) [OF assms] by (auto intro!: exI [of _ "step_id s"] exI [of _ "abs_step s"])
qed

lemma insert_attempt_refines:
  assumes st: "store_ok d" and ins: "insert_attempt_row a d = Inr d'"
  shows "store_ok d'" "find_attempt d (attempt_id a) = None"
    "d' = d\<lparr>attempts := attempts d @ [a]\<rparr>"
    "find_attempt d' = (find_attempt d)(attempt_id a \<mapsto> a)"
proof -
  from ins have chk: "attempt_ok a" and fresh: "attempt_id a \<notin> attempt_id ` set (attempts d)"
    and d': "d' = d\<lparr>attempts := attempts d @ [a]\<rparr>"
    by (auto simp: insert_attempt_row_def thenE_Inr_iff first_violation_append attempt_ok_def split: if_splits)
  show "d' = d\<lparr>attempts := attempts d @ [a]\<rparr>" by (rule d')
  show none: "find_attempt d (attempt_id a) = None"
    using fresh attempt_table.row_at_None_iff by metis
  show "store_ok d'" using st chk fresh by (auto simp: store_ok_def d')
  show "find_attempt d' = (find_attempt d)(attempt_id a \<mapsto> a)"
    using none by (auto simp: d' fun_eq_iff attempt_table.row_at_append_fresh split: option.split)
qed

lemma joined_steps_in:
  assumes "store_ok d"
  shows "(r, s) \<in> set (joined_steps d) \<longleftrightarrow> find_step d (step_id s) = Some s \<and> find_run d (step_run s) = Some r"
proof -
  have "(r, s) \<in> set (joined_steps d) \<longleftrightarrow> s \<in> set (steps d) \<and> r \<in> set (runs d) \<and> run_key r = step_run s"
    by (auto simp: joined_steps_def)
  also have "\<dots> \<longleftrightarrow> find_step d (step_id s) = Some s \<and> find_run d (step_run s) = Some r"
    using store_ok_in(1) [OF assms, of r] store_ok_in(2) [OF assms, of s]
      store_okD(1) [OF assms, of "step_run s" r] by auto
  finally show ?thesis .
qed

lemma insert_claim_refines:
  assumes st: "store_ok d" and s: "find_step d sid = Some s" "step_state s = Step_READY"
    and ins: "insert_attempt_row a d = Inr d1"
    and upd: "update_steps (\<lambda>x. step_id x = sid \<and> step_state x = Step_READY)
      (claim_step aid fence) d1 = Inr (row, d2)"
  shows "store_ok d2 \<and> find_attempt d (attempt_id a) = None \<and> runs d2 = runs d
    \<and> dependencies d2 = dependencies d
    \<and> find_step d2 = (find_step d)(sid \<mapsto> claim_step aid fence s)
    \<and> find_attempt d2 = (find_attempt d)(attempt_id a \<mapsto> a)"
proof -
  note i = insert_attempt_refines [OF st ins]
  have k: "step_id s = sid" using store_okD(2) [OF st s(1)] by simp
  have s1: "find_step d1 sid = Some s" using s(1) by (simp add: i(3))
  have key: "step_id (claim_step aid fence s) = sid" using k by (simp add: claim_step_def)
  from update_steps_back [OF upd i(1) s1 _ key] s(2) k
  have d2: "d2 = put_step (claim_step aid fence s) d1"
    and c: "step_ok (claim_step aid fence s)" by (auto dest: check_ok)
  show ?thesis
    using store_ok_put(2) [OF i(1) c] i(2,4) find_put(2) [of d1 "claim_step aid fence s"] s1 key
    by (simp add: d2) (simp add: i(3) put_step_def)
qed

lemma claim_next_refines:
  assumes ok: "runtime_ok d"
    and run: "claim_next clk admit locked aid rid worker lease sid d = Inr (v, d')"
  shows "store_ok d' \<and> (if v = None then d' = d else m_trans (abs_db d) (abs_db d'))"
proof -
  have st: "store_ok d" using ok by (simp add: runtime_ok_def)
  let ?cands = "filter (\<lambda>(r, s). claimable clk rid sid d s r \<and> \<not> locked (run_key r) (step_id s)) (joined_steps d)"
  show ?thesis
  proof (cases "first_by claim_order ?cands")
    case None
    then show ?thesis using run st by (auto simp: claim_next_def bindE_Inr_iff thenE_Inr_iff)
  next
    case (Some rs)
    obtain r s where rs: "rs = (r, s)" by (cases rs)
    from Some rs have "(r, s) \<in> set ?cands" by (blast dest: first_by_Some)
    then have cl: "claimable clk rid sid d s r" and j: "(r, s) \<in> set (joined_steps d)" by auto
    from j have f: "find_step d (step_id s) = Some s" "find_run d (step_run s) = Some r"
      by (simp_all add: joined_steps_in [OF st])
    have rk: "run_key r = step_run s" using store_okD(1) [OF st f(2)] by simp
    from run Some rs obtain ms d1 row where
      e1: "insert_attempt_row (new_attempt (later 2 clk) aid s (prior_attempts d (step_id s) + 1) worker (ms_us ms)) d = Inr d1"
      and e2: "update_steps (\<lambda>x. step_id x = step_id s \<and> step_state x = Step_READY)
                   (claim_step aid (current_fence s + 1)) d1 = Inr (row, d')"
      and room: "prior_attempts d (step_id s) + 1 \<le> max_attempts (step_retry (step_plan s))"
      and v: "v \<noteq> None"
      by (auto simp: claim_next_def bindE_Inr_iff thenE_Inr_iff Let_def split: if_splits)
    have c: "step_state s = Step_READY" "run_state r = Run_RUNNING" "\<not> has_live_step d (step_run s)"
      "\<not> blocked_by_dependency d s"
      using cl rk by (simp_all add: claimable_def)
    note i = insert_claim_refines [OF st f(1) c(1) e1 e2]
    let ?a = "new_attempt (later 2 clk) aid s (current_fence s + 1) worker (ms_us ms)"
    have no: "prior_attempts d (step_id s) = current_fence s" by (rule prior_attempts_fence [OF ok f(1)])
    have "abs_db d' = (abs_db d)\<lparr>m_steps := (m_steps (abs_db d))(step_id s \<mapsto>
        (abs_step s)\<lparr>m_state := Step_CLAIMED, m_fence := m_fence (abs_step s) + 1, m_holder := Some aid\<rparr>),
        m_attempts := (m_attempts (abs_db d))(aid \<mapsto>
          \<lparr>m_of = step_id s, m_no = m_fence (abs_step s) + 1, m_token = m_fence (abs_step s) + 1,
           m_status = Attempt_CLAIMED, m_lease = lease_until ?a\<rparr>)\<rparr>"
      using i no by (simp add: abs_db_def fun_eq_iff abs_step_def abs_attempt_def claim_step_def new_attempt_def)
    moreover have "m_trans (abs_db d) \<dots>"
      using f c i no room
      by (intro m_trans.claim) (auto simp: m_busy_abs [OF st] blocked_abs [OF st] new_attempt_def)
    ultimately have "m_trans (abs_db d) (abs_db d')" by simp
    with i v show ?thesis by auto
  qed
qed

section \<open>Deadline expiry\<close>

text \<open>Single-row statements of a known row, as functions on the lookups.\<close>

lemma step_statement:
  assumes "update_steps p f d = Inr (row, d')" "store_ok d" "find_step d k = Some s" "p s"
    "\<And>x. p x \<Longrightarrow> step_id x = k" "step_id (f s) = k"
  shows "store_ok d' \<and> runs d' = runs d \<and> attempts d' = attempts d \<and> dependencies d' = dependencies d
    \<and> find_step d' = (find_step d)(k \<mapsto> f s) \<and> row = Some (f s)"
proof -
  from update_steps_back [OF assms(1,2,3,5,6)] assms(4)
  have "d' = put_step (f s) d" "step_ok (f s)" "row = Some (f s)" by (auto dest: check_ok)
  then show ?thesis using store_ok_put(2) [OF assms(2)] find_put(2) [of d "f s"] assms(3,6) by simp
qed

lemma attempt_statement:
  assumes "update_attempts p f d = Inr (row, d')" "store_ok d" "find_attempt d k = Some a" "p a"
    "\<And>x. p x \<Longrightarrow> attempt_id x = k" "attempt_id (f a) = k"
  shows "store_ok d' \<and> runs d' = runs d \<and> steps d' = steps d \<and> dependencies d' = dependencies d
    \<and> find_attempt d' = (find_attempt d)(k \<mapsto> f a) \<and> row = Some (f a)"
proof -
  from update_attempts_back [OF assms(1,2,3,5,6)] assms(4)
  have "d' = put_attempt (f a) d" "attempt_ok (f a)" "row = Some (f a)" by (auto dest: check_ok)
  then show ?thesis using store_ok_put(3) [OF assms(2)] find_put(3) [of d "f a"] assms(3,6) by simp
qed

lemma run_statement:
  assumes "update_runs p f d = Inr (row, d')" "store_ok d" "find_run d k = Some r" "p r"
    "\<And>x. p x \<Longrightarrow> run_key x = k" "run_key (f r) = k"
  shows "store_ok d' \<and> steps d' = steps d \<and> attempts d' = attempts d \<and> dependencies d' = dependencies d
    \<and> find_run d' = (find_run d)(k \<mapsto> f r) \<and> row = Some (f r)"
proof -
  from update_runs_back [OF assms(1,2,3,5,6)] assms(4)
  have "d' = put_run (f r) d" "run_ok (f r)" "row = Some (f r)" by (auto dest: check_ok)
  then show ?thesis using store_ok_put(1) [OF assms(2)] find_put(1) [of d "f r"] assms(3,6) by simp
qed

lemma run_and_fail:
  assumes st: "store_ok d" and s: "find_step d sid = Some s" "step_state s = Step_CLAIMED"
      "current_attempt_id s = Some aid" "current_fence s = fence"
    and a: "find_attempt d aid = Some a" "attempt_state a = Attempt_CLAIMED"
    and e1: "update_attempts (\<lambda>a. attempt_id a = aid \<and> attempt_state a = Attempt_CLAIMED)
               (\<lambda>a. a\<lparr>attempt_state := Attempt_RUNNING, attempt_started_at := Some t1\<rparr>) d
               = Inr (row1, d1)"
    and e2: "update_steps
               (\<lambda>x. step_id x = sid \<and> step_state x = Step_CLAIMED
                     \<and> current_attempt_id x = Some aid \<and> current_fence x = fence)
               (\<lambda>x. x\<lparr>step_state := Step_RUNNING, step_started_at := Some t2,
                       step_version := step_version x + 1\<rparr>) d1 = Inr (row2, d2)"
    and e3: "update_attempts (\<lambda>a. attempt_id a = aid \<and> attempt_state a = Attempt_RUNNING)
               (\<lambda>a. a\<lparr>attempt_state := Attempt_FAILED_TERMINAL, error_class := ec,
                       error_code := ecode, result_receipt_id := rcp,
                       attempt_finished_at := Some t3\<rparr>) d2 = Inr (row3, d3)"
    and e4: "update_steps
               (\<lambda>x. step_id x = sid \<and> step_state x = Step_RUNNING
                     \<and> current_attempt_id x = Some aid \<and> current_fence x = fence)
               (\<lambda>x. x\<lparr>step_state := Step_FAILED, current_attempt_id := None,
                       step_reason := reason, step_finished_at := Some t4,
                       step_version := step_version x + 1\<rparr>) d3 = Inr (row4, d4)"
  shows "store_ok d4 \<and> runs d4 = runs d \<and> dependencies d4 = dependencies d \<and>
    (\<lambda>k. map_option abs_step (find_step d4 k)) = (\<lambda>k. map_option abs_step (find_step d k))(sid \<mapsto>
       (abs_step s)\<lparr>m_state := Step_FAILED, m_holder := None\<rparr>) \<and>
    (\<lambda>k. map_option abs_attempt (find_attempt d4 k)) =
      (\<lambda>k. map_option abs_attempt (find_attempt d k))(aid \<mapsto>
       (abs_attempt a)\<lparr>m_status := Attempt_FAILED_TERMINAL\<rparr>)"
proof -
  have k: "step_id s = sid" "attempt_id a = aid" using store_okD [OF st] s(1) a(1) by blast+
  let ?a1 = "a\<lparr>attempt_state := Attempt_RUNNING, attempt_started_at := Some t1\<rparr>"
  let ?s1 = "s\<lparr>step_state := Step_RUNNING, step_started_at := Some t2, step_version := step_version s + 1\<rparr>"
  have i1: "store_ok d1" "runs d1 = runs d" "steps d1 = steps d" "dependencies d1 = dependencies d"
    "find_attempt d1 = (find_attempt d)(aid \<mapsto> ?a1)"
    using attempt_statement [OF e1 st a(1)] a k by simp_all
  have s1: "find_step d1 sid = Some s" using i1 s(1) by simp
  have i2: "store_ok d2" "runs d2 = runs d1" "attempts d2 = attempts d1" "dependencies d2 = dependencies d1"
    "find_step d2 = (find_step d1)(sid \<mapsto> ?s1)"
    using step_statement [OF e2 i1(1) s1] s k by simp_all
  have a2: "find_attempt d2 aid = Some ?a1" using i1 i2 by simp
  let ?a3 = "?a1\<lparr>attempt_state := Attempt_FAILED_TERMINAL, error_class := ec, error_code := ecode,
    result_receipt_id := rcp, attempt_finished_at := Some t3\<rparr>"
  let ?s4 = "?s1\<lparr>step_state := Step_FAILED, current_attempt_id := None, step_reason := reason,
    step_finished_at := Some t4, step_version := step_version ?s1 + 1\<rparr>"
  have i3: "store_ok d3" "runs d3 = runs d2" "steps d3 = steps d2" "dependencies d3 = dependencies d2"
    "find_attempt d3 = (find_attempt d2)(aid \<mapsto> ?a3)"
    using attempt_statement [OF e3 i2(1) a2] k by simp_all
  have s3: "find_step d3 sid = Some ?s1" using i2 i3 by simp
  have i4: "store_ok d4" "runs d4 = runs d3" "attempts d4 = attempts d3" "dependencies d4 = dependencies d3"
    "find_step d4 = (find_step d3)(sid \<mapsto> ?s4)"
    using step_statement [OF e4 i3(1) s3] s k by simp_all
  have abs: "abs_attempt ?a3 = (abs_attempt a)\<lparr>m_status := Attempt_FAILED_TERMINAL\<rparr>"
    "abs_step ?s4 = (abs_step s)\<lparr>m_state := Step_FAILED, m_holder := None\<rparr>"
    by (simp_all add: abs_attempt_def abs_step_def)
  have "find_step d4 = (find_step d)(sid \<mapsto> ?s4)" "find_attempt d4 = (find_attempt d)(aid \<mapsto> ?a3)"
    using i1 i2 i3 i4 by simp_all
  then show ?thesis using abs i1 i2 i3 i4 by (simp add: fun_eq_iff)
qed

lemma ready_pending_step_back:
  assumes st: "store_ok d" and s: "find_step d sid = Some s" "step_state s \<in> {Step_PENDING, Step_READY}"
    and e: "ready_pending_step now s d = Inr d1"
  obtains s1 where "store_ok d1 \<and> runs d1 = runs d \<and> attempts d1 = attempts d
      \<and> dependencies d1 = dependencies d \<and> find_step d1 = (find_step d)(sid \<mapsto> s1)"
    "step_state s1 = Step_READY" "abs_step s1 = (abs_step s)\<lparr>m_state := Step_READY\<rparr>"
proof (cases "step_state s = Step_PENDING")
  case True
  have k: "step_id s = sid" using store_okD(2) [OF st s(1)] by simp
  from True e obtain row where "update_steps (\<lambda>x. step_id x = sid \<and> step_state x = Step_PENDING)
      (make_ready now) d = Inr (row, d1)"
    by (auto simp: ready_pending_step_def bindE_Inr_iff k split: if_splits)
  from step_statement [OF this st s(1)] True k
  show ?thesis by (intro that [of "make_ready now s"]) (auto simp: make_ready_def abs_step_def)
next
  case False
  then show ?thesis using e st s
    by (intro that [of s]) (auto simp: ready_pending_step_def abs_step_def fun_upd_idem)
qed

lemma expire_step_deadline_back:
  assumes st: "store_ok d"
    and run: "expire_step_deadline clk admit sid aid receipt owner d = Inr (Some dec, d')"
    and s: "find_step d sid = Some s" and r: "find_run d (step_run s) = Some r"
  obtains d7 row2 where
    "deadline_expired clk d s r"
    "prior_attempts d sid + 1 \<le> max_attempts (step_retry (step_plan s))"
    "find_attempt d aid = None"
    "store_ok d7 \<and> runs d7 = runs d \<and> dependencies d7 = dependencies d \<and>
      (\<lambda>k. map_option abs_step (find_step d7 k)) = (\<lambda>k. map_option abs_step (find_step d k))(sid \<mapsto>
         (abs_step s)\<lparr>m_state := Step_FAILED, m_fence := current_fence s + 1, m_holder := None\<rparr>) \<and>
      (\<lambda>k. map_option abs_attempt (find_attempt d7 k)) =
        (\<lambda>k. map_option abs_attempt (find_attempt d k))(aid \<mapsto>
         \<lparr>m_of = sid, m_no = prior_attempts d sid + 1, m_token = current_fence s + 1,
          m_status = Attempt_FAILED_TERMINAL, m_lease = clk 3 + 1000000\<rparr>)"
    "update_runs (\<lambda>x. run_key x = step_run s \<and> run_state x = Run_RUNNING)
       (\<lambda>x. x\<lparr>run_state := Run_FAILED, run_reason := Some ''DEADLINE_EXHAUSTED'',
               run_finished_at := Some (clk 10), run_version := run_version x + 1\<rparr>) d7
       = Inr (row2, d')"
proof -
  let ?no = "prior_attempts d sid + 1" and ?fence = "current_fence s + 1"
  let ?a = "new_attempt (later 2 clk) aid s ?no owner 1000000"
  have k: "step_id s = sid" using store_okD(2) [OF st s] by simp
  from run s r have ex: "deadline_expired clk d s r"
    by (auto simp: expire_step_deadline_def thenE_Inr_iff split: if_splits)
  from run s r ex obtain d1 d2 row3 d3 row4 d4 row5 d5 row6 d6 row7 d7 row8 where
    room: "?no \<le> max_attempts (step_retry (step_plan s))"
    and e1: "ready_pending_step (clk 1) s d = Inr d1" and e2: "insert_attempt_row ?a d1 = Inr d2"
    and e3: "update_steps (\<lambda>x. step_id x = sid \<and> step_state x = Step_READY)
               (claim_step aid ?fence) d2 = Inr (row3, d3)"
    and e4: "update_attempts (\<lambda>a. attempt_id a = aid \<and> attempt_state a = Attempt_CLAIMED)
               (\<lambda>a. a\<lparr>attempt_state := Attempt_RUNNING, attempt_started_at := Some (clk 6)\<rparr>) d3
               = Inr (row4, d4)"
    and e5: "update_steps
               (\<lambda>x. step_id x = sid \<and> step_state x = Step_CLAIMED
                     \<and> current_attempt_id x = Some aid \<and> current_fence x = ?fence)
               (\<lambda>x. x\<lparr>step_state := Step_RUNNING, step_started_at := Some (clk 7),
                       step_version := step_version x + 1\<rparr>) d4 = Inr (row5, d5)"
    and e6: "update_attempts (\<lambda>a. attempt_id a = aid \<and> attempt_state a = Attempt_RUNNING)
               (\<lambda>a. a\<lparr>attempt_state := Attempt_FAILED_TERMINAL, error_class := Some ''RUNTIME'',
                       error_code := Some ''DEADLINE_EXHAUSTED'',
                       result_receipt_id := Some receipt,
                       attempt_finished_at := Some (clk 8)\<rparr>) d5 = Inr (row6, d6)"
    and e7: "update_steps
               (\<lambda>x. step_id x = sid \<and> step_state x = Step_RUNNING
                     \<and> current_attempt_id x = Some aid \<and> current_fence x = ?fence)
               (\<lambda>x. x\<lparr>step_state := Step_FAILED, current_attempt_id := None,
                       step_reason := Some ''DEADLINE_EXHAUSTED'',
                       step_finished_at := Some (clk 9),
                       step_version := step_version x + 1\<rparr>) d6 = Inr (row7, d7)"
    and e8: "update_runs (\<lambda>x. run_key x = step_run s \<and> run_state x = Run_RUNNING)
               (\<lambda>x. x\<lparr>run_state := Run_FAILED, run_reason := Some ''DEADLINE_EXHAUSTED'',
                       run_finished_at := Some (clk 10), run_version := run_version x + 1\<rparr>) d7
               = Inr (row8, d')"
    by (auto simp: expire_step_deadline_def bindE_Inr_iff thenE_Inr_iff Let_def simp del: thenE_guardE)
  have x: "step_state s \<in> {Step_PENDING, Step_READY}" using ex by (simp add: deadline_expired_def)
  obtain s1 where s1: "store_ok d1 \<and> runs d1 = runs d \<and> attempts d1 = attempts d
      \<and> dependencies d1 = dependencies d \<and> find_step d1 = (find_step d)(sid \<mapsto> s1)"
    "step_state s1 = Step_READY" "abs_step s1 = (abs_step s)\<lparr>m_state := Step_READY\<rparr>"
    by (rule ready_pending_step_back [OF st s x e1])
  have aid: "attempt_id ?a = aid" by (simp add: new_attempt_def)
  have f1: "find_step d1 sid = Some s1" using s1 by simp
  note i = insert_claim_refines [OF conjunct1 [OF s1(1)] f1 s1(2) e2 e3]
  have st3: "store_ok d3" and f3: "find_attempt d3 aid = Some ?a"
    "find_step d3 sid = Some (claim_step aid ?fence s1)"
    using i aid by simp_all
  have c: "step_state (claim_step aid ?fence s1) = Step_CLAIMED"
    "current_attempt_id (claim_step aid ?fence s1) = Some aid"
    "current_fence (claim_step aid ?fence s1) = ?fence" "attempt_state ?a = Attempt_CLAIMED"
    by (simp_all add: claim_step_def new_attempt_def)
  note rf = run_and_fail [OF st3 f3(2) c(1,2,3) f3(1) c(4) e4 e5 e6 e7]
  have "abs_step (claim_step aid ?fence s1) =
      (abs_step s)\<lparr>m_state := Step_CLAIMED, m_fence := ?fence, m_holder := Some aid\<rparr>"
    using s1(3) by (simp add: abs_step_def claim_step_def)
  moreover have "abs_attempt ?a = \<lparr>m_of = sid, m_no = ?no, m_token = ?fence,
      m_status = Attempt_CLAIMED, m_lease = clk 3 + 1000000\<rparr>"
    using k by (simp add: abs_attempt_def new_attempt_def later_def numeral_eq_Suc)
  ultimately have "store_ok d7 \<and> runs d7 = runs d \<and> dependencies d7 = dependencies d \<and>
      (\<lambda>k. map_option abs_step (find_step d7 k)) = (\<lambda>k. map_option abs_step (find_step d k))(sid \<mapsto>
         (abs_step s)\<lparr>m_state := Step_FAILED, m_fence := current_fence s + 1, m_holder := None\<rparr>) \<and>
      (\<lambda>k. map_option abs_attempt (find_attempt d7 k)) =
        (\<lambda>k. map_option abs_attempt (find_attempt d k))(aid \<mapsto>
         \<lparr>m_of = sid, m_no = prior_attempts d sid + 1, m_token = current_fence s + 1,
          m_status = Attempt_FAILED_TERMINAL, m_lease = clk 3 + 1000000\<rparr>)"
    using rf i s1(1) aid by (auto simp: fun_eq_iff)
  moreover have "find_attempt d aid = None" using i s1(1) aid by simp
  ultimately show ?thesis using that ex room e8 by blast
qed

lemma expire_step_deadline_refines:
  assumes ok: "runtime_ok d"
    and run: "expire_step_deadline clk admit sid aid receipt owner d = Inr (v, d')"
  shows "store_ok d' \<and> (if v = None then d' = d else m_trans (abs_db d) (abs_db d'))"
proof (cases v)
  case None
  have "store_ok d" using ok by (simp add: runtime_ok_def)
  then show ?thesis using run None
    by (auto simp: expire_step_deadline_def bindE_Inr_iff Let_def thenE_Inr_iff
        split: option.splits if_splits)
next
  case (Some dec)
  have st: "store_ok d" and inv: "m_inv (abs_db d)" using ok by (simp_all add: runtime_ok_def)
  from run Some obtain s r where s: "find_step d sid = Some s" and r: "find_run d (step_run s) = Some r"
    by (auto simp: expire_step_deadline_def thenE_Inr_iff split: option.splits if_splits)
  from run Some have run': "expire_step_deadline clk admit sid aid receipt owner d = Inr (Some dec, d')" by simp
  obtain d7 row2 where
    ex: "deadline_expired clk d s r"
    and room: "prior_attempts d sid + 1 \<le> max_attempts (step_retry (step_plan s))"
    and fresh: "find_attempt d aid = None"
    and d7: "store_ok d7 \<and> runs d7 = runs d \<and> dependencies d7 = dependencies d \<and>
      (\<lambda>k. map_option abs_step (find_step d7 k)) = (\<lambda>k. map_option abs_step (find_step d k))(sid \<mapsto>
         (abs_step s)\<lparr>m_state := Step_FAILED, m_fence := current_fence s + 1, m_holder := None\<rparr>) \<and>
      (\<lambda>k. map_option abs_attempt (find_attempt d7 k)) =
        (\<lambda>k. map_option abs_attempt (find_attempt d k))(aid \<mapsto>
         \<lparr>m_of = sid, m_no = prior_attempts d sid + 1, m_token = current_fence s + 1,
          m_status = Attempt_FAILED_TERMINAL, m_lease = clk 3 + 1000000\<rparr>)"
    and upd: "update_runs (\<lambda>x. run_key x = step_run s \<and> run_state x = Run_RUNNING)
       (\<lambda>x. x\<lparr>run_state := Run_FAILED, run_reason := Some ''DEADLINE_EXHAUSTED'',
               run_finished_at := Some (clk 10), run_version := run_version x + 1\<rparr>) d7
       = Inr (row2, d')" by (rule expire_step_deadline_back [OF st run' s r])
  have k: "run_key r = step_run s" using store_okD(1) [OF st r] by simp
  have x: "run_state r = Run_RUNNING" "step_state s \<in> {Step_PENDING, Step_READY}"
    "\<not> has_live_step d (step_run s)" using ex k by (auto simp: deadline_expired_def)
  have r7: "find_run d7 (step_run s) = Some r" using d7 r by simp
  have d': "store_ok d' \<and> steps d' = steps d7 \<and> attempts d' = attempts d7 \<and> dependencies d' = dependencies d7
    \<and> (\<exists>r'. find_run d' = (find_run d7)(step_run s \<mapsto> r') \<and> run_state r' = Run_FAILED)"
    using run_statement [OF upd conjunct1 [OF d7] r7] x k by auto
  have hold: "current_attempt_id s = None" using no_holder [OF inv, of sid "abs_step s"] s x(2) by auto
  have "abs_db d' = (abs_db d)\<lparr>m_runs := (m_runs (abs_db d))(m_run (abs_step s) \<mapsto> Run_FAILED),
      m_steps := (m_steps (abs_db d))(sid \<mapsto>
        (abs_step s)\<lparr>m_state := Step_FAILED, m_fence := m_fence (abs_step s) + 1\<rparr>),
      m_attempts := (m_attempts (abs_db d))(aid \<mapsto>
        \<lparr>m_of = sid, m_no = m_fence (abs_step s) + 1, m_token = m_fence (abs_step s) + 1,
         m_status = Attempt_FAILED_TERMINAL, m_lease = clk 3 + 1000000\<rparr>)\<rparr>"
    using d7 d' hold prior_attempts_fence [OF ok s]
    by (auto simp: abs_db_def fun_eq_iff abs_step_def)
  moreover have "m_trans (abs_db d) \<dots>"
    using s r x fresh room prior_attempts_fence [OF ok s]
    by (intro m_trans.expire) (auto simp: m_busy_abs [OF st])
  ultimately show ?thesis using d' Some by simp
qed

section \<open>Scheduling\<close>

lemma insert_steps_Inr:
  "foldE (\<lambda>p d. insert_step_row (g p) d) ps d = Inr d' \<Longrightarrow> store_ok d \<Longrightarrow>
   store_ok d' \<and> d' = d\<lparr>steps := steps d @ map g ps\<rparr> \<and> list_all step_ok (map g ps)
     \<and> distinct (map (step_id \<circ> g) ps) \<and> step_id ` g ` set ps \<inter> step_id ` set (steps d) = {}"
proof (induction ps arbitrary: d)
  case (Cons p ps)
  from Cons.prems(1) obtain d1 where one: "insert_step_row (g p) d = Inr d1"
    and rest: "foldE (\<lambda>p d. insert_step_row (g p) d) ps d1 = Inr d'"
    by (auto simp: bindE_Inr_iff)
  from one have d1: "d1 = d\<lparr>steps := steps d @ [g p]\<rparr>" and ok: "step_ok (g p)"
    and fresh: "step_id (g p) \<notin> step_id ` set (steps d)"
    by (auto simp: insert_step_row_def thenE_Inr_iff first_violation_append step_ok_def split: if_splits)
  have "store_ok d1" using Cons.prems(2) ok fresh by (auto simp: store_ok_def d1)
  from Cons.IH [OF rest this] show ?case using ok fresh by (auto simp: d1)
qed simp

lemma insert_dependencies_Inr:
  "foldE (\<lambda>dep d. bindE (dependency_row_of rid ids dep) (\<lambda>row. insert_dependency_row row d)) deps d = Inr d' \<Longrightarrow>
   \<exists>rows. d' = d\<lparr>dependencies := dependencies d @ rows\<rparr> \<and>
     (\<forall>x \<in> set rows. dep_run x = rid \<and> predecessor_step_id x \<in> snd ` set ids
        \<and> successor_step_id x \<in> snd ` set ids)"
proof (induction deps arbitrary: d)
  case Nil
  then show ?case by (auto intro!: exI [of _ "[]"])
next
  case (Cons dep deps)
  from Cons.prems obtain row d1 where row: "dependency_row_of rid ids dep = Inr row"
    and one: "insert_dependency_row row d = Inr d1"
    and rest: "foldE (\<lambda>dep d. bindE (dependency_row_of rid ids dep) (\<lambda>row. insert_dependency_row row d))
      deps d1 = Inr d'"
    by (auto simp: bindE_Inr_iff)
  have d1: "d1 = d\<lparr>dependencies := dependencies d @ [row]\<rparr>"
    using one by (auto simp: insert_dependency_row_def thenE_Inr_iff split: if_splits)
  have r: "dep_run row = rid \<and> predecessor_step_id row \<in> snd ` set ids \<and> successor_step_id row \<in> snd ` set ids"
    using row by (force simp: dependency_row_of_def bindE_Inr_iff dest: map_of_SomeD)
  from Cons.IH [OF rest] obtain rows where "d' = d1\<lparr>dependencies := dependencies d1 @ rows\<rparr>"
    "\<forall>x \<in> set rows. dep_run x = rid \<and> predecessor_step_id x \<in> snd ` set ids \<and> successor_step_id x \<in> snd ` set ids"
    by blast
  then have "d' = d\<lparr>dependencies := dependencies d @ row # rows\<rparr>" by (simp add: d1)
  moreover have "\<forall>x \<in> set (row # rows). dep_run x = rid \<and> predecessor_step_id x \<in> snd ` set ids
      \<and> successor_step_id x \<in> snd ` set ids"
    using r \<open>\<forall>x \<in> set rows. _\<close> by simp
  ultimately show ?case by blast
qed

lemma new_step_row_simps [simp]:
  "step_id (new_step_row now rid p) = fst p" "step_run (new_step_row now rid p) = rid"
  "step_state (new_step_row now rid p) = Step_PENDING" "current_fence (new_step_row now rid p) = 0"
  "current_attempt_id (new_step_row now rid p) = None"
  by (simp_all add: new_step_row_def split: prod.split)

lemma insert_run_parts:
  assumes "insert_run clk run planned deps d = Inr d'" "store_ok d"
  obtains rows where
    "store_ok d'" "find_run d (run_id run) = None"
    "d' = d\<lparr>runs := runs d @ [new_run_row (clk 0) run],
       steps := steps d @ map (new_step_row (clk 1) (run_id run)) planned,
       dependencies := dependencies d @ rows\<rparr>"
    "list_all step_ok (map (new_step_row (clk 1) (run_id run)) planned)"
    "distinct (map fst planned)" "fst ` set planned \<inter> step_id ` set (steps d) = {}"
    "\<forall>x \<in> set rows. dep_run x = run_id run \<and> predecessor_step_id x \<in> fst ` set planned
       \<and> successor_step_id x \<in> fst ` set planned"
proof -
  let ?ids = "rev (map (\<lambda>(sid, step). (step_key step, sid)) planned)"
  let ?g = "new_step_row (clk 1) (run_id run)"
  from assms(1) obtain d1 d2 where e1: "insert_run_row (new_run_row (clk 0) run) d = Inr d1"
    and e2: "foldE (\<lambda>p d. insert_step_row (?g p) d) planned d1 = Inr d2"
    and e3: "foldE (\<lambda>dep d. bindE (dependency_row_of (run_id run) ?ids dep)
        (\<lambda>row. insert_dependency_row row d)) deps d2 = Inr d'"
    by (auto simp: insert_run_def bindE_Inr_iff thenE_Inr_iff Let_def simp del: thenE_guardE)
  from e1 have d1: "d1 = d\<lparr>runs := runs d @ [new_run_row (clk 0) run]\<rparr>"
    and ok: "run_ok (new_run_row (clk 0) run)"
    and fresh: "run_key (new_run_row (clk 0) run) \<notin> run_key ` set (runs d)"
    by (auto simp: insert_run_row_def thenE_Inr_iff first_violation_append run_ok_def split: if_splits)
  have "store_ok d1" using assms(2) ok fresh by (auto simp: store_ok_def d1)
  note i = insert_steps_Inr [OF e2 this]
  have "snd ` set ?ids = fst ` set planned" by force
  with insert_dependencies_Inr [OF e3] obtain rows where
    d': "d' = d2\<lparr>dependencies := dependencies d2 @ rows\<rparr>"
    and rows: "\<forall>x \<in> set rows. dep_run x = run_id run \<and> predecessor_step_id x \<in> fst ` set planned
       \<and> successor_step_id x \<in> fst ` set planned" by (metis (no_types, lifting))
  have "find_run d (run_id run) = None"
    using fresh run_table.row_at_None_iff by (simp add: new_run_row_def)
  then show ?thesis
    using that [of rows] i rows by (auto simp: d' d1 store_ok_def comp_def image_image)
qed

lemma insert_run_refines:
  assumes ok: "runtime_ok d" and run: "insert_run clk run planned deps d = Inr d'"
  shows "store_ok d' \<and> m_trans (abs_db d) (abs_db d')"
proof -
  have st: "store_ok d" using ok by (simp add: runtime_ok_def)
  let ?g = "new_step_row (clk 1) (run_id run)"
  let ?news = "\<lambda>k. map_option abs_step (row_at step_id (map ?g planned) k)"
  obtain rows where
    st': "store_ok d'" and fresh: "find_run d (run_id run) = None"
    and d': "d' = d\<lparr>runs := runs d @ [new_run_row (clk 0) run],
       steps := steps d @ map ?g planned, dependencies := dependencies d @ rows\<rparr>"
    and oks: "list_all step_ok (map ?g planned)"
    and apart: "fst ` set planned \<inter> step_id ` set (steps d) = {}"
    and rows: "\<forall>x \<in> set rows. dep_run x = run_id run \<and> predecessor_step_id x \<in> fst ` set planned
       \<and> successor_step_id x \<in> fst ` set planned" by (rule insert_run_parts [OF run st])
  have dom: "?news k \<noteq> None \<longleftrightarrow> k \<in> fst ` set planned" for k
    using step_table.row_at_None_iff [of "map ?g planned" k] by (auto simp: image_image)
  have old: "find_step d k = None" if "k \<in> fst ` set planned" for k
  proof -
    have "k \<notin> step_id ` set (steps d)" using that apart by auto
    then show ?thesis by (simp add: step_table.row_at_None_iff)
  qed
  have abs: "abs_db d' = add_run (abs_db d) (run_id run) ?news (abs_dep ` set rows)"
  proof -
    have "map_option abs_step (find_step d' k) = (m_steps (abs_db d) ++ ?news) k" for k
      using old [of k] dom [of k]
      by (cases "k \<in> fst ` set planned")
        (simp_all add: d' step_table.row_at_append map_add_def split: option.split)
    moreover have "map_option run_state (find_run d' k) = ((m_runs (abs_db d))(run_id run \<mapsto> Run_QUEUED)) k" for k
      using fresh by (auto simp: d' run_table.row_at_append_fresh new_run_row_def split: option.split)
    ultimately show ?thesis by (simp add: abs_db_def add_run_def fun_eq_iff) (simp add: d' image_Un)
  qed
  have "schedulable (abs_db d) (run_id run) ?news (abs_dep ` set rows)"
  proof -
    have "m_run u = run_id run \<and> m_state u = Step_PENDING \<and> m_fence u = 0 \<and> m_holder u = None \<and> 0 \<le> m_budget u"
      if "?news k = Some u" for k u
    proof -
      from that obtain x where x: "row_at step_id (map ?g planned) k = Some x" "u = abs_step x" by auto
      then have "x \<in> set (map ?g planned)" using step_table.row_at_Some_in by metis
      then have "step_ok x" "\<exists>p. x = ?g p" using oks by (auto simp: list_all_iff)
      then show ?thesis using step_ok_budget [of x] by (auto simp: x(2))
    qed
    moreover have news: "dom ?news = fst ` set planned" using dom by (auto simp: dom_def simp del: map_map)
    moreover have "fst ` set planned \<inter> dom (m_steps (abs_db d)) = {}"
    proof -
      have "m_steps (abs_db d) k = None" if "k \<in> fst ` set planned" for k using old [OF that] by simp
      then show ?thesis by (force simp: dom_def)
    qed
    ultimately show ?thesis using fresh rows by (auto simp: schedulable_def abs_dep_def)
  qed
  from m_trans.schedule [OF this] show ?thesis using st' abs by simp
qed

end
