(* ===== verification/Runtime_Receipts.thy ===== *)
theory Runtime_Receipts
  imports Runtime_Refinement
begin

text \<open>
  \<open>PostgresCommandReceiptRepository\<close> and \<open>PostgresAuditRepository\<close> of
  \<open>infrastructure/postgres/repositories/runtime.py\<close>: the idempotency receipt of a
  command and its audit event. The locale \<open>command_ledger\<close> states what a command may
  rely on when it starts and closes a receipt, and proves the replay and key-reuse
  laws from it; the receipt table is its interpretation.
\<close>

section \<open>Receipts\<close>

record receipt_record =
  record_receipt_id :: uuid
  record_status :: receipt_status
  record_request_hash :: string
  record_aggregate_kind :: "string option"
  record_aggregate_id :: "string option"
  record_aggregate_version :: "int option"
  record_result_hash :: "string option"
  record_error_code :: "string option"
  is_new :: bool

type_synonym receipt_slot = "string \<times> string \<times> string"

definition slot_of :: "receipt_row \<Rightarrow> receipt_slot" where
  "slot_of c = (command_kind c, scope_id c, receipt_key c)"

abbreviation find_receipt :: "db \<Rightarrow> receipt_slot \<Rightarrow> receipt_row option" where
  "find_receipt d \<equiv> row_at slot_of (receipts d)"

interpretation slot_table: keyed_table slot_of .

definition pending_receipt ::
  "instant \<Rightarrow> uuid \<Rightarrow> receipt_slot \<Rightarrow> string \<Rightarrow> receipt_row" where
  "pending_receipt now rid slot hash =
     (case slot of (kind, scope, key) \<Rightarrow>
       \<lparr>receipt_id = rid, command_kind = kind, scope_id = scope, receipt_key = key,
        receipt_request_hash = hash, receipt_status = PENDING, runtime_step_id = None,
        runtime_attempt_id = None, receipt_fence = None, result_aggregate_kind = None,
        result_aggregate_id = None, result_aggregate_version = None, receipt_result_hash = None,
        receipt_error_code = None, receipt_created_at = now, completed_at = None\<rparr>)"

definition record_of :: "bool \<Rightarrow> receipt_row \<Rightarrow> receipt_record" where
  "record_of new c =
     \<lparr>record_receipt_id = receipt_id c, record_status = receipt_status c,
      record_request_hash = receipt_request_hash c,
      record_aggregate_kind = result_aggregate_kind c,
      record_aggregate_id = result_aggregate_id c,
      record_aggregate_version = result_aggregate_version c,
      record_result_hash = receipt_result_hash c, record_error_code = receipt_error_code c,
      is_new = new\<rparr>"

text \<open>
  \<open>INSERT ... ON CONFLICT DO NOTHING RETURNING\<close>: the row constraints are checked
  first; a row with the same slot makes the statement return nothing.
\<close>

definition insert_receipt_row :: "receipt_row \<Rightarrow> db \<Rightarrow> (receipt_row option \<times> db) result" where
  "insert_receipt_row c d =
     thenE (errorE (first_violation (receipt_checks c)))
     (if find_receipt d (slot_of c) \<noteq> None then Inr (None, d)
      else thenE (errorE (first_violation
        [(''command_receipt_pkey'', receipt_id c \<notin> receipt_id ` set (receipts d))]))
        (Inr (Some c, d\<lparr>receipts := receipts d @ [c]\<rparr>)))"

definition receipt_start ::
  "instant \<Rightarrow> uuid \<Rightarrow> string \<Rightarrow> string \<Rightarrow> string \<Rightarrow> string \<Rightarrow> db \<Rightarrow> (receipt_record \<times> db) result"
where
  "receipt_start now rid kind scope key hash d =
     bindE (insert_receipt_row (pending_receipt now rid (kind, scope, key) hash) d) (\<lambda>(inserted, d).
     let new = inserted \<noteq> None
     in bindE (optE (if new then inserted else find_receipt d (kind, scope, key))
          (RuntimeStateConflictError ''idempotency conflict row disappeared'')) (\<lambda>row.
        thenE (guardE (receipt_request_hash row = hash) IdempotencyKeyReusedError)
        (thenE (guardE (\<not> (\<not> new \<and> receipt_status row = PENDING)) CommandInProgressError)
        (Inr (record_of new row, d)))))"

definition close_receipt_with ::
  "(receipt_row \<Rightarrow> receipt_row) \<Rightarrow> instant \<Rightarrow> uuid \<Rightarrow> attempt_claim option \<Rightarrow> db \<Rightarrow> db result" where
  "close_receipt_with f now rid claim d =
     bindE (update_receipts (\<lambda>c. receipt_id c = rid \<and> receipt_status c = PENDING)
       (\<lambda>c. (f c)\<lparr>runtime_step_id := map_option claim_step_id claim,
                   runtime_attempt_id := map_option claim_attempt_id claim,
                   receipt_fence := map_option claim_fence claim,
                   completed_at := Some now\<rparr>) d) (\<lambda>(row, d).
     thenE (guardE (row \<noteq> None) (RuntimeStateConflictError ''Receipt is not pending'')) (Inr d))"

definition receipt_succeed ::
  "instant \<Rightarrow> uuid \<Rightarrow> string \<Rightarrow> string \<Rightarrow> int \<Rightarrow> string \<Rightarrow> attempt_claim option \<Rightarrow> db \<Rightarrow> db result"
where
  "receipt_succeed now rid kind agg version hash claim d =
     close_receipt_with (\<lambda>c. c\<lparr>receipt_status := SUCCEEDED, result_aggregate_kind := Some kind,
       result_aggregate_id := Some agg, result_aggregate_version := Some version,
       receipt_result_hash := Some hash\<rparr>) now rid claim d"

definition receipt_fail ::
  "instant \<Rightarrow> uuid \<Rightarrow> string \<Rightarrow> attempt_claim option \<Rightarrow> db \<Rightarrow> db result" where
  "receipt_fail now rid code claim d =
     close_receipt_with (\<lambda>c. c\<lparr>receipt_status := FAILED, receipt_error_code := Some code\<rparr>)
       now rid claim d"

section \<open>Audit events\<close>

record audit_request =
  req_actor_type :: string
  req_actor_id :: string
  req_aggregate_kind :: string
  req_aggregate_id :: string
  req_action :: string
  req_reason :: string
  req_before :: "int option"
  req_after :: "int option"

definition audit_append ::
  "instant \<Rightarrow> uuid \<Rightarrow> uuid option \<Rightarrow> audit_request \<Rightarrow> attempt_claim option \<Rightarrow> db \<Rightarrow> db result" where
  "audit_append now eid receipt req claim d =
     insert_audit_row
       \<lparr>audit_event_id = eid, audit_receipt_id = receipt,
        audit_step_id = map_option claim_step_id claim, audit_fence = map_option claim_fence claim,
        actor_type = req_actor_type req, actor_id = req_actor_id req,
        aggregate_kind = req_aggregate_kind req, aggregate_id = req_aggregate_id req,
        action = req_action req, reason_code = req_reason req, event_at = now,
        before_version = req_before req, after_version = req_after req\<rparr> d"

section \<open>The contract of a command ledger\<close>

text \<open>
  A ledger maps a slot to the request hash and, once closed, to the outcome.
  \<open>start\<close> opens a free slot and otherwise answers from it; \<open>close\<close> settles an open
  slot once. \<open>good\<close> is the ledger's own invariant.
\<close>

locale command_ledger =
  fixes good :: "'s \<Rightarrow> bool"
    and entry :: "'s \<Rightarrow> 'k \<Rightarrow> ('i \<times> 'h \<times> 'v option) option"
    and start :: "'i \<Rightarrow> 'k \<Rightarrow> 'h \<Rightarrow> 's \<Rightarrow> 'e + (('i \<times> 'v option) \<times> 's)"
    and close :: "'i \<Rightarrow> 'v \<Rightarrow> 's \<Rightarrow> 'e + 's"
  assumes start_open:
      "good s \<Longrightarrow> entry s k = None \<Longrightarrow> start i k h s = Inr (r, s') \<Longrightarrow>
       good s' \<and> r = (i, None) \<and> entry s' = (entry s)(k \<mapsto> (i, h, None))
         \<and> (\<forall>l j w. entry s l = Some (j, w) \<longrightarrow> j \<noteq> i)"
    and start_taken:
      "good s \<Longrightarrow> entry s k = Some (j, h', old) \<Longrightarrow> start i k h s = Inr (r, s') \<Longrightarrow>
       h' = h \<and> old \<noteq> None \<and> r = (j, old) \<and> s' = s"
    and close_open:
      "good s \<Longrightarrow> entry s k = Some (i, h, None) \<Longrightarrow> close i v s = Inr s' \<Longrightarrow>
       good s' \<and> entry s' = (entry s)(k \<mapsto> (i, h, Some v))"
begin

definition settled_in :: "'s \<Rightarrow> 'k \<Rightarrow> 'i \<Rightarrow> 'h \<Rightarrow> 'v \<Rightarrow> bool" where
  "settled_in s k i h v \<longleftrightarrow> entry s k = Some (i, h, Some v)"

definition kept :: "'s \<Rightarrow> 's \<Rightarrow> bool" where
  "kept s s' \<longleftrightarrow> (\<forall>k i h v. settled_in s k i h v \<longrightarrow> settled_in s' k i h v)"

lemma kept_refl: "kept s s"
  by (simp add: kept_def)

lemma kept_trans: "kept s t \<Longrightarrow> kept t u \<Longrightarrow> kept s u"
  by (simp add: kept_def)

lemma start_keeps: "good s \<Longrightarrow> start i k h s = Inr (r, s') \<Longrightarrow> good s' \<and> kept s s'"
proof (cases "entry s k")
  case None
  then show "good s \<Longrightarrow> start i k h s = Inr (r, s') \<Longrightarrow> good s' \<and> kept s s'"
    using start_open [of s k i h r s'] by (auto simp: kept_def settled_in_def)
next
  case (Some w)
  obtain j h' v where "w = (j, h', v)" by (cases w)
  then show "good s \<Longrightarrow> start i k h s = Inr (r, s') \<Longrightarrow> good s' \<and> kept s s'"
    using start_taken [of s k j h' v i h r s'] Some by (auto simp: kept_refl)
qed

lemma close_keeps:
  "good s \<Longrightarrow> entry s k = Some (i, h, None) \<Longrightarrow> close i v s = Inr s' \<Longrightarrow> kept s s'"
  using close_open [of s k i h v s'] by (auto simp: kept_def settled_in_def)

lemma run_settles:
  assumes "good s" "start i k h s = Inr ((j, None), t)" "entry u = entry t" "good u"
    "close j v u = Inr s'"
  shows "good s' \<and> settled_in s' k j h v \<and> kept s s'"
proof -
  have free: "entry s k = None"
  proof (cases "entry s k")
    case (Some w)
    obtain j' h' v' where "w = (j', h', v')" by (cases w)
    with start_taken [OF assms(1) _ assms(2)] Some show ?thesis by auto
  qed
  from start_open [OF assms(1) free assms(2)]
  have t: "j = i" "entry t = (entry s)(k \<mapsto> (i, h, None))" by auto
  then have "entry u k = Some (j, h, None)" using assms(3) by simp
  from close_open [OF assms(4) this assms(5)] t assms(3) free
  show ?thesis by (auto simp: settled_in_def kept_def)
qed

lemma replay:
  "good s \<Longrightarrow> settled_in s k j h v \<Longrightarrow> start i k h s = Inr (r, s') \<Longrightarrow> r = (j, Some v) \<and> s' = s"
  using start_taken [of s k j h "Some v" i h r s'] by (auto simp: settled_in_def)

lemma reuse_rejected:
  "good s \<Longrightarrow> settled_in s k j h' v \<Longrightarrow> h' \<noteq> h \<Longrightarrow> \<exists>e. start i k h s = Inl e"
  using start_taken [of s k j h' "Some v" i h] by (cases "start i k h s") (auto simp: settled_in_def)

end

section \<open>The receipt table is a command ledger\<close>

datatype outcome = Done string string int string | Refused string

definition outcome_of :: "receipt_row \<Rightarrow> outcome option" where
  "outcome_of c =
     (if receipt_status c = PENDING then None
      else Some (case (result_aggregate_kind c, result_aggregate_id c, result_aggregate_version c,
          receipt_result_hash c) of
        (Some k, Some a, Some n, Some h) \<Rightarrow> Done k a n h
      | _ \<Rightarrow> Refused (case receipt_error_code c of Some e \<Rightarrow> e | None \<Rightarrow> [])))"

definition receipts_ok :: "db \<Rightarrow> bool" where
  "receipts_ok d \<longleftrightarrow>
     distinct (map receipt_id (receipts d)) \<and> distinct (map slot_of (receipts d))
     \<and> list_all (\<lambda>c. first_violation (receipt_checks c) = None) (receipts d)"

definition ledger_entry :: "db \<Rightarrow> receipt_slot \<Rightarrow> (uuid \<times> string \<times> outcome option) option" where
  "ledger_entry d k =
     map_option (\<lambda>c. (receipt_id c, receipt_request_hash c, outcome_of c)) (find_receipt d k)"

definition ledger_start ::
  "instant \<Rightarrow> uuid \<Rightarrow> receipt_slot \<Rightarrow> string \<Rightarrow> db \<Rightarrow> ((uuid \<times> outcome option) \<times> db) result" where
  "ledger_start now rid slot hash d =
     (case slot of (kind, scope, key) \<Rightarrow>
        mapR (\<lambda>(r, d'). ((record_receipt_id r, if is_new r then None
           else (case find_receipt d slot of None \<Rightarrow> None | Some c \<Rightarrow> outcome_of c)), d'))
          (receipt_start now rid kind scope key hash d))"

definition ledger_close :: "instant \<Rightarrow> attempt_claim option \<Rightarrow> uuid \<Rightarrow> outcome \<Rightarrow> db \<Rightarrow> db result" where
  "ledger_close now claim rid v d =
     (case v of Done k a n h \<Rightarrow> receipt_succeed now rid k a n h claim d
      | Refused e \<Rightarrow> receipt_fail now rid e claim d)"

lemma receipt_start_Inr:
  assumes "receipt_start now rid kind scope key hash d = Inr (r, d')"
  shows "(find_receipt d (kind, scope, key) = None \<and> r = record_of True (pending_receipt now rid (kind, scope, key) hash)
      \<and> d' = d\<lparr>receipts := receipts d @ [pending_receipt now rid (kind, scope, key) hash]\<rparr>
      \<and> rid \<notin> receipt_id ` set (receipts d)
      \<and> first_violation (receipt_checks (pending_receipt now rid (kind, scope, key) hash)) = None)
    \<or> (\<exists>c. find_receipt d (kind, scope, key) = Some c \<and> r = record_of False c \<and> d' = d
      \<and> receipt_request_hash c = hash \<and> receipt_status c \<noteq> PENDING)"
proof -
  let ?c = "pending_receipt now rid (kind, scope, key) hash"
  have slot: "slot_of ?c = (kind, scope, key)" "receipt_request_hash ?c = hash" "receipt_id ?c = rid"
    by (simp_all add: pending_receipt_def slot_of_def)
  from assms show ?thesis
    by (cases "find_receipt d (kind, scope, key)")
      (auto simp: receipt_start_def insert_receipt_row_def slot bindE_Inr_iff thenE_Inr_iff Let_def
        split: if_splits)
qed

lemma slot_of_pending [simp]: "slot_of (pending_receipt now rid k hash) = k"
  by (cases k) (simp add: pending_receipt_def slot_of_def)

lemma pending_receipt_simps [simp]:
  "receipt_id (pending_receipt now rid k hash) = rid"
  "receipt_request_hash (pending_receipt now rid k hash) = hash"
  "outcome_of (pending_receipt now rid k hash) = None"
  "receipt_status (pending_receipt now rid k hash) = PENDING"
  by (cases k; simp add: pending_receipt_def outcome_of_def)+

lemma receipts_ok_append:
  assumes "receipts_ok d" "receipt_id c \<notin> receipt_id ` set (receipts d)"
    "find_receipt d (slot_of c) = None" "first_violation (receipt_checks c) = None"
  shows "receipts_ok (d\<lparr>receipts := receipts d @ [c]\<rparr>)"
    "ledger_entry (d\<lparr>receipts := receipts d @ [c]\<rparr>) =
      (ledger_entry d)(slot_of c \<mapsto> (receipt_id c, receipt_request_hash c, outcome_of c))"
proof -
  have "slot_of c \<notin> slot_of ` set (receipts d)" using assms(3) by (simp add: slot_table.row_at_None_iff)
  then show "receipts_ok (d\<lparr>receipts := receipts d @ [c]\<rparr>)"
    using assms(1,2,4) by (auto simp: receipts_ok_def)
  show "ledger_entry (d\<lparr>receipts := receipts d @ [c]\<rparr>) =
      (ledger_entry d)(slot_of c \<mapsto> (receipt_id c, receipt_request_hash c, outcome_of c))"
    using assms(3) by (auto simp: ledger_entry_def fun_eq_iff slot_table.row_at_append_fresh split: option.split)
qed

lemma receipt_at_slot:
  assumes "receipts_ok d" "find_receipt d k = Some c"
  shows "row_at receipt_id (receipts d) (receipt_id c) = Some c" "c \<in> set (receipts d)" "slot_of c = k"
  using assms receipt_table.row_at_in_set [of "receipts d" c] slot_table.row_at_Some_in [of "receipts d" k c]
    slot_table.row_at_Some_key [of "receipts d" k c]
  by (auto simp: receipts_ok_def)

lemma close_receipt_Inr:
  assumes ok: "receipts_ok d" and c: "find_receipt d k = Some c"
    and run: "close_receipt_with f now (receipt_id c) claim d = Inr d'"
    and f: "receipt_id (f c) = receipt_id c" "slot_of (f c) = slot_of c"
  defines "c' \<equiv> (f c)\<lparr>runtime_step_id := map_option claim_step_id claim,
      runtime_attempt_id := map_option claim_attempt_id claim,
      receipt_fence := map_option claim_fence claim, completed_at := Some now\<rparr>"
  shows "receipt_status c = PENDING" "d' = d\<lparr>receipts := put_row receipt_id c' (receipts d)\<rparr>"
    "receipts_ok d'" "find_receipt d' = (find_receipt d)(k \<mapsto> c')"
    "receipt_update_check (attempts d) c c' = None"
proof -
  let ?f = "\<lambda>c. (f c)\<lparr>runtime_step_id := map_option claim_step_id claim,
      runtime_attempt_id := map_option claim_attempt_id claim,
      receipt_fence := map_option claim_fence claim, completed_at := Some now\<rparr>"
  note at = receipt_at_slot [OF ok c]
  have ids: "distinct (map receipt_id (receipts d))" using ok by (simp add: receipts_ok_def)
  from run have stmt: "update_receipts (\<lambda>x. receipt_id x = receipt_id c \<and> receipt_status x = PENDING) ?f d
      = Inr (Some c', d')" and pend: "receipt_status c = PENDING"
      and chk: "receipt_update_check (attempts d) c c' = None"
      and d': "d' = d\<lparr>receipts := put_row receipt_id c' (receipts d)\<rparr>"
    using receipt_table.update_one [OF ids at(1), of "\<lambda>x. receipt_id x = receipt_id c \<and> receipt_status x = PENDING"
        ?f "receipt_update_check (attempts d)"] f(1)
    by (auto simp: close_receipt_with_def update_receipts_def mapR_def bindE_Inr_iff thenE_Inr_iff c'_def
        split: if_splits option.splits)
  show "receipt_status c = PENDING" "receipt_update_check (attempts d) c c' = None"
    "d' = d\<lparr>receipts := put_row receipt_id c' (receipts d)\<rparr>" by fact+
  have same: "slot_of c' = slot_of c" "receipt_id c' = receipt_id c" using f by (simp_all add: c'_def slot_of_def)
  let ?g = "\<lambda>x. if x = c then c' else x"
  have "x = c" if "x \<in> set (receipts d)" "receipt_id x = receipt_id c" for x
    using receipt_table.row_at_in_set [OF ids that(1)] that(2) at(1) by simp
  then have put: "put_row receipt_id c' (receipts d) = map ?g (receipts d)"
    unfolding put_row_def using same by (auto intro!: map_cong)
  have g: "slot_of (?g x) = slot_of x" "receipt_id (?g x) = receipt_id x" for x using same by simp_all
  have "first_violation (receipt_checks c') = None"
    using chk by (simp add: receipt_update_check_def first_violation_append)
  then show "receipts_ok d'"
    using ok g by (auto simp: receipts_ok_def d' put list_all_iff comp_def)
  show "find_receipt d' = (find_receipt d)(k \<mapsto> c')"
  proof
    fix l
    have "find_receipt d' l = map_option ?g (find_receipt d l)"
      using slot_table.row_at_map [of ?g "receipts d" l, OF g(1)] by (simp add: d' put)
    then show "find_receipt d' l = ((find_receipt d)(k \<mapsto> c')) l"
      using c slot_table.row_at_Some_key [of "receipts d" l] at(3)
      by (cases "find_receipt d l") auto
  qed
qed

lemma ledger_close_Inr:
  assumes ok: "receipts_ok d" and e: "ledger_entry d k = Some (rid, h, None)"
    and run: "ledger_close now claim rid v d = Inr d'"
  shows "receipts_ok d' \<and> ledger_entry d' = (ledger_entry d)(k \<mapsto> (rid, h, Some v))"
proof -
  from e obtain c where c: "find_receipt d k = Some c" "receipt_id c = rid" "receipt_request_hash c = h"
    by (auto simp: ledger_entry_def)
  show ?thesis
  proof (cases v)
    case (Done kd a n rh)
    let ?f = "\<lambda>c. c\<lparr>receipt_status := SUCCEEDED, result_aggregate_kind := Some kd,
       result_aggregate_id := Some a, result_aggregate_version := Some n,
       receipt_result_hash := Some rh\<rparr>"
    have f: "receipt_id (?f c) = receipt_id c" "slot_of (?f c) = slot_of c" by (simp_all add: slot_of_def)
    from run have run': "close_receipt_with ?f now (receipt_id c) claim d = Inr d'"
      by (simp add: ledger_close_def receipt_succeed_def Done c)
    note i = close_receipt_Inr [OF ok c(1) run' f]
    show ?thesis using i(3,4) c by (auto simp: ledger_entry_def fun_eq_iff outcome_of_def Done)
  next
    case (Refused ec)
    let ?f = "\<lambda>c. c\<lparr>receipt_status := FAILED, receipt_error_code := Some ec\<rparr>"
    have f: "receipt_id (?f c) = receipt_id c" "slot_of (?f c) = slot_of c" by (simp_all add: slot_of_def)
    from run have run': "close_receipt_with ?f
        now (receipt_id c) claim d = Inr d'"
      by (simp add: ledger_close_def receipt_fail_def Refused c)
    note i = close_receipt_Inr [OF ok c(1) run' f]
    from i(5) have "result_aggregate_kind c = None"
      by (simp add: receipt_update_check_def first_violation_append first_violation_None receipt_checks_def)
    then show ?thesis using i(3,4) c by (auto simp: ledger_entry_def fun_eq_iff outcome_of_def Refused)
  qed
qed

lemma ledger_start_Inr:
  assumes "ledger_start now i k h d = Inr (r, d')"
  obtains c where "find_receipt d k = Some c" "receipt_request_hash c = h" "outcome_of c \<noteq> None"
      "r = (receipt_id c, outcome_of c)" "d' = d"
  | "find_receipt d k = None" "r = (i, None)" "i \<notin> receipt_id ` set (receipts d)"
      "first_violation (receipt_checks (pending_receipt now i k h)) = None"
      "d' = d\<lparr>receipts := receipts d @ [pending_receipt now i k h]\<rparr>"
proof -
  obtain kind scope key where k: "k = (kind, scope, key)" by (cases k)
  from assms obtain x where x: "receipt_start now i kind scope key h d = Inr (x, d')"
    "r = (record_receipt_id x, if is_new x then None else
       (case find_receipt d k of None \<Rightarrow> None | Some c \<Rightarrow> outcome_of c))"
    by (auto simp: ledger_start_def k mapR_Inr_iff)
  from receipt_start_Inr [OF x(1)] show ?thesis
  proof
    assume "\<exists>c. find_receipt d (kind, scope, key) = Some c \<and> x = record_of False c \<and> d' = d
      \<and> receipt_request_hash c = h \<and> receipt_status c \<noteq> PENDING"
    then show ?thesis using that(1) x(2) by (auto simp: k record_of_def outcome_of_def)
  qed (use that(2) x(2) in \<open>auto simp: k record_of_def\<close>)
qed

interpretation ledger: command_ledger receipts_ok ledger_entry "ledger_start now" "ledger_close now' claim"
  for now now' claim
proof
  fix s k i h r s'
  assume ok: "receipts_ok s" and none: "ledger_entry s k = None" and run: "ledger_start now i k h s = Inr (r, s')"
  have free: "find_receipt s k = None" using none by (simp add: ledger_entry_def)
  from run show "receipts_ok s' \<and> r = (i, None) \<and> ledger_entry s' = (ledger_entry s)(k \<mapsto> (i, h, None))
      \<and> (\<forall>l j w. ledger_entry s l = Some (j, w) \<longrightarrow> j \<noteq> i)"
  proof (cases rule: ledger_start_Inr)
    case 2
    have "j \<noteq> i" if "ledger_entry s l = Some (j, w)" for l j w
      using that 2(3) slot_table.row_at_Some_in by (fastforce simp: ledger_entry_def)
    then show ?thesis
      using receipts_ok_append [OF ok, of "pending_receipt now i k h"] 2 by simp
  qed (use free in simp)
next
  fix s k j h' old i h r s'
  assume "receipts_ok s" "ledger_entry s k = Some (j, h', old)" "ledger_start now i k h s = Inr (r, s')"
  then show "h' = h \<and> old \<noteq> None \<and> r = (j, old) \<and> s' = s"
    by (elim ledger_start_Inr) (auto simp: ledger_entry_def)
qed (rule ledger_close_Inr)

end
