(* ===== verification/Runtime_Application.thy ===== *)
theory Runtime_Application
  imports Runtime_Receipts
begin

text \<open>
  \<open>RuntimeApplication\<close> of \<open>runtime/application/service.py\<close> over the unit of work of
  \<open>infrastructure/postgres/uow.py\<close>: every use case is one transaction that opens a
  receipt, runs a repository operation, settles the receipt, appends the audit event
  and commits.

  \<open>ids i\<close> is the \<open>i\<close>-th identifier the command's \<open>id_factory\<close> returns. \<open>clk\<close> gives the
  readings of the database clock: reading 0 for the receipt, the readings from 1 on for
  the repository operation, and two late ones for the settlement and the audit.
  \<open>commit\<close> is what COMMIT itself may raise (the deferred constraint triggers, which
  are not part of this model).
\<close>

section \<open>The unit of work\<close>

record uow =
  uow_read_only :: bool
  uow_connection :: "db option"
  uow_used :: bool
  uow_committed :: bool

definition new_uow :: "bool \<Rightarrow> uow" where
  "new_uow ro = \<lparr>uow_read_only = ro, uow_connection = None, uow_used = False, uow_committed = False\<rparr>"

definition uow_enter :: "db \<Rightarrow> uow \<Rightarrow> uow result" where
  "uow_enter stored u =
     thenE (guardE (\<not> (uow_connection u \<noteq> None \<or> uow_used u))
       (PyRuntimeError ''PostgresUnitOfWork cannot be nested or reused''))
     (Inr (u\<lparr>uow_used := True, uow_connection := Some stored\<rparr>))"

text \<open>\<open>commit\<close> returns the unit of work and what is stored from now on.\<close>

definition uow_commit :: "(db \<Rightarrow> unit result) \<Rightarrow> uow \<Rightarrow> (uow \<times> db) result" where
  "uow_commit commit u =
     bindE (optE (uow_connection u) (PyRuntimeError ''PostgresUnitOfWork is not active'')) (\<lambda>working.
     thenE (guardE (\<not> uow_committed u) (PyRuntimeError ''PostgresUnitOfWork already committed''))
     (thenE (commit working) (Inr (u\<lparr>uow_committed := True\<rparr>, working))))"

text \<open>\<open>__exit__\<close> rolls back what was not committed and drops the connection.\<close>

definition uow_exit :: "db \<Rightarrow> uow \<Rightarrow> db \<times> uow" where
  "uow_exit stored u = (stored, u\<lparr>uow_connection := None\<rparr>)"

text \<open>
  \<open>with uow_provider() as uow: body\<close>. The body works on the connection's copy and says
  whether it called \<open>commit()\<close> before it returned.
\<close>

type_synonym 'a command = "db \<Rightarrow> 'a result \<times> db"

definition with_uow ::
  "(db \<Rightarrow> unit result) \<Rightarrow> bool \<Rightarrow> (db \<Rightarrow> ('a \<times> db \<times> bool) result) \<Rightarrow> 'a command" where
  "with_uow commit ro body stored =
     (case uow_enter stored (new_uow ro) of
        Inl e \<Rightarrow> (Inl e, stored)
      | Inr u \<Rightarrow>
          (case body stored of
             Inl e \<Rightarrow> (Inl e, fst (uow_exit stored u))
           | Inr (x, working, committed) \<Rightarrow>
               if committed then
                 (case uow_commit commit (u\<lparr>uow_connection := Some working\<rparr>) of
                    Inl e \<Rightarrow> (Inl e, fst (uow_exit stored u))
                  | Inr (u', stored') \<Rightarrow> (Inr x, fst (uow_exit stored' u')))
               else (Inr x, fst (uow_exit stored u))))"

text \<open>A value computed before the transaction opens.\<close>

definition given :: "'a result \<Rightarrow> ('a \<Rightarrow> 'b command) \<Rightarrow> 'b command" where
  "given m f d = (case m of Inl e \<Rightarrow> (Inl e, d) | Inr x \<Rightarrow> f x d)"

section \<open>Contexts and results\<close>

datatype actor = SYSTEM | OPERATOR | WORKER

fun actor_value :: "actor \<Rightarrow> string" where
  "actor_value SYSTEM = ''SYSTEM''"
| "actor_value OPERATOR = ''OPERATOR''"
| "actor_value WORKER = ''WORKER''"

record command_context =
  context_key :: string
  context_actor :: actor
  context_actor_id :: string
  context_reason :: string

definition command_context_init :: "command_context \<Rightarrow> command_context result" where
  "command_context_init c =
     bindE (idempotency_key (context_key c)) (\<lambda>_.
     thenE (guardE (context_actor_id c \<noteq> []) (ValueError ''actor_id is required''))
     (thenE (guardE (code_ok (context_reason c)) (ValueError ''reason_code has an invalid format''))
     (Inr c)))"

record mutation_result =
  mutation_kind :: string
  mutation_aggregate :: string
  mutation_version :: int
  mutation_hash :: string
  mutation_receipt :: uuid
  replayed :: bool

definition replayed_result :: "receipt_record \<Rightarrow> mutation_result result" where
  "replayed_result r =
     (case (record_aggregate_kind r, record_aggregate_id r, record_aggregate_version r,
        record_result_hash r) of
        (Some k, Some a, Some v, Some h) \<Rightarrow>
          if record_status r \<noteq> SUCCEEDED
          then Inl (RuntimeStateConflictError ''terminal receipt lacks a committed result'')
          else Inr \<lparr>mutation_kind = k, mutation_aggregate = a, mutation_version = v,
            mutation_hash = h, mutation_receipt = record_receipt_id r, replayed = True\<rparr>
      | _ \<Rightarrow> Inl (RuntimeStateConflictError ''terminal receipt lacks a committed result''))"

definition new_result :: "receipt_record \<Rightarrow> string \<Rightarrow> string \<Rightarrow> int \<Rightarrow> string \<Rightarrow> mutation_result" where
  "new_result r kind agg version hash =
     \<lparr>mutation_kind = kind, mutation_aggregate = agg, mutation_version = version,
      mutation_hash = hash, mutation_receipt = record_receipt_id r, replayed = False\<rparr>"

definition append_audit ::
  "instant \<Rightarrow> uuid \<Rightarrow> receipt_record \<Rightarrow> command_context \<Rightarrow> string \<Rightarrow> string \<Rightarrow> string
   \<Rightarrow> int option \<Rightarrow> int option \<Rightarrow> attempt_claim option \<Rightarrow> db \<Rightarrow> db result" where
  "append_audit now eid r ctx kind agg act before after claim d =
     audit_append now eid (Some (record_receipt_id r))
       \<lparr>req_actor_type = actor_value (context_actor ctx), req_actor_id = context_actor_id ctx,
        req_aggregate_kind = kind, req_aggregate_id = agg, req_action = act,
        req_reason = context_reason ctx, req_before = before, req_after = after\<rparr> claim d"

section \<open>Canonical requests\<close>

definition opt_value :: "('a \<Rightarrow> pyval) \<Rightarrow> 'a option \<Rightarrow> pyval" where
  "opt_value f m = (case m of None \<Rightarrow> PNone | Some x \<Rightarrow> f x)"

definition retry_policy_value :: "retry_policy \<Rightarrow> pyval" where
  "retry_policy_value p =
     PDataclass [(''max_attempts'', PInt (max_attempts p)),
       (''backoff'', PSequence (map PTimedelta (backoff p))),
       (''retryable_codes'', PSet (map PStr (remdups (retryable_codes p)))),
       (''deadline'', opt_value PDatetime (retry_deadline p))]"

definition step_spec_value :: "step_spec \<Rightarrow> pyval" where
  "step_spec_value s =
     PDataclass [(''step_key'', PStr (step_key s)), (''step_kind'', PStr (step_kind s)),
       (''implementation'', PStr (implementation s)),
       (''implementation_version'', PStr (implementation_version s)),
       (''ordinal'', PInt (ordinal s)), (''required'', PBool (required s)),
       (''request_hash'', PStr (request_hash s)),
       (''input_evidence_hash'', opt_value PStr (input_evidence_hash s)),
       (''retry_policy'', retry_policy_value (step_retry s)),
       (''external_effect_class'', PStr (external_effect_value (effect_class s)))]"

definition step_dependency_value :: "step_dependency \<Rightarrow> pyval" where
  "step_dependency_value x =
     PDataclass [(''predecessor_key'', PStr (predecessor_key x)),
       (''successor_key'', PStr (successor_key x)), (''dependency_kind'', PStr (dependency_kind x))]"

definition schedule_value :: "schedule_spec \<Rightarrow> pyval" where
  "schedule_value s =
     PDataclass [(''schedule_id'', PUuid (schedule_id s)), (''schedule_code'', PStr (schedule_code s)),
       (''revision'', PInt (schedule_revision s)),
       (''runtime_mode'', PStr (runtime_mode_value (schedule_mode s))),
       (''schedule_expression'', opt_value PStr (schedule_expression s)),
       (''timezone_name'', PStr (timezone_name s)),
       (''step_catalog_hash'', PStr (step_catalog_hash s)), (''enabled'', PBool (schedule_enabled s)),
       (''supersedes_schedule_id'', opt_value PUuid (supersedes_schedule_id s))]"

definition run_spec_value :: "run_spec \<Rightarrow> pyval" where
  "run_spec_value r =
     PDataclass [(''run_id'', PUuid (run_id r)), (''schedule_id'', PUuid (run_schedule_id r)),
       (''fire_key'', PStr (fire_key r)), (''runtime_mode'', PStr (runtime_mode_value (run_mode r))),
       (''requested_at'', PDatetime (requested_at r)),
       (''decision_time'', opt_value PDatetime (run_decision_time r)),
       (''code_sha'', PStr (code_sha r)), (''config_artifact_id'', PUuid (config_artifact_id r)),
       (''config_hash'', PStr (config_hash r)), (''parent_run_id'', opt_value PUuid (parent_run_id r)),
       (''original_run_id'', opt_value PUuid (original_run_id r))]"

text \<open>A claim's lease end comes back from the database in UTC.\<close>

definition claim_value :: "attempt_claim \<Rightarrow> pyval" where
  "claim_value c =
     PDataclass [(''attempt_id'', PUuid (claim_attempt_id c)), (''run_id'', PUuid (claim_run_id c)),
       (''step_id'', PUuid (claim_step_id c)), (''step_key'', PStr (claim_step_key c)),
       (''attempt_no'', PInt (claim_attempt_no c)), (''fence_token'', PInt (claim_fence c)),
       (''lease_owner'', PStr (claim_owner c)),
       (''lease_until'', PDatetime (Aware (claim_lease_until c) 0))]"

definition decision_value :: "recovery_decision \<Rightarrow> pyval" where
  "decision_value x =
     PDataclass [(''attempt_id'', PUuid (decision_attempt_id x)), (''run_id'', PUuid (decision_run_id x)),
       (''step_id'', PUuid (decision_step_id x)), (''fence_token'', PInt (decision_fence x)),
       (''outcome'', PStr (decision_outcome x)), (''attempt_version'', PInt (decision_attempt_version x)),
       (''step_version'', PInt (decision_step_version x)),
       (''run_version'', PInt (decision_run_version x))]"

section \<open>Commands\<close>

definition create_schedule ::
  "(db \<Rightarrow> unit result) \<Rightarrow> (nat \<Rightarrow> uuid) \<Rightarrow> clock \<Rightarrow> schedule_spec \<Rightarrow> command_context
   \<Rightarrow> mutation_result command" where
  "create_schedule commit ids clk schedule ctx =
     given (canonical_json_sha256 (schedule_value schedule)) (\<lambda>request.
     given (canonical_json_sha256 (PMapping [(''schedule_id'', PUuid (schedule_id schedule)),
       (''revision'', PInt (schedule_revision schedule))])) (\<lambda>result.
     with_uow commit False (\<lambda>d.
       bindE (receipt_start (clk 0) (ids 0) ''CREATE_RUNTIME_SCHEDULE'' (schedule_code schedule)
         (context_key ctx) request d) (\<lambda>(receipt, d).
       if \<not> is_new receipt then mapR (\<lambda>r. (r, d, False)) (replayed_result receipt)
       else
         let agg = uuid_str (schedule_id schedule); version = schedule_revision schedule
         in bindE (insert_schedule schedule d) (\<lambda>d.
            bindE (receipt_succeed (clk 30) (record_receipt_id receipt) ''RUNTIME_SCHEDULE'' agg
              version result None d) (\<lambda>d.
            bindE (append_audit (clk 31) (ids 1) receipt ctx ''RUNTIME_SCHEDULE'' agg
              ''CREATE_RUNTIME_SCHEDULE'' None (Some version) None d) (\<lambda>d.
            Inr (new_result receipt ''RUNTIME_SCHEDULE'' agg version result, d, True))))))))"

definition schedule_run ::
  "(db \<Rightarrow> unit result) \<Rightarrow> (nat \<Rightarrow> uuid) \<Rightarrow> clock \<Rightarrow> run_spec \<Rightarrow> step_spec list
   \<Rightarrow> step_dependency list \<Rightarrow> command_context \<Rightarrow> mutation_result command" where
  "schedule_run commit ids clk run specs deps ctx =
     given (validate_step_dag specs deps) (\<lambda>_.
     given (canonical_json_sha256 (PMapping [(''run'', run_spec_value run),
       (''steps'', PSequence (map step_spec_value specs)),
       (''dependencies'', PSequence (map step_dependency_value deps))])) (\<lambda>request.
     given (canonical_json_sha256 (PMapping [(''run_id'', PUuid (run_id run)),
       (''step_keys'', PSequence (map (\<lambda>s. PStr (step_key s)) specs))])) (\<lambda>result.
     let n = length specs; planned = zip (map ids [0..<n]) specs
     in with_uow commit False (\<lambda>d.
       bindE (receipt_start (clk 0) (ids n) ''SCHEDULE_RUNTIME_RUN''
         (uuid_str (run_schedule_id run) @ '':'' @ fire_key run) (context_key ctx) request d)
         (\<lambda>(receipt, d).
       if \<not> is_new receipt then mapR (\<lambda>r. (r, d, False)) (replayed_result receipt)
       else
         let agg = uuid_str (run_id run)
         in bindE (insert_run (later 1 clk) run planned deps d) (\<lambda>d.
            bindE (receipt_succeed (clk 30) (record_receipt_id receipt) ''RUNTIME_RUN'' agg 1
              result None d) (\<lambda>d.
            bindE (append_audit (clk 31) (ids (n + 1)) receipt ctx ''RUNTIME_RUN'' agg
              ''SCHEDULE_RUNTIME_RUN'' None (Some 1) None d) (\<lambda>d.
            Inr (new_result receipt ''RUNTIME_RUN'' agg 1 result, d, True)))))))))"

definition start_run_command ::
  "(db \<Rightarrow> unit result) \<Rightarrow> (nat \<Rightarrow> uuid) \<Rightarrow> clock \<Rightarrow> uuid \<Rightarrow> command_context
   \<Rightarrow> mutation_result command" where
  "start_run_command commit ids clk rid ctx =
     given (canonical_json_sha256 (PMapping [(''run_id'', PUuid rid)])) (\<lambda>request.
     with_uow commit False (\<lambda>d.
       bindE (receipt_start (clk 0) (ids 0) ''START_RUNTIME_RUN'' (uuid_str rid) (context_key ctx)
         request d) (\<lambda>(receipt, d).
       if \<not> is_new receipt then mapR (\<lambda>r. (r, d, False)) (replayed_result receipt)
       else
         bindE (start_run (later 1 clk) rid d) (\<lambda>(version, d).
         bindE (canonical_json_sha256 (PMapping [(''run_id'', PUuid rid), (''state'', PStr ''RUNNING''),
           (''version'', PInt version)])) (\<lambda>result.
         bindE (receipt_succeed (clk 30) (record_receipt_id receipt) ''RUNTIME_RUN'' (uuid_str rid)
           version result None d) (\<lambda>d.
         bindE (append_audit (clk 31) (ids 1) receipt ctx ''RUNTIME_RUN'' (uuid_str rid)
           ''START_RUNTIME_RUN'' (Some (version - 1)) (Some version) None d) (\<lambda>d.
         Inr (new_result receipt ''RUNTIME_RUN'' (uuid_str rid) version result, d, True))))))))"

text \<open>
  \<open>UUID(text)\<close> on the texts the receipts hold: separators are dropped, and thirty-two
  hexadecimal digits must remain.
\<close>

definition parse_uuid :: "string \<Rightarrow> uuid result" where
  "parse_uuid text =
     (let h = filter (\<lambda>c. c \<noteq> CHR ''-'') text
      in thenE (guardE (length h = 32 \<and> list_all is_lower_hex h)
           (ValueError ''badly formed hexadecimal UUID string''))
         (Inr (of_nat (foldl (\<lambda>v c. v * 16 + hex_value c) 0 h))))"

text \<open>The claim of a replayed receipt is read back in a second, read-only transaction.\<close>

definition claim_scope :: "uuid option \<Rightarrow> string" where
  "claim_scope rid =
     (case rid of None \<Rightarrow> ''runtime-ready-queue'' | Some k \<Rightarrow> ''runtime-run:'' @ uuid_str k)"

definition claim_next_command ::
  "(db \<Rightarrow> unit result) \<Rightarrow> admission \<Rightarrow> locked_rows \<Rightarrow> (nat \<Rightarrow> uuid) \<Rightarrow> clock \<Rightarrow> uuid option
   \<Rightarrow> uuid option \<Rightarrow> string \<Rightarrow> int \<Rightarrow> command_context \<Rightarrow> attempt_claim option command" where
  "claim_next_command commit admit locked ids clk rid sid worker lease ctx stored =
     given (thenE (guardE (worker \<noteq> []) (ValueError ''worker_id is required''))
       (canonical_json_sha256 (PMapping ([(''lease_duration'', PTimedelta lease),
         (''run_id'', opt_value PUuid rid), (''worker_id'', PStr worker)]
         @ (case sid of None \<Rightarrow> [] | Some k \<Rightarrow> [(''step_id'', PUuid k)]))))) (\<lambda>request.
     with_uow commit False (\<lambda>d.
       bindE (receipt_start (clk 0) (ids 0) ''CLAIM_RUNTIME_STEP'' (claim_scope rid)
         (context_key ctx) request d) (\<lambda>(receipt, d).
       if \<not> is_new receipt then
         bindE (optE (record_aggregate_id receipt)
           (RuntimeStateConflictError ''claim receipt has no Attempt identity'')) (\<lambda>agg.
         bindE (parse_uuid agg) (\<lambda>aid.
         mapR (\<lambda>c. (Some c, d, False)) (load_claim aid stored)))
       else
         bindE (claim_next (later 1 clk) admit locked (ids 1) rid worker lease sid d) (\<lambda>(claim, d).
         case claim of None \<Rightarrow> Inr (None, d, False)
         | Some c \<Rightarrow>
             let agg = uuid_str (claim_attempt_id c)
             in bindE (canonical_json_sha256 (claim_value c)) (\<lambda>result.
                bindE (receipt_succeed (clk 30) (record_receipt_id receipt) ''RUNTIME_ATTEMPT'' agg
                  (claim_attempt_no c) result (Some c) d) (\<lambda>d.
                bindE (append_audit (clk 31) (ids 2) receipt ctx ''RUNTIME_ATTEMPT'' agg
                  ''CLAIM_RUNTIME_STEP'' (Some (claim_attempt_no c - 1)) (Some (claim_attempt_no c))
                  (Some c) d) (\<lambda>d.
                Inr (Some c, d, True)))))))) stored"

section \<open>Commands under a claim\<close>

definition mutate_claim ::
  "(db \<Rightarrow> unit result) \<Rightarrow> (nat \<Rightarrow> uuid) \<Rightarrow> clock \<Rightarrow> string \<Rightarrow> attempt_claim \<Rightarrow> command_context
   \<Rightarrow> pyval \<Rightarrow> (uuid \<Rightarrow> db \<Rightarrow> ((int \<times> string) \<times> db) result) \<Rightarrow> mutation_result command" where
  "mutate_claim commit ids clk kind claim ctx req mutation =
     given (canonical_json_sha256 req) (\<lambda>request.
     with_uow commit False (\<lambda>d.
       bindE (receipt_start (clk 0) (ids 0) kind (uuid_str (claim_attempt_id claim))
         (context_key ctx) request d) (\<lambda>(receipt, d).
       if \<not> is_new receipt then mapR (\<lambda>r. (r, d, False)) (replayed_result receipt)
       else
         bindE (mutation (record_receipt_id receipt) d) (\<lambda>((version, result), d).
         let agg = uuid_str (claim_step_id claim)
         in bindE (receipt_succeed (clk 30) (record_receipt_id receipt) ''RUNTIME_STEP'' agg version
              result (Some claim) d) (\<lambda>d.
            bindE (append_audit (clk 31) (ids 1) receipt ctx ''RUNTIME_STEP'' agg kind
              (Some (max 0 (version - 1))) (Some version) (Some claim) d) (\<lambda>d.
            Inr (new_result receipt ''RUNTIME_STEP'' agg version result, d, True)))))))"

definition start_attempt_command ::
  "(db \<Rightarrow> unit result) \<Rightarrow> (nat \<Rightarrow> uuid) \<Rightarrow> clock \<Rightarrow> attempt_claim \<Rightarrow> command_context
   \<Rightarrow> mutation_result command" where
  "start_attempt_command commit ids clk claim ctx =
     mutate_claim commit ids clk ''START_RUNTIME_ATTEMPT'' claim ctx
       (PMapping [(''attempt_id'', PUuid (claim_attempt_id claim)), (''fence'', PInt (claim_fence claim))])
       (\<lambda>_ d. bindE (start_attempt (later 1 clk) claim d) (\<lambda>(version, d).
          mapR (\<lambda>h. ((version, h), d)) (canonical_json_sha256 (PMapping
            [(''attempt_id'', PUuid (claim_attempt_id claim)), (''state'', PStr ''RUNNING'')]))))"

definition heartbeat_attempt_command ::
  "(db \<Rightarrow> unit result) \<Rightarrow> (nat \<Rightarrow> uuid) \<Rightarrow> clock \<Rightarrow> attempt_claim \<Rightarrow> int \<Rightarrow> command_context
   \<Rightarrow> mutation_result command" where
  "heartbeat_attempt_command commit ids clk claim lease ctx =
     mutate_claim commit ids clk ''HEARTBEAT_RUNTIME_ATTEMPT'' claim ctx
       (PMapping [(''attempt_id'', PUuid (claim_attempt_id claim)), (''fence'', PInt (claim_fence claim)),
         (''lease_duration'', PTimedelta lease)])
       (\<lambda>_ d. bindE (heartbeat_attempt (later 1 clk) claim lease d) (\<lambda>(until, d).
          mapR (\<lambda>h. ((claim_attempt_no claim, h), d)) (canonical_json_sha256 (PMapping
            [(''attempt_id'', PUuid (claim_attempt_id claim)),
             (''lease_until'', PDatetime (Aware until 0))]))))"

definition succeed_attempt_command ::
  "(db \<Rightarrow> unit result) \<Rightarrow> (nat \<Rightarrow> uuid) \<Rightarrow> clock \<Rightarrow> attempt_claim \<Rightarrow> string \<Rightarrow> command_context
   \<Rightarrow> mutation_result command" where
  "succeed_attempt_command commit ids clk claim result ctx =
     given (content_hash result) (\<lambda>_.
     mutate_claim commit ids clk ''SUCCEED_RUNTIME_ATTEMPT'' claim ctx
       (PMapping [(''attempt_id'', PUuid (claim_attempt_id claim)), (''fence'', PInt (claim_fence claim)),
         (''result_hash'', PStr result)])
       (\<lambda>receipt d. mapR (\<lambda>((step_version, _), d). ((step_version, result), d))
          (succeed_attempt (later 1 clk) claim receipt result d)))"

definition fail_attempt_command ::
  "(db \<Rightarrow> unit result) \<Rightarrow> (nat \<Rightarrow> uuid) \<Rightarrow> clock \<Rightarrow> attempt_claim \<Rightarrow> string \<Rightarrow> string
   \<Rightarrow> command_context \<Rightarrow> mutation_result command" where
  "fail_attempt_command commit ids clk claim eclass code ctx =
     given (guardE (code_ok eclass \<and> code_ok code)
       (ValueError ''error class and code must use the closed code format'')) (\<lambda>_.
     mutate_claim commit ids clk ''FAIL_RUNTIME_ATTEMPT'' claim ctx
       (PMapping [(''attempt_id'', PUuid (claim_attempt_id claim)), (''fence'', PInt (claim_fence claim)),
         (''error_class'', PStr eclass), (''error_code'', PStr code)])
       (\<lambda>receipt d. bindE (fail_attempt (later 1 clk) claim receipt eclass code d)
          (\<lambda>((outcome, version, _), d).
          mapR (\<lambda>h. ((version, h), d)) (canonical_json_sha256 (PMapping
            [(''attempt_id'', PUuid (claim_attempt_id claim)), (''error_code'', PStr code),
             (''outcome'', PStr outcome)])))))"

section \<open>Recovery\<close>

text \<open>
  One turn of each loop of \<open>recover_expired\<close>, in a transaction of its own. A turn
  that leaves with \<open>continue\<close> does not commit.
\<close>

definition recovery_audit ::
  "string \<Rightarrow> string \<Rightarrow> string \<Rightarrow> string \<Rightarrow> int option \<Rightarrow> int option \<Rightarrow> audit_request" where
  "recovery_audit actor reason agg act before after =
     \<lparr>req_actor_type = actor_value SYSTEM, req_actor_id = actor,
      req_aggregate_kind = ''RUNTIME_ATTEMPT'', req_aggregate_id = agg, req_action = act,
      req_reason = reason, req_before = before, req_after = after\<rparr>"

definition recover_one ::
  "(db \<Rightarrow> unit result) \<Rightarrow> admission \<Rightarrow> (nat \<Rightarrow> uuid) \<Rightarrow> clock \<Rightarrow> string \<Rightarrow> string \<Rightarrow> uuid
   \<Rightarrow> uuid option command" where
  "recover_one commit admit ids clk actor reason aid =
     given (canonical_json_sha256 (PMapping [(''attempt_id'', PUuid aid), (''reason_code'', PStr reason)]))
       (\<lambda>request.
     with_uow commit False (\<lambda>d.
       bindE (receipt_start (clk 0) (ids 0) ''RECOVER_RUNTIME_ATTEMPT'' (uuid_str aid)
         (''lease-expiry:'' @ uuid_str aid) request d) (\<lambda>(receipt, d).
       if \<not> is_new receipt then Inr (None, d, False)
       else
         bindE (load_claim aid d) (\<lambda>claim.
         bindE (recover_expired_attempt (later 1 clk) admit aid (record_receipt_id receipt) d)
           (\<lambda>(decision, d).
         case decision of None \<Rightarrow> Inr (None, d, False)
         | Some x \<Rightarrow>
             let version = decision_attempt_version x
             in bindE (canonical_json_sha256 (decision_value x)) (\<lambda>result.
                bindE (receipt_succeed (clk 30) (record_receipt_id receipt) ''RUNTIME_ATTEMPT''
                  (uuid_str aid) version result (Some claim) d) (\<lambda>d.
                bindE (audit_append (clk 31) (ids 1) (Some (record_receipt_id receipt))
                  (recovery_audit actor reason (uuid_str aid) ''RECOVER_RUNTIME_ATTEMPT''
                    (Some version) (Some version)) (Some claim) d) (\<lambda>d.
                Inr (Some aid, d, True)))))))))"

definition expire_one ::
  "(db \<Rightarrow> unit result) \<Rightarrow> admission \<Rightarrow> (nat \<Rightarrow> uuid) \<Rightarrow> clock \<Rightarrow> string \<Rightarrow> string \<Rightarrow> uuid
   \<Rightarrow> uuid option command" where
  "expire_one commit admit ids clk actor reason sid =
     given (canonical_json_sha256 (PMapping [(''step_id'', PUuid sid), (''reason_code'', PStr reason)]))
       (\<lambda>request.
     with_uow commit False (\<lambda>d.
       bindE (receipt_start (clk 0) (ids 0) ''EXPIRE_RUNTIME_STEP_DEADLINE'' (uuid_str sid)
         (''deadline-expiry:'' @ uuid_str sid) request d) (\<lambda>(receipt, d).
       if \<not> is_new receipt then Inr (None, d, False)
       else
         bindE (expire_step_deadline (later 1 clk) admit sid (ids 1) (record_receipt_id receipt)
           (''recovery:'' @ actor) d) (\<lambda>(decision, d).
         case decision of None \<Rightarrow> Inr (None, d, False)
         | Some x \<Rightarrow>
             let aid = decision_attempt_id x; version = decision_attempt_version x
             in bindE (load_claim aid d) (\<lambda>claim.
                bindE (canonical_json_sha256 (decision_value x)) (\<lambda>result.
                bindE (receipt_succeed (clk 30) (record_receipt_id receipt) ''RUNTIME_ATTEMPT''
                  (uuid_str aid) version result (Some claim) d) (\<lambda>d.
                bindE (audit_append (clk 31) (ids 2) (Some (record_receipt_id receipt))
                  (recovery_audit actor reason (uuid_str aid) ''EXPIRE_RUNTIME_STEP_DEADLINE''
                    None (Some version)) (Some claim) d) (\<lambda>d.
                Inr (Some aid, d, True)))))))))"

text \<open>\<open>for x in xs\<close> over transactions: an exception stops the loop, what is committed stays.\<close>

fun each_command :: "(nat \<Rightarrow> 'a \<Rightarrow> 'b option command) \<Rightarrow> nat \<Rightarrow> 'a list \<Rightarrow> 'b list \<Rightarrow> 'b list command"
where
  "each_command turn k [] done_so_far d = (Inr done_so_far, d)"
| "each_command turn k (x # xs) done_so_far d =
     (case turn k x d of
        (Inl e, d') \<Rightarrow> (Inl e, d')
      | (Inr r, d') \<Rightarrow>
          each_command turn (k + 1) xs (done_so_far @ (case r of None \<Rightarrow> [] | Some y \<Rightarrow> [y])) d')"

definition recover_expired ::
  "(db \<Rightarrow> unit result) \<Rightarrow> admission \<Rightarrow> (nat \<Rightarrow> nat \<Rightarrow> uuid) \<Rightarrow> (nat \<Rightarrow> clock) \<Rightarrow> string \<Rightarrow> string
   \<Rightarrow> uuid option \<Rightarrow> uuid list command" where
  "recover_expired commit admit ids clk actor reason rid stored =
     given (guardE (actor \<noteq> [] \<and> code_ok reason) (ValueError ''recovery actor and reason are required''))
       (\<lambda>_ d.
     let attempt_ids = expired_attempt_ids (clk 0) rid d
     in case each_command (\<lambda>k. recover_one commit admit (ids k) (clk k) actor reason) 1 attempt_ids [] d of
          (Inl e, d') \<Rightarrow> (Inl e, d')
        | (Inr recovered, d') \<Rightarrow>
            let k = 1 + length attempt_ids; step_ids = deadline_expired_step_ids (clk k) rid d'
            in each_command (\<lambda>k. expire_one commit admit (ids k) (clk k) actor reason) (k + 1)
                 step_ids recovered d') stored"

definition resume_waiting_step_command ::
  "(db \<Rightarrow> unit result) \<Rightarrow> (nat \<Rightarrow> uuid) \<Rightarrow> clock \<Rightarrow> uuid \<Rightarrow> uuid \<Rightarrow> string \<Rightarrow> command_context
   \<Rightarrow> mutation_result command" where
  "resume_waiting_step_command commit ids clk rid sid resolution ctx =
     given (guardE (resolution = ''EXTERNAL_EFFECT_PROVEN_ABSENT'')
       (ValueError ''resume may retry only after EXTERNAL_EFFECT_PROVEN_ABSENT'')) (\<lambda>_.
     given (canonical_json_sha256 (PMapping [(''run_id'', PUuid rid), (''step_id'', PUuid sid),
       (''resolution_code'', PStr resolution)])) (\<lambda>request.
     with_uow commit False (\<lambda>d.
       bindE (receipt_start (clk 0) (ids 0) ''RESUME_RUNTIME_STEP'' (uuid_str sid) (context_key ctx)
         request d) (\<lambda>(receipt, d).
       if \<not> is_new receipt then mapR (\<lambda>r. (r, d, False)) (replayed_result receipt)
       else
         bindE (resume_waiting_step (later 1 clk) rid sid d) (\<lambda>((step_version, run_version), d).
         bindE (canonical_json_sha256 (PMapping [(''run_id'', PUuid rid),
           (''run_version'', PInt run_version), (''step_id'', PUuid sid),
           (''step_version'', PInt step_version), (''state'', PStr ''READY'')])) (\<lambda>result.
         bindE (receipt_succeed (clk 30) (record_receipt_id receipt) ''RUNTIME_STEP'' (uuid_str sid)
           step_version result None d) (\<lambda>d.
         bindE (append_audit (clk 31) (ids 1) receipt ctx ''RUNTIME_STEP'' (uuid_str sid)
           ''RESUME_RUNTIME_STEP'' (Some (step_version - 1)) (Some step_version) None d) (\<lambda>d.
         Inr (new_result receipt ''RUNTIME_STEP'' (uuid_str sid) step_version result, d, True)))))))))"

definition inspect_run_command ::
  "(db \<Rightarrow> unit result) \<Rightarrow> uuid \<Rightarrow> run_trace command" where
  "inspect_run_command commit rid =
     with_uow commit True (\<lambda>d. mapR (\<lambda>t. (t, d, False)) (inspect_run rid d))"

end
