(* ===== verification/Runtime_Operations.thy ===== *)
theory Runtime_Operations
  imports Runtime_Refinement
begin

text \<open>
  The operations of \<open>PostgresRuntimeRepository\<close> as one step relation on the database,
  and what every step guarantees: it is one transition of the abstract machine or
  leaves the machine alone, keeps the invariant, and does not touch receipts, audit
  events and artifacts. The consequences for leases and fences follow by induction on
  the steps.
\<close>

section \<open>Frames\<close>

definition same_ledger :: "db \<Rightarrow> db \<Rightarrow> bool" where
  "same_ledger d d' \<longleftrightarrow> receipts d' = receipts d \<and> audits d' = audits d \<and> artifacts d' = artifacts d"

lemma same_ledger_refl [simp]: "same_ledger d d"
  by (simp add: same_ledger_def)

lemma same_ledger_trans [trans]: "same_ledger d e \<Longrightarrow> same_ledger e f \<Longrightarrow> same_ledger d f"
  by (simp add: same_ledger_def)

lemma update_frame:
  "update_runs p f d = Inr (row, d') \<Longrightarrow> same_ledger d d'"
  "update_steps q g d = Inr (row', d') \<Longrightarrow> same_ledger d d'"
  "update_attempts u h d = Inr (row'', d') \<Longrightarrow> same_ledger d d'"
  by (auto simp: update_runs_def update_steps_def update_attempts_def mapR_Inr_iff same_ledger_def)

lemma insert_frame:
  "insert_schedule_row s d = Inr d' \<Longrightarrow> same_ledger d d'"
  "insert_run_row r d = Inr d' \<Longrightarrow> same_ledger d d'"
  "insert_step_row t d = Inr d' \<Longrightarrow> same_ledger d d'"
  "insert_dependency_row x d = Inr d' \<Longrightarrow> same_ledger d d'"
  "insert_attempt_row a d = Inr d' \<Longrightarrow> same_ledger d d'"
  by (auto simp: insert_schedule_row_def insert_run_row_def insert_step_row_def insert_dependency_row_def
      insert_attempt_row_def thenE_Inr_iff same_ledger_def)

lemma foldE_frame:
  assumes "foldE f xs d = Inr d'" "\<And>x u v. x \<in> set xs \<Longrightarrow> f x u = Inr v \<Longrightarrow> same_ledger u v"
  shows "same_ledger d d'"
proof (rule foldE_keeps [OF assms(1), where I = "same_ledger d"])
  show "same_ledger d v" if "x \<in> set xs" "same_ledger d u" "f x u = Inr v" for x u v
    using same_ledger_trans [OF that(2) assms(2) [OF that(1,3)]] .
qed simp

section \<open>Steps\<close>

inductive repo_step :: "db \<Rightarrow> db \<Rightarrow> bool" where
  schedule: "insert_schedule s d = Inr d' \<Longrightarrow> repo_step d d'"
| run: "insert_run clk run planned deps d = Inr d' \<Longrightarrow> repo_step d d'"
| start_run: "start_run clk rid d = Inr (v, d') \<Longrightarrow> repo_step d d'"
| claim_next: "claim_next clk admit locked aid rid worker lease sid d = Inr (w, d') \<Longrightarrow> repo_step d d'"
| start_attempt: "start_attempt clk claim d = Inr (v, d') \<Longrightarrow> repo_step d d'"
| heartbeat: "heartbeat_attempt clk claim lease d = Inr (t, d') \<Longrightarrow> repo_step d d'"
| succeed: "succeed_attempt clk claim receipt result d = Inr (vs, d') \<Longrightarrow> repo_step d d'"
| fail: "fail_attempt clk claim receipt eclass code d = Inr (os, d') \<Longrightarrow> repo_step d d'"
| recover: "recover_expired_attempt clk admit aid receipt d = Inr (x, d') \<Longrightarrow> repo_step d d'"
| expire: "expire_step_deadline clk admit sid aid receipt owner d = Inr (x, d') \<Longrightarrow> repo_step d d'"
| resume: "resume_waiting_step clk rid sid d = Inr (vs, d') \<Longrightarrow> repo_step d d'"

lemma insert_schedule_abs:
  "insert_schedule s d = Inr d' \<Longrightarrow> store_ok d \<Longrightarrow> store_ok d' \<and> abs_db d' = abs_db d"
  by (auto simp: insert_schedule_def insert_schedule_row_def thenE_Inr_iff store_ok_def abs_db_def)

text \<open>Every operation refines the machine.\<close>

lemma repo_step_refines:
  assumes "repo_step d d'" "runtime_ok d"
  shows "runtime_ok d' \<and> (abs_db d' = abs_db d \<or> m_trans (abs_db d) (abs_db d'))"
proof -
  have st: "store_ok d" and inv: "m_inv (abs_db d)" using assms(2) by (simp_all add: runtime_ok_def)
  have "store_ok d' \<and> (abs_db d' = abs_db d \<or> m_trans (abs_db d) (abs_db d'))"
    using assms(1)
  proof cases
    case (schedule s) then show ?thesis using insert_schedule_abs [OF _ st] by blast
  next
    case (run clk run planned deps) then show ?thesis using insert_run_refines [OF assms(2)] by blast
  next
    case (start_run clk rid v) then show ?thesis using start_run_refines [OF assms(2)] by blast
  next
    case (claim_next clk admit locked aid rid worker lease sid w)
    from claim_next_refines [OF assms(2) this] st show ?thesis by (cases w) auto
  next
    case (start_attempt clk claim v) then show ?thesis using start_attempt_refines [OF assms(2)] by blast
  next
    case (heartbeat clk claim lease t) then show ?thesis using heartbeat_attempt_refines [OF assms(2)] by blast
  next
    case (succeed clk claim receipt result vs)
    then show ?thesis using succeed_attempt_refines [OF assms(2)] by blast
  next
    case (fail clk claim receipt eclass code os)
    then show ?thesis using fail_attempt_refines [OF assms(2)] by blast
  next
    case (recover clk admit aid receipt x)
    from recover_expired_attempt_refines [OF assms(2) this] st show ?thesis by (cases x) auto
  next
    case (expire clk admit sid aid receipt owner x)
    from expire_step_deadline_refines [OF assms(2) this] st show ?thesis by (cases x) auto
  next
    case (resume clk rid sid vs) then show ?thesis using resume_waiting_step_refines [OF assms(2)] by blast
  qed
  then show ?thesis using inv m_trans_preserves by (auto simp: runtime_ok_def)
qed

section \<open>Operations leave the ledger alone\<close>

lemma settle_frame: "settle_run now rid target reason d = Inr (row, d') \<Longrightarrow> same_ledger d d'"
  by (auto simp: settle_run_def dest!: update_frame split: if_splits)

lemma finish_frame: "finish_run_if_complete clk rid d = Inr (v, d') \<Longrightarrow> same_ledger d d'"
  by (auto simp: finish_run_if_complete_def bindE_Inr_iff dest!: update_frame split: if_splits option.splits)

lemma release_frame: "release_ready_successors clk rid d = Inr d' \<Longrightarrow> same_ledger d d'"
  by (auto simp: release_ready_successors_def mapR_Inr_iff dest!: update_frame)

lemma ready_pending_frame: "ready_pending_step now s d = Inr d' \<Longrightarrow> same_ledger d d'"
  by (auto simp: ready_pending_step_def bindE_Inr_iff dest!: update_frame split: if_splits)

lemmas statement_frames =
  update_frame insert_frame settle_frame finish_frame release_frame ready_pending_frame

lemma steps_frame:
  "foldE (\<lambda>p d. insert_step_row (g p) d) ps d = Inr d' \<Longrightarrow> same_ledger d d'"
  "foldE (\<lambda>x d. bindE (f x) (\<lambda>row. insert_dependency_row row d)) xs d = Inr d' \<Longrightarrow> same_ledger d d'"
  by (erule foldE_frame, auto simp: bindE_Inr_iff dest: insert_frame)+

lemma insert_run_frame: "insert_run clk run planned deps d = Inr d' \<Longrightarrow> same_ledger d d'"
  by (auto simp: insert_run_def bindE_Inr_iff Let_def dest!: insert_frame steps_frame
      intro: same_ledger_trans split: if_splits)

lemma start_run_frame: "start_run clk rid d = Inr (v, d') \<Longrightarrow> same_ledger d d'"
  by (auto simp: start_run_def bindE_Inr_iff dest!: update_frame intro: same_ledger_trans split: if_splits)

lemma claim_next_frame:
  assumes "claim_next clk admit locked aid rid worker lease sid d = Inr (w, d')"
  shows "same_ledger d d'"
proof (cases "first_by claim_order (filter (\<lambda>(r, s). claimable clk rid sid d s r
    \<and> \<not> locked (run_key r) (step_id s)) (joined_steps d))")
  case None
  then show ?thesis using assms by (auto simp: claim_next_def bindE_Inr_iff thenE_Inr_iff)
next
  case (Some rs)
  then show ?thesis using assms
    by (cases rs) (auto simp: claim_next_def bindE_Inr_iff thenE_Inr_iff Let_def dest!: statement_frames
        intro: same_ledger_trans split: if_splits)
qed

lemma claim_operation_frames:
  "start_attempt clk claim d = Inr (v, d') \<Longrightarrow> same_ledger d d'"
  "heartbeat_attempt clk claim lease d = Inr (t, d') \<Longrightarrow> same_ledger d d'"
  "succeed_attempt clk claim receipt result d = Inr (vs, d') \<Longrightarrow> same_ledger d d'"
  "fail_attempt clk claim receipt eclass code d = Inr (os, d') \<Longrightarrow> same_ledger d d'"
  by (auto simp: start_attempt_def heartbeat_attempt_def succeed_attempt_def fail_attempt_def bindE_Inr_iff Let_def
      case_prod_unfold dest!: statement_frames intro: same_ledger_trans split: option.splits)

lemma recover_frame: "recover_expired_attempt clk admit aid receipt d = Inr (x, d') \<Longrightarrow> same_ledger d d'"
  by (auto simp: recover_expired_attempt_def bindE_Inr_iff thenE_Inr_iff Let_def case_prod_unfold dest!: statement_frames
      intro: same_ledger_trans split: if_splits option.splits)

lemma resume_frame: "resume_waiting_step clk rid sid d = Inr (vs, d') \<Longrightarrow> same_ledger d d'"
  by (auto simp: resume_waiting_step_def bindE_Inr_iff thenE_Inr_iff Let_def case_prod_unfold dest!: statement_frames
      intro: same_ledger_trans split: if_splits option.splits)

lemma expire_frame: "expire_step_deadline clk admit sid aid receipt owner d = Inr (x, d') \<Longrightarrow> same_ledger d d'"
  by (auto simp: expire_step_deadline_def bindE_Inr_iff thenE_Inr_iff Let_def dest!: statement_frames
      split: if_splits option.splits) (simp add: same_ledger_def)

lemma repo_step_frame: "repo_step d d' \<Longrightarrow> same_ledger d d'"
  by (induction rule: repo_step.induct)
    (auto simp: insert_schedule_def dest: insert_frame insert_run_frame start_run_frame claim_next_frame
      claim_operation_frames recover_frame expire_frame resume_frame)

end
