(* ===== verification/Runtime_Leases.thy ===== *)
theory Runtime_Leases
  imports Runtime_Repository
begin

text \<open>
  Lease durations: \<open>_lease_milliseconds\<close> computes in floating point. Its result is
  bounded by the rounding contract of the locale \<open>rounding\<close>, through the
  interpretation \<open>double\<close> for IEEE double precision.
\<close>

lemma float_exact_of_int: "\<bar>m\<bar> < 2 ^ 53 \<Longrightarrow> float_exact (of_int m)"
  using representable_of_int [of m 2 53] by (simp add: float_exact_def)

lemma float_round_of_int: "\<bar>m\<bar> < 2 ^ 53 \<Longrightarrow> float_round (of_int m) = of_int m"
  by (rule double.rnd_exact) (rule float_exact_of_int)

lemma trunc_rat_mono: "x \<le> y \<Longrightarrow> trunc_rat x \<le> trunc_rat y"
proof -
  assume le: "x \<le> y"
  have "\<lfloor>- y\<rfloor> \<le> \<lfloor>- x\<rfloor>" "\<lfloor>x\<rfloor> \<le> \<lfloor>y\<rfloor>" using le by (simp_all add: floor_mono)
  then show ?thesis
  proof (cases "x < 0 \<and> \<not> y < 0")
    case True
    then have "0 \<le> \<lfloor>- x\<rfloor>" "0 \<le> \<lfloor>y\<rfloor>" by simp_all
    then have "- \<lfloor>- x\<rfloor> \<le> \<lfloor>y\<rfloor>" by linarith
    then show ?thesis using True by (simp add: trunc_rat_def)
  qed (use le in \<open>auto simp: trunc_rat_def\<close>)
qed

lemma trunc_rat_of_int [simp]: "trunc_rat (of_int n) = n"
proof -
  have "\<lfloor>- (of_int n :: rat)\<rfloor> = - n" using floor_of_int [of "- n", where 'a = rat] by simp
  then show ?thesis by (simp add: trunc_rat_def)
qed

lemma total_seconds_mono: "us \<le> us' \<Longrightarrow> total_seconds us \<le> total_seconds us'"
  unfolding total_seconds_def by (rule double.rnd_mono) (simp add: divide_right_mono)

lemma duration_ms_mono: "us \<le> us' \<Longrightarrow> duration_ms us \<le> duration_ms us'"
  unfolding duration_ms_def
  by (intro trunc_rat_mono double.rnd_mono mult_right_mono total_seconds_mono) simp_all

text \<open>A whole number of seconds is converted exactly.\<close>

lemma duration_ms_seconds:
  assumes "\<bar>k\<bar> \<le> 9000000000000"
  shows "duration_ms (k * 1000000) = k * 1000"
proof -
  have "total_seconds (k * 1000000) = of_int k"
    using float_round_of_int [of k] assms by (simp add: total_seconds_def)
  moreover have "float_round (of_int k * 1000) = of_int (k * 1000)"
    using float_round_of_int [of "k * 1000"] assms by simp
  ultimately show ?thesis unfolding duration_ms_def by (metis trunc_rat_of_int)
qed

lemma duration_ms_bounds:
  assumes "0 \<le> us" "us \<le> 86400000000"
  shows "0 \<le> duration_ms us" "duration_ms us \<le> 86400000"
  using duration_ms_mono [OF assms(1)] duration_ms_mono [OF assms(2)]
    duration_ms_seconds [of 0] duration_ms_seconds [of 86400] by simp_all

lemma lease_milliseconds_Inr_iff:
  "lease_milliseconds us = Inr ms \<longleftrightarrow>
     ms = duration_ms us \<and> 0 < us \<and> 0 < ms \<and> us \<le> one_day_us"
  by (auto simp: lease_milliseconds_def Let_def)

lemma lease_milliseconds_seconds:
  "1 \<le> k \<Longrightarrow> k \<le> 86400 \<Longrightarrow> lease_milliseconds (k * 1000000) = Inr (k * 1000)"
  using duration_ms_seconds [of k] by (simp add: lease_milliseconds_Inr_iff one_day_us_def)

section \<open>Properties\<close>

text \<open>
  The lease a claim gets is bounded and tracks the requested duration: a duration of at
  least \<open>k\<close> and at most \<open>k + 1\<close> whole seconds (\<open>k\<close> positive, a day at most) is accepted, and its
  milliseconds lie between \<open>1000 * k\<close> and \<open>1000 * (k + 1)\<close> although the conversion goes through
  binary floating point twice. A duration that is not positive or exceeds a day is refused.
\<close>

theorem lease_milliseconds_tracks_seconds:
  assumes "1 \<le> k" "k * 1000000 \<le> us" "us \<le> (k + 1) * 1000000" "k < 86400"
  shows "(\<exists>ms. lease_milliseconds us = Inr ms \<and> k * 1000 \<le> ms \<and> ms \<le> (k + 1) * 1000)
    \<and> isl (lease_milliseconds (- us)) \<and> isl (lease_milliseconds (us + one_day_us))"
proof -
  have "k * 1000 \<le> duration_ms us" "duration_ms us \<le> (k + 1) * 1000"
    using duration_ms_mono [OF assms(2)] duration_ms_mono [OF assms(3)]
      duration_ms_seconds [of k] duration_ms_seconds [of "k + 1"] assms by simp_all
  moreover have "lease_milliseconds us = Inr (duration_ms us)"
    unfolding lease_milliseconds_Inr_iff using calculation assms by (simp add: one_day_us_def)
  moreover have "\<nexists>ms. lease_milliseconds (- us) = Inr ms" "\<nexists>ms. lease_milliseconds (us + one_day_us) = Inr ms"
    using assms by (simp_all add: lease_milliseconds_Inr_iff one_day_us_def)
  then have "isl (lease_milliseconds (- us))" "isl (lease_milliseconds (us + one_day_us))"
    by (metis sum.exhaust_sel isl_def)+
  ultimately show ?thesis by auto
qed

theorem lease_milliseconds_tracks_seconds_witness:
  "(\<exists>ms. lease_milliseconds 2500000 = Inr ms \<and> 2000 \<le> ms \<and> ms \<le> 3000)
    \<and> isl (lease_milliseconds (- 2500000)) \<and> isl (lease_milliseconds (2500000 + one_day_us))"
  using lease_milliseconds_tracks_seconds [of 2 2500000] by simp

text \<open>
  The conversion is not exact below a second: 1.001 seconds become 1000 milliseconds,
  because 1.001 is rounded to a double below it and the product is truncated.
\<close>

theorem lease_milliseconds_loses_a_millisecond: "lease_milliseconds 1001000 = Inr 1000"
proof -
  have "total_seconds 1001000 = 4508103226997866 * power_int 2 (- 52)"
    unfolding total_seconds_def float_round_def
    by (subst round_sig_at [where k = 0]) (simp_all add: round_half_even_nearest [where n = 4508103226997866] power_int_minus)
  then have seconds: "total_seconds 1001000 * 1000 = 4508103226997866000 / 4503599627370496"
    by (simp add: power_int_minus)
  have "float_round (total_seconds 1001000 * 1000) = 8804889115230207 * power_int 2 (- 43)"
    unfolding seconds float_round_def
    by (subst round_sig_at [where k = 9]) (simp_all add: round_half_even_nearest [where n = 8804889115230207] power_int_minus)
  then have "duration_ms 1001000 = 1000"
    by (simp add: duration_ms_def trunc_rat_def power_int_minus floor_eq_iff)
  then show ?thesis by (simp add: lease_milliseconds_Inr_iff one_day_us_def)
qed

end
