(* ===== verification/Runtime_Scenario.thy ===== *)
theory Runtime_Scenario
  imports Runtime_Operations Runtime_Leases Runtime_Receipts
begin

text \<open>
  One small Run, executed: an artifact, a schedule, a Run of two Steps where the second
  needs the success of the first, and the databases after each repository operation.
  The states are computed by the model; the theorems use them as concrete inputs.
\<close>

section \<open>Inputs\<close>

definition demo_hash :: string where
  "demo_hash = replicate 64 (CHR ''a'')"

definition demo_clock :: "instant \<Rightarrow> clock" where
  "demo_clock t = (\<lambda>i. t + int i)"

definition demo_admit :: admission where
  "demo_admit = (\<lambda>d r s. Inr ())"

definition demo_locked :: locked_rows where
  "demo_locked = (\<lambda>r s. False)"

definition demo_retry :: "int \<Rightarrow> retry_policy" where
  "demo_retry k = \<lparr>max_attempts = k, backoff = [], retryable_codes = [''TIMEOUT''], retry_deadline = None\<rparr>"

definition demo_step :: "string \<Rightarrow> string \<Rightarrow> int \<Rightarrow> int \<Rightarrow> external_effect_class \<Rightarrow> step_spec" where
  "demo_step key kind n k effect =
     \<lparr>step_key = key, step_kind = kind, implementation = ''capture'', implementation_version = ''1'',
      ordinal = n, required = True, request_hash = demo_hash, input_evidence_hash = None,
      step_retry = demo_retry k, effect_class = effect\<rparr>"

definition demo_specs :: "step_spec list" where
  "demo_specs = [demo_step ''capture'' ''CAPTURE'' 0 1 IDEMPOTENT_REMOTE_COMMAND,
     demo_step ''normalize'' ''NORMALIZE_PIT'' 1 2 Effect_NONE]"

definition demo_deps :: "step_dependency list" where
  "demo_deps = [\<lparr>predecessor_key = ''capture'', successor_key = ''normalize'',
     dependency_kind = ''REQUIRED_SUCCESS''\<rparr>]"

definition demo_schedule :: schedule_spec where
  "demo_schedule =
     \<lparr>schedule_id = 1, schedule_code = ''daily'', schedule_revision = 1, schedule_mode = OPERATIONAL,
      schedule_expression = None, timezone_name = ''UTC'', step_catalog_hash = demo_hash,
      schedule_enabled = True, supersedes_schedule_id = None\<rparr>"

definition demo_run :: run_spec where
  "demo_run =
     \<lparr>run_id = 10, run_schedule_id = 1, fire_key = ''2024-01-02'', run_mode = OPERATIONAL,
      requested_at = Aware 0 0, run_decision_time = None, code_sha = replicate 40 (CHR ''b''),
      config_artifact_id = 5, config_hash = demo_hash, parent_run_id = None, original_run_id = None\<rparr>"

definition demo_receipt :: receipt_row where
  "demo_receipt = pending_receipt 0 40 (''DEMO'', ''demo'', ''demo'') demo_hash"

definition demo_db :: db where
  "demo_db =
     \<lparr>schedules = [demo_schedule],
      artifacts = [\<lparr>artifact_id = 5, content_sha256 = demo_hash, integrity_state = AVAILABLE\<rparr>],
      runs = [], steps = [], dependencies = [], attempts = [], receipts = [demo_receipt], audits = []\<rparr>"

section \<open>States\<close>

text \<open>
  The rows after each operation. The captured Step has one Attempt and a remote effect;
  the second Step waits for it.
\<close>

definition demo_claim :: attempt_claim where
  "demo_claim =
     \<lparr>claim_attempt_id = 31, claim_run_id = 10, claim_step_id = 21, claim_step_key = ''capture'',
      claim_attempt_no = 1, claim_fence = 1, claim_owner = ''w1'', claim_lease_until = 60000203\<rparr>"

definition demo_claim2 :: "uuid \<Rightarrow> int \<Rightarrow> string \<Rightarrow> instant \<Rightarrow> attempt_claim" where
  "demo_claim2 aid k owner until =
     \<lparr>claim_attempt_id = aid, claim_run_id = 10, claim_step_id = 22, claim_step_key = ''normalize'',
      claim_attempt_no = k, claim_fence = k, claim_owner = owner, claim_lease_until = until\<rparr>"

definition demo_state :: "run_row \<Rightarrow> step_row list \<Rightarrow> attempt_row list \<Rightarrow> db" where
  "demo_state r ss as = demo_db\<lparr>runs := [r], steps := ss, attempts := as,
     dependencies := [\<lparr>dep_run = 10, predecessor_step_id = 21, successor_step_id = 22,
       dep_kind = ''REQUIRED_SUCCESS''\<rparr>]\<rparr>"

definition demo_run0 :: run_row where
  "demo_run0 = new_run_row 0 demo_run"

definition demo_run1 :: run_row where
  "demo_run1 = demo_run0\<lparr>run_state := Run_RUNNING, run_started_at := Some 100, run_version := 2\<rparr>"

definition demo_s1 :: step_row where
  "demo_s1 = new_step_row 1 10 (21, demo_specs ! 0)"

definition demo_s2 :: step_row where
  "demo_s2 = new_step_row 1 10 (22, demo_specs ! 1)"

definition demo_s1_run :: step_row where
  "demo_s1_run = demo_s1\<lparr>step_state := Step_RUNNING, current_fence := 1, current_attempt_id := Some 31,
     ready_at := Some 101, step_started_at := Some 303, step_version := 4\<rparr>"

definition demo_s1_end :: step_row where
  "demo_s1_end = demo_s1_run\<lparr>step_state := Step_SUCCEEDED, current_attempt_id := None,
     step_finished_at := Some 403, step_version := 5\<rparr>"

definition demo_a1 :: attempt_row where
  "demo_a1 = new_attempt (demo_clock 202) 31 demo_s1 1 ''w1'' 60000000"

definition demo_a1_run :: attempt_row where
  "demo_a1_run = demo_a1\<lparr>attempt_state := Attempt_RUNNING, attempt_started_at := Some 301\<rparr>"

definition demo_a1_end :: attempt_row where
  "demo_a1_end = demo_a1_run\<lparr>attempt_state := Attempt_SUCCEEDED, result_receipt_id := Some 40,
     attempt_result_hash := Some demo_hash, attempt_finished_at := Some 401\<rparr>"

definition demo_a2 :: attempt_row where
  "demo_a2 = new_attempt (demo_clock 502) 32 demo_s2 1 ''w1'' 60000000"

definition demo_a2_end :: attempt_row where
  "demo_a2_end = demo_a2\<lparr>attempt_state := Attempt_ABANDONED, error_class := Some ''LEASE'',
     error_code := Some ''LEASE_EXPIRED'', result_receipt_id := Some 40,
     attempt_finished_at := Some 70000001\<rparr>"

definition demo_s2_ready :: step_row where
  "demo_s2_ready = demo_s2\<lparr>step_state := Step_READY, current_fence := 1, ready_at := Some 70000002,
     step_version := 4\<rparr>"

definition demo_scheduled :: db where
  "demo_scheduled = demo_state demo_run0 [demo_s1, demo_s2] []"

definition demo_started :: db where
  "demo_started = demo_state demo_run1
     [demo_s1\<lparr>step_state := Step_READY, ready_at := Some 101, step_version := 2\<rparr>, demo_s2] []"

definition demo_claimed :: db where
  "demo_claimed = demo_state demo_run1
     [demo_s1\<lparr>step_state := Step_CLAIMED, current_fence := 1, current_attempt_id := Some 31,
        ready_at := Some 101, step_version := 3\<rparr>, demo_s2] [demo_a1]"

definition demo_running :: db where
  "demo_running = demo_state demo_run1 [demo_s1_run, demo_s2] [demo_a1_run]"

text \<open>The worker reports success, or its lease runs out while the remote effect is open.\<close>

definition demo_succeeded :: db where
  "demo_succeeded = demo_state demo_run1
     [demo_s1_end, demo_s2\<lparr>step_state := Step_READY, ready_at := Some 404, step_version := 2\<rparr>]
     [demo_a1_end]"

definition demo_waiting :: db where
  "demo_waiting = demo_state
     (demo_run1\<lparr>run_state := Run_WAITING, run_reason := Some ''EXTERNAL_EFFECT_UNKNOWN'', run_version := 3\<rparr>)
     [demo_s1_run\<lparr>step_state := Step_WAITING, current_attempt_id := None,
        step_reason := Some ''EXTERNAL_EFFECT_UNKNOWN'', step_version := 5\<rparr>, demo_s2]
     [demo_a1_run\<lparr>attempt_state := Attempt_RECONCILIATION_REQUIRED, error_class := Some ''LEASE'',
        error_code := Some ''LEASE_EXPIRED'', result_receipt_id := Some 40,
        attempt_finished_at := Some 70000001\<rparr>]"

definition demo_resumed :: db where
  "demo_resumed = demo_state (demo_run1\<lparr>run_version := 4\<rparr>)
     [demo_s1_run\<lparr>step_state := Step_READY, current_attempt_id := None, ready_at := Some 80000000,
        step_version := 6\<rparr>, demo_s2]
     [demo_a1_run\<lparr>attempt_state := Attempt_RECONCILIATION_REQUIRED, error_class := Some ''LEASE'',
        error_code := Some ''LEASE_EXPIRED'', result_receipt_id := Some 40,
        attempt_finished_at := Some 70000001\<rparr>]"

text \<open>The second Step is claimed, abandoned by recovery and claimed again.\<close>

definition demo_claimed2 :: db where
  "demo_claimed2 = demo_state demo_run1
     [demo_s1_end, demo_s2\<lparr>step_state := Step_CLAIMED, current_fence := 1, current_attempt_id := Some 32,
        ready_at := Some 404, step_version := 3\<rparr>] [demo_a1_end, demo_a2]"

definition demo_abandoned :: db where
  "demo_abandoned = demo_state demo_run1 [demo_s1_end, demo_s2_ready] [demo_a1_end, demo_a2_end]"

definition demo_claimed3 :: db where
  "demo_claimed3 = demo_state demo_run1
     [demo_s1_end, demo_s2_ready\<lparr>step_state := Step_CLAIMED, current_fence := 2,
        current_attempt_id := Some 33, step_version := 5\<rparr>]
     [demo_a1_end, demo_a2_end, new_attempt (demo_clock 71000002) 33 demo_s2_ready 2 ''w2'' 60000000]"

section \<open>Runs of the model\<close>

lemma demo_hash_ok [simp]: "content_hash_ok demo_hash"
  by (simp add: content_hash_ok_def demo_hash_def list_all_iff is_lower_hex_def is_digit_def)

lemma demo_lease [simp]: "lease_milliseconds 60000000 = Inr 60000"
  using lease_milliseconds_seconds [of 60] by simp

lemmas check_defs = first_violation.simps schedule_checks_def run_checks_def step_checks_def attempt_checks_def
  receipt_checks_def audit_checks_def code_ok_def step_key_ok_def head_tail_match_def is_lower_def is_upper_def
  is_digit_def code_sha_ok_def is_lower_hex_def list_all_iff step_kinds_def is_integer_def

lemmas guard_defs = guard_runtime_run_update_def guard_runtime_step_update_def guard_runtime_attempt_update_def
  guard_command_receipt_update_def sql_run_edges_def sql_step_edges_def sql_attempt_edges_def
  run_update_check_def step_update_check_def attempt_update_check_def receipt_update_check_def
  current_attempt_fk_def attempt_result_fk_def receipt_claim_fk_def

lemmas statement_defs = update_returning_def update_runs_def update_steps_def update_attempts_def
  update_receipts_def sql_update_def mapR_def row_at_def insert_run_row_def insert_step_row_def
  insert_dependency_row_def insert_attempt_row_def insert_audit_row_def insert_schedule_row_def

lemmas operation_defs = insert_run_def dependency_row_of_def new_run_row_def new_step_row_def
  start_run_def has_dependency_def make_ready_def claim_next_def first_by_def joined_steps_def claimable_def
  step_deadline_def has_live_step_def blocked_by_dependency_def dependency_unmet_def claim_order_def
  prior_attempts_def new_attempt_def claim_step_def later_def ms_us_def start_attempt_def
  lock_live_claim_rows_def claim_row_def claim_matches_def expected_attempt_states_def
  heartbeat_attempt_def succeed_attempt_def release_ready_successors_def finish_run_if_complete_def
  all_steps_terminal_def required_steps_succeeded_def fail_attempt_def fail_decision_def
  REMOTE_EFFECTS_def retry_delay_ms_def settle_run_def recover_expired_attempt_def
  recovery_decision_of_def step_passed_def step_live_def attempt_live_def

lemmas demo_defs = demo_run_def demo_db_def demo_specs_def demo_deps_def demo_schedule_def demo_step_def
  demo_retry_def demo_receipt_def demo_clock_def demo_admit_def demo_locked_def

lemmas exec = check_defs guard_defs statement_defs operation_defs demo_defs

lemmas row_defs = demo_state_def demo_run0_def demo_run1_def demo_s1_def demo_s2_def demo_s1_run_def
  demo_s1_end_def demo_a1_def demo_a1_run_def demo_a1_end_def demo_a2_def demo_a2_end_def demo_s2_ready_def
  demo_claim_def demo_claim2_def

lemma demo_scheduled_run:
  "insert_run (demo_clock 0) demo_run [(21, demo_specs ! 0), (22, demo_specs ! 1)] demo_deps demo_db =
     Inr demo_scheduled"
  by (simp add: demo_scheduled_def row_defs exec)

lemma demo_started_run: "start_run (demo_clock 100) 10 demo_scheduled = Inr (2, demo_started)"
  by (simp add: demo_started_def demo_scheduled_def row_defs exec)

lemma demo_claimed_run:
  "claim_next (demo_clock 200) demo_admit demo_locked 31 None ''w1'' 60000000 None demo_started =
     Inr (Some demo_claim, demo_claimed)"
  by (simp add: demo_claimed_def demo_started_def row_defs exec)

lemma demo_running_run: "start_attempt (demo_clock 300) demo_claim demo_claimed = Inr (4, demo_running)"
  by (simp add: demo_running_def demo_claimed_def row_defs exec)

lemma demo_succeeded_run:
  "succeed_attempt (demo_clock 400) demo_claim 40 demo_hash demo_running = Inr ((5, 2), demo_succeeded)"
  by (simp add: demo_succeeded_def demo_running_def row_defs exec)

lemma demo_waiting_run:
  "recover_expired_attempt (demo_clock 70000000) demo_admit 31 40 demo_running = Inr
    (Some \<lparr>decision_attempt_id = 31, decision_run_id = 10, decision_step_id = 21, decision_fence = 1,
       decision_outcome = ''RECONCILIATION_REQUIRED'', decision_attempt_version = 1,
       decision_step_version = 5, decision_run_version = 3\<rparr>, demo_waiting)"
  by (simp add: demo_waiting_def demo_running_def row_defs exec)

lemma demo_resumed_run:
  "resume_waiting_step (demo_clock 80000000) 10 21 demo_waiting = Inr ((6, 4), demo_resumed)"
  by (simp add: demo_resumed_def demo_waiting_def row_defs exec resume_waiting_step_def)

lemma demo_claimed2_run:
  "claim_next (demo_clock 500) demo_admit demo_locked 32 (Some 10) ''w1'' 60000000 (Some 22) demo_succeeded =
     Inr (Some (demo_claim2 32 1 ''w1'' 60000503), demo_claimed2)"
  by (simp add: demo_claimed2_def demo_succeeded_def row_defs exec)

lemma demo_abandoned_run:
  "recover_expired_attempt (demo_clock 70000000) demo_admit 32 40 demo_claimed2 = Inr
    (Some \<lparr>decision_attempt_id = 32, decision_run_id = 10, decision_step_id = 22, decision_fence = 1,
       decision_outcome = ''RETRY_READY'', decision_attempt_version = 1,
       decision_step_version = 4, decision_run_version = 2\<rparr>, demo_abandoned)"
  by (simp add: demo_abandoned_def demo_claimed2_def row_defs exec)

lemma demo_claimed3_run:
  "claim_next (demo_clock 71000000) demo_admit demo_locked 33 None ''w2'' 60000000 None demo_abandoned =
     Inr (Some (demo_claim2 33 2 ''w2'' 131000003), demo_claimed3)"
  by (simp add: demo_claimed3_def demo_abandoned_def row_defs exec)

section \<open>The invariant along the runs\<close>

lemma demo_db_ok: "runtime_ok demo_db"
proof -
  have "abs_db demo_db = m_init" by (simp add: abs_db_def m_init_def demo_db_def row_at_def fun_eq_iff)
  then show ?thesis using m_inv_init by (simp add: runtime_ok_def store_ok_def demo_db_def)
qed

lemma demo_ok:
  "runtime_ok demo_scheduled" "runtime_ok demo_started" "runtime_ok demo_claimed" "runtime_ok demo_running"
  "runtime_ok demo_succeeded" "runtime_ok demo_waiting" "runtime_ok demo_resumed"
  "runtime_ok demo_claimed2" "runtime_ok demo_abandoned" "runtime_ok demo_claimed3"
proof -
  note next_ok = repo_step_refines [THEN conjunct1]
  show 1: "runtime_ok demo_scheduled"
    by (rule next_ok [OF repo_step.run [OF demo_scheduled_run] demo_db_ok])
  show 2: "runtime_ok demo_started"
    by (rule next_ok [OF repo_step.start_run [OF demo_started_run] 1])
  show 3: "runtime_ok demo_claimed"
    by (rule next_ok [OF repo_step.claim_next [OF demo_claimed_run] 2])
  show 4: "runtime_ok demo_running"
    by (rule next_ok [OF repo_step.start_attempt [OF demo_running_run] 3])
  show 6: "runtime_ok demo_succeeded"
    by (rule next_ok [OF repo_step.succeed [OF demo_succeeded_run] 4])
  show 5: "runtime_ok demo_waiting"
    by (rule next_ok [OF repo_step.recover [OF demo_waiting_run] 4])
  show "runtime_ok demo_resumed"
    by (rule next_ok [OF repo_step.resume [OF demo_resumed_run] 5])
  show 7: "runtime_ok demo_claimed2"
    by (rule next_ok [OF repo_step.claim_next [OF demo_claimed2_run] 6])
  show 8: "runtime_ok demo_abandoned"
    by (rule next_ok [OF repo_step.recover [OF demo_abandoned_run] 7])
  show "runtime_ok demo_claimed3"
    by (rule next_ok [OF repo_step.claim_next [OF demo_claimed3_run] 8])
qed

end
