(* ===== verification/Runtime_Safety.thy ===== *)
theory Runtime_Safety
  imports Runtime_Scenario
begin

text \<open>
  What the Runtime repository guarantees: leases, fences, budgets and dependencies,
  for every database its operations can produce. The invariants come from the abstract
  machine through \<open>repo_step_refines\<close>; the witnesses use the executed Run of
  \<open>Runtime_Scenario\<close>.
\<close>

section \<open>Histories of operations\<close>

definition history :: "db \<Rightarrow> db \<Rightarrow> bool" where
  "history = repo_step\<^sup>*\<^sup>*"

lemma history_refl [simp]: "history d d"
  by (simp add: history_def)

lemma history_step: "history d e \<Longrightarrow> repo_step e f \<Longrightarrow> history d f"
  unfolding history_def by (rule rtranclp.rtrancl_into_rtrancl)

lemma history_trans: "history d e \<Longrightarrow> history e f \<Longrightarrow> history d f"
  unfolding history_def by (rule rtranclp_trans)

lemma history_ok: "history d d' \<Longrightarrow> runtime_ok d \<Longrightarrow> runtime_ok d'"
  unfolding history_def by (induction rule: rtranclp_induct) (auto dest: repo_step_refines)

lemma history_later: "history d d' \<Longrightarrow> runtime_ok d \<Longrightarrow> m_later (abs_db d) (abs_db d')"
  unfolding history_def
proof (induction rule: rtranclp_induct)
  case (step e f)
  have ok: "runtime_ok e" using history_ok step by (simp add: history_def)
  from repo_step_refines [OF step(2) ok]
  have "m_later (abs_db e) (abs_db f)"
    using m_trans_later ok by (auto simp: m_later_refl runtime_ok_def)
  with step show ?case using m_later_trans by blast
qed (simp add: m_later_refl)

section \<open>Refinement\<close>

text \<open>C2. Every repository operation that returns is one transition of the abstract
  Runtime machine or does not change it, and keeps the database constraints and the
  lease, fence, budget, Run and dependency invariant.\<close>

theorem repository_refines_machine:
  assumes "runtime_ok d" and "repo_step d d'"
  shows "runtime_ok d' \<and> (abs_db d' = abs_db d \<or> m_trans (abs_db d) (abs_db d'))"
  by (rule repo_step_refines [OF assms(2,1)])

theorem repository_refines_machine_witness:
  "runtime_ok demo_claimed \<and> (abs_db demo_claimed = abs_db demo_started \<or>
     m_trans (abs_db demo_started) (abs_db demo_claimed))"
  by (rule repository_refines_machine [OF demo_ok(2)
      repo_step.claim_next [OF demo_claimed_run]])

section \<open>Exclusion\<close>

lemma live_attempt_step:
  assumes ok: "runtime_ok d" and a: "find_attempt d k = Some a" "attempt_live (attempt_state a)"
  obtains s where "find_step d (attempt_step a) = Some s" "current_attempt_id s = Some k"
    "step_live (step_state s)" "current_fence s = attempt_fence a"
proof -
  have h: "holder_inv (abs_db d)" using ok by (simp add: runtime_ok_def m_inv_def)
  obtain u where u: "m_steps (abs_db d) (attempt_step a) = Some u" "m_holder u = Some k"
    using holder_invD(3) [OF h, of k "abs_attempt a"] a by auto
  then obtain s where s: "find_step d (attempt_step a) = Some s" "u = abs_step s" by auto
  from holder_invD(2) [OF h u] a s show ?thesis by (intro that [OF s(1)]) (use u in auto)
qed

text \<open>C3. Two live Attempts of the same Run are the same Attempt: a Run never has two
  workers at once, in any database the operations produce.\<close>

theorem one_live_attempt_per_run:
  assumes "runtime_ok d0" and "history d0 d"
    and "find_attempt d i = Some a" "attempt_live (attempt_state a)"
    and "find_attempt d j = Some b" "attempt_live (attempt_state b)"
    and "find_step d (attempt_step a) = Some s" "find_step d (attempt_step b) = Some t"
    and "step_run s = step_run t"
  shows "i = j"
proof -
  have ok: "runtime_ok d" by (rule history_ok [OF assms(2,1)])
  obtain s' where s': "find_step d (attempt_step a) = Some s'" "current_attempt_id s' = Some i"
    "step_live (step_state s')" by (rule live_attempt_step [OF ok assms(3,4)])
  obtain t' where t': "find_step d (attempt_step b) = Some t'" "current_attempt_id t' = Some j"
    "step_live (step_state t')" by (rule live_attempt_step [OF ok assms(5,6)])
  have "run_inv (abs_db d)" using ok by (simp add: runtime_ok_def m_inv_def)
  from run_invD(2) [OF this, of "attempt_step a" "abs_step s" "attempt_step b" "abs_step t"]
  have "attempt_step a = attempt_step b" using assms(7-9) s' t' by (auto simp: active_def)
  then show ?thesis using s' t' by simp
qed

lemma demo_running_attempt:
  "find_attempt demo_running 31 \<noteq> None \<and>
     attempt_live (attempt_state (the (find_attempt demo_running 31)))
     \<and> attempt_step (the (find_attempt demo_running 31)) = 21
     \<and> find_step demo_running 21 \<noteq> None"
  by (simp add: demo_running_def row_defs exec)

theorem one_live_attempt_per_run_witness:
  "find_attempt demo_running 31 \<noteq> None \<and> (31 :: uuid) = 31"
proof -
  obtain a s where a: "find_attempt demo_running 31 = Some a" "attempt_live (attempt_state a)"
    "attempt_step a = 21" and s: "find_step demo_running 21 = Some s"
    using demo_running_attempt by auto
  have s': "find_step demo_running (attempt_step a) = Some s" using a s by simp
  show ?thesis
    using one_live_attempt_per_run [OF demo_ok(4) history_refl a(1,2) a(1,2) s' s' refl] a(1) by simp
qed

section \<open>Fences\<close>

text \<open>Every operation under a claim first compares the claim with the rows it names.\<close>

lemma lock_stale:
  assumes "claim_row d (claim_attempt_id claim) = Some (r, s, a)" "current_fence s \<noteq> claim_fence claim"
  shows "lock_live_claim_rows clk claim expected kind d = Inl StaleFenceError"
  using assms by (simp add: lock_live_claim_rows_def claim_matches_def)

lemma operations_stale:
  assumes stale: "\<And>clk expected kind. lock_live_claim_rows clk claim expected kind d = Inl StaleFenceError"
  shows "start_attempt clk claim d = Inl StaleFenceError"
    and "lease_milliseconds lease = Inr ms \<Longrightarrow> heartbeat_attempt clk claim lease d = Inl StaleFenceError"
    and "succeed_attempt clk claim receipt result d = Inl StaleFenceError"
    and "fail_attempt clk claim receipt eclass code d = Inl StaleFenceError"
    and "lock_live_claim clk claim kind d = Inl StaleFenceError"
  by (simp_all add: start_attempt_def heartbeat_attempt_def succeed_attempt_def fail_attempt_def
      lock_live_claim_def stale mapR_def)

lemma claim_next_claims:
  assumes ok: "runtime_ok d" and run: "claim_next clk admit locked aid rid worker lease sid d = Inr (Some c, d')"
  obtains s r where "find_step d (claim_step_id c) = Some s" "find_run d (step_run s) = Some r"
    "claimable clk rid sid d s r" "claim_attempt_id c = aid" "claim_run_id c = step_run s"
    "claim_fence c = current_fence s + 1" "claim_attempt_no c = current_fence s + 1"
    "claim_owner c = worker" "find_attempt d aid = None"
    "find_step d' = (find_step d)(claim_step_id c \<mapsto> claim_step aid (current_fence s + 1) s)"
    "find_attempt d' = (find_attempt d)(aid \<mapsto>
       new_attempt (later 2 clk) aid s (current_fence s + 1) worker (ms_us (duration_ms lease)))"
    "runs d' = runs d" "claim_lease_until c = clk 3 + ms_us (duration_ms lease)"
    "\<not> locked (step_run s) (claim_step_id c)"
    "\<And>r' s'. (r', s') \<in> set (joined_steps d) \<Longrightarrow> claimable clk rid sid d s' r' \<Longrightarrow>
       \<not> locked (run_key r') (step_id s') \<Longrightarrow> claim_order (r, s) \<le> claim_order (r', s')"
proof -
  have st: "store_ok d" using ok by (simp add: runtime_ok_def)
  let ?cands = "filter (\<lambda>(r, s). claimable clk rid sid d s r \<and> \<not> locked (run_key r) (step_id s)) (joined_steps d)"
  from run obtain r s where rs: "first_by claim_order ?cands = Some (r, s)"
    by (cases "first_by claim_order ?cands")
      (auto simp: claim_next_def bindE_Inr_iff thenE_Inr_iff)
  note fb = first_by_Some [OF rs]
  from fb have cl: "claimable clk rid sid d s r" and j: "(r, s) \<in> set (joined_steps d)"
    and lk: "\<not> locked (run_key r) (step_id s)" by auto
  from j have f: "find_step d (step_id s) = Some s" "find_run d (step_run s) = Some r"
    by (simp_all add: joined_steps_in [OF st])
  have rk: "run_key r = step_run s" using store_okD(1) [OF st f(2)] by simp
  have no: "prior_attempts d (step_id s) = current_fence s" by (rule prior_attempts_fence [OF ok f(1)])
  from run rs obtain ms d1 row where
    ms: "lease_milliseconds lease = Inr ms"
    and e1: "insert_attempt_row (new_attempt (later 2 clk) aid s (current_fence s + 1) worker (ms_us ms)) d = Inr d1"
    and e2: "update_steps (\<lambda>x. step_id x = step_id s \<and> step_state x = Step_READY)
                 (claim_step aid (current_fence s + 1)) d1 = Inr (row, d')"
    and c: "c = \<lparr>claim_attempt_id = aid, claim_run_id = run_key r,
                    claim_step_id = step_id s, claim_step_key = step_key (step_plan s),
                    claim_attempt_no = current_fence s + 1, claim_fence = current_fence s + 1, claim_owner = worker,
                    claim_lease_until = lease_until (new_attempt (later 2 clk) aid s (current_fence s + 1) worker (ms_us ms))\<rparr>"
    by (auto simp: claim_next_def bindE_Inr_iff thenE_Inr_iff Let_def no split: if_splits)
  have rdy: "step_state s = Step_READY" using cl by (simp add: claimable_def)
  note i = insert_claim_refines [OF st f(1) rdy e1 e2]
  have dm: "ms = duration_ms lease" using ms by (simp add: lease_milliseconds_Inr_iff)
  show ?thesis
    by (rule that [of s r])
      (use f cl i rk lk fb in \<open>auto simp: c dm new_attempt_def later_def numeral_eq_Suc\<close>)
qed

lemma claim_next_rows:
  assumes "runtime_ok d" "claim_next clk admit locked aid rid worker lease sid d = Inr (Some c, d')"
  shows "\<exists>s a. claim_attempt_id c = aid \<and> claim_fence c = current_fence s + 1
    \<and> find_step d (claim_step_id c) = Some s \<and> step_id s = claim_step_id c
    \<and> find_step d' (claim_step_id c) = Some (claim_step aid (current_fence s + 1) s)
    \<and> find_attempt d' aid = Some a \<and> attempt_step a = claim_step_id c"
proof -
  have "store_ok d" using assms(1) by (simp add: runtime_ok_def)
  note key = store_okD(2) [OF this]
  show ?thesis
  proof (rule claim_next_claims [OF assms])
    fix s r
    assume s: "find_step d (claim_step_id c) = Some s"
      and c: "claim_attempt_id c = aid" "claim_fence c = current_fence s + 1"
      and d': "find_step d' = (find_step d)(claim_step_id c \<mapsto> claim_step aid (current_fence s + 1) s)"
        "find_attempt d' = (find_attempt d)(aid \<mapsto>
          new_attempt (later 2 clk) aid s (current_fence s + 1) worker (ms_us (duration_ms lease)))"
    let ?a = "new_attempt (later 2 clk) aid s (current_fence s + 1) worker (ms_us (duration_ms lease))"
    have k: "step_id s = claim_step_id c" using key [OF s] by simp
    then have "attempt_step ?a = claim_step_id c" by (simp add: new_attempt_def)
    then show ?thesis using s c d' k by (intro exI [of _ s] exI [of _ ?a]) simp
  qed
qed

text \<open>C4. Once a Step has been claimed again, the earlier claim is dead: in every later
  database it can neither start, extend, succeed, fail nor be locked by a business
  command; each attempt raises StaleFenceError.\<close>

theorem superseded_claim_is_stale:
  assumes ok: "runtime_ok d0"
    and first: "claim_next clk1 admit1 locked1 aid1 rid1 w1 lease1 sid1 d0 = Inr (Some c1, d1)"
    and mid: "history d1 d2"
    and second: "claim_next clk2 admit2 locked2 aid2 rid2 w2 lease2 sid2 d2 = Inr (Some c2, d3)"
    and same: "claim_step_id c2 = claim_step_id c1"
    and later: "history d3 d4"
    and lease: "lease_milliseconds lease = Inr ms"
  shows "start_attempt clk c1 d4 = Inl StaleFenceError \<and>
    heartbeat_attempt clk c1 lease d4 = Inl StaleFenceError \<and>
    succeed_attempt clk c1 receipt result d4 = Inl StaleFenceError \<and>
    fail_attempt clk c1 receipt eclass code d4 = Inl StaleFenceError \<and>
    lock_live_claim clk c1 kind d4 = Inl StaleFenceError"
proof -
  obtain s1 where s1: "claim_attempt_id c1 = aid1" "claim_fence c1 = current_fence s1 + 1"
    "find_step d1 (claim_step_id c1) = Some (claim_step aid1 (current_fence s1 + 1) s1)"
    "\<exists>a. find_attempt d1 aid1 = Some a \<and> attempt_step a = claim_step_id c1"
    using claim_next_rows [OF ok first] by blast
  have ok1: "runtime_ok d1" using repo_step_refines [OF repo_step.claim_next [OF first] ok] by blast
  have ok2: "runtime_ok d2" by (rule history_ok [OF mid ok1])
  obtain s2 where s2: "find_step d2 (claim_step_id c1) = Some s2"
    "find_step d3 (claim_step_id c1) = Some (claim_step aid2 (current_fence s2 + 1) s2)"
    using claim_next_rows [OF ok2 second] same by auto
  have ok3: "runtime_ok d3" using repo_step_refines [OF repo_step.claim_next [OF second] ok2] by blast
  have ok4: "runtime_ok d4" by (rule history_ok [OF later ok3])
  have h13: "history d1 d3" by (rule history_step [OF mid repo_step.claim_next [OF second]])
  note l12 = history_later [OF mid ok1] and l34 = history_later [OF later ok3]
  have h14: "history d1 d4" by (rule history_trans [OF h13 later])
  note l14 = history_later [OF h14 ok1]
  from m_laterD(1) [OF l12, of "claim_step_id c1"] s1(3) s2(1)
  have f12: "current_fence s1 + 1 \<le> current_fence s2" by (auto simp: claim_step_def)
  from m_laterD(1) [OF l34, of "claim_step_id c1"] s2(2)
  obtain s4 where s4: "find_step d4 (claim_step_id c1) = Some s4" "current_fence s2 + 1 \<le> current_fence s4"
    by (auto simp: claim_step_def)
  obtain a4 where a4: "find_attempt d4 aid1 = Some a4" "attempt_step a4 = claim_step_id c1"
  proof -
    from s1(4) obtain a where a: "find_attempt d1 aid1 = Some a" "attempt_step a = claim_step_id c1" by blast
    from m_laterD(2) [OF l14, of aid1 "abs_attempt a"] a
    obtain b where "m_attempts (abs_db d4) aid1 = Some b" "m_of b = claim_step_id c1" by auto
    then show ?thesis by (auto intro: that)
  qed
  have "run_inv (abs_db d4)" using ok4 by (simp add: runtime_ok_def m_inv_def)
  from run_invD(1) [OF this, of "claim_step_id c1" "abs_step s4"] s4(1)
  obtain r4 where "find_run d4 (step_run s4) = Some r4" by auto
  then have "claim_row d4 (claim_attempt_id c1) = Some (r4, s4, a4)"
    using s4 a4 s1(1) by (simp add: claim_row_Some)
  then have "lock_live_claim_rows clk' c1 expected kind' d4 = Inl StaleFenceError" for clk' expected kind'
    using f12 s4(2) s1(2) by (intro lock_stale) auto
  note stale = operations_stale [OF this]
  show ?thesis using stale(1,3,4,5) stale(2) [OF lease] by simp
qed

theorem superseded_claim_is_stale_witness:
  "succeed_attempt (demo_clock 72000000) (demo_claim2 32 1 ''w1'' 60000503) 40 demo_hash demo_claimed3
     = Inl StaleFenceError"
proof -
  have h: "history demo_claimed2 demo_abandoned"
    by (rule history_step [OF history_refl repo_step.recover [OF demo_abandoned_run]])
  have same: "claim_step_id (demo_claim2 33 2 ''w2'' 131000003) = claim_step_id (demo_claim2 32 1 ''w1'' 60000503)"
    by (simp add: demo_claim2_def)
  show ?thesis
    using superseded_claim_is_stale [OF demo_ok(5) demo_claimed2_run h demo_claimed3_run same history_refl demo_lease]
    by blast
qed

section \<open>Budgets\<close>

lemma attempt_numbers:
  assumes ok: "runtime_ok d" and s: "find_step d sid = Some s"
  defines "as \<equiv> filter (\<lambda>a. attempt_step a = sid) (attempts d)"
  shows "distinct (map attempt_no as)" "set (map attempt_no as) = {1..current_fence s}"
proof -
  have tk: "token_inv (abs_db d)" and st: "store_ok d" using ok by (auto simp: runtime_ok_def m_inv_def)
  have ss: "m_steps (abs_db d) sid = Some (abs_step s)" using s by simp
  have row: "m_attempts (abs_db d) (attempt_id a) = Some (abs_attempt a)" if "a \<in> set as" for a
    using that store_ok_in(3) [OF st] by (simp add: as_def)
  have no: "attempt_no a = attempt_fence a \<and> 1 \<le> attempt_no a \<and> attempt_no a \<le> current_fence s" if "a \<in> set as" for a
    using token_invD(3) [OF tk row [OF that]] that s by (auto simp: as_def)
  have "distinct (map attempt_id (attempts d))" using st by (simp add: store_ok_def)
  then have ids: "distinct (map attempt_id as)" unfolding as_def by (rule distinct_map_filter)
  moreover have "inj_on attempt_no (set as)"
  proof (rule inj_onI)
    fix a b assume ab: "a \<in> set as" "b \<in> set as" "attempt_no a = attempt_no b"
    have "attempt_id a = attempt_id b"
      using token_invD(4) [OF tk row [OF ab(1)] row [OF ab(2)]] no [OF ab(1)] no [OF ab(2)] ab by (simp add: as_def)
    then show "a = b" using ids ab(1,2) by (simp add: distinct_map inj_on_def)
  qed
  ultimately show "distinct (map attempt_no as)" by (simp add: distinct_map)
  show "set (map attempt_no as) = {1..current_fence s}"
  proof (intro equalityI subsetI)
    fix k assume "k \<in> {1..current_fence s}"
    then obtain aid b where b: "m_attempts (abs_db d) aid = Some b" "m_of b = sid" "m_token b = k"
      using token_invD(2) [OF tk ss, of k] by auto
    then obtain a where a: "find_attempt d aid = Some a" "b = abs_attempt a" by auto
    have "a \<in> set as" using a b attempt_table.row_at_Some_in [of "attempts d"] by (auto simp: as_def)
    moreover have "attempt_no a = k" using no [OF calculation] b(3) a(2) by simp
    ultimately show "k \<in> set (map attempt_no as)" by auto
  next
    fix k assume "k \<in> set (map attempt_no as)"
    then obtain a where "a \<in> set as" "k = attempt_no a" by auto
    then show "k \<in> {1..current_fence s}" using no [of a] by simp
  qed
qed

text \<open>C5. The fence of a Step is the number of its Attempts, which are numbered 1, 2, and
  so on without a gap, and never exceeds the retry budget of the Step.\<close>

theorem attempt_budget:
  assumes "runtime_ok d0" and "history d0 d" and "find_step d sid = Some s"
  shows "map attempt_no (step_attempts d sid) = [1..current_fence s] \<and>
    current_fence s = int (length (step_attempts d sid)) \<and>
    current_fence s \<le> max_attempts (step_retry (step_plan s)) \<and> max_attempts (step_retry (step_plan s)) \<le> 64"
proof -
  have ok: "runtime_ok d" by (rule history_ok [OF assms(2,1)])
  let ?as = "filter (\<lambda>a. attempt_step a = sid) (attempts d)"
  note n = attempt_numbers [OF ok assms(3)]
  have "sorted (map attempt_no (step_attempts d sid))" by (simp add: step_attempts_def)
  moreover have "distinct (map attempt_no (step_attempts d sid))"
  proof -
    have "mset (map attempt_no (step_attempts d sid)) = mset (map attempt_no ?as)"
      by (simp add: step_attempts_def)
    then show ?thesis using n(1) by (metis mset_eq_imp_distinct_iff)
  qed
  moreover have "set (map attempt_no (step_attempts d sid)) = {1..current_fence s}"
    using n(2) by (simp add: step_attempts_def)
  ultimately have seq: "map attempt_no (step_attempts d sid) = [1..current_fence s]"
    by (intro sorted_distinct_set_unique) simp_all
  have "token_inv (abs_db d)" using ok by (simp add: runtime_ok_def m_inv_def)
  from token_invD(1) [OF this, of sid "abs_step s"] assms(3)
  have f: "0 \<le> current_fence s" "current_fence s \<le> max_attempts (step_retry (step_plan s))" by auto
  have "length (step_attempts d sid) = length [1..current_fence s]" using seq by (metis length_map)
  then have "current_fence s = int (length (step_attempts d sid))" using f(1) by simp
  moreover have "step_ok s" using ok assms(3) store_okD(2) by (auto simp: runtime_ok_def)
  ultimately show ?thesis using seq f step_ok_budget(2) by simp
qed

lemma demo_step_22: "\<exists>s. find_step demo_claimed3 22 = Some s \<and> current_fence s = 2"
  using claim_next_rows [OF demo_ok(9) demo_claimed3_run]
  by (auto simp: demo_claim2_def claim_step_def)

theorem attempt_budget_witness:
  "\<exists>s. find_step demo_claimed3 22 = Some s \<and> map attempt_no (step_attempts demo_claimed3 22) = [1, 2]"
proof -
  obtain s where s: "find_step demo_claimed3 22 = Some s" "current_fence s = 2" using demo_step_22 by blast
  have "[1..2] = [1, 2::int]" by (simp add: upto.simps)
  then show ?thesis using attempt_budget [OF demo_ok(10) history_refl s(1)] s by simp
qed

section \<open>Dependencies\<close>

lemma dependency_predecessor:
  assumes ok: "runtime_ok d" and x: "x \<in> set (dependencies d)"
  obtains p where "find_step d (predecessor_step_id x) = Some p" "step_run p = dep_run x"
proof -
  have di: "dep_inv (abs_db d)" using ok by (simp add: runtime_ok_def m_inv_def)
  have "(dep_run x, predecessor_step_id x, successor_step_id x, dep_kind x) \<in> m_deps (abs_db d)"
    using x by (force simp: abs_dep_def)
  from dep_invD(1) [OF di this] that show ?thesis by auto
qed

definition predecessor_served :: "dependency_row \<Rightarrow> step_state \<Rightarrow> bool" where
  "predecessor_served x st \<longleftrightarrow>
     (dep_kind x = ''REQUIRED_SUCCESS'' \<longrightarrow> step_passed st) \<and> (dep_kind x = ''TERMINAL'' \<longrightarrow> step_ended st)"

lemma served_iff: "predecessor_served x (step_state p) \<longleftrightarrow> \<not> dependency_unmet x p"
  by (auto simp: predecessor_served_def dependency_unmet_def)

text \<open>C6. When a Step is handed out, every predecessor it declares has succeeded or been
  skipped (REQUIRED_SUCCESS) or has ended (TERMINAL), and stays so in every later
  database.\<close>

theorem claims_respect_dependencies:
  assumes ok: "runtime_ok d"
    and run: "claim_next clk admit locked aid rid worker lease sid d = Inr (Some c, d1)"
    and later: "history d1 d2"
    and x: "x \<in> set (dependencies d)" "dep_run x = claim_run_id c" "successor_step_id x = claim_step_id c"
  shows "\<exists>p. find_step d2 (predecessor_step_id x) = Some p \<and> predecessor_served x (step_state p)"
proof -
  have st: "store_ok d" using ok by (simp add: runtime_ok_def)
  obtain p where p: "find_step d (predecessor_step_id x) = Some p"
    by (rule dependency_predecessor [OF ok x(1)])
  have srv: "predecessor_served x (step_state p)"
  proof (rule claim_next_claims [OF ok run])
    fix s r assume s: "find_step d (claim_step_id c) = Some s" and cl: "claimable clk rid sid d s r"
      and r: "claim_run_id c = step_run s"
    have "step_id s = claim_step_id c" using store_okD(2) [OF st s] by simp
    then have "successor_step_id x = step_id s" "dep_run x = step_run s" using x r by simp_all
    moreover have "p \<in> set (steps d)" "step_id p = predecessor_step_id x"
      using step_table.row_at_Some_in [OF p] step_table.row_at_Some_key [OF p] .
    ultimately have "\<not> dependency_unmet x p"
      using cl x(1) unfolding claimable_def blocked_by_dependency_def by blast
    then show ?thesis by (simp add: served_iff)
  qed
  have h: "history d d2"
    by (rule history_trans [OF history_step [OF history_refl repo_step.claim_next [OF run]] later])
  obtain u where u: "m_steps (abs_db d2) (predecessor_step_id x) = Some u"
    "step_ended (step_state p) \<longrightarrow> m_state u = step_state p"
    using m_laterD(1) [OF history_later [OF h ok], of "predecessor_step_id x" "abs_step p"] p by auto
  then obtain q where q: "find_step d2 (predecessor_step_id x) = Some q" "u = abs_step q" by auto
  have "predecessor_served x (step_state q)"
  proof (cases "step_ended (step_state p)")
    case True
    then have "step_state q = step_state p" using u(2) q(2) by simp
    then show ?thesis using srv by simp
  next
    case False
    then have "dep_kind x \<noteq> ''TERMINAL''" "dep_kind x \<noteq> ''REQUIRED_SUCCESS''"
      using srv step_passed_ended by (auto simp: predecessor_served_def)
    then show ?thesis by (simp add: predecessor_served_def)
  qed
  with q(1) show ?thesis by blast
qed

lemma demo_dependency:
  "\<exists>x \<in> set (dependencies demo_succeeded). dep_run x = 10 \<and> predecessor_step_id x = 21
     \<and> successor_step_id x = 22 \<and> dep_kind x = ''REQUIRED_SUCCESS''"
  by (simp add: demo_succeeded_def row_defs exec)

theorem claims_respect_dependencies_witness:
  "\<exists>p. find_step demo_claimed2 21 = Some p \<and> step_passed (step_state p)"
proof -
  obtain x where x: "x \<in> set (dependencies demo_succeeded)" "dep_run x = 10" "predecessor_step_id x = 21"
    "successor_step_id x = 22" "dep_kind x = ''REQUIRED_SUCCESS''" using demo_dependency by blast
  have "dep_run x = claim_run_id (demo_claim2 32 1 ''w1'' 60000503)"
    "successor_step_id x = claim_step_id (demo_claim2 32 1 ''w1'' 60000503)"
    using x by (simp_all add: demo_claim2_def)
  from claims_respect_dependencies [OF demo_ok(5) demo_claimed2_run history_refl x(1) this] x
  show ?thesis by (auto simp: predecessor_served_def)
qed

section \<open>Finished Runs\<close>

lemma m_trans_run_ended:
  "m_trans m m' \<Longrightarrow> m_runs m k = Some r \<Longrightarrow> run_ended r \<Longrightarrow> m_runs m' k = Some r"
proof (induction rule: m_trans.induct)
  case (schedule m rid news new_deps)
  then show ?case by (auto simp: schedulable_def add_run_def)
next
  case (succeed m sid s aid a closed_m next_m r')
  then show ?case by (auto split: if_splits)
qed (auto split: if_splits)

lemma history_run_ended:
  assumes "history d d'" "runtime_ok d" "find_run d k = Some r" "run_ended (run_state r)"
  shows "\<exists>r'. find_run d' k = Some r' \<and> run_state r' = run_state r"
  using assms unfolding history_def
proof (induction rule: rtranclp_induct)
  case (step e f)
  have ok: "runtime_ok e" using history_ok step by (simp add: history_def)
  from step obtain r' where "find_run e k = Some r'" "run_state r' = run_state r" by blast
  then have "m_runs (abs_db e) k = Some (run_state r)" by simp
  then have "m_runs (abs_db f) k = Some (run_state r)"
    using repo_step_refines [OF step(2) ok] m_trans_run_ended step.prems by metis
  then show ?case by auto
qed simp

text \<open>A Run that has ended keeps its state for ever, and no operation under a claim
  on it goes through: every such claim raises StaleFenceError.\<close>

theorem ended_run_is_final:
  assumes ok: "runtime_ok d" and run: "find_run d k = Some r" "run_ended (run_state r)"
    and later: "history d d'"
    and claim: "claim_run_id claim = k" and lease: "lease_milliseconds lease = Inr ms"
  shows "(\<exists>r'. find_run d' k = Some r' \<and> run_state r' = run_state r) \<and>
    start_attempt clk claim d' = Inl StaleFenceError \<and>
    heartbeat_attempt clk claim lease d' = Inl StaleFenceError \<and>
    succeed_attempt clk claim receipt result d' = Inl StaleFenceError \<and>
    fail_attempt clk claim receipt eclass code d' = Inl StaleFenceError"
proof -
  have ok': "runtime_ok d'" by (rule history_ok [OF later ok])
  then have st: "store_ok d'" by (simp add: runtime_ok_def)
  obtain r' where r': "find_run d' k = Some r'" "run_state r' = run_state r"
    using history_run_ended [OF later ok run] by blast
  have "lock_live_claim_rows clk' claim expected kind d' = Inl StaleFenceError" for clk' expected kind
  proof (cases "claim_row d' (claim_attempt_id claim)")
    case None then show ?thesis by (simp add: lock_live_claim_rows_def)
  next
    case (Some w)
    obtain q s a where w: "w = (q, s, a)" by (cases w)
    have q: "find_run d' (step_run s) = Some q" using Some w by (simp add: claim_row_Some)
    have "\<not> (run_key q = k \<and> run_state q = Run_RUNNING)"
      using store_okD(1) [OF st q] q r' run(2) by auto
    then show ?thesis using Some w claim by (auto simp: lock_live_claim_rows_def claim_matches_def)
  qed
  note stale = operations_stale [OF this]
  show ?thesis using r' stale(1,3,4) stale(2) [OF lease] by blast
qed


definition demo_failed_row :: run_row where
  "demo_failed_row =
     \<lparr>run_envelope = demo_run, run_created_at = 0, run_state = Run_FAILED, run_reason = Some ''TIMEOUT'',
      run_started_at = Some 1, run_finished_at = Some 2, run_version = 3\<rparr>"

definition demo_failed :: db where
  "demo_failed = demo_db\<lparr>runs := [demo_failed_row]\<rparr>"

lemma demo_failed_ok: "runtime_ok demo_failed"
proof -
  have "run_ok demo_failed_row"
    by (simp add: run_ok_def demo_failed_row_def check_defs demo_defs)
  then have "store_ok demo_failed" by (simp add: store_ok_def demo_failed_def demo_db_def)
  moreover have "abs_db demo_failed = m_init\<lparr>m_runs := [10 \<mapsto> Run_FAILED]\<rparr>"
    by (auto simp: abs_db_def m_init_def demo_failed_def demo_failed_row_def demo_db_def row_at_def
        demo_run_def fun_eq_iff)
  ultimately show ?thesis
    by (simp add: runtime_ok_def m_inv_def m_init_def holder_inv_def token_inv_def run_inv_def dep_inv_def)
qed

theorem ended_run_is_final_witness:
  "succeed_attempt (demo_clock 9) demo_claim 40 demo_hash demo_failed = Inl StaleFenceError"
proof -
  have r: "find_run demo_failed 10 = Some demo_failed_row" "run_ended (run_state demo_failed_row)"
    "claim_run_id demo_claim = 10"
    by (simp_all add: demo_failed_def demo_failed_row_def row_at_def demo_run_def demo_claim_def)
  from ended_run_is_final [OF demo_failed_ok r(1,2) history_refl r(3) demo_lease] show ?thesis by blast
qed

section \<open>Order of claims\<close>

text \<open>A claim goes to the first of the claimable Steps that no other transaction has
  locked, by Run creation time, ordinal and Step identity; its fence and number are the
  Step's fence plus one, its owner the worker, and its lease ends the requested number of
  milliseconds after the database clock.\<close>

theorem claim_next_takes_the_first:
  assumes ok: "runtime_ok d"
    and run: "claim_next clk admit locked aid rid worker lease sid d = Inr (Some c, d')"
  shows "\<exists>s r. find_step d (claim_step_id c) = Some s \<and> find_run d (claim_run_id c) = Some r \<and>
    claimable clk rid sid d s r \<and> claim_fence c = current_fence s + 1 \<and>
    claim_attempt_no c = current_fence s + 1 \<and> claim_attempt_id c = aid \<and> claim_owner c = worker \<and>
    claim_lease_until c = clk 3 + 1000 * duration_ms lease \<and>
    (\<forall>s' r'. find_step d (step_id s') = Some s' \<longrightarrow> find_run d (step_run s') = Some r' \<longrightarrow>
       claimable clk rid sid d s' r' \<longrightarrow> \<not> locked (step_run s') (step_id s') \<longrightarrow>
       claim_order (r, s) \<le> claim_order (r', s'))"
proof (rule claim_next_claims [OF ok run])
  have st: "store_ok d" using ok by (simp add: runtime_ok_def)
  fix s r
  assume s: "find_step d (claim_step_id c) = Some s" "find_run d (step_run s) = Some r"
      "claimable clk rid sid d s r"
    and c: "claim_attempt_id c = aid" "claim_run_id c = step_run s" "claim_fence c = current_fence s + 1"
      "claim_attempt_no c = current_fence s + 1" "claim_owner c = worker"
      "claim_lease_until c = clk 3 + ms_us (duration_ms lease)"
    and first: "\<And>r' s'. (r', s') \<in> set (joined_steps d) \<Longrightarrow> claimable clk rid sid d s' r' \<Longrightarrow>
       \<not> locked (run_key r') (step_id s') \<Longrightarrow> claim_order (r, s) \<le> claim_order (r', s')"
  have "claim_order (r, s) \<le> claim_order (r', s')"
    if t: "find_step d (step_id s') = Some s'" "find_run d (step_run s') = Some r'"
      "claimable clk rid sid d s' r'" "\<not> locked (step_run s') (step_id s')" for s' r'
    using first [of r' s'] t joined_steps_in [OF st] store_okD(1) [OF st t(2)] by simp
  then show ?thesis using s c by (intro exI [of _ s] exI [of _ r]) (simp add: ms_us_def)
qed

theorem claim_next_takes_the_first_witness:
  "claim_fence demo_claim = 1 \<and> claim_lease_until demo_claim = demo_clock 200 3 + 1000 * duration_ms 60000000"
proof -
  have "claim_lease_until demo_claim = demo_clock 200 3 + 1000 * duration_ms 60000000"
    using claim_next_takes_the_first [OF demo_ok(2) demo_claimed_run] by blast
  then show ?thesis by (simp add: demo_claim_def)
qed

end
