(* ===== verification/Runtime_Commands.thy ===== *)
theory Runtime_Commands
  imports Runtime_Application Runtime_Safety
begin

text \<open>
  The commands of \<open>RuntimeApplication\<close> as transactions: a command changes the database
  by one repository operation, one settling receipt and one audit event, or not at all;
  a repeated request is answered from its receipt through the ledger contract.
\<close>

section \<open>The unit of work\<close>

lemma with_uow_eq:
  "with_uow commit ro body d =
     (case body d of
        Inl e \<Rightarrow> (Inl e, d)
      | Inr (x, w, c) \<Rightarrow>
          if c then (case commit w of Inl e \<Rightarrow> (Inl e, d) | Inr _ \<Rightarrow> (Inr x, w)) else (Inr x, d))"
  by (auto simp: with_uow_def uow_enter_def new_uow_def uow_commit_def uow_exit_def optE_def thenE_def
      bindE_def guardE_def split: sum.split)

lemma with_uow_Inr:
  "with_uow commit ro body d = (Inr x, d') \<longleftrightarrow>
     (\<exists>w c. body d = Inr (x, w, c) \<and> (if c then commit w = Inr () \<and> d' = w else d' = d))"
  by (auto simp: with_uow_eq split: sum.splits if_splits)

lemma with_uow_Inl: "with_uow commit ro body d = (Inl e, d') \<Longrightarrow> d' = d"
  by (auto simp: with_uow_eq split: sum.splits if_splits)

section \<open>Committed commands\<close>

inductive committed :: "receipt_slot \<Rightarrow> string \<Rightarrow> uuid \<Rightarrow> outcome \<Rightarrow> db \<Rightarrow> db \<Rightarrow> bool" where
  commit:
    "receipt_start now rid kind scope key hash d = Inr (r, t) \<Longrightarrow> is_new r \<Longrightarrow> repo_step t e \<Longrightarrow>
     receipt_succeed now' (record_receipt_id r) agg_kind agg version result claim e = Inr u \<Longrightarrow>
     audit_append now'' eid (Some (record_receipt_id r)) req claim u = Inr d' \<Longrightarrow>
     committed (kind, scope, key) hash rid (Done agg_kind agg version result) d d'"

lemma runtime_ok_receipts [simp]: "runtime_ok (d\<lparr>receipts := cs\<rparr>) = runtime_ok d"
  by (simp add: runtime_ok_def store_ok_def abs_db_def)

lemma runtime_ok_audits [simp]: "runtime_ok (d\<lparr>audits := es\<rparr>) = runtime_ok d"
  by (simp add: runtime_ok_def store_ok_def abs_db_def)

lemma abs_db_ledger [simp]:
  "abs_db (d\<lparr>receipts := cs\<rparr>) = abs_db d" "abs_db (d\<lparr>audits := es\<rparr>) = abs_db d"
  by (simp_all add: abs_db_def)

lemma ledger_entry_cong:
  "receipts d' = receipts d \<Longrightarrow> ledger_entry d' = ledger_entry d"
  "receipts d' = receipts d \<Longrightarrow> receipts_ok d' = receipts_ok d"
  by (auto simp: ledger_entry_def receipts_ok_def)

lemma audit_append_Inr:
  assumes "audit_append now eid receipt req claim d = Inr d'"
  obtains ev where "d' = d\<lparr>audits := audits d @ [ev]\<rparr>" "audit_event_id ev = eid"
    "audit_receipt_id ev = receipt" "reason_code ev = req_reason req" "action ev = req_action req"
  using assms by (auto simp: audit_append_def insert_audit_row_def thenE_Inr_iff)

text \<open>The receipt of a committed command, and its audit event.\<close>

lemma committed_parts:
  assumes com: "committed k hash rid v d d'" and ok: "receipts_ok d"
  obtains t e c ev where "find_receipt d k = None" "repo_step t e" "abs_db t = abs_db d"
    "runtime_ok t = runtime_ok d" "abs_db d' = abs_db e" "runtime_ok d' = runtime_ok e"
    "receipts d' = receipts d @ [c]" "audits d' = audits d @ [ev]" "receipt_id c = rid"
    "slot_of c = k" "receipt_request_hash c = hash" "receipt_status c = SUCCEEDED" "outcome_of c = Some v"
    "audit_receipt_id ev = Some rid" "receipts_ok d'"
  using com
proof cases
  case (commit now kind scope key r t e now' agg_kind agg version result claim u now'' eid req)
  let ?p = "pending_receipt now rid k hash"
  have new: "find_receipt d k = None" "r = record_of True ?p" "t = d\<lparr>receipts := receipts d @ [?p]\<rparr>"
    "rid \<notin> receipt_id ` set (receipts d)" "first_violation (receipt_checks ?p) = None"
    using receipt_start_Inr [OF commit(3)] commit(1,4) by (auto simp: record_of_def)
  have rid: "record_receipt_id r = rid" by (simp add: new(2) record_of_def)
  have t_ok: "receipts_ok t" unfolding new(3) by (rule receipts_ok_append) (use ok new in simp_all)
  have fr: "same_ledger t e" by (rule repo_step_frame [OF commit(5)])
  then have re: "receipts e = receipts d @ [?p]" "audits e = audits d" by (simp_all add: same_ledger_def new(3))
  have e_ok: "receipts_ok e" using t_ok ledger_entry_cong(2) [of e t] fr by (simp add: same_ledger_def)
  have at: "find_receipt e k = Some ?p"
    using new(1) slot_table.row_at_append_fresh [of "receipts d" ?p] by (simp add: re)
  let ?f = "\<lambda>c. c\<lparr>receipt_status := SUCCEEDED, result_aggregate_kind := Some agg_kind,
       result_aggregate_id := Some agg, result_aggregate_version := Some version,
       receipt_result_hash := Some result\<rparr>"
  let ?c = "(?f ?p)\<lparr>runtime_step_id := map_option claim_step_id claim,
      runtime_attempt_id := map_option claim_attempt_id claim,
      receipt_fence := map_option claim_fence claim, completed_at := Some now'\<rparr>"
  have run: "close_receipt_with ?f now' (receipt_id ?p) claim e = Inr u"
    using commit(6) by (simp add: receipt_succeed_def rid)
  note u = close_receipt_Inr [OF e_ok at run, simplified slot_of_def, simplified]
  have "put_row receipt_id ?c (receipts d @ [?p]) = receipts d @ [?c]"
    using new(4) by (auto simp: put_row_def intro!: map_idI)
  then have ru: "receipts u = receipts d @ [?c]" "audits u = audits d" "abs_db u = abs_db e"
    "runtime_ok u = runtime_ok e" "receipts_ok u"
    using u by (simp_all add: re)
  obtain ev where ev: "d' = u\<lparr>audits := audits u @ [ev]\<rparr>" "audit_receipt_id ev = Some rid"
    using audit_append_Inr [OF commit(7)] rid by metis
  show ?thesis
  proof (rule that [of t e ?c ev])
    show "slot_of ?c = k" by (cases k) (simp add: slot_of_def pending_receipt_def)
    show "outcome_of ?c = Some v" by (simp add: outcome_of_def commit(2))
    show "receipts_ok d'" using ru(5) ledger_entry_cong(2) [of d' u] by (simp add: ev)
  qed (use new ru ev commit(5) rid in \<open>simp_all add: new(3)\<close>)
qed

lemma committed_ledger:
  assumes com: "committed k hash rid v d d'" and ok: "receipts_ok d"
  shows "ledger_entry d k = None" "ledger_entry d' = (ledger_entry d)(k \<mapsto> (rid, hash, Some v))"
proof -
  obtain c where c: "find_receipt d k = None" "receipts d' = receipts d @ [c]" "receipt_id c = rid"
    "slot_of c = k" "receipt_request_hash c = hash" "outcome_of c = Some v"
    by (rule committed_parts [OF com ok])
  show "ledger_entry d k = None" using c(1) by (simp add: ledger_entry_def)
  show "ledger_entry d' = (ledger_entry d)(k \<mapsto> (rid, hash, Some v))"
    using c slot_table.row_at_append_fresh [of "receipts d" c]
    by (auto simp: ledger_entry_def fun_eq_iff split: option.split)
qed

lemma committed_ok:
  assumes com: "committed k hash rid v d d'" and ok: "runtime_ok d" "receipts_ok d"
  shows "runtime_ok d'" "receipts_ok d'" "abs_db d' = abs_db d \<or> m_trans (abs_db d) (abs_db d')"
proof -
  obtain t e where e: "repo_step t e" "abs_db t = abs_db d" "runtime_ok t = runtime_ok d"
    "abs_db d' = abs_db e" "runtime_ok d' = runtime_ok e" "receipts_ok d'"
    by (rule committed_parts [OF com ok(2)])
  show "runtime_ok d'" "receipts_ok d'" "abs_db d' = abs_db d \<or> m_trans (abs_db d) (abs_db d')"
    using repo_step_refines [OF e(1)] e ok by simp_all
qed

section \<open>The shape of a command\<close>

text \<open>
  Every mutation command is one transaction: the receipt is opened, a known receipt is
  answered at once, and a new one is followed by the body, which performs one repository
  operation and settles the receipt.
\<close>

definition transact ::
  "(db \<Rightarrow> unit result) \<Rightarrow> instant \<Rightarrow> uuid \<Rightarrow> receipt_slot \<Rightarrow> string
   \<Rightarrow> (receipt_record \<Rightarrow> db \<Rightarrow> (mutation_result \<times> db \<times> bool) result) \<Rightarrow> mutation_result command" where
  "transact commit now rid k hash body =
     (case k of (kind, scope, key) \<Rightarrow>
       with_uow commit False (\<lambda>d. bindE (receipt_start now rid kind scope key hash d) (\<lambda>(r, d).
         if \<not> is_new r then mapR (\<lambda>m. (m, d, False)) (replayed_result r) else body r d)))"

inductive settling :: "receipt_record \<Rightarrow> db \<Rightarrow> mutation_result \<Rightarrow> db \<Rightarrow> bool" where
  settle:
    "repo_step t e \<Longrightarrow>
     receipt_succeed now' (record_receipt_id r) agg_kind agg version result claim e = Inr u \<Longrightarrow>
     audit_append now'' eid (Some (record_receipt_id r)) req claim u = Inr d' \<Longrightarrow>
     settling r t (new_result r agg_kind agg version result) d'"

definition settles :: "(receipt_record \<Rightarrow> db \<Rightarrow> (mutation_result \<times> db \<times> bool) result) \<Rightarrow> bool" where
  "settles body \<longleftrightarrow> (\<forall>r t m d' b. body r t = Inr (m, d', b) \<longrightarrow> b \<and> settling r t m d')"

lemma settlesI:
  "(\<And>r t m d' b. body r t = Inr (m, d', b) \<Longrightarrow> b \<and> settling r t m d') \<Longrightarrow> settles body"
  unfolding settles_def by blast

fun result_outcome :: "mutation_result \<Rightarrow> outcome" where
  "result_outcome m =
     Done (mutation_kind m) (mutation_aggregate m) (mutation_version m) (mutation_hash m)"

lemma transact_Inr:
  assumes body: "settles body" and run: "transact commit now rid k hash body d = (Inr m, d')"
  shows "(committed k hash rid (result_outcome m) d d' \<and> mutation_receipt m = rid \<and> \<not> replayed m
        \<and> commit d' = Inr ())
    \<or> (\<exists>c. find_receipt d k = Some c \<and> receipt_request_hash c = hash \<and> receipt_status c \<noteq> PENDING
         \<and> replayed_result (record_of False c) = Inr m \<and> d' = d)"
proof -
  obtain kind scope key where k: "k = (kind, scope, key)" by (cases k)
  from run obtain w c r t where w: "receipt_start now rid kind scope key hash d = Inr (r, t)"
    "(if \<not> is_new r then mapR (\<lambda>m. (m, t, False)) (replayed_result r) else body r t) = Inr (m, w, c)"
    "if c then commit w = Inr () \<and> d' = w else d' = d"
    by (auto simp: transact_def k with_uow_Inr bindE_Inr_iff)
  show ?thesis
  proof (cases "is_new r")
    case True
    have b: "body r t = Inr (m, w, c)" using w(2) True by simp
    have c and "settling r t m w" using body b unfolding settles_def by blast+
    from this(2) obtain e u agg_kind agg version result claim now' now'' eid req where
      p: "repo_step t e" "receipt_succeed now' (record_receipt_id r) agg_kind agg version result claim e = Inr u"
      "audit_append now'' eid (Some (record_receipt_id r)) req claim u = Inr w"
      and m: "m = new_result r agg_kind agg version result" by cases
    have "record_receipt_id r = rid" using receipt_start_Inr [OF w(1)] True by (auto simp: record_of_def)
    then show ?thesis using committed.commit [OF w(1) True p] m w(3) \<open>c\<close>
      by (simp add: k new_result_def)
  next
    case False
    with w(2) have m: "replayed_result r = Inr m" "c = False" by (auto simp: mapR_Inr_iff)
    from receipt_start_Inr [OF w(1)] False show ?thesis using m w(3) by (auto simp: k record_of_def)
  qed
qed

lemma transact_Inl: "transact commit now rid k hash body d = (Inl e, d') \<Longrightarrow> d' = d"
  by (cases k) (auto simp: transact_def dest: with_uow_Inl)

text \<open>Answers from the ledger.\<close>

lemma replayed_result_record:
  "receipt_status c = SUCCEEDED \<Longrightarrow> outcome_of c = Some (Done a b n h) \<Longrightarrow>
   replayed_result (record_of False c) =
     Inr \<lparr>mutation_kind = a, mutation_aggregate = b, mutation_version = n, mutation_hash = h,
       mutation_receipt = receipt_id c, replayed = True\<rparr>"
  by (auto simp: replayed_result_def record_of_def outcome_of_def split: option.splits)

section \<open>The mutation commands\<close>

datatype runtime_call =
    Create_Schedule schedule_spec
  | Schedule_Run run_spec "step_spec list" "step_dependency list"
  | Start_Run uuid
  | Start_Attempt attempt_claim
  | Heartbeat_Attempt attempt_claim int
  | Succeed_Attempt attempt_claim string
  | Fail_Attempt attempt_claim string string
  | Resume_Waiting_Step uuid uuid string

fun execute ::
  "(db \<Rightarrow> unit result) \<Rightarrow> (nat \<Rightarrow> uuid) \<Rightarrow> clock \<Rightarrow> runtime_call \<Rightarrow> command_context
   \<Rightarrow> mutation_result command" where
  "execute commit ids clk (Create_Schedule s) ctx = create_schedule commit ids clk s ctx"
| "execute commit ids clk (Schedule_Run r ss xs) ctx = schedule_run commit ids clk r ss xs ctx"
| "execute commit ids clk (Start_Run k) ctx = start_run_command commit ids clk k ctx"
| "execute commit ids clk (Start_Attempt c) ctx = start_attempt_command commit ids clk c ctx"
| "execute commit ids clk (Heartbeat_Attempt c l) ctx = heartbeat_attempt_command commit ids clk c l ctx"
| "execute commit ids clk (Succeed_Attempt c h) ctx = succeed_attempt_command commit ids clk c h ctx"
| "execute commit ids clk (Fail_Attempt c e k) ctx = fail_attempt_command commit ids clk c e k ctx"
| "execute commit ids clk (Resume_Waiting_Step r s k) ctx =
     resume_waiting_step_command commit ids clk r s k ctx"

text \<open>The slot of the receipt a call opens, and the position of its identity.\<close>

fun call_slot :: "runtime_call \<Rightarrow> command_context \<Rightarrow> receipt_slot" where
  "call_slot (Create_Schedule s) ctx = (''CREATE_RUNTIME_SCHEDULE'', schedule_code s, context_key ctx)"
| "call_slot (Schedule_Run r ss xs) ctx =
     (''SCHEDULE_RUNTIME_RUN'', uuid_str (run_schedule_id r) @ '':'' @ fire_key r, context_key ctx)"
| "call_slot (Start_Run k) ctx = (''START_RUNTIME_RUN'', uuid_str k, context_key ctx)"
| "call_slot (Start_Attempt c) ctx =
     (''START_RUNTIME_ATTEMPT'', uuid_str (claim_attempt_id c), context_key ctx)"
| "call_slot (Heartbeat_Attempt c l) ctx =
     (''HEARTBEAT_RUNTIME_ATTEMPT'', uuid_str (claim_attempt_id c), context_key ctx)"
| "call_slot (Succeed_Attempt c h) ctx =
     (''SUCCEED_RUNTIME_ATTEMPT'', uuid_str (claim_attempt_id c), context_key ctx)"
| "call_slot (Fail_Attempt c e k) ctx =
     (''FAIL_RUNTIME_ATTEMPT'', uuid_str (claim_attempt_id c), context_key ctx)"
| "call_slot (Resume_Waiting_Step r s k) ctx = (''RESUME_RUNTIME_STEP'', uuid_str s, context_key ctx)"

fun call_receipt :: "(nat \<Rightarrow> uuid) \<Rightarrow> runtime_call \<Rightarrow> uuid" where
  "call_receipt ids (Schedule_Run r ss xs) = ids (length ss)"
| "call_receipt ids _ = ids 0"

text \<open>The canonical request whose hash the receipt keeps.\<close>

fun call_request :: "runtime_call \<Rightarrow> pyval" where
  "call_request (Create_Schedule s) = schedule_value s"
| "call_request (Schedule_Run r ss xs) =
     PMapping [(''run'', run_spec_value r), (''steps'', PSequence (map step_spec_value ss)),
       (''dependencies'', PSequence (map step_dependency_value xs))]"
| "call_request (Start_Run k) = PMapping [(''run_id'', PUuid k)]"
| "call_request (Start_Attempt c) =
     PMapping [(''attempt_id'', PUuid (claim_attempt_id c)), (''fence'', PInt (claim_fence c))]"
| "call_request (Heartbeat_Attempt c l) =
     PMapping [(''attempt_id'', PUuid (claim_attempt_id c)), (''fence'', PInt (claim_fence c)),
       (''lease_duration'', PTimedelta l)]"
| "call_request (Succeed_Attempt c h) =
     PMapping [(''attempt_id'', PUuid (claim_attempt_id c)), (''fence'', PInt (claim_fence c)),
       (''result_hash'', PStr h)]"
| "call_request (Fail_Attempt c e k) =
     PMapping [(''attempt_id'', PUuid (claim_attempt_id c)), (''fence'', PInt (claim_fence c)),
       (''error_class'', PStr e), (''error_code'', PStr k)]"
| "call_request (Resume_Waiting_Step r s k) =
     PMapping [(''run_id'', PUuid r), (''step_id'', PUuid s), (''resolution_code'', PStr k)]"

lemma mutate_claim_shape:
  assumes mutation: "\<And>rid t p e. mutation rid t = Inr (p, e) \<Longrightarrow> repo_step t e"
    and h: "canonical_json_sha256 req = Inr h"
  shows "\<exists>body. settles body \<and> mutate_claim commit ids clk kind claim ctx req mutation =
    transact commit (clk 0) (ids 0) (kind, uuid_str (claim_attempt_id claim), context_key ctx) h body"
proof (intro exI conjI)
  let ?body = "\<lambda>receipt d. bindE (mutation (record_receipt_id receipt) d) (\<lambda>((version, result), d).
         let agg = uuid_str (claim_step_id claim)
         in bindE (receipt_succeed (clk 30) (record_receipt_id receipt) ''RUNTIME_STEP'' agg version
              result (Some claim) d) (\<lambda>d.
            bindE (append_audit (clk 31) (ids 1) receipt ctx ''RUNTIME_STEP'' agg kind
              (Some (max 0 (version - 1))) (Some version) (Some claim) d) (\<lambda>d.
            Inr (new_result receipt ''RUNTIME_STEP'' agg version result, d, True))))"
  show "settles ?body"
    by (rule settlesI)
      (clarsimp simp: bindE_Inr_iff append_audit_def Let_def, rule settling.settle, erule mutation)
  show "mutate_claim commit ids clk kind claim ctx req mutation =
    transact commit (clk 0) (ids 0) (kind, uuid_str (claim_attempt_id claim), context_key ctx) h ?body"
    by (rule ext) (simp only: mutate_claim_def transact_def given_def h sum.case prod.case)
qed

definition shaped ::
  "((db \<Rightarrow> unit result) \<Rightarrow> (nat \<Rightarrow> uuid) \<Rightarrow> clock \<Rightarrow> command_context \<Rightarrow> mutation_result command)
   \<Rightarrow> ((nat \<Rightarrow> uuid) \<Rightarrow> uuid) \<Rightarrow> (command_context \<Rightarrow> receipt_slot) \<Rightarrow> pyval \<Rightarrow> bool" where
  "shaped run rid slot req \<longleftrightarrow>
     (\<exists>e. \<forall>commit ids clk ctx d. run commit ids clk ctx d = (Inl e, d)) \<or>
     (\<exists>h. canonical_json_sha256 req = Inr h \<and> (\<forall>commit ids clk ctx. \<exists>body. settles body \<and>
        run commit ids clk ctx = transact commit (clk 0) (rid ids) (slot ctx) h body))"

lemma shaped_refused:
  "(\<And>commit ids clk ctx d. run commit ids clk ctx d = (Inl e, d)) \<Longrightarrow> shaped run rid slot req"
  unfolding shaped_def by blast

lemma shaped_transact:
  "canonical_json_sha256 req = Inr h \<Longrightarrow>
   (\<And>commit ids clk ctx. \<exists>body. settles body \<and>
      run commit ids clk ctx = transact commit (clk 0) (rid ids) (slot ctx) h body) \<Longrightarrow>
   shaped run rid slot req"
  unfolding shaped_def by blast

text \<open>A value computed in front of the transaction either refuses or is passed on.\<close>

lemma shaped_given:
  assumes "\<And>x. m = Inr x \<Longrightarrow> shaped (\<lambda>commit ids clk ctx. run commit ids clk ctx x) rid slot req"
  shows "shaped (\<lambda>commit ids clk ctx. given m (run commit ids clk ctx)) rid slot req"
proof (cases m)
  case (Inl e)
  then show ?thesis by (intro shaped_refused [where e = e]) (simp add: given_def)
next
  case (Inr x)
  have "(\<lambda>commit ids clk ctx. given m (run commit ids clk ctx)) = (\<lambda>commit ids clk ctx. run commit ids clk ctx x)"
    by (simp add: given_def Inr fun_eq_iff)
  then show ?thesis using assms [OF Inr] by simp
qed

lemma shaped_mutate_claim:
  assumes "\<And>clk rid t p e. mutation clk rid t = Inr (p, e) \<Longrightarrow> repo_step t e"
  shows "shaped (\<lambda>commit ids clk ctx. mutate_claim commit ids clk kind claim ctx req (mutation clk))
    (\<lambda>ids. ids 0) (\<lambda>ctx. (kind, uuid_str (claim_attempt_id claim), context_key ctx)) req"
proof (cases "canonical_json_sha256 req")
  case (Inl e)
  then show ?thesis by (intro shaped_refused [where e = e]) (simp add: mutate_claim_def given_def)
next
  case (Inr h)
  show ?thesis by (rule shaped_transact [OF Inr], rule mutate_claim_shape [OF assms Inr])
qed

lemma shaped_transactI:
  assumes "canonical_json_sha256 req = Inr h" "\<And>commit ids clk ctx. settles (body commit ids clk ctx)"
  shows "shaped (\<lambda>commit ids clk ctx. with_uow commit False (\<lambda>d.
       bindE (receipt_start (clk 0) (rid ids) kind scope (context_key ctx) h d) (\<lambda>(r, d).
         if \<not> is_new r then mapR (\<lambda>m. (m, d, False)) (replayed_result r)
         else body commit ids clk ctx r d))) rid (\<lambda>ctx. (kind, scope, context_key ctx)) req"
  by (rule shaped_transact [OF assms(1)], rule exI, rule conjI, rule assms(2)) (simp only: transact_def prod.case)

text \<open>Each body performs its operation and settles its receipt.\<close>

lemmas body_simps = bindE_Inr_iff append_audit_def Let_def mapR_Inr_iff

lemma create_schedule_shaped:
  "shaped (\<lambda>commit ids clk ctx. create_schedule commit ids clk s ctx) (\<lambda>ids. ids 0)
     (\<lambda>ctx. (''CREATE_RUNTIME_SCHEDULE'', schedule_code s, context_key ctx)) (call_request (Create_Schedule s))"
  unfolding create_schedule_def call_request.simps
  by (intro shaped_given shaped_transactI settlesI, assumption)
    (clarsimp simp: body_simps, rule settling.settle, erule repo_step.schedule)

lemma schedule_run_shaped:
  "shaped (\<lambda>commit ids clk ctx. schedule_run commit ids clk r ss xs ctx) (\<lambda>ids. ids (length ss))
     (\<lambda>ctx. (''SCHEDULE_RUNTIME_RUN'', uuid_str (run_schedule_id r) @ '':'' @ fire_key r, context_key ctx)) (call_request (Schedule_Run r ss xs))"
  unfolding schedule_run_def Let_def call_request.simps
  by (intro shaped_given shaped_transactI settlesI, assumption)
    (clarsimp simp: body_simps, rule settling.settle, erule repo_step.run)

lemma start_run_shaped:
  "shaped (\<lambda>commit ids clk ctx. start_run_command commit ids clk k ctx) (\<lambda>ids. ids 0)
     (\<lambda>ctx. (''START_RUNTIME_RUN'', uuid_str k, context_key ctx)) (call_request (Start_Run k))"
  unfolding start_run_command_def call_request.simps
  by (intro shaped_given shaped_transactI settlesI, assumption)
    (clarsimp simp: body_simps, rule settling.settle, erule repo_step.start_run)

lemma resume_shaped:
  "shaped (\<lambda>commit ids clk ctx. resume_waiting_step_command commit ids clk k s res ctx) (\<lambda>ids. ids 0)
     (\<lambda>ctx. (''RESUME_RUNTIME_STEP'', uuid_str s, context_key ctx)) (call_request (Resume_Waiting_Step k s res))"
  unfolding resume_waiting_step_command_def call_request.simps
  by (intro shaped_given shaped_transactI settlesI, assumption)
    (clarsimp simp: body_simps, rule settling.settle, erule repo_step.resume)

lemma start_attempt_shaped:
  "shaped (\<lambda>commit ids clk ctx. start_attempt_command commit ids clk c ctx) (\<lambda>ids. ids 0)
     (\<lambda>ctx. (''START_RUNTIME_ATTEMPT'', uuid_str (claim_attempt_id c), context_key ctx)) (call_request (Start_Attempt c))"
  unfolding start_attempt_command_def call_request.simps
  by (rule shaped_mutate_claim) (auto simp: body_simps intro: repo_step.start_attempt)

lemma heartbeat_attempt_shaped:
  "shaped (\<lambda>commit ids clk ctx. heartbeat_attempt_command commit ids clk c l ctx) (\<lambda>ids. ids 0)
     (\<lambda>ctx. (''HEARTBEAT_RUNTIME_ATTEMPT'', uuid_str (claim_attempt_id c), context_key ctx)) (call_request (Heartbeat_Attempt c l))"
  unfolding heartbeat_attempt_command_def call_request.simps
  by (rule shaped_mutate_claim) (auto simp: body_simps intro: repo_step.heartbeat)

lemma succeed_attempt_shaped:
  "shaped (\<lambda>commit ids clk ctx. succeed_attempt_command commit ids clk c h ctx) (\<lambda>ids. ids 0)
     (\<lambda>ctx. (''SUCCEED_RUNTIME_ATTEMPT'', uuid_str (claim_attempt_id c), context_key ctx)) (call_request (Succeed_Attempt c h))"
  unfolding succeed_attempt_command_def call_request.simps
  by (intro shaped_given, rule shaped_mutate_claim) (auto simp: body_simps intro: repo_step.succeed)

lemma fail_attempt_shaped:
  "shaped (\<lambda>commit ids clk ctx. fail_attempt_command commit ids clk c e k ctx) (\<lambda>ids. ids 0)
     (\<lambda>ctx. (''FAIL_RUNTIME_ATTEMPT'', uuid_str (claim_attempt_id c), context_key ctx)) (call_request (Fail_Attempt c e k))"
  unfolding fail_attempt_command_def call_request.simps
  by (intro shaped_given, rule shaped_mutate_claim) (auto simp: body_simps intro: repo_step.fail)

lemmas command_shapes = create_schedule_shaped schedule_run_shaped start_run_shaped
  start_attempt_shaped heartbeat_attempt_shaped succeed_attempt_shaped fail_attempt_shaped resume_shaped

lemma execute_shaped:
  "shaped (\<lambda>commit ids clk ctx. execute commit ids clk call ctx) (\<lambda>ids. call_receipt ids call)
     (\<lambda>ctx. call_slot call ctx) (call_request call)"
  by (cases call) (simp_all only: execute.simps call_receipt.simps call_slot.simps command_shapes)

section \<open>Claims and recovery\<close>

definition commits :: "db \<Rightarrow> db \<Rightarrow> bool" where
  "commits d d' \<longleftrightarrow> d' = d \<or> (\<exists>k h rid v. committed k h rid v d d')"

lemma commits_refl [simp]: "commits d d"
  by (simp add: commits_def)

lemma commits_committed: "committed k h rid v d d' \<Longrightarrow> commits d d'"
  unfolding commits_def by blast

lemma commitsI:
  "receipt_start now rid kind scope key hash d = Inr (r, t) \<Longrightarrow> is_new r \<Longrightarrow> repo_step t e \<Longrightarrow>
   receipt_succeed now' (record_receipt_id r) agg_kind agg version result claim e = Inr u \<Longrightarrow>
   audit_append now'' eid (Some (record_receipt_id r)) req claim u = Inr d' \<Longrightarrow> commits d d'"
  unfolding commits_def by (blast intro: committed.commit)

text \<open>A body that opens a receipt, and settles it only after one operation.\<close>

lemma with_uow_commits:
  assumes run: "with_uow commit False body d = (res, d')"
    and body: "\<And>x w. body d = Inr (x, w, True) \<Longrightarrow> commits d w"
  shows "commits d d'"
proof (cases res)
  case (Inl e)
  then show ?thesis using run with_uow_Inl by (auto simp: commits_def)
next
  case (Inr x)
  then obtain w c where w: "body d = Inr (x, w, c)" "if c then commit w = Inr () \<and> d' = w else d' = d"
    using run by (auto simp: with_uow_Inr)
  then show ?thesis using body [of x w] by (cases c) auto
qed

lemma claim_next_command_commits:
  assumes "claim_next_command commit admit locked ids clk rid sid worker lease ctx d = (res, d')"
  shows "commits d d'"
  using assms unfolding claim_next_command_def given_def
  by (auto split: sum.splits elim!: with_uow_commits simp: bindE_Inr_iff mapR_Inr_iff append_audit_def Let_def
      split: if_splits option.splits)
    (rule commitsI, assumption+, erule repo_step.claim_next, assumption+)+

lemma recover_one_commits:
  assumes "recover_one commit admit ids clk actor reason aid d = (res, d')"
  shows "commits d d'"
  using assms unfolding recover_one_def given_def
  by (auto split: sum.splits elim!: with_uow_commits simp: bindE_Inr_iff mapR_Inr_iff Let_def
      split: if_splits option.splits)
    (rule commitsI, assumption+, erule repo_step.recover, assumption+)

lemma expire_one_commits:
  assumes "expire_one commit admit ids clk actor reason sid d = (res, d')"
  shows "commits d d'"
  using assms unfolding expire_one_def given_def
  by (auto split: sum.splits elim!: with_uow_commits simp: bindE_Inr_iff mapR_Inr_iff Let_def
      split: if_splits option.splits)
    (rule commitsI, assumption+, erule repo_step.expire, assumption+)

lemma execute_cases:
  assumes "execute commit ids clk call ctx d = (res, d')"
  obtains e where "res = Inl e" "d' = d"
  | m h where "res = Inr m" "canonical_json_sha256 (call_request call) = Inr h" "\<not> replayed m"
      "mutation_receipt m = call_receipt ids call" "commit d' = Inr ()"
      "committed (call_slot call ctx) h (call_receipt ids call) (result_outcome m) d d'"
  | m h c where "res = Inr m" "canonical_json_sha256 (call_request call) = Inr h" "d' = d"
      "find_receipt d (call_slot call ctx) = Some c" "receipt_request_hash c = h"
      "receipt_status c \<noteq> PENDING" "replayed_result (record_of False c) = Inr m"
proof -
  from execute_shaped [of call, unfolded shaped_def] show ?thesis
  proof
    assume "\<exists>e. \<forall>commit ids clk ctx d. execute commit ids clk call ctx d = (Inl e, d)"
    with assms that(1) show ?thesis by auto
  next
    assume "\<exists>h. canonical_json_sha256 (call_request call) = Inr h \<and> (\<forall>commit ids clk ctx. \<exists>body. settles body
      \<and> execute commit ids clk call ctx
          = transact commit (clk 0) (call_receipt ids call) (call_slot call ctx) h body)"
    then obtain h body where h: "canonical_json_sha256 (call_request call) = Inr h" and s: "settles body"
      and eq: "execute commit ids clk call ctx
          = transact commit (clk 0) (call_receipt ids call) (call_slot call ctx) h body" by blast
    show ?thesis
    proof (cases res)
      case (Inl e)
      then show ?thesis using that(1) assms transact_Inl unfolding eq by blast
    next
      case (Inr m)
      from transact_Inr [OF s] assms [unfolded eq Inr] show ?thesis using that(2,3) Inr h by blast
    qed
  qed
qed

lemma execute_commits: "execute commit ids clk call ctx d = (res, d') \<Longrightarrow> commits d d'"
  by (elim execute_cases) (auto intro: commits_committed)

section \<open>Histories of transactions\<close>

definition tx_history :: "db \<Rightarrow> db \<Rightarrow> bool" where
  "tx_history = commits\<^sup>*\<^sup>*"

lemma tx_history_refl [simp]: "tx_history d d"
  by (simp add: tx_history_def)

lemma tx_history_commit: "commits d e \<Longrightarrow> tx_history d e"
  by (simp add: tx_history_def r_into_rtranclp)

lemma tx_history_trans: "tx_history d e \<Longrightarrow> tx_history e f \<Longrightarrow> tx_history d f"
  unfolding tx_history_def by (rule rtranclp_trans)

lemma each_command_history:
  assumes "each_command turn k xs acc d = (res, d')"
    and "\<And>k x d res d'. turn k x d = (res, d') \<Longrightarrow> commits d d'"
  shows "tx_history d d'"
  using assms(1)
proof (induction xs arbitrary: k acc d)
  case (Cons x xs)
  obtain r e where t: "turn k x d = (r, e)" by (cases "turn k x d")
  then have "tx_history d e" using assms(2) tx_history_commit by blast
  then show ?case
    using Cons.prems Cons.IH t tx_history_trans by (cases r) (auto split: option.splits)
qed simp

lemma recover_expired_history:
  assumes "recover_expired commit admit ids clk actor reason rid d = (res, d')"
  shows "tx_history d d'"
proof (cases "actor \<noteq> [] \<and> code_ok reason")
  case True
  let ?turn = "\<lambda>k. recover_one commit admit (ids k) (clk k) actor reason"
  let ?xs = "expired_attempt_ids (clk 0) rid d"
  obtain r e where e: "each_command ?turn 1 ?xs [] d = (r, e)" by (cases "each_command ?turn 1 ?xs [] d")
  have de: "tx_history d e" by (rule each_command_history [OF e]) (rule recover_one_commits)
  show ?thesis
  proof (cases r)
    case (Inl x)
    then show ?thesis using assms e de True by (simp add: recover_expired_def given_def)
  next
    case (Inr done_so_far)
    let ?k = "1 + length ?xs"
    have "each_command (\<lambda>k. expire_one commit admit (ids k) (clk k) actor reason) (?k + 1)
      (deadline_expired_step_ids (clk ?k) rid e) done_so_far e = (res, d')"
      using assms e Inr True by (simp add: recover_expired_def given_def Let_def)
    from each_command_history [OF this] expire_one_commits show ?thesis
      using de tx_history_trans by blast
  qed
qed (use assms in \<open>auto simp: recover_expired_def given_def\<close>)

text \<open>Everything the application does to the database.\<close>

inductive service :: "db \<Rightarrow> db \<Rightarrow> bool" where
  execute: "execute commit ids clk call ctx d = (res, d') \<Longrightarrow> service d d'"
| claim: "claim_next_command commit admit locked ids clk rid sid worker lease ctx d = (claimed, d')
    \<Longrightarrow> service d d'"
| recover: "recover_expired commit admit ids' clk' actor reason rid d = (recovered, d') \<Longrightarrow> service d d'"
| inspect: "inspect_run_command commit rid d = (trace, d') \<Longrightarrow> service d d'"

lemma inspect_keeps: "inspect_run_command commit rid d = (trace, d') \<Longrightarrow> d' = d"
  by (auto simp: inspect_run_command_def with_uow_eq mapR_def bindE_def split: sum.splits)

lemma service_history: "service d d' \<Longrightarrow> tx_history d d'"
  by (induction rule: service.induct)
    (auto dest: inspect_keeps intro: tx_history_commit execute_commits claim_next_command_commits
      recover_expired_history)

lemma services_history: "service\<^sup>*\<^sup>* d d' \<Longrightarrow> tx_history d d'"
  by (induction rule: rtranclp_induct) (auto intro: tx_history_trans service_history)

text \<open>What a history of transactions keeps.\<close>

lemma commits_ok:
  assumes "commits d d'" "runtime_ok d" "receipts_ok d"
  shows "runtime_ok d' \<and> receipts_ok d' \<and> m_later (abs_db d) (abs_db d')"
proof (cases "d' = d")
  case False
  then obtain k h rid v where com: "committed k h rid v d d'" using assms(1) by (auto simp: commits_def)
  note c = committed_ok [OF com assms(2,3)]
  then have "m_later (abs_db d) (abs_db d')"
    using m_trans_later [of "abs_db d" "abs_db d'"] assms(2) by (auto simp: m_later_refl runtime_ok_def)
  with c show ?thesis by simp
qed (simp add: assms m_later_refl)

lemma tx_history_ok:
  assumes "tx_history d d'" "runtime_ok d" "receipts_ok d"
  shows "runtime_ok d' \<and> receipts_ok d' \<and> m_later (abs_db d) (abs_db d')"
  using assms(1) unfolding tx_history_def
proof (induction rule: rtranclp_induct)
  case (step e f)
  then show ?case using commits_ok [OF step(2)] m_later_trans by blast
qed (simp add: assms m_later_refl)

lemma commits_kept:
  assumes "commits d d'" "receipts_ok d"
  shows "receipts_ok d' \<and> ledger.kept d d'"
proof (cases "d' = d")
  case False
  then obtain k h rid v where com: "committed k h rid v d d'" using assms(1) by (auto simp: commits_def)
  have "receipts_ok d'" by (rule committed_parts [OF com assms(2)])
  then show ?thesis using committed_ledger [OF com assms(2)] by (auto simp: ledger.kept_def ledger.settled_in_def)
qed (simp add: assms ledger.kept_refl)

lemma tx_history_kept:
  assumes "tx_history d d'" "receipts_ok d"
  shows "receipts_ok d' \<and> ledger.kept d d'"
  using assms(1) unfolding tx_history_def
proof (induction rule: rtranclp_induct)
  case (step e f)
  then show ?case using commits_kept [OF step(2)] ledger.kept_trans by blast
qed (simp add: assms ledger.kept_refl)

section \<open>Replays\<close>

lemma receipt_checks_pending:
  "first_violation (receipt_checks c) = None \<Longrightarrow>
   first_violation (receipt_checks (pending_receipt now rid (slot_of c) (receipt_request_hash c))) = None"
  unfolding first_violation_None receipt_checks_def by (simp add: slot_of_def pending_receipt_def)

lemma receipt_start_replay:
  assumes ok: "receipts_ok d" and c: "find_receipt d (kind, scope, key) = Some c"
  shows "receipt_start now rid kind scope key h d =
    (if receipt_request_hash c \<noteq> h then receipt_start now rid kind scope key h d
     else if receipt_status c = PENDING then Inl CommandInProgressError else Inr (record_of False c, d))"
proof (cases "receipt_request_hash c = h")
  case True
  note at = receipt_at_slot [OF ok c]
  then have "first_violation (receipt_checks c) = None" using ok by (simp add: receipts_ok_def list_all_iff)
  from receipt_checks_pending [OF this, of now rid] have "first_violation (receipt_checks
      (pending_receipt now rid (kind, scope, key) h)) = None" using at True by simp
  then show ?thesis
    using c True by (simp add: receipt_start_def insert_receipt_row_def)
qed simp

lemma transact_replay:
  assumes "receipts_ok d" "find_receipt d k = Some c" "receipt_request_hash c = h" "receipt_status c \<noteq> PENDING"
    and m: "replayed_result (record_of False c) = Inr m"
  shows "transact commit now rid k h body d = (Inr m, d)"
proof -
  obtain kind scope key where k: "k = (kind, scope, key)" by (cases k)
  have "receipt_start now rid kind scope key h d = Inr (record_of False c, d)"
    using receipt_start_replay [of d kind scope key c now rid h] assms by (simp add: k)
  then show ?thesis using m by (simp add: transact_def k with_uow_eq mapR_def record_of_def)
qed

text \<open>A command that returned has settled its slot; a later run of it answers from there.\<close>

lemma execute_settled:
  assumes run: "execute commit ids clk call ctx d = (Inr m, d')" and ok: "receipts_ok d"
  obtains h where "canonical_json_sha256 (call_request call) = Inr h"
    "ledger.settled_in d' (call_slot call ctx) (mutation_receipt m) h (result_outcome m)" "receipts_ok d'"
  using run
proof (cases rule: execute_cases)
  case (2 m' h)
  have "receipts_ok d'" by (rule committed_parts [OF 2(6) ok])
  then show ?thesis
    using that [OF 2(2)] committed_ledger [OF 2(6) ok] 2 by (simp add: ledger.settled_in_def)
next
  case (3 m' h c)
  from 3(7) have "receipt_id c = mutation_receipt m" "outcome_of c = Some (result_outcome m)"
    using 3(1) by (auto simp: replayed_result_def record_of_def outcome_of_def split: option.splits if_splits)
  then show ?thesis
    using that [OF 3(2)] 3 ok by (simp add: ledger.settled_in_def ledger_entry_def)
qed simp

lemma settled_receipt:
  assumes "ledger.settled_in d k rid h v"
  obtains c where "find_receipt d k = Some c" "receipt_id c = rid" "receipt_request_hash c = h"
    "outcome_of c = Some v" "receipt_status c \<noteq> PENDING"
  using assms by (auto simp: ledger.settled_in_def ledger_entry_def outcome_of_def split: if_splits)

lemma execute_replays:
  assumes set: "ledger.settled_in d (call_slot call ctx) (mutation_receipt m) h (result_outcome m)"
    and h: "canonical_json_sha256 (call_request call) = Inr h" and ok: "receipts_ok d"
    and ran: "execute commit0 ids0 clk0 call ctx0 d0 = (Inr m0, d0')"
  shows "execute commit ids clk call ctx d = (Inr (m\<lparr>replayed := True\<rparr>), d)"
proof -
  obtain c where c: "find_receipt d (call_slot call ctx) = Some c" "receipt_id c = mutation_receipt m"
    "receipt_request_hash c = h" "outcome_of c = Some (result_outcome m)" "receipt_status c \<noteq> PENDING"
    by (rule settled_receipt [OF set])
  note at = receipt_at_slot [OF ok c(1)]
  have chk: "first_violation (receipt_checks c) = None"
    using at ok by (simp add: receipts_ok_def list_all_iff)
  then have "receipt_status c = SUCCEEDED"
    using c(4,5) unfolding first_violation_None receipt_checks_def
    by (auto simp: outcome_of_def split: option.splits)
  then have m: "replayed_result (record_of False c) = Inr (m\<lparr>replayed := True\<rparr>)"
    using replayed_result_record [of c] c by simp
  from execute_shaped [of call, unfolded shaped_def] ran h obtain body where
    "execute commit ids clk call ctx = transact commit (clk 0) (call_receipt ids call) (call_slot call ctx) h body"
    by fastforce
  then show ?thesis using transact_replay [OF ok c(1,3,5) m] by simp
qed

lemma receipt_start_reused:
  assumes ok: "receipts_ok d" and set: "ledger.settled_in d (kind, scope, key) i h v"
    and h': "content_hash_ok h'" "h' \<noteq> h"
  shows "receipt_start now rid kind scope key h' d = Inl IdempotencyKeyReusedError"
proof -
  obtain c where c: "find_receipt d (kind, scope, key) = Some c" "receipt_request_hash c = h"
    by (rule settled_receipt [OF set])
  note at = receipt_at_slot [OF ok c(1)]
  have "first_violation (receipt_checks c) = None"
    using at ok by (simp add: receipts_ok_def list_all_iff)
  from receipt_checks_pending [OF this, of now rid]
  have "first_violation (receipt_checks (pending_receipt now rid (kind, scope, key) h)) = None"
    using at c(2) by simp
  then have "first_violation (receipt_checks (pending_receipt now rid (kind, scope, key) h')) = None"
    using h'(1) unfolding first_violation_None receipt_checks_def by (simp add: pending_receipt_def)
  then show ?thesis using c h'(2) by (simp add: receipt_start_def insert_receipt_row_def)
qed

text \<open>A command whose receipt cannot be opened fails.\<close>

lemma execute_refused:
  assumes h: "canonical_json_sha256 (call_request call) = Inr h"
    and refused: "\<And>now rid. receipt_start now rid (fst (call_slot call ctx)) (fst (snd (call_slot call ctx)))
      (snd (snd (call_slot call ctx))) h d = Inl e"
  shows "\<exists>e. execute commit ids clk call ctx d = (Inl e, d)"
proof -
  obtain kind scope key where k: "call_slot call ctx = (kind, scope, key)" by (cases "call_slot call ctx")
  have "transact commit now rid (kind, scope, key) h body d = (Inl e, d)" for now rid body
    using refused by (simp add: transact_def with_uow_eq k)
  note refuses = this
  from execute_shaped [of call, unfolded shaped_def] show ?thesis
  proof
    assume "\<exists>h. canonical_json_sha256 (call_request call) = Inr h \<and> (\<forall>commit ids clk ctx. \<exists>body. settles body
      \<and> execute commit ids clk call ctx
          = transact commit (clk 0) (call_receipt ids call) (call_slot call ctx) h body)"
    then obtain body where "execute commit ids clk call ctx
        = transact commit (clk 0) (call_receipt ids call) (kind, scope, key) h body"
      using h k by (metis Inr_inject)
    then show ?thesis using refuses by metis
  qed blast
qed

end
