(* ===== verification/Runtime_Progress.thy ===== *)
theory Runtime_Progress
  imports Runtime_Safety
begin

text \<open>
  Operations under a live claim go through: the database's own constraints, triggers
  and foreign keys never reject them when the invariant holds, and the result is the
  one the code computes. The two places where the database does reject an operation of
  the repository are stated too.
\<close>

section \<open>Constraints of the updated rows\<close>

text \<open>What the row constraints say about a Step in a given state.\<close>

lemma step_okD:
  assumes "step_ok s"
  shows "step_live (step_state s) = (current_attempt_id s \<noteq> None)"
    and "step_state s \<in> {Step_RUNNING, Step_WAITING} \<Longrightarrow> step_started_at s \<noteq> None"
    and "\<not> step_ended (step_state s) \<Longrightarrow> step_finished_at s = None"
    and "opt_ok code_ok (step_reason s)"
    and "0 < step_version s"
  using assms unfolding step_ok_def first_violation_None step_checks_def by auto

text \<open>A step row that differs from a well-formed one only in its state columns.\<close>

lemma step_check_None:
  assumes ok: "step_ok s"
    and keep: "step_id s' = step_id s" "step_run s' = step_run s" "step_plan s' = step_plan s"
      "retry_backoff_ms s' = retry_backoff_ms s" "retryable_error_codes s' = retryable_error_codes s"
      "step_created_at s' = step_created_at s" "current_fence s' = current_fence s"
      "step_version s' = step_version s + 1" "branch_rule_code s' = branch_rule_code s"
    and edge: "(step_state s, step_state s') \<in> set sql_step_edges"
      "step_state s' \<noteq> Step_CLAIMED" "step_state s' \<noteq> Step_SKIPPED"
    and live: "step_live (step_state s') = (current_attempt_id s' \<noteq> None)"
    and reason: "opt_ok code_ok (step_reason s')"
      "step_state s' \<in> {Step_BLOCKED, Step_FAILED, Step_CANCELLED} \<Longrightarrow> step_reason s' \<noteq> None"
    and times: "step_state s' \<in> {Step_RUNNING, Step_WAITING} \<Longrightarrow> step_started_at s' \<noteq> None"
      "step_ended (step_state s') = (step_finished_at s' \<noteq> None)"
    and fk: "current_attempt_fk rows s'"
  shows "step_update_check rows s s' = None"
proof -
  have "first_violation (guard_runtime_step_update s s') = None"
    using keep edge by (simp add: guard_runtime_step_update_def)
  moreover have "first_violation (step_checks s') = None"
    using ok keep live reason times edge unfolding step_ok_def first_violation_None step_checks_def
    by (cases "step_state s'") auto
  ultimately show ?thesis using fk by (simp add: step_update_check_def first_violation_append)
qed

lemma attempt_okD:
  assumes "attempt_ok a"
  shows "attempt_state a = Attempt_RUNNING \<Longrightarrow> attempt_started_at a \<noteq> None"
    and "attempt_live (attempt_state a) \<Longrightarrow> result_receipt_id a = None \<and> attempt_result_hash a = None
      \<and> error_class a = None \<and> error_code a = None \<and> attempt_finished_at a = None"
    and "lease_until a > lease_acquired_at a" "last_heartbeat_at a \<ge> lease_acquired_at a"
  using assms unfolding attempt_ok_def first_violation_None attempt_checks_def by auto

text \<open>Closing a live Attempt with a result or with an error.\<close>

lemma attempt_close_check:
  assumes ok: "attempt_ok a"
    and keep: "attempt_id a' = attempt_id a" "attempt_step a' = attempt_step a" "attempt_no a' = attempt_no a"
      "attempt_fence a' = attempt_fence a" "lease_owner a' = lease_owner a"
      "lease_acquired_at a' = lease_acquired_at a" "lease_until a' = lease_until a"
      "last_heartbeat_at a' = last_heartbeat_at a"
      "attempt_effect a' = attempt_effect a" "attempt_created_at a' = attempt_created_at a"
    and edge: "(attempt_state a, attempt_state a') \<in> set sql_attempt_edges"
    and closed: "\<not> attempt_live (attempt_state a')" "attempt_finished_at a' \<noteq> None"
      "result_receipt_id a' = Some k" "k \<in> receipt_id ` set rows"
    and result: "(attempt_state a' = Attempt_SUCCEEDED \<and> opt_has content_hash_ok (attempt_result_hash a')
        \<and> error_class a' = None \<and> error_code a' = None)
      \<or> (attempt_state a' \<noteq> Attempt_SUCCEEDED \<and> attempt_result_hash a' = attempt_result_hash a
        \<and> opt_has code_ok (error_class a') \<and> opt_has code_ok (error_code a'))"
  shows "attempt_update_check rows a a' = None"
proof -
  have "attempt_live (attempt_state a)" using edge by (auto simp: sql_attempt_edges_def)
  then have "first_violation (guard_runtime_attempt_update a a') = None"
    using keep edge closed by (auto simp: guard_runtime_attempt_update_def)
  moreover have "attempt_result_hash a = None"
    using attempt_okD(2) [OF ok \<open>attempt_live (attempt_state a)\<close>] by simp
  then have "first_violation (attempt_checks a') = None"
    using ok keep closed result unfolding attempt_ok_def first_violation_None attempt_checks_def by auto
  moreover have "attempt_result_fk rows a'" using closed by (simp add: attempt_result_fk_def)
  ultimately show ?thesis by (simp add: attempt_update_check_def first_violation_append)
qed

lemma run_check_None:
  assumes ok: "run_ok r"
    and keep: "run_envelope r' = run_envelope r" "run_created_at r' = run_created_at r"
      "run_version r' = run_version r + 1"
    and edge: "(run_state r, run_state r') \<in> set sql_run_edges" "run_state r' \<noteq> Run_QUEUED"
    and reason: "opt_ok code_ok (run_reason r')"
      "run_state r' \<in> {Run_BLOCKED, Run_FAILED, Run_CANCELLED} \<Longrightarrow> run_reason r' \<noteq> None"
    and times: "run_started_at r' \<noteq> None" "run_ended (run_state r') = (run_finished_at r' \<noteq> None)"
  shows "run_update_check r r' = None"
proof -
  have "first_violation (guard_runtime_run_update r r') = None"
    using keep edge by (simp add: guard_runtime_run_update_def)
  moreover have "first_violation (run_checks r') = None"
    using ok keep edge reason times unfolding run_ok_def first_violation_None run_checks_def
    by (cases "run_state r'") auto
  ultimately show ?thesis by (simp add: run_update_check_def first_violation_append)
qed

lemma run_okD:
  assumes "run_ok r"
  shows "run_state r \<in> {Run_RUNNING, Run_WAITING} \<Longrightarrow> run_started_at r \<noteq> None \<and> run_finished_at r = None"
    and "opt_ok code_ok (run_reason r)" and "0 < run_version r"
  using assms unfolding run_ok_def first_violation_None run_checks_def by auto

section \<open>Statements that go through\<close>

lemma update_steps_goes:
  assumes "store_ok d" "find_step d k = Some s" "p s" "\<And>x. p x \<Longrightarrow> step_id x = k" "step_id (f s) = k"
    "step_update_check (attempts d) s (f s) = None"
  shows "update_steps p f d = Inr (Some (f s), put_step (f s) d)"
  using update_steps_one [of d k s p f, OF assms(1,2,4,5)] assms(3,6) by simp

lemma update_attempts_goes:
  assumes "store_ok d" "find_attempt d k = Some a" "p a" "\<And>x. p x \<Longrightarrow> attempt_id x = k" "attempt_id (f a) = k"
    "attempt_update_check (receipts d) a (f a) = None"
  shows "update_attempts p f d = Inr (Some (f a), put_attempt (f a) d)"
  using update_attempts_one [of d k a p f, OF assms(1,2,4,5)] assms(3,6) by simp

lemma update_runs_goes:
  assumes "store_ok d" "find_run d k = Some r" "p r" "\<And>x. p x \<Longrightarrow> run_key x = k" "run_key (f r) = k"
    "run_update_check r (f r) = None"
  shows "update_runs p f d = Inr (Some (f r), put_run (f r) d)"
  using update_runs_one [of d k r p f, OF assms(1,2,4,5)] assms(3,6) by simp

lemma make_ready_check:
  assumes "step_ok s" "step_state s = Step_PENDING"
  shows "step_update_check rows s (make_ready now s) = None"
proof (rule step_check_None [OF assms(1)])
  have "current_attempt_id s = None" using step_okD(1) [OF assms(1)] assms(2) by simp
  then show "step_live (step_state (make_ready now s)) = (current_attempt_id (make_ready now s) \<noteq> None)"
    "current_attempt_fk rows (make_ready now s)"
    by (simp_all add: make_ready_def current_attempt_fk_def)
qed (use assms step_okD [OF assms(1)] in \<open>auto simp: make_ready_def sql_step_edges_def\<close>)

lemma release_goes:
  assumes "store_ok d"
  shows "\<exists>d'. release_ready_successors clk rid d = Inr d'"
proof -
  have "step_update_check (attempts d) s (make_ready (clk 0) s) = None"
    if "s \<in> set (steps d)" "step_state s = Step_PENDING" for s
    using that assms by (intro make_ready_check) (auto simp: store_ok_def list_all_iff)
  then have "sql_update (step_update_check (attempts d))
      (\<lambda>s. step_run s = rid \<and> step_state s = Step_PENDING \<and> has_dependency d s
             \<and> \<not> blocked_by_dependency d s) (make_ready (clk 0)) (steps d) =
      Inr (map (\<lambda>s. if step_run s = rid \<and> step_state s = Step_PENDING \<and> has_dependency d s
             \<and> \<not> blocked_by_dependency d s then make_ready (clk 0) s else s) (steps d))"
    by (intro sql_update_ok) auto
  then show ?thesis
    by (simp add: release_ready_successors_def update_steps_def update_returning_def mapR_def)
qed

text \<open>\<open>complete d rid\<close> is the condition under which a Run succeeds.\<close>

definition complete :: "db \<Rightarrow> uuid \<Rightarrow> bool" where
  "complete d rid \<longleftrightarrow> (\<forall>s \<in> set (steps d). step_run s = rid \<longrightarrow>
     step_ended (step_state s) \<and> (required (step_plan s) \<longrightarrow> step_passed (step_state s)))"

lemma complete_iff: "complete d rid \<longleftrightarrow> all_steps_terminal d rid \<and> required_steps_succeeded d rid"
  by (auto simp: complete_def all_steps_terminal_def required_steps_succeeded_def)

lemma finish_goes:
  assumes st: "store_ok d" and r: "find_run d rid = Some r" "run_state r = Run_RUNNING"
  shows "\<exists>w d'. finish_run_if_complete clk rid d = Inr (w, d') \<and> steps d' = steps d \<and>
    (\<exists>r'. find_run d' rid = Some r' \<and> run_version r' = w \<and>
       run_state r' = (if complete d rid then Run_SUCCEEDED else Run_RUNNING))"
proof (cases "complete d rid")
  case True
  let ?r = "r\<lparr>run_state := Run_SUCCEEDED, run_finished_at := Some (clk 0), run_version := run_version r + 1\<rparr>"
  have rk: "run_ok r" "run_key r = rid" using store_okD(1) [OF st r(1)] by auto
  have "run_update_check r ?r = None"
    using r run_okD [OF rk(1)] by (intro run_check_None [OF rk(1)]) (auto simp: sql_run_edges_def)
  then have "update_runs (\<lambda>r. run_key r = rid \<and> run_state r = Run_RUNNING)
      (\<lambda>r. r\<lparr>run_state := Run_SUCCEEDED, run_finished_at := Some (clk 0), run_version := run_version r + 1\<rparr>) d
      = Inr (Some ?r, put_run ?r d)"
    by (intro update_runs_goes [where r = r and k = rid and f = "\<lambda>r. r\<lparr>run_state := Run_SUCCEEDED,
        run_finished_at := Some (clk 0), run_version := run_version r + 1\<rparr>", OF st r(1)]) (use r rk in auto)
  then have "finish_run_if_complete clk rid d = Inr (run_version r + 1, put_run ?r d)"
    using True r by (simp add: finish_run_if_complete_def complete_iff)
  moreover have "find_run (put_run ?r d) rid = Some ?r" using find_put(1) [of d ?r] r rk by simp
  ultimately show ?thesis using True by auto
next
  case False
  then have "finish_run_if_complete clk rid d = Inr (run_version r, d)"
    using r by (auto simp: finish_run_if_complete_def complete_iff)
  then show ?thesis using False r by auto
qed

section \<open>Success under a live claim\<close>

lemma lock_rows:
  assumes ok: "runtime_ok d" and lock: "lock_live_claim_rows clk claim (Some st) kind d = Inr (r, s, a)"
  shows "owned d claim r s a" "attempt_state a = st" "step_ok s" "attempt_ok a" "run_ok r"
    "(st = Attempt_RUNNING \<longrightarrow> step_state s = Step_RUNNING) \<and> (st = Attempt_CLAIMED \<longrightarrow> step_state s = Step_CLAIMED)"
proof -
  have sto: "store_ok d" using ok by (simp add: runtime_ok_def)
  note own = lock_owned(1) [OF sto lock]
  show "owned d claim r s a" by (rule own)
  show st: "attempt_state a = st" using lock_owned(2) [OF sto lock] by (simp add: expected_attempt_states_def)
  show "step_ok s" "attempt_ok a" "run_ok r" using own store_okD [OF sto] by (auto simp: owned_def)
  show "(st = Attempt_RUNNING \<longrightarrow> step_state s = Step_RUNNING) \<and> (st = Attempt_CLAIMED \<longrightarrow> step_state s = Step_CLAIMED)"
    using owned_live [OF ok own] st by auto
qed

text \<open>Under a live claim the success of a Step always commits: the Step succeeds, the
  Attempt carries the receipt and the result, and the Run succeeds exactly when all its
  Steps have ended and the required ones have passed.\<close>

theorem succeed_attempt_goes_through:
  assumes ok: "runtime_ok d"
    and lock: "lock_live_claim_rows clk claim (Some Attempt_RUNNING) None d = Inr (r, s, a)"
    and lease: "clk 2 < lease_until a"
    and receipt: "receipt \<in> receipt_id ` set (receipts d)" and result: "content_hash_ok result"
  shows "\<exists>w d' r' s'. succeed_attempt clk claim receipt result d = Inr ((step_version s + 1, w), d') \<and>
    find_step d' (claim_step_id claim) = Some s' \<and> step_state s' = Step_SUCCEEDED \<and>
    find_run d' (claim_run_id claim) = Some r' \<and> run_version r' = w \<and>
    run_state r' = (if complete d' (claim_run_id claim) then Run_SUCCEEDED else Run_RUNNING)"
proof -
  have st: "store_ok d" using ok by (simp add: runtime_ok_def)
  note lr = lock_rows [OF ok lock]
  have f: "find_attempt d (claim_attempt_id claim) = Some a" "find_step d (claim_step_id claim) = Some s"
    "attempt_id a = claim_attempt_id claim" "step_id s = claim_step_id claim"
    "current_attempt_id s = Some (claim_attempt_id claim)" "current_fence s = claim_fence claim"
    "find_run d (claim_run_id claim) = Some r" "run_state r = Run_RUNNING"
    using lr(1) by (simp_all add: owned_def)
  let ?fa = "\<lambda>a. a\<lparr>attempt_state := Attempt_SUCCEEDED, result_receipt_id := Some receipt,
                attempt_result_hash := Some result, attempt_finished_at := Some (clk 1)\<rparr>"
  let ?fs = "\<lambda>s. s\<lparr>step_state := Step_SUCCEEDED, current_attempt_id := None,
                step_finished_at := Some (clk 3), step_version := step_version s + 1\<rparr>"
  have ca: "attempt_update_check (receipts d) a (?fa a) = None"
    using receipt result lr(2) attempt_okD(2) [OF lr(4)]
    by (intro attempt_close_check [OF lr(4)]) (auto simp: sql_attempt_edges_def)
  let ?d1 = "put_attempt (?fa a) d"
  have st1: "store_ok ?d1" by (rule store_ok_put(3) [OF st check_ok(3) [OF ca]])
  have e1: "update_attempts (\<lambda>a. attempt_id a = claim_attempt_id claim \<and> attempt_state a = Attempt_RUNNING
              \<and> lease_until a > clk 2) ?fa d = Inr (Some (?fa a), ?d1)"
    by (rule update_attempts_goes [where f = ?fa and a = a, OF st f(1)]) (use lr(2) lease f ca in auto)
  have cs: "step_update_check (attempts ?d1) s (?fs s) = None"
    using lr(6) step_okD [OF lr(3)]
    by (intro step_check_None [OF lr(3)]) (auto simp: sql_step_edges_def current_attempt_fk_def)
  have e2: "update_steps (\<lambda>s. step_id s = claim_step_id claim \<and> step_state s = Step_RUNNING
              \<and> current_attempt_id s = Some (claim_attempt_id claim)
              \<and> current_fence s = claim_fence claim) ?fs ?d1 = Inr (Some (?fs s), put_step (?fs s) ?d1)"
    by (rule update_steps_goes [where f = ?fs and s = s and k = "claim_step_id claim", OF st1])
      (use lr(6) f cs in auto)
  let ?d2 = "put_step (?fs s) ?d1"
  have st2: "store_ok ?d2" by (rule store_ok_put(2) [OF st1 check_ok(2) [OF cs]])
  obtain d3 where e3: "release_ready_successors (later 4 clk) (claim_run_id claim) ?d2 = Inr d3"
    using release_goes [OF st2] by blast
  note rel = release_refines [OF st2 e3]
  have s2: "find_step ?d2 (claim_step_id claim) = Some (?fs s)"
    using find_put(2) [of ?d1 "?fs s"] f by simp
  have s3: "\<exists>t. find_step d3 (claim_step_id claim) = Some t \<and> step_state t = Step_SUCCEEDED"
  proof -
    have "m_steps (abs_db d3) (claim_step_id claim) = Some (abs_step (?fs s))"
      using rel s2 by (simp add: ready_where_def abs_step_def)
    then obtain t where "find_step d3 (claim_step_id claim) = Some t" "abs_step (?fs s) = abs_step t" by auto
    moreover from this(2) have "step_state t = Step_SUCCEEDED" by (simp add: abs_step_def)
    ultimately show ?thesis by blast
  qed
  have r3: "find_run d3 (claim_run_id claim) = Some r" using rel f by simp
  obtain w d' r' where e4: "finish_run_if_complete (later 5 clk) (claim_run_id claim) d3 = Inr (w, d')"
    and d': "steps d' = steps d3" "find_run d' (claim_run_id claim) = Some r'" "run_version r' = w"
      "run_state r' = (if complete d3 (claim_run_id claim) then Run_SUCCEEDED else Run_RUNNING)"
    using finish_goes [OF conjunct1 [OF rel] r3 f(8), of "later 5 clk"] by blast
  have "complete d' rid = complete d3 rid" for rid using d'(1) by (simp add: complete_def)
  moreover have "succeed_attempt clk claim receipt result d = Inr ((step_version s + 1, w), d')"
    using lock e1 e2 e3 e4 by (simp add: succeed_attempt_def)
  ultimately show ?thesis using s3 d' by auto
qed

theorem succeed_attempt_goes_through_witness:
  "\<exists>w d'. succeed_attempt (demo_clock 400) demo_claim 40 demo_hash demo_running = Inr ((5, w), d')"
proof -
  obtain r s a where l: "lock_live_claim_rows (demo_clock 400) demo_claim (Some Attempt_RUNNING) None demo_running
      = Inr (r, s, a)" and v: "step_version s = 4" "demo_clock 400 2 < lease_until a"
    by (simp add: demo_running_def row_defs exec)
  have "40 \<in> receipt_id ` set (receipts demo_running)"
    by (simp add: demo_running_def demo_state_def demo_db_def demo_receipt_def)
  from succeed_attempt_goes_through [OF demo_ok(4) l v(2) this demo_hash_ok] v(1) show ?thesis by auto
qed

section \<open>Failure and recovery\<close>

lemma settle_goes:
  assumes st: "store_ok d" and r: "find_run d rid = Some r" "run_state r = Run_RUNNING" and reason: "code_ok reason"
  shows "\<exists>r' d'. settle_run now rid target reason d = Inr (Some r', d') \<and>
    find_run d' rid = Some r' \<and> run_state r' = settled_run_state target \<and> steps d' = steps d"
proof -
  have rk: "run_ok r" "run_key r = rid" using store_okD(1) [OF st r(1)] by auto
  have go: "update_runs (\<lambda>r. run_key r = rid \<and> run_state r = Run_RUNNING) f d = Inr (Some (f r), put_run (f r) d)"
    if "run_update_check r (f r) = None" "run_key (f r) = rid" for f
    by (rule update_runs_goes [where r = r and k = rid, OF st r(1)]) (use that r rk in auto)
  have found: "find_run (put_run r' d) rid = Some r'" if "run_key r' = rid" for r'
    using find_put(1) [of d r'] r that by simp
  have unknown: "code_ok ''EXTERNAL_EFFECT_UNKNOWN''"
    by (simp add: code_ok_def head_tail_match_def is_upper_def is_digit_def)
  consider "target = Step_WAITING" | "target = Step_FAILED" | "target \<noteq> Step_WAITING" "target \<noteq> Step_FAILED" by blast
  then show ?thesis
  proof cases
    case 1
    let ?f = "\<lambda>r. r\<lparr>run_state := Run_WAITING, run_reason := Some ''EXTERNAL_EFFECT_UNKNOWN'',
                  run_version := run_version r + 1\<rparr>"
    have "run_update_check r (?f r) = None"
      using r run_okD [OF rk(1)] unknown by (intro run_check_None [OF rk(1)]) (auto simp: sql_run_edges_def)
    from go [of ?f] this found [of "?f r"] rk 1 show ?thesis by (simp add: settle_run_def settled_run_state_def)
  next
    case 2
    let ?f = "\<lambda>r. r\<lparr>run_state := Run_FAILED, run_reason := Some reason,
                  run_finished_at := Some now, run_version := run_version r + 1\<rparr>"
    have "run_update_check r (?f r) = None"
      using r run_okD [OF rk(1)] reason by (intro run_check_None [OF rk(1)]) (auto simp: sql_run_edges_def)
    from go [of ?f] this found [of "?f r"] rk 2 show ?thesis by (simp add: settle_run_def settled_run_state_def)
  next
    case 3
    then show ?thesis using r by (simp add: settle_run_def settled_run_state_def)
  qed
qed

text \<open>The statements that close a claim, in a row: Attempt, Step, Run.\<close>

lemma close_goes:
  assumes ok: "runtime_ok d" and own: "owned d claim r s a"
    and ca: "attempt_update_check (receipts d) a (fa a) = None" "attempt_id (fa a) = attempt_id a"
      "pa a" "\<And>x. pa x \<Longrightarrow> attempt_id x = claim_attempt_id claim"
    and cs: "\<And>rows. step_update_check rows s (fs s) = None" "step_id (fs s) = step_id s"
      "ps s" "\<And>x. ps x \<Longrightarrow> step_id x = claim_step_id claim"
    and reason: "code_ok reason"
  obtains d1 d2 r' d' where
    "update_attempts pa fa d = Inr (Some (fa a), d1)" "update_steps ps fs d1 = Inr (Some (fs s), d2)"
    "settle_run now (claim_run_id claim) target reason d2 = Inr (Some r', d')"
    "find_step d' (claim_step_id claim) = Some (fs s)"
    "find_run d' (claim_run_id claim) = Some r'" "run_state r' = settled_run_state target"
proof -
  have st: "store_ok d" using ok by (simp add: runtime_ok_def)
  have f: "find_attempt d (claim_attempt_id claim) = Some a" "find_step d (claim_step_id claim) = Some s"
    "attempt_id a = claim_attempt_id claim" "step_id s = claim_step_id claim"
    "find_run d (claim_run_id claim) = Some r" "run_state r = Run_RUNNING"
    using own by (simp_all add: owned_def)
  let ?d1 = "put_attempt (fa a) d" and ?d2 = "put_step (fs s) (put_attempt (fa a) d)"
  have e1: "update_attempts pa fa d = Inr (Some (fa a), ?d1)"
    by (rule update_attempts_goes [where k = "claim_attempt_id claim", OF st f(1)]) (use ca f in auto)
  have st1: "store_ok ?d1" by (rule store_ok_put(3) [OF st check_ok(3) [OF ca(1)]])
  have e2: "update_steps ps fs ?d1 = Inr (Some (fs s), ?d2)"
    by (rule update_steps_goes [where k = "claim_step_id claim", OF st1]) (use cs f in auto)
  have st2: "store_ok ?d2" by (rule store_ok_put(2) [OF st1 check_ok(2) [OF cs(1)]])
  have r2: "find_run ?d2 (claim_run_id claim) = Some r" using f by simp
  obtain r' d' where e3: "settle_run now (claim_run_id claim) target reason ?d2 = Inr (Some r', d')"
    "find_run d' (claim_run_id claim) = Some r'" "run_state r' = settled_run_state target" "steps d' = steps ?d2"
    using settle_goes [OF st2 r2 f(6) reason] by blast
  have "find_step d' (claim_step_id claim) = Some (fs s)"
    using e3(4) find_put(2) [of ?d1 "fs s"] f cs(2) by simp
  with that [OF e1 e2 e3(1)] e3 show ?thesis by blast
qed

text \<open>A failure reported under a live claim always commits. A remote effect parks the
  Step and its Run as WAITING; a retryable code within the budget makes the Step READY
  again after the backoff of that Attempt; anything else fails the Step and the Run.\<close>

theorem fail_attempt_goes_through:
  assumes ok: "runtime_ok d"
    and lock: "lock_live_claim_rows clk claim (Some Attempt_RUNNING) None d = Inr (r, s, a)"
    and receipt: "receipt \<in> receipt_id ` set (receipts d)" and codes: "code_ok eclass" "code_ok code"
  shows "\<exists>outcome d' r' s'. fail_attempt clk claim receipt eclass code d =
      Inr ((outcome, step_version s + 1, run_version r'), d') \<and>
    find_step d' (claim_step_id claim) = Some s' \<and> find_run d' (claim_run_id claim) = Some r' \<and>
    (outcome, step_state s', run_state r', ready_at s') =
      (if attempt_effect a \<in> {IDEMPOTENT_REMOTE_COMMAND, NON_IDEMPOTENT_REMOTE_COMMAND}
       then (''RECONCILIATION_REQUIRED'', Step_WAITING, Run_WAITING, ready_at s)
       else if code \<in> set (retryable_error_codes s) \<and> attempt_no a < max_attempts (step_retry (step_plan s))
       then (''RETRY_READY'', Step_READY, Run_RUNNING, Some (clk 2 + 1000 * retry_delay_ms s a))
       else (''FAILED'', Step_FAILED, Run_FAILED, ready_at s))"
proof -
  note lr = lock_rows [OF ok lock]
  obtain ast target outcome where dec: "fail_decision s a code = (ast, target, outcome)"
    by (cases "fail_decision s a code") auto
  have own: "attempt_id a = claim_attempt_id claim" "step_id s = claim_step_id claim"
    "current_attempt_id s = Some (claim_attempt_id claim)" "current_fence s = claim_fence claim"
    using lr(1) by (simp_all add: owned_def)
  let ?fa = "\<lambda>a. a\<lparr>attempt_state := ast, error_class := Some eclass, error_code := Some code,
      result_receipt_id := Some receipt, attempt_finished_at := Some (clk 1)\<rparr>"
  let ?fs = "if target = Step_READY then
             (\<lambda>s'. s'\<lparr>step_state := Step_READY, current_attempt_id := None,
                     ready_at := Some (clk 2 + ms_us (retry_delay_ms s a)),
                     step_version := step_version s' + 1\<rparr>)
           else
             (\<lambda>s. s\<lparr>step_state := target, current_attempt_id := None,
                     step_reason := Some (if target = Step_WAITING
                       then ''EXTERNAL_EFFECT_UNKNOWN'' else code),
                     step_finished_at := (if target = Step_FAILED then Some (clk 2) else None),
                     step_version := step_version s + 1\<rparr>)"
  have cases: "ast \<in> {Attempt_RECONCILIATION_REQUIRED, Attempt_FAILED_RETRYABLE, Attempt_FAILED_TERMINAL}"
    "target \<in> {Step_WAITING, Step_READY, Step_FAILED}"
    using fail_decision_cases [OF dec] by auto
  have unknown: "code_ok ''EXTERNAL_EFFECT_UNKNOWN''"
    by (simp add: code_ok_def head_tail_match_def is_upper_def is_digit_def)
  have ca: "attempt_update_check (receipts d) a (?fa a) = None"
    using receipt codes lr(2) cases attempt_okD(2) [OF lr(4)]
    by (intro attempt_close_check [OF lr(4)]) (auto simp: sql_attempt_edges_def)
  have cs: "step_update_check rows s (?fs s) = None" for rows
    using lr(6) step_okD [OF lr(3)] cases codes unknown
    by (intro step_check_None [OF lr(3)]) (auto simp: sql_step_edges_def current_attempt_fk_def)
  obtain d1 d2 r' d' where
    e: "update_attempts (\<lambda>a. attempt_id a = claim_attempt_id claim) ?fa d = Inr (Some (?fa a), d1)"
      "update_steps (\<lambda>s. step_id s = claim_step_id claim \<and> current_attempt_id s = Some (claim_attempt_id claim)
                \<and> current_fence s = claim_fence claim) ?fs d1 = Inr (Some (?fs s), d2)"
      "settle_run (clk 3) (claim_run_id claim) target code d2 = Inr (Some r', d')"
    and d': "find_step d' (claim_step_id claim) = Some (?fs s)"
      "find_run d' (claim_run_id claim) = Some r'" "run_state r' = settled_run_state target"
    by (rule close_goes [where fa = ?fa and fs = ?fs and reason = code and pa = "\<lambda>a. attempt_id a = claim_attempt_id claim" and
          ps = "\<lambda>s. step_id s = claim_step_id claim \<and> current_attempt_id s = Some (claim_attempt_id claim)
                \<and> current_fence s = claim_fence claim" and now = "clk 3" and target = target,
          OF ok lr(1) ca _ _ _ cs _ _ _ codes(2)])
      (use own in auto)
  have "step_version (?fs s) = step_version s + 1" by simp
  then have run: "fail_attempt clk claim receipt eclass code d =
      Inr ((outcome, step_version s + 1, run_version r'), d')"
    using lock dec e by (simp add: fail_attempt_def Let_def)
  have "(outcome, step_state (?fs s), settled_run_state target, ready_at (?fs s)) =
      (if attempt_effect a \<in> {IDEMPOTENT_REMOTE_COMMAND, NON_IDEMPOTENT_REMOTE_COMMAND}
       then (''RECONCILIATION_REQUIRED'', Step_WAITING, Run_WAITING, ready_at s)
       else if code \<in> set (retryable_error_codes s) \<and> attempt_no a < max_attempts (step_retry (step_plan s))
       then (''RETRY_READY'', Step_READY, Run_RUNNING, Some (clk 2 + 1000 * retry_delay_ms s a))
       else (''FAILED'', Step_FAILED, Run_FAILED, ready_at s))"
    using dec by (auto simp: fail_decision_def REMOTE_EFFECTS_def settled_run_state_def ms_us_def split: if_splits)
  with run d' show ?thesis by (intro exI conjI) auto
qed

theorem fail_attempt_goes_through_witness:
  "\<exists>v d'. fail_attempt (demo_clock 400) demo_claim 40 ''RUNTIME'' ''TIMEOUT'' demo_running =
     Inr ((''RECONCILIATION_REQUIRED'', v), d')"
proof -
  obtain r s a where l: "lock_live_claim_rows (demo_clock 400) demo_claim (Some Attempt_RUNNING) None demo_running
      = Inr (r, s, a)" and v: "attempt_effect a = IDEMPOTENT_REMOTE_COMMAND"
    by (simp add: demo_running_def row_defs exec)
  have rcp: "40 \<in> receipt_id ` set (receipts demo_running)"
    by (simp add: demo_running_def demo_state_def demo_db_def demo_receipt_def)
  have codes: "code_ok ''RUNTIME''" "code_ok ''TIMEOUT''"
    by (simp_all add: code_ok_def head_tail_match_def is_upper_def)
  from fail_attempt_goes_through [OF demo_ok(4) l rcp codes] v show ?thesis by auto
qed

section \<open>Recovery\<close>

lemma recovery_attempt_check:
  assumes "attempt_ok a" "attempt_live (attempt_state a)" "receipt \<in> receipt_id ` set cs"
    and dec: "recovery_decision_of s a = (ast, target, outcome)"
  shows "attempt_update_check cs a (a\<lparr>attempt_state := ast, error_class := Some ''LEASE'',
      error_code := Some ''LEASE_EXPIRED'', result_receipt_id := Some receipt,
      attempt_finished_at := Some now\<rparr>) = None"
proof -
  have "code_ok ''LEASE''" "code_ok ''LEASE_EXPIRED''"
    by (simp_all add: code_ok_def head_tail_match_def is_upper_def is_digit_def)
  then show ?thesis
    using assms(2,3) recovery_decision_cases [OF dec] attempt_okD(2) [OF assms(1)]
    by (intro attempt_close_check [OF assms(1)]) (auto simp: sql_attempt_edges_def attempt_live_def)
qed

lemma recovery_of_exhausted_claim:
  assumes ok: "runtime_ok d" and row: "claim_row d aid = Some (r, s, a)"
    and live: "run_state r = Run_RUNNING" "attempt_state a = Attempt_CLAIMED"
      "current_attempt_id s = Some aid" "current_fence s = attempt_fence a"
    and expired: "lease_until a \<le> clk 0" and admitted: "admit d (Some (step_run s)) None = Inr ()"
    and receipt: "receipt \<in> receipt_id ` set (receipts d)"
    and budget: "max_attempts (step_retry (step_plan s)) \<le> attempt_no a"
  shows "recover_expired_attempt clk admit aid receipt d = Inl (DbError ''invalid runtime_step transition'')"
proof -
  have st: "store_ok d" using ok by (simp add: runtime_ok_def)
  have lv: "attempt_live (attempt_state a)" using live(2) by (simp add: attempt_live_def)
  note own = owned_claim_of [OF st row live(1,3,4)]
  have f: "find_attempt d aid = Some a" "find_step d (attempt_step a) = Some s" "attempt_ok a" "step_ok s"
    using row store_okD [OF st] by (auto simp: claim_row_Some)
  obtain ast outcome where dec: "recovery_decision_of s a = (ast, Step_FAILED, outcome)"
    using live(2) budget by (simp add: recovery_decision_of_def)
  have claimed: "step_state s = Step_CLAIMED"
    using owned_live [OF ok own(1)] live(2) by auto
  let ?fa = "\<lambda>x. x\<lparr>attempt_state := ast, error_class := Some ''LEASE'', error_code := Some ''LEASE_EXPIRED'',
      result_receipt_id := Some receipt, attempt_finished_at := Some (clk 1)\<rparr>"
  let ?fs = "\<lambda>x. x\<lparr>step_state := Step_FAILED, current_attempt_id := None,
      step_reason := Some ''RETRY_BUDGET_EXHAUSTED'', step_finished_at := Some (clk 2),
      step_version := step_version x + 1\<rparr>"
  let ?d1 = "put_attempt (?fa a) d"
  have ca: "attempt_update_check (receipts d) a (?fa a) = None"
    by (rule recovery_attempt_check [OF f(3) lv receipt dec])
  have e1: "update_attempts (\<lambda>x. attempt_id x = aid) ?fa d = Inr (Some (?fa a), ?d1)"
    by (rule update_attempts_goes [where k = aid, OF st f(1)]) (use own(2) ca in auto)
  have st1: "store_ok ?d1" by (rule store_ok_put(3) [OF st check_ok(3) [OF ca]])
  have s1: "find_step ?d1 (step_id s) = Some s"
    using own by (simp add: owned_def claim_of_def)
  have "step_update_check (attempts ?d1) s (?fs s) = Some (DbError ''invalid runtime_step transition'')"
    using claimed by (simp add: step_update_check_def guard_runtime_step_update_def sql_step_edges_def)
  then have "update_steps (\<lambda>x. step_id x = step_id s) ?fs ?d1 = Inl (DbError ''invalid runtime_step transition'')"
    using update_steps_one [of ?d1 "step_id s" s "\<lambda>x. step_id x = step_id s" ?fs, OF st1 s1] by simp
  then show ?thesis
    using recover_expired_attempt_def [of clk admit aid receipt d] row live lv expired admitted f dec e1
    by (simp add: Let_def)
qed

lemma recovery_goes:
  assumes ok: "runtime_ok d" and row: "claim_row d aid = Some (r, s, a)"
    and live: "run_state r = Run_RUNNING" "attempt_live (attempt_state a)"
      "current_attempt_id s = Some aid" "current_fence s = attempt_fence a"
    and expired: "lease_until a \<le> clk 0" and admitted: "admit d (Some (step_run s)) None = Inr ()"
    and receipt: "receipt \<in> receipt_id ` set (receipts d)"
    and dec: "recovery_decision_of s a = (ast, target, outcome)"
    and goes: "\<not> (attempt_state a = Attempt_CLAIMED \<and> max_attempts (step_retry (step_plan s)) \<le> attempt_no a)"
  shows "\<exists>x d' s'. recover_expired_attempt clk admit aid receipt d = Inr (Some x, d') \<and>
      find_step d' (step_id s) = Some s' \<and> decision_outcome x = outcome \<and> step_state s' = target"
proof -
  have st: "store_ok d" using ok by (simp add: runtime_ok_def)
  note own = owned_claim_of [OF st row live(1,3,4)]
  let ?c = "claim_of r s a"
  have c: "claim_attempt_id ?c = aid" "claim_step_id ?c = step_id s" "claim_run_id ?c = run_key r"
    using own(2) by (simp_all add: claim_of_def)
  have f: "find_attempt d aid = Some a" "find_step d (attempt_step a) = Some s" "attempt_ok a" "step_ok s"
    using row store_okD [OF st] by (auto simp: claim_row_Some)
  let ?fa = "\<lambda>x. x\<lparr>attempt_state := ast, error_class := Some ''LEASE'', error_code := Some ''LEASE_EXPIRED'',
      result_receipt_id := Some receipt, attempt_finished_at := Some (clk 1)\<rparr>"
  let ?fs = "if target = Step_READY then
                  (\<lambda>x. x\<lparr>step_state := Step_READY, current_attempt_id := None,
                          ready_at := Some (clk 2), step_version := step_version x + 1\<rparr>)
                else if target = Step_WAITING then
                  (\<lambda>x. x\<lparr>step_state := Step_WAITING, current_attempt_id := None,
                          step_reason := Some ''EXTERNAL_EFFECT_UNKNOWN'',
                          step_version := step_version x + 1\<rparr>)
                else
                  (\<lambda>x. x\<lparr>step_state := Step_FAILED, current_attempt_id := None,
                          step_reason := Some ''RETRY_BUDGET_EXHAUSTED'',
                          step_finished_at := Some (clk 2),
                          step_version := step_version x + 1\<rparr>)"
  have codes: "code_ok ''EXTERNAL_EFFECT_UNKNOWN''" "code_ok ''RETRY_BUDGET_EXHAUSTED''"
    by (simp_all add: code_ok_def head_tail_match_def is_upper_def is_digit_def)
  have ca: "attempt_update_check (receipts d) a (?fa a) = None"
    by (rule recovery_attempt_check [OF f(3) live(2) receipt dec])
  have cs: "step_update_check rows s (?fs s) = None" for rows
    using owned_live [OF ok own(1)] step_okD [OF f(4)] recovery_decision_cases [OF dec] codes goes dec
    by (intro step_check_None [OF f(4)]) (auto simp: sql_step_edges_def current_attempt_fk_def)
  obtain d1 d2 r' d' where
    e: "update_attempts (\<lambda>x. attempt_id x = claim_attempt_id ?c) ?fa d = Inr (Some (?fa a), d1)"
      "update_steps (\<lambda>x. step_id x = claim_step_id ?c) ?fs d1 = Inr (Some (?fs s), d2)"
      "settle_run (clk 3) (claim_run_id ?c) target ''RETRY_BUDGET_EXHAUSTED'' d2 = Inr (Some r', d')"
    and d': "find_step d' (claim_step_id ?c) = Some (?fs s)"
    by (rule close_goes [where fa = ?fa and fs = ?fs and pa = "\<lambda>x. attempt_id x = claim_attempt_id ?c"
          and ps = "\<lambda>x. step_id x = claim_step_id ?c" and now = "clk 3" and target = target
          and reason = "''RETRY_BUDGET_EXHAUSTED''", OF ok own(1) ca _ _ _ cs _ _ _ codes(2)])
      (use own(2) c in auto)
  have "\<exists>x. recover_expired_attempt clk admit aid receipt d = Inr (Some x, d') \<and> decision_outcome x = outcome"
    using recover_expired_attempt_def [of clk admit aid receipt d] row live expired admitted f dec e c
    by (simp add: Let_def)
  moreover have "step_state (?fs s) = target"
    using dec by (auto simp: recovery_decision_of_def split: if_splits)
  ultimately show ?thesis using d' c by (auto intro!: exI [of _ "?fs s"])
qed

text \<open>C29. Recovery of an expired lease. A claimed Attempt that has used up the budget
  cannot be recovered: the operation ends in the Step trigger's error, because the
  trigger has no edge from CLAIMED to FAILED. In every other case it commits, and the
  Step waits for reconciliation, becomes READY again, or fails.\<close>

theorem recovery_of_expired_attempts:
  assumes ok: "runtime_ok d" and row: "claim_row d aid = Some (r, s, a)"
    and live: "run_state r = Run_RUNNING" "attempt_live (attempt_state a)"
      "current_attempt_id s = Some aid" "current_fence s = attempt_fence a"
    and expired: "lease_until a \<le> clk 0" and admitted: "admit d (Some (step_run s)) None = Inr ()"
    and receipt: "receipt \<in> receipt_id ` set (receipts d)"
  shows "if attempt_state a = Attempt_CLAIMED \<and> max_attempts (step_retry (step_plan s)) \<le> attempt_no a
    then recover_expired_attempt clk admit aid receipt d = Inl (DbError ''invalid runtime_step transition'')
    else \<exists>x d' s'. recover_expired_attempt clk admit aid receipt d = Inr (Some x, d') \<and>
      find_step d' (step_id s) = Some s' \<and>
      (decision_outcome x, step_state s') =
        (if attempt_state a = Attempt_RUNNING \<and> attempt_effect a \<in> {IDEMPOTENT_REMOTE_COMMAND, NON_IDEMPOTENT_REMOTE_COMMAND}
         then (''RECONCILIATION_REQUIRED'', Step_WAITING)
         else if attempt_no a < max_attempts (step_retry (step_plan s)) then (''RETRY_READY'', Step_READY)
         else (''FAILED'', Step_FAILED))"
proof -
  obtain ast target outcome where dec: "recovery_decision_of s a = (ast, target, outcome)"
    by (cases "recovery_decision_of s a") auto
  show ?thesis
  proof (cases "attempt_state a = Attempt_CLAIMED \<and> max_attempts (step_retry (step_plan s)) \<le> attempt_no a")
    case True
    then show ?thesis
      using recovery_of_exhausted_claim [where clk = clk and admit = admit, OF ok row live(1) _ live(3,4) expired admitted receipt] by simp
  next
    case False
    have "(outcome, target) =
        (if attempt_state a = Attempt_RUNNING \<and> attempt_effect a \<in> {IDEMPOTENT_REMOTE_COMMAND, NON_IDEMPOTENT_REMOTE_COMMAND}
         then (''RECONCILIATION_REQUIRED'', Step_WAITING)
         else if attempt_no a < max_attempts (step_retry (step_plan s)) then (''RETRY_READY'', Step_READY)
         else (''FAILED'', Step_FAILED))"
      using dec by (auto simp: recovery_decision_of_def REMOTE_EFFECTS_def split: if_splits)
    then show ?thesis
      using recovery_goes [where clk = clk and admit = admit, OF ok row live expired admitted receipt dec False] False by auto
  qed
qed

theorem recovery_of_expired_attempts_witness:
  "recover_expired_attempt (demo_clock 70000000) demo_admit 31 40 demo_claimed
     = Inl (DbError ''invalid runtime_step transition'')"
proof -
  obtain r s a where row: "claim_row demo_claimed 31 = Some (r, s, a)"
    and live: "run_state r = Run_RUNNING" "attempt_live (attempt_state a)"
      "current_attempt_id s = Some 31" "current_fence s = attempt_fence a"
    and lim: "lease_until a \<le> demo_clock 70000000 0" "attempt_state a = Attempt_CLAIMED"
      "max_attempts (step_retry (step_plan s)) \<le> attempt_no a"
    by (simp add: demo_claimed_def row_defs exec)
  have adm: "demo_admit demo_claimed (Some (step_run s)) None = Inr ()" by (simp add: demo_admit_def)
  have rcp: "40 \<in> receipt_id ` set (receipts demo_claimed)"
    by (simp add: demo_claimed_def demo_state_def demo_db_def demo_receipt_def)
  from recovery_of_expired_attempts [where clk = "demo_clock 70000000" and admit = demo_admit and receipt = 40,
      OF demo_ok(3) row live lim(1) adm rcp] lim show ?thesis by simp
qed

section \<open>Resumption without a budget\<close>

lemma m_trans_stranded:
  "m_trans m m' \<Longrightarrow> m_steps m sid = Some u \<Longrightarrow> m_state u = Step_READY \<Longrightarrow> m_budget u \<le> m_fence u \<Longrightarrow>
   m_inv m \<Longrightarrow> m_steps m' sid = Some u"
proof (induction rule: m_trans.induct)
  case (schedule m rid news new_deps)
  then have "news sid = None" by (auto simp: schedulable_def)
  with schedule show ?case by (simp add: add_run_def map_add_def)
next
  case (start_run m rid)
  then show ?case by (simp add: ready_where_def)
next
  case (succeed m sid' s aid a closed_m next_m r')
  then show ?case by (auto simp: ready_where_def)
next
  case (retry m sid' s aid a st)
  then show ?case by auto
qed auto

lemma history_stranded:
  assumes "history d d'" "runtime_ok d" "find_step d sid = Some s" "step_state s = Step_READY"
    "max_attempts (step_retry (step_plan s)) \<le> current_fence s"
  shows "\<exists>t. find_step d' sid = Some t \<and> abs_step t = abs_step s"
  using assms unfolding history_def
proof (induction rule: rtranclp_induct)
  case (step e f)
  have ok: "runtime_ok e" using history_ok step by (simp add: history_def)
  from step obtain t where t: "find_step e sid = Some t" "abs_step t = abs_step s" by blast
  then have e: "m_steps (abs_db e) sid = Some (abs_step s)" by simp
  have inv: "m_inv (abs_db e)" using ok by (simp add: runtime_ok_def)
  have u: "m_state (abs_step s) = Step_READY" "m_budget (abs_step s) \<le> m_fence (abs_step s)"
    using step.prems by simp_all
  consider "abs_db f = abs_db e" | "m_trans (abs_db e) (abs_db f)"
    using repo_step_refines [OF step(2) ok] by blast
  then have "m_steps (abs_db f) sid = Some (abs_step s)"
  proof cases
    case 1 then show ?thesis using e by simp
  next
    case 2 then show ?thesis using m_trans_stranded e u inv by blast
  qed
  then show ?case by auto
qed simp

text \<open>Resuming a WAITING Step whose Attempts are used up strands it: in every later
  database it is still READY, and a worker that asks for it gets a state conflict.\<close>

theorem resume_can_strand_a_step:
  assumes ok: "runtime_ok d" and run: "resume_waiting_step clk rid sid d = Inr (v, d1)"
    and s: "find_step d sid = Some s" "max_attempts (step_retry (step_plan s)) \<le> current_fence s"
    and later: "history d1 d2"
  shows "\<exists>t. find_step d2 sid = Some t \<and> step_state t = Step_READY \<and>
    (\<forall>r clk' admit locked aid worker lease ms.
       find_run d2 (step_run t) = Some r \<longrightarrow> claimable clk' (Some rid) (Some sid) d2 t r \<longrightarrow>
       \<not> locked (step_run t) sid \<longrightarrow> lease_milliseconds lease = Inr ms \<longrightarrow>
       admit d2 (Some rid) (Some sid) = Inr () \<longrightarrow>
       claim_next clk' admit locked aid (Some rid) worker lease (Some sid) d2
         = Inl (RuntimeStateConflictError ''Step is READY after exhausting its retry budget''))"
proof -
  have st: "store_ok d" using ok by (simp add: runtime_ok_def)
  have ok1: "runtime_ok d1" using repo_step_refines [OF repo_step.resume [OF run] ok] by blast
  from run s(1) st obtain s1 where s1: "find_step d1 sid = Some s1" "step_state s1 = Step_READY"
    "current_fence s1 = current_fence s" "step_plan s1 = step_plan s"
  proof -
    from run s(1) obtain r row d0 row' where w: "find_run d rid = Some r" "step_state s = Step_WAITING"
      and e1: "update_steps (\<lambda>x. step_id x = sid)
             (\<lambda>x. x\<lparr>step_state := Step_READY, ready_at := Some (clk 0), step_reason := None,
                     step_version := step_version x + 1\<rparr>) d = Inr (row, d0)"
      and e2: "update_runs (\<lambda>x. run_key x = rid)
             (\<lambda>x. x\<lparr>run_state := Run_RUNNING, run_reason := None,
                     run_version := run_version x + 1\<rparr>) d0 = Inr (row', d1)"
      by (auto simp: resume_waiting_step_def bindE_Inr_iff Let_def split: option.splits if_splits)
    have k: "step_id s = sid" using store_okD(2) [OF st s(1)] by simp
    have "steps d1 = steps d0" using e2 by (auto simp: update_runs_def mapR_Inr_iff)
    then show ?thesis using step_statement [OF e1 st s(1)] k
      by (intro that [of "s\<lparr>step_state := Step_READY, ready_at := Some (clk 0), step_reason := None,
        step_version := step_version s + 1\<rparr>"]) auto
  qed
  have max1: "max_attempts (step_retry (step_plan s1)) \<le> current_fence s1" using s(2) s1 by simp
  obtain t where t: "find_step d2 sid = Some t" "abs_step t = abs_step s1"
    using history_stranded [OF later ok1 s1(1,2) max1] by blast
  have ts: "step_state t = Step_READY" "max_attempts (step_retry (step_plan t)) \<le> current_fence t"
    using t(2) s1(2) max1 by (simp_all add: abs_step_def)
  have ok2: "runtime_ok d2" by (rule history_ok [OF later ok1])
  then have st2: "store_ok d2" by (simp add: runtime_ok_def)
  have k: "step_id t = sid" using store_okD(2) [OF st2 t(1)] by simp
  have "claim_next clk' admit locked aid (Some rid) worker lease (Some sid) d2
         = Inl (RuntimeStateConflictError ''Step is READY after exhausting its retry budget'')"
    if r: "find_run d2 (step_run t) = Some r" "claimable clk' (Some rid) (Some sid) d2 t r"
      and free: "\<not> locked (step_run t) sid" "lease_milliseconds lease = Inr ms"
        "admit d2 (Some rid) (Some sid) = Inr ()" for r clk' admit locked aid worker lease ms
  proof -
    let ?cands = "filter (\<lambda>(r, s). claimable clk' (Some rid) (Some sid) d2 s r \<and>
        \<not> locked (run_key r) (step_id s)) (joined_steps d2)"
    have rk: "run_key r = step_run t" using store_okD(1) [OF st2 r(1)] by simp
    have mem: "(r, t) \<in> set ?cands" using r free t(1) k rk by (simp add: joined_steps_in [OF st2])
    have only: "x = (r, t)" if "x \<in> set ?cands" for x
    proof -
      obtain q u where x: "x = (q, u)" by (cases x)
      from that have "(q, u) \<in> set (joined_steps d2)" "claimable clk' (Some rid) (Some sid) d2 u q"
        unfolding x by simp_all
      then have "find_step d2 (step_id u) = Some u" "find_run d2 (step_run u) = Some q" "step_id u = sid"
        by (simp_all add: joined_steps_in [OF st2] claimable_def)
      then show ?thesis using t(1) r(1) x by simp
    qed
    obtain x where x: "first_by claim_order ?cands = Some x"
    proof -
      have "?cands \<noteq> []" using mem by (metis list.set(1) empty_iff)
      then have "first_by claim_order ?cands \<noteq> None" by (simp only: first_by_None not_False_eq_True)
      then show ?thesis using that by blast
    qed
    then have "x = (r, t)" using first_by_Some [OF x] only by blast
    moreover have "\<not> prior_attempts d2 sid + 1 \<le> max_attempts (step_retry (step_plan t))"
      using prior_attempts_fence [OF ok2 t(1)] ts(2) by simp
    ultimately show ?thesis using x free k by (simp add: claim_next_def)
  qed
  then show ?thesis using t(1) ts(1) by blast
qed

theorem resume_can_strand_a_step_witness:
  "claim_next (demo_clock 90000000) demo_admit demo_locked 32 (Some 10) ''w1'' 60000000 (Some 21) demo_resumed
     = Inl (RuntimeStateConflictError ''Step is READY after exhausting its retry budget'')"
proof -
  obtain s where s: "find_step demo_waiting 21 = Some s" "max_attempts (step_retry (step_plan s)) \<le> current_fence s"
    by (simp add: demo_waiting_def row_defs exec)
  obtain t r where t: "find_step demo_resumed 21 = Some t" "find_run demo_resumed (step_run t) = Some r"
    "claimable (demo_clock 90000000) (Some 10) (Some 21) demo_resumed t r"
    by (simp add: demo_resumed_def row_defs exec)
  have "\<not> demo_locked (step_run t) 21" "demo_admit demo_resumed (Some 10) (Some 21) = Inr ()"
    by (simp_all add: demo_locked_def demo_admit_def)
  then show ?thesis
    using resume_can_strand_a_step [OF demo_ok(6) demo_resumed_run s history_refl] t demo_lease by auto
qed

end
