(* ===== verification/Runtime_Idempotence.thy ===== *)
theory Runtime_Idempotence
  imports Runtime_Commands Runtime_Progress
begin

text \<open>
  What the callers of \<open>RuntimeApplication\<close> may rely on: a command is atomic and leaves one
  receipt and one audit event, a retried request is answered without a second effect, a
  key cannot be used for another request, and the invariant of the Runtime survives
  every command and recovery.
\<close>

section \<open>A concrete command\<close>

definition demo_blank :: db where
  "demo_blank = demo_db\<lparr>schedules := [], receipts := []\<rparr>"

definition demo_context :: command_context where
  "demo_context = \<lparr>context_key = ''create-1'', context_actor = OPERATOR, context_actor_id = ''alice'',
     context_reason = ''SETUP''\<rparr>"

definition demo_ids :: "nat \<Rightarrow> uuid" where
  "demo_ids k = 50 + of_nat k"

definition demo_commit :: "db \<Rightarrow> unit result" where
  "demo_commit d = Inr ()"

lemma demo_blank_ok: "runtime_ok demo_blank" "receipts_ok demo_blank"
proof -
  have "abs_db demo_blank = m_init"
    by (simp add: abs_db_def m_init_def demo_blank_def demo_db_def row_at_def fun_eq_iff)
  then show "runtime_ok demo_blank"
    using m_inv_init by (simp add: runtime_ok_def store_ok_def demo_blank_def demo_db_def)
qed (simp add: receipts_ok_def demo_blank_def)

lemma uuid_str_nonempty [simp]: "uuid_str u \<noteq> []"
  by (simp add: uuid_str_def Let_def)

text \<open>The hashes are left symbolic: only that they are well-formed matters.\<close>

lemma demo_created:
  obtains h g where "canonical_json_sha256 (call_request (Create_Schedule demo_schedule)) = Inr h"
    "content_hash_ok h" "content_hash_ok g"
    "execute demo_commit demo_ids (demo_clock 0) (Create_Schedule demo_schedule) demo_context demo_blank =
       (Inr \<lparr>mutation_kind = ''RUNTIME_SCHEDULE'', mutation_aggregate = uuid_str 1, mutation_version = 1,
          mutation_hash = g, mutation_receipt = 50, replayed = False\<rparr>,
        snd (execute demo_commit demo_ids (demo_clock 0) (Create_Schedule demo_schedule) demo_context demo_blank))"
proof -
  let ?v = "PMapping [(''schedule_id'', PUuid (schedule_id demo_schedule)),
       (''revision'', PInt (schedule_revision demo_schedule))]"
  obtain h where h: "canonical_json_sha256 (schedule_value demo_schedule) = Inr h"
    using canonical_json_sha256_total [of "schedule_value demo_schedule"]
    by (auto simp: schedule_value_def demo_schedule_def opt_value_def)
  obtain g where g: "canonical_json_sha256 ?v = Inr g"
    using canonical_json_sha256_total [of ?v] by auto
  have ok: "content_hash_ok h" "content_hash_ok g" using h g canonical_hash_ok by blast+
  have "fst (execute demo_commit demo_ids (demo_clock 0) (Create_Schedule demo_schedule) demo_context demo_blank) =
       Inr \<lparr>mutation_kind = ''RUNTIME_SCHEDULE'', mutation_aggregate = uuid_str 1, mutation_version = 1,
          mutation_hash = g, mutation_receipt = 50, replayed = False\<rparr>"
    using h g ok
    by (simp add: create_schedule_def given_def with_uow_eq demo_commit_def demo_blank_def demo_context_def
        demo_ids_def receipt_start_def insert_receipt_row_def pending_receipt_def slot_of_def record_of_def
        insert_schedule_def receipt_succeed_def close_receipt_with_def append_audit_def audit_append_def
        new_result_def idempotency_key_ok_def is_alnum_def Let_def exec)
  then show thesis using that h ok by (metis call_request.simps(1) prod.collapse)
qed

text \<open>Every command is a service call, so what holds along services holds after it.\<close>

lemma execute_service: "execute commit ids clk call ctx d = (res, d') \<Longrightarrow> service d d'"
  by (rule service.execute)

section \<open>Atomicity\<close>

text \<open>
  C30. A mutation command has one of three ends: it fails and the database is unchanged;
  it is answered from an earlier receipt and the database is unchanged; or it commits, and
  then it has made one transition of the Run machine (or none of its own), appended exactly
  one settled receipt in its slot with the returned result, and appended exactly one audit
  event that names this receipt.
\<close>

theorem commands_are_atomic:
  assumes "runtime_ok d" and "receipts_ok d"
    and "execute commit ids clk call ctx d = (res, d')"
  shows "(\<exists>e. res = Inl e \<and> d' = d)
    \<or> (\<exists>m. res = Inr m \<and> replayed m \<and> d' = d)
    \<or> (\<exists>m c ev. res = Inr m \<and> \<not> replayed m \<and> commit d' = Inr ()
        \<and> receipts d' = receipts d @ [c] \<and> slot_of c = call_slot call ctx
        \<and> receipt_id c = mutation_receipt m \<and> outcome_of c = Some (result_outcome m)
        \<and> audits d' = audits d @ [ev] \<and> audit_receipt_id ev = Some (receipt_id c)
        \<and> (abs_db d' = abs_db d \<or> m_trans (abs_db d) (abs_db d')) \<and> runtime_ok d')"
  using assms(3)
proof (cases rule: execute_cases)
  case (2 m h)
  note ok = committed_ok [OF 2(6) assms(1,2)]
  obtain c ev where "receipts d' = receipts d @ [c]" "audits d' = audits d @ [ev]"
    "receipt_id c = call_receipt ids call" "slot_of c = call_slot call ctx"
    "outcome_of c = Some (result_outcome m)" "audit_receipt_id ev = Some (call_receipt ids call)"
    by (rule committed_parts [OF 2(6) assms(2)])
  then show ?thesis using 2 ok by (intro disjI2 exI [of _ m] exI [of _ c] exI [of _ ev]) simp
next
  case (3 m h c)
  then have "replayed m" by (auto simp: replayed_result_def split: option.splits if_splits)
  then show ?thesis using 3 by blast
qed blast

theorem commands_are_atomic_witness:
  "\<exists>m d1 c ev. execute demo_commit demo_ids (demo_clock 0) (Create_Schedule demo_schedule) demo_context
       demo_blank = (Inr m, d1) \<and> \<not> replayed m
     \<and> receipts d1 = receipts demo_blank @ [c] \<and> audits d1 = audits demo_blank @ [ev]
     \<and> audit_receipt_id ev = Some (receipt_id c)"
proof -
  obtain m d1 where m: "execute demo_commit demo_ids (demo_clock 0) (Create_Schedule demo_schedule)
      demo_context demo_blank = (Inr m, d1)" "\<not> replayed m"
    by (rule demo_created) simp
  from commands_are_atomic [OF demo_blank_ok m(1)] m show ?thesis
    by (auto simp del: execute.simps)
qed

section \<open>Retries\<close>

lemma kept_settled:
  "ledger.kept d d' \<Longrightarrow> ledger.settled_in d k i h v \<Longrightarrow> ledger.settled_in d' k i h v"
  unfolding ledger.kept_def by blast

text \<open>
  C31. Retrying a command is safe: once it has returned, the same call under the same key
  returns the same result, marked as replayed, and changes nothing, whatever commands,
  claims and recoveries ran in between, and whatever identities and times the retry uses.
\<close>

theorem retried_command_is_replayed:
  assumes "receipts_ok d" and "execute commit ids clk call ctx d = (Inr m, d1)"
    and "service\<^sup>*\<^sup>* d1 d2" and "context_key ctx' = context_key ctx"
  shows "execute commit' ids' clk' call ctx' d2 = (Inr (m\<lparr>replayed := True\<rparr>), d2)"
proof -
  obtain h where h: "canonical_json_sha256 (call_request call) = Inr h"
    "ledger.settled_in d1 (call_slot call ctx) (mutation_receipt m) h (result_outcome m)" "receipts_ok d1"
    by (rule execute_settled [OF assms(2,1)])
  have d2: "receipts_ok d2" "ledger.kept d1 d2"
    using tx_history_kept [OF services_history [OF assms(3)] h(3)] by blast+
  have "call_slot call ctx' = call_slot call ctx" using assms(4) by (cases call) simp_all
  then show ?thesis
    using execute_replays [OF _ h(1) d2(1) assms(2), of ctx'] kept_settled [OF d2(2) h(2)] by metis
qed

theorem retried_command_is_replayed_witness:
  "\<exists>m d1. execute demo_commit demo_ids (demo_clock 0) (Create_Schedule demo_schedule) demo_context
       demo_blank = (Inr m, d1) \<and> \<not> replayed m
     \<and> execute demo_commit demo_ids (demo_clock 900) (Create_Schedule demo_schedule) demo_context d1
         = (Inr (m\<lparr>replayed := True\<rparr>), d1)"
proof -
  obtain m d1 where m: "execute demo_commit demo_ids (demo_clock 0) (Create_Schedule demo_schedule)
      demo_context demo_blank = (Inr m, d1)" "\<not> replayed m"
    by (rule demo_created) simp
  from retried_command_is_replayed [OF demo_blank_ok(2) m(1) rtranclp.rtrancl_refl refl] m
  show ?thesis by blast
qed

text \<open>
  A key cannot be used for two requests: when a call has returned, opening its slot with
  another request hash raises \<open>IdempotencyKeyReusedError\<close>, at any later time; so a call with
  that hash fails and leaves the database unchanged.
\<close>

theorem reused_key_is_refused:
  assumes "receipts_ok d" and "execute commit ids clk call ctx d = (Inr m, d1)"
    and "service\<^sup>*\<^sup>* d1 d2" and "call_slot call ctx = (kind, scope, key)"
    and "content_hash_ok h'" and "canonical_json_sha256 (call_request call) \<noteq> Inr h'"
  shows "receipt_start now rid kind scope key h' d2 = Inl IdempotencyKeyReusedError
    \<and> (call_slot call' ctx' = (kind, scope, key) \<and> canonical_json_sha256 (call_request call') = Inr h'
        \<longrightarrow> (\<exists>e. execute commit' ids' clk' call' ctx' d2 = (Inl e, d2)))"
proof -
  obtain h where h: "canonical_json_sha256 (call_request call) = Inr h"
    "ledger.settled_in d1 (call_slot call ctx) (mutation_receipt m) h (result_outcome m)" "receipts_ok d1"
    by (rule execute_settled [OF assms(2,1)])
  have d2: "receipts_ok d2" "ledger.kept d1 d2"
    using tx_history_kept [OF services_history [OF assms(3)] h(3)] by blast+
  have s2: "ledger.settled_in d2 (kind, scope, key) (mutation_receipt m) h (result_outcome m)"
    using kept_settled [OF d2(2) h(2)] assms(4) by simp
  have start: "receipt_start now rid kind scope key h' d2 = Inl IdempotencyKeyReusedError" for now rid
    by (rule receipt_start_reused [OF d2(1) s2]) (use assms(5,6) h(1) in auto)
  have "\<exists>e. execute commit' ids' clk' call' ctx' d2 = (Inl e, d2)"
    if "call_slot call' ctx' = (kind, scope, key)" "canonical_json_sha256 (call_request call') = Inr h'"
    by (rule execute_refused [OF that(2)]) (simp only: that(1) fst_conv snd_conv start)
  with start show ?thesis by blast
qed

theorem reused_key_is_refused_witness:
  "\<exists>m d1 h'. execute demo_commit demo_ids (demo_clock 0) (Create_Schedule demo_schedule) demo_context
       demo_blank = (Inr m, d1) \<and> content_hash_ok h'
     \<and> receipt_start 900 60 ''CREATE_RUNTIME_SCHEDULE'' ''daily'' ''create-1'' h' d1
         = Inl IdempotencyKeyReusedError"
proof -
  obtain m d1 h where m: "execute demo_commit demo_ids (demo_clock 0) (Create_Schedule demo_schedule)
      demo_context demo_blank = (Inr m, d1)"
    "canonical_json_sha256 (call_request (Create_Schedule demo_schedule)) = Inr h"
    by (rule demo_created) simp
  let ?h = "if h = demo_hash then replicate 64 (CHR ''b'') else demo_hash"
  have h: "content_hash_ok ?h" "?h \<noteq> h" 
    by (auto simp: content_hash_ok_def demo_hash_def list_all_iff is_lower_hex_def is_digit_def)
  have "receipt_start 900 60 ''CREATE_RUNTIME_SCHEDULE'' ''daily'' ''create-1'' ?h d1
         = Inl IdempotencyKeyReusedError"
    by (rule reused_key_is_refused [THEN conjunct1, OF demo_blank_ok(2) m(1) rtranclp.rtrancl_refl _ h(1)])
      (use h(2) m(2) in \<open>auto simp: demo_schedule_def demo_context_def\<close>)
  then show ?thesis using m(1) h(1) by blast
qed

section \<open>Every history of commands\<close>

text \<open>
  C32. Whatever commands, claims, recoveries and inspections run, in any order and with any
  failures: the database constraints, the lease, fence, budget and dependency invariant and
  the receipt invariant hold afterwards, fences and Attempt numbers only grow, and a settled
  receipt keeps its request and its outcome.
\<close>

theorem services_keep_the_invariant:
  assumes "runtime_ok d" and "receipts_ok d" and "service\<^sup>*\<^sup>* d d'"
  shows "runtime_ok d' \<and> receipts_ok d' \<and> m_later (abs_db d) (abs_db d')
    \<and> (ledger_entry d k = Some (i, h, Some v) \<longrightarrow> ledger_entry d' k = Some (i, h, Some v))"
  using tx_history_ok [OF services_history [OF assms(3)] assms(1,2)]
    tx_history_kept [OF services_history [OF assms(3)] assms(2)]
    kept_settled [of d d' k i h v]
  by (simp add: ledger.settled_in_def)

theorem services_keep_the_invariant_witness:
  "\<exists>m d1. execute demo_commit demo_ids (demo_clock 0) (Create_Schedule demo_schedule) demo_context
       demo_blank = (Inr m, d1) \<and> runtime_ok d1 \<and> receipts_ok d1"
proof -
  obtain m d1 where m: "execute demo_commit demo_ids (demo_clock 0) (Create_Schedule demo_schedule)
      demo_context demo_blank = (Inr m, d1)"
    by (rule demo_created)
  from services_keep_the_invariant [OF demo_blank_ok r_into_rtranclp [of service, OF execute_service [OF m]]] m
  show ?thesis by blast
qed

lemma commits_audited:
  assumes "commits d d'" "receipts_ok d"
  shows "\<exists>cs evs. receipts d' = receipts d @ cs \<and> audits d' = audits d @ evs
    \<and> map audit_receipt_id evs = map (Some \<circ> receipt_id) cs \<and> list_all (\<lambda>c. receipt_status c = SUCCEEDED) cs"
proof (cases "d' = d")
  case False
  then obtain k h rid v where com: "committed k h rid v d d'" using assms(1) by (auto simp: commits_def)
  obtain c ev where "receipts d' = receipts d @ [c]" "audits d' = audits d @ [ev]" "receipt_id c = rid"
    "receipt_status c = SUCCEEDED" "audit_receipt_id ev = Some rid"
    by (rule committed_parts [OF com assms(2)])
  then show ?thesis by (intro exI [of _ "[c]"] exI [of _ "[ev]"]) simp
qed simp

text \<open>
  The audit trail is complete: along any history of commands the new receipts are all
  succeeded, and the new audit events name exactly these receipts, one each, in order.
\<close>

theorem every_receipt_is_audited:
  assumes "receipts_ok d" and "service\<^sup>*\<^sup>* d d'"
  shows "\<exists>cs evs. receipts d' = receipts d @ cs \<and> audits d' = audits d @ evs
    \<and> map audit_receipt_id evs = map (Some \<circ> receipt_id) cs \<and> list_all (\<lambda>c. receipt_status c = SUCCEEDED) cs"
  using services_history [OF assms(2)] unfolding tx_history_def
proof (induction rule: rtranclp_induct)
  case (step e f)
  have "receipts_ok e" using tx_history_kept [of d e] step(1) assms(1) by (simp add: tx_history_def)
  from commits_audited [OF step(2) this] obtain cs evs where new: "receipts f = receipts e @ cs"
    "audits f = audits e @ evs" "map audit_receipt_id evs = map (Some \<circ> receipt_id) cs"
    "list_all (\<lambda>c. receipt_status c = SUCCEEDED) cs" by blast
  from step(3) obtain cs0 evs0 where old: "receipts e = receipts d @ cs0" "audits e = audits d @ evs0"
    "map audit_receipt_id evs0 = map (Some \<circ> receipt_id) cs0"
    "list_all (\<lambda>c. receipt_status c = SUCCEEDED) cs0" by blast
  show ?case using new old by (intro exI [of _ "cs0 @ cs"] exI [of _ "evs0 @ evs"]) simp
qed simp

theorem every_receipt_is_audited_witness:
  "\<exists>m d1 cs evs. execute demo_commit demo_ids (demo_clock 0) (Create_Schedule demo_schedule) demo_context
       demo_blank = (Inr m, d1) \<and> receipts d1 = receipts demo_blank @ cs \<and> audits d1 = audits demo_blank @ evs
     \<and> map audit_receipt_id evs = map (Some \<circ> receipt_id) cs"
proof -
  obtain m d1 where m: "execute demo_commit demo_ids (demo_clock 0) (Create_Schedule demo_schedule)
      demo_context demo_blank = (Inr m, d1)"
    by (rule demo_created)
  from every_receipt_is_audited [OF demo_blank_ok(2) r_into_rtranclp [of service, OF execute_service [OF m]]] m
  show ?thesis by blast
qed

section \<open>A claim that cannot be recovered\<close>

lemma expired_attempt:
  assumes st: "store_ok d" and scan: "aid \<in> set (expired_attempt_ids clk rid d)"
  obtains r s a where "claim_row d aid = Some (r, s, a)" "find_attempt d aid = Some a"
    "run_state r = Run_RUNNING" "attempt_live (attempt_state a)" "current_attempt_id s = Some aid"
    "current_fence s = attempt_fence a" "lease_until a \<le> clk 0"
proof -
  from scan obtain a r s a' where a: "a \<in> set (attempts d)" "attempt_id a = aid"
    "attempt_live (attempt_state a)" "lease_until a \<le> clk 0" "claim_row d aid = Some (r, s, a')"
    "current_attempt_id s = Some aid" "current_fence s = attempt_fence a" "run_state r = Run_RUNNING"
    by (auto simp: expired_attempt_ids_def split: option.splits)
  have "find_attempt d aid = Some a" using a(1,2) store_ok_in(3) [OF st] by simp
  moreover then have "a' = a" using a(5) by (auto simp: claim_row_Some)
  ultimately show ?thesis using that [of r s a] a by simp
qed

lemma recover_one_blocked:
  assumes ok: "runtime_ok d" and row: "claim_row d aid = Some (r, s, a)"
    and live: "run_state r = Run_RUNNING" "attempt_state a = Attempt_CLAIMED"
      "current_attempt_id s = Some aid" "current_fence s = attempt_fence a"
    and expired: "lease_until a \<le> clk 1" and budget: "max_attempts (step_retry (step_plan s)) \<le> attempt_no a"
    and new: "find_receipt d (''RECOVER_RUNTIME_ATTEMPT'', uuid_str aid, ''lease-expiry:'' @ uuid_str aid) = None"
  shows "\<exists>e. recover_one commit admit ids clk actor reason aid d = (Inl e, d)"
proof -
  have blocked: "\<exists>e. recover_expired_attempt (later 1 clk) admit aid rid (d\<lparr>receipts := cs\<rparr>) = Inl e"
    if "rid \<in> receipt_id ` set cs" for rid cs
  proof -
    let ?t = "d\<lparr>receipts := cs\<rparr>"
    have row': "claim_row ?t aid = Some (r, s, a)" using row by (auto simp: claim_row_Some)
    have at: "find_attempt ?t aid = Some a" "find_step ?t (attempt_step a) = Some s"
      using row by (auto simp: claim_row_Some)
    show ?thesis
    proof (cases "admit ?t (Some (step_run s)) None")
      case (Inl e)
      then show ?thesis using at by (simp add: recover_expired_attempt_def)
    next
      case (Inr u)
      have "recover_expired_attempt (later 1 clk) admit aid rid ?t = Inl (DbError ''invalid runtime_step transition'')"
        by (rule recovery_of_exhausted_claim [OF _ row' live _ _ _ budget])
          (use ok expired Inr that in \<open>simp_all add: later_def\<close>)
      then show ?thesis by blast
    qed
  qed
  let ?hash = "canonical_json_sha256 (PMapping [(''attempt_id'', PUuid aid), (''reason_code'', PStr reason)])"
  show ?thesis
  proof (cases ?hash)
    case (Inl e)
    then show ?thesis by (simp add: recover_one_def given_def)
  next
    case hash: (Inr h)
    let ?start = "receipt_start (clk 0) (ids 0) ''RECOVER_RUNTIME_ATTEMPT'' (uuid_str aid)
         (''lease-expiry:'' @ uuid_str aid) h d"
    show ?thesis
    proof (cases ?start)
      case (Inl e)
      then show ?thesis using hash by (simp add: recover_one_def given_def with_uow_eq)
    next
      case (Inr rt)
      obtain r' t where rt: "rt = (r', t)" by (cases rt)
      let ?p = "pending_receipt (clk 0) (ids 0) (''RECOVER_RUNTIME_ATTEMPT'', uuid_str aid,
         ''lease-expiry:'' @ uuid_str aid) h"
      have t: "t = d\<lparr>receipts := receipts d @ [?p]\<rparr>" "is_new r'" "record_receipt_id r' = ids 0"
        using receipt_start_Inr [OF Inr [unfolded rt]] new by (auto simp: record_of_def)
      obtain e where "recover_expired_attempt (later 1 clk) admit aid (ids 0) t = Inl e"
        using blocked [of "ids 0" "receipts d @ [?p]"] t(1) by auto
      then show ?thesis
        using hash Inr rt t(2,3)
        by (cases "load_claim aid t") (simp_all add: recover_one_def given_def with_uow_eq)
    qed
  qed
qed

text \<open>
  One exhausted claim blocks all recovery: while the expired Attempt at the head of the
  scan is still CLAIMED and its Step has no budget left, \<open>recover_expired\<close> raises and leaves
  the database unchanged, so no other expired Attempt and no missed deadline is handled.
\<close>

theorem exhausted_claim_blocks_recovery:
  assumes "runtime_ok d" and "expired_attempt_ids (clk 0) rid d = aid # rest"
    and "find_attempt d aid = Some a" "attempt_state a = Attempt_CLAIMED" "lease_until a \<le> clk 1 1"
    and "find_step d (attempt_step a) = Some s" "max_attempts (step_retry (step_plan s)) \<le> attempt_no a"
    and "find_receipt d (''RECOVER_RUNTIME_ATTEMPT'', uuid_str aid, ''lease-expiry:'' @ uuid_str aid) = None"
  shows "\<exists>e. recover_expired commit admit ids clk actor reason rid d = (Inl e, d)"
proof -
  have st: "store_ok d" using assms(1) by (simp add: runtime_ok_def)
  have "aid \<in> set (expired_attempt_ids (clk 0) rid d)" using assms(2) by simp
  then obtain r s' a' where row: "claim_row d aid = Some (r, s', a')" "find_attempt d aid = Some a'"
    "run_state r = Run_RUNNING" "current_attempt_id s' = Some aid" "current_fence s' = attempt_fence a'"
    by (rule expired_attempt [OF st])
  have same: "a' = a" "s' = s" using row assms(3,6) by (auto simp: claim_row_Some)
  obtain e where "recover_one commit admit (ids 1) (clk 1) actor reason aid d = (Inl e, d)"
    using recover_one_blocked [where clk = "clk 1" and commit = commit and admit = admit and ids = "ids 1"
        and actor = actor and reason = reason, OF assms(1) row(1,3) _ row(4,5) _ _ assms(8)] assms(4,5,7) same
    by auto
  then show ?thesis
    using assms(2) by (auto simp: recover_expired_def given_def split: sum.split)
qed

theorem exhausted_claim_blocks_recovery_witness:
  "\<exists>e. recover_expired demo_commit demo_admit (\<lambda>k. demo_ids) (\<lambda>k. demo_clock (70000000 + int k * 100))
     ''janitor'' ''LEASE_EXPIRED'' None demo_claimed = (Inl e, demo_claimed)"
  by (rule exhausted_claim_blocks_recovery [where aid = 31 and rest = "[]" and a = demo_a1
      and s = "demo_s1\<lparr>step_state := Step_CLAIMED, current_fence := 1, current_attempt_id := Some 31,
        ready_at := Some 101, step_version := 3\<rparr>", OF demo_ok(3)])
    (simp_all add: demo_claimed_def row_defs exec expired_attempt_ids_def pending_receipt_def slot_of_def)

end
