(* ===== verification/Runtime_Claim_Replay.thy ===== *)
theory Runtime_Claim_Replay
  imports Runtime_Idempotence
begin

text \<open>
  Retried claims: the receipt of a claim keeps the Attempt's identity as text; a retry
  parses it and reads the claim again. The texts of identities are injective because
  \<open>parse_uuid\<close> inverts \<open>uuid_str\<close>.
\<close>

section \<open>Identities as text\<close>

lemma parse_uuid_ok: "parse_uuid (uuid_str u) = Inr u"
proof -
  have "length (hex_digits 32 (unat u)) = 32 \<and> list_all is_lower_hex (hex_digits 32 (unat u))"
    using hex_digits_lower_hex by simp
  moreover have "unat u mod 16 ^ 32 = unat u" using unsigned_less [of u, where 'a = nat] by simp
  ultimately show ?thesis
    by (simp add: parse_uuid_def Let_def filter_uuid_str hex_digits_value)
qed


section \<open>Claims\<close>

definition claim_slot :: "uuid option \<Rightarrow> command_context \<Rightarrow> receipt_slot" where
  "claim_slot rid ctx = (''CLAIM_RUNTIME_STEP'', claim_scope rid, context_key ctx)"

definition claim_request :: "uuid option \<Rightarrow> uuid option \<Rightarrow> string \<Rightarrow> int \<Rightarrow> pyval" where
  "claim_request rid sid worker lease =
     PMapping ([(''lease_duration'', PTimedelta lease), (''run_id'', opt_value PUuid rid),
       (''worker_id'', PStr worker)] @ (case sid of None \<Rightarrow> [] | Some k \<Rightarrow> [(''step_id'', PUuid k)]))"

text \<open>The Attempt a claim stands for.\<close>

definition stands :: "db \<Rightarrow> attempt_claim \<Rightarrow> bool" where
  "stands d c \<longleftrightarrow>
     (\<exists>a s. find_attempt d (claim_attempt_id c) = Some a \<and> find_step d (claim_step_id c) = Some s
        \<and> attempt_step a = claim_step_id c \<and> attempt_fence a = claim_fence c
        \<and> attempt_no a = claim_attempt_no c \<and> step_run s = claim_run_id c)"

definition same_claim :: "attempt_claim \<Rightarrow> attempt_claim \<Rightarrow> bool" where
  "same_claim c c' \<longleftrightarrow>
     claim_attempt_id c' = claim_attempt_id c \<and> claim_step_id c' = claim_step_id c
     \<and> claim_run_id c' = claim_run_id c \<and> claim_fence c' = claim_fence c
     \<and> claim_attempt_no c' = claim_attempt_no c"

lemma load_claim_stands:
  assumes "store_ok d" "load_claim aid d = Inr c"
  shows "claim_attempt_id c = aid \<and> stands d c"
proof -
  obtain a s where a: "find_attempt d aid = Some a" "find_step d (attempt_step a) = Some s"
    and c: "claim_attempt_id c = attempt_id a" "claim_step_id c = step_id s" "claim_run_id c = step_run s"
      "claim_fence c = attempt_fence a" "claim_attempt_no c = attempt_no a"
    using assms(2) by (auto simp: load_claim_def split: option.splits)
  then show ?thesis using store_okD(2,3) [OF assms(1)] by (auto simp: stands_def)
qed

lemma stands_later:
  assumes "stands d c" "m_later (abs_db d) (abs_db d')"
  shows "stands d' c"
proof -
  obtain a s where a: "find_attempt d (claim_attempt_id c) = Some a" "find_step d (claim_step_id c) = Some s"
    and c: "attempt_step a = claim_step_id c" "attempt_fence a = claim_fence c"
      "attempt_no a = claim_attempt_no c" "step_run s = claim_run_id c"
    using assms(1) by (auto simp: stands_def)
  have m: "m_steps (abs_db d) (claim_step_id c) = Some (abs_step s)"
    "m_attempts (abs_db d) (claim_attempt_id c) = Some (abs_attempt a)" using a by simp_all
  obtain u v where u: "m_steps (abs_db d') (claim_step_id c) = Some u" "m_run u = step_run s"
    and v: "m_attempts (abs_db d') (claim_attempt_id c) = Some v" "m_of v = attempt_step a"
      "m_token v = attempt_fence a" "m_no v = attempt_no a"
    using m_laterD(1) [OF assms(2) m(1)] m_laterD(2) [OF assms(2) m(2)] by auto
  obtain a' s' where "find_step d' (claim_step_id c) = Some s'" "u = abs_step s'"
    "find_attempt d' (claim_attempt_id c) = Some a'" "v = abs_attempt a'" using u(1) v(1) by auto
  then show ?thesis using u(2) v(2-) c by (auto simp: stands_def)
qed

lemma stands_load:
  assumes "store_ok d" "stands d c"
  obtains c' where "load_claim (claim_attempt_id c) d = Inr c'" "same_claim c c'"
proof -
  obtain a s where "find_attempt d (claim_attempt_id c) = Some a" "find_step d (claim_step_id c) = Some s"
    "attempt_step a = claim_step_id c" "attempt_fence a = claim_fence c"
    "attempt_no a = claim_attempt_no c" "step_run s = claim_run_id c"
    using assms(2) by (auto simp: stands_def)
  then show ?thesis
    using that store_okD(2,3) [OF assms(1)] by (auto simp: load_claim_def same_claim_def)
qed

lemma claim_next_stands:
  assumes "runtime_ok d" "claim_next clk admit locked aid rid worker lease sid d = Inr (Some c, d')"
  shows "stands d' c"
  using assms
proof (rule claim_next_claims)
  fix s r
  assume s: "find_step d (claim_step_id c) = Some s" and c: "claim_attempt_id c = aid"
    "claim_run_id c = step_run s" "claim_fence c = current_fence s + 1" "claim_attempt_no c = current_fence s + 1"
    and d': "find_step d' = (find_step d)(claim_step_id c \<mapsto> claim_step aid (current_fence s + 1) s)"
      "find_attempt d' = (find_attempt d)(aid \<mapsto>
         new_attempt (later 2 clk) aid s (current_fence s + 1) worker (ms_us (duration_ms lease)))"
  have "step_id s = claim_step_id c" using store_okD(2) [OF _ s] assms(1) by (simp add: runtime_ok_def)
  then show ?thesis using s c d' by (simp add: stands_def new_attempt_def claim_step_def)
qed

lemma settle_abs:
  assumes "receipt_succeed now rid k agg n h claim e = Inr u" "audit_append now' eid r req claim' u = Inr d'"
  shows "abs_db d' = abs_db e"
proof -
  have "abs_db u = abs_db e"
    using assms(1) by (auto simp: receipt_succeed_def close_receipt_with_def update_receipts_def
        bindE_Inr_iff mapR_Inr_iff split: if_splits)
  moreover obtain ev where "d' = u\<lparr>audits := audits u @ [ev]\<rparr>"
    by (rule audit_append_Inr [OF assms(2)])
  ultimately show ?thesis by simp
qed

lemma stands_abs: "abs_db d' = abs_db d \<Longrightarrow> stands d c \<Longrightarrow> stands d' c"
  using stands_later [of d c d'] by (simp add: m_later_refl)

lemma claim_command_settles:
  assumes ok: "runtime_ok d" "receipts_ok d"
    and run: "claim_next_command commit admit locked ids clk rid sid worker lease ctx d = (Inr (Some c), d')"
  obtains h i k agg n g where "worker \<noteq> []"
    "canonical_json_sha256 (claim_request rid sid worker lease) = Inr h"
    "ledger.settled_in d' (claim_slot rid ctx) i h (Done k agg n g)"
    "parse_uuid agg = Inr (claim_attempt_id c)" "stands d' c"
proof -
  from run obtain h r t w b where worker: "worker \<noteq> []"
    and h: "canonical_json_sha256 (claim_request rid sid worker lease) = Inr h"
    and start: "receipt_start (clk 0) (ids 0) ''CLAIM_RUNTIME_STEP'' (claim_scope rid) (context_key ctx) h d
      = Inr (r, t)"
    and body: "(if \<not> is_new r then
         bindE (optE (record_aggregate_id r)
           (RuntimeStateConflictError ''claim receipt has no Attempt identity'')) (\<lambda>agg.
         bindE (parse_uuid agg) (\<lambda>aid. mapR (\<lambda>c. (Some c, t, False)) (load_claim aid d)))
       else
         bindE (claim_next (later 1 clk) admit locked (ids 1) rid worker lease sid t) (\<lambda>(claim, d).
         case claim of None \<Rightarrow> Inr (None, d, False)
         | Some c \<Rightarrow>
             let agg = uuid_str (claim_attempt_id c)
             in bindE (canonical_json_sha256 (claim_value c)) (\<lambda>result.
                bindE (receipt_succeed (clk 30) (record_receipt_id r) ''RUNTIME_ATTEMPT'' agg
                  (claim_attempt_no c) result (Some c) d) (\<lambda>d.
                bindE (append_audit (clk 31) (ids 2) r ctx ''RUNTIME_ATTEMPT'' agg
                  ''CLAIM_RUNTIME_STEP'' (Some (claim_attempt_no c - 1)) (Some (claim_attempt_no c))
                  (Some c) d) (\<lambda>d.
                Inr (Some c, d, True)))))) = Inr (Some c, w, b)"
    and w: "if b then commit w = Inr () \<and> d' = w else d' = d"
    unfolding claim_next_command_def given_def claim_request_def
    by (auto simp: with_uow_Inr bindE_Inr_iff [where f = "\<lambda>(r, d). _ r d"] split: sum.splits if_splits)
  show ?thesis
  proof (cases "is_new r")
    case True
    with body obtain e g u where e: "claim_next (later 1 clk) admit locked (ids 1) rid worker lease sid t = Inr (Some c, e)"
      and g: "receipt_succeed (clk 30) (record_receipt_id r) ''RUNTIME_ATTEMPT'' (uuid_str (claim_attempt_id c))
        (claim_attempt_no c) g (Some c) e = Inr u"
      and a: "append_audit (clk 31) (ids 2) r ctx ''RUNTIME_ATTEMPT'' (uuid_str (claim_attempt_id c))
        ''CLAIM_RUNTIME_STEP'' (Some (claim_attempt_no c - 1)) (Some (claim_attempt_no c)) (Some c) u = Inr w" and b: "b"
      by (auto simp: bindE_Inr_iff Let_def split: option.splits)
    have d': "d' = w" using w b by simp
    note com = committed.commit [OF start True repo_step.claim_next [OF e] g a [unfolded append_audit_def]]
    have "runtime_ok t" using receipt_start_Inr [OF start] True ok(1) by (auto simp: record_of_def)
    then have "stands w c"
      using stands_abs [OF settle_abs [OF g a [unfolded append_audit_def]]] claim_next_stands [OF _ e] by blast
    moreover have "ledger.settled_in w (claim_slot rid ctx) (ids 0) h
        (Done ''RUNTIME_ATTEMPT'' (uuid_str (claim_attempt_id c)) (claim_attempt_no c) g)"
      using committed_ledger(2) [OF com ok(2)] by (simp add: ledger.settled_in_def claim_slot_def)
    ultimately show ?thesis using that worker h d' parse_uuid_ok by blast
  next
    case False
    with body obtain agg aid where agg: "record_aggregate_id r = Some agg" "parse_uuid agg = Inr aid"
      "load_claim aid d = Inr c" and "\<not> b"
      by (auto simp: bindE_Inr_iff mapR_Inr_iff)
    then have d': "d' = d" using w by simp
    obtain x where x: "find_receipt d (claim_slot rid ctx) = Some x" "r = record_of False x"
      "receipt_request_hash x = h" "receipt_status x \<noteq> PENDING"
      using receipt_start_Inr [OF start] False by (auto simp: claim_slot_def record_of_def)
    have "first_violation (receipt_checks x) = None"
      using receipt_at_slot [OF ok(2) x(1)] ok(2) by (simp add: receipts_ok_def list_all_iff)
    then obtain k n g where "outcome_of x = Some (Done k agg n g)"
      using agg(1) x(2,4) unfolding first_violation_None receipt_checks_def
      by (auto simp: outcome_of_def record_of_def)
    then have "ledger.settled_in d (claim_slot rid ctx) (receipt_id x) h (Done k agg n g)"
      using x by (simp add: ledger.settled_in_def ledger_entry_def)
    moreover have "claim_attempt_id c = aid \<and> stands d c"
      using load_claim_stands [OF _ agg(3)] ok(1) by (simp add: runtime_ok_def)
    ultimately show ?thesis using that worker h d' agg(2) by blast
  qed
qed

text \<open>
  C32. A retried claim hands out the same Attempt: when \<open>claim_next\<close> has returned a claim, the
  same request under the same key returns the claim of that Attempt, with its Step, Run, fence
  and number, and changes nothing, whatever happened in between; it never claims twice.
\<close>

theorem retried_claim_returns_the_attempt:
  assumes "runtime_ok d" "receipts_ok d"
    and "claim_next_command commit admit locked ids clk rid sid worker lease ctx d = (Inr (Some c), d1)"
    and "service\<^sup>*\<^sup>* d1 d2" "context_key ctx' = context_key ctx"
  shows "\<exists>c'. claim_next_command commit' admit' locked' ids' clk' rid sid worker lease ctx' d2 = (Inr (Some c'), d2)
    \<and> same_claim c c'"
proof -
  obtain h i k agg n g where worker: "worker \<noteq> []"
    and h: "canonical_json_sha256 (claim_request rid sid worker lease) = Inr h"
    and set: "ledger.settled_in d1 (claim_slot rid ctx) i h (Done k agg n g)"
    and agg: "parse_uuid agg = Inr (claim_attempt_id c)" and "stands d1 c"
    by (rule claim_command_settles [OF assms(1-3)])
  have d1: "runtime_ok d1" "receipts_ok d1"
    using commits_ok [OF claim_next_command_commits [OF assms(3)] assms(1,2)] by simp_all
  have d2: "runtime_ok d2" "receipts_ok d2" "m_later (abs_db d1) (abs_db d2)" "ledger.kept d1 d2"
    using tx_history_ok [OF services_history [OF assms(4)] d1] tx_history_kept [OF services_history [OF assms(4)] d1(2)]
    by simp_all
  have "stands d2 c" by (rule stands_later [OF \<open>stands d1 c\<close> d2(3)])
  then obtain c' where c': "load_claim (claim_attempt_id c) d2 = Inr c'" "same_claim c c'"
    by (rule stands_load [rotated]) (use d2(1) in \<open>simp_all add: runtime_ok_def\<close>)
  obtain x where x: "find_receipt d2 (claim_slot rid ctx) = Some x" "receipt_request_hash x = h"
    "outcome_of x = Some (Done k agg n g)" "receipt_status x \<noteq> PENDING"
    by (rule settled_receipt [OF kept_settled [OF d2(4) set]])
  have "record_aggregate_id (record_of False x) = Some agg"
    using x(3) by (auto simp: record_of_def outcome_of_def split: option.splits if_splits)
  moreover have "receipt_start (clk' 0) (ids' 0) ''CLAIM_RUNTIME_STEP'' (claim_scope rid) (context_key ctx') h d2
      = Inr (record_of False x, d2)"
    using receipt_start_replay [OF d2(2) x(1) [unfolded claim_slot_def], of "clk' 0" "ids' 0" h] x(2,4) assms(5)
    by simp
  moreover have "\<not> is_new (record_of False x)" by (simp add: record_of_def)
  ultimately show ?thesis
    using worker h [unfolded claim_request_def] agg c'
    by (simp add: claim_next_command_def given_def with_uow_eq mapR_def)
qed

lemma demo_claim_command:
  obtains c where "fst (claim_next_command demo_commit demo_admit demo_locked demo_ids (demo_clock 200) None None
    ''w1'' 60000000 demo_context demo_started) = Inr (Some c)"
proof -
  obtain h where h: "canonical_json_sha256 (PMapping [(''lease_duration'', PTimedelta 60000000),
      (''run_id'', PNone), (''worker_id'', PStr ''w1'')]) = Inr h"
    using canonical_json_sha256_total [of "PMapping [(''lease_duration'', PTimedelta 60000000),
      (''run_id'', PNone), (''worker_id'', PStr ''w1'')]"] by auto
  let ?c = "\<lparr>claim_attempt_id = 51, claim_run_id = 10, claim_step_id = 21, claim_step_key = ''capture'',
      claim_attempt_no = 1, claim_fence = 1, claim_owner = ''w1'', claim_lease_until = 60000204\<rparr>"
  obtain g where g: "canonical_json_sha256 (claim_value ?c) = Inr g"
    using canonical_json_sha256_total [of "claim_value ?c"] by (auto simp: claim_value_def)
  have ok: "content_hash_ok h" "content_hash_ok g" using h g canonical_hash_ok by blast+
  have "fst (claim_next_command demo_commit demo_admit demo_locked demo_ids (demo_clock 200) None None
    ''w1'' 60000000 demo_context demo_started) = Inr (Some ?c)"
    using h g ok
    by (simp add: claim_next_command_def given_def with_uow_eq demo_commit_def opt_value_def claim_scope_def
        demo_context_def demo_ids_def receipt_start_def insert_receipt_row_def slot_of_def record_of_def
        pending_receipt_def receipt_succeed_def close_receipt_with_def append_audit_def audit_append_def
        idempotency_key_ok_def is_alnum_def Let_def demo_started_def row_defs exec)
  then show thesis using that by blast
qed

lemma demo_started_receipts: "receipts_ok demo_started"
  by (simp add: receipts_ok_def demo_started_def demo_state_def demo_db_def demo_receipt_def
      pending_receipt_def idempotency_key_ok_def is_alnum_def check_defs content_hash_ok_def demo_hash_def)

theorem retried_claim_returns_the_attempt_witness:
  "\<exists>c c' d1. claim_next_command demo_commit demo_admit demo_locked demo_ids (demo_clock 200) None None ''w1''
       60000000 demo_context demo_started = (Inr (Some c), d1)
     \<and> claim_next_command demo_commit demo_admit demo_locked demo_ids (demo_clock 900) None None ''w1''
         60000000 demo_context d1 = (Inr (Some c'), d1) \<and> same_claim c c'"
proof -
  obtain c where "fst (claim_next_command demo_commit demo_admit demo_locked demo_ids (demo_clock 200) None None
      ''w1'' 60000000 demo_context demo_started) = Inr (Some c)"
    by (rule demo_claim_command)
  then obtain d1 where run: "claim_next_command demo_commit demo_admit demo_locked demo_ids (demo_clock 200)
      None None ''w1'' 60000000 demo_context demo_started = (Inr (Some c), d1)"
    by (metis prod.collapse)
  from retried_claim_returns_the_attempt [OF demo_ok(2) demo_started_receipts run rtranclp.rtrancl_refl refl] run
  show ?thesis by blast
qed

end
