(* ===== verification/Runtime_Command_Failure.thy ===== *)
theory Runtime_Command_Failure
  imports Runtime_Idempotence
begin

text \<open>
  \<open>runtime/application/command_failure.py\<close> and \<open>repositories/runtime_finalization.py\<close>: when a
  command of another context fails deterministically, its business transaction is rolled
  back and a fresh one records a failed receipt and an audit event and ends the Attempt that
  ran the command. A key that belongs to another request is recorded under a rejection
  receipt of its own.
\<close>

section \<open>Descriptors\<close>

record failure_descriptor =
  desc_command_kind :: string
  desc_scope_id :: string
  desc_request_hash :: string
  desc_error_class :: string
  desc_error_code :: string
  desc_aggregate_kind :: string
  desc_failure_action :: string
  desc_rejection_kind :: string
  desc_rejection_action :: string
  desc_rejection_prefix :: string

section \<open>The finalization port\<close>

definition finalization_lock_live :: "clock \<Rightarrow> attempt_claim \<Rightarrow> db \<Rightarrow> unit result" where
  "finalization_lock_live clk claim d = lock_live_claim clk claim None d"

definition finalization_lock_live_for_step :: "clock \<Rightarrow> attempt_claim \<Rightarrow> string \<Rightarrow> db \<Rightarrow> unit result" where
  "finalization_lock_live_for_step clk claim kind d = lock_live_claim clk claim (Some kind) d"

definition finalization_succeed ::
  "clock \<Rightarrow> attempt_claim \<Rightarrow> uuid \<Rightarrow> string \<Rightarrow> db \<Rightarrow> ((int \<times> int) \<times> db) result" where
  "finalization_succeed clk claim receipt result d = succeed_attempt clk claim receipt result d"

definition finalization_fail ::
  "clock \<Rightarrow> attempt_claim \<Rightarrow> uuid \<Rightarrow> string \<Rightarrow> string \<Rightarrow> db \<Rightarrow> ((string \<times> int \<times> int) \<times> db) result" where
  "finalization_fail clk claim receipt eclass code d = fail_attempt clk claim receipt eclass code d"

section \<open>Recording a failure\<close>

definition failure_audit ::
  "failure_descriptor \<Rightarrow> command_context \<Rightarrow> string \<Rightarrow> string \<Rightarrow> audit_request" where
  "failure_audit desc ctx act reason =
     \<lparr>req_actor_type = actor_value (context_actor ctx), req_actor_id = context_actor_id ctx,
      req_aggregate_kind = desc_aggregate_kind desc,
      req_aggregate_id = desc_command_kind desc @ '':'' @ desc_scope_id desc, req_action = act,
      req_reason = reason, req_before = None, req_after = None\<rparr>"

text \<open>A new receipt is failed and audited; a known one must already hold a terminal status.\<close>

definition note_failure ::
  "(nat \<Rightarrow> uuid) \<Rightarrow> clock \<Rightarrow> receipt_status set \<Rightarrow> string \<Rightarrow> receipt_record \<Rightarrow> string \<Rightarrow> audit_request
   \<Rightarrow> attempt_claim option \<Rightarrow> db \<Rightarrow> db result" where
  "note_failure ids clk terminal conflict receipt code req claim d =
     (if is_new receipt then
        bindE (receipt_fail (clk 1) (record_receipt_id receipt) code claim d) (\<lambda>d.
          audit_append (clk 2) (ids 1) (Some (record_receipt_id receipt)) req claim d)
      else if record_status receipt \<notin> terminal then Inl (RuntimeStateConflictError conflict)
      else Inr d)"

text \<open>The code the Attempt fails with: that of the receipt, when it has one.\<close>

definition terminal_error_code :: "failure_descriptor \<Rightarrow> receipt_record \<Rightarrow> string" where
  "terminal_error_code desc receipt =
     (if is_new receipt then desc_error_code desc
      else (case record_error_code receipt of
              Some e \<Rightarrow> if e = [] then desc_error_code desc else e
            | None \<Rightarrow> desc_error_code desc))"

definition end_attempt ::
  "clock \<Rightarrow> failure_descriptor \<Rightarrow> attempt_claim option \<Rightarrow> receipt_record \<Rightarrow> db \<Rightarrow> db result" where
  "end_attempt clk desc claim receipt d =
     (case claim of
        None \<Rightarrow> Inr d
      | Some c \<Rightarrow>
          if record_status receipt = SUCCEEDED then Inr d
          else mapR snd (finalization_fail clk c (record_receipt_id receipt) (desc_error_class desc)
                 (terminal_error_code desc receipt) d))"

definition append_failure ::
  "(nat \<Rightarrow> uuid) \<Rightarrow> clock \<Rightarrow> failure_descriptor \<Rightarrow> command_context \<Rightarrow> attempt_claim option \<Rightarrow> db
   \<Rightarrow> (receipt_record \<times> db) result" where
  "append_failure ids clk desc ctx claim d =
     bindE (receipt_start (clk 0) (ids 0) (desc_command_kind desc) (desc_scope_id desc) (context_key ctx)
       (desc_request_hash desc) d) (\<lambda>(receipt, d).
     bindE (note_failure ids clk {FAILED, SUCCEEDED}
       ''cannot replace a non-failed terminal command receipt'' receipt (desc_error_code desc)
       (failure_audit desc ctx (desc_failure_action desc) (desc_error_code desc)) claim d) (\<lambda>d.
     mapR (Pair receipt) (end_attempt (later 3 clk) desc claim receipt d)))"

definition rejection_request ::
  "failure_descriptor \<Rightarrow> string \<Rightarrow> command_context \<Rightarrow> attempt_claim \<Rightarrow> pyval" where
  "rejection_request desc code ctx claim =
     PMapping [(''attempt_id'', PUuid (claim_attempt_id claim)),
       (''command_kind'', PStr (desc_command_kind desc)), (''fence_token'', PInt (claim_fence claim)),
       (''idempotency_key'', PStr (context_key ctx)),
       (''rejected_request_hash'', PStr (desc_request_hash desc)), (''rejection_code'', PStr code),
       (''scope_id'', PStr (desc_scope_id desc))]"

definition append_idempotency_rejection ::
  "(nat \<Rightarrow> uuid) \<Rightarrow> clock \<Rightarrow> failure_descriptor \<Rightarrow> string \<Rightarrow> command_context \<Rightarrow> attempt_claim \<Rightarrow> db
   \<Rightarrow> db result" where
  "append_idempotency_rejection ids clk desc code ctx claim d =
     bindE (canonical_json_sha256 (rejection_request desc code ctx claim)) (\<lambda>hash.
     bindE (receipt_start (clk 0) (ids 0) (desc_rejection_kind desc) (uuid_str (claim_attempt_id claim))
       (desc_rejection_prefix desc @ '':'' @ uuid_str (claim_attempt_id claim)) hash d) (\<lambda>(receipt, d).
     bindE (note_failure ids clk {FAILED} ''idempotency rejection incident is not terminal FAILED'' receipt
       code (failure_audit desc ctx (desc_rejection_action desc) code) (Some claim) d) (\<lambda>d.
     mapR snd (finalization_fail (later 3 clk) claim (record_receipt_id receipt) ''COMMAND'' code d))))"

definition record_idempotency_rejection ::
  "(db \<Rightarrow> unit result) \<Rightarrow> (nat \<Rightarrow> uuid) \<Rightarrow> clock \<Rightarrow> failure_descriptor \<Rightarrow> string \<Rightarrow> command_context
   \<Rightarrow> attempt_claim option \<Rightarrow> unit command" where
  "record_idempotency_rejection commit ids clk desc code ctx claim stored =
     (case claim of
        None \<Rightarrow> (Inr (), stored)
      | Some c \<Rightarrow>
          with_uow commit False (\<lambda>d.
            thenE (finalization_lock_live clk c d)
            (mapR (\<lambda>d. ((), d, True)) (append_idempotency_rejection ids (later 1 clk) desc code ctx c d))) stored)"

text \<open>
  \<open>record\<close>: the two idempotency conflicts are caught, recorded as a rejection in a second
  transaction, and raised again; an error of the second transaction replaces them.
\<close>

definition record_failure ::
  "(db \<Rightarrow> unit result) \<Rightarrow> (nat \<Rightarrow> uuid) \<Rightarrow> clock \<Rightarrow> failure_descriptor \<Rightarrow> command_context
   \<Rightarrow> attempt_claim option \<Rightarrow> unit command" where
  "record_failure commit ids clk desc ctx claim stored =
     (case with_uow commit False (\<lambda>d.
         thenE (case claim of None \<Rightarrow> Inr () | Some c \<Rightarrow> finalization_lock_live clk c d)
         (bindE (append_failure ids (later 1 clk) desc ctx claim d) (\<lambda>(receipt, d).
            if record_status receipt = SUCCEEDED then Inl (ConcurrentCommandSucceeded False)
            else Inr ((), d, True)))) stored of
        (Inr u, d) \<Rightarrow> (Inr u, d)
      | (Inl e, d) \<Rightarrow>
          if e = CommandInProgressError \<or> e = IdempotencyKeyReusedError then
            (case record_idempotency_rejection commit (\<lambda>k. ids (k + 2)) (later 20 clk) desc
                (the (mra_error_code e)) ctx claim d of
               (Inr _, d) \<Rightarrow> (Inl e, d)
             | (Inl e', d) \<Rightarrow> (Inl e', d))
          else (Inl e, d))"

section \<open>What a recorded failure leaves\<close>

definition attempt_closed :: "db \<Rightarrow> attempt_claim \<Rightarrow> uuid \<Rightarrow> bool" where
  "attempt_closed d c receipt \<longleftrightarrow>
     (\<exists>a. find_attempt d (claim_attempt_id c) = Some a \<and> \<not> attempt_live (attempt_state a)
        \<and> result_receipt_id a = Some receipt)"

lemma settle_run_attempts: "settle_run now rid target reason d = Inr (row, d') \<Longrightarrow> attempts d' = attempts d"
  by (auto simp: settle_run_def update_runs_def mapR_Inr_iff split: if_splits)

lemma fail_attempt_closes:
  assumes ok: "runtime_ok d" and run: "fail_attempt clk c receipt eclass code d = Inr (v, d')"
  shows "attempt_closed d' c receipt"
proof -
  have st: "store_ok d" using ok by (simp add: runtime_ok_def)
  from run obtain r s a where lock: "lock_live_claim_rows clk c (Some Attempt_RUNNING) None d = Inr (r, s, a)"
    by (auto simp: fail_attempt_def bindE_Inr_iff)
  note own = lock_owned(1) [OF st lock]
  obtain ast target outcome where dec: "fail_decision s a code = (ast, target, outcome)"
    by (cases "fail_decision s a code") auto
  let ?fa = "\<lambda>a. a\<lparr>attempt_state := ast, error_class := Some eclass, error_code := Some code,
      result_receipt_id := Some receipt, attempt_finished_at := Some (clk 1)\<rparr>"
  from run lock dec obtain row row' row'' d1 d2 ps fs where
    e1: "update_attempts (\<lambda>a. attempt_id a = claim_attempt_id c) ?fa d = Inr (row, d1)"
    and e2: "update_steps ps fs d1 = Inr (row', d2)"
    and e3: "settle_run (clk 3) (claim_run_id c) target code d2 = Inr (row'', d')"
    by (auto simp: fail_attempt_def bindE_Inr_iff Let_def)
  have same: "attempts d' = attempts d1"
    using e2 settle_run_attempts [OF e3] by (auto simp: update_steps_def mapR_Inr_iff)
  have f: "find_attempt d (claim_attempt_id c) = Some a" "attempt_id a = claim_attempt_id c"
    using own by (simp_all add: owned_def)
  have "d1 = put_attempt (?fa a) d"
    using update_attempts_back [OF e1 st f(1)] f(2) by auto
  then have "find_attempt d' (claim_attempt_id c) = Some (?fa a)"
    using f same find_put by simp
  moreover have "\<not> attempt_live ast" using fail_decision_cases [OF dec] by (auto simp: attempt_live_def)
  ultimately show ?thesis by (simp add: attempt_closed_def)
qed

lemma close_receipt_frame:
  "close_receipt_with f now rid claim d = Inr u \<Longrightarrow> \<exists>cs. u = d\<lparr>receipts := cs\<rparr>"
  by (auto simp: close_receipt_with_def update_receipts_def bindE_Inr_iff mapR_Inr_iff split: if_splits)

text \<open>A slot that holds a refusal, newly written or found.\<close>

lemma failed_slot:
  assumes ok: "receipts_ok d" and start: "receipt_start now rid kind scope key hash d = Inr (r, t)"
    and mid: "note_failure ids clk terminal conflict r code req claim t = Inr w"
    and terminal: "terminal \<subseteq> {FAILED, SUCCEEDED}" "record_status r \<noteq> SUCCEEDED"
  shows "receipts_ok w \<and> abs_db w = abs_db d \<and> runtime_ok w = runtime_ok d \<and> ledger.kept d w
    \<and> (\<exists>e. ledger_entry w (kind, scope, key) = Some (record_receipt_id r, hash, Some (Refused e)))"
proof (cases "is_new r")
  case True
  let ?p = "pending_receipt now rid (kind, scope, key) hash"
  have t: "find_receipt d (kind, scope, key) = None" "record_receipt_id r = rid"
    "t = d\<lparr>receipts := receipts d @ [?p]\<rparr>" "rid \<notin> receipt_id ` set (receipts d)"
    "first_violation (receipt_checks ?p) = None"
    using receipt_start_Inr [OF start] True by (auto simp: record_of_def)
  have t_ok: "receipts_ok t" "ledger_entry t = (ledger_entry d)((kind, scope, key) \<mapsto> (rid, hash, None))"
    using receipts_ok_append [OF ok, of ?p] t by simp_all
  from mid True obtain u where u: "receipt_fail (clk 1) rid code claim t = Inr u"
    and a: "audit_append (clk 2) (ids 1) (Some rid) req claim u = Inr w"
    by (auto simp: note_failure_def bindE_Inr_iff t(2))
  obtain ev where w: "w = u\<lparr>audits := audits u @ [ev]\<rparr>" by (rule audit_append_Inr [OF a])
  obtain cs where cs: "u = t\<lparr>receipts := cs\<rparr>" using close_receipt_frame [OF u [unfolded receipt_fail_def]] by blast
  have "ledger_entry t (kind, scope, key) = Some (rid, hash, None)" by (simp add: t_ok(2))
  from ledger_close_Inr [OF t_ok(1) this, of "clk 1" claim "Refused code" u] u
  have u_ok: "receipts_ok u" "ledger_entry u = (ledger_entry d)((kind, scope, key) \<mapsto> (rid, hash, Some (Refused code)))"
    by (simp_all add: ledger_close_def t_ok(2))
  have w_ok: "receipts_ok w" "ledger_entry w = (ledger_entry d)((kind, scope, key) \<mapsto> (rid, hash, Some (Refused code)))"
    using u_ok ledger_entry_cong [of w u] by (simp_all add: w)
  have none: "ledger_entry d (kind, scope, key) = None" using t(1) by (simp add: ledger_entry_def)
  have "ledger.kept d w"
    unfolding ledger.kept_def ledger.settled_in_def w_ok(2) using none by auto
  moreover have "abs_db w = abs_db d" "runtime_ok w = runtime_ok d" by (simp_all add: w cs t(3))
  ultimately show ?thesis using w_ok t(2) by simp
next
  case False
  obtain c where c: "find_receipt d (kind, scope, key) = Some c" "r = record_of False c" "t = d"
    "receipt_request_hash c = hash"
    using receipt_start_Inr [OF start] False by (auto simp: record_of_def)
  have st: "receipt_status c = FAILED" and w: "w = t"
    using mid terminal False c(2) by (auto simp: note_failure_def record_of_def split: if_splits)
  have "first_violation (receipt_checks c) = None"
    using receipt_at_slot [OF ok c(1)] ok by (simp add: receipts_ok_def list_all_iff)
  then have "result_aggregate_kind c = None"
    using st unfolding first_violation_None receipt_checks_def by simp
  then have "outcome_of c = Some (Refused (case receipt_error_code c of Some e \<Rightarrow> e | None \<Rightarrow> []))"
    using st by (simp add: outcome_of_def)
  then show ?thesis using c w ok by (simp add: ledger_entry_def record_of_def ledger.kept_refl)
qed

definition recorded ::
  "db \<Rightarrow> db \<Rightarrow> receipt_slot \<Rightarrow> string \<Rightarrow> uuid \<Rightarrow> attempt_claim option \<Rightarrow> bool" where
  "recorded d d' k hash rid claim \<longleftrightarrow>
     runtime_ok d' \<and> receipts_ok d' \<and> m_later (abs_db d) (abs_db d') \<and> ledger.kept d d'
     \<and> (\<exists>e. ledger_entry d' k = Some (rid, hash, Some (Refused e)))
     \<and> (\<forall>c. claim = Some c \<longrightarrow> attempt_closed d' c rid)"

lemma fail_recorded:
  assumes w: "receipts_ok w \<and> abs_db w = abs_db d \<and> runtime_ok w = runtime_ok d \<and> ledger.kept d w
      \<and> (\<exists>e. ledger_entry w k = Some (rid, hash, Some (Refused e)))"
    and ok: "runtime_ok d" and run: "finalization_fail clk c rid eclass code w = Inr (v, d')"
  shows "recorded d d' k hash rid (Some c)"
proof -
  have run': "fail_attempt clk c rid eclass code w = Inr (v, d')" using run by (simp add: finalization_fail_def)
  have w_ok: "runtime_ok w" using w ok by simp
  note step = repo_step.fail [OF run']
  have d': "runtime_ok d'" "abs_db d' = abs_db w \<or> m_trans (abs_db w) (abs_db d')"
    using repo_step_refines [OF step w_ok] by blast+
  have "m_later (abs_db w) (abs_db d')"
    using d'(2) m_trans_later [of "abs_db w" "abs_db d'"] w_ok by (auto simp: m_later_refl runtime_ok_def)
  moreover have same: "receipts d' = receipts w" using repo_step_frame [OF step] by (simp add: same_ledger_def)
  moreover have "ledger.kept w d'"
    unfolding ledger.kept_def ledger.settled_in_def ledger_entry_cong(1) [OF same] by blast
  ultimately show ?thesis
    using w d'(1) fail_attempt_closes [OF w_ok run'] ledger_entry_cong [OF same] ledger.kept_trans [of d w d']
    by (simp add: recorded_def)
qed

lemma unclaimed_recorded:
  assumes "receipts_ok w \<and> abs_db w = abs_db d \<and> runtime_ok w = runtime_ok d \<and> ledger.kept d w
      \<and> (\<exists>e. ledger_entry w k = Some (rid, hash, Some (Refused e)))" "runtime_ok d"
  shows "recorded d w k hash rid None"
  using assms by (simp add: recorded_def m_later_refl)

lemma append_failure_recorded:
  assumes ok: "runtime_ok d" "receipts_ok d"
    and run: "append_failure ids clk desc ctx claim d = Inr (r, d')" and st: "record_status r \<noteq> SUCCEEDED"
  shows "recorded d d' (desc_command_kind desc, desc_scope_id desc, context_key ctx) (desc_request_hash desc)
    (record_receipt_id r) claim"
proof -
  let ?k = "(desc_command_kind desc, desc_scope_id desc, context_key ctx)"
  from run obtain t w where
    start: "receipt_start (clk 0) (ids 0) (desc_command_kind desc) (desc_scope_id desc) (context_key ctx)
       (desc_request_hash desc) d = Inr (r, t)"
    and mid: "note_failure ids clk {FAILED, SUCCEEDED} ''cannot replace a non-failed terminal command receipt''
       r (desc_error_code desc) (failure_audit desc ctx (desc_failure_action desc) (desc_error_code desc)) claim t = Inr w"
    and fin: "end_attempt (later 3 clk) desc claim r w = Inr d'"
    by (auto simp: append_failure_def bindE_Inr_iff mapR_Inr_iff)
  note w = failed_slot [OF ok(2) start mid subset_refl st]
  show ?thesis
  proof (cases claim)
    case None
    then show ?thesis using unclaimed_recorded [OF w ok(1)] fin by (simp add: end_attempt_def)
  next
    case (Some c)
    then obtain v where "finalization_fail (later 3 clk) c (record_receipt_id r) (desc_error_class desc)
        (terminal_error_code desc r) w = Inr (v, d')"
      using fin st by (auto simp: end_attempt_def mapR_Inr_iff)
    from fail_recorded [OF w ok(1) this] show ?thesis by (simp add: Some)
  qed
qed

lemma append_rejection_recorded:
  assumes ok: "runtime_ok d" "receipts_ok d"
    and run: "append_idempotency_rejection ids clk desc code ctx c d = Inr d'"
  shows "\<exists>hash rid. recorded d d' (desc_rejection_kind desc, uuid_str (claim_attempt_id c),
       desc_rejection_prefix desc @ '':'' @ uuid_str (claim_attempt_id c)) hash rid (Some c)"
proof -
  from run obtain hash r t w v where
    start: "receipt_start (clk 0) (ids 0) (desc_rejection_kind desc) (uuid_str (claim_attempt_id c))
       (desc_rejection_prefix desc @ '':'' @ uuid_str (claim_attempt_id c)) hash d = Inr (r, t)"
    and mid: "note_failure ids clk {FAILED} ''idempotency rejection incident is not terminal FAILED'' r
       code (failure_audit desc ctx (desc_rejection_action desc) code) (Some c) t = Inr w"
    and fin: "finalization_fail (later 3 clk) c (record_receipt_id r) ''COMMAND'' code w = Inr (v, d')"
    by (auto simp: append_idempotency_rejection_def bindE_Inr_iff mapR_Inr_iff)
  have "record_status r \<noteq> SUCCEEDED"
    using mid receipt_start_Inr [OF start] by (auto simp: note_failure_def record_of_def split: if_splits)
  from fail_recorded [OF failed_slot [OF ok(2) start mid _ this] ok(1) fin] show ?thesis by auto
qed

lemma rejection_recorded:
  assumes ok: "runtime_ok d" "receipts_ok d"
    and run: "record_idempotency_rejection commit ids clk desc code ctx claim d = (res, d')"
  shows "d' = d \<or> (\<exists>c hash rid. res = Inr () \<and> claim = Some c
    \<and> recorded d d' (desc_rejection_kind desc, uuid_str (claim_attempt_id c),
        desc_rejection_prefix desc @ '':'' @ uuid_str (claim_attempt_id c)) hash rid claim)"
proof (cases claim)
  case None
  then show ?thesis using run by (simp add: record_idempotency_rejection_def)
next
  case (Some c)
  have "d' = d \<or> (res = Inr () \<and> append_idempotency_rejection ids (later 1 clk) desc code ctx c d = Inr d')"
    using run Some
    by (cases res) (auto simp: record_idempotency_rejection_def with_uow_Inr thenE_Inr_iff mapR_Inr_iff
        dest: with_uow_Inl)
  then show ?thesis using append_rejection_recorded [OF ok] Some by blast
qed

section \<open>Property\<close>

text \<open>
  C40. Recording a failure is atomic and closes the Attempt. If it returns, the command's slot
  holds a refused receipt with the command's request hash and the Attempt of the claim, if
  there is one, has ended with this receipt. If the key belongs to another request, the
  conflict is raised again, and either nothing changed or a rejection receipt in the
  Attempt's own slot holds the refusal and the Attempt has ended with it. Otherwise the
  database is unchanged. In every case the invariant holds and settled receipts are kept.
\<close>

theorem recorded_failure_closes_the_attempt:
  assumes "runtime_ok d" "receipts_ok d" "record_failure commit ids clk desc ctx claim d = (res, d')"
  shows "(res = Inr () \<and> (\<exists>rid. recorded d d' (desc_command_kind desc, desc_scope_id desc, context_key ctx)
        (desc_request_hash desc) rid claim))
    \<or> (\<exists>e c hash rid. res = Inl e \<and> e \<in> {CommandInProgressError, IdempotencyKeyReusedError} \<and> claim = Some c
        \<and> recorded d d' (desc_rejection_kind desc, uuid_str (claim_attempt_id c),
            desc_rejection_prefix desc @ '':'' @ uuid_str (claim_attempt_id c)) hash rid claim)
    \<or> (\<exists>e. res = Inl e \<and> d' = d)"
proof -
  let ?body = "\<lambda>d. thenE (case claim of None \<Rightarrow> Inr () | Some c \<Rightarrow> finalization_lock_live clk c d)
         (bindE (append_failure ids (later 1 clk) desc ctx claim d) (\<lambda>(receipt, d).
            if record_status receipt = SUCCEEDED then Inl (ConcurrentCommandSucceeded False)
            else Inr ((), d, True)))"
  obtain res1 d1 where first: "with_uow commit False ?body d = (res1, d1)"
    by (cases "with_uow commit False ?body d")
  show ?thesis
  proof (cases res1)
    case (Inr u)
    then have end1: "res = Inr ()" "d' = d1" using assms(3) first by (simp_all add: record_failure_def)
    from first Inr obtain r where "append_failure ids (later 1 clk) desc ctx claim d = Inr (r, d1)"
      "record_status r \<noteq> SUCCEEDED"
      by (auto simp: with_uow_Inr thenE_Inr_iff bindE_Inr_iff split: if_splits)
    from append_failure_recorded [OF assms(1,2) this] show ?thesis using end1 by blast
  next
    case (Inl e)
    have d1: "d1 = d" using with_uow_Inl first Inl by blast
    show ?thesis
    proof (cases "e = CommandInProgressError \<or> e = IdempotencyKeyReusedError")
      case False
      then show ?thesis using assms(3) first Inl d1 by (auto simp: record_failure_def)
    next
      case True
      let ?rej = "record_idempotency_rejection commit (\<lambda>k. ids (k + 2)) (later 20 clk) desc
          (the (mra_error_code e)) ctx claim d"
      obtain res2 d2 where rej: "?rej = (res2, d2)" by (cases ?rej)
      have end2: "d' = d2" "res = (case res2 of Inl e' \<Rightarrow> Inl e' | Inr _ \<Rightarrow> Inl e)"
        using assms(3) first Inl True rej d1 by (auto simp: record_failure_def split: sum.splits)
      from rejection_recorded [OF assms(1,2) rej] show ?thesis
      proof
        assume "d2 = d"
        then show ?thesis using end2 by (cases res2) auto
      qed (use True end2 in auto)
    qed
  qed
qed

definition demo_failure :: failure_descriptor where
  "demo_failure =
     \<lparr>desc_command_kind = ''CAPTURE'', desc_scope_id = ''session-1'', desc_request_hash = demo_hash,
      desc_error_class = ''PROVIDER'', desc_error_code = ''TIMEOUT'', desc_aggregate_kind = ''CAPTURE_SET'',
      desc_failure_action = ''FAIL_CAPTURE'', desc_rejection_kind = ''REJECT_CAPTURE'',
      desc_rejection_action = ''REJECT_CAPTURE'', desc_rejection_prefix = ''rejected''\<rparr>"

lemma demo_running_receipts: "receipts_ok demo_running"
  by (simp add: receipts_ok_def demo_running_def demo_state_def demo_db_def demo_receipt_def
      pending_receipt_def idempotency_key_ok_def is_alnum_def check_defs content_hash_ok_def demo_hash_def)

lemma demo_failure_recorded:
  "fst (record_failure demo_commit demo_ids (demo_clock 400) demo_failure demo_context (Some demo_claim)
     demo_running) = Inr ()"
  by (simp add: record_failure_def with_uow_eq demo_commit_def finalization_lock_live_def lock_live_claim_def
      append_failure_def note_failure_def end_attempt_def terminal_error_code_def finalization_fail_def
      failure_audit_def demo_failure_def demo_context_def demo_ids_def receipt_start_def insert_receipt_row_def
      slot_of_def record_of_def pending_receipt_def receipt_fail_def close_receipt_with_def audit_append_def
      idempotency_key_ok_def is_alnum_def content_hash_ok_def demo_hash_def Let_def demo_running_def row_defs exec)

theorem recorded_failure_closes_the_attempt_witness:
  "\<exists>d' rid. record_failure demo_commit demo_ids (demo_clock 400) demo_failure demo_context (Some demo_claim)
       demo_running = (Inr (), d') \<and> attempt_closed d' demo_claim rid"
proof -
  obtain d' where run: "record_failure demo_commit demo_ids (demo_clock 400) demo_failure demo_context
      (Some demo_claim) demo_running = (Inr (), d')"
    using demo_failure_recorded by (metis prod.collapse)
  from recorded_failure_closes_the_attempt [OF demo_ok(4) demo_running_receipts run] run
  show ?thesis by (auto simp: recorded_def)
qed

end
