(* ===== verification/Shared_Financial.thy ===== *)
theory Shared_Financial
  imports Shared_Values Py_Decimal
begin

text \<open>
  \<open>shared/financial.py\<close>: amounts that fit a PostgreSQL \<open>numeric(precision, scale)\<close> column.
  \<open>ambient\<close> is the precision of the decimal context the code runs in (28 unless it is
  changed): \<open>quantize\<close> runs in a context of its own, but \<open>abs\<close> rounds in the ambient one.
\<close>

section \<open>Decimal operations\<close>

fun quantize :: "nat \<Rightarrow> int \<Rightarrow> decimal \<Rightarrow> decimal result" where
  "quantize prec t (Fin s c e) =
     (let c' = (if t \<le> e then c * 10 ^ nat (e - t)
                else nat (round_half_even (of_nat c / 10 ^ nat (t - e))))
      in thenE (guardE (length (dec_digits c') \<le> prec) InvalidOperation) (Inr (Fin s c' t)))"
| "quantize prec t (Infinite s) = Inl InvalidOperation"
| "quantize prec t NaN = Inr NaN"

fun decimal_abs :: "nat \<Rightarrow> decimal \<Rightarrow> decimal" where
  "decimal_abs prec (Fin s c e) =
     (if c < 10 ^ prec then Fin False c e
      else case rounded_digits prec (of_nat c * power_int 10 e) of (c', e') \<Rightarrow> Fin False c' e')"
| "decimal_abs prec (Infinite s) = Infinite False"
| "decimal_abs prec NaN = NaN"

section \<open>Bounded amounts\<close>

definition bounded_decimal :: "nat \<Rightarrow> string \<Rightarrow> nat \<Rightarrow> nat \<Rightarrow> decimal \<Rightarrow> decimal result" where
  "bounded_decimal ambient field precision scale value =
     thenE (guardE (is_finite value) (ValueError (field @ '' must be finite'')))
     (bindE (case quantize (precision + scale + 2) (- int scale) value of
               Inl e \<Rightarrow> Inl (ValueError (field @ '' exceeds numeric''))
             | Inr c \<Rightarrow> Inr c) (\<lambda>canonical.
      thenE (guardE (dval canonical = dval value) (ValueError (field @ '' exceeds numeric scale'')))
      (thenE (guardE (\<not> dval (decimal_abs ambient canonical) \<ge> power_int 10 (int precision - int scale))
         (ValueError (field @ '' exceeds numeric precision'')))
      (Inr (if dval canonical = 0 then decimal_abs ambient canonical else canonical)))))"

datatype quantity_unit = SHARES

record money =
  money_amount :: decimal
  money_currency :: string

definition currency_ok :: "string \<Rightarrow> bool" where
  "currency_ok s \<longleftrightarrow> length s = 3 \<and> list_all is_upper s"

definition money_init :: "nat \<Rightarrow> money \<Rightarrow> money result" where
  "money_init ambient m =
     bindE (bounded_decimal ambient ''money.amount'' 30 10 (money_amount m)) (\<lambda>amount.
     thenE (guardE (currency_ok (money_currency m))
       (ValueError ''money.currency must be a three-letter uppercase code''))
     (Inr (m\<lparr>money_amount := amount\<rparr>)))"

record quantity =
  quantity_amount :: decimal
  quantity_unit :: quantity_unit

definition quantity_init :: "nat \<Rightarrow> quantity \<Rightarrow> quantity result" where
  "quantity_init ambient q =
     mapR (\<lambda>amount. q\<lparr>quantity_amount := amount\<rparr>)
       (bounded_decimal ambient ''quantity.amount'' 38 10 (quantity_amount q))"

section \<open>Magnitudes\<close>

interpretation decimal: rounding "round_sig 10 (Suc k)" "representable 10 (Suc k)" for k
  by unfold_locales (simp_all add: round_sig_mono round_sig_exact)

lemma decimal_abs_value:
  assumes "0 < prec" "is_finite d"
  shows "dval (decimal_abs prec d) = round_sig 10 prec \<bar>dval d\<bar>"
proof -
  obtain s c e where d: "d = Fin s c e" using assms(2) by (cases d) auto
  have abs: "\<bar>dval d\<bar> = of_nat c * power_int 10 e" by (simp add: d abs_mult)
  show ?thesis
  proof (cases "c < 10 ^ prec")
    case True
    have "int c < int (10 ^ prec)" using True by (simp only: of_nat_less_iff)
    then have "representable 10 prec (of_nat c * power_int 10 e)"
      unfolding representable_def by (intro exI [of _ "int c"] exI [of _ e]) simp
    then show ?thesis using True assms(1) abs by (simp add: d round_sig_exact)
  next
    case False
    then have pos: "0 < (of_nat c * power_int 10 e :: rat)" by (cases c) auto
    obtain c' e' where ce: "rounded_digits prec (of_nat c * power_int 10 e) = (c', e')" by fastforce
    have "dval (decimal_abs prec d) = of_nat c' * power_int 10 e'" using False by (simp add: d ce)
    then show ?thesis using rounded_digits_value [OF assms(1) pos ce] abs by simp
  qed
qed

section \<open>What a bounded amount promises\<close>

lemma quantize_exact:
  assumes m: "dval (Fin s c e) = of_int m * power_int 10 t"
    and small: "\<bar>m\<bar> < 10 ^ prec" and prec: "0 < prec"
  shows "quantize prec t (Fin s c e) = Inr (Fin s (nat \<bar>m\<bar>) t)"
proof -
  have abs: "of_nat c * power_int 10 e = (of_int \<bar>m\<bar> * power_int 10 t :: rat)"
    using arg_cong [OF m, of abs] by (cases s) (simp_all add: abs_mult)
  have ten: "power_int (10::rat) (int n) = 10 ^ n" for n by simp
  define c' where "c' = (if t \<le> e then c * 10 ^ nat (e - t)
                else nat (round_half_even (of_nat c / 10 ^ nat (t - e))))"
  have "c' = nat \<bar>m\<bar>"
  proof (cases "t \<le> e")
    case True
    then have "power_int (10::rat) e = power_int 10 t * 10 ^ nat (e - t)"
      using power_int_add [of "10::rat" t "e - t"] ten [of "nat (e - t)"] by simp
    then have "(of_nat (c * 10 ^ nat (e - t)) :: rat) = of_int \<bar>m\<bar>" using abs by simp
    then have "int (c * 10 ^ nat (e - t)) = \<bar>m\<bar>" by (metis of_int_eq_iff of_int_of_nat_eq)
    then have "c * 10 ^ nat (e - t) = nat \<bar>m\<bar>" by (metis nat_int)
    then show ?thesis using True by (simp add: c'_def)
  next
    case False
    then have "power_int (10::rat) t = power_int 10 e * 10 ^ nat (t - e)"
      using power_int_add [of "10::rat" e "t - e"] ten [of "nat (t - e)"] by simp
    then have "(of_nat c :: rat) = of_int \<bar>m\<bar> * 10 ^ nat (t - e)" using abs by simp
    then have "(of_nat c :: rat) / 10 ^ nat (t - e) = of_int \<bar>m\<bar>" by simp
    then have "round_half_even (of_nat c / 10 ^ nat (t - e)) = \<bar>m\<bar>"
      by (metis round_half_even_of_int)
    then show ?thesis using False by (simp add: c'_def)
  qed
  moreover have "length (dec_digits (nat \<bar>m\<bar>)) \<le> prec"
    using small by (simp add: length_dec_digits [OF prec] nat_less_iff)
  ultimately show ?thesis unfolding quantize.simps Let_def c'_def [symmetric] by simp
qed

text \<open>An accepted value with scale \<open>s\<close> is an integer number of units \<open>10 ^ - s\<close>.\<close>

lemma bounded_decimal_cases:
  assumes "bounded_decimal ambient field p s v = Inr c"
  obtains sg n where "quantize (p + s + 2) (- int s) v = Inr (Fin sg n (- int s))"
    "is_finite v" "dval (Fin sg n (- int s)) = dval v"
    "\<not> power_int 10 (int p - int s) \<le> dval (decimal_abs ambient (Fin sg n (- int s)))"
    "c = Fin (sg \<and> n \<noteq> 0) n (- int s)"
proof -
  obtain q where q: "quantize (p + s + 2) (- int s) v = Inr q" and fin: "is_finite v"
    and same: "dval q = dval v"
    and less: "\<not> power_int 10 (int p - int s) \<le> dval (decimal_abs ambient q)"
    and c: "c = (if dval q = 0 then decimal_abs ambient q else q)"
    using assms by (auto simp: bounded_decimal_def bindE_Inr_iff split: sum.splits if_splits)
  obtain sg n where qn: "q = Fin sg n (- int s)"
    using q fin by (cases v) (auto simp: Let_def split: if_splits)
  have "c = Fin (sg \<and> n \<noteq> 0) n (- int s)"
    using c by (auto simp: qn split: if_splits)
  then show ?thesis using that q fin same less by (simp add: qn)
qed

text \<open>The whole guard, as a condition on the number of units.\<close>

lemma decimal_abs_below:
  assumes "0 < prec" "is_finite d" "\<not> power_int 10 k \<le> dval (decimal_abs prec d)"
  shows "\<bar>dval d\<bar> < power_int 10 k"
proof (rule ccontr)
  obtain j where j: "prec = Suc j" using assms(1) by (cases prec) auto
  assume "\<not> ?thesis"
  then have "power_int 10 k \<le> \<bar>dval d\<bar>" by simp
  moreover have "representable 10 (Suc j) (power_int 10 k)"
    unfolding representable_def
    by (rule exI [of _ 1], rule exI [of _ k]) (simp add: power_gt1 del: power_Suc)
  ultimately have "power_int 10 k \<le> round_sig 10 (Suc j) \<bar>dval d\<bar>"
    by (intro decimal.lower) auto
  then show False using assms decimal_abs_value [OF assms(1,2)] by (simp add: j)
qed

text \<open>
  C39. What \<open>bounded_decimal\<close> returns is the value it was given, spelled with exactly
  \<open>scale\<close> fractional digits and at most \<open>precision\<close> digits in all, never a negative zero,
  and returned unchanged when it is bounded again: it is stored without rounding in a
  \<open>numeric(precision, scale)\<close> column and read back as itself.
\<close>

theorem bounded_decimal_fits:
  assumes "bounded_decimal ambient field p s v = Inr c" and "0 < ambient" and "s \<le> p"
  shows "dval c = dval v \<and> exponent c = - int s \<and> coefficient c < 10 ^ p
    \<and> \<bar>dval c\<bar> < 10 ^ (p - s) \<and> (negative c \<longrightarrow> dval c < 0)
    \<and> bounded_decimal ambient field' p s c = Inr c"
proof -
  obtain sg n where q: "quantize (p + s + 2) (- int s) v = Inr (Fin sg n (- int s))"
    and same: "dval (Fin sg n (- int s)) = dval v"
    and less: "\<not> power_int 10 (int p - int s) \<le> dval (decimal_abs ambient (Fin sg n (- int s)))"
    and c: "c = Fin (sg \<and> n \<noteq> 0) n (- int s)"
    by (rule bounded_decimal_cases [OF assms(1)])
  have dc: "dval c = dval v" using same by (cases "n = 0") (auto simp: c)
  have bound: "\<bar>dval v\<bar> < power_int 10 (int p - int s)"
    using decimal_abs_below [OF assms(2) _ less] same by simp
  have pow: "power_int (10::rat) (int p - int s) = 10 ^ (p - s)"
    using assms(3) by (simp add: power_int_def)
  have shift: "(10::rat) ^ (p - s) * 10 ^ s = 10 ^ p"
    using assms(3) by (simp add: power_add [symmetric])
  have unit: "power_int (10::rat) (- int s) * 10 ^ s = 1" by (simp add: power_int_minus)
  have absn: "\<bar>dval v\<bar> = of_nat n * power_int 10 (- int s)"
    by (simp add: same [symmetric] abs_mult)
  have "(of_nat n :: rat) = \<bar>dval v\<bar> * 10 ^ s"
    using absn unit by (simp add: mult.assoc)
  also have "\<dots> < 10 ^ (p - s) * 10 ^ s"
    using bound pow by (intro mult_strict_right_mono) auto
  finally have "(of_nat n :: rat) < of_nat (10 ^ p)" using shift by simp
  then have n: "n < 10 ^ p" by (simp only: of_nat_less_iff)
  have "(10::nat) ^ p \<le> 10 ^ (p + s + 2)" by (intro power_increasing) auto
  then have "n < 10 ^ (p + s + 2)" using n by (rule order_less_le_trans [rotated])
  then have again: "quantize (p + s + 2) (- int s) c = Inr c"
    by (simp add: c length_dec_digits)
  have "decimal_abs ambient c = decimal_abs ambient (Fin sg n (- int s))" by (simp add: c)
  then have "bounded_decimal ambient field' p s c = Inr c"
    using less again by (auto simp: bounded_decimal_def c)
  moreover have "negative c \<longrightarrow> dval c < 0" by (simp add: c)
  ultimately show ?thesis using dc bound pow n by (simp add: c)
qed

theorem bounded_decimal_fits_witness:
  "bounded_decimal 28 ''money.amount'' 30 10 (Fin True 12345 (- 2)) = Inr (Fin True 1234500000000 (- 10))
    \<and> \<bar>dval (Fin True 1234500000000 (- 10))\<bar> < 10 ^ 20"
proof -
  have run: "bounded_decimal 28 ''money.amount'' 30 10 (Fin True 12345 (- 2)) = Inr (Fin True 1234500000000 (- 10))"
    using quantize_exact [of True 12345 "- 2" "- 1234500000000" "- 10" 42]
    by (simp add: bounded_decimal_def power_int_def power_divide length_dec_digits)
  then show ?thesis using bounded_decimal_fits [OF run, where field' = "''''"] by simp
qed

text \<open>
  Where the ambient context has at least \<open>precision\<close> digits, \<open>bounded_decimal\<close> refuses
  nothing that fits: every finite value that is a whole number of units \<open>10 ^ - scale\<close>
  with at most \<open>precision\<close> digits is accepted, whatever its spelling.
\<close>

theorem bounded_decimal_accepts:
  assumes "is_finite v" and "dval v = of_int m * power_int 10 (- int s)"
    and "\<bar>m\<bar> < 10 ^ p" and "p \<le> ambient" and "0 < p"
  shows "\<exists>c. bounded_decimal ambient field p s v = Inr c \<and> dval c = dval v"
proof -
  obtain sg n e where v: "v = Fin sg n e" using assms(1) by (cases v) auto
  let ?q = "Fin sg (nat \<bar>m\<bar>) (- int s)"
  have le: "(10::int) ^ p \<le> 10 ^ (p + s + 2)" "(10::nat) ^ p \<le> 10 ^ ambient"
    using assms(4) by (intro power_increasing; simp)+
  have q: "quantize (p + s + 2) (- int s) v = Inr ?q"
    unfolding v using assms(2,3) le(1) by (intro quantize_exact) (auto simp: v)
  have abs: "(of_nat n :: rat) * power_int 10 e = of_int \<bar>m\<bar> * power_int 10 (- int s)"
    using arg_cong [OF assms(2), of abs] by (cases sg) (simp_all add: abs_mult v)
  have sign: "dval ?q = dval v" using abs by (simp add: v)
  have "nat \<bar>m\<bar> < 10 ^ p" using assms(3) by (simp add: nat_less_iff)
  then have small: "nat \<bar>m\<bar> < 10 ^ ambient" using le(2) by (rule order_less_le_trans)
  have "(of_int \<bar>m\<bar> :: rat) < of_int (10 ^ p)" using assms(3) by (simp only: of_int_less_iff)
  then have "of_int \<bar>m\<bar> * power_int 10 (- int s) < 10 ^ p * power_int (10::rat) (- int s)"
    by (intro mult_strict_right_mono) auto
  also have "\<dots> = power_int 10 (int p - int s)" by (simp add: power_int_diff power_int_minus field_simps)
  finally have "\<not> power_int 10 (int p - int s) \<le> dval (decimal_abs ambient ?q)"
    using small by simp
  then show ?thesis using q sign small assms(1)
    by (cases sg) (auto simp: bounded_decimal_def)
qed

theorem bounded_decimal_accepts_witness:
  "\<exists>c. bounded_decimal 28 ''price'' 20 4 (Fin False 125 (- 1)) = Inr c
    \<and> dval c = dval (Fin False 125 (- 1))"
  by (rule bounded_decimal_accepts [where m = 125000]) (simp_all add: power_int_def power_divide)

text \<open>
  In the ambient context of 28 digits \<open>abs\<close> rounds a canonical amount of thirty nines
  up to the bound, so \<open>Money\<close> refuses the largest amounts that \<open>numeric(30, 10)\<close>, the
  column its docstring names, can store.
\<close>

theorem money_refuses_storable_amounts:
  "let v = Fin False 999999999999999999999999999999 (- 10)
   in dval v < 10 ^ 20 \<and> coefficient v < 10 ^ 30 \<and> exponent v = - 10
    \<and> money_init 28 \<lparr>money_amount = v, money_currency = ''CNY''\<rparr>
        = Inl (ValueError ''money.amount exceeds numeric precision'')
    \<and> money_init 30 \<lparr>money_amount = v, money_currency = ''CNY''\<rparr>
        = Inr \<lparr>money_amount = v, money_currency = ''CNY''\<rparr>"
proof -
  let ?n = "999999999999999999999999999999 :: nat"
  let ?v = "Fin False ?n (- 10)"
  have q: "quantize 42 (- 10) ?v = Inr ?v" by (simp add: length_dec_digits)
  have val: "dval ?v = 999999999999999999999999999999 / 10000000000"
    by (simp add: power_int_def power_divide)
  have "round_sig 10 28 (dval ?v) = 10 ^ 20"
    unfolding val using round_sig_at [of 10 "999999999999999999999999999999 / 10000000000" 19 28]
      round_half_even_nearest [of "999999999999999999999999999999 / 100" "10 ^ 28"]
    by (simp add: power_int_def power_divide)
  then have "dval (decimal_abs 28 ?v) = 10 ^ 20"
    using decimal_abs_value [of 28 ?v] val by simp
  then have big: "power_int 10 (30 - 10) \<le> dval (decimal_abs 28 ?v)"
    by (simp add: power_int_def)
  have "decimal_abs 30 ?v = ?v" by simp
  then show ?thesis using q big val
    by (simp add: money_init_def bounded_decimal_def power_int_def Let_def currency_ok_def is_upper_def del: decimal_abs.simps quantize.simps)
qed

end
