(* ===== verification/Candidate_Inputs.thy ===== *)
theory Candidate_Inputs
  imports Canonical_Hashing "HOL-Library.AList"
begin

text \<open>
  \<open>selection/domain/candidate_inputs.py\<close>: the immutable inputs of Candidate ranking, one
  record per dataclass and one \<open>_init\<close> per \<open>__post_init__\<close>. A field declared
  \<open>ContentHash | str\<close> holds the text; the constructor checks it either way. Before them,
  Python's dict as a list of pairs in insertion order.
\<close>

section \<open>Dictionaries\<close>

text \<open>
  A dict built from pairs: a key that comes again keeps its place and takes the new
  value. \<open>d[k]\<close> raises \<open>KeyError\<close> when \<open>k\<close> is absent.
\<close>

definition dict_of :: "('k \<times> 'v) list \<Rightarrow> ('k \<times> 'v) list" where
  "dict_of kvs = foldl (\<lambda>d kv. AList.update (fst kv) (snd kv) d) [] kvs"

definition dict_item :: "('k \<times> 'v) list \<Rightarrow> 'k \<Rightarrow> 'v result" where
  "dict_item d k = optE (map_of d k) KeyError"

lemma update_fresh: "k \<notin> fst ` set d \<Longrightarrow> AList.update k v d = d @ [(k, v)]"
  by (induction d) auto

lemma dict_of_append: "distinct (map fst (d @ kvs)) \<Longrightarrow>
    foldl (\<lambda>d kv. AList.update (fst kv) (snd kv) d) d kvs = d @ kvs"
proof (induction kvs arbitrary: d)
  case (Cons kv kvs)
  then have "fst kv \<notin> fst ` set d" by auto
  then have "AList.update (fst kv) (snd kv) d = d @ [kv]" by (simp add: update_fresh)
  then show ?case using Cons by simp
qed simp

lemma dict_of_distinct [simp]: "distinct (map fst kvs) \<Longrightarrow> dict_of kvs = kvs"
  using dict_of_append [of "[]" kvs] by (simp add: dict_of_def)

lemma dict_item_Inr_iff [simp]: "dict_item d k = Inr v \<longleftrightarrow> map_of d k = Some v"
  by (simp add: dict_item_def)

lemma dict_item_map [simp]:
  assumes "x \<in> set xs" and "inj_on key (set xs)"
  shows "dict_item (map (\<lambda>x. (key x, f x)) xs) (key x) = Inr (f x)"
proof -
  have "map_of (map (\<lambda>x. (key x, f x)) xs) (key x) = Some (f x)"
    using assms by (induction xs) (auto simp: inj_on_def)
  then show ?thesis by simp
qed

section \<open>The inputs\<close>

datatype candidate_cell_status =
  Cell_AVAILABLE | Cell_MISSING | Cell_UNKNOWN | Cell_STALE | Cell_CONFLICT

fun candidate_cell_status_value :: "candidate_cell_status \<Rightarrow> string" where
  "candidate_cell_status_value Cell_AVAILABLE = ''AVAILABLE''"
| "candidate_cell_status_value Cell_MISSING = ''MISSING''"
| "candidate_cell_status_value Cell_UNKNOWN = ''UNKNOWN''"
| "candidate_cell_status_value Cell_STALE = ''STALE''"
| "candidate_cell_status_value Cell_CONFLICT = ''CONFLICT''"

record candidate_artifact_binding =
  binding_artifact_id :: uuid
  binding_sha256 :: string
  binding_size_bytes :: int

definition candidate_artifact_binding_init ::
  "candidate_artifact_binding \<Rightarrow> candidate_artifact_binding result" where
  "candidate_artifact_binding_init b =
     bindE (content_hash (binding_sha256 b)) (\<lambda>h.
     let b = b\<lparr>binding_sha256 := h\<rparr> in
     thenE (guardE (\<not> binding_size_bytes b < 0) (ValueError ''Artifact size_bytes must be non-negative''))
     (Inr b))"

text \<open>The value of a cell: \<open>Decimal | int | None\<close>.\<close>

datatype cell_value = Decimal_Value decimal | Integer_Value int

record candidate_population_cell =
  cell_feature_definition_id :: uuid
  cell_status :: candidate_cell_status
  cell_content :: "cell_value option"
  cell_reason_code :: string
  cell_source_lineage_hash :: string

definition candidate_population_cell_init ::
  "candidate_population_cell \<Rightarrow> candidate_population_cell result" where
  "candidate_population_cell_init c =
     bindE (content_hash (cell_source_lineage_hash c)) (\<lambda>h.
     let c = c\<lparr>cell_source_lineage_hash := h\<rparr> in
     thenE (guardE (cell_reason_code c \<noteq> []) (ValueError ''Candidate cell reason_code is required''))
     (if cell_status c = Cell_AVAILABLE then
        (case cell_content c of
           None \<Rightarrow> Inl (TypeError ''AVAILABLE Candidate cells require Decimal or integer values'')
         | Some (Decimal_Value v) \<Rightarrow>
             thenE (guardE (is_finite v)
               (ValueError ''AVAILABLE Candidate Decimal values must be finite'')) (Inr c)
         | Some (Integer_Value v) \<Rightarrow> Inr c)
      else
        thenE (guardE (cell_content c = None)
          (ValueError ''unavailable Candidate cells cannot carry a value'')) (Inr c)))"

record candidate_population_row =
  row_instrument_id :: uuid
  dataset_population_source_id :: uuid
  population_cells :: "candidate_population_cell list"

definition candidate_population_row_init ::
  "candidate_population_row \<Rightarrow> candidate_population_row result" where
  "candidate_population_row_init r =
     thenE (guardE (distinct (map cell_feature_definition_id (population_cells r)))
       (ValueError ''Candidate row Feature cells must be unique'')) (Inr r)"

record candidate_dataset_population =
  dataset_id :: uuid
  dataset_content_sha256 :: string
  dataset_decision_time :: decision_time
  dataset_universe_revision_id :: uuid
  dataset_eligibility_policy_id :: uuid
  dataset_rows :: "candidate_population_row list"
  dependency_sha256 :: "string option"

definition candidate_dataset_population_init ::
  "candidate_dataset_population \<Rightarrow> candidate_dataset_population result" where
  "candidate_dataset_population_init p =
     bindE (content_hash (dataset_content_sha256 p)) (\<lambda>dataset_hash.
     bindE (case dependency_sha256 p of None \<Rightarrow> Inr dataset_hash | Some h \<Rightarrow> content_hash h)
       (\<lambda>dependency_hash.
     let p = p\<lparr>dataset_content_sha256 := dataset_hash, dependency_sha256 := Some dependency_hash\<rparr> in
     thenE (guardE (distinct (map row_instrument_id (dataset_rows p)))
       (ValueError ''Candidate population instruments must be unique''))
     (thenE (guardE (distinct (map dataset_population_source_id (dataset_rows p)))
       (ValueError ''Candidate population sources must be unique''))
     (Inr p))))"

definition row_count :: "candidate_dataset_population \<Rightarrow> nat" where
  "row_count p = length (dataset_rows p)"

section \<open>Well-formed inputs\<close>

text \<open>What the constructors guarantee of a value, the types of the rest of the code.\<close>

definition cell_ok :: "candidate_population_cell \<Rightarrow> bool" where
  "cell_ok c \<longleftrightarrow> content_hash_ok (cell_source_lineage_hash c) \<and> cell_reason_code c \<noteq> []
     \<and> (case cell_content c of
          None \<Rightarrow> cell_status c \<noteq> Cell_AVAILABLE
        | Some (Decimal_Value v) \<Rightarrow> cell_status c = Cell_AVAILABLE \<and> is_finite v
        | Some (Integer_Value v) \<Rightarrow> cell_status c = Cell_AVAILABLE)"

lemma candidate_population_cell_init_iff:
  "candidate_population_cell_init c = Inr c' \<longleftrightarrow> cell_ok c \<and> c' = c"
  by (auto simp: candidate_population_cell_init_def cell_ok_def bindE_Inr_iff Let_def
      split: option.splits cell_value.splits if_splits)

definition row_ok :: "candidate_population_row \<Rightarrow> bool" where
  "row_ok r \<longleftrightarrow> distinct (map cell_feature_definition_id (population_cells r))
     \<and> list_all cell_ok (population_cells r)"

definition dataset_ok :: "candidate_dataset_population \<Rightarrow> bool" where
  "dataset_ok p \<longleftrightarrow> content_hash_ok (dataset_content_sha256 p)
     \<and> (\<exists>h. dependency_sha256 p = Some h \<and> content_hash_ok h)
     \<and> distinct (map row_instrument_id (dataset_rows p))
     \<and> distinct (map dataset_population_source_id (dataset_rows p))
     \<and> list_all row_ok (dataset_rows p)"

lemma candidate_dataset_population_init_ok:
  assumes "candidate_dataset_population_init p = Inr q" and "list_all row_ok (dataset_rows p)"
  shows "dataset_ok q \<and> dataset_rows q = dataset_rows p"
  using assms
  by (auto simp: candidate_dataset_population_init_def dataset_ok_def bindE_Inr_iff Let_def
      split: option.splits if_splits)

end
