(* ===== verification/Candidate_Policy.thy ===== *)
theory Candidate_Policy
  imports Candidate_Inputs
begin

text \<open>
  \<open>selection/domain/candidate_policy.py\<close>: the ranking policy, its components, the payload
  of a declared weight and the policy's content hash. The numeric limits are parameters of
  the payload's guard only through the two constants of the module.
\<close>

section \<open>Weights\<close>

definition POSTGRES_NUMERIC_MAX_INTEGER_DIGITS :: int where
  "POSTGRES_NUMERIC_MAX_INTEGER_DIGITS = 131072"

definition POSTGRES_NUMERIC_MAX_FRACTIONAL_DIGITS :: int where
  "POSTGRES_NUMERIC_MAX_FRACTIONAL_DIGITS = 16383"

text \<open>The physical limits of \<open>numeric\<close>, on a number of digits and an exponent.\<close>

definition numeric_fits :: "nat \<Rightarrow> int \<Rightarrow> bool" where
  "numeric_fits digits ex \<longleftrightarrow>
     \<not> (max (int digits + ex) 0 > POSTGRES_NUMERIC_MAX_INTEGER_DIGITS
        \<or> max (- ex) 0 > POSTGRES_NUMERIC_MAX_FRACTIONAL_DIGITS)"

text \<open>The loop that drops trailing zeros of the digits.\<close>

fun pop_zeros :: "string \<Rightarrow> int \<Rightarrow> string \<times> int" where
  "pop_zeros ds e =
     (if length ds > 1 \<and> last ds = CHR ''0'' then pop_zeros (butlast ds) (e + 1) else (ds, e))"

declare pop_zeros.simps [simp del]

definition canonical_decimal_payload :: "decimal \<Rightarrow> pyval result" where
  "canonical_decimal_payload d =
     (case d of
        Fin s c e \<Rightarrow>
          (case pop_zeros (dec_digits c) e of (ds, ex) \<Rightarrow>
             thenE (guardE (numeric_fits (length ds) ex)
               (ValueError ''declared_weight exceeds PostgreSQL numeric physical limits''))
             (Inr (PMapping [(''coefficient'', PStr ds), (''exponent'', PInt ex)])))
      | _ \<Rightarrow> Inl (ValueError ''declared_weight must be finite''))"

section \<open>Components\<close>

datatype candidate_feature_value_type = DECIMAL_VALUES | INTEGER_VALUES

fun candidate_feature_value_type_value :: "candidate_feature_value_type \<Rightarrow> string" where
  "candidate_feature_value_type_value DECIMAL_VALUES = ''DECIMAL''"
| "candidate_feature_value_type_value INTEGER_VALUES = ''INTEGER''"

datatype desirability_direction = HIGHER_IS_BETTER | LOWER_IS_BETTER

fun desirability_direction_value :: "desirability_direction \<Rightarrow> string" where
  "desirability_direction_value HIGHER_IS_BETTER = ''HIGHER_IS_BETTER''"
| "desirability_direction_value LOWER_IS_BETTER = ''LOWER_IS_BETTER''"

record candidate_policy_component =
  candidate_policy_component_id :: uuid
  component_policy_id :: uuid
  component_code :: string
  component_ordinal :: int
  component_feature_definition_id :: uuid
  component_feature_sha256 :: string
  component_value_type :: candidate_feature_value_type
  component_direction :: desirability_direction
  declared_weight :: decimal

definition policy_code_ok :: "string \<Rightarrow> bool" where
  "policy_code_ok =
     head_tail_match is_lower (\<lambda>c. is_lower c \<or> is_digit c \<or> c = CHR ''_'') 99"

definition candidate_policy_component_init ::
  "candidate_policy_component \<Rightarrow> candidate_policy_component result" where
  "candidate_policy_component_init c =
     thenE (guardE (policy_code_ok (component_code c)) (ValueError ''component_code has an invalid format''))
     (thenE (guardE (\<not> component_ordinal c < 1) (ValueError ''component ordinal must be positive''))
     (bindE (content_hash (component_feature_sha256 c)) (\<lambda>h.
      let c = c\<lparr>component_feature_sha256 := h\<rparr> in
      thenE (guardE (is_finite (declared_weight c) \<and> \<not> dval (declared_weight c) \<le> 0)
        (ValueError ''declared_weight must be finite and positive''))
      (bindE (canonical_decimal_payload (declared_weight c)) (\<lambda>_. Inr c)))))"

text \<open>A ContentHash inside a hashed value is the dataclass of one field.\<close>

definition hash_payload :: "string \<Rightarrow> pyval" where
  "hash_payload h = PDataclass [(''value'', PStr h)]"

definition component_payload :: "candidate_policy_component \<Rightarrow> pyval result" where
  "component_payload c =
     bindE (canonical_decimal_payload (declared_weight c)) (\<lambda>weight.
     Inr (PMapping
       [(''component_code'', PStr (component_code c)),
        (''declared_weight'', weight),
        (''direction'', PStr (desirability_direction_value (component_direction c))),
        (''feature_content_sha256'', hash_payload (component_feature_sha256 c)),
        (''feature_definition_id'', PUuid (component_feature_definition_id c)),
        (''feature_value_type'', PStr (candidate_feature_value_type_value (component_value_type c))),
        (''ordinal'', PInt (component_ordinal c))]))"

section \<open>The policy\<close>

record candidate_policy =
  candidate_policy_id :: uuid
  policy_code :: string
  policy_version :: int
  code_artifact :: candidate_artifact_binding
  config_artifact :: candidate_artifact_binding
  requested_top_k :: int
  policy_components :: "candidate_policy_component list"
  normalization_method :: string
  rank_method :: string
  missing_policy :: string
  selection_method :: string
  tie_policy :: string
  score_semantics :: string
  decimal_projection_method :: string
  decimal_projection_version :: int
  policy_content_sha256 :: string

definition expected_contract :: "(string \<times> (candidate_policy \<Rightarrow> string) \<times> string) list" where
  "expected_contract =
     [(''normalization_method'', normalization_method, ''ARITHMETIC_MIDRANK''),
      (''rank_method'', rank_method, ''COMPETITION''),
      (''missing_policy'', missing_policy, ''STRICT_COMPLETE_CASE''),
      (''selection_method'', selection_method, ''TOP_K''),
      (''tie_policy'', tie_policy, ''INCLUDE_ALL_BOUNDARY_TIES''),
      (''score_semantics'', score_semantics, ''DESCRIPTIVE_RANK_SCORE''),
      (''decimal_projection_method'', decimal_projection_method,
       ''EXACT_RATIONAL_ADAPTIVE_HALF_EVEN'')]"

definition contract_violation :: "candidate_policy \<Rightarrow> py_error option" where
  "contract_violation p =
     map_option (\<lambda>(name, get, expected). ValueError (''Candidate V1 requires '' @ name @ ''='' @ expected))
       (find (\<lambda>(name, get, expected). get p \<noteq> expected) expected_contract)"

definition artifact_payload :: "candidate_artifact_binding \<Rightarrow> pyval" where
  "artifact_payload b =
     PDataclass [(''artifact_id'', PUuid (binding_artifact_id b)),
       (''content_sha256'', hash_payload (binding_sha256 b)),
       (''size_bytes'', PInt (binding_size_bytes b))]"

text \<open>The mapping the content hash is taken of; \<open>p\<close> has its components sorted already.\<close>

definition policy_payload :: "candidate_policy \<Rightarrow> pyval result" where
  "policy_payload p =
     bindE (mapE component_payload (policy_components p)) (\<lambda>components.
     Inr (PMapping
       [(''components'', PSequence components),
        (''code_artifact'', artifact_payload (code_artifact p)),
        (''config_artifact'', artifact_payload (config_artifact p)),
        (''normalization_method'', PStr (normalization_method p)),
        (''policy_code'', PStr (policy_code p)),
        (''decimal_projection_method'', PStr (decimal_projection_method p)),
        (''decimal_projection_version'', PInt (decimal_projection_version p)),
        (''rank_method'', PStr (rank_method p)),
        (''requested_top_k'', PInt (requested_top_k p)),
        (''score_semantics'', PStr (score_semantics p)),
        (''selection_method'', PStr (selection_method p)),
        (''tie_policy'', PStr (tie_policy p)),
        (''version'', PInt (policy_version p)),
        (''missing_policy'', PStr (missing_policy p))]))"

definition candidate_policy_init :: "candidate_policy \<Rightarrow> candidate_policy result" where
  "candidate_policy_init p =
     thenE (guardE (policy_code_ok (policy_code p)) (ValueError ''policy_code has an invalid format''))
     (thenE (guardE (\<not> policy_version p < 1) (ValueError ''policy version must be positive''))
     (thenE (guardE (\<not> requested_top_k p < 1) (ValueError ''requested_top_k must be positive''))
     (thenE (guardE (policy_components p \<noteq> [])
       (ValueError ''CandidatePolicy requires at least one component''))
     (let components = sort_key component_ordinal (policy_components p) in
      thenE (guardE (\<not> list_ex (\<lambda>c. component_policy_id c \<noteq> candidate_policy_id p) components)
        (ValueError ''component parent CandidatePolicy identity must match''))
      (thenE (guardE (card (set (map component_ordinal components)) = length components)
        (ValueError ''component ordinals must be unique''))
      (thenE (guardE (map component_ordinal components = [1..int (length components)])
        (ValueError ''component ordinals must be contiguous from one''))
      (thenE (guardE (card (set (map component_code components)) = length components)
        (ValueError ''component codes must be unique''))
      (thenE (guardE (card (set (map candidate_policy_component_id components)) = length components)
        (ValueError ''component identities must be unique''))
      (thenE (guardE (card (set (map component_feature_definition_id components)) = length components)
        (ValueError ''FeatureDefinition identities must be unique''))
      (let p = p\<lparr>policy_components := components\<rparr> in
       thenE (errorE (contract_violation p))
       (thenE (guardE (decimal_projection_version p = 1)
         (ValueError ''Candidate V1 requires decimal_projection_version=1''))
       (bindE (policy_payload p) (\<lambda>payload.
        bindE (canonical_json_sha256 payload) (\<lambda>digest.
        bindE (content_hash digest) (\<lambda>h. Inr (p\<lparr>policy_content_sha256 := h\<rparr>))))))))))))))))"

section \<open>The payload of a weight\<close>

fun digits_value :: "string \<Rightarrow> nat" where
  "digits_value ds = foldl (\<lambda>v c. v * 10 + (of_char c - 48)) 0 ds"

lemma digits_value_dec_digits: "digits_value (dec_digits n) = n"
proof (induction n rule: dec_digits.induct)
  case (1 n)
  show ?case
  proof (cases "n < 10")
    case False
    then show ?thesis using 1 by (subst dec_digits.simps) simp
  qed (subst dec_digits.simps, simp)
qed

lemma dec_digits_inj: "dec_digits m = dec_digits n \<Longrightarrow> m = n"
  by (metis digits_value_dec_digits)

lemma digit_char_zero: "k < 10 \<Longrightarrow> char_of (48 + k :: nat) = CHR ''0'' \<longleftrightarrow> k = 0"
proof -
  have "\<forall>k \<in> set [0..<10]. char_of (48 + k :: nat) = CHR ''0'' \<longleftrightarrow> k = 0" by code_simp
  then show "k < 10 \<Longrightarrow> ?thesis" by simp
qed

text \<open>The digits left are those of a coefficient of the same value that ends in no zero.\<close>

lemma pop_zeros_dec_digits:
  assumes "0 < n"
  shows "\<exists>n' e'. pop_zeros (dec_digits n) e = (dec_digits n', e') \<and> n' mod 10 \<noteq> 0
    \<and> (of_nat n :: rat) * power_int 10 e = of_nat n' * power_int 10 e'"
  using assms
proof (induction n arbitrary: e rule: dec_digits.induct)
  case (1 n)
  show ?case
  proof (cases "n < 10 \<or> n mod 10 \<noteq> 0")
    case True
    then have "\<not> (length (dec_digits n) > 1 \<and> last (dec_digits n) = CHR ''0'')"
      using digit_char_zero [of "n mod 10"]
      by (cases "n < 10") (simp_all add: dec_digits_below dec_digits_above)
    then have "pop_zeros (dec_digits n) e = (dec_digits n, e)"
      by (subst pop_zeros.simps) auto
    moreover have "n mod 10 \<noteq> 0" using True 1 by auto
    ultimately show ?thesis by blast
  next
    case False
    then have ds: "dec_digits n = dec_digits (n div 10) @ [CHR ''0'']"
      using dec_digits_above [of n] digit_char_zero [of 0] by simp
    then have step: "pop_zeros (dec_digits n) e = pop_zeros (dec_digits (n div 10)) (e + 1)"
      by (subst pop_zeros.simps) (simp add: Suc_lessI)
    have pos: "0 < n div 10" using False by auto
    obtain n' e' where ih: "pop_zeros (dec_digits (n div 10)) (e + 1) = (dec_digits n', e')"
      "n' mod 10 \<noteq> 0"
      "(of_nat (n div 10) :: rat) * power_int 10 (e + 1) = of_nat n' * power_int 10 e'"
      using "1.IH" [OF _ pos, of "e + 1"] False by auto
    have "n = n div 10 * 10" using False by auto
    then have "(of_nat n :: rat) = of_nat (n div 10) * 10" by (metis of_nat_mult of_nat_numeral)
    then have "(of_nat n :: rat) * power_int 10 e = of_nat n' * power_int 10 e'"
      using ih(3) by (simp add: power_int_add)
    then show ?thesis using ih step by auto
  qed
qed

lemma no_trailing_zero_unique:
  assumes "(of_nat m :: rat) * power_int 10 d = of_nat n * power_int 10 e"
    and "m mod 10 \<noteq> 0" and "n mod 10 \<noteq> 0"
  shows "m = n \<and> d = e"
proof -
  have le: "d = e \<and> m = n"
    if "(of_nat m :: rat) * power_int 10 d = of_nat n * power_int 10 e" "n mod 10 \<noteq> 0" "e \<le> d"
    for m n d e
  proof -
    have "power_int (10::rat) d = 10 ^ nat (d - e) * power_int 10 e"
      using that(3) power_int_add [of "10::rat" "d - e" e] by (simp add: power_int_def)
    then have "(of_nat (m * 10 ^ nat (d - e)) :: rat) = of_nat n" using that(1) by simp
    then have eq: "m * 10 ^ nat (d - e) = n" by (simp only: of_nat_eq_iff)
    have "nat (d - e) = 0"
    proof (rule ccontr)
      assume "nat (d - e) \<noteq> 0"
      then obtain k where "nat (d - e) = Suc k" by (cases "nat (d - e)") auto
      then have "n mod 10 = 0" using eq by auto
      then show False using that(2) by simp
    qed
    then show ?thesis using eq that(3) by auto
  qed
  show ?thesis using le [OF assms(1,3)] le [OF assms(1) [symmetric] assms(2)] by (cases "e \<le> d") auto
qed

lemma positive_decimal:
  assumes "is_finite v" and "0 < dval v"
  obtains c e where "v = Fin False c e" and "0 < c"
proof (cases v)
  case (Fin s c e)
  have nn: "0 \<le> of_nat c * power_int (10::rat) e" by simp
  then show ?thesis using that assms(2) by (cases s; cases "c = 0") (auto simp: Fin)
qed (use assms in auto)

text \<open>
  The payload of a declared weight is free of spelling: two finite positive decimals are
  encoded alike exactly when they have the same value (\<open>0.50\<close>, \<open>0.5\<close> and \<open>5E-1\<close> are one
  weight), so equal weights give equal policy hashes and different weights never share one
  payload, and the limits accept or refuse a value whatever its spelling.
\<close>

theorem weight_payload_identifies_value:
  assumes "is_finite v" and "is_finite w" and "0 < dval v" and "0 < dval w"
  shows "(dval v = dval w \<longrightarrow> canonical_decimal_payload v = canonical_decimal_payload w)
    \<and> (\<forall>p. canonical_decimal_payload v = Inr p \<and> canonical_decimal_payload w = Inr p \<longrightarrow> dval v = dval w)"
proof -
  obtain c e where v: "v = Fin False c e" and c: "0 < c" using positive_decimal assms(1,3) by blast
  obtain d f where w: "w = Fin False d f" and d: "0 < d" using positive_decimal assms(2,4) by blast
  obtain c' e' where c': "pop_zeros (dec_digits c) e = (dec_digits c', e')" "c' mod 10 \<noteq> 0"
    "dval v = of_nat c' * power_int 10 e'" using pop_zeros_dec_digits [OF c, of e] by (auto simp: v)
  obtain d' f' where d': "pop_zeros (dec_digits d) f = (dec_digits d', f')" "d' mod 10 \<noteq> 0"
    "dval w = of_nat d' * power_int 10 f'" using pop_zeros_dec_digits [OF d, of f] by (auto simp: w)
  have "dval v = dval w \<longleftrightarrow> c' = d' \<and> e' = f'"
    using no_trailing_zero_unique [of c' e' d' f'] c' d' by auto
  then show ?thesis using c'(1) d'(1) dec_digits_inj [of c' d']
    by (auto simp: canonical_decimal_payload_def v w split: if_splits)
qed

theorem weight_payload_identifies_value_witness:
  "canonical_decimal_payload (Fin False 50 (- 2)) = canonical_decimal_payload (Fin False 5 (- 1))"
  using weight_payload_identifies_value [of "Fin False 50 (- 2)" "Fin False 5 (- 1)"]
  by (simp add: power_int_def power_divide)

section \<open>Accepted policies\<close>

definition component_ok :: "candidate_policy_component \<Rightarrow> bool" where
  "component_ok c \<longleftrightarrow> policy_code_ok (component_code c) \<and> 1 \<le> component_ordinal c
     \<and> content_hash_ok (component_feature_sha256 c)
     \<and> is_finite (declared_weight c) \<and> 0 < dval (declared_weight c)
     \<and> (\<exists>w. canonical_decimal_payload (declared_weight c) = Inr w)"

lemma candidate_policy_component_init_iff:
  "candidate_policy_component_init c = Inr c' \<longleftrightarrow> component_ok c \<and> c' = c"
  by (auto simp: candidate_policy_component_init_def component_ok_def bindE_Inr_iff Let_def
      not_le not_less split: if_splits)

text \<open>What the rest of the ranking relies on in a policy it is given.\<close>

definition policy_ok :: "candidate_policy \<Rightarrow> bool" where
  "policy_ok p \<longleftrightarrow> 1 \<le> requested_top_k p \<and> policy_components p \<noteq> []
     \<and> list_all component_ok (policy_components p)
     \<and> (\<forall>c \<in> set (policy_components p). component_policy_id c = candidate_policy_id p)
     \<and> map component_ordinal (policy_components p) = [1..int (length (policy_components p))]
     \<and> distinct (map component_code (policy_components p))
     \<and> distinct (map candidate_policy_component_id (policy_components p))
     \<and> distinct (map component_feature_definition_id (policy_components p))"

text \<open>The conditions on a policy whose components come in any order.\<close>

definition policy_contract :: "candidate_policy \<Rightarrow> bool" where
  "policy_contract p \<longleftrightarrow> policy_code_ok (policy_code p) \<and> 1 \<le> policy_version p
     \<and> 1 \<le> requested_top_k p \<and> policy_components p \<noteq> []
     \<and> (\<forall>c \<in> set (policy_components p). component_policy_id c = candidate_policy_id p)
     \<and> mset (map component_ordinal (policy_components p))
         = mset [1..int (length (policy_components p))]
     \<and> distinct (map component_code (policy_components p))
     \<and> distinct (map candidate_policy_component_id (policy_components p))
     \<and> distinct (map component_feature_definition_id (policy_components p))
     \<and> (\<forall>(name, get, expected) \<in> set expected_contract. get p = expected)
     \<and> decimal_projection_version p = 1"

lemma sort_key_map: "map f (sort_key f xs) = sort (map f xs)"
  by (rule properties_for_sort [symmetric]) simp_all

lemma sort_key_is_range:
  "map f (sort_key f xs) = [1..int n] \<longleftrightarrow> mset (map f xs) = mset [1..int n]"
  unfolding sort_key_map
  by (metis mset_sort properties_for_sort sorted_upto)

lemma card_set_distinct: "card (f ` set xs) = length xs \<longleftrightarrow> distinct (map f xs)"
  by (metis card_distinct distinct_card length_map set_map)

lemma sort_key_Nil_iff [simp]: "sort_key f xs = [] \<longleftrightarrow> xs = []"
  by (metis length_0_conv length_sort)

lemma distinct_map_sort_key [simp]: "distinct (map f (sort_key g xs)) \<longleftrightarrow> distinct (map f xs)"
  by (rule mset_eq_imp_distinct_iff) simp

lemma canonical_hash_payload [simp]: "canonical (hash_payload h)" "canonical (artifact_payload b)"
  by (simp_all add: hash_payload_def artifact_payload_def)

lemma canonical_decimal_payload_canonical:
  "canonical_decimal_payload d = Inr v \<Longrightarrow> canonical v"
  by (auto simp: canonical_decimal_payload_def split: decimal.splits prod.splits if_splits)

lemma policy_payload_total:
  assumes "list_all component_ok (policy_components p)"
  shows "\<exists>v h. policy_payload p = Inr v \<and> canonical_json_sha256 v = Inr h"
proof -
  have one: "\<exists>v. component_payload c = Inr v \<and> canonical v" if "component_ok c" for c
    using that canonical_decimal_payload_canonical
    by (fastforce simp: component_payload_def component_ok_def)
  then obtain vs where vs: "mapE component_payload (policy_components p) = Inr vs"
    using assms mapE_is_Inr [of component_payload "policy_components p"]
    by (metis list_all_iff)
  have "canonical v" if "v \<in> set vs" for v
    using mapE_Inr_member [OF vs that] one assms by (force simp: list_all_iff)
  then show ?thesis using vs
    by (auto simp: policy_payload_def intro!: canonical_json_sha256_total)
qed

lemma contract_violation_None:
  "contract_violation p = None \<longleftrightarrow> (\<forall>(name, get, expected) \<in> set expected_contract. get p = expected)"
  by (auto simp: contract_violation_def find_None_iff)

lemma contract_violation_sorted [simp]:
  "contract_violation (p\<lparr>policy_components := cs\<rparr>) = contract_violation p"
  by (simp add: contract_violation_def expected_contract_def)

lemma candidate_policy_init_Inr:
  "candidate_policy_init p = Inr q \<longleftrightarrow> policy_contract p \<and>
     (\<exists>v h. let s = p\<lparr>policy_components := sort_key component_ordinal (policy_components p)\<rparr>
        in policy_payload s = Inr v \<and> canonical_json_sha256 v = Inr h \<and> q = s\<lparr>policy_content_sha256 := h\<rparr>)"
  (is "_ \<longleftrightarrow> _ \<and> ?q")
proof -
  let ?s = "p\<lparr>policy_components := sort_key component_ordinal (policy_components p)\<rparr>"
  have range: "map component_ordinal (sort_key component_ordinal (policy_components p))
      = [1..int (length (policy_components p))] \<Longrightarrow>
    distinct (map component_ordinal (policy_components p))"
    by (metis distinct_upto mset_eq_imp_distinct_iff sort_key_is_range)
  have parents: "\<not> list_ex (\<lambda>c. component_policy_id c \<noteq> candidate_policy_id p)
      (sort_key component_ordinal (policy_components p)) \<longleftrightarrow>
    (\<forall>c \<in> set (policy_components p). component_policy_id c = candidate_policy_id p)"
    by (auto simp: list_ex_iff)
  show ?thesis
    using range
    by (auto simp: candidate_policy_init_def policy_contract_def bindE_Inr_iff thenE_Inr_iff Let_def
        card_set_distinct sort_key_is_range parents contract_violation_None not_less not_le
        dest: canonical_hash_ok)
qed

lemma policy_contract_sorted:
  assumes "mset (policy_components p) = mset cs"
  shows "policy_contract (p\<lparr>policy_components := cs\<rparr>) \<longleftrightarrow> policy_contract p"
proof -
  have d: "distinct (map f cs) \<longleftrightarrow> distinct (map f (policy_components p))" for f :: "_ \<Rightarrow> 'b"
    by (rule mset_eq_imp_distinct_iff) (simp add: assms)
  have "set cs = set (policy_components p)" "length cs = length (policy_components p)"
    "image_mset component_ordinal (mset cs) = image_mset component_ordinal (mset (policy_components p))"
    "cs = [] \<longleftrightarrow> policy_components p = []"
    using assms by (metis mset_eq_setD, metis size_mset, simp, metis mset_zero_iff)
  then show ?thesis by (simp add: policy_contract_def d expected_contract_def)
qed

lemma candidate_policy_init_ok:
  assumes "candidate_policy_init p = Inr q" and "list_all component_ok (policy_components p)"
  shows "policy_ok q \<and> content_hash_ok (policy_content_sha256 q)
    \<and> policy_components q = sort_key component_ordinal (policy_components p)"
  using assms
  by (auto simp: candidate_policy_init_Inr policy_ok_def policy_contract_def Let_def list_all_iff
      sort_key_is_range dest: canonical_hash_ok)

text \<open>
  A ranking policy is accepted exactly when it meets the contract of Candidate V1: at
  least one component, all of this policy, their ordinals the numbers from one in any
  order, no code, identity or feature twice, a positive version and top-k, and the seven
  closed method names. Hashing never fails, and neither the accepted policy nor its content
  hash depends on the order the components are given in.
\<close>

theorem policy_accepted_iff_contract:
  assumes "list_all component_ok (policy_components p)" and "mset (policy_components p) = mset cs"
  shows "((\<exists>q. candidate_policy_init p = Inr q) \<longleftrightarrow> policy_contract p)
    \<and> (\<forall>q. candidate_policy_init p = Inr q \<longrightarrow>
         policy_components q = sort_key component_ordinal cs
         \<and> candidate_policy_init (p\<lparr>policy_components := cs\<rparr>) = Inr q)"
proof (intro conjI allI impI)
  let ?s = "p\<lparr>policy_components := sort_key component_ordinal (policy_components p)\<rparr>"
  have "list_all component_ok (policy_components ?s)" using assms(1) by (simp add: list_all_iff)
  then show "(\<exists>q. candidate_policy_init p = Inr q) \<longleftrightarrow> policy_contract p"
    using policy_payload_total [of ?s] by (auto simp: candidate_policy_init_Inr Let_def)
next
  fix q assume q: "candidate_policy_init p = Inr q"
  then have c: "policy_contract p" by (simp add: candidate_policy_init_Inr)
  then have "distinct (map component_ordinal (policy_components p))"
    by (metis distinct_upto mset_eq_imp_distinct_iff policy_contract_def)
  then have same: "sort_key component_ordinal (policy_components p) = sort_key component_ordinal cs"
    by (rule sort_key_distinct_mset [OF assms(2)])
  then show "policy_components q = sort_key component_ordinal cs"
    using q by (auto simp: candidate_policy_init_Inr Let_def)
  show "candidate_policy_init (p\<lparr>policy_components := cs\<rparr>) = Inr q"
    using q policy_contract_sorted [OF assms(2)] by (simp add: candidate_policy_init_Inr same)
qed

definition demo_component :: "nat \<Rightarrow> candidate_policy_component" where
  "demo_component i = \<lparr>candidate_policy_component_id = of_nat (100 + i), component_policy_id = 7,
     component_code = [CHR ''m'', char_of (97 + i)], component_ordinal = int i,
     component_feature_definition_id = of_nat (200 + i),
     component_feature_sha256 = replicate 64 (CHR ''a''), component_value_type = DECIMAL_VALUES,
     component_direction = HIGHER_IS_BETTER, declared_weight = Fin False i 0\<rparr>"

definition demo_binding :: candidate_artifact_binding where
  "demo_binding = \<lparr>binding_artifact_id = 8, binding_sha256 = replicate 64 (CHR ''b''),
     binding_size_bytes = 12\<rparr>"

definition demo_policy :: "candidate_policy_component list \<Rightarrow> candidate_policy" where
  "demo_policy cs = \<lparr>candidate_policy_id = 7, policy_code = ''momentum'', policy_version = 1,
     code_artifact = demo_binding, config_artifact = demo_binding, requested_top_k = 2,
     policy_components = cs, normalization_method = ''ARITHMETIC_MIDRANK'',
     rank_method = ''COMPETITION'', missing_policy = ''STRICT_COMPLETE_CASE'',
     selection_method = ''TOP_K'', tie_policy = ''INCLUDE_ALL_BOUNDARY_TIES'',
     score_semantics = ''DESCRIPTIVE_RANK_SCORE'',
     decimal_projection_method = ''EXACT_RATIONAL_ADAPTIVE_HALF_EVEN'',
     decimal_projection_version = 1, policy_content_sha256 = ''''\<rparr>"

lemma demo_component_ok: "component_ok (demo_component 1)" "component_ok (demo_component 2)"
  by (simp_all add: component_ok_def demo_component_def policy_code_ok_def head_tail_match_def
      is_lower_def content_hash_ok_def list_all_iff is_lower_hex_def is_digit_def
      canonical_decimal_payload_def dec_digits_below pop_zeros.simps numeric_fits_def
      POSTGRES_NUMERIC_MAX_INTEGER_DIGITS_def POSTGRES_NUMERIC_MAX_FRACTIONAL_DIGITS_def)

lemma demo_policy_contract: "policy_contract (demo_policy [demo_component 2, demo_component 1])"
  by (simp add: policy_contract_def demo_policy_def demo_component_def policy_code_ok_def
      head_tail_match_def is_lower_def expected_contract_def upto.simps)

theorem policy_accepted_iff_contract_witness:
  "\<exists>q. candidate_policy_init (demo_policy [demo_component 2, demo_component 1]) = Inr q
     \<and> policy_components q = [demo_component 1, demo_component 2]"
  using policy_accepted_iff_contract [of "demo_policy [demo_component 2, demo_component 1]"
      "[demo_component 1, demo_component 2]"] demo_component_ok demo_policy_contract
  by (auto simp: demo_policy_def demo_component_def)

end
