(* ===== verification/Candidate_Results.thy ===== *)
theory Candidate_Results
  imports Candidate_Policy
begin

text \<open>
  \<open>selection/domain/candidate_results.py\<close>: the records of a ranking plan and the content hash
  over them. Counts are naturals; a difference of counts that Python could make negative is
  an integer.
\<close>

datatype candidate_disposition = SELECTED | RANKED_NOT_SELECTED | UNRANKABLE

fun candidate_disposition_value :: "candidate_disposition \<Rightarrow> string" where
  "candidate_disposition_value SELECTED = ''SELECTED''"
| "candidate_disposition_value RANKED_NOT_SELECTED = ''RANKED_NOT_SELECTED''"
| "candidate_disposition_value UNRANKABLE = ''UNRANKABLE''"

datatype candidate_ranking_status = Rank_AVAILABLE | Rank_CONSTANT | Rank_NOT_ESTIMABLE

fun candidate_ranking_status_value :: "candidate_ranking_status \<Rightarrow> string" where
  "candidate_ranking_status_value Rank_AVAILABLE = ''AVAILABLE''"
| "candidate_ranking_status_value Rank_CONSTANT = ''CONSTANT''"
| "candidate_ranking_status_value Rank_NOT_ESTIMABLE = ''NOT_ESTIMABLE''"

record candidate_set_result =
  set_id :: uuid
  set_policy_id :: uuid
  set_policy_sha256 :: string
  set_dataset_id :: uuid
  set_dataset_sha256 :: string
  set_universe_revision_id :: uuid
  set_eligibility_policy_id :: uuid
  set_decision_time :: decision_time
  decimal_projection_precision :: nat
  set_requested_top_k :: int
  component_count :: nat
  population_count :: nat
  rankable_count :: nat
  unrankable_count :: int
  selected_count :: nat
  ranked_not_selected_count :: int
  score_component_count :: nat
  available_component_count :: nat
  constant_component_count :: nat
  not_estimable_component_count :: nat
  ranking_status :: candidate_ranking_status
  composite_distinct_count :: nat
  boundary_score :: "decimal option"
  boundary_rank :: "nat option"
  strictly_above_boundary_count :: nat
  boundary_group_count :: nat
  selected_overflow_count :: int
  boundary_has_tie :: bool
  boundary_tie_expanded :: bool
  set_dependency_sha256 :: string
  set_content_sha256 :: string

record candidate_record =
  candidate_id :: uuid
  candidate_set_ref :: uuid
  candidate_policy_ref :: uuid
  candidate_dataset_id :: uuid
  candidate_instrument_id :: uuid
  candidate_population_source_id :: uuid
  dataset_source_role :: string
  disposition :: candidate_disposition
  composite_score :: "decimal option"
  competition_rank :: "nat option"
  disposition_reason :: string

record candidate_score_component_record =
  candidate_score_component_id :: uuid
  score_candidate_id :: uuid
  score_candidate_set_id :: uuid
  score_candidate_policy_id :: uuid
  score_policy_component_id :: uuid
  score_feature_definition_id :: uuid
  score_feature_sha256 :: string
  score_value_type :: candidate_feature_value_type
  score_dataset_id :: uuid
  score_instrument_id :: uuid
  raw_status :: candidate_cell_status
  raw_decimal_value :: "decimal option"
  raw_integer_value :: "int option"
  raw_reason_code :: string
  score_source_lineage_hash :: string
  normalized_weight :: decimal
  percentile :: "decimal option"
  contribution :: "decimal option"
  score_disposition :: candidate_disposition

record candidate_component_diagnostic =
  diagnostic_policy_component_id :: uuid
  diagnostic_feature_definition_id :: uuid
  observed_count :: nat
  distinct_count :: nat
  raw_available_count :: nat
  available_but_not_observed_count :: int
  missing_count :: nat
  unknown_count :: nat
  stale_count :: nat
  conflict_count :: nat
  rank_information_status :: candidate_ranking_status

record candidate_ranking_plan =
  plan_candidate_set :: candidate_set_result
  plan_candidates :: "candidate_record list"
  plan_score_components :: "candidate_score_component_record list"
  plan_component_diagnostics :: "candidate_component_diagnostic list"

section \<open>The content hash\<close>

definition optional_payload :: "('a \<Rightarrow> pyval) \<Rightarrow> 'a option \<Rightarrow> pyval" where
  "optional_payload f v = (case v of None \<Rightarrow> PNone | Some x \<Rightarrow> f x)"

definition candidate_payload :: "candidate_record \<Rightarrow> pyval" where
  "candidate_payload c = PDataclass
     [(''candidate_id'', PUuid (candidate_id c)),
      (''candidate_set_id'', PUuid (candidate_set_ref c)),
      (''candidate_policy_id'', PUuid (candidate_policy_ref c)),
      (''dataset_id'', PUuid (candidate_dataset_id c)),
      (''instrument_id'', PUuid (candidate_instrument_id c)),
      (''dataset_population_source_id'', PUuid (candidate_population_source_id c)),
      (''dataset_source_role'', PStr (dataset_source_role c)),
      (''disposition'', PStr (candidate_disposition_value (disposition c))),
      (''composite_score'', optional_payload PDecimal (composite_score c)),
      (''competition_rank'', optional_payload (\<lambda>n. PInt (int n)) (competition_rank c)),
      (''reason_code'', PStr (disposition_reason c))]"

definition score_component_payload :: "candidate_score_component_record \<Rightarrow> pyval" where
  "score_component_payload s = PDataclass
     [(''candidate_score_component_id'', PUuid (candidate_score_component_id s)),
      (''candidate_id'', PUuid (score_candidate_id s)),
      (''candidate_set_id'', PUuid (score_candidate_set_id s)),
      (''candidate_policy_id'', PUuid (score_candidate_policy_id s)),
      (''candidate_policy_component_id'', PUuid (score_policy_component_id s)),
      (''feature_definition_id'', PUuid (score_feature_definition_id s)),
      (''feature_content_sha256'', hash_payload (score_feature_sha256 s)),
      (''feature_value_type'', PStr (candidate_feature_value_type_value (score_value_type s))),
      (''dataset_id'', PUuid (score_dataset_id s)),
      (''instrument_id'', PUuid (score_instrument_id s)),
      (''raw_status'', PStr (candidate_cell_status_value (raw_status s))),
      (''raw_decimal_value'', optional_payload PDecimal (raw_decimal_value s)),
      (''raw_integer_value'', optional_payload PInt (raw_integer_value s)),
      (''raw_reason_code'', PStr (raw_reason_code s)),
      (''cell_source_lineage_hash'', hash_payload (score_source_lineage_hash s)),
      (''normalized_weight'', PDecimal (normalized_weight s)),
      (''percentile'', optional_payload PDecimal (percentile s)),
      (''contribution'', optional_payload PDecimal (contribution s)),
      (''candidate_disposition'', PStr (candidate_disposition_value (score_disposition s)))]"

definition diagnostic_payload :: "candidate_component_diagnostic \<Rightarrow> pyval" where
  "diagnostic_payload d = PDataclass
     [(''candidate_policy_component_id'', PUuid (diagnostic_policy_component_id d)),
      (''feature_definition_id'', PUuid (diagnostic_feature_definition_id d)),
      (''observed_count'', PInt (int (observed_count d))),
      (''distinct_count'', PInt (int (distinct_count d))),
      (''raw_available_count'', PInt (int (raw_available_count d))),
      (''available_but_not_observed_count'', PInt (available_but_not_observed_count d)),
      (''missing_count'', PInt (int (missing_count d))),
      (''unknown_count'', PInt (int (unknown_count d))),
      (''stale_count'', PInt (int (stale_count d))),
      (''conflict_count'', PInt (int (conflict_count d))),
      (''rank_information_status'',
       PStr (candidate_ranking_status_value (rank_information_status d)))]"

definition algorithm_payload :: "candidate_policy \<Rightarrow> pyval" where
  "algorithm_payload p = PMapping
     [(''missing_policy'', PStr (missing_policy p)),
      (''normalization_method'', PStr (normalization_method p)),
      (''decimal_projection_method'', PStr (decimal_projection_method p)),
      (''decimal_projection_version'', PInt (decimal_projection_version p)),
      (''rank_method'', PStr (rank_method p)),
      (''selection_method'', PStr (selection_method p)),
      (''tie_policy'', PStr (tie_policy p))]"

definition result_payload ::
  "candidate_policy \<Rightarrow> uuid \<Rightarrow> uuid \<Rightarrow> string \<Rightarrow> string \<Rightarrow> nat \<Rightarrow> candidate_record list \<Rightarrow>
   candidate_score_component_record list \<Rightarrow> candidate_component_diagnostic list \<Rightarrow> pyval" where
  "result_payload p sid dataset dataset_hash dependency_hash precision
       candidates scores diagnostics = PMapping
     [(''algorithm'', algorithm_payload p),
      (''candidate_set_id'', PUuid sid),
      (''candidates'', PSequence (map candidate_payload candidates)),
      (''component_diagnostics'', PSequence (map diagnostic_payload diagnostics)),
      (''dataset_content_sha256'', hash_payload dataset_hash),
      (''dataset_id'', PUuid dataset),
      (''dependency_sha256'', hash_payload dependency_hash),
      (''policy_content_sha256'', hash_payload (policy_content_sha256 p)),
      (''policy_id'', PUuid (candidate_policy_id p)),
      (''projection_precision'', PInt (int precision)),
      (''score_components'', PSequence (map score_component_payload scores))]"

definition candidate_result_content_sha256 ::
  "candidate_policy \<Rightarrow> uuid \<Rightarrow> uuid \<Rightarrow> string \<Rightarrow> string \<Rightarrow> nat \<Rightarrow> candidate_record list \<Rightarrow>
   candidate_score_component_record list \<Rightarrow> candidate_component_diagnostic list \<Rightarrow> string result" where
  "candidate_result_content_sha256 p sid dataset dataset_hash dependency_hash precision
       candidates scores diagnostics =
     bindE (canonical_json_sha256 (result_payload p sid dataset dataset_hash dependency_hash
       precision candidates scores diagnostics)) content_hash"

lemma canonical_result_payloads [simp]:
  "canonical (candidate_payload c)" "canonical (score_component_payload s)"
  "canonical (diagnostic_payload d)" "canonical (algorithm_payload p)"
  by (auto simp: candidate_payload_def score_component_payload_def diagnostic_payload_def
      algorithm_payload_def optional_payload_def split: option.splits)

lemma candidate_result_content_sha256_total:
  "\<exists>h. candidate_result_content_sha256 p s dt dh dep pr cs ss ds = Inr h \<and> content_hash_ok h"
proof -
  have "canonical (result_payload p s dt dh dep pr cs ss ds)" by (auto simp: result_payload_def)
  then obtain h where "canonical_json_sha256 (result_payload p s dt dh dep pr cs ss ds) = Inr h"
    using canonical_json_sha256_total by blast
  then show ?thesis
    using canonical_hash_ok by (auto simp: candidate_result_content_sha256_def)
qed

end
