(* ===== verification/Candidate_Ranking.thy ===== *)
theory Candidate_Ranking
  imports Candidate_Results
begin

text \<open>
  \<open>selection/domain/candidate_ranking.py\<close>: exact Candidate ranking. A \<open>Fraction\<close> is a
  rational number; dicts are association lists in insertion order, a failed lookup is
  \<open>KeyError\<close>. \<open>build_candidate_set\<close> is cut at its blank lines into one definition per pass
  over the rows or the components. Precisions are naturals; identifiers are unique by the
  constructors of the inputs.
\<close>

section \<open>Exact arithmetic\<close>

definition fraction_of :: "decimal \<Rightarrow> rat result" where
  "fraction_of d =
     (case d of Fin s c e \<Rightarrow> Inr (dval d)
      | Infinite s \<Rightarrow> Inl OverflowError
      | NaN \<Rightarrow> Inl (ValueError ''Cannot convert NaN to integer ratio''))"

definition normalize_declared_weights ::
  "candidate_policy_component list \<Rightarrow> (uuid \<times> rat) list result" where
  "normalize_declared_weights components =
     bindE (mapE (\<lambda>c. mapR (Pair (candidate_policy_component_id c)) (fraction_of (declared_weight c)))
       components) (\<lambda>pairs.
     let exact = dict_of pairs; total = sum_list (map snd exact) in
     mapE (\<lambda>(k, v). thenE (guardE (total \<noteq> 0) ZeroDivisionError) (Inr (k, v / total))) exact)"

definition arithmetic_midrank_percentiles ::
  "(uuid \<times> rat) list \<Rightarrow> desirability_direction \<Rightarrow> (uuid \<times> rat) list" where
  "arithmetic_midrank_percentiles exact direction =
     (let count = length exact in
      if count = 0 then []
      else if length (remdups (map snd exact)) = 1 then map (\<lambda>(k, v). (k, 1 / 2)) exact
      else
        let oriented = map (\<lambda>(k, v). (k, if direction = HIGHER_IS_BETTER then v else - v)) exact
        in map (\<lambda>(k, v).
             let worse_count = length (filter (\<lambda>(j, other). other < v) oriented);
                 tied_count = length (filter (\<lambda>(j, other). other = v) oriented)
             in (k, (of_nat worse_count + (of_int (int tied_count - 1) / 2)) / of_int (int count - 1)))
           oriented)"

section \<open>Projection to decimals\<close>

definition project_fraction :: "nat \<Rightarrow> rat \<Rightarrow> decimal result" where
  "project_fraction prec v =
     (case decimal_quotient prec v of
        Fin s c e \<Rightarrow>
          thenE (guardE (numeric_fits (length (dec_digits c)) e)
            (ValueError ''Candidate Decimal projection exceeds PostgreSQL numeric physical limits''))
          (Inr (Fin s c e))
      | _ \<Rightarrow> Inl (ValueError ''Candidate Decimal projection must be finite''))"

definition strictly_increasing :: "decimal list \<Rightarrow> bool" where
  "strictly_increasing ds \<longleftrightarrow> list_all (\<lambda>(l, r). dval l < dval r) (zip ds (tl ds))"

definition ALLOWED_PROJECTION_PRECISIONS :: "nat list" where
  "ALLOWED_PROJECTION_PRECISIONS = [64, 128, 256, 512, 1024, 2048, 4096]"

text \<open>
  The loop over precisions. The entry guard admits positive bounds with
  \<open>precision \<le> maximum\<close> only; the second disjunct makes the function total without it.
\<close>

function project_loop ::
  "nat \<Rightarrow> nat \<Rightarrow> ('k \<times> rat) list \<Rightarrow> (nat \<times> ('k \<times> decimal) list) result" where
  "project_loop precision maximum values =
     bindE (mapE (\<lambda>(k, v). mapR (Pair k) (project_fraction precision v)) values) (\<lambda>projected.
     bindE (mapE (project_fraction precision) (sort (remdups (map snd values)))) (\<lambda>projected_order.
     if strictly_increasing projected_order then Inr (precision, projected)
     else if precision = maximum \<or> precision = 0 then
       Inl (ValueError ''Candidate Decimal projection cannot preserve exact order at closed precision cap'')
     else project_loop (min (precision * 2) maximum) maximum values))"
  by auto
termination
  by (relation "measure (\<lambda>(precision, maximum, values).
        if precision \<le> maximum then maximum - precision else Suc maximum)") auto

declare project_loop.simps [simp del]

definition project_exact_values ::
  "('k \<times> rat) list \<Rightarrow> nat \<Rightarrow> nat \<Rightarrow> (nat \<times> ('k \<times> decimal) list) result" where
  "project_exact_values values minimum maximum =
     thenE (guardE (\<not> (minimum \<notin> set ALLOWED_PROJECTION_PRECISIONS
         \<or> maximum \<notin> set ALLOWED_PROJECTION_PRECISIONS \<or> maximum < minimum))
       (ValueError ''invalid Candidate Decimal projection precision bounds''))
     (project_loop minimum maximum values)"

section \<open>Cells\<close>

definition validate_cell_value_type ::
  "candidate_population_cell \<Rightarrow> candidate_policy_component \<Rightarrow> unit result" where
  "validate_cell_value_type cell component =
     (if cell_status cell \<noteq> Cell_AVAILABLE then Inr ()
      else if component_value_type component = DECIMAL_VALUES then
        (case cell_content cell of
           Some (Decimal_Value v) \<Rightarrow> Inr ()
         | _ \<Rightarrow> Inl (TypeError ''DECIMAL Candidate Features require Decimal values''))
      else
        (case cell_content cell of
           Some (Integer_Value v) \<Rightarrow> Inr ()
         | _ \<Rightarrow> Inl (TypeError ''INTEGER Candidate Features require integer values'')))"

definition exact_cell_value :: "candidate_population_cell \<Rightarrow> rat result" where
  "exact_cell_value cell =
     (if cell_status cell \<noteq> Cell_AVAILABLE
      then Inl (ValueError ''only AVAILABLE Candidate cells have exact values'')
      else case cell_content cell of
        None \<Rightarrow> Inl (ValueError ''only AVAILABLE Candidate cells have exact values'')
      | Some (Decimal_Value v) \<Rightarrow> fraction_of v
      | Some (Integer_Value v) \<Rightarrow> Inr (of_int v))"

definition component_status :: "nat \<Rightarrow> nat \<Rightarrow> candidate_ranking_status" where
  "component_status rankable distinct_values =
     (if rankable = 0 then Rank_NOT_ESTIMABLE
      else if distinct_values = 1 then Rank_CONSTANT
      else Rank_AVAILABLE)"

definition candidate_set_status :: "candidate_component_diagnostic list \<Rightarrow> candidate_ranking_status" where
  "candidate_set_status diagnostics =
     (if list_all (\<lambda>d. rank_information_status d = Rank_NOT_ESTIMABLE) diagnostics then Rank_NOT_ESTIMABLE
      else if list_ex (\<lambda>d. rank_information_status d = Rank_AVAILABLE) diagnostics then Rank_AVAILABLE
      else Rank_CONSTANT)"

definition status_count :: "candidate_population_cell list \<Rightarrow> candidate_cell_status \<Rightarrow> nat" where
  "status_count cells status = length (filter (\<lambda>c. cell_status c = status) cells)"

text \<open>The boundary; \<open>top_k\<close> is positive in every policy, so the index is never negative.\<close>

definition boundary_score_of :: "(uuid \<times> rat) list \<Rightarrow> int \<Rightarrow> rat option" where
  "boundary_score_of exact_scores top_k =
     (if exact_scores = [] then None
      else let scores_descending = rev (sort (map snd exact_scores))
        in Some (scores_descending ! nat (min top_k (int (length scores_descending)) - 1)))"

definition selected_reason :: "rat \<Rightarrow> rat option \<Rightarrow> bool \<Rightarrow> bool \<Rightarrow> string result" where
  "selected_reason score boundary all_rankable_selected tie_expanded =
     (case boundary of
        None \<Rightarrow> Inl (ValueError ''selected Candidate requires a boundary'')
      | Some b \<Rightarrow> Inr
          (if all_rankable_selected then ''ALL_RANKABLE_SELECTED''
           else if score > b then ''ABOVE_BOUNDARY''
           else if tie_expanded then ''BOUNDARY_TIE_INCLUDED''
           else ''AT_BOUNDARY''))"

section \<open>The passes of build_candidate_set\<close>

text \<open>\<open>all(...)\<close>, which stops at the first false element, and the comprehension with a filter.\<close>

fun allE :: "('a \<Rightarrow> bool result) \<Rightarrow> 'a list \<Rightarrow> bool result" where
  "allE f [] = Inr True"
| "allE f (x # xs) = bindE (f x) (\<lambda>b. if b then allE f xs else Inr False)"

fun filterE :: "('a \<Rightarrow> bool result) \<Rightarrow> 'a list \<Rightarrow> 'a list result" where
  "filterE f [] = Inr []"
| "filterE f (x # xs) = bindE (f x) (\<lambda>b. mapR (\<lambda>ys. if b then x # ys else ys) (filterE f xs))"

type_synonym cell_dict = "(uuid \<times> candidate_population_cell) list"

definition components_by_feature ::
  "candidate_policy_component list \<Rightarrow> (uuid \<times> candidate_policy_component) list" where
  "components_by_feature components =
     dict_of (map (\<lambda>c. (component_feature_definition_id c, c)) components)"

definition row_cells_step ::
  "(uuid \<times> candidate_policy_component) list \<Rightarrow> candidate_population_row \<Rightarrow>
   (uuid \<times> cell_dict) list \<Rightarrow> (uuid \<times> cell_dict) list result" where
  "row_cells_step by_feature row row_cells =
     (let cells = dict_of (map (\<lambda>c. (cell_feature_definition_id c, c)) (population_cells row)) in
      thenE (guardE (set (map fst by_feature) - set (map fst cells) = {})
        (ValueError ''Candidate Dataset row is missing required Feature cells''))
      (bindE (foldE (\<lambda>(feature_id, component) u.
          bindE (dict_item cells feature_id) (\<lambda>cell. validate_cell_value_type cell component))
          by_feature ()) (\<lambda>_.
       Inr (AList.update (row_instrument_id row) cells row_cells))))"

definition row_cells_of ::
  "candidate_policy_component list \<Rightarrow> candidate_population_row list \<Rightarrow>
   (uuid \<times> cell_dict) list result" where
  "row_cells_of components rows = foldE (row_cells_step (components_by_feature components)) rows []"

text \<open>\<open>row_cells[row.instrument_id][component.feature_definition_id]\<close>.\<close>

definition component_cell ::
  "(uuid \<times> cell_dict) list \<Rightarrow> candidate_population_row \<Rightarrow> candidate_policy_component \<Rightarrow>
   candidate_population_cell result" where
  "component_cell row_cells row component =
     bindE (dict_item row_cells (row_instrument_id row)) (\<lambda>cells.
     dict_item cells (component_feature_definition_id component))"

definition rankable_rows_of ::
  "candidate_policy_component list \<Rightarrow> (uuid \<times> cell_dict) list \<Rightarrow> candidate_population_row list \<Rightarrow>
   candidate_population_row list result" where
  "rankable_rows_of components row_cells rows =
     filterE (\<lambda>row. allE (\<lambda>component.
       mapR (\<lambda>cell. cell_status cell = Cell_AVAILABLE) (component_cell row_cells row component))
       components) rows"

definition component_observations ::
  "(uuid \<times> cell_dict) list \<Rightarrow> candidate_population_row list \<Rightarrow> candidate_policy_component \<Rightarrow>
   (uuid \<times> rat) list result" where
  "component_observations row_cells rankable component =
     mapR dict_of (mapE (\<lambda>row.
       bindE (component_cell row_cells row component) (\<lambda>cell.
       mapR (Pair (row_instrument_id row)) (exact_cell_value cell))) rankable)"

definition component_diagnostic ::
  "candidate_policy_component \<Rightarrow> nat \<Rightarrow> (uuid \<times> rat) list \<Rightarrow> candidate_population_cell list \<Rightarrow>
   candidate_component_diagnostic" where
  "component_diagnostic component rankable observations all_cells =
     (let raw_available = length (filter (\<lambda>c. cell_status c = Cell_AVAILABLE) all_cells);
          distinct_values = length (remdups (map snd observations))
      in \<lparr>diagnostic_policy_component_id = candidate_policy_component_id component,
          diagnostic_feature_definition_id = component_feature_definition_id component,
          observed_count = rankable,
          distinct_count = distinct_values,
          raw_available_count = raw_available,
          available_but_not_observed_count = int raw_available - int rankable,
          missing_count = status_count all_cells Cell_MISSING,
          unknown_count = status_count all_cells Cell_UNKNOWN,
          stale_count = status_count all_cells Cell_STALE,
          conflict_count = status_count all_cells Cell_CONFLICT,
          rank_information_status = component_status rankable distinct_values\<rparr>)"

type_synonym pair_dict = "((uuid \<times> uuid) \<times> rat) list"

definition component_step ::
  "(uuid \<times> cell_dict) list \<Rightarrow> candidate_population_row list \<Rightarrow> candidate_population_row list \<Rightarrow>
   candidate_policy_component \<Rightarrow> pair_dict \<times> candidate_component_diagnostic list \<Rightarrow>
   (pair_dict \<times> candidate_component_diagnostic list) result" where
  "component_step row_cells rows rankable component acc =
     (case acc of (percentiles, diagnostics) \<Rightarrow>
      bindE (component_observations row_cells rankable component) (\<lambda>observations.
      let component_percentiles =
            arithmetic_midrank_percentiles observations (component_direction component);
          percentiles = foldl (\<lambda>d (instrument, v).
            AList.update (instrument, candidate_policy_component_id component) v d)
            percentiles component_percentiles
      in bindE (mapE (\<lambda>row. component_cell row_cells row component) rows) (\<lambda>all_cells.
         Inr (percentiles, diagnostics
           @ [component_diagnostic component (length rankable) observations all_cells]))))"

definition component_pass ::
  "candidate_policy_component list \<Rightarrow> (uuid \<times> cell_dict) list \<Rightarrow> candidate_population_row list \<Rightarrow>
   candidate_population_row list \<Rightarrow> (pair_dict \<times> candidate_component_diagnostic list) result" where
  "component_pass components row_cells rows rankable =
     foldE (component_step row_cells rows rankable) components ([], [])"

definition score_component_step ::
  "(uuid \<times> rat) list \<Rightarrow> pair_dict \<Rightarrow> candidate_population_row \<Rightarrow> candidate_policy_component \<Rightarrow>
   pair_dict \<times> rat \<Rightarrow> (pair_dict \<times> rat) result" where
  "score_component_step weights percentiles row component acc =
     (case acc of (contributions, score) \<Rightarrow>
      let key = (row_instrument_id row, candidate_policy_component_id component) in
      bindE (dict_item weights (candidate_policy_component_id component)) (\<lambda>w.
      bindE (dict_item percentiles key) (\<lambda>p.
      Inr (AList.update key (w * p) contributions, score + w * p))))"

definition score_step ::
  "candidate_policy_component list \<Rightarrow> (uuid \<times> rat) list \<Rightarrow> pair_dict \<Rightarrow>
   candidate_population_row \<Rightarrow> pair_dict \<times> (uuid \<times> rat) list \<Rightarrow>
   (pair_dict \<times> (uuid \<times> rat) list) result" where
  "score_step components weights percentiles row acc =
     (case acc of (contributions, scores) \<Rightarrow>
      bindE (foldE (score_component_step weights percentiles row) components (contributions, 0))
        (\<lambda>(contributions, score).
      Inr (contributions, AList.update (row_instrument_id row) score scores)))"

definition score_pass ::
  "candidate_policy_component list \<Rightarrow> (uuid \<times> rat) list \<Rightarrow> pair_dict \<Rightarrow>
   candidate_population_row list \<Rightarrow> (pair_dict \<times> (uuid \<times> rat) list) result" where
  "score_pass components weights percentiles rankable =
     foldE (score_step components weights percentiles) rankable ([], [])"

definition exact_ranks :: "(uuid \<times> rat) list \<Rightarrow> (uuid \<times> nat) list" where
  "exact_ranks scores =
     map (\<lambda>(k, score). (k, 1 + length (filter (\<lambda>(j, other). other > score) scores))) scores"

definition selected_ids_of :: "(uuid \<times> rat) list \<Rightarrow> rat option \<Rightarrow> uuid list" where
  "selected_ids_of scores boundary =
     (case boundary of None \<Rightarrow> []
      | Some b \<Rightarrow> map fst (filter (\<lambda>(k, score). score \<ge> b) scores))"

definition count_scores :: "(rat \<Rightarrow> rat \<Rightarrow> bool) \<Rightarrow> (uuid \<times> rat) list \<Rightarrow> rat option \<Rightarrow> nat" where
  "count_scores rel scores boundary =
     (case boundary of None \<Rightarrow> 0
      | Some b \<Rightarrow> length (filter (\<lambda>(k, score). rel score b) scores))"

type_synonym projection_key = "string \<times> string \<times> string"

definition ranking_projection_inputs ::
  "(uuid \<times> rat) list \<Rightarrow> rat option \<Rightarrow> (projection_key \<times> rat) list" where
  "ranking_projection_inputs scores boundary =
     (let inputs = dict_of (map (\<lambda>(k, score). ((''score'', uuid_str k, ''''), score)) scores)
      in case boundary of None \<Rightarrow> inputs
         | Some b \<Rightarrow> AList.update (''boundary'', '''', '''') b inputs)"

definition weight_projection_step ::
  "nat \<Rightarrow> (uuid \<times> rat) list \<Rightarrow> candidate_policy_component \<Rightarrow> (projection_key \<times> decimal) list \<Rightarrow>
   (projection_key \<times> decimal) list result" where
  "weight_projection_step precision weights component projected =
     bindE (dict_item weights (candidate_policy_component_id component)) (\<lambda>w.
     bindE (project_fraction precision w) (\<lambda>d.
     Inr (AList.update (''weight'', uuid_str (candidate_policy_component_id component), '''') d
       projected)))"

definition pair_projection_step ::
  "nat \<Rightarrow> pair_dict \<Rightarrow> (uuid \<times> uuid) \<times> rat \<Rightarrow> (projection_key \<times> decimal) list \<Rightarrow>
   (projection_key \<times> decimal) list result" where
  "pair_projection_step precision contributions item projected =
     (case item of ((instrument, component), p) \<Rightarrow>
      bindE (project_fraction precision p) (\<lambda>d.
      let projected = AList.update (''percentile'', uuid_str instrument, uuid_str component) d projected in
      bindE (dict_item contributions (instrument, component)) (\<lambda>c.
      bindE (project_fraction precision c) (\<lambda>d.
      Inr (AList.update (''contribution'', uuid_str instrument, uuid_str component) d projected)))))"

definition projection_pass ::
  "candidate_policy_component list \<Rightarrow> candidate_population_row list \<Rightarrow> (uuid \<times> rat) list \<Rightarrow>
   pair_dict \<Rightarrow> pair_dict \<Rightarrow> (uuid \<times> rat) list \<Rightarrow> rat option \<Rightarrow> nat \<Rightarrow> nat \<Rightarrow>
   (nat \<times> (projection_key \<times> decimal) list) result" where
  "projection_pass components rows weights percentiles contributions scores boundary lo hi =
     bindE (project_exact_values (ranking_projection_inputs scores boundary) lo hi)
       (\<lambda>(precision, projected).
     bindE (if rows \<noteq> [] then foldE (weight_projection_step precision weights) components projected
            else Inr projected) (\<lambda>projected.
     bindE (foldE (pair_projection_step precision contributions) percentiles projected) (\<lambda>projected.
     Inr (precision, projected))))"

section \<open>Records\<close>

text \<open>The local variables of \<open>build_candidate_set\<close> that its last pass reads.\<close>

record ranking_locals =
  local_row_cells :: "(uuid \<times> cell_dict) list"
  local_rankable :: "candidate_population_row list"
  local_scores :: "(uuid \<times> rat) list"
  local_boundary :: "rat option"
  local_selected :: "uuid list"
  local_projected :: "(projection_key \<times> decimal) list"
  local_set_id :: uuid

definition candidate_set_uuid :: "candidate_policy \<Rightarrow> candidate_dataset_population \<Rightarrow> uuid" where
  "candidate_set_uuid p ds =
     uuid5 NAMESPACE_URL (''market-regime-alpha:candidate-set:v1:''
       @ uuid_str (candidate_policy_id p) @ '':'' @ uuid_str (dataset_id ds))"

definition candidate_uuid :: "uuid \<Rightarrow> uuid \<Rightarrow> uuid" where
  "candidate_uuid sid instrument =
     uuid5 NAMESPACE_URL (''market-regime-alpha:candidate:v1:'' @ uuid_str sid @ '':'' @ uuid_str instrument)"

definition score_component_uuid :: "uuid \<Rightarrow> uuid \<Rightarrow> uuid" where
  "score_component_uuid candidate component =
     uuid5 NAMESPACE_URL (''market-regime-alpha:candidate-score-component:v1:''
       @ uuid_str candidate @ '':'' @ uuid_str component)"

text \<open>Disposition, projected score, rank and reason of one row.\<close>

definition disposition_of ::
  "candidate_policy \<Rightarrow> ranking_locals \<Rightarrow> uuid \<Rightarrow>
   (candidate_disposition \<times> decimal option \<times> nat option \<times> string) result" where
  "disposition_of p l instrument =
     (if instrument \<notin> row_instrument_id ` set (local_rankable l) then
        Inr (UNRANKABLE, None, None, ''STRICT_COMPLETE_CASE_REQUIRED_FEATURE_UNAVAILABLE'')
      else if instrument \<in> set (local_selected l) then
        bindE (dict_item (local_projected l) (''score'', uuid_str instrument, '''')) (\<lambda>projected_score.
        bindE (dict_item (exact_ranks (local_scores l)) instrument) (\<lambda>rank.
        bindE (dict_item (local_scores l) instrument) (\<lambda>score.
        bindE (selected_reason score (local_boundary l)
            (length (local_selected l) = length (local_rankable l)
              \<and> requested_top_k p \<ge> int (length (local_rankable l)))
            (int (length (local_selected l)) > requested_top_k p)) (\<lambda>reason.
        Inr (SELECTED, Some projected_score, Some rank, reason)))))
      else
        bindE (dict_item (local_projected l) (''score'', uuid_str instrument, '''')) (\<lambda>projected_score.
        bindE (dict_item (exact_ranks (local_scores l)) instrument) (\<lambda>rank.
        Inr (RANKED_NOT_SELECTED, Some projected_score, Some rank, ''BELOW_BOUNDARY''))))"

text \<open>The constructor calls: the score component of a cell, and the Candidate of a row.\<close>

definition score_record ::
  "candidate_policy \<Rightarrow> candidate_dataset_population \<Rightarrow> uuid \<Rightarrow> uuid \<Rightarrow> candidate_disposition \<Rightarrow>
   candidate_policy_component \<Rightarrow> candidate_population_cell \<Rightarrow> decimal \<Rightarrow> decimal option \<Rightarrow> decimal option \<Rightarrow>
   candidate_score_component_record" where
  "score_record p ds sid instrument disp component cell weight pct contrib =
     (let cid = candidate_policy_component_id component; candidate = candidate_uuid sid instrument
      in \<lparr>candidate_score_component_id = score_component_uuid candidate cid,
          score_candidate_id = candidate,
          score_candidate_set_id = sid,
          score_candidate_policy_id = candidate_policy_id p,
          score_policy_component_id = cid,
          score_feature_definition_id = component_feature_definition_id component,
          score_feature_sha256 = component_feature_sha256 component,
          score_value_type = component_value_type component,
          score_dataset_id = dataset_id ds,
          score_instrument_id = instrument,
          raw_status = cell_status cell,
          raw_decimal_value =
            (case cell_content cell of
               Some (Decimal_Value v) \<Rightarrow>
                 if component_value_type component = DECIMAL_VALUES then Some v else None
             | _ \<Rightarrow> None),
          raw_integer_value =
            (case cell_content cell of
               Some (Integer_Value v) \<Rightarrow>
                 if component_value_type component = INTEGER_VALUES then Some v else None
             | _ \<Rightarrow> None),
          raw_reason_code = cell_reason_code cell,
          score_source_lineage_hash = cell_source_lineage_hash cell,
          normalized_weight = weight,
          percentile = pct,
          contribution = contrib,
          score_disposition = disp\<rparr>)"

definition candidate_of_row ::
  "candidate_policy \<Rightarrow> candidate_dataset_population \<Rightarrow> uuid \<Rightarrow> candidate_population_row \<Rightarrow>
   candidate_disposition \<times> decimal option \<times> nat option \<times> string \<Rightarrow> candidate_record" where
  "candidate_of_row p ds sid row result =
     (case result of (disp, projected_score, rank, reason) \<Rightarrow>
      \<lparr>candidate_id = candidate_uuid sid (row_instrument_id row),
       candidate_set_ref = sid,
       candidate_policy_ref = candidate_policy_id p,
       candidate_dataset_id = dataset_id ds,
       candidate_instrument_id = row_instrument_id row,
       candidate_population_source_id = dataset_population_source_id row,
       dataset_source_role = ''POPULATION'',
       disposition = disp,
       composite_score = projected_score,
       competition_rank = rank,
       disposition_reason = reason\<rparr>)"

definition score_record_of ::
  "candidate_policy \<Rightarrow> candidate_dataset_population \<Rightarrow> ranking_locals \<Rightarrow> candidate_population_row \<Rightarrow>
   candidate_disposition \<Rightarrow> candidate_policy_component \<Rightarrow> candidate_score_component_record result" where
  "score_record_of p ds l row disp component =
     (let cid = candidate_policy_component_id component;
          instrument = row_instrument_id row;
          projected_if_rankable = (\<lambda>name.
            if instrument \<in> row_instrument_id ` set (local_rankable l)
            then mapR Some (dict_item (local_projected l) (name, uuid_str instrument, uuid_str cid))
            else Inr None)
      in bindE (component_cell (local_row_cells l) row component) (\<lambda>cell.
         bindE (dict_item (local_projected l) (''weight'', uuid_str cid, '''')) (\<lambda>weight.
         bindE (projected_if_rankable ''percentile'') (\<lambda>pct.
         bindE (projected_if_rankable ''contribution'') (\<lambda>contrib.
         Inr (score_record p ds (local_set_id l) instrument disp component cell weight pct contrib))))))"

definition row_records ::
  "candidate_policy \<Rightarrow> candidate_dataset_population \<Rightarrow> ranking_locals \<Rightarrow> candidate_population_row \<Rightarrow>
   (candidate_record \<times> candidate_score_component_record list) result" where
  "row_records p ds l row =
     bindE (disposition_of p l (row_instrument_id row)) (\<lambda>result.
     mapR (Pair (candidate_of_row p ds (local_set_id l) row result))
       (mapE (score_record_of p ds l row (fst result)) (policy_components p)))"

text \<open>The set result, with the counts over what the passes have computed.\<close>

definition set_result ::
  "candidate_policy \<Rightarrow> candidate_dataset_population \<Rightarrow> candidate_population_row list \<Rightarrow> (uuid \<times> rat) list \<Rightarrow>
   rat option \<Rightarrow> uuid list \<Rightarrow> uuid \<Rightarrow> nat \<Rightarrow> decimal option \<Rightarrow> string \<Rightarrow>
   candidate_score_component_record list \<Rightarrow> candidate_component_diagnostic list \<Rightarrow> string \<Rightarrow>
   candidate_set_result" where
  "set_result p ds rankable_rows scores boundary selected_ids sid precision score dependency
       score_records diagnostics result_hash =
     (let selected = length selected_ids;
          rankable = length rankable_rows;
          above = count_scores (>) scores boundary;
          at_boundary = count_scores (=) scores boundary;
          with_status = (\<lambda>s. length (filter (\<lambda>d. rank_information_status d = s) diagnostics))
      in \<lparr>set_id = sid,
          set_policy_id = candidate_policy_id p,
          set_policy_sha256 = policy_content_sha256 p,
          set_dataset_id = dataset_id ds,
          set_dataset_sha256 = dataset_content_sha256 ds,
          set_universe_revision_id = dataset_universe_revision_id ds,
          set_eligibility_policy_id = dataset_eligibility_policy_id ds,
          set_decision_time = dataset_decision_time ds,
          decimal_projection_precision = precision,
          set_requested_top_k = requested_top_k p,
          component_count = length (policy_components p),
          population_count = length (dataset_rows ds),
          rankable_count = rankable,
          unrankable_count = int (length (dataset_rows ds)) - int rankable,
          selected_count = selected,
          ranked_not_selected_count = int rankable - int selected,
          score_component_count = length score_records,
          available_component_count = with_status Rank_AVAILABLE,
          constant_component_count = with_status Rank_CONSTANT,
          not_estimable_component_count = with_status Rank_NOT_ESTIMABLE,
          ranking_status = candidate_set_status diagnostics,
          composite_distinct_count = length (remdups (map snd scores)),
          boundary_score = score,
          boundary_rank = (case boundary of None \<Rightarrow> None | Some b \<Rightarrow> Some (1 + above)),
          strictly_above_boundary_count = above,
          boundary_group_count = at_boundary,
          selected_overflow_count = max 0 (int selected - requested_top_k p),
          boundary_has_tie = at_boundary > 1,
          boundary_tie_expanded = int selected > requested_top_k p,
          set_dependency_sha256 = dependency,
          set_content_sha256 = result_hash\<rparr>)"

definition set_result_of ::
  "candidate_policy \<Rightarrow> candidate_dataset_population \<Rightarrow> ranking_locals \<Rightarrow> nat \<Rightarrow> string \<Rightarrow>
   candidate_score_component_record list \<Rightarrow> candidate_component_diagnostic list \<Rightarrow> string \<Rightarrow>
   candidate_set_result result" where
  "set_result_of p ds l precision dependency score_records diagnostics result_hash =
     bindE (case local_boundary l of None \<Rightarrow> Inr None
       | Some b \<Rightarrow> mapR Some (dict_item (local_projected l) (''boundary'', '''', ''''))) (\<lambda>score.
     Inr (set_result p ds (local_rankable l) (local_scores l) (local_boundary l) (local_selected l)
       (local_set_id l) precision score dependency score_records diagnostics result_hash))"

text \<open>
  The whole plan. The constructor of a population never leaves \<open>dependency_sha256\<close> empty, so
  the cast of it always sees a hash; \<open>AssertionError\<close> marks that dead branch.
\<close>

definition build_candidate_set ::
  "candidate_policy \<Rightarrow> candidate_dataset_population \<Rightarrow> nat \<Rightarrow> nat \<Rightarrow> candidate_ranking_plan result" where
  "build_candidate_set p ds lo hi =
     (let components = policy_components p; rows = dataset_rows ds in
      bindE (row_cells_of components rows) (\<lambda>row_cells.
      bindE (rankable_rows_of components row_cells rows) (\<lambda>rankable.
      bindE (normalize_declared_weights components) (\<lambda>weights.
      bindE (component_pass components row_cells rows rankable) (\<lambda>(percentiles, diagnostics).
      bindE (score_pass components weights percentiles rankable) (\<lambda>(contributions, scores).
      let boundary = boundary_score_of scores (requested_top_k p) in
      bindE (projection_pass components rows weights percentiles contributions scores boundary lo hi)
        (\<lambda>(precision, projected).
      let l = \<lparr>local_row_cells = row_cells, local_rankable = rankable, local_scores = scores,
            local_boundary = boundary, local_selected = selected_ids_of scores boundary,
            local_projected = projected, local_set_id = candidate_set_uuid p ds\<rparr>
      in bindE (mapE (row_records p ds l) (sort_key (\<lambda>row. uuid_str (row_instrument_id row)) rows))
        (\<lambda>records.
      let candidates = map fst records; score_records = concat (map snd records) in
      bindE (optE (dependency_sha256 ds) AssertionError) (\<lambda>dependency.
      bindE (candidate_result_content_sha256 p (local_set_id l) (dataset_id ds)
          (dataset_content_sha256 ds) dependency precision candidates score_records diagnostics)
        (\<lambda>result_hash.
      bindE (set_result_of p ds l precision dependency score_records diagnostics result_hash) (\<lambda>result.
      Inr \<lparr>plan_candidate_set = result, plan_candidates = candidates,
        plan_score_components = score_records, plan_component_diagnostics = diagnostics\<rparr>)))))))))))"

end
