(* ===== verification/Candidate_Exact.thy ===== *)
theory Candidate_Exact
  imports Candidate_Ranking
begin

text \<open>
  The exact part of the ranking: midrank percentiles, normalised weights, and the
  projection to decimals that keeps every order and equality.
\<close>

section \<open>Midrank percentiles\<close>

text \<open>The percentile of one value among all, the higher the better.\<close>

definition midrank :: "rat list \<Rightarrow> rat \<Rightarrow> rat" where
  "midrank vs v =
     (if length (remdups vs) = 1 then 1 / 2
      else (of_nat (length (filter (\<lambda>u. u < v) vs)) + (of_nat (length (filter (\<lambda>u. u = v) vs)) - 1) / 2)
        / (of_nat (length vs) - 1))"

definition orient :: "desirability_direction \<Rightarrow> rat \<Rightarrow> rat" where
  "orient direction v = (if direction = HIGHER_IS_BETTER then v else - v)"

lemma remdups_orient: "length (remdups (map (orient direction) vs)) = length (remdups vs)"
proof -
  have "inj_on (orient direction) (set vs)" by (auto simp: inj_on_def orient_def)
  then show ?thesis by (simp add: length_remdups_card_conv card_image)
qed

lemma remdups_uminus: "length (remdups (map uminus vs)) = length (remdups vs)" for vs :: "rat list"
  using remdups_orient [of LOWER_IS_BETTER vs] by (simp add: orient_def [abs_def])

lemma percentiles_midrank:
  "arithmetic_midrank_percentiles exact direction =
     map (\<lambda>(k, v). (k, midrank (map (orient direction) (map snd exact)) (orient direction v))) exact"
proof -
  have count: "length (filter (\<lambda>(j, other). P other) (map (\<lambda>(k, v). (k, orient direction v)) exact))
      = length (filter P (map (orient direction) (map snd exact)))" for P
    by (simp add: filter_map comp_def case_prod_beta)
  have o: "(if direction = HIGHER_IS_BETTER then v else - v) = orient direction v" for v
    by (simp add: orient_def)
  show ?thesis
    unfolding arithmetic_midrank_percentiles_def Let_def o count midrank_def remdups_orient
    by (simp add: case_prod_beta comp_def)
qed

lemma two_values:
  assumes "v \<in> set vs" "length (remdups vs) \<noteq> 1"
  shows "2 \<le> length vs"
proof -
  obtain a bs where "vs = a # bs" using assms(1) by (cases vs) auto
  then show ?thesis using assms(2) by (cases bs) auto
qed

lemma filter_pos: "v \<in> set vs \<Longrightarrow> 1 \<le> length (filter (\<lambda>u. u = v) vs)"
  by (induction vs) auto

lemma filter_split:
  "length (filter (\<lambda>u. u < v) vs) + length (filter (\<lambda>u. u = v) vs) + length (filter (\<lambda>u. v < u) vs)
     = length vs" for v :: "'a::linorder"
  by (induction vs) auto

lemma midrank_numerator:
  fixes w t n :: rat
  assumes "w + t \<le> n" "0 \<le> w" "1 \<le> t"
  shows "0 \<le> w + (t - 1) / 2 \<and> w + (t - 1) / 2 \<le> n - 1"
  using assms by (auto simp: field_simps)

lemma complement_ratio: "d \<noteq> 0 \<Longrightarrow> (d - x) / d = 1 - x / (d :: rat)"
  by (simp add: diff_divide_distrib)

lemma midrank_bounds:
  assumes "v \<in> set vs"
  shows "0 \<le> midrank vs v \<and> midrank vs v \<le> 1"
proof (cases "length (remdups vs) = 1")
  case False
  let ?w = "of_nat (length (filter (\<lambda>u. u < v) vs)) :: rat"
  let ?t = "of_nat (length (filter (\<lambda>u. u = v) vs)) :: rat"
  have n: "2 \<le> length vs" by (rule two_values [OF assms False])
  have t: "1 \<le> ?t" using filter_pos [OF assms] by (metis of_nat_1 of_nat_le_iff)
  have "length (filter (\<lambda>u. u < v) vs) + length (filter (\<lambda>u. u = v) vs) \<le> length vs"
    using filter_split [of v vs] by linarith
  then have "?w + ?t \<le> of_nat (length vs)" by (metis of_nat_add of_nat_le_iff)
  moreover have "0 \<le> ?w" by simp
  ultimately have "0 \<le> ?w + (?t - 1) / 2 \<and> ?w + (?t - 1) / 2 \<le> of_nat (length vs) - 1"
    using t by (intro midrank_numerator)
  moreover have "0 < of_nat (length vs) - (1::rat)" using n by simp
  ultimately show ?thesis using False by (simp add: midrank_def)
qed (simp add: midrank_def)

lemma filter_less_mono:
  fixes u v :: rat
  assumes "u < v"
  shows "length (filter (\<lambda>x. x < u) vs) + length (filter (\<lambda>x. x = u) vs) \<le> length (filter (\<lambda>x. x < v) vs)"
  using assms by (induction vs) auto

lemma midrank_less:
  assumes "u \<in> set vs" "v \<in> set vs" "u < v"
  shows "midrank vs u < midrank vs v"
proof -
  have many: "length (remdups vs) \<noteq> 1"
  proof
    assume "length (remdups vs) = 1"
    then obtain a where "remdups vs = [a]" by (metis One_nat_def length_0_conv length_Suc_conv)
    then have "set vs = {a}" by (metis list.set(1) list.set(2) set_remdups)
    then show False using assms by simp
  qed
  let ?w = "\<lambda>v. of_nat (length (filter (\<lambda>x. x < v) vs)) :: rat"
  let ?t = "\<lambda>v. of_nat (length (filter (\<lambda>x. x = v) vs)) :: rat"
  have "?w u + ?t u \<le> ?w v"
    using filter_less_mono [OF assms(3), of vs] by (metis of_nat_add of_nat_le_iff)
  moreover have "1 \<le> ?t u" "1 \<le> ?t v"
    using filter_pos assms(1,2) by (metis of_nat_1 of_nat_le_iff)+
  ultimately have "?w u + (?t u - 1) / 2 < ?w v + (?t v - 1) / 2" by (simp add: field_simps)
  moreover have "0 < of_nat (length vs) - (1::rat)"
    using two_values [OF assms(1) many] by simp
  ultimately show ?thesis using many by (simp add: midrank_def divide_strict_right_mono)
qed

lemma midrank_less_iff:
  "u \<in> set vs \<Longrightarrow> v \<in> set vs \<Longrightarrow> midrank vs u < midrank vs v \<longleftrightarrow> u < v"
  by (metis linorder_less_linear midrank_less order_less_asym)

lemma midrank_reversed:
  assumes "v \<in> set vs"
  shows "midrank (map uminus vs) (- v) = 1 - midrank vs v"
proof (cases "length (remdups vs) = 1")
  case True
  then show ?thesis by (simp add: midrank_def remdups_uminus)
next
  case False
  let ?w = "of_nat (length (filter (\<lambda>u. u < v) vs)) :: rat"
  let ?t = "of_nat (length (filter (\<lambda>u. u = v) vs)) :: rat"
  let ?b = "of_nat (length (filter (\<lambda>u. v < u) vs)) :: rat"
  let ?n = "of_nat (length vs) :: rat"
  have rev: "length (remdups (map uminus vs)) \<noteq> 1"
    using False by (simp add: remdups_uminus)
  have n: "?n - 1 \<noteq> 0" using two_values [OF assms False] by simp
  have sum: "?w + ?t + ?b = ?n" using filter_split [of v vs] by (metis of_nat_add)
  have "midrank (map uminus vs) (- v) = (?b + (?t - 1) / 2) / (?n - 1)"
    using rev by (simp add: midrank_def filter_map comp_def)
  also have "?b + (?t - 1) / 2 = (?n - 1) - (?w + (?t - 1) / 2)" using sum by (simp add: field_simps)
  also have "\<dots> / (?n - 1) = 1 - (?w + (?t - 1) / 2) / (?n - 1)"
    by (rule complement_ratio [OF n])
  also have "\<dots> = 1 - midrank vs v" using False by (simp add: midrank_def)
  finally show ?thesis .
qed

lemma sum_list_swap:
  "sum_list (map (\<lambda>x. sum_list (map (f x) ys)) xs) = sum_list (map (\<lambda>y. sum_list (map (\<lambda>x. f x y) xs)) ys)"
  for f :: "'a \<Rightarrow> 'b \<Rightarrow> rat"
  by (induction xs) (simp_all add: sum_list_addf)

lemma length_filter_sum: "(of_nat (length (filter P xs)) :: rat) = sum_list (map (\<lambda>x. if P x then 1 else 0) xs)"
  by (induction xs) simp_all

lemma sum_list_div: "sum_list (map (\<lambda>x. f x / c) xs) = sum_list (map f xs) / (c :: rat)"
  by (induction xs) (simp_all add: add_divide_distrib)

lemma sum_list_const: "sum_list (map (\<lambda>x. c) xs) = of_nat (length xs) * (c :: rat)"
  by (induction xs) (simp_all add: algebra_simps)

lemma sum_midrank: "sum_list (map (midrank vs) vs) = of_nat (length vs) / 2"
proof (cases "length (remdups vs) = 1 \<or> vs = []")
  case True
  then have "vs = [] \<or> midrank vs = (\<lambda>v. 1 / 2)" by (auto simp: midrank_def)
  then show ?thesis by (auto simp: sum_list_const)
next
  case False
  let ?n = "of_nat (length vs) :: rat"
  let ?g = "\<lambda>v u. (if u < v then 1 else 0) + (if u = v then 1 else 0) / (2 :: rat)"
  obtain v where "v \<in> set vs" using False by (cases vs) auto
  then have n: "?n - 1 \<noteq> 0" using two_values [of v vs] False by simp
  have one: "midrank vs v = (sum_list (map (?g v) vs) - 1 / 2) / (?n - 1)" for v
  proof -
    have half: "a + (b - 1) / 2 = (a + b / 2) - 1 / 2" for a b :: rat by (simp add: field_simps)
    show ?thesis using False
      by (simp only: midrank_def length_filter_sum sum_list_addf sum_list_div half) simp
  qed
  have "?g v u + ?g u v = 1" for u v :: rat by (auto simp: not_less)
  then have "sum_list (map (\<lambda>v. sum_list (map (\<lambda>u. ?g v u + ?g u v) vs)) vs) = ?n * ?n"
    by (simp add: sum_list_const)
  moreover have "sum_list (map (\<lambda>v. sum_list (map (\<lambda>u. ?g u v) vs)) vs)
      = sum_list (map (\<lambda>v. sum_list (map (?g v) vs)) vs)" by (rule sum_list_swap)
  ultimately have S: "sum_list (map (\<lambda>v. sum_list (map (?g v) vs)) vs) = ?n * ?n / 2"
    by (simp only: sum_list_addf)
  have "sum_list (map (midrank vs) vs)
      = (sum_list (map (\<lambda>v. sum_list (map (?g v) vs)) vs) - ?n * (1 / 2)) / (?n - 1)"
    unfolding one
    by (simp add: sum_list_subtractf sum_list_const sum_list_div del: times_divide_eq_right)
  also have "\<dots> = ?n / 2" unfolding S using n by (simp add: field_simps)
  finally show ?thesis .
qed

text \<open>
  Midrank percentiles: every observation gets one between 0 and 1 under its own identity,
  a better value a strictly greater one and equal values the same, they sum to half the
  number of observations, and reversing the direction replaces each by its complement.
\<close>

theorem percentiles_rank_observations:
  fixes obs :: "(uuid \<times> rat) list"
  defines "ps \<equiv> arithmetic_midrank_percentiles obs"
  shows "map fst (ps dir) = map fst obs
    \<and> (\<forall>p \<in> set (map snd (ps dir)). 0 \<le> p \<and> p \<le> 1)
    \<and> (\<forall>i < length obs. \<forall>j < length obs.
         (snd (ps HIGHER_IS_BETTER ! i) < snd (ps HIGHER_IS_BETTER ! j) \<longleftrightarrow> snd (obs ! i) < snd (obs ! j))
         \<and> snd (ps LOWER_IS_BETTER ! i) = 1 - snd (ps HIGHER_IS_BETTER ! i))
    \<and> sum_list (map snd (ps dir)) = of_nat (length obs) / 2"
proof -
  let ?vs = "\<lambda>d. map (orient d) (map snd obs)"
  have ps: "map snd (ps d) = map (midrank (?vs d)) (?vs d)" "map fst (ps d) = map fst obs"
    "\<And>i. i < length obs \<Longrightarrow> snd (ps d ! i) = midrank (?vs d) (orient d (snd (obs ! i)))" for d
    by (simp_all add: ps_def percentiles_midrank case_prod_beta comp_def)
  have id: "?vs HIGHER_IS_BETTER = map snd obs" "?vs LOWER_IS_BETTER = map uminus (map snd obs)"
    by (simp_all add: orient_def)
  have member: "snd (obs ! i) \<in> set (map snd obs)" if "i < length obs" for i using that by auto
  have "\<forall>p \<in> set (map snd (ps dir)). 0 \<le> p \<and> p \<le> 1"
    unfolding ps(1) using midrank_bounds [of _ "?vs dir"] by auto
  moreover have "snd (ps HIGHER_IS_BETTER ! i) < snd (ps HIGHER_IS_BETTER ! j) \<longleftrightarrow> snd (obs ! i) < snd (obs ! j)"
    if "i < length obs" "j < length obs" for i j
    unfolding ps(3) [OF that(1)] ps(3) [OF that(2)] id
    using midrank_less_iff [OF member [OF that(1)] member [OF that(2)]] by (simp add: orient_def)
  moreover have "snd (ps LOWER_IS_BETTER ! i) = 1 - snd (ps HIGHER_IS_BETTER ! i)"
    if "i < length obs" for i
    unfolding ps(3) [OF that] id using midrank_reversed [OF member [OF that]] by (simp add: orient_def)
  moreover have "sum_list (map snd (ps dir)) = of_nat (length obs) / 2"
    unfolding ps(1) using sum_midrank [of "?vs dir"] by simp
  ultimately show ?thesis using ps(2) by blast
qed

theorem percentiles_rank_observations_witness:
  "snd (arithmetic_midrank_percentiles [(1, 3), (2, 5), (3, 3)] HIGHER_IS_BETTER ! 0)
     < snd (arithmetic_midrank_percentiles [(1, 3), (2, 5), (3, 3)] HIGHER_IS_BETTER ! 1)"
proof -
  have "\<forall>i < length [(1::uuid, 3::rat), (2, 5), (3, 3)]. \<forall>j < length [(1::uuid, 3::rat), (2, 5), (3, 3)].
      snd (arithmetic_midrank_percentiles [(1, 3), (2, 5), (3, 3)] HIGHER_IS_BETTER ! i)
        < snd (arithmetic_midrank_percentiles [(1, 3), (2, 5), (3, 3)] HIGHER_IS_BETTER ! j)
      \<longleftrightarrow> snd ([(1::uuid, 3::rat), (2, 5), (3, 3)] ! i) < snd ([(1::uuid, 3::rat), (2, 5), (3, 3)] ! j)"
    using percentiles_rank_observations [of "[(1, 3), (2, 5), (3, 3)]" HIGHER_IS_BETTER] by blast
  then show ?thesis by (auto dest!: spec [of _ 0] spec [of _ 1])
qed

section \<open>Weights\<close>

lemma fraction_of_component: "component_ok c \<Longrightarrow> fraction_of (declared_weight c) = Inr (dval (declared_weight c))"
  by (cases "declared_weight c") (auto simp: component_ok_def fraction_of_def)

definition total_weight :: "candidate_policy_component list \<Rightarrow> rat" where
  "total_weight cs = sum_list (map (\<lambda>c. dval (declared_weight c)) cs)"

definition weight_of :: "candidate_policy_component list \<Rightarrow> candidate_policy_component \<Rightarrow> rat" where
  "weight_of cs c = dval (declared_weight c) / total_weight cs"

lemma total_weight_pos: "cs \<noteq> [] \<Longrightarrow> list_all component_ok cs \<Longrightarrow> 0 < total_weight cs"
proof (induction cs)
  case (Cons c cs)
  then show ?case by (cases cs) (auto simp: total_weight_def component_ok_def intro: add_pos_pos)
qed simp

lemma normalize_declared_weights_ok:
  assumes "list_all component_ok cs" "cs \<noteq> []" "distinct (map candidate_policy_component_id cs)"
  shows "normalize_declared_weights cs
    = Inr (map (\<lambda>c. (candidate_policy_component_id c, weight_of cs c)) cs)"
proof -
  let ?pairs = "map (\<lambda>c. (candidate_policy_component_id c, dval (declared_weight c))) cs"
  have "mapE (\<lambda>c. mapR (Pair (candidate_policy_component_id c)) (fraction_of (declared_weight c))) cs
      = Inr ?pairs"
    using assms(1) by (intro mapE_all_Inr) (simp add: fraction_of_component list_all_iff mapR_def)
  moreover have "dict_of ?pairs = ?pairs" using assms(3) by (simp add: comp_def)
  moreover have "sum_list (map snd ?pairs) = total_weight cs" by (simp add: total_weight_def comp_def)
  moreover have "total_weight cs \<noteq> 0" using total_weight_pos [OF assms(2,1)] by simp
  moreover from this have "mapE (\<lambda>(k, v). thenE (guardE (total_weight cs \<noteq> 0) ZeroDivisionError)
      (Inr (k, v / total_weight cs))) ?pairs = Inr (map (\<lambda>(k, v). (k, v / total_weight cs)) ?pairs)"
    by (intro mapE_all_Inr) auto
  ultimately show ?thesis by (simp add: normalize_declared_weights_def Let_def weight_of_def)
qed

lemma weight_of_pos: "list_all component_ok cs \<Longrightarrow> c \<in> set cs \<Longrightarrow> 0 < weight_of cs c"
  using total_weight_pos [of cs]
  by (cases "cs = []") (auto simp: weight_of_def list_all_iff component_ok_def intro!: divide_pos_pos)

lemma weight_of_sum: "cs \<noteq> [] \<Longrightarrow> list_all component_ok cs \<Longrightarrow> sum_list (map (weight_of cs) cs) = 1"
  using total_weight_pos [of cs] by (simp add: weight_of_def [abs_def] sum_list_div total_weight_def)

text \<open>
  The declared weights of an accepted policy are normalised exactly: one positive weight
  per component under its identity, in the declared proportions, with sum exactly 1.
\<close>

theorem weights_normalized:
  assumes "list_all component_ok cs" and "cs \<noteq> []" and "distinct (map candidate_policy_component_id cs)"
  shows "\<exists>ws. normalize_declared_weights cs = Inr ws
    \<and> map fst ws = map candidate_policy_component_id cs
    \<and> (\<forall>w \<in> set (map snd ws). 0 < w \<and> w \<le> 1) \<and> sum_list (map snd ws) = 1
    \<and> (\<forall>i < length cs. \<forall>j < length cs.
         snd (ws ! i) * dval (declared_weight (cs ! j)) = snd (ws ! j) * dval (declared_weight (cs ! i)))"
proof -
  let ?ws = "map (\<lambda>c. (candidate_policy_component_id c, weight_of cs c)) cs"
  have pos: "\<forall>w \<in> set (map (weight_of cs) cs). 0 < w" using weight_of_pos [OF assms(1)] by auto
  have sum: "sum_list (map (weight_of cs) cs) = 1" by (rule weight_of_sum [OF assms(2,1)])
  have "\<forall>w \<in> set (map (weight_of cs) cs). w \<le> 1"
    using member_le_sum_list [of _ "map (weight_of cs) cs"] pos sum by force
  then have "\<forall>w \<in> set (map snd ?ws). 0 < w \<and> w \<le> 1" using pos by (simp add: comp_def)
  moreover have "sum_list (map snd ?ws) = 1" using sum by (simp add: comp_def)
  moreover have "snd (?ws ! i) * dval (declared_weight (cs ! j)) = snd (?ws ! j) * dval (declared_weight (cs ! i))"
    if "i < length cs" "j < length cs" for i j using that by (simp add: weight_of_def)
  ultimately show ?thesis using normalize_declared_weights_ok [OF assms] by (auto simp: comp_def)
qed

theorem weights_normalized_witness:
  "\<exists>ws. normalize_declared_weights [demo_component 1, demo_component 2] = Inr ws
    \<and> sum_list (map snd ws) = 1"
proof -
  have "list_all component_ok [demo_component 1, demo_component 2]" using demo_component_ok by simp
  moreover have "distinct (map candidate_policy_component_id [demo_component 1, demo_component 2])"
    by (simp add: demo_component_def)
  ultimately show ?thesis
    using weights_normalized [of "[demo_component 1, demo_component 2]"] by auto
qed

section \<open>Projection\<close>

lemma project_fraction_value:
  "0 < prec \<Longrightarrow> project_fraction prec v = Inr d \<Longrightarrow> d = decimal_quotient prec v \<and> dval d = round_sig 10 prec v"
proof -
  assume prec: "0 < prec" and d: "project_fraction prec v = Inr d"
  have "d = decimal_quotient prec v"
    using d by (simp add: project_fraction_def split: decimal.splits if_splits)
  then show ?thesis using decimal_quotient_value [OF prec] by simp
qed

lemma strictly_increasing_wrt: "strictly_increasing ds \<longleftrightarrow> sorted_wrt (<) (map dval ds)"
proof (induction ds)
  case (Cons d ds)
  show ?case
  proof (cases ds)
    case (Cons e es)
    have "strictly_increasing (d # ds) \<longleftrightarrow> dval d < dval e \<and> strictly_increasing ds"
      by (simp add: strictly_increasing_def Cons)
    then show ?thesis using Cons.IH by (auto simp: Cons intro: order_less_trans)
  qed (simp add: strictly_increasing_def)
qed (simp add: strictly_increasing_def)

text \<open>A projection keeps the order of the values when the list of its distinct values grows.\<close>

definition order_kept :: "nat \<Rightarrow> rat set \<Rightarrow> bool" where
  "order_kept prec vs \<longleftrightarrow> (\<forall>u \<in> vs. \<forall>v \<in> vs. u < v \<longrightarrow> round_sig 10 prec u < round_sig 10 prec v)"

lemma sorted_wrt_sort_remdups:
  "sorted_wrt (<) (map f (sort (remdups vs))) \<longleftrightarrow> (\<forall>u \<in> set vs. \<forall>v \<in> set vs. u < v \<longrightarrow> f u < f v)"
  for f :: "rat \<Rightarrow> rat"
proof -
  have s: "sorted_wrt (<) (sort (remdups vs))" by (simp add: strict_sorted_iff)
  have "sorted_wrt (<) (map f xs) \<longleftrightarrow> (\<forall>u \<in> set xs. \<forall>v \<in> set xs. u < v \<longrightarrow> f u < f v)"
    if "sorted_wrt (<) xs" for xs :: "rat list"
    using that by (induction xs) (auto dest: order_less_asym)
  from this [OF s] show ?thesis by simp
qed

lemma project_order:
  assumes "0 < prec" "mapE (project_fraction prec) (sort (remdups vs)) = Inr ds"
  shows "strictly_increasing ds \<longleftrightarrow> order_kept prec (set vs)"
proof -
  have "map dval ds = map (round_sig 10 prec) (sort (remdups vs))"
  proof (rule nth_equalityI)
    show "length (map dval ds) = length (map (round_sig 10 prec) (sort (remdups vs)))"
      using mapE_Inr_length [OF assms(2)] by simp
    fix i assume "i < length (map dval ds)"
    then show "map dval ds ! i = map (round_sig 10 prec) (sort (remdups vs)) ! i"
      using mapE_Inr_length [OF assms(2)] mapE_Inr_nth [OF assms(2), of i]
        project_fraction_value [OF assms(1)] by simp
  qed
  then show ?thesis
    by (simp only: strictly_increasing_wrt sorted_wrt_sort_remdups order_kept_def)
qed

text \<open>Where the loop stops: at the first precision that keeps the order.\<close>

lemma project_loop_Inr:
  assumes "project_loop prec hi kvs = Inr (q, ds)" and "0 < prec" and "prec \<le> hi"
  shows "prec \<le> q \<and> q \<le> hi \<and> (\<exists>n. q = min (prec * 2 ^ n) hi) \<and> order_kept q (snd ` set kvs)
    \<and> (\<forall>n. prec * 2 ^ n < q \<longrightarrow> \<not> order_kept (prec * 2 ^ n) (snd ` set kvs))
    \<and> mapE (\<lambda>(k, v). mapR (Pair k) (project_fraction q v)) kvs = Inr ds"
  using assms
proof (induction prec hi kvs rule: project_loop.induct)
  case (1 prec hi kvs)
  obtain proj order where step: "mapE (\<lambda>(k, v). mapR (Pair k) (project_fraction prec v)) kvs = Inr proj"
    "mapE (project_fraction prec) (sort (remdups (map snd kvs))) = Inr order"
    using "1.prems"(1) by (subst (asm) project_loop.simps) (auto simp: bindE_Inr_iff)
  have kept: "strictly_increasing order \<longleftrightarrow> order_kept prec (snd ` set kvs)"
    using project_order [OF "1.prems"(2) step(2)] by simp
  have loop: "project_loop prec hi kvs =
      (if strictly_increasing order then Inr (prec, proj)
       else if prec = hi \<or> prec = 0 then
         Inl (ValueError ''Candidate Decimal projection cannot preserve exact order at closed precision cap'')
       else project_loop (min (prec * 2) hi) hi kvs)"
    by (subst project_loop.simps) (simp add: step)
  show ?case
  proof (cases "strictly_increasing order")
    case True
    then have "q = prec" "ds = proj" using "1.prems"(1) loop by simp_all
    moreover have "\<not> prec * 2 ^ n < prec" for n by simp
    moreover have "prec = min (prec * 2 ^ 0) hi" using "1.prems"(3) by simp
    ultimately show ?thesis using True kept step(1) "1.prems" by blast
  next
    case False
    let ?next = "min (prec * 2) hi"
    have neq: "prec \<noteq> hi" using "1.prems"(1) False loop by auto
    then have rec: "project_loop ?next hi kvs = Inr (q, ds)" using "1.prems" False loop by simp
    have ih: "?next \<le> q \<and> q \<le> hi \<and> (\<exists>n. q = min (?next * 2 ^ n) hi) \<and> order_kept q (snd ` set kvs)
      \<and> (\<forall>n. ?next * 2 ^ n < q \<longrightarrow> \<not> order_kept (?next * 2 ^ n) (snd ` set kvs))
      \<and> mapE (\<lambda>(k, v). mapR (Pair k) (project_fraction q v)) kvs = Inr ds"
      using "1.IH" [OF step False _ rec] neq "1.prems" by simp
    have "\<not> order_kept (prec * 2 ^ n) (snd ` set kvs)" if less: "prec * 2 ^ n < q" for n
    proof (cases n)
      case 0 then show ?thesis using False kept by simp
    next
      case (Suc m)
      have "prec * 2 < hi"
      proof -
        have "prec * 2 \<le> prec * 2 ^ n" using Suc by simp
        then show ?thesis using less ih by linarith
      qed
      then show ?thesis using ih less Suc by (simp add: mult.assoc)
    qed
    moreover have "\<exists>n. q = min (prec * 2 ^ n) hi"
    proof -
      obtain n where "q = min (?next * 2 ^ n) hi" using ih by blast
      moreover have "min (min (prec * 2) hi * 2 ^ n) hi = min (prec * 2 ^ Suc n) hi"
      proof (cases "prec * 2 \<le> hi")
        case False
        have "prec * 2 \<le> prec * 2 * 2 ^ n" by simp
        with False have "hi \<le> prec * 2 * 2 ^ n" by linarith
        then have "hi \<le> hi * 2 ^ n" "hi \<le> prec * 2 ^ Suc n" by (simp_all add: mult.assoc)
        then show ?thesis using False by simp
      qed (simp add: mult.assoc)
      ultimately show ?thesis by metis
    qed
    moreover have "prec \<le> ?next" using "1.prems"(3) by simp
    then have "prec \<le> q" using ih by (blast intro: order_trans)
    ultimately show ?thesis using ih by blast
  qed
qed

lemma allowed_powers:
  assumes "lo \<in> set ALLOWED_PROJECTION_PRECISIONS"
  shows "q \<in> set ALLOWED_PROJECTION_PRECISIONS \<Longrightarrow> lo \<le> q \<Longrightarrow> \<exists>n. q = lo * 2 ^ n"
    and "lo * 2 ^ n \<le> 4096 \<Longrightarrow> lo * 2 ^ n \<in> set ALLOWED_PROJECTION_PRECISIONS"
proof -
  have "\<forall>lo \<in> set ALLOWED_PROJECTION_PRECISIONS. \<forall>q \<in> set ALLOWED_PROJECTION_PRECISIONS.
      lo \<le> q \<longrightarrow> (\<exists>n \<in> set [0..<7]. q = lo * 2 ^ n)"
    by (simp add: ALLOWED_PROJECTION_PRECISIONS_def upt_rec)
  then show "q \<in> set ALLOWED_PROJECTION_PRECISIONS \<Longrightarrow> lo \<le> q \<Longrightarrow> \<exists>n. q = lo * 2 ^ n"
    using assms by blast
  assume le: "lo * 2 ^ n \<le> 4096"
  have "64 \<le> lo" using assms by (auto simp: ALLOWED_PROJECTION_PRECISIONS_def)
  then have "64 * 2 ^ n \<le> (4096::nat)" using le by (meson le_trans mult_le_mono1)
  then have "(2::nat) ^ n \<le> 2 ^ 6" by simp
  then have "n \<in> set [0..<7]" by (simp only: power_increasing_iff) auto
  moreover have "\<forall>lo \<in> set ALLOWED_PROJECTION_PRECISIONS. \<forall>n \<in> set [0..<7].
      lo * 2 ^ n \<le> 4096 \<longrightarrow> lo * 2 ^ n \<in> set ALLOWED_PROJECTION_PRECISIONS"
    by (simp add: ALLOWED_PROJECTION_PRECISIONS_def upt_rec)
  ultimately show "lo * 2 ^ n \<in> set ALLOWED_PROJECTION_PRECISIONS" using assms le by blast
qed

lemma project_exact_values_Inr:
  assumes "project_exact_values kvs lo hi = Inr (q, ds)"
  shows "q \<in> set ALLOWED_PROJECTION_PRECISIONS" and "lo \<le> q" and "q \<le> hi"
    and "order_kept q (snd ` set kvs)"
    and "\<And>r. r \<in> set ALLOWED_PROJECTION_PRECISIONS \<Longrightarrow> lo \<le> r \<Longrightarrow> r < q \<Longrightarrow> \<not> order_kept r (snd ` set kvs)"
    and "mapE (\<lambda>(k, v). mapR (Pair k) (project_fraction q v)) kvs = Inr ds"
proof -
  have allowed: "lo \<in> set ALLOWED_PROJECTION_PRECISIONS" "hi \<in> set ALLOWED_PROJECTION_PRECISIONS" "lo \<le> hi"
    and loop: "project_loop lo hi kvs = Inr (q, ds)"
    using assms by (auto simp: project_exact_values_def split: if_splits)
  have bounds: "0 < lo" "hi \<le> 4096" using allowed by (auto simp: ALLOWED_PROJECTION_PRECISIONS_def)
  note run = project_loop_Inr [OF loop bounds(1) allowed(3)]
  obtain n where q: "q = min (lo * 2 ^ n) hi" using run by blast
  show "q \<in> set ALLOWED_PROJECTION_PRECISIONS"
  proof (cases "lo * 2 ^ n \<le> hi")
    case True
    then show ?thesis using q bounds(2) allowed_powers(2) [OF allowed(1), of n] by simp
  next
    case False
    then show ?thesis using q allowed(2) by simp
  qed
  show "\<not> order_kept r (snd ` set kvs)"
    if "r \<in> set ALLOWED_PROJECTION_PRECISIONS" "lo \<le> r" "r < q" for r
    using allowed_powers(1) [OF allowed(1) that(1,2)] that(3) run by blast
  show "lo \<le> q" "q \<le> hi" "order_kept q (snd ` set kvs)"
    "mapE (\<lambda>(k, v). mapR (Pair k) (project_fraction q v)) kvs = Inr ds"
    using run by (simp_all only: simp_thms)
qed

lemma order_kept_less_iff:
  assumes "order_kept q vs" "u \<in> vs" "v \<in> vs"
  shows "round_sig 10 q u < round_sig 10 q v \<longleftrightarrow> u < v"
  using assms unfolding order_kept_def by (metis linorder_less_linear order_less_asym)

text \<open>
  What \<open>project_exact_values\<close> returns keeps every equality and every strict order of the
  exact values: each value is rounded half to even to one of the closed precisions within
  the bounds, under its own key, and no smaller admitted precision would have kept the order.
\<close>

theorem projection_keeps_order:
  assumes "project_exact_values kvs lo hi = Inr (q, ds)"
  shows "q \<in> set ALLOWED_PROJECTION_PRECISIONS \<and> lo \<le> q \<and> q \<le> hi \<and> map fst ds = map fst kvs
    \<and> (\<forall>i < length kvs. dval (snd (ds ! i)) = round_sig 10 q (snd (kvs ! i)))
    \<and> (\<forall>i < length kvs. \<forall>j < length kvs.
         (dval (snd (ds ! i)) < dval (snd (ds ! j)) \<longleftrightarrow> snd (kvs ! i) < snd (kvs ! j)))
    \<and> (\<forall>r \<in> set ALLOWED_PROJECTION_PRECISIONS. lo \<le> r \<and> r < q \<longrightarrow>
         (\<exists>u \<in> snd ` set kvs. \<exists>v \<in> snd ` set kvs. u < v \<and> round_sig 10 r u = round_sig 10 r v))"
proof -
  note run = project_exact_values_Inr [OF assms]
  note m = run(6)
  have pos: "0 < q" using run(1) by (auto simp: ALLOWED_PROJECTION_PRECISIONS_def)
  have len: "length ds = length kvs" by (rule mapE_Inr_length [OF m])
  have nth: "fst (ds ! i) = fst (kvs ! i) \<and> dval (snd (ds ! i)) = round_sig 10 q (snd (kvs ! i))"
    if "i < length kvs" for i
    using mapE_Inr_nth [OF m that] project_fraction_value [OF pos]
    by (auto simp: mapR_Inr_iff split: prod.splits)
  have "map fst ds = map fst kvs" using nth len by (intro nth_equalityI) auto
  moreover have "dval (snd (ds ! i)) < dval (snd (ds ! j)) \<longleftrightarrow> snd (kvs ! i) < snd (kvs ! j)"
    if "i < length kvs" "j < length kvs" for i j
    using nth [OF that(1)] nth [OF that(2)] that run(4)
      order_kept_less_iff [of q "snd ` set kvs" "snd (kvs ! i)" "snd (kvs ! j)"] by simp
  moreover have "\<exists>u \<in> snd ` set kvs. \<exists>v \<in> snd ` set kvs. u < v \<and> round_sig 10 r u = round_sig 10 r v"
    if "r \<in> set ALLOWED_PROJECTION_PRECISIONS" "lo \<le> r \<and> r < q" for r
  proof -
    have "\<not> order_kept r (snd ` set kvs)" using run(5) that by simp
    then obtain u v where uv: "u \<in> snd ` set kvs" "v \<in> snd ` set kvs" "u < v"
      "\<not> round_sig 10 r u < round_sig 10 r v" unfolding order_kept_def by blast
    have "0 < r" using that(1) by (auto simp: ALLOWED_PROJECTION_PRECISIONS_def)
    then have "round_sig 10 r u \<le> round_sig 10 r v" using uv(3) by (intro round_sig_mono) auto
    then have "round_sig 10 r u = round_sig 10 r v" using uv(4) by simp
    with uv(1-3) show ?thesis by blast
  qed
  ultimately show ?thesis using run(1-3) nth by simp
qed

section \<open>When the projection succeeds\<close>

lemma strip_zeros_le: "strip_zeros c k = (c', k') \<Longrightarrow> c' \<le> c"
  by (induction c k arbitrary: c' k' rule: strip_zeros.induct) (force split: if_splits)+

lemma rounded_digits_bounds:
  assumes "0 < prec" "0 < a" "rounded_digits prec a = (c, e)"
  shows "c < 10 ^ prec \<and> lead 10 a - (int prec - 1) \<le> e \<and> e \<le> lead 10 a + 2 - int prec"
proof -
  let ?e = "lead 10 a - (int prec - 1)"
  have "a < power_int 10 (lead 10 a + 1)" using lead_bounds [of 10 a] assms(2) by simp
  also have "\<dots> = 10 ^ prec * power_int 10 ?e"
    using power_int_add [of "10::rat" "int prec" ?e] by simp
  finally have "a / power_int 10 ?e \<le> of_int (10 ^ prec)" by (simp add: pos_divide_le_eq)
  then have "round_half_even (a / power_int 10 ?e) \<le> 10 ^ prec" by (rule round_half_even_le)
  then have "nat (round_half_even (a / power_int 10 ?e)) \<le> nat (10 ^ prec)" by (rule nat_mono)
  then have "nat (round_half_even (a / power_int 10 ?e)) \<le> 10 ^ prec" by (simp add: nat_power_eq)
  moreover have "nat (10 ^ prec) div 10 < 10 ^ prec" by (simp add: nat_power_eq)
  ultimately show ?thesis using assms(3) by (auto simp: rounded_digits_def Let_def split: if_splits)
qed

lemma project_fraction_total:
  assumes "0 < prec" "prec \<le> 4096" "v = 0 \<or> (power_int 10 (- int k) \<le> v \<and> v \<le> 1)" "k \<le> 12000"
  shows "\<exists>d. project_fraction prec v = Inr d"
proof (cases "v = 0")
  case True
  then show ?thesis
    by (simp add: project_fraction_def decimal_quotient_def numeric_fits_def dec_digits_below
        POSTGRES_NUMERIC_MAX_INTEGER_DIGITS_def POSTGRES_NUMERIC_MAX_FRACTIONAL_DIGITS_def)
next
  case False
  then have v: "power_int 10 (- int k) \<le> v" "v \<le> 1" using assms(3) by auto
  have "0 < power_int (10::rat) (- int k)" by (rule zero_less_power_int) simp
  then have pos: "0 < v" using v(1) by linarith
  have lead: "- int k \<le> lead 10 v" "lead 10 v \<le> 0"
  proof -
    have l: "power_int 10 (lead 10 v) \<le> v" "v < power_int 10 (lead 10 v + 1)"
      using lead_bounds [of 10 v] pos by auto
    show "- int k \<le> lead 10 v"
    proof (rule ccontr)
      assume "\<not> ?thesis"
      then have "power_int (10::rat) (lead 10 v + 1) \<le> power_int 10 (- int k)"
        by (intro power_int_increasing) auto
      then show False using v(1) l(2) by linarith
    qed
    show "lead 10 v \<le> 0"
    proof (rule ccontr)
      assume "\<not> ?thesis"
      then have "power_int (10::rat) 1 \<le> power_int 10 (lead 10 v)"
        by (intro power_int_increasing) auto
      then show False using v(2) l(1) by simp
    qed
  qed
  obtain c e where ce: "rounded_digits prec v = (c, e)" by fastforce
  note b = rounded_digits_bounds [OF assms(1) pos ce]
  obtain c' e' where ce': "ideal_exponent v (c, e) = (c', e')" by fastforce
  have "c' \<le> c \<and> e \<le> e' \<and> e' \<le> max 0 e"
    using ce' strip_zeros_value [of c "nat (- e)"] strip_zeros_le [of c "nat (- e)"]
    by (auto simp: ideal_exponent_def split: prod.splits if_splits)
  moreover from this b have "length (dec_digits c') \<le> prec"
    by (simp add: length_dec_digits [OF assms(1)])
  ultimately have "numeric_fits (length (dec_digits c')) e'"
    using b lead assms(1,2,4)
    by (auto simp: numeric_fits_def POSTGRES_NUMERIC_MAX_INTEGER_DIGITS_def
        POSTGRES_NUMERIC_MAX_FRACTIONAL_DIGITS_def)
  then show ?thesis using pos ce ce' by (simp add: project_fraction_def decimal_quotient_def)
qed

text \<open>Zero, or a value in the unit interval of at least \<open>10 ^ - 12000\<close>: every score, weight and percentile.\<close>

definition projectable :: "rat \<Rightarrow> bool" where
  "projectable v \<longleftrightarrow> v = 0 \<or> (\<exists>k \<le> 12000. power_int 10 (- int k) \<le> v \<and> v \<le> 1)"

lemma projectable_total:
  "0 < prec \<Longrightarrow> prec \<le> 4096 \<Longrightarrow> projectable v \<Longrightarrow> \<exists>d. project_fraction prec v = Inr d"
  using project_fraction_total unfolding projectable_def by blast

definition cap_error :: py_error where
  "cap_error = ValueError ''Candidate Decimal projection cannot preserve exact order at closed precision cap''"

lemma project_loop_total:
  assumes "0 < prec" "prec \<le> hi" "hi \<le> 4096" "\<forall>v \<in> snd ` set kvs. projectable v"
  shows "(\<exists>r. project_loop prec hi kvs = Inr r)
    \<or> (project_loop prec hi kvs = Inl cap_error \<and> \<not> order_kept hi (snd ` set kvs))"
  using assms
proof (induction prec hi kvs rule: project_loop.induct)
  case (1 prec hi kvs)
  have one: "\<exists>d. project_fraction prec v = Inr d" if "v \<in> snd ` set kvs" for v
    using projectable_total [of prec v] "1.prems" that by auto
  have "\<forall>kv \<in> set kvs. \<exists>y. (\<lambda>(k, v). mapR (Pair k) (project_fraction prec v)) kv = Inr y"
    using one by (force simp: mapR_def)
  then obtain proj where proj: "mapE (\<lambda>(k, v). mapR (Pair k) (project_fraction prec v)) kvs = Inr proj"
    using mapE_is_Inr by blast
  have "\<forall>v \<in> set (sort (remdups (map snd kvs))). \<exists>d. project_fraction prec v = Inr d"
    using one by simp
  then obtain order where order: "mapE (project_fraction prec) (sort (remdups (map snd kvs))) = Inr order"
    using mapE_is_Inr by blast
  have loop: "project_loop prec hi kvs =
      (if strictly_increasing order then Inr (prec, proj)
       else if prec = hi \<or> prec = 0 then Inl cap_error
       else project_loop (min (prec * 2) hi) hi kvs)"
    by (subst project_loop.simps) (simp add: proj order cap_error_def)
  consider (kept) "strictly_increasing order" | (cap) "\<not> strictly_increasing order" "prec = hi"
    | (more) "\<not> strictly_increasing order" "prec \<noteq> hi" by blast
  then show ?case
  proof cases
    case cap
    then show ?thesis using loop project_order [OF "1.prems"(1) order] by simp
  next
    case more
    then have ne: "\<not> (prec = hi \<or> prec = 0)" using "1.prems" by simp
    show ?thesis using "1.IH" [OF proj order more(1) ne] "1.prems" loop more by simp
  qed (simp add: loop)
qed


lemma demo_fractions_projectable: "\<forall>v \<in> snd ` set [(1 :: nat, 1 / 3 :: rat), (2, 1 / 2)]. projectable v"
proof -
  have "projectable (1 / 3)" "projectable (1 / 2)"
    unfolding projectable_def
    by (intro disjI2 exI [of _ 1] conjI; simp add: power_int_def)+
  then show ?thesis by simp
qed


lemma demo_order_kept: "order_kept 64 (snd ` set [(1 :: nat, 1 / 3 :: rat), (2, 1 / 2)])"
proof -
  have tenth: "round_sig 10 64 (of_int m / 10) = of_int m / 10" if "\<bar>m\<bar> < 10" for m
  proof (rule round_sig_exact)
    have "\<bar>m\<bar> < int 10 ^ 64" using that by simp
    then show "representable 10 64 (of_int m / 10)"
      unfolding representable_def
      by - (rule exI [of _ m], rule exI [of _ "- 1"], simp add: power_int_def)
  qed auto
  have "round_sig 10 64 (1 / 2) = 1 / 2" using tenth [of 5] by simp
  moreover have "round_sig 10 64 (1 / 3) \<le> round_sig 10 64 (of_int 4 / 10)" by (rule round_sig_mono) auto
  then have "round_sig 10 64 (1 / 3) \<le> 4 / 10" using tenth [of 4] by simp
  ultimately show ?thesis by (auto simp: order_kept_def)
qed

theorem projection_keeps_order_witness:
  "\<exists>q ds. project_exact_values [(1 :: nat, 1 / 3 :: rat), (2, 1 / 2)] 64 64 = Inr (q, ds)
     \<and> q = 64 \<and> dval (snd (ds ! 0)) < dval (snd (ds ! 1))"
proof -
  let ?kvs = "[(1 :: nat, 1 / 3 :: rat), (2, 1 / 2)]"
  have "64 \<in> set ALLOWED_PROJECTION_PRECISIONS" by (simp add: ALLOWED_PROJECTION_PRECISIONS_def)
  then obtain q ds where run: "project_exact_values ?kvs 64 64 = Inr (q, ds)"
    using project_loop_total [of 64 64 ?kvs] demo_fractions_projectable demo_order_kept
    by (auto simp: project_exact_values_def)
  have len: "0 < length ?kvs" "1 < length ?kvs" by simp_all
  from projection_keeps_order [OF run] len
  have "q = 64 \<and> (dval (snd (ds ! 0)) < dval (snd (ds ! 1)) \<longleftrightarrow> snd (?kvs ! 0) < snd (?kvs ! 1))"
    by (metis le_antisym)
  then show ?thesis using run by simp
qed

end
