(* ===== verification/Candidate_Plan.thy ===== *)
theory Candidate_Plan
  imports Candidate_Exact
begin

text \<open>
  What each pass of \<open>build_candidate_set\<close> computes on constructed inputs, written without
  dictionaries: the cell of a row for a component, its exact value, the rankable rows, their
  percentiles and scores, and the projected decimals. No lookup ever fails.
\<close>

section \<open>Cells\<close>

definition cells_of :: "candidate_population_row \<Rightarrow> cell_dict" where
  "cells_of row = map (\<lambda>c. (cell_feature_definition_id c, c)) (population_cells row)"

definition cell_for :: "candidate_population_row \<Rightarrow> candidate_policy_component \<Rightarrow> candidate_population_cell" where
  "cell_for row c = the (map_of (cells_of row) (component_feature_definition_id c))"

text \<open>A row has a cell of the right type for every component.\<close>

definition row_complete :: "candidate_policy_component list \<Rightarrow> candidate_population_row \<Rightarrow> bool" where
  "row_complete comps row \<longleftrightarrow> (\<forall>c \<in> set comps. \<exists>cell.
     map_of (cells_of row) (component_feature_definition_id c) = Some cell
     \<and> validate_cell_value_type cell c = Inr ())"

definition missing_cells_error :: py_error where
  "missing_cells_error = ValueError ''Candidate Dataset row is missing required Feature cells''"

definition input_errors :: "py_error set" where
  "input_errors = {missing_cells_error,
     TypeError ''DECIMAL Candidate Features require Decimal values'',
     TypeError ''INTEGER Candidate Features require integer values''}"

lemma validate_cell_value_type_Inl:
  "validate_cell_value_type cell c = Inl e \<Longrightarrow> e \<in> input_errors"
  by (auto simp: validate_cell_value_type_def input_errors_def
      split: if_splits option.splits cell_value.splits)

lemma missing_is_input_error: "missing_cells_error \<in> input_errors"
  by (simp add: input_errors_def)

lemma foldE_unit:
  "foldE (\<lambda>x u. f x) xs () = Inr v \<longleftrightarrow> (\<forall>x \<in> set xs. f x = Inr ())"
  by (induction xs) (auto simp: bindE_Inr_iff)

lemma foldE_unit_Inl: "foldE (\<lambda>x u. f x) xs () = Inl e \<Longrightarrow> \<exists>x \<in> set xs. f x = Inl e"
  by (drule foldE_Inl) simp

text \<open>The components of an accepted policy, as the passes need them.\<close>

definition comps_ok :: "candidate_policy_component list \<Rightarrow> bool" where
  "comps_ok comps \<longleftrightarrow> comps \<noteq> [] \<and> list_all component_ok comps
     \<and> distinct (map candidate_policy_component_id comps)
     \<and> distinct (map component_feature_definition_id comps)"

lemma policy_ok_comps: "policy_ok p \<Longrightarrow> comps_ok (policy_components p)"
  by (simp add: policy_ok_def comps_ok_def)

lemma components_by_feature_ok:
  "comps_ok comps \<Longrightarrow>
   components_by_feature comps = map (\<lambda>c. (component_feature_definition_id c, c)) comps"
  by (simp add: components_by_feature_def comps_ok_def comp_def)

lemma row_cells_step_ok:
  assumes "comps_ok comps" "row_ok row" "row_instrument_id row \<notin> fst ` set acc"
  shows "if row_complete comps row
     then row_cells_step (components_by_feature comps) row acc
       = Inr (acc @ [(row_instrument_id row, cells_of row)])
     else \<exists>e. row_cells_step (components_by_feature comps) row acc = Inl e
       \<and> e \<in> input_errors"
proof -
  let ?by = "map (\<lambda>c. (component_feature_definition_id c, c)) comps"
  let ?f = "\<lambda>(feature_id, component). bindE (dict_item (cells_of row) feature_id)
    (\<lambda>cell. validate_cell_value_type cell component)"
  have cells: "dict_of (map (\<lambda>c. (cell_feature_definition_id c, c)) (population_cells row)) = cells_of row"
    using assms(2) by (simp add: row_ok_def cells_of_def comp_def)
  have step: "row_cells_step (components_by_feature comps) row acc =
     (if set (map fst ?by) - set (map fst (cells_of row)) = {}
      then bindE (foldE (\<lambda>x u. ?f x) ?by ()) (\<lambda>_. Inr (acc @ [(row_instrument_id row, cells_of row)]))
      else Inl missing_cells_error)"
    unfolding row_cells_step_def Let_def components_by_feature_ok [OF assms(1)] cells
    using assms(3) by (simp add: update_fresh missing_cells_error_def case_prod_unfold)
  have covered: "set (map fst ?by) - set (map fst (cells_of row)) = {} \<longleftrightarrow>
    (\<forall>c \<in> set comps. \<exists>cell. map_of (cells_of row) (component_feature_definition_id c) = Some cell)"
  proof -
    have key: "(\<exists>cell. map_of (cells_of row) k = Some cell) \<longleftrightarrow> k \<in> set (map fst (cells_of row))" for k
      using map_of_eq_None_iff [of "cells_of row" k] by (auto simp flip: not_None_eq)
    show ?thesis unfolding key by auto
  qed
  show ?thesis
  proof (cases "row_complete comps row")
    case True
    then have "set (map fst ?by) - set (map fst (cells_of row)) = {}"
      using covered unfolding row_complete_def by blast
    moreover have "foldE (\<lambda>x u. ?f x) ?by () = Inr ()"
      using True unfolding foldE_unit row_complete_def by (auto simp: dict_item_def)
    ultimately show ?thesis using step True by simp
  next
    case False
    show ?thesis
    proof (cases "set (map fst ?by) - set (map fst (cells_of row)) = {}")
      case True
      then have present: "\<forall>c \<in> set comps. \<exists>cell. map_of (cells_of row) (component_feature_definition_id c) = Some cell"
        using covered by blast
      have "foldE (\<lambda>x u. ?f x) ?by () \<noteq> Inr ()"
        using False present unfolding foldE_unit row_complete_def by (force simp: dict_item_def)
      then obtain e where e: "foldE (\<lambda>x u. ?f x) ?by () = Inl e"
        by (cases "foldE (\<lambda>x u. ?f x) ?by ()") auto
      obtain x where "x \<in> set ?by" "?f x = Inl e" using foldE_unit_Inl [OF e] by blast
      then have "e \<in> input_errors"
        using present validate_cell_value_type_Inl
        by (auto simp: dict_item_def bindE_Inl_iff optE_Inl_iff)
      then show ?thesis using False step True e by simp
    next
      case False
      then show ?thesis using step \<open>\<not> row_complete comps row\<close> missing_is_input_error by simp
    qed
  qed
qed

lemma row_cells_fold:
  assumes "comps_ok comps" "list_all row_ok rows"
    "distinct (map fst acc @ map row_instrument_id rows)"
  shows "if list_all (row_complete comps) rows
     then foldE (row_cells_step (components_by_feature comps)) rows acc
       = Inr (acc @ map (\<lambda>r. (row_instrument_id r, cells_of r)) rows)
     else \<exists>e. foldE (row_cells_step (components_by_feature comps)) rows acc = Inl e
       \<and> e \<in> input_errors"
  using assms(2,3)
proof (induction rows arbitrary: acc)
  case (Cons r rows)
  have "row_instrument_id r \<notin> fst ` set acc" "row_ok r" using Cons.prems by auto
  note step = row_cells_step_ok [OF assms(1) this(2,1)]
  show ?case
  proof (cases "row_complete comps r")
    case True
    have "distinct (map fst (acc @ [(row_instrument_id r, cells_of r)]) @ map row_instrument_id rows)"
      using Cons.prems by auto
    then show ?thesis using step True Cons.IH [of "acc @ [(row_instrument_id r, cells_of r)]"] Cons.prems
      by (auto split: if_splits)
  next
    case False
    then obtain e where "row_cells_step (components_by_feature comps) r acc = Inl e"
      "e \<in> input_errors" using step by auto
    then show ?thesis using False by simp
  qed
qed simp

text \<open>The dictionary of cells after the first loop.\<close>

definition cell_table :: "candidate_population_row list \<Rightarrow> (uuid \<times> cell_dict) list" where
  "cell_table rows = map (\<lambda>r. (row_instrument_id r, cells_of r)) rows"

lemma row_cells_of_ok:
  assumes "comps_ok comps" "dataset_ok ds"
  shows "if list_all (row_complete comps) (dataset_rows ds)
     then row_cells_of comps (dataset_rows ds) = Inr (cell_table (dataset_rows ds))
     else \<exists>e. row_cells_of comps (dataset_rows ds) = Inl e
       \<and> e \<in> input_errors"
  using row_cells_fold [OF assms(1), of "dataset_rows ds" "[]"] assms(2)
  by (auto simp: row_cells_of_def dataset_ok_def cell_table_def split: if_splits)

section \<open>Rows\<close>

text \<open>
  The rest of this theory is about rows \<open>rows\<close> that are complete for components \<open>comps\<close>,
  with unique instruments and constructed cells.
\<close>

definition rows_ready :: "candidate_policy_component list \<Rightarrow> candidate_population_row list \<Rightarrow> bool" where
  "rows_ready comps rows \<longleftrightarrow> comps_ok comps \<and> distinct (map row_instrument_id rows)
     \<and> list_all row_ok rows \<and> list_all (row_complete comps) rows"

lemma cell_for_ok:
  assumes "rows_ready comps rows" "r \<in> set rows" "c \<in> set comps"
  shows "component_cell (cell_table rows) r c = Inr (cell_for r c)"
    and "validate_cell_value_type (cell_for r c) c = Inr ()" and "cell_ok (cell_for r c)"
proof -
  have "row_complete comps r" "row_ok r" using assms(1,2) by (auto simp: rows_ready_def list_all_iff)
  then obtain cell where cell: "map_of (cells_of r) (component_feature_definition_id c) = Some cell"
    "validate_cell_value_type cell c = Inr ()" using assms(3) unfolding row_complete_def by blast
  have this_cell: "cell_for r c = cell" using cell(1) by (simp add: cell_for_def)
  have "dict_item (cell_table rows) (row_instrument_id r) = Inr (cells_of r)"
    unfolding cell_table_def using assms(1,2)
    by (intro dict_item_map) (auto simp: rows_ready_def distinct_map)
  then show "component_cell (cell_table rows) r c = Inr (cell_for r c)"
    using cell(1) this_cell by (simp add: component_cell_def dict_item_def)
  show "validate_cell_value_type (cell_for r c) c = Inr ()" using cell(2) this_cell by simp
  have "cell \<in> set (population_cells r)" using map_of_SomeD [OF cell(1)] by (auto simp: cells_of_def)
  then show "cell_ok (cell_for r c)" using \<open>row_ok r\<close> this_cell by (auto simp: row_ok_def list_all_iff)
qed

definition rankable :: "candidate_policy_component list \<Rightarrow> candidate_population_row \<Rightarrow> bool" where
  "rankable comps r \<longleftrightarrow> (\<forall>c \<in> set comps. cell_status (cell_for r c) = Cell_AVAILABLE)"

lemma allE_Inr: "(\<And>x. x \<in> set xs \<Longrightarrow> f x = Inr (g x)) \<Longrightarrow> allE f xs = Inr (\<forall>x \<in> set xs. g x)"
  by (induction xs) auto

lemma filterE_Inr: "(\<And>x. x \<in> set xs \<Longrightarrow> f x = Inr (g x)) \<Longrightarrow> filterE f xs = Inr (filter g xs)"
  by (induction xs) (auto simp: mapR_def)

lemma rankable_rows_ok:
  assumes "rows_ready comps rows"
  shows "rankable_rows_of comps (cell_table rows) rows = Inr (filter (rankable comps) rows)"
  unfolding rankable_rows_of_def rankable_def
  by (intro filterE_Inr allE_Inr) (simp add: cell_for_ok(1) [OF assms] mapR_def)

text \<open>The exact value of an available cell.\<close>

definition value_for :: "candidate_population_row \<Rightarrow> candidate_policy_component \<Rightarrow> rat" where
  "value_for r c = (case cell_content (cell_for r c) of
     Some (Decimal_Value v) \<Rightarrow> dval v | Some (Integer_Value v) \<Rightarrow> of_int v | None \<Rightarrow> 0)"

lemma exact_cell_value_ok:
  assumes "cell_ok (cell_for r c)" "cell_status (cell_for r c) = Cell_AVAILABLE"
  shows "exact_cell_value (cell_for r c) = Inr (value_for r c)"
proof -
  have "fraction_of v = Inr (dval v)" if "is_finite v" for v
    using that by (cases v) (auto simp: fraction_of_def)
  then show ?thesis using assms
    by (auto simp: exact_cell_value_def value_for_def cell_ok_def split: option.splits cell_value.splits)
qed

lemma component_observations_ok:
  assumes "rows_ready comps rows" "c \<in> set comps" "set rs \<subseteq> set (filter (rankable comps) rows)"
    "distinct (map row_instrument_id rs)"
  shows "component_observations (cell_table rows) rs c
     = Inr (map (\<lambda>r. (row_instrument_id r, value_for r c)) rs)"
proof -
  have "mapE (\<lambda>row. bindE (component_cell (cell_table rows) row c) (\<lambda>cell.
      mapR (Pair (row_instrument_id row)) (exact_cell_value cell))) rs
    = Inr (map (\<lambda>r. (row_instrument_id r, value_for r c)) rs)"
  proof (rule mapE_all_Inr)
    fix r assume "r \<in> set rs"
    then have r: "r \<in> set rows" "rankable comps r" using assms(3) by auto
    then show "bindE (component_cell (cell_table rows) r c) (\<lambda>cell.
      mapR (Pair (row_instrument_id r)) (exact_cell_value cell)) = Inr (row_instrument_id r, value_for r c)"
      using cell_for_ok [OF assms(1) r(1) assms(2)] exact_cell_value_ok assms(2)
      by (simp add: rankable_def mapR_def)
  qed
  then show ?thesis using assms(4) by (simp add: component_observations_def mapR_def comp_def)
qed

section \<open>Percentiles and scores\<close>

definition values_for :: "candidate_population_row list \<Rightarrow> candidate_policy_component \<Rightarrow> rat list" where
  "values_for rs c = map (orient (component_direction c)) (map (\<lambda>r. value_for r c) rs)"

definition percentile_for :: "candidate_population_row list \<Rightarrow> candidate_policy_component \<Rightarrow>
    candidate_population_row \<Rightarrow> rat" where
  "percentile_for rs c r = midrank (values_for rs c) (orient (component_direction c) (value_for r c))"

definition score_for :: "candidate_policy_component list \<Rightarrow> candidate_population_row list \<Rightarrow>
    candidate_population_row \<Rightarrow> rat" where
  "score_for comps rs r = sum_list (map (\<lambda>c. weight_of comps c * percentile_for rs c r) comps)"

definition pair_key :: "candidate_population_row \<Rightarrow> candidate_policy_component \<Rightarrow> uuid \<times> uuid" where
  "pair_key r c = (row_instrument_id r, candidate_policy_component_id c)"

definition diagnostic_for :: "candidate_population_row list \<Rightarrow> candidate_population_row list \<Rightarrow>
    candidate_policy_component \<Rightarrow> candidate_component_diagnostic" where
  "diagnostic_for rows rs c = component_diagnostic c (length rs)
     (map (\<lambda>r. (row_instrument_id r, value_for r c)) rs) (map (\<lambda>r. cell_for r c) rows)"

text \<open>The dictionaries of percentiles and contributions, in the order the loops fill them.\<close>

definition percentile_table :: "candidate_policy_component list \<Rightarrow> candidate_population_row list \<Rightarrow> pair_dict" where
  "percentile_table comps rs = concat (map (\<lambda>c. map (\<lambda>r. (pair_key r c, percentile_for rs c r)) rs) comps)"

definition contribution_table :: "candidate_policy_component list \<Rightarrow> candidate_policy_component list \<Rightarrow>
    candidate_population_row list \<Rightarrow> candidate_population_row list \<Rightarrow> pair_dict" where
  "contribution_table all comps rs rows =
     concat (map (\<lambda>r. map (\<lambda>c. (pair_key r c, weight_of all c * percentile_for rs c r)) comps) rows)"

definition score_table :: "candidate_policy_component list \<Rightarrow> candidate_population_row list \<Rightarrow> (uuid \<times> rat) list" where
  "score_table comps rs = map (\<lambda>r. (row_instrument_id r, score_for comps rs r)) rs"

lemma foldl_update_rename:
  assumes "distinct (map fst d @ map (\<lambda>kv. h (fst kv)) kvs)"
  shows "foldl (\<lambda>d (k, v). AList.update (h k) v d) d kvs = d @ map (\<lambda>(k, v). (h k, v)) kvs"
  using assms
proof (induction kvs arbitrary: d)
  case (Cons kv kvs)
  obtain k v where kv: "kv = (k, v)" by fastforce
  have "AList.update (h k) v d = d @ [(h k, v)]" using Cons.prems by (intro update_fresh) (auto simp: kv)
  then show ?case using Cons.IH [of "d @ [(h k, v)]"] Cons.prems by (auto simp: kv)
qed simp

lemma keys_concat:
  "fst ` set (concat (map (\<lambda>x. map (\<lambda>y. (g x y, h x y)) ys) xs)) = (\<Union>x \<in> set xs. g x ` set ys)"
  by (simp add: image_UN image_image)

lemma component_pass_ok:
  assumes ready: "rows_ready comps rows" and rs: "rs = filter (rankable comps) rows"
    and cs: "set cs \<subseteq> set comps" "distinct (map candidate_policy_component_id (past @ cs))"
  shows "foldE (component_step (cell_table rows) rows rs) cs
       (percentile_table past rs, map (diagnostic_for rows rs) past)
     = Inr (percentile_table (past @ cs) rs, map (diagnostic_for rows rs) (past @ cs))"
  using cs
proof (induction cs arbitrary: "past")
  case (Cons c cs)
  let ?obs = "map (\<lambda>r. (row_instrument_id r, value_for r c)) rs"
  have c: "c \<in> set comps" using Cons.prems by simp
  have ids: "distinct (map row_instrument_id rs)"
    using ready rs by (simp add: rows_ready_def distinct_map_filter)
  have obs: "component_observations (cell_table rows) rs c = Inr ?obs"
    by (rule component_observations_ok [OF ready c]) (use rs ids in auto)
  have pcts: "arithmetic_midrank_percentiles ?obs (component_direction c)
      = map (\<lambda>r. (row_instrument_id r, percentile_for rs c r)) rs"
    by (simp add: percentiles_midrank percentile_for_def values_for_def comp_def)
  have fresh: "distinct (map fst (percentile_table past rs) @
      map (\<lambda>kv. (fst kv, candidate_policy_component_id c)) (map (\<lambda>r. (row_instrument_id r, percentile_for rs c r)) rs))"
    if "distinct (map fst (percentile_table past rs))"
  proof -
    have "distinct (map (\<lambda>r. (row_instrument_id r, candidate_policy_component_id c)) rs)"
      using ids by (auto simp: distinct_map inj_on_def)
    moreover have "fst ` set (percentile_table past rs)
        \<inter> (\<lambda>r. (row_instrument_id r, candidate_policy_component_id c)) ` set rs = {}"
      unfolding percentile_table_def keys_concat using Cons.prems by (auto simp: pair_key_def)
    ultimately show ?thesis using that by (simp add: comp_def image_image)
  qed
  have dist: "distinct (map fst (percentile_table ds rs))"
    if "distinct (map candidate_policy_component_id ds)" for ds
    using that
  proof (induction ds)
    case (Cons d ds)
    have "distinct (map (\<lambda>r. pair_key r d) rs)" using ids by (auto simp: distinct_map inj_on_def pair_key_def)
    moreover have "(\<lambda>r. pair_key r d) ` set rs \<inter> fst ` set (percentile_table ds rs) = {}"
      unfolding percentile_table_def keys_concat using Cons.prems by (auto simp: pair_key_def)
    ultimately show ?case using Cons by (simp add: percentile_table_def comp_def image_image)
  qed (simp add: percentile_table_def)
  have "foldl (\<lambda>d (instrument, v). AList.update (instrument, candidate_policy_component_id c) v d)
      (percentile_table past rs) (map (\<lambda>r. (row_instrument_id r, percentile_for rs c r)) rs)
    = percentile_table (past @ [c]) rs"
    using foldl_update_rename [OF fresh [OF dist [of "past"]]] Cons.prems
    by (simp add: percentile_table_def pair_key_def comp_def)
  moreover have "mapE (\<lambda>row. component_cell (cell_table rows) row c) rows = Inr (map (\<lambda>r. cell_for r c) rows)"
    by (intro mapE_all_Inr) (simp add: cell_for_ok(1) [OF ready _ c])
  ultimately have step: "component_step (cell_table rows) rows rs c
      (percentile_table past rs, map (diagnostic_for rows rs) past)
    = Inr (percentile_table (past @ [c]) rs, map (diagnostic_for rows rs) (past @ [c]))"
    by (simp add: component_step_def obs pcts Let_def diagnostic_for_def)
  show ?case using Cons.IH [of "past @ [c]"] Cons.prems step by simp
qed simp

lemma distinct_pair_keys:
  assumes "distinct (map row_instrument_id rs)" "distinct (map candidate_policy_component_id cs)"
  shows "inj_on (\<lambda>(r, c). pair_key r c) (set rs \<times> set cs)"
  using assms by (auto simp: inj_on_def pair_key_def distinct_map)

lemma percentile_table_item:
  assumes "distinct (map row_instrument_id rs)" "distinct (map candidate_policy_component_id cs)"
    "r \<in> set rs" "c \<in> set cs"
  shows "map_of (percentile_table cs rs) (pair_key r c) = Some (percentile_for rs c r)"
proof -
  have all: "v = percentile_for rs c r" if "(pair_key r c, v) \<in> set (percentile_table cs rs)" for v
    using that distinct_pair_keys [OF assms(1,2)] assms(3,4)
    by (auto simp: percentile_table_def inj_on_def)
  have "(pair_key r c, percentile_for rs c r) \<in> set (percentile_table cs rs)"
    using assms(3,4) by (auto simp: percentile_table_def)
  then obtain v where "map_of (percentile_table cs rs) (pair_key r c) = Some v"
    by (metis weak_map_of_SomeI)
  then show ?thesis using all map_of_SomeD by metis
qed

lemma score_row_ok:
  assumes pct: "\<And>c. c \<in> set cs \<Longrightarrow> map_of percentiles (pair_key r c) = Some (percentile_for rs c r)"
    and w: "\<And>c. c \<in> set cs \<Longrightarrow> map_of weights (candidate_policy_component_id c) = Some (weight_of all c)"
    and fresh: "distinct (map fst acc @ map (pair_key r) cs)"
  shows "foldE (score_component_step weights percentiles r) cs (acc, s)
    = Inr (acc @ map (\<lambda>c. (pair_key r c, weight_of all c * percentile_for rs c r)) cs,
        s + sum_list (map (\<lambda>c. weight_of all c * percentile_for rs c r) cs))"
  using assms
proof (induction cs arbitrary: acc s)
  case (Cons c cs)
  let ?v = "weight_of all c * percentile_for rs c r"
  have "AList.update (pair_key r c) ?v acc = acc @ [(pair_key r c, ?v)]"
    using Cons.prems(3) by (intro update_fresh) auto
  then have "score_component_step weights percentiles r c (acc, s) = Inr (acc @ [(pair_key r c, ?v)], s + ?v)"
    using Cons.prems(1,2) [of c] by (simp add: score_component_step_def pair_key_def [symmetric] dict_item_def Let_def)
  moreover have "distinct (map fst (acc @ [(pair_key r c, ?v)]) @ map (pair_key r) cs)"
    using Cons.prems(3) by simp
  ultimately show ?case using Cons by simp
qed simp

lemma score_pass_fold:
  assumes comps: "comps_ok comps" and ids: "distinct (map row_instrument_id rs)"
    and sub: "set rows \<subseteq> set rs" "distinct (map row_instrument_id (past @ rows))"
  shows "foldE (score_step comps (map (\<lambda>c. (candidate_policy_component_id c, weight_of comps c)) comps)
      (percentile_table comps rs)) rows
      (contribution_table comps comps rs past, map (\<lambda>r. (row_instrument_id r, score_for comps rs r)) past)
    = Inr (contribution_table comps comps rs (past @ rows),
        map (\<lambda>r. (row_instrument_id r, score_for comps rs r)) (past @ rows))"
  using sub
proof (induction rows arbitrary: past)
  case (Cons r rows)
  let ?w = "map (\<lambda>c. (candidate_policy_component_id c, weight_of comps c)) comps"
  have cids: "distinct (map candidate_policy_component_id comps)" using comps by (simp add: comps_ok_def)
  have w: "map_of ?w (candidate_policy_component_id c) = Some (weight_of comps c)" if "c \<in> set comps" for c
    using dict_item_map [OF that, of candidate_policy_component_id "weight_of comps"] cids
    by (simp add: distinct_map)
  have "distinct (map (pair_key r) comps)" using cids by (auto simp: distinct_map inj_on_def pair_key_def)
  moreover have "fst ` set (contribution_table comps comps rs past) \<inter> pair_key r ` set comps = {}"
    unfolding contribution_table_def keys_concat using Cons.prems(2) by (auto simp: pair_key_def)
  moreover have "distinct (map fst (contribution_table comps comps rs xs))"
    if "distinct (map row_instrument_id xs)" for xs
    using that
  proof (induction xs)
    case (Cons x xs)
    have "distinct (map (pair_key x) comps)" using cids by (auto simp: distinct_map inj_on_def pair_key_def)
    moreover have "pair_key x ` set comps \<inter> fst ` set (contribution_table comps comps rs xs) = {}"
      unfolding contribution_table_def keys_concat using Cons.prems by (auto simp: pair_key_def)
    ultimately show ?case using Cons by (simp add: contribution_table_def comp_def image_image)
  qed (simp add: contribution_table_def)
  ultimately have fresh: "distinct (map fst (contribution_table comps comps rs past) @ map (pair_key r) comps)"
    using Cons.prems(2) by simp
  have "foldE (score_component_step ?w (percentile_table comps rs) r) comps (contribution_table comps comps rs past, 0)
    = Inr (contribution_table comps comps rs (past @ [r]), score_for comps rs r)"
    using score_row_ok [OF percentile_table_item [OF ids cids] w fresh] Cons.prems(1)
    by (simp add: contribution_table_def score_for_def)
  moreover have "AList.update (row_instrument_id r) v (map (\<lambda>r. (row_instrument_id r, score_for comps rs r)) past)
      = map (\<lambda>r. (row_instrument_id r, score_for comps rs r)) past @ [(row_instrument_id r, v)]" for v
    using Cons.prems(2) by (intro update_fresh) (auto simp: image_image)
  ultimately have "score_step comps ?w (percentile_table comps rs) r
      (contribution_table comps comps rs past, map (\<lambda>r. (row_instrument_id r, score_for comps rs r)) past)
    = Inr (contribution_table comps comps rs (past @ [r]), map (\<lambda>r. (row_instrument_id r, score_for comps rs r)) (past @ [r]))"
    by (simp add: score_step_def)
  then show ?case using Cons.IH [of "past @ [r]"] Cons.prems by simp
qed simp

text \<open>The passes up to the scores, on rows that are ready.\<close>

lemma passes_ok:
  assumes "rows_ready comps rows" and rs: "rs = filter (rankable comps) rows"
  shows "normalize_declared_weights comps
      = Inr (map (\<lambda>c. (candidate_policy_component_id c, weight_of comps c)) comps)"
    and "component_pass comps (cell_table rows) rows rs
      = Inr (percentile_table comps rs, map (diagnostic_for rows rs) comps)"
    and "score_pass comps (map (\<lambda>c. (candidate_policy_component_id c, weight_of comps c)) comps)
        (percentile_table comps rs) rs
      = Inr (contribution_table comps comps rs rs, score_table comps rs)"
proof -
  have comps: "comps_ok comps" and ids: "distinct (map row_instrument_id rs)"
    using assms by (auto simp: rows_ready_def distinct_map_filter)
  show "normalize_declared_weights comps
      = Inr (map (\<lambda>c. (candidate_policy_component_id c, weight_of comps c)) comps)"
    using comps by (intro normalize_declared_weights_ok) (auto simp: comps_ok_def)
  show "component_pass comps (cell_table rows) rows rs
      = Inr (percentile_table comps rs, map (diagnostic_for rows rs) comps)"
    using component_pass_ok [OF assms, of comps "[]"] comps
    by (simp add: component_pass_def comps_ok_def percentile_table_def)
  show "score_pass comps (map (\<lambda>c. (candidate_policy_component_id c, weight_of comps c)) comps)
        (percentile_table comps rs) rs
      = Inr (contribution_table comps comps rs rs, score_table comps rs)"
    using score_pass_fold [OF comps ids, of rs "[]"] ids
    by (simp add: score_pass_def score_table_def contribution_table_def)
qed

text \<open>Scores lie in the unit interval.\<close>

lemma percentile_for_bounds:
  "r \<in> set rs \<Longrightarrow> 0 \<le> percentile_for rs c r \<and> percentile_for rs c r \<le> 1"
  unfolding percentile_for_def by (rule midrank_bounds) (simp add: values_for_def)

lemma score_for_bounds:
  assumes "comps_ok comps" "r \<in> set rs"
  shows "0 \<le> score_for comps rs r \<and> score_for comps rs r \<le> 1"
proof -
  have w: "0 < weight_of comps c" if "c \<in> set comps" for c
    using weight_of_pos [OF _ that] assms(1) by (simp add: comps_ok_def)
  have "score_for comps rs r \<le> sum_list (map (weight_of comps) comps)"
    unfolding score_for_def
  proof (rule sum_list_mono)
    fix c assume c: "c \<in> set comps"
    have "weight_of comps c * percentile_for rs c r \<le> weight_of comps c * 1"
      using w [OF c] percentile_for_bounds [OF assms(2)] by (intro mult_left_mono) auto
    then show "weight_of comps c * percentile_for rs c r \<le> weight_of comps c" by simp
  qed
  also have "\<dots> = 1" using weight_of_sum assms(1) by (simp add: comps_ok_def)
  finally have "score_for comps rs r \<le> 1" .
  moreover have "0 \<le> score_for comps rs r"
    unfolding score_for_def using w percentile_for_bounds [OF assms(2)]
    by (intro sum_list_nonneg) (auto intro!: mult_nonneg_nonneg w [THEN less_imp_le])
  ultimately show ?thesis by simp
qed

section \<open>The projected decimals\<close>

definition projects :: "nat \<Rightarrow> rat \<Rightarrow> bool" where
  "projects prec v \<longleftrightarrow> numeric_fits (length (dec_digits (coefficient (decimal_quotient prec v))))
     (exponent (decimal_quotient prec v))"

definition projection_limit_error :: py_error where
  "projection_limit_error = ValueError
     ''Candidate Decimal projection exceeds PostgreSQL numeric physical limits''"

lemma decimal_quotient_Fin: "\<exists>s c e. decimal_quotient prec v = Fin s c e"
  by (auto simp: decimal_quotient_def split: prod.splits)

lemma project_fraction_cases:
  "project_fraction prec v =
     (if projects prec v then Inr (decimal_quotient prec v) else Inl projection_limit_error)"
  using decimal_quotient_Fin [of prec v]
  by (auto simp: project_fraction_def projects_def projection_limit_error_def)

text \<open>A run of dictionary updates.\<close>

definition put_all :: "('k \<times> 'v) list \<Rightarrow> ('k \<times> 'v) list \<Rightarrow> ('k \<times> 'v) list" where
  "put_all d kvs = foldl (\<lambda>d kv. AList.update (fst kv) (snd kv) d) d kvs"

lemma put_all_simps [simp]:
  "put_all d [] = d"
  "put_all d (kv # kvs) = put_all (AList.update (fst kv) (snd kv) d) kvs"
  "put_all d (kvs @ kvs') = put_all (put_all d kvs) kvs'"
  by (simp_all add: put_all_def)

lemma put_all_other: "k \<notin> fst ` set kvs \<Longrightarrow> map_of (put_all d kvs) k = map_of d k"
  by (induction kvs arbitrary: d) (simp_all add: update_conv')

lemma put_all_item:
  assumes "k \<in> fst ` set kvs" "\<And>v. (k, v) \<in> set kvs \<Longrightarrow> v = g"
  shows "map_of (put_all d kvs) k = Some g"
  using assms
proof (induction kvs rule: rev_induct)
  case (snoc kv kvs)
  show ?case
  proof (cases "fst kv = k")
    case True
    then have "snd kv = g" using snoc.prems(2) [of "snd kv"] by (cases kv) auto
    then show ?thesis using True by (simp add: update_conv')
  next
    case False
    then show ?thesis using snoc by (simp add: update_conv')
  qed
qed simp

definition weight_updates :: "nat \<Rightarrow> candidate_policy_component list \<Rightarrow>
    candidate_policy_component list \<Rightarrow> (projection_key \<times> decimal) list" where
  "weight_updates prec all cs = map (\<lambda>c.
     ((''weight'', uuid_str (candidate_policy_component_id c), ''''), decimal_quotient prec (weight_of all c))) cs"

lemma weight_projection_fold:
  assumes "\<And>c. c \<in> set cs \<Longrightarrow> map_of weights (candidate_policy_component_id c) = Some (weight_of all c)"
  shows "foldE (weight_projection_step prec weights) cs acc =
    (if \<forall>c \<in> set cs. projects prec (weight_of all c) then Inr (put_all acc (weight_updates prec all cs))
     else Inl projection_limit_error)"
  using assms
  by (induction cs arbitrary: acc)
    (auto simp: weight_projection_step_def dict_item_def project_fraction_cases weight_updates_def)

definition pair_updates :: "nat \<Rightarrow> pair_dict \<Rightarrow> pair_dict \<Rightarrow> (projection_key \<times> decimal) list" where
  "pair_updates prec contributions items = concat (map (\<lambda>((i, c), p).
     [((''percentile'', uuid_str i, uuid_str c), decimal_quotient prec p),
      ((''contribution'', uuid_str i, uuid_str c),
       decimal_quotient prec (the (map_of contributions (i, c))))]) items)"

lemma pair_projection_fold:
  assumes "fst ` set items \<subseteq> dom (map_of contributions)"
  shows "foldE (pair_projection_step prec contributions) items acc =
    (if \<forall>(k, p) \<in> set items. projects prec p \<and> projects prec (the (map_of contributions k))
     then Inr (put_all acc (pair_updates prec contributions items)) else Inl projection_limit_error)"
  using assms
proof (induction items arbitrary: acc)
  case (Cons item items)
  obtain i c p where item: "item = ((i, c), p)" by (metis prod.exhaust)
  obtain w where w: "map_of contributions (i, c) = Some w" using Cons.prems by (auto simp: item)
  show ?case using Cons
    by (auto simp: item pair_projection_step_def w dict_item_def project_fraction_cases
        pair_updates_def Let_def)
qed (simp add: pair_updates_def)

text \<open>The dictionary the ranking projection starts from.\<close>

definition boundary_entry :: "rat option \<Rightarrow> (projection_key \<times> rat) list" where
  "boundary_entry b = (case b of None \<Rightarrow> [] | Some v \<Rightarrow> [((''boundary'', '''', ''''), v)])"

lemma ranking_projection_inputs_ok:
  assumes "distinct (map fst scores)"
  shows "ranking_projection_inputs scores b
    = map (\<lambda>(k, v). ((''score'', uuid_str k, ''''), v)) scores @ boundary_entry b"
proof -
  let ?key = "\<lambda>k. (''score'', uuid_str k, '''') :: projection_key"
  have "map fst (map (\<lambda>(k, score). (?key k, score)) scores) = map ?key (map fst scores)"
    by (simp add: case_prod_unfold)
  moreover have "distinct (map ?key (map fst scores))"
    using assms by (subst distinct_map) (simp add: inj_on_def)
  ultimately have "distinct (map fst (map (\<lambda>(k, score). (?key k, score)) scores))" by metis
  then have "dict_of (map (\<lambda>(k, score). (?key k, score)) scores) = map (\<lambda>(k, score). (?key k, score)) scores"
    by (rule dict_of_distinct)
  moreover have "AList.update ((''boundary'', '''', '''') :: projection_key) v
      (map (\<lambda>(k, score). (?key k, score)) scores)
    = map (\<lambda>(k, score). (?key k, score)) scores @ [((''boundary'', '''', ''''), v)]" for v
    by (intro update_fresh) auto
  ultimately show ?thesis
    by (simp add: ranking_projection_inputs_def boundary_entry_def split: option.split)
qed

lemma mapE_project_Inr:
  assumes "mapE (\<lambda>(k, v). mapR (Pair k) (project_fraction q v)) kvs = Inr ds"
  shows "ds = map (\<lambda>(k, v). (k, decimal_quotient q v)) kvs"
proof (rule nth_equalityI)
  show "length ds = length (map (\<lambda>(k, v). (k, decimal_quotient q v)) kvs)"
    using mapE_Inr_length [OF assms] by simp
  fix i assume "i < length ds"
  then show "ds ! i = map (\<lambda>(k, v). (k, decimal_quotient q v)) kvs ! i"
    using mapE_Inr_length [OF assms] mapE_Inr_nth [OF assms, of i]
    by (auto simp: mapR_Inr_iff project_fraction_cases split: prod.splits if_splits)
qed

text \<open>
  The projection pass on rows that are ready: what it needs to succeed, and the decimal it
  stores under every key the records read.
\<close>

definition all_project :: "nat \<Rightarrow> candidate_policy_component list \<Rightarrow> candidate_population_row list \<Rightarrow>
    candidate_population_row list \<Rightarrow> bool" where
  "all_project prec comps rs rows \<longleftrightarrow> (\<forall>c \<in> set comps.
     (rows \<noteq> [] \<longrightarrow> projects prec (weight_of comps c))
     \<and> (\<forall>r \<in> set rs. projects prec (percentile_for rs c r)
          \<and> projects prec (weight_of comps c * percentile_for rs c r)))"

lemma contribution_table_item:
  assumes "distinct (map row_instrument_id rs)" "distinct (map candidate_policy_component_id cs)"
    "r \<in> set rs" "c \<in> set cs"
  shows "map_of (contribution_table cs cs rs rs) (pair_key r c) = Some (weight_of cs c * percentile_for rs c r)"
proof -
  let ?t = "contribution_table cs cs rs rs"
  have all: "v = weight_of cs c * percentile_for rs c r" if "(pair_key r c, v) \<in> set ?t" for v
    using that distinct_pair_keys [OF assms(1,2)] assms(3,4)
    by (auto simp: contribution_table_def inj_on_def)
  have "(pair_key r c, weight_of cs c * percentile_for rs c r) \<in> set ?t"
    using assms(3,4) by (auto simp: contribution_table_def)
  then obtain v where "map_of ?t (pair_key r c) = Some v" by (metis weak_map_of_SomeI)
  then show ?thesis using all map_of_SomeD by metis
qed

lemma percentile_table_iff:
  "(k, p) \<in> set (percentile_table cs rs)
     \<longleftrightarrow> (\<exists>c \<in> set cs. \<exists>r \<in> set rs. k = pair_key r c \<and> p = percentile_for rs c r)"
  by (auto simp: percentile_table_def)

lemma projection_pass_ok:
  assumes ready: "rows_ready comps rows" and rs: "rs = filter (rankable comps) rows"
  defines "W \<equiv> map (\<lambda>c. (candidate_policy_component_id c, weight_of comps c)) comps"
  shows "projection_pass comps rows W (percentile_table comps rs) (contribution_table comps comps rs rs)
      (score_table comps rs) b lo hi =
    bindE (project_exact_values (ranking_projection_inputs (score_table comps rs) b) lo hi) (\<lambda>(prec, ds).
      if all_project prec comps rs rows
      then Inr (prec, put_all (if rows \<noteq> [] then put_all ds (weight_updates prec comps comps) else ds)
        (pair_updates prec (contribution_table comps comps rs rs) (percentile_table comps rs)))
      else Inl projection_limit_error)"
proof -
  have ids: "distinct (map row_instrument_id rs)" and cids: "distinct (map candidate_policy_component_id comps)"
    using ready rs by (auto simp: rows_ready_def comps_ok_def distinct_map_filter)
  note item = contribution_table_item [OF ids cids]
  have W: "map_of W (candidate_policy_component_id c) = Some (weight_of comps c)" if "c \<in> set comps" for c
    unfolding W_def using dict_item_map [OF that, of candidate_policy_component_id "weight_of comps"] cids
    by (simp add: distinct_map)
  have weights: "foldE (weight_projection_step prec W) comps acc =
    (if \<forall>c \<in> set comps. projects prec (weight_of comps c) then Inr (put_all acc (weight_updates prec comps comps))
     else Inl projection_limit_error)" for prec acc
    by (rule weight_projection_fold) (rule W)
  have "fst ` set (percentile_table comps rs) \<subseteq> dom (map_of (contribution_table comps comps rs rs))"
    using item by (force simp: percentile_table_def)
  note pairs = pair_projection_fold [OF this]
  have split: "(\<forall>(k, p) \<in> set (percentile_table comps rs).
      projects prec p \<and> projects prec (the (map_of (contribution_table comps comps rs rs) k)))
    \<longleftrightarrow> (\<forall>c \<in> set comps. \<forall>r \<in> set rs. projects prec (percentile_for rs c r)
          \<and> projects prec (weight_of comps c * percentile_for rs c r))" for prec
    using item by (auto simp: percentile_table_def)
  show ?thesis
    unfolding projection_pass_def weights pairs split all_project_def
    by (intro bindE_cong refl) auto
qed

end
