(* ===== verification/Candidate_Selection.thy ===== *)
theory Candidate_Selection
  imports Candidate_Plan
begin

text \<open>
  The plan \<open>build_candidate_set\<close> returns, as a function of the inputs and the precision alone,
  and what selection promises: who is selected, how ranks and projected scores agree, what
  the counts add up to, and that the order of the rows does not matter.
\<close>

section \<open>The abstract plan\<close>

definition boundary_for :: "candidate_policy \<Rightarrow> candidate_population_row list \<Rightarrow> rat option" where
  "boundary_for p rs = boundary_score_of (score_table (policy_components p) rs) (requested_top_k p)"

definition chosen :: "candidate_policy_component list \<Rightarrow> candidate_population_row list \<Rightarrow> rat \<Rightarrow>
    candidate_population_row list" where
  "chosen comps rs b = filter (\<lambda>r. b \<le> score_for comps rs r) rs"

definition rank_for :: "candidate_policy_component list \<Rightarrow> candidate_population_row list \<Rightarrow>
    candidate_population_row \<Rightarrow> nat" where
  "rank_for comps rs r = 1 + length (filter (\<lambda>s. score_for comps rs r < score_for comps rs s) rs)"

definition reason_for :: "candidate_policy \<Rightarrow> candidate_population_row list \<Rightarrow> rat \<Rightarrow>
    candidate_population_row \<Rightarrow> string" where
  "reason_for p rs b r =
     (let comps = policy_components p; n = length (chosen comps rs b) in
      if n = length rs \<and> int (length rs) \<le> requested_top_k p then ''ALL_RANKABLE_SELECTED''
      else if b < score_for comps rs r then ''ABOVE_BOUNDARY''
      else if requested_top_k p < int n then ''BOUNDARY_TIE_INCLUDED''
      else ''AT_BOUNDARY'')"

definition outcome_for :: "candidate_policy \<Rightarrow> candidate_population_row list \<Rightarrow> nat \<Rightarrow>
    candidate_population_row \<Rightarrow> candidate_disposition \<times> decimal option \<times> nat option \<times> string" where
  "outcome_for p rs prec r =
     (let comps = policy_components p;
          projected_score = Some (decimal_quotient prec (score_for comps rs r));
          rank = Some (rank_for comps rs r)
      in if r \<notin> set rs
         then (UNRANKABLE, None, None, ''STRICT_COMPLETE_CASE_REQUIRED_FEATURE_UNAVAILABLE'')
         else case boundary_for p rs of
           None \<Rightarrow> (RANKED_NOT_SELECTED, projected_score, rank, ''BELOW_BOUNDARY'')
         | Some b \<Rightarrow>
             if b \<le> score_for comps rs r then (SELECTED, projected_score, rank, reason_for p rs b r)
             else (RANKED_NOT_SELECTED, projected_score, rank, ''BELOW_BOUNDARY''))"

definition score_record_for :: "candidate_policy \<Rightarrow> candidate_dataset_population \<Rightarrow>
    candidate_population_row list \<Rightarrow> nat \<Rightarrow> candidate_population_row \<Rightarrow> candidate_policy_component \<Rightarrow>
    candidate_score_component_record" where
  "score_record_for p ds rs prec r c =
     (let comps = policy_components p;
          if_rankable = (\<lambda>v. if r \<in> set rs then Some (decimal_quotient prec v) else None)
      in score_record p ds (candidate_set_uuid p ds) (row_instrument_id r)
           (fst (outcome_for p rs prec r)) c (cell_for r c)
           (decimal_quotient prec (weight_of comps c))
           (if_rankable (percentile_for rs c r))
           (if_rankable (weight_of comps c * percentile_for rs c r)))"

definition candidate_for :: "candidate_policy \<Rightarrow> candidate_dataset_population \<Rightarrow>
    candidate_population_row list \<Rightarrow> nat \<Rightarrow> candidate_population_row \<Rightarrow> candidate_record" where
  "candidate_for p ds rs prec r =
     candidate_of_row p ds (candidate_set_uuid p ds) r (outcome_for p rs prec r)"

definition rankable_rows_for :: "candidate_policy \<Rightarrow> candidate_dataset_population \<Rightarrow> candidate_population_row list" where
  "rankable_rows_for p ds = filter (rankable (policy_components p)) (dataset_rows ds)"

definition sorted_rows :: "candidate_dataset_population \<Rightarrow> candidate_population_row list" where
  "sorted_rows ds = sort_key (\<lambda>row. uuid_str (row_instrument_id row)) (dataset_rows ds)"

text \<open>The plan without its two hashes.\<close>

definition plan_for :: "candidate_policy \<Rightarrow> candidate_dataset_population \<Rightarrow> nat \<Rightarrow> string \<Rightarrow> string \<Rightarrow>
    candidate_ranking_plan" where
  "plan_for p ds prec dependency h =
     (let comps = policy_components p; rs = rankable_rows_for p ds; b = boundary_for p rs;
          candidates = map (candidate_for p ds rs prec) (sorted_rows ds);
          scores = concat (map (\<lambda>r. map (score_record_for p ds rs prec r) comps) (sorted_rows ds));
          diagnostics = map (diagnostic_for (dataset_rows ds) rs) comps
      in \<lparr>plan_candidate_set = set_result p ds rs (score_table comps rs) b
            (selected_ids_of (score_table comps rs) b) (candidate_set_uuid p ds) prec
            (map_option (decimal_quotient prec) b) dependency scores diagnostics h,
          plan_candidates = candidates, plan_score_components = scores,
          plan_component_diagnostics = diagnostics\<rparr>)"

section \<open>The last pass\<close>

lemma map_of_unique:
  assumes "(k, v) \<in> set kvs" "\<And>v'. (k, v') \<in> set kvs \<Longrightarrow> v' = v"
  shows "map_of kvs k = Some v"
  using assms by (metis map_of_SomeD weak_map_of_SomeI)

lemma put_all_in:
  assumes "(k, g) \<in> set kvs" "\<And>v. (k, v) \<in> set kvs \<Longrightarrow> v = g"
  shows "map_of (put_all d kvs) k = Some g"
  using assms by (intro put_all_item) force+

text \<open>What the records read from the projected dictionary.\<close>

definition projected_ok :: "nat \<Rightarrow> candidate_policy_component list \<Rightarrow> candidate_population_row list \<Rightarrow>
    candidate_population_row list \<Rightarrow> rat option \<Rightarrow> (projection_key \<times> decimal) list \<Rightarrow> bool" where
  "projected_ok prec comps rs rows b d \<longleftrightarrow>
     (\<forall>r \<in> set rs. map_of d (''score'', uuid_str (row_instrument_id r), '''')
        = Some (decimal_quotient prec (score_for comps rs r)))
     \<and> (\<forall>v. b = Some v \<longrightarrow> map_of d (''boundary'', '''', '''') = Some (decimal_quotient prec v))
     \<and> (\<forall>c \<in> set comps. rows \<noteq> [] \<longrightarrow>
          map_of d (''weight'', uuid_str (candidate_policy_component_id c), '''')
            = Some (decimal_quotient prec (weight_of comps c)))
     \<and> (\<forall>r \<in> set rs. \<forall>c \<in> set comps.
          map_of d (''percentile'', uuid_str (row_instrument_id r), uuid_str (candidate_policy_component_id c))
            = Some (decimal_quotient prec (percentile_for rs c r))
          \<and> map_of d (''contribution'', uuid_str (row_instrument_id r), uuid_str (candidate_policy_component_id c))
            = Some (decimal_quotient prec (weight_of comps c * percentile_for rs c r)))"

lemma pair_updates_keys:
  "fst ` set (pair_updates prec contributions items) \<subseteq> {k. fst k \<in> {''percentile'', ''contribution''}}"
  by (force simp: pair_updates_def)

lemma weight_updates_keys: "fst ` set (weight_updates prec all cs) \<subseteq> {k. fst k = ''weight''}"
  by (auto simp: weight_updates_def)

lemma pair_updates_set:
  assumes "distinct (map row_instrument_id rs)" "distinct (map candidate_policy_component_id comps)"
  shows "(k, x) \<in> set (pair_updates prec (contribution_table comps comps rs rs) (percentile_table comps rs))
    \<longleftrightarrow> (\<exists>c \<in> set comps. \<exists>r \<in> set rs.
      (k = (''percentile'', uuid_str (row_instrument_id r), uuid_str (candidate_policy_component_id c))
        \<and> x = decimal_quotient prec (percentile_for rs c r))
      \<or> (k = (''contribution'', uuid_str (row_instrument_id r), uuid_str (candidate_policy_component_id c))
        \<and> x = decimal_quotient prec (weight_of comps c * percentile_for rs c r)))"
proof -
  have item: "the (map_of (contribution_table comps comps rs rs)
      (row_instrument_id r, candidate_policy_component_id c)) = weight_of comps c * percentile_for rs c r"
    if "r \<in> set rs" "c \<in> set comps" for r c
    using contribution_table_item [OF assms that] by (simp add: pair_key_def)
  have "pair_updates prec (contribution_table comps comps rs rs) (percentile_table comps rs)
    = concat (concat (map (\<lambda>c. map (\<lambda>r.
      [((''percentile'', uuid_str (row_instrument_id r), uuid_str (candidate_policy_component_id c)),
          decimal_quotient prec (percentile_for rs c r)),
       ((''contribution'', uuid_str (row_instrument_id r), uuid_str (candidate_policy_component_id c)),
          decimal_quotient prec (weight_of comps c * percentile_for rs c r))]) rs) comps))"
    using item
    by (simp add: pair_updates_def percentile_table_def pair_key_def map_concat comp_def cong: map_cong)
  then show ?thesis by auto
qed

lemma projected_lookup:
  assumes ready: "rows_ready comps rows" and rs: "rs = filter (rankable comps) rows"
    and run: "project_exact_values (ranking_projection_inputs (score_table comps rs) b) lo hi = Inr (prec, d0)"
  shows "projected_ok prec comps rs rows b
    (put_all (if rows \<noteq> [] then put_all d0 (weight_updates prec comps comps) else d0)
      (pair_updates prec (contribution_table comps comps rs rs) (percentile_table comps rs)))"
proof -
  let ?pu = "pair_updates prec (contribution_table comps comps rs rs) (percentile_table comps rs)"
  let ?wu = "weight_updates prec comps comps"
  have ids: "distinct (map row_instrument_id rs)" and cids: "distinct (map candidate_policy_component_id comps)"
    using ready rs by (auto simp: rows_ready_def comps_ok_def distinct_map_filter)
  have d0: "d0 = map (\<lambda>(k, v). (k, decimal_quotient prec v))
      (map (\<lambda>(k, v). ((''score'', uuid_str k, ''''), v)) (score_table comps rs) @ boundary_entry b)"
  proof -
    have "distinct (map fst (score_table comps rs))" using ids by (simp add: score_table_def comp_def)
    then show ?thesis
      using mapE_project_Inr [OF project_exact_values_Inr(6) [OF run]] ranking_projection_inputs_ok by metis
  qed
  have same: "r = s" if "r \<in> set rs" "s \<in> set rs" "row_instrument_id r = row_instrument_id s" for r s
    using that ids by (auto simp: distinct_map inj_on_def)
  have csame: "c = d" if "c \<in> set comps" "d \<in> set comps"
    "candidate_policy_component_id c = candidate_policy_component_id d" for c d
    using that cids by (auto simp: distinct_map inj_on_def)
  have keep: "map_of (put_all (if rows \<noteq> [] then put_all d0 ?wu else d0) ?pu) k = map_of d0 k"
    if "fst k \<notin> {''percentile'', ''contribution'', ''weight''}" for k
  proof -
    have "k \<notin> fst ` set ?pu" "k \<notin> fst ` set ?wu"
      using that pair_updates_keys [of prec _ _] weight_updates_keys [of prec comps comps] by blast+
    then show ?thesis by (simp add: put_all_other)
  qed
  have "map_of d0 (''score'', uuid_str (row_instrument_id r), '''') = Some (decimal_quotient prec (score_for comps rs r))"
    if "r \<in> set rs" for r
    by (rule map_of_unique)
      (use that in \<open>auto simp: d0 score_table_def boundary_entry_def dest: same [OF that] split: option.splits\<close>)
  moreover have "map_of d0 (''boundary'', '''', '''') = Some (decimal_quotient prec v)" if "b = Some v" for v
    by (rule map_of_unique) (use that in \<open>auto simp: d0 score_table_def boundary_entry_def\<close>)
  moreover have "map_of (put_all (put_all d0 ?wu) ?pu) (''weight'', uuid_str (candidate_policy_component_id c), '''')
      = Some (decimal_quotient prec (weight_of comps c))" if "c \<in> set comps" for c
  proof -
    let ?k = "(''weight'', uuid_str (candidate_policy_component_id c), '''') :: projection_key"
    have "?k \<notin> fst ` set ?pu" using pair_updates_keys [of prec _ _] by force
    moreover have "map_of (put_all d0 ?wu) ?k = Some (decimal_quotient prec (weight_of comps c))"
      by (rule put_all_item) (use that in \<open>auto simp: weight_updates_def image_image dest: csame [OF that]\<close>)
    ultimately show ?thesis by (simp add: put_all_other)
  qed
  moreover have "map_of (put_all d ?pu)
        (''percentile'', uuid_str (row_instrument_id r), uuid_str (candidate_policy_component_id c))
      = Some (decimal_quotient prec (percentile_for rs c r))
    \<and> map_of (put_all d ?pu)
        (''contribution'', uuid_str (row_instrument_id r), uuid_str (candidate_policy_component_id c))
      = Some (decimal_quotient prec (weight_of comps c * percentile_for rs c r))"
    if "r \<in> set rs" "c \<in> set comps" for r c d
  proof
    note sets = pair_updates_set [OF ids cids]
    show "map_of (put_all d ?pu)
        (''percentile'', uuid_str (row_instrument_id r), uuid_str (candidate_policy_component_id c))
      = Some (decimal_quotient prec (percentile_for rs c r))"
      by (rule put_all_in) (use that in \<open>auto simp: sets dest: same [OF that(1)] csame [OF that(2)]\<close>)
    show "map_of (put_all d ?pu)
        (''contribution'', uuid_str (row_instrument_id r), uuid_str (candidate_policy_component_id c))
      = Some (decimal_quotient prec (weight_of comps c * percentile_for rs c r))"
      by (rule put_all_in) (use that in \<open>auto simp: sets dest: same [OF that(1)] csame [OF that(2)]\<close>)
  qed
  ultimately show ?thesis unfolding projected_ok_def by (simp add: keep)
qed

lemma score_table_item:
  assumes "distinct (map row_instrument_id rs)" "r \<in> set rs"
  shows "map_of (score_table comps rs) (row_instrument_id r) = Some (score_for comps rs r)"
  using dict_item_map [OF assms(2), of row_instrument_id "score_for comps rs"] assms(1)
  by (simp add: score_table_def distinct_map)

lemma exact_ranks_item:
  assumes "distinct (map row_instrument_id rs)" "r \<in> set rs"
  shows "map_of (exact_ranks (score_table comps rs)) (row_instrument_id r) = Some (rank_for comps rs r)"
proof -
  have "exact_ranks (score_table comps rs) = map (\<lambda>r. (row_instrument_id r, rank_for comps rs r)) rs"
    by (simp add: exact_ranks_def score_table_def rank_for_def filter_map comp_def)
  then show ?thesis
    using dict_item_map [OF assms(2), of row_instrument_id "rank_for comps rs"] assms(1)
    by (simp add: distinct_map)
qed

lemma selected_ids_for:
  "selected_ids_of (score_table comps rs) (Some b) = map row_instrument_id (chosen comps rs b)"
  by (simp add: selected_ids_of_def score_table_def chosen_def filter_map comp_def)

text \<open>The locals of the last pass.\<close>

definition locals_for :: "candidate_policy \<Rightarrow> candidate_dataset_population \<Rightarrow>
    (projection_key \<times> decimal) list \<Rightarrow> ranking_locals" where
  "locals_for p ds projected =
     (let comps = policy_components p; rs = rankable_rows_for p ds; b = boundary_for p rs
      in \<lparr>local_row_cells = cell_table (dataset_rows ds), local_rankable = rs,
          local_scores = score_table comps rs, local_boundary = b,
          local_selected = selected_ids_of (score_table comps rs) b,
          local_projected = projected, local_set_id = candidate_set_uuid p ds\<rparr>)"

lemma boundary_for_None: "boundary_for p rs = None \<longleftrightarrow> rs = []"
  by (simp add: boundary_for_def boundary_score_of_def score_table_def Let_def)

lemma disposition_of_ok:
  assumes ready: "rows_ready (policy_components p) (dataset_rows ds)"
    and ok: "projected_ok prec (policy_components p) (rankable_rows_for p ds) (dataset_rows ds)
      (boundary_for p (rankable_rows_for p ds)) d"
    and r: "r \<in> set (dataset_rows ds)"
  shows "disposition_of p (locals_for p ds d) (row_instrument_id r)
    = Inr (outcome_for p (rankable_rows_for p ds) prec r)"
proof -
  let ?rs = "rankable_rows_for p ds" and ?comps = "policy_components p"
  have ids: "distinct (map row_instrument_id (dataset_rows ds))" using ready by (simp add: rows_ready_def)
  have rsids: "distinct (map row_instrument_id ?rs)" and sub: "set ?rs \<subseteq> set (dataset_rows ds)"
    using ids by (auto simp: rankable_rows_for_def distinct_map_filter)
  have mem: "row_instrument_id r \<in> row_instrument_id ` set xs \<longleftrightarrow> r \<in> set xs"
    if "set xs \<subseteq> set (dataset_rows ds)" for xs
    using that r ids by (auto simp: distinct_map inj_on_def)
  show ?thesis
  proof (cases "r \<in> set ?rs")
    case False
    then show ?thesis using mem [OF sub] by (simp add: disposition_of_def locals_for_def Let_def outcome_for_def)
  next
    case True
    then obtain b where b: "boundary_for p ?rs = Some b" using boundary_for_None [of p ?rs] by fastforce
    have sel: "row_instrument_id r \<in> set (selected_ids_of (score_table ?comps ?rs) (Some b))
        \<longleftrightarrow> b \<le> score_for ?comps ?rs r"
      unfolding selected_ids_for using mem [of "chosen ?comps ?rs b"] sub True by (auto simp: chosen_def)
    have look: "dict_item d (''score'', uuid_str (row_instrument_id r), '''')
        = Inr (decimal_quotient prec (score_for ?comps ?rs r))"
      "dict_item (exact_ranks (score_table ?comps ?rs)) (row_instrument_id r) = Inr (rank_for ?comps ?rs r)"
      "dict_item (score_table ?comps ?rs) (row_instrument_id r) = Inr (score_for ?comps ?rs r)"
      using ok True exact_ranks_item [OF rsids True] score_table_item [OF rsids True]
      by (simp_all add: projected_ok_def)
    have count: "length (selected_ids_of (score_table ?comps ?rs) (Some b)) = length (chosen ?comps ?rs b)"
      by (simp add: selected_ids_for)
    show ?thesis using True mem [OF sub] b sel
      by (simp add: disposition_of_def locals_for_def Let_def outcome_for_def look count
          selected_reason_def reason_for_def)
  qed
qed

lemma row_records_ok:
  assumes ready: "rows_ready (policy_components p) (dataset_rows ds)"
    and ok: "projected_ok prec (policy_components p) (rankable_rows_for p ds) (dataset_rows ds)
      (boundary_for p (rankable_rows_for p ds)) d"
    and r: "r \<in> set (dataset_rows ds)"
  shows "row_records p ds (locals_for p ds d) r
    = Inr (candidate_for p ds (rankable_rows_for p ds) prec r,
        map (score_record_for p ds (rankable_rows_for p ds) prec r) (policy_components p))"
proof -
  let ?rs = "rankable_rows_for p ds" and ?comps = "policy_components p"
  have ids: "distinct (map row_instrument_id (dataset_rows ds))" using ready by (simp add: rows_ready_def)
  have mem: "row_instrument_id r \<in> row_instrument_id ` set ?rs \<longleftrightarrow> r \<in> set ?rs"
    using r ids by (auto simp: rankable_rows_for_def distinct_map inj_on_def)
  have ne: "dataset_rows ds \<noteq> []" using r by auto
  have "mapE (score_record_of p ds (locals_for p ds d) r (fst (outcome_for p ?rs prec r))) ?comps
    = Inr (map (score_record_for p ds ?rs prec r) ?comps)"
  proof (rule mapE_all_Inr)
    fix c assume c: "c \<in> set ?comps"
    show "score_record_of p ds (locals_for p ds d) r (fst (outcome_for p ?rs prec r)) c
      = Inr (score_record_for p ds ?rs prec r c)"
      using ok c ne mem cell_for_ok(1) [OF ready r c]
      by (auto simp: score_record_of_def locals_for_def Let_def score_record_for_def projected_ok_def
          dict_item_def mapR_def)
  qed
  then show ?thesis using disposition_of_ok [OF assms]
    by (simp add: row_records_def candidate_for_def locals_for_def Let_def mapR_def)
qed

section \<open>The whole function\<close>

definition projection_inputs_for :: "candidate_policy \<Rightarrow> candidate_dataset_population \<Rightarrow> (projection_key \<times> rat) list" where
  "projection_inputs_for p ds = ranking_projection_inputs
     (score_table (policy_components p) (rankable_rows_for p ds)) (boundary_for p (rankable_rows_for p ds))"

definition dataset_complete :: "candidate_policy \<Rightarrow> candidate_dataset_population \<Rightarrow> bool" where
  "dataset_complete p ds \<longleftrightarrow> list_all (row_complete (policy_components p)) (dataset_rows ds)"

definition plan_projects :: "nat \<Rightarrow> candidate_policy \<Rightarrow> candidate_dataset_population \<Rightarrow> bool" where
  "plan_projects prec p ds \<longleftrightarrow>
     all_project prec (policy_components p) (rankable_rows_for p ds) (dataset_rows ds)"

definition plan_hash :: "candidate_policy \<Rightarrow> candidate_dataset_population \<Rightarrow> nat \<Rightarrow> string \<Rightarrow> string result" where
  "plan_hash p ds prec dependency = (let plan = plan_for p ds prec dependency '''' in
     candidate_result_content_sha256 p (candidate_set_uuid p ds) (dataset_id ds)
       (dataset_content_sha256 ds) dependency prec (plan_candidates plan)
       (plan_score_components plan) (plan_component_diagnostics plan))"

lemma build_candidate_set_eq:
  assumes "policy_ok p" "dataset_ok ds" "dataset_complete p ds" "dependency_sha256 ds = Some dep"
  shows "build_candidate_set p ds lo hi =
    bindE (project_exact_values (projection_inputs_for p ds) lo hi) (\<lambda>(prec, _).
      if plan_projects prec p ds then mapR (plan_for p ds prec dep) (plan_hash p ds prec dep)
      else Inl projection_limit_error)"
proof -
  let ?comps = "policy_components p" and ?rows = "dataset_rows ds" and ?rs = "rankable_rows_for p ds"
  let ?b = "boundary_for p ?rs"
  have ready: "rows_ready ?comps ?rows"
    using assms policy_ok_comps by (simp add: rows_ready_def dataset_ok_def dataset_complete_def)
  have rs: "?rs = filter (rankable ?comps) ?rows" by (simp add: rankable_rows_for_def)
  have cells: "row_cells_of ?comps ?rows = Inr (cell_table ?rows)"
    using row_cells_of_ok [OF policy_ok_comps [OF assms(1)] assms(2)] assms(3) by (simp add: dataset_complete_def)
  have rank: "rankable_rows_of ?comps (cell_table ?rows) ?rows = Inr ?rs"
    using rankable_rows_ok [OF ready] rs by simp
  note passes = passes_ok [OF ready rs]
  have b: "boundary_score_of (score_table ?comps ?rs) (requested_top_k p) = ?b" by (simp add: boundary_for_def)
  have last: "mapE (row_records p ds (locals_for p ds d)) (sorted_rows ds)
      = Inr (map (\<lambda>r. (candidate_for p ds ?rs prec r, map (score_record_for p ds ?rs prec r) ?comps)) (sorted_rows ds))"
    and result: "set_result_of p ds (locals_for p ds d) prec dep scores diagnostics h
      = Inr (set_result p ds ?rs (score_table ?comps ?rs) ?b (selected_ids_of (score_table ?comps ?rs) ?b)
          (candidate_set_uuid p ds) prec (map_option (decimal_quotient prec) ?b) dep scores diagnostics h)"
    if "projected_ok prec ?comps ?rs ?rows ?b d" for prec d scores diagnostics h
  proof -
    show "mapE (row_records p ds (locals_for p ds d)) (sorted_rows ds)
      = Inr (map (\<lambda>r. (candidate_for p ds ?rs prec r, map (score_record_for p ds ?rs prec r) ?comps)) (sorted_rows ds))"
      using row_records_ok [OF ready that] by (intro mapE_all_Inr) (simp add: sorted_rows_def)
    show "set_result_of p ds (locals_for p ds d) prec dep scores diagnostics h
      = Inr (set_result p ds ?rs (score_table ?comps ?rs) ?b (selected_ids_of (score_table ?comps ?rs) ?b)
          (candidate_set_uuid p ds) prec (map_option (decimal_quotient prec) ?b) dep scores diagnostics h)"
      using that by (cases ?b) (simp_all add: set_result_of_def locals_for_def Let_def mapR_def
          projected_ok_def dict_item_def)
  qed
  have body: "build_candidate_set p ds lo hi =
    bindE (projection_pass ?comps ?rows (map (\<lambda>c. (candidate_policy_component_id c, weight_of ?comps c)) ?comps)
        (percentile_table ?comps ?rs) (contribution_table ?comps ?comps ?rs ?rs) (score_table ?comps ?rs) ?b lo hi)
      (\<lambda>(prec, d). bindE (mapE (row_records p ds (locals_for p ds d)) (sorted_rows ds)) (\<lambda>records.
        bindE (candidate_result_content_sha256 p (candidate_set_uuid p ds) (dataset_id ds)
          (dataset_content_sha256 ds) dep prec (map fst records) (concat (map snd records))
          (map (diagnostic_for ?rows ?rs) ?comps)) (\<lambda>h.
        bindE (set_result_of p ds (locals_for p ds d) prec dep (concat (map snd records))
          (map (diagnostic_for ?rows ?rs) ?comps) h) (\<lambda>result.
        Inr \<lparr>plan_candidate_set = result, plan_candidates = map fst records,
          plan_score_components = concat (map snd records),
          plan_component_diagnostics = map (diagnostic_for ?rows ?rs) ?comps\<rparr>))))"
    unfolding build_candidate_set_def Let_def cells rank passes bindE_simps prod.case b assms(4) optE_simps
    by (simp add: locals_for_def Let_def sorted_rows_def)
  let ?run = "project_exact_values (projection_inputs_for p ds) lo hi"
  note pass = projection_pass_ok [OF ready rs, of ?b lo hi, folded projection_inputs_for_def]
  show ?thesis
  proof (cases ?run)
    case (Inl e)
    then show ?thesis by (simp add: body pass)
  next
    case (Inr res)
    then obtain prec d0 where run: "?run = Inr (prec, d0)" by (cases res) auto
    note ok = projected_lookup [OF ready rs run [unfolded projection_inputs_for_def]]
    show ?thesis
      unfolding body pass run bindE_simps prod.case
      by (simp add: last [OF ok] result [OF ok] plan_projects_def plan_hash_def plan_for_def Let_def
          comp_def mapR_def)
  qed
qed

end
