(* ===== verification/Candidate_Properties.thy ===== *)
theory Candidate_Properties
  imports Candidate_Selection
begin

text \<open>
  The properties of a ranking plan: refinement of the abstract plan, the errors that remain,
  the selection rule, the counts, and independence of the order of the rows.
\<close>

section \<open>The boundary\<close>

lemma sorted_desc_split:
  assumes "i < length vs"
  defines "ds \<equiv> rev (sort vs)"
  shows "length (filter (\<lambda>v. ds ! i < v) vs) \<le> i" and "i < length (filter (\<lambda>v. ds ! i \<le> v) vs)"
    and "ds ! i \<in> set vs"
proof -
  have desc: "ds ! k \<le> ds ! j" if "j \<le> k" "k < length ds" for j k
    using sorted_rev_nth_mono [of ds j k] that by (simp add: ds_def)
  have len: "length ds = length vs" by (simp add: ds_def)
  have count: "length (filter P vs) = length (filter P ds)" for P
  proof -
    have "mset (filter P vs) = mset (filter P ds)" by (simp only: mset_filter ds_def mset_rev mset_sort)
    then show ?thesis by (rule mset_eq_length)
  qed
  have "filter (\<lambda>v. ds ! i < v) (drop i ds) = []"
    using desc by (auto simp: filter_empty_conv in_set_conv_nth not_less)
  then have "filter (\<lambda>v. ds ! i < v) ds = filter (\<lambda>v. ds ! i < v) (take i ds)"
    by (metis append_Nil2 append_take_drop_id filter_append)
  then show "length (filter (\<lambda>v. ds ! i < v) vs) \<le> i"
    unfolding count by (metis length_filter_le length_take min.cobounded2 order_trans)
  have "filter (\<lambda>v. ds ! i \<le> v) (take (Suc i) ds) = take (Suc i) ds"
    using desc assms(1) len by (auto simp: filter_id_conv in_set_conv_nth less_Suc_eq_le)
  then have "length (take (Suc i) ds) \<le> length (filter (\<lambda>v. ds ! i \<le> v) ds)"
    by (metis append_take_drop_id filter_append le_add1 length_append)
  then show "i < length (filter (\<lambda>v. ds ! i \<le> v) vs)"
    unfolding count using assms(1) len by simp
  show "ds ! i \<in> set vs" using assms(1) len by (metis ds_def nth_mem set_rev set_sort)
qed

definition above :: "candidate_policy_component list \<Rightarrow> candidate_population_row list \<Rightarrow> rat \<Rightarrow> nat" where
  "above comps rs b = length (filter (\<lambda>r. b < score_for comps rs r) rs)"

text \<open>
  The boundary is the score of some row; fewer than top-k rows are strictly above it and at
  least \<open>min top_k n\<close> at or above it.
\<close>

lemma boundary_for_props:
  assumes "boundary_for p rs = Some b" "1 \<le> requested_top_k p"
  defines "comps \<equiv> policy_components p"
  shows "int (above comps rs b) < min (requested_top_k p) (int (length rs))"
    and "min (requested_top_k p) (int (length rs)) \<le> int (length (chosen comps rs b))"
    and "b \<in> score_for comps rs ` set rs"
proof -
  let ?vs = "map (score_for comps rs) rs" and ?i = "nat (min (requested_top_k p) (int (length rs)) - 1)"
  have ne: "rs \<noteq> []" using assms(1) boundary_for_None [of p rs] by auto
  have b: "b = rev (sort ?vs) ! ?i"
    using assms(1) ne
    by (simp add: boundary_for_def boundary_score_of_def score_table_def Let_def comp_def comps_def)
  have i: "?i < length ?vs" using ne assms(2) by (auto simp: nat_less_iff)
  have count: "length (filter P ?vs) = length (filter (\<lambda>r. P (score_for comps rs r)) rs)" for P
    by (simp add: filter_map comp_def)
  have "above comps rs b \<le> ?i" using sorted_desc_split(1) [OF i] unfolding b above_def count .
  moreover have "int ?i = min (requested_top_k p) (int (length rs)) - 1" using ne assms(2) by simp
  ultimately show "int (above comps rs b) < min (requested_top_k p) (int (length rs))" by linarith
  have "?i < length (chosen comps rs b)" using sorted_desc_split(2) [OF i] unfolding b chosen_def count .
  then show "min (requested_top_k p) (int (length rs)) \<le> int (length (chosen comps rs b))"
    using ne assms(2) by linarith
  show "b \<in> score_for comps rs ` set rs" using sorted_desc_split(3) [OF i] by (simp add: b)
qed

lemma filter_subset_length:
  "(\<And>x. x \<in> set xs \<Longrightarrow> P x \<Longrightarrow> Q x) \<Longrightarrow> length (filter P xs) \<le> length (filter Q xs)"
  by (induction xs) auto

text \<open>A rankable row is selected exactly when its competition rank is within the top k.\<close>

lemma selected_iff_rank:
  assumes "boundary_for p rs = Some b" "1 \<le> requested_top_k p" "r \<in> set rs"
  defines "comps \<equiv> policy_components p"
  shows "b \<le> score_for comps rs r \<longleftrightarrow> int (rank_for comps rs r) \<le> requested_top_k p"
proof
  assume "b \<le> score_for comps rs r"
  then have "rank_for comps rs r \<le> 1 + above comps rs b"
    by (auto simp: rank_for_def above_def intro: filter_subset_length order_le_less_trans)
  then show "int (rank_for comps rs r) \<le> requested_top_k p"
    using boundary_for_props(1) [OF assms(1,2)] by (simp add: comps_def)
next
  assume rank: "int (rank_for comps rs r) \<le> requested_top_k p"
  show "b \<le> score_for comps rs r"
  proof (rule ccontr)
    assume "\<not> ?thesis"
    then have less: "score_for comps rs r < b" by simp
    then have "length (chosen comps rs b) + 1 \<le> rank_for comps rs r"
      by (auto simp: rank_for_def chosen_def intro!: filter_subset_length)
    moreover have "length (chosen comps rs b) < length rs"
      using assms(3) less by (auto simp: chosen_def intro!: length_filter_less)
    ultimately show False
      using boundary_for_props(2) [OF assms(1,2)] rank by (simp add: comps_def)
  qed
qed

lemma rank_for_le_iff:
  assumes "r \<in> set rs" "s \<in> set rs"
  shows "rank_for comps rs r < rank_for comps rs s \<longleftrightarrow> score_for comps rs s < score_for comps rs r"
proof -
  have less: "rank_for comps rs r < rank_for comps rs s"
    if "score_for comps rs s < score_for comps rs r" "r \<in> set rs" for r s
  proof -
    let ?P = "\<lambda>t. score_for comps rs r < score_for comps rs t"
    let ?Q = "\<lambda>t. score_for comps rs s < score_for comps rs t"
    have "length (filter ?P rs) < length (filter ?Q rs)"
    proof -
      have "filter ?P (filter ?Q rs) = filter ?P rs" using that(1) by (auto intro!: filter_cong)
      moreover have "length (filter ?P (filter ?Q rs)) < length (filter ?Q rs)"
        using that by (intro length_filter_less [of r]) auto
      ultimately show ?thesis by simp
    qed
    then show ?thesis by (simp add: rank_for_def)
  qed
  have eq: "rank_for comps rs r = rank_for comps rs s" if "score_for comps rs r = score_for comps rs s"
    using that by (simp add: rank_for_def)
  show ?thesis using less [of s r] less [of r s] eq assms by (metis linorder_less_linear order_less_asym order_less_irrefl)
qed

section \<open>Success and failure\<close>

definition bounds_error :: py_error where
  "bounds_error = ValueError ''invalid Candidate Decimal projection precision bounds''"

lemma mapE_project_Inl:
  "mapE (\<lambda>(k, v). mapR (Pair k) (project_fraction q v)) kvs = Inl e \<Longrightarrow> e = projection_limit_error"
  by (induction kvs) (auto simp: bindE_Inl_iff mapR_def project_fraction_cases split: if_splits)

lemma mapE_project_fraction_Inl: "mapE (project_fraction q) vs = Inl e \<Longrightarrow> e = projection_limit_error"
  by (induction vs) (auto simp: bindE_Inl_iff project_fraction_cases split: if_splits)

lemma project_loop_Inl:
  "project_loop q hi kvs = Inl e \<Longrightarrow> e \<in> {cap_error, projection_limit_error}"
proof (induction q hi kvs rule: project_loop.induct)
  case (1 q hi kvs)
  show ?case
  proof (cases "mapE (\<lambda>(k, v). mapR (Pair k) (project_fraction q v)) kvs")
    case (Inl e')
    then have "project_loop q hi kvs = Inl e'" by (subst project_loop.simps) simp
    then show ?thesis using 1 mapE_project_Inl [OF Inl] by simp
  next
    case p: (Inr proj)
    show ?thesis
    proof (cases "mapE (project_fraction q) (sort (remdups (map snd kvs)))")
      case (Inl e')
      then have "project_loop q hi kvs = Inl e'" by (subst project_loop.simps) (simp add: p)
      then show ?thesis using 1 mapE_project_fraction_Inl [OF Inl] by simp
    next
      case o: (Inr order)
      have loop: "project_loop q hi kvs =
          (if strictly_increasing order then Inr (q, proj)
           else if q = hi \<or> q = 0 then Inl cap_error
           else project_loop (min (q * 2) hi) hi kvs)"
        by (subst project_loop.simps) (simp add: p o cap_error_def)
      show ?thesis using "1.IH" [OF p o] "1.prems" loop by (auto split: if_splits)
    qed
  qed
qed

lemma dataset_dependency: "dataset_ok ds \<Longrightarrow> \<exists>dep. dependency_sha256 ds = Some dep"
  by (auto simp: dataset_ok_def)

lemma plan_hash_total: "\<exists>h. plan_hash p ds prec dep = Inr h"
  unfolding plan_hash_def Let_def using candidate_result_content_sha256_total by blast

lemma build_incomplete:
  assumes "policy_ok p" "dataset_ok ds" "\<not> dataset_complete p ds"
  shows "\<exists>e \<in> input_errors. build_candidate_set p ds lo hi = Inl e"
  using row_cells_of_ok [OF policy_ok_comps [OF assms(1)] assms(2)] assms(3)
  by (auto simp: dataset_complete_def build_candidate_set_def Let_def)

text \<open>What a returned plan is.\<close>

lemma build_candidate_set_Inr:
  assumes "policy_ok p" "dataset_ok ds"
  shows "build_candidate_set p ds lo hi = Inr plan \<longleftrightarrow> dataset_complete p ds \<and>
    (\<exists>dep prec d h. dependency_sha256 ds = Some dep
      \<and> project_exact_values (projection_inputs_for p ds) lo hi = Inr (prec, d)
      \<and> plan_projects prec p ds \<and> plan_hash p ds prec dep = Inr h \<and> plan = plan_for p ds prec dep h)"
proof (cases "dataset_complete p ds")
  case True
  obtain dep where dep: "dependency_sha256 ds = Some dep" using dataset_dependency [OF assms(2)] by blast
  show ?thesis
    unfolding build_candidate_set_eq [OF assms True dep] using True dep plan_hash_total
    by (auto simp: bindE_Inr_iff mapR_Inr_iff split: if_splits)
next
  case False
  then show ?thesis using build_incomplete [OF assms False, of lo hi] by auto
qed

lemma build_total:
  assumes "policy_ok p" "dataset_ok ds" "dataset_complete p ds"
    "lo \<in> set ALLOWED_PROJECTION_PRECISIONS" "hi \<in> set ALLOWED_PROJECTION_PRECISIONS" "lo \<le> hi"
    "\<forall>v \<in> snd ` set (projection_inputs_for p ds). projectable v"
    "order_kept hi (snd ` set (projection_inputs_for p ds))"
    "\<forall>c \<in> set (policy_components p). projectable (weight_of (policy_components p) c)
      \<and> (\<forall>r \<in> set (rankable_rows_for p ds). projectable (percentile_for (rankable_rows_for p ds) c r)
        \<and> projectable (weight_of (policy_components p) c * percentile_for (rankable_rows_for p ds) c r))"
  shows "\<exists>plan. build_candidate_set p ds lo hi = Inr plan"
proof -
  have "0 < lo" "hi \<le> 4096" using assms(4,5) by (auto simp: ALLOWED_PROJECTION_PRECISIONS_def)
  then obtain prec d where run: "project_exact_values (projection_inputs_for p ds) lo hi = Inr (prec, d)"
    using project_loop_total [OF _ assms(6) _ assms(7)] assms(4-6,8)
    by (auto simp: project_exact_values_def)
  have "prec \<in> set ALLOWED_PROJECTION_PRECISIONS" by (rule project_exact_values_Inr(1) [OF run])
  then have prec: "0 < prec" "prec \<le> 4096" by (auto simp: ALLOWED_PROJECTION_PRECISIONS_def)
  have "projects prec v" if "projectable v" for v
    using projectable_total [OF prec that] by (auto simp: project_fraction_cases split: if_splits)
  then have "plan_projects prec p ds" using assms(9) by (simp add: plan_projects_def all_project_def)
  then show ?thesis
    using build_candidate_set_Inr [OF assms(1,2)] run assms(3) dataset_dependency [OF assms(2)] plan_hash_total
    by blast
qed

section \<open>A concrete population\<close>

definition demo_row :: "nat \<Rightarrow> nat option \<Rightarrow> candidate_population_row" where
  "demo_row i v = \<lparr>row_instrument_id = of_nat i, dataset_population_source_id = of_nat (300 + i),
     population_cells = [\<lparr>cell_feature_definition_id = 201,
       cell_status = (if v = None then Cell_MISSING else Cell_AVAILABLE),
       cell_content = map_option (\<lambda>n. Decimal_Value (Fin False n 0)) v,
       cell_reason_code = ''OK'', cell_source_lineage_hash = replicate 64 (CHR ''c'')\<rparr>]\<rparr>"

text \<open>Four instruments: values 20, 10, none and 20; the policy takes the top two.\<close>

definition demo_rows :: "candidate_population_row list" where
  "demo_rows = [demo_row 3 (Some 20), demo_row 5 (Some 10), demo_row 4 None, demo_row 2 (Some 20)]"

definition demo_dataset :: candidate_dataset_population where
  "demo_dataset = \<lparr>dataset_id = 9, dataset_content_sha256 = replicate 64 (CHR ''d''),
     dataset_decision_time = DecisionTime 0, dataset_universe_revision_id = 10,
     dataset_eligibility_policy_id = 11, dataset_rows = demo_rows,
     dependency_sha256 = Some (replicate 64 (CHR ''e''))\<rparr>"

definition demo_comp :: candidate_policy_component where
  "demo_comp = demo_component 1"

definition demo_ranking_policy :: candidate_policy where
  "demo_ranking_policy = demo_policy [demo_comp]"

lemma demo_components [simp]: "policy_components demo_ranking_policy = [demo_comp]"
  "requested_top_k demo_ranking_policy = 2"
  by (simp_all add: demo_ranking_policy_def demo_policy_def)

lemma demo_policy_ok: "policy_ok demo_ranking_policy"
  using demo_component_ok(1)
  by (simp add: policy_ok_def demo_comp_def [symmetric] del: One_nat_def) (simp add: demo_ranking_policy_def demo_policy_def demo_comp_def demo_component_def)

lemma demo_dataset_ok: "dataset_ok demo_dataset"
  by (simp add: dataset_ok_def demo_dataset_def demo_rows_def demo_row_def row_ok_def cell_ok_def
      content_hash_ok_def list_all_iff is_lower_hex_def is_digit_def)

lemma demo_cells: "cells_of (demo_row i v) = [(201, hd (population_cells (demo_row i v)))]"
  "component_feature_definition_id demo_comp = 201"
  by (simp_all add: cells_of_def demo_row_def demo_comp_def demo_component_def)

lemma demo_complete: "dataset_complete demo_ranking_policy demo_dataset"
  by (simp add: dataset_complete_def demo_dataset_def demo_rows_def row_complete_def demo_cells)
    (simp add: demo_row_def demo_comp_def demo_component_def validate_cell_value_type_def)

definition demo_ranked :: "candidate_population_row list" where
  "demo_ranked = [demo_row 3 (Some 20), demo_row 5 (Some 10), demo_row 2 (Some 20)]"

lemma demo_rankable: "rankable_rows_for demo_ranking_policy demo_dataset = demo_ranked"
  by (simp add: rankable_rows_for_def demo_dataset_def demo_rows_def rankable_def cell_for_def demo_cells
      demo_ranked_def) (simp add: demo_row_def)

lemma demo_value: "value_for (demo_row i (Some n)) demo_comp = of_nat n"
  by (simp add: value_for_def cell_for_def demo_cells) (simp add: demo_row_def)

lemma demo_percentiles: "percentile_for demo_ranked demo_comp (demo_row i (Some 10)) = 0"
  "percentile_for demo_ranked demo_comp (demo_row i (Some 20)) = 3 / 4"
proof -
  have "component_direction demo_comp = HIGHER_IS_BETTER" by (simp add: demo_comp_def demo_component_def)
  then show "percentile_for demo_ranked demo_comp (demo_row i (Some 10)) = 0"
    "percentile_for demo_ranked demo_comp (demo_row i (Some 20)) = 3 / 4"
    by (simp_all add: demo_ranked_def percentile_for_def values_for_def demo_value orient_def midrank_def)
qed

lemma demo_weight: "weight_of [demo_comp] demo_comp = 1"
  by (simp add: weight_of_def total_weight_def demo_comp_def demo_component_def)

lemma demo_scores: "score_for [demo_comp] demo_ranked (demo_row i (Some 10)) = 0"
  "score_for [demo_comp] demo_ranked (demo_row i (Some 20)) = 3 / 4"
  by (simp_all add: score_for_def demo_weight demo_percentiles)

lemma set_demo_ranked: "set demo_ranked = {demo_row 3 (Some 20), demo_row 5 (Some 10), demo_row 2 (Some 20)}"
  by (simp add: demo_ranked_def)

lemma demo_inputs: "snd ` set (projection_inputs_for demo_ranking_policy demo_dataset) \<subseteq> {0, 3 / 4}"
proof -
  have scores: "snd ` set (score_table [demo_comp] demo_ranked) = {0, 3 / 4}"
    by (auto simp: score_table_def demo_scores set_demo_ranked image_image)
  have "distinct (map fst (score_table [demo_comp] demo_ranked))"
    by (simp add: score_table_def demo_ranked_def demo_row_def)
  note inputs = ranking_projection_inputs_ok [OF this]
  obtain b where b: "boundary_for demo_ranking_policy demo_ranked = Some b"
    using boundary_for_None [of demo_ranking_policy demo_ranked] by (auto simp: demo_ranked_def)
  have "b \<in> snd ` set (score_table [demo_comp] demo_ranked)"
    using boundary_for_props(3) [OF b] by (auto simp: score_table_def image_image)
  then have mem: "b \<in> {0, 3 / 4}" by (simp only: scores)
  have "snd ` set (projection_inputs_for demo_ranking_policy demo_dataset)
      = insert b (snd ` set (score_table [demo_comp] demo_ranked))"
    by (simp add: projection_inputs_for_def demo_rankable inputs b boundary_entry_def image_Un image_image
        case_prod_unfold)
  then show ?thesis unfolding scores using mem by simp
qed

lemma demo_projectable: "projectable 0" "projectable (3 / 4)" "projectable 1"
proof -
  show "projectable 0" by (simp add: projectable_def)
  show "projectable (3 / 4)" unfolding projectable_def
    by (intro disjI2 exI [of _ 1] conjI) (simp_all add: power_int_def)
  show "projectable 1" unfolding projectable_def
    by (intro disjI2 exI [of _ 0] conjI) simp_all
qed

lemma demo_order: "order_kept 64 {0, 3 / 4}"
proof -
  have "representable 10 64 (3 / 4)"
    unfolding representable_def by (rule exI [of _ 75], rule exI [of _ "- 2"]) (simp add: power_int_def power_divide)
  then have "round_sig 10 64 (3 / 4) = 3 / 4" by (intro round_sig_exact) auto
  then show ?thesis by (simp add: order_kept_def)
qed

lemma order_kept_subset: "A \<subseteq> B \<Longrightarrow> order_kept q B \<Longrightarrow> order_kept q A"
  by (auto simp: order_kept_def)

lemma demo_ranked_projects:
  "64 \<in> set ALLOWED_PROJECTION_PRECISIONS" "64 \<in> set ALLOWED_PROJECTION_PRECISIONS" "64 \<le> (64 :: nat)"
  "\<forall>v \<in> snd ` set (projection_inputs_for demo_ranking_policy demo_dataset). projectable v"
  "order_kept 64 (snd ` set (projection_inputs_for demo_ranking_policy demo_dataset))"
  "\<forall>c \<in> set (policy_components demo_ranking_policy).
      projectable (weight_of (policy_components demo_ranking_policy) c)
      \<and> (\<forall>r \<in> set (rankable_rows_for demo_ranking_policy demo_dataset).
          projectable (percentile_for (rankable_rows_for demo_ranking_policy demo_dataset) c r)
          \<and> projectable (weight_of (policy_components demo_ranking_policy) c
              * percentile_for (rankable_rows_for demo_ranking_policy demo_dataset) c r))"
proof -
  show "64 \<in> set ALLOWED_PROJECTION_PRECISIONS" "64 \<in> set ALLOWED_PROJECTION_PRECISIONS"
    by (simp_all add: ALLOWED_PROJECTION_PRECISIONS_def)
  show "\<forall>v \<in> snd ` set (projection_inputs_for demo_ranking_policy demo_dataset). projectable v"
    by (rule ballI, drule subsetD [OF demo_inputs], elim insertE emptyE) (simp_all only: demo_projectable)
  show "order_kept 64 (snd ` set (projection_inputs_for demo_ranking_policy demo_dataset))"
    by (rule order_kept_subset [OF demo_inputs demo_order])
  show "\<forall>c \<in> set (policy_components demo_ranking_policy).
      projectable (weight_of (policy_components demo_ranking_policy) c)
      \<and> (\<forall>r \<in> set (rankable_rows_for demo_ranking_policy demo_dataset).
          projectable (percentile_for (rankable_rows_for demo_ranking_policy demo_dataset) c r)
          \<and> projectable (weight_of (policy_components demo_ranking_policy) c
              * percentile_for (rankable_rows_for demo_ranking_policy demo_dataset) c r))"
    by (auto simp: demo_weight demo_projectable demo_rankable set_demo_ranked demo_percentiles)
qed simp

lemma demo_plan: "\<exists>plan. build_candidate_set demo_ranking_policy demo_dataset 64 64 = Inr plan"
  by (rule build_total [OF demo_policy_ok demo_dataset_ok demo_complete demo_ranked_projects])

text \<open>
  C35. \<open>build_candidate_set\<close> computes the abstract plan: for an accepted policy and a
  constructed population whose rows have a cell of the right type for every component, it
  projects the scores, and returns \<open>plan_for\<close> at the precision found, under the content hash
  of its records, unless a decimal exceeds the limits of \<open>numeric\<close>. No dictionary lookup and no
  division of the code fails.
\<close>

theorem ranking_computes_the_plan:
  assumes "policy_ok p" and "dataset_ok ds" and "dataset_complete p ds" and "dependency_sha256 ds = Some dep"
  shows "build_candidate_set p ds lo hi =
    bindE (project_exact_values (projection_inputs_for p ds) lo hi) (\<lambda>(prec, _).
      if plan_projects prec p ds then mapR (plan_for p ds prec dep) (plan_hash p ds prec dep)
      else Inl projection_limit_error)"
  by (rule build_candidate_set_eq [OF assms])

theorem ranking_computes_the_plan_witness:
  "build_candidate_set demo_ranking_policy demo_dataset 64 64 =
    bindE (project_exact_values (projection_inputs_for demo_ranking_policy demo_dataset) 64 64) (\<lambda>(prec, _).
      if plan_projects prec demo_ranking_policy demo_dataset
      then mapR (plan_for demo_ranking_policy demo_dataset prec (replicate 64 (CHR ''e'')))
        (plan_hash demo_ranking_policy demo_dataset prec (replicate 64 (CHR ''e'')))
      else Inl projection_limit_error)"
proof -
  have "dependency_sha256 demo_dataset = Some (replicate 64 (CHR ''e''))" by (simp add: demo_dataset_def)
  then show ?thesis by (rule ranking_computes_the_plan [OF demo_policy_ok demo_dataset_ok demo_complete])
qed

text \<open>
  C37. The errors of a ranking: with an accepted policy and a constructed population only a
  missing cell or a cell of the wrong type, which happen exactly when the population is
  incomplete, inadmissible precision bounds, a score order that no admitted precision keeps,
  or a decimal beyond the limits of \<open>numeric\<close>.
\<close>

theorem ranking_errors:
  assumes "policy_ok p" and "dataset_ok ds" and "build_candidate_set p ds lo hi = Inl e"
  shows "(if dataset_complete p ds then e \<in> {bounds_error, cap_error, projection_limit_error}
      else e \<in> input_errors)"
proof (cases "dataset_complete p ds")
  case True
  obtain dep where dep: "dependency_sha256 ds = Some dep" using dataset_dependency [OF assms(2)] by blast
  have "project_exact_values kvs lo hi = Inl e \<Longrightarrow> e \<in> {bounds_error, cap_error, projection_limit_error}"
    for kvs :: "(projection_key \<times> rat) list" and e
    using project_loop_Inl [of lo hi kvs e]
    by (auto simp: project_exact_values_def bounds_error_def split: if_splits)
  moreover have "plan_hash p ds q dep \<noteq> Inl e" for q
    using plan_hash_total [of p ds q dep] by auto
  ultimately show ?thesis using assms(3) True
    unfolding build_candidate_set_eq [OF assms(1,2) True dep]
    by (auto simp: bindE_Inl_iff mapR_def split: if_splits)
next
  case False
  then show ?thesis using build_incomplete [OF assms(1,2) False, of lo hi] assms(3) by auto
qed

theorem ranking_errors_witness:
  "\<exists>e. build_candidate_set demo_ranking_policy demo_dataset 64 100 = Inl e
     \<and> e \<in> {bounds_error, cap_error, projection_limit_error}"
proof -
  have dep: "dependency_sha256 demo_dataset = Some (replicate 64 (CHR ''e''))" by (simp add: demo_dataset_def)
  have run: "build_candidate_set demo_ranking_policy demo_dataset 64 100 = Inl bounds_error"
    unfolding build_candidate_set_eq [OF demo_policy_ok demo_dataset_ok demo_complete dep]
    by (simp add: project_exact_values_def ALLOWED_PROJECTION_PRECISIONS_def bounds_error_def)
  show ?thesis using run ranking_errors [OF demo_policy_ok demo_dataset_ok run] demo_complete by simp
qed

text \<open>
  A complete population is ranked: where the scores, percentiles, weights and
  contributions are 0 or at least \<open>10 ^ - 12000\<close> and the cap keeps the order of the scores,
  the ranking returns a plan.
\<close>

theorem complete_population_is_ranked:
  assumes "policy_ok p" and "dataset_ok ds" and "dataset_complete p ds"
    and "lo \<in> set ALLOWED_PROJECTION_PRECISIONS" and "hi \<in> set ALLOWED_PROJECTION_PRECISIONS" and "lo \<le> hi"
    and "\<forall>v \<in> snd ` set (projection_inputs_for p ds). projectable v"
    and "order_kept hi (snd ` set (projection_inputs_for p ds))"
    and "\<forall>c \<in> set (policy_components p). projectable (weight_of (policy_components p) c)
      \<and> (\<forall>r \<in> set (rankable_rows_for p ds). projectable (percentile_for (rankable_rows_for p ds) c r)
        \<and> projectable (weight_of (policy_components p) c * percentile_for (rankable_rows_for p ds) c r))"
  shows "\<exists>plan. build_candidate_set p ds lo hi = Inr plan"
  by (rule build_total [OF assms])

theorem complete_population_is_ranked_witness:
  "\<exists>plan. build_candidate_set demo_ranking_policy demo_dataset 64 64 = Inr plan"
  by (rule complete_population_is_ranked [OF demo_policy_ok demo_dataset_ok demo_complete demo_ranked_projects])

section \<open>Selection\<close>

lemma candidate_for_simps [simp]:
  "candidate_instrument_id (candidate_for p ds rs prec r) = row_instrument_id r"
  "disposition (candidate_for p ds rs prec r) = fst (outcome_for p rs prec r)"
  "composite_score (candidate_for p ds rs prec r) = fst (snd (outcome_for p rs prec r))"
  "competition_rank (candidate_for p ds rs prec r) = fst (snd (snd (outcome_for p rs prec r)))"
  by (simp_all add: candidate_for_def candidate_of_row_def case_prod_unfold)

lemma outcome_unrankable:
  "r \<notin> set rs \<Longrightarrow> outcome_for p rs prec r
     = (UNRANKABLE, None, None, ''STRICT_COMPLETE_CASE_REQUIRED_FEATURE_UNAVAILABLE'')"
  by (simp add: outcome_for_def)

lemma outcome_rankable:
  assumes "r \<in> set rs" "boundary_for p rs = Some b" "1 \<le> requested_top_k p"
  shows "fst (outcome_for p rs prec r)
      = (if int (rank_for (policy_components p) rs r) \<le> requested_top_k p then SELECTED else RANKED_NOT_SELECTED)"
    and "fst (snd (outcome_for p rs prec r)) = Some (decimal_quotient prec (score_for (policy_components p) rs r))"
    and "fst (snd (snd (outcome_for p rs prec r))) = Some (rank_for (policy_components p) rs r)"
  using assms selected_iff_rank [OF assms(2,3,1)] by (simp_all add: outcome_for_def Let_def)

lemma projected_scores_order:
  assumes run: "project_exact_values (projection_inputs_for p ds) lo hi = Inr (prec, d)"
    and ids: "distinct (map row_instrument_id (dataset_rows ds))"
    and r: "r \<in> set (rankable_rows_for p ds)" and s: "s \<in> set (rankable_rows_for p ds)"
  shows "dval (decimal_quotient prec (score_for (policy_components p) (rankable_rows_for p ds) r))
      < dval (decimal_quotient prec (score_for (policy_components p) (rankable_rows_for p ds) s))
    \<longleftrightarrow> score_for (policy_components p) (rankable_rows_for p ds) r
      < score_for (policy_components p) (rankable_rows_for p ds) s"
proof -
  let ?rs = "rankable_rows_for p ds" and ?comps = "policy_components p"
  have "distinct (map fst (score_table ?comps ?rs))"
    using ids by (simp add: score_table_def comp_def rankable_rows_for_def distinct_map_filter)
  then have inputs: "projection_inputs_for p ds =
      map (\<lambda>(k, v). ((''score'', uuid_str k, ''''), v)) (score_table ?comps ?rs) @ boundary_entry (boundary_for p ?rs)"
    unfolding projection_inputs_for_def by (rule ranking_projection_inputs_ok)
  have mem: "score_for ?comps ?rs t \<in> snd ` set (projection_inputs_for p ds)" if "t \<in> set ?rs" for t
    using that by (force simp: inputs score_table_def)
  have "prec \<in> set ALLOWED_PROJECTION_PRECISIONS" by (rule project_exact_values_Inr(1) [OF run])
  then have "0 < prec" by (auto simp: ALLOWED_PROJECTION_PRECISIONS_def)
  then show ?thesis
    using order_kept_less_iff [OF project_exact_values_Inr(4) [OF run] mem [OF r] mem [OF s]]
    by (simp add: decimal_quotient_value)
qed

lemma build_unfolded:
  assumes "policy_ok p" "dataset_ok ds" "build_candidate_set p ds lo hi = Inr plan"
  obtains prec dep h d where "plan = plan_for p ds prec dep h"
    "project_exact_values (projection_inputs_for p ds) lo hi = Inr (prec, d)"
    "dataset_complete p ds" "dependency_sha256 ds = Some dep" "plan_projects prec p ds"
    "plan_hash p ds prec dep = Inr h"
  using assms(3) unfolding build_candidate_set_Inr [OF assms(1,2)] by blast

text \<open>
  C34. The selection rule: the plan has one Candidate per row, in the order of the instruments'
  texts. A row with a required cell that is not available is unrankable and has neither rank
  nor score; every other row has a rank, one more than the number of rows strictly better,
  and is selected exactly when its rank is at most top-k, ties included. The projected scores
  order the Candidates exactly as their ranks do.
\<close>

theorem selection_rule:
  assumes "policy_ok p" and "dataset_ok ds" and "build_candidate_set p ds lo hi = Inr plan"
  shows "map candidate_instrument_id (plan_candidates plan) = map row_instrument_id (sorted_rows ds)
    \<and> (\<forall>c \<in> set (plan_candidates plan). \<forall>r \<in> set (dataset_rows ds).
        candidate_instrument_id c = row_instrument_id r \<longrightarrow>
        (if \<exists>comp \<in> set (policy_components p). cell_status (cell_for r comp) \<noteq> Cell_AVAILABLE
         then disposition c = UNRANKABLE \<and> competition_rank c = None \<and> composite_score c = None
         else \<exists>rank score. competition_rank c = Some rank \<and> composite_score c = Some score
           \<and> disposition c = (if int rank \<le> requested_top_k p then SELECTED else RANKED_NOT_SELECTED)))
    \<and> (\<forall>c \<in> set (plan_candidates plan). \<forall>d \<in> set (plan_candidates plan). \<forall>i j x y.
        competition_rank c = Some i \<and> competition_rank d = Some j
        \<and> composite_score c = Some x \<and> composite_score d = Some y \<longrightarrow> (i < j \<longleftrightarrow> dval y < dval x))"
proof -
  obtain prec dep h d where plan: "plan = plan_for p ds prec dep h"
    and run: "project_exact_values (projection_inputs_for p ds) lo hi = Inr (prec, d)"
    by (rule build_unfolded [OF assms])
  let ?rs = "rankable_rows_for p ds" and ?comps = "policy_components p"
  have k: "1 \<le> requested_top_k p" using assms(1) by (simp add: policy_ok_def)
  have ids: "distinct (map row_instrument_id (dataset_rows ds))" using assms(2) by (simp add: dataset_ok_def)
  have cands: "plan_candidates plan = map (candidate_for p ds ?rs prec) (sorted_rows ds)"
    by (simp add: plan plan_for_def Let_def)
  have rows: "set (sorted_rows ds) = set (dataset_rows ds)" by (simp add: sorted_rows_def)
  have bd: "\<exists>b. boundary_for p ?rs = Some b" if "r \<in> set ?rs" for r
    using that boundary_for_None [of p ?rs] by fastforce
  have row: "if \<exists>comp \<in> set ?comps. cell_status (cell_for r comp) \<noteq> Cell_AVAILABLE
         then disposition c = UNRANKABLE \<and> competition_rank c = None \<and> composite_score c = None
         else \<exists>rank score. competition_rank c = Some rank \<and> composite_score c = Some score
           \<and> disposition c = (if int rank \<le> requested_top_k p then SELECTED else RANKED_NOT_SELECTED)"
    if c: "c \<in> set (plan_candidates plan)" and r: "r \<in> set (dataset_rows ds)"
      and same: "candidate_instrument_id c = row_instrument_id r" for c r
  proof -
    have "c = candidate_for p ds ?rs prec r"
      using c r same ids by (auto simp: cands rows distinct_map inj_on_def)
    moreover have "r \<in> set ?rs \<longleftrightarrow> \<not> (\<exists>comp \<in> set ?comps. cell_status (cell_for r comp) \<noteq> Cell_AVAILABLE)"
      using r by (auto simp: rankable_rows_for_def rankable_def)
    ultimately show ?thesis
      using bd [of r] outcome_rankable [OF _ _ k] by (cases "r \<in> set ?rs") (auto simp: outcome_unrankable)
  qed
  have order: "i < j \<longleftrightarrow> dval y < dval x"
    if c: "c \<in> set (plan_candidates plan)" "e \<in> set (plan_candidates plan)"
      and some: "competition_rank c = Some i" "competition_rank e = Some j"
        "composite_score c = Some x" "composite_score e = Some y" for c e i j x y
  proof -
    obtain r s where rs: "c = candidate_for p ds ?rs prec r" "e = candidate_for p ds ?rs prec s"
      using c by (auto simp: cands)
    have mem: "r \<in> set ?rs" "s \<in> set ?rs"
      using some(1,2) rs by (auto simp: outcome_unrankable intro: ccontr)
    obtain b where b: "boundary_for p ?rs = Some b" using bd [OF mem(1)] by blast
    have xy: "i = rank_for ?comps ?rs r" "x = decimal_quotient prec (score_for ?comps ?rs r)"
      "j = rank_for ?comps ?rs s" "y = decimal_quotient prec (score_for ?comps ?rs s)"
      using some rs outcome_rankable(2,3) [OF mem(1) b k] outcome_rankable(2,3) [OF mem(2) b k] by simp_all
    show ?thesis
      unfolding xy rank_for_le_iff [OF mem] projected_scores_order [OF run ids mem(2,1)] ..
  qed
  show ?thesis
  proof (intro conjI ballI allI impI)
    show "map candidate_instrument_id (plan_candidates plan) = map row_instrument_id (sorted_rows ds)"
      by (simp add: cands)
  qed ((rule row; simp), (elim conjE, rule order; assumption))
qed

theorem selection_rule_witness:
  "\<exists>plan. build_candidate_set demo_ranking_policy demo_dataset 64 64 = Inr plan
    \<and> map candidate_instrument_id (plan_candidates plan) = map row_instrument_id (sorted_rows demo_dataset)"
proof -
  obtain plan where plan: "build_candidate_set demo_ranking_policy demo_dataset 64 64 = Inr plan"
    using demo_plan by blast
  then show ?thesis using selection_rule [OF demo_policy_ok demo_dataset_ok plan] by blast
qed

section \<open>Counts\<close>

lemma count_scores_table:
  "count_scores rel (score_table comps rs) (Some b) = length (filter (\<lambda>r. rel (score_for comps rs r) b) rs)"
  by (simp add: count_scores_def score_table_def filter_map comp_def)

lemma length_filter_sorted_rows:
  "length (filter P (map f (sorted_rows ds))) = length (filter (\<lambda>r. P (f r)) (dataset_rows ds))"
proof -
  have "mset (filter (\<lambda>r. P (f r)) (sorted_rows ds)) = mset (filter (\<lambda>r. P (f r)) (dataset_rows ds))"
    by (simp only: mset_filter sorted_rows_def mset_sort)
  then show ?thesis by (simp add: filter_map comp_def mset_eq_length)
qed

lemma filter_filter_rows:
  "filter (\<lambda>r. r \<in> set (rankable_rows_for p ds) \<and> P r) (dataset_rows ds) = filter P (rankable_rows_for p ds)"
  by (auto simp: rankable_rows_for_def intro!: filter_cong)

lemma disposition_counts:
  fixes p ds prec
  defines "rs \<equiv> rankable_rows_for p ds"
  defines "number \<equiv> \<lambda>d. length (filter (\<lambda>c. disposition c = d) (map (candidate_for p ds rs prec) (sorted_rows ds)))"
  shows "number SELECTED = (case boundary_for p rs of None \<Rightarrow> 0 | Some b \<Rightarrow> length (chosen (policy_components p) rs b))"
    and "number RANKED_NOT_SELECTED = length rs - number SELECTED"
    and "number UNRANKABLE = length (dataset_rows ds) - length rs"
proof -
  let ?comps = "policy_components p" and ?out = "\<lambda>r. fst (outcome_for p rs prec r)"
  have number: "number e = length (filter (\<lambda>r. ?out r = e) (dataset_rows ds))" for e
    unfolding number_def length_filter_sorted_rows by simp
  note rows = filter_filter_rows [of p ds, folded rs_def]
  have "?out r = UNRANKABLE \<longleftrightarrow> r \<notin> set rs" for r
    by (simp add: outcome_for_def Let_def split: option.split)
  then show "number UNRANKABLE = length (dataset_rows ds) - length rs"
    using sum_length_filter_compl [of "\<lambda>r. r \<in> set rs" "dataset_rows ds"] rows [of "\<lambda>_. True"]
    unfolding number by simp
  show sel: "number SELECTED = (case boundary_for p rs of None \<Rightarrow> 0 | Some b \<Rightarrow> length (chosen ?comps rs b))"
  proof (cases "boundary_for p rs")
    case None
    then show ?thesis using boundary_for_None [of p rs] unfolding number by (simp add: outcome_unrankable)
  next
    case (Some b)
    have "?out r = SELECTED \<longleftrightarrow> r \<in> set rs \<and> b \<le> score_for ?comps rs r" for r
      by (simp add: outcome_for_def Let_def Some)
    then show ?thesis unfolding number by (simp add: rows chosen_def Some)
  qed
  show "number RANKED_NOT_SELECTED = length rs - number SELECTED"
  proof (cases "boundary_for p rs")
    case None
    then show ?thesis using boundary_for_None [of p rs] unfolding number by (simp add: outcome_unrankable)
  next
    case (Some b)
    have "?out r = RANKED_NOT_SELECTED \<longleftrightarrow> r \<in> set rs \<and> \<not> b \<le> score_for ?comps rs r" for r
      by (simp add: outcome_for_def Let_def Some)
    then have "number RANKED_NOT_SELECTED = length (filter (\<lambda>r. \<not> b \<le> score_for ?comps rs r) rs)"
      unfolding number by (simp add: rows)
    then show ?thesis
      using sum_length_filter_compl [of "\<lambda>r. b \<le> score_for ?comps rs r" rs] sel
      by (simp add: chosen_def Some)
  qed
qed

lemma chosen_split: "length (chosen comps rs b)
    = above comps rs b + length (filter (\<lambda>r. score_for comps rs r = b) rs)"
proof -
  have "length (filter (\<lambda>r. b \<le> f r) xs) = length (filter (\<lambda>r. b < f r) xs) + length (filter (\<lambda>r. f r = b) xs)"
    for f and xs :: "candidate_population_row list" by (induction xs) auto
  then show ?thesis by (simp add: chosen_def above_def)
qed

lemma status_partition:
  "length (filter (\<lambda>d. rank_information_status d = Rank_AVAILABLE) xs)
      + length (filter (\<lambda>d. rank_information_status d = Rank_CONSTANT) xs)
      + length (filter (\<lambda>d. rank_information_status d = Rank_NOT_ESTIMABLE) xs) = length xs"
proof (induction xs)
  case (Cons x xs)
  then show ?case by (cases "rank_information_status x") auto
qed simp

lemma length_concat_const: "length (concat (map (\<lambda>r. map (f r) ys) xs)) = length xs * length ys"
  by (induction xs) auto

text \<open>
  The counts of a plan are those of its Candidates: each disposition is counted exactly,
  the selected are at least \<open>min top_k rankable\<close> and exceed top-k only by ties at the boundary
  (fewer than top-k are strictly above it), strictly above and boundary group make up the
  selected, the overflow and the tie flag follow, and the components divide into available,
  constant and not estimable.
\<close>

theorem plan_counts:
  assumes "policy_ok p" and "dataset_ok ds" and "build_candidate_set p ds lo hi = Inr plan"
  defines "s \<equiv> plan_candidate_set plan" and "k \<equiv> requested_top_k p"
    and "number \<equiv> \<lambda>d. length (filter (\<lambda>c. disposition c = d) (plan_candidates plan))"
  shows "selected_count s = number SELECTED
    \<and> ranked_not_selected_count s = int (number RANKED_NOT_SELECTED)
    \<and> unrankable_count s = int (number UNRANKABLE)
    \<and> population_count s = length (plan_candidates plan)
    \<and> score_component_count s = population_count s * component_count s
    \<and> min k (int (rankable_count s)) \<le> int (selected_count s)
    \<and> selected_count s = strictly_above_boundary_count s + boundary_group_count s
    \<and> int (strictly_above_boundary_count s) < k
    \<and> selected_overflow_count s = max 0 (int (selected_count s) - k)
    \<and> (boundary_tie_expanded s \<longrightarrow> boundary_has_tie s)
    \<and> available_component_count s + constant_component_count s + not_estimable_component_count s
        = component_count s"
proof -
  obtain prec dep h d where plan: "plan = plan_for p ds prec dep h"
    by (rule build_unfolded [OF assms(1-3)])
  let ?rs = "rankable_rows_for p ds" and ?comps = "policy_components p"
  have k: "1 \<le> requested_top_k p" using assms(1) by (simp add: policy_ok_def)
  have le: "length ?rs \<le> length (dataset_rows ds)" by (simp add: rankable_rows_for_def)
  have cands: "plan_candidates plan = map (candidate_for p ds ?rs prec) (sorted_rows ds)"
    by (simp add: plan plan_for_def Let_def)
  have "number e = length (filter (\<lambda>c. disposition c = e) (map (candidate_for p ds ?rs prec) (sorted_rows ds)))" for e
    by (simp only: number_def cands)
  note number = disposition_counts [of p ds prec, folded this]
  have rows: "length (sorted_rows ds) = length (dataset_rows ds)" by (simp add: sorted_rows_def)
  have s: "s = set_result p ds ?rs (score_table ?comps ?rs) (boundary_for p ?rs)
      (selected_ids_of (score_table ?comps ?rs) (boundary_for p ?rs)) (candidate_set_uuid p ds) prec
      (map_option (decimal_quotient prec) (boundary_for p ?rs)) dep
      (concat (map (\<lambda>r. map (score_record_for p ds ?rs prec r) ?comps) (sorted_rows ds)))
      (map (diagnostic_for (dataset_rows ds) ?rs) ?comps) h"
    by (simp add: s_def plan plan_for_def Let_def)
  have parts: "available_component_count s + constant_component_count s + not_estimable_component_count s
        = component_count s"
    using status_partition [of "map (diagnostic_for (dataset_rows ds) ?rs) ?comps"]
    by (simp add: s set_result_def Let_def)
  have fixed: "population_count s = length (plan_candidates plan)"
    "score_component_count s = population_count s * component_count s"
    "unrankable_count s = int (number UNRANKABLE)"
    using number(3) le by (simp_all add: s set_result_def Let_def cands rows length_concat_const)
  show ?thesis
  proof (cases "boundary_for p ?rs")
    case None
    then show ?thesis using boundary_for_None [of p ?rs] number(1,2) parts fixed k
      by (simp add: s set_result_def Let_def selected_ids_of_def count_scores_def k_def)
  next
    case (Some b)
    have cnt: "selected_count s = length (chosen ?comps ?rs b)" "rankable_count s = length ?rs"
      "strictly_above_boundary_count s = above ?comps ?rs b"
      "boundary_group_count s = length (filter (\<lambda>r. score_for ?comps ?rs r = b) ?rs)"
      "ranked_not_selected_count s = int (length ?rs) - int (length (chosen ?comps ?rs b))"
      "selected_overflow_count s = max 0 (int (selected_count s) - k)"
      "boundary_tie_expanded s \<longleftrightarrow> k < int (selected_count s)"
      "boundary_has_tie s \<longleftrightarrow> 1 < boundary_group_count s"
      by (simp_all add: s set_result_def Let_def Some selected_ids_for count_scores_table above_def k_def)
    have "length (chosen ?comps ?rs b) \<le> length ?rs" by (simp add: chosen_def)
    then show ?thesis
      using boundary_for_props(1,2) [OF Some k] chosen_split [of ?comps ?rs b] number(1,2) parts fixed
      unfolding cnt Some by (simp add: k_def)
  qed
qed

theorem plan_counts_witness:
  "\<exists>plan. build_candidate_set demo_ranking_policy demo_dataset 64 64 = Inr plan
    \<and> 2 \<le> selected_count (plan_candidate_set plan)"
proof -
  obtain plan where plan: "build_candidate_set demo_ranking_policy demo_dataset 64 64 = Inr plan"
    using demo_plan by blast
  have "rankable_count (plan_candidate_set plan) = 3"
  proof -
    obtain prec dep h d where "plan = plan_for demo_ranking_policy demo_dataset prec dep h"
      by (rule build_unfolded [OF demo_policy_ok demo_dataset_ok plan])
    then show ?thesis by (simp add: plan_for_def Let_def set_result_def demo_rankable demo_ranked_def)
  qed
  then show ?thesis using plan plan_counts [OF demo_policy_ok demo_dataset_ok plan] by auto
qed

end
