(* ===== verification/Candidate_Order.thy ===== *)
theory Candidate_Order
  imports Candidate_Properties
begin

text \<open>
  The order of the rows of a population does not reach the ranking plan: everything the plan
  holds depends on the rows as a multiset, and its lists follow the texts of the instruments.
  The concrete policy and population of the witnesses are here too.
\<close>

section \<open>Permuted rows\<close>

lemma mset_filter_length: "mset xs = mset ys \<Longrightarrow> length (filter P xs) = length (filter P ys)"
  by (metis mset_eq_length mset_filter)

lemma midrank_mset:
  assumes "mset vs = mset ws"
  shows "midrank vs v = midrank ws v"
  by (simp add: midrank_def length_remdups_card_conv mset_filter_length [OF assms]
      mset_eq_length [OF assms] mset_eq_setD [OF assms])

lemma percentile_for_mset:
  assumes "mset rs = mset qs"
  shows "percentile_for rs = percentile_for qs"
  unfolding percentile_for_def by (intro ext midrank_mset) (simp add: values_for_def assms)

lemma score_for_mset:
  assumes "mset rs = mset qs"
  shows "score_for comps rs = score_for comps qs"
  by (intro ext) (simp add: score_for_def percentile_for_mset [OF assms])

lemma score_table_mset:
  assumes "mset rs = mset qs"
  shows "mset (score_table comps rs) = mset (score_table comps qs)"
  by (simp add: score_table_def score_for_mset [OF assms] assms)

lemma boundary_for_mset:
  assumes "mset rs = mset qs"
  shows "boundary_for p rs = boundary_for p qs"
proof -
  let ?f = "\<lambda>rs. map snd (score_table (policy_components p) rs)"
  have "mset (?f rs) = mset (?f qs)" using score_table_mset [OF assms] by simp
  then have "sort (?f rs) = sort (?f qs)" by (metis properties_for_sort mset_sort sorted_sort)
  moreover have "score_table (policy_components p) rs = [] \<longleftrightarrow> score_table (policy_components p) qs = []"
    using score_table_mset [OF assms] by (metis mset_zero_iff)
  ultimately show ?thesis by (simp add: boundary_for_def boundary_score_of_def Let_def)
qed

lemma diagnostic_for_mset:
  assumes "mset rows = mset rows'" "mset rs = mset qs"
  shows "diagnostic_for rows rs c = diagnostic_for rows' qs c"
proof -
  have cells: "length (filter P (map (\<lambda>r. cell_for r c) rows)) = length (filter P (map (\<lambda>r. cell_for r c) rows'))" for P
    by (rule mset_filter_length) (simp add: assms(1))
  have "length (remdups (map snd (map (\<lambda>r. (row_instrument_id r, value_for r c)) rs)))
      = length (remdups (map snd (map (\<lambda>r. (row_instrument_id r, value_for r c)) qs)))"
    using mset_eq_setD [OF assms(2)] by (simp add: length_remdups_card_conv)
  then show ?thesis
    using mset_eq_length [OF assms(2)] cells
    by (simp add: diagnostic_for_def component_diagnostic_def Let_def status_count_def)
qed

lemma outcome_for_mset:
  assumes "mset rs = mset qs"
  shows "outcome_for p rs prec = outcome_for p qs prec"
proof
  fix r
  note same = score_for_mset [OF assms] mset_filter_length [OF assms] mset_eq_length [OF assms]
    mset_eq_setD [OF assms] boundary_for_mset [OF assms]
  have "length (chosen comps rs b) = length (chosen comps qs b)" for comps b
    by (simp add: chosen_def same)
  then have "reason_for p rs b r = reason_for p qs b r" for b
    by (simp add: reason_for_def Let_def same)
  moreover have "rank_for comps rs r = rank_for comps qs r" for comps by (simp add: rank_for_def same)
  ultimately show "outcome_for p rs prec r = outcome_for p qs prec r"
    by (simp add: outcome_for_def Let_def same split: option.split)
qed

text \<open>Two populations with the same rows in different orders.\<close>

lemma sorted_rows_mset:
  assumes "mset (dataset_rows ds) = mset rows" "distinct (map row_instrument_id (dataset_rows ds))"
  shows "sorted_rows (ds\<lparr>dataset_rows := rows\<rparr>) = sorted_rows ds"
proof -
  have "map (\<lambda>row. uuid_str (row_instrument_id row)) (dataset_rows ds)
      = map uuid_str (map row_instrument_id (dataset_rows ds))" by simp
  moreover have "distinct (map uuid_str (map row_instrument_id (dataset_rows ds)))"
    using assms(2) by (subst distinct_map) (simp add: inj_on_def)
  ultimately have "distinct (map (\<lambda>row. uuid_str (row_instrument_id row)) (dataset_rows ds))" by metis
  from sort_key_distinct_mset [OF assms(1) this] show ?thesis by (simp add: sorted_rows_def)
qed

lemma rankable_rows_mset:
  "mset (dataset_rows ds) = mset rows \<Longrightarrow>
     mset (rankable_rows_for p (ds\<lparr>dataset_rows := rows\<rparr>)) = mset (rankable_rows_for p ds)"
  by (simp add: rankable_rows_for_def)

lemma set_result_mset:
  assumes "mset rs = mset qs" "mset scores = mset scores'" "mset (dataset_rows ds) = mset rows"
    "length ids = length ids'"
  shows "set_result p (ds\<lparr>dataset_rows := rows\<rparr>) rs scores b ids sid prec score dep recs diags h
    = set_result p ds qs scores' b ids' sid prec score dep recs diags h"
proof -
  have "count_scores rel scores b = count_scores rel scores' b" for rel
    by (simp add: count_scores_def mset_filter_length [OF assms(2)] split: option.split)
  moreover have "length (remdups (map snd scores)) = length (remdups (map snd scores'))"
    using mset_eq_setD [OF assms(2)] by (simp add: length_remdups_card_conv)
  ultimately show ?thesis
    using mset_eq_length [OF assms(1)] mset_eq_length [OF assms(3)] assms(4)
    by (simp add: set_result_def Let_def)
qed

lemma plan_for_mset:
  assumes "mset (dataset_rows ds) = mset rows" "distinct (map row_instrument_id (dataset_rows ds))"
  shows "plan_for p (ds\<lparr>dataset_rows := rows\<rparr>) prec dep h = plan_for p ds prec dep h"
proof -
  let ?ds = "ds\<lparr>dataset_rows := rows\<rparr>" and ?comps = "policy_components p"
  let ?rs = "rankable_rows_for p ds" and ?qs = "rankable_rows_for p (ds\<lparr>dataset_rows := rows\<rparr>)"
  note rs = rankable_rows_mset [OF assms(1), of p]
  have sid: "candidate_set_uuid p ?ds = candidate_set_uuid p ds" by (simp add: candidate_set_uuid_def)
  have cand: "candidate_for p ?ds ?qs prec = candidate_for p ds ?rs prec"
    by (intro ext) (simp add: candidate_for_def outcome_for_mset [OF rs] sid candidate_of_row_def)
  have score: "score_record_for p ?ds ?qs prec = score_record_for p ds ?rs prec"
    by (intro ext) (simp add: score_record_for_def Let_def outcome_for_mset [OF rs] sid score_record_def
        percentile_for_mset [OF rs] mset_eq_setD [OF rs])
  have diag: "diagnostic_for rows ?qs = diagnostic_for (dataset_rows ds) ?rs"
    using diagnostic_for_mset [OF assms(1) [symmetric] rs] by blast
  have "length (selected_ids_of (score_table ?comps ?qs) b)
      = length (selected_ids_of (score_table ?comps ?rs) b)" for b
    by (simp add: selected_ids_of_def mset_filter_length [OF score_table_mset [OF rs]] split: option.split)
  note result = set_result_mset [OF rs score_table_mset [OF rs] assms(1) this]
  show ?thesis
    by (simp add: plan_for_def Let_def sorted_rows_mset [OF assms] cand score diag result sid boundary_for_mset [OF rs])
qed

section \<open>Permuted projections\<close>

lemma mapE_set_Inr:
  assumes "mapE f xs = Inr ys" "set xs' = set xs"
  shows "\<exists>ys'. mapE f xs' = Inr ys'"
  using assms mapE_is_Inr by metis

lemma project_loop_set:
  assumes "project_loop q hi kvs = Inr (r, ds)" "set kvs' = set kvs"
  shows "\<exists>ds'. project_loop q hi kvs' = Inr (r, ds')"
  using assms(1,2)
proof (induction q hi kvs rule: project_loop.induct)
  case (1 q hi kvs)
  obtain proj order where step: "mapE (\<lambda>(k, v). mapR (Pair k) (project_fraction q v)) kvs = Inr proj"
    "mapE (project_fraction q) (sort (remdups (map snd kvs))) = Inr order"
    using "1.prems"(1) by (subst (asm) project_loop.simps) (auto simp: bindE_Inr_iff)
  obtain proj' where proj': "mapE (\<lambda>(k, v). mapR (Pair k) (project_fraction q v)) kvs' = Inr proj'"
    using mapE_set_Inr [OF step(1) "1.prems"(2)] by blast
  have "sort (remdups (map snd kvs')) = sort (remdups (map snd kvs))"
    using "1.prems"(2) by (simp flip: sorted_list_of_set_sort_remdups)
  then have order': "mapE (project_fraction q) (sort (remdups (map snd kvs'))) = Inr order" using step(2) by simp
  have loop: "project_loop q hi xs =
      (if strictly_increasing order then Inr (q, p)
       else if q = hi \<or> q = 0 then Inl cap_error
       else project_loop (min (q * 2) hi) hi xs)"
    if "mapE (\<lambda>(k, v). mapR (Pair k) (project_fraction q v)) xs = Inr p"
      "mapE (project_fraction q) (sort (remdups (map snd xs))) = Inr order" for xs :: "('a \<times> rat) list" and p
    by (subst project_loop.simps) (simp add: that cap_error_def)
  show ?case
    using "1.prems" "1.IH" [OF step] loop [OF step] loop [OF proj' order'] by (auto split: if_splits)
qed

lemma project_exact_values_set:
  assumes "project_exact_values kvs lo hi = Inr (r, ds)" "set kvs' = set kvs"
  shows "\<exists>ds'. project_exact_values kvs' lo hi = Inr (r, ds')"
  using assms project_loop_set [OF _ assms(2)]
  by (auto simp: project_exact_values_def split: if_splits)

lemma projection_inputs_mset:
  assumes "mset (dataset_rows ds) = mset rows" "distinct (map row_instrument_id (dataset_rows ds))"
  shows "set (projection_inputs_for p (ds\<lparr>dataset_rows := rows\<rparr>)) = set (projection_inputs_for p ds)"
proof -
  let ?comps = "policy_components p"
  let ?rs = "rankable_rows_for p ds" and ?qs = "rankable_rows_for p (ds\<lparr>dataset_rows := rows\<rparr>)"
  note rs = rankable_rows_mset [OF assms(1), of p]
  have d: "distinct (map fst (score_table ?comps ?rs))"
    using assms(2) by (simp add: score_table_def comp_def rankable_rows_for_def distinct_map_filter)
  have m: "mset (map fst (score_table ?comps ?qs)) = mset (map fst (score_table ?comps ?rs))"
    using score_table_mset [OF rs] by simp
  have d': "distinct (map fst (score_table ?comps ?qs))"
    using mset_eq_imp_distinct_iff [OF m] d by blast
  show ?thesis
    using mset_eq_setD [OF score_table_mset [OF rs]]
    by (simp add: projection_inputs_for_def ranking_projection_inputs_ok [OF d]
        ranking_projection_inputs_ok [OF d'] boundary_for_mset [OF rs])
qed

text \<open>
  C36. The order of the rows does not matter: when a population is ranked, the same population
  with its rows in any other order is ranked at the same precision to the very same plan,
  content hash included.
\<close>

theorem row_order_independent:
  assumes "policy_ok p" and "dataset_ok ds" and "build_candidate_set p ds lo hi = Inr plan"
    and "mset (dataset_rows ds) = mset rows"
  shows "build_candidate_set p (ds\<lparr>dataset_rows := rows\<rparr>) lo hi = Inr plan"
proof -
  let ?ds = "ds\<lparr>dataset_rows := rows\<rparr>"
  have ids: "distinct (map row_instrument_id (dataset_rows ds))" using assms(2) by (simp add: dataset_ok_def)
  note rs = rankable_rows_mset [OF assms(4), of p]
  have ok: "dataset_ok ?ds"
  proof -
    have "distinct (map f rows) \<longleftrightarrow> distinct (map f (dataset_rows ds))" for f :: "_ \<Rightarrow> uuid"
      by (rule mset_eq_imp_distinct_iff) (simp add: assms(4))
    then show ?thesis using assms(2) mset_eq_setD [OF assms(4)] by (simp add: dataset_ok_def list_all_iff)
  qed
  obtain prec dep h d where plan: "plan = plan_for p ds prec dep h"
    and run: "project_exact_values (projection_inputs_for p ds) lo hi = Inr (prec, d)"
    and rest: "dataset_complete p ds" "dependency_sha256 ds = Some dep" "plan_projects prec p ds"
      "plan_hash p ds prec dep = Inr h"
    by (rule build_unfolded [OF assms(1-3)])
  obtain d' where run': "project_exact_values (projection_inputs_for p ?ds) lo hi = Inr (prec, d')"
    using project_exact_values_set [OF run projection_inputs_mset [OF assms(4) ids]] by blast
  have "dataset_complete p ?ds" using rest(1) mset_eq_setD [OF assms(4)] by (simp add: dataset_complete_def list_all_iff)
  moreover have "plan_projects prec p ?ds"
    using rest(3) mset_eq_setD [OF rs] mset_eq_length [OF assms(4)] percentile_for_mset [OF rs]
    by (auto simp: plan_projects_def all_project_def)
  moreover have "plan_hash p ?ds prec dep = Inr h"
    using rest(4) plan_for_mset [OF assms(4) ids] by (simp add: plan_hash_def candidate_set_uuid_def)
  ultimately show ?thesis
    using build_candidate_set_Inr [OF assms(1) ok] run' rest(2) plan plan_for_mset [OF assms(4) ids] by simp
qed

theorem row_order_independent_witness:
  "\<exists>plan. build_candidate_set demo_ranking_policy demo_dataset 64 64 = Inr plan
    \<and> build_candidate_set demo_ranking_policy (demo_dataset\<lparr>dataset_rows := rev demo_rows\<rparr>) 64 64 = Inr plan"
proof -
  obtain plan where plan: "build_candidate_set demo_ranking_policy demo_dataset 64 64 = Inr plan"
    using demo_plan by blast
  have "mset (dataset_rows demo_dataset) = mset (rev demo_rows)" by (simp add: demo_dataset_def)
  from row_order_independent [OF demo_policy_ok demo_dataset_ok plan this] show ?thesis using plan by blast
qed

end
