(* ===== verification/Py_Arithmetic.thy ===== *)
theory Py_Arithmetic
  imports Shared_Financial
begin

text \<open>
  Arithmetic on \<open>decimal.Decimal\<close> in a context of \<open>prec\<close> digits with half-even rounding, as
  the library specifies it: an operation is computed exactly and rounded once. The result
  keeps its spelling, because content hashes are taken of it. Comparison is exact, whatever
  the context, and ordering a NaN raises.
\<close>

section \<open>Rounding into a context\<close>

definition decimal_fix :: "nat \<Rightarrow> bool \<Rightarrow> nat \<Rightarrow> int \<Rightarrow> decimal" where
  "decimal_fix prec s c e =
     (if c < 10 ^ prec then Fin s c e
      else case rounded_digits prec (of_nat c * power_int 10 e) of (c', e') \<Rightarrow> Fin s c' e')"

lemma representable_coefficient:
  "c < 10 ^ p \<Longrightarrow> representable 10 p (of_nat c * power_int 10 e)"
proof -
  assume "c < 10 ^ p"
  then have "int c < int (10 ^ p)" by (simp only: of_nat_less_iff)
  then show ?thesis
    unfolding representable_def by (intro exI [of _ "int c"] exI [of _ e]) simp
qed

lemma decimal_fix_finite [simp]: "is_finite (decimal_fix prec s c e)"
  by (simp add: decimal_fix_def split: prod.split)

lemma decimal_fix_value:
  assumes "0 < prec"
  shows "dval (decimal_fix prec s c e) = round_sig 10 prec (dval (Fin s c e))"
proof (cases "c < 10 ^ prec")
  case True
  have "round_sig 10 prec (of_nat c * power_int 10 e) = of_nat c * power_int 10 e"
    by (rule round_sig_exact [OF _ assms representable_coefficient [OF True]]) simp
  then show ?thesis using True by (cases s) (simp_all add: decimal_fix_def round_sig_minus)
next
  case False
  then have pos: "0 < (of_nat c * power_int 10 e :: rat)" by (cases c) auto
  obtain c' e' where ce: "rounded_digits prec (of_nat c * power_int 10 e) = (c', e')" by fastforce
  have "dval (decimal_fix prec s c e) = (if s then - 1 else 1) * (of_nat c' * power_int 10 e')"
    using False by (simp add: decimal_fix_def ce)
  then show ?thesis
    using rounded_digits_value [OF assms pos ce] by (cases s) (simp_all add: round_sig_minus)
qed

section \<open>Operations\<close>

definition signed_units :: "bool \<Rightarrow> nat \<Rightarrow> int" where
  "signed_units s c = (if s then - int c else int c)"

text \<open>A sum of zeros, or a sum that cancels, is negative only if both operands are.\<close>

fun decimal_add :: "nat \<Rightarrow> decimal \<Rightarrow> decimal \<Rightarrow> decimal result" where
  "decimal_add prec (Fin s c e) (Fin s' c' e') =
     (let m = min e e';
          n = signed_units s c * 10 ^ nat (e - m) + signed_units s' c' * 10 ^ nat (e' - m)
      in Inr (if n = 0 then Fin (s \<and> s') 0 m else decimal_fix prec (n < 0) (nat \<bar>n\<bar>) m))"
| "decimal_add prec NaN b = Inr NaN"
| "decimal_add prec a NaN = Inr NaN"
| "decimal_add prec (Infinite s) (Infinite s') =
     (if s = s' then Inr (Infinite s) else Inl InvalidOperation)"
| "decimal_add prec (Infinite s) (Fin s' c' e') = Inr (Infinite s)"
| "decimal_add prec (Fin s c e) (Infinite s') = Inr (Infinite s')"

fun decimal_negate :: "decimal \<Rightarrow> decimal" where
  "decimal_negate (Fin s c e) = Fin (\<not> s) c e"
| "decimal_negate (Infinite s) = Infinite (\<not> s)"
| "decimal_negate NaN = NaN"

definition decimal_sub :: "nat \<Rightarrow> decimal \<Rightarrow> decimal \<Rightarrow> decimal result" where
  "decimal_sub prec a b = decimal_add prec a (decimal_negate b)"

fun decimal_mul :: "nat \<Rightarrow> decimal \<Rightarrow> decimal \<Rightarrow> decimal result" where
  "decimal_mul prec (Fin s c e) (Fin s' c' e') = Inr (decimal_fix prec (s \<noteq> s') (c * c') (e + e'))"
| "decimal_mul prec NaN b = Inr NaN"
| "decimal_mul prec a NaN = Inr NaN"
| "decimal_mul prec (Infinite s) (Infinite s') = Inr (Infinite (s \<noteq> s'))"
| "decimal_mul prec (Infinite s) (Fin s' c' e') =
     (if c' = 0 then Inl InvalidOperation else Inr (Infinite (s \<noteq> s')))"
| "decimal_mul prec (Fin s c e) (Infinite s') =
     (if c = 0 then Inl InvalidOperation else Inr (Infinite (s \<noteq> s')))"

text \<open>
  An exact quotient is spelled with an exponent as near as possible to the difference of the
  operands' exponents. Only finite operands are divided by the program.
\<close>

definition decimal_quotient_at :: "nat \<Rightarrow> bool \<Rightarrow> int \<Rightarrow> rat \<Rightarrow> decimal" where
  "decimal_quotient_at prec s i q =
     (case rounded_digits prec q of (c, e) \<Rightarrow>
        if e < i \<and> of_nat c * power_int 10 e = q
        then (case strip_zeros c (nat (i - e)) of (c', k) \<Rightarrow> Fin s c' (i - int k))
        else Fin s c e)"

fun decimal_div :: "nat \<Rightarrow> decimal \<Rightarrow> decimal \<Rightarrow> decimal result" where
  "decimal_div prec (Fin s c e) (Fin s' c' e') =
     (if c' = 0 then Inl (if c = 0 then InvalidOperation else ZeroDivisionError)
      else if c = 0 then Inr (Fin (s \<noteq> s') 0 (e - e'))
      else Inr (decimal_quotient_at prec (s \<noteq> s') (e - e')
             (of_nat c * power_int 10 e / (of_nat c' * power_int 10 e'))))"
| "decimal_div prec NaN b = Inr NaN"
| "decimal_div prec a NaN = Inr NaN"
| "decimal_div prec (Infinite s) (Infinite s') = Inl InvalidOperation"
| "decimal_div prec (Infinite s) (Fin s' c' e') = Inr (Infinite (s \<noteq> s'))"
| "decimal_div prec (Fin s c e) (Infinite s') = Inr (Fin (s \<noteq> s') 0 0)"

text \<open>\<open>quantize(..., rounding=ROUND_DOWN)\<close>: digits beyond the quantum are dropped.\<close>

fun quantize_down :: "nat \<Rightarrow> int \<Rightarrow> decimal \<Rightarrow> decimal result" where
  "quantize_down prec t (Fin s c e) =
     (let c' = (if t \<le> e then c * 10 ^ nat (e - t) else c div 10 ^ nat (t - e))
      in thenE (guardE (length (dec_digits c') \<le> prec) InvalidOperation) (Inr (Fin s c' t)))"
| "quantize_down prec t (Infinite s) = Inl InvalidOperation"
| "quantize_down prec t NaN = Inr NaN"

text \<open>\<open>sum(xs, start)\<close>: left to right, every partial sum rounded.\<close>

definition decimal_sum :: "nat \<Rightarrow> decimal list \<Rightarrow> decimal \<Rightarrow> decimal result" where
  "decimal_sum prec = foldE (\<lambda>x acc. decimal_add prec acc x)"

section \<open>Comparison\<close>

fun decimal_le :: "decimal \<Rightarrow> decimal \<Rightarrow> bool result" where
  "decimal_le NaN b = Inl InvalidOperation"
| "decimal_le a NaN = Inl InvalidOperation"
| "decimal_le (Infinite s) (Infinite s') = Inr (s \<or> \<not> s')"
| "decimal_le (Infinite s) (Fin s' c' e') = Inr s"
| "decimal_le (Fin s c e) (Infinite s') = Inr (\<not> s')"
| "decimal_le (Fin s c e) (Fin s' c' e') = Inr (dval (Fin s c e) \<le> dval (Fin s' c' e'))"

fun decimal_eq :: "decimal \<Rightarrow> decimal \<Rightarrow> bool" where
  "decimal_eq (Fin s c e) (Fin s' c' e') = (dval (Fin s c e) = dval (Fin s' c' e'))"
| "decimal_eq (Infinite s) (Infinite s') = (s = s')"
| "decimal_eq _ _ = False"

text \<open>\<open>min\<close> and \<open>max\<close> of finite decimals keep the first of equal values.\<close>

definition decimal_min :: "decimal \<Rightarrow> decimal \<Rightarrow> decimal" where
  "decimal_min a b = (if dval b < dval a then b else a)"

definition decimal_max :: "decimal \<Rightarrow> decimal \<Rightarrow> decimal" where
  "decimal_max a b = (if dval a < dval b then b else a)"

section \<open>Values of results\<close>

lemma decimal_le_finite [simp]:
  "is_finite a \<Longrightarrow> is_finite b \<Longrightarrow> decimal_le a b = Inr (dval a \<le> dval b)"
  by (cases a; cases b) simp_all

lemma decimal_eq_finite [simp]:
  "is_finite a \<Longrightarrow> is_finite b \<Longrightarrow> decimal_eq a b \<longleftrightarrow> dval a = dval b"
  by (cases a; cases b) simp_all

lemma decimal_min_simps [simp]:
  "dval (decimal_min a b) = min (dval a) (dval b)"
  "is_finite a \<Longrightarrow> is_finite b \<Longrightarrow> is_finite (decimal_min a b)"
  by (simp_all add: decimal_min_def)

lemma decimal_max_simps [simp]:
  "dval (decimal_max a b) = max (dval a) (dval b)"
  "is_finite a \<Longrightarrow> is_finite b \<Longrightarrow> is_finite (decimal_max a b)"
  by (simp_all add: decimal_max_def)

lemma decimal_negate_simps [simp]:
  "dval (decimal_negate a) = - dval a"
  "is_finite (decimal_negate a) = is_finite a"
  by (cases a; simp)+

lemma signed_units_value: "dval (Fin s c e) = of_int (signed_units s c) * power_int 10 e"
  by (simp add: signed_units_def)

lemma power_int_shift: "m \<le> e \<Longrightarrow> power_int (10::rat) e = 10 ^ nat (e - m) * power_int 10 m"
  using power_int_add [of "10::rat" "e - m" m] by (simp add: power_int_def)

text \<open>A decimal in units of \<open>10 ^ m\<close>.\<close>

lemma dval_units:
  assumes "m \<le> e"
  shows "dval (Fin s c e) = of_int (signed_units s c * 10 ^ nat (e - m)) * power_int 10 m"
  using power_int_shift [OF assms] by (simp only: signed_units_value of_int_mult of_int_power of_int_numeral mult.assoc)

lemma dval_of_units: "dval (Fin (n < 0) (nat \<bar>n\<bar>) m) = of_int n * power_int 10 m"
  by (cases "n < 0") simp_all

text \<open>An operation on finite decimals returns a finite decimal that rounds the exact result.\<close>

definition rounds_to :: "nat \<Rightarrow> decimal result \<Rightarrow> rat \<Rightarrow> bool" where
  "rounds_to prec r x \<longleftrightarrow> (\<exists>d. r = Inr d \<and> is_finite d \<and> dval d = round_sig 10 prec x)"

lemma decimal_add_rounds:
  assumes "0 < prec" "is_finite a" "is_finite b"
  shows "rounds_to prec (decimal_add prec a b) (dval a + dval b)"
proof -
  obtain s c e s' c' e' where ab: "a = Fin s c e" "b = Fin s' c' e'"
    using assms by (cases a; cases b) auto
  let ?m = "min e e'"
  let ?n = "signed_units s c * 10 ^ nat (e - ?m) + signed_units s' c' * 10 ^ nat (e' - ?m)"
  have sum: "dval a + dval b = of_int ?n * power_int 10 ?m"
    using dval_units [of ?m e s c] dval_units [of ?m e' s' c'] by (simp add: ab distrib_right)
  show ?thesis
  proof (cases "?n = 0")
    case True
    then show ?thesis using sum by (simp add: ab rounds_to_def Let_def)
  next
    case False
    then show ?thesis
      using sum decimal_fix_value [OF assms(1), of "?n < 0" "nat \<bar>?n\<bar>" ?m]
      unfolding dval_of_units by (simp add: ab rounds_to_def Let_def)
  qed
qed

lemma decimal_sub_rounds:
  assumes "0 < prec" "is_finite a" "is_finite b"
  shows "rounds_to prec (decimal_sub prec a b) (dval a - dval b)"
  using decimal_add_rounds [of prec a "decimal_negate b"] assms by (simp add: decimal_sub_def)

lemma decimal_mul_rounds:
  assumes "0 < prec" "is_finite a" "is_finite b"
  shows "rounds_to prec (decimal_mul prec a b) (dval a * dval b)"
proof -
  obtain s c e s' c' e' where ab: "a = Fin s c e" "b = Fin s' c' e'"
    using assms by (cases a; cases b) auto
  have "dval a * dval b = dval (Fin (s \<noteq> s') (c * c') (e + e'))"
    by (cases s; cases s'; simp add: ab power_int_add)
  then show ?thesis
    using decimal_fix_value [OF assms(1), of "s \<noteq> s'" "c * c'" "e + e'"]
    unfolding ab rounds_to_def decimal_mul.simps
    by (intro exI [of _ "decimal_fix prec (s \<noteq> s') (c * c') (e + e')"]) (simp only: decimal_fix_finite simp_thms)
qed

lemma decimal_quotient_at_value:
  assumes prec: "0 < prec" and q: "0 < q"
  shows "dval (decimal_quotient_at prec s i q) = (if s then - 1 else 1) * round_sig 10 prec q"
    and "is_finite (decimal_quotient_at prec s i q)"
proof -
  obtain c e where ce: "rounded_digits prec q = (c, e)" by fastforce
  obtain c' k where s: "strip_zeros c (nat (i - e)) = (c', k)" by fastforce
  note v = rounded_digits_value [OF prec q ce]
  have "of_nat c' * power_int 10 (i - int k) = (of_nat c * power_int 10 e :: rat)" if "e < i"
  proof -
    have k: "c * 10 ^ k = c' * 10 ^ nat (i - e)" "k \<le> nat (i - e)"
      using strip_zeros_value [OF s] by auto
    have "power_int (10::rat) i = 10 ^ nat (i - e) * power_int 10 e"
      "power_int (10::rat) i = 10 ^ k * power_int 10 (i - int k)"
      using power_int_shift [of e i] power_int_shift [of "i - int k" i] that by simp_all
    moreover have "(of_nat c :: rat) * 10 ^ k = of_nat c' * 10 ^ nat (i - e)"
      using k(1) by (metis of_nat_mult of_nat_numeral of_nat_power)
    ultimately have "10 ^ k * (of_nat c * power_int 10 e) = (10::rat) ^ k * (of_nat c' * power_int 10 (i - int k))"
      by (metis mult.assoc mult.commute)
    then show ?thesis by simp
  qed
  then show "dval (decimal_quotient_at prec s i q) = (if s then - 1 else 1) * round_sig 10 prec q"
    using v by (auto simp: decimal_quotient_at_def ce s)
  show "is_finite (decimal_quotient_at prec s i q)"
    by (simp add: decimal_quotient_at_def ce s)
qed

lemma decimal_div_rounds:
  assumes "0 < prec" "is_finite a" "is_finite b" "dval b \<noteq> 0"
  shows "rounds_to prec (decimal_div prec a b) (dval a / dval b)"
proof -
  obtain s c e s' c' e' where ab: "a = Fin s c e" "b = Fin s' c' e'"
    using assms by (cases a; cases b) auto
  have c': "0 < c'" using assms(4) by (auto simp: ab)
  show ?thesis
  proof (cases "c = 0")
    case True
    then show ?thesis using c' by (simp add: ab rounds_to_def)
  next
    case False
    let ?q = "of_nat c * power_int 10 e / (of_nat c' * power_int 10 e') :: rat"
    have "0 < ?q" using False c' by simp
    note q = decimal_quotient_at_value [OF assms(1) this]
    have "dval a / dval b = (if s = s' then 1 else - 1) * ?q"
      by (cases s; cases s'; simp add: ab)
    then show ?thesis using False c' q by (simp add: ab rounds_to_def round_sig_minus)
  qed
qed

lemma rounds_toE:
  assumes "rounds_to prec r x"
  obtains d where "r = Inr d" "is_finite d" "dval d = round_sig 10 prec x"
  using assms by (auto simp: rounds_to_def)

section \<open>Exact results\<close>

text \<open>
  \<open>units k p x\<close>: the magnitude of \<open>x\<close> is a whole number of \<open>10 ^ - k\<close> with at most \<open>p\<close> digits.
  Such values are added, subtracted and multiplied by integers without rounding.
\<close>

definition units :: "nat \<Rightarrow> nat \<Rightarrow> rat \<Rightarrow> bool" where
  "units k p x \<longleftrightarrow> (\<exists>n. x = of_int n / 10 ^ k \<and> \<bar>n\<bar> < 10 ^ p)"

lemma round_units:
  assumes "units k p x" "0 < p" shows "round_sig 10 p x = x"
proof -
  obtain n where n: "x = of_int n / 10 ^ k" "\<bar>n\<bar> < 10 ^ p" using assms(1) by (auto simp: units_def)
  have "x = of_int n * power_int 10 (- int k)" by (simp add: n power_int_minus field_simps)
  then have "representable 10 p x" using n(2) unfolding representable_def by auto
  then show ?thesis by (intro round_sig_exact) (use assms in auto)
qed

lemma rounds_to_exact:
  assumes "rounds_to p r x" "units k p x" "0 < p"
  obtains d where "r = Inr d" "is_finite d" "dval d = x"
  using assms round_units by (auto simp: rounds_to_def)

definition on_grid :: "nat \<Rightarrow> rat \<Rightarrow> bool" where
  "on_grid k x \<longleftrightarrow> x * 10 ^ k \<in> \<int>"

lemma on_grid_closed:
  assumes "on_grid k x" "on_grid k y"
  shows "on_grid k (x + y)" "on_grid k (x - y)" "on_grid k (- x)" "on_grid k (of_int i * x)"
    "on_grid k (min x y)" "on_grid k (max x y)"
  using assms by (auto simp: on_grid_def distrib_right left_diff_distrib min_def max_def mult.assoc)

lemma on_grid_of_int [simp]: "on_grid k (of_int i)" "on_grid k 0" "on_grid k 1"
  by (simp_all add: on_grid_def)

lemma on_grid_mono: "on_grid j x \<Longrightarrow> j \<le> k \<Longrightarrow> on_grid k x"
proof -
  assume a: "on_grid j x" "j \<le> k"
  have "x * 10 ^ k = (x * 10 ^ j) * of_int (10 ^ (k - j))"
    using a(2) by (simp add: power_add [symmetric] mult.assoc)
  then show ?thesis using a(1) by (simp only: on_grid_def Ints_mult Ints_of_int)
qed

lemma units_on_grid:
  assumes "on_grid k x" "\<bar>x\<bar> < 10 ^ (p - k)" "k \<le> p"
  shows "units k p x"
proof -
  obtain n where n: "x * 10 ^ k = of_int n" using assms(1) by (auto simp: on_grid_def Ints_def)
  then have x: "x = of_int n / 10 ^ k" by (simp add: field_simps)
  have "\<bar>x\<bar> * 10 ^ k < 10 ^ (p - k) * 10 ^ k" using assms(2) by (intro mult_strict_right_mono) auto
  then have "\<bar>x * 10 ^ k\<bar> < 10 ^ p" using assms(3) by (simp add: abs_mult power_add [symmetric])
  then have "(of_int \<bar>n\<bar> :: rat) < of_int (10 ^ p)" by (simp add: n)
  then have "\<bar>n\<bar> < 10 ^ p" by (simp only: of_int_less_iff)
  then show ?thesis using x by (auto simp: units_def)
qed

end
