(* ===== verification/Decision_Values.thy ===== *)
theory Decision_Values
  imports Py_Arithmetic Candidate_Results
begin

text \<open>
  What the modules of \<open>decision_support/domain\<close> share: the wrapped hash check, code and
  request patterns, text checks, artifact bindings, rosters numbered from 1, insertion-ordered
  sets, and the contract of a roll-up that reports the most severe status of a roster.
\<close>

section \<open>Field checks\<close>

text \<open>\<open>_sha(value, label)\<close>, which renames the failure of \<open>ContentHash\<close>.\<close>

definition sha_field :: "string \<Rightarrow> string \<Rightarrow> string result" where
  "sha_field label v =
     (case content_hash v of
        Inl e \<Rightarrow> Inl (ValueError (label @ '' must be a lowercase SHA-256''))
      | Inr h \<Rightarrow> Inr h)"

lemma sha_field_Inr_iff [simp]: "sha_field label v = Inr h \<longleftrightarrow> content_hash_ok v \<and> h = v"
  by (auto simp: sha_field_def content_hash_def)

lemma sha_field_ok [simp]: "content_hash_ok v \<Longrightarrow> sha_field label v = Inr v"
  by simp

definition finite_field :: "string \<Rightarrow> decimal option \<Rightarrow> py_error + unit" where
  "finite_field label v =
     guardE (case v of None \<Rightarrow> True | Some d \<Rightarrow> is_finite d)
       (ValueError (label @ '' must be a finite Decimal''))"

definition decision_code_ok :: "string \<Rightarrow> bool" where
  "decision_code_ok =
     head_tail_match is_lower (\<lambda>c. is_lower c \<or> is_digit c \<or> c \<in> set ''_.-'') 99"

definition request_identity_ok :: "string \<Rightarrow> bool" where
  "request_identity_ok =
     head_tail_match is_alnum (\<lambda>c. is_alnum c \<or> c \<in> set ''._:/-'') 199"

text \<open>Python's \<open>str\<close> as code points, for \<open>len\<close> and \<open>strip\<close>.\<close>

definition code_points :: "string \<Rightarrow> nat list" where
  "code_points s = utf8_decode (map byte_nat s)"

definition is_space :: "nat \<Rightarrow> bool" where
  "is_space n \<longleftrightarrow> (9 \<le> n \<and> n \<le> 13) \<or> (28 \<le> n \<and> n \<le> 32)
     \<or> n \<in> set [0x85, 0xA0, 0x1680, 0x2028, 0x2029, 0x202F, 0x205F, 0x3000]
     \<or> (0x2000 \<le> n \<and> n \<le> 0x200A)"

definition text_ok :: "nat \<Rightarrow> string \<Rightarrow> bool" where
  "text_ok limit s \<longleftrightarrow>
     (\<not> list_all is_space (code_points s)) \<and> \<not> length (code_points s) > limit"

section \<open>Artifact bindings\<close>

record decision_artifact_binding =
  decision_artifact_id :: uuid
  decision_artifact_sha256 :: string
  decision_artifact_size :: int

definition decision_artifact_binding_init ::
  "decision_artifact_binding \<Rightarrow> decision_artifact_binding result" where
  "decision_artifact_binding_init b =
     bindE (sha_field ''artifact content hash'' (decision_artifact_sha256 b)) (\<lambda>h.
     thenE (guardE (\<not> decision_artifact_size b < 0) (ValueError ''artifact size must be non-negative''))
     (Inr (b\<lparr>decision_artifact_sha256 := h\<rparr>)))"

definition decision_artifact_payload :: "decision_artifact_binding \<Rightarrow> pyval" where
  "decision_artifact_payload b = PDataclass
     [(''artifact_id'', PUuid (decision_artifact_id b)),
      (''content_sha256'', PStr (decision_artifact_sha256 b)),
      (''size_bytes'', PInt (decision_artifact_size b))]"

lemma canonical_decision_artifact [simp]: "canonical (decision_artifact_payload b)"
  by (simp add: decision_artifact_payload_def)

lemma canonical_optional [simp]:
  "canonical (optional_payload PUuid u)" "canonical (optional_payload PDecimal d)"
  "canonical (optional_payload PStr s)" "canonical (optional_payload PInt i)"
  "canonical (optional_payload PBool b)"
  by (simp_all add: optional_payload_def split: option.split)

section \<open>Rosters\<close>

definition contiguous :: "int list \<Rightarrow> bool" where
  "contiguous ns \<longleftrightarrow> ns = map int [1..<Suc (length ns)]"

lemma contiguous_nth: "contiguous ns \<longleftrightarrow> (\<forall>i < length ns. ns ! i = int (Suc i))"
  unfolding contiguous_def list_eq_iff_nth_eq by (simp del: upt_Suc)

text \<open>\<open>enumerate(xs, start=1)\<close> with the ordinals as Python integers.\<close>

definition numbered :: "'a list \<Rightarrow> (int \<times> 'a) list" where
  "numbered xs = map (\<lambda>(n, x). (int n, x)) (enumerate (Suc 0) xs)"

lemma length_numbered [simp]: "length (numbered xs) = length xs"
  by (simp add: numbered_def)

lemma nth_numbered [simp]: "i < length xs \<Longrightarrow> numbered xs ! i = (int (Suc i), xs ! i)"
  by (simp add: numbered_def nth_enumerate_eq)

lemma map_snd_numbered [simp]: "map snd (numbered xs) = xs"
  by (simp add: list_eq_iff_nth_eq)

lemma map_fst_numbered: "contiguous (map fst (numbered xs))"
  by (simp add: contiguous_nth)

lemma numbered_Nil [simp]: "numbered [] = []"
  by (simp add: numbered_def)

text \<open>\<open>tuple(dict.fromkeys(xs))\<close>: every element once, at its first place.\<close>

definition fromkeys :: "'a list \<Rightarrow> 'a list" where
  "fromkeys xs = map fst (dict_of (map (\<lambda>x. (x, ())) xs))"

lemma fromkeys_snoc: "fromkeys (xs @ [x]) = (if x \<in> set (fromkeys xs) then fromkeys xs else fromkeys xs @ [x])"
proof -
  have "map fst (AList.update k () d) = (if k \<in> set (map fst d) then map fst d else map fst d @ [k])"
    for k and d :: "('a \<times> unit) list"
    by (induction d) auto
  then show ?thesis by (simp add: fromkeys_def dict_of_def)
qed

lemma fromkeys_simps [simp]:
  "set (fromkeys xs) = set xs" "distinct (fromkeys xs)" "fromkeys ([] :: 'a list) = []"
proof -
  have empty: "fromkeys [] = []" by (simp add: fromkeys_def dict_of_def)
  show "fromkeys ([] :: 'a list) = []" by (simp add: fromkeys_def dict_of_def)
  show "set (fromkeys xs) = set xs" "distinct (fromkeys xs)"
    by (induction xs rule: rev_induct) (simp_all add: fromkeys_snoc empty insert_absorb)
qed

section \<open>The most severe status\<close>

text \<open>
  Several modules summarise a roster by its most severe status: \<open>base\<close> when nothing is wrong,
  else the status of highest severity that occurs. \<open>sev\<close> is the severity.
\<close>

locale worst_of =
  fixes sev :: "'s \<Rightarrow> nat" and base :: 's and roll :: "'s list \<Rightarrow> 's"
  assumes sev_inj: "sev s = sev t \<Longrightarrow> s = t"
    and base_least: "sev base \<le> sev s"
    and roll_occurs: "roll xs = base \<or> roll xs \<in> set xs"
    and roll_upper: "s \<in> set xs \<Longrightarrow> sev s \<le> sev (roll xs)"
begin

lemma roll_eq_iff: "roll xs = s \<longleftrightarrow> (s = base \<or> s \<in> set xs) \<and> (\<forall>t \<in> set xs. sev t \<le> sev s)"
proof
  assume "roll xs = s" then show "(s = base \<or> s \<in> set xs) \<and> (\<forall>t \<in> set xs. sev t \<le> sev s)"
    using roll_occurs roll_upper by blast
next
  assume s: "(s = base \<or> s \<in> set xs) \<and> (\<forall>t \<in> set xs. sev t \<le> sev s)"
  have "sev (roll xs) \<le> sev s" using roll_occurs [of xs] s base_least by metis
  moreover have "sev s \<le> sev (roll xs)" using s roll_upper base_least by metis
  ultimately show "roll xs = s" using sev_inj by (simp add: le_antisym)
qed

lemma roll_base_iff: "roll xs = base \<longleftrightarrow> set xs \<subseteq> {base}"
proof -
  have "t = base" if "sev t \<le> sev base" for t
    using that base_least [of t] sev_inj by (simp add: le_antisym)
  then show ?thesis by (auto simp: roll_eq_iff)
qed

lemma roll_set: "set xs = set ys \<Longrightarrow> roll xs = roll ys"
  using roll_eq_iff [of xs "roll ys"] roll_eq_iff [of ys "roll ys"] by simp

lemma roll_mono: "set xs \<subseteq> set ys \<Longrightarrow> sev (roll xs) \<le> sev (roll ys)"
  using roll_occurs [of xs] roll_upper [of _ ys] base_least by (metis subsetD)

end

end
