(* ===== verification/Decision_Context.thy ===== *)
theory Decision_Context
  imports Decision_Values
begin

text \<open>
  \<open>decision_support/domain/context.py\<close> with \<open>retrospective.py\<close>: Context policies, prepared
  sources, the reduction of a metric, and the assessment of every Context kind. One record
  per dataclass, one \<open>_init\<close> per \<open>__post_init__\<close>; a field the constructor computes is set by
  it. \<open>ambient\<close> is the precision of the decimal context the code runs in.
\<close>

section \<open>Vocabulary\<close>

datatype context_kind = MARKET_REGIME | ETF_ROTATION | THEME_ROTATION | CAPITAL_BREADTH

fun context_kind_value :: "context_kind \<Rightarrow> string" where
  "context_kind_value MARKET_REGIME = ''MARKET_REGIME''"
| "context_kind_value ETF_ROTATION = ''ETF_ROTATION''"
| "context_kind_value THEME_ROTATION = ''THEME_ROTATION''"
| "context_kind_value CAPITAL_BREADTH = ''CAPITAL_BREADTH''"

datatype context_measure = Measure_RETURN | ADVANCE_RATE | TURNOVER | MEMBER_COVERAGE | FLOW_PROXY

fun context_measure_value :: "context_measure \<Rightarrow> string" where
  "context_measure_value Measure_RETURN = ''RETURN''"
| "context_measure_value ADVANCE_RATE = ''ADVANCE_RATE''"
| "context_measure_value TURNOVER = ''TURNOVER''"
| "context_measure_value MEMBER_COVERAGE = ''MEMBER_COVERAGE''"
| "context_measure_value FLOW_PROXY = ''FLOW_PROXY''"

datatype context_reducer = MEAN_DECIMAL | MEDIAN_DECIMAL | SUM_DECIMAL | TRUE_RATE

fun context_reducer_value :: "context_reducer \<Rightarrow> string" where
  "context_reducer_value MEAN_DECIMAL = ''MEAN_DECIMAL''"
| "context_reducer_value MEDIAN_DECIMAL = ''MEDIAN_DECIMAL''"
| "context_reducer_value SUM_DECIMAL = ''SUM_DECIMAL''"
| "context_reducer_value TRUE_RATE = ''TRUE_RATE''"

datatype context_operator = Context_AT_LEAST | Context_AT_MOST | Context_BETWEEN

fun context_operator_value :: "context_operator \<Rightarrow> string" where
  "context_operator_value Context_AT_LEAST = ''AT_LEAST''"
| "context_operator_value Context_AT_MOST = ''AT_MOST''"
| "context_operator_value Context_BETWEEN = ''BETWEEN''"

datatype context_missingness_policy = Missing_UNKNOWN | Missing_NOT_ESTIMABLE | Missing_FAILED

fun context_missingness_policy_value :: "context_missingness_policy \<Rightarrow> string" where
  "context_missingness_policy_value Missing_UNKNOWN = ''UNKNOWN''"
| "context_missingness_policy_value Missing_NOT_ESTIMABLE = ''NOT_ESTIMABLE''"
| "context_missingness_policy_value Missing_FAILED = ''FAILED''"

datatype context_source_kind = MARKET_BAR | Context_SOURCE_GAP

fun context_source_kind_value :: "context_source_kind \<Rightarrow> string" where
  "context_source_kind_value MARKET_BAR = ''BAR_REVISION''"
| "context_source_kind_value Context_SOURCE_GAP = ''SOURCE_GAP''"

datatype context_source_role = PRIMARY_DECISION_REFERENCE

datatype context_source_value_status = Source_AVAILABLE | Source_UNAVAILABLE | Source_FAILED

fun context_source_value_status_value :: "context_source_value_status \<Rightarrow> string" where
  "context_source_value_status_value Source_AVAILABLE = ''AVAILABLE''"
| "context_source_value_status_value Source_UNAVAILABLE = ''UNAVAILABLE''"
| "context_source_value_status_value Source_FAILED = ''FAILED''"

datatype context_metric_status = Metric_AVAILABLE | Metric_UNKNOWN | Metric_NOT_ESTIMABLE | Metric_FAILED

fun context_metric_status_value :: "context_metric_status \<Rightarrow> string" where
  "context_metric_status_value Metric_AVAILABLE = ''AVAILABLE''"
| "context_metric_status_value Metric_UNKNOWN = ''UNKNOWN''"
| "context_metric_status_value Metric_NOT_ESTIMABLE = ''NOT_ESTIMABLE''"
| "context_metric_status_value Metric_FAILED = ''FAILED''"

datatype context_state = POSITIVE | NEUTRAL | NEGATIVE | State_UNKNOWN

fun context_state_value :: "context_state \<Rightarrow> string" where
  "context_state_value POSITIVE = ''POSITIVE''"
| "context_state_value NEUTRAL = ''NEUTRAL''"
| "context_state_value NEGATIVE = ''NEGATIVE''"
| "context_state_value State_UNKNOWN = ''UNKNOWN''"

section \<open>Metric definitions\<close>

record context_metric_definition =
  context_policy_metric_id :: uuid
  metric_policy_id :: uuid
  metric_code :: string
  metric_ordinal :: int
  metric_kind :: context_kind
  metric_measure :: context_measure
  metric_reducer :: context_reducer
  metric_operator :: context_operator
  lower_threshold :: decimal
  upper_threshold :: "decimal option"
  minimum_source_count :: int
  minimum_available_count :: int
  missingness_policy :: context_missingness_policy
  metric_source_role :: context_source_role
  metric_definition_sha256 :: string

definition context_metric_payload :: "context_metric_definition \<Rightarrow> pyval" where
  "context_metric_payload m = PMapping
     [(''context_kind'', PStr (context_kind_value (metric_kind m))),
      (''context_policy_id'', PUuid (metric_policy_id m)),
      (''context_policy_metric_id'', PUuid (context_policy_metric_id m)),
      (''lower_threshold'', PDecimal (lower_threshold m)),
      (''measure'', PStr (context_measure_value (metric_measure m))),
      (''metric_code'', PStr (metric_code m)),
      (''minimum_available_count'', PInt (minimum_available_count m)),
      (''minimum_source_count'', PInt (minimum_source_count m)),
      (''missingness_policy'', PStr (context_missingness_policy_value (missingness_policy m))),
      (''operator'', PStr (context_operator_value (metric_operator m))),
      (''ordinal'', PInt (metric_ordinal m)),
      (''reducer'', PStr (context_reducer_value (metric_reducer m))),
      (''source_role'', PStr ''PRIMARY_DECISION_REFERENCE''),
      (''upper_threshold'', optional_payload PDecimal (upper_threshold m))]"

definition metric_value_type :: "context_metric_definition \<Rightarrow> string" where
  "metric_value_type m = (if metric_reducer m = TRUE_RATE then ''BOOLEAN'' else ''DECIMAL'')"

text \<open>The guards on the thresholds, after both are known to be finite.\<close>

definition threshold_shape :: "context_metric_definition \<Rightarrow> py_error + unit" where
  "threshold_shape m =
     (if metric_operator m = Context_BETWEEN then
        (case upper_threshold m of
           None \<Rightarrow> Inl (ValueError ''BETWEEN requires an upper threshold'')
         | Some u \<Rightarrow> guardE (\<not> dval u < dval (lower_threshold m))
             (ValueError ''BETWEEN thresholds are out of order''))
      else guardE (upper_threshold m = None)
        (ValueError ''upper threshold is only valid for BETWEEN''))"

definition context_metric_definition_init ::
  "context_metric_definition \<Rightarrow> context_metric_definition result" where
  "context_metric_definition_init m =
     thenE (guardE (decision_code_ok (metric_code m)) (ValueError ''Context metric code is invalid''))
     (thenE (guardE (\<not> metric_ordinal m < 1) (ValueError ''Context metric ordinal must be positive''))
     (let boolean_measure = metric_measure m \<in> {ADVANCE_RATE, MEMBER_COVERAGE} in
      thenE (guardE (\<not> (boolean_measure \<and> metric_reducer m \<noteq> TRUE_RATE))
        (ValueError ''BOOLEAN measure requires TRUE_RATE reducer''))
     (thenE (guardE (\<not> (\<not> boolean_measure \<and> metric_reducer m = TRUE_RATE))
        (ValueError ''DECIMAL measure cannot use TRUE_RATE reducer''))
     (thenE (finite_field ''Context lower threshold'' (Some (lower_threshold m)))
     (thenE (finite_field ''Context upper threshold'' (upper_threshold m))
     (thenE (threshold_shape m)
     (thenE (guardE (\<not> minimum_source_count m < 0) (ValueError ''minimum source count must be non-negative''))
     (thenE (guardE (\<not> minimum_available_count m < 0) (ValueError ''minimum available count must be non-negative''))
     (thenE (guardE (\<not> (minimum_available_count m > minimum_source_count m \<and> minimum_source_count m > 0))
        (ValueError ''minimum available count cannot exceed minimum source count''))
     (bindE (canonical_json_sha256 (context_metric_payload m)) (\<lambda>h.
      Inr (m\<lparr>metric_definition_sha256 := h\<rparr>))))))))))))"

section \<open>Policies\<close>

record context_policy_plan =
  context_policy_id :: uuid
  context_policy_code :: string
  context_policy_version :: int
  context_supersedes :: "uuid option"
  context_metrics :: "context_metric_definition list"
  context_code_artifact :: decision_artifact_binding
  context_config_artifact :: decision_artifact_binding
  context_provenance_sha256 :: string
  context_metric_count :: nat
  context_kind_count :: nat
  context_metric_roster_sha256 :: string
  context_kind_roster_sha256 :: string
  context_policy_sha256 :: string

definition metric_roster_payload :: "context_metric_definition list \<Rightarrow> pyval" where
  "metric_roster_payload ms = PSequence (map (\<lambda>m. PMapping
     [(''content_sha256'', PStr (metric_definition_sha256 m)),
      (''context_policy_metric_id'', PUuid (context_policy_metric_id m)),
      (''ordinal'', PInt (metric_ordinal m))]) ms)"

definition kind_roster_payload :: "context_kind list \<Rightarrow> pyval" where
  "kind_roster_payload ks = PSequence (map (\<lambda>(n, k). PMapping
     [(''context_kind'', PStr (context_kind_value k)), (''ordinal'', PInt n)]) (numbered ks))"

definition context_policy_payload :: "context_policy_plan \<Rightarrow> pyval" where
  "context_policy_payload p = PMapping
     [(''code_artifact'', decision_artifact_payload (context_code_artifact p)),
      (''config_artifact'', decision_artifact_payload (context_config_artifact p)),
      (''context_policy_id'', PUuid (context_policy_id p)),
      (''kind_count'', PInt (int (context_kind_count p))),
      (''kind_roster_sha256'', PStr (context_kind_roster_sha256 p)),
      (''metric_count'', PInt (int (context_metric_count p))),
      (''metric_roster_sha256'', PStr (context_metric_roster_sha256 p)),
      (''policy_code'', PStr (context_policy_code p)),
      (''provenance_sha256'', PStr (context_provenance_sha256 p)),
      (''supersedes_policy_id'', optional_payload PUuid (context_supersedes p)),
      (''version'', PInt (context_policy_version p))]"

definition context_policy_plan_init :: "context_policy_plan \<Rightarrow> context_policy_plan result" where
  "context_policy_plan_init p =
     (let ms = context_metrics p; kinds = fromkeys (map metric_kind ms) in
      thenE (guardE (decision_code_ok (context_policy_code p)) (ValueError ''Context policy code is invalid''))
     (thenE (guardE (\<not> context_policy_version p < 1) (ValueError ''Context policy version must be positive''))
     (thenE (guardE ((context_policy_version p = 1) = (context_supersedes p = None))
        (ValueError ''Context policy predecessor shape is invalid''))
     (thenE (guardE (ms \<noteq> []) (ValueError ''Context policy metric roster must be non-empty''))
     (thenE (guardE (contiguous (map metric_ordinal ms)) (ValueError ''Context metric ordinals must be contiguous''))
     (thenE (guardE (distinct (map context_policy_metric_id ms) \<and> distinct (map metric_code ms))
        (ValueError ''Context policy contains a duplicate metric''))
     (thenE (guardE (list_all (\<lambda>m. metric_policy_id m = context_policy_id p) ms)
        (ValueError ''Context metric belongs to a different policy''))
     (bindE (sha_field ''Context policy provenance'' (context_provenance_sha256 p)) (\<lambda>provenance.
      bindE (canonical_json_sha256 (metric_roster_payload ms)) (\<lambda>metric_hash.
      bindE (canonical_json_sha256 (kind_roster_payload kinds)) (\<lambda>kind_hash.
      let p = p\<lparr>context_provenance_sha256 := provenance,
          context_metric_count := length ms, context_kind_count := length kinds,
          context_metric_roster_sha256 := metric_hash, context_kind_roster_sha256 := kind_hash\<rparr> in
      bindE (canonical_json_sha256 (context_policy_payload p)) (\<lambda>h.
      Inr (p\<lparr>context_policy_sha256 := h\<rparr>)))))))))))))"

section \<open>Prepared sources\<close>

record prepared_context_source =
  source_metric_id :: uuid
  source_candidate_id :: uuid
  source_instrument_id :: uuid
  source_kind :: context_source_kind
  source_ordinal :: int
  source_reference_id :: uuid
  source_bar_revision_id :: "uuid option"
  source_gap_id :: "uuid option"
  source_known_at :: py_datetime
  value_status :: context_source_value_status
  source_decimal :: "decimal option"
  source_boolean :: "bool option"

definition prepared_context_source_init :: "prepared_context_source \<Rightarrow> prepared_context_source result" where
  "prepared_context_source_init s =
     thenE (guardE (\<not> source_ordinal s < 1) (ValueError ''Context source ordinal must be positive''))
     (thenE (if source_kind s = MARKET_BAR then
          guardE (\<not> (source_bar_revision_id s = None \<or> source_gap_id s \<noteq> None))
            (ValueError ''Market bar Context source requires exact bar revision'')
        else guardE (\<not> (source_gap_id s = None \<or> source_bar_revision_id s \<noteq> None))
            (ValueError ''Source gap Context source requires exact gap''))
     (bindE (require_utc ''Context source known_at'' (source_known_at s)) (\<lambda>t.
      thenE (finite_field ''Context source decimal value'' (source_decimal s))
     (let value_count = (if source_decimal s \<noteq> None then 1 else 0) + (if source_boolean s \<noteq> None then 1 else (0::int)) in
      thenE (if value_status s = Source_AVAILABLE then
          guardE (value_count = 1) (ValueError ''available Context source requires exactly one value'')
        else guardE (value_count = 0) (ValueError ''unavailable Context source cannot carry a value''))
      (Inr (s\<lparr>source_known_at := t\<rparr>))))))"

definition validate_for_decision_time :: "prepared_context_source \<Rightarrow> py_datetime \<Rightarrow> py_error + unit" where
  "validate_for_decision_time s cutoff =
     bindE (require_utc ''DecisionTime'' cutoff) (\<lambda>t.
     guardE (\<not> instant_of (source_known_at s) > instant_of t)
       (ValueError ''Context source was not known by DecisionTime''))"

section \<open>Retrospective scope\<close>

record decision_retrospective_scope =
  scope_dataset_id :: uuid
  scope_run_id :: uuid
  scope_arm_id :: uuid
  scope_fold_id :: uuid
  scope_fold_session_id :: uuid
  scope_archive_id :: uuid
  scope_archive_seal_id :: uuid
  scope_knowledge_cutoff :: py_datetime
  scope_simulated_cutoff :: py_datetime
  scope_sha256 :: string

definition retrospective_scope_payload :: "decision_retrospective_scope \<Rightarrow> pyval" where
  "retrospective_scope_payload s = PMapping
     [(''dataset_id'', PUuid (scope_dataset_id s)),
      (''evidence_lane'', PStr ''EXPLORATORY_RETROSPECTIVE''),
      (''exploratory_backtest_arm_id'', PUuid (scope_arm_id s)),
      (''exploratory_backtest_fold_id'', PUuid (scope_fold_id s)),
      (''exploratory_backtest_fold_session_id'', PUuid (scope_fold_session_id s)),
      (''exploratory_backtest_run_id'', PUuid (scope_run_id s)),
      (''knowledge_cutoff'', PDatetime (scope_knowledge_cutoff s)),
      (''market_archive_id'', PUuid (scope_archive_id s)),
      (''market_archive_seal_id'', PUuid (scope_archive_seal_id s)),
      (''simulated_event_cutoff'', PDatetime (scope_simulated_cutoff s))]"

definition decision_retrospective_scope_init ::
  "decision_retrospective_scope \<Rightarrow> decision_retrospective_scope result" where
  "decision_retrospective_scope_init s =
     bindE (require_utc ''knowledge_cutoff'' (scope_knowledge_cutoff s)) (\<lambda>knowledge.
     bindE (require_utc ''simulated_event_cutoff'' (scope_simulated_cutoff s)) (\<lambda>simulated.
     thenE (guardE (\<not> instant_of simulated \<ge> instant_of knowledge)
       (ValueError ''simulated_event_cutoff must precede knowledge_cutoff''))
     (let s = s\<lparr>scope_knowledge_cutoff := knowledge, scope_simulated_cutoff := simulated\<rparr> in
      bindE (canonical_json_sha256 (retrospective_scope_payload s)) (\<lambda>h.
      bindE (content_hash h) (\<lambda>h. Inr (s\<lparr>scope_sha256 := h\<rparr>))))))"

section \<open>Prepared inputs\<close>

record prepared_context_inputs =
  context_run_id :: uuid
  context_candidate_set_id :: uuid
  context_candidate_set_sha256 :: string
  context_candidate_roster_sha256 :: string
  context_decision_time :: py_datetime
  context_candidate_count :: int
  context_policy :: context_policy_plan
  context_sources :: "prepared_context_source list"
  context_scope :: "decision_retrospective_scope option"
  context_source_roster_sha256 :: string

definition sources_of :: "prepared_context_source list \<Rightarrow> context_metric_definition \<Rightarrow> prepared_context_source list" where
  "sources_of sources m = filter (\<lambda>s. source_metric_id s = context_policy_metric_id m) sources"

definition source_candidate :: "prepared_context_source \<Rightarrow> uuid \<times> uuid" where
  "source_candidate s = (source_candidate_id s, source_instrument_id s)"

text \<open>The checks on one source, and on the roster of one metric; the state is the first roster's Candidates.\<close>

definition check_source :: "context_metric_definition \<Rightarrow> py_datetime \<Rightarrow> prepared_context_source \<Rightarrow> py_error + unit" where
  "check_source m cutoff s =
     thenE (validate_for_decision_time s cutoff)
       (guardE (\<not> (value_status s = Source_AVAILABLE
                  \<and> (metric_value_type m = ''BOOLEAN'') \<noteq> (source_boolean s \<noteq> None)))
         (ValueError ''Context source value type conflicts with metric''))"

definition check_metric_roster ::
  "prepared_context_source list \<Rightarrow> int \<Rightarrow> py_datetime \<Rightarrow> context_metric_definition \<Rightarrow>
   (uuid \<times> uuid) list option \<Rightarrow> (uuid \<times> uuid) list option result" where
  "check_metric_roster sources n cutoff m expected =
     (let roster = sources_of sources m; candidates = map source_candidate roster in
      thenE (guardE (int (length roster) = n)
        (ValueError ''Context requires the complete Candidate roster per metric''))
     (thenE (guardE (map source_ordinal roster = [1..n]) (ValueError ''Context source ordinals must be contiguous''))
     (thenE (guardE (distinct candidates) (ValueError ''Context source roster contains a duplicate Candidate''))
     (bindE (case expected of
          None \<Rightarrow> Inr candidates
        | Some es \<Rightarrow> thenE (guardE (candidates = es)
            (ValueError ''Context requires the complete Candidate roster per metric'')) (Inr es)) (\<lambda>es.
      bindE (mapE (check_source m cutoff) roster) (\<lambda>_. Inr (Some es)))))))"

definition source_roster_payload :: "prepared_context_source list \<Rightarrow> pyval" where
  "source_roster_payload ss = PSequence (map (\<lambda>s. PMapping
     [(''bar_revision_id'', optional_payload PUuid (source_bar_revision_id s)),
      (''boolean_value'', optional_payload PBool (source_boolean s)),
      (''candidate_id'', PUuid (source_candidate_id s)),
      (''context_policy_metric_id'', PUuid (source_metric_id s)),
      (''decimal_value'', optional_payload PDecimal (source_decimal s)),
      (''decision_reference_observation_id'', PUuid (source_reference_id s)),
      (''instrument_id'', PUuid (source_instrument_id s)),
      (''known_at'', PDatetime (source_known_at s)),
      (''source_gap_id'', optional_payload PUuid (source_gap_id s)),
      (''source_kind'', PStr (context_source_kind_value (source_kind s))),
      (''source_ordinal'', PInt (source_ordinal s)),
      (''value_status'', PStr (context_source_value_status_value (value_status s)))]) ss)"

definition visibility_cutoff :: "prepared_context_inputs \<Rightarrow> py_datetime result" where
  "visibility_cutoff p =
     (case context_scope p of
        None \<Rightarrow> Inr (context_decision_time p)
      | Some s \<Rightarrow>
          thenE (guardE (instant_of (scope_simulated_cutoff s) = instant_of (context_decision_time p))
            (ValueError ''retrospective Context simulation cutoff differs from DecisionTime''))
          (Inr (scope_knowledge_cutoff s)))"

definition prepared_context_inputs_init :: "prepared_context_inputs \<Rightarrow> prepared_context_inputs result" where
  "prepared_context_inputs_init p =
     bindE (sha_field ''CandidateSet content hash'' (context_candidate_set_sha256 p)) (\<lambda>set_hash.
     bindE (sha_field ''Candidate roster hash'' (context_candidate_roster_sha256 p)) (\<lambda>roster_hash.
     bindE (require_utc ''DecisionTime'' (context_decision_time p)) (\<lambda>t.
     let p = p\<lparr>context_candidate_set_sha256 := set_hash, context_candidate_roster_sha256 := roster_hash,
         context_decision_time := t\<rparr>;
         metrics = context_metrics (context_policy p); sources = context_sources p;
         n = context_candidate_count p in
     thenE (guardE (\<not> n < 0) (ValueError ''Candidate count must be non-negative''))
    (bindE (visibility_cutoff p) (\<lambda>cutoff.
     thenE (guardE (int (length sources) = n * int (context_metric_count (context_policy p)))
       (ValueError ''Context requires the complete Candidate roster per metric''))
    (bindE (foldE (check_metric_roster sources n cutoff) metrics None) (\<lambda>_.
     thenE (guardE (list_all (\<lambda>s. source_metric_id s \<in> context_policy_metric_id ` set metrics) sources)
       (ValueError ''Context source belongs to an undeclared metric''))
    (bindE (canonical_json_sha256 (source_roster_payload sources)) (\<lambda>h.
     Inr (p\<lparr>context_source_roster_sha256 := h\<rparr>)))))))))) "

section \<open>Plans\<close>

record context_metric_source_plan =
  context_metric_source_id :: uuid
  plan_source :: prepared_context_source
  plan_source_sha256 :: string

definition prepared_source_payload :: "prepared_context_source \<Rightarrow> pyval" where
  "prepared_source_payload s = PDataclass
     [(''context_policy_metric_id'', PUuid (source_metric_id s)),
      (''candidate_id'', PUuid (source_candidate_id s)),
      (''instrument_id'', PUuid (source_instrument_id s)),
      (''source_kind'', PStr (context_source_kind_value (source_kind s))),
      (''source_ordinal'', PInt (source_ordinal s)),
      (''decision_reference_observation_id'', PUuid (source_reference_id s)),
      (''bar_revision_id'', optional_payload PUuid (source_bar_revision_id s)),
      (''source_gap_id'', optional_payload PUuid (source_gap_id s)),
      (''known_at'', PDatetime (source_known_at s)),
      (''value_status'', PStr (context_source_value_status_value (value_status s))),
      (''decimal_value'', optional_payload PDecimal (source_decimal s)),
      (''boolean_value'', optional_payload PBool (source_boolean s))]"

definition context_metric_source_plan_init :: "uuid \<Rightarrow> prepared_context_source \<Rightarrow> context_metric_source_plan result" where
  "context_metric_source_plan_init i s =
     bindE (canonical_json_sha256 (PMapping
       [(''context_metric_source_id'', PUuid i), (''source'', prepared_source_payload s)])) (\<lambda>h.
     Inr \<lparr>context_metric_source_id = i, plan_source = s, plan_source_sha256 = h\<rparr>)"

record context_metric_plan =
  context_metric_id :: uuid
  plan_definition :: context_metric_definition
  metric_status :: context_metric_status
  metric_state :: context_state
  metric_value :: "decimal option"
  metric_source_total :: nat
  metric_available_count :: nat
  metric_unavailable_count :: nat
  metric_failed_count :: nat
  metric_source_roster_sha256 :: string
  metric_sources :: "context_metric_source_plan list"
  metric_plan_sha256 :: string

definition context_metric_plan_payload :: "context_metric_plan \<Rightarrow> pyval" where
  "context_metric_plan_payload m = PMapping
     [(''available_count'', PInt (int (metric_available_count m))),
      (''context_metric_id'', PUuid (context_metric_id m)),
      (''decimal_value'', optional_payload PDecimal (metric_value m)),
      (''definition_sha256'', PStr (metric_definition_sha256 (plan_definition m))),
      (''failed_count'', PInt (int (metric_failed_count m))),
      (''source_count'', PInt (int (metric_source_total m))),
      (''source_roster_sha256'', PStr (metric_source_roster_sha256 m)),
      (''state'', PStr (context_state_value (metric_state m))),
      (''status'', PStr (context_metric_status_value (metric_status m))),
      (''unavailable_count'', PInt (int (metric_unavailable_count m)))]"

definition context_metric_plan_init :: "context_metric_plan \<Rightarrow> context_metric_plan result" where
  "context_metric_plan_init m =
     thenE (finite_field ''Context metric value'' (metric_value m))
     (bindE (sha_field ''Context metric source roster hash'' (metric_source_roster_sha256 m)) (\<lambda>r.
      let m = m\<lparr>metric_source_roster_sha256 := r\<rparr> in
      bindE (canonical_json_sha256 (context_metric_plan_payload m)) (\<lambda>h.
      Inr (m\<lparr>metric_plan_sha256 := h\<rparr>))))"

record context_assessment_plan =
  context_assessment_id :: uuid
  assessment_group_id :: uuid
  assessment_ordinal :: int
  assessment_kind :: context_kind
  assessment_status :: context_metric_status
  assessment_state :: context_state
  assessment_metric_count :: nat
  assessment_metric_roster_sha256 :: string
  assessment_metrics :: "context_metric_plan list"
  assessment_sha256 :: string

definition context_assessment_payload :: "context_assessment_plan \<Rightarrow> pyval" where
  "context_assessment_payload a = PMapping
     [(''assessment_group_id'', PUuid (assessment_group_id a)),
      (''context_assessment_id'', PUuid (context_assessment_id a)),
      (''context_kind'', PStr (context_kind_value (assessment_kind a))),
      (''metric_count'', PInt (int (assessment_metric_count a))),
      (''metric_roster_sha256'', PStr (assessment_metric_roster_sha256 a)),
      (''ordinal'', PInt (assessment_ordinal a)),
      (''state'', PStr (context_state_value (assessment_state a))),
      (''status'', PStr (context_metric_status_value (assessment_status a)))]"

definition context_assessment_plan_init :: "context_assessment_plan \<Rightarrow> context_assessment_plan result" where
  "context_assessment_plan_init a =
     bindE (sha_field ''Context metric roster hash'' (assessment_metric_roster_sha256 a)) (\<lambda>r.
     let a = a\<lparr>assessment_metric_roster_sha256 := r\<rparr> in
     bindE (canonical_json_sha256 (context_assessment_payload a)) (\<lambda>h.
     Inr (a\<lparr>assessment_sha256 := h\<rparr>)))"

record context_assessment_authority =
  authority_group_id :: uuid
  authority_run_id :: uuid
  authority_policy_id :: uuid
  authority_policy_sha256 :: string
  authority_candidate_set_id :: uuid
  authority_candidate_set_sha256 :: string
  authority_candidate_roster_sha256 :: string
  authority_decision_time :: py_datetime
  authority_candidate_count :: int
  authority_request_identity :: string
  authority_request_sha256 :: string
  authority_receipt_id :: uuid
  authority_recorded_at :: py_datetime
  authority_assessment_count :: nat
  authority_metric_count :: nat
  authority_source_count :: nat
  authority_assessment_roster_sha256 :: string
  authority_assessments :: "context_assessment_plan list"
  authority_sha256 :: string

definition context_authority_payload :: "context_assessment_authority \<Rightarrow> pyval" where
  "context_authority_payload a = PMapping
     [(''assessment_count'', PInt (int (authority_assessment_count a))),
      (''assessment_group_id'', PUuid (authority_group_id a)),
      (''assessment_roster_sha256'', PStr (authority_assessment_roster_sha256 a)),
      (''candidate_roster_sha256'', PStr (authority_candidate_roster_sha256 a)),
      (''candidate_set_content_sha256'', PStr (authority_candidate_set_sha256 a)),
      (''candidate_set_id'', PUuid (authority_candidate_set_id a)),
      (''candidate_count'', PInt (authority_candidate_count a)),
      (''context_policy_content_sha256'', PStr (authority_policy_sha256 a)),
      (''context_policy_id'', PUuid (authority_policy_id a)),
      (''decision_run_id'', PUuid (authority_run_id a)),
      (''decision_time'', PDatetime (authority_decision_time a)),
      (''metric_count'', PInt (int (authority_metric_count a))),
      (''request_identity'', PStr (authority_request_identity a)),
      (''request_sha256'', PStr (authority_request_sha256 a)),
      (''source_count'', PInt (int (authority_source_count a)))]"

definition context_assessment_authority_init ::
  "context_assessment_authority \<Rightarrow> context_assessment_authority result" where
  "context_assessment_authority_init a =
     thenE (guardE (request_identity_ok (authority_request_identity a)) (ValueError ''Context request identity is invalid''))
     (bindE (sha_field ''request hash'' (authority_request_sha256 a)) (\<lambda>request.
      bindE (sha_field ''Context policy hash'' (authority_policy_sha256 a)) (\<lambda>policy.
      bindE (sha_field ''CandidateSet content hash'' (authority_candidate_set_sha256 a)) (\<lambda>set_hash.
      bindE (sha_field ''Candidate roster hash'' (authority_candidate_roster_sha256 a)) (\<lambda>roster.
      bindE (require_utc ''DecisionTime'' (authority_decision_time a)) (\<lambda>t.
      thenE (guardE (\<not> authority_candidate_count a < 0) (ValueError ''Candidate count must be non-negative''))
     (bindE (sha_field ''Context assessment roster hash'' (authority_assessment_roster_sha256 a)) (\<lambda>assessments.
      bindE (require_utc ''Context recorded_at'' (authority_recorded_at a)) (\<lambda>recorded.
      let a = a\<lparr>authority_request_sha256 := request, authority_policy_sha256 := policy,
          authority_candidate_set_sha256 := set_hash, authority_candidate_roster_sha256 := roster,
          authority_decision_time := t, authority_assessment_roster_sha256 := assessments,
          authority_recorded_at := recorded\<rparr> in
      bindE (canonical_json_sha256 (context_authority_payload a)) (\<lambda>h.
      Inr (a\<lparr>authority_sha256 := h\<rparr>)))))))))))"

section \<open>Reducing a metric\<close>

fun context_missing_status :: "context_missingness_policy \<Rightarrow> context_metric_status" where
  "context_missing_status Missing_UNKNOWN = Metric_UNKNOWN"
| "context_missing_status Missing_NOT_ESTIMABLE = Metric_NOT_ESTIMABLE"
| "context_missing_status Missing_FAILED = Metric_FAILED"

text \<open>\<open>statistics.median\<close> of decimals: the mean of the two middle values when there are two.\<close>

definition decimal_median :: "nat \<Rightarrow> decimal list \<Rightarrow> decimal result" where
  "decimal_median ambient xs =
     (let ys = sort_key dval xs; n = length ys in
      if n = 0 then Inl (ValueError ''no median for empty data'')
      else if odd n then Inr (ys ! (n div 2))
      else bindE (decimal_add ambient (ys ! (n div 2 - 1)) (ys ! (n div 2)))
             (\<lambda>d. decimal_div ambient d (decimal_of_int 2)))"

definition reduce_metric ::
  "nat \<Rightarrow> context_metric_definition \<Rightarrow> prepared_context_source list \<Rightarrow> decimal result" where
  "reduce_metric ambient m available =
     (let xs = List.map_filter source_decimal available; zero = decimal_of_int 0 in
      case metric_reducer m of
        TRUE_RATE \<Rightarrow>
          decimal_div 28
            (decimal_of_int (int (length (filter (\<lambda>s. source_boolean s = Some True) available))))
            (decimal_of_int (int (length available)))
      | MEAN_DECIMAL \<Rightarrow>
          bindE (decimal_sum ambient xs zero) (\<lambda>t.
          decimal_div ambient t (decimal_of_int (int (length xs))))
      | MEDIAN_DECIMAL \<Rightarrow> decimal_median ambient xs
      | SUM_DECIMAL \<Rightarrow> decimal_sum ambient xs zero)"

definition context_state_of :: "context_metric_definition \<Rightarrow> decimal \<Rightarrow> context_state result" where
  "context_state_of m v =
     (case metric_operator m of
        Context_AT_LEAST \<Rightarrow>
          bindE (decimal_le (lower_threshold m) v) (\<lambda>b. Inr (if b then POSITIVE else NEGATIVE))
      | Context_AT_MOST \<Rightarrow>
          bindE (decimal_le v (lower_threshold m)) (\<lambda>b. Inr (if b then POSITIVE else NEGATIVE))
      | Context_BETWEEN \<Rightarrow>
          (case upper_threshold m of
             None \<Rightarrow> Inl AssertionError
           | Some u \<Rightarrow>
               bindE (decimal_le (lower_threshold m) v) (\<lambda>b.
               if \<not> b then Inr NEGATIVE
               else bindE (decimal_le v u) (\<lambda>c. Inr (if c then POSITIVE else NEGATIVE)))))"

fun context_assessment_status :: "context_metric_status list \<Rightarrow> context_metric_status" where
  "context_assessment_status ss =
     (if Metric_FAILED \<in> set ss then Metric_FAILED
      else if Metric_NOT_ESTIMABLE \<in> set ss then Metric_NOT_ESTIMABLE
      else if Metric_UNKNOWN \<in> set ss then Metric_UNKNOWN
      else Metric_AVAILABLE)"

fun context_assessment_state :: "context_state list \<Rightarrow> context_state" where
  "context_assessment_state ss =
     (if State_UNKNOWN \<in> set ss then State_UNKNOWN
      else if NEGATIVE \<in> set ss then NEGATIVE
      else if list_all (\<lambda>s. s = POSITIVE) ss then POSITIVE
      else NEUTRAL)"

section \<open>Assessing a context\<close>

definition insufficient ::
  "context_metric_definition \<Rightarrow> prepared_context_source list \<Rightarrow> bool" where
  "insufficient m sources \<longleftrightarrow>
     int (length sources) < minimum_source_count m
     \<or> int (length (filter (\<lambda>s. value_status s = Source_AVAILABLE) sources)) < minimum_available_count m
     \<or> (\<exists>s \<in> set sources. value_status s = Source_FAILED)"

text \<open>Status, state and value of one metric.\<close>

definition metric_result ::
  "nat \<Rightarrow> context_metric_definition \<Rightarrow> prepared_context_source list \<Rightarrow>
   (context_metric_status \<times> context_state \<times> decimal option) result" where
  "metric_result ambient m sources =
     (if insufficient m sources
      then Inr (context_missing_status (missingness_policy m), State_UNKNOWN, None)
      else
        bindE (reduce_metric ambient m (filter (\<lambda>s. value_status s = Source_AVAILABLE) sources)) (\<lambda>v.
        bindE (context_state_of m v) (\<lambda>st.
        Inr (Metric_AVAILABLE, st, Some v))))"

definition source_plan_roster :: "context_metric_source_plan list \<Rightarrow> pyval" where
  "source_plan_roster ss = PSequence (map (\<lambda>s. PMapping
     [(''content_sha256'', PStr (plan_source_sha256 s)),
      (''context_metric_source_id'', PUuid (context_metric_source_id s)),
      (''ordinal'', PInt (source_ordinal (plan_source s)))]) ss)"

definition build_metric_plan ::
  "nat \<Rightarrow> (context_metric_definition \<Rightarrow> uuid) \<Rightarrow> (context_metric_definition \<Rightarrow> prepared_context_source \<Rightarrow> uuid) \<Rightarrow>
   prepared_context_source list \<Rightarrow> context_metric_definition \<Rightarrow> context_metric_plan result" where
  "build_metric_plan ambient metric_ids source_ids all_sources m =
     (let sources = sources_of all_sources m;
          count = (\<lambda>st. length (filter (\<lambda>s. value_status s = st) sources)) in
      bindE (mapE (\<lambda>s. context_metric_source_plan_init (source_ids m s) s) sources) (\<lambda>source_plans.
      bindE (canonical_json_sha256 (source_plan_roster source_plans)) (\<lambda>source_hash.
      bindE (metric_result ambient m sources) (\<lambda>(status, st, v).
      context_metric_plan_init
        \<lparr>context_metric_id = metric_ids m, plan_definition = m,
         metric_status = status, metric_state = st, metric_value = v,
         metric_source_total = length sources, metric_available_count = count Source_AVAILABLE,
         metric_unavailable_count = count Source_UNAVAILABLE, metric_failed_count = count Source_FAILED,
         metric_source_roster_sha256 = source_hash, metric_sources = source_plans,
         metric_plan_sha256 = []\<rparr>))))"

definition metric_plan_roster :: "context_metric_plan list \<Rightarrow> pyval" where
  "metric_plan_roster ms = PSequence (map (\<lambda>(n, m). PMapping
     [(''content_sha256'', PStr (metric_plan_sha256 m)),
      (''context_metric_id'', PUuid (context_metric_id m)),
      (''ordinal'', PInt n)]) (numbered ms))"

definition build_assessment ::
  "(context_kind \<Rightarrow> int \<Rightarrow> uuid) \<Rightarrow> uuid \<Rightarrow> context_metric_definition list \<Rightarrow>
   (uuid \<times> context_metric_plan) list \<Rightarrow> int \<times> context_kind \<Rightarrow> context_assessment_plan result" where
  "build_assessment assessment_ids group_id definitions plans nk =
     (case nk of (n, kind) \<Rightarrow>
        bindE (mapE (\<lambda>m. dict_item plans (context_policy_metric_id m))
          (filter (\<lambda>m. metric_kind m = kind) definitions)) (\<lambda>metrics.
        bindE (canonical_json_sha256 (metric_plan_roster metrics)) (\<lambda>h.
        context_assessment_plan_init
          \<lparr>context_assessment_id = assessment_ids kind n, assessment_group_id = group_id,
           assessment_ordinal = n, assessment_kind = kind,
           assessment_status = context_assessment_status (map metric_status metrics),
           assessment_state = context_assessment_state (map metric_state metrics),
           assessment_metric_count = length metrics, assessment_metric_roster_sha256 = h,
           assessment_metrics = metrics, assessment_sha256 = []\<rparr>)))"

definition assessment_roster :: "context_assessment_plan list \<Rightarrow> pyval" where
  "assessment_roster as = PSequence (map (\<lambda>a. PMapping
     [(''content_sha256'', PStr (assessment_sha256 a)),
      (''context_assessment_id'', PUuid (context_assessment_id a)),
      (''ordinal'', PInt (assessment_ordinal a))]) as)"

record context_request =
  context_group_id :: uuid
  context_request_identity :: string
  context_request_sha256 :: string
  context_receipt_id :: uuid
  context_recorded_at :: py_datetime

definition build_context_assessment_authority ::
  "nat \<Rightarrow> (context_kind \<Rightarrow> int \<Rightarrow> uuid) \<Rightarrow> (context_metric_definition \<Rightarrow> uuid) \<Rightarrow>
   (context_metric_definition \<Rightarrow> prepared_context_source \<Rightarrow> uuid) \<Rightarrow>
   prepared_context_inputs \<Rightarrow> context_request \<Rightarrow> context_assessment_authority result" where
  "build_context_assessment_authority ambient assessment_ids metric_ids source_ids p r =
     (let definitions = context_metrics (context_policy p) in
      bindE (mapE (\<lambda>m. mapR (Pair (context_policy_metric_id m))
          (build_metric_plan ambient metric_ids source_ids (context_sources p) m)) definitions) (\<lambda>pairs.
      let plans = dict_of pairs in
      bindE (mapE (build_assessment assessment_ids (context_group_id r) definitions plans)
          (numbered (fromkeys (map metric_kind definitions)))) (\<lambda>assessments.
      bindE (canonical_json_sha256 (assessment_roster assessments)) (\<lambda>h.
      context_assessment_authority_init
        \<lparr>authority_group_id = context_group_id r, authority_run_id = context_run_id p,
         authority_policy_id = context_policy_id (context_policy p),
         authority_policy_sha256 = context_policy_sha256 (context_policy p),
         authority_candidate_set_id = context_candidate_set_id p,
         authority_candidate_set_sha256 = context_candidate_set_sha256 p,
         authority_candidate_roster_sha256 = context_candidate_roster_sha256 p,
         authority_decision_time = context_decision_time p,
         authority_candidate_count = context_candidate_count p,
         authority_request_identity = context_request_identity r,
         authority_request_sha256 = context_request_sha256 r,
         authority_receipt_id = context_receipt_id r, authority_recorded_at = context_recorded_at r,
         authority_assessment_count = length assessments, authority_metric_count = length plans,
         authority_source_count = length (context_sources p),
         authority_assessment_roster_sha256 = h, authority_assessments = assessments,
         authority_sha256 = []\<rparr>))))"

end
