(* ===== verification/Decision_Strategy.thy ===== *)
theory Decision_Strategy
  imports Decision_Context
begin

text \<open>
  \<open>decision_support/domain/strategy.py\<close>: immutable Strategy and StrategyVersion definitions,
  with the Signal vocabulary of \<open>inference.py\<close> their rules name.
\<close>

section \<open>Vocabulary\<close>

datatype signal_status =
  Signal_PRESENT | NO_SIGNAL | Signal_WAIT | Signal_UNKNOWN | Signal_NOT_ESTIMABLE

fun signal_status_value :: "signal_status \<Rightarrow> string" where
  "signal_status_value Signal_PRESENT = ''PRESENT''"
| "signal_status_value NO_SIGNAL = ''NO_SIGNAL''"
| "signal_status_value Signal_WAIT = ''WAIT''"
| "signal_status_value Signal_UNKNOWN = ''UNKNOWN''"
| "signal_status_value Signal_NOT_ESTIMABLE = ''NOT_ESTIMABLE''"

datatype strategy_action_policy = LONG_ONLY_RESEARCH

datatype context_failure_action =
  Action_WAIT | Action_UNKNOWN | Action_NOT_ESTIMABLE | OBSERVE_ONLY

fun context_failure_action_value :: "context_failure_action \<Rightarrow> string" where
  "context_failure_action_value Action_WAIT = ''WAIT''"
| "context_failure_action_value Action_UNKNOWN = ''UNKNOWN''"
| "context_failure_action_value Action_NOT_ESTIMABLE = ''NOT_ESTIMABLE''"
| "context_failure_action_value OBSERVE_ONLY = ''OBSERVE_ONLY''"

datatype forecast_source_measure = CANDIDATE_COMPOSITE_SCORE

section \<open>Definitions\<close>

record strategy_plan =
  strategy_id :: uuid
  strategy_code :: string
  strategy_objective :: string
  strategy_sha256 :: string

definition strategy_plan_init :: "strategy_plan \<Rightarrow> strategy_plan result" where
  "strategy_plan_init s =
     thenE (guardE (decision_code_ok (strategy_code s)) (ValueError ''Strategy code is invalid''))
     (thenE (guardE (text_ok 500 (strategy_objective s)) (ValueError ''Strategy objective is invalid''))
     (bindE (canonical_json_sha256 (PMapping
        [(''objective'', PStr (strategy_objective s)),
         (''strategy_code'', PStr (strategy_code s)),
         (''strategy_id'', PUuid (strategy_id s))])) (\<lambda>h.
      Inr (s\<lparr>strategy_sha256 := h\<rparr>))))"

record strategy_context_requirement =
  requirement_id :: uuid
  requirement_version_id :: uuid
  requirement_ordinal :: int
  requirement_policy_id :: uuid
  requirement_policy_sha256 :: string
  requirement_kind :: context_kind
  required_state :: context_state
  missing_action :: context_failure_action
  requirement_sha256 :: string

definition requirement_payload :: "strategy_context_requirement \<Rightarrow> pyval" where
  "requirement_payload r = PMapping
     [(''context_kind'', PStr (context_kind_value (requirement_kind r))),
      (''context_policy_content_sha256'', PStr (requirement_policy_sha256 r)),
      (''context_policy_id'', PUuid (requirement_policy_id r)),
      (''missing_action'', PStr (context_failure_action_value (missing_action r))),
      (''ordinal'', PInt (requirement_ordinal r)),
      (''required_state'', PStr (context_state_value (required_state r))),
      (''strategy_context_requirement_id'', PUuid (requirement_id r)),
      (''strategy_version_id'', PUuid (requirement_version_id r))]"

definition strategy_context_requirement_init ::
  "strategy_context_requirement \<Rightarrow> strategy_context_requirement result" where
  "strategy_context_requirement_init r =
     thenE (guardE (\<not> requirement_ordinal r < 1) (ValueError ''Strategy Context ordinal must be positive''))
     (bindE (sha_field ''ContextPolicy hash'' (requirement_policy_sha256 r)) (\<lambda>h.
      let r = r\<lparr>requirement_policy_sha256 := h\<rparr> in
      thenE (guardE (required_state r \<in> {POSITIVE, NEUTRAL, NEGATIVE})
        (ValueError ''Strategy required Context state must be estimable''))
     (bindE (canonical_json_sha256 (requirement_payload r)) (\<lambda>h.
      Inr (r\<lparr>requirement_sha256 := h\<rparr>)))))"

record strategy_signal_rule =
  signal_rule_id :: uuid
  signal_rule_version_id :: uuid
  eligible_disposition :: candidate_disposition
  positive_status :: signal_status
  negative_status :: signal_status
  ineligible_status :: signal_status
  signal_rule_sha256 :: string

definition signal_rule_payload :: "strategy_signal_rule \<Rightarrow> pyval" where
  "signal_rule_payload r = PMapping
     [(''eligible_disposition'', PStr (candidate_disposition_value (eligible_disposition r))),
      (''ineligible_status'', PStr (signal_status_value (ineligible_status r))),
      (''negative_status'', PStr (signal_status_value (negative_status r))),
      (''positive_status'', PStr (signal_status_value (positive_status r))),
      (''strategy_signal_rule_id'', PUuid (signal_rule_id r)),
      (''strategy_version_id'', PUuid (signal_rule_version_id r))]"

definition strategy_signal_rule_init :: "strategy_signal_rule \<Rightarrow> strategy_signal_rule result" where
  "strategy_signal_rule_init r =
     thenE (guardE (positive_status r = Signal_PRESENT) (ValueError ''positive Signal status must be PRESENT''))
     (thenE (guardE (negative_status r = NO_SIGNAL) (ValueError ''negative Signal status must be NO_SIGNAL''))
     (thenE (guardE (ineligible_status r = NO_SIGNAL) (ValueError ''ineligible Signal status must be NO_SIGNAL''))
     (bindE (canonical_json_sha256 (signal_rule_payload r)) (\<lambda>h.
      Inr (r\<lparr>signal_rule_sha256 := h\<rparr>)))))"

record strategy_forecast_rule =
  forecast_rule_id :: uuid
  forecast_rule_version_id :: uuid
  forecast_rule_ordinal :: int
  rule_target_id :: uuid
  rule_target_sha256 :: string
  rule_checkpoint_id :: uuid
  rule_checkpoint_sha256 :: string
  rule_metric_id :: uuid
  rule_metric_sha256 :: string
  rule_source_measure :: forecast_source_measure
  rule_coefficient :: decimal
  rule_intercept :: decimal
  rule_lower_offset :: decimal
  rule_upper_offset :: decimal
  rule_value_unit :: string
  forecast_rule_sha256 :: string

definition forecast_rule_payload :: "strategy_forecast_rule \<Rightarrow> pyval" where
  "forecast_rule_payload r = PMapping
     [(''coefficient'', PDecimal (rule_coefficient r)),
      (''intercept'', PDecimal (rule_intercept r)),
      (''lower_offset'', PDecimal (rule_lower_offset r)),
      (''ordinal'', PInt (forecast_rule_ordinal r)),
      (''source_measure'', PStr ''CANDIDATE_COMPOSITE_SCORE''),
      (''strategy_forecast_rule_id'', PUuid (forecast_rule_id r)),
      (''strategy_version_id'', PUuid (forecast_rule_version_id r)),
      (''target_checkpoint_id'', PUuid (rule_checkpoint_id r)),
      (''target_checkpoint_sha256'', PStr (rule_checkpoint_sha256 r)),
      (''target_definition_id'', PUuid (rule_target_id r)),
      (''target_definition_sha256'', PStr (rule_target_sha256 r)),
      (''target_metric_definition_id'', PUuid (rule_metric_id r)),
      (''target_metric_definition_sha256'', PStr (rule_metric_sha256 r)),
      (''upper_offset'', PDecimal (rule_upper_offset r)),
      (''value_unit'', PStr (rule_value_unit r))]"

definition strategy_forecast_rule_init :: "strategy_forecast_rule \<Rightarrow> strategy_forecast_rule result" where
  "strategy_forecast_rule_init r =
     thenE (guardE (\<not> forecast_rule_ordinal r < 1) (ValueError ''Strategy Forecast ordinal must be positive''))
     (thenE (guardE (distinct [rule_target_id r, rule_checkpoint_id r, rule_metric_id r])
        (ValueError ''Target definition/checkpoint/metric identities conflict''))
     (bindE (sha_field ''target_definition_sha256'' (rule_target_sha256 r)) (\<lambda>target.
      bindE (sha_field ''target_checkpoint_sha256'' (rule_checkpoint_sha256 r)) (\<lambda>checkpoint.
      bindE (sha_field ''target_metric_definition_sha256'' (rule_metric_sha256 r)) (\<lambda>metric.
      let r = r\<lparr>rule_target_sha256 := target, rule_checkpoint_sha256 := checkpoint, rule_metric_sha256 := metric\<rparr> in
      thenE (finite_field ''Forecast coefficient'' (Some (rule_coefficient r)))
     (thenE (finite_field ''Forecast intercept'' (Some (rule_intercept r)))
     (thenE (finite_field ''Forecast lower_offset'' (Some (rule_lower_offset r)))
     (thenE (finite_field ''Forecast upper_offset'' (Some (rule_upper_offset r)))
     (thenE (guardE (\<not> (dval (rule_lower_offset r) < 0 \<or> dval (rule_upper_offset r) < 0))
        (ValueError ''Forecast offset must be non-negative''))
     (thenE (guardE (rule_value_unit r = ''DECIMAL_RETURN'') (ValueError ''Forecast value unit must be DECIMAL_RETURN''))
     (bindE (canonical_json_sha256 (forecast_rule_payload r)) (\<lambda>h.
      Inr (r\<lparr>forecast_rule_sha256 := h\<rparr>)))))))))))))"

section \<open>Versions\<close>

record strategy_version_plan =
  version_strategy :: strategy_plan
  strategy_version_id :: uuid
  strategy_version :: int
  version_supersedes :: "uuid option"
  primary_change :: string
  action_policy :: strategy_action_policy
  context_requirements :: "strategy_context_requirement list"
  signal_rule :: strategy_signal_rule
  forecast_rules :: "strategy_forecast_rule list"
  version_code_artifact :: decision_artifact_binding
  version_config_artifact :: decision_artifact_binding
  version_provenance_sha256 :: string
  context_requirement_count :: nat
  forecast_rule_count :: nat
  context_requirement_roster_sha256 :: string
  forecast_rule_roster_sha256 :: string
  strategy_version_sha256 :: string

text \<open>\<open>_validate_roster(items, label, identity)\<close>.\<close>

definition validate_roster :: "string \<Rightarrow> int list \<Rightarrow> uuid list \<Rightarrow> py_error + unit" where
  "validate_roster label ordinals identities =
     thenE (guardE (ordinals \<noteq> []) (ValueError (''Strategy '' @ label @ '' roster must be non-empty'')))
     (thenE (guardE (contiguous ordinals) (ValueError (''Strategy '' @ label @ '' ordinals must be contiguous'')))
     (guardE (distinct identities) (ValueError (''Strategy '' @ label @ '' roster contains a duplicate''))))"

definition requirement_roster_payload :: "strategy_context_requirement list \<Rightarrow> pyval" where
  "requirement_roster_payload rs = PSequence (map (\<lambda>r. PMapping
     [(''content_sha256'', PStr (requirement_sha256 r)),
      (''ordinal'', PInt (requirement_ordinal r)),
      (''strategy_context_requirement_id'', PUuid (requirement_id r))]) rs)"

definition forecast_rule_roster_payload :: "strategy_forecast_rule list \<Rightarrow> pyval" where
  "forecast_rule_roster_payload rs = PSequence (map (\<lambda>r. PMapping
     [(''content_sha256'', PStr (forecast_rule_sha256 r)),
      (''ordinal'', PInt (forecast_rule_ordinal r)),
      (''strategy_forecast_rule_id'', PUuid (forecast_rule_id r))]) rs)"

definition strategy_version_payload :: "strategy_version_plan \<Rightarrow> pyval" where
  "strategy_version_payload v = PMapping
     [(''action_policy'', PStr ''LONG_ONLY_RESEARCH''),
      (''code_artifact'', decision_artifact_payload (version_code_artifact v)),
      (''config_artifact'', decision_artifact_payload (version_config_artifact v)),
      (''context_requirement_count'', PInt (int (context_requirement_count v))),
      (''context_requirement_roster_sha256'', PStr (context_requirement_roster_sha256 v)),
      (''forecast_rule_count'', PInt (int (forecast_rule_count v))),
      (''forecast_rule_roster_sha256'', PStr (forecast_rule_roster_sha256 v)),
      (''primary_change'', PStr (primary_change v)),
      (''provenance_sha256'', PStr (version_provenance_sha256 v)),
      (''signal_rule_sha256'', PStr (signal_rule_sha256 (signal_rule v))),
      (''strategy_content_sha256'', PStr (strategy_sha256 (version_strategy v))),
      (''strategy_id'', PUuid (strategy_id (version_strategy v))),
      (''strategy_version_id'', PUuid (strategy_version_id v)),
      (''supersedes_strategy_version_id'', optional_payload PUuid (version_supersedes v)),
      (''version'', PInt (strategy_version v))]"

definition strategy_version_plan_init :: "strategy_version_plan \<Rightarrow> strategy_version_plan result" where
  "strategy_version_plan_init v =
     (let reqs = context_requirements v; rules = forecast_rules v; i = strategy_version_id v in
      thenE (guardE (\<not> strategy_version v < 1) (ValueError ''StrategyVersion version must be positive''))
     (thenE (guardE ((strategy_version v = 1) = (version_supersedes v = None))
        (ValueError ''StrategyVersion predecessor shape is invalid''))
     (thenE (guardE (text_ok 500 (primary_change v)) (ValueError ''StrategyVersion primary change is invalid''))
     (thenE (validate_roster ''Context requirement'' (map requirement_ordinal reqs) (map requirement_id reqs))
     (thenE (guardE (distinct (map requirement_kind reqs))
        (ValueError ''Strategy Context roster contains a duplicate kind''))
     (thenE (validate_roster ''Forecast rule'' (map forecast_rule_ordinal rules) (map forecast_rule_id rules))
     (thenE (guardE (distinct (map (\<lambda>r. (rule_target_id r, rule_metric_id r)) rules))
        (ValueError ''Strategy Forecast roster contains a duplicate Target metric''))
     (thenE (guardE (\<not> ((\<exists>r \<in> set reqs. requirement_version_id r \<noteq> i)
          \<or> (\<exists>r \<in> set rules. forecast_rule_version_id r \<noteq> i)
          \<or> signal_rule_version_id (signal_rule v) \<noteq> i))
        (ValueError ''Strategy child belongs to a different version''))
     (bindE (sha_field ''Strategy provenance'' (version_provenance_sha256 v)) (\<lambda>provenance.
      bindE (canonical_json_sha256 (requirement_roster_payload reqs)) (\<lambda>context_hash.
      bindE (canonical_json_sha256 (forecast_rule_roster_payload rules)) (\<lambda>forecast_hash.
      let v = v\<lparr>version_provenance_sha256 := provenance,
          context_requirement_count := length reqs, forecast_rule_count := length rules,
          context_requirement_roster_sha256 := context_hash,
          forecast_rule_roster_sha256 := forecast_hash\<rparr> in
      bindE (canonical_json_sha256 (strategy_version_payload v)) (\<lambda>h.
      Inr (v\<lparr>strategy_version_sha256 := h\<rparr>))))))))))))))"

text \<open>Equality of versions: the dataclass comparison, where decimals compare by value.\<close>

definition forecast_rule_key :: "strategy_forecast_rule \<Rightarrow> strategy_forecast_rule \<times> rat list" where
  "forecast_rule_key r =
     (let z = decimal_of_int 0 in
      (r\<lparr>rule_coefficient := z, rule_intercept := z, rule_lower_offset := z, rule_upper_offset := z\<rparr>,
       [dval (rule_coefficient r), dval (rule_intercept r), dval (rule_lower_offset r), dval (rule_upper_offset r)]))"

definition strategy_version_eq :: "strategy_version_plan \<Rightarrow> strategy_version_plan \<Rightarrow> bool" where
  "strategy_version_eq v w \<longleftrightarrow>
     v\<lparr>forecast_rules := []\<rparr> = w\<lparr>forecast_rules := []\<rparr>
     \<and> map forecast_rule_key (forecast_rules v) = map forecast_rule_key (forecast_rules w)"

lemma strategy_version_eq_refl [simp]: "strategy_version_eq v v"
  by (simp add: strategy_version_eq_def)

end
