(* ===== verification/Decision_Inference.thy ===== *)
theory Decision_Inference
  imports Decision_Strategy
begin

text \<open>
  \<open>decision_support/domain/inference.py\<close>: a Signal for every Candidate of a CandidateSet, and a
  Forecast for every Signal and matching Target commitment. The identity factories and the
  optional prediction of a model are arguments.
\<close>

section \<open>Vocabulary\<close>

datatype forecast_status = Forecast_AVAILABLE | Forecast_NOT_APPLICABLE | Forecast_NOT_ESTIMABLE

fun forecast_status_value :: "forecast_status \<Rightarrow> string" where
  "forecast_status_value Forecast_AVAILABLE = ''AVAILABLE''"
| "forecast_status_value Forecast_NOT_APPLICABLE = ''NOT_APPLICABLE''"
| "forecast_status_value Forecast_NOT_ESTIMABLE = ''NOT_ESTIMABLE''"

datatype forecast_calibration_status = UNCALIBRATED | Calibration_NOT_APPLICABLE

fun forecast_calibration_status_value :: "forecast_calibration_status \<Rightarrow> string" where
  "forecast_calibration_status_value UNCALIBRATED = ''UNCALIBRATED''"
| "forecast_calibration_status_value Calibration_NOT_APPLICABLE = ''NOT_APPLICABLE''"

section \<open>Signal inputs\<close>

record prepared_signal_context =
  signal_requirement_id :: uuid
  signal_policy_id :: uuid
  signal_policy_sha256 :: string
  signal_assessment_id :: uuid
  signal_assessment_group_id :: uuid
  signal_context_kind :: context_kind
  signal_assessment_status :: context_metric_status
  signal_assessment_state :: context_state
  signal_assessment_sha256 :: string
  signal_context_recorded_at :: py_datetime

definition prepared_signal_context_init :: "prepared_signal_context \<Rightarrow> prepared_signal_context result" where
  "prepared_signal_context_init c =
     bindE (sha_field ''ContextPolicy hash'' (signal_policy_sha256 c)) (\<lambda>policy.
     bindE (sha_field ''ContextAssessment hash'' (signal_assessment_sha256 c)) (\<lambda>assessment.
     bindE (require_utc ''ContextAssessment recorded_at'' (signal_context_recorded_at c)) (\<lambda>t.
     Inr (c\<lparr>signal_policy_sha256 := policy, signal_assessment_sha256 := assessment,
       signal_context_recorded_at := t\<rparr>))))"

record prepared_signal_candidate =
  signal_candidate_id :: uuid
  signal_instrument_id :: uuid
  signal_disposition :: candidate_disposition
  signal_score :: "decimal option"
  signal_contexts :: "prepared_signal_context list"

definition prepared_signal_candidate_init :: "prepared_signal_candidate \<Rightarrow> prepared_signal_candidate result" where
  "prepared_signal_candidate_init c =
     thenE (if signal_disposition c = UNRANKABLE then
         guardE (signal_score c = None) (ValueError ''unrankable Candidate cannot have a score'')
       else
         guardE (case signal_score c of None \<Rightarrow> False
             | Some d \<Rightarrow> is_finite d \<and> 0 \<le> dval d \<and> dval d \<le> 1)
           (ValueError ''rankable Candidate requires a finite descriptive score''))
     (thenE (guardE (signal_contexts c \<noteq> []) (ValueError ''Signal Candidate Context roster must be non-empty''))
     (thenE (guardE (distinct (map signal_requirement_id (signal_contexts c))
          \<and> distinct (map signal_context_kind (signal_contexts c)))
        (ValueError ''Signal Candidate Context roster contains a duplicate''))
     (Inr c)))"

record prepared_signal_inputs =
  signal_run_id :: uuid
  signal_candidate_set_id :: uuid
  signal_candidate_set_sha256 :: string
  signal_candidate_roster_sha256 :: string
  signal_decision_time :: py_datetime
  signal_version :: strategy_version_plan
  signal_candidates :: "prepared_signal_candidate list"

text \<open>The checks on one Candidate; the state is the first Candidate's Context identities.\<close>

definition check_signal_candidate ::
  "strategy_version_plan \<Rightarrow> prepared_signal_candidate \<Rightarrow> uuid list option \<Rightarrow> uuid list option result" where
  "check_signal_candidate v c expected =
     (let reqs = context_requirements v; identity = map signal_assessment_id (signal_contexts c) in
      thenE (guardE (map signal_requirement_id (signal_contexts c) = map requirement_id reqs)
        (ValueError ''Signal requires the complete Context roster''))
     (thenE (guardE (list_all (\<lambda>(k, r). signal_policy_id k = requirement_policy_id r
            \<and> signal_policy_sha256 k = requirement_policy_sha256 r) (zip (signal_contexts c) reqs))
        (ValueError ''Signal ContextPolicy binding is not exact''))
     (thenE (guardE (card (set (map signal_assessment_group_id (signal_contexts c))) = 1)
        (ValueError ''Signal Context roster must share one assessment group''))
     (case expected of
        None \<Rightarrow> Inr (Some identity)
      | Some g \<Rightarrow> thenE (guardE (identity = g)
          (ValueError ''Signal Candidates must bind the same Context Authority'')) (Inr (Some g))))))"

definition prepared_signal_inputs_init :: "prepared_signal_inputs \<Rightarrow> prepared_signal_inputs result" where
  "prepared_signal_inputs_init p =
     bindE (sha_field ''CandidateSet hash'' (signal_candidate_set_sha256 p)) (\<lambda>set_hash.
     bindE (sha_field ''Candidate roster hash'' (signal_candidate_roster_sha256 p)) (\<lambda>roster.
     bindE (require_utc ''DecisionTime'' (signal_decision_time p)) (\<lambda>t.
     thenE (guardE (distinct (map signal_candidate_id (signal_candidates p)))
       (ValueError ''Signal Candidate roster contains a duplicate''))
    (bindE (foldE (check_signal_candidate (signal_version p)) (signal_candidates p) None) (\<lambda>_.
     Inr (p\<lparr>signal_candidate_set_sha256 := set_hash, signal_candidate_roster_sha256 := roster,
       signal_decision_time := t\<rparr>))))))"

section \<open>Signals\<close>

record signal_context_binding_plan =
  binding_id :: uuid
  binding_context :: prepared_signal_context
  binding_content_sha256 :: string

definition signal_context_binding_init :: "uuid \<Rightarrow> prepared_signal_context \<Rightarrow> signal_context_binding_plan result" where
  "signal_context_binding_init i c =
     bindE (canonical_json_sha256 (PMapping
       [(''context_assessment_id'', PUuid (signal_assessment_id c)),
        (''context_assessment_sha256'', PStr (signal_assessment_sha256 c)),
        (''signal_context_binding_id'', PUuid i),
        (''strategy_context_requirement_id'', PUuid (signal_requirement_id c))])) (\<lambda>h.
     Inr \<lparr>binding_id = i, binding_context = c, binding_content_sha256 = h\<rparr>)"

record signal_plan =
  signal_id :: uuid
  signal_ordinal :: int
  signal_candidate :: prepared_signal_candidate
  signal_status_of :: signal_status
  signal_reason :: string
  signal_binding_roster_sha256 :: string
  signal_bindings :: "signal_context_binding_plan list"
  signal_sha256 :: string

definition signal_payload :: "signal_plan \<Rightarrow> pyval" where
  "signal_payload s = PMapping
     [(''candidate_id'', PUuid (signal_candidate_id (signal_candidate s))),
      (''candidate_score'', optional_payload PDecimal (signal_score (signal_candidate s))),
      (''context_binding_count'', PInt (int (length (signal_bindings s)))),
      (''context_binding_roster_sha256'', PStr (signal_binding_roster_sha256 s)),
      (''ordinal'', PInt (signal_ordinal s)),
      (''reason_code'', PStr (signal_reason s)),
      (''signal_id'', PUuid (signal_id s)),
      (''status'', PStr (signal_status_value (signal_status_of s)))]"

definition signal_plan_init :: "signal_plan \<Rightarrow> signal_plan result" where
  "signal_plan_init s =
     bindE (sha_field ''Signal Context roster hash'' (signal_binding_roster_sha256 s)) (\<lambda>r.
     let s = s\<lparr>signal_binding_roster_sha256 := r\<rparr> in
     bindE (canonical_json_sha256 (signal_payload s)) (\<lambda>h. Inr (s\<lparr>signal_sha256 := h\<rparr>)))"

record signal_authority =
  signal_group_id :: uuid
  signals_run_id :: uuid
  signals_candidate_set_id :: uuid
  signals_candidate_set_sha256 :: string
  signals_candidate_roster_sha256 :: string
  signals_decision_time :: py_datetime
  signals_version :: strategy_version_plan
  signals_request_identity :: string
  signals_request_sha256 :: string
  signals_receipt_id :: uuid
  signals_recorded_at :: py_datetime
  signal_count :: nat
  signal_binding_count :: nat
  signal_roster_sha256 :: string
  signals :: "signal_plan list"
  signals_sha256 :: string

definition signal_authority_payload :: "signal_authority \<Rightarrow> pyval" where
  "signal_authority_payload a = PMapping
     [(''candidate_roster_sha256'', PStr (signals_candidate_roster_sha256 a)),
      (''candidate_set_id'', PUuid (signals_candidate_set_id a)),
      (''candidate_set_content_sha256'', PStr (signals_candidate_set_sha256 a)),
      (''context_binding_count'', PInt (int (signal_binding_count a))),
      (''decision_run_id'', PUuid (signals_run_id a)),
      (''decision_time'', PDatetime (signals_decision_time a)),
      (''request_identity'', PStr (signals_request_identity a)),
      (''request_sha256'', PStr (signals_request_sha256 a)),
      (''signal_count'', PInt (int (signal_count a))),
      (''signal_group_id'', PUuid (signal_group_id a)),
      (''signal_roster_sha256'', PStr (signal_roster_sha256 a)),
      (''strategy_version_sha256'', PStr (strategy_version_sha256 (signals_version a)))]"

definition signal_authority_init :: "signal_authority \<Rightarrow> signal_authority result" where
  "signal_authority_init a =
     bindE (sha_field ''Signal roster hash'' (signal_roster_sha256 a)) (\<lambda>r.
     let a = a\<lparr>signal_roster_sha256 := r\<rparr> in
     bindE (canonical_json_sha256 (signal_authority_payload a)) (\<lambda>h. Inr (a\<lparr>signals_sha256 := h\<rparr>)))"

text \<open>\<open>_missing_status\<close>: the loop over Contexts and requirements, kept as written.\<close>

fun signal_priority :: "signal_status \<Rightarrow> int option" where
  "signal_priority Signal_UNKNOWN = Some 1"
| "signal_priority Signal_WAIT = Some 2"
| "signal_priority Signal_NOT_ESTIMABLE = Some 3"
| "signal_priority _ = None"

fun missing_signal :: "context_failure_action \<Rightarrow> signal_status result" where
  "missing_signal Action_UNKNOWN = Inr Signal_UNKNOWN"
| "missing_signal Action_WAIT = Inr Signal_WAIT"
| "missing_signal Action_NOT_ESTIMABLE = Inr Signal_NOT_ESTIMABLE"
| "missing_signal OBSERVE_ONLY = Inl KeyError"

definition missing_step ::
  "prepared_signal_context \<times> strategy_context_requirement \<Rightarrow> signal_status option \<Rightarrow> signal_status option result" where
  "missing_step kr res =
     (case kr of (k, r) \<Rightarrow>
        if missing_action r = OBSERVE_ONLY then Inr res
        else if signal_assessment_status k = Metric_AVAILABLE then Inr res
        else bindE (missing_signal (missing_action r)) (\<lambda>mapped.
          case res of
            None \<Rightarrow> Inr (Some mapped)
          | Some current \<Rightarrow>
              bindE (optE (signal_priority mapped) KeyError) (\<lambda>p.
              bindE (optE (signal_priority current) KeyError) (\<lambda>q.
              Inr (if p > q then Some mapped else Some current)))))"

text \<open>\<open>zip(..., strict=True)\<close> raises when the lengths differ.\<close>

definition zip_strict :: "'a list \<Rightarrow> 'b list \<Rightarrow> ('a \<times> 'b) list result" where
  "zip_strict xs ys =
     thenE (guardE (length xs = length ys) (ValueError ''zip() arguments differ in length'')) (Inr (zip xs ys))"

definition missing_status ::
  "prepared_signal_context list \<Rightarrow> strategy_context_requirement list \<Rightarrow> signal_status option result" where
  "missing_status contexts reqs =
     bindE (zip_strict contexts reqs) (\<lambda>krs. foldE missing_step krs None)"

text \<open>Status and reason of one Candidate's Signal.\<close>

definition signal_outcome ::
  "strategy_version_plan \<Rightarrow> prepared_signal_candidate \<Rightarrow> (signal_status \<times> string) result" where
  "signal_outcome v c =
     (let rule = signal_rule v; reqs = context_requirements v in
      bindE (missing_status (signal_contexts c) reqs) (\<lambda>missing.
      if signal_disposition c \<noteq> eligible_disposition rule
      then Inr (ineligible_status rule, ''CANDIDATE_INELIGIBLE'')
      else case missing of
        Some m \<Rightarrow> Inr (m, ''CONTEXT_'' @ signal_status_value m)
      | None \<Rightarrow>
          bindE (zip_strict (signal_contexts c) reqs) (\<lambda>krs.
          if list_all (\<lambda>(k, r). missing_action r = OBSERVE_ONLY
               \<or> signal_assessment_state k = required_state r) krs
          then Inr (positive_status rule,
            if list_all (\<lambda>r. missing_action r = OBSERVE_ONLY) reqs
            then ''CONTEXT_OBSERVED_NOT_GATED'' else ''CONTEXT_REQUIREMENTS_SATISFIED'')
          else Inr (negative_status rule, ''CONTEXT_REQUIREMENTS_NOT_SATISFIED''))))"

definition binding_roster_payload :: "signal_context_binding_plan list \<Rightarrow> pyval" where
  "binding_roster_payload bs = PSequence (map (\<lambda>(n, b). PMapping
     [(''content_sha256'', PStr (binding_content_sha256 b)),
      (''ordinal'', PInt n),
      (''signal_context_binding_id'', PUuid (binding_id b))]) (numbered bs))"

definition build_signal ::
  "(prepared_signal_candidate \<Rightarrow> int \<Rightarrow> uuid) \<Rightarrow>
   (prepared_signal_candidate \<Rightarrow> prepared_signal_context \<Rightarrow> uuid) \<Rightarrow>
   strategy_version_plan \<Rightarrow> int \<times> prepared_signal_candidate \<Rightarrow> signal_plan result" where
  "build_signal signal_ids binding_ids v nc =
     (case nc of (n, c) \<Rightarrow>
        bindE (mapE (\<lambda>k. signal_context_binding_init (binding_ids c k) k) (signal_contexts c)) (\<lambda>bindings.
        bindE (canonical_json_sha256 (binding_roster_payload bindings)) (\<lambda>binding_hash.
        bindE (signal_outcome v c) (\<lambda>(status, reason).
        signal_plan_init
          \<lparr>signal_id = signal_ids c n, signal_ordinal = n, signal_candidate = c,
           signal_status_of = status, signal_reason = reason,
           signal_binding_roster_sha256 = binding_hash, signal_bindings = bindings,
           signal_sha256 = []\<rparr>))))"

definition signal_roster_payload :: "signal_plan list \<Rightarrow> pyval" where
  "signal_roster_payload ss = PSequence (map (\<lambda>s. PMapping
     [(''content_sha256'', PStr (signal_sha256 s)),
      (''ordinal'', PInt (signal_ordinal s)),
      (''signal_id'', PUuid (signal_id s))]) ss)"

record inference_request =
  inference_group_id :: uuid
  inference_request_identity :: string
  inference_request_sha256 :: string
  inference_receipt_id :: uuid
  inference_recorded_at :: py_datetime

definition build_signal_authority ::
  "(prepared_signal_candidate \<Rightarrow> int \<Rightarrow> uuid) \<Rightarrow>
   (prepared_signal_candidate \<Rightarrow> prepared_signal_context \<Rightarrow> uuid) \<Rightarrow>
   prepared_signal_inputs \<Rightarrow> inference_request \<Rightarrow> signal_authority result" where
  "build_signal_authority signal_ids binding_ids p r =
     thenE (guardE (request_identity_ok (inference_request_identity r)) (ValueError ''Signal request identity is invalid''))
     (bindE (sha_field ''Signal request hash'' (inference_request_sha256 r)) (\<lambda>request.
      bindE (require_utc ''Signal recorded_at'' (inference_recorded_at r)) (\<lambda>recorded.
      thenE (guardE (\<not> instant_of recorded \<le> instant_of (signal_decision_time p))
        (ValueError ''Signal must be recorded after DecisionTime''))
     (bindE (mapE (build_signal signal_ids binding_ids (signal_version p)) (numbered (signal_candidates p))) (\<lambda>plans.
      bindE (canonical_json_sha256 (signal_roster_payload plans)) (\<lambda>h.
      signal_authority_init
        \<lparr>signal_group_id = inference_group_id r, signals_run_id = signal_run_id p,
         signals_candidate_set_id = signal_candidate_set_id p,
         signals_candidate_set_sha256 = signal_candidate_set_sha256 p,
         signals_candidate_roster_sha256 = signal_candidate_roster_sha256 p,
         signals_decision_time = signal_decision_time p, signals_version = signal_version p,
         signals_request_identity = inference_request_identity r, signals_request_sha256 = request,
         signals_receipt_id = inference_receipt_id r, signals_recorded_at = recorded,
         signal_count = length plans,
         signal_binding_count = sum_list (map (\<lambda>s. length (signal_bindings s)) plans),
         signal_roster_sha256 = h, signals = plans, signals_sha256 = []\<rparr>))))))"

section \<open>Forecast inputs\<close>

record prepared_forecast_commitment =
  commitment_id :: uuid
  commitment_candidate_id :: uuid
  commitment_instrument_id :: uuid
  commitment_target_id :: uuid
  commitment_target_sha256 :: string
  commitment_checkpoint_id :: uuid
  commitment_checkpoint_sha256 :: string
  commitment_sha256 :: string

definition prepared_forecast_commitment_init ::
  "prepared_forecast_commitment \<Rightarrow> prepared_forecast_commitment result" where
  "prepared_forecast_commitment_init c =
     bindE (sha_field ''target_definition_sha256'' (commitment_target_sha256 c)) (\<lambda>target.
     bindE (sha_field ''target_checkpoint_sha256'' (commitment_checkpoint_sha256 c)) (\<lambda>checkpoint.
     bindE (sha_field ''commitment_content_sha256'' (commitment_sha256 c)) (\<lambda>h.
     Inr (c\<lparr>commitment_target_sha256 := target, commitment_checkpoint_sha256 := checkpoint,
       commitment_sha256 := h\<rparr>))))"

record prepared_forecast_inputs =
  forecast_run_id :: uuid
  forecast_version :: strategy_version_plan
  forecast_signals :: signal_authority
  forecast_commitments :: "prepared_forecast_commitment list"

definition rules_for :: "strategy_version_plan \<Rightarrow> prepared_forecast_commitment \<Rightarrow> strategy_forecast_rule list" where
  "rules_for v c = filter (\<lambda>r. rule_target_id r = commitment_target_id c) (forecast_rules v)"

definition commitment_exact :: "strategy_version_plan \<Rightarrow> prepared_forecast_commitment \<Rightarrow> bool" where
  "commitment_exact v c \<longleftrightarrow>
     rules_for v c \<noteq> [] \<and> list_all (\<lambda>r. rule_target_sha256 r = commitment_target_sha256 c
       \<and> rule_checkpoint_id r = commitment_checkpoint_id c
       \<and> rule_checkpoint_sha256 r = commitment_checkpoint_sha256 c) (rules_for v c)"

definition commitment_key :: "prepared_forecast_commitment \<Rightarrow> uuid \<times> uuid" where
  "commitment_key c = (commitment_candidate_id c, commitment_target_id c)"

definition expected_commitments :: "strategy_version_plan \<Rightarrow> signal_authority \<Rightarrow> (uuid \<times> uuid) set" where
  "expected_commitments v a =
     set (List.product (map (\<lambda>s. signal_candidate_id (signal_candidate s)) (signals a))
       (fromkeys (map rule_target_id (forecast_rules v))))"

definition prepared_forecast_inputs_init :: "prepared_forecast_inputs \<Rightarrow> prepared_forecast_inputs result" where
  "prepared_forecast_inputs_init p =
     (let v = forecast_version p; a = forecast_signals p; cs = forecast_commitments p in
      thenE (guardE (signals_run_id a = forecast_run_id p)
        (ValueError ''Forecast Signal belongs to a different DecisionRun''))
     (thenE (guardE (strategy_version_eq (signals_version a) v)
        (ValueError ''Forecast Signal belongs to a different StrategyVersion''))
     (thenE (guardE (distinct (map commitment_key cs) \<and> set (map commitment_key cs) = expected_commitments v a)
        (ValueError ''Forecast requires the complete commitment roster''))
     (thenE (guardE (list_all (commitment_exact v) cs)
        (ValueError ''Forecast commitment Target binding is not exact''))
     (Inr p)))))"

record prepared_inference_inputs =
  inference_signal_inputs :: prepared_signal_inputs
  inference_commitments :: "prepared_forecast_commitment list"

definition prepared_inference_inputs_init :: "prepared_inference_inputs \<Rightarrow> prepared_inference_inputs result" where
  "prepared_inference_inputs_init p =
     thenE (guardE (commitment_candidate_id ` set (inference_commitments p)
         = signal_candidate_id ` set (signal_candidates (inference_signal_inputs p)))
       (ValueError ''Inference requires commitments for every Candidate''))
     (Inr p)"

section \<open>Forecasts\<close>

record forecast_estimate_plan =
  estimate_id :: uuid
  estimate_rule :: strategy_forecast_rule
  point_estimate :: "decimal option"
  lower_bound :: "decimal option"
  upper_bound :: "decimal option"
  estimate_sha256 :: string

definition estimate_payload :: "forecast_estimate_plan \<Rightarrow> pyval" where
  "estimate_payload e = PMapping
     [(''forecast_estimate_id'', PUuid (estimate_id e)),
      (''lower_bound'', optional_payload PDecimal (lower_bound e)),
      (''point_estimate'', optional_payload PDecimal (point_estimate e)),
      (''strategy_forecast_rule_id'', PUuid (forecast_rule_id (estimate_rule e))),
      (''target_metric_definition_id'', PUuid (rule_metric_id (estimate_rule e))),
      (''upper_bound'', optional_payload PDecimal (upper_bound e))]"

definition forecast_estimate_plan_init :: "forecast_estimate_plan \<Rightarrow> forecast_estimate_plan result" where
  "forecast_estimate_plan_init e =
     bindE (canonical_json_sha256 (estimate_payload e)) (\<lambda>h. Inr (e\<lparr>estimate_sha256 := h\<rparr>))"

record forecast_plan =
  forecast_id :: uuid
  forecast_ordinal :: int
  forecast_signal :: signal_plan
  forecast_commitment :: prepared_forecast_commitment
  forecast_status_of :: forecast_status
  calibration_status :: forecast_calibration_status
  forecast_reason :: string
  estimate_roster_sha256 :: string
  estimates :: "forecast_estimate_plan list"
  forecast_sha256 :: string

definition forecast_payload :: "forecast_plan \<Rightarrow> pyval" where
  "forecast_payload f = PMapping
     [(''calibration_status'', PStr (forecast_calibration_status_value (calibration_status f))),
      (''commitment_content_sha256'', PStr (commitment_sha256 (forecast_commitment f))),
      (''commitment_id'', PUuid (commitment_id (forecast_commitment f))),
      (''estimate_count'', PInt (int (length (estimates f)))),
      (''estimate_roster_sha256'', PStr (estimate_roster_sha256 f)),
      (''forecast_id'', PUuid (forecast_id f)),
      (''ordinal'', PInt (forecast_ordinal f)),
      (''reason_code'', PStr (forecast_reason f)),
      (''signal_content_sha256'', PStr (signal_sha256 (forecast_signal f))),
      (''signal_id'', PUuid (signal_id (forecast_signal f))),
      (''status'', PStr (forecast_status_value (forecast_status_of f)))]"

definition forecast_plan_init :: "forecast_plan \<Rightarrow> forecast_plan result" where
  "forecast_plan_init f =
     bindE (sha_field ''Forecast estimate roster hash'' (estimate_roster_sha256 f)) (\<lambda>r.
     let f = f\<lparr>estimate_roster_sha256 := r\<rparr> in
     bindE (canonical_json_sha256 (forecast_payload f)) (\<lambda>h. Inr (f\<lparr>forecast_sha256 := h\<rparr>)))"

record forecast_authority =
  forecast_group_id :: uuid
  forecasts_run_id :: uuid
  forecasts_version :: strategy_version_plan
  forecasts_signal_group_id :: uuid
  forecasts_request_identity :: string
  forecasts_request_sha256 :: string
  forecasts_receipt_id :: uuid
  forecasts_recorded_at :: py_datetime
  forecast_count :: nat
  estimate_count :: nat
  forecast_roster_sha256 :: string
  forecasts :: "forecast_plan list"
  forecasts_sha256 :: string

definition forecast_authority_payload :: "forecast_authority \<Rightarrow> pyval" where
  "forecast_authority_payload a = PMapping
     [(''decision_run_id'', PUuid (forecasts_run_id a)),
      (''estimate_count'', PInt (int (estimate_count a))),
      (''forecast_count'', PInt (int (forecast_count a))),
      (''forecast_group_id'', PUuid (forecast_group_id a)),
      (''forecast_roster_sha256'', PStr (forecast_roster_sha256 a)),
      (''request_identity'', PStr (forecasts_request_identity a)),
      (''request_sha256'', PStr (forecasts_request_sha256 a)),
      (''signal_group_id'', PUuid (forecasts_signal_group_id a)),
      (''strategy_version_sha256'', PStr (strategy_version_sha256 (forecasts_version a)))]"

definition forecast_authority_init :: "forecast_authority \<Rightarrow> forecast_authority result" where
  "forecast_authority_init a =
     bindE (sha_field ''Forecast roster hash'' (forecast_roster_sha256 a)) (\<lambda>r.
     let a = a\<lparr>forecast_roster_sha256 := r\<rparr> in
     bindE (canonical_json_sha256 (forecast_authority_payload a)) (\<lambda>h. Inr (a\<lparr>forecasts_sha256 := h\<rparr>)))"

text \<open>The prediction of a model for a Signal and a commitment: status, reason and estimate.\<close>

type_synonym prediction =
  "signal_plan \<Rightarrow> prepared_forecast_commitment \<Rightarrow> forecast_status \<times> string \<times> decimal option"

definition forecast_outcome ::
  "prediction option \<Rightarrow> signal_plan \<Rightarrow> prepared_forecast_commitment \<Rightarrow>
   (bool \<times> forecast_status \<times> string \<times> decimal option) result" where
  "forecast_outcome model s c =
     (case model of
        None \<Rightarrow>
          (let available = signal_status_of s = Signal_PRESENT \<and> signal_score (signal_candidate s) \<noteq> None in
           Inr (available,
             if available then Forecast_AVAILABLE else Forecast_NOT_APPLICABLE,
             if available then ''RULE_ESTIMATE_AVAILABLE'' else ''SIGNAL_NOT_PRESENT'', None))
      | Some predict \<Rightarrow>
          (case predict s c of (status, reason, point) \<Rightarrow>
             let available = status = Forecast_AVAILABLE in
             thenE (guardE (available = (point \<noteq> None))
               (ValueError ''Model Forecast availability and estimate differ''))
             (Inr (available, status, reason, point))))"

text \<open>Point, lower and upper bound of one rule.\<close>

definition rule_estimate :: "nat \<Rightarrow> strategy_forecast_rule \<Rightarrow> decimal \<Rightarrow> (decimal \<times> decimal \<times> decimal) result" where
  "rule_estimate ambient r score =
     bindE (decimal_mul ambient score (rule_coefficient r)) (\<lambda>product.
     bindE (decimal_add ambient product (rule_intercept r)) (\<lambda>point.
     bindE (decimal_sub ambient point (rule_lower_offset r)) (\<lambda>lower.
     bindE (decimal_add ambient point (rule_upper_offset r)) (\<lambda>upper.
     Inr (point, lower, upper)))))"

definition estimate_values ::
  "nat \<Rightarrow> bool \<Rightarrow> decimal option \<Rightarrow> bool \<Rightarrow> decimal option \<Rightarrow> strategy_forecast_rule \<Rightarrow>
   (decimal \<times> decimal \<times> decimal) option result" where
  "estimate_values ambient available point is_model score r =
     (if \<not> available then Inr None
      else if is_model then mapR (\<lambda>p. Some (p, p, p)) (optE point AssertionError)
      else bindE (optE score AssertionError) (\<lambda>s. mapR Some (rule_estimate ambient r s)))"

definition build_estimate ::
  "nat \<Rightarrow> (strategy_forecast_rule \<Rightarrow> forecast_plan \<Rightarrow> uuid) \<Rightarrow> forecast_plan \<Rightarrow> bool \<Rightarrow> decimal option \<Rightarrow> bool \<Rightarrow>
   strategy_forecast_rule \<Rightarrow> forecast_estimate_plan result" where
  "build_estimate ambient estimate_ids f available point is_model r =
     bindE (estimate_values ambient available point is_model
         (signal_score (signal_candidate (forecast_signal f))) r) (\<lambda>vs.
     forecast_estimate_plan_init
       \<lparr>estimate_id = estimate_ids r f, estimate_rule = r,
        point_estimate = map_option fst vs, lower_bound = map_option (fst \<circ> snd) vs,
        upper_bound = map_option (snd \<circ> snd) vs, estimate_sha256 = []\<rparr>)"

definition estimate_roster_payload :: "forecast_estimate_plan list \<Rightarrow> pyval" where
  "estimate_roster_payload es = PSequence (map (\<lambda>(n, e). PMapping
     [(''content_sha256'', PStr (estimate_sha256 e)),
      (''forecast_estimate_id'', PUuid (estimate_id e)),
      (''ordinal'', PInt n)]) (numbered es))"

definition build_forecast ::
  "nat \<Rightarrow> (signal_plan \<Rightarrow> prepared_forecast_commitment \<Rightarrow> uuid) \<Rightarrow>
   (strategy_forecast_rule \<Rightarrow> forecast_plan \<Rightarrow> uuid) \<Rightarrow> prediction option \<Rightarrow> strategy_version_plan \<Rightarrow>
   int \<times> signal_plan \<times> prepared_forecast_commitment \<Rightarrow> forecast_plan result" where
  "build_forecast ambient forecast_ids estimate_ids model v nsc =
     (case nsc of (n, s, c) \<Rightarrow>
        bindE (forecast_outcome model s c) (\<lambda>(available, status, reason, point).
        bindE (forecast_plan_init
          \<lparr>forecast_id = forecast_ids s c, forecast_ordinal = n, forecast_signal = s,
           forecast_commitment = c, forecast_status_of = status,
           calibration_status = (if available then UNCALIBRATED else Calibration_NOT_APPLICABLE),
           forecast_reason = reason, estimate_roster_sha256 = replicate 64 (CHR ''0''),
           estimates = [], forecast_sha256 = []\<rparr>) (\<lambda>provisional.
        bindE (mapE (build_estimate ambient estimate_ids provisional available point (model \<noteq> None))
          (rules_for v c)) (\<lambda>es.
        bindE (canonical_json_sha256 (estimate_roster_payload es)) (\<lambda>h.
        forecast_plan_init (provisional\<lparr>estimate_roster_sha256 := h, estimates := es, forecast_sha256 := []\<rparr>))))))"

definition forecast_pairs ::
  "signal_plan list \<Rightarrow> prepared_forecast_commitment list \<Rightarrow> (signal_plan \<times> prepared_forecast_commitment) list" where
  "forecast_pairs ss cs =
     concat (map (\<lambda>s. map (Pair s)
       (filter (\<lambda>c. commitment_candidate_id c = signal_candidate_id (signal_candidate s)) cs)) ss)"

definition forecast_roster_payload :: "forecast_plan list \<Rightarrow> pyval" where
  "forecast_roster_payload fs = PSequence (map (\<lambda>f. PMapping
     [(''content_sha256'', PStr (forecast_sha256 f)),
      (''forecast_id'', PUuid (forecast_id f)),
      (''ordinal'', PInt (forecast_ordinal f))]) fs)"

definition build_forecast_authority ::
  "nat \<Rightarrow> (signal_plan \<Rightarrow> prepared_forecast_commitment \<Rightarrow> uuid) \<Rightarrow>
   (strategy_forecast_rule \<Rightarrow> forecast_plan \<Rightarrow> uuid) \<Rightarrow> prediction option \<Rightarrow>
   prepared_forecast_inputs \<Rightarrow> inference_request \<Rightarrow> forecast_authority result" where
  "build_forecast_authority ambient forecast_ids estimate_ids model p r =
     thenE (guardE (request_identity_ok (inference_request_identity r)) (ValueError ''Forecast request identity is invalid''))
     (bindE (sha_field ''Forecast request hash'' (inference_request_sha256 r)) (\<lambda>request.
      bindE (require_utc ''Forecast recorded_at'' (inference_recorded_at r)) (\<lambda>recorded.
      bindE (mapE (build_forecast ambient forecast_ids estimate_ids model (forecast_version p))
          (numbered (forecast_pairs (signals (forecast_signals p)) (forecast_commitments p)))) (\<lambda>plans.
      bindE (canonical_json_sha256 (forecast_roster_payload plans)) (\<lambda>h.
      forecast_authority_init
        \<lparr>forecast_group_id = inference_group_id r, forecasts_run_id = forecast_run_id p,
         forecasts_version = forecast_version p,
         forecasts_signal_group_id = signal_group_id (forecast_signals p),
         forecasts_request_identity = inference_request_identity r, forecasts_request_sha256 = request,
         forecasts_receipt_id = inference_receipt_id r, forecasts_recorded_at = recorded,
         forecast_count = length plans,
         estimate_count = sum_list (map (\<lambda>f. length (estimates f)) plans),
         forecast_roster_sha256 = h, forecasts = plans, forecasts_sha256 = []\<rparr>)))))"

end
