(* ===== verification/Decision_Opportunity.thy ===== *)
theory Decision_Opportunity
  imports Decision_Inference
begin

text \<open>
  \<open>decision_support/domain/opportunity.py\<close>: the Opportunity roster of a DecisionRun and the
  Thesis with its conditions.
\<close>

section \<open>Vocabulary\<close>

datatype opportunity_status = ACTIONABLE | Opportunity_NO_ACTION | Opportunity_WAIT | Opportunity_NOT_ESTIMABLE

fun opportunity_status_value :: "opportunity_status \<Rightarrow> string" where
  "opportunity_status_value ACTIONABLE = ''ACTIONABLE''"
| "opportunity_status_value Opportunity_NO_ACTION = ''NO_ACTION''"
| "opportunity_status_value Opportunity_WAIT = ''WAIT''"
| "opportunity_status_value Opportunity_NOT_ESTIMABLE = ''NOT_ESTIMABLE''"

datatype decision_action = ENTER | Decision_NO_ACTION | Decision_WAIT | DATA_INSUFFICIENT

fun decision_action_value :: "decision_action \<Rightarrow> string" where
  "decision_action_value ENTER = ''ENTER''"
| "decision_action_value Decision_NO_ACTION = ''NO_ACTION''"
| "decision_action_value Decision_WAIT = ''WAIT''"
| "decision_action_value DATA_INSUFFICIENT = ''DATA_INSUFFICIENT''"

datatype thesis_condition_kind = Thesis_ENTRY | Thesis_HOLD | Thesis_INVALIDATE | Thesis_REDUCE | Thesis_EXIT

fun thesis_condition_kind_value :: "thesis_condition_kind \<Rightarrow> string" where
  "thesis_condition_kind_value Thesis_ENTRY = ''ENTRY''"
| "thesis_condition_kind_value Thesis_HOLD = ''HOLD''"
| "thesis_condition_kind_value Thesis_INVALIDATE = ''INVALIDATE''"
| "thesis_condition_kind_value Thesis_REDUCE = ''REDUCE''"
| "thesis_condition_kind_value Thesis_EXIT = ''EXIT''"

datatype thesis_condition_source = From_CONTEXT | From_SIGNAL | From_FORECAST | From_OPPORTUNITY

fun thesis_condition_source_value :: "thesis_condition_source \<Rightarrow> string" where
  "thesis_condition_source_value From_CONTEXT = ''CONTEXT''"
| "thesis_condition_source_value From_SIGNAL = ''SIGNAL''"
| "thesis_condition_source_value From_FORECAST = ''FORECAST''"
| "thesis_condition_source_value From_OPPORTUNITY = ''OPPORTUNITY''"

datatype thesis_condition_operator = Thesis_EQUALS | Thesis_AT_LEAST | Thesis_AT_MOST

fun thesis_condition_operator_value :: "thesis_condition_operator \<Rightarrow> string" where
  "thesis_condition_operator_value Thesis_EQUALS = ''EQUALS''"
| "thesis_condition_operator_value Thesis_AT_LEAST = ''AT_LEAST''"
| "thesis_condition_operator_value Thesis_AT_MOST = ''AT_MOST''"

datatype thesis_missing_action = ThesisMissing_WAIT | ThesisMissing_INVALIDATE | ThesisMissing_DATA_INSUFFICIENT

fun thesis_missing_action_value :: "thesis_missing_action \<Rightarrow> string" where
  "thesis_missing_action_value ThesisMissing_WAIT = ''WAIT''"
| "thesis_missing_action_value ThesisMissing_INVALIDATE = ''INVALIDATE''"
| "thesis_missing_action_value ThesisMissing_DATA_INSUFFICIENT = ''DATA_INSUFFICIENT''"

section \<open>Prepared inputs\<close>

record prepared_opportunity_context =
  opp_binding_id :: uuid
  opp_requirement_id :: uuid
  opp_assessment_id :: uuid
  opp_context_kind :: string
  opp_context_sha256 :: string

definition prepared_opportunity_context_init ::
  "prepared_opportunity_context \<Rightarrow> prepared_opportunity_context result" where
  "prepared_opportunity_context_init c =
     mapR (\<lambda>h. c\<lparr>opp_context_sha256 := h\<rparr>) (sha_field ''Context binding hash'' (opp_context_sha256 c))"

record prepared_opportunity_input =
  opp_forecast_id :: uuid
  opp_forecast_ordinal :: int
  opp_forecast_sha256 :: string
  opp_forecast_status :: forecast_status
  opp_calibration_status :: forecast_calibration_status
  opp_signal_id :: uuid
  opp_signal_sha256 :: string
  opp_signal_status :: signal_status
  opp_candidate_id :: uuid
  opp_instrument_id :: uuid
  opp_commitment_id :: uuid
  opp_commitment_sha256 :: string
  opp_target_id :: uuid
  opp_target_sha256 :: string
  opp_contexts :: "prepared_opportunity_context list"

definition prepared_opportunity_input_init :: "prepared_opportunity_input \<Rightarrow> prepared_opportunity_input result" where
  "prepared_opportunity_input_init i =
     thenE (guardE (\<not> opp_forecast_ordinal i < 1) (ValueError ''Opportunity input ordinal must be positive''))
     (bindE (sha_field ''forecast_content_sha256'' (opp_forecast_sha256 i)) (\<lambda>forecast.
      bindE (sha_field ''signal_content_sha256'' (opp_signal_sha256 i)) (\<lambda>signal.
      bindE (sha_field ''commitment_content_sha256'' (opp_commitment_sha256 i)) (\<lambda>commitment.
      bindE (sha_field ''target_definition_sha256'' (opp_target_sha256 i)) (\<lambda>target.
      thenE (guardE (opp_contexts i \<noteq> []) (ValueError ''Opportunity requires complete Context bindings''))
     (thenE (guardE (distinct (map opp_requirement_id (opp_contexts i)))
        (ValueError ''Opportunity Context roster contains a duplicate''))
     (Inr (i\<lparr>opp_forecast_sha256 := forecast, opp_signal_sha256 := signal,
        opp_commitment_sha256 := commitment, opp_target_sha256 := target\<rparr>))))))))"

record prepared_opportunity_inputs =
  opps_run_id :: uuid
  opps_version_id :: uuid
  opps_version_sha256 :: string
  opps_signal_group_id :: uuid
  opps_signal_sha256 :: string
  opps_forecast_group_id :: uuid
  opps_forecast_sha256 :: string
  opps_forecast_recorded_at :: py_datetime
  opportunity_items :: "prepared_opportunity_input list"

definition prepared_opportunity_inputs_init :: "prepared_opportunity_inputs \<Rightarrow> prepared_opportunity_inputs result" where
  "prepared_opportunity_inputs_init p =
     bindE (sha_field ''strategy_version_sha256'' (opps_version_sha256 p)) (\<lambda>version.
     bindE (sha_field ''signal_content_sha256'' (opps_signal_sha256 p)) (\<lambda>signal.
     bindE (sha_field ''forecast_content_sha256'' (opps_forecast_sha256 p)) (\<lambda>forecast.
     bindE (require_utc ''Forecast recorded_at'' (opps_forecast_recorded_at p)) (\<lambda>t.
     thenE (guardE (contiguous (map opp_forecast_ordinal (opportunity_items p)))
       (ValueError ''Opportunity input ordinals must be contiguous''))
    (thenE (guardE (distinct (map opp_forecast_id (opportunity_items p)))
       (ValueError ''Opportunity input roster contains a duplicate''))
    (Inr (p\<lparr>opps_version_sha256 := version, opps_signal_sha256 := signal,
       opps_forecast_sha256 := forecast, opps_forecast_recorded_at := t\<rparr>)))))))"

section \<open>Opportunities\<close>

record opportunity_context_plan =
  opportunity_context_id :: uuid
  opportunity_context_source :: prepared_opportunity_context
  opportunity_context_ordinal :: int
  opportunity_context_sha256 :: string

definition opportunity_context_plan_init ::
  "uuid \<Rightarrow> prepared_opportunity_context \<Rightarrow> int \<Rightarrow> opportunity_context_plan result" where
  "opportunity_context_plan_init i c n =
     bindE (canonical_json_sha256 (PMapping
       [(''context_assessment_id'', PUuid (opp_assessment_id c)),
        (''ordinal'', PInt n),
        (''opportunity_context_id'', PUuid i),
        (''signal_context_binding_id'', PUuid (opp_binding_id c)),
        (''strategy_context_requirement_id'', PUuid (opp_requirement_id c))])) (\<lambda>h.
     Inr \<lparr>opportunity_context_id = i, opportunity_context_source = c,
       opportunity_context_ordinal = n, opportunity_context_sha256 = h\<rparr>)"

record opportunity_plan =
  opportunity_id :: uuid
  opportunity_ordinal :: int
  opportunity_source :: prepared_opportunity_input
  opportunity_status_of :: opportunity_status
  opportunity_action :: decision_action
  opportunity_reason :: string
  opportunity_contexts :: "opportunity_context_plan list"
  opportunity_context_roster_sha256 :: string
  opportunity_sha256 :: string

definition opportunity_payload :: "opportunity_plan \<Rightarrow> pyval" where
  "opportunity_payload o' = PMapping
     [(''action'', PStr (decision_action_value (opportunity_action o'))),
      (''commitment_id'', PUuid (opp_commitment_id (opportunity_source o'))),
      (''context_count'', PInt (int (length (opportunity_contexts o')))),
      (''context_roster_sha256'', PStr (opportunity_context_roster_sha256 o')),
      (''forecast_id'', PUuid (opp_forecast_id (opportunity_source o'))),
      (''opportunity_id'', PUuid (opportunity_id o')),
      (''ordinal'', PInt (opportunity_ordinal o')),
      (''reason_code'', PStr (opportunity_reason o')),
      (''signal_id'', PUuid (opp_signal_id (opportunity_source o'))),
      (''status'', PStr (opportunity_status_value (opportunity_status_of o')))]"

definition opportunity_plan_init :: "opportunity_plan \<Rightarrow> opportunity_plan result" where
  "opportunity_plan_init o' =
     bindE (sha_field ''Opportunity Context roster hash'' (opportunity_context_roster_sha256 o')) (\<lambda>r.
     let o' = o'\<lparr>opportunity_context_roster_sha256 := r\<rparr> in
     bindE (canonical_json_sha256 (opportunity_payload o')) (\<lambda>h. Inr (o'\<lparr>opportunity_sha256 := h\<rparr>)))"

record opportunity_authority =
  opportunity_set_id :: uuid
  opportunity_prepared :: prepared_opportunity_inputs
  opportunities :: "opportunity_plan list"
  opportunity_roster_sha256 :: string
  opportunity_context_count :: nat
  opportunity_request_identity :: string
  opportunity_request_sha256 :: string
  opportunity_receipt_id :: uuid
  opportunity_recorded_at :: py_datetime
  opportunities_sha256 :: string

definition opportunity_authority_payload :: "opportunity_authority \<Rightarrow> pyval" where
  "opportunity_authority_payload a = PMapping
     [(''context_count'', PInt (int (opportunity_context_count a))),
      (''decision_run_id'', PUuid (opps_run_id (opportunity_prepared a))),
      (''forecast_group_id'', PUuid (opps_forecast_group_id (opportunity_prepared a))),
      (''opportunity_count'', PInt (int (length (opportunities a)))),
      (''opportunity_roster_sha256'', PStr (opportunity_roster_sha256 a)),
      (''opportunity_set_id'', PUuid (opportunity_set_id a)),
      (''request_identity'', PStr (opportunity_request_identity a)),
      (''request_sha256'', PStr (opportunity_request_sha256 a)),
      (''strategy_version_id'', PUuid (opps_version_id (opportunity_prepared a)))]"

definition opportunity_authority_init :: "opportunity_authority \<Rightarrow> opportunity_authority result" where
  "opportunity_authority_init a =
     bindE (sha_field ''Opportunity roster hash'' (opportunity_roster_sha256 a)) (\<lambda>r.
     bindE (require_utc ''Opportunity recorded_at'' (opportunity_recorded_at a)) (\<lambda>t.
     let a = a\<lparr>opportunity_roster_sha256 := r, opportunity_recorded_at := t\<rparr> in
     thenE (guardE (\<not> instant_of t < instant_of (opps_forecast_recorded_at (opportunity_prepared a)))
       (ValueError ''Opportunity cannot precede Forecast''))
    (bindE (canonical_json_sha256 (opportunity_authority_payload a)) (\<lambda>h.
     Inr (a\<lparr>opportunities_sha256 := h\<rparr>)))))"

text \<open>Status, action and reason of one input.\<close>

definition opportunity_outcome ::
  "prepared_opportunity_input \<Rightarrow> opportunity_status \<times> decision_action \<times> string" where
  "opportunity_outcome i =
     (if opp_signal_status i = Signal_PRESENT \<and> opp_forecast_status i = Forecast_AVAILABLE
      then (ACTIONABLE, ENTER, ''SIGNAL_FORECAST_ACTIONABLE'')
      else if opp_signal_status i = Signal_WAIT
      then (Opportunity_WAIT, Decision_WAIT, ''SIGNAL_WAIT'')
      else if opp_signal_status i \<in> {Signal_UNKNOWN, Signal_NOT_ESTIMABLE}
         \<or> opp_forecast_status i = Forecast_NOT_ESTIMABLE
      then (Opportunity_NOT_ESTIMABLE, DATA_INSUFFICIENT, ''INPUT_NOT_ESTIMABLE'')
      else (Opportunity_NO_ACTION, Decision_NO_ACTION, ''SIGNAL_FORECAST_NO_ACTION''))"

definition opportunity_context_roster :: "opportunity_context_plan list \<Rightarrow> pyval" where
  "opportunity_context_roster cs = PSequence (map (\<lambda>c. PMapping
     [(''content_sha256'', PStr (opportunity_context_sha256 c)),
      (''opportunity_context_id'', PUuid (opportunity_context_id c)),
      (''ordinal'', PInt (opportunity_context_ordinal c))]) cs)"

definition build_opportunity ::
  "(prepared_opportunity_input \<Rightarrow> uuid) \<Rightarrow> (prepared_opportunity_input \<Rightarrow> prepared_opportunity_context \<Rightarrow> uuid) \<Rightarrow>
   int \<times> prepared_opportunity_input \<Rightarrow> opportunity_plan result" where
  "build_opportunity opportunity_ids context_ids ni =
     (case ni of (n, i) \<Rightarrow>
      case opportunity_outcome i of (status, action, reason) \<Rightarrow>
        bindE (mapE (\<lambda>(k, c). opportunity_context_plan_init (context_ids i c) c k)
          (numbered (opp_contexts i))) (\<lambda>contexts.
        bindE (canonical_json_sha256 (opportunity_context_roster contexts)) (\<lambda>h.
        opportunity_plan_init
          \<lparr>opportunity_id = opportunity_ids i, opportunity_ordinal = n, opportunity_source = i,
           opportunity_status_of = status, opportunity_action = action, opportunity_reason = reason,
           opportunity_contexts = contexts, opportunity_context_roster_sha256 = h,
           opportunity_sha256 = []\<rparr>)))"

definition opportunity_roster :: "opportunity_plan list \<Rightarrow> pyval" where
  "opportunity_roster os = PSequence (map (\<lambda>o'. PMapping
     [(''content_sha256'', PStr (opportunity_sha256 o')),
      (''opportunity_id'', PUuid (opportunity_id o')),
      (''ordinal'', PInt (opportunity_ordinal o'))]) os)"

record decision_request =
  decision_root_id :: uuid
  decision_request_identity :: string
  decision_request_sha256 :: string
  decision_receipt_id :: uuid
  decision_recorded_at :: py_datetime

definition build_opportunity_authority ::
  "(prepared_opportunity_input \<Rightarrow> uuid) \<Rightarrow> (prepared_opportunity_input \<Rightarrow> prepared_opportunity_context \<Rightarrow> uuid) \<Rightarrow>
   prepared_opportunity_inputs \<Rightarrow> decision_request \<Rightarrow> opportunity_authority result" where
  "build_opportunity_authority opportunity_ids context_ids p r =
     thenE (guardE (request_identity_ok (decision_request_identity r)) (ValueError ''Opportunity request identity is invalid''))
     (bindE (sha_field ''Opportunity request hash'' (decision_request_sha256 r)) (\<lambda>request.
      bindE (mapE (build_opportunity opportunity_ids context_ids) (numbered (opportunity_items p))) (\<lambda>plans.
      bindE (canonical_json_sha256 (opportunity_roster plans)) (\<lambda>h.
      opportunity_authority_init
        \<lparr>opportunity_set_id = decision_root_id r, opportunity_prepared = p, opportunities = plans,
         opportunity_roster_sha256 = h,
         opportunity_context_count = sum_list (map (\<lambda>o'. length (opportunity_contexts o')) plans),
         opportunity_request_identity = decision_request_identity r, opportunity_request_sha256 = request,
         opportunity_receipt_id = decision_receipt_id r, opportunity_recorded_at = decision_recorded_at r,
         opportunities_sha256 = []\<rparr>))))"

section \<open>Theses\<close>

record thesis_condition_plan =
  thesis_condition_id :: uuid
  condition_thesis_id :: uuid
  condition_ordinal :: int
  condition_code :: string
  condition_kind :: thesis_condition_kind
  condition_source :: thesis_condition_source
  condition_operator :: thesis_condition_operator
  condition_decimal_threshold :: "decimal option"
  condition_text_threshold :: "string option"
  condition_value_unit :: string
  condition_missing_action :: thesis_missing_action
  condition_invalidates :: bool
  condition_sha256 :: string

definition thesis_condition_payload :: "thesis_condition_plan \<Rightarrow> pyval" where
  "thesis_condition_payload c = PMapping
     [(''condition_code'', PStr (condition_code c)),
      (''decimal_threshold'', optional_payload PDecimal (condition_decimal_threshold c)),
      (''invalidates'', PBool (condition_invalidates c)),
      (''kind'', PStr (thesis_condition_kind_value (condition_kind c))),
      (''missing_action'', PStr (thesis_missing_action_value (condition_missing_action c))),
      (''operator'', PStr (thesis_condition_operator_value (condition_operator c))),
      (''ordinal'', PInt (condition_ordinal c)),
      (''source'', PStr (thesis_condition_source_value (condition_source c))),
      (''text_threshold'', optional_payload PStr (condition_text_threshold c)),
      (''thesis_condition_id'', PUuid (thesis_condition_id c)),
      (''thesis_id'', PUuid (condition_thesis_id c)),
      (''value_unit'', PStr (condition_value_unit c))]"

definition thesis_condition_plan_init :: "thesis_condition_plan \<Rightarrow> thesis_condition_plan result" where
  "thesis_condition_plan_init c =
     thenE (guardE (decision_code_ok (condition_code c) \<and> \<not> condition_ordinal c < 1)
       (ValueError ''Thesis condition identity is invalid''))
     (thenE (guardE ((condition_decimal_threshold c = None) \<noteq> (condition_text_threshold c = None))
       (ValueError ''Thesis condition requires exactly one threshold''))
     (thenE (guardE (case condition_decimal_threshold c of None \<Rightarrow> True | Some d \<Rightarrow> is_finite d)
       (ValueError ''Thesis Decimal threshold must be finite''))
     (thenE (guardE (\<not> (condition_kind c = Thesis_INVALIDATE \<and> \<not> condition_invalidates c))
       (ValueError ''INVALIDATE condition must invalidate the Thesis''))
     (bindE (canonical_json_sha256 (thesis_condition_payload c)) (\<lambda>h.
      Inr (c\<lparr>condition_sha256 := h\<rparr>))))))"

record thesis_plan =
  thesis_id :: uuid
  thesis_opportunity_id :: uuid
  thesis_opportunity_sha256 :: string
  thesis_revision :: int
  thesis_supersedes :: "uuid option"
  thesis_claim :: string
  thesis_conditions :: "thesis_condition_plan list"
  thesis_code_artifact :: decision_artifact_binding
  thesis_config_artifact :: decision_artifact_binding
  thesis_provenance_sha256 :: string
  thesis_condition_roster_sha256 :: string
  thesis_sha256 :: string

definition condition_roster_payload :: "thesis_condition_plan list \<Rightarrow> pyval" where
  "condition_roster_payload cs = PSequence (map (\<lambda>c. PMapping
     [(''content_sha256'', PStr (condition_sha256 c)),
      (''ordinal'', PInt (condition_ordinal c)),
      (''thesis_condition_id'', PUuid (thesis_condition_id c))]) cs)"

definition thesis_payload :: "thesis_plan \<Rightarrow> pyval" where
  "thesis_payload t = PMapping
     [(''claim'', PStr (thesis_claim t)),
      (''code_artifact'', decision_artifact_payload (thesis_code_artifact t)),
      (''condition_count'', PInt (int (length (thesis_conditions t)))),
      (''condition_roster_sha256'', PStr (thesis_condition_roster_sha256 t)),
      (''config_artifact'', decision_artifact_payload (thesis_config_artifact t)),
      (''opportunity_content_sha256'', PStr (thesis_opportunity_sha256 t)),
      (''opportunity_id'', PUuid (thesis_opportunity_id t)),
      (''provenance_sha256'', PStr (thesis_provenance_sha256 t)),
      (''revision'', PInt (thesis_revision t)),
      (''supersedes_thesis_id'', optional_payload PUuid (thesis_supersedes t)),
      (''thesis_id'', PUuid (thesis_id t))]"

definition thesis_plan_init :: "thesis_plan \<Rightarrow> thesis_plan result" where
  "thesis_plan_init t =
     (let cs = thesis_conditions t in
      thenE (guardE ((thesis_revision t = 1) = (thesis_supersedes t = None))
        (ValueError ''Thesis supersession shape is invalid''))
     (thenE (guardE (text_ok 1000 (thesis_claim t)) (ValueError ''Thesis claim is invalid''))
     (thenE (guardE (cs \<noteq> [] \<and> contiguous (map condition_ordinal cs))
        (ValueError ''Thesis condition roster must be non-empty and contiguous''))
     (thenE (guardE (list_all (\<lambda>c. condition_thesis_id c = thesis_id t) cs)
        (ValueError ''Thesis condition belongs to a different Thesis''))
     (thenE (guardE (distinct (map condition_code cs))
        (ValueError ''Thesis condition roster contains a duplicate''))
     (bindE (sha_field ''Opportunity hash'' (thesis_opportunity_sha256 t)) (\<lambda>opportunity.
      bindE (sha_field ''Thesis provenance'' (thesis_provenance_sha256 t)) (\<lambda>provenance.
      bindE (canonical_json_sha256 (condition_roster_payload cs)) (\<lambda>roster.
      let t = t\<lparr>thesis_opportunity_sha256 := opportunity, thesis_provenance_sha256 := provenance,
          thesis_condition_roster_sha256 := roster\<rparr> in
      bindE (canonical_json_sha256 (thesis_payload t)) (\<lambda>h.
      Inr (t\<lparr>thesis_sha256 := h\<rparr>)))))))))))"

end
