(* ===== verification/Decision_Signals.thy ===== *)
theory Decision_Signals
  imports Decision_Opportunity
begin

text \<open>
  What Context assessments, Signals and Forecasts mean: the roll-ups are the most severe
  status that occurs, a Context is never NEUTRAL, when a Signal is PRESENT, and the order of a
  Forecast's bounds.
\<close>

section \<open>Roll-ups\<close>

fun metric_severity :: "context_metric_status \<Rightarrow> nat" where
  "metric_severity Metric_AVAILABLE = 0"
| "metric_severity Metric_UNKNOWN = 1"
| "metric_severity Metric_NOT_ESTIMABLE = 2"
| "metric_severity Metric_FAILED = 3"

interpretation context_status: worst_of metric_severity Metric_AVAILABLE context_assessment_status
proof
  show "metric_severity s = metric_severity t \<Longrightarrow> s = t" for s t by (cases s; cases t) auto
  show "s \<in> set xs \<Longrightarrow> metric_severity s \<le> metric_severity (context_assessment_status xs)" for s xs
    by (cases s) auto
qed auto

fun state_severity :: "context_state \<Rightarrow> nat" where
  "state_severity POSITIVE = 0"
| "state_severity NEUTRAL = 1"
| "state_severity NEGATIVE = 2"
| "state_severity State_UNKNOWN = 3"

interpretation context_state: worst_of state_severity POSITIVE context_assessment_state
proof
  show "state_severity s = state_severity t \<Longrightarrow> s = t" for s t by (cases s; cases t) auto
  show "context_assessment_state xs = POSITIVE \<or> context_assessment_state xs \<in> set xs" for xs
  proof (cases "list_all (\<lambda>s. s = POSITIVE) xs")
    case False
    then obtain s where s: "s \<in> set xs" "s \<noteq> POSITIVE" by (auto simp: list_all_iff)
    show ?thesis by (cases s) (use s in auto)
  qed (auto simp: list_all_iff)
  show "s \<in> set xs \<Longrightarrow> state_severity s \<le> state_severity (context_assessment_state xs)" for s xs
    by (cases s) (auto simp: list_all_iff)
qed auto

text \<open>The loop of \<open>_missing_status\<close> as a roll-up of the actions it meets.\<close>

fun action_severity :: "context_failure_action \<Rightarrow> nat" where
  "action_severity OBSERVE_ONLY = 0"
| "action_severity Action_UNKNOWN = 1"
| "action_severity Action_WAIT = 2"
| "action_severity Action_NOT_ESTIMABLE = 3"

definition worst_action :: "context_failure_action list \<Rightarrow> context_failure_action" where
  "worst_action xs = foldl (\<lambda>a b. if action_severity a < action_severity b then b else a) OBSERVE_ONLY xs"

lemma worst_action_snoc:
  "worst_action (xs @ [x]) = (if action_severity (worst_action xs) < action_severity x then x else worst_action xs)"
  by (simp add: worst_action_def)

interpretation missing_action: worst_of action_severity OBSERVE_ONLY worst_action
proof
  show "action_severity s = action_severity t \<Longrightarrow> s = t" for s t by (cases s; cases t) auto
  show "worst_action xs = OBSERVE_ONLY \<or> worst_action xs \<in> set xs" for xs
    by (induction xs rule: rev_induct) (auto simp: worst_action_snoc worst_action_def)
  show "s \<in> set xs \<Longrightarrow> action_severity s \<le> action_severity (worst_action xs)" for s xs
    by (induction xs rule: rev_induct) (auto simp: worst_action_snoc)
qed auto

text \<open>The action a Context calls for: none when it only observes or is available.\<close>

definition called_action :: "prepared_signal_context \<times> strategy_context_requirement \<Rightarrow> context_failure_action" where
  "called_action kr =
     (case kr of (k, r) \<Rightarrow>
        if signal_assessment_status k = Metric_AVAILABLE then OBSERVE_ONLY else missing_action r)"

fun action_status :: "context_failure_action \<Rightarrow> signal_status option" where
  "action_status OBSERVE_ONLY = None"
| "action_status Action_UNKNOWN = Some Signal_UNKNOWN"
| "action_status Action_WAIT = Some Signal_WAIT"
| "action_status Action_NOT_ESTIMABLE = Some Signal_NOT_ESTIMABLE"

lemma missing_step_worst:
  "missing_step kr (action_status a) =
     Inr (action_status (if action_severity a < action_severity (called_action kr) then called_action kr else a))"
proof -
  obtain k r where [simp]: "kr = (k, r)" by fastforce
  show ?thesis
    by (cases "missing_action r"; cases a; cases "signal_assessment_status k = Metric_AVAILABLE")
      (simp_all add: missing_step_def called_action_def)
qed

lemma missing_loop_worst:
  "foldE missing_step krs (action_status a) =
     Inr (action_status (foldl (\<lambda>a b. if action_severity a < action_severity b then b else a) a (map called_action krs)))"
  by (induction krs arbitrary: a) (simp_all add: missing_step_worst)

lemma missing_status_worst:
  assumes "length ks = length rs"
  shows "missing_status ks rs = Inr (action_status (worst_action (map called_action (zip ks rs))))"
  using assms missing_loop_worst [of "zip ks rs" OBSERVE_ONLY]
  by (simp add: missing_status_def zip_strict_def worst_action_def)

section \<open>Contexts\<close>

lemma context_state_of_cases: "context_state_of m v = Inr s \<Longrightarrow> s = POSITIVE \<or> s = NEGATIVE"
  by (auto simp: context_state_of_def bindE_Inr_iff split: context_operator.splits option.splits if_splits)

lemma context_missing_not_available: "context_missing_status m \<noteq> Metric_AVAILABLE"
  by (cases m) simp_all

lemma metric_result_shape:
  assumes "metric_result ambient m sources = Inr (status, st, v)"
  shows "st \<noteq> NEUTRAL" "(status = Metric_AVAILABLE) = (st \<noteq> State_UNKNOWN)" "(status = Metric_AVAILABLE) = (v \<noteq> None)"
  using assms context_state_of_cases
  by (auto simp: metric_result_def bindE_Inr_iff context_missing_not_available split: if_splits)

lemma build_metric_plan_shape:
  assumes "build_metric_plan ambient metric_ids source_ids sources m = Inr p"
  shows "metric_state p \<noteq> NEUTRAL" "(metric_status p = Metric_AVAILABLE) = (metric_state p \<noteq> State_UNKNOWN)"
proof -
  obtain status st v where "metric_result ambient m (sources_of sources m) = Inr (status, st, v)"
    "metric_status p = status" "metric_state p = st"
    using assms by (auto simp: build_metric_plan_def context_metric_plan_init_def bindE_Inr_iff thenE_Inr_iff Let_def
        split: if_splits)
  then show "metric_state p \<noteq> NEUTRAL" "(metric_status p = Metric_AVAILABLE) = (metric_state p \<noteq> State_UNKNOWN)"
    using metric_result_shape by blast+
qed

lemma update_values: "snd ` set (AList.update k w d) \<subseteq> insert w (snd ` set d)"
  by (induction d) auto

lemma dict_of_values: "v \<in> snd ` set (dict_of kvs) \<Longrightarrow> v \<in> snd ` set kvs"
proof (induction kvs rule: rev_induct)
  case (snoc kv kvs)
  have "snd ` set (dict_of (kvs @ [kv])) \<subseteq> insert (snd kv) (snd ` set (dict_of kvs))"
    unfolding dict_of_def by (simp add: update_values)
  then show ?case using snoc by auto
qed (simp add: dict_of_def)

text \<open>An assessment is UNKNOWN exactly when it is not available, and it is never NEUTRAL.\<close>

lemma build_assessment_shape:
  assumes "build_assessment assessment_ids g ms plans nk = Inr x"
    and plans: "\<And>p. p \<in> snd ` set plans \<Longrightarrow>
      metric_state p \<noteq> NEUTRAL \<and> (metric_status p = Metric_AVAILABLE) = (metric_state p \<noteq> State_UNKNOWN)"
  shows "assessment_state x \<noteq> NEUTRAL"
    "(assessment_status x = Metric_AVAILABLE) = (assessment_state x \<noteq> State_UNKNOWN)"
    "assessment_kind x = snd nk"
proof -
  obtain ps where ps: "assessment_status x = context_assessment_status (map metric_status ps)"
    "assessment_state x = context_assessment_state (map metric_state ps)" "assessment_kind x = snd nk"
    "\<And>p. p \<in> set ps \<Longrightarrow> p \<in> snd ` set plans"
  proof -
    obtain ps where m: "mapE (\<lambda>m. dict_item plans (context_policy_metric_id m))
        (filter (\<lambda>m. metric_kind m = snd nk) ms) = Inr ps"
      and x: "assessment_status x = context_assessment_status (map metric_status ps)"
        "assessment_state x = context_assessment_state (map metric_state ps)" "assessment_kind x = snd nk"
      using assms(1) by (auto simp: build_assessment_def context_assessment_plan_init_def bindE_Inr_iff Let_def
          simp del: context_assessment_status.simps context_assessment_state.simps split: prod.splits)
    have "p \<in> snd ` set plans" if "p \<in> set ps" for p
      using mapE_Inr_member [OF m that] by (force dest: map_of_SomeD)
    then show ?thesis using that x by blast
  qed
  have each: "metric_state p \<noteq> NEUTRAL" "(metric_status p = Metric_AVAILABLE) = (metric_state p \<noteq> State_UNKNOWN)"
    if "p \<in> set ps" for p
    using plans ps(4) that by blast+
  show "assessment_state x \<noteq> NEUTRAL"
    using context_state.roll_occurs [of "map metric_state ps"] each(1) unfolding ps(2)
    by (auto simp del: context_assessment_state.simps)
  have "assessment_status x = Metric_AVAILABLE \<longleftrightarrow> (\<forall>p \<in> set ps. metric_status p = Metric_AVAILABLE)"
    unfolding ps(1) context_status.roll_base_iff by auto
  also have "\<dots> \<longleftrightarrow> (\<forall>p \<in> set ps. metric_state p \<noteq> State_UNKNOWN)" using each(2) by blast
  also have "\<dots> \<longleftrightarrow> State_UNKNOWN \<notin> set (map metric_state ps)" by (auto simp: image_iff)
  also have "\<dots> \<longleftrightarrow> assessment_state x \<noteq> State_UNKNOWN" unfolding ps(2) by auto
  finally show "(assessment_status x = Metric_AVAILABLE) = (assessment_state x \<noteq> State_UNKNOWN)" .
  show "assessment_kind x = snd nk" by (rule ps(3))
qed

lemma assessments_shape:
  assumes "build_context_assessment_authority ambient assessment_ids metric_ids source_ids p r = Inr a"
    and "x \<in> set (authority_assessments a)"
  shows "assessment_state x \<noteq> NEUTRAL"
    "(assessment_status x = Metric_AVAILABLE) = (assessment_state x \<noteq> State_UNKNOWN)"
proof -
  obtain pairs where pairs: "mapE (\<lambda>m. mapR (Pair (context_policy_metric_id m))
      (build_metric_plan ambient metric_ids source_ids (context_sources p) m)) (context_metrics (context_policy p)) = Inr pairs"
    and as: "mapE (build_assessment assessment_ids (context_group_id r) (context_metrics (context_policy p)) (dict_of pairs))
      (numbered (fromkeys (map metric_kind (context_metrics (context_policy p))))) = Inr (authority_assessments a)"
    using assms(1) by (auto simp: build_context_assessment_authority_def context_assessment_authority_init_def
        bindE_Inr_iff thenE_Inr_iff Let_def split: if_splits)
  obtain nk where nk: "build_assessment assessment_ids (context_group_id r) (context_metrics (context_policy p))
      (dict_of pairs) nk = Inr x"
    using mapE_Inr_member [OF as assms(2)] by blast
  have plans: "metric_state q \<noteq> NEUTRAL \<and> (metric_status q = Metric_AVAILABLE) = (metric_state q \<noteq> State_UNKNOWN)"
    if q: "q \<in> snd ` set (dict_of pairs)" for q
  proof -
    obtain k where "(k, q) \<in> set pairs" using dict_of_values [OF q] by auto
    then obtain m where "build_metric_plan ambient metric_ids source_ids (context_sources p) m = Inr q"
      using mapE_Inr_member [OF pairs] by (fastforce simp: mapR_Inr_iff)
    then show ?thesis using build_metric_plan_shape by blast
  qed
  show "assessment_state x \<noteq> NEUTRAL"
    "(assessment_status x = Metric_AVAILABLE) = (assessment_state x \<noteq> State_UNKNOWN)"
    using build_assessment_shape(1,2) [OF nk plans] by blast+
qed

section \<open>Signals\<close>

text \<open>The statuses every accepted Signal rule assigns.\<close>

definition signal_rule_shape :: "strategy_signal_rule \<Rightarrow> bool" where
  "signal_rule_shape r \<longleftrightarrow>
     positive_status r = Signal_PRESENT \<and> negative_status r = NO_SIGNAL \<and> ineligible_status r = NO_SIGNAL"

lemma signal_rule_accepted: "strategy_signal_rule_init r0 = Inr r \<Longrightarrow> signal_rule_shape r"
  by (auto simp: strategy_signal_rule_init_def signal_rule_shape_def bindE_Inr_iff split: if_splits)

text \<open>A Context meets a requirement when it is available in the required state, or only observed.\<close>

definition context_meets :: "prepared_signal_context \<times> strategy_context_requirement \<Rightarrow> bool" where
  "context_meets kr =
     (case kr of (k, r) \<Rightarrow> missing_action r = OBSERVE_ONLY
        \<or> signal_assessment_status k = Metric_AVAILABLE \<and> signal_assessment_state k = required_state r)"

lemma signal_outcome_value:
  assumes "signal_rule_shape (signal_rule v)" "length (signal_contexts c) = length (context_requirements v)"
  defines "krs \<equiv> zip (signal_contexts c) (context_requirements v)"
  shows "\<exists>reason. signal_outcome v c = Inr
    (if signal_disposition c \<noteq> eligible_disposition (signal_rule v) then NO_SIGNAL
     else case action_status (worst_action (map called_action krs)) of
       Some m \<Rightarrow> m
     | None \<Rightarrow> if list_all context_meets krs then Signal_PRESENT else NO_SIGNAL, reason)"
proof -
  let ?w = "worst_action (map called_action krs)"
  have miss: "missing_status (signal_contexts c) (context_requirements v) = Inr (action_status ?w)"
    unfolding krs_def by (rule missing_status_worst [OF assms(2)])
  have zip: "zip_strict (signal_contexts c) (context_requirements v) = Inr krs"
    using assms(2) by (simp add: zip_strict_def krs_def)
  have meets: "list_all (\<lambda>(k, r). missing_action r = OBSERVE_ONLY \<or> signal_assessment_state k = required_state r) krs
      = list_all context_meets krs" if "action_status ?w = None"
  proof -
    have "?w = OBSERVE_ONLY" using that by (cases ?w) simp_all
    then have "set (map called_action krs) \<subseteq> {OBSERVE_ONLY}" using missing_action.roll_base_iff by blast
    then show ?thesis
      unfolding list_all_iff
      by (intro ball_cong refl) (fastforce simp: called_action_def context_meets_def split: prod.splits if_splits)
  qed
  show ?thesis
    using assms(1) meets
    by (cases "action_status ?w") (auto simp: signal_outcome_def miss zip Let_def signal_rule_shape_def)
qed

lemma signal_present_iff:
  assumes "signal_rule_shape (signal_rule v)" "length (signal_contexts c) = length (context_requirements v)"
    and "signal_outcome v c = Inr (status, reason)"
  shows "status = Signal_PRESENT \<longleftrightarrow> signal_disposition c = eligible_disposition (signal_rule v)
    \<and> list_all context_meets (zip (signal_contexts c) (context_requirements v))"
proof -
  let ?krs = "zip (signal_contexts c) (context_requirements v)"
  let ?w = "worst_action (map called_action ?krs)"
  have "?w = OBSERVE_ONLY" if "list_all context_meets ?krs"
    using that unfolding missing_action.roll_base_iff
    by (fastforce simp: list_all_iff context_meets_def called_action_def)
  then show ?thesis
    using signal_outcome_value [OF assms(1,2)] assms(3) by (cases ?w) auto
qed

end
