(* ===== verification/Decision_Metrics.thy ===== *)
theory Decision_Metrics
  imports Decision_Signals
begin

text \<open>
  The reduction of a Context metric: when it raises, and how the median it stores relates to
  the one the trigger \<open>validate_context_assessment_closure\<close> recomputes.
\<close>

section \<open>Accepted metrics and sources\<close>

definition metric_shape :: "context_metric_definition \<Rightarrow> bool" where
  "metric_shape m \<longleftrightarrow> is_finite (lower_threshold m)
     \<and> (if metric_operator m = Context_BETWEEN then \<exists>u. upper_threshold m = Some u \<and> is_finite u
        else upper_threshold m = None)"

lemma metric_accepted: "context_metric_definition_init m0 = Inr m \<Longrightarrow> metric_shape m"
  by (auto simp: context_metric_definition_init_def metric_shape_def threshold_shape_def finite_field_def
      bindE_Inr_iff thenE_Inr_iff Let_def split: if_splits option.splits)

text \<open>An available source carries the kind of value its metric reduces.\<close>

definition source_fits :: "context_metric_definition \<Rightarrow> prepared_context_source \<Rightarrow> bool" where
  "source_fits m s \<longleftrightarrow> value_status s = Source_AVAILABLE \<longrightarrow>
     (if metric_reducer m = TRUE_RATE then source_boolean s \<noteq> None
      else \<exists>d. source_decimal s = Some d \<and> is_finite d)"

lemma source_accepted:
  assumes "prepared_context_source_init s0 = Inr s" "check_source m cutoff s = Inr ()"
  shows "source_fits m s"
  using assms
  by (cases "source_decimal s0"; cases "source_boolean s0")
    (auto simp: prepared_context_source_init_def check_source_def source_fits_def metric_value_type_def finite_field_def
      bindE_Inr_iff thenE_Inr_iff Let_def split: if_splits)

section \<open>Reducing\<close>

definition available_sources :: "prepared_context_source list \<Rightarrow> prepared_context_source list" where
  "available_sources = filter (\<lambda>s. value_status s = Source_AVAILABLE)"

lemma decimals_available:
  assumes "list_all (source_fits m) sources" "metric_reducer m \<noteq> TRUE_RATE"
  shows "length (List.map_filter source_decimal (available_sources sources)) = length (available_sources sources)"
    "\<forall>d \<in> set (List.map_filter source_decimal (available_sources sources)). is_finite d"
  using assms by (induction sources) (auto simp: available_sources_def List.map_filter_def source_fits_def)

lemma decimal_sum_finite:
  assumes "0 < ambient" "\<forall>d \<in> set xs. is_finite d" "is_finite acc"
  shows "\<exists>t. decimal_sum ambient xs acc = Inr t \<and> is_finite t"
  using assms(2,3)
proof (induction xs arbitrary: acc)
  case (Cons x xs)
  obtain t where "decimal_add ambient acc x = Inr t" "is_finite t"
    using decimal_add_rounds [OF assms(1) Cons.prems(2), of x] Cons.prems(1) by (auto simp: rounds_to_def)
  then show ?case using Cons by (simp add: decimal_sum_def)
qed (simp add: decimal_sum_def)

lemma decimal_div_count:
  assumes "0 < ambient" "is_finite t"
  shows "if n = 0 then \<exists>e. decimal_div ambient t (decimal_of_int (int n)) = Inl e
    else \<exists>v. decimal_div ambient t (decimal_of_int (int n)) = Inr v \<and> is_finite v"
proof (cases "n = 0")
  case True
  then show ?thesis using assms(2) by (cases t) (auto simp: decimal_of_int_def)
next
  case False
  then show ?thesis
    using decimal_div_rounds [OF assms, of "decimal_of_int (int n)"] by (auto simp: rounds_to_def decimal_of_int_def)
qed

lemma decimal_median_finite:
  assumes "0 < ambient" "\<forall>d \<in> set xs. is_finite d"
  shows "if xs = [] then \<exists>e. decimal_median ambient xs = Inl e
    else \<exists>v. decimal_median ambient xs = Inr v \<and> is_finite v"
proof (cases "xs = []")
  case False
  let ?ys = "sort_key dval xs"
  have fin: "is_finite (?ys ! i)" if "i < length xs" for i
    using nth_mem [of i ?ys] that assms(2) by simp
  have n: "0 < length xs" using False by simp
  show ?thesis
  proof (cases "odd (length xs)")
    case True
    then show ?thesis using False fin [of "length xs div 2"] n by (simp add: decimal_median_def Let_def)
  next
    case even: False
    have i: "length xs div 2 < length xs" "length xs div 2 - 1 < length xs" using n by linarith+
    obtain t where t: "decimal_add ambient (?ys ! (length xs div 2 - 1)) (?ys ! (length xs div 2)) = Inr t" "is_finite t"
      using decimal_add_rounds [OF assms(1) fin [OF i(2)] fin [OF i(1)]] by (auto simp: rounds_to_def)
    then obtain v where "decimal_div ambient t (decimal_of_int 2) = Inr v" "is_finite v"
      using decimal_div_count [OF assms(1) t(2), of 2] by auto
    then show ?thesis using False even t by (simp add: decimal_median_def Let_def)
  qed
qed (simp add: decimal_median_def)

lemma reduce_metric_total:
  assumes amb: "0 < ambient" and fits: "list_all (source_fits m) sources"
  shows "if available_sources sources = [] \<and> metric_reducer m \<noteq> SUM_DECIMAL
    then \<exists>e. reduce_metric ambient m (available_sources sources) = Inl e
    else \<exists>v. reduce_metric ambient m (available_sources sources) = Inr v \<and> is_finite v"
proof (cases "metric_reducer m = TRUE_RATE")
  case True
  then show ?thesis
    using decimal_div_count [of 28 "decimal_of_int (int (length (filter (\<lambda>s. source_boolean s = Some True) (available_sources sources))))"
        "length (available_sources sources)"]
    by (auto simp: reduce_metric_def decimal_of_int_def)
next
  case False
  let ?xs = "List.map_filter source_decimal (available_sources sources)"
  note xs = decimals_available [OF fits False]
  obtain t where t: "decimal_sum ambient ?xs (decimal_of_int 0) = Inr t" "is_finite t"
    using decimal_sum_finite [OF amb xs(2), of "decimal_of_int 0"] by (auto simp: decimal_of_int_def)
  have empty: "?xs = [] \<longleftrightarrow> available_sources sources = []" using xs(1) by (metis length_0_conv)
  show ?thesis
    using False t decimal_div_count [OF amb t(2), of "length ?xs"] decimal_median_finite [OF amb xs(2)] xs(1) empty
    by (cases "metric_reducer m") (auto simp: reduce_metric_def Let_def split: if_splits)
qed

lemma context_state_of_total: "metric_shape m \<Longrightarrow> is_finite v \<Longrightarrow> \<exists>s. context_state_of m v = Inr s"
  by (cases "metric_operator m") (auto simp: metric_shape_def context_state_of_def)

lemma metric_result_fails_iff:
  assumes "metric_shape m" "list_all (source_fits m) sources" "0 < ambient"
  shows "(\<exists>e. metric_result ambient m sources = Inl e) \<longleftrightarrow>
    \<not> insufficient m sources \<and> available_sources sources = [] \<and> metric_reducer m \<noteq> SUM_DECIMAL"
proof -
  have "filter (\<lambda>s. value_status s = Source_AVAILABLE) sources = available_sources sources"
    by (simp add: available_sources_def)
  then show ?thesis
    using reduce_metric_total [OF assms(3,2)] context_state_of_total [OF assms(1)]
    by (fastforce simp: metric_result_def split: if_splits)
qed

section \<open>The median the database recomputes\<close>

text \<open>
  \<open>percentile_disc(0.5) WITHIN GROUP (ORDER BY decimal_value)\<close>: the first value at or past
  half of the ordering, the lower of two middle values.
\<close>

definition stored_median :: "decimal list \<Rightarrow> decimal option" where
  "stored_median xs = (if xs = [] then None else Some (sort_key dval xs ! ((length xs - 1) div 2)))"

text \<open>Values whose sums and means are exact in 28 digits.\<close>

definition moderate :: "decimal \<Rightarrow> bool" where
  "moderate d \<longleftrightarrow> is_finite d \<and> on_grid 12 (dval d) \<and> \<bar>dval d\<bar> < 10 ^ 15"

lemma mean_of_two:
  assumes "28 \<le> ambient" "moderate a" "moderate b"
  shows "\<exists>t v. decimal_add ambient a b = Inr t \<and> decimal_div ambient t (decimal_of_int 2) = Inr v
    \<and> dval v = (dval a + dval b) / 2"
proof -
  note ab = assms(2,3) [unfolded moderate_def]
  have wide: "units k ambient x" if u: "units k 28 x" for k x
  proof -
    have "(10::int) ^ 28 \<le> 10 ^ ambient" using assms(1) by (intro power_increasing) auto
    moreover obtain n where "\<bar>n\<bar> < 10 ^ 28" "x = of_int n / 10 ^ k" using u unfolding units_def by blast
    ultimately show ?thesis unfolding units_def by (intro exI [of _ n] conjI) auto
  qed
  have small: "\<bar>dval a + dval b\<bar> < 2 * 10 ^ 15" using ab by linarith
  have "units 12 28 (dval a + dval b)"
    by (rule units_on_grid) (use ab small on_grid_closed(1) in auto)
  then obtain t where t: "decimal_add ambient a b = Inr t" "is_finite t" "dval t = dval a + dval b"
    using rounds_to_exact [OF decimal_add_rounds [of ambient a b] wide] ab assms(1) by auto
  have "on_grid 13 ((dval a + dval b) / 2)"
  proof -
    have "on_grid 12 (dval a + dval b)" using ab on_grid_closed(1) by blast
    then have "(dval a + dval b) * 10 ^ 12 * 5 \<in> \<int>" unfolding on_grid_def by (rule Ints_mult) simp
    moreover have "(dval a + dval b) / 2 * 10 ^ 13 = (dval a + dval b) * 10 ^ 12 * 5" by simp
    ultimately show ?thesis unfolding on_grid_def by metis
  qed
  then have "units 13 28 ((dval a + dval b) / 2)" by (rule units_on_grid) (use small in auto)
  moreover have "rounds_to ambient (decimal_div ambient t (decimal_of_int 2)) ((dval a + dval b) / 2)"
    using decimal_div_rounds [of ambient t "decimal_of_int 2"] t assms(1) by (simp add: decimal_of_int_def)
  ultimately obtain v where "decimal_div ambient t (decimal_of_int 2) = Inr v" "dval v = (dval a + dval b) / 2"
    using rounds_to_exact wide assms(1) by (metis gr0I not_numeral_le_zero)
  then show ?thesis using t by blast
qed

lemma median_stored_iff:
  assumes "28 \<le> ambient" "list_all moderate xs" "xs \<noteq> []"
  shows "\<exists>v w. decimal_median ambient xs = Inr v \<and> stored_median xs = Some w
    \<and> (dval v = dval w \<longleftrightarrow> odd (length xs) \<or>
        dval (sort_key dval xs ! (length xs div 2 - 1)) = dval (sort_key dval xs ! (length xs div 2)))"
proof (cases "odd (length xs)")
  case True
  then have "(length xs - 1) div 2 = length xs div 2" by (auto elim!: oddE)
  then show ?thesis using True assms(3) by (simp add: decimal_median_def stored_median_def Let_def)
next
  case False
  let ?ys = "sort_key dval xs" and ?h = "length xs div 2"
  have n: "0 < length xs" using assms(3) by simp
  have i: "?h < length xs" "?h - 1 < length xs" using n by linarith+
  have mod: "moderate (?ys ! j)" if "j < length xs" for j
    using nth_mem [of j ?ys] that assms(2) by (simp add: list_all_iff)
  obtain t v where v: "decimal_add ambient (?ys ! (?h - 1)) (?ys ! ?h) = Inr t"
    "decimal_div ambient t (decimal_of_int 2) = Inr v" "dval v = (dval (?ys ! (?h - 1)) + dval (?ys ! ?h)) / 2"
    using mean_of_two [OF assms(1) mod [OF i(2)] mod [OF i(1)]] by blast
  have "(length xs - 1) div 2 = ?h - 1" using False n by (auto elim!: evenE)
  then have "stored_median xs = Some (?ys ! (?h - 1))" using assms(3) by (simp add: stored_median_def)
  moreover have "decimal_median ambient xs = Inr v" using False v(1,2) assms(3) by (simp add: decimal_median_def Let_def)
  ultimately show ?thesis using False v(3) by auto
qed

end
