(* ===== verification/Decision_Portfolio.thy ===== *)
theory Decision_Portfolio
  imports Decision_Opportunity
begin

text \<open>
  \<open>decision_support/domain/portfolio.py\<close>: the equal-weight allocation of a complete
  Opportunity roster. The loop over the Opportunities carries the weight that remains.
\<close>

datatype portfolio_allocation_method = EQUAL_WEIGHT_ACTIONABLE

datatype portfolio_proposal_status = PROPOSED | Proposal_NO_ACTION | Proposal_NOT_ESTIMABLE

fun portfolio_proposal_status_value :: "portfolio_proposal_status \<Rightarrow> string" where
  "portfolio_proposal_status_value PROPOSED = ''PROPOSED''"
| "portfolio_proposal_status_value Proposal_NO_ACTION = ''NO_ACTION''"
| "portfolio_proposal_status_value Proposal_NOT_ESTIMABLE = ''NOT_ESTIMABLE''"

datatype portfolio_line_status = INCLUDED | EXCLUDED | Line_NOT_ESTIMABLE

fun portfolio_line_status_value :: "portfolio_line_status \<Rightarrow> string" where
  "portfolio_line_status_value INCLUDED = ''INCLUDED''"
| "portfolio_line_status_value EXCLUDED = ''EXCLUDED''"
| "portfolio_line_status_value Line_NOT_ESTIMABLE = ''NOT_ESTIMABLE''"

definition is_ratio :: "decimal \<Rightarrow> bool" where
  "is_ratio d \<longleftrightarrow> is_finite d \<and> 0 \<le> dval d \<and> dval d \<le> 1"

definition ratio_field :: "string \<Rightarrow> decimal \<Rightarrow> py_error + unit" where
  "ratio_field label d = guardE (is_ratio d) (ValueError (label @ '' must be a finite ratio''))"

lemma ratio_field_Inr_iff [simp]: "ratio_field label d = Inr u \<longleftrightarrow> is_ratio d"
  by (simp add: ratio_field_def)

section \<open>Policies\<close>

record portfolio_policy_plan =
  portfolio_policy_id :: uuid
  portfolio_policy_code :: string
  portfolio_policy_version :: int
  portfolio_supersedes :: "uuid option"
  allocation_method :: portfolio_allocation_method
  minimum_estimable_count :: int
  maximum_line_count :: int
  maximum_single_weight :: decimal
  maximum_gross_weight :: decimal
  maximum_net_weight :: decimal
  minimum_cash_weight :: decimal
  maximum_turnover :: decimal
  decimal_places :: int
  portfolio_code_artifact :: decision_artifact_binding
  portfolio_config_artifact :: decision_artifact_binding
  portfolio_provenance_sha256 :: string
  portfolio_policy_sha256 :: string

definition portfolio_policy_payload :: "portfolio_policy_plan \<Rightarrow> pyval" where
  "portfolio_policy_payload p = PMapping
     [(''allocation_method'', PStr ''EQUAL_WEIGHT_ACTIONABLE''),
      (''code_artifact'', decision_artifact_payload (portfolio_code_artifact p)),
      (''config_artifact'', decision_artifact_payload (portfolio_config_artifact p)),
      (''decimal_places'', PInt (decimal_places p)),
      (''maximum_gross_weight'', PDecimal (maximum_gross_weight p)),
      (''maximum_line_count'', PInt (maximum_line_count p)),
      (''maximum_net_weight'', PDecimal (maximum_net_weight p)),
      (''maximum_single_weight'', PDecimal (maximum_single_weight p)),
      (''maximum_turnover'', PDecimal (maximum_turnover p)),
      (''minimum_cash_weight'', PDecimal (minimum_cash_weight p)),
      (''minimum_estimable_count'', PInt (minimum_estimable_count p)),
      (''policy_code'', PStr (portfolio_policy_code p)),
      (''portfolio_policy_id'', PUuid (portfolio_policy_id p)),
      (''provenance_sha256'', PStr (portfolio_provenance_sha256 p)),
      (''supersedes_policy_id'', optional_payload PUuid (portfolio_supersedes p)),
      (''version'', PInt (portfolio_policy_version p))]"

definition portfolio_policy_plan_init :: "portfolio_policy_plan \<Rightarrow> portfolio_policy_plan result" where
  "portfolio_policy_plan_init p =
     thenE (guardE (decision_code_ok (portfolio_policy_code p) \<and> \<not> portfolio_policy_version p < 1)
       (ValueError ''PortfolioPolicy identity is invalid''))
     (thenE (guardE ((portfolio_policy_version p = 1) = (portfolio_supersedes p = None))
       (ValueError ''PortfolioPolicy supersession shape is invalid''))
     (thenE (guardE (\<not> (minimum_estimable_count p < 1 \<or> maximum_line_count p < 1))
       (ValueError ''PortfolioPolicy counts must be positive''))
     (thenE (guardE (1 \<le> decimal_places p \<and> decimal_places p \<le> 12)
       (ValueError ''Portfolio decimal places are invalid''))
     (thenE (ratio_field ''maximum_single_weight'' (maximum_single_weight p))
     (thenE (ratio_field ''maximum_gross_weight'' (maximum_gross_weight p))
     (thenE (ratio_field ''maximum_net_weight'' (maximum_net_weight p))
     (thenE (ratio_field ''minimum_cash_weight'' (minimum_cash_weight p))
     (thenE (ratio_field ''maximum_turnover'' (maximum_turnover p))
     (thenE (guardE (\<not> dval (maximum_net_weight p) > dval (maximum_gross_weight p))
       (ValueError ''Portfolio net cap cannot exceed gross cap''))
     (bindE (sha_field ''Portfolio provenance'' (portfolio_provenance_sha256 p)) (\<lambda>provenance.
      let p = p\<lparr>portfolio_provenance_sha256 := provenance\<rparr> in
      bindE (canonical_json_sha256 (portfolio_policy_payload p)) (\<lambda>h.
      Inr (p\<lparr>portfolio_policy_sha256 := h\<rparr>))))))))))))) "

section \<open>Prepared inputs\<close>

record prepared_portfolio_opportunity =
  pf_opportunity_id :: uuid
  pf_ordinal :: int
  pf_candidate_id :: uuid
  pf_instrument_id :: uuid
  pf_target_id :: uuid
  pf_status :: opportunity_status
  pf_sha256 :: string

definition prepared_portfolio_opportunity_init ::
  "prepared_portfolio_opportunity \<Rightarrow> prepared_portfolio_opportunity result" where
  "prepared_portfolio_opportunity_init o' =
     mapR (\<lambda>h. o'\<lparr>pf_sha256 := h\<rparr>) (sha_field ''Opportunity hash'' (pf_sha256 o'))"

record prepared_portfolio_inputs =
  pfs_run_id :: uuid
  pfs_version_id :: uuid
  pfs_opportunity_set_id :: uuid
  pfs_opportunity_set_sha256 :: string
  pfs_recorded_at :: py_datetime
  pf_opportunities :: "prepared_portfolio_opportunity list"

definition prepared_portfolio_inputs_init :: "prepared_portfolio_inputs \<Rightarrow> prepared_portfolio_inputs result" where
  "prepared_portfolio_inputs_init p =
     bindE (sha_field ''OpportunitySet hash'' (pfs_opportunity_set_sha256 p)) (\<lambda>h.
     bindE (require_utc ''OpportunitySet recorded_at'' (pfs_recorded_at p)) (\<lambda>t.
     thenE (guardE (contiguous (map pf_ordinal (pf_opportunities p)))
       (ValueError ''Portfolio Opportunity roster must be contiguous''))
     (Inr (p\<lparr>pfs_opportunity_set_sha256 := h, pfs_recorded_at := t\<rparr>))))"

section \<open>Proposals\<close>

record portfolio_line_plan =
  portfolio_line_id :: uuid
  line_ordinal :: int
  line_source :: prepared_portfolio_opportunity
  line_status :: portfolio_line_status
  proposed_weight :: decimal
  line_reason :: string
  line_sha256 :: string

definition portfolio_line_payload :: "portfolio_line_plan \<Rightarrow> pyval" where
  "portfolio_line_payload l = PMapping
     [(''opportunity_id'', PUuid (pf_opportunity_id (line_source l))),
      (''ordinal'', PInt (line_ordinal l)),
      (''portfolio_line_id'', PUuid (portfolio_line_id l)),
      (''proposed_weight'', PDecimal (proposed_weight l)),
      (''reason_code'', PStr (line_reason l)),
      (''status'', PStr (portfolio_line_status_value (line_status l)))]"

definition portfolio_line_plan_init :: "portfolio_line_plan \<Rightarrow> portfolio_line_plan result" where
  "portfolio_line_plan_init l =
     thenE (ratio_field ''Portfolio line weight'' (proposed_weight l))
     (bindE (canonical_json_sha256 (portfolio_line_payload l)) (\<lambda>h. Inr (l\<lparr>line_sha256 := h\<rparr>)))"

record portfolio_proposal_authority =
  portfolio_proposal_id :: uuid
  proposal_prepared :: prepared_portfolio_inputs
  proposal_policy :: portfolio_policy_plan
  proposal_status :: portfolio_proposal_status
  proposal_lines :: "portfolio_line_plan list"
  line_roster_sha256 :: string
  included_count :: nat
  excluded_count :: nat
  not_estimable_count :: nat
  gross_weight :: decimal
  net_weight :: decimal
  cash_weight :: decimal
  turnover_weight :: decimal
  proposal_request_identity :: string
  proposal_request_sha256 :: string
  proposal_receipt_id :: uuid
  proposal_recorded_at :: py_datetime
  proposal_sha256 :: string

definition proposal_payload :: "portfolio_proposal_authority \<Rightarrow> pyval" where
  "proposal_payload a = PMapping
     [(''cash_weight'', PDecimal (cash_weight a)),
      (''decision_run_id'', PUuid (pfs_run_id (proposal_prepared a))),
      (''excluded_count'', PInt (int (excluded_count a))),
      (''gross_weight'', PDecimal (gross_weight a)),
      (''included_count'', PInt (int (included_count a))),
      (''line_count'', PInt (int (length (proposal_lines a)))),
      (''line_roster_sha256'', PStr (line_roster_sha256 a)),
      (''net_weight'', PDecimal (net_weight a)),
      (''not_estimable_count'', PInt (int (not_estimable_count a))),
      (''portfolio_policy_id'', PUuid (portfolio_policy_id (proposal_policy a))),
      (''portfolio_proposal_id'', PUuid (portfolio_proposal_id a)),
      (''request_identity'', PStr (proposal_request_identity a)),
      (''request_sha256'', PStr (proposal_request_sha256 a)),
      (''status'', PStr (portfolio_proposal_status_value (proposal_status a))),
      (''turnover_weight'', PDecimal (turnover_weight a))]"

definition portfolio_proposal_authority_init ::
  "portfolio_proposal_authority \<Rightarrow> portfolio_proposal_authority result" where
  "portfolio_proposal_authority_init a =
     bindE (sha_field ''Portfolio line roster hash'' (line_roster_sha256 a)) (\<lambda>r.
     bindE (require_utc ''Portfolio recorded_at'' (proposal_recorded_at a)) (\<lambda>t.
     let a = a\<lparr>line_roster_sha256 := r, proposal_recorded_at := t\<rparr> in
     thenE (guardE (\<not> instant_of t < instant_of (pfs_recorded_at (proposal_prepared a)))
       (ValueError ''PortfolioProposal cannot precede OpportunitySet''))
    (thenE (guardE (included_count a + excluded_count a + not_estimable_count a = length (proposal_lines a))
       (ValueError ''Portfolio line states do not reconcile''))
    (thenE (ratio_field ''gross_weight'' (gross_weight a))
    (thenE (ratio_field ''net_weight'' (net_weight a))
    (thenE (ratio_field ''cash_weight'' (cash_weight a))
    (thenE (ratio_field ''turnover_weight'' (turnover_weight a))
    (bindE (canonical_json_sha256 (proposal_payload a)) (\<lambda>h.
     Inr (a\<lparr>proposal_sha256 := h\<rparr>))))))))))"

section \<open>Allocation\<close>

definition selected_opportunities ::
  "portfolio_policy_plan \<Rightarrow> prepared_portfolio_opportunity list \<Rightarrow> prepared_portfolio_opportunity list" where
  "selected_opportunities p os =
     (let actionable = filter (\<lambda>o'. pf_status o' = ACTIONABLE) os;
          estimable = length (filter (\<lambda>o'. pf_status o' \<noteq> Opportunity_NOT_ESTIMABLE) os)
      in if int estimable \<ge> minimum_estimable_count p
         then take (nat (maximum_line_count p)) actionable else [])"

definition proposal_status_of ::
  "portfolio_policy_plan \<Rightarrow> prepared_portfolio_opportunity list \<Rightarrow> portfolio_proposal_status" where
  "proposal_status_of p os =
     (if int (length (filter (\<lambda>o'. pf_status o' \<noteq> Opportunity_NOT_ESTIMABLE) os)) < minimum_estimable_count p
      then Proposal_NOT_ESTIMABLE
      else if selected_opportunities p os = [] then Proposal_NO_ACTION else PROPOSED)"

definition weight_quantum :: "portfolio_policy_plan \<Rightarrow> decimal" where
  "weight_quantum p = Fin False 1 (- decimal_places p)"

definition gross_cap :: "nat \<Rightarrow> portfolio_policy_plan \<Rightarrow> decimal result" where
  "gross_cap ambient p =
     bindE (decimal_sub ambient (decimal_of_int 1) (minimum_cash_weight p)) (\<lambda>uncashed.
     Inr (decimal_min (decimal_min (decimal_min (maximum_gross_weight p) (maximum_net_weight p))
       (maximum_turnover p)) uncashed))"

definition base_weight :: "nat \<Rightarrow> portfolio_policy_plan \<Rightarrow> decimal \<Rightarrow> nat \<Rightarrow> decimal result" where
  "base_weight ambient p cap n =
     bindE (if n = 0 then Inr (decimal_of_int 0)
            else mapR (decimal_min (maximum_single_weight p)) (decimal_div ambient cap (decimal_of_int (int n)))) (\<lambda>raw.
     quantize_down ambient (exponent (weight_quantum p)) raw)"

text \<open>One pass of the loop: the plan of the line and the weight that still remains.\<close>

definition allocate_line ::
  "nat \<Rightarrow> (prepared_portfolio_opportunity \<Rightarrow> uuid) \<Rightarrow> portfolio_policy_plan \<Rightarrow> portfolio_proposal_status \<Rightarrow>
   uuid set \<Rightarrow> decimal \<Rightarrow> int \<times> prepared_portfolio_opportunity \<Rightarrow> portfolio_line_plan list \<times> decimal \<Rightarrow>
   (portfolio_line_plan list \<times> decimal) result" where
  "allocate_line ambient line_ids p status selected base no acc =
     (case (no, acc) of ((n, o'), (lines, remaining)) \<Rightarrow>
        bindE (if status = Proposal_NOT_ESTIMABLE
               then Inr (Line_NOT_ESTIMABLE, decimal_of_int 0, ''PROPOSAL_NOT_ESTIMABLE'', remaining)
               else if pf_opportunity_id o' \<notin> selected
               then Inr (EXCLUDED, decimal_of_int 0, ''OPPORTUNITY_NOT_INCLUDED'', remaining)
               else
                 bindE (decimal_sub ambient (maximum_single_weight p) base) (\<lambda>headroom.
                 let extra = decimal_min (decimal_min (weight_quantum p) remaining) headroom in
                 bindE (decimal_add ambient base extra) (\<lambda>weight.
                 bindE (decimal_sub ambient remaining extra) (\<lambda>left.
                 Inr (INCLUDED, weight, ''EQUAL_WEIGHT_ACTIONABLE'', left)))))
        (\<lambda>(line_status, weight, reason, left).
        bindE (portfolio_line_plan_init
          \<lparr>portfolio_line_id = line_ids o', line_ordinal = n, line_source = o',
           line_status = line_status, proposed_weight = weight, line_reason = reason, line_sha256 = []\<rparr>) (\<lambda>l.
        Inr (lines @ [l], left))))"

definition line_roster_payload :: "portfolio_line_plan list \<Rightarrow> pyval" where
  "line_roster_payload ls = PSequence (map (\<lambda>l. PMapping
     [(''content_sha256'', PStr (line_sha256 l)),
      (''ordinal'', PInt (line_ordinal l)),
      (''portfolio_line_id'', PUuid (portfolio_line_id l))]) ls)"

definition line_count_of :: "portfolio_line_status \<Rightarrow> portfolio_line_plan list \<Rightarrow> nat" where
  "line_count_of st ls = length (filter (\<lambda>l. line_status l = st) ls)"

definition build_portfolio_proposal ::
  "nat \<Rightarrow> (prepared_portfolio_opportunity \<Rightarrow> uuid) \<Rightarrow> prepared_portfolio_inputs \<Rightarrow> portfolio_policy_plan \<Rightarrow>
   decision_request \<Rightarrow> portfolio_proposal_authority result" where
  "build_portfolio_proposal ambient line_ids p policy r =
     (let os = pf_opportunities p; selected = selected_opportunities policy os;
          status = proposal_status_of policy os in
      bindE (sha_field ''Portfolio request hash'' (decision_request_sha256 r)) (\<lambda>request.
      bindE (gross_cap ambient policy) (\<lambda>cap.
      bindE (base_weight ambient policy cap (length selected)) (\<lambda>base.
      bindE (decimal_mul ambient base (decimal_of_int (int (length selected)))) (\<lambda>used.
      bindE (decimal_sub ambient cap used) (\<lambda>remaining.
      bindE (foldE (allocate_line ambient line_ids policy status (pf_opportunity_id ` set selected) base)
          (numbered os) ([], remaining)) (\<lambda>(lines, _).
      bindE (decimal_sum ambient (map proposed_weight lines) (decimal_of_int 0)) (\<lambda>gross.
      bindE (canonical_json_sha256 (line_roster_payload lines)) (\<lambda>h.
      bindE (decimal_sub ambient (decimal_of_int 1) gross) (\<lambda>cash.
      portfolio_proposal_authority_init
        \<lparr>portfolio_proposal_id = decision_root_id r, proposal_prepared = p, proposal_policy = policy,
         proposal_status = status, proposal_lines = lines, line_roster_sha256 = h,
         included_count = line_count_of INCLUDED lines, excluded_count = line_count_of EXCLUDED lines,
         not_estimable_count = line_count_of Line_NOT_ESTIMABLE lines,
         gross_weight = gross, net_weight = gross, cash_weight = cash, turnover_weight = gross,
         proposal_request_identity = decision_request_identity r, proposal_request_sha256 = request,
         proposal_receipt_id = decision_receipt_id r, proposal_recorded_at = decision_recorded_at r,
         proposal_sha256 = []\<rparr>))))))))))"

end
