(* ===== verification/Decision_Allocation.thy ===== *)
theory Decision_Allocation
  imports Decision_Portfolio
begin

text \<open>
  What the equal-weight allocation computes. The loop spreads the weight that the rounded
  base leaves over the included lines, one quantum at a time; on weights of at most 27
  fractional digits every operation but one division is exact, and the error of the division
  is smaller than a unit of the weights.
\<close>

section \<open>Exact arithmetic on weights\<close>

definition weight_like :: "rat \<Rightarrow> bool" where
  "weight_like x \<longleftrightarrow> on_grid 27 x \<and> \<bar>x\<bar> < 10"

lemma weight_like_exact: "weight_like x \<Longrightarrow> 28 \<le> ambient \<Longrightarrow> round_sig 10 ambient x = x"
proof -
  assume x: "weight_like x" and a: "28 \<le> ambient"
  have "units 27 28 x" using x by (intro units_on_grid) (auto simp: weight_like_def)
  then obtain n where "x = of_int n / 10 ^ 27" "\<bar>n\<bar> < 10 ^ 28" by (auto simp: units_def)
  moreover have "(10::int) ^ 28 \<le> 10 ^ ambient" using a by (intro power_increasing) auto
  ultimately have "units 27 ambient x" unfolding units_def by (intro exI [of _ n]) simp
  then show ?thesis by (rule round_units) (use a in simp)
qed

lemma rounds_to_weight:
  assumes "rounds_to ambient r x" "weight_like x" "28 \<le> ambient"
  obtains d where "r = Inr d" "is_finite d" "dval d = x"
  using assms weight_like_exact by (auto simp: rounds_to_def)

lemma weight_like_between:
  "on_grid 27 x \<Longrightarrow> 0 \<le> x \<Longrightarrow> x \<le> 1 \<Longrightarrow> weight_like x"
  by (simp add: weight_like_def)

text \<open>Sums and differences of weights that stay in the unit interval are exact.\<close>

lemma add_weights:
  assumes "28 \<le> ambient" "is_finite a" "is_finite b" "on_grid 27 (dval a)" "on_grid 27 (dval b)"
    and "0 \<le> dval a + dval b" "dval a + dval b \<le> 1"
  obtains d where "decimal_add ambient a b = Inr d" "is_finite d" "dval d = dval a + dval b"
proof (rule rounds_to_weight)
  show "rounds_to ambient (decimal_add ambient a b) (dval a + dval b)"
    using assms by (intro decimal_add_rounds) auto
  show "weight_like (dval a + dval b)" using assms by (intro weight_like_between on_grid_closed)
qed (rule assms(1), rule that)

lemma sub_weights:
  assumes "28 \<le> ambient" "is_finite a" "is_finite b" "on_grid 27 (dval a)" "on_grid 27 (dval b)"
    and "0 \<le> dval a - dval b" "dval a - dval b \<le> 1"
  obtains d where "decimal_sub ambient a b = Inr d" "is_finite d" "dval d = dval a - dval b"
proof (rule rounds_to_weight)
  show "rounds_to ambient (decimal_sub ambient a b) (dval a - dval b)"
    using assms by (intro decimal_sub_rounds) auto
  show "weight_like (dval a - dval b)" using assms by (intro weight_like_between on_grid_closed)
qed (rule assms(1), rule that)

lemma decimal_sum_exact:
  assumes "28 \<le> ambient" "is_finite d"
    and "\<forall>x \<in> set xs. is_finite x \<and> on_grid 27 (dval x) \<and> 0 \<le> dval x"
    and "on_grid 27 (dval d)" "0 \<le> dval d" "dval d + sum_list (map dval xs) \<le> 1"
  shows "\<exists>t. decimal_sum ambient xs d = Inr t \<and> is_finite t \<and> dval t = dval d + sum_list (map dval xs)"
  using assms(2-)
proof (induction xs arbitrary: d)
  case Nil
  then show ?case by (simp add: decimal_sum_def)
next
  case (Cons x xs)
  have pos: "0 \<le> sum_list (map dval xs)" using Cons.prems(2) by (intro sum_list_nonneg) auto
  obtain t where t: "decimal_add ambient d x = Inr t" "is_finite t" "dval t = dval d + dval x"
    by (rule add_weights [of ambient d x]) (use Cons.prems pos assms(1) in auto)
  have "\<exists>u. decimal_sum ambient xs t = Inr u \<and> is_finite u \<and> dval u = dval t + sum_list (map dval xs)"
  proof (rule Cons.IH)
    show "on_grid 27 (dval t)" unfolding t(3) using Cons.prems by (intro on_grid_closed) auto
  qed (use Cons.prems t in auto)
  then show ?case using t by (simp add: decimal_sum_def add.assoc)
qed

section \<open>Spreading the remainder\<close>

text \<open>The extra weights of \<open>n\<close> lines with quantum \<open>q\<close>, headroom \<open>h\<close> and remainder \<open>r\<close>.\<close>

fun spread :: "rat \<Rightarrow> rat \<Rightarrow> nat \<Rightarrow> rat \<Rightarrow> rat list" where
  "spread q h 0 r = []"
| "spread q h (Suc n) r = (let e = min (min q r) h in e # spread q h n (r - e))"

lemma length_spread [simp]: "length (spread q h n r) = n"
  by (induction n arbitrary: r) (simp_all add: Let_def)

lemma spread_range:
  assumes "0 \<le> q" "0 \<le> h" "0 \<le> r" "e \<in> set (spread q h n r)"
  shows "0 \<le> e \<and> e \<le> q \<and> e \<le> h"
  using assms(3,4)
proof (induction n arbitrary: r)
  case (Suc n)
  let ?e = "min (min q r) h"
  have "0 \<le> r - ?e" by simp
  then have "e = ?e \<or> 0 \<le> e \<and> e \<le> q \<and> e \<le> h"
    using Suc.IH [of "r - ?e"] Suc.prems(2) by (auto simp: Let_def)
  then show ?case using Suc.prems(1) assms(1,2) by auto
qed simp

lemma sum_spread:
  assumes "0 \<le> q" "0 \<le> h" "0 \<le> r"
  shows "sum_list (spread q h n r) = min r (of_nat n * min q h)"
  using assms(3)
proof (induction n arbitrary: r)
  case (Suc n)
  let ?m = "min q h" and ?e = "min (min q r) h"
  have m: "0 \<le> ?m" using assms by simp
  have "sum_list (spread q h (Suc n) r) = ?e + min (r - ?e) (of_nat n * ?m)"
    using Suc.IH [of "r - ?e"] by (simp add: Let_def)
  also have "\<dots> = min r (of_nat (Suc n) * ?m)"
  proof (cases "r \<le> ?m")
    case True
    then have "?e = r" by auto
    moreover have "r \<le> of_nat (Suc n) * ?m" using True m by (simp add: distrib_right add_increasing2)
    ultimately show ?thesis using m by (simp add: min_absorb1)
  next
    case False
    then have "?e = ?m" by auto
    then show ?thesis by (simp add: distrib_right min_def)
  qed
  finally show ?case .
qed (simp add: assms)

section \<open>The loop\<close>

definition selects :: "uuid set \<Rightarrow> int \<times> prepared_portfolio_opportunity \<Rightarrow> bool" where
  "selects sel no \<longleftrightarrow> pf_opportunity_id (snd no) \<in> sel"

text \<open>What the loop returns for a roster: the lines, as far as the properties need them.\<close>

definition lines_for ::
  "uuid set \<Rightarrow> (int \<times> prepared_portfolio_opportunity) list \<Rightarrow> rat list \<Rightarrow> portfolio_line_plan list \<Rightarrow> bool" where
  "lines_for sel nos ws ls \<longleftrightarrow>
     map (\<lambda>l. (line_ordinal l, line_source l)) ls = nos
     \<and> map line_status ls = map (\<lambda>no. if selects sel no then INCLUDED else EXCLUDED) nos
     \<and> map (\<lambda>l. dval (proposed_weight l)) (filter (\<lambda>l. line_status l = INCLUDED) ls) = ws
     \<and> (\<forall>l \<in> set ls. is_finite (proposed_weight l) \<and> (line_status l \<noteq> INCLUDED \<longrightarrow> dval (proposed_weight l) = 0))"

lemma canonical_line [simp]: "canonical (portfolio_line_payload l)"
  by (simp add: portfolio_line_payload_def)

lemma portfolio_line_plan_init_ok:
  assumes "is_ratio (proposed_weight l)"
  obtains h where "portfolio_line_plan_init l = Inr (l\<lparr>line_sha256 := h\<rparr>)"
proof -
  obtain h where "canonical_json_sha256 (portfolio_line_payload l) = Inr h"
    using canonical_json_sha256_total [of "portfolio_line_payload l"] by auto
  then show ?thesis using that assms by (simp add: portfolio_line_plan_init_def ratio_field_def)
qed

lemma is_ratio_zero [simp]: "is_ratio (decimal_of_int 0)"
  by (simp add: is_ratio_def decimal_of_int_def)

lemma dval_quantum: "dval (weight_quantum p) = 1 / 10 ^ nat (decimal_places p)" if "1 \<le> decimal_places p"
  using that by (simp add: weight_quantum_def power_int_def inverse_eq_divide power_one_over)

lemma on_grid_unit: "j \<le> k \<Longrightarrow> on_grid k (1 / 10 ^ j)"
proof -
  assume "j \<le> k"
  moreover have "on_grid j (1 / 10 ^ j)" by (simp add: on_grid_def)
  ultimately show ?thesis using on_grid_mono by blast
qed

lemma allocation_loop:
  assumes amb: "28 \<le> ambient" and status: "status \<noteq> Proposal_NOT_ESTIMABLE"
    and p: "1 \<le> decimal_places p" "decimal_places p \<le> 12"
    and single: "is_ratio (maximum_single_weight p)" "on_grid 27 (dval (maximum_single_weight p))"
    and base: "is_finite base" "on_grid 27 (dval base)" "0 \<le> dval base" "dval base \<le> dval (maximum_single_weight p)"
    and rem: "is_finite rem" "on_grid 27 (dval rem)" "0 \<le> dval rem" "dval rem \<le> 1"
  shows "\<exists>ls left. foldE (allocate_line ambient ids p status sel base) nos (acc, rem) = Inr (acc @ ls, left)
    \<and> lines_for sel nos
        (map (\<lambda>e. dval base + e) (spread (dval (weight_quantum p)) (dval (maximum_single_weight p) - dval base)
          (length (filter (selects sel) nos)) (dval rem))) ls"
  using rem
proof (induction nos arbitrary: rem acc)
  case Nil
  then show ?case by (simp add: lines_for_def)
next
  case (Cons no nos)
  obtain n o' where no: "no = (n, o')" by fastforce
  let ?q = "dval (weight_quantum p)" and ?h = "dval (maximum_single_weight p) - dval base"
  show ?case
  proof (cases "selects sel no")
    case False
    let ?l = "\<lparr>portfolio_line_id = ids o', line_ordinal = n, line_source = o', line_status = EXCLUDED,
      proposed_weight = decimal_of_int 0, line_reason = ''OPPORTUNITY_NOT_INCLUDED'', line_sha256 = []\<rparr>"
    obtain h where l: "portfolio_line_plan_init ?l = Inr (?l\<lparr>line_sha256 := h\<rparr>)"
      by (rule portfolio_line_plan_init_ok [of ?l]) simp_all
    let ?m = "?l\<lparr>line_sha256 := h\<rparr>"
    have step: "allocate_line ambient ids p status sel base no (acc, rem) = Inr (acc @ [?m], rem)"
      using False status l by (simp add: allocate_line_def no selects_def)
    obtain ls left where ls: "foldE (allocate_line ambient ids p status sel base) nos (acc @ [?m], rem)
        = Inr ((acc @ [?m]) @ ls, left)"
      "lines_for sel nos (map (\<lambda>e. dval base + e) (spread ?q ?h (length (filter (selects sel) nos)) (dval rem))) ls"
      using Cons.IH [OF Cons.prems, of "acc @ [?m]"] by blast
    have "lines_for sel (no # nos) (map (\<lambda>e. dval base + e)
        (spread ?q ?h (length (filter (selects sel) (no # nos))) (dval rem))) (?m # ls)"
      using ls(2) False by (simp add: lines_for_def no decimal_of_int_def)
    then show ?thesis using step ls(1) by (intro exI [of _ "?m # ls"] exI [of _ left]) simp
  next
    case True
    have q: "0 \<le> ?q" "on_grid 27 ?q" using p by (simp_all add: dval_quantum on_grid_unit)
    have h: "0 \<le> ?h" "?h \<le> 1" "on_grid 27 ?h"
      using base single by (auto simp: is_ratio_def intro: on_grid_closed)
    let ?e = "min (min ?q (dval rem)) ?h"
    have e: "0 \<le> ?e" "?e \<le> ?h" "?e \<le> dval rem" "on_grid 27 ?e"
      using q h Cons.prems by (auto intro: on_grid_closed)
    have fin: "is_finite (maximum_single_weight p)" "dval (maximum_single_weight p) \<le> 1" "is_finite (weight_quantum p)"
      using single by (simp_all add: is_ratio_def weight_quantum_def)
    obtain head where head: "decimal_sub ambient (maximum_single_weight p) base = Inr head" "is_finite head" "dval head = ?h"
      using sub_weights [OF amb fin(1) base(1) single(2) base(2) h(1,2)] .
    let ?x = "decimal_min (decimal_min (weight_quantum p) rem) head"
    have x: "is_finite ?x" "dval ?x = ?e" using head fin Cons.prems by simp_all
    have grid: "on_grid 27 (dval ?x)" using e(4) x(2) by simp
    have "0 \<le> dval base + dval ?x" "dval base + dval ?x \<le> 1" unfolding x(2) using e(1,2) base(3) fin(2) by linarith+
    then obtain w where w: "decimal_add ambient base ?x = Inr w" "is_finite w" "dval w = dval base + ?e"
      using add_weights [OF amb base(1) x(1) base(2) grid] x(2) by metis
    have "0 \<le> dval rem - dval ?x" "dval rem - dval ?x \<le> 1" unfolding x(2) using e(1,3) Cons.prems(4) by linarith+
    then obtain rem' where rem': "decimal_sub ambient rem ?x = Inr rem'" "is_finite rem'" "dval rem' = dval rem - ?e"
      using sub_weights [OF amb Cons.prems(1) x(1) Cons.prems(2) grid] x(2) by metis
    let ?l = "\<lparr>portfolio_line_id = ids o', line_ordinal = n, line_source = o', line_status = INCLUDED,
      proposed_weight = w, line_reason = ''EQUAL_WEIGHT_ACTIONABLE'', line_sha256 = []\<rparr>"
    have "is_ratio w" using w base e fin by (auto simp: is_ratio_def)
    then obtain hh where l: "portfolio_line_plan_init ?l = Inr (?l\<lparr>line_sha256 := hh\<rparr>)"
      using portfolio_line_plan_init_ok [of ?l] by auto
    let ?m = "?l\<lparr>line_sha256 := hh\<rparr>"
    have step: "allocate_line ambient ids p status sel base no (acc, rem) = Inr (acc @ [?m], rem')"
      using True status l head w rem' by (simp add: allocate_line_def no selects_def Let_def)
    obtain ls left where ls: "foldE (allocate_line ambient ids p status sel base) nos (acc @ [?m], rem')
        = Inr ((acc @ [?m]) @ ls, left)"
      "lines_for sel nos (map (\<lambda>e. dval base + e) (spread ?q ?h (length (filter (selects sel) nos)) (dval rem'))) ls"
      using Cons.IH [of rem' "acc @ [?m]"] rem' e Cons.prems on_grid_closed(2) by auto
    have "lines_for sel (no # nos) (map (\<lambda>e. dval base + e)
        (spread ?q ?h (length (filter (selects sel) (no # nos))) (dval rem))) (?m # ls)"
      using ls(2) True w rem'(3) by (simp add: lines_for_def no Let_def)
    then show ?thesis using step ls(1) by (intro exI [of _ "?m # ls"] exI [of _ left]) simp
  qed
qed

section \<open>The base weight\<close>

lemma round_sig_error:
  assumes "0 < p" "0 < x"
  shows "\<bar>round_sig 10 p x - x\<bar> \<le> x / (2 * 10 ^ (p - 1))"
proof -
  let ?u = "power_int 10 (lead 10 x - (int p - 1)) :: rat"
  have u: "0 < ?u" by simp
  have "round_sig 10 p x - x = (of_int (round_half_even (x / ?u)) - x / ?u) * ?u"
    using assms(2) u by (simp add: round_sig_def Let_def left_diff_distrib)
  then have "\<bar>round_sig 10 p x - x\<bar> = \<bar>of_int (round_half_even (x / ?u)) - x / ?u\<bar> * ?u"
    using u by (simp add: abs_mult)
  also have "\<dots> \<le> 1 / 2 * ?u" using round_half_even_error u by (intro mult_right_mono) auto
  finally have err: "\<bar>round_sig 10 p x - x\<bar> \<le> ?u / 2" by simp
  have "?u * 10 ^ (p - 1) = power_int 10 (lead 10 x)"
    using power_int_add [of "10::rat" "lead 10 x - (int p - 1)" "int (p - 1)"] assms(1)
    by (simp add: of_nat_diff power_int_def nat_diff_distrib)
  also have "\<dots> \<le> x" using lead_bounds [of 10 x] assms(2) by simp
  finally have "?u \<le> x / 10 ^ (p - 1)" by (simp add: pos_le_divide_eq)
  then show ?thesis using err by simp
qed

lemma on_grid_gap: "on_grid k x \<Longrightarrow> 0 < x \<Longrightarrow> 1 / 10 ^ k \<le> x"
proof -
  assume g: "on_grid k x" and x: "0 < x"
  obtain n where n: "x * 10 ^ k = of_int n" using g by (auto simp: on_grid_def Ints_def)
  then have "(0 :: rat) < of_int n" using x by (metis mult_pos_pos zero_less_power zero_less_numeral)
  then have "(1 :: rat) \<le> x * 10 ^ k" unfolding n by simp
  then show ?thesis by (simp add: pos_divide_le_eq)
qed

text \<open>The rounded quotient, taken \<open>n\<close> times, misses the cap by less than half a unit of the weights.\<close>

lemma quotient_error:
  assumes "28 \<le> ambient" "0 \<le> cap" "cap \<le> 1" "0 < n"
  shows "\<bar>of_nat n * round_sig 10 ambient (cap / of_nat n) - cap\<bar> \<le> 1 / (2 * 10 ^ 27)"
proof (cases "cap = 0")
  case False
  let ?x = "cap / of_nat n" and ?r = "round_sig 10 ambient (cap / of_nat n)"
  have x: "0 < ?x" using False assms by simp
  have "of_nat n * ?r - cap = of_nat n * (?r - ?x)" using assms(4) by (simp add: field_simps)
  then have "\<bar>of_nat n * ?r - cap\<bar> = of_nat n * \<bar>?r - ?x\<bar>" by (simp add: abs_mult)
  also have "\<dots> \<le> of_nat n * (?x / (2 * 10 ^ (ambient - 1)))"
    using round_sig_error [of ambient ?x] x assms(1) by (intro mult_left_mono) auto
  also have "\<dots> = cap / (2 * 10 ^ (ambient - 1))" using assms(4) by (simp add: field_simps)
  also have "\<dots> \<le> 1 / (2 * 10 ^ 27)"
    using assms(1,2,3) by (intro frac_le mult_left_mono power_increasing) auto
  finally show ?thesis .
qed simp

lemma base_fits:
  assumes "28 \<le> ambient" "on_grid 27 cap" "0 \<le> cap" "cap \<le> 1" "0 < n" "on_grid 27 b"
    and "b \<le> round_sig 10 ambient (cap / of_nat n)"
  shows "of_nat n * b \<le> cap"
proof (rule ccontr)
  assume "\<not> ?thesis"
  then have less: "0 < of_nat n * b - cap" by simp
  have "on_grid 27 (of_nat n * b - cap)"
    using assms on_grid_closed(2) on_grid_closed(4) [of 27 b b "int n"] by simp
  then have "1 / 10 ^ 27 \<le> of_nat n * b - cap" using less by (rule on_grid_gap)
  also have "\<dots> \<le> of_nat n * round_sig 10 ambient (cap / of_nat n) - cap"
    using assms(7) by (simp add: mult_left_mono)
  finally show False using quotient_error [OF assms(1,3,4,5)] by simp
qed

lemma base_reaches:
  assumes "28 \<le> ambient" "on_grid 27 cap" "0 \<le> cap" "cap \<le> 1" "0 < n" "on_grid 27 b"
    and "round_sig 10 ambient (cap / of_nat n) \<le> b"
  shows "cap \<le> of_nat n * b"
proof (rule ccontr)
  assume "\<not> ?thesis"
  then have less: "0 < cap - of_nat n * b" by simp
  have "on_grid 27 (cap - of_nat n * b)"
    using assms on_grid_closed(2) on_grid_closed(4) [of 27 b b "int n"] by simp
  then have "1 / 10 ^ 27 \<le> cap - of_nat n * b" using less by (rule on_grid_gap)
  also have "\<dots> \<le> cap - of_nat n * round_sig 10 ambient (cap / of_nat n)"
    using assms(7) by (simp add: mult_left_mono)
  finally show False using quotient_error [OF assms(1,3,4,5)] by simp
qed

definition floor_grid :: "nat \<Rightarrow> rat \<Rightarrow> rat" where
  "floor_grid k x = of_int \<lfloor>x * 10 ^ k\<rfloor> / 10 ^ k"

lemma floor_grid_bounds: "floor_grid k x \<le> x" "x < floor_grid k x + 1 / 10 ^ k" "on_grid k (floor_grid k x)"
proof -
  have "of_int \<lfloor>x * 10 ^ k\<rfloor> \<le> x * 10 ^ k" "x * 10 ^ k < of_int \<lfloor>x * 10 ^ k\<rfloor> + 1" by linarith+
  then show "floor_grid k x \<le> x" "x < floor_grid k x + 1 / 10 ^ k"
    by (simp_all add: floor_grid_def pos_divide_le_eq pos_less_divide_eq add_divide_distrib [symmetric])
  show "on_grid k (floor_grid k x)" by (simp add: floor_grid_def on_grid_def)
qed

lemma floor_grid_nonneg: "0 \<le> x \<Longrightarrow> 0 \<le> floor_grid k x"
  by (simp add: floor_grid_def)

lemma quantize_down_value:
  assumes d: "is_finite d" "0 \<le> dval d" "dval d \<le> 1" and prec: "k < prec"
  shows "\<exists>b. quantize_down prec (- int k) d = Inr b \<and> is_finite b \<and> dval b = floor_grid k (dval d)"
proof -
  obtain s c e where sce: "d = Fin s c e" using d(1) by (cases d) auto
  define c' where "c' = (if - int k \<le> e then c * 10 ^ nat (e + int k) else c div 10 ^ nat (- int k - e))"
  have e: "0 < (power_int 10 e :: rat)" by simp
  have mag: "dval d = of_nat c * power_int 10 e"
    using d(2) e by (cases "s \<and> c \<noteq> 0") (auto simp: sce mult_le_0_iff simp del: zero_less_power_int)
  have "int c' = \<lfloor>dval d * 10 ^ k\<rfloor>"
  proof (cases "- int k \<le> e")
    case True
    have "dval d * 10 ^ k = of_nat c * (10 ^ nat (e + int k) * (power_int 10 (- int k) * 10 ^ k))"
      using power_int_shift [OF True] by (simp add: mag)
    then have "dval d * 10 ^ k = of_nat (c * 10 ^ nat (e + int k))" by (simp add: power_int_minus)
    then show ?thesis using True by (simp add: c'_def flip: of_nat_power of_nat_mult)
  next
    case False
    let ?j = "nat (- int k - e)"
    have "dval d * 10 ^ k = of_nat c / of_nat (10 ^ ?j)"
      using False power_int_shift [of e "- int k"]
      by (simp add: mag power_int_minus field_simps)
    then have "\<lfloor>dval d * 10 ^ k\<rfloor> = int (c div 10 ^ ?j)" by (simp only: floor_divide_of_nat_eq)
    then show ?thesis using False by (simp add: c'_def)
  qed
  then have val: "dval (Fin s c' (- int k)) = floor_grid k (dval d)"
  proof -
    assume c': "int c' = \<lfloor>dval d * 10 ^ k\<rfloor>"
    have "s \<Longrightarrow> c' = 0" using d(2) mag by (cases "c = 0") (auto simp: sce c'_def mult_le_0_iff)
    moreover have "(of_nat c' :: rat) = of_int \<lfloor>dval d * 10 ^ k\<rfloor>" using c' by (metis of_int_of_nat_eq)
    ultimately show ?thesis by (cases s) (auto simp: floor_grid_def power_int_minus divide_inverse)
  qed
  have "dval d * 10 ^ k \<le> of_int (10 ^ k)" using d(3) by simp
  then have "\<lfloor>dval d * 10 ^ k\<rfloor> \<le> \<lfloor>of_int (10 ^ k) :: rat\<rfloor>" by (rule floor_mono)
  then have "\<lfloor>dval d * 10 ^ k\<rfloor> \<le> 10 ^ k" by (simp only: floor_of_int)
  then have "int c' \<le> int (10 ^ k)" using \<open>int c' = _\<close> by simp
  then have "c' \<le> 10 ^ k" by (simp only: of_nat_le_iff)
  also have "(10 :: nat) ^ k < 10 ^ prec" using prec by simp
  finally have "length (dec_digits c') \<le> prec" using prec by (simp add: length_dec_digits)
  moreover have "nat (- int k - e) = nat (- int k - e)" "nat (e - - int k) = nat (e + int k)" by simp_all
  ultimately have "quantize_down prec (- int k) d = Inr (Fin s c' (- int k))"
    by (simp add: sce Let_def c'_def [symmetric] cong: if_cong)
  then show ?thesis using val by auto
qed

definition raw_weight :: "nat \<Rightarrow> portfolio_policy_plan \<Rightarrow> rat \<Rightarrow> nat \<Rightarrow> rat" where
  "raw_weight ambient p cap n =
     (if n = 0 then 0
      else min (dval (maximum_single_weight p)) (round_sig 10 ambient (cap / of_nat n)))"

lemma dval_of_nat [simp]: "dval (decimal_of_int (int n)) = of_nat n" "is_finite (decimal_of_int i)"
  by (simp_all add: decimal_of_int_def)

lemma base_weight_value:
  assumes amb: "28 \<le> ambient" and p: "1 \<le> decimal_places p" "decimal_places p \<le> 12"
    and single: "is_ratio (maximum_single_weight p)" and cap: "is_finite cap" "0 \<le> dval cap"
  shows "\<exists>b. base_weight ambient p cap n = Inr b \<and> is_finite b
    \<and> dval b = floor_grid (nat (decimal_places p)) (raw_weight ambient p (dval cap) n)"
proof -
  define raw where "raw = (if n = 0 then Inr (decimal_of_int 0)
    else mapR (decimal_min (maximum_single_weight p)) (decimal_div ambient cap (decimal_of_int (int n))))"
  have "\<exists>d. raw = Inr d \<and> is_finite d \<and> dval d = raw_weight ambient p (dval cap) n"
  proof (cases "n = 0")
    case True
    then show ?thesis by (simp add: raw_def raw_weight_def decimal_of_int_def)
  next
    case False
    then obtain d where "decimal_div ambient cap (decimal_of_int (int n)) = Inr d" "is_finite d"
      "dval d = round_sig 10 ambient (dval cap / of_nat n)"
      using decimal_div_rounds [of ambient cap "decimal_of_int (int n)"] amb cap(1)
      by (auto simp: rounds_to_def)
    then show ?thesis using False single by (simp add: raw_def raw_weight_def mapR_def is_ratio_def)
  qed
  then obtain d where d: "raw = Inr d" "is_finite d" "dval d = raw_weight ambient p (dval cap) n" by blast
  have "0 \<le> dval d \<and> dval d \<le> 1"
    using single round_sig_nonneg [of 10 ambient "dval cap / of_nat n"] cap(2) amb
    by (auto simp: d(3) raw_weight_def is_ratio_def min_le_iff_disj)
  moreover have "nat (decimal_places p) < ambient" using amb p by linarith
  ultimately obtain b where b: "quantize_down ambient (- int (nat (decimal_places p))) d = Inr b" "is_finite b"
    "dval b = floor_grid (nat (decimal_places p)) (dval d)"
    using quantize_down_value [of d "nat (decimal_places p)" ambient] d(2) amb p by auto
  have "base_weight ambient p cap n = Inr b"
    using b(1) d(1) p by (simp add: base_weight_def raw_def [symmetric] weight_quantum_def)
  then show ?thesis using b d(3) by auto
qed

section \<open>The weights\<close>

text \<open>
  Base weights and extras of \<open>n\<close> included lines under the cap \<open>cap\<close> and the single limit \<open>s\<close>.
  The base is the quotient rounded down to the quantum \<open>q = 10 ^ - k\<close>; its lines fit under the
  cap, and one more quantum each would reach it.
\<close>

record weight_problem =
  wp_ambient :: nat
  wp_places :: nat
  wp_lines :: nat
  wp_single :: rat
  wp_cap :: rat

definition weight_problem_ok :: "weight_problem \<Rightarrow> bool" where
  "weight_problem_ok w \<longleftrightarrow> 28 \<le> wp_ambient w \<and> wp_places w \<le> 27
     \<and> on_grid 27 (wp_single w) \<and> 0 \<le> wp_single w \<and> wp_single w \<le> 1
     \<and> on_grid 27 (wp_cap w) \<and> 0 \<le> wp_cap w \<and> wp_cap w \<le> 1"

definition wp_quotient :: "weight_problem \<Rightarrow> rat" where
  "wp_quotient w =
     (if wp_lines w = 0 then 0
      else min (wp_single w) (round_sig 10 (wp_ambient w) (wp_cap w / of_nat (wp_lines w))))"

definition wp_base :: "weight_problem \<Rightarrow> rat" where
  "wp_base w = floor_grid (wp_places w) (wp_quotient w)"

definition wp_quantum :: "weight_problem \<Rightarrow> rat" where
  "wp_quantum w = 1 / 10 ^ wp_places w"

definition wp_left :: "weight_problem \<Rightarrow> rat" where
  "wp_left w = wp_cap w - of_nat (wp_lines w) * wp_base w"

definition wp_extras :: "weight_problem \<Rightarrow> rat list" where
  "wp_extras w = spread (wp_quantum w) (wp_single w - wp_base w) (wp_lines w) (wp_left w)"

lemma wp_quotient_range:
  assumes "weight_problem_ok w" shows "0 \<le> wp_quotient w" "wp_quotient w \<le> wp_single w"
  using assms round_sig_nonneg [of 10 "wp_ambient w" "wp_cap w / of_nat (wp_lines w)"]
  by (auto simp: wp_quotient_def weight_problem_ok_def)

lemma wp_quantum_range:
  assumes "weight_problem_ok w" shows "0 < wp_quantum w" "on_grid 27 (wp_quantum w)"
  using assms by (simp_all add: wp_quantum_def on_grid_unit weight_problem_ok_def)

lemma wp_base_range:
  assumes "weight_problem_ok w"
  shows "0 \<le> wp_base w" "wp_base w \<le> wp_single w" "on_grid 27 (wp_base w)"
    "wp_base w \<le> wp_quotient w" "wp_quotient w < wp_base w + wp_quantum w"
  using assms floor_grid_bounds [where k = "wp_places w" and x = "wp_quotient w"]
    floor_grid_nonneg [of "wp_quotient w" "wp_places w"] wp_quotient_range [OF assms] on_grid_mono
  by (auto simp: wp_base_def wp_quantum_def weight_problem_ok_def)

lemma wp_left_range:
  assumes w: "weight_problem_ok w"
  shows "0 \<le> wp_left w" "wp_left w \<le> 1" "on_grid 27 (wp_left w)"
proof -
  note ok = w [unfolded weight_problem_ok_def]
  show "0 \<le> wp_left w"
  proof (cases "wp_lines w = 0")
    case False
    have "wp_base w \<le> round_sig 10 (wp_ambient w) (wp_cap w / of_nat (wp_lines w))"
      using wp_base_range(4) [OF w] False by (simp add: wp_quotient_def)
    then show ?thesis
      using base_fits [of "wp_ambient w" "wp_cap w" "wp_lines w" "wp_base w"] ok wp_base_range(3) [OF w] False
      by (simp add: wp_left_def)
  qed (use ok in \<open>simp add: wp_left_def\<close>)
  have "0 \<le> of_nat (wp_lines w) * wp_base w" using wp_base_range(1) [OF w] by simp
  then show "wp_left w \<le> 1" using ok unfolding wp_left_def by linarith
  show "on_grid 27 (wp_left w)"
    using ok wp_base_range(3) [OF w] on_grid_closed(4) [of 27 "wp_base w" "wp_base w" "int (wp_lines w)"]
    by (simp add: wp_left_def on_grid_closed(2))
qed

lemma next_quantum_reaches:
  assumes w: "weight_problem_ok w" and s: "wp_base w + wp_quantum w < wp_single w" and n: "wp_lines w \<noteq> 0"
  shows "wp_cap w \<le> of_nat (wp_lines w) * (wp_base w + wp_quantum w)"
proof (rule base_reaches)
  show "round_sig 10 (wp_ambient w) (wp_cap w / of_nat (wp_lines w)) \<le> wp_base w + wp_quantum w"
    using wp_base_range(5) [OF w] s n by (simp add: wp_quotient_def min_def split: if_splits)
qed (use w n wp_base_range(3) [OF w] wp_quantum_range(2) [OF w] on_grid_closed(1) in \<open>auto simp: weight_problem_ok_def\<close>)

text \<open>The base is never below the extra of a line by more than the quotient allows: the total is exact.\<close>

lemma wp_total:
  assumes w: "weight_problem_ok w"
  shows "of_nat (wp_lines w) * wp_base w + sum_list (wp_extras w)
    = min (wp_cap w) (of_nat (wp_lines w) * wp_single w)"
proof -
  let ?n = "of_nat (wp_lines w) :: rat" and ?m = "min (wp_quantum w) (wp_single w - wp_base w)"
  note b = wp_base_range [OF w] and q = wp_quantum_range [OF w]
  have "sum_list (wp_extras w) = min (wp_left w) (?n * ?m)"
    unfolding wp_extras_def using wp_left_range [OF w] b q by (intro sum_spread) auto
  then have sum: "?n * wp_base w + sum_list (wp_extras w) = min (wp_cap w) (?n * wp_base w + ?n * ?m)"
    by (simp add: wp_left_def min_add_distrib_right)
  show ?thesis
  proof (cases "wp_single w \<le> wp_base w + wp_quantum w")
    case True
    then have "?m = wp_single w - wp_base w" by simp
    then have "?n * wp_base w + ?n * ?m = ?n * wp_single w" by (simp add: right_diff_distrib)
    then show ?thesis unfolding sum by simp
  next
    case False
    then have m: "?m = wp_quantum w" by simp
    have reach: "wp_cap w \<le> ?n * (wp_base w + wp_quantum w) \<or> wp_lines w = 0"
      using next_quantum_reaches [OF w] False by auto
    have "?n * (wp_base w + wp_quantum w) \<le> ?n * wp_single w" using False by (intro mult_left_mono) auto
    then show ?thesis using reach unfolding sum m by (auto simp: distrib_left)
  qed
qed

lemma wp_extra_range:
  assumes "weight_problem_ok w" "e \<in> set (wp_extras w)"
  shows "0 \<le> e" "e \<le> wp_quantum w" "wp_base w + e \<le> wp_single w"
  using assms(2) spread_range [of "wp_quantum w" "wp_single w - wp_base w" "wp_left w" e "wp_lines w"]
    wp_left_range [OF assms(1)] wp_base_range [OF assms(1)] wp_quantum_range [OF assms(1)]
  by (auto simp: wp_extras_def)

lemma length_wp_extras [simp]: "length (wp_extras w) = wp_lines w"
  by (simp add: wp_extras_def)

text \<open>
  When every line gets a positive weight: the last of them must still find something left
  after the lines before it took their share.
\<close>

lemma spread_positive:
  assumes "0 < q" "0 < h" "0 \<le> r"
  shows "(\<forall>e \<in> set (spread q h (Suc n) r). 0 < e) \<longleftrightarrow> of_nat n * min q h < r"
  using assms(3)
proof (induction n arbitrary: r)
  case 0
  then show ?case using assms by simp
next
  case (Suc n)
  let ?m = "min q h" and ?e = "min (min q r) h"
  have m: "0 < ?m" using assms by simp
  have "(\<forall>e \<in> set (spread q h (Suc (Suc n)) r). 0 < e) \<longleftrightarrow> 0 < ?e \<and> of_nat n * ?m < r - ?e"
    using Suc.IH [of "r - ?e"] unfolding spread.simps(2) [of q h "Suc n"] by (simp add: Let_def)
  also have "\<dots> \<longleftrightarrow> of_nat (Suc n) * ?m < r"
  proof (cases "r \<le> ?m")
    case True
    then have "?e = r" by auto
    moreover have "0 \<le> of_nat n * ?m" "of_nat (Suc n) * ?m = ?m + of_nat n * ?m"
      using m by (simp_all add: distrib_right)
    ultimately show ?thesis using True by linarith
  next
    case False
    then have "?e = ?m" by auto
    then show ?thesis using m by (auto simp: distrib_right)
  qed
  finally show ?case .
qed

lemma wp_all_positive:
  assumes w: "weight_problem_ok w" and n: "wp_lines w = Suc m"
  shows "(\<forall>e \<in> set (wp_extras w). 0 < wp_base w + e) \<longleftrightarrow>
    0 < wp_single w \<and> of_nat m * min (wp_quantum w) (wp_single w) < wp_cap w"
proof (cases "wp_base w = 0")
  case True
  have "(\<forall>e \<in> set (wp_extras w). 0 < e) \<longleftrightarrow> 0 < wp_single w \<and> of_nat m * min (wp_quantum w) (wp_single w) < wp_cap w"
  proof (cases "wp_single w = 0")
    case False
    then have s: "0 < wp_single w" using wp_base_range(1,2) [OF w] by linarith
    then show ?thesis
      using spread_positive [of "wp_quantum w" "wp_single w" "wp_cap w" m] wp_quantum_range [OF w] w n True
      by (simp add: wp_extras_def wp_left_def weight_problem_ok_def del: spread.simps)
  next
    case zero: True
    have "0 \<le> wp_left w" using w by (rule wp_left_range)
    then show ?thesis using zero True n wp_quantum_range(1) [OF w] by (simp add: wp_extras_def Let_def)
  qed
  then show ?thesis using True by simp
next
  case False
  have b: "0 < wp_base w" using False wp_base_range(1) [OF w] by simp
  then have "wp_quantum w \<le> wp_base w"
    unfolding wp_quantum_def wp_base_def using floor_grid_bounds(3) by (intro on_grid_gap) auto
  then have "of_nat m * min (wp_quantum w) (wp_single w) \<le> of_nat m * wp_base w"
    by (intro mult_left_mono) auto
  also have "\<dots> < of_nat (wp_lines w) * wp_base w" using b n by (simp add: distrib_right)
  also have "\<dots> \<le> wp_cap w" using wp_left_range(1) [OF w] by (simp add: wp_left_def)
  finally show ?thesis using b wp_base_range(2) [OF w] wp_extra_range(1) [OF w] by (auto intro: add_pos_nonneg)
qed

end
