(* ===== verification/Decision_Proposals.thy ===== *)
theory Decision_Proposals
  imports Decision_Allocation
begin

text \<open>
  What \<open>build_portfolio_proposal\<close> returns under an accepted policy: a proposal always, its
  lines, its weights and its totals. Weights are exact in any context of at least 28 digits,
  when the policy's ratios have at most 27 fractional digits.
\<close>

section \<open>Accepted policies\<close>

definition portfolio_cap :: "portfolio_policy_plan \<Rightarrow> rat" where
  "portfolio_cap p =
     min (min (min (dval (maximum_gross_weight p)) (dval (maximum_net_weight p))) (dval (maximum_turnover p)))
       (1 - dval (minimum_cash_weight p))"

definition policy_shape :: "portfolio_policy_plan \<Rightarrow> bool" where
  "policy_shape p \<longleftrightarrow> 1 \<le> minimum_estimable_count p \<and> 1 \<le> maximum_line_count p
     \<and> 1 \<le> decimal_places p \<and> decimal_places p \<le> 12
     \<and> is_ratio (maximum_single_weight p) \<and> is_ratio (maximum_gross_weight p)
     \<and> is_ratio (maximum_net_weight p) \<and> is_ratio (minimum_cash_weight p) \<and> is_ratio (maximum_turnover p)
     \<and> dval (maximum_net_weight p) \<le> dval (maximum_gross_weight p)"

lemma policy_accepted: "portfolio_policy_plan_init p0 = Inr p \<Longrightarrow> policy_shape p"
  by (auto simp: portfolio_policy_plan_init_def policy_shape_def thenE_Inr_iff bindE_Inr_iff Let_def
      simp del: One_nat_def split: if_splits)

lemma policy_hash_accepted: "portfolio_policy_plan_init p0 = Inr p \<Longrightarrow> content_hash_ok (portfolio_policy_sha256 p)"
  using canonical_hash_ok
  by (auto simp: portfolio_policy_plan_init_def thenE_Inr_iff bindE_Inr_iff Let_def split: if_splits)

text \<open>Ratios with at most 27 fractional digits.\<close>

definition fine_ratios :: "portfolio_policy_plan \<Rightarrow> bool" where
  "fine_ratios p \<longleftrightarrow> (\<forall>d \<in> {maximum_single_weight p, maximum_gross_weight p, maximum_net_weight p,
     minimum_cash_weight p, maximum_turnover p}. on_grid 27 (dval d))"

definition weights_of :: "nat \<Rightarrow> portfolio_policy_plan \<Rightarrow> nat \<Rightarrow> weight_problem" where
  "weights_of ambient p n = \<lparr>wp_ambient = ambient, wp_places = nat (decimal_places p), wp_lines = n,
     wp_single = dval (maximum_single_weight p), wp_cap = portfolio_cap p\<rparr>"

lemma weights_of_simps [simp]:
  "wp_ambient (weights_of ambient p n) = ambient" "wp_places (weights_of ambient p n) = nat (decimal_places p)"
  "wp_lines (weights_of ambient p n) = n" "wp_single (weights_of ambient p n) = dval (maximum_single_weight p)"
  "wp_cap (weights_of ambient p n) = portfolio_cap p"
  by (simp_all add: weights_of_def)

lemma weights_of_ok: "policy_shape p \<Longrightarrow> fine_ratios p \<Longrightarrow> 28 \<le> ambient \<Longrightarrow> weight_problem_ok (weights_of ambient p n)"
  by (auto simp: weight_problem_ok_def policy_shape_def fine_ratios_def is_ratio_def portfolio_cap_def
      intro!: on_grid_closed)

lemma gross_cap_value:
  assumes "policy_shape p" "fine_ratios p" "28 \<le> ambient"
  shows "\<exists>c. gross_cap ambient p = Inr c \<and> is_finite c \<and> dval c = portfolio_cap p"
proof -
  have fin: "is_finite (maximum_gross_weight p)" "is_finite (maximum_net_weight p)"
    "is_finite (maximum_turnover p)" "is_finite (minimum_cash_weight p)"
    using assms(1) by (simp_all add: policy_shape_def is_ratio_def)
  obtain u where "decimal_sub ambient (decimal_of_int 1) (minimum_cash_weight p) = Inr u"
    "is_finite u" "dval u = dval (decimal_of_int 1) - dval (minimum_cash_weight p)"
    by (rule sub_weights [of ambient "decimal_of_int 1" "minimum_cash_weight p"])
      (use assms fin in \<open>auto simp: policy_shape_def is_ratio_def fine_ratios_def decimal_of_int_def\<close>)
  then show ?thesis using fin by (simp add: gross_cap_def portfolio_cap_def decimal_of_int_def)
qed

lemma base_weight_of:
  assumes p: "policy_shape p" "fine_ratios p" "28 \<le> ambient"
    and c: "is_finite c" "dval c = portfolio_cap p"
  shows "\<exists>b. base_weight ambient p c n = Inr b \<and> is_finite b \<and> dval b = wp_base (weights_of ambient p n)"
proof -
  have "0 \<le> dval c" using weights_of_ok [OF p, of n] c by (simp add: weight_problem_ok_def)
  then have "\<exists>b. base_weight ambient p c n = Inr b \<and> is_finite b
      \<and> dval b = floor_grid (nat (decimal_places p)) (raw_weight ambient p (dval c) n)"
    using p c by (intro base_weight_value) (auto simp: policy_shape_def)
  moreover have "raw_weight ambient p (dval c) n = wp_quotient (weights_of ambient p n)"
    by (simp add: raw_weight_def wp_quotient_def c)
  ultimately show ?thesis by (simp add: wp_base_def)
qed

lemma remaining_of:
  assumes p: "policy_shape p" "fine_ratios p" "28 \<le> ambient"
    and c: "is_finite c" "dval c = portfolio_cap p"
    and b: "is_finite b" "dval b = wp_base (weights_of ambient p n)"
  shows "\<exists>u rem. decimal_mul ambient b (decimal_of_int (int n)) = Inr u \<and> decimal_sub ambient c u = Inr rem
    \<and> is_finite rem \<and> dval rem = wp_left (weights_of ambient p n)"
proof -
  let ?w = "weights_of ambient p n"
  note ok = weights_of_ok [OF p, of n]
  have prod: "on_grid 27 (wp_base ?w * of_nat n)" "0 \<le> wp_base ?w * of_nat n" "wp_base ?w * of_nat n \<le> 1"
    using on_grid_closed(4) [OF wp_base_range(3) [OF ok] wp_base_range(3) [OF ok], of "int n"]
      wp_base_range(1) [OF ok] wp_left_range(1) [OF ok] ok
    by (simp_all add: mult.commute wp_left_def weight_problem_ok_def)
  have "rounds_to ambient (decimal_mul ambient b (decimal_of_int (int n))) (wp_base ?w * of_nat n)"
    using decimal_mul_rounds [of ambient b "decimal_of_int (int n)"] b p(3) by simp
  then obtain u where u: "decimal_mul ambient b (decimal_of_int (int n)) = Inr u" "is_finite u"
    "dval u = wp_base ?w * of_nat n"
    using rounds_to_weight weight_like_between [OF prod] p(3) by metis
  have "rounds_to ambient (decimal_sub ambient c u) (wp_left ?w)"
    using decimal_sub_rounds [of ambient c u] c u p(3) by (simp add: wp_left_def mult.commute)
  moreover have "weight_like (wp_left ?w)" using wp_left_range [OF ok] by (intro weight_like_between) auto
  ultimately show ?thesis using u(1) rounds_to_weight p(3) by metis
qed

section \<open>The lines\<close>

definition line_status_for ::
  "portfolio_proposal_status \<Rightarrow> uuid set \<Rightarrow> int \<times> prepared_portfolio_opportunity \<Rightarrow> portfolio_line_status" where
  "line_status_for status sel no =
     (if status = Proposal_NOT_ESTIMABLE then Line_NOT_ESTIMABLE
      else if selects sel no then INCLUDED else EXCLUDED)"

definition included :: "portfolio_line_plan list \<Rightarrow> portfolio_line_plan list" where
  "included = filter (\<lambda>l. line_status l = INCLUDED)"

definition lines_of ::
  "portfolio_proposal_status \<Rightarrow> uuid set \<Rightarrow> (int \<times> prepared_portfolio_opportunity) list \<Rightarrow> rat list \<Rightarrow>
   portfolio_line_plan list \<Rightarrow> bool" where
  "lines_of status sel nos ws ls \<longleftrightarrow>
     map (\<lambda>l. (line_ordinal l, line_source l)) ls = nos
     \<and> map line_status ls = map (line_status_for status sel) nos
     \<and> map (\<lambda>l. dval (proposed_weight l)) (included ls) = ws
     \<and> (\<forall>l \<in> set ls. is_finite (proposed_weight l) \<and> (line_status l \<noteq> INCLUDED \<longrightarrow> dval (proposed_weight l) = 0))"

lemma allocation_skipped:
  "\<exists>ls. foldE (allocate_line ambient ids p Proposal_NOT_ESTIMABLE sel base) nos (acc, rem) = Inr (acc @ ls, rem)
     \<and> lines_of Proposal_NOT_ESTIMABLE sel nos [] ls"
proof (induction nos arbitrary: acc)
  case Nil
  then show ?case by (simp add: lines_of_def included_def)
next
  case (Cons no nos)
  obtain n o' where no: "no = (n, o')" by fastforce
  let ?l = "\<lparr>portfolio_line_id = ids o', line_ordinal = n, line_source = o', line_status = Line_NOT_ESTIMABLE,
    proposed_weight = decimal_of_int 0, line_reason = ''PROPOSAL_NOT_ESTIMABLE'', line_sha256 = []\<rparr>"
  obtain h where l: "portfolio_line_plan_init ?l = Inr (?l\<lparr>line_sha256 := h\<rparr>)"
    by (rule portfolio_line_plan_init_ok [of ?l]) simp_all
  let ?m = "?l\<lparr>line_sha256 := h\<rparr>"
  have step: "allocate_line ambient ids p Proposal_NOT_ESTIMABLE sel base no (acc, rem) = Inr (acc @ [?m], rem)"
    using l by (simp add: allocate_line_def no)
  obtain ls where ls: "foldE (allocate_line ambient ids p Proposal_NOT_ESTIMABLE sel base) nos (acc @ [?m], rem)
      = Inr ((acc @ [?m]) @ ls, rem)" "lines_of Proposal_NOT_ESTIMABLE sel nos [] ls"
    using Cons.IH [of "acc @ [?m]"] by blast
  have "lines_of Proposal_NOT_ESTIMABLE sel (no # nos) [] (?m # ls)"
    using ls(2) by (simp add: lines_of_def included_def no line_status_for_def decimal_of_int_def)
  then show ?case using step ls(1) by (intro exI [of _ "?m # ls"]) simp
qed

lemma filter_take_ids:
  "distinct (map f xs) \<Longrightarrow> filter (\<lambda>x. f x \<in> f ` set (take k (filter P xs))) xs = take k (filter P xs)"
proof (induction xs arbitrary: k)
  case (Cons x xs)
  have out: "f x \<notin> f ` set (take j (filter P xs))" for j
    using Cons.prems set_take_subset [of j "filter P xs"] by auto
  have others: "filter (\<lambda>y. f y = f x \<or> f y \<in> S) xs = filter (\<lambda>y. f y \<in> S) xs" for S
    using Cons.prems by (intro filter_cong) (auto simp: image_iff)
  show ?case
    using Cons.IH Cons.prems out others by (cases "P x"; cases k) (auto simp del: others)
qed simp

lemma selected_by_id:
  assumes "distinct (map pf_opportunity_id os)"
  shows "filter (\<lambda>o'. pf_opportunity_id o' \<in> pf_opportunity_id ` set (selected_opportunities p os)) os
    = selected_opportunities p os"
  using filter_take_ids [OF assms] by (simp add: selected_opportunities_def Let_def)

lemma count_selected:
  assumes "distinct (map pf_opportunity_id os)"
  shows "map snd (filter (selects (pf_opportunity_id ` set (selected_opportunities p os))) (numbered os))
    = selected_opportunities p os"
proof -
  have "map snd (filter (\<lambda>x. Q (snd x)) nos) = filter Q (map snd nos)" for Q and nos :: "(int \<times> 'a) list"
    by (induction nos) simp_all
  from this [of "\<lambda>o'. pf_opportunity_id o' \<in> pf_opportunity_id ` set (selected_opportunities p os)" "numbered os"]
  show ?thesis using selected_by_id [OF assms] by (simp add: selects_def [abs_def])
qed

text \<open>The weights of the included lines under a policy.\<close>

definition weights_for :: "nat \<Rightarrow> portfolio_policy_plan \<Rightarrow> nat \<Rightarrow> rat list" where
  "weights_for ambient p n =
     map (\<lambda>e. wp_base (weights_of ambient p n) + e) (wp_extras (weights_of ambient p n))"

lemma proposal_lines:
  assumes p: "policy_shape p" "fine_ratios p" "28 \<le> ambient"
    and os: "distinct (map pf_opportunity_id os)"
  defines "sel \<equiv> selected_opportunities p os"
  assumes b: "is_finite b" "dval b = wp_base (weights_of ambient p (length sel))"
    and rem: "is_finite rem" "dval rem = wp_left (weights_of ambient p (length sel))"
  shows "\<exists>ls left. foldE (allocate_line ambient ids p (proposal_status_of p os) (pf_opportunity_id ` set sel) b)
      (numbered os) ([], rem) = Inr (ls, left)
    \<and> lines_of (proposal_status_of p os) (pf_opportunity_id ` set sel) (numbered os) (weights_for ambient p (length sel)) ls"
proof (cases "proposal_status_of p os = Proposal_NOT_ESTIMABLE")
  case True
  then have "sel = []" by (auto simp: sel_def proposal_status_of_def selected_opportunities_def Let_def split: if_splits)
  then have "weights_for ambient p (length sel) = []" by (simp add: weights_for_def wp_extras_def)
  then show ?thesis using allocation_skipped [where nos = "numbered os" and acc = "[]"] True by fastforce
next
  case False
  let ?w = "weights_of ambient p (length sel)"
  note ok = weights_of_ok [OF p, of "length sel"]
  have count: "length (filter (selects (pf_opportunity_id ` set sel)) (numbered os)) = length sel"
    using count_selected [OF os, of p] unfolding sel_def by (metis length_map)
  have q: "dval (weight_quantum p) = wp_quantum ?w"
    using p(1) by (simp add: dval_quantum wp_quantum_def policy_shape_def del: weight_quantum_def)
  have "\<exists>ls left. foldE (allocate_line ambient ids p (proposal_status_of p os) (pf_opportunity_id ` set sel) b)
      (numbered os) ([], rem) = Inr ([] @ ls, left)
    \<and> lines_for (pf_opportunity_id ` set sel) (numbered os)
        (map (\<lambda>e. dval b + e) (spread (dval (weight_quantum p)) (dval (maximum_single_weight p) - dval b)
          (length (filter (selects (pf_opportunity_id ` set sel)) (numbered os))) (dval rem))) ls"
    using False p wp_base_range [OF ok] wp_left_range [OF ok] b rem
    by (intro allocation_loop) (auto simp: policy_shape_def fine_ratios_def)
  then show ?thesis
    using False unfolding count q b(2) rem(2)
    by (simp add: lines_for_def lines_of_def included_def line_status_for_def weights_for_def wp_extras_def cong: map_cong)
qed

lemma spread_on_grid:
  assumes "on_grid k q" "on_grid k h" "on_grid k r" "e \<in> set (spread q h n r)"
  shows "on_grid k e"
  using assms(3,4)
proof (induction n arbitrary: r)
  case (Suc n)
  let ?e = "min (min q r) h"
  have e: "on_grid k ?e" using assms(1,2) Suc.prems(1) by (intro on_grid_closed)
  have "e = ?e \<or> e \<in> set (spread q h n (r - ?e))" using Suc.prems(2) by (auto simp: Let_def)
  then show ?case using e Suc.IH on_grid_closed(2) [OF Suc.prems(1) e] by blast
qed simp

lemma sum_lines:
  assumes "\<forall>l \<in> set ls. line_status l \<noteq> INCLUDED \<longrightarrow> dval (proposed_weight l) = 0"
  shows "sum_list (map (\<lambda>l. dval (proposed_weight l)) ls)
    = sum_list (map (\<lambda>l. dval (proposed_weight l)) (included ls))"
  using assms by (induction ls) (auto simp: included_def)

lemma weights_for_range:
  assumes p: "policy_shape p" "fine_ratios p" "28 \<le> ambient"
  shows "sum_list (weights_for ambient p n) = min (portfolio_cap p) (of_nat n * dval (maximum_single_weight p))"
    and "length (weights_for ambient p n) = n"
    and "w \<in> set (weights_for ambient p n) \<Longrightarrow> on_grid 27 w \<and> 0 \<le> w \<and> w \<le> dval (maximum_single_weight p)"
    and "w \<in> set (weights_for ambient p n) \<Longrightarrow> v \<in> set (weights_for ambient p n)
      \<Longrightarrow> \<bar>w - v\<bar> \<le> 1 / 10 ^ nat (decimal_places p)"
proof -
  let ?w = "weights_of ambient p n"
  note ok = weights_of_ok [OF p, of n]
  have "sum_list (weights_for ambient p n) = of_nat n * wp_base ?w + sum_list (wp_extras ?w)"
    by (simp add: weights_for_def sum_list_addf sum_list_triv)
  then show "sum_list (weights_for ambient p n) = min (portfolio_cap p) (of_nat n * dval (maximum_single_weight p))"
    using wp_total [OF ok] by simp
  show "length (weights_for ambient p n) = n" by (simp add: weights_for_def)
  show "on_grid 27 w \<and> 0 \<le> w \<and> w \<le> dval (maximum_single_weight p)" if w: "w \<in> set (weights_for ambient p n)"
  proof -
    obtain e where e: "w = wp_base ?w + e" "e \<in> set (wp_extras ?w)" using w by (auto simp: weights_for_def)
    have "on_grid 27 (wp_single ?w - wp_base ?w)"
      using ok wp_base_range(3) [OF ok] unfolding weight_problem_ok_def by (blast intro: on_grid_closed(2))
    then have "on_grid 27 e"
      using spread_on_grid e(2) wp_quantum_range(2) [OF ok] wp_left_range(3) [OF ok] unfolding wp_extras_def by blast
    then have "on_grid 27 w" unfolding e(1) using wp_base_range(3) [OF ok] by (blast intro: on_grid_closed(1))
    then show ?thesis
      using e wp_extra_range [OF ok e(2)] wp_base_range(1) [OF ok] by simp
  qed
  show "\<bar>w - v\<bar> \<le> 1 / 10 ^ nat (decimal_places p)"
    if "w \<in> set (weights_for ambient p n)" "v \<in> set (weights_for ambient p n)"
    using that wp_extra_range [OF ok] by (fastforce simp: weights_for_def wp_quantum_def abs_le_iff)
qed

section \<open>The proposal\<close>

text \<open>Everything the checks and the payload of a proposal depend on.\<close>

definition proposal_of ::
  "nat \<Rightarrow> prepared_portfolio_inputs \<Rightarrow> portfolio_policy_plan \<Rightarrow> decision_request \<Rightarrow> py_datetime \<Rightarrow>
   portfolio_proposal_authority \<Rightarrow> bool" where
  "proposal_of ambient i p r t a \<longleftrightarrow>
     (let os = pf_opportunities i; sel = selected_opportunities p os; status = proposal_status_of p os;
          total = min (portfolio_cap p) (of_nat (length sel) * dval (maximum_single_weight p)) in
      portfolio_proposal_id a = decision_root_id r \<and> proposal_prepared a = i \<and> proposal_policy a = p
      \<and> proposal_status a = status
      \<and> lines_of status (pf_opportunity_id ` set sel) (numbered os) (weights_for ambient p (length sel)) (proposal_lines a)
      \<and> canonical_json_sha256 (line_roster_payload (proposal_lines a)) = Inr (line_roster_sha256 a)
      \<and> included_count a = line_count_of INCLUDED (proposal_lines a)
      \<and> excluded_count a = line_count_of EXCLUDED (proposal_lines a)
      \<and> not_estimable_count a = line_count_of Line_NOT_ESTIMABLE (proposal_lines a)
      \<and> is_finite (gross_weight a) \<and> dval (gross_weight a) = total
      \<and> net_weight a = gross_weight a \<and> turnover_weight a = gross_weight a
      \<and> is_finite (cash_weight a) \<and> dval (cash_weight a) = 1 - total
      \<and> proposal_request_identity a = decision_request_identity r
      \<and> proposal_request_sha256 a = decision_request_sha256 r
      \<and> proposal_receipt_id a = decision_receipt_id r \<and> proposal_recorded_at a = t
      \<and> content_hash_ok (proposal_sha256 a))"

text \<open>A request the constructors accept after the OpportunitySet was recorded.\<close>

definition request_after :: "decision_request \<Rightarrow> py_datetime \<Rightarrow> py_datetime \<Rightarrow> bool" where
  "request_after r since t \<longleftrightarrow>
     content_hash_ok (decision_request_sha256 r) \<and> require_utc ''Portfolio recorded_at'' (decision_recorded_at r) = Inr t
     \<and> instant_of since \<le> instant_of t"

lemma line_counts_total:
  "line_count_of INCLUDED ls + line_count_of EXCLUDED ls + line_count_of Line_NOT_ESTIMABLE ls = length ls"
proof (induction ls)
  case (Cons l ls)
  then show ?case by (cases "line_status l") (simp_all add: line_count_of_def)
qed (simp add: line_count_of_def)

lemma portfolio_cap_range: "policy_shape p \<Longrightarrow> 0 \<le> portfolio_cap p \<and> portfolio_cap p \<le> 1"
  by (auto simp: policy_shape_def is_ratio_def portfolio_cap_def)

lemma lines_total:
  assumes "policy_shape p" "fine_ratios p" "28 \<le> ambient" "lines_of status sel nos (weights_for ambient p n) ls"
  shows "sum_list (map (\<lambda>l. dval (proposed_weight l)) ls)
      = min (portfolio_cap p) (of_nat n * dval (maximum_single_weight p))"
    and "l \<in> set ls \<Longrightarrow> is_finite (proposed_weight l) \<and> on_grid 27 (dval (proposed_weight l))
      \<and> 0 \<le> dval (proposed_weight l) \<and> dval (proposed_weight l) \<le> dval (maximum_single_weight p)"
proof -
  note ls = assms(4) [unfolded lines_of_def]
  have "sum_list (map (\<lambda>l. dval (proposed_weight l)) ls) = sum_list (weights_for ambient p n)"
    using sum_lines [of ls] ls by metis
  then show "sum_list (map (\<lambda>l. dval (proposed_weight l)) ls)
      = min (portfolio_cap p) (of_nat n * dval (maximum_single_weight p))"
    using weights_for_range(1) [OF assms(1-3)] by simp
  show "is_finite (proposed_weight l) \<and> on_grid 27 (dval (proposed_weight l))
      \<and> 0 \<le> dval (proposed_weight l) \<and> dval (proposed_weight l) \<le> dval (maximum_single_weight p)"
    if l: "l \<in> set ls"
  proof (cases "line_status l = INCLUDED")
    case True
    then have "dval (proposed_weight l) \<in> set (map (\<lambda>l. dval (proposed_weight l)) (included ls))"
      using l by (simp add: included_def)
    then have "dval (proposed_weight l) \<in> set (weights_for ambient p n)" using ls by metis
    then show ?thesis using weights_for_range(3) [OF assms(1-3)] ls l by blast
  next
    case False
    then show ?thesis using ls l assms(1) by (auto simp: policy_shape_def is_ratio_def)
  qed
qed

theorem proposal_built:
  assumes p: "policy_shape p" "fine_ratios p" "28 \<le> ambient"
    and os: "distinct (map pf_opportunity_id (pf_opportunities i))"
    and r: "request_after r (pfs_recorded_at i) t"
  shows "\<exists>a. build_portfolio_proposal ambient ids i p r = Inr a \<and> proposal_of ambient i p r t a"
proof -
  let ?os = "pf_opportunities i" and ?sel = "selected_opportunities p (pf_opportunities i)"
  let ?n = "length ?sel" and ?status = "proposal_status_of p ?os"
  let ?total = "min (portfolio_cap p) (of_nat ?n * dval (maximum_single_weight p))"
  note req = r [unfolded request_after_def]
  have total: "0 \<le> ?total" "?total \<le> 1"
    using portfolio_cap_range [OF p(1)] p(1) by (auto simp: policy_shape_def is_ratio_def min_le_iff_disj)
  obtain c where c: "gross_cap ambient p = Inr c" "is_finite c" "dval c = portfolio_cap p"
    using gross_cap_value [OF p] by blast
  obtain b where b: "base_weight ambient p c ?n = Inr b" "is_finite b" "dval b = wp_base (weights_of ambient p ?n)"
    using base_weight_of [OF p c(2,3)] by blast
  obtain u left where u: "decimal_mul ambient b (decimal_of_int (int ?n)) = Inr u" "decimal_sub ambient c u = Inr left"
    "is_finite left" "dval left = wp_left (weights_of ambient p ?n)"
    using remaining_of [OF p c(2,3) b(2,3)] by blast
  obtain ls left' where ls: "foldE (allocate_line ambient ids p ?status (pf_opportunity_id ` set ?sel) b)
      (numbered ?os) ([], left) = Inr (ls, left')"
    "lines_of ?status (pf_opportunity_id ` set ?sel) (numbered ?os) (weights_for ambient p ?n) ls"
    using proposal_lines [OF p os b(2,3) u(3,4)] by blast
  note sum = lines_total(1) [OF p ls(2)] and each = lines_total(2) [OF p ls(2)]
  obtain g where g: "decimal_sum ambient (map proposed_weight ls) (decimal_of_int 0) = Inr g" "is_finite g" "dval g = ?total"
    using decimal_sum_exact [of ambient "decimal_of_int 0" "map proposed_weight ls"] each total p(3) sum
    by (auto simp: comp_def decimal_of_int_def)
  have grid: "on_grid 27 ?total"
    using weights_of_ok [OF p, of 0] on_grid_closed(4) [of 27 "dval (maximum_single_weight p)" _ "int ?n"]
    by (intro on_grid_closed(5)) (auto simp: weight_problem_ok_def)
  have one: "dval (decimal_of_int 1) = 1" by (simp add: decimal_of_int_def)
  obtain cash where cash: "decimal_sub ambient (decimal_of_int 1) g = Inr cash" "is_finite cash" "dval cash = 1 - ?total"
    using sub_weights [OF p(3), of "decimal_of_int 1" g] total g(2) grid
    unfolding one g(3) by (metis diff_ge_0_iff_ge diff_le_eq le_add_same_cancel1 dval_of_nat(2) on_grid_of_int(3))
  obtain h where h: "canonical_json_sha256 (line_roster_payload ls) = Inr h"
    using canonical_json_sha256_total [of "line_roster_payload ls"] by (auto simp: line_roster_payload_def)
  define a where "a = \<lparr>portfolio_proposal_id = decision_root_id r, proposal_prepared = i, proposal_policy = p,
         proposal_status = ?status, proposal_lines = ls, line_roster_sha256 = h,
         included_count = line_count_of INCLUDED ls, excluded_count = line_count_of EXCLUDED ls,
         not_estimable_count = line_count_of Line_NOT_ESTIMABLE ls,
         gross_weight = g, net_weight = g, cash_weight = cash, turnover_weight = g,
         proposal_request_identity = decision_request_identity r, proposal_request_sha256 = decision_request_sha256 r,
         proposal_receipt_id = decision_receipt_id r, proposal_recorded_at = decision_recorded_at r,
         proposal_sha256 = []\<rparr>"
  obtain k where k: "canonical_json_sha256 (proposal_payload (a\<lparr>proposal_recorded_at := t\<rparr>)) = Inr k"
    using canonical_json_sha256_total [of "proposal_payload (a\<lparr>proposal_recorded_at := t\<rparr>)"]
    by (auto simp: proposal_payload_def)
  have ratios: "is_ratio g" "is_ratio cash" using g cash total by (auto simp: is_ratio_def)
  have "portfolio_proposal_authority_init a = Inr (a\<lparr>proposal_recorded_at := t, proposal_sha256 := k\<rparr>)"
    using req k ratios canonical_hash_ok [OF h] line_counts_total [of ls]
    by (simp add: portfolio_proposal_authority_init_def a_def ratio_field_def)
  then have "build_portfolio_proposal ambient ids i p r = Inr (a\<lparr>proposal_recorded_at := t, proposal_sha256 := k\<rparr>)"
    using req c b u ls(1) g h cash by (simp add: build_portfolio_proposal_def Let_def a_def)
  moreover have "proposal_of ambient i p r t (a\<lparr>proposal_recorded_at := t, proposal_sha256 := k\<rparr>)"
    using ls(2) h g cash canonical_hash_ok [OF k] by (simp add: proposal_of_def a_def Let_def)
  ultimately show ?thesis by blast
qed

end
