(* ===== verification/Decision_Risk.thy ===== *)
theory Decision_Risk
  imports Decision_Portfolio
begin

text \<open>
  \<open>decision_support/domain/risk.py\<close>: Risk policies of typed rules, the observed value of a
  rule, its comparison with the threshold under Python's dynamic typing, and the decision.
\<close>

section \<open>Vocabulary\<close>

datatype risk_authority_scope = DECISION_SUPPORT_ONLY

datatype risk_rule_scope = GLOBAL | LINE

fun risk_rule_scope_value :: "risk_rule_scope \<Rightarrow> string" where
  "risk_rule_scope_value GLOBAL = ''GLOBAL''"
| "risk_rule_scope_value LINE = ''LINE''"

datatype risk_subject =
  PROPOSAL_STATUS | LINE_COUNT | GROSS_WEIGHT | NET_WEIGHT | SINGLE_LINE_WEIGHT | CASH_WEIGHT
| ESTIMABILITY | QUALIFICATION_PRESENCE

fun risk_subject_value :: "risk_subject \<Rightarrow> string" where
  "risk_subject_value PROPOSAL_STATUS = ''PROPOSAL_STATUS''"
| "risk_subject_value LINE_COUNT = ''LINE_COUNT''"
| "risk_subject_value GROSS_WEIGHT = ''GROSS_WEIGHT''"
| "risk_subject_value NET_WEIGHT = ''NET_WEIGHT''"
| "risk_subject_value SINGLE_LINE_WEIGHT = ''SINGLE_LINE_WEIGHT''"
| "risk_subject_value CASH_WEIGHT = ''CASH_WEIGHT''"
| "risk_subject_value ESTIMABILITY = ''ESTIMABILITY''"
| "risk_subject_value QUALIFICATION_PRESENCE = ''QUALIFICATION_PRESENCE''"

datatype risk_operator = Risk_EQUALS | Risk_AT_MOST | Risk_AT_LEAST

fun risk_operator_value :: "risk_operator \<Rightarrow> string" where
  "risk_operator_value Risk_EQUALS = ''EQUALS''"
| "risk_operator_value Risk_AT_MOST = ''AT_MOST''"
| "risk_operator_value Risk_AT_LEAST = ''AT_LEAST''"

datatype risk_severity = Severity_REJECT | Severity_UNKNOWN

fun risk_severity_value :: "risk_severity \<Rightarrow> string" where
  "risk_severity_value Severity_REJECT = ''REJECT''"
| "risk_severity_value Severity_UNKNOWN = ''UNKNOWN''"

datatype risk_missing_action = RiskMissing_FAIL | RiskMissing_UNKNOWN

fun risk_missing_action_value :: "risk_missing_action \<Rightarrow> string" where
  "risk_missing_action_value RiskMissing_FAIL = ''FAIL''"
| "risk_missing_action_value RiskMissing_UNKNOWN = ''UNKNOWN''"

datatype risk_rule_result = Rule_PASS | Rule_FAIL | Rule_UNKNOWN | Rule_NOT_APPLICABLE

fun risk_rule_result_value :: "risk_rule_result \<Rightarrow> string" where
  "risk_rule_result_value Rule_PASS = ''PASS''"
| "risk_rule_result_value Rule_FAIL = ''FAIL''"
| "risk_rule_result_value Rule_UNKNOWN = ''UNKNOWN''"
| "risk_rule_result_value Rule_NOT_APPLICABLE = ''NOT_APPLICABLE''"

datatype risk_decision_status = AUTHORIZED | REJECTED | Risk_UNKNOWN | Risk_NO_ACTION

fun risk_decision_status_value :: "risk_decision_status \<Rightarrow> string" where
  "risk_decision_status_value AUTHORIZED = ''AUTHORIZED''"
| "risk_decision_status_value REJECTED = ''REJECTED''"
| "risk_decision_status_value Risk_UNKNOWN = ''UNKNOWN''"
| "risk_decision_status_value Risk_NO_ACTION = ''NO_ACTION''"

section \<open>Rules\<close>

record risk_rule_plan =
  risk_rule_id :: uuid
  rule_policy_id :: uuid
  rule_ordinal :: int
  rule_code :: string
  rule_scope :: risk_rule_scope
  rule_subject :: risk_subject
  rule_operator :: risk_operator
  decimal_threshold :: "decimal option"
  integer_threshold :: "int option"
  text_threshold :: "string option"
  boolean_threshold :: "bool option"
  risk_value_unit :: string
  rule_severity :: risk_severity
  rule_missing_action :: risk_missing_action
  risk_rule_sha256 :: string

definition risk_rule_payload :: "risk_rule_plan \<Rightarrow> pyval" where
  "risk_rule_payload r = PMapping
     [(''boolean_threshold'', optional_payload PBool (boolean_threshold r)),
      (''decimal_threshold'', optional_payload PDecimal (decimal_threshold r)),
      (''integer_threshold'', optional_payload PInt (integer_threshold r)),
      (''missing_action'', PStr (risk_missing_action_value (rule_missing_action r))),
      (''operator'', PStr (risk_operator_value (rule_operator r))),
      (''ordinal'', PInt (rule_ordinal r)),
      (''risk_policy_id'', PUuid (rule_policy_id r)),
      (''risk_rule_id'', PUuid (risk_rule_id r)),
      (''rule_code'', PStr (rule_code r)),
      (''scope'', PStr (risk_rule_scope_value (rule_scope r))),
      (''severity'', PStr (risk_severity_value (rule_severity r))),
      (''subject'', PStr (risk_subject_value (rule_subject r))),
      (''text_threshold'', optional_payload PStr (text_threshold r)),
      (''value_unit'', PStr (risk_value_unit r))]"

definition threshold_count :: "risk_rule_plan \<Rightarrow> nat" where
  "threshold_count r =
     (if decimal_threshold r \<noteq> None then 1 else 0) + (if integer_threshold r \<noteq> None then 1 else 0)
     + (if text_threshold r \<noteq> None then 1 else 0) + (if boolean_threshold r \<noteq> None then 1 else 0)"

definition risk_rule_plan_init :: "risk_rule_plan \<Rightarrow> risk_rule_plan result" where
  "risk_rule_plan_init r =
     thenE (guardE (decision_code_ok (rule_code r) \<and> \<not> rule_ordinal r < 1)
       (ValueError ''RiskRule identity is invalid''))
     (thenE (guardE (threshold_count r = 1) (ValueError ''RiskRule requires exactly one typed threshold''))
     (thenE (guardE (case decimal_threshold r of None \<Rightarrow> True | Some d \<Rightarrow> is_finite d)
       (ValueError ''RiskRule Decimal threshold must be finite''))
     (thenE (guardE (\<not> (rule_scope r = LINE \<and> rule_subject r \<noteq> SINGLE_LINE_WEIGHT))
       (ValueError ''V1 line RiskRule must inspect single-line weight''))
     (thenE (guardE (\<not> (rule_scope r = GLOBAL \<and> rule_subject r = SINGLE_LINE_WEIGHT))
       (ValueError ''single-line RiskRule must be line scoped''))
     (bindE (canonical_json_sha256 (risk_rule_payload r)) (\<lambda>h.
      Inr (r\<lparr>risk_rule_sha256 := h\<rparr>)))))))"

record risk_policy_plan =
  risk_policy_id :: uuid
  risk_policy_code :: string
  risk_policy_version :: int
  risk_supersedes :: "uuid option"
  risk_scope :: risk_authority_scope
  risk_rules :: "risk_rule_plan list"
  risk_code_artifact :: decision_artifact_binding
  risk_config_artifact :: decision_artifact_binding
  risk_provenance_sha256 :: string
  rule_roster_sha256 :: string
  risk_policy_sha256 :: string

definition rule_roster_payload :: "risk_rule_plan list \<Rightarrow> pyval" where
  "rule_roster_payload rs = PSequence (map (\<lambda>r. PMapping
     [(''content_sha256'', PStr (risk_rule_sha256 r)),
      (''ordinal'', PInt (rule_ordinal r)),
      (''risk_rule_id'', PUuid (risk_rule_id r))]) rs)"

definition risk_policy_payload :: "risk_policy_plan \<Rightarrow> pyval" where
  "risk_policy_payload p = PMapping
     [(''authority_scope'', PStr ''DECISION_SUPPORT_ONLY''),
      (''code_artifact'', decision_artifact_payload (risk_code_artifact p)),
      (''config_artifact'', decision_artifact_payload (risk_config_artifact p)),
      (''policy_code'', PStr (risk_policy_code p)),
      (''provenance_sha256'', PStr (risk_provenance_sha256 p)),
      (''risk_policy_id'', PUuid (risk_policy_id p)),
      (''rule_count'', PInt (int (length (risk_rules p)))),
      (''rule_roster_sha256'', PStr (rule_roster_sha256 p)),
      (''supersedes_policy_id'', optional_payload PUuid (risk_supersedes p)),
      (''version'', PInt (risk_policy_version p))]"

definition risk_policy_plan_init :: "risk_policy_plan \<Rightarrow> risk_policy_plan result" where
  "risk_policy_plan_init p =
     (let rs = risk_rules p in
      thenE (guardE (decision_code_ok (risk_policy_code p) \<and> \<not> risk_policy_version p < 1)
        (ValueError ''RiskPolicy identity is invalid''))
     (thenE (guardE ((risk_policy_version p = 1) = (risk_supersedes p = None))
        (ValueError ''RiskPolicy supersession shape is invalid''))
     (thenE (guardE (rs \<noteq> [] \<and> contiguous (map rule_ordinal rs))
        (ValueError ''Risk rule roster must be non-empty and contiguous''))
     (thenE (guardE (list_all (\<lambda>r. rule_policy_id r = risk_policy_id p) rs)
        (ValueError ''RiskRule belongs to a different policy''))
     (thenE (guardE (distinct (map rule_code rs)) (ValueError ''Risk rule roster contains a duplicate''))
     (bindE (sha_field ''Risk provenance'' (risk_provenance_sha256 p)) (\<lambda>provenance.
      bindE (canonical_json_sha256 (rule_roster_payload rs)) (\<lambda>roster.
      let p = p\<lparr>risk_provenance_sha256 := provenance, rule_roster_sha256 := roster\<rparr> in
      bindE (canonical_json_sha256 (risk_policy_payload p)) (\<lambda>h.
      Inr (p\<lparr>risk_policy_sha256 := h\<rparr>))))))))))"

section \<open>Prepared inputs\<close>

record prepared_risk_line =
  risk_line_id :: uuid
  risk_line_ordinal :: int
  risk_line_status :: portfolio_line_status
  risk_line_weight :: decimal
  risk_line_sha256 :: string

definition prepared_risk_line_init :: "prepared_risk_line \<Rightarrow> prepared_risk_line result" where
  "prepared_risk_line_init l =
     mapR (\<lambda>h. l\<lparr>risk_line_sha256 := h\<rparr>) (sha_field ''PortfolioLine hash'' (risk_line_sha256 l))"

record prepared_risk_inputs =
  risk_proposal_id :: uuid
  risk_proposal_sha256 :: string
  risk_proposal_status :: portfolio_proposal_status
  risk_line_count :: int
  risk_included_count :: int
  risk_not_estimable_count :: int
  risk_gross_weight :: decimal
  risk_net_weight :: decimal
  risk_cash_weight :: decimal
  qualification_count :: int
  risk_lines :: "prepared_risk_line list"

definition prepared_risk_inputs_init :: "prepared_risk_inputs \<Rightarrow> prepared_risk_inputs result" where
  "prepared_risk_inputs_init p =
     bindE (sha_field ''PortfolioProposal hash'' (risk_proposal_sha256 p)) (\<lambda>h.
     thenE (guardE (\<not> (risk_line_count p \<noteq> int (length (risk_lines p))
         \<or> \<not> contiguous (map risk_line_ordinal (risk_lines p))))
       (ValueError ''Risk requires the complete PortfolioLine roster''))
     (Inr (p\<lparr>risk_proposal_sha256 := h\<rparr>)))"

section \<open>Observed values\<close>

text \<open>
  What \<open>_observed\<close> returns and a threshold holds: \<open>Decimal\<close>, \<open>int\<close>, \<open>str\<close> or \<open>bool\<close>. A bool
  is an int; a decimal compares with both exactly; a string equals only strings, and
  ordering it with anything else raises \<open>TypeError\<close>.
\<close>

datatype risk_value = RDecimal decimal | RInteger int | RText string | RBoolean bool

fun numeric_value :: "risk_value \<Rightarrow> decimal option" where
  "numeric_value (RDecimal d) = Some d"
| "numeric_value (RInteger i) = Some (decimal_of_int i)"
| "numeric_value (RBoolean b) = Some (decimal_of_int (if b then 1 else 0))"
| "numeric_value (RText s) = None"

definition value_eq :: "risk_value \<Rightarrow> risk_value \<Rightarrow> bool" where
  "value_eq x y =
     (case (numeric_value x, numeric_value y) of
        (Some a, Some b) \<Rightarrow> decimal_eq a b
      | _ \<Rightarrow> x = y)"

definition value_le :: "risk_value \<Rightarrow> risk_value \<Rightarrow> bool result" where
  "value_le x y =
     (case (x, y) of
        (RText s, RText t) \<Rightarrow> Inr (s \<le> t)
      | _ \<Rightarrow>
          (case (numeric_value x, numeric_value y) of
             (Some a, Some b) \<Rightarrow> decimal_le a b
           | _ \<Rightarrow> Inl (TypeError ''unorderable types'')))"

definition risk_observed :: "prepared_risk_inputs \<Rightarrow> risk_rule_plan \<Rightarrow> prepared_risk_line option \<Rightarrow> risk_value option" where
  "risk_observed p r line =
     (case rule_subject r of
        PROPOSAL_STATUS \<Rightarrow> Some (RText (portfolio_proposal_status_value (risk_proposal_status p)))
      | LINE_COUNT \<Rightarrow> Some (RInteger (risk_included_count p))
      | GROSS_WEIGHT \<Rightarrow> Some (RDecimal (risk_gross_weight p))
      | NET_WEIGHT \<Rightarrow> Some (RDecimal (risk_net_weight p))
      | CASH_WEIGHT \<Rightarrow> Some (RDecimal (risk_cash_weight p))
      | ESTIMABILITY \<Rightarrow> Some (RBoolean (risk_not_estimable_count p = 0))
      | QUALIFICATION_PRESENCE \<Rightarrow> Some (RBoolean (qualification_count p > 0))
      | SINGLE_LINE_WEIGHT \<Rightarrow> map_option (\<lambda>l. RDecimal (risk_line_weight l)) line)"

text \<open>The first threshold that is set; \<open>next\<close> raises \<open>StopIteration\<close> when none is.\<close>

definition rule_threshold :: "risk_rule_plan \<Rightarrow> risk_value option" where
  "rule_threshold r =
     (case decimal_threshold r of Some d \<Rightarrow> Some (RDecimal d) | None \<Rightarrow>
      case integer_threshold r of Some i \<Rightarrow> Some (RInteger i) | None \<Rightarrow>
      case text_threshold r of Some s \<Rightarrow> Some (RText s) | None \<Rightarrow>
      map_option RBoolean (boolean_threshold r))"

definition risk_compare :: "risk_rule_plan \<Rightarrow> risk_value option \<Rightarrow> risk_rule_result result" where
  "risk_compare r observed =
     (case observed of
        None \<Rightarrow> Inr (if rule_missing_action r = RiskMissing_FAIL then Rule_FAIL else Rule_UNKNOWN)
      | Some x \<Rightarrow>
          bindE (optE (rule_threshold r) (PyRuntimeError ''StopIteration'')) (\<lambda>t.
          bindE (case rule_operator r of
              Risk_EQUALS \<Rightarrow> Inr (value_eq x t)
            | Risk_AT_MOST \<Rightarrow> value_le x t
            | Risk_AT_LEAST \<Rightarrow> value_le t x) (\<lambda>passed.
          Inr (if passed then Rule_PASS else Rule_FAIL))))"

section \<open>The decision\<close>

record risk_reason_plan =
  risk_reason_id :: uuid
  reason_ordinal :: int
  reason_rule :: risk_rule_plan
  reason_line_id :: "uuid option"
  reason_result :: risk_rule_result
  observed_decimal :: "decimal option"
  observed_integer :: "int option"
  observed_text :: "string option"
  observed_boolean :: "bool option"
  risk_reason_code :: string
  risk_reason_sha256 :: string

definition risk_reason_payload :: "risk_reason_plan \<Rightarrow> pyval" where
  "risk_reason_payload r = PMapping
     [(''observed_boolean'', optional_payload PBool (observed_boolean r)),
      (''observed_decimal'', optional_payload PDecimal (observed_decimal r)),
      (''observed_integer'', optional_payload PInt (observed_integer r)),
      (''observed_text'', optional_payload PStr (observed_text r)),
      (''ordinal'', PInt (reason_ordinal r)),
      (''portfolio_line_id'', optional_payload PUuid (reason_line_id r)),
      (''reason_code'', PStr (risk_reason_code r)),
      (''result'', PStr (risk_rule_result_value (reason_result r))),
      (''risk_reason_id'', PUuid (risk_reason_id r)),
      (''risk_rule_id'', PUuid (risk_rule_id (reason_rule r)))]"

definition risk_reason_plan_init :: "risk_reason_plan \<Rightarrow> risk_reason_plan result" where
  "risk_reason_plan_init r =
     bindE (canonical_json_sha256 (risk_reason_payload r)) (\<lambda>h. Inr (r\<lparr>risk_reason_sha256 := h\<rparr>))"

record risk_decision_authority =
  risk_decision_id :: uuid
  risk_prepared :: prepared_risk_inputs
  risk_policy :: risk_policy_plan
  risk_status :: risk_decision_status
  risk_reasons :: "risk_reason_plan list"
  reason_roster_sha256 :: string
  risk_request_identity :: string
  risk_request_sha256 :: string
  risk_receipt_id :: uuid
  risk_decided_at :: py_datetime
  risk_decision_sha256 :: string

definition risk_decision_payload :: "risk_decision_authority \<Rightarrow> pyval" where
  "risk_decision_payload a = PMapping
     [(''authority_scope'', PStr ''DECISION_SUPPORT_ONLY''),
      (''portfolio_proposal_id'', PUuid (risk_proposal_id (risk_prepared a))),
      (''reason_count'', PInt (int (length (risk_reasons a)))),
      (''reason_roster_sha256'', PStr (reason_roster_sha256 a)),
      (''request_identity'', PStr (risk_request_identity a)),
      (''request_sha256'', PStr (risk_request_sha256 a)),
      (''risk_decision_id'', PUuid (risk_decision_id a)),
      (''risk_policy_id'', PUuid (risk_policy_id (risk_policy a))),
      (''status'', PStr (risk_decision_status_value (risk_status a)))]"

definition risk_decision_authority_init :: "risk_decision_authority \<Rightarrow> risk_decision_authority result" where
  "risk_decision_authority_init a =
     bindE (sha_field ''Risk reason roster hash'' (reason_roster_sha256 a)) (\<lambda>r.
     bindE (require_utc ''Risk decided_at'' (risk_decided_at a)) (\<lambda>t.
     let a = a\<lparr>reason_roster_sha256 := r, risk_decided_at := t\<rparr> in
     bindE (canonical_json_sha256 (risk_decision_payload a)) (\<lambda>h.
     Inr (a\<lparr>risk_decision_sha256 := h\<rparr>))))"

text \<open>The inputs a rule is applied to: every line for a line rule, one global input otherwise.\<close>

definition rule_inputs :: "prepared_risk_inputs \<Rightarrow> risk_rule_plan \<Rightarrow> prepared_risk_line option list" where
  "rule_inputs p r = (if rule_scope r = LINE then map Some (risk_lines p) else [None])"

definition risk_pairs :: "prepared_risk_inputs \<Rightarrow> risk_policy_plan \<Rightarrow> (risk_rule_plan \<times> prepared_risk_line option) list" where
  "risk_pairs p policy = concat (map (\<lambda>r. map (Pair r) (rule_inputs p r)) (risk_rules policy))"

definition build_risk_reason ::
  "(risk_rule_plan \<Rightarrow> prepared_risk_line option \<Rightarrow> uuid) \<Rightarrow> prepared_risk_inputs \<Rightarrow>
   int \<times> risk_rule_plan \<times> prepared_risk_line option \<Rightarrow> risk_reason_plan result" where
  "build_risk_reason reason_ids p nrl =
     (case nrl of (n, r, line) \<Rightarrow>
        let observed = risk_observed p r line in
        bindE (risk_compare r observed) (\<lambda>res.
        risk_reason_plan_init
          \<lparr>risk_reason_id = reason_ids r line, reason_ordinal = n, reason_rule = r,
           reason_line_id = map_option risk_line_id line, reason_result = res,
           observed_decimal = (case observed of Some (RDecimal d) \<Rightarrow> Some d | _ \<Rightarrow> None),
           observed_integer = (case observed of Some (RInteger i) \<Rightarrow> Some i | _ \<Rightarrow> None),
           observed_text = (case observed of Some (RText s) \<Rightarrow> Some s | _ \<Rightarrow> None),
           observed_boolean = (case observed of Some (RBoolean b) \<Rightarrow> Some b | _ \<Rightarrow> None),
           risk_reason_code = ''RULE_'' @ risk_rule_result_value res, risk_reason_sha256 = []\<rparr>))"

definition risk_status_of :: "portfolio_proposal_status \<Rightarrow> risk_reason_plan list \<Rightarrow> risk_decision_status" where
  "risk_status_of status rs =
     (if list_ex (\<lambda>r. reason_result r = Rule_FAIL \<and> rule_severity (reason_rule r) = Severity_REJECT) rs
      then REJECTED
      else if list_ex (\<lambda>r. reason_result r \<in> {Rule_UNKNOWN, Rule_FAIL}) rs then Risk_UNKNOWN
      else if status = Proposal_NO_ACTION then Risk_NO_ACTION
      else if status = Proposal_NOT_ESTIMABLE then Risk_UNKNOWN
      else AUTHORIZED)"

definition reason_roster_payload :: "risk_reason_plan list \<Rightarrow> pyval" where
  "reason_roster_payload rs = PSequence (map (\<lambda>r. PMapping
     [(''content_sha256'', PStr (risk_reason_sha256 r)),
      (''ordinal'', PInt (reason_ordinal r)),
      (''risk_reason_id'', PUuid (risk_reason_id r))]) rs)"

definition build_risk_decision ::
  "(risk_rule_plan \<Rightarrow> prepared_risk_line option \<Rightarrow> uuid) \<Rightarrow> prepared_risk_inputs \<Rightarrow> risk_policy_plan \<Rightarrow>
   decision_request \<Rightarrow> risk_decision_authority result" where
  "build_risk_decision reason_ids p policy r =
     bindE (sha_field ''Risk request hash'' (decision_request_sha256 r)) (\<lambda>request.
     bindE (mapE (build_risk_reason reason_ids p) (numbered (risk_pairs p policy))) (\<lambda>reasons.
     bindE (canonical_json_sha256 (reason_roster_payload reasons)) (\<lambda>h.
     risk_decision_authority_init
       \<lparr>risk_decision_id = decision_root_id r, risk_prepared = p, risk_policy = policy,
        risk_status = risk_status_of (risk_proposal_status p) reasons, risk_reasons = reasons,
        reason_roster_sha256 = h, risk_request_identity = decision_request_identity r,
        risk_request_sha256 = request, risk_receipt_id = decision_receipt_id r,
        risk_decided_at = decision_recorded_at r, risk_decision_sha256 = []\<rparr>)))"

end
