(* ===== verification/Decision_Closure.thy ===== *)
theory Decision_Closure
  imports Decision_Proposals Decision_Risk
begin

text \<open>
  The checks PostgreSQL makes when a proposal and its lines are inserted: the \<open>CHECK\<close>
  constraints of \<open>portfolio_line\<close> and \<open>portfolio_proposal\<close> and the deferred trigger
  \<open>validate_portfolio_proposal_closure\<close> (\<open>migrations/001_baseline.sql\<close>). The database
  recomputes counts, totals, the roster hash and the policy's caps from the stored rows, which
  are those \<open>insert_proposal\<close> writes: one per line of the proposal.
\<close>

section \<open>Constraints\<close>

definition portfolio_line_shape_ck :: "portfolio_line_plan \<Rightarrow> bool" where
  "portfolio_line_shape_ck l \<longleftrightarrow>
     0 < line_ordinal l
     \<and> is_ratio (proposed_weight l)
     \<and> ((line_status l = INCLUDED \<and> dval (proposed_weight l) > 0)
        \<or> (line_status l \<noteq> INCLUDED \<and> dval (proposed_weight l) = 0))
     \<and> code_ok (line_reason l)
     \<and> content_hash_ok (pf_sha256 (line_source l))
     \<and> content_hash_ok (line_sha256 l)"

definition portfolio_proposal_shape_ck :: "portfolio_proposal_authority \<Rightarrow> bool" where
  "portfolio_proposal_shape_ck a \<longleftrightarrow>
     length (proposal_lines a) = included_count a + excluded_count a + not_estimable_count a
     \<and> is_ratio (gross_weight a) \<and> is_ratio (net_weight a)
     \<and> is_ratio (cash_weight a) \<and> is_ratio (turnover_weight a)
     \<and> dval (gross_weight a) = dval (net_weight a) \<and> dval (cash_weight a) = 1 - dval (gross_weight a)
     \<and> ((proposal_status a = PROPOSED \<and> included_count a > 0)
        \<or> (proposal_status a \<noteq> PROPOSED \<and> included_count a = 0))
     \<and> content_hash_ok (pfs_opportunity_set_sha256 (proposal_prepared a))
     \<and> content_hash_ok (portfolio_policy_sha256 (proposal_policy a))
     \<and> content_hash_ok (line_roster_sha256 a)
     \<and> request_identity_ok (proposal_request_identity a)
     \<and> content_hash_ok (proposal_request_sha256 a)
     \<and> content_hash_ok (proposal_sha256 a)
     \<and> instant_of (proposal_recorded_at a) \<ge> instant_of (pfs_recorded_at (proposal_prepared a))"

section \<open>The closure trigger\<close>

definition roster_complete :: "portfolio_proposal_authority \<Rightarrow> bool" where
  "roster_complete a \<longleftrightarrow>
     (let ls = proposal_lines a in
      (length ls > 0 \<longrightarrow> Min (set (map line_ordinal ls)) = 1 \<and> Max (set (map line_ordinal ls)) = int (length ls))
      \<and> line_count_of INCLUDED ls = included_count a
      \<and> line_count_of EXCLUDED ls = excluded_count a
      \<and> line_count_of Line_NOT_ESTIMABLE ls = not_estimable_count a
      \<and> sum_list (map (\<lambda>l. dval (proposed_weight l)) ls) = dval (gross_weight a)
      \<and> canonical_json_sha256 (line_roster_payload (sort_key line_ordinal ls)) = Inr (line_roster_sha256 a)
      \<and> set (map pf_opportunity_id (pf_opportunities (proposal_prepared a)))
          = set (map (\<lambda>l. pf_opportunity_id (line_source l)) ls))"

definition within_policy :: "portfolio_proposal_authority \<Rightarrow> bool" where
  "within_policy a \<longleftrightarrow>
     (let p = proposal_policy a; ls = proposal_lines a in
      \<not> (int (included_count a) > maximum_line_count p
        \<or> dval (gross_weight a) > dval (maximum_gross_weight p)
        \<or> dval (net_weight a) > dval (maximum_net_weight p)
        \<or> dval (cash_weight a) < dval (minimum_cash_weight p)
        \<or> dval (turnover_weight a) > dval (maximum_turnover p)
        \<or> (\<exists>l \<in> set ls. dval (proposed_weight l) > dval (maximum_single_weight p))
        \<or> (int (length (filter (\<lambda>l. pf_status (line_source l) \<noteq> Opportunity_NOT_ESTIMABLE) ls))
              < minimum_estimable_count p
           \<and> proposal_status a \<noteq> Proposal_NOT_ESTIMABLE)))"

definition proposal_closure_ok :: "portfolio_proposal_authority \<Rightarrow> bool" where
  "proposal_closure_ok a \<longleftrightarrow> roster_complete a \<and> within_policy a"

definition proposal_storable :: "portfolio_proposal_authority \<Rightarrow> bool" where
  "proposal_storable a \<longleftrightarrow>
     list_all portfolio_line_shape_ck (proposal_lines a) \<and> portfolio_proposal_shape_ck a \<and> proposal_closure_ok a"

section \<open>Lines as built\<close>

lemma allocate_line_appends:
  assumes "allocate_line ambient ids p status sel b no (ls, rem) = Inr (ls', rem')"
  shows "\<exists>l. ls' = ls @ [l] \<and> content_hash_ok (line_sha256 l) \<and> code_ok (line_reason l)"
proof -
  have "code_ok ''PROPOSAL_NOT_ESTIMABLE''" "code_ok ''OPPORTUNITY_NOT_INCLUDED''" "code_ok ''EQUAL_WEIGHT_ACTIONABLE''"
    by code_simp+
  then show ?thesis
    using assms canonical_hash_ok
    by (auto simp: allocate_line_def bindE_Inr_iff portfolio_line_plan_init_def thenE_Inr_iff Let_def
        split: if_splits prod.splits)
qed

lemma allocated_lines_ok:
  assumes "foldE (allocate_line ambient ids p status sel b) nos ([], rem) = Inr (ls, left)"
  shows "\<forall>l \<in> set ls. content_hash_ok (line_sha256 l) \<and> code_ok (line_reason l)"
proof -
  have "\<forall>l \<in> set (fst (ls, left)). content_hash_ok (line_sha256 l) \<and> code_ok (line_reason l)"
    by (rule foldE_keeps [OF assms]) (auto dest!: allocate_line_appends)
  then show ?thesis by simp
qed

lemma built_lines_ok:
  assumes "build_portfolio_proposal ambient ids i p r = Inr a" "l \<in> set (proposal_lines a)"
  shows "content_hash_ok (line_sha256 l)" "code_ok (line_reason l)"
proof -
  have "\<exists>nos rem left b. foldE (allocate_line ambient ids p (proposal_status_of p (pf_opportunities i))
      (pf_opportunity_id ` set (selected_opportunities p (pf_opportunities i))) b) nos ([], rem)
      = Inr (proposal_lines a, left)"
    using assms(1)
    by (auto simp: build_portfolio_proposal_def portfolio_proposal_authority_init_def bindE_Inr_iff
        thenE_Inr_iff Let_def split: prod.splits if_splits) blast+
  then show "content_hash_ok (line_sha256 l)" "code_ok (line_reason l)"
    using allocated_lines_ok assms(2) by blast+
qed

section \<open>Proposals under an accepted policy\<close>

lemma line_roster_facts:
  assumes "lines_of status sel (numbered os) ws ls"
  shows "map line_ordinal ls = map int [1..<Suc (length os)]" "map line_source ls = os" "length ls = length os"
    "map line_status ls = map (line_status_for status sel) (numbered os)"
proof -
  note ls = assms [unfolded lines_of_def]
  have pairs: "map (\<lambda>l. (line_ordinal l, line_source l)) ls = numbered os" using ls by blast
  have "map line_ordinal ls = map fst (numbered os)" "map line_source ls = map snd (numbered os)"
    unfolding pairs [symmetric] by simp_all
  then show "map line_ordinal ls = map int [1..<Suc (length os)]" "map line_source ls = os"
    using map_fst_numbered [of os] by (simp_all add: contiguous_def)
  then show "length ls = length os" by (metis length_map)
  show "map line_status ls = map (line_status_for status sel) (numbered os)" using ls by blast
qed

lemma count_statuses: "line_count_of st ls = length (filter ((=) st) (map line_status ls))"
  by (induction ls) (auto simp: line_count_of_def)

lemma included_lines_count:
  assumes "distinct (map pf_opportunity_id os)"
    and "lines_of (proposal_status_of p os) (pf_opportunity_id ` set (selected_opportunities p os)) (numbered os) ws ls"
  shows "line_count_of INCLUDED ls = length (selected_opportunities p os)"
proof (cases "proposal_status_of p os = Proposal_NOT_ESTIMABLE")
  case True
  then have "selected_opportunities p os = []"
    by (auto simp: proposal_status_of_def selected_opportunities_def Let_def split: if_splits)
  moreover have "filter ((=) INCLUDED) (map (line_status_for Proposal_NOT_ESTIMABLE sel) nos) = []" for sel nos
    by (induction nos) (simp_all add: line_status_for_def)
  ultimately show ?thesis using line_roster_facts(4) [OF assms(2)] True by (simp add: count_statuses)
next
  case False
  let ?sel = "pf_opportunity_id ` set (selected_opportunities p os)"
  have "length (filter ((=) INCLUDED) (map (line_status_for (proposal_status_of p os) ?sel) nos))
      = length (filter (selects ?sel) nos)" for nos
    using False by (induction nos) (simp_all add: line_status_for_def)
  then have "line_count_of INCLUDED ls = length (filter (selects ?sel) (numbered os))"
    using line_roster_facts(4) [OF assms(2)] by (simp add: count_statuses)
  then show ?thesis using count_selected [OF assms(1)] by (metis length_map)
qed

lemma selected_bounds:
  assumes "policy_shape p"
  shows "int (length (selected_opportunities p os)) \<le> maximum_line_count p"
    and "proposal_status_of p os = PROPOSED \<longleftrightarrow> selected_opportunities p os \<noteq> []"
  using assms by (auto simp: selected_opportunities_def proposal_status_of_def policy_shape_def Let_def)

lemma ordinals_closed:
  assumes "map f ls = map int [1..<Suc n]" "length ls = n"
  shows "0 < n \<Longrightarrow> Min (set (map f ls)) = 1 \<and> Max (set (map f ls)) = int n" "sort_key f ls = ls"
proof -
  have set: "set (map f ls) = int ` {1..n}" unfolding assms(1) by auto
  show "Min (set (map f ls)) = 1 \<and> Max (set (map f ls)) = int n" if "0 < n"
    unfolding set using that by (auto intro!: Min_eqI Max_eqI)
  have "sorted (map f ls)" unfolding assms(1) by (simp add: sorted_map sorted_wrt_upt del: upt_Suc)
  then show "sort_key f ls = ls" by (rule sort_key_id_if_sorted)
qed

lemma proposal_of_facts:
  assumes "proposal_of ambient i p r t a"
  defines "os \<equiv> pf_opportunities i"
  shows "proposal_prepared a = i" "proposal_policy a = p" "proposal_status a = proposal_status_of p os"
    "lines_of (proposal_status_of p os) (pf_opportunity_id ` set (selected_opportunities p os)) (numbered os)
       (weights_for ambient p (length (selected_opportunities p os))) (proposal_lines a)"
    "canonical_json_sha256 (line_roster_payload (proposal_lines a)) = Inr (line_roster_sha256 a)"
    "included_count a = line_count_of INCLUDED (proposal_lines a)"
    "excluded_count a = line_count_of EXCLUDED (proposal_lines a)"
    "not_estimable_count a = line_count_of Line_NOT_ESTIMABLE (proposal_lines a)"
    "is_finite (gross_weight a)" "is_finite (cash_weight a)"
    "net_weight a = gross_weight a" "turnover_weight a = gross_weight a"
    "dval (gross_weight a) = min (portfolio_cap p)
       (of_nat (length (selected_opportunities p os)) * dval (maximum_single_weight p))"
    "dval (cash_weight a) = 1 - dval (gross_weight a)"
    "proposal_request_identity a = decision_request_identity r"
    "proposal_request_sha256 a = decision_request_sha256 r" "proposal_recorded_at a = t"
    "content_hash_ok (proposal_sha256 a)"
  using assms by (simp_all add: proposal_of_def Let_def)

lemma gross_range:
  assumes "policy_shape p" "proposal_of ambient i p r t a"
  shows "is_ratio (gross_weight a)" "is_ratio (cash_weight a)" "dval (gross_weight a) \<le> portfolio_cap p"
proof -
  note a = proposal_of_facts [OF assms(2)]
  have "0 \<le> dval (gross_weight a)" "dval (gross_weight a) \<le> portfolio_cap p"
    unfolding a(13) using portfolio_cap_range [OF assms(1)] assms(1)
    by (auto simp: policy_shape_def is_ratio_def)
  then show "is_ratio (gross_weight a)" "is_ratio (cash_weight a)" "dval (gross_weight a) \<le> portfolio_cap p"
    using a(9,10,14) portfolio_cap_range [OF assms(1)] by (auto simp: is_ratio_def)
qed

lemma proposal_shape:
  assumes p: "policy_shape p" "content_hash_ok (portfolio_policy_sha256 p)"
    and i: "content_hash_ok (pfs_opportunity_set_sha256 i)" "distinct (map pf_opportunity_id (pf_opportunities i))"
    and r: "request_after r (pfs_recorded_at i) t" "request_identity_ok (decision_request_identity r)"
    and a: "proposal_of ambient i p r t a"
  shows "portfolio_proposal_shape_ck a"
proof -
  note f = proposal_of_facts [OF a]
  have n: "included_count a = length (selected_opportunities p (pf_opportunities i))"
    unfolding f(6) by (rule included_lines_count [OF i(2) f(4)])
  have status: "proposal_status a = PROPOSED \<longleftrightarrow> 0 < included_count a"
    unfolding f(3) n selected_bounds(2) [OF p(1)] by simp
  have counts: "length (proposal_lines a) = included_count a + excluded_count a + not_estimable_count a"
    using line_counts_total [of "proposal_lines a"] f(6-8) by simp
  show ?thesis
    unfolding portfolio_proposal_shape_ck_def f(1,2,11,12,15-17)
    using status counts gross_range [OF p(1) a] p i(1) r f(14,18) canonical_hash_ok [OF f(5)]
    by (auto simp: request_after_def)
qed

lemma proposal_closure:
  assumes p: "policy_shape p" "fine_ratios p" "28 \<le> ambient"
    and i: "distinct (map pf_opportunity_id (pf_opportunities i))"
    and a: "proposal_of ambient i p r t a"
  shows "proposal_closure_ok a"
proof -
  note f = proposal_of_facts [OF a]
  note ls = line_roster_facts [OF f(4)]
  note ords = ordinals_closed [OF ls(1,3)]
  have "roster_complete a"
    unfolding roster_complete_def Let_def
  proof (intro conjI impI)
    show "Min (set (map line_ordinal (proposal_lines a))) = 1"
      "Max (set (map line_ordinal (proposal_lines a))) = int (length (proposal_lines a))"
      if "0 < length (proposal_lines a)"
      using ords(1) that unfolding ls(3) by blast+
    show "sum_list (map (\<lambda>l. dval (proposed_weight l)) (proposal_lines a)) = dval (gross_weight a)"
      unfolding f(13) by (rule lines_total(1) [OF p f(4)])
    show "canonical_json_sha256 (line_roster_payload (sort_key line_ordinal (proposal_lines a)))
        = Inr (line_roster_sha256 a)"
      unfolding ords(2) by (rule f(5))
    have "map pf_opportunity_id (pf_opportunities i) = map (\<lambda>l. pf_opportunity_id (line_source l)) (proposal_lines a)"
      unfolding ls(2) [symmetric] by simp
    then show "set (map pf_opportunity_id (pf_opportunities (proposal_prepared a)))
        = set (map (\<lambda>l. pf_opportunity_id (line_source l)) (proposal_lines a))"
      unfolding f(1) by metis
  qed (simp_all only: f(6-8))
  moreover have "within_policy a"
  proof -
    have "int (included_count a) \<le> maximum_line_count p"
      using selected_bounds(1) [OF p(1)] included_lines_count [OF i f(4)] f(6) by simp
    moreover have "filter (\<lambda>l. pf_status (line_source l) \<noteq> Opportunity_NOT_ESTIMABLE) (proposal_lines a)
        = filter ((\<lambda>o'. pf_status o' \<noteq> Opportunity_NOT_ESTIMABLE) \<circ> line_source) (proposal_lines a)"
      by (simp add: comp_def)
    then have "length (filter (\<lambda>l. pf_status (line_source l) \<noteq> Opportunity_NOT_ESTIMABLE) (proposal_lines a))
        = length (filter (\<lambda>o'. pf_status o' \<noteq> Opportunity_NOT_ESTIMABLE) (pf_opportunities i))"
      using ls(2) by (metis filter_map length_map)
    then have "\<not> (int (length (filter (\<lambda>l. pf_status (line_source l) \<noteq> Opportunity_NOT_ESTIMABLE) (proposal_lines a)))
        < minimum_estimable_count p \<and> proposal_status a \<noteq> Proposal_NOT_ESTIMABLE)"
      unfolding f(3) by (simp add: proposal_status_of_def)
    moreover have "\<not> (\<exists>l \<in> set (proposal_lines a). dval (proposed_weight l) > dval (maximum_single_weight p))"
      using lines_total(2) [OF p f(4)] by (meson not_le)
    moreover have "dval (gross_weight a) \<le> portfolio_cap p" using gross_range [OF p(1) a] by simp
    ultimately show ?thesis
      unfolding within_policy_def Let_def f(2,11,12,14) by (auto simp: portfolio_cap_def)
  qed
  ultimately show ?thesis by (simp add: proposal_closure_ok_def)
qed

text \<open>The one constraint a proposal can break: an included line must have a positive weight.\<close>

lemma proposal_line_shapes:
  assumes p: "policy_shape p" "fine_ratios p" "28 \<le> ambient"
    and hashes: "\<forall>o' \<in> set (pf_opportunities i). content_hash_ok (pf_sha256 o')"
    and built: "build_portfolio_proposal ambient ids i p r = Inr a" and a: "proposal_of ambient i p r t a"
  defines "n \<equiv> length (selected_opportunities p (pf_opportunities i))"
  shows "list_all portfolio_line_shape_ck (proposal_lines a) \<longleftrightarrow> n = 0 \<or>
    0 < dval (maximum_single_weight p)
    \<and> of_nat (n - 1) * min (1 / 10 ^ nat (decimal_places p)) (dval (maximum_single_weight p)) < portfolio_cap p"
proof -
  note f = proposal_of_facts [OF a]
  note ls = line_roster_facts [OF f(4)]
  have ordinal: "0 < line_ordinal l" if "l \<in> set (proposal_lines a)" for l
  proof -
    have "line_ordinal l \<in> set (map line_ordinal (proposal_lines a))" using that by simp
    then show ?thesis unfolding ls(1) by auto
  qed
  have "portfolio_line_shape_ck l \<longleftrightarrow> line_status l = INCLUDED \<longrightarrow> 0 < dval (proposed_weight l)"
    if l: "l \<in> set (proposal_lines a)" for l
  proof -
    have "is_ratio (proposed_weight l)"
      using lines_total(2) [OF p f(4) l] p(1) by (auto simp: is_ratio_def policy_shape_def)
    moreover have "line_source l \<in> set (pf_opportunities i)" using l ls(2) by (metis image_eqI list.set_map)
    moreover have "line_status l \<noteq> INCLUDED \<longrightarrow> dval (proposed_weight l) = 0" using f(4) l by (simp add: lines_of_def)
    ultimately show ?thesis
      using hashes ordinal [OF l] built_lines_ok [OF built l] by (auto simp: portfolio_line_shape_ck_def)
  qed
  then have "list_all portfolio_line_shape_ck (proposal_lines a) \<longleftrightarrow>
      (\<forall>w \<in> set (map (\<lambda>l. dval (proposed_weight l)) (included (proposal_lines a))). 0 < w)"
    by (auto simp: list_all_iff included_def)
  also have "map (\<lambda>l. dval (proposed_weight l)) (included (proposal_lines a)) = weights_for ambient p n"
    using f(4) by (simp add: lines_of_def n_def)
  also have "(\<forall>w \<in> set (weights_for ambient p n). 0 < w) \<longleftrightarrow>
      (\<forall>e \<in> set (wp_extras (weights_of ambient p n)). 0 < wp_base (weights_of ambient p n) + e)"
    by (simp add: weights_for_def)
  finally show ?thesis
  proof (cases n)
    case 0
    then have "wp_extras (weights_of ambient p n) = []" by (simp add: wp_extras_def)
    moreover assume "list_all portfolio_line_shape_ck (proposal_lines a) \<longleftrightarrow>
      (\<forall>e \<in> set (wp_extras (weights_of ambient p n)). 0 < wp_base (weights_of ambient p n) + e)"
    ultimately show ?thesis using 0 by simp
  qed (use wp_all_positive [OF weights_of_ok [OF p, of n]] in \<open>simp add: wp_quantum_def\<close>)
qed

end
