(* ===== verification/Decision_Authorization.thy ===== *)
theory Decision_Authorization
  imports Decision_Closure
begin

text \<open>
  What \<open>build_risk_decision\<close> returns under an accepted policy: when the dynamic comparisons of
  its rules are well typed, the results of its rules, and the status; the constraints and the
  deferred trigger PostgreSQL checks a decision against; and the inputs the Risk stage reads
  back from a stored proposal (\<open>queries/decision_risk_inputs.py\<close>).
\<close>

section \<open>Accepted rules\<close>

definition rule_shape :: "risk_rule_plan \<Rightarrow> bool" where
  "rule_shape r \<longleftrightarrow> threshold_count r = 1
     \<and> (case decimal_threshold r of None \<Rightarrow> True | Some d \<Rightarrow> is_finite d)
     \<and> (rule_scope r = LINE \<longleftrightarrow> rule_subject r = SINGLE_LINE_WEIGHT)"

lemma rule_accepted: "risk_rule_plan_init r0 = Inr r \<Longrightarrow> rule_shape r \<and> content_hash_ok (risk_rule_sha256 r)"
  by (cases "rule_scope r0")
    (auto simp: risk_rule_plan_init_def rule_shape_def threshold_count_def bindE_Inr_iff dest: canonical_hash_ok
      split: if_splits option.splits)

text \<open>Every input of a rule is observed: the missing action of a rule is never taken.\<close>

lemma observed_Some:
  assumes "rule_shape r" "line \<in> set (rule_inputs p r)"
  shows "\<exists>x. risk_observed p r line = Some x"
  using assms by (auto simp: rule_shape_def rule_inputs_def risk_observed_def split: if_splits risk_subject.splits)

lemma threshold_Some: "rule_shape r \<Longrightarrow> \<exists>t. rule_threshold r = Some t"
  by (auto simp: rule_shape_def threshold_count_def rule_threshold_def split: option.splits if_splits)

section \<open>Typing\<close>

fun is_text :: "risk_value \<Rightarrow> bool" where
  "is_text (RText s) = True"
| "is_text _ = False"

fun finite_value :: "risk_value \<Rightarrow> bool" where
  "finite_value (RDecimal d) = is_finite d"
| "finite_value _ = True"

definition finite_inputs :: "prepared_risk_inputs \<Rightarrow> bool" where
  "finite_inputs p \<longleftrightarrow> is_finite (risk_gross_weight p) \<and> is_finite (risk_net_weight p)
     \<and> is_finite (risk_cash_weight p) \<and> (\<forall>l \<in> set (risk_lines p). is_finite (risk_line_weight l))"

definition rule_well_typed :: "risk_rule_plan \<Rightarrow> bool" where
  "rule_well_typed r \<longleftrightarrow>
     rule_operator r = Risk_EQUALS \<or> (rule_subject r = PROPOSAL_STATUS \<longleftrightarrow> text_threshold r \<noteq> None)"

lemma value_le_typed:
  assumes "finite_value x" "finite_value y"
  shows "value_le x y = (if is_text x = is_text y
     then Inr (case (x, y) of (RText s, RText t) \<Rightarrow> s \<le> t
       | _ \<Rightarrow> dval (the (numeric_value x)) \<le> dval (the (numeric_value y)))
     else Inl (TypeError ''unorderable types''))"
  using assms by (cases x; cases y) (simp_all add: value_le_def decimal_of_int_def)

lemma observed_typed:
  assumes "finite_inputs p" "line \<in> set (rule_inputs p r)" "risk_observed p r line = Some x"
  shows "finite_value x" "is_text x \<longleftrightarrow> rule_subject r = PROPOSAL_STATUS"
  using assms by (auto simp: risk_observed_def rule_inputs_def finite_inputs_def split: risk_subject.splits if_splits)

lemma threshold_typed:
  assumes "rule_shape r" "rule_threshold r = Some t"
  shows "finite_value t" "is_text t \<longleftrightarrow> text_threshold r \<noteq> None"
  using assms by (auto simp: rule_shape_def rule_threshold_def threshold_count_def split: option.splits)

lemma risk_compare_typed:
  assumes "rule_shape r" "finite_inputs p" "line \<in> set (rule_inputs p r)"
  shows "\<exists>res. risk_compare r (risk_observed p r line) =
     (if rule_well_typed r then Inr res else Inl (TypeError ''unorderable types'')) \<and> res \<in> {Rule_PASS, Rule_FAIL}"
proof -
  obtain x where x: "risk_observed p r line = Some x" using observed_Some assms by blast
  obtain t where t: "rule_threshold r = Some t" using threshold_Some assms(1) by blast
  have typed: "finite_value x" "finite_value t" "is_text x = is_text t \<longleftrightarrow> (rule_subject r = PROPOSAL_STATUS \<longleftrightarrow> text_threshold r \<noteq> None)"
    using observed_typed [OF assms(2,3) x] threshold_typed [OF assms(1) t] by auto
  show ?thesis
    by (cases "rule_operator r")
      (use typed value_le_typed [OF typed(1,2)] value_le_typed [OF typed(2,1)] in
        \<open>auto simp: risk_compare_def x t rule_well_typed_def split: if_splits\<close>)
qed

section \<open>Reasons\<close>

definition rule_passes :: "prepared_risk_inputs \<Rightarrow> risk_rule_plan \<Rightarrow> prepared_risk_line option \<Rightarrow> bool" where
  "rule_passes p r line \<longleftrightarrow> risk_compare r (risk_observed p r line) = Inr Rule_PASS"

lemma risk_reason_plan_init_total: "\<exists>h. risk_reason_plan_init x = Inr (x\<lparr>risk_reason_sha256 := h\<rparr>) \<and> content_hash_ok h"
proof -
  have "canonical (risk_reason_payload x)" by (simp add: risk_reason_payload_def)
  then obtain h where "canonical_json_sha256 (risk_reason_payload x) = Inr h" using canonical_json_sha256_total by blast
  then show ?thesis using canonical_hash_ok by (auto simp: risk_reason_plan_init_def)
qed

text \<open>What the reason of an input holds.\<close>

definition reason_for ::
  "prepared_risk_inputs \<Rightarrow> int \<times> risk_rule_plan \<times> prepared_risk_line option \<Rightarrow> risk_reason_plan \<Rightarrow> bool" where
  "reason_for p nrl y \<longleftrightarrow>
     (case nrl of (n, r, line) \<Rightarrow>
        reason_ordinal y = n \<and> reason_rule y = r \<and> reason_line_id y = map_option risk_line_id line
        \<and> risk_compare r (risk_observed p r line) = Inr (reason_result y)
        \<and> risk_reason_code y = ''RULE_'' @ risk_rule_result_value (reason_result y)
        \<and> observed_decimal y = (case risk_observed p r line of Some (RDecimal d) \<Rightarrow> Some d | _ \<Rightarrow> None)
        \<and> observed_integer y = (case risk_observed p r line of Some (RInteger i) \<Rightarrow> Some i | _ \<Rightarrow> None)
        \<and> observed_text y = (case risk_observed p r line of Some (RText s) \<Rightarrow> Some s | _ \<Rightarrow> None)
        \<and> observed_boolean y = (case risk_observed p r line of Some (RBoolean b) \<Rightarrow> Some b | _ \<Rightarrow> None)
        \<and> content_hash_ok (risk_reason_sha256 y))"

lemma build_risk_reason_Inr:
  "build_risk_reason ids p nrl = Inr y \<Longrightarrow> reason_for p nrl y"
  using risk_reason_plan_init_total canonical_hash_ok
  by (auto simp: build_risk_reason_def reason_for_def bindE_Inr_iff risk_reason_plan_init_def Let_def split: prod.splits)

lemma build_risk_reason_total:
  assumes "risk_compare r (risk_observed p r line) = Inr res"
  shows "\<exists>y. build_risk_reason ids p (n, r, line) = Inr y"
  using assms risk_reason_plan_init_total by (auto simp: build_risk_reason_def Let_def)

lemma build_risk_reason_Inl:
  assumes "risk_compare r (risk_observed p r line) = Inl e"
  shows "build_risk_reason ids p (n, r, line) = Inl e"
  using assms by (simp add: build_risk_reason_def Let_def)

definition risk_policy_shape :: "risk_policy_plan \<Rightarrow> bool" where
  "risk_policy_shape policy \<longleftrightarrow> risk_rules policy \<noteq> [] \<and> list_all rule_shape (risk_rules policy)"

lemma risk_pairs_member:
  "(r, line) \<in> set (risk_pairs p policy) \<longleftrightarrow> r \<in> set (risk_rules policy) \<and> line \<in> set (rule_inputs p r)"
  by (auto simp: risk_pairs_def)

section \<open>The decision\<close>

text \<open>A decision of a policy: one reason per input in order, and the status of the reasons.\<close>

definition decision_of ::
  "prepared_risk_inputs \<Rightarrow> risk_policy_plan \<Rightarrow> decision_request \<Rightarrow> py_datetime \<Rightarrow> risk_decision_authority \<Rightarrow> bool" where
  "decision_of p policy r t d \<longleftrightarrow>
     risk_prepared d = p \<and> risk_policy d = policy
     \<and> list_all2 (reason_for p) (numbered (risk_pairs p policy)) (risk_reasons d)
     \<and> risk_status d = risk_status_of (risk_proposal_status p) (risk_reasons d)
     \<and> canonical_json_sha256 (reason_roster_payload (risk_reasons d)) = Inr (reason_roster_sha256 d)
     \<and> risk_request_identity d = decision_request_identity r
     \<and> risk_request_sha256 d = decision_request_sha256 r \<and> content_hash_ok (risk_request_sha256 d)
     \<and> risk_decided_at d = t \<and> content_hash_ok (risk_decision_sha256 d)"

lemma mapE_list_all2:
  assumes "mapE f xs = Inr ys" "\<And>x y. x \<in> set xs \<Longrightarrow> f x = Inr y \<Longrightarrow> P x y"
  shows "list_all2 P xs ys"
  using assms mapE_Inr_length [OF assms(1)] mapE_Inr_nth [OF assms(1)] by (auto simp: list_all2_conv_all_nth)

lemma mapE_one_error:
  assumes "\<And>x. x \<in> set xs \<Longrightarrow> if ok x then \<exists>y. f x = Inr y else f x = Inl e"
  shows "if \<forall>x \<in> set xs. ok x then \<exists>ys. mapE f xs = Inr ys else mapE f xs = Inl e"
  using assms
proof (induction xs)
  case (Cons x xs)
  have "if \<forall>x \<in> set xs. ok x then \<exists>ys. mapE f xs = Inr ys else mapE f xs = Inl e"
    using Cons by simp
  moreover have "if ok x then \<exists>y. f x = Inr y else f x = Inl e" using Cons.prems by simp
  ultimately show ?case by (auto split: if_splits)
qed simp

lemma numbered_all: "(\<forall>x \<in> set (numbered xs). Q (snd x)) \<longleftrightarrow> (\<forall>y \<in> set xs. Q y)"
proof -
  have "snd ` set (numbered xs) = set xs" unfolding list.set_map [symmetric] map_snd_numbered ..
  then show ?thesis by (metis (no_types, lifting) imageE imageI)
qed

lemma numbered_member: "(n, x) \<in> set (numbered xs) \<Longrightarrow> x \<in> set xs"
  using numbered_all [of xs "\<lambda>y. y \<in> set xs"] by auto

text \<open>The policy's rules that are applied to at least one input are well typed.\<close>

definition policy_well_typed :: "prepared_risk_inputs \<Rightarrow> risk_policy_plan \<Rightarrow> bool" where
  "policy_well_typed p policy \<longleftrightarrow>
     list_all (\<lambda>r. rule_inputs p r \<noteq> [] \<longrightarrow> rule_well_typed r) (risk_rules policy)"

lemma typed_pairs: "(\<forall>y \<in> set (risk_pairs p policy). rule_well_typed (fst y)) \<longleftrightarrow> policy_well_typed p policy"
proof -
  have "(\<forall>y \<in> set (risk_pairs p policy). rule_well_typed (fst y))
      \<longleftrightarrow> (\<forall>r \<in> set (risk_rules policy). \<forall>line \<in> set (rule_inputs p r). rule_well_typed r)"
    by (auto simp: risk_pairs_def)
  moreover have "(\<forall>line \<in> set xs. b) \<longleftrightarrow> (xs \<noteq> [] \<longrightarrow> b)" for b and xs :: "prepared_risk_line option list" by (cases xs) auto
  ultimately show ?thesis by (simp add: policy_well_typed_def list_all_iff)
qed

lemma reasons_built:
  assumes "risk_policy_shape policy" "finite_inputs p"
  shows "if policy_well_typed p policy
    then \<exists>ys. mapE (build_risk_reason ids p) (numbered (risk_pairs p policy)) = Inr ys
    else mapE (build_risk_reason ids p) (numbered (risk_pairs p policy)) = Inl (TypeError ''unorderable types'')"
proof -
  have "if rule_well_typed (fst (snd x)) then \<exists>y. build_risk_reason ids p x = Inr y
      else build_risk_reason ids p x = Inl (TypeError ''unorderable types'')"
    if x: "x \<in> set (numbered (risk_pairs p policy))" for x
  proof -
    obtain n r line where [simp]: "x = (n, r, line)" by (cases x)
    have "(r, line) \<in> set (risk_pairs p policy)" using x by (simp add: numbered_member)
    then have "rule_shape r" "line \<in> set (rule_inputs p r)"
      using assms(1) by (auto simp: risk_pairs_member risk_policy_shape_def list_all_iff)
    then show ?thesis
      using risk_compare_typed [OF _ assms(2)] build_risk_reason_total build_risk_reason_Inl by fastforce
  qed
  moreover have "(\<forall>x \<in> set (numbered (risk_pairs p policy)). rule_well_typed (fst (snd x))) \<longleftrightarrow> policy_well_typed p policy"
    using numbered_all [of "risk_pairs p policy" "\<lambda>y. rule_well_typed (fst y)"] typed_pairs by simp
  ultimately show ?thesis
    using mapE_one_error [of "numbered (risk_pairs p policy)" "\<lambda>x. rule_well_typed (fst (snd x))"
      "build_risk_reason ids p" "TypeError ''unorderable types''"] by simp
qed

lemma risk_decision_built:
  assumes "risk_policy_shape policy" "finite_inputs p"
    and r: "content_hash_ok (decision_request_sha256 r)" "require_utc ''Risk decided_at'' (decision_recorded_at r) = Inr t"
  shows "if policy_well_typed p policy
    then \<exists>d. build_risk_decision ids p policy r = Inr d \<and> decision_of p policy r t d
    else build_risk_decision ids p policy r = Inl (TypeError ''unorderable types'')"
proof (cases "policy_well_typed p policy")
  case False
  then show ?thesis using reasons_built [OF assms(1,2)] r(1) by (simp add: build_risk_decision_def)
next
  case True
  then obtain ys where ys: "mapE (build_risk_reason ids p) (numbered (risk_pairs p policy)) = Inr ys"
    using reasons_built [OF assms(1,2)] by auto
  obtain h where h: "canonical_json_sha256 (reason_roster_payload ys) = Inr h"
    using canonical_json_sha256_total [of "reason_roster_payload ys"] by (auto simp: reason_roster_payload_def)
  define d where "d = \<lparr>risk_decision_id = decision_root_id r, risk_prepared = p, risk_policy = policy,
        risk_status = risk_status_of (risk_proposal_status p) ys, risk_reasons = ys,
        reason_roster_sha256 = h, risk_request_identity = decision_request_identity r,
        risk_request_sha256 = decision_request_sha256 r, risk_receipt_id = decision_receipt_id r,
        risk_decided_at = t, risk_decision_sha256 = []\<rparr>"
  obtain k where k: "canonical_json_sha256 (risk_decision_payload d) = Inr k"
    using canonical_json_sha256_total [of "risk_decision_payload d"] by (auto simp: risk_decision_payload_def)
  have "build_risk_decision ids p policy r = Inr (d\<lparr>risk_decision_sha256 := k\<rparr>)"
    using ys h k r canonical_hash_ok [OF h]
    by (simp add: build_risk_decision_def risk_decision_authority_init_def d_def)
  moreover have "decision_of p policy r t (d\<lparr>risk_decision_sha256 := k\<rparr>)"
    using mapE_list_all2 [OF ys, of "reason_for p"] build_risk_reason_Inr canonical_hash_ok [OF k] h r(1)
    by (simp add: decision_of_def d_def)
  ultimately show ?thesis using True by auto
qed

section \<open>The status\<close>

lemma ex_set_nth: "(\<exists>x \<in> set xs. P x) \<longleftrightarrow> (\<exists>i < length xs. P (xs ! i))"
  by (metis in_set_conv_nth)

lemma reasons_results:
  assumes "list_all2 (reason_for p) (numbered (risk_pairs p policy)) ys"
    and "risk_policy_shape policy" "finite_inputs p"
  shows "\<forall>y \<in> set ys. reason_result y \<in> {Rule_PASS, Rule_FAIL}"
    and "(\<exists>y \<in> set ys. reason_result y = Rule_FAIL \<and> rule_severity (reason_rule y) = Severity_REJECT) \<longleftrightarrow>
      (\<exists>(r, line) \<in> set (risk_pairs p policy). rule_severity r = Severity_REJECT \<and> \<not> rule_passes p r line)"
    and "(\<exists>y \<in> set ys. reason_result y = Rule_FAIL) \<longleftrightarrow>
      (\<exists>(r, line) \<in> set (risk_pairs p policy). \<not> rule_passes p r line)"
proof -
  let ?ps = "risk_pairs p policy"
  have len: "length ys = length ?ps" using assms(1) by (simp add: list_all2_lengthD [symmetric])
  have nth: "reason_rule (ys ! i) = fst (?ps ! i)
      \<and> risk_compare (fst (?ps ! i)) (risk_observed p (fst (?ps ! i)) (snd (?ps ! i))) = Inr (reason_result (ys ! i))
      \<and> reason_result (ys ! i) \<in> {Rule_PASS, Rule_FAIL}"
    if i: "i < length ?ps" for i
  proof -
    obtain r line where rl: "?ps ! i = (r, line)" by fastforce
    then have "(r, line) \<in> set ?ps" using nth_mem [OF i] by simp
    then have "rule_shape r" "line \<in> set (rule_inputs p r)"
      using assms(2) by (auto simp: risk_pairs_member risk_policy_shape_def list_all_iff)
    then show ?thesis
      using list_all2_nthD [OF assms(1), of i] i rl risk_compare_typed [OF _ assms(3)]
      by (fastforce simp: reason_for_def split: if_splits)
  qed
  show "\<forall>y \<in> set ys. reason_result y \<in> {Rule_PASS, Rule_FAIL}"
    using nth len by (metis in_set_conv_nth)
  have fails: "reason_result (ys ! i) = Rule_FAIL \<longleftrightarrow> \<not> rule_passes p (fst (?ps ! i)) (snd (?ps ! i))"
    if "i < length ?ps" for i
    using nth [OF that] by (auto simp: rule_passes_def)
  show "(\<exists>y \<in> set ys. reason_result y = Rule_FAIL \<and> rule_severity (reason_rule y) = Severity_REJECT) \<longleftrightarrow>
      (\<exists>(r, line) \<in> set ?ps. rule_severity r = Severity_REJECT \<and> \<not> rule_passes p r line)"
    unfolding ex_set_nth len using fails nth by (auto simp: case_prod_beta)
  show "(\<exists>y \<in> set ys. reason_result y = Rule_FAIL) \<longleftrightarrow> (\<exists>(r, line) \<in> set ?ps. \<not> rule_passes p r line)"
    unfolding ex_set_nth len using fails by (auto simp: case_prod_beta)
qed

lemma decision_status:
  assumes "decision_of p policy r t d" "risk_policy_shape policy" "finite_inputs p"
  shows "risk_status d =
    (if \<exists>(r, line) \<in> set (risk_pairs p policy). rule_severity r = Severity_REJECT \<and> \<not> rule_passes p r line then REJECTED
     else if \<exists>(r, line) \<in> set (risk_pairs p policy). \<not> rule_passes p r line then Risk_UNKNOWN
     else case risk_proposal_status p of
       PROPOSED \<Rightarrow> AUTHORIZED | Proposal_NO_ACTION \<Rightarrow> Risk_NO_ACTION | Proposal_NOT_ESTIMABLE \<Rightarrow> Risk_UNKNOWN)"
proof -
  have ys: "list_all2 (reason_for p) (numbered (risk_pairs p policy)) (risk_reasons d)"
    using assms(1) by (simp add: decision_of_def)
  note res = reasons_results [OF ys assms(2,3)]
  have "list_ex (\<lambda>y. reason_result y \<in> {Rule_UNKNOWN, Rule_FAIL}) (risk_reasons d)
      \<longleftrightarrow> (\<exists>y \<in> set (risk_reasons d). reason_result y = Rule_FAIL)"
    using res(1) by (auto simp: list_ex_iff)
  then show ?thesis
    using assms(1) res(2,3)
    by (cases "risk_proposal_status p") (simp_all add: decision_of_def risk_status_of_def list_ex_iff)
qed

section \<open>Storing a decision\<close>

definition observed_count :: "risk_reason_plan \<Rightarrow> nat" where
  "observed_count y =
     (if observed_decimal y \<noteq> None then 1 else 0) + (if observed_integer y \<noteq> None then 1 else 0)
     + (if observed_text y \<noteq> None then 1 else 0) + (if observed_boolean y \<noteq> None then 1 else 0)"

definition risk_reason_shape_ck :: "risk_reason_plan \<Rightarrow> bool" where
  "risk_reason_shape_ck y \<longleftrightarrow>
     0 < reason_ordinal y
     \<and> ((rule_scope (reason_rule y) = GLOBAL \<and> reason_line_id y = None)
        \<or> (rule_scope (reason_rule y) = LINE \<and> reason_line_id y \<noteq> None))
     \<and> observed_count y = 1
     \<and> code_ok (risk_reason_code y)
     \<and> content_hash_ok (risk_reason_sha256 y)"

definition risk_decision_shape_ck :: "risk_decision_authority \<Rightarrow> bool" where
  "risk_decision_shape_ck d \<longleftrightarrow>
     length (risk_reasons d) > 0
     \<and> content_hash_ok (risk_proposal_sha256 (risk_prepared d))
     \<and> content_hash_ok (risk_policy_sha256 (risk_policy d))
     \<and> content_hash_ok (reason_roster_sha256 d)
     \<and> request_identity_ok (risk_request_identity d)
     \<and> content_hash_ok (risk_request_sha256 d)
     \<and> content_hash_ok (risk_decision_sha256 d)"

text \<open>The status the trigger computes from the stored reasons and the proposal.\<close>

definition expected_risk_status :: "portfolio_proposal_status \<Rightarrow> risk_reason_plan list \<Rightarrow> risk_decision_status" where
  "expected_risk_status status ys =
     (if \<exists>y \<in> set ys. reason_result y = Rule_FAIL \<and> rule_severity (reason_rule y) = Severity_REJECT then REJECTED
      else if \<exists>y \<in> set ys. reason_result y \<in> {Rule_UNKNOWN, Rule_FAIL} then Risk_UNKNOWN
      else case status of
        Proposal_NO_ACTION \<Rightarrow> Risk_NO_ACTION
      | Proposal_NOT_ESTIMABLE \<Rightarrow> Risk_UNKNOWN
      | _ \<Rightarrow> AUTHORIZED)"

definition risk_closure_ok :: "risk_decision_authority \<Rightarrow> bool" where
  "risk_closure_ok d \<longleftrightarrow>
     (let ys = risk_reasons d; rules = risk_rules (risk_policy d); p = risk_prepared d in
      (ys \<noteq> [] \<longrightarrow> Min (set (map reason_ordinal ys)) = 1 \<and> Max (set (map reason_ordinal ys)) = int (length ys)
         \<and> canonical_json_sha256 (reason_roster_payload (sort_key reason_ordinal ys)) = Inr (reason_roster_sha256 d))
      \<and> (\<forall>r \<in> set rules. rule_scope r = GLOBAL \<longrightarrow>
           (\<exists>y \<in> set ys. risk_rule_id (reason_rule y) = risk_rule_id r \<and> reason_line_id y = None))
      \<and> (\<forall>r \<in> set rules. \<forall>l \<in> set (risk_lines p). rule_scope r = LINE \<longrightarrow>
           (\<exists>y \<in> set ys. risk_rule_id (reason_rule y) = risk_rule_id r \<and> reason_line_id y = Some (risk_line_id l)))
      \<and> risk_status d = expected_risk_status (risk_proposal_status p) ys)"

definition risk_decision_storable :: "risk_decision_authority \<Rightarrow> bool" where
  "risk_decision_storable d \<longleftrightarrow>
     list_all risk_reason_shape_ck (risk_reasons d) \<and> risk_decision_shape_ck d \<and> risk_closure_ok d"

lemma reason_codes_ok: "code_ok (''RULE_'' @ risk_rule_result_value x)"
proof -
  have "code_ok ''RULE_PASS''" "code_ok ''RULE_FAIL''" "code_ok ''RULE_UNKNOWN''" "code_ok ''RULE_NOT_APPLICABLE''"
    by code_simp+
  then show ?thesis by (cases x) simp_all
qed

lemma reason_shape:
  assumes "reason_for p (n, r, line) y" "rule_shape r" "line \<in> set (rule_inputs p r)" "0 < n"
  shows "risk_reason_shape_ck y"
proof -
  obtain x where x: "risk_observed p r line = Some x" using observed_Some assms(2,3) by blast
  have "observed_count y = 1" using assms(1) by (cases x) (simp_all add: reason_for_def x observed_count_def)
  moreover have "(rule_scope r = GLOBAL \<and> line = None) \<or> (rule_scope r = LINE \<and> line \<noteq> None)"
    using assms(3) by (cases "rule_scope r") (auto simp: rule_inputs_def)
  ultimately show ?thesis
    using assms(1,4) reason_codes_ok by (auto simp: reason_for_def risk_reason_shape_ck_def)
qed

lemma reasons_cover:
  assumes "list_all2 (reason_for p) (numbered (risk_pairs p policy)) ys"
    and "r \<in> set (risk_rules policy)" "line \<in> set (rule_inputs p r)"
  shows "\<exists>y \<in> set ys. reason_rule y = r \<and> reason_line_id y = map_option risk_line_id line"
proof -
  have "(r, line) \<in> set (risk_pairs p policy)" using assms(2,3) by (simp add: risk_pairs_member)
  then obtain i where i: "i < length (risk_pairs p policy)" "risk_pairs p policy ! i = (r, line)"
    by (metis in_set_conv_nth)
  have "reason_for p (int (Suc i), r, line) (ys ! i)" using list_all2_nthD [OF assms(1), of i] i by simp
  moreover have "ys ! i \<in> set ys" using i(1) list_all2_lengthD [OF assms(1)] by simp
  ultimately show ?thesis by (auto simp: reason_for_def)
qed

lemma reason_ordinals:
  assumes "list_all2 (reason_for p) (numbered xs) ys"
  shows "map reason_ordinal ys = map int [1..<Suc (length xs)]" "length ys = length xs"
proof -
  show len: "length ys = length xs" using list_all2_lengthD [OF assms] by simp
  have "contiguous (map reason_ordinal ys)"
    unfolding contiguous_nth using list_all2_nthD [OF assms] len by (auto simp: reason_for_def split: prod.splits)
  then show "map reason_ordinal ys = map int [1..<Suc (length xs)]" by (simp add: contiguous_def len)
qed

lemma risk_pairs_empty: "risk_pairs p policy = [] \<longleftrightarrow> (\<forall>r \<in> set (risk_rules policy). rule_inputs p r = [])"
  by (auto simp: risk_pairs_def)

lemma decision_storable:
  assumes d: "decision_of p policy r t d" and policy: "risk_policy_shape policy" "content_hash_ok (risk_policy_sha256 policy)"
    and p: "content_hash_ok (risk_proposal_sha256 p)" and r: "request_identity_ok (decision_request_identity r)"
  shows "risk_decision_storable d \<longleftrightarrow> (\<exists>x \<in> set (risk_rules policy). rule_scope x = GLOBAL) \<or> risk_lines p \<noteq> []"
proof -
  note f = d [unfolded decision_of_def]
  have ys: "list_all2 (reason_for p) (numbered (risk_pairs p policy)) (risk_reasons d)" using f by blast
  note ords = ordinals_closed [OF reason_ordinals [OF ys]]
  have "list_all risk_reason_shape_ck (risk_reasons d)"
  proof (unfold list_all_length, intro allI impI)
    fix i assume "i < length (risk_reasons d)"
    then have i: "i < length (risk_pairs p policy)" using reason_ordinals(2) [OF ys] by simp
    obtain rule line where rl: "risk_pairs p policy ! i = (rule, line)" by fastforce
    then have "(rule, line) \<in> set (risk_pairs p policy)" using nth_mem [OF i] by simp
    then have "rule_shape rule" "line \<in> set (rule_inputs p rule)"
      using policy(1) by (auto simp: risk_pairs_member risk_policy_shape_def list_all_iff)
    then show "risk_reason_shape_ck (risk_reasons d ! i)"
      using list_all2_nthD [OF ys, of i] i rl by (intro reason_shape [of p "int (Suc i)" rule line]) auto
  qed
  moreover have "risk_closure_ok d"
    unfolding risk_closure_ok_def Let_def
  proof (intro conjI impI ballI)
    show "\<exists>y \<in> set (risk_reasons d). risk_rule_id (reason_rule y) = risk_rule_id x \<and> reason_line_id y = None"
      if "x \<in> set (risk_rules (risk_policy d))" "rule_scope x = GLOBAL" for x
      using reasons_cover [OF ys, of x None] that f by (auto simp: rule_inputs_def)
    show "\<exists>y \<in> set (risk_reasons d). risk_rule_id (reason_rule y) = risk_rule_id x
        \<and> reason_line_id y = Some (risk_line_id l)"
      if "x \<in> set (risk_rules (risk_policy d))" "l \<in> set (risk_lines (risk_prepared d))" "rule_scope x = LINE" for x l
      using reasons_cover [OF ys, of x "Some l"] that f by (auto simp: rule_inputs_def)
    show "risk_status d = expected_risk_status (risk_proposal_status (risk_prepared d)) (risk_reasons d)"
      using f by (cases "risk_proposal_status p") (simp_all add: risk_status_of_def expected_risk_status_def list_ex_iff)
    have len: "length (risk_reasons d) = length (risk_pairs p policy)" by (rule reason_ordinals(2) [OF ys])
    show "Min (set (map reason_ordinal (risk_reasons d))) = 1"
      "Max (set (map reason_ordinal (risk_reasons d))) = int (length (risk_reasons d))"
      if "risk_reasons d \<noteq> []"
      using ords(1) that unfolding len [symmetric] by simp_all
  qed (use ords(2) f in simp)
  moreover have "risk_decision_shape_ck d \<longleftrightarrow> risk_pairs p policy \<noteq> []"
    using f policy(2) p r canonical_hash_ok reason_ordinals(2) [OF ys] by (auto simp: risk_decision_shape_ck_def)
  moreover have "rule_inputs p x = [] \<longleftrightarrow> rule_scope x \<noteq> GLOBAL \<and> risk_lines p = []" for x
    by (cases "rule_scope x") (simp_all add: rule_inputs_def)
  then have "risk_pairs p policy \<noteq> [] \<longleftrightarrow> (\<exists>x \<in> set (risk_rules policy). rule_scope x = GLOBAL) \<or> risk_lines p \<noteq> []"
    using policy(1) by (auto simp: risk_pairs_empty risk_policy_shape_def neq_Nil_conv)
  ultimately show ?thesis by (simp add: risk_decision_storable_def)
qed

end
