(* ===== verification/Decision_Forecasts.thy ===== *)
theory Decision_Forecasts
  imports Decision_Signals
begin

text \<open>
  Forecasts of an accepted StrategyVersion without a model: the bounds of an estimate are
  ordered whatever the precision, a Forecast is available exactly for a Signal that is PRESENT
  and has a score, and the rows satisfy the \<open>CHECK\<close> constraints of \<open>forecast\<close> and
  \<open>forecast_estimate\<close> (\<open>migrations/001_baseline.sql\<close>).
\<close>

section \<open>Estimates\<close>

definition forecast_rule_shape :: "strategy_forecast_rule \<Rightarrow> bool" where
  "forecast_rule_shape r \<longleftrightarrow>
     is_finite (rule_coefficient r) \<and> is_finite (rule_intercept r)
     \<and> is_finite (rule_lower_offset r) \<and> is_finite (rule_upper_offset r)
     \<and> 0 \<le> dval (rule_lower_offset r) \<and> 0 \<le> dval (rule_upper_offset r)
     \<and> rule_value_unit r = ''DECIMAL_RETURN''"

lemma forecast_rule_accepted: "strategy_forecast_rule_init r0 = Inr r \<Longrightarrow> forecast_rule_shape r"
  by (auto simp: strategy_forecast_rule_init_def forecast_rule_shape_def finite_field_def bindE_Inr_iff thenE_Inr_iff
      Let_def not_less split: if_splits)

lemma rule_estimate_value:
  assumes r: "forecast_rule_shape r" and p: "0 < ambient" and score: "is_finite s"
  shows "\<exists>point lower upper. rule_estimate ambient r s = Inr (point, lower, upper)
    \<and> is_finite point \<and> is_finite lower \<and> is_finite upper
    \<and> dval point = round_sig 10 ambient (round_sig 10 ambient (dval s * dval (rule_coefficient r)) + dval (rule_intercept r))
    \<and> dval lower \<le> dval point \<and> dval point \<le> dval upper"
proof -
  note fin = r [unfolded forecast_rule_shape_def]
  obtain a where a: "decimal_mul ambient s (rule_coefficient r) = Inr a" "is_finite a"
    "dval a = round_sig 10 ambient (dval s * dval (rule_coefficient r))"
    using decimal_mul_rounds [OF p score, of "rule_coefficient r"] fin by (auto simp: rounds_to_def)
  obtain b where b: "decimal_add ambient a (rule_intercept r) = Inr b" "is_finite b"
    "dval b = round_sig 10 ambient (dval a + dval (rule_intercept r))"
    using decimal_add_rounds [OF p a(2), of "rule_intercept r"] fin by (auto simp: rounds_to_def)
  obtain l where l: "decimal_sub ambient b (rule_lower_offset r) = Inr l" "is_finite l"
    "dval l = round_sig 10 ambient (dval b - dval (rule_lower_offset r))"
    using decimal_sub_rounds [OF p b(2), of "rule_lower_offset r"] fin by (auto simp: rounds_to_def)
  obtain u where u: "decimal_add ambient b (rule_upper_offset r) = Inr u" "is_finite u"
    "dval u = round_sig 10 ambient (dval b + dval (rule_upper_offset r))"
    using decimal_add_rounds [OF p b(2), of "rule_upper_offset r"] fin by (auto simp: rounds_to_def)
  have fixed: "round_sig 10 ambient (dval b) = dval b" unfolding b(3) using p by (intro round_sig_idem) auto
  have "dval l \<le> round_sig 10 ambient (dval b)" "round_sig 10 ambient (dval b) \<le> dval u"
    unfolding l(3) u(3) using p fin by (auto intro!: round_sig_mono)
  then show ?thesis using a b l u fixed by (auto simp: rule_estimate_def)
qed

section \<open>Constraints\<close>

definition estimate_shape_ck :: "forecast_estimate_plan \<Rightarrow> bool" where
  "estimate_shape_ck e \<longleftrightarrow>
     rule_value_unit (estimate_rule e) = ''DECIMAL_RETURN''
     \<and> (case (point_estimate e, lower_bound e, upper_bound e) of
          (Some p, Some l, Some u) \<Rightarrow> dval l \<le> dval p \<and> dval p \<le> dval u
        | (None, None, None) \<Rightarrow> True
        | _ \<Rightarrow> False)
     \<and> content_hash_ok (estimate_sha256 e)"

definition forecast_shape_ck :: "forecast_plan \<Rightarrow> bool" where
  "forecast_shape_ck f \<longleftrightarrow>
     0 < forecast_ordinal f \<and> length (estimates f) > 0
     \<and> ((forecast_status_of f = Forecast_AVAILABLE \<and> calibration_status f = UNCALIBRATED)
        \<or> (forecast_status_of f \<noteq> Forecast_AVAILABLE \<and> calibration_status f = Calibration_NOT_APPLICABLE))
     \<and> code_ok (forecast_reason f)
     \<and> content_hash_ok (signal_sha256 (forecast_signal f))
     \<and> content_hash_ok (commitment_sha256 (forecast_commitment f))
     \<and> content_hash_ok (estimate_roster_sha256 f)
     \<and> content_hash_ok (forecast_sha256 f)"

text \<open>The condition of \<open>validate_forecast_closure\<close> on estimates: present exactly when available.\<close>

definition estimates_match_status :: "forecast_plan \<Rightarrow> bool" where
  "estimates_match_status f \<longleftrightarrow>
     \<not> (\<exists>e \<in> set (estimates f).
          (forecast_status_of f = Forecast_AVAILABLE \<and> point_estimate e = None)
          \<or> (forecast_status_of f \<noteq> Forecast_AVAILABLE \<and> point_estimate e \<noteq> None))"

section \<open>Forecasts\<close>

lemma estimate_total: "\<exists>h. forecast_estimate_plan_init e = Inr (e\<lparr>estimate_sha256 := h\<rparr>) \<and> content_hash_ok h"
  using canonical_json_sha256_total [of "estimate_payload e"] canonical_hash_ok
  by (auto simp: forecast_estimate_plan_init_def estimate_payload_def)

lemma build_estimate_rule:
  assumes r: "forecast_rule_shape r" and p: "0 < ambient"
    and score: "available \<Longrightarrow> \<exists>d. signal_score (signal_candidate (forecast_signal f)) = Some d \<and> is_finite d"
  shows "\<exists>e. build_estimate ambient ids f available None False r = Inr e
    \<and> estimate_shape_ck e \<and> estimate_rule e = r \<and> (point_estimate e \<noteq> None \<longleftrightarrow> available)"
proof (cases available)
  case False
  then show ?thesis
    using estimate_total r
    by (fastforce simp: build_estimate_def estimate_values_def estimate_shape_ck_def forecast_rule_shape_def)
next
  case True
  then obtain d where d: "signal_score (signal_candidate (forecast_signal f)) = Some d" "is_finite d"
    using score by blast
  obtain point lower upper where v: "rule_estimate ambient r d = Inr (point, lower, upper)"
    "dval lower \<le> dval point" "dval point \<le> dval upper"
    using rule_estimate_value [OF r p d(2)] by blast
  let ?e = "\<lparr>estimate_id = ids r f, estimate_rule = r, point_estimate = Some point,
    lower_bound = Some lower, upper_bound = Some upper, estimate_sha256 = []\<rparr>"
  obtain h where "forecast_estimate_plan_init ?e = Inr (?e\<lparr>estimate_sha256 := h\<rparr>)" "content_hash_ok h"
    using estimate_total by blast
  then show ?thesis
    using True d v r
    by (simp add: build_estimate_def estimate_values_def mapR_def estimate_shape_ck_def forecast_rule_shape_def)
qed

text \<open>A Signal as built: its hash is set and its score is a finite decimal or absent.\<close>

definition signal_ok :: "signal_plan \<Rightarrow> bool" where
  "signal_ok s \<longleftrightarrow> content_hash_ok (signal_sha256 s)
     \<and> (case signal_score (signal_candidate s) of None \<Rightarrow> True | Some d \<Rightarrow> is_finite d)"

definition signal_forecastable :: "signal_plan \<Rightarrow> bool" where
  "signal_forecastable s \<longleftrightarrow> signal_status_of s = Signal_PRESENT \<and> signal_score (signal_candidate s) \<noteq> None"

text \<open>What the Forecast of a Signal and a commitment is, without a model.\<close>

definition forecast_for :: "strategy_version_plan \<Rightarrow> int \<times> signal_plan \<times> prepared_forecast_commitment \<Rightarrow> forecast_plan \<Rightarrow> bool" where
  "forecast_for v nsc f \<longleftrightarrow>
     (case nsc of (n, s, c) \<Rightarrow>
        forecast_ordinal f = n \<and> forecast_signal f = s \<and> forecast_commitment f = c
        \<and> forecast_status_of f = (if signal_forecastable s then Forecast_AVAILABLE else Forecast_NOT_APPLICABLE)
        \<and> map estimate_rule (estimates f) = rules_for v c
        \<and> list_all estimate_shape_ck (estimates f) \<and> estimates_match_status f \<and> forecast_shape_ck f)"

lemma canonical_forecast [simp]: "canonical (forecast_payload f)" "canonical (estimate_roster_payload es)"
  by (auto simp: forecast_payload_def estimate_roster_payload_def split: prod.splits)

lemma forecast_plan_init_total:
  assumes "content_hash_ok (estimate_roster_sha256 f)"
  shows "\<exists>h. forecast_plan_init f = Inr (f\<lparr>forecast_sha256 := h\<rparr>) \<and> content_hash_ok h"
  using canonical_json_sha256_total [of "forecast_payload f"] canonical_hash_ok assms
  by (auto simp: forecast_plan_init_def)

lemma forecast_authority_init_total:
  assumes "content_hash_ok (forecast_roster_sha256 a)"
  shows "\<exists>k. forecast_authority_init a = Inr (a\<lparr>forecasts_sha256 := k\<rparr>) \<and> content_hash_ok k"
  using canonical_json_sha256_total [of "forecast_authority_payload a"] canonical_hash_ok assms
  by (auto simp: forecast_authority_init_def forecast_authority_payload_def)

lemma mapE_total:
  assumes "\<And>x. x \<in> set xs \<Longrightarrow> \<exists>y. f x = Inr y \<and> P x y"
  shows "\<exists>ys. mapE f xs = Inr ys \<and> list_all2 P xs ys"
  using assms
proof (induction xs)
  case (Cons x xs)
  obtain y where "f x = Inr y" "P x y" using Cons.prems [of x] by auto
  moreover obtain ys where "mapE f xs = Inr ys" "list_all2 P xs ys" using Cons by auto
  ultimately show ?case by auto
qed simp

lemma build_forecast_rule:
  assumes v: "list_all forecast_rule_shape (forecast_rules v)" and p: "0 < ambient"
    and s: "signal_ok s" and c: "commitment_exact v c" "content_hash_ok (commitment_sha256 c)" and n: "0 < n"
  shows "\<exists>f. build_forecast ambient fids eids None v (n, s, c) = Inr f \<and> forecast_for v (n, s, c) f"
proof -
  define available where "available = signal_forecastable s"
  define status where "status = (if available then Forecast_AVAILABLE else Forecast_NOT_APPLICABLE)"
  define reason where "reason = (if available then ''RULE_ESTIMATE_AVAILABLE'' else ''SIGNAL_NOT_PRESENT'')"
  define base where "base = \<lparr>forecast_id = fids s c, forecast_ordinal = n, forecast_signal = s,
           forecast_commitment = c, forecast_status_of = status,
           calibration_status = (if available then UNCALIBRATED else Calibration_NOT_APPLICABLE),
           forecast_reason = reason, estimate_roster_sha256 = replicate 64 (CHR ''0''),
           estimates = [], forecast_sha256 = []\<rparr>"
  have outcome: "forecast_outcome None s c = Inr (available, status, reason, None)"
    by (simp add: forecast_outcome_def available_def status_def reason_def signal_forecastable_def Let_def)
  have "content_hash_ok (replicate 64 (CHR ''0''))" by code_simp
  then obtain h0 where h0: "forecast_plan_init base = Inr (base\<lparr>forecast_sha256 := h0\<rparr>)"
    using forecast_plan_init_total [of base] by (auto simp: base_def)
  let ?prov = "base\<lparr>forecast_sha256 := h0\<rparr>"
  have "\<exists>es. mapE (build_estimate ambient eids ?prov available None False) (rules_for v c) = Inr es
      \<and> list_all2 (\<lambda>r e. estimate_shape_ck e \<and> estimate_rule e = r \<and> (point_estimate e \<noteq> None \<longleftrightarrow> available)) (rules_for v c) es"
  proof (rule mapE_total)
    fix r assume "r \<in> set (rules_for v c)"
    then have "forecast_rule_shape r" using v by (auto simp: rules_for_def list_all_iff)
    moreover have "\<exists>d. signal_score (signal_candidate (forecast_signal ?prov)) = Some d \<and> is_finite d" if available
      using that s by (auto simp: base_def available_def signal_forecastable_def signal_ok_def)
    ultimately show "\<exists>e. build_estimate ambient eids ?prov available None False r = Inr e
        \<and> estimate_shape_ck e \<and> estimate_rule e = r \<and> (point_estimate e \<noteq> None \<longleftrightarrow> available)"
      by (rule build_estimate_rule [OF _ p])
  qed
  then obtain es where es: "mapE (build_estimate ambient eids ?prov available None False) (rules_for v c) = Inr es"
    "list_all2 (\<lambda>r e. estimate_shape_ck e \<and> estimate_rule e = r \<and> (point_estimate e \<noteq> None \<longleftrightarrow> available)) (rules_for v c) es"
    by blast
  obtain h where h: "canonical_json_sha256 (estimate_roster_payload es) = Inr h"
    using canonical_json_sha256_total [of "estimate_roster_payload es"] by auto
  let ?f = "?prov\<lparr>estimate_roster_sha256 := h, estimates := es, forecast_sha256 := []\<rparr>"
  obtain k where k: "forecast_plan_init ?f = Inr (?f\<lparr>forecast_sha256 := k\<rparr>)" "content_hash_ok k"
    using forecast_plan_init_total [of ?f] canonical_hash_ok [OF h] by auto
  have "build_forecast ambient fids eids None v (n, s, c) = Inr (?f\<lparr>forecast_sha256 := k\<rparr>)"
    using outcome h0 es(1) h k(1) by (simp add: build_forecast_def base_def)
  moreover have "forecast_for v (n, s, c) (?f\<lparr>forecast_sha256 := k\<rparr>)"
  proof -
    have rules: "map estimate_rule es = rules_for v c"
      using es(2) by (auto simp: list_all2_conv_all_nth intro!: nth_equalityI)
    have each: "estimate_shape_ck e" "point_estimate e \<noteq> None \<longleftrightarrow> available" if "e \<in> set es" for e
      using es(2) that by (auto simp: list_all2_conv_all_nth in_set_conv_nth)
    have "rules_for v c \<noteq> []" using c(1) by (simp add: commitment_exact_def)
    then have "es \<noteq> []" using rules by auto
    moreover have "code_ok ''RULE_ESTIMATE_AVAILABLE''" "code_ok ''SIGNAL_NOT_PRESENT''" by code_simp+
    ultimately show ?thesis
      using rules each n s c(2) canonical_hash_ok [OF h] k(2)
      by (auto simp: forecast_for_def base_def status_def available_def reason_def list_all_iff
          estimates_match_status_def forecast_shape_ck_def signal_ok_def)
  qed
  ultimately show ?thesis by blast
qed

text \<open>The Forecasts of accepted inputs: one for every Signal and commitment of its Candidate.\<close>

lemma forecasts_built:
  assumes v: "list_all forecast_rule_shape (forecast_rules (forecast_version p))" and amb: "0 < ambient"
    and p: "prepared_forecast_inputs_init p0 = Inr p"
    and rows: "list_all signal_ok (signals (forecast_signals p))"
      "list_all (\<lambda>c. content_hash_ok (commitment_sha256 c)) (forecast_commitments p)"
    and r: "request_identity_ok (inference_request_identity r)" "content_hash_ok (inference_request_sha256 r)"
      "require_utc ''Forecast recorded_at'' (inference_recorded_at r) = Inr t"
  defines "pairs \<equiv> forecast_pairs (signals (forecast_signals p)) (forecast_commitments p)"
  shows "\<exists>a. build_forecast_authority ambient fids eids None p r = Inr a
    \<and> list_all2 (forecast_for (forecast_version p)) (numbered pairs) (forecasts a)
    \<and> forecast_count a = length pairs \<and> forecasts_signal_group_id a = signal_group_id (forecast_signals p)
    \<and> forecasts_run_id a = forecast_run_id p \<and> forecasts_version a = forecast_version p
    \<and> forecasts_recorded_at a = t \<and> content_hash_ok (forecasts_sha256 a)"
proof -
  have exact: "list_all (commitment_exact (forecast_version p)) (forecast_commitments p)"
    using p by (auto simp: prepared_forecast_inputs_init_def Let_def split: if_splits)
  have "\<exists>fs. mapE (build_forecast ambient fids eids None (forecast_version p)) (numbered pairs) = Inr fs
      \<and> list_all2 (forecast_for (forecast_version p)) (numbered pairs) fs"
  proof (rule mapE_total)
    fix x assume x: "x \<in> set (numbered pairs)"
    obtain n s c where nsc: "x = (n, s, c)" by (cases x)
    obtain i where i: "i < length pairs" "x = (int (Suc i), pairs ! i)"
      using x by (metis in_set_conv_nth length_numbered nth_numbered)
    then have "(s, c) \<in> set pairs" using nsc nth_mem by fastforce
    then have "s \<in> set (signals (forecast_signals p))" "c \<in> set (forecast_commitments p)"
      by (auto simp: pairs_def forecast_pairs_def)
    then show "\<exists>f. build_forecast ambient fids eids None (forecast_version p) x = Inr f \<and> forecast_for (forecast_version p) x f"
      using rows exact i(2) unfolding nsc
      by (intro build_forecast_rule [OF v amb]) (auto simp: list_all_iff)
  qed
  then obtain fs where fs: "mapE (build_forecast ambient fids eids None (forecast_version p)) (numbered pairs) = Inr fs"
    "list_all2 (forecast_for (forecast_version p)) (numbered pairs) fs" by blast
  obtain h where h: "canonical_json_sha256 (forecast_roster_payload fs) = Inr h"
    using canonical_json_sha256_total [of "forecast_roster_payload fs"] by (auto simp: forecast_roster_payload_def)
  define b where "b = \<lparr>forecast_group_id = inference_group_id r, forecasts_run_id = forecast_run_id p,
         forecasts_version = forecast_version p,
         forecasts_signal_group_id = signal_group_id (forecast_signals p),
         forecasts_request_identity = inference_request_identity r,
         forecasts_request_sha256 = inference_request_sha256 r,
         forecasts_receipt_id = inference_receipt_id r, forecasts_recorded_at = t,
         forecast_count = length fs,
         estimate_count = sum_list (map (\<lambda>f. length (estimates f)) fs),
         forecast_roster_sha256 = h, forecasts = fs, forecasts_sha256 = []\<rparr>"
  have "build_forecast_authority ambient fids eids None p r = forecast_authority_init b"
    using fs h r by (simp add: build_forecast_authority_def pairs_def [symmetric] b_def)
  moreover obtain k where "forecast_authority_init b = Inr (b\<lparr>forecasts_sha256 := k\<rparr>)" "content_hash_ok k"
    using forecast_authority_init_total [of b] canonical_hash_ok [OF h] by (auto simp: b_def)
  moreover have "length fs = length pairs" using list_all2_lengthD [OF fs(2)] by simp
  ultimately show ?thesis using fs(2) by (simp add: b_def)
qed

end
