(* ===== verification/Decision_Pipeline.thy ===== *)
theory Decision_Pipeline
  imports Decision_Authorization Decision_Forecasts
begin

text \<open>
  How the stages of a decision are chained: each loads what the stage before it stored
  (\<open>infrastructure/postgres/queries/decision_*_inputs.py\<close>). The rows read are those
  \<open>repositories/decision_*.py\<close> inserts, one per plan of the Authority; a join is a filter on
  the joined plans, \<open>ORDER BY\<close> is \<open>sort_key\<close>.
\<close>

section \<open>Signal inputs\<close>

text \<open>The assessments of one policy and kind, with the group they were stored in.\<close>

definition assessment_rows ::
  "context_assessment_authority list \<Rightarrow> strategy_context_requirement \<Rightarrow>
   (context_assessment_authority \<times> context_assessment_plan) list" where
  "assessment_rows as r =
     concat (map (\<lambda>a. map (Pair a) (filter (\<lambda>x. assessment_kind x = requirement_kind r) (authority_assessments a)))
       (filter (\<lambda>a. authority_policy_id a = requirement_policy_id r) as))"

definition load_signal_context ::
  "context_assessment_authority list \<Rightarrow> strategy_context_requirement \<Rightarrow> prepared_signal_context result" where
  "load_signal_context as r =
     (case assessment_rows as r of
        [(a, x)] \<Rightarrow>
          thenE (guardE (authority_policy_sha256 a = requirement_policy_sha256 r)
            (InferenceAuthorityIntegrityError ''Strategy ContextPolicy binding changed''))
          (prepared_signal_context_init
            \<lparr>signal_requirement_id = requirement_id r, signal_policy_id = requirement_policy_id r,
             signal_policy_sha256 = requirement_policy_sha256 r,
             signal_assessment_id = context_assessment_id x,
             signal_assessment_group_id = assessment_group_id x,
             signal_context_kind = requirement_kind r,
             signal_assessment_status = assessment_status x,
             signal_assessment_state = assessment_state x,
             signal_assessment_sha256 = assessment_sha256 x,
             signal_context_recorded_at = authority_recorded_at a\<rparr>)
      | _ \<Rightarrow> Inl (InferenceAuthorityIntegrityError ''Strategy Context assessment is missing or ambiguous''))"

text \<open>A row of \<open>candidate\<close> and the columns of \<open>decision_run\<close> the loader reads.\<close>

record candidate_row =
  row_candidate_id :: uuid
  row_candidate_instrument :: uuid
  row_disposition :: candidate_disposition
  row_score :: "decimal option"

record decision_run_row =
  run_id :: uuid
  run_candidate_set_id :: uuid
  run_candidate_set_sha256 :: string
  run_candidate_roster_sha256 :: string
  run_decision_time :: py_datetime
  run_candidate_count :: int

definition load_signal_inputs ::
  "decision_run_row \<Rightarrow> candidate_row list \<Rightarrow> context_assessment_authority list \<Rightarrow> strategy_version_plan \<Rightarrow>
   prepared_signal_inputs result" where
  "load_signal_inputs run rows as v =
     thenE (guardE (int (length rows) = run_candidate_count run)
       (InferenceAuthorityIntegrityError ''Candidate roster is incomplete''))
    (bindE (mapE (load_signal_context as) (context_requirements v)) (\<lambda>contexts.
     bindE (mapE (\<lambda>c. prepared_signal_candidate_init
        \<lparr>signal_candidate_id = row_candidate_id c, signal_instrument_id = row_candidate_instrument c,
         signal_disposition = row_disposition c, signal_score = row_score c, signal_contexts = contexts\<rparr>) (sort_key row_candidate_id rows)) (\<lambda>cs.
     prepared_signal_inputs_init
       \<lparr>signal_run_id = run_id run, signal_candidate_set_id = run_candidate_set_id run,
        signal_candidate_set_sha256 = run_candidate_set_sha256 run,
        signal_candidate_roster_sha256 = run_candidate_roster_sha256 run,
        signal_decision_time = run_decision_time run, signal_version = v, signal_candidates = cs\<rparr>)))"

section \<open>Opportunity inputs\<close>

definition opportunity_context_row :: "signal_context_binding_plan \<Rightarrow> prepared_opportunity_context" where
  "opportunity_context_row b =
     \<lparr>opp_binding_id = binding_id b, opp_requirement_id = signal_requirement_id (binding_context b),
      opp_assessment_id = signal_assessment_id (binding_context b),
      opp_context_kind = context_kind_value (signal_context_kind (binding_context b)),
      opp_context_sha256 = binding_content_sha256 b\<rparr>"

definition load_opportunity_item :: "forecast_plan \<times> signal_plan \<Rightarrow> prepared_opportunity_input result" where
  "load_opportunity_item fs =
     (case fs of (f, s) \<Rightarrow>
        thenE (guardE (signal_bindings s \<noteq> [])
          (DecisionAuthorityIntegrityError ''Signal Context roster is incomplete''))
       (bindE (mapE (prepared_opportunity_context_init \<circ> opportunity_context_row) (signal_bindings s)) (\<lambda>contexts.
        prepared_opportunity_input_init
          \<lparr>opp_forecast_id = forecast_id f, opp_forecast_ordinal = forecast_ordinal f,
           opp_forecast_sha256 = forecast_sha256 f, opp_forecast_status = forecast_status_of f,
           opp_calibration_status = calibration_status f,
           opp_signal_id = signal_id s, opp_signal_sha256 = signal_sha256 s, opp_signal_status = signal_status_of s,
           opp_candidate_id = commitment_candidate_id (forecast_commitment f),
           opp_instrument_id = commitment_instrument_id (forecast_commitment f),
           opp_commitment_id = commitment_id (forecast_commitment f),
           opp_commitment_sha256 = commitment_sha256 (forecast_commitment f),
           opp_target_id = commitment_target_id (forecast_commitment f),
           opp_target_sha256 = commitment_target_sha256 (forecast_commitment f),
           opp_contexts = contexts\<rparr>)))"

text \<open>The join of forecasts with their Signals.\<close>

definition forecast_rows :: "signal_authority \<Rightarrow> forecast_authority \<Rightarrow> (forecast_plan \<times> signal_plan) list" where
  "forecast_rows sa fa =
     concat (map (\<lambda>f. map (Pair f)
         (filter (\<lambda>s. signal_id s = signal_id (forecast_signal f)
            \<and> signal_candidate_id (signal_candidate s) = commitment_candidate_id (forecast_commitment f)) (signals sa)))
       (sort_key forecast_ordinal (forecasts fa)))"

definition load_opportunity_inputs ::
  "signal_authority \<Rightarrow> forecast_authority \<Rightarrow> prepared_opportunity_inputs result" where
  "load_opportunity_inputs sa fa =
     (let rows = forecast_rows sa fa; v = forecasts_version fa in
      thenE (guardE (signal_group_id sa = forecasts_signal_group_id fa \<and> signals_run_id sa = forecasts_run_id fa
          \<and> strategy_version_id (signals_version sa) = strategy_version_id v)
        (DecisionAuthorityIntegrityError ''exact ForecastRun is absent''))
     (thenE (guardE (length rows = forecast_count fa \<and> contiguous (map (forecast_ordinal \<circ> fst) rows))
        (DecisionAuthorityIntegrityError ''Forecast roster is incomplete''))
     (bindE (mapE load_opportunity_item rows) (\<lambda>items.
      prepared_opportunity_inputs_init
        \<lparr>opps_run_id = forecasts_run_id fa, opps_version_id = strategy_version_id v,
         opps_version_sha256 = strategy_version_sha256 v,
         opps_signal_group_id = signal_group_id sa, opps_signal_sha256 = signals_sha256 sa,
         opps_forecast_group_id = forecast_group_id fa, opps_forecast_sha256 = forecasts_sha256 fa,
         opps_forecast_recorded_at = forecasts_recorded_at fa, opportunity_items = items\<rparr>))))"

section \<open>Portfolio inputs\<close>

definition load_portfolio_inputs :: "opportunity_authority \<Rightarrow> prepared_portfolio_inputs result" where
  "load_portfolio_inputs oa =
     (let rows = sort_key opportunity_ordinal (opportunities oa) in
      thenE (guardE (length rows = length (opportunities oa) \<and> contiguous (map opportunity_ordinal rows))
        (DecisionAuthorityIntegrityError ''Opportunity roster is incomplete''))
     (bindE (mapE (\<lambda>o'. prepared_portfolio_opportunity_init
         \<lparr>pf_opportunity_id = opportunity_id o', pf_ordinal = opportunity_ordinal o',
          pf_candidate_id = opp_candidate_id (opportunity_source o'),
          pf_instrument_id = opp_instrument_id (opportunity_source o'),
          pf_target_id = opp_target_id (opportunity_source o'),
          pf_status = opportunity_status_of o', pf_sha256 = opportunity_sha256 o'\<rparr>) rows) (\<lambda>os.
      prepared_portfolio_inputs_init
        \<lparr>pfs_run_id = opps_run_id (opportunity_prepared oa),
         pfs_version_id = opps_version_id (opportunity_prepared oa),
         pfs_opportunity_set_id = opportunity_set_id oa,
         pfs_opportunity_set_sha256 = opportunities_sha256 oa,
         pfs_recorded_at = opportunity_recorded_at oa, pf_opportunities = os\<rparr>)))"

section \<open>Risk inputs\<close>

definition load_risk_inputs :: "int \<Rightarrow> portfolio_proposal_authority \<Rightarrow> prepared_risk_inputs result" where
  "load_risk_inputs qualifications a =
     (let rows = sort_key line_ordinal (proposal_lines a) in
      thenE (guardE (length rows = length (proposal_lines a) \<and> contiguous (map line_ordinal rows))
        (DecisionAuthorityIntegrityError ''PortfolioLine roster is incomplete''))
     (bindE (mapE (\<lambda>l. prepared_risk_line_init
         \<lparr>risk_line_id = portfolio_line_id l, risk_line_ordinal = line_ordinal l,
          risk_line_status = line_status l, risk_line_weight = proposed_weight l,
          risk_line_sha256 = line_sha256 l\<rparr>) rows) (\<lambda>ls.
      prepared_risk_inputs_init
        \<lparr>risk_proposal_id = portfolio_proposal_id a, risk_proposal_sha256 = proposal_sha256 a,
         risk_proposal_status = proposal_status a, risk_line_count = int (length (proposal_lines a)),
         risk_included_count = int (included_count a), risk_not_estimable_count = int (not_estimable_count a),
         risk_gross_weight = gross_weight a, risk_net_weight = net_weight a, risk_cash_weight = cash_weight a,
         qualification_count = qualifications, risk_lines = ls\<rparr>)))"

section \<open>What a loader keeps\<close>

lemma load_signal_context_of:
  assumes "load_signal_context as r = Inr k"
  obtains a x where "a \<in> set as" "authority_policy_id a = requirement_policy_id r"
    "authority_policy_sha256 a = requirement_policy_sha256 r"
    "x \<in> set (authority_assessments a)" "assessment_kind x = requirement_kind r"
    "signal_assessment_status k = assessment_status x" "signal_assessment_state k = assessment_state x"
    "signal_requirement_id k = requirement_id r"
proof -
  obtain a x where rows: "assessment_rows as r = [(a, x)]"
    using assms by (auto simp: load_signal_context_def split: list.splits)
  then have "(a, x) \<in> set (assessment_rows as r)" by simp
  then have "a \<in> set as" "authority_policy_id a = requirement_policy_id r"
    "x \<in> set (authority_assessments a)" "assessment_kind x = requirement_kind r"
    by (auto simp: assessment_rows_def)
  then show ?thesis
    using that assms by (auto simp: load_signal_context_def rows prepared_signal_context_init_def bindE_Inr_iff split: if_splits)
qed

lemma load_signal_inputs_of:
  assumes "load_signal_inputs run rows as v = Inr p"
  shows "signal_version p = v"
    and "c \<in> set (signal_candidates p) \<Longrightarrow>
      list_all2 (\<lambda>r k. load_signal_context as r = Inr k) (context_requirements v) (signal_contexts c)
      \<and> (\<exists>row \<in> set rows. row_candidate_id row = signal_candidate_id c \<and> row_disposition row = signal_disposition c)"
proof -
  obtain ks cs where ks: "mapE (load_signal_context as) (context_requirements v) = Inr ks"
    and cs: "mapE (\<lambda>c. prepared_signal_candidate_init
        \<lparr>signal_candidate_id = row_candidate_id c, signal_instrument_id = row_candidate_instrument c,
         signal_disposition = row_disposition c, signal_score = row_score c, signal_contexts = ks\<rparr>)
        (sort_key row_candidate_id rows) = Inr cs"
    and p: "signal_version p = v" "signal_candidates p = cs"
    using assms by (auto simp: load_signal_inputs_def prepared_signal_inputs_init_def bindE_Inr_iff split: if_splits)
  show "signal_version p = v" by (rule p(1))
  show "list_all2 (\<lambda>r k. load_signal_context as r = Inr k) (context_requirements v) (signal_contexts c)
      \<and> (\<exists>row \<in> set rows. row_candidate_id row = signal_candidate_id c \<and> row_disposition row = signal_disposition c)"
    if c: "c \<in> set (signal_candidates p)"
  proof -
    obtain row where "row \<in> set rows" "prepared_signal_candidate_init
        \<lparr>signal_candidate_id = row_candidate_id row, signal_instrument_id = row_candidate_instrument row,
         signal_disposition = row_disposition row, signal_score = row_score row, signal_contexts = ks\<rparr> = Inr c"
      using mapE_Inr_member [OF cs] c p(2) by auto
    then have "signal_contexts c = ks" "row_candidate_id row = signal_candidate_id c" "row_disposition row = signal_disposition c"
      by (auto simp: prepared_signal_candidate_init_def thenE_Inr_iff split: if_splits)
    then show ?thesis
      using mapE_list_all2 [OF ks, of "\<lambda>r k. load_signal_context as r = Inr k"] \<open>row \<in> set rows\<close> by auto
  qed
qed

lemma built_signals:
  assumes "build_signal_authority sids bids p r = Inr sa" "s \<in> set (signals sa)"
  shows "signal_candidate s \<in> set (signal_candidates p)"
    "\<exists>reason. signal_outcome (signal_version p) (signal_candidate s) = Inr (signal_status_of s, reason)"
    "content_hash_ok (signal_sha256 s)"
proof -
  have m: "mapE (build_signal sids bids (signal_version p)) (numbered (signal_candidates p)) = Inr (signals sa)"
    using assms(1) by (auto simp: build_signal_authority_def signal_authority_init_def bindE_Inr_iff Let_def split: if_splits)
  obtain n c where nc: "(n, c) \<in> set (numbered (signal_candidates p))" "build_signal sids bids (signal_version p) (n, c) = Inr s"
    using mapE_Inr_member [OF m assms(2)] by auto
  then have "signal_candidate s = c \<and> content_hash_ok (signal_sha256 s)
      \<and> (\<exists>reason. signal_outcome (signal_version p) c = Inr (signal_status_of s, reason))"
    using canonical_hash_ok by (auto simp: build_signal_def signal_plan_init_def bindE_Inr_iff Let_def split: prod.splits)
  then show "signal_candidate s \<in> set (signal_candidates p)"
    "\<exists>reason. signal_outcome (signal_version p) (signal_candidate s) = Inr (signal_status_of s, reason)"
    "content_hash_ok (signal_sha256 s)"
    using numbered_member [OF nc(1)] by auto
qed

lemma load_opportunity_item_of:
  assumes "load_opportunity_item (f, s) = Inr i"
  shows "opp_forecast_status i = forecast_status_of f" "opp_signal_status i = signal_status_of s"
    "opp_candidate_id i = commitment_candidate_id (forecast_commitment f)"
  using assms by (auto simp: load_opportunity_item_def prepared_opportunity_input_init_def bindE_Inr_iff split: if_splits)

lemma load_opportunity_inputs_of:
  assumes "load_opportunity_inputs sa fa = Inr oi" "i \<in> set (opportunity_items oi)"
  obtains f s where "f \<in> set (forecasts fa)" "s \<in> set (signals sa)"
    "signal_candidate_id (signal_candidate s) = opp_candidate_id i"
    "commitment_candidate_id (forecast_commitment f) = opp_candidate_id i"
    "signal_status_of s = opp_signal_status i" "forecast_status_of f = opp_forecast_status i"
proof -
  have "mapE load_opportunity_item (forecast_rows sa fa) = Inr (opportunity_items oi)"
    using assms(1) by (auto simp: load_opportunity_inputs_def prepared_opportunity_inputs_init_def bindE_Inr_iff Let_def
        split: if_splits)
  then obtain f s where "(f, s) \<in> set (forecast_rows sa fa)" "load_opportunity_item (f, s) = Inr i"
    using mapE_Inr_member assms(2) by fastforce
  then show ?thesis using that load_opportunity_item_of [of f s i] by (auto simp: forecast_rows_def)
qed

lemma built_opportunities:
  assumes "build_opportunity_authority oids cids oi r = Inr oa" "x \<in> set (opportunities oa)"
  shows "opportunity_source x \<in> set (opportunity_items oi)"
    "opportunity_status_of x = fst (opportunity_outcome (opportunity_source x))"
proof -
  have m: "mapE (build_opportunity oids cids) (numbered (opportunity_items oi)) = Inr (opportunities oa)"
    using assms(1) by (auto simp: build_opportunity_authority_def opportunity_authority_init_def bindE_Inr_iff Let_def
        split: if_splits)
  obtain n i where ni: "(n, i) \<in> set (numbered (opportunity_items oi))" "build_opportunity oids cids (n, i) = Inr x"
    using mapE_Inr_member [OF m assms(2)] by auto
  then have "opportunity_source x = i \<and> opportunity_status_of x = fst (opportunity_outcome i)"
    by (auto simp: build_opportunity_def opportunity_plan_init_def bindE_Inr_iff Let_def split: prod.splits)
  then show "opportunity_source x \<in> set (opportunity_items oi)"
    "opportunity_status_of x = fst (opportunity_outcome (opportunity_source x))"
    using numbered_member [OF ni(1)] by auto
qed

lemma load_portfolio_inputs_of:
  assumes "load_portfolio_inputs oa = Inr i"
  shows "list_all2 (\<lambda>x o'. pf_opportunity_id o' = opportunity_id x \<and> pf_status o' = opportunity_status_of x
      \<and> pf_candidate_id o' = opp_candidate_id (opportunity_source x) \<and> content_hash_ok (pf_sha256 o'))
    (sort_key opportunity_ordinal (opportunities oa)) (pf_opportunities i)"
proof -
  obtain os where os: "mapE (\<lambda>o'. prepared_portfolio_opportunity_init
         \<lparr>pf_opportunity_id = opportunity_id o', pf_ordinal = opportunity_ordinal o',
          pf_candidate_id = opp_candidate_id (opportunity_source o'),
          pf_instrument_id = opp_instrument_id (opportunity_source o'),
          pf_target_id = opp_target_id (opportunity_source o'),
          pf_status = opportunity_status_of o', pf_sha256 = opportunity_sha256 o'\<rparr>)
        (sort_key opportunity_ordinal (opportunities oa)) = Inr os" "pf_opportunities i = os"
    using assms by (auto simp: load_portfolio_inputs_def prepared_portfolio_inputs_init_def bindE_Inr_iff Let_def
        split: if_splits)
  show ?thesis
    unfolding os(2) by (rule mapE_list_all2 [OF os(1)])
      (auto simp: prepared_portfolio_opportunity_init_def mapR_Inr_iff)
qed

section \<open>From a weight back to the Candidate\<close>

lemma list_all2_member: "list_all2 P xs ys \<Longrightarrow> y \<in> set ys \<Longrightarrow> \<exists>x \<in> set xs. P x y"
  by (induction rule: list_all2_induct) auto

lemma built_line_source:
  assumes "build_portfolio_proposal ambient ids i p r = Inr a" "l \<in> set (proposal_lines a)"
    and "dval (proposed_weight l) \<noteq> 0"
  shows "line_source l \<in> set (pf_opportunities i)"
    "pf_opportunity_id (line_source l) \<in> pf_opportunity_id ` set (selected_opportunities p (pf_opportunities i))"
proof -
  let ?sel = "pf_opportunity_id ` set (selected_opportunities p (pf_opportunities i))"
  let ?I = "\<lambda>(ls, rem :: decimal). \<forall>l \<in> set ls. dval (proposed_weight l) \<noteq> 0 \<longrightarrow>
    line_source l \<in> set (pf_opportunities i) \<and> pf_opportunity_id (line_source l) \<in> ?sel"
  obtain rem left b where loop: "foldE (allocate_line ambient ids p (proposal_status_of p (pf_opportunities i)) ?sel b)
      (numbered (pf_opportunities i)) ([], rem) = Inr (proposal_lines a, left)"
    using assms(1)
    by (auto simp: build_portfolio_proposal_def portfolio_proposal_authority_init_def bindE_Inr_iff
        thenE_Inr_iff Let_def split: prod.splits if_splits)
  have "?I (proposal_lines a, left)"
  proof (rule foldE_keeps [OF loop])
    show "?I ([], rem)" by simp
    fix x u v assume x: "x \<in> set (numbered (pf_opportunities i))" and u: "?I u"
      and step: "allocate_line ambient ids p (proposal_status_of p (pf_opportunities i)) ?sel b x u = Inr v"
    obtain n o' where no: "x = (n, o')" by fastforce
    have "o' \<in> set (pf_opportunities i)" using x numbered_member unfolding no by fast
    then show "?I v"
      using u step unfolding no
      by (auto simp: allocate_line_def bindE_Inr_iff portfolio_line_plan_init_def thenE_Inr_iff decimal_of_int_def Let_def
          split: if_splits prod.splits)
  qed
  then show "line_source l \<in> set (pf_opportunities i)"
    "pf_opportunity_id (line_source l) \<in> pf_opportunity_id ` set (selected_opportunities p (pf_opportunities i))"
    using assms(2,3) by auto
qed

lemma weighted_line_actionable:
  assumes "build_portfolio_proposal ambient ids i p r = Inr a" "l \<in> set (proposal_lines a)"
    and "dval (proposed_weight l) \<noteq> 0" "distinct (map pf_opportunity_id (pf_opportunities i))"
  shows "line_source l \<in> set (pf_opportunities i)" "pf_status (line_source l) = ACTIONABLE"
proof -
  note src = built_line_source [OF assms(1-3)]
  have "set (selected_opportunities p (pf_opportunities i)) \<subseteq> {o' \<in> set (pf_opportunities i). pf_status o' = ACTIONABLE}"
    by (auto simp: selected_opportunities_def Let_def dest: in_set_takeD)
  then show "line_source l \<in> set (pf_opportunities i)" "pf_status (line_source l) = ACTIONABLE"
    using src assms(4) by (force simp: distinct_map dest: inj_onD)+
qed

text \<open>A requirement is met by an assessment stored for the run.\<close>

definition requirement_met :: "context_assessment_authority list \<Rightarrow> strategy_context_requirement \<Rightarrow> bool" where
  "requirement_met as r \<longleftrightarrow>
     (\<exists>a \<in> set as. authority_policy_id a = requirement_policy_id r
        \<and> authority_policy_sha256 a = requirement_policy_sha256 r
        \<and> (\<exists>x \<in> set (authority_assessments a). assessment_kind x = requirement_kind r
             \<and> assessment_status x = Metric_AVAILABLE \<and> assessment_state x = required_state r))"

lemma present_requirements_met:
  assumes "list_all2 (\<lambda>r k. load_signal_context as r = Inr k) rs ks" "list_all context_meets (zip ks rs)"
    and "r \<in> set rs" "missing_action r \<noteq> OBSERVE_ONLY"
  shows "requirement_met as r"
proof -
  obtain i where i: "i < length rs" "rs ! i = r" using assms(3) by (metis in_set_conv_nth)
  have k: "load_signal_context as r = Inr (ks ! i)" using list_all2_nthD [OF assms(1), of i] i by simp
  have "(ks ! i, r) \<in> set (zip ks rs)"
    using i list_all2_lengthD [OF assms(1)] by (metis length_zip min.idem nth_mem nth_zip)
  then have "signal_assessment_status (ks ! i) = Metric_AVAILABLE" "signal_assessment_state (ks ! i) = required_state r"
    using assms(2,4) by (auto simp: list_all_iff context_meets_def)
  then show ?thesis
    by (rule_tac load_signal_context_of [OF k]) (auto simp: requirement_met_def)
qed

lemma weighted_line_chain:
  assumes rule: "signal_rule_shape (signal_rule v)"
    and si: "load_signal_inputs run rows as v = Inr si"
    and sa: "build_signal_authority sids bids si r1 = Inr sa"
    and oi: "load_opportunity_inputs sa fa = Inr oi"
    and oa: "build_opportunity_authority oids cids oi r3 = Inr oa" "distinct (map opportunity_id (opportunities oa))"
    and pi: "load_portfolio_inputs oa = Inr i"
    and pa: "build_portfolio_proposal ambient ids i p r4 = Inr a"
    and l: "l \<in> set (proposal_lines a)" "dval (proposed_weight l) \<noteq> 0"
  shows "(\<exists>row \<in> set rows. row_candidate_id row = pf_candidate_id (line_source l)
      \<and> row_disposition row = eligible_disposition (signal_rule v))
    \<and> (\<forall>r \<in> set (context_requirements v). missing_action r \<noteq> OBSERVE_ONLY \<longrightarrow> requirement_met as r)
    \<and> (\<exists>f \<in> set (forecasts fa). commitment_candidate_id (forecast_commitment f) = pf_candidate_id (line_source l)
        \<and> forecast_status_of f = Forecast_AVAILABLE)"
proof -
  note os = load_portfolio_inputs_of [OF pi]
  have ids: "distinct (map pf_opportunity_id (pf_opportunities i))"
  proof -
    have "map pf_opportunity_id (pf_opportunities i) = map opportunity_id (sort_key opportunity_ordinal (opportunities oa))"
      using os by (auto simp: list_all2_conv_all_nth intro!: nth_equalityI)
    then show ?thesis using oa(2) by (metis distinct_map_sort_key)
  qed
  note act = weighted_line_actionable [OF pa l ids]
  obtain x where x: "x \<in> set (opportunities oa)" "opportunity_status_of x = ACTIONABLE"
    "opp_candidate_id (opportunity_source x) = pf_candidate_id (line_source l)"
    using list_all2_member [OF os act(1)] act(2) by auto
  have out: "opp_signal_status (opportunity_source x) = Signal_PRESENT"
    "opp_forecast_status (opportunity_source x) = Forecast_AVAILABLE"
    using built_opportunities(2) [OF oa(1) x(1)] x(2) by (auto simp: opportunity_outcome_def split: if_splits)
  obtain f s where fs: "f \<in> set (forecasts fa)" "s \<in> set (signals sa)"
    "signal_candidate_id (signal_candidate s) = pf_candidate_id (line_source l)"
    "commitment_candidate_id (forecast_commitment f) = pf_candidate_id (line_source l)"
    "signal_status_of s = Signal_PRESENT" "forecast_status_of f = Forecast_AVAILABLE"
    using load_opportunity_inputs_of [OF oi built_opportunities(1) [OF oa(1) x(1)]] x(3) out by metis
  note loaded = load_signal_inputs_of(2) [OF si built_signals(1) [OF sa fs(2)]]
  obtain reason where outcome: "signal_outcome v (signal_candidate s) = Inr (signal_status_of s, reason)"
    using built_signals(2) [OF sa fs(2)] load_signal_inputs_of(1) [OF si] by auto
  have len: "length (signal_contexts (signal_candidate s)) = length (context_requirements v)"
    using loaded list_all2_lengthD by fastforce
  have "signal_disposition (signal_candidate s) = eligible_disposition (signal_rule v)"
    "list_all context_meets (zip (signal_contexts (signal_candidate s)) (context_requirements v))"
    using signal_present_iff [OF rule len outcome] fs(5) by auto
  then show ?thesis using loaded fs(1,3,4,6) present_requirements_met by metis
qed

section \<open>A proposal meets the Risk limits its policy implies\<close>

text \<open>A rule that an allocation under policy \<open>p\<close> cannot fail.\<close>

definition limit_implied :: "portfolio_policy_plan \<Rightarrow> risk_rule_plan \<Rightarrow> bool" where
  "limit_implied p r \<longleftrightarrow>
     (case rule_subject r of
        GROSS_WEIGHT \<Rightarrow> rule_operator r = Risk_AT_MOST \<and> (\<exists>d. decimal_threshold r = Some d \<and> portfolio_cap p \<le> dval d)
      | NET_WEIGHT \<Rightarrow> rule_operator r = Risk_AT_MOST \<and> (\<exists>d. decimal_threshold r = Some d \<and> portfolio_cap p \<le> dval d)
      | SINGLE_LINE_WEIGHT \<Rightarrow> rule_operator r = Risk_AT_MOST
          \<and> (\<exists>d. decimal_threshold r = Some d \<and> dval (maximum_single_weight p) \<le> dval d)
      | CASH_WEIGHT \<Rightarrow> rule_operator r = Risk_AT_LEAST \<and> (\<exists>d. decimal_threshold r = Some d \<and> dval d \<le> 1 - portfolio_cap p)
      | LINE_COUNT \<Rightarrow> rule_operator r = Risk_AT_MOST \<and> (\<exists>k. integer_threshold r = Some k \<and> maximum_line_count p \<le> k)
      | PROPOSAL_STATUS \<Rightarrow> rule_operator r = Risk_EQUALS \<and> text_threshold r = Some ''PROPOSED''
      | ESTIMABILITY \<Rightarrow> rule_operator r = Risk_EQUALS \<and> boolean_threshold r = Some True
      | QUALIFICATION_PRESENCE \<Rightarrow> False)"

text \<open>What the rules observe of a proposal under policy \<open>p\<close>.\<close>

definition within_caps :: "portfolio_policy_plan \<Rightarrow> prepared_risk_inputs \<Rightarrow> bool" where
  "within_caps p q \<longleftrightarrow> finite_inputs q \<and> risk_proposal_status q = PROPOSED
     \<and> risk_included_count q \<le> maximum_line_count p \<and> risk_not_estimable_count q = 0
     \<and> dval (risk_gross_weight q) \<le> portfolio_cap p \<and> dval (risk_net_weight q) \<le> portfolio_cap p
     \<and> 1 - portfolio_cap p \<le> dval (risk_cash_weight q)
     \<and> (\<forall>l \<in> set (risk_lines q). dval (risk_line_weight l) \<le> dval (maximum_single_weight p))"

lemma one_threshold:
  assumes "rule_shape r"
  shows "decimal_threshold r = Some d \<Longrightarrow> rule_threshold r = Some (RDecimal d) \<and> is_finite d \<and> text_threshold r = None"
    "integer_threshold r = Some k \<Longrightarrow> rule_threshold r = Some (RInteger k) \<and> text_threshold r = None"
    "text_threshold r = Some s \<Longrightarrow> rule_threshold r = Some (RText s)"
    "boolean_threshold r = Some b \<Longrightarrow> rule_threshold r = Some (RBoolean b) \<and> text_threshold r = None"
  using assms by (auto simp: rule_shape_def threshold_count_def rule_threshold_def split: option.splits if_splits)

lemma decimal_of_int_le [simp]: "decimal_le (decimal_of_int i) (decimal_of_int j) = Inr (i \<le> j)"
  by (simp add: decimal_of_int_def del: decimal_le.simps)

lemma implied_limit_passes:
  assumes r: "rule_shape r" and limit: "limit_implied p r" and q: "within_caps p q" and line: "line \<in> set (rule_inputs q r)"
  shows "rule_passes q r line" "rule_well_typed r"
proof -
  note caps = q [unfolded within_caps_def finite_inputs_def]
  have lines: "\<exists>l \<in> set (risk_lines q). line = Some l" if "rule_subject r = SINGLE_LINE_WEIGHT"
    using that line r by (auto simp: rule_inputs_def rule_shape_def)
  show "rule_passes q r line"
    using limit caps lines one_threshold [OF r]
    by (cases "rule_subject r")
      (fastforce simp: limit_implied_def rule_passes_def risk_compare_def risk_observed_def value_le_def value_eq_def
        decimal_of_int_def)+
  show "rule_well_typed r"
    using limit one_threshold [OF r] by (cases "rule_subject r") (auto simp: limit_implied_def rule_well_typed_def)
qed

lemma load_risk_inputs_of:
  assumes p: "policy_shape p" "fine_ratios p" "28 \<le> ambient"
    and os: "distinct (map pf_opportunity_id (pf_opportunities i))"
    and built: "build_portfolio_proposal ambient ids i p r = Inr a" "proposal_of ambient i p r t a"
  shows "\<exists>q. load_risk_inputs n a = Inr q \<and> finite_inputs q
    \<and> risk_proposal_status q = proposal_status a \<and> content_hash_ok (risk_proposal_sha256 q)
    \<and> length (risk_lines q) = length (pf_opportunities i) \<and> (proposal_status a = PROPOSED \<longrightarrow> within_caps p q)"
proof -
  note f = proposal_of_facts [OF built(2)]
  note ls = line_roster_facts [OF f(4)]
  let ?row = "\<lambda>l. \<lparr>risk_line_id = portfolio_line_id l, risk_line_ordinal = line_ordinal l,
          risk_line_status = line_status l, risk_line_weight = proposed_weight l, risk_line_sha256 = line_sha256 l\<rparr>"
  define q where "q = \<lparr>risk_proposal_id = portfolio_proposal_id a, risk_proposal_sha256 = proposal_sha256 a,
         risk_proposal_status = proposal_status a, risk_line_count = int (length (proposal_lines a)),
         risk_included_count = int (included_count a), risk_not_estimable_count = int (not_estimable_count a),
         risk_gross_weight = gross_weight a, risk_net_weight = net_weight a, risk_cash_weight = cash_weight a,
         qualification_count = n, risk_lines = map ?row (proposal_lines a)\<rparr>"
  have sorted: "sort_key line_ordinal (proposal_lines a) = proposal_lines a" by (rule ordinals_closed(2) [OF ls(1,3)])
  have ordinals: "contiguous (map line_ordinal (proposal_lines a))" unfolding contiguous_def ls(1) by (simp del: upt_Suc)
  have rows: "mapE (\<lambda>l. prepared_risk_line_init (?row l)) (proposal_lines a) = Inr (map ?row (proposal_lines a))"
    by (rule mapE_all_Inr) (use built_lines_ok(1) [OF built(1)] in \<open>simp add: prepared_risk_line_init_def mapR_def\<close>)
  have "prepared_risk_inputs_init q = Inr q"
    using f(18) ordinals by (simp add: prepared_risk_inputs_init_def q_def comp_def)
  then have load: "load_risk_inputs n a = Inr q"
    using ordinals rows by (simp add: load_risk_inputs_def sorted q_def Let_def)
  have fin: "finite_inputs q"
    using f(9-11) lines_total(2) [OF p f(4)] by (auto simp: finite_inputs_def q_def)
  have "within_caps p q" if status: "proposal_status a = PROPOSED"
  proof -
    have "not_estimable_count a = 0"
    proof -
      have "filter ((=) Line_NOT_ESTIMABLE) (map (line_status_for PROPOSED sel) nos) = []" for sel nos
        by (induction nos) (simp_all add: line_status_for_def)
      then show ?thesis using ls(4) status f(3) unfolding f(8) count_statuses by simp
    qed
    moreover have "int (included_count a) \<le> maximum_line_count p"
      using selected_bounds(1) [OF p(1)] included_lines_count [OF os f(4)] f(6) by simp
    moreover have "dval (gross_weight a) \<le> portfolio_cap p" by (rule gross_range(3) [OF p(1) built(2)])
    ultimately show ?thesis
      using fin status f(11,14) lines_total(2) [OF p f(4)] by (auto simp: within_caps_def q_def)
  qed
  then show ?thesis using load fin f(18) ls(3) by (intro exI [of _ q]) (simp add: q_def)
qed

lemma proposal_authorized:
  assumes p: "policy_shape p" "fine_ratios p" "28 \<le> ambient"
    and os: "distinct (map pf_opportunity_id (pf_opportunities i))"
    and built: "build_portfolio_proposal ambient ids i p r = Inr a" "proposal_of ambient i p r t a" "proposal_status a = PROPOSED"
    and policy: "risk_policy_shape policy" "list_all (limit_implied p) (risk_rules policy)"
    and r': "content_hash_ok (decision_request_sha256 r')" "require_utc ''Risk decided_at'' (decision_recorded_at r') = Inr t'"
  shows "\<exists>q d. load_risk_inputs n a = Inr q \<and> build_risk_decision rids q policy r' = Inr d \<and> risk_status d = AUTHORIZED"
proof -
  obtain q where q: "load_risk_inputs n a = Inr q" "within_caps p q" "risk_proposal_status q = PROPOSED"
    using load_risk_inputs_of [OF p os built(1,2)] built(3) by force
  have fin: "finite_inputs q" using q(2) by (simp add: within_caps_def)
  have rules: "rule_shape x \<and> limit_implied p x" if "x \<in> set (risk_rules policy)" for x
    using policy that by (auto simp: risk_policy_shape_def list_all_iff)
  have pass: "rule_passes q x line" if "(x, line) \<in> set (risk_pairs q policy)" for x line
    using that rules implied_limit_passes(1) [OF _ _ q(2)] by (auto simp: risk_pairs_member)
  have "policy_well_typed q policy"
    unfolding typed_pairs [symmetric]
    using rules implied_limit_passes(2) [OF _ _ q(2)] by (auto simp: risk_pairs_member)
  then obtain d where d: "build_risk_decision rids q policy r' = Inr d" "decision_of q policy r' t' d"
    using risk_decision_built [OF policy(1) fin r'] by auto
  have "risk_status d = AUTHORIZED"
    using decision_status [OF d(2) policy(1) fin] pass q(3) by auto
  then show ?thesis using q(1) d(1) by blast
qed

end
