(* ===== verification/Decision_Completion.thy ===== *)
theory Decision_Completion
  imports Decision_Pipeline
begin

text \<open>
  The stages return: under an accepted StrategyVersion every Candidate gets its Signal, and
  every prepared input its Opportunity, whatever the statuses are.
\<close>

section \<open>Signals\<close>

text \<open>What the Signal of the \<open>n\<close>-th Candidate is.\<close>

definition signal_for ::
  "(prepared_signal_candidate \<Rightarrow> int \<Rightarrow> uuid) \<Rightarrow> strategy_version_plan \<Rightarrow> int \<times> prepared_signal_candidate \<Rightarrow>
   signal_plan \<Rightarrow> bool" where
  "signal_for sids v nc s \<longleftrightarrow>
     (case nc of (n, c) \<Rightarrow>
        signal_id s = sids c n \<and> signal_ordinal s = n \<and> signal_candidate s = c
        \<and> (\<exists>reason. signal_outcome v c = Inr (signal_status_of s, reason))
        \<and> map binding_context (signal_bindings s) = signal_contexts c
        \<and> list_all (\<lambda>b. content_hash_ok (binding_content_sha256 b)) (signal_bindings s)
        \<and> content_hash_ok (signal_sha256 s))"

lemma canonical_signal [simp]:
  "canonical (signal_payload s)" "canonical (binding_roster_payload bs)" "canonical (signal_roster_payload ss)"
  by (auto simp: signal_payload_def binding_roster_payload_def signal_roster_payload_def split: prod.splits)

lemma signal_binding_total:
  "\<exists>b. signal_context_binding_init i k = Inr b \<and> binding_context b = k \<and> content_hash_ok (binding_content_sha256 b)"
proof -
  let ?v = "PMapping [(''context_assessment_id'', PUuid (signal_assessment_id k)),
    (''context_assessment_sha256'', PStr (signal_assessment_sha256 k)),
    (''signal_context_binding_id'', PUuid i), (''strategy_context_requirement_id'', PUuid (signal_requirement_id k))]"
  have "canonical ?v" by simp
  then obtain h where "canonical_json_sha256 ?v = Inr h" using canonical_json_sha256_total by blast
  then show ?thesis using canonical_hash_ok by (simp add: signal_context_binding_init_def)
qed

lemma build_signal_total:
  assumes "signal_rule_shape (signal_rule v)" "length (signal_contexts c) = length (context_requirements v)"
  shows "\<exists>s. build_signal sids bids v (n, c) = Inr s \<and> signal_for sids v (n, c) s"
proof -
  obtain bs where bs: "mapE (\<lambda>k. signal_context_binding_init (bids c k) k) (signal_contexts c) = Inr bs"
    "list_all2 (\<lambda>k b. binding_context b = k \<and> content_hash_ok (binding_content_sha256 b)) (signal_contexts c) bs"
    using mapE_total [of "signal_contexts c" "\<lambda>k. signal_context_binding_init (bids c k) k"
        "\<lambda>k b. binding_context b = k \<and> content_hash_ok (binding_content_sha256 b)"] signal_binding_total by blast
  obtain status reason where outcome: "signal_outcome v c = Inr (status, reason)"
    using signal_outcome_value [OF assms] by blast
  obtain h where h: "canonical_json_sha256 (binding_roster_payload bs) = Inr h"
    using canonical_json_sha256_total canonical_signal by blast
  define s where "s = \<lparr>signal_id = sids c n, signal_ordinal = n, signal_candidate = c,
    signal_status_of = status, signal_reason = reason, signal_binding_roster_sha256 = h,
    signal_bindings = bs, signal_sha256 = []\<rparr>"
  obtain k where k: "canonical_json_sha256 (signal_payload s) = Inr k"
    using canonical_json_sha256_total canonical_signal by blast
  have "build_signal sids bids v (n, c) = Inr (s\<lparr>signal_sha256 := k\<rparr>)"
    using bs(1) outcome h k canonical_hash_ok [OF h] by (simp add: build_signal_def signal_plan_init_def s_def)
  moreover have "map binding_context bs = signal_contexts c"
    using bs(2) by (auto simp: list_all2_conv_all_nth intro: nth_equalityI)
  moreover have "list_all (\<lambda>b. content_hash_ok (binding_content_sha256 b)) bs"
    using bs(2) by (auto simp: list_all2_conv_all_nth list_all_length)
  ultimately show ?thesis
    using outcome canonical_hash_ok [OF k] by (simp add: signal_for_def s_def)
qed

text \<open>A request the inference stages accept at instant \<open>t\<close>.\<close>

definition inference_request_ok :: "string \<Rightarrow> inference_request \<Rightarrow> py_datetime \<Rightarrow> bool" where
  "inference_request_ok label r t \<longleftrightarrow>
     request_identity_ok (inference_request_identity r) \<and> content_hash_ok (inference_request_sha256 r)
     \<and> require_utc label (inference_recorded_at r) = Inr t"

lemma signals_built:
  assumes v: "signal_rule_shape (signal_rule (signal_version p))"
    and cs: "\<forall>c \<in> set (signal_candidates p). length (signal_contexts c) = length (context_requirements (signal_version p))"
    and r: "inference_request_ok ''Signal recorded_at'' r t" "instant_of (signal_decision_time p) < instant_of t"
    "signal_decision_time p = Aware x off"
  shows "\<exists>a. build_signal_authority sids bids p r = Inr a
    \<and> list_all2 (signal_for sids (signal_version p)) (numbered (signal_candidates p)) (signals a)
    \<and> signal_group_id a = inference_group_id r \<and> signals_run_id a = signal_run_id p
    \<and> signals_version a = signal_version p \<and> content_hash_ok (signals_sha256 a)"
proof -
  have "\<exists>ss. mapE (build_signal sids bids (signal_version p)) (numbered (signal_candidates p)) = Inr ss
      \<and> list_all2 (signal_for sids (signal_version p)) (numbered (signal_candidates p)) ss"
  proof (rule mapE_total)
    fix x assume x: "x \<in> set (numbered (signal_candidates p))"
    obtain n c where nc: "x = (n, c)" by fastforce
    then have "c \<in> set (signal_candidates p)" using x numbered_member by fast
    then show "\<exists>s. build_signal sids bids (signal_version p) x = Inr s \<and> signal_for sids (signal_version p) x s"
      unfolding nc using build_signal_total [OF v] cs by blast
  qed
  then obtain ss where ss: "mapE (build_signal sids bids (signal_version p)) (numbered (signal_candidates p)) = Inr ss"
    "list_all2 (signal_for sids (signal_version p)) (numbered (signal_candidates p)) ss" by blast
  obtain h where h: "canonical_json_sha256 (signal_roster_payload ss) = Inr h"
    using canonical_json_sha256_total canonical_signal by blast
  define a where "a = \<lparr>signal_group_id = inference_group_id r, signals_run_id = signal_run_id p,
         signals_candidate_set_id = signal_candidate_set_id p,
         signals_candidate_set_sha256 = signal_candidate_set_sha256 p,
         signals_candidate_roster_sha256 = signal_candidate_roster_sha256 p,
         signals_decision_time = signal_decision_time p, signals_version = signal_version p,
         signals_request_identity = inference_request_identity r,
         signals_request_sha256 = inference_request_sha256 r,
         signals_receipt_id = inference_receipt_id r, signals_recorded_at = t,
         signal_count = length ss,
         signal_binding_count = sum_list (map (\<lambda>s. length (signal_bindings s)) ss),
         signal_roster_sha256 = h, signals = ss, signals_sha256 = []\<rparr>"
  obtain k where k: "canonical_json_sha256 (signal_authority_payload a) = Inr k"
    using canonical_json_sha256_total [of "signal_authority_payload a"] r(3)
    by (auto simp: signal_authority_payload_def a_def)
  have "build_signal_authority sids bids p r = Inr (a\<lparr>signals_sha256 := k\<rparr>)"
    using ss(1) h k r canonical_hash_ok [OF h]
    by (simp add: build_signal_authority_def signal_authority_init_def inference_request_ok_def a_def)
  then show ?thesis using ss(2) canonical_hash_ok [OF k] by (simp add: a_def)
qed

section \<open>Opportunities\<close>

definition opportunity_for ::
  "(prepared_opportunity_input \<Rightarrow> uuid) \<Rightarrow> int \<times> prepared_opportunity_input \<Rightarrow> opportunity_plan \<Rightarrow> bool" where
  "opportunity_for oids ni x \<longleftrightarrow>
     (case ni of (n, i) \<Rightarrow>
        opportunity_id x = oids i \<and> opportunity_ordinal x = n \<and> opportunity_source x = i
        \<and> (opportunity_status_of x, opportunity_action x, opportunity_reason x) = opportunity_outcome i
        \<and> map opportunity_context_source (opportunity_contexts x) = opp_contexts i
        \<and> content_hash_ok (opportunity_sha256 x))"

lemma canonical_opportunity [simp]:
  "canonical (opportunity_payload x)" "canonical (opportunity_context_roster cs)" "canonical (opportunity_roster os)"
  "canonical (opportunity_authority_payload a)"
  by (auto simp: opportunity_payload_def opportunity_context_roster_def opportunity_roster_def
      opportunity_authority_payload_def)

lemma opportunity_context_total:
  "\<exists>x. opportunity_context_plan_init i c n = Inr x \<and> opportunity_context_source x = c"
proof -
  let ?v = "PMapping [(''context_assessment_id'', PUuid (opp_assessment_id c)), (''ordinal'', PInt n),
    (''opportunity_context_id'', PUuid i), (''signal_context_binding_id'', PUuid (opp_binding_id c)),
    (''strategy_context_requirement_id'', PUuid (opp_requirement_id c))]"
  have "canonical ?v" by simp
  then obtain h where "canonical_json_sha256 ?v = Inr h" using canonical_json_sha256_total by blast
  then show ?thesis by (simp add: opportunity_context_plan_init_def)
qed

lemma build_opportunity_total: "\<exists>x. build_opportunity oids cids (n, i) = Inr x \<and> opportunity_for oids (n, i) x"
proof -
  obtain status action reason where out: "opportunity_outcome i = (status, action, reason)" by (cases "opportunity_outcome i")
  have "\<exists>xs. mapE (\<lambda>(k, c). opportunity_context_plan_init (cids i c) c k) (numbered (opp_contexts i)) = Inr xs
      \<and> list_all2 (\<lambda>kc x. opportunity_context_source x = snd kc) (numbered (opp_contexts i)) xs"
    by (rule mapE_total) (use opportunity_context_total in \<open>auto split: prod.split\<close>)
  then obtain xs where xs: "mapE (\<lambda>(k, c). opportunity_context_plan_init (cids i c) c k) (numbered (opp_contexts i)) = Inr xs"
    "list_all2 (\<lambda>kc x. opportunity_context_source x = snd kc) (numbered (opp_contexts i)) xs" by blast
  have sources: "map opportunity_context_source xs = opp_contexts i"
    using xs(2) by (auto simp: list_all2_conv_all_nth intro!: nth_equalityI)
  obtain h where h: "canonical_json_sha256 (opportunity_context_roster xs) = Inr h"
    using canonical_json_sha256_total canonical_opportunity by blast
  define x where "x = \<lparr>opportunity_id = oids i, opportunity_ordinal = n, opportunity_source = i,
    opportunity_status_of = status, opportunity_action = action, opportunity_reason = reason,
    opportunity_contexts = xs, opportunity_context_roster_sha256 = h, opportunity_sha256 = []\<rparr>"
  obtain k where k: "canonical_json_sha256 (opportunity_payload x) = Inr k"
    using canonical_json_sha256_total canonical_opportunity by blast
  have "build_opportunity oids cids (n, i) = Inr (x\<lparr>opportunity_sha256 := k\<rparr>)"
    using out xs(1) h k canonical_hash_ok [OF h] by (simp add: build_opportunity_def opportunity_plan_init_def x_def)
  then show ?thesis using out sources canonical_hash_ok [OF k] by (simp add: opportunity_for_def x_def)
qed

definition decision_request_ok :: "string \<Rightarrow> decision_request \<Rightarrow> py_datetime \<Rightarrow> bool" where
  "decision_request_ok label r t \<longleftrightarrow>
     request_identity_ok (decision_request_identity r) \<and> content_hash_ok (decision_request_sha256 r)
     \<and> require_utc label (decision_recorded_at r) = Inr t"

lemma opportunities_built:
  assumes r: "decision_request_ok ''Opportunity recorded_at'' r t"
    "instant_of (opps_forecast_recorded_at p) \<le> instant_of t"
  shows "\<exists>a. build_opportunity_authority oids cids p r = Inr a
    \<and> list_all2 (opportunity_for oids) (numbered (opportunity_items p)) (opportunities a)
    \<and> opportunity_prepared a = p \<and> opportunity_recorded_at a = t \<and> content_hash_ok (opportunities_sha256 a)"
proof -
  have "\<exists>xs. mapE (build_opportunity oids cids) (numbered (opportunity_items p)) = Inr xs
      \<and> list_all2 (opportunity_for oids) (numbered (opportunity_items p)) xs"
    by (rule mapE_total) (use build_opportunity_total in \<open>metis surj_pair\<close>)
  then obtain xs where xs: "mapE (build_opportunity oids cids) (numbered (opportunity_items p)) = Inr xs"
    "list_all2 (opportunity_for oids) (numbered (opportunity_items p)) xs" by blast
  obtain h where h: "canonical_json_sha256 (opportunity_roster xs) = Inr h"
    using canonical_json_sha256_total canonical_opportunity by blast
  define a where "a = \<lparr>opportunity_set_id = decision_root_id r, opportunity_prepared = p, opportunities = xs,
         opportunity_roster_sha256 = h,
         opportunity_context_count = sum_list (map (\<lambda>o'. length (opportunity_contexts o')) xs),
         opportunity_request_identity = decision_request_identity r,
         opportunity_request_sha256 = decision_request_sha256 r,
         opportunity_receipt_id = decision_receipt_id r, opportunity_recorded_at = t,
         opportunities_sha256 = []\<rparr>"
  obtain k where k: "canonical_json_sha256 (opportunity_authority_payload a) = Inr k"
    using canonical_json_sha256_total [OF canonical_opportunity(4)] by blast
  have "build_opportunity_authority oids cids p r = Inr (a\<lparr>opportunities_sha256 := k\<rparr>)"
    using xs(1) h k r canonical_hash_ok [OF h]
    by (simp add: build_opportunity_authority_def opportunity_authority_init_def decision_request_ok_def a_def)
  then show ?thesis using xs(2) canonical_hash_ok [OF k] by (simp add: a_def)
qed

end
