(* ===== verification/Decision_Contexts.thy ===== *)
theory Decision_Contexts
  imports Decision_Metrics Decision_Completion
begin

text \<open>
  When \<open>build_context_assessment_authority\<close> returns: for accepted inputs the only failure is a
  metric whose reducer has nothing to reduce.
\<close>

section \<open>Accepted inputs\<close>

definition is_aware :: "py_datetime \<Rightarrow> bool" where
  "is_aware d \<longleftrightarrow> (\<exists>t off. d = Aware t off)"

lemma require_utc_aware: "is_aware d \<Longrightarrow> \<exists>u. require_utc label d = Inr u \<and> is_aware u"
  by (auto simp: is_aware_def)

lemma require_utc_is_aware: "require_utc label d = Inr u \<Longrightarrow> is_aware u"
  by (cases d) (auto simp: is_aware_def)

definition context_inputs_shape :: "prepared_context_inputs \<Rightarrow> bool" where
  "context_inputs_shape p \<longleftrightarrow>
     (let ms = context_metrics (context_policy p) in
      distinct (map context_policy_metric_id ms)
      \<and> (\<forall>m \<in> set ms. metric_shape m \<and> list_all (source_fits m) (sources_of (context_sources p) m))
      \<and> list_all (is_aware \<circ> source_known_at) (context_sources p)
      \<and> content_hash_ok (context_policy_sha256 (context_policy p))
      \<and> content_hash_ok (context_candidate_set_sha256 p) \<and> content_hash_ok (context_candidate_roster_sha256 p)
      \<and> is_aware (context_decision_time p) \<and> 0 \<le> context_candidate_count p)"

text \<open>The checks on every source leave only sources that fit their metric.\<close>

lemma check_roster_fits:
  assumes "foldE (check_metric_roster sources n cutoff) ms acc = Inr acc'"
    and "\<forall>s \<in> set sources. \<exists>s0. prepared_context_source_init s0 = Inr s" "m \<in> set ms"
  shows "list_all (source_fits m) (sources_of sources m)"
  using assms(1,3)
proof (induction ms arbitrary: acc)
  case (Cons k ms)
  obtain mid where step: "check_metric_roster sources n cutoff k acc = Inr mid"
    and rest: "foldE (check_metric_roster sources n cutoff) ms mid = Inr acc'"
    using Cons.prems(1) by (auto simp: bindE_Inr_iff)
  show ?case
  proof (cases "m = k")
    case True
    obtain us where us: "mapE (check_source k cutoff) (sources_of sources k) = Inr us"
      using step by (auto simp: check_metric_roster_def bindE_Inr_iff Let_def split: if_splits)
    have "source_fits k s" if s: "s \<in> set (sources_of sources k)" for s
    proof -
      obtain i where i: "i < length (sources_of sources k)" "sources_of sources k ! i = s" using s by (metis in_set_conv_nth)
      have "check_source k cutoff s = Inr ()" using mapE_Inr_nth [OF us i(1)] i(2) by simp
      moreover obtain s0 where "prepared_context_source_init s0 = Inr s" using assms(2) s by (auto simp: sources_of_def)
      ultimately show ?thesis using source_accepted by blast
    qed
    then show ?thesis using True by (simp add: list_all_iff)
  next
    case False
    then show ?thesis using Cons.IH rest Cons.prems(2) by simp
  qed
qed simp

lemma context_policy_accepted:
  assumes "context_policy_plan_init p0 = Inr p"
  shows "distinct (map context_policy_metric_id (context_metrics p))" "content_hash_ok (context_policy_sha256 p)"
  using assms canonical_hash_ok by (auto simp: context_policy_plan_init_def bindE_Inr_iff Let_def split: if_splits)

lemma context_inputs_accepted:
  assumes p: "prepared_context_inputs_init p0 = Inr p"
    and policy: "context_policy_plan_init pol = Inr (context_policy p0)"
    and ms: "\<forall>m \<in> set (context_metrics (context_policy p0)). \<exists>m0. context_metric_definition_init m0 = Inr m"
    and ss: "\<forall>s \<in> set (context_sources p0). \<exists>s0. prepared_context_source_init s0 = Inr s"
  shows "context_inputs_shape p"
proof -
  obtain cutoff es t where fold: "foldE (check_metric_roster (context_sources p0) (context_candidate_count p0) cutoff)
      (context_metrics (context_policy p0)) None = Inr es"
    and t: "require_utc ''DecisionTime'' (context_decision_time p0) = Inr t"
    and same: "context_policy p = context_policy p0" "context_sources p = context_sources p0" "context_decision_time p = t"
    and checks: "content_hash_ok (context_candidate_set_sha256 p)" "content_hash_ok (context_candidate_roster_sha256 p)"
      "0 \<le> context_candidate_count p"
    using p by (auto simp: prepared_context_inputs_init_def bindE_Inr_iff Let_def split: if_splits)
  have "is_aware (source_known_at s)" if s: "s \<in> set (context_sources p0)" for s
  proof -
    obtain s0 where "prepared_context_source_init s0 = Inr s" using ss s by blast
    then show ?thesis
      using require_utc_is_aware
      by (auto simp: prepared_context_source_init_def bindE_Inr_iff thenE_Inr_iff Let_def simp del: thenE_simps split: if_splits)
  qed
  then show ?thesis
    using context_policy_accepted [OF policy] check_roster_fits [OF fold ss] ms metric_accepted require_utc_is_aware [OF t] checks
    by (fastforce simp: context_inputs_shape_def same list_all_iff Let_def)
qed

section \<open>Metrics\<close>

text \<open>A metric of which every source is missing, that requires none, and whose reducer needs one.\<close>

definition metric_raises :: "context_metric_definition \<Rightarrow> prepared_context_source list \<Rightarrow> bool" where
  "metric_raises m sources \<longleftrightarrow>
     minimum_source_count m \<le> int (length sources) \<and> minimum_available_count m \<le> 0
     \<and> (\<forall>s \<in> set sources. value_status s = Source_UNAVAILABLE) \<and> metric_reducer m \<noteq> SUM_DECIMAL"

lemma metric_raises_iff:
  "metric_raises m sources \<longleftrightarrow>
     \<not> insufficient m sources \<and> available_sources sources = [] \<and> metric_reducer m \<noteq> SUM_DECIMAL"
proof -
  have "value_status s = Source_UNAVAILABLE \<longleftrightarrow> value_status s \<noteq> Source_AVAILABLE \<and> value_status s \<noteq> Source_FAILED" for s
    by (cases "value_status s") auto
  then show ?thesis
    by (auto simp: metric_raises_def insufficient_def available_sources_def filter_empty_conv not_less)
qed

lemma canonical_context [simp]:
  "canonical (source_plan_roster ss)" "canonical (context_metric_plan_payload x)" "canonical (metric_plan_roster xs)"
  "canonical (context_assessment_payload y)" "canonical (assessment_roster ys)"
  by (auto simp: source_plan_roster_def context_metric_plan_payload_def metric_plan_roster_def
      context_assessment_payload_def assessment_roster_def split: prod.splits)

lemma source_plan_total:
  assumes "is_aware (source_known_at s)"
  shows "\<exists>x. context_metric_source_plan_init i s = Inr x"
proof -
  have "canonical (PMapping [(''context_metric_source_id'', PUuid i), (''source'', prepared_source_payload s)])"
    using assms by (auto simp: prepared_source_payload_def is_aware_def)
  then show ?thesis using canonical_json_sha256_total by (fastforce simp: context_metric_source_plan_init_def)
qed

lemma metric_plan_init_total:
  assumes "content_hash_ok (metric_source_roster_sha256 x)" "case metric_value x of None \<Rightarrow> True | Some d \<Rightarrow> is_finite d"
  shows "\<exists>h. context_metric_plan_init x = Inr (x\<lparr>metric_plan_sha256 := h\<rparr>)"
  using canonical_json_sha256_total [OF canonical_context(2), of x] assms
  by (auto simp: context_metric_plan_init_def finite_field_def)

lemma metric_result_finite:
  assumes "metric_result ambient m sources = Inr (status, st, v)" "metric_shape m" "list_all (source_fits m) sources" "0 < ambient"
  shows "case v of None \<Rightarrow> True | Some d \<Rightarrow> is_finite d"
proof -
  have "filter (\<lambda>s. value_status s = Source_AVAILABLE) sources = available_sources sources"
    by (simp add: available_sources_def)
  then show ?thesis
    using assms(1) reduce_metric_total [OF assms(4,3)]
    by (fastforce simp: metric_result_def bindE_Inr_iff split: if_splits)
qed

lemma build_metric_plan_iff:
  assumes m: "metric_shape m" "list_all (source_fits m) (sources_of ss m)" and amb: "0 < ambient"
    and aware: "list_all (is_aware \<circ> source_known_at) ss"
  shows "if metric_raises m (sources_of ss m) then \<exists>e. build_metric_plan ambient mids sids ss m = Inl e
    else \<exists>x. build_metric_plan ambient mids sids ss m = Inr x"
proof -
  let ?ss = "sources_of ss m"
  have "\<exists>xs. mapE (\<lambda>s. context_metric_source_plan_init (sids m s) s) ?ss = Inr xs \<and> list_all2 (\<lambda>_ _. True) ?ss xs"
    using aware by (intro mapE_total) (auto simp: sources_of_def list_all_iff intro!: source_plan_total)
  then obtain xs where xs: "mapE (\<lambda>s. context_metric_source_plan_init (sids m s) s) ?ss = Inr xs" by blast
  obtain h where h: "canonical_json_sha256 (source_plan_roster xs) = Inr h"
    using canonical_json_sha256_total canonical_context by blast
  have raises: "(\<exists>e. metric_result ambient m ?ss = Inl e) \<longleftrightarrow> metric_raises m ?ss"
    using metric_result_fails_iff [OF m amb] by (simp add: metric_raises_iff)
  show ?thesis
  proof (cases "metric_result ambient m ?ss")
    case (Inl e)
    then show ?thesis using raises xs h by (auto simp: build_metric_plan_def Let_def)
  next
    case (Inr out)
    obtain status st v where out: "out = (status, st, v)" by (cases out)
    have fin: "case v of None \<Rightarrow> True | Some d \<Rightarrow> is_finite d" using metric_result_finite [OF _ m amb] Inr out by blast
    define x where "x = \<lparr>context_metric_id = mids m, plan_definition = m,
         metric_status = status, metric_state = st, metric_value = v, metric_source_total = length ?ss,
         metric_available_count = length (filter (\<lambda>s. value_status s = Source_AVAILABLE) ?ss),
         metric_unavailable_count = length (filter (\<lambda>s. value_status s = Source_UNAVAILABLE) ?ss),
         metric_failed_count = length (filter (\<lambda>s. value_status s = Source_FAILED) ?ss),
         metric_source_roster_sha256 = h, metric_sources = xs, metric_plan_sha256 = []\<rparr>"
    have "\<exists>k. context_metric_plan_init x = Inr (x\<lparr>metric_plan_sha256 := k\<rparr>)"
      by (rule metric_plan_init_total) (use canonical_hash_ok [OF h] fin in \<open>simp_all add: x_def\<close>)
    moreover have "build_metric_plan ambient mids sids ss m = context_metric_plan_init x"
      using xs h Inr out by (simp add: build_metric_plan_def x_def Let_def)
    ultimately show ?thesis using raises Inr by auto
  qed
qed

section \<open>Assessments\<close>

lemma mapE_total_iff:
  assumes "\<And>x. x \<in> set xs \<Longrightarrow> if bad x then \<exists>e. f x = Inl e else \<exists>y. f x = Inr y"
  shows "if \<exists>x \<in> set xs. bad x then \<exists>e. mapE f xs = Inl e else \<exists>ys. mapE f xs = Inr ys"
  using assms
proof (induction xs)
  case (Cons x xs)
  have "if \<exists>x \<in> set xs. bad x then \<exists>e. mapE f xs = Inl e else \<exists>ys. mapE f xs = Inr ys" using Cons by simp
  moreover have "if bad x then \<exists>e. f x = Inl e else \<exists>y. f x = Inr y" using Cons.prems by simp
  ultimately show ?case by (auto split: if_splits)
qed simp

lemma dict_of_finds:
  assumes "k \<in> set (map fst kvs)"
  shows "\<exists>v. map_of (dict_of kvs) k = Some v"
proof -
  have "fst ` set (AList.update k' w d) = insert k' (fst ` set d)" for k' w and d :: "('a \<times> 'b) list"
    by (induction d) auto
  then have "fst ` set (dict_of kvs) = fst ` set kvs"
    by (induction kvs rule: rev_induct) (auto simp: dict_of_def)
  then show ?thesis using assms by (metis list.set_map map_of_eq_None_iff not_None_eq)
qed

definition context_request_ok :: "context_request \<Rightarrow> py_datetime \<Rightarrow> bool" where
  "context_request_ok r t \<longleftrightarrow>
     request_identity_ok (context_request_identity r) \<and> content_hash_ok (context_request_sha256 r)
     \<and> require_utc ''Context recorded_at'' (context_recorded_at r) = Inr t"

lemma assessment_plan_init_total:
  assumes "content_hash_ok (assessment_metric_roster_sha256 x)"
  shows "\<exists>h. context_assessment_plan_init x = Inr (x\<lparr>assessment_sha256 := h\<rparr>) \<and> content_hash_ok h"
  using canonical_json_sha256_total [OF canonical_context(4), of x] assms canonical_hash_ok
  by (auto simp: context_assessment_plan_init_def)

lemma build_assessment_total:
  assumes "\<forall>m \<in> set ms. context_policy_metric_id m \<in> set (map fst pairs)"
  shows "\<exists>x. build_assessment aids g ms (dict_of pairs) (n, k) = Inr x
    \<and> assessment_kind x = k \<and> content_hash_ok (assessment_sha256 x)"
proof -
  have "\<exists>xs. mapE (\<lambda>m. dict_item (dict_of pairs) (context_policy_metric_id m)) (filter (\<lambda>m. metric_kind m = k) ms) = Inr xs
      \<and> list_all2 (\<lambda>_ _. True) (filter (\<lambda>m. metric_kind m = k) ms) xs"
    using assms dict_of_finds by (intro mapE_total) fastforce
  then obtain xs where xs: "mapE (\<lambda>m. dict_item (dict_of pairs) (context_policy_metric_id m))
      (filter (\<lambda>m. metric_kind m = k) ms) = Inr xs" by blast
  obtain h where h: "canonical_json_sha256 (metric_plan_roster xs) = Inr h"
    using canonical_json_sha256_total canonical_context by blast
  define x where "x = \<lparr>context_assessment_id = aids k n, assessment_group_id = g,
           assessment_ordinal = n, assessment_kind = k,
           assessment_status = context_assessment_status (map metric_status xs),
           assessment_state = context_assessment_state (map metric_state xs),
           assessment_metric_count = length xs, assessment_metric_roster_sha256 = h,
           assessment_metrics = xs, assessment_sha256 = []\<rparr>"
  have "build_assessment aids g ms (dict_of pairs) (n, k) = context_assessment_plan_init x"
    using xs h by (simp add: build_assessment_def x_def del: context_assessment_status.simps context_assessment_state.simps)
  moreover obtain l where "context_assessment_plan_init x = Inr (x\<lparr>assessment_sha256 := l\<rparr>)" "content_hash_ok l"
    using assessment_plan_init_total [of x] canonical_hash_ok [OF h] by (auto simp: x_def)
  ultimately show ?thesis by (simp add: x_def)
qed

lemma context_authority_init_total:
  assumes "request_identity_ok (authority_request_identity a)" "content_hash_ok (authority_request_sha256 a)"
    "content_hash_ok (authority_policy_sha256 a)" "content_hash_ok (authority_candidate_set_sha256 a)"
    "content_hash_ok (authority_candidate_roster_sha256 a)" "is_aware (authority_decision_time a)"
    "0 \<le> authority_candidate_count a" "content_hash_ok (authority_assessment_roster_sha256 a)"
    "require_utc ''Context recorded_at'' (authority_recorded_at a) = Inr t"
  shows "\<exists>d k. context_assessment_authority_init a
    = Inr (a\<lparr>authority_decision_time := d, authority_recorded_at := t, authority_sha256 := k\<rparr>)"
proof -
  obtain d where d: "require_utc ''DecisionTime'' (authority_decision_time a) = Inr d" "is_aware d"
    using require_utc_aware assms(6) by blast
  let ?a = "a\<lparr>authority_decision_time := d, authority_recorded_at := t\<rparr>"
  have "canonical (context_authority_payload ?a)" using d(2) by (auto simp: context_authority_payload_def is_aware_def)
  then obtain k where "canonical_json_sha256 (context_authority_payload ?a) = Inr k" using canonical_json_sha256_total by blast
  then show ?thesis using assms d(1) by (cases a) (simp add: context_assessment_authority_init_def Let_def)
qed

lemma contexts_built:
  assumes p: "context_inputs_shape p" and amb: "0 < ambient" and r: "context_request_ok r t"
  defines "ms \<equiv> context_metrics (context_policy p)"
  shows "if \<exists>m \<in> set ms. metric_raises m (sources_of (context_sources p) m)
    then \<exists>e. build_context_assessment_authority ambient aids mids sids p r = Inl e
    else \<exists>a. build_context_assessment_authority ambient aids mids sids p r = Inr a
      \<and> map assessment_kind (authority_assessments a) = fromkeys (map metric_kind ms)
      \<and> (\<forall>x \<in> set (authority_assessments a). content_hash_ok (assessment_sha256 x))
      \<and> authority_policy_id a = context_policy_id (context_policy p)
      \<and> authority_policy_sha256 a = context_policy_sha256 (context_policy p) \<and> authority_recorded_at a = t"
proof -
  let ?plan = "\<lambda>m. mapR (Pair (context_policy_metric_id m)) (build_metric_plan ambient mids sids (context_sources p) m)"
  note shape = p [unfolded context_inputs_shape_def Let_def]
  have raises: "if \<exists>m \<in> set ms. metric_raises m (sources_of (context_sources p) m)
    then \<exists>e. mapE ?plan ms = Inl e else \<exists>pairs. mapE ?plan ms = Inr pairs"
    using shape build_metric_plan_iff [OF _ _ amb, of _ "context_sources p" mids sids]
    by (intro mapE_total_iff) (fastforce simp: mapR_def ms_def split: if_splits)
  have ?thesis if "mapE ?plan ms = Inr pairs" for pairs
  proof -
    have "map fst pairs = map context_policy_metric_id ms"
      using mapE_list_all2 [OF that, of "\<lambda>m kv. fst kv = context_policy_metric_id m"]
      by (auto simp: mapR_Inr_iff list_all2_conv_all_nth intro!: nth_equalityI)
    then have known: "\<forall>m \<in> set ms. context_policy_metric_id m \<in> set (map fst pairs)" by simp
    let ?f = "build_assessment aids (context_group_id r) ms (dict_of pairs)" and ?ks = "fromkeys (map metric_kind ms)"
    have "\<exists>as. mapE ?f (numbered ?ks) = Inr as
        \<and> list_all2 (\<lambda>nk x. assessment_kind x = snd nk \<and> content_hash_ok (assessment_sha256 x)) (numbered ?ks) as"
      by (rule mapE_total) (use build_assessment_total [OF known] in \<open>auto split: prod.split\<close>)
    then obtain as where as: "mapE ?f (numbered ?ks) = Inr as"
      "list_all2 (\<lambda>nk x. assessment_kind x = snd nk \<and> content_hash_ok (assessment_sha256 x)) (numbered ?ks) as" by blast
    obtain h where h: "canonical_json_sha256 (assessment_roster as) = Inr h"
      using canonical_json_sha256_total canonical_context by blast
    define a where "a = \<lparr>authority_group_id = context_group_id r, authority_run_id = context_run_id p,
         authority_policy_id = context_policy_id (context_policy p),
         authority_policy_sha256 = context_policy_sha256 (context_policy p),
         authority_candidate_set_id = context_candidate_set_id p,
         authority_candidate_set_sha256 = context_candidate_set_sha256 p,
         authority_candidate_roster_sha256 = context_candidate_roster_sha256 p,
         authority_decision_time = context_decision_time p,
         authority_candidate_count = context_candidate_count p,
         authority_request_identity = context_request_identity r,
         authority_request_sha256 = context_request_sha256 r,
         authority_receipt_id = context_receipt_id r, authority_recorded_at = context_recorded_at r,
         authority_assessment_count = length as, authority_metric_count = length (dict_of pairs),
         authority_source_count = length (context_sources p),
         authority_assessment_roster_sha256 = h, authority_assessments = as,
         authority_sha256 = []\<rparr>"
    obtain d k where "context_assessment_authority_init a
        = Inr (a\<lparr>authority_decision_time := d, authority_recorded_at := t, authority_sha256 := k\<rparr>)"
      using context_authority_init_total [of a t] shape r canonical_hash_ok [OF h]
      by (auto simp: a_def context_request_ok_def)
    moreover have "build_context_assessment_authority ambient aids mids sids p r = context_assessment_authority_init a"
      using that as(1) h by (simp add: build_context_assessment_authority_def ms_def a_def Let_def)
    moreover have "map assessment_kind as = ?ks" "\<forall>x \<in> set as. content_hash_ok (assessment_sha256 x)"
      using as(2) by (auto simp: list_all2_conv_all_nth in_set_conv_nth intro!: nth_equalityI)
    moreover have "\<not> (\<exists>m \<in> set ms. metric_raises m (sources_of (context_sources p) m))"
      using raises that by (simp split: if_splits)
    ultimately show ?thesis by (simp add: a_def)
  qed
  moreover have ?thesis if "mapE ?plan ms = Inl e" for e
    using raises that by (auto simp: build_context_assessment_authority_def ms_def split: if_splits)
  ultimately show ?thesis using raises by (metis (lifting))
qed

section \<open>The roll-up\<close>

lemma mapE_Inr_iff: "mapE f xs = Inr ys \<longleftrightarrow> list_all2 (\<lambda>x y. f x = Inr y) xs ys"
proof
  show "mapE f xs = Inr ys \<Longrightarrow> list_all2 (\<lambda>x y. f x = Inr y) xs ys" by (rule mapE_list_all2)
  show "list_all2 (\<lambda>x y. f x = Inr y) xs ys \<Longrightarrow> mapE f xs = Inr ys"
    by (induction rule: list_all2_induct) simp_all
qed

definition plan_result :: "context_metric_plan \<Rightarrow> context_metric_status \<times> context_state \<times> decimal option" where
  "plan_result q = (metric_status q, metric_state q, metric_value q)"

lemma build_metric_plan_result:
  assumes "build_metric_plan ambient mids sids ss m = Inr q"
  shows "metric_result ambient m (sources_of ss m) = Inr (plan_result q)"
  using assms
  by (auto simp: build_metric_plan_def context_metric_plan_init_def bindE_Inr_iff thenE_Inr_iff plan_result_def Let_def
      split: if_splits)

lemma assessment_rolls_up:
  assumes "build_context_assessment_authority ambient aids mids sids p r = Inr a"
    and "distinct (map context_policy_metric_id (context_metrics (context_policy p)))" "x \<in> set (authority_assessments a)"
  shows "\<exists>rs. mapE (\<lambda>m. metric_result ambient m (sources_of (context_sources p) m))
      (filter (\<lambda>m. metric_kind m = assessment_kind x) (context_metrics (context_policy p))) = Inr rs
    \<and> assessment_status x = context_assessment_status (map fst rs)
    \<and> assessment_state x = context_assessment_state (map (fst \<circ> snd) rs)"
proof -
  let ?ms = "context_metrics (context_policy p)" and ?id = context_policy_metric_id
  obtain pairs where pairs: "mapE (\<lambda>m. mapR (Pair (?id m)) (build_metric_plan ambient mids sids (context_sources p) m)) ?ms = Inr pairs"
    and as: "mapE (build_assessment aids (context_group_id r) ?ms (dict_of pairs)) (numbered (fromkeys (map metric_kind ?ms)))
      = Inr (authority_assessments a)"
    using assms(1) by (auto simp: build_context_assessment_authority_def context_assessment_authority_init_def
        bindE_Inr_iff thenE_Inr_iff Let_def split: if_splits)
  have each: "list_all2 (\<lambda>m kq. fst kq = ?id m
      \<and> metric_result ambient m (sources_of (context_sources p) m) = Inr (plan_result (snd kq))) ?ms pairs"
    using build_metric_plan_result by (intro mapE_list_all2 [OF pairs]) (auto simp: mapR_Inr_iff)
  have "map fst pairs = map ?id ?ms" using each by (auto simp: list_all2_conv_all_nth intro!: nth_equalityI)
  then have distinct: "distinct (map fst pairs)" using assms(2) by simp
  have found: "metric_result ambient m (sources_of (context_sources p) m) = Inr (plan_result q)"
    if m: "m \<in> set ?ms" "map_of pairs (?id m) = Some q" for m q
  proof -
    obtain j where j: "j < length ?ms" "?ms ! j = m" using m(1) by (metis in_set_conv_nth)
    have at: "fst (pairs ! j) = ?id m" "metric_result ambient m (sources_of (context_sources p) m) = Inr (plan_result (snd (pairs ! j)))"
      using list_all2_nthD [OF each j(1)] j(2) by simp_all
    have "pairs ! j \<in> set pairs" using j(1) list_all2_lengthD [OF each] by simp
    then have "map_of pairs (?id m) = Some (snd (pairs ! j))" using at(1) distinct by (metis map_of_eq_Some_iff prod.collapse)
    then show ?thesis using m(2) at(2) by simp
  qed
  obtain nk where nk: "build_assessment aids (context_group_id r) ?ms (dict_of pairs) nk = Inr x"
    using mapE_Inr_member [OF as assms(3)] by blast
  obtain qs where qs: "mapE (\<lambda>m. dict_item pairs (?id m)) (filter (\<lambda>m. metric_kind m = assessment_kind x) ?ms) = Inr qs"
    "assessment_status x = context_assessment_status (map metric_status qs)"
    "assessment_state x = context_assessment_state (map metric_state qs)"
    using nk distinct by (auto simp: build_assessment_def context_assessment_plan_init_def bindE_Inr_iff Let_def
        simp del: context_assessment_status.simps context_assessment_state.simps split: prod.splits)
  have "list_all2 (\<lambda>m q. metric_result ambient m (sources_of (context_sources p) m) = Inr (plan_result q))
      (filter (\<lambda>m. metric_kind m = assessment_kind x) ?ms) qs"
    by (rule mapE_list_all2 [OF qs(1)]) (use found in auto)
  then have "mapE (\<lambda>m. metric_result ambient m (sources_of (context_sources p) m))
      (filter (\<lambda>m. metric_kind m = assessment_kind x) ?ms) = Inr (map plan_result qs)"
    by (simp add: mapE_Inr_iff list_all2_map2)
  moreover have "map fst (map plan_result qs) = map metric_status qs" "map (fst \<circ> snd) (map plan_result qs) = map metric_state qs"
    by (simp_all add: plan_result_def)
  ultimately show ?thesis using qs(2,3) by metis
qed

end
