(* ===== verification/Decision_Scenario.thy ===== *)
theory Decision_Scenario
  imports Decision_Contexts Decision_Pipeline
begin

text \<open>
  Concrete decision-support inputs: a policy that spreads 80 percent over two Opportunities, one
  too tight for its three, Risk policies, and one Candidate carried from its Context to its
  line. Hashes stay symbolic: every payload has one.
\<close>

abbreviation zero_sha :: string where
  "zero_sha \<equiv> replicate 64 (CHR ''0'')"

lemma zero_sha_ok [simp]: "content_hash_ok zero_sha"
  by code_simp

text \<open>The values \<open>n / 10\<close>.\<close>

definition tenths :: "nat \<Rightarrow> decimal" where
  "tenths n = Fin False n (- 1)"

lemma tenths_value [simp]: "is_finite (tenths n)" "dval (tenths n) = of_nat n / 10" "is_ratio (tenths n) \<longleftrightarrow> n \<le> 10"
  by (auto simp: tenths_def is_ratio_def power_int_minus)

lemma tenths_grid: "on_grid 27 (dval (tenths n))"
proof -
  have "dval (tenths n) * 10 ^ 27 = of_nat (n * 10 ^ 26)" by simp
  then show ?thesis unfolding on_grid_def by (metis Ints_of_nat)
qed

definition scenario_artifact :: decision_artifact_binding where
  "scenario_artifact = \<lparr>decision_artifact_id = 90, decision_artifact_sha256 = zero_sha, decision_artifact_size = 1\<rparr>"

definition scenario_request :: "int \<Rightarrow> decision_request" where
  "scenario_request t = \<lparr>decision_root_id = 91, decision_request_identity = ''decision/1'',
     decision_request_sha256 = zero_sha, decision_receipt_id = 92, decision_recorded_at = Aware t 0\<rparr>"

lemma scenario_identity [simp]: "request_identity_ok ''decision/1''"
  by code_simp

section \<open>Portfolio policies\<close>

definition scenario_policy :: "nat \<Rightarrow> int \<Rightarrow> portfolio_policy_plan" where
  "scenario_policy gross places = \<lparr>portfolio_policy_id = 10, portfolio_policy_code = ''equal.v1'',
     portfolio_policy_version = 1, portfolio_supersedes = None, allocation_method = EQUAL_WEIGHT_ACTIONABLE,
     minimum_estimable_count = 1, maximum_line_count = 5, maximum_single_weight = tenths 4,
     maximum_gross_weight = tenths gross, maximum_net_weight = tenths gross, minimum_cash_weight = tenths 1,
     maximum_turnover = tenths 10, decimal_places = places, portfolio_code_artifact = scenario_artifact,
     portfolio_config_artifact = scenario_artifact, portfolio_provenance_sha256 = zero_sha,
     portfolio_policy_sha256 = []\<rparr>"

lemma scenario_policy_accepted:
  assumes "gross \<le> 10" "1 \<le> places" "places \<le> 12"
  obtains h where "portfolio_policy_plan_init (scenario_policy gross places)
      = Inr (scenario_policy gross places\<lparr>portfolio_policy_sha256 := h\<rparr>)" "content_hash_ok h"
proof -
  have "canonical (portfolio_policy_payload (scenario_policy gross places))"
    by (simp add: portfolio_policy_payload_def)
  then obtain h where h: "canonical_json_sha256 (portfolio_policy_payload (scenario_policy gross places)) = Inr h"
    using canonical_json_sha256_total by blast
  have "decision_code_ok ''equal.v1''" by code_simp
  moreover have "scenario_policy gross places\<lparr>portfolio_provenance_sha256 := zero_sha\<rparr> = scenario_policy gross places"
    by (simp add: scenario_policy_def)
  ultimately show ?thesis
    using that h canonical_hash_ok [OF h] assms
    by (simp add: portfolio_policy_plan_init_def Let_def scenario_policy_def ratio_field_def)
qed

lemma scenario_policy_grid: "fine_ratios (scenario_policy gross places\<lparr>portfolio_policy_sha256 := h\<rparr>)"
  by (simp add: fine_ratios_def scenario_policy_def tenths_grid del: tenths_value)

lemma scenario_cap: "gross \<le> 9 \<Longrightarrow> portfolio_cap (scenario_policy gross places\<lparr>portfolio_policy_sha256 := h\<rparr>) = of_nat gross / 10"
  by (simp add: portfolio_cap_def scenario_policy_def)

definition scenario_opportunity :: "uuid \<Rightarrow> int \<Rightarrow> opportunity_status \<Rightarrow> prepared_portfolio_opportunity" where
  "scenario_opportunity i n st = \<lparr>pf_opportunity_id = i, pf_ordinal = n, pf_candidate_id = i,
     pf_instrument_id = i, pf_target_id = 95, pf_status = st, pf_sha256 = zero_sha\<rparr>"

definition scenario_portfolio :: "opportunity_status \<Rightarrow> prepared_portfolio_inputs" where
  "scenario_portfolio st = \<lparr>pfs_run_id = 80, pfs_version_id = 81, pfs_opportunity_set_id = 82,
     pfs_opportunity_set_sha256 = zero_sha, pfs_recorded_at = Aware 0 0,
     pf_opportunities = [scenario_opportunity 1 1 ACTIONABLE, scenario_opportunity 2 2 ACTIONABLE,
       scenario_opportunity 3 3 st]\<rparr>"

lemma scenario_portfolio_ok:
  "distinct (map pf_opportunity_id (pf_opportunities (scenario_portfolio st)))"
  "content_hash_ok (pfs_opportunity_set_sha256 (scenario_portfolio st))"
  "\<forall>o' \<in> set (pf_opportunities (scenario_portfolio st)). content_hash_ok (pf_sha256 o')"
  "request_after (scenario_request 1) (pfs_recorded_at (scenario_portfolio st)) (Aware 1 0)"
  by (simp_all add: scenario_portfolio_def scenario_opportunity_def request_after_def scenario_request_def)

lemma scenario_selected:
  "selected_opportunities (scenario_policy gross places\<lparr>portfolio_policy_sha256 := h\<rparr>)
      (pf_opportunities (scenario_portfolio Opportunity_NO_ACTION))
    = [scenario_opportunity 1 1 ACTIONABLE, scenario_opportunity 2 2 ACTIONABLE]"
  "selected_opportunities (scenario_policy gross places\<lparr>portfolio_policy_sha256 := h\<rparr>)
      (pf_opportunities (scenario_portfolio ACTIONABLE))
    = [scenario_opportunity 1 1 ACTIONABLE, scenario_opportunity 2 2 ACTIONABLE, scenario_opportunity 3 3 ACTIONABLE]"
  by (simp_all add: selected_opportunities_def scenario_portfolio_def scenario_opportunity_def scenario_policy_def)

section \<open>Risk policies\<close>

definition scenario_rule :: "risk_rule_scope \<Rightarrow> risk_subject \<Rightarrow> risk_operator \<Rightarrow> nat \<Rightarrow> risk_rule_plan" where
  "scenario_rule scope subject operator limit = \<lparr>risk_rule_id = 21, rule_policy_id = 20, rule_ordinal = 1,
     rule_code = ''limit'', rule_scope = scope, rule_subject = subject, rule_operator = operator,
     decimal_threshold = Some (tenths limit), integer_threshold = None, text_threshold = None,
     boolean_threshold = None, risk_value_unit = ''WEIGHT'', rule_severity = Severity_REJECT,
     rule_missing_action = RiskMissing_FAIL, risk_rule_sha256 = []\<rparr>"

lemma scenario_rule_accepted:
  assumes "scope = LINE \<longleftrightarrow> subject = SINGLE_LINE_WEIGHT"
  obtains h where "risk_rule_plan_init (scenario_rule scope subject operator limit)
      = Inr (scenario_rule scope subject operator limit\<lparr>risk_rule_sha256 := h\<rparr>)"
proof -
  have "canonical (risk_rule_payload (scenario_rule scope subject operator limit))" by (simp add: risk_rule_payload_def)
  then obtain h where h: "canonical_json_sha256 (risk_rule_payload (scenario_rule scope subject operator limit)) = Inr h"
    using canonical_json_sha256_total by blast
  have "decision_code_ok ''limit''" by code_simp
  then show ?thesis
    using that h assms by (cases scope) (simp_all add: risk_rule_plan_init_def threshold_count_def scenario_rule_def)
qed

definition scenario_risk_policy :: "risk_rule_plan \<Rightarrow> risk_policy_plan" where
  "scenario_risk_policy r = \<lparr>risk_policy_id = 20, risk_policy_code = ''limits.v1'', risk_policy_version = 1,
     risk_supersedes = None, risk_scope = DECISION_SUPPORT_ONLY, risk_rules = [r],
     risk_code_artifact = scenario_artifact, risk_config_artifact = scenario_artifact,
     risk_provenance_sha256 = zero_sha, rule_roster_sha256 = [], risk_policy_sha256 = []\<rparr>"

lemma scenario_risk_policy_accepted:
  assumes "rule_policy_id r = 20" "rule_ordinal r = 1"
  obtains k h where "risk_policy_plan_init (scenario_risk_policy r)
      = Inr (scenario_risk_policy r\<lparr>rule_roster_sha256 := k, risk_policy_sha256 := h\<rparr>)" "content_hash_ok h"
proof -
  obtain k where k: "canonical_json_sha256 (rule_roster_payload [r]) = Inr k"
    using canonical_json_sha256_total [of "rule_roster_payload [r]"] by (auto simp: rule_roster_payload_def)
  let ?p = "scenario_risk_policy r\<lparr>rule_roster_sha256 := k\<rparr>"
  obtain h where h: "canonical_json_sha256 (risk_policy_payload ?p) = Inr h"
    using canonical_json_sha256_total [of "risk_policy_payload ?p"] by (auto simp: risk_policy_payload_def)
  have "decision_code_ok ''limits.v1''" by code_simp
  moreover have "contiguous [1]" by (simp add: contiguous_def)
  moreover have "scenario_risk_policy r\<lparr>risk_provenance_sha256 := zero_sha, rule_roster_sha256 := k\<rparr> = ?p"
    by (simp add: scenario_risk_policy_def)
  ultimately show ?thesis
    using that k h canonical_hash_ok [OF h] assms
    by (simp add: risk_policy_plan_init_def Let_def scenario_risk_policy_def)
qed

lemma scenario_limit:
  assumes "scope = LINE \<longleftrightarrow> subject = SINGLE_LINE_WEIGHT"
  obtains rule policy where "risk_rule_plan_init (scenario_rule scope subject operator limit) = Inr rule"
    "risk_policy_plan_init (scenario_risk_policy rule) = Inr policy" "risk_rules policy = [rule]"
    "rule_scope rule = scope" "rule_subject rule = subject" "rule_operator rule = operator"
    "decimal_threshold rule = Some (tenths limit)" "text_threshold rule = None" "rule_severity rule = Severity_REJECT"
    "content_hash_ok (risk_policy_sha256 policy)"
proof -
  obtain h where h: "risk_rule_plan_init (scenario_rule scope subject operator limit)
      = Inr (scenario_rule scope subject operator limit\<lparr>risk_rule_sha256 := h\<rparr>)"
    by (rule scenario_rule_accepted [OF assms])
  let ?rule = "scenario_rule scope subject operator limit\<lparr>risk_rule_sha256 := h\<rparr>"
  obtain k j where "risk_policy_plan_init (scenario_risk_policy ?rule)
      = Inr (scenario_risk_policy ?rule\<lparr>rule_roster_sha256 := k, risk_policy_sha256 := j\<rparr>)" "content_hash_ok j"
    by (rule scenario_risk_policy_accepted [of ?rule]) (simp_all add: scenario_rule_def)
  then show ?thesis using that [OF h] by (simp add: scenario_risk_policy_def scenario_rule_def)
qed

section \<open>Risk inputs\<close>

definition scenario_risk :: "portfolio_proposal_status \<Rightarrow> prepared_risk_inputs" where
  "scenario_risk status = \<lparr>risk_proposal_id = 91, risk_proposal_sha256 = zero_sha, risk_proposal_status = status,
     risk_line_count = 0, risk_included_count = 0, risk_not_estimable_count = 0,
     risk_gross_weight = tenths 6, risk_net_weight = tenths 6, risk_cash_weight = tenths 4,
     qualification_count = 0, risk_lines = []\<rparr>"

lemma scenario_risk_finite: "finite_inputs (scenario_risk status)"
  by (simp add: finite_inputs_def scenario_risk_def)

lemma scenario_decision_request: "decision_request_ok label (scenario_request t) (Aware t 0)"
  by (simp add: decision_request_ok_def scenario_request_def)

end
