(* ===== verification/Decision_Properties.thy ===== *)
theory Decision_Properties
  imports Decision_Scenario
begin

text \<open>
  The properties of Portfolio proposals and Risk decisions: what is allocated, what the
  database accepts, when the typed rules compare, the status, and that a proposal meets the
  limits its own policy implies.
\<close>

section \<open>Proposals\<close>






section \<open>Risk decisions\<close>

lemma risk_policy_accepted:
  assumes "risk_policy_plan_init pol = Inr policy" "\<forall>x \<in> set (risk_rules policy). \<exists>x0. risk_rule_plan_init x0 = Inr x"
  shows "risk_policy_shape policy" "content_hash_ok (risk_policy_sha256 policy)"
proof -
  have "risk_rules policy \<noteq> [] \<and> content_hash_ok (risk_policy_sha256 policy)"
    using assms(1) canonical_hash_ok
    by (auto simp: risk_policy_plan_init_def thenE_Inr_iff bindE_Inr_iff Let_def split: if_splits)
  then show "risk_policy_shape policy" "content_hash_ok (risk_policy_sha256 policy)"
    using assms(2) rule_accepted by (auto simp: risk_policy_shape_def list_all_iff)
qed

text \<open>
  C14. Type of the dynamic comparison: an accepted policy is decided, with one reason per rule and
  input in order, exactly when every ordering rule that is applied compares text with text or
  numbers with numbers: AT_MOST or AT_LEAST has a text threshold just for PROPOSAL_STATUS.
  Otherwise the whole decision raises \<open>TypeError\<close>.
\<close>

theorem risk_decision_typing:
  assumes "risk_policy_plan_init pol = Inr policy" "\<forall>x \<in> set (risk_rules policy). \<exists>x0. risk_rule_plan_init x0 = Inr x"
    and "finite_inputs p" "decision_request_ok ''Risk decided_at'' r t"
  shows "if policy_well_typed p policy
    then \<exists>d. build_risk_decision ids p policy r = Inr d
      \<and> list_all2 (reason_for p) (numbered (risk_pairs p policy)) (risk_reasons d)
    else build_risk_decision ids p policy r = Inl (TypeError ''unorderable types'')"
  using risk_decision_built [OF risk_policy_accepted(1) [OF assms(1,2)] assms(3), of r t ids] assms(4)
  by (auto simp: decision_request_ok_def decision_of_def)

theorem risk_decision_typing_witness:
  "\<exists>rule policy. risk_rule_plan_init (scenario_rule GLOBAL PROPOSAL_STATUS Risk_AT_MOST 5) = Inr rule
    \<and> risk_policy_plan_init (scenario_risk_policy rule) = Inr policy
    \<and> build_risk_decision (\<lambda>_ _. 7) (scenario_risk PROPOSED) policy (scenario_request 1) = Inl (TypeError ''unorderable types'')"
proof -
  obtain rule policy where accepted: "risk_rule_plan_init (scenario_rule GLOBAL PROPOSAL_STATUS Risk_AT_MOST 5) = Inr rule"
      "risk_policy_plan_init (scenario_risk_policy rule) = Inr policy" "risk_rules policy = [rule]"
    and rule: "rule_scope rule = GLOBAL" "rule_subject rule = PROPOSAL_STATUS" "rule_operator rule = Risk_AT_MOST"
      "text_threshold rule = None"
    by (rule scenario_limit [of GLOBAL PROPOSAL_STATUS Risk_AT_MOST 5]) auto
  have "\<not> policy_well_typed (scenario_risk PROPOSED) policy"
    by (simp add: policy_well_typed_def accepted(3) rule_well_typed_def rule_inputs_def rule)
  then have "build_risk_decision (\<lambda>_ _. 7) (scenario_risk PROPOSED) policy (scenario_request 1)
      = Inl (TypeError ''unorderable types'')"
    using risk_decision_typing [OF accepted(2) _ scenario_risk_finite scenario_decision_request] accepted(1)
    unfolding accepted(3) by fastforce
  then show ?thesis using accepted by blast
qed

text \<open>
  C15. The status of a decision: REJECTED when a rejecting rule fails on an input, else UNKNOWN
  when any rule fails, else the status the proposal's status implies. Every result is PASS or
  FAIL: the missing action of a rule is never taken.
\<close>

theorem risk_decision_status_rule:
  assumes "risk_policy_plan_init pol = Inr policy" "\<forall>x \<in> set (risk_rules policy). \<exists>x0. risk_rule_plan_init x0 = Inr x"
    and "finite_inputs p" "build_risk_decision ids p policy r = Inr d"
  shows "(risk_status d =
      (if \<exists>(x, line) \<in> set (risk_pairs p policy). rule_severity x = Severity_REJECT \<and> \<not> rule_passes p x line then REJECTED
       else if \<exists>(x, line) \<in> set (risk_pairs p policy). \<not> rule_passes p x line then Risk_UNKNOWN
       else case risk_proposal_status p of
         PROPOSED \<Rightarrow> AUTHORIZED | Proposal_NO_ACTION \<Rightarrow> Risk_NO_ACTION | Proposal_NOT_ESTIMABLE \<Rightarrow> Risk_UNKNOWN))
    \<and> map (\<lambda>y. (reason_rule y, reason_line_id y)) (risk_reasons d)
        = map (\<lambda>(x, line). (x, map_option risk_line_id line)) (risk_pairs p policy)
    \<and> (\<forall>y \<in> set (risk_reasons d). reason_result y \<in> {Rule_PASS, Rule_FAIL})"
proof -
  note shape = risk_policy_accepted(1) [OF assms(1,2)]
  obtain t where r: "content_hash_ok (decision_request_sha256 r)" "require_utc ''Risk decided_at'' (decision_recorded_at r) = Inr t"
    using assms(4) by (auto simp: build_risk_decision_def risk_decision_authority_init_def bindE_Inr_iff Let_def)
  have d: "decision_of p policy r t d"
    using risk_decision_built [OF shape assms(3) r, of ids] assms(4) by (auto split: if_splits)
  have ys: "list_all2 (reason_for p) (numbered (risk_pairs p policy)) (risk_reasons d)"
    using d by (simp add: decision_of_def)
  have "map (\<lambda>y. (reason_rule y, reason_line_id y)) (risk_reasons d)
      = map (\<lambda>(x, line). (x, map_option risk_line_id line)) (risk_pairs p policy)"
    using ys by (auto simp: list_all2_conv_all_nth reason_for_def split: prod.splits intro!: nth_equalityI)
  then show ?thesis using decision_status [OF d shape assms(3)] reasons_results(1) [OF ys shape assms(3)] by blast
qed

lemma scenario_decided:
  assumes "risk_policy_plan_init pol = Inr policy" "\<forall>x \<in> set (risk_rules policy). \<exists>x0. risk_rule_plan_init x0 = Inr x"
    and "policy_well_typed (scenario_risk status) policy"
  shows "\<exists>d. build_risk_decision ids (scenario_risk status) policy (scenario_request t) = Inr d"
proof -
  have "content_hash_ok (decision_request_sha256 (scenario_request t))"
    "require_utc ''Risk decided_at'' (decision_recorded_at (scenario_request t)) = Inr (Aware t 0)"
    by (simp_all add: scenario_request_def)
  from risk_decision_built [OF risk_policy_accepted(1) [OF assms(1,2)] scenario_risk_finite [of status] this, where ids = ids]
  show ?thesis using assms(3) by auto
qed

theorem risk_decision_status_rule_witness:
  "\<exists>rule policy d. risk_rule_plan_init (scenario_rule GLOBAL GROSS_WEIGHT Risk_AT_MOST 5) = Inr rule
    \<and> risk_policy_plan_init (scenario_risk_policy rule) = Inr policy
    \<and> build_risk_decision (\<lambda>_ _. 7) (scenario_risk PROPOSED) policy (scenario_request 1) = Inr d \<and> risk_status d = REJECTED"
proof -
  obtain rule policy where accepted: "risk_rule_plan_init (scenario_rule GLOBAL GROSS_WEIGHT Risk_AT_MOST 5) = Inr rule"
      "risk_policy_plan_init (scenario_risk_policy rule) = Inr policy" "risk_rules policy = [rule]"
    and rule: "rule_scope rule = GLOBAL" "rule_subject rule = GROSS_WEIGHT" "rule_operator rule = Risk_AT_MOST"
      "decimal_threshold rule = Some (tenths 5)" "text_threshold rule = None" "rule_severity rule = Severity_REJECT"
    by (rule scenario_limit [of GLOBAL GROSS_WEIGHT Risk_AT_MOST 5]) auto
  have rules: "\<forall>x \<in> set (risk_rules policy). \<exists>x0. risk_rule_plan_init x0 = Inr x"
    using accepted(1) unfolding accepted(3) by auto
  have "policy_well_typed (scenario_risk PROPOSED) policy"
    by (simp add: policy_well_typed_def accepted(3) rule_well_typed_def rule)
  then obtain d where d: "build_risk_decision (\<lambda>_ _. 7) (scenario_risk PROPOSED) policy (scenario_request 1) = Inr d"
    using scenario_decided [OF accepted(2) rules] by blast
  have "risk_pairs (scenario_risk PROPOSED) policy = [(rule, None)]"
    by (simp add: risk_pairs_def accepted(3) rule_inputs_def rule)
  moreover have "\<not> rule_passes (scenario_risk PROPOSED) rule None"
    by (simp add: rule_passes_def risk_compare_def risk_observed_def rule_threshold_def value_le_def rule scenario_risk_def)
  ultimately have "risk_status d = REJECTED"
    using risk_decision_status_rule [OF accepted(2) rules scenario_risk_finite d] rule by simp
  then show ?thesis using accepted d by blast
qed

text \<open>
  C16. A decision satisfies the constraints and the closure trigger of the database exactly when
  it has a reason: when some rule is global or the proposal has a line. Each reason then has one
  observed value, covers its rule and line, and the trigger recomputes the same status.
\<close>

theorem risk_decision_meets_the_database:
  assumes "risk_policy_plan_init pol = Inr policy" "\<forall>x \<in> set (risk_rules policy). \<exists>x0. risk_rule_plan_init x0 = Inr x"
    and "finite_inputs p" "content_hash_ok (risk_proposal_sha256 p)"
    and "request_identity_ok (decision_request_identity r)" "build_risk_decision ids p policy r = Inr d"
  shows "risk_decision_storable d \<longleftrightarrow> (\<exists>x \<in> set (risk_rules policy). rule_scope x = GLOBAL) \<or> risk_lines p \<noteq> []"
proof -
  note shape = risk_policy_accepted [OF assms(1,2)]
  obtain t where r: "content_hash_ok (decision_request_sha256 r)" "require_utc ''Risk decided_at'' (decision_recorded_at r) = Inr t"
    using assms(6) by (auto simp: build_risk_decision_def risk_decision_authority_init_def bindE_Inr_iff Let_def)
  have "decision_of p policy r t d"
    using risk_decision_built [OF shape(1) assms(3) r, of ids] assms(6) by (auto split: if_splits)
  then show ?thesis by (rule decision_storable [OF _ shape assms(4,5)])
qed

theorem risk_decision_meets_the_database_witness:
  "\<exists>rule policy d. risk_rule_plan_init (scenario_rule LINE SINGLE_LINE_WEIGHT Risk_AT_MOST 5) = Inr rule
    \<and> risk_policy_plan_init (scenario_risk_policy rule) = Inr policy
    \<and> build_risk_decision (\<lambda>_ _. 7) (scenario_risk Proposal_NO_ACTION) policy (scenario_request 1) = Inr d
    \<and> \<not> risk_decision_storable d"
proof -
  let ?p = "scenario_risk Proposal_NO_ACTION"
  obtain rule policy where accepted: "risk_rule_plan_init (scenario_rule LINE SINGLE_LINE_WEIGHT Risk_AT_MOST 5) = Inr rule"
      "risk_policy_plan_init (scenario_risk_policy rule) = Inr policy" "risk_rules policy = [rule]" "rule_scope rule = LINE"
    by (rule scenario_limit [of LINE SINGLE_LINE_WEIGHT Risk_AT_MOST 5]) auto
  have rules: "\<forall>x \<in> set (risk_rules policy). \<exists>x0. risk_rule_plan_init x0 = Inr x"
    using accepted(1) unfolding accepted(3) by auto
  have empty: "risk_lines ?p = []" "content_hash_ok (risk_proposal_sha256 ?p)" by (simp_all add: scenario_risk_def)
  have "policy_well_typed ?p policy"
    by (simp add: policy_well_typed_def accepted(3,4) rule_inputs_def empty)
  then obtain d where d: "build_risk_decision (\<lambda>_ _. 7) ?p policy (scenario_request 1) = Inr d"
    using scenario_decided [OF accepted(2) rules] by blast
  have "request_identity_ok (decision_request_identity (scenario_request 1))" by (simp add: scenario_request_def)
  then have "\<not> risk_decision_storable d"
    using risk_decision_meets_the_database [OF accepted(2) rules scenario_risk_finite empty(2) _ d] empty(1)
    by (simp add: accepted(3,4))
  then show ?thesis using accepted d by blast
qed

section \<open>Proposal and decision together\<close>



end
