(* ===== verification/Decision_Chain_Scenario.thy ===== *)
theory Decision_Chain_Scenario
  imports Decision_Scenario
begin

text \<open>
  One Candidate with one Context requirement and one Target, carried through the stages.
\<close>

section \<open>Contexts\<close>

definition scenario_metric :: "int \<Rightarrow> context_metric_definition" where
  "scenario_metric need = \<lparr>context_policy_metric_id = 31, metric_policy_id = 30, metric_code = ''return.median'',
     metric_ordinal = 1, metric_kind = MARKET_REGIME, metric_measure = Measure_RETURN, metric_reducer = MEDIAN_DECIMAL,
     metric_operator = Context_AT_LEAST, lower_threshold = tenths 1, upper_threshold = None,
     minimum_source_count = need, minimum_available_count = need, missingness_policy = Missing_UNKNOWN,
     metric_source_role = PRIMARY_DECISION_REFERENCE, metric_definition_sha256 = zero_sha\<rparr>"

definition scenario_source :: "decimal option \<Rightarrow> prepared_context_source" where
  "scenario_source v = \<lparr>source_metric_id = 31, source_candidate_id = 1, source_instrument_id = 1,
     source_kind = (if v = None then Context_SOURCE_GAP else MARKET_BAR), source_ordinal = 1, source_reference_id = 40,
     source_bar_revision_id = (if v = None then None else Some 41), source_gap_id = (if v = None then Some 42 else None),
     source_known_at = Aware 0 0, value_status = (if v = None then Source_UNAVAILABLE else Source_AVAILABLE),
     source_decimal = v, source_boolean = None\<rparr>"

definition scenario_context_policy :: "int \<Rightarrow> context_policy_plan" where
  "scenario_context_policy need = \<lparr>context_policy_id = 30, context_policy_code = ''context.v1'', context_policy_version = 1,
     context_supersedes = None, context_metrics = [scenario_metric need], context_code_artifact = scenario_artifact,
     context_config_artifact = scenario_artifact, context_provenance_sha256 = zero_sha, context_metric_count = 1,
     context_kind_count = 1, context_metric_roster_sha256 = zero_sha, context_kind_roster_sha256 = zero_sha,
     context_policy_sha256 = zero_sha\<rparr>"

definition scenario_context :: "int \<Rightarrow> decimal option \<Rightarrow> prepared_context_inputs" where
  "scenario_context need v = \<lparr>context_run_id = 80, context_candidate_set_id = 70, context_candidate_set_sha256 = zero_sha,
     context_candidate_roster_sha256 = zero_sha, context_decision_time = Aware 0 0, context_candidate_count = 1,
     context_policy = scenario_context_policy need, context_sources = [scenario_source v], context_scope = None,
     context_source_roster_sha256 = zero_sha\<rparr>"

lemma scenario_context_shape: "case v of None \<Rightarrow> True | Some d \<Rightarrow> is_finite d \<Longrightarrow> context_inputs_shape (scenario_context need v)"
  by (cases v) (simp_all add: context_inputs_shape_def scenario_context_def scenario_context_policy_def metric_shape_def
      scenario_metric_def sources_of_def source_fits_def scenario_source_def is_aware_def Let_def)

definition scenario_context_request :: context_request where
  "scenario_context_request = \<lparr>context_group_id = 50, context_request_identity = ''decision/1'',
     context_request_sha256 = zero_sha, context_receipt_id = 92, context_recorded_at = Aware 1 0\<rparr>"

lemma scenario_context_request_ok: "context_request_ok scenario_context_request (Aware 1 0)"
  by (simp add: context_request_ok_def scenario_context_request_def)

text \<open>The assessment: one kind, and positive, because the median, 0.5, is at least 0.1.\<close>

definition build_scenario_context :: "int \<Rightarrow> decimal option \<Rightarrow> context_assessment_authority result" where
  "build_scenario_context need v =
     build_context_assessment_authority 28 (\<lambda>_ _. 51) (\<lambda>_. 52) (\<lambda>_ _. 53) (scenario_context need v) scenario_context_request"

lemma scenario_metric_result:
  "metric_result 28 (scenario_metric 1) [scenario_source (Some (tenths 5))] = Inr (Metric_AVAILABLE, POSITIVE, Some (tenths 5))"
  by (simp add: metric_result_def insufficient_def reduce_metric_def decimal_median_def context_state_of_def
      scenario_metric_def scenario_source_def List.map_filter_def Let_def)

lemma scenario_assessed:
  obtains a x where "build_scenario_context 1 (Some (tenths 5)) = Inr a" "authority_assessments a = [x]"
    "assessment_kind x = MARKET_REGIME" "assessment_status x = Metric_AVAILABLE" "assessment_state x = POSITIVE"
    "content_hash_ok (assessment_sha256 x)" "authority_policy_id a = 30" "authority_policy_sha256 a = zero_sha"
    "authority_recorded_at a = Aware 1 0"
proof -
  let ?p = "scenario_context 1 (Some (tenths 5))"
  have ms: "context_metrics (context_policy ?p) = [scenario_metric 1]"
    "context_sources ?p = [scenario_source (Some (tenths 5))]"
    by (simp_all add: scenario_context_def scenario_context_policy_def)
  have "\<not> metric_raises (scenario_metric 1) (sources_of (context_sources ?p) (scenario_metric 1))"
    by (simp add: metric_raises_def ms sources_of_def scenario_metric_def scenario_source_def available_sources_def)
  then obtain a where a: "build_scenario_context 1 (Some (tenths 5)) = Inr a"
    "map assessment_kind (authority_assessments a) = fromkeys (map metric_kind (context_metrics (context_policy ?p)))"
    "\<forall>x \<in> set (authority_assessments a). content_hash_ok (assessment_sha256 x)"
    "authority_policy_id a = 30" "authority_policy_sha256 a = zero_sha" "authority_recorded_at a = Aware 1 0"
    using contexts_built [OF scenario_context_shape [of "Some (tenths 5)" 1] _ scenario_context_request_ok, of 28 "\<lambda>_ _. 51" "\<lambda>_. 52" "\<lambda>_ _. 53"]
    unfolding build_scenario_context_def by (auto simp: ms) (auto simp: scenario_context_def scenario_context_policy_def)
  have "\<exists>x. authority_assessments a = [x] \<and> assessment_kind x = MARKET_REGIME
      \<and> assessment_status x = Metric_AVAILABLE \<and> assessment_state x = POSITIVE"
  proof -
    have kinds: "map assessment_kind (authority_assessments a) = [MARKET_REGIME]"
      using a(2) fromkeys_snoc [of "[]" MARKET_REGIME] by (simp add: ms scenario_metric_def)
    then obtain x where x: "authority_assessments a = [x]" "assessment_kind x = MARKET_REGIME" by auto
    have src: "sources_of (context_sources ?p) (scenario_metric 1) = [scenario_source (Some (tenths 5))]"
      by (simp add: ms sources_of_def scenario_metric_def scenario_source_def)
    have kind: "metric_kind (scenario_metric 1) = MARKET_REGIME" by (simp add: scenario_metric_def)
    show ?thesis
      using assessment_rolls_up [OF a(1) [unfolded build_scenario_context_def], of x] x
      by (simp add: ms(1) src kind scenario_metric_result)
  qed
  then show ?thesis using that a by auto
qed

section \<open>A StrategyVersion and its Candidate\<close>

definition scenario_requirement :: "context_state \<Rightarrow> strategy_context_requirement" where
  "scenario_requirement st = \<lparr>requirement_id = 61, requirement_version_id = 60, requirement_ordinal = 1,
     requirement_policy_id = 30, requirement_policy_sha256 = zero_sha, requirement_kind = MARKET_REGIME,
     required_state = st, missing_action = Action_WAIT, requirement_sha256 = zero_sha\<rparr>"

definition scenario_signal_rule :: strategy_signal_rule where
  "scenario_signal_rule = \<lparr>signal_rule_id = 62, signal_rule_version_id = 60, eligible_disposition = SELECTED,
     positive_status = Signal_PRESENT, negative_status = NO_SIGNAL, ineligible_status = NO_SIGNAL, signal_rule_sha256 = []\<rparr>"

lemma scenario_signal_rule_accepted:
  obtains rule where "strategy_signal_rule_init scenario_signal_rule = Inr rule" "eligible_disposition rule = SELECTED"
proof -
  obtain h where "canonical_json_sha256 (signal_rule_payload scenario_signal_rule) = Inr h"
    using canonical_json_sha256_total [of "signal_rule_payload scenario_signal_rule"] by (auto simp: signal_rule_payload_def)
  then show ?thesis using that by (simp add: strategy_signal_rule_init_def scenario_signal_rule_def)
qed

definition scenario_forecast_rule :: strategy_forecast_rule where
  "scenario_forecast_rule = \<lparr>forecast_rule_id = 63, forecast_rule_version_id = 60, forecast_rule_ordinal = 1,
     rule_target_id = 95, rule_target_sha256 = zero_sha, rule_checkpoint_id = 96, rule_checkpoint_sha256 = zero_sha,
     rule_metric_id = 97, rule_metric_sha256 = zero_sha, rule_source_measure = CANDIDATE_COMPOSITE_SCORE,
     rule_coefficient = tenths 5, rule_intercept = tenths 0, rule_lower_offset = tenths 1, rule_upper_offset = tenths 1,
     rule_value_unit = ''DECIMAL_RETURN'', forecast_rule_sha256 = zero_sha\<rparr>"

lemma scenario_forecast_rule_shape: "forecast_rule_shape scenario_forecast_rule"
  by (simp add: forecast_rule_shape_def scenario_forecast_rule_def)

definition scenario_version :: "context_state \<Rightarrow> strategy_signal_rule \<Rightarrow> strategy_version_plan" where
  "scenario_version st rule = \<lparr>version_strategy = \<lparr>strategy_id = 64, strategy_code = ''breadth'',
       strategy_objective = ''research'', strategy_sha256 = zero_sha\<rparr>,
     strategy_version_id = 60, strategy_version = 1, version_supersedes = None, primary_change = ''first'',
     action_policy = LONG_ONLY_RESEARCH, context_requirements = [scenario_requirement st], signal_rule = rule,
     forecast_rules = [scenario_forecast_rule], version_code_artifact = scenario_artifact,
     version_config_artifact = scenario_artifact, version_provenance_sha256 = zero_sha, context_requirement_count = 1,
     forecast_rule_count = 1, context_requirement_roster_sha256 = zero_sha, forecast_rule_roster_sha256 = zero_sha,
     strategy_version_sha256 = zero_sha\<rparr>"

definition scenario_run :: decision_run_row where
  "scenario_run = \<lparr>run_id = 80, run_candidate_set_id = 70, run_candidate_set_sha256 = zero_sha,
     run_candidate_roster_sha256 = zero_sha, run_decision_time = Aware 0 0, run_candidate_count = 1\<rparr>"

definition scenario_candidate :: candidate_row where
  "scenario_candidate = \<lparr>row_candidate_id = 1, row_candidate_instrument = 1, row_disposition = SELECTED,
     row_score = Some (tenths 8)\<rparr>"

definition scenario_inference_request :: "int \<Rightarrow> inference_request" where
  "scenario_inference_request t = \<lparr>inference_group_id = 55, inference_request_identity = ''decision/1'',
     inference_request_sha256 = zero_sha, inference_receipt_id = 92, inference_recorded_at = Aware t 0\<rparr>"

lemma scenario_inference_request_ok: "inference_request_ok label (scenario_inference_request t) (Aware t 0)"
  by (simp add: inference_request_ok_def scenario_inference_request_def)

section \<open>Signals\<close>

lemma scenario_signals:
  assumes a: "authority_assessments a = [x]" "assessment_kind x = MARKET_REGIME" "assessment_status x = Metric_AVAILABLE"
      "assessment_state x = POSITIVE" "content_hash_ok (assessment_sha256 x)" "authority_policy_id a = 30"
      "authority_policy_sha256 a = zero_sha" "authority_recorded_at a = Aware 1 0"
    and rule: "signal_rule_shape rule" "eligible_disposition rule = SELECTED"
  obtains si sa s where "load_signal_inputs scenario_run [scenario_candidate] [a] (scenario_version st rule) = Inr si"
    "build_signal_authority (\<lambda>_ _. 56) (\<lambda>_ _. 57) si (scenario_inference_request 2) = Inr sa"
    "signals sa = [s]" "signal_for (\<lambda>_ _. 56) (scenario_version st rule) (1, signal_candidate s) s"
    "signal_candidate_id (signal_candidate s) = 1" "signal_score (signal_candidate s) = Some (tenths 8)"
    "length (signal_contexts (signal_candidate s)) = 1"
    "signal_status_of s = (if st = POSITIVE then Signal_PRESENT else NO_SIGNAL)"
    "signals_run_id sa = 80" "signals_version sa = scenario_version st rule" "content_hash_ok (signals_sha256 sa)"
    "signal_group_id sa = 55"
proof -
  let ?v = "scenario_version st rule"
  define k where "k = \<lparr>signal_requirement_id = 61, signal_policy_id = 30, signal_policy_sha256 = zero_sha,
      signal_assessment_id = context_assessment_id x, signal_assessment_group_id = assessment_group_id x,
      signal_context_kind = MARKET_REGIME, signal_assessment_status = Metric_AVAILABLE, signal_assessment_state = POSITIVE,
      signal_assessment_sha256 = assessment_sha256 x, signal_context_recorded_at = Aware 1 0\<rparr>"
  define c where "c = \<lparr>signal_candidate_id = 1, signal_instrument_id = 1, signal_disposition = SELECTED,
      signal_score = Some (tenths 8), signal_contexts = [k]\<rparr>"
  define si where "si = \<lparr>signal_run_id = 80, signal_candidate_set_id = 70, signal_candidate_set_sha256 = zero_sha,
      signal_candidate_roster_sha256 = zero_sha, signal_decision_time = Aware 0 0, signal_version = ?v,
      signal_candidates = [c]\<rparr>"
  have reqs: "context_requirements ?v = [scenario_requirement st]" "signal_rule ?v = rule" by (simp_all add: scenario_version_def)
  have k: "load_signal_context [a] (scenario_requirement st) = Inr k"
    by (simp add: load_signal_context_def assessment_rows_def a scenario_requirement_def prepared_signal_context_init_def k_def)
  have c: "prepared_signal_candidate_init c = Inr c"
    by (simp add: prepared_signal_candidate_init_def c_def)
  have "check_signal_candidate ?v c None = Inr (Some [context_assessment_id x])"
    by (simp add: check_signal_candidate_def reqs c_def k_def scenario_requirement_def)
  then have "prepared_signal_inputs_init si = Inr si"
    by (simp add: prepared_signal_inputs_init_def si_def)
  then have load: "load_signal_inputs scenario_run [scenario_candidate] [a] ?v = Inr si"
    using k c by (simp add: load_signal_inputs_def reqs scenario_run_def scenario_candidate_def c_def si_def)
  have si: "signal_version si = ?v" "signal_candidates si = [c]" "signal_run_id si = 80" "signal_decision_time si = Aware 0 0"
    "length (signal_contexts c) = length (context_requirements ?v)" "inference_group_id (scenario_inference_request 2) = 55"
    by (simp_all add: si_def c_def reqs scenario_inference_request_def)
  obtain sa where sa: "build_signal_authority (\<lambda>_ _. 56) (\<lambda>_ _. 57) si (scenario_inference_request 2) = Inr sa"
    "list_all2 (signal_for (\<lambda>_ _. 56) ?v) (numbered [c]) (signals sa)" "signal_group_id sa = 55" "signals_run_id sa = 80"
    "signals_version sa = ?v" "content_hash_ok (signals_sha256 sa)"
    using signals_built [of si "scenario_inference_request 2" "Aware 2 0" 0 0 "\<lambda>_ _. 56" "\<lambda>_ _. 57"] rule(1)
      scenario_inference_request_ok reqs(2) si by auto
  have "numbered [c] = [(1, c)]" by (simp add: numbered_def)
  then obtain s where s: "signals sa = [s]" "signal_for (\<lambda>_ _. 56) ?v (1, c) s"
    using sa(2) by (auto simp: list_all2_Cons1)
  then have cand: "signal_candidate s = c" by (simp add: signal_for_def)
  obtain reason where "signal_outcome ?v c = Inr (signal_status_of s, reason)" using s(2) by (auto simp: signal_for_def)
  moreover have "\<exists>reason. signal_outcome ?v c = Inr (if st = POSITIVE then Signal_PRESENT else NO_SIGNAL, reason)"
    using rule by (simp add: signal_outcome_def missing_status_def zip_strict_def missing_step_def reqs c_def k_def
        scenario_requirement_def signal_rule_shape_def)
  ultimately have "signal_status_of s = (if st = POSITIVE then Signal_PRESENT else NO_SIGNAL)" by auto
  then show ?thesis using that load sa s cand by (simp add: c_def)
qed

section \<open>From the Forecast to the line\<close>

definition scenario_commitment :: prepared_forecast_commitment where
  "scenario_commitment = \<lparr>commitment_id = 66, commitment_candidate_id = 1, commitment_instrument_id = 1,
     commitment_target_id = 95, commitment_target_sha256 = zero_sha, commitment_checkpoint_id = 96,
     commitment_checkpoint_sha256 = zero_sha, commitment_sha256 = zero_sha\<rparr>"

lemma rules_for_scenario: "rules_for (scenario_version st rule) scenario_commitment = [scenario_forecast_rule]"
  by (simp add: rules_for_def scenario_version_def scenario_commitment_def scenario_forecast_rule_def)

definition scenario_forecast_inputs :: "strategy_signal_rule \<Rightarrow> signal_authority \<Rightarrow> prepared_forecast_inputs" where
  "scenario_forecast_inputs rule sa = \<lparr>forecast_run_id = 80, forecast_version = scenario_version POSITIVE rule,
     forecast_signals = sa, forecast_commitments = [scenario_commitment]\<rparr>"

lemma scenario_forecast_inputs_ok:
  assumes "signals sa = [s]" "signal_for (\<lambda>_ _. 56) (scenario_version POSITIVE rule) (1, signal_candidate s) s"
    "signal_candidate_id (signal_candidate s) = 1" "signal_score (signal_candidate s) = Some (tenths 8)"
    "signals_run_id sa = 80" "signals_version sa = scenario_version POSITIVE rule"
  defines "fi \<equiv> scenario_forecast_inputs rule sa"
  shows "prepared_forecast_inputs_init fi = Inr fi" "list_all forecast_rule_shape (forecast_rules (forecast_version fi))"
    "list_all signal_ok (signals (forecast_signals fi))"
    "list_all (\<lambda>c. content_hash_ok (commitment_sha256 c)) (forecast_commitments fi)"
    "forecast_pairs (signals (forecast_signals fi)) (forecast_commitments fi) = [(s, scenario_commitment)]"
    "forecast_version fi = scenario_version POSITIVE rule"
proof -
  let ?v = "scenario_version POSITIVE rule"
  have rules: "forecast_rules ?v = [scenario_forecast_rule]" by (simp add: scenario_version_def)
  have "expected_commitments ?v sa = {(1, 95)}"
    using fromkeys_snoc [of "[]" "95 :: uuid"]
    by (simp add: expected_commitments_def rules assms(1,3) scenario_forecast_rule_def)
  moreover have "commitment_exact ?v scenario_commitment"
    unfolding commitment_exact_def rules_for_scenario by (simp add: scenario_commitment_def scenario_forecast_rule_def)
  moreover have "commitment_key scenario_commitment = (1, 95)" by (simp add: commitment_key_def scenario_commitment_def)
  ultimately show "prepared_forecast_inputs_init fi = Inr fi"
    by (simp add: prepared_forecast_inputs_init_def fi_def scenario_forecast_inputs_def assms(5,6))
  show "forecast_version fi = ?v" by (simp add: fi_def scenario_forecast_inputs_def)
  show "list_all forecast_rule_shape (forecast_rules (forecast_version fi))"
    "list_all signal_ok (signals (forecast_signals fi))"
    "list_all (\<lambda>c. content_hash_ok (commitment_sha256 c)) (forecast_commitments fi)"
    "forecast_pairs (signals (forecast_signals fi)) (forecast_commitments fi) = [(s, scenario_commitment)]"
    using assms(1-4)
    by (simp_all add: fi_def scenario_forecast_inputs_def rules scenario_forecast_rule_shape signal_ok_def signal_for_def
        scenario_commitment_def forecast_pairs_def)
qed

lemma scenario_forecasts:
  assumes sa: "signals sa = [s]" "signals_run_id sa = 80" "signals_version sa = scenario_version POSITIVE rule" "signal_group_id sa = 55"
    and s: "signal_for (\<lambda>_ _. 56) (scenario_version POSITIVE rule) (1, signal_candidate s) s"
      "signal_candidate_id (signal_candidate s) = 1" "signal_score (signal_candidate s) = Some (tenths 8)"
      "signal_status_of s = Signal_PRESENT"
  obtains fa f where
    "build_forecast_authority 28 (\<lambda>_ _. 58) (\<lambda>_ _. 59) None (scenario_forecast_inputs rule sa) (scenario_inference_request 3) = Inr fa"
    "forecasts fa = [f]" "forecast_signal f = s" "forecast_commitment f = scenario_commitment" "forecast_ordinal f = 1"
    "forecast_status_of f = Forecast_AVAILABLE" "content_hash_ok (forecast_sha256 f)" "forecast_count fa = 1"
    "forecasts_signal_group_id fa = 55" "forecasts_run_id fa = 80" "forecasts_version fa = scenario_version POSITIVE rule"
    "forecasts_recorded_at fa = Aware 3 0" "content_hash_ok (forecasts_sha256 fa)"
proof -
  let ?v = "scenario_version POSITIVE rule" and ?fi = "scenario_forecast_inputs rule sa"
  note fi = scenario_forecast_inputs_ok [OF sa(1) s(1-3) sa(2,3)]
  have r: "request_identity_ok (inference_request_identity (scenario_inference_request 3))"
    "content_hash_ok (inference_request_sha256 (scenario_inference_request 3))"
    "require_utc ''Forecast recorded_at'' (inference_recorded_at (scenario_inference_request 3)) = Inr (Aware 3 0)"
    by (simp_all add: scenario_inference_request_def)
  have one: "numbered [(s, scenario_commitment)] = [(1, s, scenario_commitment)]" by (simp add: numbered_def)
  have ids: "signal_group_id (forecast_signals ?fi) = 55" "forecast_run_id ?fi = 80"
    using sa(4) by (simp_all add: scenario_forecast_inputs_def)
  obtain fa where fa: "build_forecast_authority 28 (\<lambda>_ _. 58) (\<lambda>_ _. 59) None ?fi (scenario_inference_request 3) = Inr fa"
    "list_all2 (forecast_for ?v) [(1, s, scenario_commitment)] (forecasts fa)" "forecast_count fa = 1"
    "forecasts_signal_group_id fa = 55" "forecasts_run_id fa = 80" "forecasts_version fa = ?v"
    "forecasts_recorded_at fa = Aware 3 0" "content_hash_ok (forecasts_sha256 fa)"
    using forecasts_built [OF fi(2) _ fi(1,3,4) r, of 28 "\<lambda>_ _. 58" "\<lambda>_ _. 59"] ids unfolding fi(5,6) one by auto
  then obtain f where f: "forecasts fa = [f]" "forecast_for ?v (1, s, scenario_commitment) f"
    by (auto simp: list_all2_Cons1)
  then show ?thesis
    using that fa s(3,4) by (auto simp: forecast_for_def forecast_shape_ck_def signal_forecastable_def)
qed

lemma scenario_opportunities:
  assumes sa: "signals sa = [s]" "signals_run_id sa = 80" "signals_version sa = scenario_version st rule" "signal_group_id sa = 55"
      "content_hash_ok (signals_sha256 sa)"
    and s: "signal_for (\<lambda>_ _. 56) (scenario_version st rule) (1, signal_candidate s) s"
      "signal_candidate_id (signal_candidate s) = 1" "length (signal_contexts (signal_candidate s)) = 1"
      "signal_status_of s = Signal_PRESENT"
    and fa: "forecasts fa = [f]" "forecast_signal f = s" "forecast_commitment f = scenario_commitment" "forecast_ordinal f = 1"
      "forecast_status_of f = Forecast_AVAILABLE" "content_hash_ok (forecast_sha256 f)" "forecast_count fa = 1"
      "forecasts_signal_group_id fa = 55" "forecasts_run_id fa = 80" "forecasts_version fa = scenario_version st rule"
      "forecasts_recorded_at fa = Aware 3 0" "content_hash_ok (forecasts_sha256 fa)"
  obtains oi oa i o' where "load_opportunity_inputs sa fa = Inr oi"
    "build_opportunity_authority (\<lambda>_. 71) (\<lambda>_ _. 72) oi (scenario_request 4) = Inr oa"
    "distinct (map opportunity_id (opportunities oa))" "load_portfolio_inputs oa = Inr i" "pf_opportunities i = [o']"
    "pf_status o' = ACTIONABLE" "pfs_recorded_at i = Aware 4 0"
proof -
  have rows: "forecast_rows sa fa = [(f, s)]"
    by (simp add: forecast_rows_def fa(1-3) sa(1) s(2) scenario_commitment_def)
  note sig = s(1) [unfolded signal_for_def, simplified]
  obtain b where b: "signal_bindings s = [b]" "content_hash_ok (binding_content_sha256 b)"
  proof -
    have "length (signal_bindings s) = 1" using sig s(3) by (metis length_map)
    then obtain b where "signal_bindings s = [b]" by (cases "signal_bindings s") auto
    then show ?thesis using that sig by simp
  qed
  define item where "item = projr (load_opportunity_item (f, s))"
  have item: "load_opportunity_item (f, s) = Inr item" "opp_forecast_ordinal item = 1"
    "opp_signal_status item = Signal_PRESENT" "opp_forecast_status item = Forecast_AVAILABLE"
    using sig fa(3-6) s(4)
    by (simp_all add: item_def load_opportunity_item_def b opportunity_context_row_def prepared_opportunity_context_init_def
        mapR_def prepared_opportunity_input_init_def scenario_commitment_def)
  define oi where "oi = \<lparr>opps_run_id = 80, opps_version_id = 60, opps_version_sha256 = zero_sha,
         opps_signal_group_id = 55, opps_signal_sha256 = signals_sha256 sa,
         opps_forecast_group_id = forecast_group_id fa, opps_forecast_sha256 = forecasts_sha256 fa,
         opps_forecast_recorded_at = Aware 3 0, opportunity_items = [item]\<rparr>"
  have one: "contiguous [1]" by (simp add: contiguous_def)
  have "load_opportunity_inputs sa fa = prepared_opportunity_inputs_init oi"
    using one item(1)
    by (simp add: load_opportunity_inputs_def rows sa fa scenario_version_def oi_def Let_def)
  moreover have "prepared_opportunity_inputs_init oi = Inr oi"
    using one item(2) sa(5) fa(12) by (simp add: prepared_opportunity_inputs_init_def oi_def)
  ultimately have load: "load_opportunity_inputs sa fa = Inr oi" by simp
  have oi: "opportunity_items oi = [item]" "instant_of (opps_forecast_recorded_at oi) \<le> instant_of (Aware 4 0)"
    by (simp_all add: oi_def)
  obtain oa where oa: "build_opportunity_authority (\<lambda>_. 71) (\<lambda>_ _. 72) oi (scenario_request 4) = Inr oa"
    "list_all2 (opportunity_for (\<lambda>_. 71)) (numbered [item]) (opportunities oa)" "opportunity_prepared oa = oi"
    "opportunity_recorded_at oa = Aware 4 0" "content_hash_ok (opportunities_sha256 oa)"
    using opportunities_built [OF scenario_decision_request [of _ 4] oi(2), of "\<lambda>_. 71" "\<lambda>_ _. 72"] oi(1) by auto
  have "numbered [item] = [(1, item)]" by (simp add: numbered_def)
  then obtain x where x: "opportunities oa = [x]" "opportunity_for (\<lambda>_. 71) (1, item) x"
    using oa(2) by (auto simp: list_all2_Cons1)
  have "opportunity_status_of x = ACTIONABLE" "opportunity_ordinal x = 1" "content_hash_ok (opportunity_sha256 x)"
    using x(2) item(3,4) by (simp_all add: opportunity_for_def opportunity_outcome_def)
  then have "\<exists>i o'. load_portfolio_inputs oa = Inr i \<and> pf_opportunities i = [o'] \<and> pf_status o' = ACTIONABLE
      \<and> pfs_recorded_at i = Aware 4 0"
    using one oa(4,5)
    by (simp add: load_portfolio_inputs_def x(1) prepared_portfolio_opportunity_init_def mapR_def
        prepared_portfolio_inputs_init_def Let_def)
  then show ?thesis using that load oa(1) x(1) by auto
qed

section \<open>The whole run\<close>

text \<open>Every stage returned, and the line of the Candidate weighs 40 percent.\<close>

definition scenario_line ::
  "strategy_signal_rule \<Rightarrow> context_assessment_authority \<Rightarrow> signal_authority \<Rightarrow> portfolio_proposal_authority \<Rightarrow>
   portfolio_line_plan \<Rightarrow> bool" where
  "scenario_line rule ca sa a l \<longleftrightarrow>
     (\<exists>si fa oi oa i p.
        load_signal_inputs scenario_run [scenario_candidate] [ca] (scenario_version POSITIVE rule) = Inr si
        \<and> build_signal_authority (\<lambda>_ _. 56) (\<lambda>_ _. 57) si (scenario_inference_request 2) = Inr sa
        \<and> build_forecast_authority 28 (\<lambda>_ _. 58) (\<lambda>_ _. 59) None (scenario_forecast_inputs rule sa)
             (scenario_inference_request 3) = Inr fa
        \<and> load_opportunity_inputs sa fa = Inr oi
        \<and> build_opportunity_authority (\<lambda>_. 71) (\<lambda>_ _. 72) oi (scenario_request 4) = Inr oa
        \<and> distinct (map opportunity_id (opportunities oa))
        \<and> load_portfolio_inputs oa = Inr i
        \<and> build_portfolio_proposal 28 pf_opportunity_id i p (scenario_request 5) = Inr a
        \<and> l \<in> set (proposal_lines a) \<and> dval (proposed_weight l) = 4 / 10)"

lemma scenario_proposal:
  assumes i: "pf_opportunities i = [o']" "pf_status o' = ACTIONABLE" "pfs_recorded_at i = Aware 4 0"
  shows "\<exists>p a l. build_portfolio_proposal 28 pf_opportunity_id i p (scenario_request 5) = Inr a
    \<and> l \<in> set (proposal_lines a) \<and> dval (proposed_weight l) = 4 / 10"
proof -
  obtain h where p: "portfolio_policy_plan_init (scenario_policy 9 4) = Inr (scenario_policy 9 4\<lparr>portfolio_policy_sha256 := h\<rparr>)"
    by (rule scenario_policy_accepted [of 9 4]) simp_all
  let ?p = "scenario_policy 9 4\<lparr>portfolio_policy_sha256 := h\<rparr>"
  have request: "request_after (scenario_request 5) (pfs_recorded_at i) (Aware 5 0)"
    by (simp add: request_after_def i(3) scenario_request_def)
  obtain a where a: "build_portfolio_proposal 28 pf_opportunity_id i ?p (scenario_request 5) = Inr a"
    "proposal_of 28 i ?p (scenario_request 5) (Aware 5 0) a"
    using proposal_built [OF policy_accepted [OF p] scenario_policy_grid order_refl _ request] i(1) by fastforce
  note f = proposal_of_facts [OF a(2)]
  have sel: "selected_opportunities ?p (pf_opportunities i) = [o']"
    by (simp add: i selected_opportunities_def scenario_policy_def)
  have "dval (gross_weight a) = 4 / 10"
    using scenario_cap [where gross = 9 and places = 4 and h = h]
    unfolding f(13) sel by (simp add: scenario_policy_def)
  then have "sum_list (map (\<lambda>l. dval (proposed_weight l)) (proposal_lines a)) = 4 / 10"
    using lines_total(1) [OF policy_accepted [OF p] scenario_policy_grid order_refl f(4)] f(13) by simp
  moreover have "length (proposal_lines a) = 1" using line_roster_facts(3) [OF f(4)] i(1) by simp
  ultimately have "\<exists>l. l \<in> set (proposal_lines a) \<and> dval (proposed_weight l) = 4 / 10"
    by (cases "proposal_lines a") auto
  then show ?thesis using a(1) by blast
qed

lemma scenario_line_exists:
  obtains rule ca sa a l where "strategy_signal_rule_init scenario_signal_rule = Inr rule"
    "build_scenario_context 1 (Some (tenths 5)) = Inr ca" "scenario_line rule ca sa a l"
proof -
  obtain rule where rule: "strategy_signal_rule_init scenario_signal_rule = Inr rule" "eligible_disposition rule = SELECTED"
    by (rule scenario_signal_rule_accepted)
  obtain ca x where ca: "build_scenario_context 1 (Some (tenths 5)) = Inr ca" "authority_assessments ca = [x]"
    "assessment_kind x = MARKET_REGIME" "assessment_status x = Metric_AVAILABLE" "assessment_state x = POSITIVE"
    "content_hash_ok (assessment_sha256 x)" "authority_policy_id ca = 30" "authority_policy_sha256 ca = zero_sha"
    "authority_recorded_at ca = Aware 1 0"
    by (rule scenario_assessed)
  let ?v = "scenario_version POSITIVE rule"
  obtain si sa s where sa: "load_signal_inputs scenario_run [scenario_candidate] [ca] ?v = Inr si"
    "build_signal_authority (\<lambda>_ _. 56) (\<lambda>_ _. 57) si (scenario_inference_request 2) = Inr sa"
    and s: "signals sa = [s]" "signal_for (\<lambda>_ _. 56) ?v (1, signal_candidate s) s"
    "signal_candidate_id (signal_candidate s) = 1" "signal_score (signal_candidate s) = Some (tenths 8)"
    "length (signal_contexts (signal_candidate s)) = 1" "signal_status_of s = Signal_PRESENT"
    "signals_run_id sa = 80" "signals_version sa = ?v" "content_hash_ok (signals_sha256 sa)" "signal_group_id sa = 55"
    by (rule scenario_signals [OF ca(2-9) signal_rule_accepted [OF rule(1)] rule(2), of POSITIVE]) auto
  let ?fi = "scenario_forecast_inputs rule sa"
  obtain fa f where built: "build_forecast_authority 28 (\<lambda>_ _. 58) (\<lambda>_ _. 59) None ?fi (scenario_inference_request 3) = Inr fa"
    and fa: "forecasts fa = [f]" "forecast_signal f = s" "forecast_commitment f = scenario_commitment" "forecast_ordinal f = 1"
    "forecast_status_of f = Forecast_AVAILABLE" "content_hash_ok (forecast_sha256 f)" "forecast_count fa = 1"
    "forecasts_signal_group_id fa = 55" "forecasts_run_id fa = 80" "forecasts_version fa = ?v"
    "forecasts_recorded_at fa = Aware 3 0" "content_hash_ok (forecasts_sha256 fa)"
    by (rule scenario_forecasts [OF s(1,7,8,10,2-4,6)])
  obtain oi oa i o' where oa: "load_opportunity_inputs sa fa = Inr oi"
    "build_opportunity_authority (\<lambda>_. 71) (\<lambda>_ _. 72) oi (scenario_request 4) = Inr oa"
    "distinct (map opportunity_id (opportunities oa))" "load_portfolio_inputs oa = Inr i"
    and i: "pf_opportunities i = [o']" "pf_status o' = ACTIONABLE" "pfs_recorded_at i = Aware 4 0"
    by (rule scenario_opportunities [OF s(1,7,8,10,9,2,3,5,6) fa])
  have "\<exists>a l. scenario_line rule ca sa a l"
    using scenario_proposal [OF i] sa built oa unfolding scenario_line_def by blast
  then show ?thesis using that rule(1) ca(1) by blast
qed

end
