(* ===== verification/Decision_Chain_Properties.thy ===== *)
theory Decision_Chain_Properties
  imports Decision_Chain_Scenario
begin

text \<open>
  The properties of the stages before the Portfolio: when Context assessments fail, what a
  Signal's status is, the bounds of Forecasts, and what holds from a Candidate to its line.
\<close>

section \<open>From the Candidate to the line\<close>

text \<open>
  C7. A line of a Portfolio proposal carries weight only if the stages before it allow: its
  Candidate was a row of the Candidate set with the disposition the Signal rule asks for, every
  Context requirement that gates has a stored assessment that is available and in the required
  state, and an available Forecast was stored for that Candidate. Each stage reads the rows of the
  one before through its query.
\<close>

theorem weighted_line_is_earned:
  assumes "strategy_signal_rule_init rule = Inr (signal_rule v)"
    and "load_signal_inputs run rows as v = Inr si" "build_signal_authority sids bids si r1 = Inr sa"
    and "load_opportunity_inputs sa fa = Inr oi"
    and "build_opportunity_authority oids cids oi r3 = Inr oa" "distinct (map opportunity_id (opportunities oa))"
    and "load_portfolio_inputs oa = Inr i" "build_portfolio_proposal ambient ids i p r4 = Inr a"
    and "l \<in> set (proposal_lines a)" "dval (proposed_weight l) \<noteq> 0"
  shows "(\<exists>row \<in> set rows. row_candidate_id row = pf_candidate_id (line_source l)
      \<and> row_disposition row = eligible_disposition (signal_rule v))
    \<and> (\<forall>q \<in> set (context_requirements v). missing_action q \<noteq> OBSERVE_ONLY \<longrightarrow> requirement_met as q)
    \<and> (\<exists>f \<in> set (forecasts fa). commitment_candidate_id (forecast_commitment f) = pf_candidate_id (line_source l)
        \<and> forecast_status_of f = Forecast_AVAILABLE)"
  by (rule weighted_line_chain [OF signal_rule_accepted [OF assms(1)] assms(2-10)])

theorem weighted_line_is_earned_witness:
  "\<exists>rule ca sa a l. strategy_signal_rule_init scenario_signal_rule = Inr rule
    \<and> build_scenario_context 1 (Some (tenths 5)) = Inr ca \<and> scenario_line rule ca sa a l
    \<and> row_candidate_id scenario_candidate = pf_candidate_id (line_source l)
    \<and> requirement_met [ca] (scenario_requirement POSITIVE)"
proof -
  obtain rule ca sa a l where line: "strategy_signal_rule_init scenario_signal_rule = Inr rule"
    "build_scenario_context 1 (Some (tenths 5)) = Inr ca" "scenario_line rule ca sa a l"
    by (rule scenario_line_exists)
  obtain si fa oi oa i p where stages: "load_signal_inputs scenario_run [scenario_candidate] [ca] (scenario_version POSITIVE rule) = Inr si"
    "build_signal_authority (\<lambda>_ _. 56) (\<lambda>_ _. 57) si (scenario_inference_request 2) = Inr sa"
    "load_opportunity_inputs sa fa = Inr oi"
    "build_opportunity_authority (\<lambda>_. 71) (\<lambda>_ _. 72) oi (scenario_request 4) = Inr oa"
    "distinct (map opportunity_id (opportunities oa))" "load_portfolio_inputs oa = Inr i"
    "build_portfolio_proposal 28 pf_opportunity_id i p (scenario_request 5) = Inr a"
    "l \<in> set (proposal_lines a)" "dval (proposed_weight l) = 4 / 10"
    using line(3) unfolding scenario_line_def by blast
  have rule: "strategy_signal_rule_init scenario_signal_rule = Inr (signal_rule (scenario_version POSITIVE rule))"
    using line(1) by (simp add: scenario_version_def)
  show ?thesis
    using weighted_line_is_earned [OF rule stages(1-8)] stages(9) line
    by (auto simp: scenario_version_def scenario_requirement_def)
qed

section \<open>Contexts\<close>



section \<open>Signals\<close>

text \<open>
  C27. The status of a Signal: NO_SIGNAL without the disposition the rule asks for; else the most
  severe action of the gating Contexts that are not available (NOT_ESTIMABLE over WAIT over
  UNKNOWN); else PRESENT when every gating Context is in its required state, NO_SIGNAL when one
  is not. So a Signal is PRESENT exactly when the Candidate has the disposition and every
  requirement is met or only observed.
\<close>

theorem signal_status_rule:
  assumes "strategy_signal_rule_init rule = Inr (signal_rule v)"
    and "length (signal_contexts c) = length (context_requirements v)"
  defines "krs \<equiv> zip (signal_contexts c) (context_requirements v)"
  shows "\<exists>status reason. signal_outcome v c = Inr (status, reason)
    \<and> status = (if signal_disposition c \<noteq> eligible_disposition (signal_rule v) then NO_SIGNAL
        else case action_status (worst_action (map called_action krs)) of
          Some m \<Rightarrow> m
        | None \<Rightarrow> if list_all context_meets krs then Signal_PRESENT else NO_SIGNAL)
    \<and> (status = Signal_PRESENT \<longleftrightarrow>
        signal_disposition c = eligible_disposition (signal_rule v) \<and> list_all context_meets krs)"
proof -
  note rule = signal_rule_accepted [OF assms(1)]
  obtain reason where "signal_outcome v c = Inr (if signal_disposition c \<noteq> eligible_disposition (signal_rule v) then NO_SIGNAL
        else case action_status (worst_action (map called_action krs)) of
          Some m \<Rightarrow> m
        | None \<Rightarrow> if list_all context_meets krs then Signal_PRESENT else NO_SIGNAL, reason)"
    using signal_outcome_value [OF rule assms(2)] unfolding krs_def by blast
  then show ?thesis using signal_present_iff [OF rule assms(2)] unfolding krs_def by blast
qed

text \<open>A Candidate whose Context is or is not available.\<close>

definition scenario_signal_candidate :: "context_metric_status \<Rightarrow> context_state \<Rightarrow> prepared_signal_candidate" where
  "scenario_signal_candidate status st = \<lparr>signal_candidate_id = 1, signal_instrument_id = 1, signal_disposition = SELECTED,
     signal_score = Some (tenths 8),
     signal_contexts = [\<lparr>signal_requirement_id = 61, signal_policy_id = 30, signal_policy_sha256 = zero_sha,
       signal_assessment_id = 51, signal_assessment_group_id = 50, signal_context_kind = MARKET_REGIME,
       signal_assessment_status = status, signal_assessment_state = st,
       signal_assessment_sha256 = zero_sha, signal_context_recorded_at = Aware 1 0\<rparr>]\<rparr>"

theorem signal_status_rule_witness:
  "\<exists>rule r1 r2. strategy_signal_rule_init scenario_signal_rule = Inr rule
    \<and> signal_outcome (scenario_version POSITIVE rule) (scenario_signal_candidate Metric_AVAILABLE POSITIVE) = Inr (Signal_PRESENT, r1)
    \<and> signal_outcome (scenario_version POSITIVE rule) (scenario_signal_candidate Metric_UNKNOWN State_UNKNOWN) = Inr (Signal_WAIT, r2)"
proof -
  obtain rule where rule: "strategy_signal_rule_init scenario_signal_rule = Inr rule" "eligible_disposition rule = SELECTED"
    by (rule scenario_signal_rule_accepted)
  have v: "signal_rule (scenario_version POSITIVE rule) = rule"
    "context_requirements (scenario_version POSITIVE rule) = [scenario_requirement POSITIVE]"
    by (simp_all add: scenario_version_def)
  have "strategy_signal_rule_init scenario_signal_rule = Inr (signal_rule (scenario_version POSITIVE rule))"
    "length (signal_contexts (scenario_signal_candidate status st)) = length (context_requirements (scenario_version POSITIVE rule))"
    for status st
    by (simp_all add: v rule(1) scenario_signal_candidate_def)
  from signal_status_rule [OF this, of Metric_AVAILABLE POSITIVE] signal_status_rule [OF this, of Metric_UNKNOWN State_UNKNOWN]
  show ?thesis
    using rule unfolding v
    by (auto simp: scenario_signal_candidate_def scenario_requirement_def context_meets_def called_action_def worst_action_def)
qed

text \<open>
  C26. A StrategyVersion may require a NEUTRAL Context, and the constructor accepts it, but no
  assessment is ever NEUTRAL: a gating requirement of NEUTRAL leaves every Signal of the run
  without PRESENT.
\<close>

theorem neutral_requirement_is_never_met:
  assumes "\<forall>a \<in> set as. \<exists>ambient aids mids sids p r. build_context_assessment_authority ambient aids mids sids p r = Inr a"
    and "strategy_signal_rule_init rule = Inr (signal_rule v)"
    and "load_signal_inputs run rows as v = Inr si" "build_signal_authority sids bids si r = Inr sa"
    and "q \<in> set (context_requirements v)" "missing_action q \<noteq> OBSERVE_ONLY" "required_state q = NEUTRAL"
    and "s \<in> set (signals sa)"
  shows "signal_status_of s \<noteq> Signal_PRESENT"
proof
  assume present: "signal_status_of s = Signal_PRESENT"
  note loaded = load_signal_inputs_of [OF assms(3)]
  note built = built_signals [OF assms(4,8)]
  have contexts: "list_all2 (\<lambda>r k. load_signal_context as r = Inr k) (context_requirements v) (signal_contexts (signal_candidate s))"
    using loaded(2) built(1) by blast
  have len: "length (signal_contexts (signal_candidate s)) = length (context_requirements v)"
    using contexts list_all2_lengthD by fastforce
  obtain reason where "signal_outcome v (signal_candidate s) = Inr (Signal_PRESENT, reason)"
    using built(2) loaded(1) present by auto
  then have "list_all context_meets (zip (signal_contexts (signal_candidate s)) (context_requirements v))"
    using signal_present_iff [OF signal_rule_accepted [OF assms(2)] len] by blast
  then have "requirement_met as q" by (rule present_requirements_met [OF contexts _ assms(5,6)])
  then show False using assms(1,7) assessments_shape(1) by (fastforce simp: requirement_met_def)
qed

theorem neutral_requirement_is_never_met_witness:
  "\<exists>h rule ca si sa s. strategy_context_requirement_init (scenario_requirement NEUTRAL)
      = Inr (scenario_requirement NEUTRAL\<lparr>requirement_sha256 := h\<rparr>)
    \<and> build_scenario_context 1 (Some (tenths 5)) = Inr ca
    \<and> load_signal_inputs scenario_run [scenario_candidate] [ca] (scenario_version NEUTRAL rule) = Inr si
    \<and> build_signal_authority (\<lambda>_ _. 56) (\<lambda>_ _. 57) si (scenario_inference_request 2) = Inr sa
    \<and> s \<in> set (signals sa) \<and> signal_status_of s \<noteq> Signal_PRESENT"
proof -
  obtain rule where rule: "strategy_signal_rule_init scenario_signal_rule = Inr rule" "eligible_disposition rule = SELECTED"
    by (rule scenario_signal_rule_accepted)
  obtain ca x where ca: "build_scenario_context 1 (Some (tenths 5)) = Inr ca" "authority_assessments ca = [x]"
    "assessment_kind x = MARKET_REGIME" "assessment_status x = Metric_AVAILABLE" "assessment_state x = POSITIVE"
    "content_hash_ok (assessment_sha256 x)" "authority_policy_id ca = 30" "authority_policy_sha256 ca = zero_sha"
    "authority_recorded_at ca = Aware 1 0"
    by (rule scenario_assessed)
  obtain si sa s where sa: "load_signal_inputs scenario_run [scenario_candidate] [ca] (scenario_version NEUTRAL rule) = Inr si"
    "build_signal_authority (\<lambda>_ _. 56) (\<lambda>_ _. 57) si (scenario_inference_request 2) = Inr sa" "signals sa = [s]"
    by (rule scenario_signals [OF ca(2-9) signal_rule_accepted [OF rule(1)] rule(2), of NEUTRAL])
  have "strategy_signal_rule_init scenario_signal_rule = Inr (signal_rule (scenario_version NEUTRAL rule))"
    "scenario_requirement NEUTRAL \<in> set (context_requirements (scenario_version NEUTRAL rule))"
    using rule(1) by (simp_all add: scenario_version_def)
  moreover have "\<forall>a \<in> set [ca]. \<exists>ambient aids mids sids p r. build_context_assessment_authority ambient aids mids sids p r = Inr a"
    using ca(1) unfolding build_scenario_context_def by (metis empty_iff empty_set set_ConsD)
  moreover have "missing_action (scenario_requirement NEUTRAL) \<noteq> OBSERVE_ONLY" "required_state (scenario_requirement NEUTRAL) = NEUTRAL"
    by (simp_all add: scenario_requirement_def)
  ultimately have "signal_status_of s \<noteq> Signal_PRESENT"
    using neutral_requirement_is_never_met [OF _ _ sa(1,2)] sa(3) by (metis list.set_intros(1))
  moreover obtain h where "canonical_json_sha256 (requirement_payload (scenario_requirement NEUTRAL)) = Inr h"
    using canonical_json_sha256_total [of "requirement_payload (scenario_requirement NEUTRAL)"] by (auto simp: requirement_payload_def)
  then have "strategy_context_requirement_init (scenario_requirement NEUTRAL)
      = Inr (scenario_requirement NEUTRAL\<lparr>requirement_sha256 := h\<rparr>)"
    by (simp add: strategy_context_requirement_init_def scenario_requirement_def)
  ultimately show ?thesis using ca(1) sa by (metis list.set_intros(1))
qed

section \<open>Forecasts\<close>



end
