(* ===== verification/Outcome_Model.thy ===== *)
theory Outcome_Model
  imports Py_Arithmetic Decision_Values
begin

text \<open>
  \<open>outcome/domain/vocabulary.py\<close> and \<open>outcome/domain/model.py\<close>: the frozen inputs of a Market
  Target Outcome (decision reference, Target with checkpoints, metrics and dependencies, session
  and bar sources) and the drafts the kernel returns. A dataclass is a record, its
  \<open>__post_init__\<close> an \<open>_init\<close>. \<open>zones\<close> stands for the time zone database: it takes a zone name to the
  instant of a local date and time, or to nothing when \<open>ZoneInfo\<close> raises.
\<close>

section \<open>Vocabulary\<close>

datatype outcome_status = Outcome_PARTIAL | Outcome_COMPLETE | Outcome_UNAVAILABLE | Outcome_FAILED

fun outcome_status_value :: "outcome_status \<Rightarrow> string" where
  "outcome_status_value Outcome_PARTIAL = ''PARTIAL''"
| "outcome_status_value Outcome_COMPLETE = ''COMPLETE''"
| "outcome_status_value Outcome_UNAVAILABLE = ''UNAVAILABLE''"
| "outcome_status_value Outcome_FAILED = ''FAILED''"

datatype outcome_availability = Availability_AVAILABLE | Availability_UNAVAILABLE | Availability_FAILED

fun outcome_availability_value :: "outcome_availability \<Rightarrow> string" where
  "outcome_availability_value Availability_AVAILABLE = ''AVAILABLE''"
| "outcome_availability_value Availability_UNAVAILABLE = ''UNAVAILABLE''"
| "outcome_availability_value Availability_FAILED = ''FAILED''"

datatype outcome_finality = Finality_UNKNOWN

datatype reference_value_status = Reference_PRESENT | Reference_UNAVAILABLE | Reference_FAILED

datatype outcome_source_kind = TRADING_SESSION | BAR_REVISION | SOURCE_GAP

fun outcome_source_kind_value :: "outcome_source_kind \<Rightarrow> string" where
  "outcome_source_kind_value TRADING_SESSION = ''TRADING_SESSION''"
| "outcome_source_kind_value BAR_REVISION = ''BAR_REVISION''"
| "outcome_source_kind_value SOURCE_GAP = ''SOURCE_GAP''"

datatype outcome_gap_kind = Gap_MISSING | Gap_PLACEHOLDER | Gap_PROVIDER_FAILURE | Gap_CONFLICT | Gap_INVALID_OHLC

fun outcome_gap_kind_value :: "outcome_gap_kind \<Rightarrow> string" where
  "outcome_gap_kind_value Gap_MISSING = ''MISSING''"
| "outcome_gap_kind_value Gap_PLACEHOLDER = ''PLACEHOLDER''"
| "outcome_gap_kind_value Gap_PROVIDER_FAILURE = ''PROVIDER_FAILURE''"
| "outcome_gap_kind_value Gap_CONFLICT = ''CONFLICT''"
| "outcome_gap_kind_value Gap_INVALID_OHLC = ''INVALID_OHLC''"

datatype outcome_metric_kind =
    SIMPLE_RETURN | OBSERVATION_RETURN | MAX_FAVORABLE_EXCURSION | MAX_ADVERSE_EXCURSION
  | BARRIER_HIT | OBSERVATION_VALUE

fun outcome_metric_kind_value :: "outcome_metric_kind \<Rightarrow> string" where
  "outcome_metric_kind_value SIMPLE_RETURN = ''SIMPLE_RETURN''"
| "outcome_metric_kind_value OBSERVATION_RETURN = ''OBSERVATION_RETURN''"
| "outcome_metric_kind_value MAX_FAVORABLE_EXCURSION = ''MAX_FAVORABLE_EXCURSION''"
| "outcome_metric_kind_value MAX_ADVERSE_EXCURSION = ''MAX_ADVERSE_EXCURSION''"
| "outcome_metric_kind_value BARRIER_HIT = ''BARRIER_HIT''"
| "outcome_metric_kind_value OBSERVATION_VALUE = ''OBSERVATION_VALUE''"

datatype outcome_value_type = Value_DECIMAL | Value_BOOLEAN

fun outcome_value_type_value :: "outcome_value_type \<Rightarrow> string" where
  "outcome_value_type_value Value_DECIMAL = ''DECIMAL''"
| "outcome_value_type_value Value_BOOLEAN = ''BOOLEAN''"

datatype outcome_completion_rule = REQUIRED | OPTIONAL

fun outcome_completion_rule_value :: "outcome_completion_rule \<Rightarrow> string" where
  "outcome_completion_rule_value REQUIRED = ''REQUIRED''"
| "outcome_completion_rule_value OPTIONAL = ''OPTIONAL''"

datatype outcome_dependency_role = Role_REFERENCE | Role_OBSERVATION | Role_PATH_MEMBER

fun outcome_dependency_role_value :: "outcome_dependency_role \<Rightarrow> string" where
  "outcome_dependency_role_value Role_REFERENCE = ''REFERENCE''"
| "outcome_dependency_role_value Role_OBSERVATION = ''OBSERVATION''"
| "outcome_dependency_role_value Role_PATH_MEMBER = ''PATH_MEMBER''"

datatype outcome_barrier_direction = Barrier_UP | Barrier_DOWN

datatype outcome_value_field = Field_OPEN | Field_HIGH | Field_LOW | Field_CLOSE

datatype outcome_reason_dimension = Reason_REVISION | Reason_OBSERVATION | Reason_METRIC | Reason_SOURCE

fun outcome_reason_dimension_value :: "outcome_reason_dimension \<Rightarrow> string" where
  "outcome_reason_dimension_value Reason_REVISION = ''REVISION''"
| "outcome_reason_dimension_value Reason_OBSERVATION = ''OBSERVATION''"
| "outcome_reason_dimension_value Reason_METRIC = ''METRIC''"
| "outcome_reason_dimension_value Reason_SOURCE = ''SOURCE''"

section \<open>Field checks\<close>

text \<open>\<open>datetime.time\<close>: microseconds of the day, without or with a zone.\<close>

datatype py_time = NaiveTime int | AwareTime int

type_synonym zones = "string \<Rightarrow> (int \<Rightarrow> int \<Rightarrow> instant) option"

text \<open>\<open>_utc\<close> only checks that there is a zone, and keeps the value.\<close>

fun aware_field :: "string \<Rightarrow> py_datetime \<Rightarrow> py_error + unit" where
  "aware_field field (Naive t) = Inl (ValueError (field @ '' must be timezone-aware''))"
| "aware_field field (Aware t off) = Inr ()"

definition outcome_sha :: "string \<Rightarrow> string \<Rightarrow> py_error + unit" where
  "outcome_sha field v = guardE (content_hash_ok v) (ValueError (field @ '' must be a lowercase SHA-256''))"

definition positive_decimal :: "string \<Rightarrow> decimal \<Rightarrow> py_error + unit" where
  "positive_decimal field v =
     guardE (is_finite v \<and> dval v > 0) (ValueError (field @ '' must be finite and positive''))"

definition outcome_code_ok :: "string \<Rightarrow> bool" where
  "outcome_code_ok = head_tail_match is_lower (\<lambda>c. is_lower c \<or> is_digit c \<or> c = CHR ''_'') 99"

definition algorithm_version_ok :: "string \<Rightarrow> bool" where
  "algorithm_version_ok = head_tail_match is_alnum (\<lambda>c. is_alnum c \<or> c \<in> set ''._-'') 63"

section \<open>The decision reference\<close>

record frozen_decision_reference =
  decision_reference_id :: uuid
  reference_sha256 :: string
  reference_status :: reference_value_status
  reference_availability :: outcome_availability
  reference_finality :: outcome_finality
  reference_value :: "decimal option"

fun reference_availability_of :: "reference_value_status \<Rightarrow> outcome_availability" where
  "reference_availability_of Reference_PRESENT = Availability_AVAILABLE"
| "reference_availability_of Reference_UNAVAILABLE = Availability_UNAVAILABLE"
| "reference_availability_of Reference_FAILED = Availability_FAILED"

definition frozen_decision_reference_init :: "frozen_decision_reference \<Rightarrow> frozen_decision_reference result" where
  "frozen_decision_reference_init r =
     thenE (outcome_sha ''Decision reference hash'' (reference_sha256 r))
     (thenE (guardE (reference_availability r = reference_availability_of (reference_status r))
        (ValueError ''Decision reference value and availability states differ''))
     (thenE (guardE (reference_finality r = Finality_UNKNOWN)
        (ValueError ''WP-10 accepts only UNKNOWN Decision reference finality''))
     (thenE (if reference_status r = Reference_PRESENT then
          (case reference_value r of
             None \<Rightarrow> Inl (ValueError ''present Decision reference requires a value'')
           | Some v \<Rightarrow> positive_decimal ''Decision reference value'' v)
        else guardE (reference_value r = None)
          (ValueError ''unavailable/failed Decision reference cannot carry a value''))
     (Inr r))))"

section \<open>Targets\<close>

record outcome_checkpoint =
  checkpoint_id :: uuid
  checkpoint_sha256 :: string
  checkpoint_ordinal :: int
  checkpoint_code :: string
  checkpoint_offset :: int
  checkpoint_time :: py_time
  checkpoint_zone :: string
  checkpoint_timeframe :: string
  checkpoint_basis :: string
  checkpoint_field :: outcome_value_field

fun time_of :: "py_time \<Rightarrow> int" where
  "time_of (NaiveTime t) = t"
| "time_of (AwareTime t) = t"

definition outcome_checkpoint_init :: "zones \<Rightarrow> outcome_checkpoint \<Rightarrow> outcome_checkpoint result" where
  "outcome_checkpoint_init zones c =
     thenE (outcome_sha ''Outcome checkpoint hash'' (checkpoint_sha256 c))
     (thenE (guardE (\<not> (checkpoint_ordinal c < 1 \<or> checkpoint_offset c < 1))
        (ValueError ''Outcome checkpoint ordinal/session offset must be positive''))
     (thenE (guardE (outcome_code_ok (checkpoint_code c)) (ValueError ''Outcome checkpoint code has an invalid format''))
     (thenE (case checkpoint_time c of
          AwareTime t \<Rightarrow> Inl (ValueError ''Outcome checkpoint local_time must be timezone-naive'')
        | NaiveTime t \<Rightarrow> guardE (t mod 60000000 = 0)
            (ValueError ''Outcome checkpoint local_time must have minute precision''))
     (thenE (guardE (zones (checkpoint_zone c) \<noteq> None) (ValueError ''Outcome checkpoint timezone is invalid''))
     (thenE (guardE (checkpoint_timeframe c
          \<in> {''MINUTE_1'', ''MINUTE_5'', ''MINUTE_15'', ''MINUTE_30'', ''MINUTE_60'', ''DAILY''})
        (ValueError ''Outcome checkpoint timeframe is invalid''))
     (thenE (guardE (checkpoint_basis c \<in> {''RAW_UNADJUSTED'', ''FORWARD_ADJUSTED'', ''BACKWARD_ADJUSTED''})
        (ValueError ''Outcome checkpoint price basis is invalid''))
     (Inr c)))))))"

text \<open>The identity of an algorithm and of its code and configuration artifacts.\<close>

record outcome_algorithm =
  algorithm_code :: string
  algorithm_version :: string
  algorithm_sha256 :: string
  algorithm_code_id :: uuid
  algorithm_code_sha256 :: string
  algorithm_code_size :: int
  algorithm_config_id :: uuid
  algorithm_config_sha256 :: string
  algorithm_config_size :: int

record outcome_metric_definition =
  definition_id :: uuid
  definition_ordinal :: int
  definition_code :: string
  definition_kind :: outcome_metric_kind
  definition_value_type :: outcome_value_type
  definition_unit :: string
  definition_completion :: outcome_completion_rule
  definition_algorithm :: outcome_algorithm
  definition_sha256 :: string
  barrier_direction :: "outcome_barrier_direction option"
  barrier_threshold :: "decimal option"

fun expected_metric_shape :: "outcome_metric_kind \<Rightarrow> outcome_value_type \<times> string" where
  "expected_metric_shape OBSERVATION_VALUE = (Value_DECIMAL, ''PRICE'')"
| "expected_metric_shape BARRIER_HIT = (Value_BOOLEAN, ''BOOLEAN'')"
| "expected_metric_shape _ = (Value_DECIMAL, ''RATIO'')"

definition outcome_metric_definition_init :: "outcome_metric_definition \<Rightarrow> outcome_metric_definition result" where
  "outcome_metric_definition_init m =
     (let a = definition_algorithm m in
      thenE (guardE (\<not> (definition_ordinal m < 1 \<or> \<not> outcome_code_ok (definition_code m)))
        (ValueError ''Outcome metric ordinal/code is invalid''))
     (thenE (guardE (outcome_code_ok (algorithm_code a)) (ValueError ''Outcome metric algorithm code is invalid''))
     (thenE (guardE (algorithm_version_ok (algorithm_version a))
        (ValueError ''Outcome metric algorithm version is invalid''))
     (thenE (outcome_sha ''metric algorithm hash'' (algorithm_sha256 a))
     (thenE (outcome_sha ''metric code artifact hash'' (algorithm_code_sha256 a))
     (thenE (outcome_sha ''metric config artifact hash'' (algorithm_config_sha256 a))
     (thenE (outcome_sha ''metric definition hash'' (definition_sha256 m))
     (thenE (guardE (\<not> (algorithm_code_size a < 0 \<or> algorithm_config_size a < 0))
        (ValueError ''metric artifact sizes must be non-negative''))
     (thenE (guardE ((definition_value_type m, definition_unit m) = expected_metric_shape (definition_kind m))
        (ValueError ''Outcome metric value type/unit disagrees with kind''))
     (thenE (if definition_kind m = BARRIER_HIT then
          (case (barrier_direction m, barrier_threshold m) of
             (Some d, Some t) \<Rightarrow> positive_decimal ''barrier threshold'' t
           | _ \<Rightarrow> Inl (ValueError ''barrier metric requires direction and threshold''))
        else guardE (barrier_direction m = None \<and> barrier_threshold m = None)
          (ValueError ''non-barrier metric cannot carry barrier fields''))
     (Inr m)))))))))))"

record outcome_metric_dependency =
  dependency_id :: uuid
  dependency_ordinal :: int
  dependency_metric_id :: uuid
  dependency_checkpoint_id :: uuid
  dependency_role :: outcome_dependency_role
  dependency_sha256 :: string

definition outcome_metric_dependency_init :: "outcome_metric_dependency \<Rightarrow> outcome_metric_dependency result" where
  "outcome_metric_dependency_init d =
     thenE (guardE (\<not> dependency_ordinal d < 1) (ValueError ''Outcome dependency ordinal must be positive''))
     (thenE (outcome_sha ''metric dependency hash'' (dependency_sha256 d)) (Inr d))"

record outcome_target_definition =
  target_id :: uuid
  target_code :: string
  target_version :: int
  target_sha256 :: string
  target_reference_checkpoint :: uuid
  target_algorithm :: outcome_algorithm
  target_checkpoints :: "outcome_checkpoint list"
  target_metrics :: "outcome_metric_definition list"
  target_dependencies :: "outcome_metric_dependency list"

definition target_contiguous :: "string \<Rightarrow> int list \<Rightarrow> py_error + unit" where
  "target_contiguous label ns =
     guardE (contiguous ns) (ValueError (''Outcome Target '' @ label @ '' must be ordered and contiguous''))"

definition target_ordered :: "string \<Rightarrow> int list \<Rightarrow> py_error + unit" where
  "target_ordered label ns =
     guardE (\<not> (list_ex (\<lambda>n. n < 1) ns \<or> ns \<noteq> sorted_list_of_set (set ns)))
       (ValueError (''Outcome Target '' @ label @ '' must preserve strict Target order''))"

definition excursion_kinds :: "outcome_metric_kind set" where
  "excursion_kinds = {MAX_FAVORABLE_EXCURSION, MAX_ADVERSE_EXCURSION, BARRIER_HIT}"

definition validate_metric_dependencies ::
  "outcome_metric_definition \<Rightarrow> outcome_metric_dependency list \<Rightarrow> py_error + unit" where
  "validate_metric_dependencies m ds =
     (let roles = map dependency_role ds; kind = definition_kind m in
      thenE (guardE (\<not> (kind = OBSERVATION_RETURN \<and> roles \<noteq> [Role_OBSERVATION, Role_OBSERVATION]))
        (ValueError ''OBSERVATION_RETURN requires two ordered OBSERVATION dependencies''))
     (thenE (guardE (\<not> (kind = SIMPLE_RETURN
          \<and> sort_key outcome_dependency_role_value roles \<noteq> [Role_OBSERVATION, Role_REFERENCE]))
        (ValueError ''SIMPLE_RETURN requires one REFERENCE and one OBSERVATION''))
     (thenE (guardE (\<not> (kind = OBSERVATION_VALUE \<and> roles \<noteq> [Role_OBSERVATION]))
        (ValueError ''OBSERVATION_VALUE requires one OBSERVATION''))
     (guardE (\<not> (kind \<in> excursion_kinds
          \<and> (count_list roles Role_REFERENCE \<noteq> 1 \<or> count_list roles Role_PATH_MEMBER < 1
             \<or> list_ex (\<lambda>r. r \<notin> {Role_REFERENCE, Role_PATH_MEMBER}) roles)))
        (ValueError ''metric requires REFERENCE plus PATH_MEMBER'')))))"

text \<open>The pass over the dependencies: the bindings seen so far.\<close>

definition check_dependency ::
  "outcome_target_definition \<Rightarrow> outcome_metric_dependency \<Rightarrow> (uuid \<times> uuid \<times> outcome_dependency_role) set \<Rightarrow>
   (uuid \<times> uuid \<times> outcome_dependency_role) set result" where
  "check_dependency t d seen =
     (let key = (dependency_metric_id d, dependency_checkpoint_id d, dependency_role d) in
      thenE (guardE (dependency_metric_id d \<in> set (map definition_id (target_metrics t)))
        (ValueError ''Outcome dependency references an unknown metric''))
     (thenE (if dependency_role d = Role_REFERENCE then
          guardE (dependency_checkpoint_id d = target_reference_checkpoint t)
            (ValueError ''REFERENCE must bind the frozen reference checkpoint'')
        else guardE (dependency_checkpoint_id d \<in> set (map checkpoint_id (target_checkpoints t)))
          (ValueError ''Outcome dependency references an unknown checkpoint''))
     (thenE (guardE (key \<notin> seen) (ValueError ''Outcome dependency bindings must be unique''))
     (Inr (insert key seen)))))"

definition dependencies_of :: "outcome_target_definition \<Rightarrow> outcome_metric_definition \<Rightarrow> outcome_metric_dependency list" where
  "dependencies_of t m = filter (\<lambda>d. dependency_metric_id d = definition_id m) (target_dependencies t)"

definition same_daily_scope :: "outcome_checkpoint \<Rightarrow> outcome_checkpoint \<Rightarrow> bool" where
  "same_daily_scope c c' \<longleftrightarrow>
     checkpoint_offset c = checkpoint_offset c' \<and> checkpoint_time c = checkpoint_time c'
     \<and> checkpoint_zone c = checkpoint_zone c'
     \<and> checkpoint_timeframe c = ''DAILY'' \<and> checkpoint_timeframe c' = ''DAILY''
     \<and> checkpoint_basis c = ''RAW_UNADJUSTED'' \<and> checkpoint_basis c' = ''RAW_UNADJUSTED''
     \<and> checkpoint_field c = Field_OPEN \<and> checkpoint_field c' = Field_CLOSE"

definition checkpoint_at :: "outcome_target_definition \<Rightarrow> uuid \<Rightarrow> outcome_checkpoint option" where
  "checkpoint_at t i = row_at checkpoint_id (target_checkpoints t) i"

text \<open>The check of one metric against its dependencies.\<close>

definition check_metric :: "outcome_target_definition \<Rightarrow> outcome_metric_definition \<Rightarrow> py_error + unit" where
  "check_metric t m =
     (let ds = dependencies_of t m in
      thenE (validate_metric_dependencies m ds)
     (if definition_kind m = OBSERVATION_RETURN then
        bindE (mapE (\<lambda>d. optE (checkpoint_at t (dependency_checkpoint_id d)) KeyError) ds) (\<lambda>cs.
        (case cs of
           [c, c'] \<Rightarrow> guardE (same_daily_scope c c')
             (ValueError ''OBSERVATION_RETURN requires same exact daily OPEN/CLOSE scope'')
         | _ \<Rightarrow> Inl (ValueError ''not enough values to unpack'')))
      else Inr ()))"

definition outcome_target_definition_init :: "outcome_target_definition \<Rightarrow> outcome_target_definition result" where
  "outcome_target_definition_init t =
     (let a = target_algorithm t; cs = target_checkpoints t; ms = target_metrics t; ds = target_dependencies t in
      thenE (guardE (\<not> (target_version t < 1 \<or> \<not> outcome_code_ok (target_code t)))
        (ValueError ''Outcome Target identity/version is invalid''))
     (thenE (guardE (outcome_code_ok (algorithm_code a)) (ValueError ''Outcome Target algorithm code is invalid''))
     (thenE (guardE (algorithm_version_ok (algorithm_version a))
        (ValueError ''Outcome Target algorithm version is invalid''))
     (thenE (outcome_sha ''Target hash'' (target_sha256 t))
     (thenE (outcome_sha ''Target algorithm hash'' (algorithm_sha256 a))
     (thenE (outcome_sha ''Target code artifact hash'' (algorithm_code_sha256 a))
     (thenE (outcome_sha ''Target config artifact hash'' (algorithm_config_sha256 a))
     (thenE (guardE (\<not> (algorithm_code_size a < 0 \<or> algorithm_config_size a < 0))
        (ValueError ''Target artifact sizes must be non-negative''))
     (thenE (guardE (cs \<noteq> [] \<and> ms \<noteq> [] \<and> ds \<noteq> [])
        (ValueError ''Outcome Target requires complete non-empty rosters''))
     (thenE (target_ordered ''checkpoints'' (map checkpoint_ordinal cs))
     (thenE (target_contiguous ''metrics'' (map definition_ordinal ms))
     (thenE (target_contiguous ''dependencies'' (map dependency_ordinal ds))
     (thenE (guardE (distinct (map checkpoint_id cs) \<and> distinct (map definition_id ms))
        (ValueError ''Outcome Target child identities must be unique''))
     (bindE (foldE (check_dependency t) ds {}) (\<lambda>_.
      bindE (mapE (check_metric t) ms) (\<lambda>_.
      Inr t))))))))))))))))"

section \<open>Sources\<close>

record outcome_session_source =
  session_id :: uuid
  session_offset :: int
  session_exchange :: string
  session_date :: int
  session_zone :: string
  session_open :: py_datetime
  session_close :: py_datetime
  session_capture_id :: uuid
  session_product_id :: uuid
  session_recorded_at :: py_datetime
  session_known_at :: py_datetime

definition outcome_session_source_init :: "zones \<Rightarrow> outcome_session_source \<Rightarrow> outcome_session_source result" where
  "outcome_session_source_init zones s =
     thenE (guardE (\<not> (session_offset s < 1 \<or> session_exchange s = []))
       (ValueError ''Outcome Session offset/exchange is invalid''))
     (thenE (aware_field ''Session open'' (session_open s))
     (thenE (aware_field ''Session close'' (session_close s))
     (thenE (aware_field ''Session recorded_at'' (session_recorded_at s))
     (thenE (aware_field ''Session known_at'' (session_known_at s))
     (thenE (guardE (\<not> (\<not> instant_of (session_open s) < instant_of (session_close s)
          \<or> instant_of (session_known_at s) < instant_of (session_recorded_at s)))
        (ValueError ''Outcome Session temporal order is invalid''))
     (thenE (guardE (zones (session_zone s) \<noteq> None) (ValueError ''Outcome Session timezone is invalid''))
     (Inr s)))))))"

text \<open>
  A bar revision and a source gap share their identity and scope; \<open>source_body\<close> is what tells
  them apart, with the identity of the fact first.
\<close>

datatype outcome_source_body =
    Bar (fact_id: uuid) (bar_revision: int) (bar_open: decimal) (bar_high: decimal) (bar_low: decimal) (bar_close: decimal)
  | Gap (fact_id: uuid) (gap_kind: outcome_gap_kind) (gap_reason: string)

record outcome_observation_source =
  source_checkpoint_id :: uuid
  outcome_source_ordinal :: int
  source_product_id :: uuid
  source_capture_id :: uuid
  source_instrument_id :: uuid
  source_session_id :: uuid
  source_timeframe :: string
  source_basis :: string
  source_start :: py_datetime
  source_end :: py_datetime
  source_recorded_at :: py_datetime
  source_known :: py_datetime
  source_body :: outcome_source_body

definition validate_observation_source :: "outcome_observation_source \<Rightarrow> py_error + unit" where
  "validate_observation_source s =
     thenE (guardE (\<not> outcome_source_ordinal s < 1) (ValueError ''Outcome source ordinal must be positive''))
     (thenE (aware_field ''Outcome source event_start'' (source_start s))
     (thenE (aware_field ''Outcome source event_end'' (source_end s))
     (thenE (aware_field ''Outcome source recorded_at'' (source_recorded_at s))
     (thenE (aware_field ''Outcome source known_at'' (source_known s))
     (guardE (\<not> (instant_of (source_end s) \<le> instant_of (source_start s)
          \<or> instant_of (source_known s) < instant_of (source_recorded_at s)
          \<or> instant_of (source_known s) < instant_of (source_end s)))
        (ValueError ''Outcome source temporal order is invalid''))))))"

definition outcome_source_init :: "outcome_observation_source \<Rightarrow> outcome_observation_source result" where
  "outcome_source_init s =
     thenE (validate_observation_source s)
     (case source_body s of
        Bar i n op hi lo cl \<Rightarrow>
          thenE (guardE (\<not> n < 1) (ValueError ''Outcome bar revision must be positive''))
         (bindE (mapE (positive_decimal ''Outcome OHLC value'') [op, hi, lo, cl]) (\<lambda>_.
          thenE (guardE (\<not> (dval hi < Max (dval ` {op, hi, lo, cl}) \<or> dval lo > Min (dval ` {op, hi, lo, cl})))
            (ValueError ''Outcome OHLC structure is invalid''))
         (Inr s)))
      | Gap i kind reason \<Rightarrow>
          thenE (guardE (code_ok reason) (ValueError ''Outcome SourceGap reason code is invalid'')) (Inr s))"

end
