(* ===== verification/Outcome_Drafts.thy ===== *)
theory Outcome_Drafts
  imports Outcome_Model
begin

text \<open>
  The drafts of \<open>outcome/domain/model.py\<close>: observations, metrics, dependencies, reasons and the
  revision, with the shapes their constructors require and the hashes they compute. A dataclass
  inside a hashed value is normalised field by field.
\<close>

section \<open>Observations\<close>

record outcome_observation_draft =
  observation_checkpoint_id :: uuid
  observation_kind :: outcome_source_kind
  observation_fact_id :: uuid
  observation_status :: outcome_status
  observation_availability :: outcome_availability
  observation_finality :: outcome_finality
  selected_value :: "decimal option"
  open_value :: "decimal option"
  high_value :: "decimal option"
  low_value :: "decimal option"
  close_value :: "decimal option"
  observation_start :: py_datetime
  observation_end :: py_datetime
  observation_known_at :: py_datetime
  observation_sha256 :: string

text \<open>The availability of a draft without a value.\<close>

fun unusable_availability :: "outcome_status \<Rightarrow> outcome_availability option" where
  "unusable_availability Outcome_UNAVAILABLE = Some Availability_UNAVAILABLE"
| "unusable_availability Outcome_FAILED = Some Availability_FAILED"
| "unusable_availability _ = None"

definition observation_values :: "outcome_observation_draft \<Rightarrow> decimal option list" where
  "observation_values o' = [selected_value o', open_value o', high_value o', low_value o', close_value o']"

definition observation_shape :: "outcome_observation_draft \<Rightarrow> bool" where
  "observation_shape o' \<longleftrightarrow>
     (if observation_status o' \<in> {Outcome_COMPLETE, Outcome_PARTIAL} then
        observation_kind o' = BAR_REVISION \<and> observation_availability o' = Availability_AVAILABLE
        \<and> (case (selected_value o', open_value o', high_value o', low_value o', close_value o') of
             (Some s, Some op, Some hi, Some lo, Some cl) \<Rightarrow>
               list_all (\<lambda>v. is_finite v \<and> \<not> dval v \<le> 0) [s, op, hi, lo, cl]
               \<and> \<not> (dval hi < Max {dval op, dval lo, dval cl} \<or> dval lo > Min {dval op, dval hi, dval cl})
           | _ \<Rightarrow> False)
      else unusable_availability (observation_status o') = Some (observation_availability o')
        \<and> observation_kind o' = SOURCE_GAP \<and> list_all (\<lambda>v. v = None) (observation_values o'))"

definition observation_payload :: "outcome_observation_draft \<Rightarrow> pyval" where
  "observation_payload o' = PMapping
     [(''target_checkpoint_id'', PUuid (observation_checkpoint_id o')),
      (''source_kind'', PStr (outcome_source_kind_value (observation_kind o'))),
      (''source_fact_id'', PUuid (observation_fact_id o')),
      (''status'', PStr (outcome_status_value (observation_status o'))),
      (''availability_status'', PStr (outcome_availability_value (observation_availability o'))),
      (''finality_status'', PStr ''UNKNOWN''),
      (''selected_value'', optional_payload PDecimal (selected_value o')),
      (''open_value'', optional_payload PDecimal (open_value o')),
      (''high_value'', optional_payload PDecimal (high_value o')),
      (''low_value'', optional_payload PDecimal (low_value o')),
      (''close_value'', optional_payload PDecimal (close_value o')),
      (''event_start'', PDatetime (observation_start o')),
      (''event_end'', PDatetime (observation_end o')),
      (''known_at'', PDatetime (observation_known_at o'))]"

definition outcome_observation_draft_init :: "outcome_observation_draft \<Rightarrow> outcome_observation_draft result" where
  "outcome_observation_draft_init o' =
     thenE (aware_field ''Outcome observation event_start'' (observation_start o'))
     (thenE (aware_field ''Outcome observation event_end'' (observation_end o'))
     (thenE (aware_field ''Outcome observation known_at'' (observation_known_at o'))
     (thenE (guardE (\<not> (instant_of (observation_end o') \<le> instant_of (observation_start o')
          \<or> instant_of (observation_known_at o') < instant_of (observation_end o')))
        (ValueError ''Outcome observation temporal order is invalid''))
     (thenE (guardE (observation_finality o' = Finality_UNKNOWN)
        (ValueError ''Outcome observation finality must be UNKNOWN''))
     (thenE (guardE (observation_shape o') (ValueError ''Outcome observation state shape is invalid''))
     (bindE (canonical_json_sha256 (observation_payload o')) (\<lambda>h.
      Inr (o'\<lparr>observation_sha256 := h\<rparr>))))))))"

section \<open>Metrics\<close>

record outcome_metric_draft =
  metric_definition_id :: uuid
  metric_ordinal :: int
  metric_draft_code :: string
  metric_draft_kind :: outcome_metric_kind
  metric_draft_type :: outcome_value_type
  metric_draft_unit :: string
  metric_completion :: outcome_completion_rule
  metric_draft_status :: outcome_status
  metric_availability :: outcome_availability
  metric_finality :: outcome_finality
  metric_decimal :: "decimal option"
  metric_boolean :: "bool option"
  first_passage_at :: "py_datetime option"
  metric_algorithm :: outcome_algorithm
  metric_target_sha256 :: string
  metric_draft_sha256 :: string

definition metric_draft_shape :: "outcome_metric_draft \<Rightarrow> bool" where
  "metric_draft_shape m \<longleftrightarrow>
     (if metric_draft_status m \<in> {Outcome_COMPLETE, Outcome_PARTIAL} then
        metric_availability m = Availability_AVAILABLE
        \<and> (if metric_draft_type m = Value_DECIMAL then metric_decimal m \<noteq> None \<and> metric_boolean m = None
           else metric_decimal m = None \<and> metric_boolean m \<noteq> None)
        \<and> (case metric_decimal m of None \<Rightarrow> True | Some v \<Rightarrow> is_finite v)
      else unusable_availability (metric_draft_status m) = Some (metric_availability m)
        \<and> metric_decimal m = None \<and> metric_boolean m = None \<and> first_passage_at m = None)"

definition metric_draft_payload :: "outcome_metric_draft \<Rightarrow> pyval" where
  "metric_draft_payload m =
     (let a = metric_algorithm m in PMapping
     [(''target_metric_definition_id'', PUuid (metric_definition_id m)),
      (''ordinal'', PInt (metric_ordinal m)),
      (''metric_code'', PStr (metric_draft_code m)),
      (''metric_kind'', PStr (outcome_metric_kind_value (metric_draft_kind m))),
      (''value_type'', PStr (outcome_value_type_value (metric_draft_type m))),
      (''unit'', PStr (metric_draft_unit m)),
      (''completion_rule'', PStr (outcome_completion_rule_value (metric_completion m))),
      (''status'', PStr (outcome_status_value (metric_draft_status m))),
      (''availability_status'', PStr (outcome_availability_value (metric_availability m))),
      (''finality_status'', PStr ''UNKNOWN''),
      (''decimal_value'', optional_payload PDecimal (metric_decimal m)),
      (''boolean_value'', optional_payload PBool (metric_boolean m)),
      (''first_passage_at'', optional_payload PDatetime (first_passage_at m)),
      (''algorithm_code'', PStr (algorithm_code a)),
      (''algorithm_version'', PStr (algorithm_version a)),
      (''algorithm_sha256'', PStr (algorithm_sha256 a)),
      (''code_artifact_id'', PUuid (algorithm_code_id a)),
      (''code_content_sha256'', PStr (algorithm_code_sha256 a)),
      (''code_size_bytes'', PInt (algorithm_code_size a)),
      (''config_artifact_id'', PUuid (algorithm_config_id a)),
      (''config_content_sha256'', PStr (algorithm_config_sha256 a)),
      (''config_size_bytes'', PInt (algorithm_config_size a)),
      (''target_metric_sha256'', PStr (metric_target_sha256 m))])"

definition outcome_metric_draft_init :: "outcome_metric_draft \<Rightarrow> outcome_metric_draft result" where
  "outcome_metric_draft_init m =
     (let a = metric_algorithm m in
      thenE (guardE (\<not> (metric_ordinal m < 1 \<or> \<not> outcome_code_ok (metric_draft_code m)))
        (ValueError ''Outcome metric identity is invalid''))
     (thenE (guardE (outcome_code_ok (algorithm_code a) \<and> algorithm_version_ok (algorithm_version a))
        (ValueError ''Outcome metric algorithm identity is invalid''))
     (thenE (outcome_sha ''Outcome metric algorithm hash'' (algorithm_sha256 a))
     (thenE (outcome_sha ''Outcome metric code hash'' (algorithm_code_sha256 a))
     (thenE (outcome_sha ''Outcome metric config hash'' (algorithm_config_sha256 a))
     (thenE (outcome_sha ''Outcome Target metric hash'' (metric_target_sha256 m))
     (thenE (guardE (\<not> (algorithm_code_size a < 0 \<or> algorithm_config_size a < 0))
        (ValueError ''Outcome metric artifact sizes must be non-negative''))
     (thenE (guardE (metric_finality m = Finality_UNKNOWN) (ValueError ''Outcome metric finality must be UNKNOWN''))
     (thenE (guardE (metric_draft_shape m) (ValueError ''Outcome metric state shape is invalid''))
     (thenE (case first_passage_at m of
          None \<Rightarrow> Inr ()
        | Some t \<Rightarrow>
            thenE (aware_field ''Outcome metric first passage'' t)
            (guardE (metric_draft_kind m = BARRIER_HIT)
              (ValueError ''Outcome metric first passage requires a barrier'')))
     (bindE (canonical_json_sha256 (metric_draft_payload m)) (\<lambda>h.
      Inr (m\<lparr>metric_draft_sha256 := h\<rparr>)))))))))))))"

section \<open>Dependencies and reasons\<close>

record outcome_reference_dependency =
  reference_dependency_id :: uuid
  reference_dependency_metric :: uuid
  reference_dependency_checkpoint :: uuid
  reference_dependency_role :: outcome_dependency_role
  reference_dependency_reference :: uuid

definition outcome_reference_dependency_init :: "outcome_reference_dependency \<Rightarrow> outcome_reference_dependency result" where
  "outcome_reference_dependency_init d =
     thenE (guardE (reference_dependency_role d = Role_REFERENCE)
       (ValueError ''Outcome REFERENCE dependency role is invalid'')) (Inr d)"

record outcome_observation_dependency =
  observation_dependency_id :: uuid
  observation_dependency_metric :: uuid
  observation_dependency_checkpoint :: uuid
  observation_dependency_role :: outcome_dependency_role

definition outcome_observation_dependency_init ::
  "outcome_observation_dependency \<Rightarrow> outcome_observation_dependency result" where
  "outcome_observation_dependency_init d =
     thenE (guardE (observation_dependency_role d \<in> {Role_OBSERVATION, Role_PATH_MEMBER})
       (ValueError ''Outcome observation dependency role is invalid'')) (Inr d)"

record outcome_reason_draft =
  reason_draft_ordinal :: int
  reason_dimension :: outcome_reason_dimension
  reason_draft_code :: string
  reason_checkpoint_id :: "uuid option"
  reason_metric_id :: "uuid option"

fun reason_shape :: "outcome_reason_dimension \<Rightarrow> uuid option \<Rightarrow> uuid option \<Rightarrow> bool" where
  "reason_shape Reason_REVISION c m \<longleftrightarrow> c = None \<and> m = None"
| "reason_shape Reason_SOURCE c m \<longleftrightarrow> c \<noteq> None \<and> m = None"
| "reason_shape Reason_OBSERVATION c m \<longleftrightarrow> c \<noteq> None \<and> m = None"
| "reason_shape Reason_METRIC c m \<longleftrightarrow> m \<noteq> None \<and> c = None"

definition outcome_reason_draft_init :: "outcome_reason_draft \<Rightarrow> outcome_reason_draft result" where
  "outcome_reason_draft_init r =
     thenE (guardE (\<not> (reason_draft_ordinal r < 1 \<or> \<not> code_ok (reason_draft_code r)))
       (ValueError ''Outcome reason identity is invalid''))
     (thenE (guardE (reason_shape (reason_dimension r) (reason_checkpoint_id r) (reason_metric_id r))
       (ValueError ''Outcome reason dimension shape is invalid''))
     (Inr r))"

section \<open>The revision\<close>

record outcome_revision_draft =
  revision_target_id :: uuid
  revision_target_sha256 :: string
  revision_reference_id :: uuid
  revision_reference_sha256 :: string
  observation_cutoff :: py_datetime
  knowledge_cutoff :: py_datetime
  revision_status :: outcome_status
  revision_availability :: outcome_availability
  revision_finality :: outcome_finality
  revision_sessions :: "outcome_session_source list"
  revision_sources :: "outcome_observation_source list"
  revision_observations :: "outcome_observation_draft list"
  revision_metrics :: "outcome_metric_draft list"
  reference_dependencies :: "outcome_reference_dependency list"
  observation_dependencies :: "outcome_observation_dependency list"
  revision_reasons :: "outcome_reason_draft list"
  revision_source_roster_sha256 :: string
  observation_roster_sha256 :: string
  revision_metric_roster_sha256 :: string
  reference_dependency_roster_sha256 :: string
  observation_dependency_roster_sha256 :: string
  revision_reason_roster_sha256 :: string
  revision_summary_sha256 :: string

fun revision_availabilities :: "outcome_status \<Rightarrow> outcome_availability set" where
  "revision_availabilities Outcome_COMPLETE = {Availability_AVAILABLE}"
| "revision_availabilities Outcome_UNAVAILABLE = {Availability_UNAVAILABLE}"
| "revision_availabilities Outcome_FAILED = {Availability_FAILED}"
| "revision_availabilities Outcome_PARTIAL = {Availability_AVAILABLE, Availability_UNAVAILABLE}"

definition session_dataclass :: "outcome_session_source \<Rightarrow> pyval" where
  "session_dataclass s = PDataclass
     [(''session_id'', PUuid (session_id s)), (''session_offset'', PInt (session_offset s)),
      (''exchange'', PStr (session_exchange s)), (''session_date'', PDate (session_date s)),
      (''timezone_name'', PStr (session_zone s)), (''open_at'', PDatetime (session_open s)),
      (''close_at'', PDatetime (session_close s)), (''source_capture_id'', PUuid (session_capture_id s)),
      (''provider_product_id'', PUuid (session_product_id s)), (''recorded_at'', PDatetime (session_recorded_at s)),
      (''known_at'', PDatetime (session_known_at s)), (''source_kind'', PStr ''TRADING_SESSION'')]"

definition source_scope_fields :: "outcome_observation_source \<Rightarrow> (string \<times> pyval) list" where
  "source_scope_fields s =
     [(''target_checkpoint_id'', PUuid (source_checkpoint_id s)),
      (''source_ordinal'', PInt (outcome_source_ordinal s)),
      (''provider_product_id'', PUuid (source_product_id s)), (''capture_id'', PUuid (source_capture_id s)),
      (''instrument_id'', PUuid (source_instrument_id s)), (''session_id'', PUuid (source_session_id s)),
      (''timeframe'', PStr (source_timeframe s)), (''price_basis'', PStr (source_basis s)),
      (''event_start'', PDatetime (source_start s)), (''event_end'', PDatetime (source_end s)),
      (''recorded_at'', PDatetime (source_recorded_at s)), (''known_at'', PDatetime (source_known s))]"

definition source_dataclass :: "outcome_observation_source \<Rightarrow> pyval" where
  "source_dataclass s = PDataclass (source_scope_fields s @
     (case source_body s of
        Bar i n op hi lo cl \<Rightarrow>
          [(''bar_revision_id'', PUuid i), (''revision'', PInt n), (''open_value'', PDecimal op),
           (''high_value'', PDecimal hi), (''low_value'', PDecimal lo), (''close_value'', PDecimal cl),
           (''source_kind'', PStr ''BAR_REVISION'')]
      | Gap i kind reason \<Rightarrow>
          [(''gap_id'', PUuid i), (''gap_kind'', PStr (outcome_gap_kind_value kind)), (''reason_code'', PStr reason),
           (''source_kind'', PStr ''SOURCE_GAP'')]))"

fun with_sha :: "pyval \<Rightarrow> string \<Rightarrow> pyval" where
  "with_sha (PMapping kvs) h = PDataclass (kvs @ [(''content_sha256'', PStr h)])"
| "with_sha v h = v"

definition reference_dependency_dataclass :: "outcome_reference_dependency \<Rightarrow> pyval" where
  "reference_dependency_dataclass d = PDataclass
     [(''target_metric_dependency_id'', PUuid (reference_dependency_id d)),
      (''target_metric_definition_id'', PUuid (reference_dependency_metric d)),
      (''target_checkpoint_id'', PUuid (reference_dependency_checkpoint d)),
      (''dependency_role'', PStr (outcome_dependency_role_value (reference_dependency_role d))),
      (''decision_reference_observation_id'', PUuid (reference_dependency_reference d))]"

definition observation_dependency_dataclass :: "outcome_observation_dependency \<Rightarrow> pyval" where
  "observation_dependency_dataclass d = PDataclass
     [(''target_metric_dependency_id'', PUuid (observation_dependency_id d)),
      (''target_metric_definition_id'', PUuid (observation_dependency_metric d)),
      (''target_checkpoint_id'', PUuid (observation_dependency_checkpoint d)),
      (''dependency_role'', PStr (outcome_dependency_role_value (observation_dependency_role d)))]"

definition reason_dataclass :: "outcome_reason_draft \<Rightarrow> pyval" where
  "reason_dataclass r = PDataclass
     [(''ordinal'', PInt (reason_draft_ordinal r)),
      (''dimension'', PStr (outcome_reason_dimension_value (reason_dimension r))),
      (''reason_code'', PStr (reason_draft_code r)),
      (''target_checkpoint_id'', optional_payload PUuid (reason_checkpoint_id r)),
      (''target_metric_definition_id'', optional_payload PUuid (reason_metric_id r))]"

definition revision_source_roster :: "outcome_revision_draft \<Rightarrow> pyval" where
  "revision_source_roster d =
     PSequence (map session_dataclass (revision_sessions d) @ map source_dataclass (revision_sources d))"

definition revision_summary_payload :: "outcome_revision_draft \<Rightarrow> pyval" where
  "revision_summary_payload d = PMapping
     [(''availability_status'', PStr (outcome_availability_value (revision_availability d))),
      (''decision_reference_observation_id'', PUuid (revision_reference_id d)),
      (''decision_reference_sha256'', PStr (revision_reference_sha256 d)),
      (''finality_status'', PStr ''UNKNOWN''),
      (''knowledge_cutoff'', PDatetime (knowledge_cutoff d)),
      (''observation_count'', PInt (int (length (revision_observations d)))),
      (''observation_cutoff'', PDatetime (observation_cutoff d)),
      (''observation_dependency_count'', PInt (int (length (observation_dependencies d)))),
      (''reference_dependency_count'', PInt (int (length (reference_dependencies d)))),
      (''metric_count'', PInt (int (length (revision_metrics d)))),
      (''reason_count'', PInt (int (length (revision_reasons d)))),
      (''source_count'', PInt (int (length (revision_sessions d) + length (revision_sources d)))),
      (''status'', PStr (outcome_status_value (revision_status d))),
      (''target_definition_id'', PUuid (revision_target_id d)),
      (''target_definition_sha256'', PStr (revision_target_sha256 d)),
      (''source_roster_sha256'', PStr (revision_source_roster_sha256 d)),
      (''observation_roster_sha256'', PStr (observation_roster_sha256 d)),
      (''metric_roster_sha256'', PStr (revision_metric_roster_sha256 d)),
      (''reference_dependency_roster_sha256'', PStr (reference_dependency_roster_sha256 d)),
      (''observation_dependency_roster_sha256'', PStr (observation_dependency_roster_sha256 d)),
      (''reason_roster_sha256'', PStr (revision_reason_roster_sha256 d))]"

definition revision_checks :: "outcome_revision_draft \<Rightarrow> py_error + unit" where
  "revision_checks d =
     thenE (outcome_sha ''Outcome Target definition hash'' (revision_target_sha256 d))
     (thenE (outcome_sha ''Outcome Decision reference hash'' (revision_reference_sha256 d))
     (thenE (aware_field ''Outcome observation cutoff'' (observation_cutoff d))
     (thenE (aware_field ''Outcome knowledge cutoff'' (knowledge_cutoff d))
     (thenE (guardE (revision_finality d = Finality_UNKNOWN) (ValueError ''Outcome aggregate finality must be UNKNOWN''))
     (thenE (guardE (revision_availability d \<in> revision_availabilities (revision_status d))
        (ValueError ''Outcome aggregate state shape is invalid''))
     (thenE (guardE (\<not> (revision_sessions d = [] \<or> revision_sources d = [] \<or> revision_observations d = []
          \<or> revision_metrics d = [] \<or> \<not> (reference_dependencies d \<noteq> [] \<or> observation_dependencies d \<noteq> [])))
        (ValueError ''Outcome revision requires complete non-empty fact rosters''))
     (thenE (guardE (length (revision_sources d) = length (revision_observations d))
        (ValueError ''Outcome source and observation rosters differ''))
     (thenE (guardE (contiguous (map metric_ordinal (revision_metrics d)))
        (ValueError ''Outcome metric roster must be ordered and contiguous''))
     (guardE (\<not> (revision_reasons d \<noteq> [] \<and> \<not> contiguous (map reason_draft_ordinal (revision_reasons d))))
        (ValueError ''Outcome reason roster must be ordered and contiguous''))))))))))"

definition outcome_revision_draft_init :: "outcome_revision_draft \<Rightarrow> outcome_revision_draft result" where
  "outcome_revision_draft_init d =
     thenE (revision_checks d)
     (bindE (canonical_json_sha256 (revision_source_roster d)) (\<lambda>hs.
      bindE (canonical_json_sha256
        (PSequence (map (\<lambda>o'. with_sha (observation_payload o') (observation_sha256 o')) (revision_observations d)))) (\<lambda>ho.
      bindE (canonical_json_sha256
        (PSequence (map (\<lambda>m. with_sha (metric_draft_payload m) (metric_draft_sha256 m)) (revision_metrics d)))) (\<lambda>hm.
      bindE (canonical_json_sha256 (PSequence (map reference_dependency_dataclass (reference_dependencies d)))) (\<lambda>hr.
      bindE (canonical_json_sha256 (PSequence (map observation_dependency_dataclass (observation_dependencies d)))) (\<lambda>hd.
      bindE (canonical_json_sha256 (PSequence (map reason_dataclass (revision_reasons d)))) (\<lambda>hq.
      let d = d\<lparr>revision_source_roster_sha256 := hs, observation_roster_sha256 := ho,
          revision_metric_roster_sha256 := hm, reference_dependency_roster_sha256 := hr,
          observation_dependency_roster_sha256 := hd, revision_reason_roster_sha256 := hq\<rparr> in
      bindE (canonical_json_sha256 (revision_summary_payload d)) (\<lambda>h.
      Inr (d\<lparr>revision_summary_sha256 := h\<rparr>)))))))))"

end
