(* ===== verification/Outcome_Kernel.thy ===== *)
theory Outcome_Kernel
  imports Outcome_Drafts
begin

text \<open>
  \<open>outcome/domain/kernel.py\<close>: the calculation of one Outcome revision from frozen inputs, in a
  decimal context of 38 digits with half-even rounding. One definition per function; the branches
  of \<open>_metric\<close> are one definition each. A dict built from a roster keeps the last entry of a key.
\<close>

section \<open>Arithmetic\<close>

abbreviation kernel_precision :: nat where "kernel_precision \<equiv> 38"

definition ratio :: "decimal \<Rightarrow> decimal result" where
  "ratio v = quantize kernel_precision (- 18) v"

text \<open>\<open>value / reference - 1\<close>.\<close>

definition relative :: "decimal \<Rightarrow> decimal \<Rightarrow> decimal result" where
  "relative v r =
     bindE (decimal_div kernel_precision v r) (\<lambda>q. decimal_sub kernel_precision q (decimal_of_int 1))"

text \<open>\<open>max\<close> and \<open>min\<close> of a roster: the first of equal values.\<close>

definition decimal_max_list :: "decimal list \<Rightarrow> decimal result" where
  "decimal_max_list xs =
     (case xs of [] \<Rightarrow> Inl (ValueError ''max() arg is an empty sequence'') | y # ys \<Rightarrow> Inr (foldl decimal_max y ys))"

definition decimal_min_list :: "decimal list \<Rightarrow> decimal result" where
  "decimal_min_list xs =
     (case xs of [] \<Rightarrow> Inl (ValueError ''min() arg is an empty sequence'') | y # ys \<Rightarrow> Inr (foldl decimal_min y ys))"

section \<open>Input checks\<close>

definition session_at :: "outcome_session_source list \<Rightarrow> int \<Rightarrow> outcome_session_source option" where
  "session_at ss i = find (\<lambda>s. session_offset s = i) (rev ss)"

definition source_at :: "outcome_observation_source list \<Rightarrow> uuid \<Rightarrow> outcome_observation_source option" where
  "source_at ss i = row_at source_checkpoint_id (rev ss) i"

text \<open>The checks of one checkpoint and its source.\<close>

definition check_outcome_source ::
  "zones \<Rightarrow> outcome_session_source list \<Rightarrow> py_datetime \<Rightarrow> py_datetime \<Rightarrow> outcome_checkpoint \<times> outcome_observation_source \<Rightarrow>
   py_error + unit" where
  "check_outcome_source zones sessions observed known cs =
     (case cs of (c, s) \<Rightarrow>
        bindE (optE (session_at sessions (checkpoint_offset c)) KeyError) (\<lambda>session.
        bindE (optE (zones (checkpoint_zone c)) KeyError) (\<lambda>zone.
        thenE (guardE (instant_of (source_end s) = zone (session_date session) (time_of (checkpoint_time c)))
          (ValueError ''Outcome source event_end differs from Target checkpoint''))
       (thenE (guardE (\<not> instant_of (source_end s) > instant_of observed)
          (ValueError ''Outcome source exceeds observation_cutoff''))
       (thenE (guardE (\<not> instant_of (source_known s) > instant_of known)
          (ValueError ''Outcome source exceeds knowledge_cutoff''))
       (guardE (\<not> (source_session_id s \<noteq> session_id session \<or> source_timeframe s \<noteq> checkpoint_timeframe c
            \<or> source_basis s \<noteq> checkpoint_basis c))
          (ValueError ''Outcome source scope differs from Target/Session'')))))))"

definition validate_outcome_inputs ::
  "zones \<Rightarrow> outcome_target_definition \<Rightarrow> outcome_session_source list \<Rightarrow> outcome_observation_source list \<Rightarrow>
   py_datetime \<Rightarrow> py_datetime \<Rightarrow> py_error + unit" where
  "validate_outcome_inputs zones t sessions sources observed known =
     (let cs = target_checkpoints t in
      thenE (guardE (distinct (map session_offset sessions)) (ValueError ''Outcome Session offsets must be unique''))
     (thenE (guardE (set (map session_offset sessions) = set (map checkpoint_offset cs))
        (ValueError ''Outcome Session roster does not match Target checkpoints''))
     (thenE (guardE (length sources = length cs) (ValueError ''Outcome source roster must cover every checkpoint''))
     (thenE (guardE (distinct (map source_checkpoint_id sources)
          \<and> set (map source_checkpoint_id sources) = set (map checkpoint_id cs))
        (ValueError ''Outcome source/checkpoint roster mismatch''))
     (thenE (guardE (contiguous (map outcome_source_ordinal sources))
        (ValueError ''Outcome source ordinals must be contiguous''))
     (bindE (mapE (\<lambda>c. optE (source_at sources (checkpoint_id c)) KeyError) cs) (\<lambda>ordered.
      thenE (guardE (ordered = sources) (ValueError ''Outcome sources must follow Target checkpoint order''))
     (thenE (guardE (\<not> (\<exists>s \<in> set sessions. instant_of (session_known_at s) > instant_of known))
        (ValueError ''Outcome Session known_at exceeds knowledge_cutoff''))
     (bindE (mapE (check_outcome_source zones sessions observed known) (zip cs sources)) (\<lambda>_.
      guardE (\<not> (sources \<noteq> [] \<and> (card (set (map source_instrument_id sources)) \<noteq> 1
            \<or> card (set (map source_product_id sources)) \<noteq> 1)))
        (ValueError ''Outcome source roster crosses instrument/Product scope'')))))))))))"

section \<open>Observations\<close>

fun bar_field :: "outcome_value_field \<Rightarrow> decimal \<Rightarrow> decimal \<Rightarrow> decimal \<Rightarrow> decimal \<Rightarrow> decimal" where
  "bar_field Field_OPEN op hi lo cl = op"
| "bar_field Field_HIGH op hi lo cl = hi"
| "bar_field Field_LOW op hi lo cl = lo"
| "bar_field Field_CLOSE op hi lo cl = cl"

definition gap_status :: "outcome_gap_kind \<Rightarrow> outcome_status" where
  "gap_status kind = (if kind \<in> {Gap_MISSING, Gap_PLACEHOLDER} then Outcome_UNAVAILABLE else Outcome_FAILED)"

definition empty_availability :: "outcome_status \<Rightarrow> outcome_availability" where
  "empty_availability st = (if st = Outcome_UNAVAILABLE then Availability_UNAVAILABLE else Availability_FAILED)"

definition observation_of :: "outcome_checkpoint \<times> outcome_observation_source \<Rightarrow> outcome_observation_draft" where
  "observation_of cs =
     (case cs of (c, s) \<Rightarrow>
       (case source_body s of
          Bar i n op hi lo cl \<Rightarrow>
            \<lparr>observation_checkpoint_id = source_checkpoint_id s, observation_kind = BAR_REVISION,
             observation_fact_id = i, observation_status = Outcome_COMPLETE,
             observation_availability = Availability_AVAILABLE, observation_finality = Finality_UNKNOWN,
             selected_value = Some (bar_field (checkpoint_field c) op hi lo cl),
             open_value = Some op, high_value = Some hi, low_value = Some lo, close_value = Some cl,
             observation_start = source_start s, observation_end = source_end s,
             observation_known_at = source_known s, observation_sha256 = []\<rparr>
        | Gap i kind reason \<Rightarrow>
            \<lparr>observation_checkpoint_id = source_checkpoint_id s, observation_kind = SOURCE_GAP,
             observation_fact_id = i, observation_status = gap_status kind,
             observation_availability = empty_availability (gap_status kind), observation_finality = Finality_UNKNOWN,
             selected_value = None, open_value = None, high_value = None, low_value = None, close_value = None,
             observation_start = source_start s, observation_end = source_end s,
             observation_known_at = source_known s, observation_sha256 = []\<rparr>))"

definition observe :: "outcome_checkpoint \<times> outcome_observation_source \<Rightarrow> outcome_observation_draft result" where
  "observe cs = outcome_observation_draft_init (observation_of cs)"

section \<open>Metrics\<close>

fun reference_outcome :: "reference_value_status \<Rightarrow> outcome_status" where
  "reference_outcome Reference_PRESENT = Outcome_COMPLETE"
| "reference_outcome Reference_UNAVAILABLE = Outcome_UNAVAILABLE"
| "reference_outcome Reference_FAILED = Outcome_FAILED"

definition metric_draft ::
  "outcome_metric_definition \<Rightarrow> outcome_status \<Rightarrow> outcome_availability \<Rightarrow>
   decimal option \<times> bool option \<times> py_datetime option \<Rightarrow> outcome_metric_draft result" where
  "metric_draft d st availability vs =
     (case vs of (dec, flag, passage) \<Rightarrow> outcome_metric_draft_init
       \<lparr>metric_definition_id = definition_id d, metric_ordinal = definition_ordinal d,
        metric_draft_code = definition_code d, metric_draft_kind = definition_kind d,
        metric_draft_type = definition_value_type d, metric_draft_unit = definition_unit d,
        metric_completion = definition_completion d, metric_draft_status = st,
        metric_availability = availability, metric_finality = Finality_UNKNOWN,
        metric_decimal = dec, metric_boolean = flag, first_passage_at = passage,
        metric_algorithm = definition_algorithm d, metric_target_sha256 = definition_sha256 d,
        metric_draft_sha256 = []\<rparr>)"

definition empty_metric :: "outcome_metric_definition \<Rightarrow> outcome_status \<Rightarrow> outcome_metric_draft result" where
  "empty_metric d st = metric_draft d st (empty_availability st) (None, None, None)"

definition observation_value :: "outcome_observation_draft list \<Rightarrow> decimal option result" where
  "observation_value os =
     (case os of [] \<Rightarrow> Inl (PyRuntimeError ''tuple index out of range'') | x # _ \<Rightarrow> Inr (selected_value x))"

definition same_bar :: "outcome_observation_draft \<Rightarrow> outcome_observation_draft \<Rightarrow> bool" where
  "same_bar x y \<longleftrightarrow>
     observation_fact_id x = observation_fact_id y
     \<and> instant_of (observation_start x) = instant_of (observation_start y)
     \<and> instant_of (observation_end x) = instant_of (observation_end y)"

definition observation_return :: "outcome_observation_draft list \<Rightarrow> decimal result" where
  "observation_return os =
     (case os of
        [x, y] \<Rightarrow>
          thenE (guardE (same_bar x y) (ValueError ''OBSERVATION_RETURN requires the same exact bar revision''))
         (bindE (optE (selected_value x) AssertionError) (\<lambda>a.
          bindE (optE (selected_value y) AssertionError) (\<lambda>b.
          bindE (relative b a) ratio)))
      | _ \<Rightarrow> Inl (ValueError ''wrong number of values to unpack''))"

definition simple_return :: "decimal option \<Rightarrow> outcome_observation_draft list \<Rightarrow> decimal result" where
  "simple_return r os =
     bindE (optE r AssertionError) (\<lambda>r.
     bindE (observation_value os) (\<lambda>v.
     bindE (optE v AssertionError) (\<lambda>v.
     bindE (relative v r) ratio)))"

definition favorable_excursion :: "decimal option \<Rightarrow> outcome_observation_draft list \<Rightarrow> decimal result" where
  "favorable_excursion r os =
     bindE (optE r AssertionError) (\<lambda>r.
     bindE (mapE (\<lambda>x. optE (high_value x) AssertionError) os) (\<lambda>highs.
     bindE (decimal_max_list highs) (\<lambda>v.
     bindE (relative v r) (\<lambda>e. ratio (decimal_max (decimal_of_int 0) e)))))"

definition adverse_excursion :: "decimal option \<Rightarrow> outcome_observation_draft list \<Rightarrow> decimal result" where
  "adverse_excursion r os =
     bindE (optE r AssertionError) (\<lambda>r.
     bindE (mapE (\<lambda>x. optE (low_value x) AssertionError) os) (\<lambda>lows.
     bindE (decimal_min_list lows) (\<lambda>v.
     bindE (relative v r) (\<lambda>e. ratio (decimal_min (decimal_of_int 0) e)))))"

definition barrier_boundary :: "decimal \<Rightarrow> outcome_barrier_direction \<Rightarrow> decimal \<Rightarrow> decimal result" where
  "barrier_boundary r dir threshold =
     bindE (if dir = Barrier_UP then decimal_add kernel_precision (decimal_of_int 1) threshold
            else decimal_sub kernel_precision (decimal_of_int 1) threshold) (\<lambda>f.
     decimal_mul kernel_precision r f)"

definition barrier_reached :: "outcome_barrier_direction \<Rightarrow> decimal \<Rightarrow> outcome_observation_draft \<Rightarrow> bool" where
  "barrier_reached dir boundary x \<longleftrightarrow>
     (dir = Barrier_UP \<and> (case high_value x of None \<Rightarrow> False | Some v \<Rightarrow> dval v \<ge> dval boundary))
     \<or> (dir = Barrier_DOWN \<and> (case low_value x of None \<Rightarrow> False | Some v \<Rightarrow> dval v \<le> dval boundary))"

definition barrier_hits ::
  "outcome_metric_definition \<Rightarrow> decimal option \<Rightarrow> outcome_observation_draft list \<Rightarrow> outcome_observation_draft list result" where
  "barrier_hits d r os =
     bindE (optE r AssertionError) (\<lambda>r.
     bindE (optE (barrier_direction d) AssertionError) (\<lambda>dir.
     bindE (optE (barrier_threshold d) AssertionError) (\<lambda>threshold.
     bindE (barrier_boundary r dir threshold) (\<lambda>boundary.
     Inr (filter (barrier_reached dir boundary) (sort_key (\<lambda>x. instant_of (observation_end x)) os))))))"

text \<open>The values of a metric all of whose dependencies are complete.\<close>

definition metric_values ::
  "outcome_metric_definition \<Rightarrow> decimal option \<Rightarrow> outcome_observation_draft list \<Rightarrow>
   (decimal option \<times> bool option \<times> py_datetime option) result" where
  "metric_values d r os =
     (let value = mapR (\<lambda>v. (Some v, None, None)) in
      case definition_kind d of
        OBSERVATION_VALUE \<Rightarrow> mapR (\<lambda>v. (v, None, None)) (observation_value os)
      | OBSERVATION_RETURN \<Rightarrow> value (observation_return os)
      | SIMPLE_RETURN \<Rightarrow> value (simple_return r os)
      | MAX_FAVORABLE_EXCURSION \<Rightarrow> value (favorable_excursion r os)
      | MAX_ADVERSE_EXCURSION \<Rightarrow> value (adverse_excursion r os)
      | BARRIER_HIT \<Rightarrow>
          mapR (\<lambda>hits. (None, Some (hits \<noteq> []),
              case hits of [] \<Rightarrow> None | x # _ \<Rightarrow> Some (observation_end x)))
            (barrier_hits d r os))"

definition observed_dependencies ::
  "outcome_observation_draft list \<Rightarrow> outcome_metric_dependency list \<Rightarrow> outcome_observation_draft list result" where
  "observed_dependencies os ds =
     mapE (\<lambda>d. optE (row_at observation_checkpoint_id (rev os) (dependency_checkpoint_id d)) KeyError)
       (filter (\<lambda>d. dependency_role d \<in> {Role_OBSERVATION, Role_PATH_MEMBER}) ds)"

definition dependency_states ::
  "frozen_decision_reference \<Rightarrow> outcome_metric_dependency list \<Rightarrow> outcome_observation_draft list \<Rightarrow> outcome_status list" where
  "dependency_states r ds os =
     map observation_status os
     @ (if list_ex (\<lambda>d. dependency_role d = Role_REFERENCE) ds then [reference_outcome (reference_status r)] else [])"

definition calculate_metric ::
  "outcome_target_definition \<Rightarrow> frozen_decision_reference \<Rightarrow> outcome_observation_draft list \<Rightarrow>
   outcome_metric_definition \<Rightarrow> outcome_metric_draft result" where
  "calculate_metric t r os d =
     (let ds = dependencies_of t d in
      bindE (observed_dependencies os ds) (\<lambda>xs.
      let states = dependency_states r ds xs in
      if Outcome_FAILED \<in> set states then empty_metric d Outcome_FAILED
      else if list_ex (\<lambda>s. s \<noteq> Outcome_COMPLETE) states then empty_metric d Outcome_UNAVAILABLE
      else bindE (metric_values d (reference_value r) xs) (metric_draft d Outcome_COMPLETE Availability_AVAILABLE)))"

section \<open>Barrier ambiguity\<close>

definition definition_at :: "outcome_target_definition \<Rightarrow> uuid \<Rightarrow> outcome_metric_definition option" where
  "definition_at t i = row_at definition_id (rev (target_metrics t)) i"

definition passages_of ::
  "outcome_target_definition \<Rightarrow> outcome_barrier_direction \<Rightarrow> outcome_metric_draft list \<Rightarrow> outcome_metric_draft list result" where
  "passages_of t dir ms =
     foldE (\<lambda>m acc.
       if metric_draft_kind m = BARRIER_HIT then
         bindE (optE (definition_at t (metric_definition_id m)) KeyError) (\<lambda>d.
         Inr (if barrier_direction d = Some dir \<and> first_passage_at m \<noteq> None then acc @ [m] else acc))
       else Inr acc) ms []"

text \<open>The instants of the first passages of a roster.\<close>

definition passage_instants :: "outcome_metric_draft list \<Rightarrow> instant list" where
  "passage_instants ms = map instant_of (List.map_filter first_passage_at ms)"

definition apply_barrier_ambiguity ::
  "outcome_target_definition \<Rightarrow> outcome_metric_draft list \<Rightarrow> (outcome_metric_draft list \<times> uuid list) result" where
  "apply_barrier_ambiguity t ms =
     bindE (passages_of t Barrier_UP ms) (\<lambda>up.
     bindE (passages_of t Barrier_DOWN ms) (\<lambda>down.
     if up = [] \<or> down = [] then Inr (ms, [])
     else
       (let first_up = Min (set (passage_instants up)); first_down = Min (set (passage_instants down)) in
        if first_up \<noteq> first_down then Inr (ms, [])
        else
          (let affected = remdups (map metric_definition_id
                 (filter (\<lambda>m. map_option instant_of (first_passage_at m) = Some first_up) (up @ down))) in
           bindE (mapE (\<lambda>m. if metric_definition_id m \<in> set affected
               then outcome_metric_draft_init (m\<lparr>metric_draft_status := Outcome_PARTIAL\<rparr>) else Inr m) ms) (\<lambda>ms'.
           Inr (ms', sort_key uuid_str affected))))))"

section \<open>Reasons and roll-up\<close>

type_synonym reason_value = "outcome_reason_dimension \<times> string \<times> uuid option \<times> uuid option"

definition reason_values ::
  "outcome_observation_draft list \<Rightarrow> outcome_metric_draft list \<Rightarrow> uuid list \<Rightarrow> reason_value list" where
  "reason_values os ms ambiguous =
     map (\<lambda>x. (Reason_OBSERVATION, ''OBSERVATION_'' @ outcome_status_value (observation_status x),
         Some (observation_checkpoint_id x), None)) (filter (\<lambda>x. observation_status x \<noteq> Outcome_COMPLETE) os)
     @ map (\<lambda>m. (Reason_METRIC, ''METRIC_'' @ outcome_status_value (metric_draft_status m),
         None, Some (metric_definition_id m))) (filter (\<lambda>m. metric_draft_status m \<noteq> Outcome_COMPLETE) ms)
     @ map (\<lambda>i. (Reason_METRIC, ''INTRABAR_ORDERING_NOT_OBSERVABLE'', None, Some i)) ambiguous"

definition reason_key :: "reason_value \<Rightarrow> string list" where
  "reason_key v =
     (case v of (dm, code, c, m) \<Rightarrow>
        [outcome_reason_dimension_value dm, code,
         case c of None \<Rightarrow> [] | Some i \<Rightarrow> uuid_str i, case m of None \<Rightarrow> [] | Some i \<Rightarrow> uuid_str i])"

definition outcome_reasons ::
  "outcome_observation_draft list \<Rightarrow> outcome_metric_draft list \<Rightarrow> uuid list \<Rightarrow> outcome_reason_draft list result" where
  "outcome_reasons os ms ambiguous =
     mapE (\<lambda>(n, dm, code, c, m). outcome_reason_draft_init
         \<lparr>reason_draft_ordinal = n, reason_dimension = dm, reason_draft_code = code,
          reason_checkpoint_id = c, reason_metric_id = m\<rparr>)
       (numbered (sort_key reason_key (remdups (reason_values os ms ambiguous))))"

definition outcome_roll_up :: "outcome_metric_draft list \<Rightarrow> outcome_status \<times> outcome_availability" where
  "outcome_roll_up ms =
     (let statuses = map metric_draft_status (filter (\<lambda>m. metric_completion m = REQUIRED) ms) in
      if Outcome_FAILED \<in> set statuses then (Outcome_FAILED, Availability_FAILED)
      else if list_all (\<lambda>s. s = Outcome_COMPLETE) statuses then (Outcome_COMPLETE, Availability_AVAILABLE)
      else if list_all (\<lambda>s. s = Outcome_UNAVAILABLE) statuses then (Outcome_UNAVAILABLE, Availability_UNAVAILABLE)
      else (Outcome_PARTIAL,
        if Outcome_UNAVAILABLE \<in> set statuses then Availability_UNAVAILABLE else Availability_AVAILABLE))"

section \<open>The revision\<close>

definition reference_rows ::
  "outcome_target_definition \<Rightarrow> frozen_decision_reference \<Rightarrow> outcome_reference_dependency list result" where
  "reference_rows t r =
     mapE (\<lambda>d. outcome_reference_dependency_init
         \<lparr>reference_dependency_id = dependency_id d, reference_dependency_metric = dependency_metric_id d,
          reference_dependency_checkpoint = dependency_checkpoint_id d, reference_dependency_role = dependency_role d,
          reference_dependency_reference = decision_reference_id r\<rparr>)
       (filter (\<lambda>d. dependency_role d = Role_REFERENCE) (target_dependencies t))"

definition observation_rows :: "outcome_target_definition \<Rightarrow> outcome_observation_dependency list result" where
  "observation_rows t =
     mapE (\<lambda>d. outcome_observation_dependency_init
         \<lparr>observation_dependency_id = dependency_id d, observation_dependency_metric = dependency_metric_id d,
          observation_dependency_checkpoint = dependency_checkpoint_id d,
          observation_dependency_role = dependency_role d\<rparr>)
       (filter (\<lambda>d. dependency_role d \<in> {Role_OBSERVATION, Role_PATH_MEMBER}) (target_dependencies t))"

definition calculate_market_target_outcome ::
  "zones \<Rightarrow> outcome_target_definition \<Rightarrow> frozen_decision_reference \<Rightarrow> outcome_session_source list \<Rightarrow>
   outcome_observation_source list \<Rightarrow> py_datetime \<Rightarrow> py_datetime \<Rightarrow> outcome_revision_draft result" where
  "calculate_market_target_outcome zones t r sessions sources observed known =
     thenE (aware_field ''observation_cutoff'' observed)
     (thenE (aware_field ''knowledge_cutoff'' known)
     (thenE (validate_outcome_inputs zones t sessions sources observed known)
     (bindE (bindE (guardE (length (target_checkpoints t) = length sources)
          (ValueError ''zip() arguments differ in length'')) (\<lambda>_. mapE observe (zip (target_checkpoints t) sources))) (\<lambda>os.
      bindE (mapE (calculate_metric t r os) (target_metrics t)) (\<lambda>ms.
      bindE (apply_barrier_ambiguity t ms) (\<lambda>(ms, ambiguous).
      bindE (reference_rows t r) (\<lambda>refs.
      bindE (observation_rows t) (\<lambda>obs.
      bindE (outcome_reasons os ms ambiguous) (\<lambda>reasons.
      outcome_revision_draft_init
        \<lparr>revision_target_id = target_id t, revision_target_sha256 = target_sha256 t,
         revision_reference_id = decision_reference_id r, revision_reference_sha256 = reference_sha256 r,
         observation_cutoff = observed, knowledge_cutoff = known,
         revision_status = fst (outcome_roll_up ms), revision_availability = snd (outcome_roll_up ms),
         revision_finality = Finality_UNKNOWN, revision_sessions = sessions, revision_sources = sources,
         revision_observations = os, revision_metrics = ms, reference_dependencies = refs,
         observation_dependencies = obs, revision_reasons = reasons,
         revision_source_roster_sha256 = [], observation_roster_sha256 = [], revision_metric_roster_sha256 = [],
         reference_dependency_roster_sha256 = [], observation_dependency_roster_sha256 = [],
         revision_reason_roster_sha256 = [], revision_summary_sha256 = []\<rparr>)))))))))"

end
