(* ===== verification/Outcome_Arithmetic.thy ===== *)
theory Outcome_Arithmetic
  imports Outcome_Kernel
begin

text \<open>
  The arithmetic of the Outcome kernel as functions of exact rationals: quantising to 18 fractional
  digits, relative values, extrema of rosters. Every step is monotone, so excursions bracket
  returns after all roundings; and the total error of a ratio is below one quantum.
\<close>

section \<open>Quantising\<close>

definition grid :: "nat \<Rightarrow> rat \<Rightarrow> rat" where
  "grid k x = of_int (round_half_even (x * 10 ^ k)) / 10 ^ k"

lemma round_half_even_minus: "round_half_even (- x) = - round_half_even x"
proof (cases "of_int \<lfloor>x\<rfloor> = x")
  case True
  have "x = of_int \<lfloor>x\<rfloor>" by (rule True [symmetric])
  then show ?thesis by (metis of_int_minus round_half_even_of_int)
next
  case False
  let ?f = "\<lfloor>x\<rfloor>"
  have f: "\<lfloor>- x\<rfloor> = - ?f - 1"
  proof (rule floor_unique)
    have "of_int ?f < x" "x < of_int ?f + 1" using False floor_correct [of x] by linarith+
    then show "of_int (- ?f - 1) \<le> - x" "- x < of_int (- ?f - 1) + 1" by simp_all
  qed
  have frac: "- x - of_int (- ?f - 1) = 1 - (x - of_int ?f)" by simp
  define y where "y = x - of_int ?f"
  have "round_half_even (- x) = (if 1 - y < 1 / 2 then - ?f - 1 else if 1 - y > 1 / 2 then - ?f
      else if even (- ?f - 1) then - ?f - 1 else - ?f)"
    "round_half_even x = (if y < 1 / 2 then ?f else if y > 1 / 2 then ?f + 1 else if even ?f then ?f else ?f + 1)"
    unfolding round_half_even_def Let_def f frac y_def by simp_all
  then show ?thesis by simp
qed

lemma grid_mono: "x \<le> y \<Longrightarrow> grid k x \<le> grid k y"
  by (simp add: grid_def divide_right_mono round_half_even_mono)

lemma grid_of_int [simp]: "grid k (of_int n) = of_int n" "grid k 0 = 0"
proof -
  have "(of_int n :: rat) * 10 ^ k = of_int (n * 10 ^ k)" by simp
  then show "grid k (of_int n) = of_int n" unfolding grid_def by (simp only: round_half_even_of_int) simp
  show "grid k 0 = 0" using round_half_even_of_int [of 0] by (simp add: grid_def)
qed

lemma grid_error: "\<bar>grid k x - x\<bar> \<le> 1 / 2 / 10 ^ k"
proof -
  have "grid k x - x = (of_int (round_half_even (x * 10 ^ k)) - x * 10 ^ k) / 10 ^ k"
    by (simp add: grid_def diff_divide_distrib)
  then have "\<bar>grid k x - x\<bar> = \<bar>of_int (round_half_even (x * 10 ^ k)) - x * 10 ^ k\<bar> / 10 ^ k"
    by (simp only: abs_divide power_abs abs_numeral)
  then show ?thesis
    using divide_right_mono [OF round_half_even_error [of "x * 10 ^ k"], of "10 ^ k"] by (simp only: zero_le_power zero_le_numeral)
qed

lemma grid_on_grid: "on_grid k (grid k x)"
  by (simp add: on_grid_def grid_def)

lemma quantize_value:
  assumes "is_finite d" "\<bar>dval d\<bar> * 10 ^ k \<le> of_int (10 ^ prec - 1)" "0 < prec"
  shows "\<exists>q. quantize prec (- int k) d = Inr q \<and> is_finite q \<and> dval q = grid k (dval d)"
proof -
  obtain s c e where d: "d = Fin s c e" using assms(1) by (cases d) auto
  let ?c = "if - int k \<le> e then c * 10 ^ nat (e - (- int k)) else nat (round_half_even (of_nat c / 10 ^ nat (- int k - e)))"
  have abs: "\<bar>dval d\<bar> = of_nat c * power_int 10 e" by (simp add: d abs_mult)
  have c: "int ?c = round_half_even (\<bar>dval d\<bar> * 10 ^ k)"
  proof (cases "- int k \<le> e")
    case True
    have "power_int (10::rat) e * 10 ^ k = 10 ^ nat (e + int k)"
      using True power_int_add [of "10::rat" e "int k"] by (simp add: power_int_def)
    then have "\<bar>dval d\<bar> * 10 ^ k = of_int (int (c * 10 ^ nat (e + int k)))"
      unfolding abs by (simp add: mult.assoc)
    then show ?thesis using True by (simp only: round_half_even_of_int) simp
  next
    case False
    have "power_int (10::rat) e * 10 ^ k = 1 / 10 ^ nat (- int k - e)"
      using False power_int_add [of "10::rat" e "int k"] power_int_neg_exponent [of "e + int k"]
      by (simp add: minus_diff_commute)
    then have q: "\<bar>dval d\<bar> * 10 ^ k = of_nat c / 10 ^ nat (- int k - e)"
      unfolding abs by (simp add: mult.assoc)
    have "0 \<le> round_half_even (of_nat c / 10 ^ nat (- int k - e))" by (rule round_half_even_ge) simp
    then show ?thesis using False unfolding q by simp
  qed
  have "round_half_even (\<bar>dval d\<bar> * 10 ^ k) \<le> 10 ^ prec - 1" by (rule round_half_even_le [OF assms(2)])
  then have "int ?c < 10 ^ prec" using c by linarith
  then have fits: "?c < 10 ^ prec" by (metis of_nat_less_iff of_nat_numeral of_nat_power)
  have sign: "dval d = (if s then - 1 else 1) * \<bar>dval d\<bar>" by (simp add: d abs_mult)
  have "of_nat ?c * power_int 10 (- int k) = (of_int (round_half_even (\<bar>dval d\<bar> * 10 ^ k)) / 10 ^ k :: rat)"
    unfolding c [symmetric] by (simp add: power_int_minus divide_inverse)
  moreover have "grid k (dval d) = (if s then - 1 else 1) * grid k \<bar>dval d\<bar>"
    using sign round_half_even_minus [of "\<bar>dval d\<bar> * 10 ^ k"] by (cases s) (simp_all add: grid_def)
  ultimately have "dval (Fin s ?c (- int k)) = grid k (dval d)" by (simp only: dval.simps mult.assoc) (simp only: grid_def)
  moreover have "quantize prec (- int k) d = Inr (Fin s ?c (- int k))"
    using fits assms(3) unfolding d quantize.simps Let_def
    by (simp only: length_dec_digits thenE_guardE if_True)
  ultimately show ?thesis by simp
qed

section \<open>Relative values\<close>

definition kernel_round :: "rat \<Rightarrow> rat" where
  "kernel_round = round_sig 10 kernel_precision"

interpretation kernel: rounding kernel_round "representable 10 kernel_precision"
  by unfold_locales (simp_all add: kernel_round_def round_sig_mono round_sig_exact)

text \<open>The rounded relative value, and the ratio the kernel returns.\<close>

definition relative_to :: "rat \<Rightarrow> rat \<Rightarrow> rat" where
  "relative_to v r = kernel_round (kernel_round (v / r) - 1)"

lemma relative_value:
  assumes "is_finite v" "is_finite r" "0 < dval r"
  shows "\<exists>d. relative v r = Inr d \<and> is_finite d \<and> dval d = relative_to (dval v) (dval r)"
proof -
  obtain q where q: "decimal_div kernel_precision v r = Inr q" "is_finite q" "dval q = kernel_round (dval v / dval r)"
    using decimal_div_rounds [of kernel_precision v r] assms
    by (auto simp: kernel_round_def elim!: rounds_toE)
  obtain d where "decimal_sub kernel_precision q (decimal_of_int 1) = Inr d" "is_finite d"
      "dval d = kernel_round (dval q - 1)"
    using decimal_sub_rounds [of kernel_precision q "decimal_of_int 1"] q(2)
    by (auto simp: kernel_round_def decimal_of_int_def elim!: rounds_toE)
  then show ?thesis using q by (simp add: relative_def relative_to_def)
qed

lemma relative_to_mono: "0 < r \<Longrightarrow> v \<le> w \<Longrightarrow> relative_to v r \<le> relative_to w r"
  unfolding relative_to_def by (intro kernel.rnd_mono diff_right_mono divide_right_mono) auto

lemma relative_to_grid_error:
  assumes "\<bar>x\<bar> < power_int 10 k"
  shows "\<bar>kernel_round x - x\<bar> \<le> power_int 10 (k - 38) / 2"
proof (cases "x = 0")
  case False
  let ?u = "power_int (10::rat) (lead 10 \<bar>x\<bar> - 37)"
  have u: "0 < ?u" by simp
  have "kernel_round x - x = sgn x * ((of_int (round_half_even (\<bar>x\<bar> / ?u)) - \<bar>x\<bar> / ?u) * ?u)"
    using False u by (simp add: kernel_round_def round_sig_def Let_def left_diff_distrib right_diff_distrib sgn_if)
  then have "\<bar>kernel_round x - x\<bar> = \<bar>of_int (round_half_even (\<bar>x\<bar> / ?u)) - \<bar>x\<bar> / ?u\<bar> * ?u"
    using False u by (simp add: abs_mult sgn_if)
  also have "\<dots> \<le> 1 / 2 * ?u" using round_half_even_error u by (intro mult_right_mono) auto
  also have "?u \<le> power_int 10 (k - 38)"
    using lead_le [of 10 "\<bar>x\<bar>" k] False assms by (intro power_int_increasing) auto
  finally show ?thesis by simp
qed (simp add: kernel_round_def)

lemma kernel_round_0 [simp]: "kernel_round 0 = 0"
  by (simp add: kernel_round_def)

text \<open>Magnitudes below \<open>10 ^ 19\<close>: the error of both roundings and the quantisation.\<close>

lemma relative_to_bounds:
  assumes "0 \<le> v" "0 < r" "v < 10 ^ 18 * r"
  shows "\<bar>relative_to v r\<bar> \<le> 10 ^ 19" "\<bar>relative_to v r - (v / r - 1)\<bar> \<le> 1 / 10 ^ 19"
proof -
  have q: "0 \<le> v / r" "v / r < 10 ^ 18" using assms by (simp_all add: divide_less_eq mult.commute)
  have e1: "\<bar>kernel_round (v / r) - v / r\<bar> \<le> power_int 10 (18 - 38) / 2"
    by (rule relative_to_grid_error) (use q in \<open>simp add: power_int_def\<close>)
  have small: "power_int (10::rat) (18 - 38) = 1 / 10 ^ 20" by (simp add: power_int_neg_exponent)
  have "\<bar>kernel_round (v / r) - 1\<bar> < power_int 10 19"
  proof -
    have "\<bar>kernel_round (v / r) - v / r\<bar> \<le> 1" using e1 unfolding small by (rule order_trans) simp
    then show ?thesis using q unfolding abs_le_iff abs_less_iff by (simp add: power_int_def)
  qed
  then have e2: "\<bar>relative_to v r - (kernel_round (v / r) - 1)\<bar> \<le> power_int 10 (19 - 38) / 2"
    unfolding relative_to_def by (rule relative_to_grid_error)
  have small2: "power_int (10::rat) (19 - 38) = 1 / 10 ^ 19" by (simp add: power_int_neg_exponent)
  show "\<bar>relative_to v r - (v / r - 1)\<bar> \<le> 1 / 10 ^ 19"
  proof -
    have "relative_to v r - (v / r - 1) = relative_to v r - (kernel_round (v / r) - 1) + (kernel_round (v / r) - v / r)"
      by simp
    then have "\<bar>relative_to v r - (v / r - 1)\<bar> \<le> 1 / 10 ^ 19 / 2 + 1 / 10 ^ 20 / 2"
      using abs_triangle_ineq [of "relative_to v r - (kernel_round (v / r) - 1)" "kernel_round (v / r) - v / r"]
        add_mono [OF e2 [unfolded small2] e1 [unfolded small]] by linarith
    then show ?thesis by (rule order_trans) simp
  qed
  then have "\<bar>relative_to v r - (v / r - 1)\<bar> \<le> 1" by (rule order_trans) simp
  then show "\<bar>relative_to v r\<bar> \<le> 10 ^ 19" using q unfolding abs_le_iff by simp
qed

lemma ratio_value:
  assumes "is_finite d" "\<bar>dval d\<bar> \<le> 10 ^ 19"
  shows "\<exists>q. ratio d = Inr q \<and> is_finite q \<and> dval q = grid 18 (dval d)"
proof -
  have "\<bar>dval d\<bar> * 10 ^ 18 \<le> of_int (10 ^ 38 - 1)"
    using mult_right_mono [OF assms(2), of "10 ^ 18"] by simp
  then show ?thesis
    using quantize_value [OF assms(1), of 18 kernel_precision] by (simp add: ratio_def)
qed

section \<open>Extrema\<close>

lemma foldl_decimal_max: "dval (foldl decimal_max x xs) = Max (dval ` set (x # xs))"
proof (induction xs arbitrary: x)
  case (Cons y xs)
  show ?case unfolding foldl_Cons Cons.IH
    by (cases "xs = []") (simp_all add: max.assoc)
qed simp

lemma foldl_decimal_min: "dval (foldl decimal_min x xs) = Min (dval ` set (x # xs))"
proof (induction xs arbitrary: x)
  case (Cons y xs)
  show ?case unfolding foldl_Cons Cons.IH
    by (cases "xs = []") (simp_all add: min.assoc)
qed simp

lemma foldl_finite:
  assumes "\<And>a b. is_finite a \<Longrightarrow> is_finite b \<Longrightarrow> is_finite (f a b)"
  shows "list_all is_finite (x # xs) \<Longrightarrow> is_finite (foldl f x xs)"
  by (induction xs arbitrary: x) (simp_all add: assms)

lemma decimal_extrema:
  assumes "xs \<noteq> []" "list_all is_finite xs"
  shows "\<exists>v. decimal_max_list xs = Inr v \<and> is_finite v \<and> dval v = Max (dval ` set xs)"
    and "\<exists>v. decimal_min_list xs = Inr v \<and> is_finite v \<and> dval v = Min (dval ` set xs)"
proof -
  obtain y ys where xs: "xs = y # ys" using assms(1) by (cases xs) auto
  show "\<exists>v. decimal_max_list xs = Inr v \<and> is_finite v \<and> dval v = Max (dval ` set xs)"
    using assms(2) foldl_decimal_max foldl_finite [of decimal_max] unfolding xs by (simp add: decimal_max_list_def)
  show "\<exists>v. decimal_min_list xs = Inr v \<and> is_finite v \<and> dval v = Min (dval ` set xs)"
    using assms(2) foldl_decimal_min foldl_finite [of decimal_min] unfolding xs by (simp add: decimal_min_list_def)
qed

end
