(* ===== verification/Outcome_Metrics.thy ===== *)
theory Outcome_Metrics
  imports Outcome_Arithmetic
begin

text \<open>
  What the constructors of \<open>outcome/domain/model.py\<close> guarantee of their values, and what one
  metric of the kernel is: its status from its dependencies, its value as an exact function of
  the observed prices.
\<close>

section \<open>Accepted values\<close>

definition target_accepted :: "zones \<Rightarrow> outcome_target_definition \<Rightarrow> bool" where
  "target_accepted zones t \<longleftrightarrow>
     outcome_target_definition_init t = Inr t
     \<and> (\<forall>c \<in> set (target_checkpoints t). outcome_checkpoint_init zones c = Inr c)
     \<and> (\<forall>m \<in> set (target_metrics t). outcome_metric_definition_init m = Inr m)"

lemma outcome_sha_Inr [simp]: "outcome_sha f v = Inr u \<longleftrightarrow> content_hash_ok v"
  by (simp add: outcome_sha_def)

lemma positive_decimal_Inr [simp]: "positive_decimal f v = Inr u \<longleftrightarrow> is_finite v \<and> dval v > 0"
  by (simp add: positive_decimal_def)

lemma aware_field_Inr [simp]: "aware_field f d = Inr u \<longleftrightarrow> (\<exists>i off. d = Aware i off)"
  by (cases d) simp_all

lemma target_shape:
  assumes "target_accepted zones t"
  shows "target_checkpoints t \<noteq> []" "target_metrics t \<noteq> []" "target_dependencies t \<noteq> []"
    "distinct (map checkpoint_id (target_checkpoints t))" "distinct (map definition_id (target_metrics t))"
    "contiguous (map definition_ordinal (target_metrics t))" "content_hash_ok (target_sha256 t)"
proof -
  have "outcome_target_definition_init t = Inr t" using assms by (simp add: target_accepted_def)
  then show "target_checkpoints t \<noteq> []" "target_metrics t \<noteq> []" "target_dependencies t \<noteq> []"
    "distinct (map checkpoint_id (target_checkpoints t))" "distinct (map definition_id (target_metrics t))"
    "contiguous (map definition_ordinal (target_metrics t))" "content_hash_ok (target_sha256 t)"
    by (simp_all add: outcome_target_definition_init_def Let_def thenE_Inr_iff target_contiguous_def del: thenE_guardE)
qed

lemma target_metric_checked:
  assumes "target_accepted zones t" "m \<in> set (target_metrics t)"
  shows "check_metric t m = Inr ()"
proof -
  obtain us where "mapE (check_metric t) (target_metrics t) = Inr us"
    using assms(1) by (auto simp: target_accepted_def outcome_target_definition_init_def Let_def thenE_Inr_iff bindE_Inr_iff
        simp del: thenE_guardE)
  then show ?thesis using mapE_Inr_nth assms(2) by (metis in_set_conv_nth old.unit.exhaust)
qed

lemma check_dependencies:
  assumes "foldE (check_dependency t) ds seen = Inr seen'" "d \<in> set ds"
  shows "dependency_metric_id d \<in> set (map definition_id (target_metrics t))"
    "if dependency_role d = Role_REFERENCE then dependency_checkpoint_id d = target_reference_checkpoint t
     else dependency_checkpoint_id d \<in> set (map checkpoint_id (target_checkpoints t))"
proof -
  have "dependency_metric_id d \<in> set (map definition_id (target_metrics t))
    \<and> (if dependency_role d = Role_REFERENCE then dependency_checkpoint_id d = target_reference_checkpoint t
       else dependency_checkpoint_id d \<in> set (map checkpoint_id (target_checkpoints t)))"
    using assms
  proof (induction ds arbitrary: seen)
    case (Cons x ds)
    then show ?case
      by (auto simp: bindE_Inr_iff check_dependency_def Let_def thenE_Inr_iff simp del: thenE_guardE split: if_splits)
  qed simp
  then show "dependency_metric_id d \<in> set (map definition_id (target_metrics t))"
    "if dependency_role d = Role_REFERENCE then dependency_checkpoint_id d = target_reference_checkpoint t
     else dependency_checkpoint_id d \<in> set (map checkpoint_id (target_checkpoints t))" by blast+
qed

lemma target_dependency_bound:
  assumes "target_accepted zones t" "d \<in> set (target_dependencies t)" "dependency_role d \<noteq> Role_REFERENCE"
  shows "dependency_checkpoint_id d \<in> set (map checkpoint_id (target_checkpoints t))"
proof -
  obtain seen where "foldE (check_dependency t) (target_dependencies t) {} = Inr seen"
    using assms(1) by (auto simp: target_accepted_def outcome_target_definition_init_def Let_def thenE_Inr_iff bindE_Inr_iff
        simp del: thenE_guardE)
  from check_dependencies(2) [OF this assms(2)] show ?thesis using assms(3) by simp
qed

text \<open>An accepted metric definition.\<close>

definition metric_definition_ok :: "outcome_metric_definition \<Rightarrow> bool" where
  "metric_definition_ok d \<longleftrightarrow>
     (let a = definition_algorithm d in
      1 \<le> definition_ordinal d \<and> outcome_code_ok (definition_code d)
      \<and> outcome_code_ok (algorithm_code a) \<and> algorithm_version_ok (algorithm_version a)
      \<and> content_hash_ok (algorithm_sha256 a) \<and> content_hash_ok (algorithm_code_sha256 a)
      \<and> content_hash_ok (algorithm_config_sha256 a) \<and> content_hash_ok (definition_sha256 d)
      \<and> 0 \<le> algorithm_code_size a \<and> 0 \<le> algorithm_config_size a
      \<and> definition_value_type d = (if definition_kind d = BARRIER_HIT then Value_BOOLEAN else Value_DECIMAL)
      \<and> (definition_kind d = BARRIER_HIT \<longrightarrow>
          (\<exists>dir v. barrier_direction d = Some dir \<and> barrier_threshold d = Some v \<and> is_finite v \<and> dval v > 0)))"

lemma metric_definition_accepted:
  assumes "outcome_metric_definition_init m = Inr m"
  shows "metric_definition_ok m"
proof -
  have "definition_value_type m = fst (expected_metric_shape (definition_kind m))"
    using assms
    by (auto simp: outcome_metric_definition_init_def Let_def thenE_Inr_iff simp del: thenE_guardE) (metis fst_conv)
  then have "definition_value_type m = (if definition_kind m = BARRIER_HIT then Value_BOOLEAN else Value_DECIMAL)"
    by (cases "definition_kind m") simp_all
  then show ?thesis
    using assms
    by (simp add: metric_definition_ok_def outcome_metric_definition_init_def Let_def thenE_Inr_iff not_less
        del: thenE_guardE split: option.splits if_splits)
qed

section \<open>Observations\<close>

text \<open>An observation with prices, and one without.\<close>

definition priced :: "outcome_observation_draft \<Rightarrow> bool" where
  "priced x \<longleftrightarrow>
     observation_status x = Outcome_COMPLETE
     \<and> (\<exists>s hi lo. selected_value x = Some s \<and> high_value x = Some hi \<and> low_value x = Some lo
        \<and> is_finite s \<and> is_finite hi \<and> is_finite lo
        \<and> 0 < dval lo \<and> dval lo \<le> dval s \<and> dval s \<le> dval hi)"

definition selected_price :: "outcome_observation_draft \<Rightarrow> rat" where
  "selected_price x = dval (the (selected_value x))"

definition high_price :: "outcome_observation_draft \<Rightarrow> rat" where
  "high_price x = dval (the (high_value x))"

definition low_price :: "outcome_observation_draft \<Rightarrow> rat" where
  "low_price x = dval (the (low_value x))"

lemma priced_prices:
  assumes "priced x"
  shows "0 < low_price x" "low_price x \<le> selected_price x" "selected_price x \<le> high_price x"
  using assms by (auto simp: priced_def selected_price_def high_price_def low_price_def)

definition aware :: "py_datetime \<Rightarrow> bool" where
  "aware d \<longleftrightarrow> (\<exists>i off. d = Aware i off)"

lemma outcome_source_accepted:
  assumes "outcome_source_init s = Inr s"
  shows "aware (source_start s)" "aware (source_end s)" "aware (source_recorded_at s)" "aware (source_known s)"
    "instant_of (source_start s) < instant_of (source_end s)" "instant_of (source_end s) \<le> instant_of (source_known s)"
proof -
  have "validate_observation_source s = Inr ()"
    using assms by (simp add: outcome_source_init_def thenE_Inr_iff)
  then show "aware (source_start s)" "aware (source_end s)" "aware (source_recorded_at s)" "aware (source_known s)"
    "instant_of (source_start s) < instant_of (source_end s)" "instant_of (source_end s) \<le> instant_of (source_known s)"
    by (simp_all add: validate_observation_source_def thenE_Inr_iff aware_def not_less not_le del: thenE_guardE)
qed

lemma bar_accepted:
  assumes "outcome_source_init s = Inr s" "source_body s = Bar i n op hi lo cl"
  shows "\<forall>v \<in> {op, hi, lo, cl}. is_finite v \<and> 0 < dval v \<and> dval lo \<le> dval v \<and> dval v \<le> dval hi"
proof -
  have "\<exists>us. mapE (positive_decimal ''Outcome OHLC value'') [op, hi, lo, cl] = Inr us"
    "\<not> (dval hi < Max (dval ` {op, hi, lo, cl}) \<or> dval lo > Min (dval ` {op, hi, lo, cl}))"
    using assms by (auto simp: outcome_source_init_def thenE_Inr_iff bindE_Inr_iff split: if_splits)
  then show ?thesis
    by (auto simp: bindE_Inr_iff not_less)
qed

lemma observation_fields [simp]:
  "observation_checkpoint_id (observation_of (c, s)) = source_checkpoint_id s"
  "observation_start (observation_of (c, s)) = source_start s"
  "observation_end (observation_of (c, s)) = source_end s"
  "observation_known_at (observation_of (c, s)) = source_known s"
  "observation_fact_id (observation_of (c, s)) = fact_id (source_body s)"
  "observation_finality (observation_of (c, s)) = Finality_UNKNOWN"
  "observation_status (observation_of (c, s)) =
     (case source_body s of Bar i n op hi lo cl \<Rightarrow> Outcome_COMPLETE | Gap i kind reason \<Rightarrow> gap_status kind)"
  "high_value (observation_of (c, s)) = (case source_body s of Bar i n op hi lo cl \<Rightarrow> Some hi | Gap i kind reason \<Rightarrow> None)"
  "low_value (observation_of (c, s)) = (case source_body s of Bar i n op hi lo cl \<Rightarrow> Some lo | Gap i kind reason \<Rightarrow> None)"
  "selected_value (observation_of (c, s)) =
     (case source_body s of Bar i n op hi lo cl \<Rightarrow> Some (bar_field (checkpoint_field c) op hi lo cl) | Gap i kind reason \<Rightarrow> None)"
  by (simp_all add: observation_of_def split: outcome_source_body.splits)

lemma bar_field_member: "bar_field f op hi lo cl \<in> {op, hi, lo, cl}"
  by (cases f) simp_all

lemma gap_status_cases: "gap_status k = Outcome_UNAVAILABLE \<or> gap_status k = Outcome_FAILED"
  by (simp add: gap_status_def)

lemma observation_of_shape:
  assumes "outcome_source_init s = Inr s"
  shows "observation_shape (observation_of (c, s))"
proof (cases "source_body s")
  case (Bar i n op hi lo cl)
  have ok: "is_finite v \<and> 0 < dval v \<and> dval lo \<le> dval v \<and> dval v \<le> dval hi" if "v \<in> {op, hi, lo, cl}" for v
    using bar_accepted [OF assms Bar] that by blast
  have "is_finite (bar_field (checkpoint_field c) op hi lo cl) \<and> 0 < dval (bar_field (checkpoint_field c) op hi lo cl)"
    using ok [OF bar_field_member] by blast
  then show ?thesis
    using ok [of op] ok [of hi] ok [of lo] ok [of cl] Bar
    by (auto simp: observation_shape_def observation_of_def not_le not_less)
next
  case (Gap i k reason)
  then show ?thesis
    using gap_status_cases [of k]
    by (auto simp: observation_shape_def observation_of_def observation_values_def empty_availability_def)
qed

lemma observe_total:
  assumes "outcome_source_init s = Inr s"
  shows "\<exists>h. observe (c, s) = Inr ((observation_of (c, s))\<lparr>observation_sha256 := h\<rparr>)"
proof -
  note s = outcome_source_accepted [OF assms]
  have "canonical (observation_payload (observation_of (c, s)))"
    using s by (auto simp: observation_payload_def aware_def)
  then obtain h where "canonical_json_sha256 (observation_payload (observation_of (c, s))) = Inr h"
    using canonical_json_sha256_total by blast
  then show ?thesis
    using s observation_of_shape [OF assms]
    by (auto simp: observe_def outcome_observation_draft_init_def aware_def)
qed

lemma observation_priced:
  assumes "outcome_source_init s = Inr s"
  shows "priced ((observation_of (c, s))\<lparr>observation_sha256 := h\<rparr>)
    \<longleftrightarrow> observation_status (observation_of (c, s)) = Outcome_COMPLETE"
proof (cases "source_body s")
  case (Bar i n op hi lo cl)
  have ok: "is_finite v \<and> 0 < dval v \<and> dval lo \<le> dval v \<and> dval v \<le> dval hi" if "v \<in> {op, hi, lo, cl}" for v
    using bar_accepted [OF assms Bar] that by blast
  show ?thesis
    using ok [of lo] ok [of hi] ok [OF bar_field_member [of "checkpoint_field c"]] Bar by (simp add: priced_def)
next
  case (Gap i k reason)
  then show ?thesis using gap_status_cases [of k] by (auto simp: priced_def)
qed

end
