(* ===== verification/Outcome_Values.thy ===== *)
theory Outcome_Values
  imports Outcome_Metrics "HOL-Library.Multiset"
begin

text \<open>
  The values of complete metrics as exact functions of the observed prices, and the shape of the
  dependencies an accepted Target gives each kind of metric.
\<close>

section \<open>Values\<close>

text \<open>The prices of a roster stay below \<open>10 ^ 18\<close> times the reference.\<close>

definition ratios_fit :: "rat \<Rightarrow> outcome_observation_draft list \<Rightarrow> bool" where
  "ratios_fit r os \<longleftrightarrow> (\<forall>x \<in> set os. high_price x < 10 ^ 18 * r)"

definition reference_ok :: "decimal \<Rightarrow> bool" where
  "reference_ok r \<longleftrightarrow> is_finite r \<and> 0 < dval r"

definition return_on :: "rat \<Rightarrow> rat \<Rightarrow> rat" where
  "return_on r v = grid 18 (relative_to v r)"

definition favorable_of :: "rat \<Rightarrow> rat set \<Rightarrow> rat" where
  "favorable_of r vs = grid 18 (max 0 (relative_to (Max vs) r))"

definition adverse_of :: "rat \<Rightarrow> rat set \<Rightarrow> rat" where
  "adverse_of r vs = grid 18 (min 0 (relative_to (Min vs) r))"

lemma relative_priced:
  assumes "reference_ok r" "is_finite v" "0 < dval v" "dval v < 10 ^ 18 * dval r"
  shows "\<exists>d. relative v r = Inr d \<and> is_finite d \<and> dval d = relative_to (dval v) (dval r) \<and> \<bar>dval d\<bar> \<le> 10 ^ 19"
  using relative_value [of v r] relative_to_bounds(1) [of "dval v" "dval r"] assms by (auto simp: reference_ok_def)

lemma relative_ratio:
  assumes "reference_ok r" "is_finite v" "0 < dval v" "dval v < 10 ^ 18 * dval r"
  shows "\<exists>q. bindE (relative v r) ratio = Inr q \<and> is_finite q \<and> dval q = return_on (dval r) (dval v)"
  using relative_priced [OF assms] ratio_value by (fastforce simp: return_on_def)

lemma simple_return_value:
  assumes "reference_ok r" "priced x" "ratios_fit (dval r) [x]"
  shows "\<exists>q. simple_return (Some r) [x] = Inr q \<and> is_finite q \<and> dval q = return_on (dval r) (selected_price x)"
proof -
  obtain s where s: "selected_value x = Some s" "is_finite s" using assms(2) by (auto simp: priced_def)
  have "0 < dval s" "dval s < 10 ^ 18 * dval r"
    using priced_prices [OF assms(2)] assms(3) s by (auto simp: selected_price_def ratios_fit_def)
  from relative_ratio [OF assms(1) s(2) this] show ?thesis
    using s by (auto simp: simple_return_def observation_value_def selected_price_def)
qed

lemma observation_return_value:
  assumes "priced x" "priced y" "same_bar x y" "selected_price y < 10 ^ 18 * selected_price x"
  shows "\<exists>q. observation_return [x, y] = Inr q \<and> is_finite q \<and> dval q = return_on (selected_price x) (selected_price y)"
proof -
  obtain a b where ab: "selected_value x = Some a" "is_finite a" "selected_value y = Some b" "is_finite b"
    using assms(1,2) by (auto simp: priced_def)
  have "reference_ok a" "0 < dval b"
    using priced_prices [OF assms(1)] priced_prices [OF assms(2)] ab by (auto simp: selected_price_def reference_ok_def)
  from relative_ratio [OF this(1) ab(4) this(2)] show ?thesis
    using ab assms(3,4) by (auto simp: observation_return_def selected_price_def)
qed

lemma priced_values:
  assumes "list_all priced os"
  shows "\<exists>vs. mapE (\<lambda>x. optE (high_value x) AssertionError) os = Inr vs \<and> list_all is_finite vs \<and> map dval vs = map high_price os"
    and "\<exists>vs. mapE (\<lambda>x. optE (low_value x) AssertionError) os = Inr vs \<and> list_all is_finite vs \<and> map dval vs = map low_price os"
  using assms
  by (induction os) (fastforce simp: priced_def high_price_def low_price_def)+

lemma dval_image: "map dval vs = map f os \<Longrightarrow> dval ` set vs = f ` set os"
  by (metis set_map)

lemma favorable_value:
  assumes "reference_ok r" "list_all priced os" "os \<noteq> []" "ratios_fit (dval r) os"
  shows "\<exists>q. favorable_excursion (Some r) os = Inr q \<and> is_finite q
    \<and> dval q = favorable_of (dval r) (high_price ` set os)"
proof -
  obtain vs where vs: "mapE (\<lambda>x. optE (high_value x) AssertionError) os = Inr vs" "list_all is_finite vs"
    "map dval vs = map high_price os" using priced_values(1) [OF assms(2)] by blast
  have "vs \<noteq> []" using vs(3) assms(3) by auto
  from decimal_extrema(1) [OF this vs(2)] obtain v where v: "decimal_max_list vs = Inr v" "is_finite v"
    "dval v = Max (high_price ` set os)" using dval_image [OF vs(3)] by auto
  have "Max (high_price ` set os) \<in> high_price ` set os" using assms(3) by (intro Max_in) auto
  then have "0 < dval v" "dval v < 10 ^ 18 * dval r"
    using v(3) assms(2,4) priced_prices by (auto simp: ratios_fit_def list_all_iff) (meson less_le_trans order.trans)
  from relative_priced [OF assms(1) v(2) this] obtain d where d: "relative v r = Inr d" "is_finite d"
    "dval d = relative_to (dval v) (dval r)" "\<bar>dval d\<bar> \<le> 10 ^ 19" by blast
  have "is_finite (decimal_max (decimal_of_int 0) d)" "\<bar>dval (decimal_max (decimal_of_int 0) d)\<bar> \<le> 10 ^ 19"
    using d(2,4) by (simp_all add: decimal_of_int_def)
  from ratio_value [OF this] show ?thesis
    using vs(1) v d by (auto simp: favorable_excursion_def favorable_of_def)
qed

lemma adverse_value:
  assumes "reference_ok r" "list_all priced os" "os \<noteq> []" "ratios_fit (dval r) os"
  shows "\<exists>q. adverse_excursion (Some r) os = Inr q \<and> is_finite q
    \<and> dval q = adverse_of (dval r) (low_price ` set os)"
proof -
  obtain vs where vs: "mapE (\<lambda>x. optE (low_value x) AssertionError) os = Inr vs" "list_all is_finite vs"
    "map dval vs = map low_price os" using priced_values(2) [OF assms(2)] by blast
  have "vs \<noteq> []" using vs(3) assms(3) by auto
  from decimal_extrema(2) [OF this vs(2)] obtain v where v: "decimal_min_list vs = Inr v" "is_finite v"
    "dval v = Min (low_price ` set os)" using dval_image [OF vs(3)] by auto
  have "Min (low_price ` set os) \<in> low_price ` set os" using assms(3) by (intro Min_in) auto
  then have "0 < dval v" "dval v < 10 ^ 18 * dval r"
    using v(3) assms(2,4) priced_prices by (auto simp: ratios_fit_def list_all_iff) (meson le_less_trans order.trans)
  from relative_priced [OF assms(1) v(2) this] obtain d where d: "relative v r = Inr d" "is_finite d"
    "dval d = relative_to (dval v) (dval r)" "\<bar>dval d\<bar> \<le> 10 ^ 19" by blast
  have "is_finite (decimal_min (decimal_of_int 0) d)" "\<bar>dval (decimal_min (decimal_of_int 0) d)\<bar> \<le> 10 ^ 19"
    using d(2,4) by (simp_all add: decimal_of_int_def)
  from ratio_value [OF this] show ?thesis
    using vs(1) v d by (auto simp: adverse_excursion_def adverse_of_def)
qed

section \<open>Excursions and returns\<close>

lemma excursions_bracket:
  assumes "0 < r" "finite hs" "finite ls" "h \<in> hs" "l \<in> ls" "l \<le> v" "v \<le> h"
  shows "adverse_of r ls \<le> return_on r v" "return_on r v \<le> favorable_of r hs"
    "adverse_of r ls \<le> 0" "0 \<le> favorable_of r hs"
proof -
  have "Min ls \<le> v" "v \<le> Max hs" using assms by (auto intro: Min.coboundedI Max.coboundedI order_trans)
  then have "relative_to (Min ls) r \<le> relative_to v r" "relative_to v r \<le> relative_to (Max hs) r"
    using assms(1) by (simp_all add: relative_to_mono)
  then show "adverse_of r ls \<le> return_on r v" "return_on r v \<le> favorable_of r hs"
    unfolding adverse_of_def favorable_of_def return_on_def by (auto intro!: grid_mono)
  show "adverse_of r ls \<le> 0" "0 \<le> favorable_of r hs"
    using grid_mono [of "min 0 (relative_to (Min ls) r)" 0 18] grid_mono [of 0 "max 0 (relative_to (Max hs) r)" 18]
    by (simp_all add: adverse_of_def favorable_of_def)
qed

text \<open>The error of a value: less than one unit of the last of its 18 fractional digits.\<close>

lemma grid_close:
  assumes "\<bar>x - y\<bar> \<le> 1 / 10 ^ 19"
  shows "\<bar>grid 18 x - y\<bar> < 1 / 10 ^ 18"
proof -
  have "\<bar>grid 18 x - y\<bar> \<le> \<bar>grid 18 x - x\<bar> + \<bar>x - y\<bar>" by simp
  also have "\<dots> \<le> 1 / 2 / 10 ^ 18 + 1 / 10 ^ 19" by (rule add_mono [OF grid_error assms])
  also have "\<dots> < 1 / 10 ^ 18" by simp
  finally show ?thesis .
qed

lemma return_close:
  assumes "0 \<le> v" "0 < r" "v < 10 ^ 18 * r"
  shows "\<bar>return_on r v - (v / r - 1)\<bar> < 1 / 10 ^ 18"
  unfolding return_on_def by (rule grid_close [OF relative_to_bounds(2) [OF assms]])

lemma clamp_close: "\<bar>max 0 x - max 0 y\<bar> \<le> \<bar>x - y\<bar>" "\<bar>min 0 x - min 0 y\<bar> \<le> \<bar>x - y\<bar>" for x y :: rat
  by (simp_all add: max_def min_def)

lemma favorable_close:
  assumes "0 \<le> Max vs" "0 < r" "Max vs < 10 ^ 18 * r"
  shows "\<bar>favorable_of r vs - max 0 (Max vs / r - 1)\<bar> < 1 / 10 ^ 18"
  unfolding favorable_of_def
  by (rule grid_close [OF order_trans [OF clamp_close(1) relative_to_bounds(2) [OF assms]]])

lemma adverse_close:
  assumes "0 \<le> Min vs" "0 < r" "Min vs < 10 ^ 18 * r"
  shows "\<bar>adverse_of r vs - min 0 (Min vs / r - 1)\<bar> < 1 / 10 ^ 18"
  unfolding adverse_of_def
  by (rule grid_close [OF order_trans [OF clamp_close(2) relative_to_bounds(2) [OF assms]]])

section \<open>Barriers\<close>

definition boundary_of :: "rat \<Rightarrow> outcome_barrier_direction \<Rightarrow> rat \<Rightarrow> rat" where
  "boundary_of r dir v = kernel_round (r * kernel_round (if dir = Barrier_UP then 1 + v else 1 - v))"

fun touches :: "outcome_barrier_direction \<Rightarrow> rat \<Rightarrow> outcome_observation_draft \<Rightarrow> bool" where
  "touches Barrier_UP b x \<longleftrightarrow> b \<le> high_price x"
| "touches Barrier_DOWN b x \<longleftrightarrow> low_price x \<le> b"

lemma barrier_boundary_value:
  assumes "is_finite r" "is_finite v"
  shows "\<exists>b. barrier_boundary r dir v = Inr b \<and> is_finite b \<and> dval b = boundary_of (dval r) dir (dval v)"
proof -
  obtain f where f: "(if dir = Barrier_UP then decimal_add kernel_precision (decimal_of_int 1) v
      else decimal_sub kernel_precision (decimal_of_int 1) v) = Inr f" "is_finite f"
    "dval f = kernel_round (if dir = Barrier_UP then 1 + dval v else 1 - dval v)"
    using decimal_add_rounds [of kernel_precision "decimal_of_int 1" v]
      decimal_sub_rounds [of kernel_precision "decimal_of_int 1" v] assms(2)
    by (cases "dir = Barrier_UP") (auto simp: kernel_round_def decimal_of_int_def elim!: rounds_toE)
  obtain b where "decimal_mul kernel_precision r f = Inr b" "is_finite b" "dval b = kernel_round (dval r * dval f)"
    using decimal_mul_rounds [of kernel_precision r f] assms(1) f(2) by (auto simp: kernel_round_def elim!: rounds_toE)
  then show ?thesis using f by (simp add: barrier_boundary_def boundary_of_def)
qed

lemma barrier_reached_priced: "priced x \<Longrightarrow> barrier_reached dir b x \<longleftrightarrow> touches dir (dval b) x"
  by (cases dir) (auto simp: priced_def barrier_reached_def high_price_def low_price_def)

text \<open>The roster by event end: empty when no member touches, else headed by the earliest that does.\<close>

definition observed_end :: "outcome_observation_draft \<Rightarrow> instant" where
  "observed_end x = instant_of (observation_end x)"

lemma barrier_hits_value:
  assumes "is_finite r" "barrier_direction d = Some dir" "barrier_threshold d = Some v" "is_finite v" "list_all priced os"
  defines "b \<equiv> boundary_of (dval r) dir (dval v)"
  shows "\<exists>hits. barrier_hits d (Some r) os = Inr hits
    \<and> set hits = {x \<in> set os. touches dir b x} \<and> sorted (map observed_end hits)"
proof -
  obtain bd where bd: "barrier_boundary r dir v = Inr bd" "dval bd = b"
    using barrier_boundary_value [OF assms(1,4)] b_def by blast
  let ?sorted = "sort_key (\<lambda>x. instant_of (observation_end x)) os"
  have "set (filter (barrier_reached dir bd) ?sorted) = {x \<in> set os. touches dir b x}"
    using assms(5) barrier_reached_priced bd(2) by (auto simp: list_all_iff)
  moreover have "sorted (map observed_end (filter (barrier_reached dir bd) ?sorted))"
    unfolding observed_end_def by (rule sorted_filter) simp
  ultimately show ?thesis using assms(2,3) bd(1) by (simp add: barrier_hits_def)
qed

section \<open>Dependencies\<close>

definition observing :: "outcome_metric_dependency list \<Rightarrow> outcome_metric_dependency list" where
  "observing ds = filter (\<lambda>d. dependency_role d \<in> {Role_OBSERVATION, Role_PATH_MEMBER}) ds"

definition referring :: "outcome_metric_dependency list \<Rightarrow> bool" where
  "referring ds \<longleftrightarrow> list_ex (\<lambda>d. dependency_role d = Role_REFERENCE) ds"

text \<open>The roles an accepted metric has, by its kind.\<close>

lemma observing_length:
  "length (observing ds) = length (filter (\<lambda>r. r \<noteq> Role_REFERENCE) (map dependency_role ds))"
proof -
  have "r \<in> {Role_OBSERVATION, Role_PATH_MEMBER} \<longleftrightarrow> r \<noteq> Role_REFERENCE" for r
    by (cases r) simp_all
  then show ?thesis unfolding observing_def by (simp only: filter_map comp_def length_map)
qed

lemma referring_roles: "referring ds \<longleftrightarrow> Role_REFERENCE \<in> set (map dependency_role ds)"
  by (force simp: referring_def list_ex_iff)

lemma simple_roles:
  assumes "sort_key outcome_dependency_role_value roles = [Role_OBSERVATION, Role_REFERENCE]"
  shows "Role_REFERENCE \<in> set roles" "length (filter (\<lambda>r. r \<noteq> Role_REFERENCE) roles) = 1"
proof -
  have m: "mset roles = {#Role_OBSERVATION, Role_REFERENCE#}"
    using arg_cong [OF assms, of mset] by simp
  then show "Role_REFERENCE \<in> set roles" by (metis set_mset_mset union_single_eq_member add_mset_commute)
  have "mset (filter (\<lambda>r. r \<noteq> Role_REFERENCE) roles) = {#Role_OBSERVATION#}" using m by (simp add: mset_filter)
  then show "length (filter (\<lambda>r. r \<noteq> Role_REFERENCE) roles) = 1" by (metis size_mset size_single)
qed

lemma path_roles:
  assumes "count_list roles Role_REFERENCE = 1" "\<not> count_list roles Role_PATH_MEMBER < 1"
  shows "Role_REFERENCE \<in> set roles" "filter (\<lambda>r. r \<noteq> Role_REFERENCE) roles \<noteq> []"
proof -
  have "Role_PATH_MEMBER \<in> set roles" using assms(2) by (metis count_list_0_iff less_one)
  then show "filter (\<lambda>r. r \<noteq> Role_REFERENCE) roles \<noteq> []" by (force simp: filter_empty_conv)
  show "Role_REFERENCE \<in> set roles" using assms(1) by (metis count_list_0_iff zero_neq_one)
qed

lemma dependency_shape:
  assumes "check_metric t m = Inr ()"
  defines "ds \<equiv> dependencies_of t m"
  shows "referring ds \<longleftrightarrow> definition_kind m \<notin> {OBSERVATION_VALUE, OBSERVATION_RETURN}"
    and "case definition_kind m of
        OBSERVATION_VALUE \<Rightarrow> length (observing ds) = 1
      | SIMPLE_RETURN \<Rightarrow> length (observing ds) = 1
      | OBSERVATION_RETURN \<Rightarrow> length (observing ds) = 2
      | _ \<Rightarrow> observing ds \<noteq> []"
proof -
  define roles where "roles = map dependency_role ds"
  have "validate_metric_dependencies m ds = Inr ()"
    using assms(1) by (simp add: check_metric_def ds_def Let_def thenE_Inr_iff)
  note v = this [unfolded validate_metric_dependencies_def Let_def roles_def [symmetric], simplified thenE_Inr_iff guardE_Inr_iff]
  have ref: "referring ds \<longleftrightarrow> Role_REFERENCE \<in> set roles"
    and obs: "length (observing ds) = length (filter (\<lambda>r. r \<noteq> Role_REFERENCE) roles)"
    "observing ds \<noteq> [] \<longleftrightarrow> filter (\<lambda>r. r \<noteq> Role_REFERENCE) roles \<noteq> []"
    using referring_roles [of ds] observing_length [of ds] unfolding roles_def by (simp, simp, metis length_0_conv)
  show "referring ds \<longleftrightarrow> definition_kind m \<notin> {OBSERVATION_VALUE, OBSERVATION_RETURN}"
    unfolding ref
    by (cases "definition_kind m")
      (use v simple_roles [of roles] path_roles [of roles] in \<open>simp_all add: excursion_kinds_def\<close>)
  show "case definition_kind m of
        OBSERVATION_VALUE \<Rightarrow> length (observing ds) = 1
      | SIMPLE_RETURN \<Rightarrow> length (observing ds) = 1
      | OBSERVATION_RETURN \<Rightarrow> length (observing ds) = 2
      | _ \<Rightarrow> observing ds \<noteq> []"
    unfolding obs
    by (cases "definition_kind m")
      (use v simple_roles [of roles] path_roles [of roles] in \<open>simp_all add: excursion_kinds_def\<close>)
qed

end
