(* ===== verification/Outcome_Runs.thy ===== *)
theory Outcome_Runs
  imports Outcome_Values
begin

text \<open>
  What a run of the kernel computes from accepted inputs: the observation of every checkpoint, the
  observations each metric depends on, the status of a metric from theirs, and its values.
\<close>

section \<open>Observations\<close>

interpretation observed_rows: keyed_table observation_checkpoint_id .

interpretation source_rows: keyed_table source_checkpoint_id .

interpretation definition_rows: keyed_table definition_id .

definition outcome_ready ::
  "zones \<Rightarrow> outcome_target_definition \<Rightarrow> frozen_decision_reference \<Rightarrow> outcome_session_source list \<Rightarrow>
   outcome_observation_source list \<Rightarrow> py_datetime \<Rightarrow> py_datetime \<Rightarrow> bool" where
  "outcome_ready zones t r sessions sources observed known \<longleftrightarrow>
     target_accepted zones t \<and> frozen_decision_reference_init r = Inr r
     \<and> (\<forall>s \<in> set sessions. outcome_session_source_init zones s = Inr s)
     \<and> (\<forall>s \<in> set sources. outcome_source_init s = Inr s)
     \<and> aware observed \<and> aware known
     \<and> validate_outcome_inputs zones t sessions sources observed known = Inr ()"

text \<open>The facts of accepted inputs.\<close>

lemma inputs_aligned:
  assumes "validate_outcome_inputs zones t sessions sources observed known = Inr ()"
  shows "length sources = length (target_checkpoints t)"
    "map source_checkpoint_id sources = map checkpoint_id (target_checkpoints t)"
    "distinct (map source_checkpoint_id sources)"
    "set (map session_offset sessions) = set (map checkpoint_offset (target_checkpoints t))"
    "\<forall>s \<in> set sessions. instant_of (session_known_at s) \<le> instant_of known"
    "\<forall>cs \<in> set (zip (target_checkpoints t) sources). check_outcome_source zones sessions observed known cs = Inr ()"
proof -
  let ?cs = "target_checkpoints t"
  note v = assms [unfolded validate_outcome_inputs_def Let_def thenE_Inr_iff bindE_Inr_iff guardE_Inr_iff]
  show len: "length sources = length ?cs" and "distinct (map source_checkpoint_id sources)"
    "set (map session_offset sessions) = set (map checkpoint_offset ?cs)"
    "\<forall>s \<in> set sessions. instant_of (session_known_at s) \<le> instant_of known"
    using v by (blast, blast, blast, meson not_le)
  have m: "mapE (\<lambda>c. optE (source_at sources (checkpoint_id c)) KeyError) ?cs = Inr sources" using v by blast
  show "map source_checkpoint_id sources = map checkpoint_id ?cs"
  proof (rule nth_equalityI)
    fix i assume i: "i < length (map source_checkpoint_id sources)"
    then have "source_at sources (checkpoint_id (?cs ! i)) = Some (sources ! i)"
      using mapE_Inr_nth [OF m, of i] len by simp
    then have "source_checkpoint_id (sources ! i) = checkpoint_id (?cs ! i)"
      unfolding source_at_def by (rule source_rows.row_at_Some_key)
    then show "map source_checkpoint_id sources ! i = map checkpoint_id ?cs ! i" using i len by simp
  qed (use len in simp)
  obtain us where us: "mapE (check_outcome_source zones sessions observed known) (zip ?cs sources) = Inr us" using v by blast
  show "\<forall>cs \<in> set (zip ?cs sources). check_outcome_source zones sessions observed known cs = Inr ()"
    using mapE_Inr_nth [OF us] by (metis (full_types) in_set_conv_nth old.unit.exhaust)
qed

text \<open>The observation of a checkpoint and its source, up to its hash.\<close>

definition observes :: "outcome_observation_draft \<Rightarrow> outcome_checkpoint \<times> outcome_observation_source \<Rightarrow> bool" where
  "observes x cs \<longleftrightarrow> (\<exists>h. x = (observation_of cs)\<lparr>observation_sha256 := h\<rparr>)"

lemma observes_fields:
  assumes "observes x (c, s)"
  shows "observation_checkpoint_id x = source_checkpoint_id s"
    "observation_start x = source_start s" "observation_end x = source_end s" "observation_known_at x = source_known s"
    "observation_fact_id x = fact_id (source_body s)"
    "observation_status x = (case source_body s of Bar i n op hi lo cl \<Rightarrow> Outcome_COMPLETE | Gap i k reason \<Rightarrow> gap_status k)"
  using assms by (auto simp: observes_def)

lemma observes_prices:
  assumes "observes x (c, s)" "source_body s = Bar i n op hi lo cl"
  shows "selected_value x = Some (bar_field (checkpoint_field c) op hi lo cl)"
    "high_value x = Some hi" "low_value x = Some lo"
  using assms by (auto simp: observes_def)

lemma observations_run:
  assumes "\<forall>s \<in> set sources. outcome_source_init s = Inr s"
  shows "\<exists>os. mapE observe (zip cs sources) = Inr os"
proof -
  have "mapE observe (zip cs sources)
    = Inr (map (\<lambda>x. (observation_of x)\<lparr>observation_sha256 := SOME h. observe x = Inr ((observation_of x)\<lparr>observation_sha256 := h\<rparr>)\<rparr>)
        (zip cs sources))"
  proof (rule mapE_all_Inr)
    fix x assume x: "x \<in> set (zip cs sources)"
    obtain c s where cs: "x = (c, s)" by (cases x)
    then have "outcome_source_init s = Inr s" using assms x set_zip_rightD by metis
    from observe_total [OF this, of c]
    show "observe x = Inr ((observation_of x)\<lparr>observation_sha256 := SOME h. observe x = Inr ((observation_of x)\<lparr>observation_sha256 := h\<rparr>)\<rparr>)"
      unfolding cs by (rule someI_ex)
  qed
  then show ?thesis by blast
qed

lemma observe_observes:
  assumes "observe cs = Inr x"
  shows "observes x cs"
  using assms
  by (auto simp: observe_def outcome_observation_draft_init_def thenE_Inr_iff bindE_Inr_iff observes_def
      simp del: thenE_guardE)

text \<open>Every checkpoint has one observation, that of its source.\<close>

lemma observation_rows_run:
  assumes "validate_outcome_inputs zones t sessions sources observed known = Inr ()"
    and "mapE observe (zip (target_checkpoints t) sources) = Inr os"
  shows "length os = length sources"
    and "i < length sources \<Longrightarrow> observes (os ! i) (target_checkpoints t ! i, sources ! i)"
    and "map observation_checkpoint_id os = map source_checkpoint_id sources"
proof -
  let ?cs = "target_checkpoints t"
  note a = inputs_aligned [OF assms(1)]
  show len: "length os = length sources" using mapE_Inr_length [OF assms(2)] a(1) by simp
  show ob: "observes (os ! i) (?cs ! i, sources ! i)" if "i < length sources" for i
    using mapE_Inr_nth [OF assms(2), of i] observe_observes that a(1) by simp
  show "map observation_checkpoint_id os = map source_checkpoint_id sources"
    using len by (auto intro!: nth_equalityI observes_fields(1) [OF ob])
qed

lemma observation_of_checkpoint:
  assumes "validate_outcome_inputs zones t sessions sources observed known = Inr ()"
    and "mapE observe (zip (target_checkpoints t) sources) = Inr os"
    and "k \<in> set (map checkpoint_id (target_checkpoints t))"
  shows "\<exists>c s x. c \<in> set (target_checkpoints t) \<and> checkpoint_id c = k
    \<and> source_at sources k = Some s \<and> (c, s) \<in> set (zip (target_checkpoints t) sources)
    \<and> row_at observation_checkpoint_id (rev os) k = Some x \<and> x \<in> set os \<and> observes x (c, s)"
proof -
  let ?cs = "target_checkpoints t"
  note a = inputs_aligned [OF assms(1)] and o' = observation_rows_run [OF assms(1,2)]
  obtain i where i: "i < length ?cs" "checkpoint_id (?cs ! i) = k" using assms(3) by (metis in_set_conv_nth length_map nth_map)
  have is': "i < length sources" "i < length os" using i a(1) o'(1) by simp_all
  have keys: "source_checkpoint_id (sources ! i) = k" "observation_checkpoint_id (os ! i) = k"
    using i is' a(2) o'(3) by (metis nth_map)+
  have d: "distinct (map source_checkpoint_id (rev sources))" "distinct (map observation_checkpoint_id (rev os))"
    using a(3) o'(3) by (simp_all add: rev_map [symmetric])
  have "source_at sources k = Some (sources ! i)" "row_at observation_checkpoint_id (rev os) k = Some (os ! i)"
    using source_rows.row_at_in_set [OF d(1), of "sources ! i"] observed_rows.row_at_in_set [OF d(2), of "os ! i"] is' keys
    by (simp_all add: source_at_def)
  moreover have "(?cs ! i, sources ! i) \<in> set (zip ?cs sources)" using i is' by (metis in_set_zip fst_conv snd_conv)
  ultimately show ?thesis using o'(2) [OF is'(1)] i is' by (metis nth_mem)
qed

section \<open>The observations of a metric\<close>

definition dependency_observations ::
  "outcome_target_definition \<Rightarrow> outcome_observation_draft list \<Rightarrow> outcome_metric_definition \<Rightarrow> outcome_observation_draft list" where
  "dependency_observations t os m =
     map (\<lambda>d. the (row_at observation_checkpoint_id (rev os) (dependency_checkpoint_id d))) (observing (dependencies_of t m))"

lemma observing_role: "d \<in> set (observing ds) \<Longrightarrow> d \<in> set ds \<and> dependency_role d \<noteq> Role_REFERENCE"
  by (auto simp: observing_def)

lemma dependency_observations_run:
  assumes "target_accepted zones t"
    and "validate_outcome_inputs zones t sessions sources observed known = Inr ()"
    and "mapE observe (zip (target_checkpoints t) sources) = Inr os"
  shows "observed_dependencies os (dependencies_of t m) = Inr (dependency_observations t os m)"
    and "d \<in> set (observing (dependencies_of t m)) \<Longrightarrow>
      \<exists>c s x. c \<in> set (target_checkpoints t) \<and> checkpoint_id c = dependency_checkpoint_id d
      \<and> source_at sources (dependency_checkpoint_id d) = Some s \<and> (c, s) \<in> set (zip (target_checkpoints t) sources)
      \<and> row_at observation_checkpoint_id (rev os) (dependency_checkpoint_id d) = Some x \<and> observes x (c, s)"
proof -
  have found: "\<exists>c s x. c \<in> set (target_checkpoints t) \<and> checkpoint_id c = dependency_checkpoint_id d
      \<and> source_at sources (dependency_checkpoint_id d) = Some s \<and> (c, s) \<in> set (zip (target_checkpoints t) sources)
      \<and> row_at observation_checkpoint_id (rev os) (dependency_checkpoint_id d) = Some x \<and> observes x (c, s)"
    if d: "d \<in> set (observing (dependencies_of t m))" for d
  proof -
    have "d \<in> set (target_dependencies t)" "dependency_role d \<noteq> Role_REFERENCE"
      using observing_role [OF d] by (simp_all add: dependencies_of_def)
    from observation_of_checkpoint [OF assms(2,3) target_dependency_bound [OF assms(1) this]] show ?thesis by blast
  qed
  then show "d \<in> set (observing (dependencies_of t m)) \<Longrightarrow>
      \<exists>c s x. c \<in> set (target_checkpoints t) \<and> checkpoint_id c = dependency_checkpoint_id d
      \<and> source_at sources (dependency_checkpoint_id d) = Some s \<and> (c, s) \<in> set (zip (target_checkpoints t) sources)
      \<and> row_at observation_checkpoint_id (rev os) (dependency_checkpoint_id d) = Some x \<and> observes x (c, s)" .
  show "observed_dependencies os (dependencies_of t m) = Inr (dependency_observations t os m)"
    unfolding observed_dependencies_def dependency_observations_def observing_def [symmetric]
    by (rule mapE_all_Inr) (use found in fastforce)
qed

text \<open>The status of a metric: a failure fails it, anything else incomplete makes it unavailable.\<close>

definition state_of :: "outcome_status list \<Rightarrow> outcome_status" where
  "state_of states =
     (if Outcome_FAILED \<in> set states then Outcome_FAILED
      else if list_all (\<lambda>s. s = Outcome_COMPLETE) states then Outcome_COMPLETE else Outcome_UNAVAILABLE)"

lemma calculate_metric_cases:
  assumes "observed_dependencies os (dependencies_of t m) = Inr xs"
    and "st = state_of (dependency_states r (dependencies_of t m) xs)"
  shows "calculate_metric t r os m =
    (if st = Outcome_COMPLETE
     then bindE (metric_values m (reference_value r) xs) (metric_draft m Outcome_COMPLETE Availability_AVAILABLE)
     else empty_metric m st)"
  using assms by (auto simp: calculate_metric_def Let_def state_of_def list_ex_iff list_all_iff)

lemma state_of_values: "state_of states \<in> {Outcome_FAILED, Outcome_COMPLETE, Outcome_UNAVAILABLE}"
  by (simp add: state_of_def)

section \<open>Drafts of metrics\<close>

definition drafted :: "outcome_metric_definition \<Rightarrow> outcome_status \<Rightarrow> decimal option \<times> bool option \<times> py_datetime option \<Rightarrow>
  outcome_metric_draft \<Rightarrow> bool" where
  "drafted d st vs m \<longleftrightarrow>
     metric_definition_id m = definition_id d \<and> metric_ordinal m = definition_ordinal d
     \<and> metric_draft_kind m = definition_kind d \<and> metric_completion m = definition_completion d
     \<and> metric_draft_status m = st \<and> (metric_decimal m, metric_boolean m, first_passage_at m) = vs"

text \<open>A draft the constructor returned. One with a value is one also when its status is PARTIAL.\<close>

definition metric_ok :: "outcome_metric_draft \<Rightarrow> bool" where
  "metric_ok m \<longleftrightarrow> (\<exists>m0. outcome_metric_draft_init m0 = Inr m)"

lemma metric_ok_elim:
  assumes "metric_ok m"
  shows "\<exists>m0 h. m = m0\<lparr>metric_draft_sha256 := h\<rparr> \<and> metric_draft_shape m0
    \<and> (\<forall>p. first_passage_at m0 = Some p \<longrightarrow> aware p \<and> metric_draft_kind m0 = BARRIER_HIT)
    \<and> (\<forall>m1. metric_draft_shape m1 \<longrightarrow> (\<exists>st. m1 = m0\<lparr>metric_draft_status := st, metric_draft_sha256 := h\<rparr>)
        \<longrightarrow> canonical (metric_draft_payload m1)
        \<longrightarrow> (\<exists>h'. outcome_metric_draft_init m1 = Inr (m1\<lparr>metric_draft_sha256 := h'\<rparr>)))"
proof -
  obtain m0 where m0: "outcome_metric_draft_init m0 = Inr m" using assms by (auto simp: metric_ok_def)
  note f = m0 [unfolded outcome_metric_draft_init_def Let_def thenE_Inr_iff bindE_Inr_iff guardE_Inr_iff]
  obtain h where m: "m = m0\<lparr>metric_draft_sha256 := h\<rparr>" using f by blast
  have passage: "\<forall>p. first_passage_at m0 = Some p \<longrightarrow> aware p \<and> metric_draft_kind m0 = BARRIER_HIT"
    using f by (auto simp: thenE_Inr_iff aware_def)
  have "\<exists>h'. outcome_metric_draft_init m1 = Inr (m1\<lparr>metric_draft_sha256 := h'\<rparr>)"
    if m1: "metric_draft_shape m1" "m1 = m0\<lparr>metric_draft_status := st, metric_draft_sha256 := h\<rparr>"
      "canonical (metric_draft_payload m1)" for m1 st
  proof -
    obtain h' where "canonical_json_sha256 (metric_draft_payload m1) = Inr h'" using canonical_json_sha256_total m1(3) by blast
    then show ?thesis
      using f m1(1) unfolding outcome_metric_draft_init_def Let_def thenE_Inr_iff bindE_Inr_iff guardE_Inr_iff m1(2)
      by (cases "first_passage_at m0") (auto intro!: exI [of _ h'])
  qed
  then show ?thesis using m f passage by blast
qed

lemma metric_ok_shape:
  assumes "metric_ok m"
  shows "canonical (metric_draft_payload m)" "metric_draft_shape m"
proof -
  obtain m0 h where m: "m = m0\<lparr>metric_draft_sha256 := h\<rparr>" and s: "metric_draft_shape m0"
    and p: "\<forall>p. first_passage_at m0 = Some p \<longrightarrow> aware p \<and> metric_draft_kind m0 = BARRIER_HIT"
    using metric_ok_elim [OF assms] by blast
  show "metric_draft_shape m" using s by (simp add: m metric_draft_shape_def)
  show "canonical (metric_draft_payload m)"
    using p by (auto simp: m metric_draft_payload_def Let_def optional_payload_def aware_def split: option.splits)
qed

lemma metric_partial:
  assumes "metric_ok m" "metric_draft_status m = Outcome_COMPLETE"
  shows "\<exists>h. outcome_metric_draft_init (m\<lparr>metric_draft_status := Outcome_PARTIAL\<rparr>)
    = Inr (m\<lparr>metric_draft_status := Outcome_PARTIAL, metric_draft_sha256 := h\<rparr>)"
proof -
  let ?m = "m\<lparr>metric_draft_status := Outcome_PARTIAL\<rparr>"
  have "canonical (metric_draft_payload ?m)" "metric_draft_shape ?m"
    using metric_ok_shape [OF assms(1)] assms(2)
    by (simp_all add: metric_draft_payload_def Let_def metric_draft_shape_def)
  moreover obtain m0 h where "m = m0\<lparr>metric_draft_sha256 := h\<rparr>"
    and again: "\<forall>m1. metric_draft_shape m1 \<longrightarrow> (\<exists>st. m1 = m0\<lparr>metric_draft_status := st, metric_draft_sha256 := h\<rparr>)
        \<longrightarrow> canonical (metric_draft_payload m1)
        \<longrightarrow> (\<exists>h'. outcome_metric_draft_init m1 = Inr (m1\<lparr>metric_draft_sha256 := h'\<rparr>))"
    using metric_ok_elim [OF assms(1)] by blast
  then have "\<exists>st. ?m = m0\<lparr>metric_draft_status := st, metric_draft_sha256 := h\<rparr>" by (intro exI [of _ Outcome_PARTIAL]) simp
  ultimately show ?thesis using again by blast
qed

lemma metric_draft_total:
  assumes "metric_definition_ok d"
    and "st = Outcome_COMPLETE \<Longrightarrow> av = Availability_AVAILABLE
      \<and> (if definition_kind d = BARRIER_HIT then fst vs = None \<and> fst (snd vs) \<noteq> None
          \<and> (case snd (snd vs) of None \<Rightarrow> True | Some p \<Rightarrow> aware p)
         else (\<exists>v. fst vs = Some v \<and> is_finite v) \<and> snd vs = (None, None))"
    and "st \<noteq> Outcome_COMPLETE \<Longrightarrow> unusable_availability st = Some av \<and> vs = (None, None, None)"
  shows "\<exists>m. metric_draft d st av vs = Inr m \<and> drafted d st vs m \<and> metric_ok m"
proof -
  obtain dec flag passage where vs: "vs = (dec, flag, passage)" by (cases vs)
  let ?m = "\<lparr>metric_definition_id = definition_id d, metric_ordinal = definition_ordinal d,
        metric_draft_code = definition_code d, metric_draft_kind = definition_kind d,
        metric_draft_type = definition_value_type d, metric_draft_unit = definition_unit d,
        metric_completion = definition_completion d, metric_draft_status = st,
        metric_availability = av, metric_finality = Finality_UNKNOWN,
        metric_decimal = dec, metric_boolean = flag, first_passage_at = passage,
        metric_algorithm = definition_algorithm d, metric_target_sha256 = definition_sha256 d,
        metric_draft_sha256 = []\<rparr>"
  have shape: "metric_draft_shape ?m"
    using assms unfolding vs
    by (cases st; cases "definition_kind d = BARRIER_HIT") (auto simp: metric_draft_shape_def metric_definition_ok_def Let_def)
  have passage: "case passage of None \<Rightarrow> True | Some p \<Rightarrow> (\<exists>i off. p = Aware i off) \<and> definition_kind d = BARRIER_HIT"
    using assms(2,3) unfolding vs
    by (cases "st = Outcome_COMPLETE"; cases "definition_kind d = BARRIER_HIT") (auto simp: aware_def split: option.splits)
  then have "canonical (metric_draft_payload ?m)"
    by (auto simp: metric_draft_payload_def Let_def optional_payload_def split: option.splits)
  then obtain h where "canonical_json_sha256 (metric_draft_payload ?m) = Inr h" using canonical_json_sha256_total by blast
  then have "outcome_metric_draft_init ?m = Inr (?m\<lparr>metric_draft_sha256 := h\<rparr>)"
    using assms(1) shape passage
    by (auto simp: outcome_metric_draft_init_def metric_definition_ok_def outcome_sha_def Let_def not_less split: option.splits)
  then have "metric_draft d st av vs = Inr (?m\<lparr>metric_draft_sha256 := h\<rparr>)" by (simp add: metric_draft_def vs)
  moreover have "metric_ok (?m\<lparr>metric_draft_sha256 := h\<rparr>)"
    unfolding metric_ok_def by (rule exI) fact
  ultimately show ?thesis by (auto simp: drafted_def vs)
qed

end
