(* ===== verification/Outcome_Results.thy ===== *)
theory Outcome_Results
  imports Outcome_Runs
begin

text \<open>
  The result of every metric of a run: when its dependencies are complete, the exact value of its
  kind over the observed prices; otherwise a draft without a value.
\<close>

section \<open>Values by kind\<close>

fun metric_value_is ::
  "outcome_metric_definition \<Rightarrow> rat \<Rightarrow> outcome_observation_draft list \<Rightarrow>
   decimal option \<times> bool option \<times> py_datetime option \<Rightarrow> bool" where
  "metric_value_is m r xs (dec, flag, passage) \<longleftrightarrow>
     (let number = (\<lambda>q. flag = None \<and> passage = None \<and> (\<exists>v. dec = Some v \<and> is_finite v \<and> dval v = q)) in
      case definition_kind m of
        OBSERVATION_VALUE \<Rightarrow> number (selected_price (xs ! 0))
      | OBSERVATION_RETURN \<Rightarrow> number (return_on (selected_price (xs ! 0)) (selected_price (xs ! 1)))
      | SIMPLE_RETURN \<Rightarrow> number (return_on r (selected_price (xs ! 0)))
      | MAX_FAVORABLE_EXCURSION \<Rightarrow> number (favorable_of r (high_price ` set xs))
      | MAX_ADVERSE_EXCURSION \<Rightarrow> number (adverse_of r (low_price ` set xs))
      | BARRIER_HIT \<Rightarrow>
          (let dir = the (barrier_direction m);
               hit = touches dir (boundary_of r dir (dval (the (barrier_threshold m)))) in
           dec = None \<and> flag = Some (\<exists>x \<in> set xs. hit x)
           \<and> (case passage of
                None \<Rightarrow> \<forall>x \<in> set xs. \<not> hit x
              | Some p \<Rightarrow> \<exists>x \<in> set xs. hit x \<and> p = observation_end x
                  \<and> (\<forall>y \<in> set xs. hit y \<longrightarrow> instant_of p \<le> observed_end y))))"

definition referenced_kind :: "outcome_metric_kind \<Rightarrow> bool" where
  "referenced_kind k \<longleftrightarrow> k \<notin> {OBSERVATION_VALUE, OBSERVATION_RETURN}"

text \<open>What a complete metric may rely on.\<close>

definition metric_inputs_ok :: "outcome_metric_definition \<Rightarrow> decimal option \<Rightarrow> outcome_observation_draft list \<Rightarrow> bool" where
  "metric_inputs_ok m r xs \<longleftrightarrow>
     metric_definition_ok m \<and> list_all priced xs
     \<and> (referenced_kind (definition_kind m) \<longrightarrow> (\<exists>v. r = Some v \<and> reference_ok v \<and> ratios_fit (dval v) xs))
     \<and> (case definition_kind m of
          OBSERVATION_VALUE \<Rightarrow> length xs = 1
        | SIMPLE_RETURN \<Rightarrow> length xs = 1
        | OBSERVATION_RETURN \<Rightarrow> length xs = 2 \<and> same_bar (xs ! 0) (xs ! 1)
            \<and> selected_price (xs ! 1) < 10 ^ 18 * selected_price (xs ! 0)
        | _ \<Rightarrow> xs \<noteq> [])"

lemma length_1_2: "length xs = 1 \<longleftrightarrow> xs = [xs ! 0]" "length xs = 2 \<longleftrightarrow> xs = [xs ! 0, xs ! 1]"
  by (cases xs; cases "tl xs"; auto simp: length_Suc_conv)+

lemma barrier_values:
  assumes "metric_inputs_ok m (Some r) xs" "definition_kind m = BARRIER_HIT"
  shows "\<exists>vs. metric_values m (Some r) xs = Inr vs \<and> metric_value_is m (dval r) xs vs"
proof -
  obtain dir v where d: "barrier_direction m = Some dir" "barrier_threshold m = Some v" "is_finite v"
    using assms by (auto simp: metric_inputs_ok_def metric_definition_ok_def Let_def)
  have r: "is_finite r" "list_all priced xs"
    using assms by (auto simp: metric_inputs_ok_def referenced_kind_def reference_ok_def)
  let ?hit = "touches dir (boundary_of (dval r) dir (dval v))"
  obtain hits where h: "barrier_hits m (Some r) xs = Inr hits" "set hits = {x \<in> set xs. ?hit x}"
    "sorted (map observed_end hits)"
    using barrier_hits_value [OF r(1) d r(2)] by blast
  have "metric_value_is m (dval r) xs (None, Some (hits \<noteq> []), case hits of [] \<Rightarrow> None | x # _ \<Rightarrow> Some (observation_end x))"
  proof (cases hits)
    case Nil
    then show ?thesis using h(2) assms(2) d by (auto simp: Let_def)
  next
    case (Cons x hs)
    have x: "x \<in> set xs" "?hit x" using h(2) Cons by auto
    have "\<forall>y \<in> set xs. ?hit y \<longrightarrow> instant_of (observation_end x) \<le> observed_end y"
    proof (intro ballI impI)
      fix y assume "y \<in> set xs" "?hit y"
      then have "y \<in> set (x # hs)" using h(2) Cons by auto
      then show "instant_of (observation_end x) \<le> observed_end y"
        using h(3) Cons by (auto simp: observed_end_def)
    qed
    then show ?thesis using x Cons assms(2) d by (auto simp: Let_def)
  qed
  then show ?thesis using h(1) assms(2) by (simp add: metric_values_def Let_def mapR_def)
qed

lemma metric_values_total:
  assumes "metric_inputs_ok m r xs"
  shows "\<exists>vs. metric_values m r xs = Inr vs \<and> metric_value_is m (dval (the r)) xs vs"
proof (cases "definition_kind m")
  case OBSERVATION_VALUE
  then obtain x where "xs = [x]" "priced x"
    using assms by (auto simp: metric_inputs_ok_def length_Suc_conv)
  then show ?thesis using OBSERVATION_VALUE
    by (auto simp: metric_values_def mapR_def observation_value_def priced_def selected_price_def Let_def)
next
  case OBSERVATION_RETURN
  then have xs: "xs = [xs ! 0, xs ! 1]" "same_bar (xs ! 0) (xs ! 1)" "selected_price (xs ! 1) < 10 ^ 18 * selected_price (xs ! 0)"
    and q: "list_all priced xs"
    using assms length_1_2(2) by (auto simp: metric_inputs_ok_def)
  have "priced (xs ! 0)" "priced (xs ! 1)" using q assms OBSERVATION_RETURN by (auto simp: list_all_length metric_inputs_ok_def)
  from observation_return_value [OF this xs(2,3)] obtain q where q: "observation_return [xs ! 0, xs ! 1] = Inr q"
    "is_finite q" "dval q = return_on (selected_price (xs ! 0)) (selected_price (xs ! 1))" by blast
  then have "observation_return xs = Inr q" using xs(1) by metis
  then show ?thesis using OBSERVATION_RETURN q(2,3) by (simp add: metric_values_def mapR_def Let_def)
next
  case SIMPLE_RETURN
  then obtain x v where x: "xs = [x]" "priced x" and v: "r = Some v" "reference_ok v" "ratios_fit (dval v) [x]"
    using assms by (auto simp: metric_inputs_ok_def length_Suc_conv referenced_kind_def)
  from simple_return_value [OF v(2) x(2) v(3)] show ?thesis
    using SIMPLE_RETURN x(1) v(1) by (auto simp: metric_values_def mapR_def Let_def)
next
  case MAX_FAVORABLE_EXCURSION
  then obtain v where v: "r = Some v" "reference_ok v" "ratios_fit (dval v) xs" and xs: "list_all priced xs" "xs \<noteq> []"
    using assms by (auto simp: metric_inputs_ok_def referenced_kind_def)
  from favorable_value [OF v(2) xs v(3)] show ?thesis
    using MAX_FAVORABLE_EXCURSION v(1) by (auto simp: metric_values_def mapR_def Let_def)
next
  case MAX_ADVERSE_EXCURSION
  then obtain v where v: "r = Some v" "reference_ok v" "ratios_fit (dval v) xs" and xs: "list_all priced xs" "xs \<noteq> []"
    using assms by (auto simp: metric_inputs_ok_def referenced_kind_def)
  from adverse_value [OF v(2) xs v(3)] show ?thesis
    using MAX_ADVERSE_EXCURSION v(1) by (auto simp: metric_values_def mapR_def Let_def)
next
  case BARRIER_HIT
  then obtain v where "r = Some v" using assms by (auto simp: metric_inputs_ok_def referenced_kind_def)
  then show ?thesis using barrier_values assms BARRIER_HIT by simp
qed

section \<open>Inputs that fit\<close>

fun body_prices :: "outcome_source_body \<Rightarrow> rat list" where
  "body_prices (Bar i n op hi lo cl) = map dval [op, hi, lo, cl]"
| "body_prices (Gap i k reason) = []"

definition run_prices :: "frozen_decision_reference \<Rightarrow> outcome_observation_source list \<Rightarrow> rat list" where
  "run_prices r sources =
     (case reference_value r of None \<Rightarrow> [] | Some v \<Rightarrow> [dval v]) @ concat (map (\<lambda>s. body_prices (source_body s)) sources)"

text \<open>No price of the run is \<open>10 ^ 18\<close> times another.\<close>

definition prices_fit :: "frozen_decision_reference \<Rightarrow> outcome_observation_source list \<Rightarrow> bool" where
  "prices_fit r sources \<longleftrightarrow> (\<forall>p \<in> set (run_prices r sources). \<forall>q \<in> set (run_prices r sources). p < 10 ^ 18 * q)"

definition same_bar_source :: "outcome_observation_source \<Rightarrow> outcome_observation_source \<Rightarrow> bool" where
  "same_bar_source s s' \<longleftrightarrow>
     fact_id (source_body s) = fact_id (source_body s')
     \<and> instant_of (source_start s) = instant_of (source_start s') \<and> instant_of (source_end s) = instant_of (source_end s')"

text \<open>The two checkpoints of an OBSERVATION_RETURN are served by the same bar.\<close>

definition return_bars_agree :: "outcome_target_definition \<Rightarrow> outcome_observation_source list \<Rightarrow> bool" where
  "return_bars_agree t sources \<longleftrightarrow>
     (\<forall>m \<in> set (target_metrics t). definition_kind m = OBSERVATION_RETURN \<longrightarrow>
        (\<forall>d \<in> set (dependencies_of t m). \<forall>d' \<in> set (dependencies_of t m). \<forall>s s'.
           source_at sources (dependency_checkpoint_id d) = Some s \<and> source_at sources (dependency_checkpoint_id d') = Some s'
           \<longrightarrow> same_bar_source s s'))"

lemma priced_fit:
  assumes "observes x (c, s)" "source_body s = Bar i n op hi lo cl" "s \<in> set sources"
  shows "selected_price x \<in> set (run_prices r sources)" "high_price x \<in> set (run_prices r sources)"
proof -
  have "set (body_prices (source_body s)) \<subseteq> set (run_prices r sources)"
    using assms(3) by (auto simp: run_prices_def)
  moreover have "selected_price x \<in> set (body_prices (source_body s))" "high_price x \<in> set (body_prices (source_body s))"
    using observes_prices [OF assms(1,2)] bar_field_member [of "checkpoint_field c" op hi lo cl] assms(2)
    by (auto simp: selected_price_def high_price_def)
  ultimately show "selected_price x \<in> set (run_prices r sources)" "high_price x \<in> set (run_prices r sources)" by blast+
qed

lemma observes_priced:
  assumes "observes x (c, s)" "outcome_source_init s = Inr s" "observation_status x = Outcome_COMPLETE"
  shows "priced x" "\<exists>i n op hi lo cl. source_body s = Bar i n op hi lo cl"
proof -
  obtain h where x: "x = (observation_of (c, s))\<lparr>observation_sha256 := h\<rparr>" using assms(1) by (auto simp: observes_def)
  have "observation_status (observation_of (c, s)) = Outcome_COMPLETE" using assms(3) x by simp
  then show "priced x" using observation_priced [OF assms(2)] x by blast
  show "\<exists>i n op hi lo cl. source_body s = Bar i n op hi lo cl"
    using observes_fields(6) [OF assms(1)] assms(3) by (cases "source_body s") (auto simp: gap_status_def split: if_splits)
qed

section \<open>The metrics of a run\<close>

lemma ready_parts:
  assumes "outcome_ready zones t r sessions sources observed known"
  shows "target_accepted zones t" "frozen_decision_reference_init r = Inr r"
    "\<forall>s \<in> set sessions. outcome_session_source_init zones s = Inr s"
    "\<forall>s \<in> set sources. outcome_source_init s = Inr s" "aware observed" "aware known"
    "validate_outcome_inputs zones t sessions sources observed known = Inr ()"
  using assms by (simp_all add: outcome_ready_def)

lemma reference_present:
  assumes "frozen_decision_reference_init r = Inr r" "reference_outcome (reference_status r) = Outcome_COMPLETE"
  shows "\<exists>v. reference_value r = Some v \<and> reference_ok v"
proof -
  have "reference_status r = Reference_PRESENT" using assms(2) by (cases "reference_status r") simp_all
  then show ?thesis
    using assms(1)
    by (auto simp: frozen_decision_reference_init_def thenE_Inr_iff reference_ok_def simp del: thenE_guardE split: option.splits)
qed

lemma state_of_complete:
  "state_of (dependency_states r ds xs) = Outcome_COMPLETE \<longleftrightarrow>
     list_all (\<lambda>x. observation_status x = Outcome_COMPLETE) xs
     \<and> (referring ds \<longrightarrow> reference_outcome (reference_status r) = Outcome_COMPLETE)"
  by (auto simp: state_of_def dependency_states_def referring_def list_all_iff split: if_splits)

text \<open>Every observation a metric depends on is that of a checkpoint of the Target.\<close>

lemma dependency_observation:
  assumes "outcome_ready zones t r sessions sources observed known"
    and "mapE observe (zip (target_checkpoints t) sources) = Inr os"
    and "x \<in> set (dependency_observations t os m)"
  shows "\<exists>d c s. d \<in> set (observing (dependencies_of t m)) \<and> checkpoint_id c = dependency_checkpoint_id d
    \<and> source_at sources (dependency_checkpoint_id d) = Some s \<and> (c, s) \<in> set (zip (target_checkpoints t) sources)
    \<and> s \<in> set sources \<and> outcome_source_init s = Inr s \<and> observes x (c, s)"
proof -
  note p = ready_parts [OF assms(1)]
  obtain d where d: "d \<in> set (observing (dependencies_of t m))"
    "x = the (row_at observation_checkpoint_id (rev os) (dependency_checkpoint_id d))"
    using assms(3) by (auto simp: dependency_observations_def)
  from dependency_observations_run(2) [OF p(1,7) assms(2) d(1)] d(2) show ?thesis
    using d(1) p(4) by (metis option.sel set_zip_rightD)
qed

lemma complete_inputs:
  assumes ready: "outcome_ready zones t r sessions sources observed known"
    and fit: "prices_fit r sources" and bars: "return_bars_agree t sources"
    and os: "mapE observe (zip (target_checkpoints t) sources) = Inr os"
    and m: "m \<in> set (target_metrics t)"
    and complete: "state_of (dependency_states r (dependencies_of t m) (dependency_observations t os m)) = Outcome_COMPLETE"
  shows "metric_inputs_ok m (reference_value r) (dependency_observations t os m)"
proof -
  let ?ds = "dependencies_of t m" and ?xs = "dependency_observations t os m" and ?ps = "set (run_prices r sources)"
  note p = ready_parts [OF ready]
  have ok: "metric_definition_ok m" using p(1) m by (auto simp: target_accepted_def intro: metric_definition_accepted)
  note shape = dependency_shape [OF target_metric_checked [OF p(1) m]]
  have len: "length ?xs = length (observing ?ds)" by (simp add: dependency_observations_def)
  have x: "priced x \<and> selected_price x \<in> ?ps \<and> high_price x \<in> ?ps" if "x \<in> set ?xs" for x
  proof -
    have "observation_status x = Outcome_COMPLETE" using complete that by (simp add: state_of_complete list_all_iff)
    then show ?thesis
      using dependency_observation [OF ready os that] observes_priced priced_fit by meson
  qed
  then have q: "list_all priced ?xs" by (simp add: list_all_iff)
  have ref: "\<exists>v. reference_value r = Some v \<and> reference_ok v \<and> ratios_fit (dval v) ?xs"
    if "referenced_kind (definition_kind m)"
  proof -
    have "referring ?ds" using shape(1) that by (simp add: referenced_kind_def)
    then obtain v where v: "reference_value r = Some v" "reference_ok v"
      using complete reference_present [OF p(2)] by (auto simp: state_of_complete)
    then have "dval v \<in> ?ps" by (simp add: run_prices_def)
    then have "ratios_fit (dval v) ?xs" using x fit by (auto simp: ratios_fit_def prices_fit_def)
    with v show ?thesis by blast
  qed
  have two: "same_bar (?xs ! 0) (?xs ! 1) \<and> selected_price (?xs ! 1) < 10 ^ 18 * selected_price (?xs ! 0)"
    if "definition_kind m = OBSERVATION_RETURN"
  proof -
    have "length ?xs = 2" using shape(2) that len by simp
    then have in': "?xs ! 0 \<in> set ?xs" "?xs ! 1 \<in> set ?xs" by simp_all
    obtain d c s where 1: "d \<in> set ?ds" "source_at sources (dependency_checkpoint_id d) = Some s" "observes (?xs ! 0) (c, s)"
      using dependency_observation [OF ready os in'(1)] observing_role by blast
    obtain d' c' s' where 2: "d' \<in> set ?ds" "source_at sources (dependency_checkpoint_id d') = Some s'" "observes (?xs ! 1) (c', s')"
      using dependency_observation [OF ready os in'(2)] observing_role by blast
    have "same_bar_source s s'" using bars m that 1 2 unfolding return_bars_agree_def by blast
    then show ?thesis
      using x [OF in'(1)] x [OF in'(2)] fit observes_fields [OF 1(3)] observes_fields [OF 2(3)]
      by (simp add: same_bar_def same_bar_source_def prices_fit_def)
  qed
  have nonempty: "?xs \<noteq> []" if "observing ?ds \<noteq> []" using that by (simp add: dependency_observations_def)
  show ?thesis
    unfolding metric_inputs_ok_def using ok q ref two shape(2) len nonempty
    by (cases "definition_kind m") simp_all
qed

text \<open>The draft of every metric: a status from its dependencies, and the value of its kind when complete.\<close>

definition metric_outcome ::
  "outcome_target_definition \<Rightarrow> frozen_decision_reference \<Rightarrow> outcome_observation_draft list \<Rightarrow>
   outcome_metric_definition \<Rightarrow> outcome_metric_draft \<Rightarrow> bool" where
  "metric_outcome t r os m d \<longleftrightarrow>
     (let xs = dependency_observations t os m; st = state_of (dependency_states r (dependencies_of t m) xs) in
      \<exists>vs. drafted m st vs d \<and> metric_ok d
        \<and> (if st = Outcome_COMPLETE then metric_inputs_ok m (reference_value r) xs
             \<and> metric_value_is m (dval (the (reference_value r))) xs vs else vs = (None, None, None)))"

lemma metric_value_shape:
  assumes "metric_value_is m r xs vs" "\<forall>x \<in> set xs. aware (observation_end x)"
  shows "if definition_kind m = BARRIER_HIT then fst vs = None \<and> fst (snd vs) \<noteq> None
      \<and> (case snd (snd vs) of None \<Rightarrow> True | Some p \<Rightarrow> aware p)
    else (\<exists>v. fst vs = Some v \<and> is_finite v) \<and> snd vs = (None, None)"
  using assms by (cases vs; cases "definition_kind m") (auto simp: Let_def split: option.splits)

lemma calculate_metric_run:
  assumes ready: "outcome_ready zones t r sessions sources observed known"
    and fit: "prices_fit r sources" and bars: "return_bars_agree t sources"
    and os: "mapE observe (zip (target_checkpoints t) sources) = Inr os"
    and m: "m \<in> set (target_metrics t)"
  shows "\<exists>d. calculate_metric t r os m = Inr d \<and> metric_outcome t r os m d"
proof -
  let ?xs = "dependency_observations t os m"
  let ?st = "state_of (dependency_states r (dependencies_of t m) ?xs)"
  note p = ready_parts [OF ready]
  have ok: "metric_definition_ok m" using p(1) m by (auto simp: target_accepted_def intro: metric_definition_accepted)
  note calc = calculate_metric_cases [OF dependency_observations_run(1) [OF p(1,7) os, of m] refl, of r]
  show ?thesis
  proof (cases "?st = Outcome_COMPLETE")
    case True
    note inputs = complete_inputs [OF ready fit bars os m True]
    obtain vs where vs: "metric_values m (reference_value r) ?xs = Inr vs"
      "metric_value_is m (dval (the (reference_value r))) ?xs vs" using metric_values_total [OF inputs] by blast
    have "\<forall>x \<in> set ?xs. aware (observation_end x)"
      using dependency_observation [OF ready os] observes_fields(3) outcome_source_accepted(2) by metis
    from metric_value_shape [OF vs(2) this]
    obtain d where "metric_draft m Outcome_COMPLETE Availability_AVAILABLE vs = Inr d" "drafted m Outcome_COMPLETE vs d" "metric_ok d"
      using metric_draft_total [OF ok, of Outcome_COMPLETE Availability_AVAILABLE vs] by auto
    moreover have "metric_outcome t r os m d"
      unfolding metric_outcome_def Let_def using True inputs vs(2) calculation(2,3) by (intro exI [of _ vs]) simp
    ultimately show ?thesis using True calc vs(1) by simp
  next
    case False
    then have "unusable_availability ?st = Some (empty_availability ?st)"
      using state_of_values [of "dependency_states r (dependencies_of t m) ?xs"] by (auto simp: empty_availability_def)
    then obtain d where "empty_metric m ?st = Inr d" "drafted m ?st (None, None, None) d" "metric_ok d"
      using metric_draft_total [OF ok, of ?st "empty_availability ?st" "(None, None, None)"] False
      by (auto simp: empty_metric_def)
    moreover have "metric_outcome t r os m d"
      unfolding metric_outcome_def Let_def using False calculation(2,3) by (intro exI [of _ "(None, None, None)"]) simp
    ultimately show ?thesis using False calc by simp
  qed
qed

end
