(* ===== verification/Outcome_Closure.thy ===== *)
theory Outcome_Closure
  imports Outcome_Results
begin

text \<open>
  The rest of a run: barriers crossed in both directions within one bar, the reasons, the roll-up,
  and the revision the kernel returns for every accepted input.
\<close>

section \<open>Barrier ambiguity\<close>

definition barrier_passes :: "outcome_target_definition \<Rightarrow> outcome_barrier_direction \<Rightarrow> outcome_metric_draft \<Rightarrow> bool" where
  "barrier_passes t dir m \<longleftrightarrow>
     metric_draft_kind m = BARRIER_HIT
     \<and> map_option barrier_direction (definition_at t (metric_definition_id m)) = Some (Some dir)
     \<and> first_passage_at m \<noteq> None"

definition passage_of :: "outcome_metric_draft \<Rightarrow> instant" where
  "passage_of m = instant_of (the (first_passage_at m))"

definition passage_times :: "outcome_target_definition \<Rightarrow> outcome_barrier_direction \<Rightarrow> outcome_metric_draft list \<Rightarrow> instant set" where
  "passage_times t dir ms = passage_of ` {m \<in> set ms. barrier_passes t dir m}"

text \<open>An up and a down barrier first passed at the same instant, and the metrics passed then.\<close>

definition passed_together :: "outcome_target_definition \<Rightarrow> outcome_metric_draft list \<Rightarrow> bool" where
  "passed_together t ms \<longleftrightarrow>
     passage_times t Barrier_UP ms \<noteq> {} \<and> passage_times t Barrier_DOWN ms \<noteq> {}
     \<and> Min (passage_times t Barrier_UP ms) = Min (passage_times t Barrier_DOWN ms)"

definition ambiguous :: "outcome_target_definition \<Rightarrow> outcome_metric_draft list \<Rightarrow> outcome_metric_draft \<Rightarrow> bool" where
  "ambiguous t ms m \<longleftrightarrow>
     passed_together t ms \<and> (barrier_passes t Barrier_UP m \<or> barrier_passes t Barrier_DOWN m)
     \<and> passage_of m = Min (passage_times t Barrier_UP ms)"

lemma passages_run:
  assumes "\<forall>m \<in> set ms. metric_draft_kind m = BARRIER_HIT \<longrightarrow> definition_at t (metric_definition_id m) \<noteq> None"
  shows "passages_of t dir ms = Inr (filter (barrier_passes t dir) ms)"
proof -
  have "foldE (\<lambda>m acc.
       if metric_draft_kind m = BARRIER_HIT then
         bindE (optE (definition_at t (metric_definition_id m)) KeyError) (\<lambda>d.
         Inr (if barrier_direction d = Some dir \<and> first_passage_at m \<noteq> None then acc @ [m] else acc))
       else Inr acc) ms acc = Inr (acc @ filter (barrier_passes t dir) ms)" for acc
    using assms
  proof (induction ms arbitrary: acc)
    case (Cons m ms)
    show ?case
    proof (cases "metric_draft_kind m = BARRIER_HIT")
      case True
      then obtain d where "definition_at t (metric_definition_id m) = Some d" using Cons.prems by auto
      then show ?thesis using True Cons by (simp add: barrier_passes_def)
    next
      case False
      then show ?thesis using Cons by (simp add: barrier_passes_def)
    qed
  qed simp
  then show ?thesis by (simp add: passages_of_def)
qed

lemma passage_instants_run:
  assumes "\<forall>m \<in> set ms. first_passage_at m \<noteq> None"
  shows "set (passage_instants ms) = passage_of ` set ms"
proof -
  have "filter (\<lambda>m. first_passage_at m \<noteq> None) ms = ms" using assms by (simp add: filter_id_conv)
  then show ?thesis by (simp add: passage_instants_def passage_of_def List.map_filter_def image_image del: not_None_eq)
qed

text \<open>A metric before and after the check: an ambiguous one becomes PARTIAL, with a new hash.\<close>

definition settled_as :: "outcome_target_definition \<Rightarrow> outcome_metric_draft list \<Rightarrow> outcome_metric_draft \<Rightarrow> outcome_metric_draft \<Rightarrow> bool" where
  "settled_as t ms m m' \<longleftrightarrow>
     (if ambiguous t ms m then \<exists>h. m' = m\<lparr>metric_draft_status := Outcome_PARTIAL, metric_draft_sha256 := h\<rparr> else m' = m)"

lemma ambiguity_run:
  assumes "\<forall>m \<in> set ms. metric_draft_kind m = BARRIER_HIT \<longrightarrow> definition_at t (metric_definition_id m) \<noteq> None"
    and ids: "distinct (map metric_definition_id ms)"
    and ok: "\<forall>m \<in> set ms. metric_ok m \<and> (first_passage_at m \<noteq> None \<longrightarrow> metric_draft_status m = Outcome_COMPLETE)"
  shows "\<exists>ms' amb. apply_barrier_ambiguity t ms = Inr (ms', amb)
    \<and> list_all2 (settled_as t ms) ms ms'
    \<and> distinct amb \<and> set amb = metric_definition_id ` {m \<in> set ms. ambiguous t ms m} \<and> list_all metric_ok ms'"
proof -
  let ?up = "filter (barrier_passes t Barrier_UP) ms" and ?down = "filter (barrier_passes t Barrier_DOWN) ms"
  have passed: "\<forall>m \<in> set ?up. first_passage_at m \<noteq> None" "\<forall>m \<in> set ?down. first_passage_at m \<noteq> None"
    by (auto simp: barrier_passes_def)
  have times: "set (passage_instants ?up) = passage_times t Barrier_UP ms"
    "set (passage_instants ?down) = passage_times t Barrier_DOWN ms"
    using passage_instants_run [OF passed(1)] passage_instants_run [OF passed(2)] by (simp_all add: passage_times_def)
  have empty: "?up = [] \<longleftrightarrow> passage_times t Barrier_UP ms = {}" "?down = [] \<longleftrightarrow> passage_times t Barrier_DOWN ms = {}"
    by (auto simp: passage_times_def filter_empty_conv)
  show ?thesis
  proof (cases "passed_together t ms")
    case False
    then have "apply_barrier_ambiguity t ms = Inr (ms, [])"
      unfolding apply_barrier_ambiguity_def passages_run [OF assms(1)]
      by (auto simp: Let_def times empty passed_together_def)
    moreover have "\<not> ambiguous t ms m" for m using False by (simp add: ambiguous_def)
    ultimately show ?thesis using ok by (auto simp: list_all2_same list_all_iff settled_as_def)
  next
    case True
    let ?T = "Min (passage_times t Barrier_UP ms)"
    let ?aff = "remdups (map metric_definition_id
      (filter (\<lambda>m. map_option instant_of (first_passage_at m) = Some ?T) (?up @ ?down)))"
    have member: "metric_definition_id m \<in> set ?aff \<longleftrightarrow> ambiguous t ms m" if "m \<in> set ms" for m
    proof -
      have "m' = m" if "m' \<in> set ms" "metric_definition_id m' = metric_definition_id m" for m'
        using that \<open>m \<in> set ms\<close> ids by (auto simp: distinct_map dest: inj_onD)
      then show ?thesis using that True by (auto simp: ambiguous_def passage_of_def barrier_passes_def)
    qed
    have aff: "set ?aff = metric_definition_id ` {m \<in> set ms. ambiguous t ms m}"
      using True by (auto simp: ambiguous_def passage_of_def barrier_passes_def)
    let ?g = "\<lambda>m. if metric_definition_id m \<in> set ?aff
      then m\<lparr>metric_draft_status := Outcome_PARTIAL, metric_draft_sha256 := SOME h.
        outcome_metric_draft_init (m\<lparr>metric_draft_status := Outcome_PARTIAL\<rparr>)
        = Inr (m\<lparr>metric_draft_status := Outcome_PARTIAL, metric_draft_sha256 := h\<rparr>)\<rparr> else m"
    have step: "(if metric_definition_id m \<in> set ?aff then outcome_metric_draft_init (m\<lparr>metric_draft_status := Outcome_PARTIAL\<rparr>)
        else Inr m) = Inr (?g m)" if "m \<in> set ms" for m
    proof (cases "metric_definition_id m \<in> set ?aff")
      case True
      then have "ambiguous t ms m" using member that by blast
      then have "metric_draft_status m = Outcome_COMPLETE" "metric_ok m" using ok that by (auto simp: ambiguous_def barrier_passes_def)
      from someI_ex [OF metric_partial [OF this(2,1)]] show ?thesis unfolding if_P [OF True] .
    qed simp
    have "apply_barrier_ambiguity t ms = Inr (map ?g ms, sort_key uuid_str ?aff)"
      unfolding apply_barrier_ambiguity_def passages_run [OF assms(1)]
      using True mapE_all_Inr [of ms _ ?g, OF step] by (simp add: Let_def times empty passed_together_def)
    moreover have "list_all2 (settled_as t ms) ms (map ?g ms)"
      using member by (auto simp: list_all2_conv_all_nth settled_as_def)
    moreover have "list_all metric_ok (map ?g ms)"
    proof -
      have "metric_ok (?g m)" if "m \<in> set ms" for m
        using step [OF that] ok that unfolding metric_ok_def by (metis (no_types, lifting))
      then show ?thesis by (auto simp only: list_all_iff set_map)
    qed
    moreover have "distinct (sort_key uuid_str ?aff)"
      "set (sort_key uuid_str ?aff) = metric_definition_id ` {m \<in> set ms. ambiguous t ms m}"
      unfolding set_sort distinct_sort aff by (rule distinct_remdups, rule refl)
    ultimately show ?thesis by blast
  qed
qed

section \<open>Reasons\<close>

definition reason_row :: "int \<times> reason_value \<Rightarrow> outcome_reason_draft" where
  "reason_row nv =
     (case nv of (n, dm, code, c, m) \<Rightarrow>
        \<lparr>reason_draft_ordinal = n, reason_dimension = dm, reason_draft_code = code,
         reason_checkpoint_id = c, reason_metric_id = m\<rparr>)"

definition value_of_reason :: "outcome_reason_draft \<Rightarrow> reason_value" where
  "value_of_reason r =
     (reason_dimension r, reason_draft_code r, reason_checkpoint_id r, reason_metric_id r)"

lemma value_of_reason_row [simp]: "value_of_reason (reason_row (n, v)) = v" "reason_draft_ordinal (reason_row (n, v)) = n"
  by (simp_all add: value_of_reason_def reason_row_def split: prod.splits)

lemma outcome_reason_codes:
  "code_ok (''OBSERVATION_'' @ outcome_status_value st)" "code_ok (''METRIC_'' @ outcome_status_value st)"
  "code_ok ''INTRABAR_ORDERING_NOT_OBSERVABLE''"
proof -
  have codes: "code_ok ''OBSERVATION_PARTIAL''" "code_ok ''OBSERVATION_COMPLETE''" "code_ok ''OBSERVATION_UNAVAILABLE''"
    "code_ok ''OBSERVATION_FAILED''" "code_ok ''METRIC_PARTIAL''" "code_ok ''METRIC_COMPLETE''"
    "code_ok ''METRIC_UNAVAILABLE''" "code_ok ''METRIC_FAILED''" by code_simp+
  show "code_ok (''OBSERVATION_'' @ outcome_status_value st)" "code_ok (''METRIC_'' @ outcome_status_value st)"
    using codes by (cases st; simp)+
  show "code_ok ''INTRABAR_ORDERING_NOT_OBSERVABLE''" by code_simp
qed

definition sorted_reasons :: "outcome_observation_draft list \<Rightarrow> outcome_metric_draft list \<Rightarrow> uuid list \<Rightarrow> reason_value list" where
  "sorted_reasons os ms amb = sort_key reason_key (remdups (reason_values os ms amb))"

lemma reasons_run: "outcome_reasons os ms amb = Inr (map reason_row (numbered (sorted_reasons os ms amb)))"
  unfolding outcome_reasons_def sorted_reasons_def
proof (rule mapE_all_Inr)
  fix x assume x: "x \<in> set (numbered (sort_key reason_key (remdups (reason_values os ms amb))))"
  obtain n v where nv: "x = (n, v)" by (cases x)
  obtain dm code c m where v: "v = (dm, code, c, m)" by (cases v)
  let ?vs = "sort_key reason_key (remdups (reason_values os ms amb))"
  obtain i where "i < length ?vs" "(int (Suc i), ?vs ! i) = (n, v)"
    using x nv by (metis in_set_conv_nth length_numbered nth_numbered)
  then have "1 \<le> n" and "v \<in> set ?vs" using nth_mem [of i ?vs] by (simp, metis prod.inject)
  then have ok: "code_ok code" "reason_shape dm c m"
    unfolding v by (auto simp: reason_values_def outcome_reason_codes simp del: append.simps)
  then show "(case x of (n, dm, code, c, m) \<Rightarrow> outcome_reason_draft_init
      \<lparr>reason_draft_ordinal = n, reason_dimension = dm, reason_draft_code = code,
       reason_checkpoint_id = c, reason_metric_id = m\<rparr>) = Inr (reason_row x)"
    using ok \<open>1 \<le> n\<close> by (simp add: nv v reason_row_def outcome_reason_draft_init_def)
qed

section \<open>The revision\<close>

lemma references_run:
  "reference_rows t r = Inr (map (\<lambda>d. \<lparr>reference_dependency_id = dependency_id d, reference_dependency_metric = dependency_metric_id d,
      reference_dependency_checkpoint = dependency_checkpoint_id d, reference_dependency_role = dependency_role d,
      reference_dependency_reference = decision_reference_id r\<rparr>)
    (filter (\<lambda>d. dependency_role d = Role_REFERENCE) (target_dependencies t)))"
  unfolding reference_rows_def by (rule mapE_all_Inr) (simp add: outcome_reference_dependency_init_def)

lemma observed_run:
  "observation_rows t = Inr (map (\<lambda>d. \<lparr>observation_dependency_id = dependency_id d, observation_dependency_metric = dependency_metric_id d,
      observation_dependency_checkpoint = dependency_checkpoint_id d, observation_dependency_role = dependency_role d\<rparr>)
    (observing (target_dependencies t)))"
  unfolding observation_rows_def observing_def by (rule mapE_all_Inr) (simp add: outcome_observation_dependency_init_def)

lemma roll_up_shape: "snd (outcome_roll_up ms) \<in> revision_availabilities (fst (outcome_roll_up ms))"
  by (simp add: outcome_roll_up_def Let_def)

lemma canonical_dataclasses:
  "canonical (reference_dependency_dataclass rd)" "canonical (observation_dependency_dataclass od)"
  "canonical (reason_dataclass q)"
  by (simp_all add: reference_dependency_dataclass_def observation_dependency_dataclass_def reason_dataclass_def)

lemma canonical_with_sha: "canonical v \<Longrightarrow> canonical (with_sha v h)"
  by (cases "(v, h)" rule: with_sha.cases) simp_all

lemma canonical_sources:
  "outcome_session_source_init zones s = Inr s \<Longrightarrow> canonical (session_dataclass s)"
  "outcome_source_init o' = Inr o' \<Longrightarrow> canonical (source_dataclass o')"
proof -
  assume "outcome_session_source_init zones s = Inr s"
  then show "canonical (session_dataclass s)"
    unfolding outcome_session_source_init_def thenE_Inr_iff by (auto simp: session_dataclass_def)
next
  assume "outcome_source_init o' = Inr o'"
  from outcome_source_accepted(1-4) [OF this] show "canonical (source_dataclass o')"
    by (auto simp: source_dataclass_def source_scope_fields_def aware_def split: outcome_source_body.splits)
qed

text \<open>A revision whose checks pass is built: only its hashes are added.\<close>

definition unhashed :: "outcome_revision_draft \<Rightarrow> outcome_revision_draft" where
  "unhashed d = d\<lparr>revision_source_roster_sha256 := [], observation_roster_sha256 := [],
     revision_metric_roster_sha256 := [], reference_dependency_roster_sha256 := [],
     observation_dependency_roster_sha256 := [], revision_reason_roster_sha256 := [], revision_summary_sha256 := []\<rparr>"

lemma revision_built:
  assumes "revision_checks d = Inr ()"
    and "\<forall>s \<in> set (revision_sessions d). outcome_session_source_init zones s = Inr s"
    and "\<forall>s \<in> set (revision_sources d). outcome_source_init s = Inr s"
    and "\<forall>o' \<in> set (revision_observations d). canonical (observation_payload o')"
    and "\<forall>m \<in> set (revision_metrics d). canonical (metric_draft_payload m)"
    and "aware (observation_cutoff d)" "aware (knowledge_cutoff d)"
  shows "\<exists>d'. outcome_revision_draft_init d = Inr d' \<and> unhashed d' = unhashed d"
proof -
  have "canonical (revision_source_roster d)"
    using assms(2,3) canonical_sources by (auto simp: revision_source_roster_def)
  then obtain hs where 1: "canonical_json_sha256 (revision_source_roster d) = Inr hs" using canonical_json_sha256_total by blast
  obtain ho where 2: "canonical_json_sha256
      (PSequence (map (\<lambda>o'. with_sha (observation_payload o') (observation_sha256 o')) (revision_observations d))) = Inr ho"
    using canonical_json_sha256_total assms(4) canonical_with_sha by fastforce
  obtain hm where 3: "canonical_json_sha256
      (PSequence (map (\<lambda>m. with_sha (metric_draft_payload m) (metric_draft_sha256 m)) (revision_metrics d))) = Inr hm"
    using canonical_json_sha256_total assms(5) canonical_with_sha by fastforce
  obtain hr where 4: "canonical_json_sha256 (PSequence (map reference_dependency_dataclass (reference_dependencies d))) = Inr hr"
    using canonical_json_sha256_total canonical_dataclasses(1) by fastforce
  obtain hd' where 5: "canonical_json_sha256 (PSequence (map observation_dependency_dataclass (observation_dependencies d))) = Inr hd'"
    using canonical_json_sha256_total canonical_dataclasses(2) by fastforce
  obtain hq where 6: "canonical_json_sha256 (PSequence (map reason_dataclass (revision_reasons d))) = Inr hq"
    using canonical_json_sha256_total canonical_dataclasses(3) by fastforce
  let ?d = "d\<lparr>revision_source_roster_sha256 := hs, observation_roster_sha256 := ho,
      revision_metric_roster_sha256 := hm, reference_dependency_roster_sha256 := hr,
      observation_dependency_roster_sha256 := hd', revision_reason_roster_sha256 := hq\<rparr>"
  have "canonical (revision_summary_payload ?d)"
    using assms(6,7) by (auto simp: revision_summary_payload_def aware_def)
  then obtain h where 7: "canonical_json_sha256 (revision_summary_payload ?d) = Inr h" using canonical_json_sha256_total by blast
  have "outcome_revision_draft_init d = Inr (?d\<lparr>revision_summary_sha256 := h\<rparr>)"
    unfolding outcome_revision_draft_init_def assms(1) 1 2 3 4 5 6 bindE_simps thenE_simps Let_def 7 ..
  then show ?thesis by (simp add: unhashed_def)
qed

end
