(* ===== verification/Outcome_Revision.thy ===== *)
theory Outcome_Revision
  imports Outcome_Closure
begin

text \<open>
  The whole calculation: from accepted inputs whose prices fit, the kernel returns a revision, and
  this is what it contains.
\<close>

section \<open>What a revision contains\<close>

definition outcome_run ::
  "outcome_target_definition \<Rightarrow> frozen_decision_reference \<Rightarrow> outcome_session_source list \<Rightarrow>
   outcome_observation_source list \<Rightarrow> outcome_revision_draft \<Rightarrow> bool" where
  "outcome_run t r sessions sources d \<longleftrightarrow>
     mapE observe (zip (target_checkpoints t) sources) = Inr (revision_observations d)
     \<and> (\<exists>ms amb. list_all2 (metric_outcome t r (revision_observations d)) (target_metrics t) ms
        \<and> list_all2 (settled_as t ms) ms (revision_metrics d)
        \<and> distinct amb \<and> set amb = metric_definition_id ` {m \<in> set ms. ambiguous t ms m}
        \<and> revision_reasons d
          = map reason_row (numbered (sorted_reasons (revision_observations d) (revision_metrics d) amb)))
     \<and> (revision_status d, revision_availability d) = outcome_roll_up (revision_metrics d)
     \<and> revision_sessions d = sessions \<and> revision_sources d = sources"

lemma settled_as_fields:
  assumes "settled_as t ms m m'"
  shows "metric_definition_id m' = metric_definition_id m" "metric_ordinal m' = metric_ordinal m"
    "metric_draft_kind m' = metric_draft_kind m" "metric_completion m' = metric_completion m"
    "metric_decimal m' = metric_decimal m" "metric_boolean m' = metric_boolean m" "first_passage_at m' = first_passage_at m"
    "metric_draft_status m' = (if ambiguous t ms m then Outcome_PARTIAL else metric_draft_status m)"
  using assms by (auto simp: settled_as_def split: if_splits)

lemma result_fields:
  assumes "metric_outcome t r os m d"
  shows "metric_definition_id d = definition_id m" "metric_ordinal d = definition_ordinal m"
    "metric_draft_kind d = definition_kind m" "metric_completion d = definition_completion m"
    "metric_draft_status d = state_of (dependency_states r (dependencies_of t m) (dependency_observations t os m))"
    "metric_ok d" "metric_draft_status d \<noteq> Outcome_PARTIAL"
    "first_passage_at d \<noteq> None \<Longrightarrow> metric_draft_status d = Outcome_COMPLETE"
proof -
  let ?st = "state_of (dependency_states r (dependencies_of t m) (dependency_observations t os m))"
  obtain vs where f: "drafted m ?st vs d" "metric_ok d" "?st \<noteq> Outcome_COMPLETE \<longrightarrow> vs = (None, None, None)"
    using assms unfolding metric_outcome_def Let_def by metis
  then show "metric_definition_id d = definition_id m" "metric_ordinal d = definition_ordinal m"
    "metric_draft_kind d = definition_kind m" "metric_completion d = definition_completion m"
    "metric_draft_status d = ?st" "metric_ok d" by (simp_all add: drafted_def)
  show "metric_draft_status d \<noteq> Outcome_PARTIAL"
    using f(1) state_of_values [of "dependency_states r (dependencies_of t m) (dependency_observations t os m)"]
    by (auto simp: drafted_def)
  show "metric_draft_status d = Outcome_COMPLETE" if "first_passage_at d \<noteq> None"
    using f(1,3) that by (auto simp: drafted_def)
qed

lemma list_all2_map_eq: "list_all2 P xs ys \<Longrightarrow> (\<And>x y. P x y \<Longrightarrow> g y = f x) \<Longrightarrow> map g ys = map f xs"
  by (induction rule: list_all2_induct) simp_all

lemma list_all2_right: "list_all2 P xs ys \<Longrightarrow> y \<in> set ys \<Longrightarrow> \<exists>x \<in> set xs. P x y"
  by (metis in_set_conv_nth list_all2_conv_all_nth)

lemma list_all2_left: "list_all2 P xs ys \<Longrightarrow> x \<in> set xs \<Longrightarrow> \<exists>y \<in> set ys. P x y"
  by (metis in_set_conv_nth list_all2_conv_all_nth)

lemma definition_at_member:
  assumes "distinct (map definition_id (target_metrics t))" "m \<in> set (target_metrics t)"
  shows "definition_at t (definition_id m) = Some m"
  unfolding definition_at_def using assms by (intro definition_rows.row_at_in_set) (simp_all add: rev_map [symmetric])

lemma mapE_related:
  assumes "\<And>x. x \<in> set xs \<Longrightarrow> \<exists>y. f x = Inr y \<and> P x y"
  shows "\<exists>ys. mapE f xs = Inr ys \<and> list_all2 P xs ys"
  using assms
proof (induction xs)
  case (Cons x xs)
  then obtain y ys where "f x = Inr y" "P x y" "mapE f xs = Inr ys" "list_all2 P xs ys" by (metis list.set_intros)
  then show ?case by (intro exI [of _ "y # ys"]) simp
qed simp

section \<open>The kernel returns\<close>

lemma observation_canonical:
  assumes "observes x (c, s)" "outcome_source_init s = Inr s"
  shows "canonical (observation_payload x)"
  using observes_fields(2-4) [OF assms(1)] outcome_source_accepted(1,2,4) [OF assms(2)]
  by (auto simp: observation_payload_def aware_def)

lemma metrics_run:
  assumes "outcome_ready zones t r sessions sources observed known" "prices_fit r sources" "return_bars_agree t sources"
    and "mapE observe (zip (target_checkpoints t) sources) = Inr os"
  shows "\<exists>ms ms' amb. mapE (calculate_metric t r os) (target_metrics t) = Inr ms
    \<and> list_all2 (metric_outcome t r os) (target_metrics t) ms
    \<and> apply_barrier_ambiguity t ms = Inr (ms', amb) \<and> list_all2 (settled_as t ms) ms ms'
    \<and> distinct amb \<and> set amb = metric_definition_id ` {m \<in> set ms. ambiguous t ms m}
    \<and> list_all metric_ok ms'"
proof -
  have "\<exists>ms. mapE (calculate_metric t r os) (target_metrics t) = Inr ms \<and> list_all2 (metric_outcome t r os) (target_metrics t) ms"
    by (rule mapE_related) (rule calculate_metric_run [OF assms])
  then obtain ms where ms: "mapE (calculate_metric t r os) (target_metrics t) = Inr ms"
    "list_all2 (metric_outcome t r os) (target_metrics t) ms" by blast
  have ids: "map metric_definition_id ms = map definition_id (target_metrics t)"
    using ms(2) by (rule list_all2_map_eq) (rule result_fields(1))
  note d = target_shape(5) [OF ready_parts(1) [OF assms(1)]]
  have defs: "\<forall>m \<in> set ms. metric_draft_kind m = BARRIER_HIT \<longrightarrow> definition_at t (metric_definition_id m) \<noteq> None"
  proof (intro ballI impI)
    fix m assume "m \<in> set ms"
    then obtain m0 where "m0 \<in> set (target_metrics t)" "metric_outcome t r os m0 m" using list_all2_right [OF ms(2)] by blast
    then show "definition_at t (metric_definition_id m) \<noteq> None"
      using result_fields(1) definition_at_member [OF d] by simp
  qed
  have dist: "distinct (map metric_definition_id ms)" using ids d by simp
  have ok: "\<forall>m \<in> set ms. metric_ok m \<and> (first_passage_at m \<noteq> None \<longrightarrow> metric_draft_status m = Outcome_COMPLETE)"
  proof
    fix m assume "m \<in> set ms"
    then obtain m0 where "metric_outcome t r os m0 m" using list_all2_right [OF ms(2)] by blast
    then show "metric_ok m \<and> (first_passage_at m \<noteq> None \<longrightarrow> metric_draft_status m = Outcome_COMPLETE)"
      using result_fields(6,8) by blast
  qed
  show ?thesis
    using ambiguity_run [OF defs dist ok] by (elim exE, intro exI conjI) (rule ms, rule ms, blast+)
qed

lemma revision_checked:
  assumes "revision_sources d \<noteq> []" "revision_sessions d \<noteq> []" "length (revision_observations d) = length (revision_sources d)"
    and "revision_metrics d \<noteq> []" "contiguous (map metric_ordinal (revision_metrics d))"
    and "reference_dependencies d \<noteq> [] \<or> observation_dependencies d \<noteq> []"
    and "contiguous (map reason_draft_ordinal (revision_reasons d))"
    and "content_hash_ok (revision_target_sha256 d)" "content_hash_ok (revision_reference_sha256 d)"
    and "aware (observation_cutoff d)" "aware (knowledge_cutoff d)" "revision_finality d = Finality_UNKNOWN"
    and "revision_availability d \<in> revision_availabilities (revision_status d)"
  shows "revision_checks d = Inr ()"
  unfolding revision_checks_def thenE_Inr_iff guardE_Inr_iff
  using assms by (auto simp: aware_def)

lemma outcome_total:
  assumes "outcome_ready zones t r sessions sources observed known" "prices_fit r sources" "return_bars_agree t sources"
  shows "\<exists>d. calculate_market_target_outcome zones t r sessions sources observed known = Inr d
    \<and> outcome_run t r sessions sources d"
proof -
  note p = ready_parts [OF assms(1)]
  note aligned = inputs_aligned [OF p(7)] and shape = target_shape [OF p(1)]
  obtain os where os: "mapE observe (zip (target_checkpoints t) sources) = Inr os" using observations_run [OF p(4)] by blast
  note rows = observation_rows_run [OF p(7) os]
  from metrics_run [OF assms os] obtain ms ms' amb where
    calc: "mapE (calculate_metric t r os) (target_metrics t) = Inr ms" and
    res: "list_all2 (metric_outcome t r os) (target_metrics t) ms" and
    amb: "apply_barrier_ambiguity t ms = Inr (ms', amb)" and
    set': "list_all2 (settled_as t ms) ms ms'" and
    ambs: "distinct amb" "set amb = metric_definition_id ` {m \<in> set ms. ambiguous t ms m}" and
    ok: "list_all metric_ok ms'" by blast
  obtain refs where refs: "reference_rows t r = Inr refs" "refs = [] \<longleftrightarrow> filter (\<lambda>d. dependency_role d = Role_REFERENCE) (target_dependencies t) = []"
    using references_run by simp
  obtain obs where obs: "observation_rows t = Inr obs" "obs = [] \<longleftrightarrow> observing (target_dependencies t) = []"
    using observed_run by simp
  let ?d = "\<lparr>revision_target_id = target_id t, revision_target_sha256 = target_sha256 t,
         revision_reference_id = decision_reference_id r, revision_reference_sha256 = reference_sha256 r,
         observation_cutoff = observed, knowledge_cutoff = known,
         revision_status = fst (outcome_roll_up ms'), revision_availability = snd (outcome_roll_up ms'),
         revision_finality = Finality_UNKNOWN, revision_sessions = sessions, revision_sources = sources,
         revision_observations = os, revision_metrics = ms', reference_dependencies = refs,
         observation_dependencies = obs, revision_reasons = map reason_row (numbered (sorted_reasons os ms' amb)),
         revision_source_roster_sha256 = [], observation_roster_sha256 = [], revision_metric_roster_sha256 = [],
         reference_dependency_roster_sha256 = [], observation_dependency_roster_sha256 = [],
         revision_reason_roster_sha256 = [], revision_summary_sha256 = []\<rparr>"
  have dims: "length ms' = length ms" "length ms = length (target_metrics t)" "length os = length sources"
    "length sources = length (target_checkpoints t)"
    using set' res rows(1) aligned(1) by (simp_all add: list_all2_lengthD)
  have ords: "map metric_ordinal ms' = map definition_ordinal (target_metrics t)"
    using list_all2_map_eq [OF set' settled_as_fields(2)] list_all2_map_eq [OF res result_fields(2)] by simp
  have deps: "refs \<noteq> [] \<or> obs \<noteq> []"
  proof -
    obtain d where "d \<in> set (target_dependencies t)" using shape(3) by (cases "target_dependencies t") auto
    then show ?thesis
      unfolding refs(2) obs(2) observing_def filter_empty_conv by (cases "dependency_role d") auto
  qed
  have reasons: "contiguous (map reason_draft_ordinal (map reason_row (numbered vs)))" for vs
  proof -
    have "map reason_draft_ordinal (map reason_row (numbered vs)) = map fst (numbered vs)" by (auto simp: split_paired_all)
    then show ?thesis by (simp only: map_fst_numbered)
  qed
  have sessions: "sessions \<noteq> []" using aligned(4) shape(1) by auto
  have "revision_checks ?d = Inr ()"
    by (rule revision_checked)
      (use dims shape ords deps sessions p(2,5,6) reasons roll_up_shape in
        \<open>auto simp: frozen_decision_reference_init_def thenE_Inr_iff simp del: thenE_guardE\<close>)
  moreover have "\<forall>x \<in> set os. canonical (observation_payload x)"
  proof
    fix x assume "x \<in> set os"
    then obtain i where i: "i < length sources" "os ! i = x" using dims(3) by (metis in_set_conv_nth)
    show "canonical (observation_payload x)"
      using observation_canonical [OF rows(2) [OF i(1)]] p(4) i by simp
  qed
  moreover have "\<forall>m \<in> set ms'. canonical (metric_draft_payload m)"
    using ok metric_ok_shape(1) by (simp add: list_all_iff)
  ultimately obtain d where d: "outcome_revision_draft_init ?d = Inr d" "unhashed d = unhashed ?d"
    using revision_built [of ?d zones] p(3-6) by auto
  have "calculate_market_target_outcome zones t r sessions sources observed known = Inr d"
    unfolding calculate_market_target_outcome_def
    using p(5-7) dims(4) os calc amb refs(1) obs(1) reasons_run d(1) by (auto simp: aware_def thenE_def)
  moreover have "outcome_run t r sessions sources d"
  proof -
    have "outcome_run t r sessions sources (unhashed d)"
      unfolding d(2) outcome_run_def using os res set' ambs by (auto simp: unhashed_def)
    then show ?thesis by (simp add: outcome_run_def unhashed_def)
  qed
  ultimately show ?thesis by blast
qed

end
