(* ===== verification/Outcome_Facts.thy ===== *)
theory Outcome_Facts
  imports Outcome_Revision
begin

text \<open>
  A revision in terms of its sources: the prices a metric depends on, its status, its value, the
  barriers first passed, the reasons. These are the facts the properties of the kernel rest on.
\<close>

section \<open>The prices a metric depends on\<close>

definition metric_checkpoints :: "outcome_target_definition \<Rightarrow> uuid \<Rightarrow> uuid list" where
  "metric_checkpoints t i =
     map dependency_checkpoint_id (observing (filter (\<lambda>d. dependency_metric_id d = i) (target_dependencies t)))"

fun body_price :: "outcome_value_field \<Rightarrow> outcome_source_body \<Rightarrow> rat option" where
  "body_price f (Bar i n op hi lo cl) = Some (dval (bar_field f op hi lo cl))"
| "body_price f (Gap i k reason) = None"

text \<open>The price at a checkpoint, and the highest and lowest of its bar.\<close>

definition price_at :: "outcome_target_definition \<Rightarrow> outcome_observation_source list \<Rightarrow> uuid \<Rightarrow> rat option" where
  "price_at t sources k =
     Option.bind (checkpoint_at t k) (\<lambda>c. Option.bind (source_at sources k) (\<lambda>s. body_price (checkpoint_field c) (source_body s)))"

definition high_at :: "outcome_observation_source list \<Rightarrow> uuid \<Rightarrow> rat option" where
  "high_at sources k = Option.bind (source_at sources k) (\<lambda>s. body_price Field_HIGH (source_body s))"

definition low_at :: "outcome_observation_source list \<Rightarrow> uuid \<Rightarrow> rat option" where
  "low_at sources k = Option.bind (source_at sources k) (\<lambda>s. body_price Field_LOW (source_body s))"

definition observation_at ::
  "outcome_target_definition \<Rightarrow> outcome_observation_source list \<Rightarrow> uuid \<Rightarrow> outcome_observation_draft \<Rightarrow> bool" where
  "observation_at t sources k x \<longleftrightarrow>
     (\<exists>c s. checkpoint_at t k = Some c \<and> source_at sources k = Some s \<and> outcome_source_init s = Inr s
        \<and> s \<in> set sources \<and> observes x (c, s))"

interpretation checkpoint_rows: keyed_table checkpoint_id .

lemma dependency_roster:
  assumes "outcome_ready zones t r sessions sources observed known"
    and "mapE observe (zip (target_checkpoints t) sources) = Inr os"
  shows "list_all2 (observation_at t sources) (metric_checkpoints t (definition_id m)) (dependency_observations t os m)"
proof -
  note p = ready_parts [OF assms(1)]
  have "observation_at t sources (dependency_checkpoint_id d)
      (the (row_at observation_checkpoint_id (rev os) (dependency_checkpoint_id d)))"
    if d: "d \<in> set (observing (dependencies_of t m))" for d
  proof -
    obtain c s x where "c \<in> set (target_checkpoints t)" "checkpoint_id c = dependency_checkpoint_id d"
      "source_at sources (dependency_checkpoint_id d) = Some s" "(c, s) \<in> set (zip (target_checkpoints t) sources)"
      "row_at observation_checkpoint_id (rev os) (dependency_checkpoint_id d) = Some x" "observes x (c, s)"
      using dependency_observations_run(2) [OF p(1,7) assms(2) d] by blast
    moreover from this have "checkpoint_at t (dependency_checkpoint_id d) = Some c" "s \<in> set sources"
      unfolding checkpoint_at_def using checkpoint_rows.row_at_in_set [OF target_shape(4) [OF p(1)]]
      by (metis, blast dest: set_zip_rightD)
    ultimately show ?thesis using p(4) by (auto simp: observation_at_def)
  qed
  then show ?thesis
    by (auto simp: metric_checkpoints_def dependency_observations_def dependencies_of_def list_all2_conv_all_nth)
qed

lemma observation_at_prices:
  assumes "observation_at t sources k x" "observation_status x = Outcome_COMPLETE"
  shows "price_at t sources k = Some (selected_price x)" "high_at sources k = Some (high_price x)"
    "low_at sources k = Some (low_price x)" "priced x"
proof -
  obtain c s where cs: "checkpoint_at t k = Some c" "source_at sources k = Some s" "outcome_source_init s = Inr s"
    "observes x (c, s)" using assms(1) by (auto simp: observation_at_def)
  obtain i n op hi lo cl where "source_body s = Bar i n op hi lo cl" using observes_priced(2) [OF cs(4,3) assms(2)] by blast
  then show "price_at t sources k = Some (selected_price x)" "high_at sources k = Some (high_price x)"
    "low_at sources k = Some (low_price x)"
    using cs observes_prices [OF cs(4)]
    by (simp_all add: price_at_def high_at_def low_at_def selected_price_def high_price_def low_price_def)
  show "priced x" by (rule observes_priced(1) [OF cs(4,3) assms(2)])
qed

lemma roster_prices:
  assumes "list_all2 (observation_at t sources) ks xs" "list_all priced xs"
  shows "map (price_at t sources) ks = map (\<lambda>x. Some (selected_price x)) xs"
    "map (high_at sources) ks = map (\<lambda>x. Some (high_price x)) xs"
    "map (low_at sources) ks = map (\<lambda>x. Some (low_price x)) xs"
  using assms
  by (induction rule: list_all2_induct) (auto simp: observation_at_prices priced_def)

section \<open>The metrics of a revision\<close>

text \<open>A metric of a revision: the definition it settles, its draft before the barrier check, its values.\<close>

lemma run_metric:
  assumes "outcome_run t r sessions sources d" "y \<in> set (revision_metrics d)"
  shows "\<exists>m ms y0. m \<in> set (target_metrics t) \<and> metric_outcome t r (revision_observations d) m y0
    \<and> settled_as t ms y0 y \<and> y0 \<in> set ms \<and> list_all2 (settled_as t ms) ms (revision_metrics d)"
proof -
  obtain ms where ms: "list_all2 (metric_outcome t r (revision_observations d)) (target_metrics t) ms"
    "list_all2 (settled_as t ms) ms (revision_metrics d)" using assms(1) by (auto simp: outcome_run_def)
  obtain y0 where "y0 \<in> set ms" "settled_as t ms y0 y" using list_all2_right [OF ms(2) assms(2)] by blast
  moreover obtain m where "m \<in> set (target_metrics t)" "metric_outcome t r (revision_observations d) m y0"
    using list_all2_right [OF ms(1) \<open>y0 \<in> set ms\<close>] by blast
  ultimately show ?thesis using ms(2) by blast
qed

definition metric_settles ::
  "outcome_target_definition \<Rightarrow> frozen_decision_reference \<Rightarrow> outcome_observation_draft list \<Rightarrow>
   outcome_metric_definition \<Rightarrow> outcome_metric_draft \<Rightarrow> bool" where
  "metric_settles t r os m y \<longleftrightarrow>
     metric_definition_id y = definition_id m \<and> metric_draft_kind y = definition_kind m
     \<and> (let xs = dependency_observations t os m in
        if state_of (dependency_states r (dependencies_of t m) xs) = Outcome_COMPLETE
        then metric_draft_status y \<in> {Outcome_COMPLETE, Outcome_PARTIAL} \<and> metric_inputs_ok m (reference_value r) xs
          \<and> metric_value_is m (dval (the (reference_value r))) xs (metric_decimal y, metric_boolean y, first_passage_at y)
        else metric_draft_status y = state_of (dependency_states r (dependencies_of t m) xs)
          \<and> metric_decimal y = None \<and> metric_boolean y = None \<and> first_passage_at y = None)"

lemma run_metric_settles:
  assumes "outcome_run t r sessions sources d" "y \<in> set (revision_metrics d)"
  shows "\<exists>m \<in> set (target_metrics t). metric_settles t r (revision_observations d) m y"
proof -
  obtain m ms y0 where m: "m \<in> set (target_metrics t)" "metric_outcome t r (revision_observations d) m y0" "settled_as t ms y0 y"
    using run_metric [OF assms] by blast
  let ?xs = "dependency_observations t (revision_observations d) m"
  let ?st = "state_of (dependency_states r (dependencies_of t m) ?xs)"
  obtain vs where vs: "drafted m ?st vs y0"
    "if ?st = Outcome_COMPLETE then metric_inputs_ok m (reference_value r) ?xs
       \<and> metric_value_is m (dval (the (reference_value r))) ?xs vs else vs = (None, None, None)"
    using m(2) unfolding metric_outcome_def Let_def by blast
  note f = settled_as_fields [OF m(3)]
  have vals: "(metric_decimal y, metric_boolean y, first_passage_at y) = vs" using vs(1) f by (simp add: drafted_def)
  have status: "metric_draft_status y = (if ambiguous t ms y0 then Outcome_PARTIAL else ?st)"
    using vs(1) f by (simp add: drafted_def)
  have "\<not> ambiguous t ms y0" if "?st \<noteq> Outcome_COMPLETE"
    using vs that by (auto simp: ambiguous_def barrier_passes_def drafted_def)
  then have "metric_settles t r (revision_observations d) m y"
    unfolding metric_settles_def Let_def using vals status vs f(1,3) by (auto simp: drafted_def)
  then show ?thesis using m(1) by blast
qed

section \<open>Ratios\<close>

definition within_quantum :: "decimal \<Rightarrow> rat \<Rightarrow> bool" where
  "within_quantum v q \<longleftrightarrow> is_finite v \<and> on_grid 18 (dval v) \<and> \<bar>dval v - q\<bar> < 1 / 10 ^ 18"

lemma on_grids: "on_grid 18 (return_on r v)" "on_grid 18 (favorable_of r vs)" "on_grid 18 (adverse_of r vs)"
  by (simp_all add: return_on_def favorable_of_def adverse_of_def grid_on_grid)

text \<open>A metric with a value has the observations it needs, each with its prices.\<close>

lemma settled_complete:
  assumes "metric_settles t r os m y" "metric_decimal y \<noteq> None \<or> metric_boolean y \<noteq> None"
  shows "metric_inputs_ok m (reference_value r) (dependency_observations t os m)"
    "metric_value_is m (dval (the (reference_value r))) (dependency_observations t os m)
      (metric_decimal y, metric_boolean y, first_passage_at y)"
    "list_all priced (dependency_observations t os m)"
proof -
  show ok: "metric_inputs_ok m (reference_value r) (dependency_observations t os m)"
    using assms by (auto simp: metric_settles_def Let_def split: if_splits)
  show "metric_value_is m (dval (the (reference_value r))) (dependency_observations t os m)
      (metric_decimal y, metric_boolean y, first_passage_at y)"
    using assms unfolding metric_settles_def Let_def by presburger
  show "list_all priced (dependency_observations t os m)" using ok by (simp add: metric_inputs_ok_def)
qed

lemma priced_bounds:
  assumes "list_all priced xs" "ratios_fit r xs" "x \<in> set xs"
  shows "0 \<le> selected_price x" "selected_price x < 10 ^ 18 * r" "0 \<le> high_price x" "high_price x < 10 ^ 18 * r"
    "0 \<le> low_price x" "low_price x < 10 ^ 18 * r"
proof -
  have "priced x" "high_price x < 10 ^ 18 * r" using assms by (simp_all add: list_all_iff ratios_fit_def)
  then show "0 \<le> selected_price x" "selected_price x < 10 ^ 18 * r" "0 \<le> high_price x" "high_price x < 10 ^ 18 * r"
    "0 \<le> low_price x" "low_price x < 10 ^ 18 * r"
    using priced_prices [of x] by linarith+
qed

lemma extreme_fit:
  assumes "list_all priced xs" "ratios_fit r xs" "xs \<noteq> []"
  shows "0 \<le> Max (high_price ` set xs)" "Max (high_price ` set xs) < 10 ^ 18 * r"
    "0 \<le> Min (low_price ` set xs)" "Min (low_price ` set xs) < 10 ^ 18 * r"
proof -
  have "Max (high_price ` set xs) \<in> high_price ` set xs" "Min (low_price ` set xs) \<in> low_price ` set xs"
    using assms(3) by (auto intro!: Max_in Min_in)
  then show "0 \<le> Max (high_price ` set xs)" "Max (high_price ` set xs) < 10 ^ 18 * r"
    "0 \<le> Min (low_price ` set xs)" "Min (low_price ` set xs) < 10 ^ 18 * r"
    using priced_bounds [OF assms(1,2)] by auto
qed

text \<open>What the value of each kind is close to.\<close>

definition ratio_rule ::
  "outcome_target_definition \<Rightarrow> frozen_decision_reference \<Rightarrow> outcome_observation_source list \<Rightarrow>
   outcome_metric_draft \<Rightarrow> decimal \<Rightarrow> bool" where
  "ratio_rule t r sources y v \<longleftrightarrow>
     (let ks = metric_checkpoints t (metric_definition_id y) in
      case metric_draft_kind y of
        OBSERVATION_VALUE \<Rightarrow> \<exists>p. map (price_at t sources) ks = [Some p] \<and> is_finite v \<and> dval v = p
      | OBSERVATION_RETURN \<Rightarrow> \<exists>p q. map (price_at t sources) ks = [Some p, Some q] \<and> within_quantum v (q / p - 1)
      | SIMPLE_RETURN \<Rightarrow> \<exists>r0 p. reference_value r = Some r0 \<and> map (price_at t sources) ks = [Some p]
          \<and> within_quantum v (p / dval r0 - 1)
      | MAX_FAVORABLE_EXCURSION \<Rightarrow> \<exists>r0 hs. reference_value r = Some r0 \<and> hs \<noteq> []
          \<and> map (high_at sources) ks = map Some hs \<and> within_quantum v (max 0 (Max (set hs) / dval r0 - 1))
      | MAX_ADVERSE_EXCURSION \<Rightarrow> \<exists>r0 ls. reference_value r = Some r0 \<and> ls \<noteq> []
          \<and> map (low_at sources) ks = map Some ls \<and> within_quantum v (min 0 (Min (set ls) / dval r0 - 1))
      | BARRIER_HIT \<Rightarrow> False)"

lemma settled_ratio:
  assumes ready: "outcome_ready zones t r sessions sources observed known"
    and os: "mapE observe (zip (target_checkpoints t) sources) = Inr os"
    and y: "metric_settles t r os m y" "metric_decimal y = Some v"
  shows "ratio_rule t r sources y v"
proof -
  let ?xs = "dependency_observations t os m"
  have y': "metric_decimal y \<noteq> None \<or> metric_boolean y \<noteq> None" using y(2) by simp
  note c = settled_complete [OF y(1) y']
  have id: "metric_definition_id y = definition_id m" "metric_draft_kind y = definition_kind m"
    using y(1) by (simp_all add: metric_settles_def)
  note prices = roster_prices [OF dependency_roster [OF ready os, of m] c(3)]
  have ref: "\<exists>r0. reference_value r = Some r0 \<and> reference_ok r0 \<and> ratios_fit (dval r0) ?xs" if "referenced_kind (definition_kind m)"
    using c(1) that by (simp add: metric_inputs_ok_def)
  show ?thesis
  proof (cases "definition_kind m")
    case OBSERVATION_VALUE
    then obtain x where "?xs = [x]" using c(1) by (auto simp: metric_inputs_ok_def length_Suc_conv)
    then show ?thesis using OBSERVATION_VALUE c(2) prices(1) y(2) by (simp add: ratio_rule_def id Let_def)
  next
    case OBSERVATION_RETURN
    then have two: "?xs = [?xs ! 0, ?xs ! 1]" "selected_price (?xs ! 1) < 10 ^ 18 * selected_price (?xs ! 0)"
      using c(1) length_1_2(2) by (auto simp: metric_inputs_ok_def)
    obtain a b where ab: "?xs = [a, b]" using two(1) by blast
    then have "priced a" "priced b" using c(3) by simp_all
    then have "\<bar>return_on (selected_price a) (selected_price b) - (selected_price b / selected_price a - 1)\<bar> < 1 / 10 ^ 18"
      using two(2) priced_prices [of a] priced_prices [of b] ab by (intro return_close) auto
    then show ?thesis
      using OBSERVATION_RETURN c(2) prices(1) y(2) ab on_grids
      by (auto simp: ratio_rule_def id Let_def within_quantum_def)
  next
    case SIMPLE_RETURN
    then obtain r0 where r0: "reference_value r = Some r0" "reference_ok r0" "ratios_fit (dval r0) ?xs"
      using ref by (auto simp: referenced_kind_def)
    obtain x where x: "?xs = [x]" using SIMPLE_RETURN c(1) by (auto simp: metric_inputs_ok_def length_Suc_conv)
    have "\<bar>return_on (dval r0) (selected_price x) - (selected_price x / dval r0 - 1)\<bar> < 1 / 10 ^ 18"
      using priced_bounds [OF c(3) r0(3), of x] x r0(2) by (intro return_close) (auto simp: reference_ok_def)
    then show ?thesis
      using SIMPLE_RETURN c(2) prices(1) y(2) x r0(1) on_grids
      by (auto simp: ratio_rule_def id Let_def within_quantum_def)
  next
    case MAX_FAVORABLE_EXCURSION
    then obtain r0 where r0: "reference_value r = Some r0" "reference_ok r0" "ratios_fit (dval r0) ?xs"
      using ref by (auto simp: referenced_kind_def)
    have xs: "?xs \<noteq> []" using MAX_FAVORABLE_EXCURSION c(1) by (simp add: metric_inputs_ok_def)
    have "\<bar>favorable_of (dval r0) (high_price ` set ?xs) - max 0 (Max (high_price ` set ?xs) / dval r0 - 1)\<bar> < 1 / 10 ^ 18"
      using extreme_fit [OF c(3) r0(3) xs] r0(2) by (intro favorable_close) (auto simp: reference_ok_def)
    then have "within_quantum v (max 0 (Max (set (map high_price ?xs)) / dval r0 - 1))"
      using MAX_FAVORABLE_EXCURSION c(2) y(2) r0(1) on_grids(2) by (auto simp: Let_def within_quantum_def)
    moreover have "map (high_at sources) (metric_checkpoints t (definition_id m)) = map Some (map high_price ?xs)"
      using prices(2) by simp
    ultimately show ?thesis
      unfolding ratio_rule_def id Let_def using MAX_FAVORABLE_EXCURSION r0(1) xs
      by (simp only: outcome_metric_kind.case) (metis map_is_Nil_conv)
  next
    case MAX_ADVERSE_EXCURSION
    then obtain r0 where r0: "reference_value r = Some r0" "reference_ok r0" "ratios_fit (dval r0) ?xs"
      using ref by (auto simp: referenced_kind_def)
    have xs: "?xs \<noteq> []" using MAX_ADVERSE_EXCURSION c(1) by (simp add: metric_inputs_ok_def)
    have "\<bar>adverse_of (dval r0) (low_price ` set ?xs) - min 0 (Min (low_price ` set ?xs) / dval r0 - 1)\<bar> < 1 / 10 ^ 18"
      using extreme_fit [OF c(3) r0(3) xs] r0(2) by (intro adverse_close) (auto simp: reference_ok_def)
    then have "within_quantum v (min 0 (Min (set (map low_price ?xs)) / dval r0 - 1))"
      using MAX_ADVERSE_EXCURSION c(2) y(2) r0(1) on_grids(3) by (auto simp: Let_def within_quantum_def)
    moreover have "map (low_at sources) (metric_checkpoints t (definition_id m)) = map Some (map low_price ?xs)"
      using prices(3) by simp
    ultimately show ?thesis
      unfolding ratio_rule_def id Let_def using MAX_ADVERSE_EXCURSION r0(1) xs
      by (simp only: outcome_metric_kind.case) (metis map_is_Nil_conv)
  next
    case BARRIER_HIT
    then show ?thesis using c(2) y(2) by (auto simp: Let_def)
  qed
qed

end
