(* ===== verification/Outcome_Passages.thy ===== *)
theory Outcome_Passages
  imports Outcome_Facts
begin

text \<open>
  More facts of a revision: excursions against returns, first passages of barriers, the metrics
  that become PARTIAL, the status each metric takes from its sources, and what holds of every
  revision the kernel returns.
\<close>

section \<open>Excursions and returns\<close>

lemma dependency_observations_checkpoints:
  "dependency_observations t os m
    = map (\<lambda>k. the (row_at observation_checkpoint_id (rev os) k)) (metric_checkpoints t (definition_id m))"
  by (simp add: dependency_observations_def metric_checkpoints_def dependencies_of_def)

lemma dependency_observations_mono:
  assumes "set (metric_checkpoints t (definition_id m)) \<subseteq> set (metric_checkpoints t (definition_id m'))"
  shows "set (dependency_observations t os m) \<subseteq> set (dependency_observations t os m')"
  unfolding dependency_observations_checkpoints set_map by (rule image_mono [OF assms])

lemma settled_bracket:
  assumes ret: "metric_settles t r os m y" "definition_kind m = SIMPLE_RETURN" "metric_decimal y = Some v"
    and fav: "metric_settles t r os mf f" "definition_kind mf = MAX_FAVORABLE_EXCURSION" "metric_decimal f = Some u"
    and adv: "metric_settles t r os ma a" "definition_kind ma = MAX_ADVERSE_EXCURSION" "metric_decimal a = Some w"
    and sub: "set (metric_checkpoints t (definition_id m)) \<subseteq> set (metric_checkpoints t (definition_id mf))"
      "set (metric_checkpoints t (definition_id m)) \<subseteq> set (metric_checkpoints t (definition_id ma))"
  shows "dval w \<le> 0 \<and> 0 \<le> dval u \<and> dval w \<le> dval v \<and> dval v \<le> dval u"
proof -
  let ?xs = "dependency_observations t os m"
  let ?hs = "high_price ` set (dependency_observations t os mf)" and ?ls = "low_price ` set (dependency_observations t os ma)"
  note y = settled_complete [OF ret(1)] and f = settled_complete [OF fav(1)] and a = settled_complete [OF adv(1)]
  obtain r0 where r0: "reference_value r = Some r0" "0 < dval r0"
    using y(1) ret by (auto simp: metric_inputs_ok_def referenced_kind_def reference_ok_def)
  obtain x where x: "?xs = [x]" using y(1) ret by (auto simp: metric_inputs_ok_def length_Suc_conv)
  have vals: "dval v = return_on (dval r0) (selected_price x)" "dval u = favorable_of (dval r0) ?hs"
    "dval w = adverse_of (dval r0) ?ls"
    using y(2) f(2) a(2) ret fav adv r0(1) x by (simp_all add: Let_def)
  have "x \<in> set (dependency_observations t os mf)" "x \<in> set (dependency_observations t os ma)"
    using dependency_observations_mono [OF sub(1), of os] dependency_observations_mono [OF sub(2), of os] x by auto
  moreover have "priced x" using y(3) ret(3) x by simp
  ultimately show ?thesis
    using excursions_bracket [OF r0(2), of ?hs ?ls "high_price x" "low_price x" "selected_price x"] priced_prices [of x]
    unfolding vals by simp
qed

section \<open>First passages\<close>

definition end_at :: "outcome_observation_source list \<Rightarrow> uuid \<Rightarrow> py_datetime option" where
  "end_at sources k = map_option source_end (source_at sources k)"

text \<open>The bar of a checkpoint reaches a boundary.\<close>

fun crosses :: "outcome_observation_source list \<Rightarrow> outcome_barrier_direction \<Rightarrow> rat \<Rightarrow> uuid \<Rightarrow> bool" where
  "crosses sources Barrier_UP b k \<longleftrightarrow> (\<exists>h. high_at sources k = Some h \<and> b \<le> h)"
| "crosses sources Barrier_DOWN b k \<longleftrightarrow> (\<exists>l. low_at sources k = Some l \<and> l \<le> b)"

definition passage_rule ::
  "outcome_target_definition \<Rightarrow> outcome_observation_source list \<Rightarrow> outcome_metric_draft \<Rightarrow>
   outcome_barrier_direction \<Rightarrow> rat \<Rightarrow> bool" where
  "passage_rule t sources y dir b \<longleftrightarrow>
     (let ks = set (metric_checkpoints t (metric_definition_id y)); hit = crosses sources dir b in
      metric_boolean y = Some (\<exists>k \<in> ks. hit k)
      \<and> (case first_passage_at y of
           None \<Rightarrow> \<forall>k \<in> ks. \<not> hit k
         | Some p \<Rightarrow> \<exists>k \<in> ks. hit k \<and> end_at sources k = Some p
             \<and> (\<forall>k' \<in> ks. hit k' \<longrightarrow> (\<exists>q. end_at sources k' = Some q \<and> instant_of p \<le> instant_of q))))"

lemma observation_crosses:
  assumes "observation_at t sources k x" "priced x"
  shows "crosses sources dir b k \<longleftrightarrow> touches dir b x" "end_at sources k = Some (observation_end x)"
proof -
  have "observation_status x = Outcome_COMPLETE" using assms(2) by (simp add: priced_def)
  then show "crosses sources dir b k \<longleftrightarrow> touches dir b x"
    using observation_at_prices [OF assms(1)] by (cases dir) simp_all
  show "end_at sources k = Some (observation_end x)"
    using assms(1) observes_fields(3) by (auto simp: observation_at_def end_at_def)
qed

lemma settled_passage:
  assumes ready: "outcome_ready zones t r sessions sources observed known"
    and os: "mapE observe (zip (target_checkpoints t) sources) = Inr os"
    and y: "metric_settles t r os m y" "definition_kind m = BARRIER_HIT" "metric_boolean y \<noteq> None"
  shows "\<exists>dir v r0. barrier_direction m = Some dir \<and> barrier_threshold m = Some v \<and> reference_value r = Some r0
    \<and> passage_rule t sources y dir (boundary_of (dval r0) dir (dval v))"
proof -
  let ?xs = "dependency_observations t os m" and ?ks = "metric_checkpoints t (definition_id m)"
  have y': "metric_decimal y \<noteq> None \<or> metric_boolean y \<noteq> None" using y(3) by simp
  note c = settled_complete [OF y(1) y']
  obtain dir v r0 where d: "barrier_direction m = Some dir" "barrier_threshold m = Some v" "reference_value r = Some r0"
    using c(1) y(2) by (auto simp: metric_inputs_ok_def metric_definition_ok_def referenced_kind_def Let_def)
  let ?hit = "touches dir (boundary_of (dval r0) dir (dval v))"
  let ?cross = "crosses sources dir (boundary_of (dval r0) dir (dval v))"
  have id: "metric_definition_id y = definition_id m" using y(1) by (simp add: metric_settles_def)
  note roster = dependency_roster [OF ready os, of m]
  have k: "\<exists>x \<in> set ?xs. ?cross k = ?hit x \<and> end_at sources k = Some (observation_end x)" if "k \<in> set ?ks" for k
    using list_all2_left [OF roster that] observation_crosses c(3) by (metis list_all_iff)
  have x: "\<exists>k \<in> set ?ks. ?cross k = ?hit x \<and> end_at sources k = Some (observation_end x)" if "x \<in> set ?xs" for x
    using list_all2_right [OF roster that] observation_crosses c(3) that by (metis list_all_iff)
  have some: "(\<exists>k \<in> set ?ks. ?cross k) \<longleftrightarrow> (\<exists>x \<in> set ?xs. ?hit x)" using k x by metis
  have flag: "metric_boolean y = Some (\<exists>x \<in> set ?xs. ?hit x)" using c(2) y(2) d by (simp add: Let_def)
  have "case first_passage_at y of
        None \<Rightarrow> \<forall>k \<in> set ?ks. \<not> ?cross k
      | Some p \<Rightarrow> \<exists>k \<in> set ?ks. ?cross k \<and> end_at sources k = Some p
          \<and> (\<forall>k' \<in> set ?ks. ?cross k' \<longrightarrow> (\<exists>q. end_at sources k' = Some q \<and> instant_of p \<le> instant_of q))"
  proof (cases "first_passage_at y")
    case None
    then show ?thesis using c(2) y(2) d some by (auto simp: Let_def)
  next
    case (Some p)
    then obtain x0 where x0: "x0 \<in> set ?xs" "?hit x0" "p = observation_end x0"
      "\<forall>z \<in> set ?xs. ?hit z \<longrightarrow> instant_of p \<le> observed_end z"
      using c(2) y(2) d by (auto simp: Let_def)
    obtain k0 where "k0 \<in> set ?ks" "?cross k0" "end_at sources k0 = Some p" using x [OF x0(1)] x0(2,3) by auto
    moreover have "\<forall>k' \<in> set ?ks. ?cross k' \<longrightarrow> (\<exists>q. end_at sources k' = Some q \<and> instant_of p \<le> instant_of q)"
      using k x0(4) unfolding observed_end_def by blast
    ultimately show ?thesis using Some by auto
  qed
  then have "passage_rule t sources y dir (boundary_of (dval r0) dir (dval v))"
    unfolding passage_rule_def id Let_def using flag some by simp
  with d show ?thesis by blast
qed

section \<open>Ambiguous metrics\<close>

lemma settled_passes: "settled_as t ms m m' \<Longrightarrow> barrier_passes t dir m' \<longleftrightarrow> barrier_passes t dir m"
  by (simp add: barrier_passes_def settled_as_fields(1,3,7))

lemma settled_times:
  assumes "list_all2 (settled_as t ms) ms ms'"
  shows "passage_times t dir ms' = passage_times t dir ms"
proof -
  have "map passage_of (filter (barrier_passes t dir) ys) = map passage_of (filter (barrier_passes t dir) xs)"
    if "list_all2 (settled_as t ms) xs ys" for xs ys
    using that by (induction rule: list_all2_induct) (simp_all add: settled_passes passage_of_def settled_as_fields(7))
  from arg_cong [OF this [OF assms], of set] show ?thesis by (simp add: passage_times_def)
qed

lemma settled_ambiguous:
  assumes "list_all2 (settled_as t ms) ms ms'" "settled_as t ms m m'"
  shows "ambiguous t ms' m' \<longleftrightarrow> ambiguous t ms m"
  using settled_passes [OF assms(2)] settled_as_fields(7) [OF assms(2)]
  by (simp add: ambiguous_def passed_together_def passage_of_def settled_times [OF assms(1)])

lemma partial_iff_ambiguous:
  assumes "outcome_run t r sessions sources d" "y \<in> set (revision_metrics d)"
  shows "metric_draft_status y = Outcome_PARTIAL \<longleftrightarrow> ambiguous t (revision_metrics d) y"
proof -
  obtain m ms y0 where m: "metric_outcome t r (revision_observations d) m y0" "settled_as t ms y0 y"
    "list_all2 (settled_as t ms) ms (revision_metrics d)"
    using run_metric [OF assms] by blast
  show ?thesis
    using settled_ambiguous [OF m(3,2)] settled_as_fields(8) [OF m(2)] result_fields(7) [OF m(1)] by simp
qed

section \<open>Statuses\<close>

definition gap_at :: "outcome_observation_source list \<Rightarrow> uuid \<Rightarrow> outcome_gap_kind option" where
  "gap_at sources k =
     Option.bind (source_at sources k) (\<lambda>s. case source_body s of Bar i n op hi lo cl \<Rightarrow> None | Gap i g reason \<Rightarrow> Some g)"

text \<open>What keeps a metric from a value: a failing gap or reference, or any gap or missing reference.\<close>

definition metric_fails :: "outcome_target_definition \<Rightarrow> frozen_decision_reference \<Rightarrow> outcome_observation_source list \<Rightarrow>
  outcome_metric_draft \<Rightarrow> bool" where
  "metric_fails t r sources y \<longleftrightarrow>
     (\<exists>k \<in> set (metric_checkpoints t (metric_definition_id y)).
        gap_at sources k \<in> {Some Gap_PROVIDER_FAILURE, Some Gap_CONFLICT, Some Gap_INVALID_OHLC})
     \<or> (referenced_kind (metric_draft_kind y) \<and> reference_status r = Reference_FAILED)"

definition metric_lacks :: "outcome_target_definition \<Rightarrow> frozen_decision_reference \<Rightarrow> outcome_observation_source list \<Rightarrow>
  outcome_metric_draft \<Rightarrow> bool" where
  "metric_lacks t r sources y \<longleftrightarrow>
     (\<exists>k \<in> set (metric_checkpoints t (metric_definition_id y)). gap_at sources k \<noteq> None)
     \<or> (referenced_kind (metric_draft_kind y) \<and> reference_status r \<noteq> Reference_PRESENT)"

lemma observation_at_status:
  assumes "observation_at t sources k x"
  shows "observation_status x = Outcome_FAILED
      \<longleftrightarrow> gap_at sources k \<in> {Some Gap_PROVIDER_FAILURE, Some Gap_CONFLICT, Some Gap_INVALID_OHLC}"
    and "observation_status x \<noteq> Outcome_COMPLETE \<longleftrightarrow> gap_at sources k \<noteq> None"
proof -
  obtain c s where cs: "source_at sources k = Some s" "observes x (c, s)" using assms by (auto simp: observation_at_def)
  show "observation_status x = Outcome_FAILED
      \<longleftrightarrow> gap_at sources k \<in> {Some Gap_PROVIDER_FAILURE, Some Gap_CONFLICT, Some Gap_INVALID_OHLC}"
    "observation_status x \<noteq> Outcome_COMPLETE \<longleftrightarrow> gap_at sources k \<noteq> None"
    using cs(1) observes_fields(6) [OF cs(2)]
    by (auto simp: gap_at_def gap_status_def split: outcome_source_body.splits outcome_gap_kind.splits)
      (metis outcome_gap_kind.exhaust)+
qed

lemma settled_status:
  assumes ready: "outcome_ready zones t r sessions sources observed known"
    and os: "mapE observe (zip (target_checkpoints t) sources) = Inr os"
    and m: "m \<in> set (target_metrics t)" "metric_settles t r os m y"
  shows "if metric_fails t r sources y then metric_draft_status y = Outcome_FAILED
    else if metric_lacks t r sources y then metric_draft_status y = Outcome_UNAVAILABLE
    else metric_draft_status y \<in> {Outcome_COMPLETE, Outcome_PARTIAL}"
    and "metric_lacks t r sources y \<longleftrightarrow> metric_decimal y = None \<and> metric_boolean y = None"
proof -
  let ?xs = "dependency_observations t os m" and ?ds = "dependencies_of t m"
  let ?states = "dependency_states r ?ds ?xs"
  have id: "metric_definition_id y = definition_id m" "metric_draft_kind y = definition_kind m"
    using m(2) by (simp_all add: metric_settles_def)
  note roster = dependency_roster [OF ready os, of m]
  have ref: "referring ?ds \<longleftrightarrow> referenced_kind (definition_kind m)"
    using dependency_shape(1) [OF target_metric_checked [OF ready_parts(1) [OF ready] m(1)]] by (simp add: referenced_kind_def)
  have failed: "Outcome_FAILED \<in> set ?states \<longleftrightarrow> metric_fails t r sources y"
  proof -
    have "(\<exists>x \<in> set ?xs. observation_status x = Outcome_FAILED)
        \<longleftrightarrow> (\<exists>k \<in> set (metric_checkpoints t (definition_id m)).
          gap_at sources k \<in> {Some Gap_PROVIDER_FAILURE, Some Gap_CONFLICT, Some Gap_INVALID_OHLC})"
      using list_all2_left [OF roster] list_all2_right [OF roster] observation_at_status(1) by metis
    moreover have "reference_outcome (reference_status r) = Outcome_FAILED \<longleftrightarrow> reference_status r = Reference_FAILED"
      by (cases "reference_status r") simp_all
    ultimately show ?thesis
      unfolding metric_fails_def id ref [symmetric] dependency_states_def referring_def [symmetric] by force
  qed
  have lacks: "\<not> list_all (\<lambda>s. s = Outcome_COMPLETE) ?states \<longleftrightarrow> metric_lacks t r sources y"
  proof -
    have "(\<exists>x \<in> set ?xs. observation_status x \<noteq> Outcome_COMPLETE)
        \<longleftrightarrow> (\<exists>k \<in> set (metric_checkpoints t (definition_id m)). gap_at sources k \<noteq> None)"
      using list_all2_left [OF roster] list_all2_right [OF roster] observation_at_status(2) by metis
    moreover have "reference_outcome (reference_status r) \<noteq> Outcome_COMPLETE \<longleftrightarrow> reference_status r \<noteq> Reference_PRESENT"
      by (cases "reference_status r") simp_all
    ultimately show ?thesis
      unfolding metric_lacks_def id ref [symmetric] dependency_states_def referring_def [symmetric]
      by (auto simp: list_all_iff)
  qed
  have "metric_fails t r sources y \<Longrightarrow> metric_lacks t r sources y"
    by (auto simp: metric_fails_def metric_lacks_def)
  then have st: "state_of ?states = (if metric_fails t r sources y then Outcome_FAILED
      else if metric_lacks t r sources y then Outcome_UNAVAILABLE else Outcome_COMPLETE)"
    and complete: "state_of ?states = Outcome_COMPLETE \<longleftrightarrow> \<not> metric_lacks t r sources y"
    using failed lacks by (auto simp: state_of_def)
  show "if metric_fails t r sources y then metric_draft_status y = Outcome_FAILED
    else if metric_lacks t r sources y then metric_draft_status y = Outcome_UNAVAILABLE
    else metric_draft_status y \<in> {Outcome_COMPLETE, Outcome_PARTIAL}"
    using m(2) st complete by (auto simp: metric_settles_def Let_def split: if_splits)
  show "metric_lacks t r sources y \<longleftrightarrow> metric_decimal y = None \<and> metric_boolean y = None"
  proof
    assume "metric_lacks t r sources y"
    then show "metric_decimal y = None \<and> metric_boolean y = None"
      using m(2) complete by (simp add: metric_settles_def Let_def split: if_splits)
  next
    assume none: "metric_decimal y = None \<and> metric_boolean y = None"
    show "metric_lacks t r sources y"
    proof (rule ccontr)
      assume "\<not> metric_lacks t r sources y"
      then have "metric_value_is m (dval (the (reference_value r))) ?xs (metric_decimal y, metric_boolean y, first_passage_at y)"
        using m(2) complete unfolding metric_settles_def Let_def by presburger
      then show False using none by (cases "definition_kind m") (simp_all add: Let_def)
    qed
  qed
qed

end
