(* ===== verification/Outcome_Returned.thy ===== *)
theory Outcome_Returned
  imports Outcome_Passages
begin

text \<open>
  What holds of every revision the kernel returns, accepted inputs or not: its cutoffs, its roll-up
  against the check of \<open>validate_market_target_outcome_closure\<close> in the database, its reasons.
\<close>

section \<open>The parts of a returned revision\<close>

lemma revision_init_parts:
  assumes "outcome_revision_draft_init d = Inr d'"
  shows "unhashed d' = unhashed d" "revision_checks d = Inr ()"
  using assms by (auto simp: outcome_revision_draft_init_def thenE_Inr_iff bindE_Inr_iff Let_def unhashed_def)

lemma unhashed_fields:
  assumes "unhashed d' = unhashed d"
  shows "observation_cutoff d' = observation_cutoff d" "knowledge_cutoff d' = knowledge_cutoff d"
    "revision_status d' = revision_status d" "revision_availability d' = revision_availability d"
    "revision_sessions d' = revision_sessions d" "revision_sources d' = revision_sources d"
    "revision_observations d' = revision_observations d" "revision_metrics d' = revision_metrics d"
    "revision_reasons d' = revision_reasons d"
  using assms by (simp_all add: unhashed_def) (cases d; cases d'; simp)+

lemma returned_parts:
  assumes "calculate_market_target_outcome zones t r sessions sources observed known = Inr d"
  shows "validate_outcome_inputs zones t sessions sources observed known = Inr ()"
    "mapE observe (zip (target_checkpoints t) sources) = Inr (revision_observations d)"
    "observation_cutoff d = observed" "knowledge_cutoff d = known"
    "revision_sessions d = sessions" "revision_sources d = sources"
    "(revision_status d, revision_availability d) = outcome_roll_up (revision_metrics d)"
    "\<exists>ms amb. mapE (calculate_metric t r (revision_observations d)) (target_metrics t) = Inr ms
      \<and> apply_barrier_ambiguity t ms = Inr (revision_metrics d, amb)
      \<and> revision_reasons d = map reason_row (numbered (sorted_reasons (revision_observations d) (revision_metrics d) amb))"
proof -
  obtain os ms ms' amb refs obs d0 where
    v: "validate_outcome_inputs zones t sessions sources observed known = Inr ()" and
    os: "mapE observe (zip (target_checkpoints t) sources) = Inr os" and
    ms: "mapE (calculate_metric t r os) (target_metrics t) = Inr ms" and
    amb: "apply_barrier_ambiguity t ms = Inr (ms', amb)" and
    init: "outcome_revision_draft_init d0 = Inr d" and
    d0: "d0 = \<lparr>revision_target_id = target_id t, revision_target_sha256 = target_sha256 t,
         revision_reference_id = decision_reference_id r, revision_reference_sha256 = reference_sha256 r,
         observation_cutoff = observed, knowledge_cutoff = known,
         revision_status = fst (outcome_roll_up ms'), revision_availability = snd (outcome_roll_up ms'),
         revision_finality = Finality_UNKNOWN, revision_sessions = sessions, revision_sources = sources,
         revision_observations = os, revision_metrics = ms', reference_dependencies = refs,
         observation_dependencies = obs,
         revision_reasons = map reason_row (numbered (sorted_reasons os ms' amb)),
         revision_source_roster_sha256 = [], observation_roster_sha256 = [], revision_metric_roster_sha256 = [],
         reference_dependency_roster_sha256 = [], observation_dependency_roster_sha256 = [],
         revision_reason_roster_sha256 = [], revision_summary_sha256 = []\<rparr>"
    using assms unfolding calculate_market_target_outcome_def thenE_Inr_iff bindE_Inr_iff reasons_run guardE_Inr_iff
    by (auto simp: bindE_Inr_iff)
  note f = unhashed_fields [OF revision_init_parts(1) [OF init], unfolded d0, simplified]
  show "validate_outcome_inputs zones t sessions sources observed known = Inr ()"
    "mapE observe (zip (target_checkpoints t) sources) = Inr (revision_observations d)"
    "observation_cutoff d = observed" "knowledge_cutoff d = known"
    "revision_sessions d = sessions" "revision_sources d = sources"
    "(revision_status d, revision_availability d) = outcome_roll_up (revision_metrics d)"
    using v os f by simp_all
  show "\<exists>ms amb. mapE (calculate_metric t r (revision_observations d)) (target_metrics t) = Inr ms
      \<and> apply_barrier_ambiguity t ms = Inr (revision_metrics d, amb)
      \<and> revision_reasons d = map reason_row (numbered (sorted_reasons (revision_observations d) (revision_metrics d) amb))"
    using ms amb f by auto
qed

text \<open>On accepted inputs whose prices fit, the revision is the one of the run.\<close>

lemma returned_run:
  assumes "outcome_ready zones t r sessions sources observed known" "prices_fit r sources" "return_bars_agree t sources"
    and "calculate_market_target_outcome zones t r sessions sources observed known = Inr d"
  shows "outcome_run t r sessions sources d"
  using outcome_total [OF assms(1-3)] assms(4) by auto

section \<open>Cutoffs\<close>

lemma source_within_cutoffs:
  assumes "validate_outcome_inputs zones t sessions sources observed known = Inr ()" "(c, s) \<in> set (zip (target_checkpoints t) sources)"
  shows "instant_of (source_end s) \<le> instant_of observed" "instant_of (source_known s) \<le> instant_of known"
    "\<exists>session zone. session_at sessions (checkpoint_offset c) = Some session \<and> zones (checkpoint_zone c) = Some zone
      \<and> source_session_id s = session_id session
      \<and> instant_of (source_end s) = zone (session_date session) (time_of (checkpoint_time c))"
proof -
  have "check_outcome_source zones sessions observed known (c, s) = Inr ()"
    using inputs_aligned(6) [OF assms(1)] assms(2) by blast
  then show "instant_of (source_end s) \<le> instant_of observed" "instant_of (source_known s) \<le> instant_of known"
    "\<exists>session zone. session_at sessions (checkpoint_offset c) = Some session \<and> zones (checkpoint_zone c) = Some zone
      \<and> source_session_id s = session_id session
      \<and> instant_of (source_end s) = zone (session_date session) (time_of (checkpoint_time c))"
    unfolding check_outcome_source_def prod.case bindE_Inr_iff thenE_Inr_iff guardE_Inr_iff optE_Inr_iff
    by (auto simp: not_less)
qed

section \<open>The roll-up and the database\<close>

text \<open>The aggregate check of \<open>validate_market_target_outcome_closure\<close>, on the counts it selects.\<close>

definition required_count :: "outcome_metric_draft list \<Rightarrow> outcome_status \<Rightarrow> nat" where
  "required_count ms st = length (filter (\<lambda>m. metric_completion m = REQUIRED \<and> metric_draft_status m = st) ms)"

definition outcome_reconciles :: "outcome_metric_draft list \<Rightarrow> outcome_status \<Rightarrow> outcome_availability \<Rightarrow> bool" where
  "outcome_reconciles ms st av \<longleftrightarrow>
     (let required = length (filter (\<lambda>m. metric_completion m = REQUIRED) ms);
          complete = required_count ms Outcome_COMPLETE;
          unavailable = required_count ms Outcome_UNAVAILABLE;
          failed = required_count ms Outcome_FAILED in
      \<not> (required = 0
         \<or> (failed > 0 \<and> (st \<noteq> Outcome_FAILED \<or> av \<noteq> Availability_FAILED))
         \<or> (failed = 0 \<and> complete = required \<and> (st \<noteq> Outcome_COMPLETE \<or> av \<noteq> Availability_AVAILABLE))
         \<or> (failed = 0 \<and> unavailable = required \<and> (st \<noteq> Outcome_UNAVAILABLE \<or> av \<noteq> Availability_UNAVAILABLE))
         \<or> (failed = 0 \<and> complete \<noteq> required \<and> unavailable \<noteq> required
            \<and> (st \<noteq> Outcome_PARTIAL
               \<or> av \<noteq> (if unavailable > 0 then Availability_UNAVAILABLE else Availability_AVAILABLE)))))"

lemma length_filter_all: "length (filter P xs) = length xs \<longleftrightarrow> list_all P xs"
proof
  assume "length (filter P xs) = length xs"
  then have "length (filter (\<lambda>x. \<not> P x) xs) = 0" using sum_length_filter_compl [of P xs] by simp
  then show "list_all P xs" by (auto simp: list_all_iff filter_empty_conv)
next
  assume "list_all P xs"
  then have "filter P xs = xs" by (simp add: filter_id_conv list_all_iff)
  then show "length (filter P xs) = length xs" by simp
qed

lemma reconciles_iff:
  "outcome_reconciles ms st av \<longleftrightarrow> (\<exists>m \<in> set ms. metric_completion m = REQUIRED) \<and> (st, av) = outcome_roll_up ms"
proof -
  let ?req = "filter (\<lambda>m. metric_completion m = REQUIRED) ms"
  let ?ss = "map metric_draft_status ?req"
  have count: "required_count ms s = length (filter (\<lambda>s'. s' = s) ?ss)" for s
    by (simp add: required_count_def filter_map comp_def conj_commute)
  have all: "required_count ms s = length ?req \<longleftrightarrow> list_all (\<lambda>s'. s' = s) ?ss" for s
    unfolding count using length_filter_all [of "\<lambda>s'. s' = s" ?ss] by simp
  have some: "required_count ms s > 0 \<longleftrightarrow> s \<in> set ?ss" "required_count ms s = 0 \<longleftrightarrow> s \<notin> set ?ss" for s
    unfolding count by (auto simp: filter_empty_conv)
  have req: "length ?req = 0 \<longleftrightarrow> \<not> (\<exists>m \<in> set ms. metric_completion m = REQUIRED)" by (auto simp: filter_empty_conv)
  have excl: "\<not> (list_all (\<lambda>s'. s' = Outcome_COMPLETE) ?ss \<and> list_all (\<lambda>s'. s' = Outcome_UNAVAILABLE) ?ss)"
    if "\<exists>m \<in> set ms. metric_completion m = REQUIRED"
    using that by (auto simp: list_all_iff)
  show ?thesis
    unfolding outcome_reconciles_def outcome_roll_up_def Let_def all some req
    using excl by auto
qed

section \<open>Reasons\<close>

lemma reason_row_parts [simp]: "value_of_reason (reason_row nv) = snd nv" "reason_draft_ordinal (reason_row nv) = fst nv"
  by (cases nv; simp)+

lemma reason_values_set:
  "set (reason_values os ms amb) =
     {(Reason_OBSERVATION, ''OBSERVATION_'' @ outcome_status_value (observation_status x), Some (observation_checkpoint_id x), None) | x.
        x \<in> set os \<and> observation_status x \<noteq> Outcome_COMPLETE}
     \<union> {(Reason_METRIC, ''METRIC_'' @ outcome_status_value (metric_draft_status y), None, Some (metric_definition_id y)) | y.
        y \<in> set ms \<and> metric_draft_status y \<noteq> Outcome_COMPLETE}
     \<union> {(Reason_METRIC, ''INTRABAR_ORDERING_NOT_OBSERVABLE'', None, Some i) | i. i \<in> set amb}"
  unfolding reason_values_def set_append set_map set_filter by blast

lemma returned_reasons:
  assumes "revision_reasons d = map reason_row (numbered (sorted_reasons os ms amb))"
  shows "map value_of_reason (revision_reasons d) = sorted_reasons os ms amb"
    "map reason_draft_ordinal (revision_reasons d) = map int [1..<Suc (length (revision_reasons d))]"
proof -
  have m: "map value_of_reason (map reason_row (numbered vs)) = map snd (numbered vs)"
    "map reason_draft_ordinal (map reason_row (numbered vs)) = map fst (numbered vs)" for vs
    unfolding map_map comp_def reason_row_parts by simp_all
  show "map value_of_reason (revision_reasons d) = sorted_reasons os ms amb"
    unfolding assms m by simp
  show "map reason_draft_ordinal (revision_reasons d) = map int [1..<Suc (length (revision_reasons d))]"
    using map_fst_numbered [of "sorted_reasons os ms amb"]
    unfolding contiguous_def assms m length_map One_nat_def .
qed

end
