(* ===== verification/Outcome_Scenario.thy ===== *)
theory Outcome_Scenario
  imports Outcome_Returned
begin

text \<open>
  A concrete calculation: two checkpoints, the first served by a bar that crosses an up and a down
  barrier, the second a missing bar; six metrics over them.
\<close>

definition demo_sha :: string where
  "demo_sha = replicate 64 (CHR ''a'')"

definition demo_zones :: zones where
  "demo_zones z = (if z = ''Asia/Shanghai'' then Some (\<lambda>day time. day * 86400000000 + time - 28800000000) else None)"

definition demo_algorithm :: outcome_algorithm where
  "demo_algorithm = \<lparr>algorithm_code = ''outcome_kernel'', algorithm_version = ''1.0'', algorithm_sha256 = demo_sha,
     algorithm_code_id = 1, algorithm_code_sha256 = demo_sha, algorithm_code_size = 1,
     algorithm_config_id = 2, algorithm_config_sha256 = demo_sha, algorithm_config_size = 1\<rparr>"

definition demo_checkpoint :: "uuid \<Rightarrow> int \<Rightarrow> outcome_checkpoint" where
  "demo_checkpoint i n = \<lparr>checkpoint_id = i, checkpoint_sha256 = demo_sha, checkpoint_ordinal = n, checkpoint_code = ''close'',
     checkpoint_offset = n, checkpoint_time = NaiveTime 54000000000, checkpoint_zone = ''Asia/Shanghai'',
     checkpoint_timeframe = ''DAILY'', checkpoint_basis = ''RAW_UNADJUSTED'', checkpoint_field = Field_CLOSE\<rparr>"

definition demo_metric ::
  "uuid \<Rightarrow> int \<Rightarrow> outcome_metric_kind \<Rightarrow> outcome_completion_rule \<Rightarrow> outcome_barrier_direction option \<Rightarrow> decimal option \<Rightarrow>
   outcome_metric_definition" where
  "demo_metric i n kind rule dir threshold = \<lparr>definition_id = i, definition_ordinal = n, definition_code = ''metric'',
     definition_kind = kind, definition_value_type = fst (expected_metric_shape kind),
     definition_unit = snd (expected_metric_shape kind), definition_completion = rule,
     definition_algorithm = demo_algorithm, definition_sha256 = demo_sha,
     barrier_direction = dir, barrier_threshold = threshold\<rparr>"

definition demo_dependency :: "int \<Rightarrow> uuid \<Rightarrow> uuid \<Rightarrow> outcome_dependency_role \<Rightarrow> outcome_metric_dependency" where
  "demo_dependency n i k role = \<lparr>dependency_id = word_of_int (100 + n), dependency_ordinal = n, dependency_metric_id = i,
     dependency_checkpoint_id = k, dependency_role = role, dependency_sha256 = demo_sha\<rparr>"

definition demo_metrics :: "outcome_metric_definition list" where
  "demo_metrics =
     [demo_metric 21 1 SIMPLE_RETURN REQUIRED None None,
      demo_metric 22 2 MAX_FAVORABLE_EXCURSION REQUIRED None None,
      demo_metric 23 3 MAX_ADVERSE_EXCURSION REQUIRED None None,
      demo_metric 24 4 BARRIER_HIT REQUIRED (Some Barrier_UP) (Some (Fin False 1 (- 1))),
      demo_metric 25 5 BARRIER_HIT REQUIRED (Some Barrier_DOWN) (Some (Fin False 5 (- 2))),
      demo_metric 26 6 OBSERVATION_VALUE OPTIONAL None None]"

definition demo_dependencies :: "outcome_metric_dependency list" where
  "demo_dependencies =
     [demo_dependency 1 21 10 Role_REFERENCE, demo_dependency 2 21 11 Role_OBSERVATION,
      demo_dependency 3 22 10 Role_REFERENCE, demo_dependency 4 22 11 Role_PATH_MEMBER,
      demo_dependency 5 23 10 Role_REFERENCE, demo_dependency 6 23 11 Role_PATH_MEMBER,
      demo_dependency 7 24 10 Role_REFERENCE, demo_dependency 8 24 11 Role_PATH_MEMBER,
      demo_dependency 9 25 10 Role_REFERENCE, demo_dependency 10 25 11 Role_PATH_MEMBER,
      demo_dependency 11 26 12 Role_OBSERVATION]"

definition demo_target :: outcome_target_definition where
  "demo_target = \<lparr>target_id = 9, target_code = ''two_day'', target_version = 1, target_sha256 = demo_sha,
     target_reference_checkpoint = 10, target_algorithm = demo_algorithm,
     target_checkpoints = [demo_checkpoint 11 1, demo_checkpoint 12 2],
     target_metrics = demo_metrics, target_dependencies = demo_dependencies\<rparr>"

definition demo_reference :: frozen_decision_reference where
  "demo_reference = \<lparr>decision_reference_id = 8, reference_sha256 = demo_sha, reference_status = Reference_PRESENT,
     reference_availability = Availability_AVAILABLE, reference_finality = Finality_UNKNOWN,
     reference_value = Some (Fin False 10 0)\<rparr>"

definition demo_day :: int where "demo_day = 20000"

definition demo_at :: "int \<Rightarrow> int \<Rightarrow> py_datetime" where
  "demo_at day hour = Aware (day * 86400000000 + hour * 3600000000 - 28800000000) 28800"

definition demo_session :: "uuid \<Rightarrow> int \<Rightarrow> outcome_session_source" where
  "demo_session i n = \<lparr>session_id = i, session_offset = n, session_exchange = ''SSE'', session_date = demo_day + n,
     session_zone = ''Asia/Shanghai'', session_open = demo_at (demo_day + n) 9, session_close = demo_at (demo_day + n) 15,
     session_capture_id = 5, session_product_id = 6, session_recorded_at = demo_at demo_day 9,
     session_known_at = demo_at demo_day 9\<rparr>"

definition demo_source :: "uuid \<Rightarrow> int \<Rightarrow> uuid \<Rightarrow> outcome_source_body \<Rightarrow> outcome_observation_source" where
  "demo_source k n i body = \<lparr>source_checkpoint_id = k, outcome_source_ordinal = n, source_product_id = 6, source_capture_id = 5,
     source_instrument_id = 7, source_session_id = i, source_timeframe = ''DAILY'', source_basis = ''RAW_UNADJUSTED'',
     source_start = demo_at (demo_day + n) 9, source_end = demo_at (demo_day + n) 15,
     source_recorded_at = demo_at (demo_day + n) 16, source_known = demo_at (demo_day + n) 16, source_body = body\<rparr>"

definition demo_sessions :: "outcome_session_source list" where
  "demo_sessions = [demo_session 41 1, demo_session 42 2]"

text \<open>Open 10, high 12, low 9, close 11.\<close>

definition demo_sources :: "outcome_observation_source list" where
  "demo_sources =
     [demo_source 11 1 41 (Bar 31 1 (Fin False 10 0) (Fin False 12 0) (Fin False 9 0) (Fin False 11 0)),
      demo_source 12 2 42 (Gap 32 Gap_MISSING ''NO_BAR'')]"

definition demo_cutoff :: py_datetime where "demo_cutoff = demo_at (demo_day + 2) 20"

lemmas demo_defs = demo_zones_def demo_algorithm_def demo_checkpoint_def demo_metric_def demo_dependency_def demo_metrics_def
  demo_dependencies_def demo_target_def demo_reference_def demo_day_def demo_at_def demo_session_def demo_source_def
  demo_sessions_def demo_sources_def demo_cutoff_def

lemma demo_sha_ok: "content_hash_ok demo_sha"
  by code_simp

lemma demo_target_init: "outcome_target_definition_init demo_target = Inr demo_target"
  by code_simp

lemma demo_children:
  "list_all (\<lambda>c. outcome_checkpoint_init demo_zones c = Inr c) (target_checkpoints demo_target)"
  "list_all (\<lambda>m. outcome_metric_definition_init m = Inr m) (target_metrics demo_target)"
  "frozen_decision_reference_init demo_reference = Inr demo_reference"
  "list_all (\<lambda>s. outcome_session_source_init demo_zones s = Inr s) demo_sessions"
  by (simp_all add: demo_defs outcome_checkpoint_init_def outcome_metric_definition_init_def thenE_Inr_iff demo_sha_ok Let_def
      frozen_decision_reference_init_def outcome_session_source_init_def outcome_code_ok_def algorithm_version_ok_def
      head_tail_match_def is_lower_def is_digit_def is_alnum_def is_upper_def)

lemma demo_source_inits: "list_all (\<lambda>s. outcome_source_init s = Inr s) demo_sources"
  by (simp add: demo_defs outcome_source_init_def positive_decimal_def validate_observation_source_def thenE_Inr_iff code_ok_def
      head_tail_match_def is_upper_def is_digit_def)

lemma demo_validated:
  "validate_outcome_inputs demo_zones demo_target demo_sessions demo_sources demo_cutoff demo_cutoff = Inr ()"
  by code_simp

lemma demo_ready: "outcome_ready demo_zones demo_target demo_reference demo_sessions demo_sources demo_cutoff demo_cutoff"
  using demo_target_init demo_children demo_source_inits demo_validated
  by (simp add: outcome_ready_def target_accepted_def list_all_iff) (simp add: demo_cutoff_def demo_at_def aware_def)

lemma demo_fit: "prices_fit demo_reference demo_sources"
  by (simp add: prices_fit_def run_prices_def demo_defs)

lemma demo_bars: "return_bars_agree demo_target demo_sources"
  by (simp add: return_bars_agree_def demo_defs)

text \<open>The revision, and its metrics in order.\<close>

lemma demo_returned:
  "\<exists>d. calculate_market_target_outcome demo_zones demo_target demo_reference demo_sessions demo_sources demo_cutoff demo_cutoff = Inr d
    \<and> outcome_run demo_target demo_reference demo_sessions demo_sources d"
  by (rule outcome_total [OF demo_ready demo_fit demo_bars])

lemma run_definition:
  assumes "outcome_run t r sessions sources d" "m \<in> set (target_metrics t)" "distinct (map definition_id (target_metrics t))"
  shows "\<exists>y \<in> set (revision_metrics d). metric_settles t r (revision_observations d) m y"
proof -
  obtain ms where ms: "list_all2 (metric_outcome t r (revision_observations d)) (target_metrics t) ms"
    "list_all2 (settled_as t ms) ms (revision_metrics d)" using assms(1) by (auto simp: outcome_run_def)
  obtain y0 where y0: "y0 \<in> set ms" "metric_outcome t r (revision_observations d) m y0" using list_all2_left [OF ms(1) assms(2)] by blast
  obtain y where y: "y \<in> set (revision_metrics d)" "settled_as t ms y0 y" using list_all2_left [OF ms(2) y0(1)] by blast
  obtain m' where m': "m' \<in> set (target_metrics t)" "metric_settles t r (revision_observations d) m' y"
    using run_metric_settles [OF assms(1) y(1)] by blast
  have "definition_id m' = definition_id m"
    using m'(2) settled_as_fields(1) [OF y(2)] result_fields(1) [OF y0(2)] by (simp add: metric_settles_def)
  then have "m' = m" using assms(2,3) m'(1) by (auto simp: distinct_map dest: inj_onD)
  then show ?thesis using y(1) m'(2) by blast
qed

lemma demo_checkpoints:
  "i \<in> {21, 22, 23, 24, 25} \<Longrightarrow> metric_checkpoints demo_target i = [11]"
  "metric_checkpoints demo_target 26 = [12]"
  by (auto simp: metric_checkpoints_def observing_def demo_defs)

lemma demo_prices:
  "price_at demo_target demo_sources 11 = Some 11" "high_at demo_sources 11 = Some 12" "low_at demo_sources 11 = Some 9"
  "gap_at demo_sources 11 = None" "gap_at demo_sources 12 = Some Gap_MISSING"
  "end_at demo_sources 11 = Some (demo_at (demo_day + 1) 15)"
  "reference_value demo_reference = Some (Fin False 10 0)" "reference_status demo_reference = Reference_PRESENT"
  by (simp_all add: price_at_def high_at_def low_at_def gap_at_def end_at_def checkpoint_at_def source_at_def row_at_def demo_defs)

lemma demo_lacks: "metric_lacks demo_target demo_reference demo_sources y \<longleftrightarrow> metric_definition_id y \<notin> {21, 22, 23, 24, 25}"
  if "metric_definition_id y \<in> {21, 22, 23, 24, 25, 26}"
proof (cases "metric_definition_id y = 26")
  case True
  then show ?thesis by (simp add: metric_lacks_def demo_checkpoints demo_prices)
next
  case False
  then have i: "metric_definition_id y \<in> {21, 22, 23, 24, 25}" using that by blast
  then show ?thesis by (simp only: metric_lacks_def demo_checkpoints(1) [OF i]) (simp add: demo_prices)
qed

lemma demo_definitions: "distinct (map definition_id (target_metrics demo_target))"
  "\<forall>m \<in> set (target_metrics demo_target). definition_id m \<in> {21, 22, 23, 24, 25, 26}"
  by (simp_all add: demo_target_def demo_metrics_def demo_metric_def)

text \<open>The metric of a definition in a revision of the scenario, with its value.\<close>

lemma demo_metric_value:
  assumes "outcome_run demo_target demo_reference demo_sessions demo_sources d"
    and "m \<in> set (target_metrics demo_target)" "definition_id m \<noteq> 26"
  shows "\<exists>y \<in> set (revision_metrics d). metric_settles demo_target demo_reference (revision_observations d) m y
    \<and> (if definition_kind m = BARRIER_HIT then metric_boolean y \<noteq> None else metric_decimal y \<noteq> None)"
proof -
  have os: "mapE observe (zip (target_checkpoints demo_target) demo_sources) = Inr (revision_observations d)"
    using assms(1) by (simp add: outcome_run_def)
  obtain y where y: "y \<in> set (revision_metrics d)" "metric_settles demo_target demo_reference (revision_observations d) m y"
    using run_definition [OF assms(1,2) demo_definitions(1)] by blast
  have id: "metric_definition_id y = definition_id m" using y(2) by (simp add: metric_settles_def)
  have "metric_definition_id y \<in> {21, 22, 23, 24, 25, 26}" using id demo_definitions(2) assms(2) by simp
  then have "\<not> metric_lacks demo_target demo_reference demo_sources y"
    using demo_lacks [of y] id assms(3) by auto
  then have "metric_decimal y \<noteq> None \<or> metric_boolean y \<noteq> None"
    using settled_status(2) [OF demo_ready os assms(2) y(2)] by auto
  from settled_complete(2) [OF y(2) this]
  have "if definition_kind m = BARRIER_HIT then metric_boolean y \<noteq> None else metric_decimal y \<noteq> None"
    by (cases "definition_kind m") (auto simp: Let_def)
  with y show ?thesis by blast
qed

lemma demo_ids:
  assumes "outcome_run demo_target demo_reference demo_sessions demo_sources d" "y \<in> set (revision_metrics d)"
  shows "\<exists>m \<in> set demo_metrics. metric_settles demo_target demo_reference (revision_observations d) m y"
  using run_metric_settles [OF assms] by (simp add: demo_target_def)

text \<open>Both barriers are touched by the one bar: 11 is reached from below and 9.5 from above.\<close>

lemma demo_boundaries:
  "boundary_of 10 Barrier_UP (1 / 10) = 11" "boundary_of 10 Barrier_DOWN (1 / 20) = 19 / 2"
proof -
  have rep: "kernel_round (of_int m * power_int 10 e) = of_int m * power_int 10 e" if "\<bar>m\<bar> < 10 ^ 38" for m :: int and e
    unfolding kernel_round_def using that
    by (intro round_sig_exact) (auto simp: representable_def)
  have k: "kernel_round (11 / 10) = 11 / 10" "kernel_round 11 = 11" "kernel_round (19 / 20) = 19 / 20" "kernel_round (19 / 2) = 19 / 2"
    using rep [of 11 "- 1"] rep [of 11 0] rep [of 95 "- 2"] rep [of 95 "- 1"] by (simp_all add: power_int_def power_divide)
  show "boundary_of 10 Barrier_UP (1 / 10) = 11" "boundary_of 10 Barrier_DOWN (1 / 20) = 19 / 2"
    by (simp_all add: boundary_of_def k)
qed

lemma demo_passage:
  assumes run: "outcome_run demo_target demo_reference demo_sessions demo_sources d"
    and y: "m \<in> set demo_metrics" "metric_settles demo_target demo_reference (revision_observations d) m y"
      "definition_kind m = BARRIER_HIT"
  shows "first_passage_at y = Some (demo_at (demo_day + 1) 15)" "metric_boolean y = Some True"
proof -
  have os: "mapE observe (zip (target_checkpoints demo_target) demo_sources) = Inr (revision_observations d)"
    using run by (simp add: outcome_run_def)
  have m: "m \<in> set (target_metrics demo_target)" "definition_id m \<in> {24, 25}"
    using y(1,3) by (auto simp: demo_target_def demo_metrics_def demo_metric_def)
  have id: "metric_definition_id y = definition_id m" using y(2) by (simp add: metric_settles_def)
  have "\<not> metric_lacks demo_target demo_reference demo_sources y" using demo_lacks [of y] m(2) id by auto
  then have "metric_decimal y \<noteq> None \<or> metric_boolean y \<noteq> None"
    using settled_status(2) [OF demo_ready os m(1) y(2)] by auto
  then have "metric_boolean y \<noteq> None" using settled_complete(2) [OF y(2)] y(3) by (auto simp: Let_def)
  from settled_passage [OF demo_ready os y(2,3) this] obtain dir v where
    d: "barrier_direction m = Some dir" "barrier_threshold m = Some v"
      "passage_rule demo_target demo_sources y dir (boundary_of 10 dir (dval v))"
    by (auto simp: demo_prices)
  have "crosses demo_sources dir (boundary_of 10 dir (dval v)) 11"
    using y(1,3) d(1,2) demo_boundaries
    by (auto simp: demo_metrics_def demo_metric_def demo_prices power_int_def power_divide)
  moreover have "metric_checkpoints demo_target (metric_definition_id y) = [11]" using demo_checkpoints(1) id m(2) by auto
  ultimately show "first_passage_at y = Some (demo_at (demo_day + 1) 15)" "metric_boolean y = Some True"
    using d(3) by (auto simp: passage_rule_def demo_prices split: option.splits)
qed

end
