(* ===== verification/Outcome_Properties.thy ===== *)
theory Outcome_Properties
  imports Outcome_Scenario
begin

text \<open>
  The properties of the Outcome kernel, each with its witness on the scenario. Hypotheses:
  \<open>outcome_ready\<close>, the inputs are ones their constructors accept and the kernel's input checks pass;
  \<open>prices_fit\<close>, no price is \<open>10 ^ 18\<close> times another, which keeps ratios within 38 digits;
  \<open>return_bars_agree\<close>, the two checkpoints of an OBSERVATION_RETURN are served by one bar.
\<close>

section \<open>Totality\<close>



section \<open>Values\<close>

text \<open>C9. The value of a metric is the exact figure of its kind over the observed prices, up to one
  quantum: returns and excursions lie on the grid of 18 fractional digits and within \<open>10 ^ -18\<close> of
  the exact ratio, in spite of the three roundings; an observation value is the price itself.\<close>

theorem metric_values_are_accurate:
  assumes "outcome_ready zones t r sessions sources observed known" "prices_fit r sources" "return_bars_agree t sources"
    and "calculate_market_target_outcome zones t r sessions sources observed known = Inr d"
    and "y \<in> set (revision_metrics d)" "metric_decimal y = Some v"
  defines "ks \<equiv> metric_checkpoints t (metric_definition_id y)"
  shows "case metric_draft_kind y of
      OBSERVATION_VALUE \<Rightarrow> \<exists>p. map (price_at t sources) ks = [Some p] \<and> is_finite v \<and> dval v = p
    | OBSERVATION_RETURN \<Rightarrow> \<exists>p q. map (price_at t sources) ks = [Some p, Some q] \<and> within_quantum v (q / p - 1)
    | SIMPLE_RETURN \<Rightarrow> \<exists>r0 p. reference_value r = Some r0 \<and> map (price_at t sources) ks = [Some p]
        \<and> within_quantum v (p / dval r0 - 1)
    | MAX_FAVORABLE_EXCURSION \<Rightarrow> \<exists>r0 hs. reference_value r = Some r0 \<and> hs \<noteq> []
        \<and> map (high_at sources) ks = map Some hs \<and> within_quantum v (max 0 (Max (set hs) / dval r0 - 1))
    | MAX_ADVERSE_EXCURSION \<Rightarrow> \<exists>r0 ls. reference_value r = Some r0 \<and> ls \<noteq> []
        \<and> map (low_at sources) ks = map Some ls \<and> within_quantum v (min 0 (Min (set ls) / dval r0 - 1))
    | BARRIER_HIT \<Rightarrow> False"
proof -
  obtain m where "metric_settles t r (revision_observations d) m y"
    using run_metric_settles [OF returned_run [OF assms(1-4)] assms(5)] by blast
  from settled_ratio [OF assms(1) returned_parts(2) [OF assms(4)] this assms(6)] show ?thesis
    by (simp only: ratio_rule_def Let_def ks_def)
qed

theorem metric_values_are_accurate_witness:
  "\<exists>d y v. calculate_market_target_outcome demo_zones demo_target demo_reference demo_sessions demo_sources demo_cutoff demo_cutoff = Inr d
    \<and> y \<in> set (revision_metrics d) \<and> metric_draft_kind y = SIMPLE_RETURN \<and> metric_decimal y = Some v \<and> within_quantum v (1 / 10)"
proof -
  obtain d where d: "calculate_market_target_outcome demo_zones demo_target demo_reference demo_sessions demo_sources demo_cutoff demo_cutoff = Inr d"
    "outcome_run demo_target demo_reference demo_sessions demo_sources d" using demo_returned by blast
  have "demo_metric 21 1 SIMPLE_RETURN REQUIRED None None \<in> set (target_metrics demo_target)"
    by (simp add: demo_target_def demo_metrics_def)
  from demo_metric_value [OF d(2) this] obtain y v where y: "y \<in> set (revision_metrics d)" "metric_decimal y = Some v"
    "metric_draft_kind y = SIMPLE_RETURN" "metric_definition_id y = 21"
    by (auto simp: demo_metric_def metric_settles_def)
  from metric_values_are_accurate [OF demo_ready demo_fit demo_bars d(1) y(1,2)] have "within_quantum v (1 / 10)"
    unfolding y(3,4) by (simp add: demo_checkpoints demo_prices)
  then show ?thesis using d(1) y by blast
qed

text \<open>C10. Excursions bracket the return: after all roundings, the maximum adverse excursion is at
  most 0 and the maximum favourable one at least 0, and a return whose checkpoint is on both paths
  lies between them.\<close>

theorem excursions_bracket_the_return:
  assumes "outcome_ready zones t r sessions sources observed known" "prices_fit r sources" "return_bars_agree t sources"
    and "calculate_market_target_outcome zones t r sessions sources observed known = Inr d"
    and "y \<in> set (revision_metrics d)" "metric_draft_kind y = SIMPLE_RETURN" "metric_decimal y = Some v"
    and "f \<in> set (revision_metrics d)" "metric_draft_kind f = MAX_FAVORABLE_EXCURSION" "metric_decimal f = Some u"
    and "a \<in> set (revision_metrics d)" "metric_draft_kind a = MAX_ADVERSE_EXCURSION" "metric_decimal a = Some w"
    and "set (metric_checkpoints t (metric_definition_id y)) \<subseteq> set (metric_checkpoints t (metric_definition_id f))"
    and "set (metric_checkpoints t (metric_definition_id y)) \<subseteq> set (metric_checkpoints t (metric_definition_id a))"
  shows "dval w \<le> 0 \<and> 0 \<le> dval u \<and> dval w \<le> dval v \<and> dval v \<le> dval u"
proof -
  note settles = run_metric_settles [OF returned_run [OF assms(1-4)]]
  obtain m where m: "metric_settles t r (revision_observations d) m y" using settles assms(5) by blast
  obtain mf where mf: "metric_settles t r (revision_observations d) mf f" using settles assms(8) by blast
  obtain ma where ma: "metric_settles t r (revision_observations d) ma a" using settles assms(11) by blast
  have ids: "metric_definition_id y = definition_id m" "metric_definition_id f = definition_id mf" "metric_definition_id a = definition_id ma"
    "definition_kind m = SIMPLE_RETURN" "definition_kind mf = MAX_FAVORABLE_EXCURSION" "definition_kind ma = MAX_ADVERSE_EXCURSION"
    using m mf ma assms(6,9,12) by (simp_all add: metric_settles_def)
  show ?thesis
    by (rule settled_bracket [OF m ids(4) assms(7) mf ids(5) assms(10) ma ids(6) assms(13)
          assms(14,15) [unfolded ids(1-3)]])
qed

theorem excursions_bracket_the_return_witness:
  "\<exists>d u v w. calculate_market_target_outcome demo_zones demo_target demo_reference demo_sessions demo_sources demo_cutoff demo_cutoff = Inr d
    \<and> {Some u, Some v, Some w} \<subseteq> metric_decimal ` set (revision_metrics d) \<and> dval w \<le> 0 \<and> 0 \<le> dval u \<and> dval w \<le> dval v \<and> dval v \<le> dval u"
proof -
  obtain d where d: "calculate_market_target_outcome demo_zones demo_target demo_reference demo_sessions demo_sources demo_cutoff demo_cutoff = Inr d"
    "outcome_run demo_target demo_reference demo_sessions demo_sources d" using demo_returned by blast
  have ms: "demo_metric 21 1 SIMPLE_RETURN REQUIRED None None \<in> set (target_metrics demo_target)"
    "demo_metric 22 2 MAX_FAVORABLE_EXCURSION REQUIRED None None \<in> set (target_metrics demo_target)"
    "demo_metric 23 3 MAX_ADVERSE_EXCURSION REQUIRED None None \<in> set (target_metrics demo_target)"
    by (simp_all add: demo_target_def demo_metrics_def)
  obtain y v where y: "y \<in> set (revision_metrics d)" "metric_draft_kind y = SIMPLE_RETURN" "metric_decimal y = Some v"
    "metric_definition_id y = 21"
    using demo_metric_value [OF d(2) ms(1)] by (auto simp: demo_metric_def metric_settles_def)
  obtain f u where f: "f \<in> set (revision_metrics d)" "metric_draft_kind f = MAX_FAVORABLE_EXCURSION" "metric_decimal f = Some u"
    "metric_definition_id f = 22"
    using demo_metric_value [OF d(2) ms(2)] by (auto simp: demo_metric_def metric_settles_def)
  obtain a w where a: "a \<in> set (revision_metrics d)" "metric_draft_kind a = MAX_ADVERSE_EXCURSION" "metric_decimal a = Some w"
    "metric_definition_id a = 23"
    using demo_metric_value [OF d(2) ms(3)] by (auto simp: demo_metric_def metric_settles_def)
  have "dval w \<le> 0 \<and> 0 \<le> dval u \<and> dval w \<le> dval v \<and> dval v \<le> dval u"
    by (rule excursions_bracket_the_return [OF demo_ready demo_fit demo_bars d(1) y(1-3) f(1-3) a(1-3)])
      (simp_all add: y(4) f(4) a(4) demo_checkpoints)
  moreover have "{Some u, Some v, Some w} \<subseteq> metric_decimal ` set (revision_metrics d)"
    using y(1,3) f(1,3) a(1,3) by (metis empty_subsetI image_eqI insert_subset)
  ultimately show ?thesis using d(1) by blast
qed

section \<open>Barriers\<close>

text \<open>C11. A barrier metric with a value says whether some bar of its path reached the boundary, its
  highest price for an up and its lowest for a down barrier, and its first passage is the event end
  of the earliest bar that did.\<close>

theorem barriers_find_the_first_passage:
  assumes "outcome_ready zones t r sessions sources observed known" "prices_fit r sources" "return_bars_agree t sources"
    and "calculate_market_target_outcome zones t r sessions sources observed known = Inr d"
    and "y \<in> set (revision_metrics d)" "metric_draft_kind y = BARRIER_HIT" "metric_boolean y = Some b"
  defines "ks \<equiv> set (metric_checkpoints t (metric_definition_id y))"
  shows "\<exists>m dir v r0. m \<in> set (target_metrics t) \<and> definition_id m = metric_definition_id y
    \<and> barrier_direction m = Some dir \<and> barrier_threshold m = Some v \<and> reference_value r = Some r0
    \<and> (let hit = crosses sources dir (boundary_of (dval r0) dir (dval v)) in
       b = (\<exists>k \<in> ks. hit k)
       \<and> (case first_passage_at y of
            None \<Rightarrow> \<forall>k \<in> ks. \<not> hit k
          | Some p \<Rightarrow> \<exists>k \<in> ks. hit k \<and> end_at sources k = Some p
              \<and> (\<forall>k' \<in> ks. hit k' \<longrightarrow> (\<exists>q. end_at sources k' = Some q \<and> instant_of p \<le> instant_of q))))"
proof -
  obtain m where m: "m \<in> set (target_metrics t)" "metric_settles t r (revision_observations d) m y"
    using run_metric_settles [OF returned_run [OF assms(1-4)] assms(5)] by blast
  have "definition_kind m = BARRIER_HIT" "metric_boolean y \<noteq> None" "definition_id m = metric_definition_id y"
    using m(2) assms(6,7) by (simp_all add: metric_settles_def)
  from settled_passage [OF assms(1) returned_parts(2) [OF assms(4)] m(2) this(1,2)] this(3) m(1) show ?thesis
    unfolding passage_rule_def Let_def assms(7) option.inject ks_def by blast
qed

theorem barriers_find_the_first_passage_witness:
  "\<exists>d y. calculate_market_target_outcome demo_zones demo_target demo_reference demo_sessions demo_sources demo_cutoff demo_cutoff = Inr d
    \<and> y \<in> set (revision_metrics d) \<and> metric_draft_kind y = BARRIER_HIT
    \<and> metric_boolean y = Some True \<and> first_passage_at y = Some (demo_at (demo_day + 1) 15)"
proof -
  obtain d where d: "calculate_market_target_outcome demo_zones demo_target demo_reference demo_sessions demo_sources demo_cutoff demo_cutoff = Inr d"
    "outcome_run demo_target demo_reference demo_sessions demo_sources d" using demo_returned by blast
  let ?m = "demo_metric 24 4 BARRIER_HIT REQUIRED (Some Barrier_UP) (Some (Fin False 1 (- 1)))"
  have m: "?m \<in> set (target_metrics demo_target)" by (simp add: demo_target_def demo_metrics_def)
  obtain y b where y: "y \<in> set (revision_metrics d)" "metric_draft_kind y = BARRIER_HIT" "metric_boolean y = Some b"
    "metric_definition_id y = 24"
    using demo_metric_value [OF d(2) m] by (auto simp: demo_metric_def metric_settles_def)
  obtain m dir v r0 where f: "m \<in> set (target_metrics demo_target)" "definition_id m = 24" "barrier_direction m = Some dir"
    "barrier_threshold m = Some v" "reference_value demo_reference = Some r0"
    "b = (\<exists>k \<in> {11}. crosses demo_sources dir (boundary_of (dval r0) dir (dval v)) k)"
    "case first_passage_at y of
       None \<Rightarrow> \<forall>k \<in> {11}. \<not> crosses demo_sources dir (boundary_of (dval r0) dir (dval v)) k
     | Some p \<Rightarrow> \<exists>k \<in> {11}. end_at demo_sources k = Some p"
    using barriers_find_the_first_passage [OF demo_ready demo_fit demo_bars d(1) y(1-3)] unfolding y(4)
    by (auto simp: demo_checkpoints Let_def split: option.splits)
  have "dir = Barrier_UP" "v = Fin False 1 (- 1)" "r0 = Fin False 10 0"
    using f(1-5) by (auto simp: demo_target_def demo_metrics_def demo_metric_def demo_reference_def)
  then have "crosses demo_sources dir (boundary_of (dval r0) dir (dval v)) 11"
    by (simp add: demo_boundaries demo_prices power_int_def)
  then have "b = True" "first_passage_at y = Some (demo_at (demo_day + 1) 15)"
    using f(6,7) by (auto simp: demo_prices split: option.splits)
  then show ?thesis using d(1) y(1-3) by auto
qed

text \<open>C18. Ordering within a bar is not observable: a metric is PARTIAL exactly when it is a barrier
  first passed at an instant that is both the earliest first passage of the up and the earliest of
  the down barriers of the Target; every other metric keeps the status its sources give it.\<close>

theorem ambiguous_barriers_are_partial:
  assumes "outcome_ready zones t r sessions sources observed known" "prices_fit r sources" "return_bars_agree t sources"
    and "calculate_market_target_outcome zones t r sessions sources observed known = Inr d"
    and "y \<in> set (revision_metrics d)"
  defines "up \<equiv> passage_times t Barrier_UP (revision_metrics d)" and "down \<equiv> passage_times t Barrier_DOWN (revision_metrics d)"
  shows "metric_draft_status y = Outcome_PARTIAL \<longleftrightarrow>
    (barrier_passes t Barrier_UP y \<or> barrier_passes t Barrier_DOWN y)
    \<and> up \<noteq> {} \<and> down \<noteq> {} \<and> passage_of y = Min up \<and> passage_of y = Min down"
  using partial_iff_ambiguous [OF returned_run [OF assms(1-4)] assms(5)]
  unfolding ambiguous_def passed_together_def up_def down_def by auto

theorem ambiguous_barriers_are_partial_witness:
  "\<exists>d y. calculate_market_target_outcome demo_zones demo_target demo_reference demo_sessions demo_sources demo_cutoff demo_cutoff = Inr d
    \<and> y \<in> set (revision_metrics d) \<and> metric_definition_id y = 24 \<and> metric_draft_status y = Outcome_PARTIAL"
proof -
  obtain d where d: "calculate_market_target_outcome demo_zones demo_target demo_reference demo_sessions demo_sources demo_cutoff demo_cutoff = Inr d"
    "outcome_run demo_target demo_reference demo_sessions demo_sources d" using demo_returned by blast
  let ?up = "demo_metric 24 4 BARRIER_HIT REQUIRED (Some Barrier_UP) (Some (Fin False 1 (- 1)))"
  let ?down = "demo_metric 25 5 BARRIER_HIT REQUIRED (Some Barrier_DOWN) (Some (Fin False 5 (- 2)))"
  let ?T = "instant_of (demo_at (demo_day + 1) 15)"
  have ms: "?up \<in> set (target_metrics demo_target)" "?down \<in> set (target_metrics demo_target)"
    by (simp_all add: demo_target_def demo_metrics_def)
  have at: "definition_at demo_target 24 = Some ?up" "definition_at demo_target 25 = Some ?down"
    using definition_at_member [OF demo_definitions(1) ms(1)] definition_at_member [OF demo_definitions(1) ms(2)]
    by (simp_all add: demo_metric_def)
  have T: "passage_of y = ?T" if y: "y \<in> set (revision_metrics d)" "barrier_passes demo_target dir y" for y dir
  proof -
    obtain m where m: "m \<in> set demo_metrics" "metric_settles demo_target demo_reference (revision_observations d) m y"
      using demo_ids [OF d(2) y(1)] by blast
    moreover have "definition_kind m = BARRIER_HIT" using m(2) y(2) by (simp add: metric_settles_def barrier_passes_def)
    ultimately show ?thesis using demo_passage(1) [OF d(2)] by (simp add: passage_of_def)
  qed
  have found: "\<exists>y \<in> set (revision_metrics d). metric_definition_id y = definition_id m \<and> barrier_passes demo_target dir y"
    if m: "m \<in> set (target_metrics demo_target)" "definition_id m \<noteq> 26" "definition_kind m = BARRIER_HIT"
      "definition_at demo_target (definition_id m) = Some m" "barrier_direction m = Some dir" for m dir
  proof -
    obtain y where y: "y \<in> set (revision_metrics d)" "metric_settles demo_target demo_reference (revision_observations d) m y"
      using demo_metric_value [OF d(2) m(1,2)] by blast
    have "m \<in> set demo_metrics" using m(1) by (simp add: demo_target_def)
    from demo_passage(1) [OF d(2) this y(2) m(3)] show ?thesis
      using y m(3-5) by (auto simp: barrier_passes_def metric_settles_def)
  qed
  obtain y where y: "y \<in> set (revision_metrics d)" "metric_definition_id y = 24" "barrier_passes demo_target Barrier_UP y"
    using found [OF ms(1), of Barrier_UP] at(1) by (auto simp: demo_metric_def)
  obtain z where z: "z \<in> set (revision_metrics d)" "barrier_passes demo_target Barrier_DOWN z"
    using found [OF ms(2), of Barrier_DOWN] at(2) by (auto simp: demo_metric_def)
  have "passage_times demo_target Barrier_UP (revision_metrics d) = {?T}" "passage_times demo_target Barrier_DOWN (revision_metrics d) = {?T}"
    unfolding passage_times_def using T y z by (fastforce simp: image_iff)+
  then have "metric_draft_status y = Outcome_PARTIAL"
    using ambiguous_barriers_are_partial [OF demo_ready demo_fit demo_bars d(1) y(1)] T [OF y(1,3)] y(3) by simp
  then show ?thesis using d(1) y by blast
qed

section \<open>Sources\<close>

text \<open>C22. A metric never has a value from a gap: it fails when a checkpoint it depends on has a failed,
  conflicting or invalid source or the reference it needs failed, is unavailable when one is missing,
  and has a value exactly when every checkpoint has a bar and the reference it needs is present.\<close>

theorem gaps_never_give_a_value:
  assumes "outcome_ready zones t r sessions sources observed known" "prices_fit r sources" "return_bars_agree t sources"
    and "calculate_market_target_outcome zones t r sessions sources observed known = Inr d"
    and "y \<in> set (revision_metrics d)"
  shows "(if metric_fails t r sources y then metric_draft_status y = Outcome_FAILED
      else if metric_lacks t r sources y then metric_draft_status y = Outcome_UNAVAILABLE
      else metric_draft_status y \<in> {Outcome_COMPLETE, Outcome_PARTIAL})
    \<and> (metric_lacks t r sources y \<longleftrightarrow> metric_decimal y = None \<and> metric_boolean y = None)"
proof -
  obtain m where m: "m \<in> set (target_metrics t)" "metric_settles t r (revision_observations d) m y"
    using run_metric_settles [OF returned_run [OF assms(1-4)] assms(5)] by blast
  show ?thesis using settled_status [OF assms(1) returned_parts(2) [OF assms(4)] m] by blast
qed

theorem gaps_never_give_a_value_witness:
  "\<exists>d y. calculate_market_target_outcome demo_zones demo_target demo_reference demo_sessions demo_sources demo_cutoff demo_cutoff = Inr d
    \<and> y \<in> set (revision_metrics d) \<and> metric_definition_id y = 26 \<and> metric_draft_status y = Outcome_UNAVAILABLE
    \<and> metric_decimal y = None"
proof -
  obtain d where d: "calculate_market_target_outcome demo_zones demo_target demo_reference demo_sessions demo_sources demo_cutoff demo_cutoff = Inr d"
    "outcome_run demo_target demo_reference demo_sessions demo_sources d" using demo_returned by blast
  have "demo_metric 26 6 OBSERVATION_VALUE OPTIONAL None None \<in> set (target_metrics demo_target)"
    by (simp add: demo_target_def demo_metrics_def)
  from run_definition [OF d(2) this demo_definitions(1)] obtain y where y: "y \<in> set (revision_metrics d)"
    "metric_definition_id y = 26" "metric_draft_kind y = OBSERVATION_VALUE"
    by (auto simp: demo_metric_def metric_settles_def)
  have "metric_lacks demo_target demo_reference demo_sources y" "\<not> metric_fails demo_target demo_reference demo_sources y"
    using demo_lacks [of y] y(2,3) by (simp_all add: metric_fails_def demo_checkpoints demo_prices)
  then show ?thesis using gaps_never_give_a_value [OF demo_ready demo_fit demo_bars d(1) y(1)] d(1) y(1,2) by auto
qed

text \<open>C23. No look-ahead: in every revision the kernel returns, each observation ends at the local time
  of its checkpoint on the date of its session and not after the observation cutoff, and nothing in
  the revision was known after the knowledge cutoff.\<close>

theorem revisions_do_not_look_ahead:
  assumes "calculate_market_target_outcome zones t r sessions sources observed known = Inr d"
  shows "observation_cutoff d = observed \<and> knowledge_cutoff d = known
    \<and> (\<forall>s \<in> set (revision_sessions d). instant_of (session_known_at s) \<le> instant_of known)
    \<and> list_all2 (\<lambda>c x. observation_checkpoint_id x = checkpoint_id c
        \<and> instant_of (observation_end x) \<le> instant_of observed \<and> instant_of (observation_known_at x) \<le> instant_of known
        \<and> (\<exists>session zone. session_at (revision_sessions d) (checkpoint_offset c) = Some session \<and> zones (checkpoint_zone c) = Some zone
            \<and> instant_of (observation_end x) = zone (session_date session) (time_of (checkpoint_time c))))
      (target_checkpoints t) (revision_observations d)"
proof -
  note p = returned_parts [OF assms]
  note a = inputs_aligned [OF p(1)] and o' = observation_rows_run [OF p(1,2)]
  have "list_all2 (\<lambda>c x. observation_checkpoint_id x = checkpoint_id c
        \<and> instant_of (observation_end x) \<le> instant_of observed \<and> instant_of (observation_known_at x) \<le> instant_of known
        \<and> (\<exists>session zone. session_at sessions (checkpoint_offset c) = Some session \<and> zones (checkpoint_zone c) = Some zone
            \<and> instant_of (observation_end x) = zone (session_date session) (time_of (checkpoint_time c))))
      (target_checkpoints t) (revision_observations d)"
  proof (rule list_all2_all_nthI)
    show "length (target_checkpoints t) = length (revision_observations d)" using a(1) o'(1) by simp
  next
    fix i assume i: "i < length (target_checkpoints t)"
    let ?c = "target_checkpoints t ! i" and ?s = "sources ! i" and ?x = "revision_observations d ! i"
    have "(?c, ?s) \<in> set (zip (target_checkpoints t) sources)" using i a(1) by (auto simp: in_set_zip)
    note cut = source_within_cutoffs [OF p(1) this]
    have "observes ?x (?c, ?s)" using o'(2) i a(1) by simp
    note f = observes_fields [OF this]
    have "source_checkpoint_id ?s = checkpoint_id ?c" using a(1,2) i by (metis nth_map)
    then show "observation_checkpoint_id ?x = checkpoint_id ?c
        \<and> instant_of (observation_end ?x) \<le> instant_of observed \<and> instant_of (observation_known_at ?x) \<le> instant_of known
        \<and> (\<exists>session zone. session_at sessions (checkpoint_offset ?c) = Some session \<and> zones (checkpoint_zone ?c) = Some zone
            \<and> instant_of (observation_end ?x) = zone (session_date session) (time_of (checkpoint_time ?c)))"
      using cut f by auto
  qed
  then show ?thesis using a(5) p(3-5) by simp
qed

theorem revisions_do_not_look_ahead_witness:
  "\<exists>d. calculate_market_target_outcome demo_zones demo_target demo_reference demo_sessions demo_sources demo_cutoff demo_cutoff = Inr d
    \<and> (\<forall>x \<in> set (revision_observations d). instant_of (observation_end x) \<le> instant_of demo_cutoff)"
proof -
  obtain d where d: "calculate_market_target_outcome demo_zones demo_target demo_reference demo_sessions demo_sources demo_cutoff demo_cutoff = Inr d"
    using demo_returned by blast
  have "instant_of (observation_end x) \<le> instant_of demo_cutoff" if "x \<in> set (revision_observations d)" for x
    using revisions_do_not_look_ahead [OF d] that by (auto dest!: list_all2_right)
  with d show ?thesis by blast
qed

section \<open>Roll-up and reasons\<close>

text \<open>C24. The status and availability of a revision are the only ones the aggregate check of the
  closure trigger accepts for its metrics, and the trigger accepts none for a Target without a
  REQUIRED metric.\<close>

theorem roll_up_reconciles:
  assumes "calculate_market_target_outcome zones t r sessions sources observed known = Inr d"
  shows "outcome_reconciles (revision_metrics d) st av \<longleftrightarrow>
    (\<exists>m \<in> set (revision_metrics d). metric_completion m = REQUIRED) \<and> st = revision_status d \<and> av = revision_availability d"
  unfolding reconciles_iff returned_parts(7) [OF assms, symmetric] by simp

theorem roll_up_reconciles_witness:
  "\<exists>d. calculate_market_target_outcome demo_zones demo_target demo_reference demo_sessions demo_sources demo_cutoff demo_cutoff = Inr d
    \<and> outcome_reconciles (revision_metrics d) (revision_status d) (revision_availability d)"
proof -
  obtain d where d: "calculate_market_target_outcome demo_zones demo_target demo_reference demo_sessions demo_sources demo_cutoff demo_cutoff = Inr d"
    "outcome_run demo_target demo_reference demo_sessions demo_sources d" using demo_returned by blast
  obtain ms where ms: "list_all2 (metric_outcome demo_target demo_reference (revision_observations d)) (target_metrics demo_target) ms"
    "list_all2 (settled_as demo_target ms) ms (revision_metrics d)" using d(2) by (auto simp: outcome_run_def)
  have "map metric_completion (revision_metrics d) = map definition_completion (target_metrics demo_target)"
    using list_all2_map_eq [OF ms(2) settled_as_fields(4)] list_all2_map_eq [OF ms(1) result_fields(4)] by simp
  from arg_cong [OF this, of set] have "REQUIRED \<in> metric_completion ` set (revision_metrics d)"
    by (simp add: demo_target_def demo_metrics_def demo_metric_def)
  then have "\<exists>m \<in> set (revision_metrics d). metric_completion m = REQUIRED" by (metis imageE)
  then show ?thesis using roll_up_reconciles [OF d(1)] d(1) by blast
qed

text \<open>C25. The reasons of a revision are complete and canonical: one for each observation and each
  metric that is not COMPLETE, one more for each ambiguous barrier, no other, without repetition,
  sorted by dimension, code and identities, and numbered from 1.\<close>

theorem reasons_are_complete:
  assumes "outcome_ready zones t r sessions sources observed known" "prices_fit r sources" "return_bars_agree t sources"
    and "calculate_market_target_outcome zones t r sessions sources observed known = Inr d"
  defines "vs \<equiv> map value_of_reason (revision_reasons d)"
  shows "set vs =
      {(Reason_OBSERVATION, ''OBSERVATION_'' @ outcome_status_value (observation_status x), Some (observation_checkpoint_id x), None) | x.
         x \<in> set (revision_observations d) \<and> observation_status x \<noteq> Outcome_COMPLETE}
      \<union> {(Reason_METRIC, ''METRIC_'' @ outcome_status_value (metric_draft_status y), None, Some (metric_definition_id y)) | y.
         y \<in> set (revision_metrics d) \<and> metric_draft_status y \<noteq> Outcome_COMPLETE}
      \<union> {(Reason_METRIC, ''INTRABAR_ORDERING_NOT_OBSERVABLE'', None, Some (metric_definition_id y)) | y.
         y \<in> set (revision_metrics d) \<and> metric_draft_status y = Outcome_PARTIAL}
    \<and> distinct vs \<and> sorted (map reason_key vs)
    \<and> map reason_draft_ordinal (revision_reasons d) = map int [1..<Suc (length (revision_reasons d))]"
proof -
  note run = returned_run [OF assms(1-4)]
  obtain ms amb where ms: "list_all2 (settled_as t ms) ms (revision_metrics d)"
    and amb: "set amb = metric_definition_id ` {m \<in> set ms. ambiguous t ms m}"
    and rs: "revision_reasons d = map reason_row (numbered (sorted_reasons (revision_observations d) (revision_metrics d) amb))"
    using run by (auto simp: outcome_run_def)
  have "map metric_definition_id (filter (ambiguous t ms) xs) = map metric_definition_id (filter (\<lambda>y. ambiguous t (revision_metrics d) y) ys)"
    if "list_all2 (settled_as t ms) xs ys" for xs ys
    using that by (induction rule: list_all2_induct) (simp_all add: settled_ambiguous [OF ms] settled_as_fields(1))
  from arg_cong [OF this [OF ms], of set]
  have "set amb = metric_definition_id ` {y \<in> set (revision_metrics d). metric_draft_status y = Outcome_PARTIAL}"
    unfolding amb using partial_iff_ambiguous [OF run] by (auto cong: conj_cong)
  then have third: "{(Reason_METRIC, ''INTRABAR_ORDERING_NOT_OBSERVABLE'', None :: uuid option, Some i) | i. i \<in> set amb} =
      {(Reason_METRIC, ''INTRABAR_ORDERING_NOT_OBSERVABLE'', None, Some (metric_definition_id y)) | y.
         y \<in> set (revision_metrics d) \<and> metric_draft_status y = Outcome_PARTIAL}" by blast
  have vs: "vs = sorted_reasons (revision_observations d) (revision_metrics d) amb"
    unfolding vs_def by (rule returned_reasons(1) [OF rs])
  have sorted: "distinct vs" "sorted (map reason_key vs)" unfolding vs sorted_reasons_def by simp_all
  have values': "set vs = set (reason_values (revision_observations d) (revision_metrics d) amb)"
    unfolding vs sorted_reasons_def by simp
  show ?thesis
    by (rule conjI [OF values' [unfolded reason_values_set third] conjI [OF sorted(1) conjI [OF sorted(2) returned_reasons(2) [OF rs]]]])
qed

theorem reasons_are_complete_witness:
  "\<exists>d. calculate_market_target_outcome demo_zones demo_target demo_reference demo_sessions demo_sources demo_cutoff demo_cutoff = Inr d
    \<and> distinct (map value_of_reason (revision_reasons d)) \<and> sorted (map reason_key (map value_of_reason (revision_reasons d)))"
proof -
  obtain d where d: "calculate_market_target_outcome demo_zones demo_target demo_reference demo_sessions demo_sources demo_cutoff demo_cutoff = Inr d"
    using demo_returned by blast
  note rs = conjunct2 [OF reasons_are_complete [OF demo_ready demo_fit demo_bars d]]
  show ?thesis by (intro exI conjI, rule d, rule conjunct1 [OF rs], rule conjunct1 [OF conjunct2 [OF rs]])
qed

end
