(* ===== verification/Outcome_Authority.thy ===== *)
theory Outcome_Authority
  imports Outcome_Kernel
begin

text \<open>
  \<open>outcome/domain/authority.py\<close>: the commitment an Outcome settles, the Runtime it is settled by, and
  the revision with the persistent identity of every fact, built from a draft and a plan of fresh
  identities. \<open>id_factory\<close> is the argument \<open>ids\<close>: the identity of its n-th call.
\<close>

section \<open>The commitment and the Runtime\<close>

definition outcome_code_sha_ok :: "string \<Rightarrow> bool" where
  "outcome_code_sha_ok s \<longleftrightarrow> (length s = 40 \<or> length s = 64) \<and> list_all is_lower_hex s"

definition outcome_request_ok :: "string \<Rightarrow> bool" where
  "outcome_request_ok = head_tail_match is_alnum (\<lambda>c. is_alnum c \<or> c \<in> set ''._:/-'') 199"

definition outcome_runtime_modes :: "string set" where
  "outcome_runtime_modes = {''OPERATIONAL'', ''HISTORICAL'', ''REPLAY'', ''SHADOW'', ''PROSPECTIVE''}"

record outcome_scope =
  outcome_scope_run_id :: uuid
  outcome_scope_archive_id :: uuid
  outcome_scope_seal_id :: uuid
  outcome_scope_knowledge_cutoff :: py_datetime
  outcome_scope_simulated_cutoff :: py_datetime
  outcome_scope_binding_sha256 :: string
  outcome_scope_sha256 :: string

definition outcome_scope_fields :: "outcome_scope \<Rightarrow> (string \<times> pyval) list" where
  "outcome_scope_fields s =
     [(''decision_binding_sha256'', PStr (outcome_scope_binding_sha256 s)),
      (''decision_run_id'', PUuid (outcome_scope_run_id s)),
      (''evidence_lane'', PStr ''EXPLORATORY_RETROSPECTIVE''),
      (''knowledge_cutoff'', PDatetime (outcome_scope_knowledge_cutoff s)),
      (''market_archive_id'', PUuid (outcome_scope_archive_id s)),
      (''market_archive_seal_id'', PUuid (outcome_scope_seal_id s)),
      (''simulated_event_cutoff'', PDatetime (outcome_scope_simulated_cutoff s))]"

definition outcome_scope_init :: "outcome_scope \<Rightarrow> outcome_scope result" where
  "outcome_scope_init s =
     bindE (require_utc ''knowledge_cutoff'' (outcome_scope_knowledge_cutoff s)) (\<lambda>knowledge.
     bindE (require_utc ''simulated_event_cutoff'' (outcome_scope_simulated_cutoff s)) (\<lambda>simulated.
     thenE (guardE (\<not> instant_of simulated \<ge> instant_of knowledge)
       (ValueError ''retrospective Outcome cutoffs are out of order''))
    (bindE (content_hash (outcome_scope_binding_sha256 s)) (\<lambda>binding.
     let s = s\<lparr>outcome_scope_knowledge_cutoff := knowledge, outcome_scope_simulated_cutoff := simulated,
         outcome_scope_binding_sha256 := binding\<rparr> in
     bindE (canonical_json_sha256 (PMapping (outcome_scope_fields s))) (\<lambda>h.
     Inr (s\<lparr>outcome_scope_sha256 := h\<rparr>))))))"

record outcome_commitment =
  outcome_commitment_id :: uuid
  commitment_run_id :: uuid
  commitment_run_target_id :: uuid
  commitment_candidate_set_id :: uuid
  commitment_candidate_id :: uuid
  commitment_instrument_id :: uuid
  commitment_target_id :: uuid
  commitment_target_version :: int
  commitment_target_sha256 :: string
  commitment_checkpoint_id :: uuid
  commitment_product_id :: uuid
  commitment_capture_id :: uuid
  commitment_session_id :: uuid
  commitment_source_kind :: string
  commitment_fact_id :: uuid
  commitment_reference_known_at :: py_datetime
  commitment_decision_time :: py_datetime
  commitment_runtime_mode :: string
  commitment_recorded_at :: py_datetime
  commitment_reference :: frozen_decision_reference
  commitment_scope :: "outcome_scope option"

text \<open>The scope check, and the cutoff at which the reference had to be visible.\<close>

definition outcome_visibility_cutoff :: "outcome_commitment \<Rightarrow> py_datetime result" where
  "outcome_visibility_cutoff c =
     (case commitment_scope c of
        None \<Rightarrow> Inr (commitment_decision_time c)
      | Some s \<Rightarrow>
          thenE (guardE (\<not> (outcome_scope_run_id s \<noteq> commitment_run_id c
              \<or> instant_of (outcome_scope_simulated_cutoff s) \<noteq> instant_of (commitment_decision_time c)
              \<or> commitment_runtime_mode c \<notin> {''HISTORICAL'', ''REPLAY''}))
            (ValueError ''retrospective Outcome scope differs from its Decision''))
          (Inr (outcome_scope_knowledge_cutoff s)))"

definition outcome_commitment_init :: "outcome_commitment \<Rightarrow> outcome_commitment result" where
  "outcome_commitment_init c =
     thenE (guardE (\<not> commitment_target_version c < 1) (ValueError ''Outcome commitment Target version must be positive''))
     (thenE (outcome_sha ''Outcome commitment Target hash'' (commitment_target_sha256 c))
     (bindE (require_utc ''Outcome commitment DecisionTime'' (commitment_decision_time c)) (\<lambda>decision.
      bindE (require_utc ''Outcome commitment recorded time'' (commitment_recorded_at c)) (\<lambda>recorded.
      bindE (require_utc ''Decision reference known_at'' (commitment_reference_known_at c)) (\<lambda>known.
      let c = c\<lparr>commitment_decision_time := decision, commitment_recorded_at := recorded,
          commitment_reference_known_at := known\<rparr> in
      thenE (guardE (commitment_runtime_mode c \<in> outcome_runtime_modes) (ValueError ''Outcome commitment Runtime mode is invalid''))
     (thenE (guardE (\<not> instant_of recorded < instant_of decision)
        (ValueError ''Outcome commitment cannot precede DecisionTime''))
     (bindE (outcome_visibility_cutoff c) (\<lambda>cutoff.
      thenE (guardE (\<not> instant_of known > instant_of cutoff)
        (ValueError ''Outcome Decision reference was not visible at its authorized cutoff''))
     (thenE (guardE (commitment_source_kind c \<in> {''BAR_REVISION'', ''SOURCE_GAP''})
        (ValueError ''Outcome Decision reference source kind is invalid''))
     (Inr c))))))))))"

record outcome_runtime =
  outcome_run_id :: uuid
  outcome_step_id :: uuid
  outcome_attempt_id :: uuid
  outcome_fence_token :: int
  outcome_step_key :: string
  outcome_step_kind :: string
  outcome_runtime_mode :: string
  outcome_decision_time :: py_datetime
  outcome_code_sha :: string
  outcome_config_artifact_id :: uuid
  outcome_config_hash :: string

definition outcome_runtime_init :: "outcome_runtime \<Rightarrow> outcome_runtime result" where
  "outcome_runtime_init r =
     thenE (guardE (\<not> (outcome_fence_token r < 1 \<or> outcome_step_key r = []))
       (ValueError ''Outcome Runtime fence/Step key is invalid''))
     (thenE (guardE (outcome_step_kind r = ''SETTLE_OUTCOME'') (ValueError ''Outcome settlement requires SETTLE_OUTCOME''))
     (thenE (guardE (outcome_runtime_mode r \<in> outcome_runtime_modes) (ValueError ''Outcome Runtime mode is invalid''))
     (bindE (require_utc ''Outcome Runtime DecisionTime'' (outcome_decision_time r)) (\<lambda>decision.
      thenE (guardE (outcome_code_sha_ok (outcome_code_sha r)) (ValueError ''Outcome Runtime code identity is invalid''))
     (thenE (outcome_sha ''Outcome Runtime config hash'' (outcome_config_hash r))
     (Inr (r\<lparr>outcome_decision_time := decision\<rparr>)))))))"

section \<open>Facts with identities\<close>

datatype outcome_source_role = CALENDAR_SESSION | OUTCOME_OBSERVATION

record outcome_source_authority =
  source_authority_id :: uuid
  source_authority_ordinal :: int
  source_authority_session :: outcome_session_source
  source_authority_source :: "outcome_observation_source option"
  source_authority_checkpoint :: "uuid option"
  source_authority_observed :: py_datetime
  source_authority_known :: py_datetime
  source_authority_sha256 :: string

definition source_role_of :: "outcome_source_authority \<Rightarrow> outcome_source_role" where
  "source_role_of a = (if source_authority_source a = None then CALENDAR_SESSION else OUTCOME_OBSERVATION)"

definition source_authority_payload :: "outcome_source_authority \<Rightarrow> pyval" where
  "source_authority_payload a = PMapping
     [(''knowledge_cutoff'', PDatetime (source_authority_known a)),
      (''observation_cutoff'', PDatetime (source_authority_observed a)),
      (''observation_source'', optional_payload source_dataclass (source_authority_source a)),
      (''ordinal'', PInt (source_authority_ordinal a)),
      (''session'', session_dataclass (source_authority_session a)),
      (''target_checkpoint_id'', optional_payload PUuid (source_authority_checkpoint a))]"

definition outcome_source_authority_init :: "outcome_source_authority \<Rightarrow> outcome_source_authority result" where
  "outcome_source_authority_init a =
     mapR (\<lambda>h. a\<lparr>source_authority_sha256 := h\<rparr>) (canonical_json_sha256 (source_authority_payload a))"

record outcome_observation_authority =
  observation_authority_id :: uuid
  observation_authority_ordinal :: int
  observation_authority_source :: uuid
  observation_draft_index :: nat
  observation_authority_sha256 :: string

record outcome_metric_authority =
  metric_authority_id :: uuid
  metric_authority_ordinal :: int
  metric_draft_index :: nat
  metric_authority_sha256 :: string

record outcome_reference_authority =
  reference_authority_id :: uuid
  reference_authority_ordinal :: int
  reference_draft_index :: nat
  reference_authority_metric :: uuid
  reference_target_sha256 :: string
  reference_authority_sha256 :: string

record outcome_dependency_authority =
  dependency_authority_id :: uuid
  dependency_authority_ordinal :: int
  dependency_draft_index :: nat
  dependency_authority_metric :: uuid
  dependency_authority_observation :: uuid
  dependency_target_sha256 :: string
  dependency_authority_sha256 :: string

record outcome_reason_authority =
  reason_authority_id :: uuid
  reason_authority_ordinal :: int
  reason_draft_index :: nat
  reason_authority_source :: "uuid option"
  reason_authority_observation :: "uuid option"
  reason_authority_metric :: "uuid option"
  reason_authority_sha256 :: string

section \<open>The revision\<close>

record outcome_revision_authority =
  revision_authority_id :: uuid
  revision_outcome_id :: uuid
  revision_ordinal :: int
  supersedes_revision_id :: "uuid option"
  supersedes_revision_ordinal :: "int option"
  revision_draft :: outcome_revision_draft
  authority_sources :: "outcome_source_authority list"
  authority_observations :: "outcome_observation_authority list"
  authority_metrics :: "outcome_metric_authority list"
  authority_references :: "outcome_reference_authority list"
  authority_dependencies :: "outcome_dependency_authority list"
  authority_reasons :: "outcome_reason_authority list"
  revision_runtime :: outcome_runtime
  revision_request_identity :: string
  revision_request_sha256 :: string
  revision_received_at :: py_datetime
  revision_settled_at :: py_datetime
  revision_receipt_id :: uuid
  revision_actor_type :: string
  revision_actor_id :: string
  revision_reason_code :: string
  authority_source_roster_sha256 :: string
  authority_observation_roster_sha256 :: string
  authority_metric_roster_sha256 :: string
  authority_reference_roster_sha256 :: string
  authority_dependency_roster_sha256 :: string
  authority_reason_roster_sha256 :: string
  authority_summary_sha256 :: string

text \<open>A roster of facts: hash, identity under its column name, ordinal.\<close>

definition authority_roster :: "string \<Rightarrow> (string \<times> uuid \<times> int) list \<Rightarrow> pyval" where
  "authority_roster name rows = PSequence (map (\<lambda>(sha, i, n). PMapping
     [(''content_sha256'', PStr sha), (name, PUuid i), (''ordinal'', PInt n)]) rows)"

definition authority_source_roster :: "outcome_revision_authority \<Rightarrow> pyval" where
  "authority_source_roster r = authority_roster ''market_target_outcome_source_id''
     (map (\<lambda>x. (source_authority_sha256 x, source_authority_id x, source_authority_ordinal x)) (authority_sources r))"

definition authority_observation_roster :: "outcome_revision_authority \<Rightarrow> pyval" where
  "authority_observation_roster r = authority_roster ''market_target_outcome_observation_id''
     (map (\<lambda>x. (observation_authority_sha256 x, observation_authority_id x, observation_authority_ordinal x)) (authority_observations r))"

definition authority_metric_roster :: "outcome_revision_authority \<Rightarrow> pyval" where
  "authority_metric_roster r = authority_roster ''market_target_outcome_metric_id''
     (map (\<lambda>x. (metric_authority_sha256 x, metric_authority_id x, metric_authority_ordinal x)) (authority_metrics r))"

definition authority_reference_roster :: "outcome_revision_authority \<Rightarrow> pyval" where
  "authority_reference_roster r = authority_roster ''market_target_outcome_metric_reference_id''
     (map (\<lambda>x. (reference_authority_sha256 x, reference_authority_id x, reference_authority_ordinal x)) (authority_references r))"

definition authority_dependency_roster :: "outcome_revision_authority \<Rightarrow> pyval" where
  "authority_dependency_roster r = authority_roster ''market_target_outcome_metric_observation_id''
     (map (\<lambda>x. (dependency_authority_sha256 x, dependency_authority_id x, dependency_authority_ordinal x)) (authority_dependencies r))"

definition authority_reason_roster :: "outcome_revision_authority \<Rightarrow> pyval" where
  "authority_reason_roster r = authority_roster ''market_target_outcome_reason_id''
     (map (\<lambda>x. (reason_authority_sha256 x, reason_authority_id x, reason_authority_ordinal x)) (authority_reasons r))"

definition authority_summary_payload :: "outcome_revision_authority \<Rightarrow> pyval" where
  "authority_summary_payload r =
     (let d = revision_draft r in PMapping
     [(''availability_status'', PStr (outcome_availability_value (revision_availability d))),
      (''decision_reference_observation_id'', PUuid (revision_reference_id d)),
      (''decision_reference_sha256'', PStr (revision_reference_sha256 d)),
      (''finality_status'', PStr ''UNKNOWN''),
      (''knowledge_cutoff'', PDatetime (knowledge_cutoff d)),
      (''metric_count'', PInt (int (length (authority_metrics r)))),
      (''metric_roster_sha256'', PStr (authority_metric_roster_sha256 r)),
      (''observation_count'', PInt (int (length (authority_observations r)))),
      (''observation_cutoff'', PDatetime (observation_cutoff d)),
      (''observation_dependency_count'', PInt (int (length (authority_dependencies r)))),
      (''observation_dependency_roster_sha256'', PStr (authority_dependency_roster_sha256 r)),
      (''observation_roster_sha256'', PStr (authority_observation_roster_sha256 r)),
      (''outcome_status'', PStr (outcome_status_value (revision_status d))),
      (''reason_count'', PInt (int (length (authority_reasons r)))),
      (''reason_roster_sha256'', PStr (authority_reason_roster_sha256 r)),
      (''reference_dependency_count'', PInt (int (length (authority_references r)))),
      (''reference_dependency_roster_sha256'', PStr (authority_reference_roster_sha256 r)),
      (''source_count'', PInt (int (length (authority_sources r)))),
      (''source_roster_sha256'', PStr (authority_source_roster_sha256 r)),
      (''target_definition_id'', PUuid (revision_target_id d)),
      (''target_definition_sha256'', PStr (revision_target_sha256 d))])"

definition authority_checks :: "outcome_revision_authority \<Rightarrow> py_error + unit" where
  "authority_checks r =
     thenE (guardE (\<not> (revision_ordinal r < 1 \<or> (revision_ordinal r = 1) \<noteq> (supersedes_revision_id r = None)))
       (ValueError ''Outcome revision predecessor shape is invalid''))
     (thenE (guardE (supersedes_revision_ordinal r = (if revision_ordinal r = 1 then None else Some (revision_ordinal r - 1)))
       (ValueError ''Outcome revision predecessor ordinal is invalid''))
     (thenE (guardE (outcome_request_ok (revision_request_identity r)) (ValueError ''Outcome request identity is invalid''))
     (thenE (outcome_sha ''Outcome request hash'' (revision_request_sha256 r))
     (guardE (\<not> (revision_actor_id r = [] \<or> \<not> code_ok (revision_reason_code r)))
       (ValueError ''Outcome creation provenance is invalid'')))))"

definition outcome_revision_authority_init :: "outcome_revision_authority \<Rightarrow> outcome_revision_authority result" where
  "outcome_revision_authority_init r =
     thenE (authority_checks r)
     (bindE (require_utc ''Outcome request received time'' (revision_received_at r)) (\<lambda>received.
      bindE (require_utc ''Outcome settled time'' (revision_settled_at r)) (\<lambda>settled.
      let r = r\<lparr>revision_received_at := received, revision_settled_at := settled\<rparr> in
      thenE (guardE (\<not> instant_of settled < instant_of received)
        (ValueError ''Outcome settlement cannot precede request receipt''))
     (bindE (canonical_json_sha256 (authority_source_roster r)) (\<lambda>hs.
      bindE (canonical_json_sha256 (authority_observation_roster r)) (\<lambda>ho.
      bindE (canonical_json_sha256 (authority_metric_roster r)) (\<lambda>hm.
      bindE (canonical_json_sha256 (authority_reference_roster r)) (\<lambda>hr.
      bindE (canonical_json_sha256 (authority_dependency_roster r)) (\<lambda>hd.
      bindE (canonical_json_sha256 (authority_reason_roster r)) (\<lambda>hq.
      let r = r\<lparr>authority_source_roster_sha256 := hs, authority_observation_roster_sha256 := ho,
          authority_metric_roster_sha256 := hm, authority_reference_roster_sha256 := hr,
          authority_dependency_roster_sha256 := hd, authority_reason_roster_sha256 := hq\<rparr> in
      bindE (canonical_json_sha256 (authority_summary_payload r)) (\<lambda>h.
      Inr (r\<lparr>authority_summary_sha256 := h\<rparr>))))))))))))"

record outcome_root_authority =
  root_outcome_id :: uuid
  root_commitment :: outcome_commitment
  root_created_at :: py_datetime

record market_target_outcome_authority =
  outcome_root :: outcome_root_authority
  outcome_revision :: outcome_revision_authority
  outcome_commitment_of :: outcome_commitment
  outcome_target_of :: outcome_target_definition

section \<open>Identities\<close>

record outcome_identity_plan =
  plan_outcome_id :: uuid
  plan_revision_id :: uuid
  plan_source_ids :: "uuid list"
  plan_observation_ids :: "uuid list"
  plan_metric_ids :: "uuid list"
  plan_reference_ids :: "uuid list"
  plan_dependency_ids :: "uuid list"
  plan_reason_ids :: "uuid list"

text \<open>\<open>tuple(id_factory() for _ in xs)\<close> from the n-th call on.\<close>

definition fresh_ids :: "(nat \<Rightarrow> uuid) \<Rightarrow> nat \<Rightarrow> 'a list \<Rightarrow> uuid list" where
  "fresh_ids ids n xs = map ids [n..<n + length xs]"

definition outcome_identity_plan_create ::
  "outcome_revision_draft \<Rightarrow> (nat \<Rightarrow> uuid) \<Rightarrow> uuid option \<Rightarrow> outcome_identity_plan" where
  "outcome_identity_plan_create d ids outcome =
     (let n0 = (case outcome of None \<Rightarrow> 1 | Some i \<Rightarrow> 0);
          ns = Suc n0; no = ns + length (revision_sessions d) + length (revision_sources d);
          nm = no + length (revision_observations d); nr = nm + length (revision_metrics d);
          nd = nr + length (reference_dependencies d); nq = nd + length (observation_dependencies d) in
      \<lparr>plan_outcome_id = (case outcome of None \<Rightarrow> ids 0 | Some i \<Rightarrow> i), plan_revision_id = ids n0,
       plan_source_ids = fresh_ids ids ns (map (\<lambda>_. ()) (revision_sessions d) @ map (\<lambda>_. ()) (revision_sources d)),
       plan_observation_ids = fresh_ids ids no (revision_observations d),
       plan_metric_ids = fresh_ids ids nm (revision_metrics d),
       plan_reference_ids = fresh_ids ids nr (reference_dependencies d),
       plan_dependency_ids = fresh_ids ids nd (observation_dependencies d),
       plan_reason_ids = fresh_ids ids nq (revision_reasons d)\<rparr>)"

end
