(* ===== verification/Outcome_Settlement.thy ===== *)
theory Outcome_Settlement
  imports Outcome_Authority
begin

text \<open>
  The rest of \<open>outcome/domain\<close>: \<open>build_market_target_outcome_authority\<close> of \<open>authority.py\<close>, the prepared
  inputs of \<open>preparation.py\<close>, the projection of \<open>economic_prices.py\<close> and the report of
  \<open>verification.py\<close>. A dict the code builds in a loop is the list of its entries, looked up from the
  end; \<open>zip(..., strict=True)\<close> yields its pairs and then compares the lengths.
\<close>

section \<open>Lookups\<close>

definition last_entry :: "('k \<times> 'v) list \<Rightarrow> 'k \<Rightarrow> 'v result" where
  "last_entry kvs k = optE (map_of (rev kvs) k) KeyError"

definition tuple_item :: "'a list \<Rightarrow> nat \<Rightarrow> 'a result" where
  "tuple_item xs n = (if n < length xs then Inr (xs ! n) else Inl (PyRuntimeError ''tuple index out of range''))"

text \<open>A pass over two rosters that must have one length, with the index of each pair.\<close>

definition zip_strictE :: "(nat \<Rightarrow> 'a \<Rightarrow> 'b \<Rightarrow> 'c result) \<Rightarrow> 'a list \<Rightarrow> 'b list \<Rightarrow> 'c list result" where
  "zip_strictE f xs ys =
     bindE (mapE (\<lambda>(n, x, y). f n x y) (enumerate 0 (zip xs ys))) (\<lambda>zs.
     thenE (guardE (length xs = length ys) (ValueError ''zip() arguments differ in length'')) (Inr zs))"

section \<open>Building the authority\<close>

definition reference_from_draft :: "frozen_decision_reference \<Rightarrow> outcome_revision_draft \<Rightarrow> frozen_decision_reference result" where
  "reference_from_draft r d =
     thenE (guardE (\<not> (decision_reference_id r \<noteq> revision_reference_id d \<or> reference_sha256 r \<noteq> revision_reference_sha256 d))
       (ValueError ''Outcome draft did not preserve the frozen Decision reference''))
     (Inr r)"

definition build_session_source ::
  "outcome_revision_draft \<Rightarrow> nat \<times> uuid \<times> outcome_session_source \<Rightarrow> outcome_source_authority result" where
  "build_session_source d nis =
     (case nis of (n, i, s) \<Rightarrow> outcome_source_authority_init
        \<lparr>source_authority_id = i, source_authority_ordinal = int n, source_authority_session = s,
         source_authority_source = None, source_authority_checkpoint = None,
         source_authority_observed = observation_cutoff d, source_authority_known = knowledge_cutoff d,
         source_authority_sha256 = []\<rparr>)"

text \<open>One source of a checkpoint, with the entry it adds to \<open>observation_source_ids\<close>.\<close>

definition build_checkpoint_source ::
  "outcome_target_definition \<Rightarrow> outcome_revision_draft \<Rightarrow> uuid list \<Rightarrow> nat \<times> outcome_observation_source \<Rightarrow>
   ((uuid \<times> uuid) \<times> outcome_source_authority) result" where
  "build_checkpoint_source t d ids ns =
     (case ns of (n, s) \<Rightarrow>
        let offset = length (revision_sessions d) in
        bindE (optE (row_at checkpoint_id (rev (target_checkpoints t)) (source_checkpoint_id s)) KeyError) (\<lambda>c.
        bindE (tuple_item ids (offset + n)) (\<lambda>i.
        bindE (optE (session_at (revision_sessions d) (checkpoint_offset c)) KeyError) (\<lambda>session.
        mapR (Pair (source_checkpoint_id s, i)) (outcome_source_authority_init
          \<lparr>source_authority_id = i, source_authority_ordinal = int (offset + n + 1), source_authority_session = session,
           source_authority_source = Some s, source_authority_checkpoint = Some (source_checkpoint_id s),
           source_authority_observed = observation_cutoff d, source_authority_known = knowledge_cutoff d,
           source_authority_sha256 = []\<rparr>)))))"

definition build_observation ::
  "outcome_revision_draft \<Rightarrow> (uuid \<times> uuid) list \<Rightarrow> nat \<Rightarrow> uuid \<Rightarrow> outcome_observation_draft \<Rightarrow> outcome_observation_authority result" where
  "build_observation d sids n i x =
     bindE (last_entry sids (observation_checkpoint_id x)) (\<lambda>s.
     bindE (canonical_json_sha256 (PMapping
       [(''draft_sha256'', PStr (observation_sha256 x)), (''market_target_outcome_source_id'', PUuid s),
        (''observation_cutoff'', PDatetime (observation_cutoff d)), (''knowledge_cutoff'', PDatetime (knowledge_cutoff d))])) (\<lambda>h.
     Inr \<lparr>observation_authority_id = i, observation_authority_ordinal = int (n + 1), observation_authority_source = s,
       observation_draft_index = n, observation_authority_sha256 = h\<rparr>))"

definition build_metric ::
  "outcome_target_definition \<Rightarrow> nat \<Rightarrow> uuid \<Rightarrow> outcome_metric_draft \<Rightarrow> outcome_metric_authority result" where
  "build_metric t n i m =
     bindE (canonical_json_sha256 (PMapping
       [(''draft_sha256'', PStr (metric_draft_sha256 m)), (''target_definition_id'', PUuid (target_id t))])) (\<lambda>h.
     Inr \<lparr>metric_authority_id = i, metric_authority_ordinal = metric_ordinal m, metric_draft_index = n,
       metric_authority_sha256 = h\<rparr>)"

text \<open>The dicts from definitions and checkpoints to the identities of metrics and observations.\<close>

definition metric_entries :: "outcome_revision_draft \<Rightarrow> outcome_metric_authority list \<Rightarrow> (uuid \<times> uuid) list result" where
  "metric_entries d ms =
     mapE (\<lambda>a. mapR (\<lambda>m. (metric_definition_id m, metric_authority_id a)) (tuple_item (revision_metrics d) (metric_draft_index a))) ms"

definition observation_entries :: "outcome_revision_draft \<Rightarrow> outcome_observation_authority list \<Rightarrow> (uuid \<times> uuid) list result" where
  "observation_entries d os =
     mapE (\<lambda>a. mapR (\<lambda>x. (observation_checkpoint_id x, observation_authority_id a))
       (tuple_item (revision_observations d) (observation_draft_index a))) os"

definition target_dependency_row :: "outcome_target_definition \<Rightarrow> uuid \<Rightarrow> outcome_metric_dependency result" where
  "target_dependency_row t i = optE (row_at dependency_id (rev (target_dependencies t)) i) KeyError"

definition build_reference_dependency ::
  "outcome_target_definition \<Rightarrow> (uuid \<times> uuid) list \<Rightarrow> nat \<Rightarrow> uuid \<Rightarrow> outcome_reference_dependency \<Rightarrow>
   outcome_reference_authority result" where
  "build_reference_dependency t mids n i x =
     bindE (target_dependency_row t (reference_dependency_id x)) (\<lambda>row.
     bindE (last_entry mids (reference_dependency_metric x)) (\<lambda>m.
     bindE (canonical_json_sha256 (PMapping
       [(''decision_reference_observation_id'', PUuid (reference_dependency_reference x)),
        (''market_target_outcome_metric_id'', PUuid m),
        (''target_dependency_sha256'', PStr (dependency_sha256 row)),
        (''target_metric_dependency_id'', PUuid (reference_dependency_id x))])) (\<lambda>h.
     Inr \<lparr>reference_authority_id = i, reference_authority_ordinal = dependency_ordinal row, reference_draft_index = n,
       reference_authority_metric = m, reference_target_sha256 = dependency_sha256 row, reference_authority_sha256 = h\<rparr>)))"

definition build_observation_dependency ::
  "outcome_target_definition \<Rightarrow> (uuid \<times> uuid) list \<Rightarrow> (uuid \<times> uuid) list \<Rightarrow> nat \<Rightarrow> uuid \<Rightarrow> outcome_observation_dependency \<Rightarrow>
   outcome_dependency_authority result" where
  "build_observation_dependency t mids oids n i x =
     bindE (target_dependency_row t (observation_dependency_id x)) (\<lambda>row.
     bindE (last_entry mids (observation_dependency_metric x)) (\<lambda>m.
     bindE (last_entry oids (observation_dependency_checkpoint x)) (\<lambda>ob.
     bindE (canonical_json_sha256 (PMapping
       [(''market_target_outcome_metric_id'', PUuid m), (''market_target_outcome_observation_id'', PUuid ob),
        (''target_dependency_sha256'', PStr (dependency_sha256 row)),
        (''target_metric_dependency_id'', PUuid (observation_dependency_id x))])) (\<lambda>h.
     Inr \<lparr>dependency_authority_id = i, dependency_authority_ordinal = dependency_ordinal row, dependency_draft_index = n,
       dependency_authority_metric = m, dependency_authority_observation = ob,
       dependency_target_sha256 = dependency_sha256 row, dependency_authority_sha256 = h\<rparr>))))"

text \<open>What a reason is about: a source, an observation, a metric, or the revision.\<close>

definition reason_subject ::
  "(uuid \<times> uuid) list \<Rightarrow> (uuid \<times> uuid) list \<Rightarrow> (uuid \<times> uuid) list \<Rightarrow> outcome_reason_draft \<Rightarrow>
   (uuid option \<times> uuid option \<times> uuid option) result" where
  "reason_subject sids oids mids q =
     (case reason_dimension q of
        Reason_SOURCE \<Rightarrow>
          (case reason_checkpoint_id q of
             None \<Rightarrow> Inl (ValueError ''Outcome SOURCE reason lacks a checkpoint'')
           | Some k \<Rightarrow> mapR (\<lambda>i. (Some i, None, None)) (last_entry sids k))
      | Reason_OBSERVATION \<Rightarrow>
          (case reason_checkpoint_id q of
             None \<Rightarrow> Inl (ValueError ''Outcome OBSERVATION reason lacks a checkpoint'')
           | Some k \<Rightarrow> mapR (\<lambda>i. (None, Some i, None)) (last_entry oids k))
      | Reason_METRIC \<Rightarrow>
          (case reason_metric_id q of
             None \<Rightarrow> Inl (ValueError ''Outcome METRIC reason lacks a metric'')
           | Some k \<Rightarrow> mapR (\<lambda>i. (None, None, Some i)) (last_entry mids k))
      | Reason_REVISION \<Rightarrow> Inr (None, None, None))"

definition build_reason ::
  "(uuid \<times> uuid) list \<Rightarrow> (uuid \<times> uuid) list \<Rightarrow> (uuid \<times> uuid) list \<Rightarrow> nat \<Rightarrow> uuid \<Rightarrow> outcome_reason_draft \<Rightarrow>
   outcome_reason_authority result" where
  "build_reason sids oids mids n i q =
     bindE (reason_subject sids oids mids q) (\<lambda>(src, ob, m).
     bindE (canonical_json_sha256 (PMapping
       [(''market_target_outcome_metric_id'', optional_payload PUuid m),
        (''market_target_outcome_observation_id'', optional_payload PUuid ob),
        (''market_target_outcome_source_id'', optional_payload PUuid src),
        (''reason_code'', PStr (reason_draft_code q)),
        (''reason_dimension'', PStr (outcome_reason_dimension_value (reason_dimension q)))])) (\<lambda>h.
     Inr \<lparr>reason_authority_id = i, reason_authority_ordinal = reason_draft_ordinal q, reason_draft_index = n,
       reason_authority_source = src, reason_authority_observation = ob, reason_authority_metric = m,
       reason_authority_sha256 = h\<rparr>))"

text \<open>The command around the revision.\<close>

record outcome_settlement_request =
  settle_revision_ordinal :: int
  settle_supersedes_id :: "uuid option"
  settle_request_identity :: string
  settle_request_sha256 :: string
  settle_received_at :: py_datetime
  settle_settled_at :: py_datetime
  settle_receipt_id :: uuid
  settle_actor_type :: string
  settle_actor_id :: string
  settle_reason_code :: string

definition commitment_matches :: "outcome_commitment \<Rightarrow> outcome_target_definition \<Rightarrow> bool" where
  "commitment_matches c t \<longleftrightarrow>
     commitment_target_id c = target_id t \<and> commitment_target_version c = target_version t
     \<and> commitment_target_sha256 c = target_sha256 t \<and> commitment_checkpoint_id c = target_reference_checkpoint t"

definition build_sources ::
  "outcome_identity_plan \<Rightarrow> outcome_target_definition \<Rightarrow> outcome_revision_draft \<Rightarrow>
   ((uuid \<times> uuid) list \<times> outcome_source_authority list) result" where
  "build_sources p t d =
     bindE (mapE (build_session_source d) (enumerate 1 (zip (plan_source_ids p) (revision_sessions d)))) (\<lambda>ss.
     bindE (mapE (build_checkpoint_source t d (plan_source_ids p)) (enumerate 0 (revision_sources d))) (\<lambda>os.
     thenE (guardE (length (ss @ map snd os) = length (plan_source_ids p))
       (ValueError ''Outcome source identity plan does not match draft''))
     (Inr (map fst os, ss @ map snd os))))"

text \<open>The revision, before its constructor checks it and adds its hashes.\<close>

definition build_revision ::
  "outcome_identity_plan \<Rightarrow> outcome_revision_draft \<Rightarrow> outcome_runtime \<Rightarrow> outcome_settlement_request \<Rightarrow>
   outcome_source_authority list \<Rightarrow> outcome_observation_authority list \<Rightarrow> outcome_metric_authority list \<Rightarrow>
   outcome_reference_authority list \<Rightarrow> outcome_dependency_authority list \<Rightarrow> outcome_reason_authority list \<Rightarrow>
   outcome_revision_authority" where
  "build_revision p d rt q sources os ms refs deps reasons =
     \<lparr>revision_authority_id = plan_revision_id p, revision_outcome_id = plan_outcome_id p,
      revision_ordinal = settle_revision_ordinal q, supersedes_revision_id = settle_supersedes_id q,
      supersedes_revision_ordinal =
        (case settle_supersedes_id q of None \<Rightarrow> None | Some i \<Rightarrow> Some (settle_revision_ordinal q - 1)),
      revision_draft = d, authority_sources = sources, authority_observations = os, authority_metrics = ms,
      authority_references = refs, authority_dependencies = deps, authority_reasons = reasons, revision_runtime = rt,
      revision_request_identity = settle_request_identity q, revision_request_sha256 = settle_request_sha256 q,
      revision_received_at = settle_received_at q, revision_settled_at = settle_settled_at q,
      revision_receipt_id = settle_receipt_id q, revision_actor_type = settle_actor_type q,
      revision_actor_id = settle_actor_id q, revision_reason_code = settle_reason_code q,
      authority_source_roster_sha256 = [], authority_observation_roster_sha256 = [],
      authority_metric_roster_sha256 = [], authority_reference_roster_sha256 = [],
      authority_dependency_roster_sha256 = [], authority_reason_roster_sha256 = [], authority_summary_sha256 = []\<rparr>"

definition build_market_target_outcome_authority ::
  "outcome_identity_plan \<Rightarrow> outcome_commitment \<Rightarrow> outcome_target_definition \<Rightarrow> outcome_revision_draft \<Rightarrow>
   outcome_runtime \<Rightarrow> outcome_settlement_request \<Rightarrow> market_target_outcome_authority result" where
  "build_market_target_outcome_authority p c t d rt q =
     thenE (guardE (commitment_matches c t) (ValueError ''Outcome commitment, Target, reference, and draft differ''))
     (bindE (reference_from_draft (commitment_reference c) d) (\<lambda>r.
      thenE (guardE (commitment_reference c = r) (ValueError ''Outcome commitment, Target, reference, and draft differ''))
     (bindE (build_sources p t d) (\<lambda>(sids, sources).
      bindE (zip_strictE (build_observation d sids) (plan_observation_ids p) (revision_observations d)) (\<lambda>os.
      bindE (zip_strictE (build_metric t) (plan_metric_ids p) (revision_metrics d)) (\<lambda>ms.
      bindE (metric_entries d ms) (\<lambda>mids.
      bindE (observation_entries d os) (\<lambda>oids.
      bindE (zip_strictE (build_reference_dependency t mids) (plan_reference_ids p) (reference_dependencies d)) (\<lambda>refs.
      bindE (zip_strictE (build_observation_dependency t mids oids) (plan_dependency_ids p) (observation_dependencies d)) (\<lambda>deps.
      bindE (zip_strictE (build_reason sids oids mids) (plan_reason_ids p) (revision_reasons d)) (\<lambda>reasons.
      bindE (outcome_revision_authority_init (build_revision p d rt q sources os ms refs deps reasons)) (\<lambda>revision.
      Inr \<lparr>outcome_root = \<lparr>root_outcome_id = plan_outcome_id p, root_commitment = c, root_created_at = settle_settled_at q\<rparr>,
        outcome_revision = revision, outcome_commitment_of = c, outcome_target_of = t\<rparr>))))))))))))"

end
