(* ===== verification/Outcome_Replay.thy ===== *)
theory Outcome_Replay
  imports Outcome_Settlement
begin

text \<open>
  What consumes a revision: the inputs prepared for it (\<open>preparation.py\<close>), the prices of an episode
  (\<open>economic_prices.py\<close>), and the replay that recalculates a stored revision (\<open>verification.py\<close> and
  \<open>outcome/application/verification.py\<close>). The read port and the relational inspection of the verifier
  are arguments.
\<close>

section \<open>Prepared inputs\<close>

record prepared_outcome_inputs =
  prepared_commitment :: outcome_commitment
  prepared_target :: outcome_target_definition
  prepared_runtime :: outcome_runtime
  prepared_observed :: py_datetime
  prepared_known :: py_datetime
  prepared_due_at :: py_datetime
  prepared_sessions :: "outcome_session_source list"
  prepared_sources :: "outcome_observation_source list"
  prepared_is_due :: bool

definition prepared_outcome_inputs_init :: "prepared_outcome_inputs \<Rightarrow> prepared_outcome_inputs result" where
  "prepared_outcome_inputs_init p =
     bindE (require_utc ''Outcome observation cutoff'' (prepared_observed p)) (\<lambda>observed.
     bindE (require_utc ''Outcome knowledge cutoff'' (prepared_known p)) (\<lambda>known.
     bindE (require_utc ''Outcome due time'' (prepared_due_at p)) (\<lambda>due.
     thenE (guardE (commitment_matches (prepared_commitment p) (prepared_target p))
       (ValueError ''prepared Outcome commitment and Target differ''))
     (thenE (guardE (prepared_sessions p \<noteq> []) (ValueError ''Outcome due assessment requires exact Session facts''))
     (thenE (guardE (\<not> (prepared_is_due p \<and> length (prepared_sources p) \<noteq> length (target_checkpoints (prepared_target p))))
       (ValueError ''due Outcome preparation requires complete source coverage''))
     (thenE (guardE (\<not> (\<not> prepared_is_due p \<and> prepared_sources p \<noteq> []))
       (ValueError ''NOT_DUE Outcome preparation cannot resolve observations''))
     (Inr (p\<lparr>prepared_observed := observed, prepared_known := known, prepared_due_at := due\<rparr>))))))))"

definition outcome_scope_dataclass :: "outcome_scope \<Rightarrow> pyval" where
  "outcome_scope_dataclass s = PDataclass
     [(''decision_run_id'', PUuid (outcome_scope_run_id s)), (''market_archive_id'', PUuid (outcome_scope_archive_id s)),
      (''market_archive_seal_id'', PUuid (outcome_scope_seal_id s)),
      (''knowledge_cutoff'', PDatetime (outcome_scope_knowledge_cutoff s)),
      (''simulated_event_cutoff'', PDatetime (outcome_scope_simulated_cutoff s)),
      (''decision_binding_sha256'', PStr (outcome_scope_binding_sha256 s)),
      (''evidence_lane'', PStr ''EXPLORATORY_RETROSPECTIVE''), (''content_sha256'', PStr (outcome_scope_sha256 s))]"

definition semantic_request ::
  "prepared_outcome_inputs \<Rightarrow> py_datetime \<Rightarrow> py_datetime \<Rightarrow> uuid option \<Rightarrow> string \<Rightarrow> string \<Rightarrow> string \<Rightarrow> pyval" where
  "semantic_request p observed known expected actor_type actor_id reason =
     (let c = prepared_commitment p; t = prepared_target p; a = target_algorithm t; rt = prepared_runtime p in PMapping
     [(''actor_id'', PStr actor_id), (''actor_type'', PStr actor_type),
      (''commitment_id'', PUuid (outcome_commitment_id c)),
      (''decision_reference_observation_id'', PUuid (decision_reference_id (commitment_reference c))),
      (''decision_reference_sha256'', PStr (reference_sha256 (commitment_reference c))),
      (''exploratory_retrospective_scope'', optional_payload outcome_scope_dataclass (commitment_scope c)),
      (''expected_current_revision_id'', optional_payload PUuid expected),
      (''knowledge_cutoff'', PDatetime known), (''observation_cutoff'', PDatetime observed),
      (''reason_code'', PStr reason), (''runtime_attempt_id'', PUuid (outcome_attempt_id rt)),
      (''runtime_fence_token'', PInt (outcome_fence_token rt)), (''runtime_run_id'', PUuid (outcome_run_id rt)),
      (''runtime_step_id'', PUuid (outcome_step_id rt)),
      (''sessions'', PSequence (map session_dataclass (prepared_sessions p))),
      (''sources'', PSequence (map source_dataclass (prepared_sources p))),
      (''target_algorithm_sha256'', PStr (algorithm_sha256 a)),
      (''target_code_content_sha256'', PStr (algorithm_code_sha256 a)),
      (''target_config_content_sha256'', PStr (algorithm_config_sha256 a)),
      (''target_definition_id'', PUuid (target_id t)), (''target_definition_sha256'', PStr (target_sha256 t))])"

definition semantic_request_sha256 ::
  "prepared_outcome_inputs \<Rightarrow> py_datetime \<Rightarrow> py_datetime \<Rightarrow> uuid option \<Rightarrow> string \<Rightarrow> string \<Rightarrow> string \<Rightarrow> string result" where
  "semantic_request_sha256 p observed known expected actor_type actor_id reason =
     canonical_json_sha256 (semantic_request p observed known expected actor_type actor_id reason)"

section \<open>Episode prices\<close>

record outcome_episode_prices =
  episode_revision_id :: uuid
  episode_revision_sha256 :: string
  episode_entry_checkpoint :: uuid
  episode_exit_checkpoint :: uuid
  episode_entry_observation :: uuid
  episode_exit_observation :: uuid
  episode_entry_sha256 :: string
  episode_exit_sha256 :: string
  episode_entry_time :: py_datetime
  episode_exit_time :: py_datetime
  episode_entry_close :: decimal
  episode_exit_close :: decimal
  episode_known_at :: py_datetime
  episode_knowledge_cutoff :: py_datetime
  episode_basis :: string

definition draft_observation_at :: "outcome_revision_draft \<Rightarrow> uuid \<Rightarrow> outcome_observation_draft option" where
  "draft_observation_at d k = row_at observation_checkpoint_id (rev (revision_observations d)) k"

definition bar_source :: "outcome_observation_source option \<Rightarrow> outcome_observation_source option" where
  "bar_source s = Option.bind s (\<lambda>x. case source_body x of Bar i n op hi lo cl \<Rightarrow> Some x | Gap i kind reason \<Rightarrow> None)"

definition same_episode_scope :: "outcome_observation_source \<Rightarrow> outcome_observation_source \<Rightarrow> bool" where
  "same_episode_scope a b \<longleftrightarrow>
     source_session_id a = source_session_id b \<and> source_product_id a = source_product_id b
     \<and> source_instrument_id a = source_instrument_id b \<and> source_basis a = source_basis b
     \<and> source_basis a = ''RAW_UNADJUSTED''"

definition complete_close :: "outcome_observation_draft \<Rightarrow> decimal option" where
  "complete_close x = (if observation_status x = Outcome_COMPLETE then close_value x else None)"

definition datetime_max :: "py_datetime \<Rightarrow> py_datetime \<Rightarrow> py_datetime" where
  "datetime_max x y = (if instant_of y > instant_of x then y else x)"

definition episode_prices :: "market_target_outcome_authority \<Rightarrow> uuid \<Rightarrow> uuid \<Rightarrow> outcome_episode_prices result" where
  "episode_prices a entry_id exit_id =
     (let r = outcome_revision a; d = revision_draft r in
      thenE (guardE (entry_id \<noteq> exit_id) (ValueError ''episode entry and exit checkpoints must differ''))
     (bindE (optE (draft_observation_at d entry_id) (ValueError ''episode checkpoint is absent from exact Outcome revision'')) (\<lambda>entry.
      bindE (optE (draft_observation_at d exit_id) (ValueError ''episode checkpoint is absent from exact Outcome revision'')) (\<lambda>exit.
      bindE (optE (bar_source (source_at (revision_sources d) entry_id))
        (ValueError ''episode price source is unavailable or a SourceGap'')) (\<lambda>x.
      bindE (optE (bar_source (source_at (revision_sources d) exit_id))
        (ValueError ''episode price source is unavailable or a SourceGap'')) (\<lambda>y.
      bindE (optE (complete_close entry) (ValueError ''episode requires complete Outcome checkpoint prices'')) (\<lambda>entry_close.
      bindE (optE (complete_close exit) (ValueError ''episode requires complete Outcome checkpoint prices'')) (\<lambda>exit_close.
      thenE (guardE (same_episode_scope x y)
        (ValueError ''episode requires same-session/provider/instrument RAW price facts''))
     (thenE (guardE (instant_of (commitment_decision_time (outcome_commitment_of a)) < instant_of (observation_end entry)
          \<and> instant_of (observation_end entry) < instant_of (observation_end exit))
        (ValueError ''episode checkpoints must strictly follow DecisionTime''))
     (bindE (observation_entries d (authority_observations r)) (\<lambda>bound.
      bindE (last_entry bound entry_id) (\<lambda>entry_observation.
      bindE (last_entry bound exit_id) (\<lambda>exit_observation.
      Inr \<lparr>episode_revision_id = revision_authority_id r, episode_revision_sha256 = authority_summary_sha256 r,
        episode_entry_checkpoint = entry_id, episode_exit_checkpoint = exit_id,
        episode_entry_observation = entry_observation, episode_exit_observation = exit_observation,
        episode_entry_sha256 = observation_sha256 entry, episode_exit_sha256 = observation_sha256 exit,
        episode_entry_time = observation_end entry, episode_exit_time = observation_end exit,
        episode_entry_close = entry_close, episode_exit_close = exit_close,
        episode_known_at = datetime_max (observation_known_at entry) (observation_known_at exit),
        episode_knowledge_cutoff = knowledge_cutoff d, episode_basis = source_basis x\<rparr>)))))))))))))"

section \<open>Verification\<close>

datatype outcome_mismatch_kind =
    IDENTITY_MISMATCH
  | MISSING_ROW
  | EXTRA_ROW
  | ORDER_MISMATCH
  | COUNT_MISMATCH
  | HASH_MISMATCH
  | REVISION_CHAIN_MISMATCH
  | CUTOFF_MISMATCH
  | REFERENCE_MISMATCH
  | SOURCE_STATE_MISMATCH
  | METRIC_VALUE_MISMATCH
  | DEPENDENCY_MISMATCH
  | REASON_MISMATCH
  | RUNTIME_IDENTITY_MISMATCH
  | RECEIPT_MISMATCH
  | IMMUTABLE_FACT_MUTATION

record outcome_mismatch =
  mismatch_kind :: outcome_mismatch_kind
  mismatch_path :: string
  mismatch_expected :: string
  mismatch_actual :: string

record outcome_verification_report =
  report_outcome_id :: "uuid option"
  report_revision_id :: uuid
  report_matched :: bool
  report_mismatch_count :: int
  report_mismatches :: "outcome_mismatch list"

definition outcome_verification_report_create ::
  "uuid option \<Rightarrow> uuid \<Rightarrow> outcome_mismatch list \<Rightarrow> outcome_verification_report" where
  "outcome_verification_report_create outcome revision ms =
     \<lparr>report_outcome_id = outcome, report_revision_id = revision, report_matched = (ms = []),
      report_mismatch_count = int (length ms), report_mismatches = ms\<rparr>"

end
