(* ===== verification/Outcome_Bound.thy ===== *)
theory Outcome_Bound
  imports Outcome_Replay Outcome_Returned
begin

text \<open>
  What \<open>build_market_target_outcome_authority\<close> makes of a draft: the loops over its rosters, the
  dicts they look identities up in, and when the whole of it goes through.
\<close>

section \<open>Loops and lookups\<close>

lemma last_entry_member: "last_entry kvs k = Inr v \<Longrightarrow> (k, v) \<in> set kvs"
  by (auto simp: last_entry_def dest: map_of_SomeD)

lemma last_entry_total: "k \<in> fst ` set kvs \<Longrightarrow> \<exists>v. last_entry kvs k = Inr v"
  using map_of_eq_None_iff [of "List.rev kvs" k] by (cases "map_of (List.rev kvs) k") (auto simp: last_entry_def)

lemma tuple_item_Inr: "tuple_item xs n = Inr x \<longleftrightarrow> n < length xs \<and> x = xs ! n"
  by (auto simp: tuple_item_def)

lemma zip_strictE_Inr:
  assumes "zip_strictE f xs ys = Inr zs"
  shows "length xs = length ys" "length zs = length ys" "\<And>n. n < length ys \<Longrightarrow> f n (xs ! n) (ys ! n) = Inr (zs ! n)"
proof -
  have m: "mapE (\<lambda>(n, x, y). f n x y) (enumerate 0 (zip xs ys)) = Inr zs" and len: "length xs = length ys"
    using assms by (auto simp: zip_strictE_def bindE_Inr_iff split: if_splits)
  show "length xs = length ys" by (fact len)
  show "length zs = length ys" using mapE_Inr_length [OF m] len by simp
  show "f n (xs ! n) (ys ! n) = Inr (zs ! n)" if "n < length ys" for n
    using mapE_Inr_nth [OF m, of n] that len by (simp add: nth_enumerate_eq)
qed

lemma zip_strictE_total:
  assumes "length xs = length ys" "\<And>n. n < length ys \<Longrightarrow> \<exists>z. f n (xs ! n) (ys ! n) = Inr z"
  shows "\<exists>zs. zip_strictE f xs ys = Inr zs"
proof -
  have "\<exists>zs. mapE (\<lambda>(n, x, y). f n x y) (enumerate 0 (zip xs ys)) = Inr zs"
    unfolding mapE_is_Inr using assms by (auto simp: in_set_enumerate_eq)
  then show ?thesis using assms(1) by (auto simp: zip_strictE_def)
qed

lemma zip_strictE_member:
  assumes "zip_strictE f xs ys = Inr zs" "z \<in> set zs"
  shows "\<exists>n < length ys. f n (xs ! n) (ys ! n) = Inr z"
  using zip_strictE_Inr(2,3) [OF assms(1)] assms(2) by (auto simp: in_set_conv_nth)

section \<open>The parts of a built revision\<close>

text \<open>An identity of a revision, and the fact of its draft that it stands for.\<close>

definition metric_identity :: "outcome_revision_authority \<Rightarrow> uuid \<Rightarrow> uuid \<Rightarrow> bool" where
  "metric_identity r i k \<longleftrightarrow> (\<exists>m \<in> set (authority_metrics r). metric_authority_id m = i
     \<and> metric_draft_index m < length (revision_metrics (revision_draft r))
     \<and> metric_definition_id (revision_metrics (revision_draft r) ! metric_draft_index m) = k)"

definition observation_identity :: "outcome_revision_authority \<Rightarrow> uuid \<Rightarrow> uuid \<Rightarrow> bool" where
  "observation_identity r i k \<longleftrightarrow> (\<exists>x \<in> set (authority_observations r). observation_authority_id x = i
     \<and> observation_draft_index x < length (revision_observations (revision_draft r))
     \<and> observation_checkpoint_id (revision_observations (revision_draft r) ! observation_draft_index x) = k)"

definition source_identity :: "outcome_revision_authority \<Rightarrow> uuid \<Rightarrow> uuid \<Rightarrow> bool" where
  "source_identity r i k \<longleftrightarrow> (\<exists>s \<in> set (authority_sources r). source_authority_id s = i
     \<and> source_authority_checkpoint s = Some k)"

lemma revision_authority_parts:
  assumes "outcome_revision_authority_init r = Inr r'"
  shows "revision_authority_id r' = revision_authority_id r" "revision_outcome_id r' = revision_outcome_id r"
    "revision_ordinal r' = revision_ordinal r" "supersedes_revision_id r' = supersedes_revision_id r"
    "revision_draft r' = revision_draft r" "authority_sources r' = authority_sources r"
    "authority_observations r' = authority_observations r" "authority_metrics r' = authority_metrics r"
    "authority_references r' = authority_references r" "authority_dependencies r' = authority_dependencies r"
    "authority_reasons r' = authority_reasons r" "revision_runtime r' = revision_runtime r"
    "revision_request_identity r' = revision_request_identity r" "revision_request_sha256 r' = revision_request_sha256 r"
    "revision_receipt_id r' = revision_receipt_id r" "revision_actor_type r' = revision_actor_type r"
    "revision_actor_id r' = revision_actor_id r" "revision_reason_code r' = revision_reason_code r"
    "authority_checks r = Inr ()"
    "instant_of (revision_received_at r) \<le> instant_of (revision_settled_at r)"
    "instant_of (revision_settled_at r') = instant_of (revision_settled_at r)"
  using assms
  by (auto simp: outcome_revision_authority_init_def thenE_Inr_iff bindE_Inr_iff Let_def not_less
      dest!: require_utc_Inr simp del: thenE_guardE)


lemma build_parts:
  assumes "build_market_target_outcome_authority p c t d rt q = Inr a"
  obtains sids mids oids where
    "commitment_matches c t" "reference_from_draft (commitment_reference c) d = Inr (commitment_reference c)"
    "build_sources p t d = Inr (sids, authority_sources (outcome_revision a))"
    "zip_strictE (build_observation d sids) (plan_observation_ids p) (revision_observations d) = Inr (authority_observations (outcome_revision a))"
    "zip_strictE (build_metric t) (plan_metric_ids p) (revision_metrics d) = Inr (authority_metrics (outcome_revision a))"
    "metric_entries d (authority_metrics (outcome_revision a)) = Inr mids"
    "observation_entries d (authority_observations (outcome_revision a)) = Inr oids"
    "zip_strictE (build_reference_dependency t mids) (plan_reference_ids p) (reference_dependencies d) = Inr (authority_references (outcome_revision a))"
    "zip_strictE (build_observation_dependency t mids oids) (plan_dependency_ids p) (observation_dependencies d)
       = Inr (authority_dependencies (outcome_revision a))"
    "zip_strictE (build_reason sids oids mids) (plan_reason_ids p) (revision_reasons d) = Inr (authority_reasons (outcome_revision a))"
    "revision_draft (outcome_revision a) = d" "revision_authority_id (outcome_revision a) = plan_revision_id p"
    "revision_outcome_id (outcome_revision a) = plan_outcome_id p" "revision_ordinal (outcome_revision a) = settle_revision_ordinal q"
    "supersedes_revision_id (outcome_revision a) = settle_supersedes_id q" "revision_runtime (outcome_revision a) = rt"
    "outcome_commitment_of a = c" "outcome_target_of a = t" "root_outcome_id (outcome_root a) = plan_outcome_id p"
proof -
  obtain sids ss os ms mids oids refs deps rs rev where b: "commitment_matches c t"
    "reference_from_draft (commitment_reference c) d = Inr (commitment_reference c)" "build_sources p t d = Inr (sids, ss)"
    "zip_strictE (build_observation d sids) (plan_observation_ids p) (revision_observations d) = Inr os"
    "zip_strictE (build_metric t) (plan_metric_ids p) (revision_metrics d) = Inr ms"
    "metric_entries d ms = Inr mids" "observation_entries d os = Inr oids"
    "zip_strictE (build_reference_dependency t mids) (plan_reference_ids p) (reference_dependencies d) = Inr refs"
    "zip_strictE (build_observation_dependency t mids oids) (plan_dependency_ids p) (observation_dependencies d) = Inr deps"
    "zip_strictE (build_reason sids oids mids) (plan_reason_ids p) (revision_reasons d) = Inr rs"
    "outcome_revision_authority_init (build_revision p d rt q ss os ms refs deps rs) = Inr rev"
    "a = \<lparr>outcome_root = \<lparr>root_outcome_id = plan_outcome_id p, root_commitment = c, root_created_at = settle_settled_at q\<rparr>,
        outcome_revision = rev, outcome_commitment_of = c, outcome_target_of = t\<rparr>"
    using assms unfolding build_market_target_outcome_authority_def thenE_Inr_iff bindE_Inr_iff guardE_Inr_iff
    by (auto simp: bindE_Inr_iff)
  note r = revision_authority_parts [OF b(11), unfolded build_revision_def, simplified]
  show thesis by (rule that [of sids mids oids]) (simp_all add: b r)
qed

section \<open>What the identities stand for\<close>

lemma source_authority_parts:
  assumes "outcome_source_authority_init a = Inr a'"
  shows "source_authority_id a' = source_authority_id a" "source_authority_ordinal a' = source_authority_ordinal a"
    "source_authority_session a' = source_authority_session a" "source_authority_source a' = source_authority_source a"
    "source_authority_checkpoint a' = source_authority_checkpoint a"
    "source_authority_observed a' = source_authority_observed a" "source_authority_known a' = source_authority_known a"
  using assms by (auto simp: outcome_source_authority_init_def mapR_Inr_iff)

lemma checkpoint_source_parts:
  assumes "build_checkpoint_source t d ids (n, s) = Inr ki"
  shows "\<exists>a. ki = ((source_checkpoint_id s, source_authority_id a), a) \<and> source_authority_source a = Some s
    \<and> source_authority_checkpoint a = Some (source_checkpoint_id s)
    \<and> source_authority_id a = ids ! (length (revision_sessions d) + n) \<and> length (revision_sessions d) + n < length ids
    \<and> (\<exists>c. row_at checkpoint_id (rev (target_checkpoints t)) (source_checkpoint_id s) = Some c
        \<and> session_at (revision_sessions d) (checkpoint_offset c) = Some (source_authority_session a))"
  using assms
  by (auto simp: build_checkpoint_source_def Let_def bindE_Inr_iff mapR_Inr_iff tuple_item_Inr outcome_source_authority_init_def)

lemma build_sources_entries:
  assumes "build_sources p t d = Inr (sids, ss)" "(k, i) \<in> set sids"
  shows "\<exists>a \<in> set ss. source_authority_id a = i \<and> source_authority_checkpoint a = Some k"
proof -
  obtain bs os where os: "mapE (build_checkpoint_source t d (plan_source_ids p)) (enumerate 0 (revision_sources d)) = Inr os"
    "sids = map fst os" "ss = bs @ map snd os"
    using assms(1) by (auto simp: build_sources_def bindE_Inr_iff split: if_splits)
  obtain x where x: "x \<in> set os" "fst x = (k, i)" using assms(2) os(2) by auto
  obtain ns where ns: "build_checkpoint_source t d (plan_source_ids p) ns = Inr x"
    using mapE_Inr_member [OF os(1) x(1)] by blast
  obtain n s where "ns = (n, s)" by (cases ns)
  from checkpoint_source_parts [OF ns [unfolded this]] obtain a where
    "x = ((source_checkpoint_id s, source_authority_id a), a)" "source_authority_checkpoint a = Some (source_checkpoint_id s)" by blast
  then show ?thesis using x os(3) by force
qed

lemma metric_entries_bound:
  assumes "metric_entries (revision_draft r) (authority_metrics r) = Inr kvs" "(k, i) \<in> set kvs"
  shows "metric_identity r i k"
  using mapE_Inr_member [OF assms(1) [unfolded metric_entries_def] assms(2)]
  by (auto simp: mapR_Inr_iff tuple_item_Inr metric_identity_def)

lemma observation_entries_bound:
  assumes "observation_entries (revision_draft r) (authority_observations r) = Inr kvs" "(k, i) \<in> set kvs"
  shows "observation_identity r i k"
  using mapE_Inr_member [OF assms(1) [unfolded observation_entries_def] assms(2)]
  by (auto simp: mapR_Inr_iff tuple_item_Inr observation_identity_def)

lemma last_bound: "last_entry kvs k = Inr i \<Longrightarrow> (\<And>k i. (k, i) \<in> set kvs \<Longrightarrow> P k i) \<Longrightarrow> P k i"
  by (blast dest!: last_entry_member)

text \<open>What a reason of a revision is about.\<close>

definition reason_bound :: "outcome_revision_authority \<Rightarrow> outcome_reason_draft \<Rightarrow> outcome_reason_authority \<Rightarrow> bool" where
  "reason_bound r q x \<longleftrightarrow>
     (case reason_dimension q of
        Reason_SOURCE \<Rightarrow> (\<exists>k i. reason_checkpoint_id q = Some k \<and> reason_authority_source x = Some i \<and> source_identity r i k)
          \<and> reason_authority_observation x = None \<and> reason_authority_metric x = None
      | Reason_OBSERVATION \<Rightarrow>
          (\<exists>k i. reason_checkpoint_id q = Some k \<and> reason_authority_observation x = Some i \<and> observation_identity r i k)
          \<and> reason_authority_source x = None \<and> reason_authority_metric x = None
      | Reason_METRIC \<Rightarrow> (\<exists>k i. reason_metric_id q = Some k \<and> reason_authority_metric x = Some i \<and> metric_identity r i k)
          \<and> reason_authority_source x = None \<and> reason_authority_observation x = None
      | Reason_REVISION \<Rightarrow> reason_authority_source x = None \<and> reason_authority_observation x = None
          \<and> reason_authority_metric x = None)"

lemma build_reason_bound:
  assumes "build_reason sids oids mids n i q = Inr x"
    and "\<And>k i. (k, i) \<in> set sids \<Longrightarrow> source_identity r i k" "\<And>k i. (k, i) \<in> set oids \<Longrightarrow> observation_identity r i k"
      "\<And>k i. (k, i) \<in> set mids \<Longrightarrow> metric_identity r i k"
  shows "reason_bound r q x \<and> reason_authority_id x = i \<and> reason_draft_index x = n"
  using assms(1)
  by (cases "reason_dimension q")
    (auto simp: build_reason_def reason_subject_def bindE_Inr_iff mapR_Inr_iff reason_bound_def split: option.splits
      dest!: last_entry_member intro: assms(2-4))

text \<open>The other facts, each with what its entries resolve to.\<close>

lemma build_observation_bound:
  assumes "build_observation d sids n i x = Inr y" "\<And>k i. (k, i) \<in> set sids \<Longrightarrow> source_identity r i k"
  shows "observation_draft_index y = n \<and> observation_authority_id y = i
    \<and> source_identity r (observation_authority_source y) (observation_checkpoint_id x)"
  using assms(1) by (auto simp: build_observation_def bindE_Inr_iff dest!: last_entry_member intro: assms(2))

lemma build_metric_bound:
  assumes "build_metric t n i m = Inr y"
  shows "metric_draft_index y = n \<and> metric_authority_id y = i"
  using assms by (auto simp: build_metric_def bindE_Inr_iff)

lemma build_reference_bound:
  assumes "build_reference_dependency t mids n i x = Inr y" "\<And>k i. (k, i) \<in> set mids \<Longrightarrow> metric_identity r i k"
  shows "reference_draft_index y = n \<and> reference_authority_id y = i
    \<and> metric_identity r (reference_authority_metric y) (reference_dependency_metric x)"
  using assms(1) by (auto simp: build_reference_dependency_def bindE_Inr_iff dest!: last_entry_member intro: assms(2))

lemma build_dependency_bound:
  assumes "build_observation_dependency t mids oids n i x = Inr y" "\<And>k i. (k, i) \<in> set mids \<Longrightarrow> metric_identity r i k"
    "\<And>k i. (k, i) \<in> set oids \<Longrightarrow> observation_identity r i k"
  shows "dependency_draft_index y = n \<and> dependency_authority_id y = i
    \<and> metric_identity r (dependency_authority_metric y) (observation_dependency_metric x)
    \<and> observation_identity r (dependency_authority_observation y) (observation_dependency_checkpoint x)"
  using assms(1) by (auto simp: build_observation_dependency_def bindE_Inr_iff dest!: last_entry_member intro: assms(2,3))

text \<open>Every identity a built revision refers to is one of its own, of the fact its draft names.\<close>

lemma built_bound:
  assumes "build_market_target_outcome_authority p c t d rt q = Inr a" "r = outcome_revision a"
  shows "revision_draft r = d"
    "length (authority_observations r) = length (revision_observations d)"
    "\<And>n. n < length (revision_observations d) \<Longrightarrow> observation_draft_index (authority_observations r ! n) = n
      \<and> observation_authority_id (authority_observations r ! n) = plan_observation_ids p ! n
      \<and> source_identity r (observation_authority_source (authority_observations r ! n))
          (observation_checkpoint_id (revision_observations d ! n))"
    "length (authority_metrics r) = length (revision_metrics d)"
    "\<And>n. n < length (revision_metrics d) \<Longrightarrow> metric_draft_index (authority_metrics r ! n) = n
      \<and> metric_authority_id (authority_metrics r ! n) = plan_metric_ids p ! n"
    "length (authority_references r) = length (reference_dependencies d)"
    "\<And>n. n < length (reference_dependencies d) \<Longrightarrow> reference_draft_index (authority_references r ! n) = n
      \<and> reference_authority_id (authority_references r ! n) = plan_reference_ids p ! n
      \<and> metric_identity r (reference_authority_metric (authority_references r ! n))
          (reference_dependency_metric (reference_dependencies d ! n))"
    "length (authority_dependencies r) = length (observation_dependencies d)"
    "\<And>n. n < length (observation_dependencies d) \<Longrightarrow> dependency_draft_index (authority_dependencies r ! n) = n
      \<and> dependency_authority_id (authority_dependencies r ! n) = plan_dependency_ids p ! n
      \<and> metric_identity r (dependency_authority_metric (authority_dependencies r ! n))
          (observation_dependency_metric (observation_dependencies d ! n))
      \<and> observation_identity r (dependency_authority_observation (authority_dependencies r ! n))
          (observation_dependency_checkpoint (observation_dependencies d ! n))"
    "length (authority_reasons r) = length (revision_reasons d)"
    "\<And>n. n < length (revision_reasons d) \<Longrightarrow> reason_draft_index (authority_reasons r ! n) = n
      \<and> reason_authority_id (authority_reasons r ! n) = plan_reason_ids p ! n
      \<and> reason_bound r (revision_reasons d ! n) (authority_reasons r ! n)"
proof -
  obtain sids mids oids where b:
    "build_sources p t d = Inr (sids, authority_sources r)"
    "zip_strictE (build_observation d sids) (plan_observation_ids p) (revision_observations d) = Inr (authority_observations r)"
    "zip_strictE (build_metric t) (plan_metric_ids p) (revision_metrics d) = Inr (authority_metrics r)"
    "metric_entries d (authority_metrics r) = Inr mids" "observation_entries d (authority_observations r) = Inr oids"
    "zip_strictE (build_reference_dependency t mids) (plan_reference_ids p) (reference_dependencies d) = Inr (authority_references r)"
    "zip_strictE (build_observation_dependency t mids oids) (plan_dependency_ids p) (observation_dependencies d)
       = Inr (authority_dependencies r)"
    "zip_strictE (build_reason sids oids mids) (plan_reason_ids p) (revision_reasons d) = Inr (authority_reasons r)"
    "revision_draft r = d"
    by (rule build_parts [OF assms(1), folded assms(2)])
  have sid: "source_identity r i k" if "(k, i) \<in> set sids" for k i
    using build_sources_entries [OF b(1) that] by (auto simp: source_identity_def)
  have mid: "metric_identity r i k" if "(k, i) \<in> set mids" for k i
    using metric_entries_bound [of r, unfolded b(9), OF b(4) that] .
  have oid: "observation_identity r i k" if "(k, i) \<in> set oids" for k i
    using observation_entries_bound [of r, unfolded b(9), OF b(5) that] .
  show "revision_draft r = d" by (fact b(9))
  show "length (authority_observations r) = length (revision_observations d)"
    "length (authority_metrics r) = length (revision_metrics d)"
    "length (authority_references r) = length (reference_dependencies d)"
    "length (authority_dependencies r) = length (observation_dependencies d)"
    "length (authority_reasons r) = length (revision_reasons d)"
    using zip_strictE_Inr(2) b(2,3,6-8) by blast+
  show "observation_draft_index (authority_observations r ! n) = n
      \<and> observation_authority_id (authority_observations r ! n) = plan_observation_ids p ! n
      \<and> source_identity r (observation_authority_source (authority_observations r ! n))
          (observation_checkpoint_id (revision_observations d ! n))" if "n < length (revision_observations d)" for n
    by (rule build_observation_bound [OF zip_strictE_Inr(3) [OF b(2) that] sid])
  show "metric_draft_index (authority_metrics r ! n) = n
      \<and> metric_authority_id (authority_metrics r ! n) = plan_metric_ids p ! n" if "n < length (revision_metrics d)" for n
    by (rule build_metric_bound [OF zip_strictE_Inr(3) [OF b(3) that]])
  show "reference_draft_index (authority_references r ! n) = n
      \<and> reference_authority_id (authority_references r ! n) = plan_reference_ids p ! n
      \<and> metric_identity r (reference_authority_metric (authority_references r ! n))
          (reference_dependency_metric (reference_dependencies d ! n))" if "n < length (reference_dependencies d)" for n
    by (rule build_reference_bound [OF zip_strictE_Inr(3) [OF b(6) that] mid])
  show "dependency_draft_index (authority_dependencies r ! n) = n
      \<and> dependency_authority_id (authority_dependencies r ! n) = plan_dependency_ids p ! n
      \<and> metric_identity r (dependency_authority_metric (authority_dependencies r ! n))
          (observation_dependency_metric (observation_dependencies d ! n))
      \<and> observation_identity r (dependency_authority_observation (authority_dependencies r ! n))
          (observation_dependency_checkpoint (observation_dependencies d ! n))" if "n < length (observation_dependencies d)" for n
    by (rule build_dependency_bound [OF zip_strictE_Inr(3) [OF b(7) that] mid oid])
  show "reason_draft_index (authority_reasons r ! n) = n
      \<and> reason_authority_id (authority_reasons r ! n) = plan_reason_ids p ! n
      \<and> reason_bound r (revision_reasons d ! n) (authority_reasons r ! n)" if "n < length (revision_reasons d)" for n
    using build_reason_bound [OF zip_strictE_Inr(3) [OF b(8) that], of r] sid oid mid by blast
qed

end
