(* ===== verification/Outcome_Built.thy ===== *)
theory Outcome_Built
  imports Outcome_Bound
begin

text \<open>
  A revision the kernel returns can be built: every lookup of
  \<open>build_market_target_outcome_authority\<close> succeeds on a draft that fits its Target, and the drafts
  of the kernel do.
\<close>

section \<open>Requests and plans\<close>

text \<open>A request the constructor of the revision accepts.\<close>

definition settlement_request_ok :: "outcome_settlement_request \<Rightarrow> bool" where
  "settlement_request_ok q \<longleftrightarrow>
     settle_revision_ordinal q \<ge> 1 \<and> (settle_revision_ordinal q = 1 \<longleftrightarrow> settle_supersedes_id q = None)
     \<and> outcome_request_ok (settle_request_identity q) \<and> content_hash_ok (settle_request_sha256 q)
     \<and> settle_actor_id q \<noteq> [] \<and> code_ok (settle_reason_code q) \<and> aware (settle_received_at q) \<and> aware (settle_settled_at q)
     \<and> instant_of (settle_received_at q) \<le> instant_of (settle_settled_at q)"

definition plan_fits :: "outcome_identity_plan \<Rightarrow> outcome_revision_draft \<Rightarrow> bool" where
  "plan_fits p d \<longleftrightarrow>
     length (plan_source_ids p) = length (revision_sessions d) + length (revision_sources d)
     \<and> length (plan_observation_ids p) = length (revision_observations d)
     \<and> length (plan_metric_ids p) = length (revision_metrics d)
     \<and> length (plan_reference_ids p) = length (reference_dependencies d)
     \<and> length (plan_dependency_ids p) = length (observation_dependencies d)
     \<and> length (plan_reason_ids p) = length (revision_reasons d)"

lemma created_plan_fits: "plan_fits (outcome_identity_plan_create d ids outcome) d"
  by (simp add: plan_fits_def outcome_identity_plan_create_def fresh_ids_def Let_def del: upt_Suc)

text \<open>All identities of a plan.\<close>

definition plan_identities :: "outcome_identity_plan \<Rightarrow> uuid list" where
  "plan_identities p = plan_outcome_id p # plan_revision_id p # plan_source_ids p @ plan_observation_ids p @ plan_metric_ids p
     @ plan_reference_ids p @ plan_dependency_ids p @ plan_reason_ids p"

lemma created_plan_distinct:
  assumes "inj_on ids {..<N}" "length (plan_identities (outcome_identity_plan_create d ids None)) \<le> N"
  shows "distinct (plan_identities (outcome_identity_plan_create d ids None))"
proof -
  have len: "2 + (length (revision_sessions d) + length (revision_sources d)) + length (revision_observations d)
      + length (revision_metrics d) + length (reference_dependencies d) + length (observation_dependencies d)
      + length (revision_reasons d) \<le> N"
    using assms(2) by (simp add: plan_identities_def outcome_identity_plan_create_def fresh_ids_def Let_def del: upt_Suc)
  have eq: "ids i = ids j \<longleftrightarrow> i = j" if "i < N" "j < N" for i j
    using inj_on_eq_iff [OF assms(1), of i j] that by simp
  have block: "distinct (map ids [i..<j])" if "j \<le> N" for i j
    unfolding distinct_map using that by (auto intro: inj_on_subset [OF assms(1)])
  have apart: "ids ` {i..<j} \<inter> ids ` {k..<l} = {}" if "j \<le> k" "l \<le> N" for i j k l
    using that eq by fastforce
  have single: "ids i \<notin> ids ` {k..<l}" if "i < k" "l \<le> N" for i k l
    using that eq by fastforce
  show ?thesis
    using len eq [of 0 "Suc 0"] unfolding plan_identities_def outcome_identity_plan_create_def fresh_ids_def Let_def
    by (simp add: block apart single Int_Un_distrib del: upt_Suc)
qed

section \<open>Drafts that fit their Target\<close>

definition reason_fits :: "outcome_revision_draft \<Rightarrow> outcome_reason_draft \<Rightarrow> bool" where
  "reason_fits d q \<longleftrightarrow>
     (case reason_dimension q of
        Reason_SOURCE \<Rightarrow> \<exists>k. reason_checkpoint_id q = Some k \<and> k \<in> source_checkpoint_id ` set (revision_sources d)
      | Reason_OBSERVATION \<Rightarrow> \<exists>k. reason_checkpoint_id q = Some k \<and> k \<in> observation_checkpoint_id ` set (revision_observations d)
      | Reason_METRIC \<Rightarrow> \<exists>k. reason_metric_id q = Some k \<and> k \<in> metric_definition_id ` set (revision_metrics d)
      | Reason_REVISION \<Rightarrow> True)"

definition draft_fits :: "outcome_target_definition \<Rightarrow> outcome_revision_draft \<Rightarrow> bool" where
  "draft_fits t d \<longleftrightarrow>
     aware (observation_cutoff d) \<and> aware (knowledge_cutoff d)
     \<and> (\<forall>s \<in> set (revision_sessions d). canonical (session_dataclass s))
     \<and> (\<forall>s \<in> set (revision_sources d). canonical (source_dataclass s)
          \<and> (\<exists>c session. row_at checkpoint_id (rev (target_checkpoints t)) (source_checkpoint_id s) = Some c
               \<and> session_at (revision_sessions d) (checkpoint_offset c) = Some session))
     \<and> observation_checkpoint_id ` set (revision_observations d) \<subseteq> source_checkpoint_id ` set (revision_sources d)
     \<and> (\<forall>x \<in> set (reference_dependencies d). reference_dependency_id x \<in> dependency_id ` set (target_dependencies t)
          \<and> reference_dependency_metric x \<in> metric_definition_id ` set (revision_metrics d))
     \<and> (\<forall>x \<in> set (observation_dependencies d). observation_dependency_id x \<in> dependency_id ` set (target_dependencies t)
          \<and> observation_dependency_metric x \<in> metric_definition_id ` set (revision_metrics d)
          \<and> observation_dependency_checkpoint x \<in> observation_checkpoint_id ` set (revision_observations d))
     \<and> (\<forall>q \<in> set (revision_reasons d). reason_fits d q)"

section \<open>Every loop goes through\<close>

lemma source_authority_total:
  assumes "aware (source_authority_observed a)" "aware (source_authority_known a)"
    "canonical (session_dataclass (source_authority_session a))"
    "\<forall>s. source_authority_source a = Some s \<longrightarrow> canonical (source_dataclass s)"
  shows "\<exists>y. outcome_source_authority_init a = Inr y"
proof -
  have "canonical (source_authority_payload a)"
    using assms by (auto simp: source_authority_payload_def aware_def optional_payload_def split: option.splits)
  then show ?thesis using canonical_json_sha256_total [of "source_authority_payload a"] by (auto simp: outcome_source_authority_init_def mapR_def)
qed

lemma session_at_member: "session_at ss i = Some s \<Longrightarrow> s \<in> set ss"
  by (auto simp: session_at_def find_Some_iff) (metis length_rev nth_mem set_rev)

lemma sources_total:
  assumes "draft_fits t d" "plan_fits p d"
  shows "\<exists>sids ss. build_sources p t d = Inr (sids, ss) \<and> fst ` set sids = source_checkpoint_id ` set (revision_sources d)"
proof -
  note a = assms [unfolded draft_fits_def plan_fits_def]
  have "\<exists>ss. mapE (build_session_source d) (enumerate 1 (zip (plan_source_ids p) (revision_sessions d))) = Inr ss"
    unfolding mapE_is_Inr
  proof
    fix x assume x: "x \<in> set (enumerate 1 (zip (plan_source_ids p) (revision_sessions d)))"
    obtain n i s where nis: "x = (n, i, s)" by (cases x)
    have "s \<in> set (revision_sessions d)" using x by (auto simp: nis in_set_enumerate_eq dest: set_zip_rightD nth_mem)
    then show "\<exists>y. build_session_source d x = Inr y"
      unfolding nis build_session_source_def prod.case by (intro source_authority_total) (simp_all add: a)
  qed
  then obtain bs where bs: "mapE (build_session_source d) (enumerate 1 (zip (plan_source_ids p) (revision_sessions d))) = Inr bs" by blast
  have "\<exists>os. mapE (build_checkpoint_source t d (plan_source_ids p)) (enumerate 0 (revision_sources d)) = Inr os"
    unfolding mapE_is_Inr
  proof
    fix x assume x: "x \<in> set (enumerate 0 (revision_sources d))"
    obtain n s where ns: "x = (n, s)" by (cases x)
    have s: "n < length (revision_sources d)" "s \<in> set (revision_sources d)" using x by (auto simp: ns in_set_enumerate_eq)
    then obtain c session where c: "row_at checkpoint_id (rev (target_checkpoints t)) (source_checkpoint_id s) = Some c"
      "session_at (revision_sessions d) (checkpoint_offset c) = Some session" "canonical (source_dataclass s)" using a by blast
    have "canonical (session_dataclass session)" using session_at_member [OF c(2)] a by blast
    then obtain y where "outcome_source_authority_init
          \<lparr>source_authority_id = plan_source_ids p ! (length (revision_sessions d) + n),
           source_authority_ordinal = int (length (revision_sessions d) + n + 1), source_authority_session = session,
           source_authority_source = Some s, source_authority_checkpoint = Some (source_checkpoint_id s),
           source_authority_observed = observation_cutoff d, source_authority_known = knowledge_cutoff d,
           source_authority_sha256 = []\<rparr> = Inr y"
      using source_authority_total a c(3) by (metis (no_types, lifting) option.inject outcome_source_authority.select_convs(3,4,6,7))
    then show "\<exists>y. build_checkpoint_source t d (plan_source_ids p) x = Inr y"
      using s(1) c(1,2) a by (simp add: ns build_checkpoint_source_def Let_def tuple_item_def mapR_def)
  qed
  then obtain os where os: "mapE (build_checkpoint_source t d (plan_source_ids p)) (enumerate 0 (revision_sources d)) = Inr os" by blast
  have len: "length (bs @ map snd os) = length (plan_source_ids p)"
    using mapE_Inr_length [OF bs] mapE_Inr_length [OF os] a by simp
  have keys: "map (fst \<circ> fst) os = map source_checkpoint_id (revision_sources d)"
  proof (rule nth_equalityI)
    show l: "length (map (fst \<circ> fst) os) = length (map source_checkpoint_id (revision_sources d))"
      using mapE_Inr_length [OF os] by simp
    fix i assume "i < length (map (fst \<circ> fst) os)"
    then have i: "i < length (revision_sources d)" using l by simp
    then have "build_checkpoint_source t d (plan_source_ids p) (i, revision_sources d ! i) = Inr (os ! i)"
      using mapE_Inr_nth [OF os, of i] by (simp add: nth_enumerate_eq)
    from checkpoint_source_parts [OF this] show "map (fst \<circ> fst) os ! i = map source_checkpoint_id (revision_sources d) ! i"
      using i l by auto
  qed
  have "build_sources p t d = Inr (map fst os, bs @ map snd os)"
    using len unfolding build_sources_def bs os bindE_simps by (simp add: guardE_def)
  moreover have "fst ` set (map fst os) = source_checkpoint_id ` set (revision_sources d)"
    using arg_cong [OF keys, of set] by (simp add: image_comp)
  ultimately show ?thesis by blast
qed

lemma entries_keys:
  assumes "metric_entries d ms = Inr kvs" "length ms = length (revision_metrics d)"
    "\<And>n. n < length (revision_metrics d) \<Longrightarrow> metric_draft_index (ms ! n) = n"
  shows "fst ` set kvs = metric_definition_id ` set (revision_metrics d)"
proof -
  note k = assms(1) [unfolded metric_entries_def]
  have "map fst kvs = map metric_definition_id (revision_metrics d)"
    using mapE_Inr_length [OF k] mapE_Inr_nth [OF k] assms(2,3)
    by (intro nth_equalityI) (auto simp: mapR_Inr_iff tuple_item_Inr)
  from arg_cong [OF this, of set] show ?thesis by simp
qed

lemma observation_entries_keys:
  assumes "observation_entries d os = Inr kvs" "length os = length (revision_observations d)"
    "\<And>n. n < length (revision_observations d) \<Longrightarrow> observation_draft_index (os ! n) = n"
  shows "fst ` set kvs = observation_checkpoint_id ` set (revision_observations d)"
proof -
  note k = assms(1) [unfolded observation_entries_def]
  have "map fst kvs = map observation_checkpoint_id (revision_observations d)"
    using mapE_Inr_length [OF k] mapE_Inr_nth [OF k] assms(2,3)
    by (intro nth_equalityI) (auto simp: mapR_Inr_iff tuple_item_Inr)
  from arg_cong [OF this, of set] show ?thesis by simp
qed

text \<open>The rest of the loops.\<close>

lemma build_observation_total:
  assumes "draft_fits t d" "x \<in> set (revision_observations d)" "fst ` set sids = source_checkpoint_id ` set (revision_sources d)"
  shows "\<exists>y. build_observation d sids n i x = Inr y"
proof -
  have "observation_checkpoint_id x \<in> fst ` set sids" using assms by (auto simp: draft_fits_def)
  then obtain s where "last_entry sids (observation_checkpoint_id x) = Inr s" using last_entry_total by metis
  moreover obtain h where "canonical_json_sha256 (PMapping
      [(''draft_sha256'', PStr (observation_sha256 x)), (''market_target_outcome_source_id'', PUuid s),
       (''observation_cutoff'', PDatetime (observation_cutoff d)), (''knowledge_cutoff'', PDatetime (knowledge_cutoff d))]) = Inr h"
    using canonical_json_sha256_total assms(1) by (fastforce simp: draft_fits_def aware_def)
  ultimately show ?thesis by (simp add: build_observation_def)
qed

lemma build_metric_total: "\<exists>y. build_metric t n i m = Inr y"
proof -
  obtain h where "canonical_json_sha256 (PMapping
      [(''draft_sha256'', PStr (metric_draft_sha256 m)), (''target_definition_id'', PUuid (target_id t))]) = Inr h"
    using canonical_json_sha256_total by fastforce
  then show ?thesis by (simp add: build_metric_def)
qed

interpretation dependency_rows: keyed_table dependency_id .

lemma target_dependency_row_total:
  "i \<in> dependency_id ` set (target_dependencies t) \<Longrightarrow> \<exists>row. target_dependency_row t i = Inr row"
  using dependency_rows.row_at_None_iff [of "rev (target_dependencies t)" i]
  by (auto simp: target_dependency_row_def simp del: dependency_rows.row_at_None_iff)

lemma build_reference_total:
  assumes "reference_dependency_id x \<in> dependency_id ` set (target_dependencies t)"
    "reference_dependency_metric x \<in> fst ` set mids"
  shows "\<exists>y. build_reference_dependency t mids n i x = Inr y"
proof -
  obtain row m where "target_dependency_row t (reference_dependency_id x) = Inr row"
    "last_entry mids (reference_dependency_metric x) = Inr m"
    using target_dependency_row_total [OF assms(1)] last_entry_total [OF assms(2)] by blast
  moreover obtain h where "canonical_json_sha256 (PMapping
       [(''decision_reference_observation_id'', PUuid (reference_dependency_reference x)),
        (''market_target_outcome_metric_id'', PUuid m),
        (''target_dependency_sha256'', PStr (dependency_sha256 row)),
        (''target_metric_dependency_id'', PUuid (reference_dependency_id x))]) = Inr h"
    using canonical_json_sha256_total by fastforce
  ultimately show ?thesis by (simp add: build_reference_dependency_def)
qed

lemma build_dependency_total:
  assumes "observation_dependency_id x \<in> dependency_id ` set (target_dependencies t)"
    "observation_dependency_metric x \<in> fst ` set mids" "observation_dependency_checkpoint x \<in> fst ` set oids"
  shows "\<exists>y. build_observation_dependency t mids oids n i x = Inr y"
proof -
  obtain row m ob where "target_dependency_row t (observation_dependency_id x) = Inr row"
    "last_entry mids (observation_dependency_metric x) = Inr m" "last_entry oids (observation_dependency_checkpoint x) = Inr ob"
    using target_dependency_row_total [OF assms(1)] last_entry_total [OF assms(2)] last_entry_total [OF assms(3)] by blast
  moreover obtain h where "canonical_json_sha256 (PMapping
       [(''market_target_outcome_metric_id'', PUuid m), (''market_target_outcome_observation_id'', PUuid ob),
        (''target_dependency_sha256'', PStr (dependency_sha256 row)),
        (''target_metric_dependency_id'', PUuid (observation_dependency_id x))]) = Inr h"
    using canonical_json_sha256_total by fastforce
  ultimately show ?thesis by (simp add: build_observation_dependency_def)
qed

lemma build_reason_total:
  assumes "reason_fits d q" "fst ` set sids = source_checkpoint_id ` set (revision_sources d)"
    "fst ` set oids = observation_checkpoint_id ` set (revision_observations d)"
    "fst ` set mids = metric_definition_id ` set (revision_metrics d)"
  shows "\<exists>y. build_reason sids oids mids n i q = Inr y"
proof -
  obtain src ob m where s: "reason_subject sids oids mids q = Inr (src, ob, m)"
  proof (cases "reason_dimension q")
    case Reason_SOURCE
    with assms(1,2) obtain k where k: "reason_checkpoint_id q = Some k" "k \<in> fst ` set sids" by (auto simp: reason_fits_def)
    obtain i where "last_entry sids k = Inr i" using last_entry_total [OF k(2)] by blast
    then show ?thesis using that k(1) Reason_SOURCE by (simp add: reason_subject_def mapR_def)
  next
    case Reason_OBSERVATION
    with assms(1,3) obtain k where k: "reason_checkpoint_id q = Some k" "k \<in> fst ` set oids" by (auto simp: reason_fits_def)
    obtain i where "last_entry oids k = Inr i" using last_entry_total [OF k(2)] by blast
    then show ?thesis using that k(1) Reason_OBSERVATION by (simp add: reason_subject_def mapR_def)
  next
    case Reason_METRIC
    with assms(1,4) obtain k where k: "reason_metric_id q = Some k" "k \<in> fst ` set mids" by (auto simp: reason_fits_def)
    obtain i where "last_entry mids k = Inr i" using last_entry_total [OF k(2)] by blast
    then show ?thesis using that k(1) Reason_METRIC by (simp add: reason_subject_def mapR_def)
  qed (use that in \<open>simp add: reason_subject_def\<close>)
  obtain h where "canonical_json_sha256 (PMapping
       [(''market_target_outcome_metric_id'', optional_payload PUuid m),
        (''market_target_outcome_observation_id'', optional_payload PUuid ob),
        (''market_target_outcome_source_id'', optional_payload PUuid src),
        (''reason_code'', PStr (reason_draft_code q)),
        (''reason_dimension'', PStr (outcome_reason_dimension_value (reason_dimension q)))]) = Inr h"
    using canonical_json_sha256_total by (fastforce simp: optional_payload_def split: option.splits)
  then show ?thesis by (simp add: build_reason_def s)
qed

text \<open>The constructor of the revision.\<close>

lemma revision_authority_total:
  assumes "settlement_request_ok q" "aware (observation_cutoff d)" "aware (knowledge_cutoff d)"
  shows "\<exists>r. outcome_revision_authority_init (build_revision p d rt q ss os ms refs deps rs) = Inr r"
proof -
  let ?r = "build_revision p d rt q ss os ms refs deps rs"
  note q = assms(1) [unfolded settlement_request_ok_def]
  have checks: "authority_checks ?r = Inr ()"
    using q by (auto simp: authority_checks_def build_revision_def outcome_sha_def)
  obtain ti toff si soff where times: "settle_received_at q = Aware ti toff" "settle_settled_at q = Aware si soff" "ti \<le> si"
    using q by (auto simp: aware_def)
  let ?r2 = "?r\<lparr>revision_received_at := Aware ti 0, revision_settled_at := Aware si 0\<rparr>"
  have rosters: "canonical (authority_source_roster ?r2)" "canonical (authority_observation_roster ?r2)"
    "canonical (authority_metric_roster ?r2)" "canonical (authority_reference_roster ?r2)"
    "canonical (authority_dependency_roster ?r2)" "canonical (authority_reason_roster ?r2)"
    by (auto simp: authority_source_roster_def authority_observation_roster_def authority_metric_roster_def
        authority_reference_roster_def authority_dependency_roster_def authority_reason_roster_def authority_roster_def)
  obtain h1 h2 h3 h4 h5 h6 where h: "canonical_json_sha256 (authority_source_roster ?r2) = Inr h1"
    "canonical_json_sha256 (authority_observation_roster ?r2) = Inr h2" "canonical_json_sha256 (authority_metric_roster ?r2) = Inr h3"
    "canonical_json_sha256 (authority_reference_roster ?r2) = Inr h4" "canonical_json_sha256 (authority_dependency_roster ?r2) = Inr h5"
    "canonical_json_sha256 (authority_reason_roster ?r2) = Inr h6"
    using rosters [THEN canonical_json_sha256_total] by (elim exE) blast
  let ?r3 = "?r2\<lparr>authority_source_roster_sha256 := h1, authority_observation_roster_sha256 := h2,
      authority_metric_roster_sha256 := h3, authority_reference_roster_sha256 := h4,
      authority_dependency_roster_sha256 := h5, authority_reason_roster_sha256 := h6\<rparr>"
  have "canonical (authority_summary_payload ?r3)"
    using assms(2,3) by (auto simp: authority_summary_payload_def Let_def build_revision_def aware_def)
  then obtain h7 where h7: "canonical_json_sha256 (authority_summary_payload ?r3) = Inr h7"
    using canonical_json_sha256_total by blast
  have rt: "revision_received_at ?r = Aware ti toff" "revision_settled_at ?r = Aware si soff"
    by (simp_all add: build_revision_def times)
  have "outcome_revision_authority_init ?r = Inr (?r3\<lparr>authority_summary_sha256 := h7\<rparr>)"
    using times(3) unfolding outcome_revision_authority_init_def checks rt
    by (simp add: Let_def h h7)
  then show ?thesis by blast
qed

section \<open>The whole of it\<close>

lemma authority_built:
  assumes fits: "draft_fits t d" "plan_fits p d" and q: "settlement_request_ok q" and c: "commitment_matches c t"
    and r: "decision_reference_id (commitment_reference c) = revision_reference_id d"
      "reference_sha256 (commitment_reference c) = revision_reference_sha256 d"
  shows "\<exists>a. build_market_target_outcome_authority p c t d rt q = Inr a"
proof -
  note f = fits(1) [unfolded draft_fits_def] and len = fits(2) [unfolded plan_fits_def]
  obtain sids ss where ss: "build_sources p t d = Inr (sids, ss)" "fst ` set sids = source_checkpoint_id ` set (revision_sources d)"
    using sources_total [OF fits] by blast
  have "\<exists>os. zip_strictE (build_observation d sids) (plan_observation_ids p) (revision_observations d) = Inr os"
    using len by (intro zip_strictE_total build_observation_total [OF fits(1) _ ss(2)]) simp_all
  then obtain os where os: "zip_strictE (build_observation d sids) (plan_observation_ids p) (revision_observations d) = Inr os" by blast
  have "\<exists>ms. zip_strictE (build_metric t) (plan_metric_ids p) (revision_metrics d) = Inr ms"
    using len by (intro zip_strictE_total build_metric_total) simp
  then obtain ms where ms: "zip_strictE (build_metric t) (plan_metric_ids p) (revision_metrics d) = Inr ms" by blast
  have mi: "length ms = length (revision_metrics d)" "n < length (revision_metrics d) \<Longrightarrow> metric_draft_index (ms ! n) = n" for n
    using zip_strictE_Inr(2,3) [OF ms] build_metric_bound by (blast, blast)
  have oi: "length os = length (revision_observations d)"
    "n < length (revision_observations d) \<Longrightarrow> observation_draft_index (os ! n) = n" for n
    using zip_strictE_Inr(2) [OF os] zip_strictE_Inr(3) [OF os, of n]
    by (simp, auto simp: build_observation_def bindE_Inr_iff dest!: sym [of _ "os ! n"])
  have "\<exists>mids. metric_entries d ms = Inr mids" "\<exists>oids. observation_entries d os = Inr oids"
    unfolding metric_entries_def observation_entries_def mapE_is_Inr mapR_is_Inr tuple_item_Inr
    using mi oi by (metis in_set_conv_nth)+
  then obtain mids oids where e: "metric_entries d ms = Inr mids" "observation_entries d os = Inr oids" by blast
  note mk = entries_keys [OF e(1) mi] and ok = observation_entries_keys [OF e(2) oi]
  have "\<exists>refs. zip_strictE (build_reference_dependency t mids) (plan_reference_ids p) (reference_dependencies d) = Inr refs"
    using len f mk by (intro zip_strictE_total build_reference_total) simp_all
  then obtain refs where refs: "zip_strictE (build_reference_dependency t mids) (plan_reference_ids p) (reference_dependencies d) = Inr refs" by blast
  have "\<exists>deps. zip_strictE (build_observation_dependency t mids oids) (plan_dependency_ids p) (observation_dependencies d) = Inr deps"
    using len f mk ok by (intro zip_strictE_total build_dependency_total) simp_all
  then obtain deps where deps: "zip_strictE (build_observation_dependency t mids oids) (plan_dependency_ids p) (observation_dependencies d) = Inr deps" by blast
  have "\<exists>rs. zip_strictE (build_reason sids oids mids) (plan_reason_ids p) (revision_reasons d) = Inr rs"
    using len f by (intro zip_strictE_total build_reason_total [OF _ ss(2) ok mk]) simp_all
  then obtain rs where rs: "zip_strictE (build_reason sids oids mids) (plan_reason_ids p) (revision_reasons d) = Inr rs" by blast
  have aw: "aware (observation_cutoff d)" "aware (knowledge_cutoff d)" using f by simp_all
  obtain rev where rev: "outcome_revision_authority_init (build_revision p d rt q ss os ms refs deps rs) = Inr rev"
    using revision_authority_total [OF q aw] by blast
  have "reference_from_draft (commitment_reference c) d = Inr (commitment_reference c)"
    using r by (simp add: reference_from_draft_def)
  then show ?thesis
    by (simp add: build_market_target_outcome_authority_def c ss(1) os ms e refs deps rs rev)
qed

section \<open>The drafts of the kernel\<close>

lemma returned_rows:
  assumes "calculate_market_target_outcome zones t r sessions sources observed known = Inr d"
  shows "reference_rows t r = Inr (reference_dependencies d)" "observation_rows t = Inr (observation_dependencies d)"
    "revision_reference_id d = decision_reference_id r" "revision_reference_sha256 d = reference_sha256 r"
    "revision_target_id d = target_id t" "revision_target_sha256 d = target_sha256 t"
proof -
  obtain d0 where init: "outcome_revision_draft_init d0 = Inr d" and rows: "reference_rows t r = Inr (reference_dependencies d0)"
    "observation_rows t = Inr (observation_dependencies d0)" and
    ids: "revision_reference_id d0 = decision_reference_id r" "revision_reference_sha256 d0 = reference_sha256 r"
      "revision_target_id d0 = target_id t" "revision_target_sha256 d0 = target_sha256 t"
    using assms unfolding calculate_market_target_outcome_def thenE_Inr_iff bindE_Inr_iff guardE_Inr_iff
    by (auto simp: bindE_Inr_iff)
  have u: "unhashed d = unhashed d0" by (rule revision_init_parts(1) [OF init])
  have "reference_dependencies d = reference_dependencies d0" "observation_dependencies d = observation_dependencies d0"
    "revision_reference_id d = revision_reference_id d0" "revision_reference_sha256 d = revision_reference_sha256 d0"
    "revision_target_id d = revision_target_id d0" "revision_target_sha256 d = revision_target_sha256 d0"
    using u by (simp_all add: unhashed_def) (cases d; cases d0; simp)+
  then show "reference_rows t r = Inr (reference_dependencies d)" "observation_rows t = Inr (observation_dependencies d)"
    "revision_reference_id d = decision_reference_id r" "revision_reference_sha256 d = reference_sha256 r"
    "revision_target_id d = target_id t" "revision_target_sha256 d = target_sha256 t"
    using rows ids by simp_all
qed

lemma returned_sources_placed:
  assumes "outcome_ready zones t r sessions sources observed known" "s \<in> set sources"
  shows "\<exists>c session. row_at checkpoint_id (rev (target_checkpoints t)) (source_checkpoint_id s) = Some c
    \<and> session_at sessions (checkpoint_offset c) = Some session"
proof -
  note p = ready_parts [OF assms(1)]
  have "source_checkpoint_id s \<in> checkpoint_id ` set (target_checkpoints t)"
    using inputs_aligned(2) [OF p(7)] assms(2) by (metis imageI set_map)
  then obtain c where c: "row_at checkpoint_id (rev (target_checkpoints t)) (source_checkpoint_id s) = Some c"
    using checkpoint_rows.row_at_None_iff [of "rev (target_checkpoints t)" "source_checkpoint_id s"] by fastforce
  then have "c \<in> set (target_checkpoints t)" using checkpoint_rows.row_at_Some_in by fastforce
  then have "checkpoint_offset c \<in> session_offset ` set sessions" using inputs_aligned(4) [OF p(7)] by (metis imageI set_map)
  then have "\<exists>session. session_at sessions (checkpoint_offset c) = Some session"
    unfolding session_at_def by (cases "find (\<lambda>s. session_offset s = checkpoint_offset c) (rev sessions)") (auto simp: find_None_iff)
  then show ?thesis using c by blast
qed

lemma returned_reasons_fit:
  assumes "outcome_run t r sessions sources d" "q \<in> set (revision_reasons d)"
  shows "reason_fits d q"
proof -
  obtain ms amb where ms: "list_all2 (settled_as t ms) ms (revision_metrics d)"
    "set amb = metric_definition_id ` {m \<in> set ms. ambiguous t ms m}"
    "revision_reasons d = map reason_row (numbered (sorted_reasons (revision_observations d) (revision_metrics d) amb))"
    using assms(1) unfolding outcome_run_def by blast
  have amb: "set amb \<subseteq> metric_definition_id ` set (revision_metrics d)"
  proof
    fix i assume "i \<in> set amb"
    then obtain m where m: "m \<in> set ms" "i = metric_definition_id m" using ms(2) by auto
    obtain y where "y \<in> set (revision_metrics d)" "settled_as t ms m y" using list_all2_left [OF ms(1) m(1)] by blast
    then show "i \<in> metric_definition_id ` set (revision_metrics d)" using m(2) settled_as_fields(1) by (metis imageI)
  qed
  have "value_of_reason q \<in> set (reason_values (revision_observations d) (revision_metrics d) amb)"
  proof -
    have "value_of_reason q \<in> set (map value_of_reason (revision_reasons d))" using assms(2) by simp
    then show ?thesis unfolding returned_reasons(1) [OF ms(3)] sorted_reasons_def by simp
  qed
  then show ?thesis
    unfolding reason_values_set using amb
    by (cases "reason_dimension q") (auto simp: value_of_reason_def reason_fits_def)
qed

lemma returned_fits:
  assumes ready: "outcome_ready zones t r sessions sources observed known" and run: "outcome_run t r sessions sources d"
    and d: "calculate_market_target_outcome zones t r sessions sources observed known = Inr d"
  shows "draft_fits t d"
proof -
  note p = ready_parts [OF ready] and parts = returned_parts [OF d] and rows = returned_rows [OF d]
  obtain ms where ms: "list_all2 (metric_outcome t r (revision_observations d)) (target_metrics t) ms"
    "list_all2 (settled_as t ms) ms (revision_metrics d)" using run by (auto simp: outcome_run_def)
  have "map metric_definition_id (revision_metrics d) = map definition_id (target_metrics t)"
    using list_all2_map_eq [OF ms(2) settled_as_fields(1)] list_all2_map_eq [OF ms(1) result_fields(1)] by simp
  then have metrics: "metric_definition_id ` set (revision_metrics d) = definition_id ` set (target_metrics t)"
    by (metis set_map)
  have obs: "map observation_checkpoint_id (revision_observations d) = map source_checkpoint_id (revision_sources d)"
    using observation_rows_run(3) [OF p(7) parts(2)] parts(6) by simp
  then have observed: "observation_checkpoint_id ` set (revision_observations d) = source_checkpoint_id ` set (revision_sources d)"
    by (metis set_map)
  have checkpoints: "source_checkpoint_id ` set (revision_sources d) = checkpoint_id ` set (target_checkpoints t)"
    using inputs_aligned(2) [OF p(7)] parts(6) by (metis set_map)
  obtain seen where "foldE (check_dependency t) (target_dependencies t) {} = Inr seen"
    using p(1) by (auto simp: target_accepted_def outcome_target_definition_init_def Let_def thenE_Inr_iff bindE_Inr_iff
        simp del: thenE_guardE)
  note dep = check_dependencies [OF this]
  have refs: "reference_dependency_id x \<in> dependency_id ` set (target_dependencies t)
      \<and> reference_dependency_metric x \<in> metric_definition_id ` set (revision_metrics d)" if x: "x \<in> set (reference_dependencies d)" for x
    using x dep(1) metrics by (auto simp: rows(1) [unfolded references_run sum.inject, symmetric])
  have deps: "observation_dependency_id x \<in> dependency_id ` set (target_dependencies t)
      \<and> observation_dependency_metric x \<in> metric_definition_id ` set (revision_metrics d)
      \<and> observation_dependency_checkpoint x \<in> observation_checkpoint_id ` set (revision_observations d)"
    if x: "x \<in> set (observation_dependencies d)" for x
  proof -
    obtain y where y: "y \<in> set (observing (target_dependencies t))" "observation_dependency_id x = dependency_id y"
      "observation_dependency_metric x = dependency_metric_id y" "observation_dependency_checkpoint x = dependency_checkpoint_id y"
      using x by (auto simp: rows(2) [unfolded observed_run sum.inject, symmetric])
    have yt: "y \<in> set (target_dependencies t)" "dependency_role y \<noteq> Role_REFERENCE" using y(1) by (auto simp: observing_def)
    show ?thesis using y yt dep(1) [OF yt(1)] target_dependency_bound [OF p(1) yt] metrics observed checkpoints by auto
  qed
  have sources: "canonical (source_dataclass s) \<and> (\<exists>c session.
      row_at checkpoint_id (rev (target_checkpoints t)) (source_checkpoint_id s) = Some c
      \<and> session_at (revision_sessions d) (checkpoint_offset c) = Some session)" if "s \<in> set (revision_sources d)" for s
    using returned_sources_placed [OF ready] canonical_sources(2) p(4) that parts(5,6) by simp
  have sessions: "canonical (session_dataclass s)" if "s \<in> set (revision_sessions d)" for s
    using p(3) that parts(5) by (auto intro: canonical_sources(1))
  show ?thesis
    unfolding draft_fits_def using p(5,6) parts(3,4) sessions sources refs deps observed returned_reasons_fit [OF run] by simp
qed

section \<open>The identities of a built revision\<close>

definition revision_identities :: "outcome_revision_authority \<Rightarrow> uuid list" where
  "revision_identities r =
     revision_outcome_id r # revision_authority_id r # map source_authority_id (authority_sources r)
     @ map observation_authority_id (authority_observations r) @ map metric_authority_id (authority_metrics r)
     @ map reference_authority_id (authority_references r) @ map dependency_authority_id (authority_dependencies r)
     @ map reason_authority_id (authority_reasons r)"

lemma build_sources_identities:
  assumes "build_sources p t d = Inr (sids, ss)"
  shows "map source_authority_id ss = plan_source_ids p"
proof -
  let ?ids = "plan_source_ids p" and ?k = "length (revision_sessions d)"
  obtain bs os where b: "mapE (build_session_source d) (enumerate 1 (zip ?ids (revision_sessions d))) = Inr bs"
    "mapE (build_checkpoint_source t d ?ids) (enumerate 0 (revision_sources d)) = Inr os"
    "ss = bs @ map snd os" "length ss = length ?ids"
    using assms by (auto simp: build_sources_def bindE_Inr_iff split: if_splits)
  have len: "length bs = min (length ?ids) ?k" "length os = length (revision_sources d)"
    using mapE_Inr_length [OF b(1)] mapE_Inr_length [OF b(2)] by simp_all
  show ?thesis
  proof (rule nth_equalityI)
    fix i assume "i < length (map source_authority_id ss)"
    then have i: "i < length ?ids" "i < length ss" using b(4) by simp_all
    show "map source_authority_id ss ! i = ?ids ! i"
    proof (cases "i < length bs")
      case True
      then have "build_session_source d (1 + i, ?ids ! i, revision_sessions d ! i) = Inr (bs ! i)"
        using mapE_Inr_nth [OF b(1), of i] len by (simp add: nth_enumerate_eq)
      then have "source_authority_id (bs ! i) = ?ids ! i"
        unfolding build_session_source_def prod.case by (auto dest: source_authority_parts(1))
      then show ?thesis using True i(2) by (simp add: b(3) nth_append)
    next
      case False
      then have k: "length bs = ?k" "i - ?k < length (revision_sources d)" "?k \<le> i" using i b(3) len by (auto simp: min_def split: if_splits)
      have "build_checkpoint_source t d ?ids (i - ?k, revision_sources d ! (i - ?k)) = Inr (os ! (i - ?k))"
        using mapE_Inr_nth [OF b(2), of "i - ?k"] k by (simp add: nth_enumerate_eq)
      from checkpoint_source_parts [OF this] have "source_authority_id (snd (os ! (i - ?k))) = ?ids ! i" using k(3) by auto
      then show ?thesis using False i(2) k len by (simp add: b(3) nth_append)
    qed
  qed (use b(4) in simp)
qed

lemma zip_strictE_identities:
  assumes "zip_strictE f xs ys = Inr zs" "\<And>n x y z. f n x y = Inr z \<Longrightarrow> g z = x"
  shows "map g zs = xs"
proof (rule nth_equalityI)
  fix i assume "i < length (map g zs)"
  then have "i < length ys" using zip_strictE_Inr(2) [OF assms(1)] by simp
  then show "map g zs ! i = xs ! i"
    using assms(2) [OF zip_strictE_Inr(3) [OF assms(1)]] zip_strictE_Inr(2) [OF assms(1)] by simp
qed (use zip_strictE_Inr(1,2) [OF assms(1)] in simp)

lemma built_identities:
  assumes "build_market_target_outcome_authority p c t d rt q = Inr a"
  shows "revision_identities (outcome_revision a) = plan_identities p"
proof -
  let ?r = "outcome_revision a"
  obtain sids mids oids where b:
    "build_sources p t d = Inr (sids, authority_sources ?r)"
    "zip_strictE (build_observation d sids) (plan_observation_ids p) (revision_observations d) = Inr (authority_observations ?r)"
    "zip_strictE (build_metric t) (plan_metric_ids p) (revision_metrics d) = Inr (authority_metrics ?r)"
    "zip_strictE (build_reference_dependency t mids) (plan_reference_ids p) (reference_dependencies d) = Inr (authority_references ?r)"
    "zip_strictE (build_observation_dependency t mids oids) (plan_dependency_ids p) (observation_dependencies d)
       = Inr (authority_dependencies ?r)"
    "zip_strictE (build_reason sids oids mids) (plan_reason_ids p) (revision_reasons d) = Inr (authority_reasons ?r)"
    "revision_authority_id ?r = plan_revision_id p" "revision_outcome_id ?r = plan_outcome_id p"
    by (rule build_parts [OF assms])
  have "map observation_authority_id (authority_observations ?r) = plan_observation_ids p"
    by (rule zip_strictE_identities [OF b(2)]) (auto simp: build_observation_def bindE_Inr_iff)
  moreover have "map metric_authority_id (authority_metrics ?r) = plan_metric_ids p"
    by (rule zip_strictE_identities [OF b(3)]) (auto simp: build_metric_def bindE_Inr_iff)
  moreover have "map reference_authority_id (authority_references ?r) = plan_reference_ids p"
    by (rule zip_strictE_identities [OF b(4)]) (auto simp: build_reference_dependency_def bindE_Inr_iff)
  moreover have "map dependency_authority_id (authority_dependencies ?r) = plan_dependency_ids p"
    by (rule zip_strictE_identities [OF b(5)]) (auto simp: build_observation_dependency_def bindE_Inr_iff)
  moreover have "map reason_authority_id (authority_reasons ?r) = plan_reason_ids p"
    by (rule zip_strictE_identities [OF b(6)]) (auto simp: build_reason_def bindE_Inr_iff split: prod.splits)
  ultimately show ?thesis
    using build_sources_identities [OF b(1)] by (simp add: revision_identities_def plan_identities_def b(7,8))
qed

section \<open>Episode prices\<close>

lemma bar_source_Some: "bar_source s = Some x \<longleftrightarrow> s = Some x \<and> (\<exists>i n op hi lo cl. source_body x = Bar i n op hi lo cl)"
  by (cases s) (auto simp: bar_source_def split: outcome_source_body.splits)

text \<open>The observation a dict finds at a checkpoint is that of the source it finds there.\<close>

lemma observation_of_source:
  assumes "calculate_market_target_outcome zones t r sessions sources observed known = Inr d"
    and "draft_observation_at d k = Some x" "source_at sources k = Some s"
  shows "\<exists>c. observes x (c, s) \<and> (c, s) \<in> set (zip (target_checkpoints t) sources)"
proof -
  note p = returned_parts [OF assms(1)]
  note rows = observation_rows_run [OF p(1,2)] and aligned = inputs_aligned [OF p(1)]
  have x: "x \<in> set (revision_observations d)" "observation_checkpoint_id x = k"
    using observed_rows.row_at_Some_in observed_rows.row_at_Some_key assms(2) unfolding draft_observation_at_def by (fastforce, fast)
  obtain i where i: "i < length sources" "x = revision_observations d ! i" using x(1) rows(1) by (metis in_set_conv_nth)
  have ob: "observes x (target_checkpoints t ! i, sources ! i)" using rows(2) [OF i(1)] i(2) by simp
  have s: "s \<in> set sources" "source_checkpoint_id s = k"
    using source_rows.row_at_Some_in source_rows.row_at_Some_key assms(3) unfolding source_at_def by (fastforce, fast)
  have "source_checkpoint_id (sources ! i) = k" using observes_fields(1) [OF ob] x(2) by simp
  then have "sources ! i = s" using s i(1) aligned(3) by (metis distinct_map inj_onD nth_mem)
  then show ?thesis using ob i(1) aligned(1) by (auto simp: set_zip)
qed

lemma episode_parts:
  assumes "episode_prices a entry_id exit_id = Inr e"
  shows "\<exists>x y u v. draft_observation_at (revision_draft (outcome_revision a)) entry_id = Some x
    \<and> draft_observation_at (revision_draft (outcome_revision a)) exit_id = Some y
    \<and> bar_source (source_at (revision_sources (revision_draft (outcome_revision a))) entry_id) = Some u
    \<and> bar_source (source_at (revision_sources (revision_draft (outcome_revision a))) exit_id) = Some v
    \<and> complete_close x = Some (episode_entry_close e) \<and> complete_close y = Some (episode_exit_close e)
    \<and> same_episode_scope u v
    \<and> instant_of (commitment_decision_time (outcome_commitment_of a)) < instant_of (observation_end x)
    \<and> instant_of (observation_end x) < instant_of (observation_end y)
    \<and> episode_known_at e = datetime_max (observation_known_at x) (observation_known_at y)
    \<and> episode_entry_time e = observation_end x \<and> episode_exit_time e = observation_end y
    \<and> (\<exists>bound. observation_entries (revision_draft (outcome_revision a)) (authority_observations (outcome_revision a)) = Inr bound
        \<and> last_entry bound entry_id = Inr (episode_entry_observation e) \<and> last_entry bound exit_id = Inr (episode_exit_observation e))
    \<and> entry_id \<noteq> exit_id"
  using assms unfolding episode_prices_def Let_def thenE_Inr_iff bindE_Inr_iff guardE_Inr_iff
  by auto

lemma complete_close_price:
  assumes "observes x (c, s)" "source_body s = Bar i n op hi lo cl" "complete_close x = Some v"
  shows "v = cl"
  using assms by (auto simp: complete_close_def observes_def observation_of_def split: if_splits)

end
