(* ===== verification/Outcome_Settlement_Properties.thy ===== *)
theory Outcome_Settlement_Properties
  imports Outcome_Built Outcome_Scenario
begin

text \<open>
  The properties of a revision with its identities: it is built, it refers to nothing outside
  itself, and the prices an episode takes from it are closes of its sources.
\<close>

section \<open>The scenario, settled\<close>

definition demo_commitment :: outcome_commitment where
  "demo_commitment = \<lparr>outcome_commitment_id = 61, commitment_run_id = 62, commitment_run_target_id = 63,
     commitment_candidate_set_id = 64, commitment_candidate_id = 65, commitment_instrument_id = 7,
     commitment_target_id = 9, commitment_target_version = 1, commitment_target_sha256 = demo_sha,
     commitment_checkpoint_id = 10, commitment_product_id = 6, commitment_capture_id = 5, commitment_session_id = 40,
     commitment_source_kind = ''BAR_REVISION'', commitment_fact_id = 30, commitment_reference_known_at = demo_at demo_day 15,
     commitment_decision_time = demo_at demo_day 16, commitment_runtime_mode = ''SHADOW'',
     commitment_recorded_at = demo_at demo_day 17, commitment_reference = demo_reference, commitment_scope = None\<rparr>"

definition demo_outcome_runtime :: outcome_runtime where
  "demo_outcome_runtime = \<lparr>outcome_run_id = 71, outcome_step_id = 72, outcome_attempt_id = 73, outcome_fence_token = 1,
     outcome_step_key = ''settle'', outcome_step_kind = ''SETTLE_OUTCOME'', outcome_runtime_mode = ''SHADOW'',
     outcome_decision_time = demo_at demo_day 16, outcome_code_sha = demo_sha, outcome_config_artifact_id = 74,
     outcome_config_hash = demo_sha\<rparr>"

definition demo_settlement :: outcome_settlement_request where
  "demo_settlement = \<lparr>settle_revision_ordinal = 1, settle_supersedes_id = None, settle_request_identity = ''settle-1'',
     settle_request_sha256 = demo_sha, settle_received_at = demo_at (demo_day + 2) 21, settle_settled_at = demo_at (demo_day + 2) 22,
     settle_receipt_id = 75, settle_actor_type = ''SYSTEM'', settle_actor_id = ''worker'', settle_reason_code = ''SETTLE''\<rparr>"

lemma demo_settlement_ok: "settlement_request_ok demo_settlement" "commitment_matches demo_commitment demo_target"
  "commitment_reference demo_commitment = demo_reference"
proof -
  show "settlement_request_ok demo_settlement"
    by (simp add: settlement_request_ok_def demo_settlement_def demo_sha_ok demo_at_def demo_day_def aware_def outcome_request_ok_def
        head_tail_match_def code_ok_def is_alnum_def is_lower_def is_upper_def is_digit_def)
qed (simp_all add: commitment_matches_def demo_commitment_def demo_target_def)

text \<open>A second scenario: two checkpoints of one session, both served by bars.\<close>

definition intraday_target :: outcome_target_definition where
  "intraday_target = demo_target
     \<lparr>target_checkpoints :=
        [(demo_checkpoint 11 1)\<lparr>checkpoint_time := NaiveTime 36000000000, checkpoint_timeframe := ''MINUTE_60''\<rparr>,
         (demo_checkpoint 12 2)\<lparr>checkpoint_offset := 1, checkpoint_time := NaiveTime 39600000000, checkpoint_timeframe := ''MINUTE_60''\<rparr>],
      target_metrics := [demo_metric 26 1 OBSERVATION_VALUE REQUIRED None None],
      target_dependencies := [demo_dependency 1 26 11 Role_OBSERVATION]\<rparr>"

definition intraday_source :: "uuid \<Rightarrow> int \<Rightarrow> outcome_source_body \<Rightarrow> outcome_observation_source" where
  "intraday_source k n body = (demo_source k n 41 body)
     \<lparr>source_timeframe := ''MINUTE_60'', source_start := demo_at (demo_day + 1) (8 + n), source_end := demo_at (demo_day + 1) (9 + n),
      source_recorded_at := demo_at (demo_day + 1) (9 + n), source_known := demo_at (demo_day + 1) (9 + n)\<rparr>"

definition intraday_sources :: "outcome_observation_source list" where
  "intraday_sources =
     [intraday_source 11 1 (Bar 31 1 (Fin False 10 0) (Fin False 12 0) (Fin False 9 0) (Fin False 11 0)),
      intraday_source 12 2 (Bar 32 1 (Fin False 11 0) (Fin False 13 0) (Fin False 10 0) (Fin False 12 0))]"

abbreviation "intraday_sessions \<equiv> [demo_session 41 1]"

lemmas intraday_defs = intraday_target_def intraday_source_def intraday_sources_def demo_defs

lemma intraday_target_init: "outcome_target_definition_init intraday_target = Inr intraday_target"
  by code_simp

lemma intraday_validated:
  "validate_outcome_inputs demo_zones intraday_target intraday_sessions intraday_sources demo_cutoff demo_cutoff = Inr ()"
  by code_simp

lemma intraday_children:
  "list_all (\<lambda>c. outcome_checkpoint_init demo_zones c = Inr c) (target_checkpoints intraday_target)"
  "list_all (\<lambda>m. outcome_metric_definition_init m = Inr m) (target_metrics intraday_target)"
  "list_all (\<lambda>s. outcome_session_source_init demo_zones s = Inr s) intraday_sessions"
  "list_all (\<lambda>s. outcome_source_init s = Inr s) intraday_sources"
  by (simp_all add: intraday_defs outcome_checkpoint_init_def outcome_metric_definition_init_def thenE_Inr_iff demo_sha_ok Let_def
      outcome_session_source_init_def outcome_code_ok_def algorithm_version_ok_def
      head_tail_match_def is_lower_def is_digit_def is_alnum_def is_upper_def outcome_source_init_def positive_decimal_def
      validate_observation_source_def code_ok_def)

lemma intraday_ready:
  "outcome_ready demo_zones intraday_target demo_reference intraday_sessions intraday_sources demo_cutoff demo_cutoff"
  using intraday_target_init intraday_children intraday_validated demo_children(3)
  by (simp add: outcome_ready_def target_accepted_def list_all_iff del: set_simps) (simp add: demo_cutoff_def demo_at_def aware_def)

lemma intraday_fit: "prices_fit demo_reference intraday_sources" "return_bars_agree intraday_target intraday_sources"
  by (simp_all add: prices_fit_def run_prices_def return_bars_agree_def intraday_defs)

section \<open>Properties\<close>

text \<open>C19. A settlement goes through: the revision the kernel calculates from accepted inputs can be
  given identities by any plan created for it. No lookup of a checkpoint, session, metric, observation
  or dependency fails, no length differs, and the constructors accept every fact.\<close>

theorem settlement_is_built:
  assumes "outcome_ready zones t r sessions sources observed known" "prices_fit r sources" "return_bars_agree t sources"
    and "calculate_market_target_outcome zones t r sessions sources observed known = Inr d"
    and "commitment_matches c t" "commitment_reference c = r" "settlement_request_ok q"
  shows "\<exists>a. build_market_target_outcome_authority (outcome_identity_plan_create d ids outcome) c t d rt q = Inr a"
proof (rule authority_built)
  show "draft_fits t d" by (rule returned_fits [OF assms(1) returned_run [OF assms(1-4)] assms(4)])
  show "plan_fits (outcome_identity_plan_create d ids outcome) d" by (rule created_plan_fits)
qed (use assms(5-7) returned_rows(3,4) [OF assms(4)] in simp_all)

lemma settlement_is_built_witness:
  "\<exists>d a. calculate_market_target_outcome demo_zones demo_target demo_reference demo_sessions demo_sources demo_cutoff demo_cutoff = Inr d
    \<and> build_market_target_outcome_authority (outcome_identity_plan_create d (\<lambda>n. word_of_nat (1000 + n)) None)
        demo_commitment demo_target d demo_outcome_runtime demo_settlement = Inr a"
  using demo_returned settlement_is_built [OF demo_ready demo_fit demo_bars _ demo_settlement_ok(2,3,1)] by blast

text \<open>C20. A built revision refers to nothing outside itself: its identities are those of the plan, in
  order; every observation points at a source of the revision for its own checkpoint, every dependency
  at the revision's metric for its definition and the revision's observation of its checkpoint, and
  every reason at the one fact of its dimension that the draft names. This is what the foreign keys of
  the six tables ask for.\<close>

theorem authority_is_closed:
  assumes "build_market_target_outcome_authority p c t d rt q = Inr a"
  defines "r \<equiv> outcome_revision a"
  shows "revision_identities r = plan_identities p \<and> revision_draft r = d
    \<and> length (authority_observations r) = length (revision_observations d)
    \<and> length (authority_references r) = length (reference_dependencies d)
    \<and> length (authority_dependencies r) = length (observation_dependencies d)
    \<and> length (authority_reasons r) = length (revision_reasons d)
    \<and> (\<forall>n < length (revision_observations d). source_identity r (observation_authority_source (authority_observations r ! n))
         (observation_checkpoint_id (revision_observations d ! n)))
    \<and> (\<forall>n < length (reference_dependencies d). metric_identity r (reference_authority_metric (authority_references r ! n))
         (reference_dependency_metric (reference_dependencies d ! n)))
    \<and> (\<forall>n < length (observation_dependencies d).
         metric_identity r (dependency_authority_metric (authority_dependencies r ! n))
           (observation_dependency_metric (observation_dependencies d ! n))
         \<and> observation_identity r (dependency_authority_observation (authority_dependencies r ! n))
             (observation_dependency_checkpoint (observation_dependencies d ! n)))
    \<and> (\<forall>n < length (revision_reasons d). reason_bound r (revision_reasons d ! n) (authority_reasons r ! n))"
  using built_bound [OF assms(1) refl] built_identities [OF assms(1)] by (simp add: r_def)

lemma authority_is_closed_witness:
  "\<exists>d a. calculate_market_target_outcome demo_zones demo_target demo_reference demo_sessions demo_sources demo_cutoff demo_cutoff = Inr d
    \<and> build_market_target_outcome_authority (outcome_identity_plan_create d (\<lambda>n. word_of_nat (1000 + n)) None)
        demo_commitment demo_target d demo_outcome_runtime demo_settlement = Inr a
    \<and> source_identity (outcome_revision a) (observation_authority_source (authority_observations (outcome_revision a) ! 0)) 11"
proof -
  obtain d where d: "calculate_market_target_outcome demo_zones demo_target demo_reference demo_sessions demo_sources demo_cutoff demo_cutoff = Inr d"
    "outcome_run demo_target demo_reference demo_sessions demo_sources d" using demo_returned by blast
  have fits: "draft_fits demo_target d" by (rule returned_fits [OF demo_ready d(2,1)])
  obtain a where a: "build_market_target_outcome_authority (outcome_identity_plan_create d (\<lambda>n. word_of_nat (1000 + n)) None)
        demo_commitment demo_target d demo_outcome_runtime demo_settlement = Inr a"
    using authority_built [OF fits created_plan_fits demo_settlement_ok(1,2)] returned_rows(3,4) [OF d(1)] demo_settlement_ok(3) by fastforce
  have obs: "map observation_checkpoint_id (revision_observations d) = [11, 12]"
    using observation_rows_run(3) [OF demo_validated returned_parts(2) [OF d(1)]] by (simp add: demo_sources_def demo_source_def)
  then have "0 < length (revision_observations d)" "observation_checkpoint_id (revision_observations d ! 0) = 11"
    by (cases "revision_observations d"; simp)+
  then show ?thesis using authority_is_closed [OF a] d(1) a by metis
qed

text \<open>C21. The prices of an episode are closes of the sources: the two bars at its checkpoints, of one
  session, instrument and product and with raw prices. Both end after the Decision, in order, and not
  after the observation cutoff; what the episode was known at is not after the knowledge cutoff; and
  the observations it cites are those of the revision for its checkpoints.\<close>

theorem episode_prices_are_source_closes:
  assumes "calculate_market_target_outcome zones t r sessions sources observed known = Inr d"
    and "build_market_target_outcome_authority p c t d rt q = Inr a" "episode_prices a entry_id exit_id = Inr e"
  shows "\<exists>u v i n op hi lo j m op' hi' lo'. source_at sources entry_id = Some u \<and> source_at sources exit_id = Some v
    \<and> source_body u = Bar i n op hi lo (episode_entry_close e) \<and> source_body v = Bar j m op' hi' lo' (episode_exit_close e)
    \<and> source_session_id u = source_session_id v \<and> source_instrument_id u = source_instrument_id v
    \<and> source_product_id u = source_product_id v \<and> source_basis u = ''RAW_UNADJUSTED'' \<and> source_basis v = ''RAW_UNADJUSTED''
    \<and> instant_of (commitment_decision_time c) < instant_of (source_end u)
    \<and> instant_of (source_end u) < instant_of (source_end v) \<and> instant_of (source_end v) \<le> instant_of observed
    \<and> instant_of (episode_known_at e) = max (instant_of (source_known u)) (instant_of (source_known v))
    \<and> instant_of (episode_known_at e) \<le> instant_of known
    \<and> observation_identity (outcome_revision a) (episode_entry_observation e) entry_id
    \<and> observation_identity (outcome_revision a) (episode_exit_observation e) exit_id"
proof -
  note parts = returned_parts [OF assms(1)]
  have b: "revision_draft (outcome_revision a) = d" "outcome_commitment_of a = c" by (rule build_parts [OF assms(2)], assumption)+
  obtain x y u v bound where e: "draft_observation_at d entry_id = Some x" "draft_observation_at d exit_id = Some y"
    "bar_source (source_at sources entry_id) = Some u" "bar_source (source_at sources exit_id) = Some v"
    "complete_close x = Some (episode_entry_close e)" "complete_close y = Some (episode_exit_close e)" "same_episode_scope u v"
    "instant_of (commitment_decision_time c) < instant_of (observation_end x)"
    "instant_of (observation_end x) < instant_of (observation_end y)"
    "episode_known_at e = datetime_max (observation_known_at x) (observation_known_at y)"
    "observation_entries d (authority_observations (outcome_revision a)) = Inr bound"
    "last_entry bound entry_id = Inr (episode_entry_observation e)" "last_entry bound exit_id = Inr (episode_exit_observation e)"
    using episode_parts [OF assms(3)] unfolding b parts(6) by blast
  obtain i n op hi lo cl j m op' hi' lo' cl' where uv: "source_at sources entry_id = Some u" "source_at sources exit_id = Some v"
    "source_body u = Bar i n op hi lo cl" "source_body v = Bar j m op' hi' lo' cl'"
    using e(3,4) unfolding bar_source_Some by blast
  obtain k k' where ob: "observes x (k, u)" "(k, u) \<in> set (zip (target_checkpoints t) sources)"
    "observes y (k', v)" "(k', v) \<in> set (zip (target_checkpoints t) sources)"
    using observation_of_source [OF assms(1) e(1) uv(1)] observation_of_source [OF assms(1) e(2) uv(2)] by blast
  have close: "cl = episode_entry_close e" "cl' = episode_exit_close e"
    using complete_close_price [OF ob(1) uv(3) e(5)] complete_close_price [OF ob(3) uv(4) e(6)] by simp_all
  note f = observes_fields [OF ob(1)] observes_fields [OF ob(3)]
  have known: "instant_of (episode_known_at e) = max (instant_of (source_known u)) (instant_of (source_known v))"
    unfolding e(10) datetime_max_def f(4,10) by (auto simp: max_def)
  have bounds: "instant_of (source_end v) \<le> instant_of observed" "instant_of (source_known u) \<le> instant_of known"
    "instant_of (source_known v) \<le> instant_of known"
    using source_within_cutoffs(1,2) [OF parts(1)] ob(2,4) by blast+
  have "observation_identity (outcome_revision a) (episode_entry_observation e) entry_id"
    "observation_identity (outcome_revision a) (episode_exit_observation e) exit_id"
    using observation_entries_bound [of "outcome_revision a", unfolded b, OF e(11)]
      last_entry_member [OF e(12)] last_entry_member [OF e(13)] by simp_all
  moreover have "source_session_id u = source_session_id v" "source_instrument_id u = source_instrument_id v"
    "source_product_id u = source_product_id v" "source_basis u = ''RAW_UNADJUSTED''" "source_basis v = ''RAW_UNADJUSTED''"
    using e(7) unfolding same_episode_scope_def by auto
  moreover have "instant_of (episode_known_at e) \<le> instant_of known" using known bounds(2,3) by simp
  ultimately show ?thesis
    using uv [unfolded close] e(8,9) [unfolded f(3,9)] known bounds(1)
    by - (rule exI [of _ u], rule exI [of _ v], rule exI [of _ i], rule exI [of _ n], rule exI [of _ op], rule exI [of _ hi],
      rule exI [of _ lo], rule exI [of _ j], rule exI [of _ m], rule exI [of _ op'], rule exI [of _ hi'], rule exI [of _ lo'], intro conjI)
qed

text \<open>The intraday revision, built, has the prices 11 and 12.\<close>

lemma intraday_built:
  "\<exists>d a. calculate_market_target_outcome demo_zones intraday_target demo_reference intraday_sessions intraday_sources demo_cutoff demo_cutoff = Inr d
    \<and> build_market_target_outcome_authority (outcome_identity_plan_create d (\<lambda>n. word_of_nat (1000 + n)) None)
        demo_commitment intraday_target d demo_outcome_runtime demo_settlement = Inr a"
proof -
  obtain d where d: "calculate_market_target_outcome demo_zones intraday_target demo_reference intraday_sessions intraday_sources demo_cutoff demo_cutoff = Inr d"
    "outcome_run intraday_target demo_reference intraday_sessions intraday_sources d"
    using outcome_total [OF intraday_ready intraday_fit] by blast
  have "commitment_matches demo_commitment intraday_target"
    using demo_settlement_ok(2) by (simp add: commitment_matches_def intraday_target_def)
  then show ?thesis
    using authority_built [OF returned_fits [OF intraday_ready d(2,1)] created_plan_fits demo_settlement_ok(1)]
      returned_rows(3,4) [OF d(1)] demo_settlement_ok(3) d(1) by metis
qed

lemma intraday_episode:
  assumes "calculate_market_target_outcome demo_zones intraday_target demo_reference intraday_sessions intraday_sources demo_cutoff demo_cutoff = Inr d"
    and "build_market_target_outcome_authority p demo_commitment intraday_target d rt q = Inr a"
  shows "\<exists>e. episode_prices a 11 12 = Inr e"
proof -
  note parts = returned_parts [OF assms(1)]
  have b: "revision_draft (outcome_revision a) = d" "outcome_commitment_of a = demo_commitment" by (rule build_parts [OF assms(2)], assumption)+
  have src: "source_at intraday_sources 11 = Some (intraday_sources ! 0)" "source_at intraday_sources 12 = Some (intraday_sources ! 1)"
    by (simp_all add: source_at_def row_at_def intraday_defs)
  have keys: "map observation_checkpoint_id (revision_observations d) = [11, 12]"
    using observation_rows_run(3) [OF parts(1,2)] by (simp add: intraday_defs)
  obtain bound where bound: "observation_entries d (authority_observations (outcome_revision a)) = Inr bound"
    by (rule build_parts [OF assms(2)])
  have bkeys: "fst ` set bound = observation_checkpoint_id ` set (revision_observations d)"
    using observation_entries_keys [OF bound] built_bound(2,3) [OF assms(2) refl] by blast
  also have "\<dots> = {11, 12}" using arg_cong [OF keys, of set] by simp
  finally obtain i j where ids: "last_entry bound 11 = Inr i" "last_entry bound 12 = Inr j" using last_entry_total by (metis insertI1 insertI2)
  obtain x y where xy: "draft_observation_at d 11 = Some x" "draft_observation_at d 12 = Some y"
    using observed_rows.row_at_None_iff [of "rev (revision_observations d)"] \<open>_ = {11, 12}\<close>
    unfolding draft_observation_at_def by (metis insertI1 insertI2 not_None_eq set_rev)
  obtain c c' where ob: "observes x (c, intraday_sources ! 0)" "observes y (c', intraday_sources ! 1)"
    using observation_of_source [OF assms(1) xy(1) src(1)] observation_of_source [OF assms(1) xy(2) src(2)] by blast
  have close: "complete_close x = Some (Fin False 11 0)" "complete_close y = Some (Fin False 12 0)"
    using ob by (auto simp: observes_def observation_of_def complete_close_def intraday_defs)
  have time: "instant_of (commitment_decision_time demo_commitment) < instant_of (observation_end x)"
    "instant_of (observation_end x) < instant_of (observation_end y)"
    unfolding observes_fields(3) [OF ob(1)] observes_fields(3) [OF ob(2)] by (simp_all add: demo_commitment_def intraday_defs)
  have scope: "bar_source (Some (intraday_sources ! 0)) = Some (intraday_sources ! 0)" "bar_source (Some (intraday_sources ! 1)) = Some (intraday_sources ! 1)"
    "same_episode_scope (intraday_sources ! 0) (intraday_sources ! 1)"
    by (simp_all add: bar_source_def same_episode_scope_def intraday_defs)
  show ?thesis
    unfolding episode_prices_def Let_def b parts(6) xy src scope(1,2) bound ids close optE_simps bindE_simps
    using time scope(3) by simp
qed

lemma episode_prices_are_source_closes_witness:
  "\<exists>d a e u v i n op hi lo j m op' hi' lo'.
    calculate_market_target_outcome demo_zones intraday_target demo_reference intraday_sessions intraday_sources demo_cutoff demo_cutoff = Inr d
    \<and> build_market_target_outcome_authority (outcome_identity_plan_create d (\<lambda>n. word_of_nat (1000 + n)) None)
        demo_commitment intraday_target d demo_outcome_runtime demo_settlement = Inr a
    \<and> episode_prices a 11 12 = Inr e \<and> source_at intraday_sources 11 = Some u \<and> source_at intraday_sources 12 = Some v
    \<and> source_body u = Bar i n op hi lo (episode_entry_close e) \<and> source_body v = Bar j m op' hi' lo' (episode_exit_close e)"
proof -
  obtain d a where a: "calculate_market_target_outcome demo_zones intraday_target demo_reference intraday_sessions intraday_sources demo_cutoff demo_cutoff = Inr d"
    "build_market_target_outcome_authority (outcome_identity_plan_create d (\<lambda>n. word_of_nat (1000 + n)) None)
        demo_commitment intraday_target d demo_outcome_runtime demo_settlement = Inr a" using intraday_built by blast
  obtain e where e: "episode_prices a 11 12 = Inr e" using intraday_episode [OF a] by blast
  show ?thesis using episode_prices_are_source_closes [OF a e] a e by blast
qed

end
