(* ===== verification/Spec2Isabelle.thy ===== *)
theory Spec2Isabelle
  imports Runtime_Claim_Replay Runtime_Command_Failure Shared_Financial Candidate_Order
    Decision_Properties Decision_Chain_Properties Outcome_Properties Outcome_Settlement_Properties
begin

text \<open>
  A verification library for market-regime-alpha: the durable task Runtime, the Candidate
  ranking of the selection context, the decision support stages from Context assessments to Risk
  decisions, the settlement of Outcomes, and the shared values they rest on. All paths are under
  \<open>src/src/market_regime_alpha\<close>.

  \<^bold>\<open>Foundations.\<close> \<open>MRA_Prelude\<close>: Python exceptions as values (\<open>py_error + 'a\<close>), the exception
  monad with its loops (\<open>mapE\<close>, \<open>foldE\<close>, \<open>anyE\<close>), rows with a key (locale \<open>keyed_table\<close>), UUIDs
  as 128-bit words, instants in microseconds. \<open>MRA_Numeric\<close>: rounding half to even to
  significant digits of a base, with its contract as the locale \<open>rounding\<close>, interpreted for
  binary doubles and for decimal contexts. \<open>Py_Decimal\<close>: \<open>decimal.Decimal\<close> with its spelling,
  its value \<open>dval\<close>, positional format and rounded quotients. \<open>Shared_Values\<close>:
  \<open>shared/identity.py\<close>, \<open>shared/time.py\<close> and the error codes of \<open>runtime/errors.py\<close>.
  \<open>Canonical_Hashing\<close>: \<open>shared/hashing.py\<close>, with SHA-256, SHA-1 (for \<open>uuid5\<close>), the JSON encoder and
  \<open>isoformat\<close> of the standard library written out. \<open>Shared_Financial\<close>: \<open>shared/financial.py\<close>.

  \<^bold>\<open>The Runtime.\<close> \<open>Runtime_Domain\<close> is \<open>runtime/domain/model.py\<close>: states, edges, retry policies,
  specifications, and the validation of a Run plan with its depth-first cycle check, the
  mandatory decision chain and the formal profiles. \<open>Runtime_Store\<close> has the tables of
  \<open>infrastructure/postgres/migrations/001_baseline.sql\<close> the Runtime writes, with their CHECK
  constraints, keys and update triggers. \<open>Runtime_Repository\<close> is
  \<open>infrastructure/postgres/repositories/runtime.py\<close>: one definition per method, every guard and
  every UPDATE, on an explicit database state; \<open>Runtime_Receipts\<close> the two ledgers of the same
  file (locale \<open>command_ledger\<close>, interpreted on them). \<open>Runtime_Machine\<close> is the abstract Run
  machine, an inductive step relation with its invariant; \<open>Runtime_Refinement\<close> and
  \<open>Runtime_Operations\<close> simulate every repository operation by one step of it; \<open>Runtime_Safety\<close>
  and \<open>Runtime_Progress\<close> draw the consequences (one live Attempt per Run, fencing, budgets,
  dependencies, finality; success, failure and recovery go through, with the exceptions the
  findings name). \<open>Runtime_Leases\<close> is the conversion of a lease to milliseconds.
  \<open>Runtime_Application\<close> is \<open>runtime/application/service.py\<close> with \<open>infrastructure/postgres/uow.py\<close>,
  and \<open>Runtime_Command_Failure\<close> is \<open>runtime/application/command_failure.py\<close> with
  \<open>infrastructure/postgres/runtime_finalization.py\<close>. \<open>Runtime_Commands\<close> gives the commands one
  interpreter and the relation of service histories; \<open>Runtime_Idempotence\<close> and
  \<open>Runtime_Claim_Replay\<close> prove atomicity, replay, refusal of a reused key, preservation of the
  invariants and the audit of every receipt. \<open>Runtime_Scenario\<close> holds concrete databases.

  \<^bold>\<open>Candidate ranking.\<close> \<open>Candidate_Inputs\<close>, \<open>Candidate_Policy\<close>, \<open>Candidate_Results\<close> and
  \<open>Candidate_Ranking\<close> are \<open>selection/domain/candidate_inputs.py\<close>, \<open>candidate_policy.py\<close>,
  \<open>candidate_results.py\<close> and \<open>candidate_ranking.py\<close>, one record per dataclass, one \<open>_init\<close> per
  \<open>__post_init__\<close>, and \<open>build_candidate_set\<close> cut into one definition per pass. A Fraction is a
  rational, a dict an association list in insertion order, a failed lookup \<open>KeyError\<close>.
  \<open>Candidate_Exact\<close> proves the arithmetic (midranks, weights, projection to decimals),
  \<open>Candidate_Plan\<close> computes every pass without dictionaries, \<open>Candidate_Selection\<close> states the
  abstract plan and that the code computes it, and \<open>Candidate_Properties\<close> and
  \<open>Candidate_Order\<close> hold the properties: the selection rule, the counts, the errors that remain,
  when a plan is returned, and independence of the order of the rows.

  \<^bold>\<open>Decision support.\<close> Six stages, each a module of \<open>decision_support/domain\<close>, modelled by one
  theory: \<open>Decision_Context\<close> (\<open>context.py\<close>, \<open>retrospective.py\<close>), \<open>Decision_Strategy\<close>
  (\<open>strategy.py\<close>), \<open>Decision_Inference\<close> (\<open>inference.py\<close>: Signals and Forecasts),
  \<open>Decision_Opportunity\<close> (\<open>opportunity.py\<close>), \<open>Decision_Portfolio\<close> (\<open>portfolio.py\<close>) and
  \<open>Decision_Risk\<close> (\<open>risk.py\<close>); \<open>Decision_Values\<close> holds what they share and \<open>Py_Arithmetic\<close> the
  decimal operations, rounded in the ambient context (the argument \<open>ambient\<close>, its precision).
  A dataclass is a record, its \<open>__post_init__\<close> an \<open>_init\<close> that checks and hashes, a
  \<open>build_..._authority\<close> a definition of that name cut at its loops; identity factories are
  arguments. \<open>Decision_Pipeline\<close> is what \<open>_load_inputs\<close> of
  \<open>infrastructure/postgres/queries/decision_*_inputs.py\<close> makes of the rows the stage before stored.
  Proofs: \<open>Decision_Metrics\<close> and \<open>Decision_Contexts\<close> (reducers, when an assessment fails),
  \<open>Decision_Signals\<close> (severity orders, as interpretations of the locale \<open>worst_of\<close>, and the rule of a
  Signal), \<open>Decision_Forecasts\<close> (bounds, constraints), \<open>Decision_Completion\<close> (a stage on accepted
  inputs completes), \<open>Decision_Allocation\<close> and \<open>Decision_Proposals\<close> (the allocation as exact
  rationals), \<open>Decision_Closure\<close> and \<open>Decision_Authorization\<close> (the CHECK constraints and closure
  triggers of their tables, and which built values meet them). \<open>Decision_Scenario\<close> and
  \<open>Decision_Chain_Scenario\<close> hold concrete data, \<open>Decision_Properties\<close> and
  \<open>Decision_Chain_Properties\<close> the properties.

  \<^bold>\<open>Outcome settlement.\<close> \<open>outcome/domain\<close>: what a frozen Target, a decision reference and the bars
  and gaps of its checkpoints amount to. \<open>Outcome_Model\<close> is \<open>vocabulary.py\<close> and the inputs of
  \<open>model.py\<close>, \<open>Outcome_Drafts\<close> its drafts, \<open>Outcome_Kernel\<close> the whole of \<open>kernel.py\<close>, in its decimal
  context of 38 digits; the time zone database is the argument \<open>zones\<close>. Proofs:
  \<open>Outcome_Arithmetic\<close> (quotients, differences and quantising as exact rationals, on the locale
  \<open>rounding\<close>), \<open>Outcome_Metrics\<close> and \<open>Outcome_Values\<close> (what constructors guarantee, the value of
  each kind of metric, the roles of its dependencies), \<open>Outcome_Runs\<close>, \<open>Outcome_Results\<close>,
  \<open>Outcome_Closure\<close> and \<open>Outcome_Revision\<close> (observations, metrics, barrier ambiguity, reasons and
  revision of a run; it returns), \<open>Outcome_Facts\<close>, \<open>Outcome_Passages\<close> and \<open>Outcome_Returned\<close> (a
  revision in terms of its sources, and against the closure trigger of its table).
  \<open>Outcome_Scenario\<close> holds concrete data, \<open>Outcome_Properties\<close> the properties.
  Around the kernel: \<open>Outcome_Authority\<close> and \<open>Outcome_Settlement\<close> are \<open>authority.py\<close>, which gives
  every fact of a revision its identity and hash (\<open>ids\<close> stands for \<open>id_factory\<close>), and
  \<open>Outcome_Replay\<close> is \<open>preparation.py\<close>, \<open>economic_prices.py\<close> and \<open>verification.py\<close>.
  \<open>Outcome_Bound\<close> shows what a built fact points at, \<open>Outcome_Built\<close> that the revision is built,
  and \<open>Outcome_Settlement_Properties\<close> the properties of built revisions.

  \<^bold>\<open>How the parts interact.\<close> A command of the service opens a unit of work, starts a receipt,
  calls repository operations, appends an audit event, completes the receipt and commits; any
  exception rolls the database back. The model passes the database explicitly and a unit of
  work returns the old database on \<open>Inl\<close>. The clock and the identity source are arguments
  (\<open>clk\<close>, \<open>ids\<close>), numbered by the order the code reads them; \<open>admit\<close> is the supervisor's admission
  of an Attempt and \<open>commit\<close> the deferred constraint triggers that run at COMMIT; both are
  parameters, and every theorem holds for all of them unless it says otherwise.

  \<^bold>\<open>Bounds and termination.\<close> There is no fuel. The cycle check recurses on the unvisited Steps,
  the projection loop on the distance to the maximum precision, the other loops on lists.
  Python integers are unbounded; identities are words; the bitwise hashes work on 32-bit
  words. Projections succeed for values that are 0 or between \<open>10 ^ - 12000\<close> and 1, which leaves
  4095 digits of precision within the 16383 fractional digits of \<open>numeric\<close>. Allocation is exact
  when ratios have at most 27 fractional digits and the ambient precision is at least 28, the
  default of Python. Outcome ratios need prices within a factor of \<open>10 ^ 18\<close> of each other: 18
  fractional digits and 19 before them fit the 38 of the kernel's context.

  \<^bold>\<open>Findings.\<close> Recovery of an exhausted claimed Attempt always raises, and one such Attempt
  blocks every recovery behind it; a waiting Step can be resumed without budget and is then
  stranded; a lease of 1.001 s loses a millisecond to binary floating point; \<open>Money\<close> refuses the
  largest amounts its column can store, because \<open>abs\<close> rounds in the ambient context.
  A proposal whose cap has fewer quanta than it includes lines has a line of weight 0 the database
  refuses; a Risk rule whose threshold has another type than its subject makes every decision
  raise; a decision without reasons cannot be stored; a NEUTRAL Context requirement is never met; a
  metric that tolerates no available source raises in its reducer; the median of an even roster
  is not the one the database recomputes.

  \<^bold>\<open>Not modelled.\<close> \<open>isinstance\<close> checks, which the types here make vacuous; the interpolated parts
  of messages; connection pools, threads and locks other than the row locks a transaction
  takes; \<open>remember_operational_attempt\<close> and the supervisor's own session; exponent limits of
  decimal contexts, which no value reaches. Of the rest of the repository, the SQL-bound
  application layers, market data adapters, forecasting pipelines over numpy and pandas,
  research qualification and, of outcome settlement, the commands around the kernel are not modelled; of decision support the
  commands, the Decision Run, model forecasts and verification, and of the stage queries the
  loading of policies, are not modelled yet; nor are the universe, eligibility and evidence parts
  of the selection context.
\<close>

end
